(* ===== verification/Prelude.thy ===== *)
theory Prelude
  imports Complex_Main "HOL-Library.Word"
begin

text \<open>
  The notions every component of the rboto model shares: Rust's \<open>Result\<close> with its \<open>?\<close>
  operator and \<open>map_err\<close>, traversals that stop at the first error, strings as their
  UTF-8 bytes with the character-level operations of the Rust standard library, decimal
  rendering, and 64-bit floating point numbers.
\<close>

named_theorems res_elims \<open>inversion rules for sequenced results\<close>

section \<open>Results\<close>

text \<open>\<open>PyResult<T>\<close> and \<open>Result<T, E>\<close> are sums; \<open>and_then r f\<close> is \<open>f(r?)\<close>.\<close>

definition and_then :: "'e + 'a \<Rightarrow> ('a \<Rightarrow> 'e + 'b) \<Rightarrow> 'e + 'b" where
  "and_then r f = (case r of Inl e \<Rightarrow> Inl e | Inr x \<Rightarrow> f x)"

definition map_err :: "('e \<Rightarrow> 'f) \<Rightarrow> 'e + 'a \<Rightarrow> 'f + 'a" where
  "map_err g r = (case r of Inl e \<Rightarrow> Inl (g e) | Inr x \<Rightarrow> Inr x)"

definition map_ok :: "('a \<Rightarrow> 'b) \<Rightarrow> 'e + 'a \<Rightarrow> 'e + 'b" where
  "map_ok g r = (case r of Inl e \<Rightarrow> Inl e | Inr x \<Rightarrow> Inr (g x))"

lemma and_then_simps [simp]:
  "and_then (Inl e) f = Inl e"
  "and_then (Inr x) f = f x"
  by (simp_all add: and_then_def)

lemma map_err_simps [simp]:
  "map_err g (Inl e) = Inl (g e)"
  "map_err g (Inr x) = Inr x"
  by (simp_all add: map_err_def)

lemma map_ok_simps [simp]:
  "map_ok g (Inl e) = Inl e"
  "map_ok g (Inr x) = Inr (g x)"
  by (simp_all add: map_ok_def)

lemma and_then_eq_Inr [simp]: "and_then r f = Inr y \<longleftrightarrow> (\<exists>x. r = Inr x \<and> f x = Inr y)"
  by (cases r) simp_all

lemma and_then_eq_Inl: "and_then r f = Inl e \<longleftrightarrow> r = Inl e \<or> (\<exists>x. r = Inr x \<and> f x = Inl e)"
  by (cases r) simp_all

lemma map_err_eq_Inr [simp]: "map_err g r = Inr y \<longleftrightarrow> r = Inr y"
  by (cases r) simp_all

lemma map_err_eq_Inl: "map_err g r = Inl f \<longleftrightarrow> (\<exists>e. r = Inl e \<and> f = g e)"
  by (cases r) auto

lemma map_ok_eq_Inr [simp]: "map_ok g r = Inr y \<longleftrightarrow> (\<exists>x. r = Inr x \<and> y = g x)"
  by (cases r) auto

text \<open>A guard with an early return.\<close>

lemma guard_eq_Inr: "(if A then Inl e else r) = Inr y \<longleftrightarrow> \<not> A \<and> r = Inr y"
  by simp

lemma and_then_cong [fundef_cong]:
  "r = s \<Longrightarrow> (\<And>x. s = Inr x \<Longrightarrow> f x = g x) \<Longrightarrow> and_then r f = and_then s g"
  by (cases s) simp_all

lemma map_err_cong [fundef_cong]:
  "r = s \<Longrightarrow> (\<And>e. s = Inl e \<Longrightarrow> f e = g e) \<Longrightarrow> map_err f r = map_err g s"
  by (cases s) simp_all

section \<open>Loops that stop at the first error\<close>

text \<open>
  \<open>traverse n f xs\<close> is the loop \<open>for (i, x) in xs.enumerate() { out.push(f(i, x)?) }\<close>
  with the counter starting at \<open>n\<close>.
\<close>

fun traverse :: "nat \<Rightarrow> (nat \<Rightarrow> 'a \<Rightarrow> 'e + 'b) \<Rightarrow> 'a list \<Rightarrow> 'e + 'b list" where
  "traverse n f [] = Inr []"
| "traverse n f (x # xs) =
     and_then (f n x) (\<lambda>y. and_then (traverse (Suc n) f xs) (\<lambda>ys. Inr (y # ys)))"

lemma traverse_cong [fundef_cong]:
  assumes "n = m" and "xs = ys" and "\<And>i y. y \<in> set ys \<Longrightarrow> f i y = g i y"
  shows "traverse n f xs = traverse m g ys"
proof -
  have "(\<And>i y. y \<in> set ys \<Longrightarrow> f i y = g i y) \<Longrightarrow> traverse m f ys = traverse m g ys"
    by (induction ys arbitrary: m) simp_all
  with assms show ?thesis by simp
qed

lemma traverse_length: "traverse n f xs = Inr ys \<Longrightarrow> length ys = length xs"
  by (induction xs arbitrary: n ys) auto

lemma traverse_nth:
  "traverse n f xs = Inr ys \<Longrightarrow> i < length xs \<Longrightarrow> f (n + i) (xs ! i) = Inr (ys ! i)"
proof (induction xs arbitrary: n ys i)
  case Nil
  then show ?case by simp
next
  case (Cons x xs)
  then show ?case
    by (cases i) (auto, metis add_Suc)
qed

lemma traverse_all:
  "(\<And>i y. y \<in> set ys \<Longrightarrow> f i (g y) = Inr (h y)) \<Longrightarrow> traverse n f (map g ys) = Inr (map h ys)"
  by (induction ys arbitrary: n) simp_all

lemma traverse_ok_iff:
  "(\<And>i x. x \<in> set xs \<Longrightarrow> (\<exists>y. f i x = Inr y) \<longleftrightarrow> Q x) \<Longrightarrow>
   (\<exists>ys. traverse n f xs = Inr ys) \<longleftrightarrow> (\<forall>x \<in> set xs. Q x)"
proof (induction xs arbitrary: n)
  case Nil
  show ?case by simp
next
  case (Cons x xs)
  have "(\<exists>ys. traverse n f (x # xs) = Inr ys) \<longleftrightarrow>
      (\<exists>y. f n x = Inr y) \<and> (\<exists>ys. traverse (Suc n) f xs = Inr ys)"
    by auto
  also have "\<dots> \<longleftrightarrow> Q x \<and> (\<forall>x \<in> set xs. Q x)"
    using Cons.prems [of x n] Cons.IH [of "Suc n"] Cons.prems by simp
  finally show ?case by simp
qed

lemma traverse_set:
  "traverse n f xs = Inr ys \<Longrightarrow> y \<in> set ys \<Longrightarrow> \<exists>i. \<exists>x \<in> set xs. f i x = Inr y"
  by (induction xs arbitrary: n ys) (auto, blast+)

text \<open>The loop fails with exactly the first item that fails, at its own index.\<close>

lemma traverse_error_iff:
  "traverse n f xs = Inl e \<longleftrightarrow>
     (\<exists>k < length xs. f (n + k) (xs ! k) = Inl e \<and> (\<forall>j < k. \<exists>y. f (n + j) (xs ! j) = Inr y))"
proof (induction xs arbitrary: n)
  case Nil
  show ?case by simp
next
  case (Cons x xs)
  show ?case
  proof (cases "f n x")
    case (Inl e')
    then show ?thesis
      by (auto simp: Let_def) (metis Inl_Inr_False add.right_neutral gr0_conv_Suc
        nat_neq_iff not_less_zero nth_Cons_0 sum.inject(1))
  next
    case (Inr y)
    then have "traverse n f (x # xs) = Inl e \<longleftrightarrow> traverse (Suc n) f xs = Inl e"
      by (auto simp: and_then_eq_Inl)
    also have "\<dots> \<longleftrightarrow> (\<exists>k < length xs. f (Suc n + k) (xs ! k) = Inl e \<and>
        (\<forall>j < k. \<exists>y. f (Suc n + j) (xs ! j) = Inr y))"
      by (rule Cons.IH)
    also have "\<dots> \<longleftrightarrow> (\<exists>k < length (x # xs). f (n + k) ((x # xs) ! k) = Inl e \<and>
        (\<forall>j < k. \<exists>y. f (n + j) ((x # xs) ! j) = Inr y))" (is "?L \<longleftrightarrow> ?R")
    proof
      assume ?L
      then obtain k where k: "k < length xs" "f (Suc n + k) (xs ! k) = Inl e"
        and before: "\<And>j. j < k \<Longrightarrow> \<exists>y. f (Suc n + j) (xs ! j) = Inr y" by blast
      have "\<exists>y. f (n + j) ((x # xs) ! j) = Inr y" if "j < Suc k" for j
        using that Inr before by (cases j) auto
      with k show ?R by (intro exI [of _ "Suc k"]) simp
    next
      assume ?R
      then obtain k where k: "k < length (x # xs)" "f (n + k) ((x # xs) ! k) = Inl e"
        and before: "\<And>j. j < k \<Longrightarrow> \<exists>y. f (n + j) ((x # xs) ! j) = Inr y" by blast
      from k(2) Inr obtain k' where k': "k = Suc k'" by (cases k) auto
      have "\<exists>y. f (Suc n + j) (xs ! j) = Inr y" if "j < k'" for j
        using before [of "Suc j"] that k' by simp
      with k k' show ?L by (intro exI [of _ k']) simp
    qed
    finally show ?thesis .
  qed
qed

text \<open>In a list with distinct keys the first and the last entry of a key are the same.\<close>

lemma distinct_map_of_rev: "distinct (map fst xs) \<Longrightarrow> map_of (rev xs) = map_of xs"
  by (simp add: map_of_inject_set rev_map [symmetric])

section \<open>Strings\<close>

text \<open>
  A Rust \<open>String\<close>, a \<open>&str\<close> and a Python \<open>str\<close> are the list of their UTF-8 bytes, one
  \<open>char\<close> per byte; \<open>str::len\<close> is the length of that list. A character starts at every byte
  that is not a continuation byte, which gives \<open>chars().count()\<close> and \<open>chars().take(n)\<close>.
\<close>

definition byte_of :: "char \<Rightarrow> nat" where
  "byte_of c = of_char c"

definition is_cont :: "char \<Rightarrow> bool" where
  "is_cont c \<longleftrightarrow> 128 \<le> byte_of c \<and> byte_of c < 192"

definition char_count :: "string \<Rightarrow> nat" where
  "char_count s = length (filter (\<lambda>c. \<not> is_cont c) s)"

fun take_chars :: "nat \<Rightarrow> string \<Rightarrow> string" where
  "take_chars n [] = []"
| "take_chars n (c # s) =
     (if is_cont c then c # take_chars n s
      else (case n of 0 \<Rightarrow> [] | Suc m \<Rightarrow> c # take_chars m s))"

text \<open>Well-formed UTF-8 never starts inside a character.\<close>

definition lead_first :: "string \<Rightarrow> bool" where
  "lead_first s = (case s of [] \<Rightarrow> True | c # _ \<Rightarrow> \<not> is_cont c)"

definition starts_with :: "char \<Rightarrow> string \<Rightarrow> bool" where
  "starts_with c s = (case s of [] \<Rightarrow> False | d # _ \<Rightarrow> c = d)"

lemma starts_with_simps [simp]:
  "\<not> starts_with c []" "starts_with c (d # s) \<longleftrightarrow> c = d"
  by (simp_all add: starts_with_def)

lemma lead_first_simps [simp]:
  "lead_first []" "lead_first (c # s) \<longleftrightarrow> \<not> is_cont c"
  by (simp_all add: lead_first_def)

lemma lead_first_append: "lead_first s \<Longrightarrow> lead_first t \<Longrightarrow> lead_first (s @ t)"
  by (cases s) simp_all

lemma char_count_simps [simp]:
  "char_count [] = 0"
  "char_count (c # s) = (if is_cont c then char_count s else Suc (char_count s))"
  "char_count (s @ t) = char_count s + char_count t"
  by (simp_all add: char_count_def)

lemma char_count_take_chars: "char_count (take_chars n s) = min n (char_count s)"
  by (induction n s rule: take_chars.induct) (auto split: nat.splits)

lemma take_chars_all: "char_count s \<le> n \<Longrightarrow> take_chars n s = s"
  by (induction n s rule: take_chars.induct) (auto split: nat.splits if_splits)

lemma take_chars_append_more: "n < char_count s \<Longrightarrow> take_chars n (s @ t) = take_chars n s"
  by (induction n s rule: take_chars.induct) (auto split: nat.splits)

lemma take_chars_0_lead: "lead_first s \<Longrightarrow> take_chars 0 s = []"
  by (cases s) simp_all

lemma take_chars_append:
  "char_count s \<le> n \<Longrightarrow> lead_first t \<Longrightarrow> take_chars n (s @ t) = s @ take_chars (n - char_count s) t"
proof (induction n s rule: take_chars.induct)
  case (1 n)
  then show ?case by simp
next
  case (2 n c s)
  then show ?case by (cases n) (auto split: if_splits)
qed

lemma lead_first_take_chars: "lead_first s \<Longrightarrow> lead_first (take_chars n s)"
  by (cases s; cases n) simp_all

text \<open>Cutting to \<open>n\<close> characters after a cut to at least as many is one cut.\<close>

lemma take_chars_take_chars:
  assumes "m \<le> n" and "lead_first z"
  shows "n \<le> char_count y \<Longrightarrow> take_chars m (take_chars n y @ z) = take_chars m y"
  using assms(1)
proof (induction n y arbitrary: m rule: take_chars.induct)
  case (1 n)
  then show ?case by (simp add: take_chars_0_lead [OF assms(2)])
next
  case (2 n c s)
  show ?case
  proof (cases "is_cont c")
    case True
    then show ?thesis using 2 by simp
  next
    case c: False
    show ?thesis
    proof (cases n)
      case 0
      then show ?thesis using 2(3,4) c by (auto simp: take_chars_0_lead [OF assms(2)])
    next
      case (Suc n')
      show ?thesis
      proof (cases m)
        case 0
        then show ?thesis using Suc c by simp
      next
        case (Suc m')
        then show ?thesis using 2 c \<open>n = Suc n'\<close> by simp
      qed
    qed
  qed
qed

text \<open>
  \<open>str::trim\<close> removes Unicode white space; \<open>trim().is_empty()\<close> holds when every character
  is white space. The white-space characters are written as their UTF-8 bytes.
\<close>

definition space2 :: "nat \<Rightarrow> nat \<Rightarrow> bool" where
  "space2 a b \<longleftrightarrow> a = 194 \<and> (b = 133 \<or> b = 160)"

definition space3 :: "nat \<Rightarrow> nat \<Rightarrow> nat \<Rightarrow> bool" where
  "space3 a b c \<longleftrightarrow>
     (a = 225 \<and> b = 154 \<and> c = 128)
     \<or> (a = 226 \<and> b = 128 \<and> ((128 \<le> c \<and> c \<le> 138) \<or> c = 168 \<or> c = 169 \<or> c = 175))
     \<or> (a = 226 \<and> b = 129 \<and> c = 159)
     \<or> (a = 227 \<and> b = 128 \<and> c = 128)"

text \<open>Only white space, with the ASCII characters that count given by \<open>p\<close>.\<close>

fun blank :: "(nat \<Rightarrow> bool) \<Rightarrow> nat list \<Rightarrow> bool" where
  "blank p [] = True"
| "blank p (a # s) =
     (if p a then blank p s
      else (case s of
         b # s' \<Rightarrow>
           (if space2 a b then blank p s'
            else (case s' of
               c # s'' \<Rightarrow> space3 a b c \<and> blank p s''
             | [] \<Rightarrow> False))
       | [] \<Rightarrow> False))"

definition rust_space :: "nat \<Rightarrow> bool" where
  "rust_space a \<longleftrightarrow> a = 32 \<or> (9 \<le> a \<and> a \<le> 13)"

lemma blank_mono:
  assumes "\<And>a. p a \<Longrightarrow> q a" and "\<And>a. q a \<Longrightarrow> a < 128"
  shows "blank p s \<Longrightarrow> blank q s"
proof (induction s rule: measure_induct_rule [of length])
  case (less s)
  show ?case
  proof (cases s)
    case (Cons a t)
    show ?thesis
    proof (cases "p a")
      case True
      then show ?thesis using less Cons assms(1) by simp
    next
      case False
      have h: "case t of [] \<Rightarrow> False | b # u \<Rightarrow> (if space2 a b then blank p u
          else (case u of [] \<Rightarrow> False | c # v \<Rightarrow> space3 a b c \<and> blank p v))"
        using less.prems Cons False by simp
      then obtain b u where t: "t = b # u" by (cases t) simp_all
      show ?thesis
      proof (cases "space2 a b")
        case True
        then have "\<not> q a" using assms(2) [of a] by (auto simp: space2_def)
        with True show ?thesis using h t less.IH [of u] Cons by simp
      next
        case two: False
        with h t obtain c v where v: "u = c # v" "space3 a b c" "blank p v" by (cases u) simp_all
        then have "\<not> q a" using assms(2) [of a] by (auto simp: space3_def)
        with two v show ?thesis using t less.IH [of v] Cons by simp
      qed
    qed
  qed simp
qed

definition trim_is_empty :: "string \<Rightarrow> bool" where
  "trim_is_empty s = blank rust_space (map byte_of s)"

text \<open>\<open>str::strip_suffix\<close>: \<open>None\<close> when the suffix is not there.\<close>

definition strip_suffix :: "string \<Rightarrow> string \<Rightarrow> string option" where
  "strip_suffix suf s =
     (let n = length s - length suf
      in if length suf \<le> length s \<and> drop n s = suf then Some (take n s) else None)"

lemma strip_suffix_Some: "strip_suffix suf s = Some t \<longleftrightarrow> s = t @ suf"
proof
  assume h: "strip_suffix suf s = Some t"
  then have "take (length s - length suf) s = t" and "drop (length s - length suf) s = suf"
    by (auto simp: strip_suffix_def Let_def split: if_splits)
  then show "s = t @ suf" by (metis append_take_drop_id)
next
  assume "s = t @ suf"
  then show "strip_suffix suf s = Some t" by (simp add: strip_suffix_def)
qed

lemma strip_suffix_append [simp]: "strip_suffix suf (t @ suf) = Some t"
  by (simp add: strip_suffix_Some)

lemma strip_suffix_None: "strip_suffix suf s = None \<longleftrightarrow> (\<forall>t. s \<noteq> t @ suf)"
  by (metis not_Some_eq strip_suffix_Some)

section \<open>Decimal rendering\<close>

definition digit_char :: "nat \<Rightarrow> char" where
  "digit_char d = char_of (48 + d)"

fun show_nat :: "nat \<Rightarrow> string" where
  "show_nat n = (if n < 10 then [digit_char n] else show_nat (n div 10) @ [digit_char (n mod 10)])"

declare show_nat.simps [simp del]

lemma digit_char_byte: "d < 10 \<Longrightarrow> byte_of (digit_char d) = 48 + d"
  by (simp add: digit_char_def byte_of_def)

lemma show_nat_nonempty: "show_nat n \<noteq> []"
  by (subst show_nat.simps) simp

lemma show_nat_bytes: "c \<in> set (show_nat n) \<Longrightarrow> 48 \<le> byte_of c \<and> byte_of c < 58"
proof (induction n rule: show_nat.induct)
  case (1 n)
  then show ?case
    by (subst (asm) show_nat.simps) (auto split: if_splits simp: digit_char_byte)
qed

section \<open>64-bit floating point numbers\<close>

text \<open>
  A finite \<open>f64\<close> is the rational number it denotes; the two infinities and NaN are
  constructors of their own. Comparison with NaN is false, as in Rust.
\<close>

datatype f64 = Finite rat | Inf bool | NaN

fun is_finite :: "f64 \<Rightarrow> bool" where
  "is_finite (Finite q) = True"
| "is_finite _ = False"

fun f64_le :: "f64 \<Rightarrow> rat \<Rightarrow> bool" where
  "f64_le (Finite q) r = (q \<le> r)"
| "f64_le (Inf neg) r = neg"
| "f64_le NaN r = False"

fun f64_gt :: "f64 \<Rightarrow> rat \<Rightarrow> bool" where
  "f64_gt (Finite q) r = (r < q)"
| "f64_gt (Inf neg) r = (\<not> neg)"
| "f64_gt NaN r = False"

type_synonym byte = "8 word"

end
