(* ===== verification/PyModel.thy ===== *)
theory PyModel
  imports Prelude
begin

text \<open>
  The Python side of the bridge. Python values and exceptions are data of the model; what PyO3
  does with them (extraction to Rust types, casts, dictionary reads, iteration) is code the
  repository only calls, so it is the record \<open>pyo3\<close> of functions that every conversion takes
  as an argument. The locale \<open>pyo3_laws\<close> states the documented behaviour the conversions rely
  on, and \<open>pyo3_std\<close> is a concrete, computing instance of it.
\<close>

section \<open>Values\<close>

text \<open>
  A value of a subclass of a builtin type is represented by the builtin's constructor, as
  \<open>isinstance\<close> sees it; \<open>PyObject cls n\<close> is any other object, with its class and identity.
  A dictionary is its list of items in insertion order, with distinct keys.
\<close>

datatype pyval =
    PyNone
  | PyBool bool
  | PyInt int
  | PyFloat f64
  | PyStr string
  | PyBytes "byte list"
  | PyByteArray "byte list"
  | PyList "pyval list"
  | PyTuple "pyval list"
  | PyDict "(pyval \<times> pyval) list"
  | PyObject string nat

type_synonym pydict = "(pyval \<times> pyval) list"

text \<open>\<open>is_instance_of\<close> for the types the code tests; \<open>bool\<close> is a subclass of \<open>int\<close>.\<close>

fun is_bool :: "pyval \<Rightarrow> bool" where
  "is_bool (PyBool _) = True"
| "is_bool _ = False"

fun is_int :: "pyval \<Rightarrow> bool" where
  "is_int (PyInt _) = True"
| "is_int (PyBool _) = True"
| "is_int _ = False"

fun is_float :: "pyval \<Rightarrow> bool" where
  "is_float (PyFloat _) = True"
| "is_float _ = False"

fun is_str :: "pyval \<Rightarrow> bool" where
  "is_str (PyStr _) = True"
| "is_str _ = False"

fun is_bytes :: "pyval \<Rightarrow> bool" where
  "is_bytes (PyBytes _) = True"
| "is_bytes _ = False"

fun is_bytearray :: "pyval \<Rightarrow> bool" where
  "is_bytearray (PyByteArray _) = True"
| "is_bytearray _ = False"

fun is_dict :: "pyval \<Rightarrow> bool" where
  "is_dict (PyDict _) = True"
| "is_dict _ = False"

text \<open>The truth value of a builtin; an object of another class is true.\<close>

fun py_truth :: "pyval \<Rightarrow> bool" where
  "py_truth PyNone = False"
| "py_truth (PyBool b) = b"
| "py_truth (PyInt n) = (n \<noteq> 0)"
| "py_truth (PyFloat x) = (x \<noteq> Finite 0)"
| "py_truth (PyStr s) = (s \<noteq> [])"
| "py_truth (PyBytes b) = (b \<noteq> [])"
| "py_truth (PyByteArray b) = (b \<noteq> [])"
| "py_truth (PyList vs) = (vs \<noteq> [])"
| "py_truth (PyTuple vs) = (vs \<noteq> [])"
| "py_truth (PyDict d) = (d \<noteq> [])"
| "py_truth (PyObject c n) = True"

text \<open>
  \<open>PyDict::set_item\<close>: an existing key keeps its place and takes the new value. Storing under
  a \<open>str\<close> key cannot fail except by exhausting memory, which is not modelled.
\<close>

fun set_item :: "pyval \<Rightarrow> pyval \<Rightarrow> pydict \<Rightarrow> pydict" where
  "set_item k v [] = [(k, v)]"
| "set_item k v ((k', v') # d) = (if k = k' then (k, v) # d else (k', v') # set_item k v d)"

text \<open>The dictionary a sequence of \<open>set_item\<close> calls builds from an empty one.\<close>

definition py_dict :: "(string \<times> pyval) list \<Rightarrow> pydict" where
  "py_dict kvs = fold (\<lambda>(k, v). set_item (PyStr k) v) kvs []"

lemma map_of_set_item: "map_of (set_item k v d) = (map_of d)(k \<mapsto> v)"
  by (induction k v d rule: set_item.induct) auto

lemma fst_set_item: "fst ` set (set_item k v d) = insert k (fst ` set d)"
  by (induction k v d rule: set_item.induct) auto

lemma distinct_set_item: "distinct (map fst d) \<Longrightarrow> distinct (map fst (set_item k v d))"
  by (induction k v d rule: set_item.induct) (auto simp: fst_set_item image_iff)

lemma set_item_new: "k \<notin> fst ` set d \<Longrightarrow> set_item k v d = d @ [(k, v)]"
  by (induction k v d rule: set_item.induct) auto

lemma fold_set_item_distinct:
  "distinct (map fst kvs) \<Longrightarrow> fst ` set d \<inter> (PyStr ` fst ` set kvs) = {} \<Longrightarrow>
   fold (\<lambda>(k, v). set_item (PyStr k) v) kvs d = d @ map (\<lambda>(k, v). (PyStr k, v)) kvs"
proof (induction kvs arbitrary: d)
  case Nil
  then show ?case by simp
next
  case (Cons kv kvs)
  obtain k v where kv: "kv = (k, v)" by (cases kv)
  have new: "set_item (PyStr k) v d = d @ [(PyStr k, v)]"
    using Cons.prems kv by (intro set_item_new) auto
  have "fst ` set (d @ [(PyStr k, v)]) \<inter> (PyStr ` fst ` set kvs) = {}"
    using Cons.prems kv by auto
  then show ?case
    using Cons.IH [of "d @ [(PyStr k, v)]"] Cons.prems kv new by simp
qed

lemma py_dict_distinct:
  "distinct (map fst kvs) \<Longrightarrow> py_dict kvs = map (\<lambda>(k, v). (PyStr k, v)) kvs"
  using fold_set_item_distinct [of kvs "[]"] by (simp add: py_dict_def)

lemma py_dict_simps [simp]:
  "py_dict [] = []"
  "py_dict [(a, v)] = [(PyStr a, v)]"
  by (simp_all add: py_dict_def)

definition str_keys :: "pydict \<Rightarrow> bool" where
  "str_keys d = list_all (\<lambda>(k, v). is_str k) d"

lemma str_keys_simps [simp]:
  "str_keys []"
  "str_keys ((k, v) # d) \<longleftrightarrow> is_str k \<and> str_keys d"
  by (simp_all add: str_keys_def)

lemma str_keys_set_item: "is_str k \<Longrightarrow> str_keys d \<Longrightarrow> str_keys (set_item k v d)"
  by (induction k v d rule: set_item.induct) auto

lemma str_keys_map [simp]: "str_keys (map (\<lambda>(k, v). (PyStr k, f v)) kvs)"
  by (induction kvs) auto

lemma str_keys_py_dict [simp]: "str_keys (py_dict kvs)"
proof -
  have "str_keys d \<Longrightarrow> str_keys (fold (\<lambda>(k, v). set_item (PyStr k) v) kvs d)" for d
    by (induction kvs arbitrary: d) (auto simp: str_keys_set_item)
  then show ?thesis by (simp add: py_dict_def)
qed

lemma map_of_fold_set_item:
  "map_of (fold (\<lambda>(k, v). set_item (PyStr k) v) kvs d) (PyStr a) =
     (case map_of (rev kvs) a of None \<Rightarrow> map_of d (PyStr a) | Some v \<Rightarrow> Some v)"
proof (induction kvs arbitrary: d)
  case Nil
  show ?case by simp
next
  case (Cons kv kvs)
  then show ?case
    by (cases kv) (auto simp: map_of_set_item map_add_def split: option.splits)
qed

lemma map_of_py_dict: "map_of (py_dict kvs) (PyStr a) = map_of (rev kvs) a"
  by (simp add: py_dict_def map_of_fold_set_item split: option.splits)

section \<open>Exceptions\<close>

text \<open>
  The structured context \<open>attach_conversion_context\<close> publishes on an exception
  (\<open>packages/rboto/src/rboto/_conversion.py\<close>).
\<close>

record conversion_context =
  ctx_service :: string
  ctx_operation :: string
  ctx_path :: string
  ctx_expected :: string
  ctx_category :: string
  ctx_truncated :: bool

text \<open>
  An exception object: its class and the classes it inherits from, its message, whether
  application code raised it (it carries a traceback, a cause or a context), whether it
  accepts new attributes, the value of its \<open>_rboto_input_detail\<close> attribute when that is a
  \<open>(str, str, str, bool)\<close> tuple, its notes, its \<open>conversion_context\<close> and, for a
  \<open>ClientError\<close>, the attributes of that class.
\<close>

type_synonym detail = "string \<times> string \<times> string \<times> bool"

text \<open>
  The attributes an instance of \<open>ClientError\<close> carries
  (\<open>packages/rboto/src/rboto/exceptions.py\<close>).
\<close>

record client_error =
  ce_message :: string
  ce_error_code :: string
  ce_request_id :: pyval
  ce_operation_name :: string
  ce_response_metadata :: pydict
  ce_details :: pydict

record pyerr =
  err_class :: string
  err_bases :: "string list"
  err_message :: string
  app_raised :: bool
  open_attrs :: bool
  input_detail :: "detail option"
  err_notes :: "string list"
  err_context :: "conversion_context option"
  err_attrs :: "client_error option"

type_synonym 'a pyresult = "pyerr + 'a"

definition is_instance :: "pyerr \<Rightarrow> string \<Rightarrow> bool" where
  "is_instance e c \<longleftrightarrow> c = err_class e \<or> c \<in> set (err_bases e)"

definition new_err :: "string \<Rightarrow> string list \<Rightarrow> string \<Rightarrow> pyerr" where
  "new_err cls bases msg =
     \<lparr>err_class = cls, err_bases = bases @ [''Exception'', ''BaseException'', ''object''],
      err_message = msg, app_raised = False, open_attrs = True, input_detail = None,
      err_notes = [], err_context = None, err_attrs = None\<rparr>"

definition type_error :: "string \<Rightarrow> pyerr" where
  "type_error msg = new_err ''TypeError'' [] msg"

definition value_error :: "string \<Rightarrow> pyerr" where
  "value_error msg = new_err ''ValueError'' [] msg"

definition overflow_error :: "string \<Rightarrow> pyerr" where
  "overflow_error msg = new_err ''OverflowError'' [''ArithmeticError''] msg"

definition runtime_error :: "string \<Rightarrow> pyerr" where
  "runtime_error msg = new_err ''RuntimeError'' [] msg"

definition stop_async_iteration :: pyerr where
  "stop_async_iteration = new_err ''StopAsyncIteration'' [] []"

lemmas builtin_errors = type_error_def value_error_def overflow_error_def runtime_error_def
  stop_async_iteration_def new_err_def

text \<open>Two exceptions that are the same object but for the metadata rboto attaches.\<close>

definition same_exception :: "pyerr \<Rightarrow> pyerr \<Rightarrow> bool" where
  "same_exception e f \<longleftrightarrow> err_class e = err_class f \<and> err_bases e = err_bases f
     \<and> app_raised e = app_raised f \<and> open_attrs e = open_attrs f"

section \<open>The PyO3 interface\<close>

record pyo3 =
  extract_string :: "pyval \<Rightarrow> string pyresult"
  extract_bool :: "pyval \<Rightarrow> bool pyresult"
  extract_i32 :: "pyval \<Rightarrow> 32 word pyresult"
  extract_i64 :: "pyval \<Rightarrow> 64 word pyresult"
  extract_u32 :: "pyval \<Rightarrow> 32 word pyresult"
  extract_u64 :: "pyval \<Rightarrow> 64 word pyresult"
  extract_f64 :: "pyval \<Rightarrow> f64 pyresult"
  extract_bytes :: "pyval \<Rightarrow> byte list pyresult"
  cast_dict :: "pyval \<Rightarrow> pydict pyresult"
  get_item :: "pydict \<Rightarrow> string \<Rightarrow> pyval option pyresult"
  try_iter :: "pyval \<Rightarrow> (pyval pyresult) list pyresult"

locale pyo3_laws =
  fixes P :: pyo3
  assumes string_ok: "extract_string P (PyStr s) = Inr s"
    and string_type: "\<not> is_str v \<Longrightarrow>
      \<exists>e. extract_string P v = Inl e \<and> is_instance e ''TypeError'' \<and> input_detail e = None"
    and bool_ok: "extract_bool P (PyBool b) = Inr b"
    and i32_ok: "- (2 ^ 31) \<le> n \<Longrightarrow> n < 2 ^ 31 \<Longrightarrow> extract_i32 P (PyInt n) = Inr (word_of_int n)"
    and i32_overflow: "n < - (2 ^ 31) \<or> 2 ^ 31 \<le> n \<Longrightarrow>
      \<exists>e. extract_i32 P (PyInt n) = Inl e \<and> is_instance e ''OverflowError'' \<and> input_detail e = None"
    and i64_ok: "- (2 ^ 63) \<le> n \<Longrightarrow> n < 2 ^ 63 \<Longrightarrow> extract_i64 P (PyInt n) = Inr (word_of_int n)"
    and i64_overflow: "n < - (2 ^ 63) \<or> 2 ^ 63 \<le> n \<Longrightarrow> \<exists>e. extract_i64 P (PyInt n) = Inl e"
    and u64_ok: "0 \<le> n \<Longrightarrow> n < 2 ^ 64 \<Longrightarrow> extract_u64 P (PyInt n) = Inr (word_of_int n)"
    and u64_overflow: "n < 0 \<or> 2 ^ 64 \<le> n \<Longrightarrow> \<exists>e. extract_u64 P (PyInt n) = Inl e"
    and u32_ok: "0 \<le> n \<Longrightarrow> n < 2 ^ 32 \<Longrightarrow> extract_u32 P (PyInt n) = Inr (word_of_int n)"
    and f64_int: "- (2 ^ 53) \<le> n \<Longrightarrow> n \<le> 2 ^ 53 \<Longrightarrow> extract_f64 P (PyInt n) = Inr (Finite (of_int n))"
    and f64_ok: "extract_f64 P (PyFloat x) = Inr x"
    and bytes_ok: "extract_bytes P (PyBytes bs) = Inr bs"
    and bytearray_ok: "extract_bytes P (PyByteArray bs) = Inr bs"
    and dict_ok: "cast_dict P (PyDict d) = Inr d"
    and dict_type: "\<not> is_dict v \<Longrightarrow>
      \<exists>e. cast_dict P v = Inl e \<and> is_instance e ''TypeError'' \<and> input_detail e = None"
    and get_item_ok: "str_keys d \<Longrightarrow> get_item P d k = Inr (map_of d (PyStr k))"
    and iter_list: "try_iter P (PyList xs) = Inr (map Inr xs)"
    and iter_tuple: "try_iter P (PyTuple xs) = Inr (map Inr xs)"
begin

lemmas conv = string_ok bool_ok i32_ok i64_ok u64_ok f64_ok bytes_ok bytearray_ok dict_ok
  get_item_ok iter_list iter_tuple

end

text \<open>
  A concrete instance. Where PyO3 consults protocols this model of values does not carry
  (\<open>__index__\<close>, \<open>__float__\<close>, \<open>__iter__\<close> of application objects), it answers with the
  \<open>TypeError\<close> PyO3 raises for objects without them.
\<close>

fun int_of :: "pyval \<Rightarrow> int option" where
  "int_of (PyInt n) = Some n"
| "int_of (PyBool b) = Some (if b then 1 else 0)"
| "int_of _ = None"

definition int_in_range :: "int \<Rightarrow> int \<Rightarrow> pyval \<Rightarrow> 'l::len word pyresult" where
  "int_in_range lo hi v =
     (case int_of v of
        None \<Rightarrow> Inl (type_error ''an integer is required'')
      | Some n \<Rightarrow> (if lo \<le> n \<and> n < hi then Inr (word_of_int n)
                   else Inl (overflow_error ''out of range integral type conversion attempted'')))"

definition pyo3_std :: pyo3 where
  "pyo3_std =
     \<lparr>extract_string = (\<lambda>v. case v of PyStr s \<Rightarrow> Inr s | _ \<Rightarrow> Inl (type_error ''not an instance of str'')),
      extract_bool = (\<lambda>v. case v of PyBool b \<Rightarrow> Inr b | _ \<Rightarrow> Inl (type_error ''not an instance of bool'')),
      extract_i32 = int_in_range (- (2 ^ 31)) (2 ^ 31),
      extract_i64 = int_in_range (- (2 ^ 63)) (2 ^ 63),
      extract_u32 = int_in_range 0 (2 ^ 32),
      extract_u64 = int_in_range 0 (2 ^ 64),
      extract_f64 = (\<lambda>v. case v of PyFloat x \<Rightarrow> Inr x | PyInt n \<Rightarrow> Inr (Finite (of_int n))
        | _ \<Rightarrow> Inl (type_error ''must be real number'')),
      extract_bytes = (\<lambda>v. case v of PyBytes b \<Rightarrow> Inr b | PyByteArray b \<Rightarrow> Inr b
        | _ \<Rightarrow> Inl (type_error ''not an instance of bytes'')),
      cast_dict = (\<lambda>v. case v of PyDict d \<Rightarrow> Inr d | _ \<Rightarrow> Inl (type_error ''not an instance of dict'')),
      get_item = (\<lambda>d k. Inr (map_of d (PyStr k))),
      try_iter = (\<lambda>v. case v of PyList xs \<Rightarrow> Inr (map Inr xs) | PyTuple xs \<Rightarrow> Inr (map Inr xs)
        | PyDict d \<Rightarrow> Inr (map (\<lambda>kv. Inr (fst kv)) d)
        | _ \<Rightarrow> Inl (type_error ''object is not iterable''))\<rparr>"

interpretation std: pyo3_laws pyo3_std
  by unfold_locales
    (auto simp: pyo3_std_def int_in_range_def is_instance_def builtin_errors split: pyval.splits)

end
