(* ===== verification/InputError.thy ===== *)
theory InputError
  imports PyModel
begin

text \<open>
  Diagnostics of failed input conversions: \<open>crates/rboto-core/src/input_error.rs\<close>, which
  collects a path on the exception while it unwinds, and the Python function
  \<open>attach_conversion_context\<close> of \<open>packages/rboto/src/rboto/_conversion.py\<close> that publishes it
  at the operation boundary.
\<close>

section \<open>Definitions\<close>

definition path_limit :: nat where
  "path_limit = 512"

datatype input_path = Root | Field string | Index nat | MapKey nat | MapValue nat

fun prefix :: "input_path \<Rightarrow> string" where
  "prefix Root = []"
| "prefix (Field name) = name"
| "prefix (Index i) = ''['' @ show_nat i @ '']''"
| "prefix (MapKey i) = ''[key#'' @ show_nat i @ '']''"
| "prefix (MapValue i) = ''[value#'' @ show_nat i @ '']''"

definition bounded :: "string \<Rightarrow> nat \<Rightarrow> string \<times> bool" where
  "bounded value limit =
     (if char_count value \<le> limit then (value, False)
      else (take_chars (limit - 3) value @ ''...'', True))"

text \<open>How one more location is put before the path collected so far.\<close>

definition join_path :: "string \<Rightarrow> string \<Rightarrow> string" where
  "join_path pre suf =
     (if pre = [] then suf
      else if suf = [] then pre
      else if starts_with (CHR ''['') suf then pre @ suf
      else pre @ ''.'' @ suf)"

text \<open>\<open>value.setattr(DETAIL, ...)\<close>, whose failure is ignored.\<close>

definition set_detail :: "detail \<Rightarrow> pyerr \<Rightarrow> pyerr" where
  "set_detail d e = (if open_attrs e then e\<lparr>input_detail := Some d\<rparr> else e)"

definition default_category :: "pyerr \<Rightarrow> string" where
  "default_category error =
     (if is_instance error ''OverflowError'' then ''overflow''
      else if is_instance error ''TypeError'' then ''type''
      else ''value'')"

definition input_rule :: "pyerr \<Rightarrow> input_path \<Rightarrow> string \<Rightarrow> string option \<Rightarrow> pyerr" where
  "input_rule error path expected category =
     (let (suffix, expected, category, truncated) =
            (case input_detail error of
               Some d \<Rightarrow> d
             | None \<Rightarrow>
                 (let category = (case category of Some c \<Rightarrow> c | None \<Rightarrow> default_category error);
                      (expected, truncated) = bounded expected 160
                  in ([], expected, category, truncated)));
          joined = join_path (prefix path) suffix;
          (path, shortened) = bounded joined path_limit
      in set_detail (path, expected, category, truncated \<or> shortened) error)"

definition input_error :: "pyerr \<Rightarrow> input_path \<Rightarrow> string \<Rightarrow> pyerr" where
  "input_error error path expected = input_rule error path expected None"

text \<open>The Python side: \<open>_bound\<close> and \<open>attach_conversion_context\<close>.\<close>

definition py_bound :: "string \<Rightarrow> nat \<Rightarrow> string" where
  "py_bound value len =
     (if char_count value \<le> len then value else take_chars (len - 3) value @ ''...'')"

definition context_message :: "conversion_context \<Rightarrow> string" where
  "context_message c =
     ctx_path c @ '': expected '' @ ctx_expected c @ '' ('' @ ctx_service c @ ''.''
       @ ctx_operation c @ ''; '' @ ctx_category c @ '')''"

definition attach_conversion_context ::
    "pyerr \<Rightarrow> string \<Rightarrow> string \<Rightarrow> string \<Rightarrow> string \<Rightarrow> string \<Rightarrow> bool \<Rightarrow> pyerr" where
  "attach_conversion_context error service operation path expected category truncated =
     (let context =
            \<lparr>ctx_service = py_bound service 128, ctx_operation = py_bound operation 128,
             ctx_path = py_bound (if path = [] then ''<request>'' else path) 512,
             ctx_expected = py_bound expected 160, ctx_category = category,
             ctx_truncated = (truncated \<or> char_count path > 512 \<or> char_count expected > 160
               \<or> char_count service > 128 \<or> char_count operation > 128)\<rparr>;
          message = context_message context;
          error = (if err_class error \<in> {''TypeError'', ''ValueError'', ''OverflowError''}
                     \<and> \<not> app_raised error
                   then error\<lparr>err_message := message\<rparr>
                   else error\<lparr>err_notes := err_notes error @ [message]\<rparr>)
      in if open_attrs error then error\<lparr>err_context := Some context\<rparr> else error)"

definition input_operation :: "pyerr \<Rightarrow> string \<Rightarrow> string \<Rightarrow> pyerr" where
  "input_operation error service operation =
     (case input_detail error of
        None \<Rightarrow> error
      | Some (path, expected, category, truncated) \<Rightarrow>
          (let error = attach_conversion_context error service operation path expected category truncated
           in if open_attrs error then error\<lparr>input_detail := None\<rparr> else error))"

text \<open>
  \<open>input_builder_error\<close> looks for the first required member the dictionary lacks; a read that
  raises does not match and is skipped.
\<close>

fun input_builder_error :: "pyo3 \<Rightarrow> pydict \<Rightarrow> (string \<times> string) list \<Rightarrow> pyerr" where
  "input_builder_error P values [] =
     input_error (value_error ''invalid structure'') Root ''valid structure''"
| "input_builder_error P values ((key, public_name) # required) =
     (case get_item P values key of
        Inr v \<Rightarrow>
          (if v = None \<or> v = Some PyNone
           then input_rule (value_error ''missing required member'') (Field public_name)
                  ''required member'' (Some ''missing'')
           else input_builder_error P values required)
      | Inl _ \<Rightarrow> input_builder_error P values required)"

section \<open>Bounding\<close>

lemma bounded_short: "char_count s \<le> l \<Longrightarrow> bounded s l = (s, False)"
  by (simp add: bounded_def)

lemma bounded_long: "l < char_count s \<Longrightarrow> bounded s l = (take_chars (l - 3) s @ ''...'', True)"
  by (simp add: bounded_def)

lemma not_cont_dot [simp]: "\<not> is_cont (CHR ''.'')"
  by (simp add: is_cont_def byte_of_def)

lemma not_cont_bracket [simp]: "\<not> is_cont (CHR ''['')"
  by (simp add: is_cont_def byte_of_def)

lemma char_count_bounded: "3 \<le> l \<Longrightarrow> char_count (fst (bounded s l)) \<le> l"
  by (auto simp: bounded_def char_count_take_chars)

lemma bounded_truncated_iff: "snd (bounded s l) \<longleftrightarrow> l < char_count s"
  by (simp add: bounded_def)

lemma bounded_fst_idem: "3 \<le> l \<Longrightarrow> bounded (fst (bounded s l)) l = (fst (bounded s l), False)"
  by (rule bounded_short) (rule char_count_bounded)

lemma py_bound_bounded: "py_bound s l = fst (bounded s l)"
  by (simp add: py_bound_def bounded_def)

lemma bounded_Nil [simp]: "bounded [] l = ([], False)"
  by (simp add: bounded_def)

lemma starts_with_bounded:
  "lead_first s \<Longrightarrow> 3 < l \<Longrightarrow> starts_with c (fst (bounded s l)) = starts_with c s"
  by (cases s; cases "l - 3") (auto simp: bounded_def)

lemma bounded_empty_iff: "lead_first s \<Longrightarrow> fst (bounded s l) = [] \<longleftrightarrow> s = []"
  by (cases s) (auto simp: bounded_def)

lemma lead_first_bounded: "lead_first s \<Longrightarrow> lead_first (fst (bounded s l))"
  by (auto simp: bounded_def intro!: lead_first_append lead_first_take_chars)

lemma char_count_pos: "lead_first s \<Longrightarrow> s \<noteq> [] \<Longrightarrow> 0 < char_count s"
  by (cases s) simp_all

text \<open>
  Cutting the collected path at every location gives the same text as cutting the whole
  path once at the end.
\<close>

lemma take_chars_prefix:
  assumes "lead_first s" and "n \<le> char_count s" and "lead_first q"
  shows "take_chars n (q @ take_chars n s @ ''...'') = take_chars n (q @ s)"
proof (cases "char_count q \<le> n")
  case True
  have l: "lead_first (take_chars n s @ ''...'')"
    using assms by (intro lead_first_append lead_first_take_chars) simp_all
  have "take_chars (n - char_count q) (take_chars n s @ ''...'') = take_chars (n - char_count q) s"
    using assms by (intro take_chars_take_chars) simp_all
  with True l assms show ?thesis by (simp add: take_chars_append)
next
  case False
  then show ?thesis by (simp add: take_chars_append_more)
qed

lemma bounded_prefix:
  assumes "lead_first s" and "lead_first q" and "q \<noteq> []" and "3 \<le> l"
  shows "fst (bounded (q @ fst (bounded s l)) l) = fst (bounded (q @ s) l)"
proof (cases "char_count s \<le> l")
  case True
  then show ?thesis by (simp add: bounded_short)
next
  case False
  have q: "0 < char_count q" using assms by (intro char_count_pos)
  have c: "char_count (take_chars (l - 3) s @ ''...'') = l"
    using False assms(4) by (simp add: char_count_take_chars)
  have "take_chars (l - 3) (q @ take_chars (l - 3) s @ ''...'') = take_chars (l - 3) (q @ s)"
    using False assms by (intro take_chars_prefix) simp_all
  with False q c show ?thesis
    by (simp add: bounded_long del: append_assoc)
qed

lemma bounded_join:
  assumes "lead_first s" and "lead_first p"
  shows "fst (bounded (join_path p (fst (bounded s path_limit))) path_limit)
           = fst (bounded (join_path p s) path_limit)"
    and "snd (bounded s path_limit) \<or> snd (bounded (join_path p (fst (bounded s path_limit))) path_limit)
           \<longleftrightarrow> snd (bounded (join_path p s) path_limit)"
proof -
  let ?s = "fst (bounded s path_limit)"
  have sw: "starts_with (CHR ''['') ?s = starts_with (CHR ''['') s"
    using assms by (intro starts_with_bounded) (simp_all add: path_limit_def)
  have emp: "?s = [] \<longleftrightarrow> s = []" using assms by (intro bounded_empty_iff)
  have dot: "fst (bounded ((p @ ''.'') @ ?s) path_limit) = fst (bounded ((p @ ''.'') @ s) path_limit)"
    using assms by (intro bounded_prefix) (auto intro!: lead_first_append simp: path_limit_def)
  have br: "p \<noteq> [] \<Longrightarrow> fst (bounded (p @ ?s) path_limit) = fst (bounded (p @ s) path_limit)"
    using assms by (intro bounded_prefix) (simp_all add: path_limit_def)
  show "fst (bounded (join_path p ?s) path_limit) = fst (bounded (join_path p s) path_limit)"
    using dot br sw emp bounded_fst_idem [of path_limit s]
    by (auto simp: join_path_def path_limit_def)
  have cs: "char_count s \<le> char_count (join_path p s)"
    by (simp add: join_path_def)
  show "snd (bounded s path_limit) \<or> snd (bounded (join_path p ?s) path_limit)
          \<longleftrightarrow> snd (bounded (join_path p s) path_limit)"
  proof (cases "char_count s \<le> path_limit")
    case True
    then show ?thesis by (simp add: bounded_short)
  next
    case False
    with cs show ?thesis by (simp add: bounded_truncated_iff)
  qed
qed

section \<open>Unwinding\<close>

text \<open>The unbounded path of a list of locations, outermost first.\<close>

fun full_path :: "input_path list \<Rightarrow> string" where
  "full_path [] = []"
| "full_path (p # ps) = join_path (prefix p) (full_path ps)"

text \<open>Field names are identifiers of the schema: nonempty well-formed text.\<close>

definition good_path :: "input_path \<Rightarrow> bool" where
  "good_path p = (case p of Field name \<Rightarrow> lead_first name \<and> name \<noteq> [] | _ \<Rightarrow> True)"

lemma lead_first_prefix: "good_path p \<Longrightarrow> lead_first (prefix p)"
  by (cases p) (simp_all add: good_path_def)

lemma lead_first_join: "lead_first p \<Longrightarrow> lead_first s \<Longrightarrow> lead_first (join_path p s)"
  by (auto simp: join_path_def intro!: lead_first_append)

lemma lead_first_full_path: "list_all good_path ps \<Longrightarrow> lead_first (full_path ps)"
  by (induction ps) (auto intro: lead_first_join lead_first_prefix)

text \<open>
  What the detail of an exception says: the path of the locations it went through, the
  expectation and category of the innermost one, and whether anything was cut.
\<close>

definition detail_for :: "input_path list \<Rightarrow> string \<Rightarrow> string \<Rightarrow> detail" where
  "detail_for ps expected category =
     (fst (bounded (full_path ps) path_limit), fst (bounded expected 160), category,
      snd (bounded expected 160) \<or> snd (bounded (full_path ps) path_limit))"

lemma input_rule_fresh:
  assumes "input_detail e = None" and "open_attrs e"
  shows "input_detail (input_rule e p expected c) =
    Some (detail_for [p] expected (case c of Some c \<Rightarrow> c | None \<Rightarrow> default_category e))"
  using assms
  by (simp add: input_rule_def set_detail_def detail_for_def Let_def join_path_def
      split: prod.splits)

lemma input_rule_more:
  assumes "input_detail e = Some (detail_for ps expected category)" and "open_attrs e"
    and "list_all good_path ps" and "good_path p"
  shows "input_detail (input_rule e p expected' c) = Some (detail_for (p # ps) expected category)"
  using assms bounded_join [of "full_path ps" "prefix p"]
    lead_first_full_path [of ps] lead_first_prefix [of p]
  by (auto simp: input_rule_def set_detail_def detail_for_def Let_def split: prod.splits)

lemma input_rule_preserves:
  "err_class (input_rule e p x c) = err_class e"
  "err_bases (input_rule e p x c) = err_bases e"
  "err_message (input_rule e p x c) = err_message e"
  "app_raised (input_rule e p x c) = app_raised e"
  "open_attrs (input_rule e p x c) = open_attrs e"
  "err_notes (input_rule e p x c) = err_notes e"
  "err_context (input_rule e p x c) = err_context e"
  by (auto simp: input_rule_def set_detail_def Let_def split: prod.splits option.splits)

lemma input_error_preserves [simp]:
  "err_class (input_error e p x) = err_class e"
  "err_bases (input_error e p x) = err_bases e"
  "err_message (input_error e p x) = err_message e"
  "app_raised (input_error e p x) = app_raised e"
  "open_attrs (input_error e p x) = open_attrs e"
  "err_notes (input_error e p x) = err_notes e"
  "err_context (input_error e p x) = err_context e"
  by (simp_all add: input_error_def input_rule_preserves)

lemma default_category_input_error [simp]:
  "default_category (input_error e p x) = default_category e"
  by (simp add: default_category_def is_instance_def)

text \<open>An exception that leaves a nest of converters, innermost location first.\<close>

definition unwind :: "(input_path \<times> string) list \<Rightarrow> pyerr \<Rightarrow> pyerr" where
  "unwind locs e = fold (\<lambda>(p, x) e. input_error e p x) locs e"

lemma unwind_simps [simp]:
  "unwind [] e = e"
  "unwind ((p, x) # locs) e = unwind locs (input_error e p x)"
  by (simp_all add: unwind_def)

lemma unwind_preserves [simp]:
  "err_class (unwind locs e) = err_class e"
  "err_bases (unwind locs e) = err_bases e"
  "err_message (unwind locs e) = err_message e"
  "app_raised (unwind locs e) = app_raised e"
  "open_attrs (unwind locs e) = open_attrs e"
  "err_notes (unwind locs e) = err_notes e"
  "err_context (unwind locs e) = err_context e"
  by (induction locs arbitrary: e) auto

lemma unwind_more:
  "input_detail e = Some (detail_for ps expected category) \<Longrightarrow> open_attrs e \<Longrightarrow>
   list_all good_path ps \<Longrightarrow> list_all (\<lambda>(p, x). good_path p) locs \<Longrightarrow>
   input_detail (unwind locs e) = Some (detail_for (rev (map fst locs) @ ps) expected category)"
proof (induction locs arbitrary: e ps)
  case Nil
  then show ?case by simp
next
  case (Cons l locs)
  obtain p x where l: "l = (p, x)" by (cases l)
  have d: "input_detail (input_error e p x) = Some (detail_for (p # ps) expected category)"
    unfolding input_error_def using Cons.prems l by (intro input_rule_more) auto
  show ?case
    using Cons.IH [OF d] Cons.prems l by simp
qed

lemma unwind_detail:
  assumes "input_detail e = None" and "open_attrs e"
    and "list_all (\<lambda>(p, x). good_path p) ((p, x) # locs)"
  shows "input_detail (unwind ((p, x) # locs) e) =
    Some (detail_for (rev (map fst locs) @ [p]) x (default_category e))"
proof -
  have "input_detail (input_error e p x) = Some (detail_for [p] x (default_category e))"
    using input_rule_fresh [OF assms(1,2), of p x None] by (simp add: input_error_def)
  from unwind_more [OF this, of locs] assms show ?thesis by simp
qed

section \<open>Publication at the operation boundary\<close>

lemma input_operation_preserves [simp]:
  "err_class (input_operation e s o') = err_class e"
  "err_bases (input_operation e s o') = err_bases e"
  "app_raised (input_operation e s o') = app_raised e"
  "open_attrs (input_operation e s o') = open_attrs e"
  by (auto simp: input_operation_def attach_conversion_context_def Let_def
      split: option.splits prod.splits)

lemma input_operation_no_detail: "input_detail e = None \<Longrightarrow> input_operation e s o' = e"
  by (simp add: input_operation_def)

text \<open>The context a caller reads for a failure at the given locations.\<close>

definition context_for :: "input_path list \<Rightarrow> string \<Rightarrow> string \<Rightarrow> string \<Rightarrow> string \<Rightarrow> conversion_context" where
  "context_for ps expected category service operation =
     \<lparr>ctx_service = fst (bounded service 128), ctx_operation = fst (bounded operation 128),
      ctx_path = (if full_path ps = [] then ''<request>'' else fst (bounded (full_path ps) path_limit)),
      ctx_expected = fst (bounded expected 160), ctx_category = category,
      ctx_truncated = (path_limit < char_count (full_path ps) \<or> 160 < char_count expected
        \<or> 128 < char_count service \<or> 128 < char_count operation)\<rparr>"

lemma py_bound_request: "py_bound ''<request>'' 512 = ''<request>''"
  by code_simp

lemma attach_detail_for:
  assumes "list_all good_path ps" and "open_attrs e"
  shows "attach_conversion_context e service operation (fst (detail_for ps expected category))
      (fst (snd (detail_for ps expected category))) category (snd (snd (snd (detail_for ps expected category))))
    = (let c = context_for ps expected category service operation
       in (if err_class e \<in> {''TypeError'', ''ValueError'', ''OverflowError''} \<and> \<not> app_raised e
           then e\<lparr>err_message := context_message c\<rparr>
           else e\<lparr>err_notes := err_notes e @ [context_message c]\<rparr>)\<lparr>err_context := Some c\<rparr>)"
proof -
  let ?p = "fst (bounded (full_path ps) path_limit)" and ?x = "fst (bounded expected 160)"
  have empty: "?p = [] \<longleftrightarrow> full_path ps = []"
    using lead_first_full_path [OF assms(1)] by (rule bounded_empty_iff)
  have p: "char_count ?p \<le> 512" and x: "char_count ?x \<le> 160"
    using char_count_bounded [of path_limit "full_path ps"] char_count_bounded [of 160 expected]
    by (simp_all add: path_limit_def)
  have "py_bound (if ?p = [] then ''<request>'' else ?p) 512
      = (if full_path ps = [] then ''<request>'' else ?p)"
    using p empty by (simp add: py_bound_request) (simp add: py_bound_def)
  moreover have "py_bound ?x 160 = ?x" using x by (simp add: py_bound_def)
  moreover have "\<not> 512 < char_count ?p" and "\<not> 160 < char_count ?x" using p x by simp_all
  ultimately show ?thesis
    using assms(2)
    by (simp add: attach_conversion_context_def detail_for_def context_for_def Let_def
        py_bound_bounded bounded_truncated_iff disj_assoc disj_left_commute)
qed

lemma published_context:
  assumes "input_detail e = Some (detail_for ps expected category)"
    and "open_attrs e" and "list_all good_path ps"
  shows "err_context (input_operation e service operation) = Some (context_for ps expected category service operation)"
    and "input_detail (input_operation e service operation) = None"
    and "same_exception (input_operation e service operation) e"
proof -
  obtain path ex tr where det: "detail_for ps expected category = (path, ex, category, tr)"
    by (simp add: detail_for_def)
  show "err_context (input_operation e service operation) = Some (context_for ps expected category service operation)"
    and "input_detail (input_operation e service operation) = None"
    and "same_exception (input_operation e service operation) e"
    using attach_detail_for [OF assms(3,2), of service operation expected category] assms(1,2) det
    by (simp_all add: input_operation_def same_exception_def Let_def)
qed

lemma operation_context:
  assumes "input_detail e = None" and "open_attrs e"
    and "list_all (\<lambda>(p, x). good_path p) ((p, x) # locs)"
  shows "err_context (input_operation (unwind ((p, x) # locs) e) service operation)
      = Some (context_for (rev (map fst locs) @ [p]) x (default_category e) service operation)
    \<and> input_detail (input_operation (unwind ((p, x) # locs) e) service operation) = None
    \<and> same_exception (input_operation (unwind ((p, x) # locs) e) service operation) e"
proof -
  have d: "input_detail (unwind ((p, x) # locs) e)
      = Some (detail_for (rev (map fst locs) @ [p]) x (default_category e))"
    using assms by (rule unwind_detail)
  have "list_all good_path (rev (map fst locs) @ [p])" using assms(3) by (auto simp: list_all_iff)
  from published_context [OF d _ this] assms(2) show ?thesis
    by (simp add: same_exception_def del: unwind_simps)
qed

text \<open>The same for a rule a converter states itself, with a category of its own.\<close>

lemma rule_context:
  assumes "input_detail e = None" and "open_attrs e"
    and "good_path p" and "list_all (\<lambda>(p, x). good_path p) locs"
  shows "err_context (input_operation (unwind locs (input_rule e p expected (Some category))) service operation)
    = Some (context_for (rev (map fst locs) @ [p]) expected category service operation)"
proof -
  have "input_detail (input_rule e p expected (Some category)) = Some (detail_for [p] expected category)"
    using input_rule_fresh [OF assms(1,2), of p expected "Some category"] by simp
  from unwind_more [OF this, of locs] assms
  have "input_detail (unwind locs (input_rule e p expected (Some category)))
      = Some (detail_for (rev (map fst locs) @ [p]) expected category)"
    by (simp add: input_rule_preserves)
  then show ?thesis
    using assms by (intro published_context(1)) (auto simp: input_rule_preserves list_all_iff)
qed



text \<open>
  An exception raised by application code, or of a class of its own, keeps its message
  through conversion and publication: the diagnostic becomes one note at the end of its notes.
\<close>

lemma application_exception_keeps_message:
  assumes "app_raised e \<or> err_class e \<notin> {''TypeError'', ''ValueError'', ''OverflowError''}"
    and "input_detail e = Some d"
  shows "err_message (input_operation (unwind locs e) service operation) = err_message e
    \<and> (\<exists>n. err_notes (input_operation (unwind locs e) service operation) = err_notes e @ [n])"
proof -
  have "input_detail (unwind locs e) \<noteq> None"
    using assms(2)
  proof (induction locs arbitrary: e d)
    case (Cons l locs)
    have "\<exists>d'. input_detail (input_error e (fst l) (snd l)) = Some d'"
      using Cons.prems
      by (auto simp: input_error_def input_rule_def set_detail_def Let_def split: prod.splits)
    then show ?case using Cons.IH by (cases l) auto
  qed simp
  then show ?thesis
    using assms(1)
    by (auto simp: input_operation_def attach_conversion_context_def Let_def split: prod.splits)
qed

section \<open>Missing members\<close>

text \<open>
  When the SDK builder rejects a structure, the diagnostic names the first required member,
  in schema order, that the dictionary lacks or maps to \<open>None\<close>, with category \<open>missing\<close>;
  when none is absent it says \<open>invalid structure\<close>.
\<close>

lemma builder_error_names_first_missing:
  assumes "pyo3_laws P" and "str_keys values"
  shows "input_builder_error P values required =
    (case find (\<lambda>(key, n). map_of values (PyStr key) \<in> {None, Some PyNone}) required of
       Some (key, n) \<Rightarrow> input_rule (value_error ''missing required member'') (Field n)
                          ''required member'' (Some ''missing'')
     | None \<Rightarrow> input_error (value_error ''invalid structure'') Root ''valid structure'')"
proof (induction required)
  case Nil
  show ?case by simp
next
  case (Cons kn required)
  then show ?case
    using pyo3_laws.get_item_ok [OF assms] by (cases kn) simp
qed

end
