(* ===== verification/Convert.thy ===== *)
theory Convert
  imports InputError "HOL-Library.Finite_Map" "HOL-Library.List_Lexorder" "HOL-Library.Char_ord"
begin

text \<open>
  The conversion idioms every generated service crate is made of. The generator
  (\<open>codegen/src/rboto_codegen/generator.py\<close>) writes them inline in each
  \<open>crates/rboto-*/src/generated.rs\<close>: reading one member of a dictionary, reading one
  operation parameter, converting a sequence item by item and a mapping entry by entry, and
  rendering optional members. Each is a definition here, and the converters of the service
  theories are written with them.
\<close>

section \<open>Reading\<close>

text \<open>\<open>dict_value\<close>: a missing key and an explicit \<open>None\<close> are both absent.\<close>

definition dict_value :: "pyo3 \<Rightarrow> pydict \<Rightarrow> string \<Rightarrow> pyval option pyresult" where
  "dict_value P values name =
     and_then (get_item P values name)
       (\<lambda>v. Inr (case v of None \<Rightarrow> None | Some w \<Rightarrow> (if w = PyNone then None else Some w)))"

text \<open>
  One member of a structure:
  \<open>if let Some(value) = dict_value(values, key)? { builder = builder.set_key(Some(conv(value)
  .map_err(|e| input_error(e, InputPath::Field(key), expected))?)) }\<close>.
\<close>

definition member :: "pyo3 \<Rightarrow> pydict \<Rightarrow> string \<Rightarrow> string \<Rightarrow> (pyval \<Rightarrow> 'a pyresult) \<Rightarrow> 'a option pyresult" where
  "member P values key expected conv =
     and_then (dict_value P values key)
       (\<lambda>v. case v of
          None \<Rightarrow> Inr None
        | Some value \<Rightarrow>
            map_ok Some (map_err (\<lambda>e. input_error e (Field key) expected) (conv value)))"

text \<open>One parameter of an operation: the same, published at the operation boundary.\<close>

definition op_param ::
    "pyo3 \<Rightarrow> string \<Rightarrow> string \<Rightarrow> pydict \<Rightarrow> string \<Rightarrow> string \<Rightarrow> (pyval \<Rightarrow> 'a pyresult) \<Rightarrow> 'a option pyresult" where
  "op_param P service operation params key expected conv =
     and_then (dict_value P params key)
       (\<lambda>v. case v of
          None \<Rightarrow> Inr None
        | Some value \<Rightarrow>
            map_ok Some
              (map_err (\<lambda>e. input_operation (input_error e (Field key) expected) service operation)
                (conv value)))"

text \<open>
  A sequence: every item the iterator yields, in order; a failing iterator is an
  \<open>iteration\<close> failure at its index, a failing item one at its index.
\<close>

definition seq_item :: "string \<Rightarrow> (pyval \<Rightarrow> 'a pyresult) \<Rightarrow> nat \<Rightarrow> pyval pyresult \<Rightarrow> 'a pyresult" where
  "seq_item item_expected conv i item_result =
     and_then
       (map_err (\<lambda>e. input_rule e (Index i) ''next sequence item'' (Some ''iteration'')) item_result)
       (\<lambda>item. map_err (\<lambda>e. input_error e (Index i) item_expected) (conv item))"

definition seq_from_py :: "pyo3 \<Rightarrow> string \<Rightarrow> (pyval \<Rightarrow> 'a pyresult) \<Rightarrow> pyval \<Rightarrow> 'a list pyresult" where
  "seq_from_py P item_expected conv value =
     and_then (try_iter P value) (traverse 0 (seq_item item_expected conv))"

text \<open>
  A mapping with \<open>str\<close> keys (or names of an enum): entries in dictionary order, inserted into a \<open>HashMap\<close>, which is
  a finite map here because its iteration order is unspecified. A later entry replaces an
  earlier one.
\<close>

definition map_entry ::
    "pyo3 \<Rightarrow> string \<Rightarrow> string \<Rightarrow> (pyval \<Rightarrow> 'a pyresult) \<Rightarrow> nat \<Rightarrow> pyval \<times> pyval \<Rightarrow> (string \<times> 'a) pyresult" where
  "map_entry P key_expected value_expected conv i kv =
     and_then (map_err (\<lambda>e. input_error e (MapKey i) key_expected) (extract_string P (fst kv)))
       (\<lambda>k. and_then (map_err (\<lambda>e. input_error e (MapValue i) value_expected) (conv (snd kv)))
         (\<lambda>v. Inr (k, v)))"

definition hash_map :: "(string \<times> 'a) list \<Rightarrow> (string, 'a) fmap" where
  "hash_map entries = fmap_of_list (rev entries)"

definition map_from_py ::
    "pyo3 \<Rightarrow> string \<Rightarrow> string \<Rightarrow> (pyval \<Rightarrow> 'a pyresult) \<Rightarrow> pyval \<Rightarrow> (string, 'a) fmap pyresult" where
  "map_from_py P key_expected value_expected conv value =
     and_then (cast_dict P value)
       (\<lambda>d. map_ok hash_map (traverse 0 (map_entry P key_expected value_expected conv) d))"

text \<open>
  A union: a dictionary of exactly one entry, whose key names a known variant. The variants are
  tried in schema order; an entry whose value is \<open>None\<close> matches none.
\<close>

definition union_rule :: "string \<Rightarrow> pyerr" where
  "union_rule message =
     input_rule (value_error message) Root ''exactly one known union variant'' (Some ''union'')"

fun union_variants ::
    "pyo3 \<Rightarrow> string \<Rightarrow> pydict \<Rightarrow> (string \<times> string \<times> (pyval \<Rightarrow> 'a pyresult)) list \<Rightarrow> 'a pyresult" where
  "union_variants P name values [] = Inl (union_rule (name @ '' requires exactly one known variant''))"
| "union_variants P name values ((key, expected, conv) # variants) =
     and_then (dict_value P values key)
       (\<lambda>v. case v of
          Some value \<Rightarrow> map_err (\<lambda>e. input_error e (Field key) expected) (conv value)
        | None \<Rightarrow> union_variants P name values variants)"

definition union_from_py ::
    "pyo3 \<Rightarrow> string \<Rightarrow> (string \<times> string \<times> (pyval \<Rightarrow> 'a pyresult)) list \<Rightarrow> pyval \<Rightarrow> 'a pyresult" where
  "union_from_py P name variants value =
     and_then (cast_dict P value)
       (\<lambda>values. if length values \<noteq> 1 then Inl (union_rule ''union requires exactly one variant'')
         else union_variants P name values variants)"

text \<open>Scalar members.\<close>

definition string_from_py :: "pyo3 \<Rightarrow> pyval \<Rightarrow> string pyresult" where
  "string_from_py P value = extract_string P value"

definition i32_from_py :: "pyo3 \<Rightarrow> pyval \<Rightarrow> 32 word pyresult" where
  "i32_from_py P value = extract_i32 P value"

definition i64_from_py :: "pyo3 \<Rightarrow> pyval \<Rightarrow> 64 word pyresult" where
  "i64_from_py P value = extract_i64 P value"

text \<open>An enum of the SDK is its text: \<open>from\<close> keeps what \<open>as_str\<close> gives, known or not.\<close>

definition enum_from_py :: "pyo3 \<Rightarrow> pyval \<Rightarrow> string pyresult" where
  "enum_from_py P value = extract_string P value"

definition blob_from_py :: "pyo3 \<Rightarrow> pyval \<Rightarrow> byte list pyresult" where
  "blob_from_py P value = extract_bytes P value"

definition bool_from_py :: "pyo3 \<Rightarrow> pyval \<Rightarrow> bool pyresult" where
  "bool_from_py P value = extract_bool P value"

section \<open>Writing\<close>

definition opt_to_py :: "('a \<Rightarrow> pyval) \<Rightarrow> 'a option \<Rightarrow> pyval" where
  "opt_to_py f v = (case v of None \<Rightarrow> PyNone | Some x \<Rightarrow> f x)"

definition i32_to_py :: "32 word \<Rightarrow> pyval" where
  "i32_to_py n = PyInt (sint n)"

definition i64_to_py :: "64 word \<Rightarrow> pyval" where
  "i64_to_py n = PyInt (sint n)"

definition seq_to_py :: "('a \<Rightarrow> pyval) \<Rightarrow> 'a list \<Rightarrow> pyval" where
  "seq_to_py f xs = PyList (map f xs)"

lemma opt_to_py_simps [simp]:
  "opt_to_py f None = PyNone"
  "opt_to_py f (Some x) = f x"
  by (simp_all add: opt_to_py_def)

text \<open>
  A \<open>HashMap\<close> is rendered in the order its iterator yields the entries. The iterator is an
  argument; what is known of it is that it yields each entry once.
\<close>

definition iterates :: "((string, 'a) fmap \<Rightarrow> (string \<times> 'a) list) \<Rightarrow> bool" where
  "iterates enum \<longleftrightarrow> (\<forall>m. distinct (map fst (enum m)) \<and> map_of (enum m) = fmlookup m)"

definition map_to_py :: "((string, pyval) fmap \<Rightarrow> (string \<times> pyval) list) \<Rightarrow> (string, pyval) fmap \<Rightarrow> pyval" where
  "map_to_py enum m = PyDict (py_dict (enum m))"

text \<open>One such order: by key.\<close>

definition by_key :: "(string, 'a) fmap \<Rightarrow> (string \<times> 'a) list" where
  "by_key m = map (\<lambda>k. (k, the (fmlookup m k))) (sorted_list_of_set (fset (fmdom m)))"

lemma iterates_by_key: "iterates by_key"
proof -
  have "map_of (by_key m) k = fmlookup m k" for m :: "(string, 'a) fmap" and k
  proof -
    have "map_of (by_key m) k =
        (if k \<in> fset (fmdom m) then Some (the (fmlookup m k)) else None)"
      by (simp add: by_key_def map_of_map_restrict restrict_map_def)
    then show ?thesis by (auto simp: fmlookup_dom_iff)
  qed
  then show ?thesis by (auto simp: iterates_def by_key_def comp_def)
qed

section \<open>The readers on well-formed input\<close>

context pyo3_laws
begin

lemma dict_value_eq:
  "str_keys d \<Longrightarrow> dict_value P d k =
     Inr (case map_of d (PyStr k) of None \<Rightarrow> None | Some w \<Rightarrow> (if w = PyNone then None else Some w))"
  by (simp add: dict_value_def get_item_ok)

lemma member_absent:
  "str_keys d \<Longrightarrow> map_of d (PyStr k) \<in> {None, Some PyNone} \<Longrightarrow> member P d k x conv = Inr None"
  by (auto simp: member_def dict_value_eq)

lemma member_present:
  "str_keys d \<Longrightarrow> map_of d (PyStr k) = Some v \<Longrightarrow> v \<noteq> PyNone \<Longrightarrow>
   member P d k x conv = map_ok Some (map_err (\<lambda>e. input_error e (Field k) x) (conv v))"
  by (simp add: member_def dict_value_eq)

lemma member_opt:
  assumes "str_keys d" and "map_of d (PyStr k) = Some (opt_to_py f v)"
    and "\<And>y. v = Some y \<Longrightarrow> f y \<noteq> PyNone \<and> conv (f y) = Inr y"
  shows "member P d k x conv = Inr v"
  using assms by (cases v) (simp_all add: member_absent member_present)

lemma member_req:
  assumes "str_keys d" and "map_of d (PyStr k) = Some (f y)" and "f y \<noteq> PyNone"
    and "conv (f y) = Inr y"
  shows "member P d k x conv = Inr (Some y)"
  using assms by (simp add: member_present)

lemma op_param_absent:
  "str_keys d \<Longrightarrow> map_of d (PyStr k) \<in> {None, Some PyNone} \<Longrightarrow> op_param P s op' d k x conv = Inr None"
  by (auto simp: op_param_def dict_value_eq)

lemma op_param_present:
  "str_keys d \<Longrightarrow> map_of d (PyStr k) = Some v \<Longrightarrow> v \<noteq> PyNone \<Longrightarrow>
   op_param P s op' d k x conv =
     map_ok Some (map_err (\<lambda>e. input_operation (input_error e (Field k) x) s op') (conv v))"
  by (simp add: op_param_def dict_value_eq)

lemma op_param_opt:
  assumes "str_keys d" and "map_of d (PyStr k) = Some (opt_to_py f v)"
    and "\<And>y. v = Some y \<Longrightarrow> f y \<noteq> PyNone \<and> conv (f y) = Inr y"
  shows "op_param P s op' d k x conv = Inr v"
  using assms by (cases v) (simp_all add: op_param_absent op_param_present)

lemma string_roundtrip: "string_from_py P (PyStr s) = Inr s"
  by (simp add: string_from_py_def string_ok)

lemma blob_roundtrip: "blob_from_py P (PyBytes b) = Inr b"
  by (simp add: blob_from_py_def bytes_ok)

lemma bool_roundtrip: "bool_from_py P (PyBool b) = Inr b"
  by (simp add: bool_from_py_def bool_ok)

lemma i32_roundtrip: "i32_from_py P (i32_to_py n) = Inr n"
proof -
  have "- (2 ^ 31) \<le> sint n" and "sint n < 2 ^ 31"
    using sint_ge [of n] sint_lt [of n] by simp_all
  then show ?thesis by (simp add: i32_from_py_def i32_to_py_def i32_ok)
qed

lemma i64_roundtrip: "i64_from_py P (i64_to_py n) = Inr n"
proof -
  have "- (2 ^ 63) \<le> sint n" and "sint n < 2 ^ 63"
    using sint_ge [of n] sint_lt [of n] by simp_all
  then show ?thesis by (simp add: i64_from_py_def i64_to_py_def i64_ok)
qed

lemma enum_roundtrip: "enum_from_py P (PyStr s) = Inr s"
  by (simp add: enum_from_py_def string_ok)

lemma seq_item_eq: "seq_item x conv i (Inr v) = map_err (\<lambda>e. input_error e (Index i) x) (conv v)"
  by (simp add: seq_item_def)

lemma seq_roundtrip:
  assumes "\<And>y. y \<in> set xs \<Longrightarrow> conv (f y) = Inr y"
  shows "seq_from_py P x conv (seq_to_py f xs) = Inr xs"
proof -
  have "traverse 0 (seq_item x conv) (map (\<lambda>y. Inr (f y)) xs) = Inr (map (\<lambda>y. y) xs)"
    using assms by (intro traverse_all) (simp add: seq_item_eq)
  then show ?thesis by (simp add: seq_from_py_def seq_to_py_def iter_list comp_def)
qed

text \<open>The first item a converter rejects is reported at its index.\<close>

lemma seq_first_error:
  assumes "k < length vs" and "conv (vs ! k) = Inl e" and "\<forall>j < k. \<exists>y. conv (vs ! j) = Inr y"
  shows "seq_from_py P x conv (PyList vs) = Inl (input_error e (Index k) x)"
proof -
  have "traverse 0 (seq_item x conv) (map Inr vs) = Inl (input_error e (Index k) x)"
    unfolding traverse_error_iff using assms
    by (intro exI [of _ k]) (auto simp: seq_item_eq)
  then show ?thesis by (simp add: seq_from_py_def iter_list)
qed

lemma map_entry_eq:
  "conv v = Inr y \<Longrightarrow> map_entry P kx x conv i (PyStr k, v) = Inr (k, y)"
  by (simp add: map_entry_def string_ok)

lemma map_roundtrip:
  assumes "iterates enum" and "\<And>y. y \<in> fmran' m \<Longrightarrow> conv (f y) = Inr y"
  shows "map_from_py P kx x conv (map_to_py enum (fmmap f m)) = Inr m"
proof -
  let ?es = "enum (fmmap f m)"
  have d: "distinct (map fst ?es)" and lk: "map_of ?es = fmlookup (fmmap f m)"
    using assms(1) by (simp_all add: iterates_def)
  have "\<exists>y. fmlookup m k = Some y \<and> v = f y" if "(k, v) \<in> set ?es" for k v
  proof -
    have "map_of ?es k = Some v" using d that by simp
    then show ?thesis unfolding lk by auto
  qed
  then have entry: "map_entry P kx x conv i (PyStr (fst kv), snd kv) = Inr (fst kv, the (fmlookup m (fst kv)))"
    if "kv \<in> set ?es" for kv i
    using that assms(2) by (cases kv) (fastforce simp: map_entry_eq fmran'I)
  let ?g = "\<lambda>kv. (fst kv, the (fmlookup m (fst kv)))"
  have "traverse 0 (map_entry P kx x conv) (map (\<lambda>kv. (PyStr (fst kv), snd kv)) ?es) = Inr (map ?g ?es)"
    using entry by (intro traverse_all) simp
  moreover have "hash_map (map ?g ?es) = m"
  proof (rule fmap_ext)
    fix k
    have dd: "distinct (map fst (map ?g ?es))" using d by (simp add: comp_def)
    have "fmlookup (hash_map (map ?g ?es)) k = map_of (map ?g ?es) k"
      unfolding hash_map_def fmlookup_of_list distinct_map_of_rev [OF dd] ..
    also have "\<dots> = fmlookup m k"
    proof (cases "fmlookup m k")
      case None
      then have "map_of ?es k = None" by (simp add: lk)
      then show ?thesis using None by (force simp: map_of_eq_None_iff)
    next
      case (Some y)
      then have "map_of ?es k = Some (f y)" by (simp add: lk)
      then have "(k, f y) \<in> set ?es" by (rule map_of_SomeD)
      then have "(k, y) \<in> set (map ?g ?es)" using Some by force
      then show ?thesis using dd Some by (simp del: set_map)
    qed
    finally show "fmlookup (hash_map (map ?g ?es)) k = fmlookup m k" .
  qed
  ultimately show ?thesis
    using d by (simp add: map_from_py_def map_to_py_def dict_ok py_dict_distinct case_prod_unfold)
qed

text \<open>A union picks the variant its only key names, or none.\<close>

lemma union_variants_hit:
  "key \<notin> fst ` set pre \<Longrightarrow> v \<noteq> PyNone \<Longrightarrow>
   union_variants P name [(PyStr key, v)] (pre @ (key, x, conv) # post) =
     map_err (\<lambda>e. input_error e (Field key) x) (conv v)"
  by (induction pre) (auto simp: dict_value_eq)

lemma union_variants_miss:
  "v = PyNone \<or> key \<notin> fst ` set variants \<Longrightarrow>
   union_variants P name [(PyStr key, v)] variants =
     Inl (union_rule (name @ '' requires exactly one known variant''))"
  by (induction variants) (auto simp: dict_value_eq)

lemma union_hit:
  "key \<notin> fst ` set pre \<Longrightarrow> v \<noteq> PyNone \<Longrightarrow>
   union_from_py P name (pre @ (key, x, conv) # post) (PyDict [(PyStr key, v)]) =
     map_err (\<lambda>e. input_error e (Field key) x) (conv v)"
  by (simp add: union_from_py_def dict_ok union_variants_hit)

lemma union_miss:
  "v = PyNone \<or> key \<notin> fst ` set variants \<Longrightarrow>
   union_from_py P name variants (PyDict [(PyStr key, v)]) =
     Inl (union_rule (name @ '' requires exactly one known variant''))"
  by (simp add: union_from_py_def dict_ok union_variants_miss)

lemma union_count:
  "length d \<noteq> 1 \<Longrightarrow>
   union_from_py P name variants (PyDict d) = Inl (union_rule ''union requires exactly one variant'')"
  by (simp add: union_from_py_def dict_ok)

lemma union_not_dict:
  "\<not> is_dict v \<Longrightarrow> \<exists>e. union_from_py P name variants v = Inl e \<and> is_instance e ''TypeError''"
  using dict_type [of v] by (auto simp: union_from_py_def)

end

text \<open>What a union gives, one of its converters gave.\<close>

lemma union_variants_from:
  "union_variants P name values variants = Inr u \<Longrightarrow> \<exists>t v. t \<in> set variants \<and> snd (snd t) v = Inr u"
proof (induction variants)
  case (Cons t variants)
  obtain key x conv where t: "t = (key, x, conv)" by (cases t)
  from Cons.prems obtain w where w: "dict_value P values key = Inr w"
    and u: "(case w of Some value \<Rightarrow> map_err (\<lambda>e. input_error e (Field key) x) (conv value)
        | None \<Rightarrow> union_variants P name values variants) = Inr u"
    by (auto simp: t)
  show ?case
  proof (cases w)
    case None
    with u Cons.IH obtain t' v where "t' \<in> set variants" and "snd (snd t') v = Inr u" by auto
    then show ?thesis by (intro exI [of _ t'] exI [of _ v]) simp
  next
    case (Some v)
    with u have "snd (snd t) v = Inr u" by (simp add: t)
    then show ?thesis by (intro exI [of _ t] exI [of _ v]) simp
  qed
qed simp

lemma union_from:
  assumes "union_from_py P name variants value = Inr u"
  obtains t v where "t \<in> set variants" and "snd (snd t) v = Inr u"
proof -
  from assms obtain vs where "union_variants P name vs variants = Inr u"
    by (auto simp: union_from_py_def split: if_splits)
  from union_variants_from [OF this] that show thesis by blast
qed

text \<open>What a sequence or a mapping gives, its converter gave.\<close>

lemma traverse_from: "traverse i f xs = Inr ys \<Longrightarrow> y \<in> set ys \<Longrightarrow> \<exists>j x. f j x = Inr y"
proof (induction xs arbitrary: i ys)
  case (Cons x xs)
  from Cons.prems obtain z zs where "f i x = Inr z" and zs: "traverse (Suc i) f xs = Inr zs" and "ys = z # zs"
    by auto
  with Cons.prems(2) Cons.IH [OF zs] show ?case by auto
qed simp

lemma seq_from:
  "seq_from_py P x conv value = Inr ys \<Longrightarrow> y \<in> set ys \<Longrightarrow> \<exists>v. conv v = Inr y"
  by (auto simp: seq_from_py_def seq_item_def dest!: traverse_from)

lemma map_from:
  "map_from_py P kx x conv value = Inr m \<Longrightarrow> fmlookup m k = Some y \<Longrightarrow> \<exists>v. conv v = Inr y"
  by (auto simp: map_from_py_def map_entry_def hash_map_def fmlookup_of_list dest!: traverse_from map_of_SomeD)

end
