(* ===== verification/Document.thy ===== *)
theory Document
  imports Convert
begin

text \<open>
  Untyped JSON documents: \<open>crates/rboto-core/src/document.rs\<close>, the conversion between Python
  JSON values and the SDK's \<open>Document\<close>.
\<close>

section \<open>Definitions\<close>

text \<open>
  The SDK's \<open>Document\<close> and \<open>Number\<close> with the constructors the code matches on; an object's
  \<open>HashMap\<close> is a finite map.
\<close>

datatype number = PosInt "64 word" | NegInt "64 word" | Float f64

datatype document =
    Null
  | Bool bool
  | Number number
  | String string
  | Array "document list"
  | Object "(string, document) fmap"

definition max_depth :: nat where
  "max_depth = 128"

fun from_py :: "pyo3 \<Rightarrow> pyval \<Rightarrow> nat \<Rightarrow> document pyresult" where
  "from_py P value depth =
     (if max_depth < depth then
        Inl (input_error (value_error ''document exceeds 128 nesting levels'') Root
               ''JSONValue with at most 128 nesting levels'')
      else if value = PyNone then Inr Null
      else if is_bool value then map_ok Bool (extract_bool P value)
      else if is_int value then
        (case extract_i64 P value of
           Inr n \<Rightarrow> Inr (Number (NegInt n))
         | Inl _ \<Rightarrow> map_ok (\<lambda>n. Number (PosInt n))
             (map_err (\<lambda>error. input_error error Root ''64-bit JSON integer'') (extract_u64 P value)))
      else if is_float value then
        and_then (extract_f64 P value) (\<lambda>n.
          if \<not> is_finite n then
            Inl (input_error (value_error ''document numbers must be finite'') Root ''finite JSON number'')
          else Inr (Number (Float n)))
      else if is_str value then map_ok String (extract_string P value)
      else (case value of
          PyList values \<Rightarrow>
            map_ok Array
              (traverse 0 (\<lambda>index item.
                 map_err (\<lambda>error. input_error error (Index index) ''JSONValue'')
                   (from_py P item (Suc depth))) values)
        | PyDict values \<Rightarrow>
            map_ok (\<lambda>entries. Object (hash_map entries))
              (traverse 0 (\<lambda>index (key, item).
                 and_then
                   (map_err (\<lambda>error. input_error error (MapKey index) ''str'') (extract_string P key))
                   (\<lambda>k. and_then
                      (map_err (\<lambda>error. input_error error (MapValue index) ''JSONValue'')
                        (from_py P item (Suc depth)))
                      (\<lambda>v. Inr (k, v)))) values)
        | _ \<Rightarrow>
            Inl (input_rule (type_error ''document requires JSON values'') Root
                   ''JSONValue (null, bool, int, float, str, list or dict)'' (Some ''type''))))"

declare from_py.simps [simp del]

definition document_from_py :: "pyo3 \<Rightarrow> pyval \<Rightarrow> document pyresult" where
  "document_from_py P value = from_py P value 0"

fun number_to_py :: "number \<Rightarrow> pyval" where
  "number_to_py (PosInt n) = PyInt (uint n)"
| "number_to_py (NegInt n) = PyInt (sint n)"
| "number_to_py (Float x) = PyFloat x"

primrec document_to_py :: "((string, pyval) fmap \<Rightarrow> (string \<times> pyval) list) \<Rightarrow> document \<Rightarrow> pyval" where
  "document_to_py enum Null = PyNone"
| "document_to_py enum (Bool b) = PyBool b"
| "document_to_py enum (String s) = PyStr s"
| "document_to_py enum (Number n) = number_to_py n"
| "document_to_py enum (Array values) = PyList (map (document_to_py enum) values)"
| "document_to_py enum (Object values) = PyDict (py_dict (enum (fmmap (document_to_py enum) values)))"

section \<open>Well-formedness\<close>

text \<open>\<open>fits d n\<close>: at most \<open>n\<close> levels of arrays and objects lie below the root of \<open>d\<close>.\<close>

primrec fits :: "document \<Rightarrow> nat \<Rightarrow> bool" where
  "fits Null n = True"
| "fits (Bool b) n = True"
| "fits (Number x) n = True"
| "fits (String s) n = True"
| "fits (Array values) n = (values = [] \<or> (0 < n \<and> list_all (\<lambda>f. f (n - 1)) (map fits values)))"
| "fits (Object values) n =
     (values = fmempty \<or> (0 < n \<and> fmpred (\<lambda>k f. f (n - 1)) (fmmap fits values)))"

text \<open>
  The documents the converter builds: a positive number is a \<open>PosInt\<close> only when it does not
  fit a signed 64-bit integer, and floats are finite.
\<close>

fun canonical_number :: "number \<Rightarrow> bool" where
  "canonical_number (PosInt n) = (2 ^ 63 \<le> uint n)"
| "canonical_number (NegInt n) = True"
| "canonical_number (Float x) = is_finite x"

primrec canonical :: "document \<Rightarrow> bool" where
  "canonical Null = True"
| "canonical (Bool b) = True"
| "canonical (Number x) = canonical_number x"
| "canonical (String s) = True"
| "canonical (Array values) = list_all id (map canonical values)"
| "canonical (Object values) = fmpred (\<lambda>k b. b) (fmmap canonical values)"

text \<open>The Python values that are JSON documents of at most \<open>n\<close> levels below the root.\<close>

fun json_value :: "nat \<Rightarrow> pyval \<Rightarrow> bool" where
  "json_value n PyNone = True"
| "json_value n (PyBool b) = True"
| "json_value n (PyInt i) = (- (2 ^ 63) \<le> i \<and> i < 2 ^ 64)"
| "json_value n (PyFloat x) = is_finite x"
| "json_value n (PyStr s) = True"
| "json_value n (PyList vs) = (vs = [] \<or> (0 < n \<and> (\<forall>v \<in> set vs. json_value (n - 1) v)))"
| "json_value n (PyDict d) =
     (d = [] \<or> (0 < n \<and> (\<forall>kv \<in> set d. is_str (fst kv) \<and> json_value (n - 1) (snd kv))))"
| "json_value n _ = False"

lemma fmpred_fmmap_iff: "fmpred (\<lambda>k b. Q b) (fmmap f m) \<longleftrightarrow> (\<forall>d \<in> fmran' m. Q (f d))"
  by (auto simp: fmpred_iff elim!: fmran'E intro: fmran'I)

lemma fits_Array [simp]:
  "fits (Array xs) n = (xs = [] \<or> (0 < n \<and> (\<forall>d \<in> set xs. fits d (n - 1))))"
  by (auto simp: list_all_iff)

lemma fits_Object [simp]:
  "fits (Object m) n = (m = fmempty \<or> (0 < n \<and> (\<forall>d \<in> fmran' m. fits d (n - 1))))"
  using fmpred_fmmap_iff [of "\<lambda>f. f (n - 1)" fits m] by simp

declare fits.simps(5,6) [simp del]

lemma canonical_Array [simp]: "canonical (Array xs) = (\<forall>d \<in> set xs. canonical d)"
  by (auto simp: list_all_iff)

lemma canonical_Object [simp]: "canonical (Object m) = (\<forall>d \<in> fmran' m. canonical d)"
  using fmpred_fmmap_iff [of "\<lambda>b. b" canonical m] by simp

declare canonical.simps(5,6) [simp del]

section \<open>The converter on each kind of value\<close>

lemma from_py_too_deep:
  "max_depth < depth \<Longrightarrow> from_py P v depth =
     Inl (input_error (value_error ''document exceeds 128 nesting levels'') Root
            ''JSONValue with at most 128 nesting levels'')"
  by (subst from_py.simps) simp

context pyo3_laws
begin

lemma from_py_scalar:
  assumes "depth \<le> max_depth"
  shows "from_py P PyNone depth = Inr Null"
    and "from_py P (PyBool b) depth = Inr (Bool b)"
    and "from_py P (PyStr s) depth = Inr (String s)"
    and "is_finite x \<Longrightarrow> from_py P (PyFloat x) depth = Inr (Number (Float x))"
    and "- (2 ^ 63) \<le> i \<Longrightarrow> i < 2 ^ 63 \<Longrightarrow> from_py P (PyInt i) depth = Inr (Number (NegInt (word_of_int i)))"
    and "2 ^ 63 \<le> i \<Longrightarrow> i < 2 ^ 64 \<Longrightarrow> from_py P (PyInt i) depth = Inr (Number (PosInt (word_of_int i)))"
proof -
  show "from_py P PyNone depth = Inr Null" "from_py P (PyBool b) depth = Inr (Bool b)"
    "from_py P (PyStr s) depth = Inr (String s)"
    using assms by (subst from_py.simps, simp add: conv not_less)+
  show "is_finite x \<Longrightarrow> from_py P (PyFloat x) depth = Inr (Number (Float x))"
    using assms by (subst from_py.simps) (simp add: conv not_less)
  show "- (2 ^ 63) \<le> i \<Longrightarrow> i < 2 ^ 63 \<Longrightarrow> from_py P (PyInt i) depth = Inr (Number (NegInt (word_of_int i)))"
    using assms by (subst from_py.simps) (simp add: i64_ok not_less)
  show "2 ^ 63 \<le> i \<Longrightarrow> i < 2 ^ 64 \<Longrightarrow> from_py P (PyInt i) depth = Inr (Number (PosInt (word_of_int i)))"
    using assms i64_overflow [of i] by (subst from_py.simps) (auto simp: u64_ok not_less)
qed

lemma from_py_Int_range: "depth \<le> max_depth \<Longrightarrow> from_py P (PyInt i) depth = Inr d \<Longrightarrow> - (2 ^ 63) \<le> i \<and> i < 2 ^ 64"
  using i64_overflow [of i] u64_overflow [of i]
  by (subst (asm) from_py.simps) (cases "- (2 ^ 63) \<le> i"; cases "i < 2 ^ 64"; fastforce)

lemma from_py_Float_finite: "depth \<le> max_depth \<Longrightarrow> from_py P (PyFloat x) depth = Inr d \<Longrightarrow> is_finite x"
  by (subst (asm) from_py.simps) (auto simp: f64_ok split: if_splits)

lemma from_py_List:
  "depth \<le> max_depth \<Longrightarrow> from_py P (PyList vs) depth =
     map_ok Array (traverse 0 (\<lambda>i v. map_err (\<lambda>e. input_error e (Index i) ''JSONValue'')
       (from_py P v (Suc depth))) vs)"
  by (subst from_py.simps) simp

lemma from_py_Dict:
  assumes "depth \<le> max_depth"
  shows "from_py P (PyDict kvs) depth =
    map_ok Object (map_from_py P ''str'' ''JSONValue'' (\<lambda>v. from_py P v (Suc depth)) (PyDict kvs))"
proof -
  let ?f = "\<lambda>index (key, item). and_then
     (map_err (\<lambda>error. input_error error (MapKey index) ''str'') (extract_string P key))
     (\<lambda>k. and_then (map_err (\<lambda>error. input_error error (MapValue index) ''JSONValue'')
        (from_py P item (Suc depth))) (\<lambda>v. Inr (k, v)))"
  have f: "?f = map_entry P ''str'' ''JSONValue'' (\<lambda>v. from_py P v (Suc depth))"
    by (auto simp: map_entry_def fun_eq_iff)
  have "from_py P (PyDict kvs) depth = map_ok (\<lambda>entries. Object (hash_map entries)) (traverse 0 ?f kvs)"
    using assms by (subst from_py.simps) simp
  also have "\<dots> = map_ok Object (map_ok hash_map (traverse 0 ?f kvs))"
    by (cases "traverse 0 ?f kvs") simp_all
  finally show ?thesis unfolding f by (simp add: map_from_py_def dict_ok)
qed

lemma from_py_other:
  "depth \<le> max_depth \<Longrightarrow> \<exists>e. from_py P (PyBytes b) depth = Inl e"
  "depth \<le> max_depth \<Longrightarrow> \<exists>e. from_py P (PyByteArray b) depth = Inl e"
  "depth \<le> max_depth \<Longrightarrow> \<exists>e. from_py P (PyTuple vs) depth = Inl e"
  "depth \<le> max_depth \<Longrightarrow> \<exists>e. from_py P (PyObject c n) depth = Inl e"
  by (simp_all add: from_py.simps [of P "PyBytes b"] from_py.simps [of P "PyByteArray b"]
      from_py.simps [of P "PyTuple vs"] from_py.simps [of P "PyObject c n"] not_less)

lemma string_key_iff: "(\<exists>s. extract_string P k = Inr s) \<longleftrightarrow> is_str k"
  using string_ok string_type [of k] by (cases k) fastforce+

text \<open>Which values are accepted.\<close>

lemma from_py_accepts:
  "depth \<le> max_depth \<Longrightarrow> (\<exists>d. from_py P v depth = Inr d) \<longleftrightarrow> json_value (max_depth - depth) v"
proof (induction v arbitrary: depth rule: measure_induct_rule [of size])
  case (less v)
  have deeper: "(\<exists>d. from_py P w (Suc depth) = Inr d) \<longleftrightarrow>
      depth < max_depth \<and> json_value (max_depth - depth - 1) w" if "size w < size v" for w
  proof (cases "depth < max_depth")
    case True
    then show ?thesis using less.IH [OF that, of "Suc depth"] by simp
  next
    case False
    then show ?thesis by (simp add: from_py_too_deep)
  qed
  show ?case
  proof (cases v)
    case (PyInt i)
    then show ?thesis
      using from_py_scalar(5,6) [OF less.prems, of i] from_py_Int_range [OF less.prems, of i]
      by (cases "i < 2 ^ 63") auto
  next
    case (PyFloat x)
    then show ?thesis
      using from_py_scalar(4) [OF less.prems, of x] from_py_Float_finite [OF less.prems, of x] by auto
  next
    case (PyList vs)
    have "(\<exists>ds. traverse 0 (\<lambda>i v. map_err (\<lambda>e. input_error e (Index i) ''JSONValue'')
        (from_py P v (Suc depth))) vs = Inr ds) \<longleftrightarrow>
      (\<forall>w \<in> set vs. depth < max_depth \<and> json_value (max_depth - depth - 1) w)"
    proof (rule traverse_ok_iff)
      fix i w assume "w \<in> set vs"
      then have "size w < size v" by (simp add: PyList size_list_estimation' less_Suc_eq_le)
      from deeper [OF this]
      show "(\<exists>y. map_err (\<lambda>e. input_error e (Index i) ''JSONValue'') (from_py P w (Suc depth)) = Inr y) \<longleftrightarrow>
        depth < max_depth \<and> json_value (max_depth - depth - 1) w" by simp
    qed
    then show ?thesis by (cases vs) (auto simp: PyList from_py_List [OF less.prems])
  next
    case (PyDict kvs)
    have "(\<exists>es. traverse 0 (map_entry P ''str'' ''JSONValue'' (\<lambda>v. from_py P v (Suc depth))) kvs = Inr es) \<longleftrightarrow>
      (\<forall>kv \<in> set kvs. is_str (fst kv) \<and> depth < max_depth \<and> json_value (max_depth - depth - 1) (snd kv))"
    proof (rule traverse_ok_iff)
      fix i kv assume kv: "kv \<in> set kvs"
      then have "size (snd kv) < size v"
        unfolding PyDict by (induction kvs) (auto simp: less_Suc_eq_le)
      from deeper [OF this] string_key_iff [of "fst kv"]
      show "(\<exists>y. map_entry P ''str'' ''JSONValue'' (\<lambda>v. from_py P v (Suc depth)) i kv = Inr y) \<longleftrightarrow>
        is_str (fst kv) \<and> depth < max_depth \<and> json_value (max_depth - depth - 1) (snd kv)"
        by (auto simp: map_entry_def)
    qed
    then show ?thesis
      by (cases kvs) (auto simp: PyDict from_py_Dict [OF less.prems] map_from_py_def dict_ok)
  next
    case (PyBytes b)
    then show ?thesis using from_py_other(1) [OF less.prems, of b] by auto
  next
    case (PyByteArray b)
    then show ?thesis using from_py_other(2) [OF less.prems, of b] by auto
  next
    case (PyTuple vs)
    then show ?thesis using from_py_other(3) [OF less.prems, of vs] by auto
  next
    case (PyObject c n)
    then show ?thesis using from_py_other(4) [OF less.prems, of c n] by auto
  qed (simp_all add: from_py_scalar(1-3) [OF less.prems])
qed

text \<open>What the converter builds is canonical and within the nesting limit.\<close>

lemma from_py_canonical:
  "from_py P v depth = Inr d \<Longrightarrow> depth \<le> max_depth \<and> canonical d \<and> fits d (max_depth - depth)"
proof (induction v arbitrary: depth d rule: measure_induct_rule [of size])
  case (less v)
  have dm: "depth \<le> max_depth"
    using less.prems from_py_too_deep [of depth P v] by (cases "max_depth < depth") auto
  have deeper: "depth < max_depth \<and> canonical e \<and> fits e (max_depth - depth - 1)"
    if "from_py P w (Suc depth) = Inr e" "size w < size v" for w e
    using less.IH [OF that(2,1)] by (auto simp: Suc_le_eq)
  show ?case
  proof (cases v)
    case (PyInt i)
    have r: "- (2 ^ 63) \<le> i \<and> i < 2 ^ 64"
      using less.prems from_py_Int_range [OF dm, of i d] PyInt by simp
    show ?thesis
    proof (cases "i < 2 ^ 63")
      case True
      then have "d = Number (NegInt (word_of_int i))"
        using less.prems r from_py_scalar(5) [OF dm, of i] PyInt by simp
      then show ?thesis using dm by simp
    next
      case False
      then have "d = Number (PosInt (word_of_int i))"
        using less.prems r from_py_scalar(6) [OF dm, of i] PyInt by simp
      then show ?thesis using dm False r by (simp add: uint_word_of_int)
    qed
  next
    case (PyFloat x)
    have "is_finite x" using less.prems from_py_Float_finite [OF dm, of x d] PyFloat by simp
    then show ?thesis using less.prems from_py_scalar(4) [OF dm, of x] PyFloat dm by auto
  next
    case (PyList vs)
    then obtain ds where ds: "d = Array ds" and t: "traverse 0 (\<lambda>i v. map_err (\<lambda>e. input_error e (Index i)
        ''JSONValue'') (from_py P v (Suc depth))) vs = Inr ds"
      using less.prems by (auto simp: from_py_List [OF dm])
    have each: "depth < max_depth \<and> canonical e \<and> fits e (max_depth - depth - 1)" if "e \<in> set ds" for e
    proof -
      from t that obtain w where "w \<in> set vs" "from_py P w (Suc depth) = Inr e"
        by (auto dest: traverse_set)
      moreover from this(1) have "size w < size v" by (simp add: PyList size_list_estimation' less_Suc_eq_le)
      ultimately show ?thesis using deeper by blast
    qed
    show ?thesis using dm each by (cases ds) (auto simp: ds)
  next
    case (PyDict kvs)
    then obtain es where ds: "d = Object (hash_map es)"
      and t: "traverse 0 (map_entry P ''str'' ''JSONValue'' (\<lambda>v. from_py P v (Suc depth))) kvs = Inr es"
      using less.prems by (auto simp: from_py_Dict [OF dm] map_from_py_def dict_ok)
    have each: "depth < max_depth \<and> canonical e \<and> fits e (max_depth - depth - 1)"
      if "e \<in> fmran' (hash_map es)" for e
    proof -
      from that obtain k where "(k, e) \<in> set es"
        by (auto simp: hash_map_def fmlookup_of_list elim!: fmran'E dest!: map_of_SomeD)
      with t obtain kv where "kv \<in> set kvs" "from_py P (snd kv) (Suc depth) = Inr e"
        by (fastforce simp: map_entry_def dest: traverse_set)
      moreover from this(1) have "size (snd kv) < size v"
        unfolding PyDict by (induction kvs) (auto simp: less_Suc_eq_le)
      ultimately show ?thesis using deeper by blast
    qed
    have "hash_map es = fmempty \<or> (\<exists>e. e \<in> fmran' (hash_map es))"
      by (metis fmempty_lookup fmap_ext fmran'I not_Some_eq)
    then show ?thesis using dm each by (auto simp: ds)
  next
    case (PyBytes b)
    then show ?thesis using from_py_other(1) [OF dm, of b] less.prems by auto
  next
    case (PyByteArray b)
    then show ?thesis using from_py_other(2) [OF dm, of b] less.prems by auto
  next
    case (PyTuple vs)
    then show ?thesis using from_py_other(3) [OF dm, of vs] less.prems by auto
  next
    case (PyObject c n)
    then show ?thesis using from_py_other(4) [OF dm, of c n] less.prems by auto
  qed (use less.prems dm from_py_scalar(1-3) [OF dm] in auto)
qed

text \<open>Reading back what was written.\<close>

lemma document_roundtrip:
  assumes enum: "iterates enum"
  shows "canonical d \<Longrightarrow> fits d (max_depth - depth) \<Longrightarrow> depth \<le> max_depth \<Longrightarrow>
    from_py P (document_to_py enum d) depth = Inr d"
proof (induction d arbitrary: depth)
  case Null
  then show ?case by (simp add: from_py_scalar)
next
  case (Bool b)
  then show ?case by (simp add: from_py_scalar)
next
  case (Number n)
  show ?case
  proof (cases n)
    case (PosInt w)
    have "uint w < 2 ^ 64" using unsigned_less [of w, where ?'a = int] by simp
    with PosInt show ?thesis using Number from_py_scalar(6) [of depth "uint w"] by simp
  next
    case (NegInt w)
    then show ?thesis
      using Number from_py_scalar(5) [of depth "sint w"] sint_ge [of w] sint_lt [of w] by simp
  next
    case (Float x)
    then show ?thesis using Number by (simp add: from_py_scalar)
  qed
next
  case (String s)
  then show ?case by (simp add: from_py_scalar)
next
  case (Array ds)
  have "traverse 0 (\<lambda>i v. map_err (\<lambda>e. input_error e (Index i) ''JSONValue'') (from_py P v (Suc depth)))
      (map (document_to_py enum) ds) = Inr (map (\<lambda>d. d) ds)"
    using Array by (intro traverse_all) (cases ds; force)
  then show ?case using Array.prems by (simp add: from_py_List)
next
  case (Object m)
  have "map_from_py P ''str'' ''JSONValue'' (\<lambda>v. from_py P v (Suc depth))
      (map_to_py enum (fmmap (document_to_py enum) m)) = Inr m"
  proof (rule map_roundtrip [OF enum])
    fix d assume d: "d \<in> fmran' m"
    then have "m \<noteq> fmempty" by (auto elim: fmran'E)
    then have "canonical d" "fits d (max_depth - Suc depth)" "Suc depth \<le> max_depth"
      using Object.prems d by auto
    with Object.IH [OF d] show "from_py P (document_to_py enum d) (Suc depth) = Inr d" by blast
  qed
  then show ?case using Object.prems by (simp add: from_py_Dict map_to_py_def)
qed

end

section \<open>Properties\<close>

text \<open>
  The conversion accepts exactly the JSON values: \<open>None\<close>, booleans, integers that fit
  a signed or an unsigned 64-bit word, finite floats, strings, and lists and string-keyed
  dictionaries of JSON values, nested at most 128 levels deep.
\<close>

lemma document_accepts_json:
  assumes "pyo3_laws P"
  shows "(\<exists>d. document_from_py P v = Inr d) \<longleftrightarrow> json_value 128 v"
  using pyo3_laws.from_py_accepts [OF assms, of 0 v]
  by (simp add: document_from_py_def max_depth_def)

text \<open>
  C6: the documents the converter can produce are the canonical ones (finite floats, a positive
  number stored unsigned only when it does not fit a signed word) nested at most 128 levels
  deep, and these are exactly the documents that survive \<open>document_to_py\<close> followed by
  \<open>document_from_py\<close>, in whatever order the hash map yields its entries.
\<close>

theorem document_roundtrip_iff:
  assumes "pyo3_laws P" and "iterates enum"
  shows "(document_from_py P (document_to_py enum d) = Inr d \<longleftrightarrow> canonical d \<and> fits d 128)
    \<and> (document_from_py P v = Inr d \<longrightarrow> document_from_py P (document_to_py enum d) = Inr d)"
proof -
  have "canonical d \<and> fits d 128" if "document_from_py P w = Inr d" for w
    using pyo3_laws.from_py_canonical [OF assms(1), of w 0 d] that
    by (simp add: document_from_py_def max_depth_def)
  moreover have "document_from_py P (document_to_py enum d) = Inr d" if "canonical d \<and> fits d 128"
    using pyo3_laws.document_roundtrip [OF assms, of d 0] that
    by (simp add: document_from_py_def max_depth_def)
  ultimately show ?thesis by blast
qed

theorem document_roundtrip_iff_witness:
  "document_from_py pyo3_std (document_to_py by_key (Array [Number (NegInt 5), Bool True]))
     = Inr (Array [Number (NegInt 5), Bool True])"
  using document_roundtrip_iff [OF std.pyo3_laws_axioms iterates_by_key,
      of "Array [Number (NegInt 5), Bool True]"] by simp

end
