(* ===== verification/ErrorMap.thy ===== *)
theory ErrorMap
  imports PyModel
begin

text \<open>
  From SDK failures to Python exceptions: \<open>crates/rboto-core/src/error.rs\<close> and
  \<open>raise_service_error\<close> / \<open>normalize_error_class\<close> of \<open>crates/rboto-core/src/lib.rs\<close>, with the
  constructor of \<open>ClientError\<close> (\<open>packages/rboto/src/rboto/exceptions.py\<close>) they call.

  A Rust error is its chain of causes: the error itself, its \<open>source()\<close>, the source of that
  and so on. A chain is finite because every error owns its source. The Python import system is
  the record \<open>py_modules\<close>, an argument of every function that raises.
\<close>

section \<open>Response metadata\<close>

record http_response =
  response_status :: "16 word"
  response_header :: "string \<Rightarrow> string option"

definition is_success :: "http_response \<Rightarrow> bool" where
  "is_success r \<longleftrightarrow> 200 \<le> unat (response_status r) \<and> unat (response_status r) < 300"

record response_metadata =
  md_status_code :: "16 word option"
  md_request_id :: "string option"
  md_extended_request_id :: "string option"
  md_retry_attempts :: "64 word option"

definition no_metadata :: response_metadata where
  "no_metadata = \<lparr>md_status_code = None, md_request_id = None, md_extended_request_id = None,
     md_retry_attempts = None\<rparr>"

definition is_ascii_graphic :: "char \<Rightarrow> bool" where
  "is_ascii_graphic c \<longleftrightarrow> 33 \<le> byte_of c \<and> byte_of c \<le> 126"

definition safe_id :: "string \<Rightarrow> string option" where
  "safe_id value =
     (if value \<noteq> [] \<and> length value \<le> 1024 \<and> list_all is_ascii_graphic value
      then Some value else None)"

fun find_map :: "('a \<Rightarrow> 'b option) \<Rightarrow> 'a list \<Rightarrow> 'b option" where
  "find_map f [] = None"
| "find_map f (x # xs) = (case f x of Some y \<Rightarrow> Some y | None \<Rightarrow> find_map f xs)"

definition request_id_headers :: "string list" where
  "request_id_headers = [''x-amzn-requestid'', ''x-amz-request-id'', ''x-amzn-request-id'']"

definition from_response :: "http_response \<Rightarrow> response_metadata" where
  "from_response response =
     \<lparr>md_status_code = Some (response_status response),
      md_request_id = find_map (\<lambda>header. Option.bind (response_header response header) safe_id)
        request_id_headers,
      md_extended_request_id = Option.bind (response_header response ''x-amz-id-2'') safe_id,
      md_retry_attempts = None\<rparr>"

definition opt_py :: "('a \<Rightarrow> pyval) \<Rightarrow> 'a option \<Rightarrow> pyval" where
  "opt_py f v = (case v of None \<Rightarrow> PyNone | Some x \<Rightarrow> f x)"

definition metadata_to_py :: "response_metadata \<Rightarrow> pydict" where
  "metadata_to_py m = py_dict
     [(''HTTPStatusCode'', opt_py (\<lambda>n. PyInt (uint n)) (md_status_code m)),
      (''RequestId'', opt_py PyStr (md_request_id m)),
      (''HostId'', opt_py PyStr (md_extended_request_id m)),
      (''RetryAttempts'', opt_py (\<lambda>n. PyInt (uint n)) (md_retry_attempts m))]"

record stream_error_context =
  ctx_op :: string
  ctx_metadata :: response_metadata

section \<open>Raising Python exceptions\<close>

text \<open>
  A module is its attribute lookup; a class is its name with the names of the classes it
  inherits from. The two calls construct an instance from keyword arguments and from one
  message, and \<open>PyErr::from_value\<close> wraps it.
\<close>

type_synonym pyclass = "string \<times> string list"

record py_modules =
  py_import :: "string \<Rightarrow> (string \<Rightarrow> pyclass pyresult) pyresult"
  call_kwargs :: "pyclass \<Rightarrow> pydict \<Rightarrow> pyerr pyresult"
  call_message :: "pyclass \<Rightarrow> string \<Rightarrow> pyerr pyresult"

definition or_else :: "'e + 'a \<Rightarrow> 'f + 'a \<Rightarrow> 'f + 'a" where
  "or_else r s = (case r of Inl _ \<Rightarrow> s | Inr x \<Rightarrow> Inr x)"

lemma or_else_simps [simp]:
  "or_else (Inl e) s = s" "or_else (Inr x) s = Inr x"
  by (simp_all add: or_else_def)

definition normalize_error_class :: "string \<Rightarrow> string" where
  "normalize_error_class error_code =
     (let stem = (case strip_suffix ''Exception'' error_code of Some s \<Rightarrow> s | None \<Rightarrow> error_code);
          stem = (case strip_suffix ''Error'' stem of Some s \<Rightarrow> s | None \<Rightarrow> stem)
      in stem @ ''Error'')"

definition service_kwargs ::
    "string \<Rightarrow> string \<Rightarrow> string \<Rightarrow> string option \<Rightarrow> response_metadata \<Rightarrow> pydict" where
  "service_kwargs message error_code operation_name request_id metadata = py_dict
     [(''message'', PyStr message), (''error_code'', PyStr error_code),
      (''operation_name'', PyStr operation_name), (''request_id'', opt_py PyStr request_id),
      (''response_metadata'', PyDict (metadata_to_py metadata))]"

definition raise_service_error ::
    "py_modules \<Rightarrow> string \<Rightarrow> string \<Rightarrow> string \<Rightarrow> string \<Rightarrow> string \<Rightarrow> string option \<Rightarrow> response_metadata \<Rightarrow> pyerr" where
  "raise_service_error M exception_module service_base error_code message operation_name request_id metadata =
     (let class_name = normalize_error_class error_code;
          exception_class =
            or_else
              (and_then (py_import M exception_module)
                (\<lambda>module. or_else (module class_name) (module service_base)))
              (and_then (py_import M ''rboto.exceptions'') (\<lambda>module. module ''ClientError''))
      in case exception_class of
           Inl _ \<Rightarrow> runtime_error message
         | Inr cls \<Rightarrow>
             (case call_kwargs M cls (service_kwargs message error_code operation_name request_id metadata) of
                Inr inst \<Rightarrow> inst
              | Inl _ \<Rightarrow> runtime_error message))"

definition raise_core_error :: "py_modules \<Rightarrow> string \<Rightarrow> string \<Rightarrow> pyerr" where
  "raise_core_error M cls message =
     (case and_then (and_then (py_import M ''rboto.exceptions'') (\<lambda>module. module cls))
             (\<lambda>c. call_message M c message) of
        Inr inst \<Rightarrow> inst
      | Inl error \<Rightarrow> error)"

text \<open>\<open>ClientError.__init__\<close> called with the keyword arguments above.\<close>

definition truthy :: "pyval \<Rightarrow> bool" where
  "truthy v \<longleftrightarrow> v \<noteq> PyNone \<and> v \<noteq> PyStr []"

definition client_error_init :: "pyclass \<Rightarrow> string \<Rightarrow> string \<Rightarrow> pyval \<Rightarrow> string \<Rightarrow> pydict \<Rightarrow> pyerr" where
  "client_error_init cls message error_code request_id operation_name response_metadata =
     (let from_metadata = (case map_of response_metadata (PyStr ''RequestId'') of Some v \<Rightarrow> v | None \<Rightarrow> PyNone);
          request_id = (if truthy request_id then request_id else from_metadata);
          response_metadata = set_item (PyStr ''RequestId'') request_id response_metadata
      in (new_err (fst cls) (snd cls) message)
           \<lparr>err_attrs := Some \<lparr>ce_message = message, ce_error_code = error_code,
              ce_request_id = request_id, ce_operation_name = operation_name,
              ce_response_metadata = response_metadata, ce_details = []\<rparr>\<rparr>)"

section \<open>Classifying causes\<close>

datatype io_kind = TimedOut | ConnectionReset | ConnectionAborted | BrokenPipe | UnexpectedEof
  | NotConnected | ConnectionRefused | OtherIo

datatype connector_kind = ConnectorTimeout | ConnectorUser | ConnectorIo | ConnectorOther

text \<open>
  The error types the code downcasts to, with what it asks of them; \<open>COther\<close> is any other
  type, with the text it would print.
\<close>

datatype cause =
    CTimedOutError
  | CElapsed
  | CIo io_kind
  | CConnector connector_kind
  | CHyper (hyper_timeout: bool) (hyper_parse: bool)
  | CCredentials
  | CToken
  | CPyErr pyerr
  | COther string

definition causes :: "cause list \<Rightarrow> cause list" where
  "causes chain = take 64 chain"

fun timeout_cause :: "cause \<Rightarrow> bool" where
  "timeout_cause CTimedOutError = True"
| "timeout_cause CElapsed = True"
| "timeout_cause (CIo kind) = (kind = TimedOut)"
| "timeout_cause (CConnector kind) = (kind = ConnectorTimeout)"
| "timeout_cause (CHyper t p) = t"
| "timeout_cause _ = False"

definition is_timeout :: "cause list \<Rightarrow> bool" where
  "is_timeout chain = list_ex timeout_cause (causes chain)"

fun connection_cause :: "cause \<Rightarrow> bool" where
  "connection_cause (CIo kind) = (kind \<in> {ConnectionReset, ConnectionAborted, BrokenPipe,
     UnexpectedEof, NotConnected, ConnectionRefused})"
| "connection_cause (CHyper t p) = (\<not> p)"
| "connection_cause (CConnector kind) = (kind = ConnectorIo)"
| "connection_cause _ = False"

definition stream_failure_class :: "cause list \<Rightarrow> string" where
  "stream_failure_class chain =
     (if is_timeout chain then ''TimeoutError''
      else if list_ex connection_cause (causes chain) then ''ConnectionError''
      else ''ResponseError'')"

fun as_py_err :: "cause \<Rightarrow> pyerr option" where
  "as_py_err (CPyErr e) = Some e"
| "as_py_err _ = None"

definition stream_message :: "string \<Rightarrow> string" where
  "stream_message cls =
     (if cls = ''TimeoutError'' then ''Response stream timed out''
      else if cls = ''ConnectionError'' then ''Connection failed while reading the response stream''
      else ''Could not decode or validate the response stream'')"

definition stream_error_to_py :: "py_modules \<Rightarrow> cause list \<Rightarrow> stream_error_context \<Rightarrow> pyerr" where
  "stream_error_to_py M error context =
     (case find_map as_py_err (causes error) of
        Some original \<Rightarrow> original
      | None \<Rightarrow>
          (let cls = stream_failure_class error
           in raise_service_error M ''rboto.exceptions'' cls cls (stream_message cls)
                (ctx_op context) (md_request_id (ctx_metadata context)) (ctx_metadata context)))"

text \<open>\<open>credentials_failure\<close> walks the whole chain.\<close>

fun credentials_failure :: "cause list \<Rightarrow> bool" where
  "credentials_failure [] = False"
| "credentials_failure (c # chain) = (c = CCredentials \<or> c = CToken \<or> credentials_failure chain)"

section \<open>SDK errors\<close>

text \<open>
  \<open>SdkError<E, R>\<close>: the sources of each variant as a chain and the raw response of the two
  variants that have one. A dispatch failure's source is the connector error. The enum is
  non-exhaustive, so \<open>OtherFailure\<close> stands for a variant added later.
\<close>

record 'e service_error =
  svc_code :: "string option"
  svc_message :: "string option"
  svc_extra_request_id :: "string option"
  svc_shape :: 'e

datatype ('e, 'r) sdk_error =
    ConstructionFailure "cause list"
  | TimeoutError "cause list"
  | DispatchFailure connector_kind "cause list"
  | ResponseError "cause list" 'r
  | ServiceError "'e service_error" 'r
  | OtherFailure "cause list"

fun as_service_error :: "('e, 'r) sdk_error \<Rightarrow> 'e service_error option" where
  "as_service_error (ServiceError e r) = Some e"
| "as_service_error _ = None"

fun raw_response :: "('e, 'r) sdk_error \<Rightarrow> 'r option" where
  "raw_response (ServiceError e r) = Some r"
| "raw_response (ResponseError c r) = Some r"
| "raw_response _ = None"

text \<open>The chain of causes of the error itself.\<close>

definition response_chain :: "cause list \<Rightarrow> cause list" where
  "response_chain c = COther ''response error'' # c"

fun sdk_chain :: "('e, 'r) sdk_error \<Rightarrow> cause list" where
  "sdk_chain (ConstructionFailure c) = COther ''construction failure'' # c"
| "sdk_chain (TimeoutError c) = COther ''timeout error'' # c"
| "sdk_chain (DispatchFailure k c) = COther ''dispatch failure'' # CConnector k # c"
| "sdk_chain (ResponseError c r) = response_chain c"
| "sdk_chain (ServiceError e r) = COther ''service error'' # COther ''service'' # []"
| "sdk_chain (OtherFailure c) = COther ''other failure'' # c"

fun python_error_source :: "('e, 'r) sdk_error \<Rightarrow> pyerr option" where
  "python_error_source (DispatchFailure k c) = find_map as_py_err (CConnector k # c)"
| "python_error_source _ = None"

definition or_opt :: "'a option \<Rightarrow> 'a option \<Rightarrow> 'a option" where
  "or_opt a b = (case a of Some x \<Rightarrow> Some x | None \<Rightarrow> b)"

definition unwrap_or :: "'a \<Rightarrow> 'a option \<Rightarrow> 'a" where
  "unwrap_or d a = (case a of Some x \<Rightarrow> x | None \<Rightarrow> d)"

text \<open>The last \<open>match\<close> of \<open>sdk_error_to_py\<close>; \<open>None\<close> is its early return.\<close>

fun failure_class :: "('e, 'r) sdk_error \<Rightarrow> (string \<times> string) option" where
  "failure_class (TimeoutError c) = Some (''TimeoutError'', ''Operation timed out'')"
| "failure_class (DispatchFailure k c) =
     (if k = ConnectorTimeout \<or> is_timeout (CConnector k # c)
      then Some (''TimeoutError'', ''Connection or request timed out'')
      else Some (''ConnectionError'',
        ''Could not connect to the service; check the endpoint, proxy, TLS trust and network''))"
| "failure_class (ConstructionFailure c) = None"
| "failure_class (ResponseError c r) =
     (if is_timeout (response_chain c) then Some (''TimeoutError'', ''Response timed out'')
      else if stream_failure_class (response_chain c) = ''ConnectionError''
      then Some (''ConnectionError'', ''Connection failed while reading the service response'')
      else Some (''ResponseError'', ''Could not decode the service response''))"
| "failure_class _ = Some (''ClientError'', ''Request failed'')"

definition sdk_error_to_py ::
    "py_modules \<Rightarrow> ('e, 'r) sdk_error \<Rightarrow> string \<Rightarrow> string \<Rightarrow> string \<Rightarrow> string option \<Rightarrow> string option \<Rightarrow>
     response_metadata \<Rightarrow> pyerr" where
  "sdk_error_to_py M error operation exception_module service_base fallback_code request_id metadata =
     (case as_service_error error of
        Some service \<Rightarrow>
          (let modeled_id = Option.bind (svc_extra_request_id service) safe_id;
               request_id = or_opt request_id modeled_id
           in raise_service_error M exception_module service_base
                (unwrap_or ''UnknownError'' (or_opt (svc_code service) fallback_code))
                (unwrap_or ''Service returned an error'' (svc_message service))
                operation request_id metadata)
      | None \<Rightarrow>
     (case python_error_source error of
        Some py_error \<Rightarrow> py_error
      | None \<Rightarrow>
     (if credentials_failure (sdk_chain error) then
        raise_core_error M ''CredentialsError''
          (''Credentials could not be loaded or refreshed for '' @ operation
            @ ''; check the configured credential source'')
      else (case failure_class error of
        None \<Rightarrow> raise_core_error M ''ConfigurationError''
          (''Could not construct '' @ operation
            @ ''; check client configuration and request parameters'')
      | Some (cls, message) \<Rightarrow>
          raise_service_error M ''rboto.exceptions'' cls cls message operation request_id metadata))))"

text \<open>The first lines of \<open>http_sdk_error_to_py\<close>: the response at hand replaces what was observed.\<close>

definition with_response :: "response_metadata \<Rightarrow> http_response option \<Rightarrow> response_metadata" where
  "with_response metadata response =
     (case response of
        Some response \<Rightarrow>
          (let current = from_response response
           in metadata\<lparr>md_status_code := md_status_code current,
                md_request_id := md_request_id current,
                md_extended_request_id := md_extended_request_id current\<rparr>)
      | None \<Rightarrow> metadata)"

definition http_sdk_error_to_py ::
    "py_modules \<Rightarrow> ('e, http_response) sdk_error \<Rightarrow> string \<Rightarrow> string \<Rightarrow> string \<Rightarrow> response_metadata \<Rightarrow> pyerr" where
  "http_sdk_error_to_py M error operation exception_module service_base metadata =
     (let response = raw_response error;
          metadata = with_response metadata response;
          request_id = md_request_id metadata
      in if (case response of Some r \<Rightarrow> is_success r | None \<Rightarrow> False)
           \<and> (case as_service_error error of Some service \<Rightarrow> svc_code service = None | None \<Rightarrow> False)
         then raise_service_error M ''rboto.exceptions'' ''ResponseError'' ''ResponseError''
                ''Could not decode the service response'' operation request_id metadata
         else sdk_error_to_py M error operation exception_module service_base None request_id metadata)"

section \<open>The exception classes of rboto\<close>

text \<open>\<open>rboto/exceptions.py\<close>: each class with the rboto classes it inherits from.\<close>

definition core_exceptions :: "pyclass list" where
  "core_exceptions =
     [(''RbotoError'', []),
      (''ClientError'', [''RbotoError'']),
      (''ServiceError'', [''ClientError'', ''RbotoError'']),
      (''ConfigurationError'', [''RbotoError'']),
      (''ClientClosedError'', [''RbotoError'']),
      (''StreamClosedError'', [''RbotoError'']),
      (''CredentialsError'', [''RbotoError'']),
      (''ConnectionError'', [''ClientError'', ''RbotoError'']),
      (''TimeoutError'', [''ConnectionError'', ''ClientError'', ''RbotoError'']),
      (''ResponseError'', [''ClientError'', ''RbotoError''])]"

definition core_bases :: "string \<Rightarrow> string list" where
  "core_bases c = unwrap_or [] (map_of core_exceptions c)"

definition is_client_class :: "pyclass \<Rightarrow> bool" where
  "is_client_class cls \<longleftrightarrow> ''ClientError'' \<in> set (fst cls # snd cls)
     \<and> ''RbotoError'' \<in> set (snd cls)"

text \<open>
  What the code relies on of the import system: \<open>rboto.exceptions\<close> can be imported and has its
  classes, and calling a class runs its constructor.
\<close>

locale rboto_modules =
  fixes M :: py_modules
  assumes core_module: "\<exists>m. py_import M ''rboto.exceptions'' = Inr m
      \<and> (\<forall>cls \<in> set core_exceptions. m (fst cls) = Inr cls)"
    and client_call: "is_client_class cls \<Longrightarrow>
      call_kwargs M cls (service_kwargs msg code op' rid md) =
        Inr (client_error_init cls msg code (opt_py PyStr rid) op' (metadata_to_py md))"
    and plain_call: "cls \<in> set core_exceptions \<Longrightarrow> \<not> is_client_class cls \<Longrightarrow>
      call_message M cls msg = Inr (new_err (fst cls) (snd cls) msg)"

text \<open>
  A concrete import system: a table of modules, each a table of classes; a class that does not
  inherit from \<open>ClientError\<close> takes one message.
\<close>

definition kwarg :: "pydict \<Rightarrow> string \<Rightarrow> pyval" where
  "kwarg kw k = unwrap_or PyNone (map_of kw (PyStr k))"

definition str_of :: "pyval \<Rightarrow> string" where
  "str_of v = (case v of PyStr s \<Rightarrow> s | _ \<Rightarrow> [])"

definition dict_of :: "pyval \<Rightarrow> pydict" where
  "dict_of v = (case v of PyDict d \<Rightarrow> d | _ \<Rightarrow> [])"

definition table_modules :: "(string \<times> pyclass list) list \<Rightarrow> py_modules" where
  "table_modules table =
     \<lparr>py_import = (\<lambda>name. case map_of table name of
          None \<Rightarrow> Inl (new_err ''ModuleNotFoundError'' [''ImportError''] name)
        | Some classes \<Rightarrow> Inr (\<lambda>attr. case map_of classes attr of
              None \<Rightarrow> Inl (new_err ''AttributeError'' [] attr)
            | Some bases \<Rightarrow> Inr (attr, bases))),
      call_kwargs = (\<lambda>cls kw.
        if is_client_class cls then
          Inr (client_error_init cls (str_of (kwarg kw ''message'')) (str_of (kwarg kw ''error_code''))
            (kwarg kw ''request_id'') (str_of (kwarg kw ''operation_name''))
            (dict_of (kwarg kw ''response_metadata'')))
        else Inl (type_error ''takes no keyword arguments'')),
      call_message = (\<lambda>cls msg. Inr (new_err (fst cls) (snd cls) msg))\<rparr>"

definition std_modules :: "(string \<times> pyclass list) list \<Rightarrow> py_modules" where
  "std_modules services = table_modules ((''rboto.exceptions'', core_exceptions) # services)"

lemma core_exceptions_lookup: "cls \<in> set core_exceptions \<Longrightarrow> map_of core_exceptions (fst cls) = Some (snd cls)"
proof -
  have "distinct (map fst core_exceptions)" by (simp add: core_exceptions_def)
  then show "cls \<in> set core_exceptions \<Longrightarrow> map_of core_exceptions (fst cls) = Some (snd cls)"
    by (intro map_of_is_SomeI) simp_all
qed

lemma py_dict_distinct_keys:
  "distinct (map fst kvs) \<Longrightarrow> map_of (py_dict kvs) (PyStr a) = map_of kvs a"
  by (simp add: map_of_py_dict distinct_map_of_rev)

interpretation std_mods: rboto_modules "std_modules services" for services
proof
  show "\<exists>m. py_import (std_modules services) ''rboto.exceptions'' = Inr m
      \<and> (\<forall>cls \<in> set core_exceptions. m (fst cls) = Inr cls)"
    by (auto simp: std_modules_def table_modules_def core_exceptions_lookup)
  show "is_client_class cls \<Longrightarrow>
      call_kwargs (std_modules services) cls (service_kwargs msg code op' rid md) =
        Inr (client_error_init cls msg code (opt_py PyStr rid) op' (metadata_to_py md))"
    for cls msg code op' rid md
    by (simp add: std_modules_def table_modules_def service_kwargs_def kwarg_def str_of_def
        dict_of_def py_dict_distinct_keys unwrap_or_def)
  show "cls \<in> set core_exceptions \<Longrightarrow> \<not> is_client_class cls \<Longrightarrow>
      call_message (std_modules services) cls msg = Inr (new_err (fst cls) (snd cls) msg)" for cls msg
    by (simp add: std_modules_def table_modules_def)
qed

section \<open>Raising\<close>

text \<open>A service error takes the class of its code, the service's base class, or \<open>ClientError\<close>.\<close>

definition service_class :: "py_modules \<Rightarrow> string \<Rightarrow> string \<Rightarrow> string \<Rightarrow> pyclass" where
  "service_class M modname base code =
     (let fallback = (''ClientError'', [''RbotoError''])
      in case py_import M modname of
           Inl e \<Rightarrow> fallback
         | Inr m \<Rightarrow>
             (case m (normalize_error_class code) of
                Inr cls \<Rightarrow> cls
              | Inl e \<Rightarrow> (case m base of Inr cls \<Rightarrow> cls | Inl e \<Rightarrow> fallback)))"

context rboto_modules
begin

lemma import_core:
  obtains m where "py_import M ''rboto.exceptions'' = Inr m"
    and "\<And>cls. cls \<in> set core_exceptions \<Longrightarrow> m (fst cls) = Inr cls"
  using core_module by blast

lemma raise_client_error:
  assumes "cls \<in> {''ClientError'', ''ConnectionError'', ''TimeoutError'', ''ResponseError''}"
  shows "raise_service_error M ''rboto.exceptions'' cls cls msg op' rid md =
    client_error_init (cls, core_bases cls) msg cls (opt_py PyStr rid) op' (metadata_to_py md)"
proof -
  obtain m where m: "py_import M ''rboto.exceptions'' = Inr m"
    and cls: "\<And>c. c \<in> set core_exceptions \<Longrightarrow> m (fst c) = Inr c"
    by (rule import_core) blast
  have n: "normalize_error_class cls = cls" using assms
    by (auto simp: normalize_error_class_def strip_suffix_def)
  have mem: "(cls, core_bases cls) \<in> set core_exceptions"
    and cc: "is_client_class (cls, core_bases cls)"
    using assms by (elim insertE emptyE; simp add: core_exceptions_def core_bases_def unwrap_or_def is_client_class_def)+
  have "m cls = Inr (cls, core_bases cls)" using cls [OF mem] by simp
  with client_call [OF cc] show ?thesis
    by (simp add: raise_service_error_def m n)
qed

lemma raise_core:
  assumes "cls \<in> {''ConfigurationError'', ''CredentialsError'', ''ClientClosedError'', ''StreamClosedError''}"
  shows "raise_core_error M cls msg = new_err cls [''RbotoError''] msg"
proof -
  obtain m where m: "py_import M ''rboto.exceptions'' = Inr m"
    and cls: "\<And>c. c \<in> set core_exceptions \<Longrightarrow> m (fst c) = Inr c"
    by (rule import_core) blast
  have mem: "(cls, [''RbotoError'']) \<in> set core_exceptions"
    using assms by (auto simp: core_exceptions_def)
  have nc: "\<not> is_client_class (cls, [''RbotoError''])"
    using assms by (auto simp: is_client_class_def)
  show ?thesis
    using plain_call [OF mem nc, of msg] cls [OF mem] by (simp add: raise_core_error_def m)
qed

lemma raise_service:
  assumes "is_client_class (service_class M modname base code)"
  shows "raise_service_error M modname base code msg op' rid md =
    client_error_init (service_class M modname base code) msg code (opt_py PyStr rid) op' (metadata_to_py md)"
proof -
  obtain m where m: "py_import M ''rboto.exceptions'' = Inr m"
    and cls: "\<And>c. c \<in> set core_exceptions \<Longrightarrow> m (fst c) = Inr c"
    by (rule import_core) blast
  have "m ''ClientError'' = Inr (''ClientError'', [''RbotoError''])"
    using cls [of "(''ClientError'', [''RbotoError''])"] by (simp add: core_exceptions_def)
  then have "or_else (and_then (py_import M modname)
        (\<lambda>m. or_else (m (normalize_error_class code)) (m base)))
      (and_then (py_import M ''rboto.exceptions'') (\<lambda>m. m ''ClientError'')) = Inr (service_class M modname base code)"
    by (auto simp: m service_class_def or_else_def and_then_def Let_def split: sum.splits)
  with client_call [OF assms] show ?thesis by (simp add: raise_service_error_def)
qed

end

lemma client_error_init_simps [simp]:
  "err_class (client_error_init cls msg code rid op' md) = fst cls"
  "err_message (client_error_init cls msg code rid op' md) = msg"
  "is_instance (client_error_init cls msg code rid op' md) c \<longleftrightarrow>
     c = fst cls \<or> c \<in> set (snd cls) \<or> c \<in> {''Exception'', ''BaseException'', ''object''}"
  by (auto simp: client_error_init_def Let_def new_err_def is_instance_def)

lemma new_err_simps [simp]:
  "err_class (new_err c bs msg) = c"
  "err_message (new_err c bs msg) = msg"
  "is_instance (new_err c bs msg) d \<longleftrightarrow> d = c \<or> d \<in> set bs \<or> d \<in> {''Exception'', ''BaseException'', ''object''}"
  by (auto simp: new_err_def is_instance_def)

section \<open>Properties\<close>

subsection \<open>Names\<close>

lemma normalize_not_exception: "strip_suffix ''Exception'' (s @ ''Error'') = None"
proof -
  have "s @ ''Error'' \<noteq> t @ ''Exception''" for t
  proof
    assume "s @ ''Error'' = t @ ''Exception''"
    then have "last (s @ ''Error'') = last (t @ ''Exception'')" by simp
    then show False by simp
  qed
  then show ?thesis by (simp add: strip_suffix_None)
qed

lemma normalize_Error: "normalize_error_class (s @ ''Error'') = s @ ''Error''"
  by (simp add: normalize_error_class_def normalize_not_exception del: append_assoc)

lemma normalize_ends: "\<exists>s. normalize_error_class c = s @ ''Error''"
  by (auto simp: normalize_error_class_def Let_def)

lemma normalize_Exception:
  "strip_suffix ''Error'' c = None \<Longrightarrow> normalize_error_class (c @ ''Exception'') = c @ ''Error''"
  by (simp add: normalize_error_class_def)

text \<open>
  The class name of an error code is a fixed point of the normalisation, and for a code
  \<open>c\<close> that ends neither in \<open>Exception\<close> nor in \<open>Error\<close> the four spellings \<open>c\<close>,
  \<open>cError\<close>, \<open>cException\<close> and \<open>cErrorException\<close> all name the class \<open>cError\<close>.
\<close>

lemma error_spellings_agree:
  assumes "strip_suffix ''Exception'' c = None" and "strip_suffix ''Error'' c = None"
  shows "normalize_error_class (normalize_error_class x) = normalize_error_class x
    \<and> (\<forall>suffix \<in> {[], ''Error'', ''Exception'', ''ErrorException''}.
      normalize_error_class (c @ suffix) = c @ ''Error'')"
proof -
  have fixed: "normalize_error_class (normalize_error_class x) = normalize_error_class x"
    using normalize_ends [of x] by (auto simp: normalize_Error)
  have "normalize_error_class c = c @ ''Error''"
    using assms by (simp add: normalize_error_class_def)
  moreover have "normalize_error_class (c @ ''ErrorException'') = c @ ''Error''"
    using strip_suffix_append [of "''Exception''" "c @ ''Error''"] strip_suffix_append [of "''Error''" c]
    by (simp add: normalize_error_class_def)
  ultimately show ?thesis
    using fixed normalize_Error [of c] normalize_Exception [OF assms(2)] by simp
qed

subsection \<open>Application exceptions\<close>

lemma find_map_first:
  assumes "\<forall>x \<in> set pre. f x = None" and "f y = Some z"
  shows "find_map f (pre @ y # post) = Some z"
  using assms(1) by (induction pre) (simp_all add: assms(2))

lemma find_map_None: "find_map f xs = None \<longleftrightarrow> (\<forall>x \<in> set xs. f x = None)"
  by (induction xs) (auto split: option.splits)

lemma find_map_Some: "find_map f xs = Some y \<Longrightarrow> \<exists>x \<in> set xs. f x = Some y"
  by (induction xs) (auto split: option.splits)

text \<open>
  A Python exception raised while the SDK consumed a streamed request body reaches the
  caller unchanged, wherever it sits in the causes of the dispatch failure and whatever else is
  there (credentials failures, timeouts); one raised inside a response stream does when it is
  among the first 64 causes.
\<close>

lemma application_exception_survives:
  assumes "\<forall>c \<in> set pre. as_py_err c = None"
  shows "http_sdk_error_to_py M (DispatchFailure k (pre @ CPyErr e # post)) op' modname base md = e
    \<and> (length pre < 64 \<longrightarrow> stream_error_to_py M (pre @ CPyErr e # post) ctx = e)"
proof (intro conjI impI)
  have "find_map as_py_err ((CConnector k # pre) @ CPyErr e # post) = Some e"
    by (rule find_map_first) (use assms in auto)
  then show "http_sdk_error_to_py M (DispatchFailure k (pre @ CPyErr e # post)) op' modname base md = e"
    by (simp add: http_sdk_error_to_py_def sdk_error_to_py_def)
next
  assume "length pre < 64"
  then have "causes (pre @ CPyErr e # post) = pre @ CPyErr e # take (63 - length pre) post"
    by (simp add: causes_def take_Cons')
  then have "find_map as_py_err (causes (pre @ CPyErr e # post)) = Some e"
    using assms by (simp add: find_map_first)
  then show "stream_error_to_py M (pre @ CPyErr e # post) ctx = e"
    by (simp add: stream_error_to_py_def)
qed

subsection \<open>Failures without a service response\<close>

text \<open>
  The class a failure deserves: the causes that count are the connector error and what is below
  it for a dispatch failure, and the first 64 causes of the error for a response failure.
\<close>

fun timed_out :: "('e, 'r) sdk_error \<Rightarrow> bool" where
  "timed_out (TimeoutError c) = True"
| "timed_out (DispatchFailure k c) = (\<exists>x \<in> set (take 64 (CConnector k # c)). timeout_cause x)"
| "timed_out (ResponseError c r) = (\<exists>x \<in> set (take 63 c). timeout_cause x)"
| "timed_out _ = False"

fun disconnected :: "('e, 'r) sdk_error \<Rightarrow> bool" where
  "disconnected (DispatchFailure k c) = True"
| "disconnected (ResponseError c r) = (\<exists>x \<in> set (take 63 c). connection_cause x)"
| "disconnected _ = False"

definition deserved_class :: "('e, 'r) sdk_error \<Rightarrow> string" where
  "deserved_class e =
     (if CCredentials \<in> set (sdk_chain e) \<or> CToken \<in> set (sdk_chain e) then ''CredentialsError''
      else if timed_out e then ''TimeoutError''
      else if disconnected e then ''ConnectionError''
      else (case e of ConstructionFailure c \<Rightarrow> ''ConfigurationError''
        | ResponseError c r \<Rightarrow> ''ResponseError'' | _ \<Rightarrow> ''ClientError''))"

lemma credentials_failure_iff: "credentials_failure c \<longleftrightarrow> CCredentials \<in> set c \<or> CToken \<in> set c"
  by (induction c) auto

lemma is_timeout_take: "is_timeout c \<longleftrightarrow> (\<exists>x \<in> set (take 64 c). timeout_cause x)"
  by (auto simp: is_timeout_def causes_def list_ex_iff)

lemma is_timeout_response:
  "is_timeout (response_chain c) \<longleftrightarrow> (\<exists>x \<in> set (take 63 c). timeout_cause x)"
  by (simp add: is_timeout_take response_chain_def take_Cons')

lemma connection_response:
  "list_ex connection_cause (causes (response_chain c)) \<longleftrightarrow> (\<exists>x \<in> set (take 63 c). connection_cause x)"
  by (simp add: causes_def response_chain_def take_Cons' list_ex_iff)

lemma failure_class_deserved:
  assumes "as_service_error e = None" and "\<not> credentials_failure (sdk_chain e)"
  shows "case failure_class e of
      None \<Rightarrow> deserved_class e = ''ConfigurationError''
    | Some (cls, msg) \<Rightarrow> deserved_class e = cls
        \<and> cls \<in> {''ClientError'', ''ConnectionError'', ''TimeoutError'', ''ResponseError''}"
  using assms
  by (cases e) (auto simp: deserved_class_def credentials_failure_iff is_timeout_response
      is_timeout_take [of "CConnector k # c" for k c] stream_failure_class_def connection_response)

text \<open>
  C4: a failure without a service error and without an application exception raises exactly
  the class its typed causes deserve: credentials failures first, then timeouts, then broken
  connections, then the variant of the failure. The diagnostic text of a cause never matters,
  and the exception is always a \<open>RbotoError\<close>.
\<close>

theorem failure_raises_deserved_class:
  assumes "rboto_modules M" and "as_service_error err = None" and "python_error_source err = None"
  shows "err_class (http_sdk_error_to_py M err op' modname base md) = deserved_class err
    \<and> is_instance (http_sdk_error_to_py M err op' modname base md) ''RbotoError''"
proof -
  obtain md' rid where h: "http_sdk_error_to_py M err op' modname base md
      = sdk_error_to_py M err op' modname base None rid md'"
    using assms(2) by (simp add: http_sdk_error_to_py_def Let_def)
  show ?thesis
  proof (cases "credentials_failure (sdk_chain err)")
    case True
    then have "deserved_class err = ''CredentialsError''"
      by (simp add: deserved_class_def credentials_failure_iff)
    with True show ?thesis unfolding h
      using assms(2,3) by (simp add: sdk_error_to_py_def rboto_modules.raise_core [OF assms(1)])
  next
    case False
    note d = failure_class_deserved [OF assms(2) False]
    show ?thesis
    proof (cases "failure_class err")
      case None
      with d False show ?thesis unfolding h
        using assms(2,3) by (simp add: sdk_error_to_py_def rboto_modules.raise_core [OF assms(1)])
    next
      case (Some cm)
      obtain cls msg where cm: "cm = (cls, msg)" by (cases cm)
      have cls: "cls \<in> {''ClientError'', ''ConnectionError'', ''TimeoutError'', ''ResponseError''}"
        and "deserved_class err = cls" using d Some cm by auto
      then show ?thesis unfolding h
        using assms(2,3) False Some cm
        by (auto simp: sdk_error_to_py_def rboto_modules.raise_client_error [OF assms(1) cls]
            core_bases_def core_exceptions_def unwrap_or_def)
    qed
  qed
qed

theorem failure_raises_deserved_class_witness:
  "err_class (http_sdk_error_to_py (std_modules []) (ResponseError [COther ''connection reset'', CIo TimedOut]
      \<lparr>response_status = 200, response_header = (\<lambda>h. None)\<rparr>) ''GetObject'' ''m'' ''b'' no_metadata) = ''TimeoutError''"
  by (subst failure_raises_deserved_class [OF std_mods.rboto_modules_axioms, THEN conjunct1])
    (simp_all add: deserved_class_def response_chain_def)

subsection \<open>Service errors\<close>

text \<open>What a generated \<open>exceptions\<close> module holds: subclasses of \<open>ClientError\<close>.\<close>

definition client_classes :: "py_modules \<Rightarrow> string \<Rightarrow> bool" where
  "client_classes M modname \<longleftrightarrow>
     (\<forall>m a cls. py_import M modname = Inr m \<longrightarrow> m a = Inr cls \<longrightarrow> is_client_class cls)"

lemma service_class_client: "client_classes M modname \<Longrightarrow> is_client_class (service_class M modname base code)"
  by (auto simp: service_class_def client_classes_def is_client_class_def Let_def split: sum.splits)

definition safe_opt :: "string option \<Rightarrow> bool" where
  "safe_opt v = (case v of None \<Rightarrow> True | Some s \<Rightarrow> safe_id s = Some s)"

lemma safe_id_safe: "safe_id s = Some t \<Longrightarrow> safe_id t = Some t"
  by (auto simp: safe_id_def split: if_splits)

lemma safe_opt_bind: "safe_opt (Option.bind v safe_id)"
  by (cases v) (auto simp: safe_opt_def safe_id_safe split: option.splits)

lemma safe_opt_find_map: "safe_opt (find_map (\<lambda>h. Option.bind (f h) safe_id) hs)"
proof (cases "find_map (\<lambda>h. Option.bind (f h) safe_id) hs")
  case None
  then show ?thesis by (simp add: safe_opt_def)
next
  case (Some s)
  from find_map_Some [OF this] obtain h where "Option.bind (f h) safe_id = Some s" by blast
  with safe_opt_bind [of "f h"] Some show ?thesis by simp
qed

lemma safe_opt_or: "safe_opt a \<Longrightarrow> safe_opt b \<Longrightarrow> safe_opt (or_opt a b)"
  by (cases a) (simp_all add: or_opt_def safe_opt_def)

lemma safe_opt_nonempty: "safe_opt a \<Longrightarrow> a \<noteq> Some []"
  by (auto simp: safe_opt_def safe_id_def)

definition safe_metadata :: "response_metadata \<Rightarrow> bool" where
  "safe_metadata md \<longleftrightarrow> safe_opt (md_request_id md) \<and> safe_opt (md_extended_request_id md)"

lemma metadata_to_py_eq:
  "metadata_to_py m =
     [(PyStr ''HTTPStatusCode'', opt_py (\<lambda>n. PyInt (uint n)) (md_status_code m)),
      (PyStr ''RequestId'', opt_py PyStr (md_request_id m)),
      (PyStr ''HostId'', opt_py PyStr (md_extended_request_id m)),
      (PyStr ''RetryAttempts'', opt_py (\<lambda>n. PyInt (uint n)) (md_retry_attempts m))]"
  unfolding metadata_to_py_def by (subst py_dict_distinct) simp_all

text \<open>The request id an exception carries: its own argument, or else the response's.\<close>

lemma client_error_attrs:
  assumes "safe_opt rid"
  shows "err_attrs (client_error_init cls msg code (opt_py PyStr rid) op' (metadata_to_py md)) =
    Some \<lparr>ce_message = msg, ce_error_code = code,
      ce_request_id = opt_py PyStr (or_opt rid (md_request_id md)), ce_operation_name = op',
      ce_response_metadata = metadata_to_py (md\<lparr>md_request_id := or_opt rid (md_request_id md)\<rparr>),
      ce_details = []\<rparr>"
  using safe_opt_nonempty [OF assms]
  by (cases rid) (simp_all add: client_error_init_def metadata_to_py_eq truthy_def opt_py_def
      or_opt_def Let_def)

text \<open>
  C29: a service error raises the exception class its code names in the service's module, or
  the service's base class, or \<open>ClientError\<close>, with the service's message, its code and the operation.
  The request id is the first well-formed one among the three request-id headers, or else the one the
  response body gave, and the response metadata are that id, the status and host id of the response and
  the retries that were observed. A successful status without an error code is a malformed response and
  raises \<open>ResponseError\<close> instead, with the same metadata but no id from the body.
\<close>

theorem service_error_exception:
  assumes "rboto_modules M" and "client_classes M modname"
  shows "let exc = http_sdk_error_to_py M (ServiceError e r) op' modname base md;
             malformed = is_success r \<and> svc_code e = None;
             code = (if malformed then ''ResponseError'' else case svc_code e of None \<Rightarrow> ''UnknownError'' | Some c \<Rightarrow> c);
             message = (if malformed then ''Could not decode the service response''
               else case svc_message e of None \<Rightarrow> ''Service returned an error'' | Some m \<Rightarrow> m);
             header_id = find_map (\<lambda>h. Option.bind (response_header r h) safe_id)
               [''x-amzn-requestid'', ''x-amz-request-id'', ''x-amzn-request-id''];
             body_id = (if malformed then None else Option.bind (svc_extra_request_id e) safe_id);
             request_id = (case header_id of Some x \<Rightarrow> PyStr x | None \<Rightarrow>
               (case body_id of Some x \<Rightarrow> PyStr x | None \<Rightarrow> PyNone))
    in err_class exc = (if malformed then ''ResponseError'' else fst (service_class M modname base code))
       \<and> err_message exc = message
       \<and> err_attrs exc = Some
          \<lparr>ce_message = message, ce_error_code = code, ce_request_id = request_id, ce_operation_name = op',
           ce_response_metadata =
             [(PyStr ''HTTPStatusCode'', PyInt (uint (response_status r))),
              (PyStr ''RequestId'', request_id),
              (PyStr ''HostId'', (case Option.bind (response_header r ''x-amz-id-2'') safe_id of
                 None \<Rightarrow> PyNone | Some x \<Rightarrow> PyStr x)),
              (PyStr ''RetryAttempts'', (case md_retry_attempts md of None \<Rightarrow> PyNone | Some n \<Rightarrow> PyInt (uint n)))],
           ce_details = []\<rparr>"
proof -
  let ?h = "find_map (\<lambda>h. Option.bind (response_header r h) safe_id) request_id_headers"
  let ?b = "Option.bind (svc_extra_request_id e) safe_id"
  let ?md = "with_response md (Some r)" and ?exc = "http_sdk_error_to_py M (ServiceError e r) op' modname base md"
  have h: "safe_opt ?h" by (rule safe_opt_find_map)
  have sr: "safe_opt (or_opt ?h ?b)" by (intro safe_opt_or safe_opt_bind h)
  have md: "md_request_id ?md = ?h" "md_status_code ?md = Some (response_status r)"
    "md_extended_request_id ?md = Option.bind (response_header r ''x-amz-id-2'') safe_id"
    "md_retry_attempts ?md = md_retry_attempts md"
    by (simp_all add: with_response_def from_response_def)
  have same: "?md\<lparr>md_request_id := ?h\<rparr> = ?md" by (simp add: with_response_def from_response_def)
  have o1: "or_opt (or_opt ?h ?b) ?h = or_opt ?h ?b"
    by (cases ?h; cases ?b) (simp_all add: or_opt_def)
  have o2: "or_opt x None = x" "or_opt x x = x" for x :: "string option" by (cases x; simp add: or_opt_def)+
  show ?thesis
  proof (cases "is_success r \<and> svc_code e = None")
    case True
    then have exc: "?exc = client_error_init (''ResponseError'', core_bases ''ResponseError'')
        ''Could not decode the service response'' ''ResponseError'' (opt_py PyStr ?h) op' (metadata_to_py ?md)"
      using rboto_modules.raise_client_error [OF assms(1), of "''ResponseError''"] md(1)
      by (simp add: http_sdk_error_to_py_def Let_def)
    have attrs: "err_attrs ?exc = Some \<lparr>ce_message = ''Could not decode the service response'',
        ce_error_code = ''ResponseError'', ce_request_id = opt_py PyStr ?h, ce_operation_name = op',
        ce_response_metadata = metadata_to_py ?md, ce_details = []\<rparr>"
      unfolding exc client_error_attrs [OF h] md(1) o2 same ..
    have "err_class ?exc = ''ResponseError''" "err_message ?exc = ''Could not decode the service response''"
      unfolding exc by simp_all
    with True attrs show ?thesis
      unfolding request_id_headers_def [symmetric]
      by (cases ?h; simp add: metadata_to_py_eq md Let_def; simp add: opt_py_def)
  next
    case False
    then have exc: "?exc = client_error_init (service_class M modname base (unwrap_or ''UnknownError'' (svc_code e)))
        (unwrap_or ''Service returned an error'' (svc_message e)) (unwrap_or ''UnknownError'' (svc_code e))
        (opt_py PyStr (or_opt ?h ?b)) op' (metadata_to_py ?md)"
      using rboto_modules.raise_service [OF assms(1) service_class_client [OF assms(2)]] md(1)
      by (auto simp: http_sdk_error_to_py_def sdk_error_to_py_def Let_def o2)
    have attrs: "err_attrs ?exc = Some \<lparr>ce_message = unwrap_or ''Service returned an error'' (svc_message e),
        ce_error_code = unwrap_or ''UnknownError'' (svc_code e), ce_request_id = opt_py PyStr (or_opt ?h ?b),
        ce_operation_name = op',
        ce_response_metadata = metadata_to_py (?md\<lparr>md_request_id := or_opt ?h ?b\<rparr>), ce_details = []\<rparr>"
      unfolding exc client_error_attrs [OF sr] md(1) o1 ..
    have "err_class ?exc = fst (service_class M modname base (unwrap_or ''UnknownError'' (svc_code e)))"
      "err_message ?exc = unwrap_or ''Service returned an error'' (svc_message e)"
      unfolding exc by simp_all
    with attrs show ?thesis
      unfolding request_id_headers_def [symmetric] Let_def if_not_P [OF False]
      by (cases ?h; cases ?b; simp add: metadata_to_py_eq md or_opt_def unwrap_or_def; simp add: opt_py_def)
  qed
qed

definition sts_like_modules :: py_modules where
  "sts_like_modules = std_modules
     [(''svc.exceptions'',
       [(''StsError'', [''ServiceError'', ''ClientError'', ''RbotoError'']),
        (''ExpiredTokenError'', [''StsError'', ''ServiceError'', ''ClientError'', ''RbotoError''])])]"

theorem service_error_exception_witness:
  "err_class (http_sdk_error_to_py sts_like_modules
      (ServiceError \<lparr>svc_code = Some ''ExpiredTokenException'', svc_message = None,
          svc_extra_request_id = None, svc_shape = ()\<rparr>
        \<lparr>response_status = 400, response_header = (\<lambda>h. None)\<rparr>)
      ''AssumeRole'' ''svc.exceptions'' ''StsError'' no_metadata) = ''ExpiredTokenError''"
proof -
  have m: "client_classes sts_like_modules ''svc.exceptions''"
    by (auto simp: client_classes_def sts_like_modules_def std_modules_def table_modules_def
        is_client_class_def split: option.splits if_splits)
  have "service_class sts_like_modules ''svc.exceptions'' ''StsError'' ''ExpiredTokenException''
      = (''ExpiredTokenError'', [''StsError'', ''ServiceError'', ''ClientError'', ''RbotoError''])"
    by (simp add: service_class_def sts_like_modules_def std_modules_def table_modules_def
        normalize_error_class_def strip_suffix_def)
  moreover have "rboto_modules sts_like_modules"
    unfolding sts_like_modules_def by (rule std_mods.rboto_modules_axioms)
  ultimately show ?thesis
    using service_error_exception [OF _ m, of "\<lparr>svc_code = Some ''ExpiredTokenException'', svc_message = None,
          svc_extra_request_id = None, svc_shape = ()\<rparr>" "\<lparr>response_status = 400, response_header = (\<lambda>h. None)\<rparr>"
        "''AssumeRole''" "''StsError''" no_metadata]
    by (simp add: unwrap_or_def is_success_def Let_def)
qed

text \<open>The identifiers an exception carries: its request id and those of its metadata.\<close>

definition carried_ids :: "pyerr \<Rightarrow> pyval set" where
  "carried_ids exc =
     (case err_attrs exc of
        None \<Rightarrow> {}
      | Some a \<Rightarrow> {ce_request_id a, kwarg (ce_response_metadata a) ''RequestId'',
          kwarg (ce_response_metadata a) ''HostId''})"

lemma kwarg_metadata:
  "kwarg (metadata_to_py m) ''RequestId'' = opt_py PyStr (md_request_id m)"
  "kwarg (metadata_to_py m) ''HostId'' = opt_py PyStr (md_extended_request_id m)"
  by (simp_all add: kwarg_def metadata_to_py_eq unwrap_or_def)

lemma client_error_ids:
  assumes "safe_opt rid" and "safe_metadata md"
    and "v \<in> carried_ids (client_error_init cls msg code (opt_py PyStr rid) op' (metadata_to_py md))"
  shows "v = PyNone \<or> (\<exists>s. v = PyStr s \<and> safe_id s = Some s)"
proof -
  have py: "opt_py PyStr x = PyNone \<or> (\<exists>s. opt_py PyStr x = PyStr s \<and> safe_id s = Some s)" if "safe_opt x" for x
    using that by (cases x) (auto simp: opt_py_def safe_opt_def)
  have o: "safe_opt (or_opt rid (md_request_id md))" "safe_opt (md_extended_request_id md)"
    using assms(1,2) by (auto simp: safe_metadata_def intro: safe_opt_or)
  show ?thesis
    using assms(3) py [OF o(1)] py [OF o(2)]
    by (auto simp: carried_ids_def client_error_attrs [OF assms(1)] kwarg_metadata)
qed

lemma no_attrs_no_ids: "err_attrs e = None \<Longrightarrow> carried_ids e = {}"
  by (simp add: carried_ids_def)

text \<open>
  With safe metadata of the attempts, every id an exception made from a failure carries is safe.
\<close>

lemma exception_ids:
  assumes "rboto_modules M" and "client_classes M modname" and "safe_metadata md"
    and "python_error_source err = None"
    and "v \<in> carried_ids (http_sdk_error_to_py M err op' modname base md)"
  shows "v = PyNone \<or> (\<exists>s. v = PyStr s \<and> 0 < length s \<and> length s \<le> 1024 \<and> list_all is_ascii_graphic s)"
proof -
  have safe: "v = PyNone \<or> (\<exists>s. v = PyStr s \<and> 0 < length s \<and> length s \<le> 1024 \<and> list_all is_ascii_graphic s)"
    if "v = PyNone \<or> (\<exists>s. v = PyStr s \<and> safe_id s = Some s)"
    using that by (auto simp: safe_id_def split: if_splits)
  let ?md = "with_response md (raw_response err)"
  have md: "safe_metadata ?md"
    using assms(3) by (auto simp: with_response_def safe_metadata_def from_response_def
        safe_opt_find_map safe_opt_bind Let_def split: option.splits)
  then have rid: "safe_opt (md_request_id ?md)" by (simp add: safe_metadata_def)
  note ids = client_error_ids [OF _ md]
  note core = rboto_modules.raise_client_error [OF assms(1)]
  note svc = rboto_modules.raise_service [OF assms(1) service_class_client [OF assms(2)]]
  note plain = rboto_modules.raise_core [OF assms(1)]
  have none: "carried_ids (new_err c bs msg) = {}" for c bs msg
    by (simp add: no_attrs_no_ids new_err_def)
  have sdk: "v = PyNone \<or> (\<exists>s. v = PyStr s \<and> safe_id s = Some s)"
    if v: "v \<in> carried_ids (sdk_error_to_py M err op' modname base None (md_request_id ?md) ?md)"
  proof (cases "as_service_error err")
    case (Some e)
    with v ids [OF safe_opt_or [OF rid safe_opt_bind]] show ?thesis
      by (simp add: sdk_error_to_py_def svc Let_def)
  next
    case None
    show ?thesis
    proof (cases "credentials_failure (sdk_chain err)")
      case True
      with None v assms(4) show ?thesis by (simp add: sdk_error_to_py_def plain none)
    next
      case False
      note d = failure_class_deserved [OF None False]
      show ?thesis
      proof (cases "failure_class err")
        case None
        with False v assms(4) \<open>as_service_error err = None\<close> show ?thesis
          by (simp add: sdk_error_to_py_def plain none)
      next
        case (Some cm)
        obtain cls msg where cm: "cm = (cls, msg)" by (cases cm)
        have cls: "cls \<in> {''ClientError'', ''ConnectionError'', ''TimeoutError'', ''ResponseError''}"
          using d Some cm by auto
        from v False Some cm assms(4) \<open>as_service_error err = None\<close> ids [OF rid] show ?thesis
          by (simp add: sdk_error_to_py_def core [OF cls])
      qed
    qed
  qed
  have "http_sdk_error_to_py M err op' modname base md \<in>
      {raise_service_error M ''rboto.exceptions'' ''ResponseError'' ''ResponseError''
         ''Could not decode the service response'' op' (md_request_id ?md) ?md,
       sdk_error_to_py M err op' modname base None (md_request_id ?md) ?md}"
    by (simp add: http_sdk_error_to_py_def Let_def)
  then show ?thesis
    using assms(5) sdk ids [OF rid] core [of "''ResponseError''"] by (intro safe) (elim insertE; simp)
qed

end
