(* ===== verification/Config.thy ===== *)
theory Config
  imports ErrorMap
begin

text \<open>
  Client configuration: \<open>crates/rboto-core/src/config.rs\<close> and
  \<open>crates/rboto-core/src/transport.rs\<close>, with the checks of the Python class \<open>ClientConfig\<close>
  (\<open>packages/rboto/src/rboto/config.py\<close>) whose instances the Rust side extracts.

  The HTTP client, TLS and certificate libraries are the record \<open>transport_api\<close>, the
  configuration loader of the AWS SDK is the record \<open>sdk_api\<close>.
\<close>

section \<open>The configuration\<close>

record request_config =
  access_key_id :: "string option"
  secret_access_key :: "string option"
  session_token :: "string option"
  role_arn :: "string option"
  role_session_name :: "string option"
  external_id :: "string option"
  connect_timeout :: "f64 option"
  read_timeout :: "f64 option"
  operation_timeout :: "f64 option"
  attempt_timeout :: "f64 option"
  max_attempts :: "32 word option"
  retry_mode :: "string option"
  proxy_url :: "string option"
  no_proxy :: "string option"
  ca_bundle :: "string option"

definition default_config :: request_config where
  "default_config =
     \<lparr>access_key_id = None, secret_access_key = None, session_token = None, role_arn = None,
      role_session_name = None, external_id = None, connect_timeout = None, read_timeout = None,
      operation_timeout = None, attempt_timeout = None, max_attempts = None, retry_mode = None,
      proxy_url = None, no_proxy = None, ca_bundle = None\<rparr>"

text \<open>\<open>[...].into_iter().flatten()\<close>\<close>

definition somes :: "'a option list \<Rightarrow> 'a list" where
  "somes xs = map the (filter (\<lambda>x. x \<noteq> None) xs)"

section \<open>Transport\<close>

record ('proxy, 'trust, 'tls, 'settings, 'components, 'sleep, 'connector, 'http, 'cert, 'roots) transport_api =
  proxy_all :: "string \<Rightarrow> unit + 'proxy"
  proxy_from_env :: 'proxy
  proxy_rules :: "'proxy \<Rightarrow> string \<Rightarrow> 'proxy"
  trust_default :: 'trust
  trust_with_pem :: "'trust \<Rightarrow> byte list \<Rightarrow> 'trust"
  tls_context :: "'trust \<Rightarrow> unit + 'tls"
  sleep_impl :: "'components \<Rightarrow> 'sleep option"
  connector :: "'tls \<Rightarrow> 'proxy \<Rightarrow> 'settings option \<Rightarrow> 'sleep option \<Rightarrow> 'connector"
  client_with_connector :: "('settings option \<Rightarrow> 'components option \<Rightarrow> 'connector) \<Rightarrow> 'http"
  read_file :: "string \<Rightarrow> unit + byte list"
  pem_certificates :: "byte list \<Rightarrow> (unit + 'cert) list"
  no_roots :: 'roots
  add_root :: "'roots \<Rightarrow> 'cert \<Rightarrow> unit + 'roots"
  roots_empty :: "'roots \<Rightarrow> bool"

definition invalid_proxy :: string where
  "invalid_proxy = ''proxy_url must be an HTTP(S) URL with a host''"

definition proxy :: "('p, 'tr, 'tls, 's, 'c, 'sl, 'con, 'http, 'cert, 'roots) transport_api \<Rightarrow>
    request_config \<Rightarrow> string + 'p" where
  "proxy T config =
     (if no_proxy config \<noteq> None \<and> proxy_url config = None then Inl ''no_proxy requires proxy_url''
      else and_then
        (case proxy_url config of
           Some url \<Rightarrow> map_err (\<lambda>_. invalid_proxy) (proxy_all T url)
         | None \<Rightarrow> Inr (proxy_from_env T))
        (\<lambda>p. Inr (case no_proxy config of Some rules \<Rightarrow> proxy_rules T p rules | None \<Rightarrow> p)))"

definition bad_pem :: string where
  "bad_pem = ''ca_bundle must contain valid PEM certificates''"

text \<open>The loop over the certificates, from the store \<open>roots\<close>.\<close>

fun add_certificates :: "('p, 'tr, 'tls, 's, 'c, 'sl, 'con, 'http, 'cert, 'roots) transport_api \<Rightarrow>
    'roots \<Rightarrow> (unit + 'cert) list \<Rightarrow> string + 'roots" where
  "add_certificates T roots [] = Inr roots"
| "add_certificates T roots (cert # certs) =
     and_then (map_err (\<lambda>_. bad_pem) cert)
       (\<lambda>c. and_then (map_err (\<lambda>_. bad_pem) (add_root T roots c))
         (\<lambda>roots. add_certificates T roots certs))"

definition validate_certificates :: "('p, 'tr, 'tls, 's, 'c, 'sl, 'con, 'http, 'cert, 'roots) transport_api \<Rightarrow>
    byte list \<Rightarrow> string + unit" where
  "validate_certificates T pem =
     and_then (add_certificates T (no_roots T) (pem_certificates T pem))
       (\<lambda>roots. if roots_empty T roots then Inl ''ca_bundle must contain at least one PEM certificate''
         else Inr ())"

definition build_transport :: "('p, 'tr, 'tls, 's, 'c, 'sl, 'con, 'http, 'cert, 'roots) transport_api \<Rightarrow>
    request_config \<Rightarrow> string + 'http" where
  "build_transport T config =
     and_then (proxy T config) (\<lambda>p.
     and_then
       (case ca_bundle config of
          None \<Rightarrow> Inr (trust_default T)
        | Some path \<Rightarrow>
            and_then (map_err (\<lambda>_. ''Could not read ca_bundle'') (read_file T path))
              (\<lambda>pem. and_then (validate_certificates T pem)
                (\<lambda>_. Inr (trust_with_pem T (trust_default T) pem))))
       (\<lambda>trust.
     and_then (map_err (\<lambda>_. ''Could not configure TLS trust'') (tls_context T trust))
       (\<lambda>context. Inr (client_with_connector T (\<lambda>settings components.
          connector T context p settings (Option.bind components (sleep_impl T)))))))"

section \<open>Validation\<close>

definition timeout_ok :: "f64 \<Rightarrow> bool" where
  "timeout_ok value \<longleftrightarrow> \<not> (\<not> is_finite value \<or> f64_le value 0 \<or> f64_gt value (2 ^ 32 - 1))"

definition validate :: "('p, 'tr, 'tls, 's, 'c, 'sl, 'con, 'http, 'cert, 'roots) transport_api \<Rightarrow>
    request_config \<Rightarrow> string + unit" where
  "validate T c =
     (if (access_key_id c \<noteq> None) \<noteq> (secret_access_key c \<noteq> None) then
        Inl ''access_key_id and secret_access_key must be supplied together''
      else if session_token c \<noteq> None \<and> access_key_id c = None then
        Inl ''session_token requires explicit credentials''
      else if role_arn c = None \<and> (role_session_name c \<noteq> None \<or> external_id c \<noteq> None) then
        Inl ''role_session_name and external_id require role_arn''
      else if list_ex trim_is_empty (somes
          [access_key_id c, secret_access_key c, session_token c, role_arn c, role_session_name c,
           external_id c, proxy_url c, no_proxy c, ca_bundle c]) then
        Inl ''credential and role settings must be nonempty strings''
      else if list_ex (\<lambda>value. \<not> timeout_ok value) (somes
          [connect_timeout c, read_timeout c, operation_timeout c, attempt_timeout c]) then
        Inl ''timeouts must be finite and positive (at most 2**32 - 1)''
      else if max_attempts c = Some 0 then
        Inl ''max_attempts must include at least the initial request''
      else if \<not> (retry_mode c \<in> {None, Some ''standard'', Some ''adaptive''}) then
        Inl (''retry_mode must be 'standard' or 'adaptive'' @ [CHR 0x27])
      else if proxy_url c \<noteq> None \<or> no_proxy c \<noteq> None then
        and_then (proxy T c) (\<lambda>_. Inr ())
      else Inr ())"

section \<open>Loading\<close>

text \<open>
  \<open>Duration::from_secs_f64\<close> in nanoseconds, rounded to the nearest (ties to even). It panics
  on a negative, non-finite or overflowing value, which is \<open>None\<close>.
\<close>

definition round_half_even :: "rat \<Rightarrow> int" where
  "round_half_even q =
     (let f = \<lfloor>q\<rfloor>; r = q - of_int f
      in if r < 1 / 2 then f else if 1 / 2 < r then f + 1 else if even f then f else f + 1)"

fun from_secs_f64 :: "f64 \<Rightarrow> nat option" where
  "from_secs_f64 (Finite q) =
     (if q < 0 then None
      else (let n = round_half_even (q * 10 ^ 9)
            in if n < 2 ^ 64 * 10 ^ 9 then Some (nat n) else None))"
| "from_secs_f64 _ = None"

datatype retry_mode = Standard | Adaptive

datatype env_var = EnvOk string | EnvNotPresent | EnvNotUnicode

record credentials =
  cred_key :: string
  cred_secret :: string
  cred_token :: "string option"

text \<open>
  The SDK's configuration: \<open>load_config\<close> is \<open>aws_config::defaults\<close> with the region, profile, HTTP
  client and credentials set on the loader, then \<open>load().await\<close>; \<open>with_settings\<close> and
  \<open>with_provider\<close> are \<open>into_builder()\<close>, the setters and \<open>build()\<close>; the setters of a timeout
  configuration are those of its builder.
\<close>

record ('cfg, 'tc, 'rc, 'http, 'prov) sdk_api =
  load_config :: "string option \<Rightarrow> string option \<Rightarrow> 'http option \<Rightarrow> credentials option \<Rightarrow> 'cfg"
  cfg_timeouts :: "'cfg \<Rightarrow> 'tc option"
  cfg_retry :: "'cfg \<Rightarrow> 'rc option"
  cfg_region :: "'cfg \<Rightarrow> string option"
  with_settings :: "'cfg \<Rightarrow> 'tc \<Rightarrow> 'rc \<Rightarrow> 'cfg"
  with_provider :: "'cfg \<Rightarrow> 'prov \<Rightarrow> 'cfg"
  cfg_provider :: "'cfg \<Rightarrow> 'prov option"
  no_timeouts :: 'tc
  set_connect :: "nat \<Rightarrow> 'tc \<Rightarrow> 'tc"
  set_read :: "nat \<Rightarrow> 'tc \<Rightarrow> 'tc"
  set_operation :: "nat \<Rightarrow> 'tc \<Rightarrow> 'tc"
  set_attempt :: "nat \<Rightarrow> 'tc \<Rightarrow> 'tc"
  tc_connect :: "'tc \<Rightarrow> nat option"
  tc_read :: "'tc \<Rightarrow> nat option"
  tc_operation :: "'tc \<Rightarrow> nat option"
  tc_attempt :: "'tc \<Rightarrow> nat option"
  standard_retry :: 'rc
  with_max_attempts :: "32 word \<Rightarrow> 'rc \<Rightarrow> 'rc"
  with_retry_mode :: "retry_mode \<Rightarrow> 'rc \<Rightarrow> 'rc"
  rc_max_attempts :: "'rc \<Rightarrow> 32 word"
  rc_mode :: "'rc \<Rightarrow> retry_mode"
  assume_role_provider :: "string \<Rightarrow> 'cfg \<Rightarrow> string \<Rightarrow> string option \<Rightarrow> 'prov"

text \<open>One optional timeout; the inner \<open>None\<close> is the panic.\<close>

definition set_timeout :: "(nat \<Rightarrow> 'tc \<Rightarrow> 'tc) \<Rightarrow> f64 option \<Rightarrow> 'tc \<Rightarrow> 'tc option" where
  "set_timeout setter value timeouts =
     (case value of
        None \<Rightarrow> Some timeouts
      | Some secs \<Rightarrow> map_option (\<lambda>d. setter d timeouts) (from_secs_f64 secs))"

definition config_error :: "py_modules \<Rightarrow> string \<Rightarrow> pyerr" where
  "config_error M message = raise_core_error M ''ConfigurationError'' message"

definition ca_bundle_path :: "py_modules \<Rightarrow> env_var \<Rightarrow> request_config \<Rightarrow> string option pyresult" where
  "ca_bundle_path M env c =
     (case ca_bundle c of
        Some path \<Rightarrow> Inr (Some path)
      | None \<Rightarrow>
          (case env of
             EnvOk path \<Rightarrow>
               (if \<not> trim_is_empty path then Inr (Some path)
                else Inl (config_error M ''AWS_CA_BUNDLE must be a nonempty UTF-8 path''))
           | EnvNotPresent \<Rightarrow> Inr None
           | EnvNotUnicode \<Rightarrow> Inl (config_error M ''AWS_CA_BUNDLE must be a nonempty UTF-8 path'')))"

definition explicit_credentials :: "request_config \<Rightarrow> credentials option" where
  "explicit_credentials c =
     (case (access_key_id c, secret_access_key c) of
        (Some key, Some secret) \<Rightarrow>
          Some \<lparr>cred_key = key, cred_secret = secret, cred_token = session_token c\<rparr>
      | _ \<Rightarrow> None)"

text \<open>The transport of a client, when it needs one of its own; \<open>joined\<close> is false when the
  blocking task that builds it panics.\<close>

definition load_transport :: "py_modules \<Rightarrow>
    ('p, 'tr, 'tls, 's, 'c, 'sl, 'con, 'http, 'cert, 'roots) transport_api \<Rightarrow> bool \<Rightarrow> env_var \<Rightarrow>
    request_config \<Rightarrow> 'http option pyresult" where
  "load_transport M T joined env c =
     and_then (ca_bundle_path M env c) (\<lambda>bundle.
       if proxy_url c \<noteq> None \<or> bundle \<noteq> None then
         (if \<not> joined then Inl (config_error M ''Could not configure transport'')
          else map_ok Some (map_err (config_error M) (build_transport T (c\<lparr>ca_bundle := bundle\<rparr>))))
       else Inr None)"

definition override_retries :: "('cfg, 'tc, 'rc, 'http, 'prov) sdk_api \<Rightarrow> request_config \<Rightarrow> 'rc \<Rightarrow> 'rc" where
  "override_retries S c retries =
     (let retries = (case max_attempts c of Some n \<Rightarrow> with_max_attempts S n retries | None \<Rightarrow> retries)
      in case retry_mode c of
           Some mode \<Rightarrow> with_retry_mode S (if mode = ''adaptive'' then Adaptive else Standard) retries
         | None \<Rightarrow> retries)"

definition override_timeouts :: "('cfg, 'tc, 'rc, 'http, 'prov) sdk_api \<Rightarrow> request_config \<Rightarrow> 'tc \<Rightarrow> 'tc option" where
  "override_timeouts S c timeouts =
     Option.bind (set_timeout (set_connect S) (connect_timeout c) timeouts) (\<lambda>timeouts.
     Option.bind (set_timeout (set_read S) (read_timeout c) timeouts) (\<lambda>timeouts.
     Option.bind (set_timeout (set_operation S) (operation_timeout c) timeouts)
       (set_timeout (set_attempt S) (attempt_timeout c))))"

text \<open>\<open>RequestConfig::load\<close>; \<open>None\<close> when it panics.\<close>

definition load :: "py_modules \<Rightarrow>
    ('p, 'tr, 'tls, 's, 'c, 'sl, 'con, 'http, 'cert, 'roots) transport_api \<Rightarrow>
    ('cfg, 'tc, 'rc, 'http, 'prov) sdk_api \<Rightarrow> bool \<Rightarrow> env_var \<Rightarrow>
    request_config \<Rightarrow> string option \<Rightarrow> string option \<Rightarrow> 'cfg pyresult option" where
  "load M T S joined env c region profile =
     (case load_transport M T joined env c of
        Inl e \<Rightarrow> Some (Inl e)
      | Inr transport \<Rightarrow>
          (let base = load_config S region profile transport (explicit_credentials c)
           in map_option
             (\<lambda>timeouts.
               (let retries = override_retries S c (unwrap_or (standard_retry S) (cfg_retry S base));
                    base = with_settings S base timeouts retries
                in if cfg_region S base = None then
                     Inl (config_error M ''No region configured; pass region or configure a profile/environment region'')
                   else (case role_arn c of
                       Some role \<Rightarrow>
                         Inr (with_provider S base (assume_role_provider S role base
                           (unwrap_or ''rboto'' (role_session_name c)) (external_id c)))
                     | None \<Rightarrow> Inr base)))
             (override_timeouts S c (unwrap_or (no_timeouts S) (cfg_timeouts S base)))))"

section \<open>The laws of the SDK's builders\<close>

locale sdk_laws =
  fixes S :: "('cfg, 'tc, 'rc, 'http, 'prov) sdk_api"
  assumes connect_law: "tc_connect S (set_connect S d t) = Some d" "tc_read S (set_connect S d t) = tc_read S t"
      "tc_operation S (set_connect S d t) = tc_operation S t" "tc_attempt S (set_connect S d t) = tc_attempt S t"
    and read_law: "tc_connect S (set_read S d t) = tc_connect S t" "tc_read S (set_read S d t) = Some d"
      "tc_operation S (set_read S d t) = tc_operation S t" "tc_attempt S (set_read S d t) = tc_attempt S t"
    and operation_law: "tc_connect S (set_operation S d t) = tc_connect S t" "tc_read S (set_operation S d t) = tc_read S t"
      "tc_operation S (set_operation S d t) = Some d" "tc_attempt S (set_operation S d t) = tc_attempt S t"
    and attempt_law: "tc_connect S (set_attempt S d t) = tc_connect S t" "tc_read S (set_attempt S d t) = tc_read S t"
      "tc_operation S (set_attempt S d t) = tc_operation S t" "tc_attempt S (set_attempt S d t) = Some d"
    and retry_law: "rc_max_attempts S (with_max_attempts S n r) = n" "rc_mode S (with_max_attempts S n r) = rc_mode S r"
      "rc_max_attempts S (with_retry_mode S m r) = rc_max_attempts S r" "rc_mode S (with_retry_mode S m r) = m"
    and settings_law: "cfg_timeouts S (with_settings S b t r) = Some t" "cfg_retry S (with_settings S b t r) = Some r"
      "cfg_region S (with_settings S b t r) = cfg_region S b" "cfg_provider S (with_settings S b t r) = cfg_provider S b"
    and provider_law: "cfg_timeouts S (with_provider S b p) = cfg_timeouts S b" "cfg_retry S (with_provider S b p) = cfg_retry S b"
      "cfg_region S (with_provider S b p) = cfg_region S b" "cfg_provider S (with_provider S b p) = Some p"
begin

lemmas laws = connect_law read_law operation_law attempt_law retry_law settings_law provider_law

end

text \<open>A concrete SDK whose configurations are records of what was set.\<close>

record std_timeouts =
  st_connect :: "nat option"
  st_read :: "nat option"
  st_operation :: "nat option"
  st_attempt :: "nat option"

record std_cfg =
  sc_region :: "string option"
  sc_custom_http :: bool
  sc_static :: "credentials option"
  sc_timeouts :: "std_timeouts option"
  sc_retry :: "(32 word \<times> retry_mode) option"
  sc_role :: "(string \<times> string \<times> string option) option"

definition sdk_std :: "string option \<Rightarrow>
    (std_cfg, std_timeouts, 32 word \<times> retry_mode, 'http, string \<times> string \<times> string option) sdk_api" where
  "sdk_std env_region =
     \<lparr>load_config = (\<lambda>region profile http creds.
        \<lparr>sc_region = or_opt region env_region, sc_custom_http = (http \<noteq> None), sc_static = creds, sc_timeouts = None,
         sc_retry = None, sc_role = None\<rparr>),
      cfg_timeouts = sc_timeouts, cfg_retry = sc_retry, cfg_region = sc_region,
      with_settings = (\<lambda>b t r. b\<lparr>sc_timeouts := Some t, sc_retry := Some r\<rparr>),
      with_provider = (\<lambda>b p. b\<lparr>sc_role := Some p\<rparr>), cfg_provider = sc_role,
      no_timeouts = \<lparr>st_connect = None, st_read = None, st_operation = None, st_attempt = None\<rparr>,
      set_connect = (\<lambda>d t. t\<lparr>st_connect := Some d\<rparr>), set_read = (\<lambda>d t. t\<lparr>st_read := Some d\<rparr>),
      set_operation = (\<lambda>d t. t\<lparr>st_operation := Some d\<rparr>), set_attempt = (\<lambda>d t. t\<lparr>st_attempt := Some d\<rparr>),
      tc_connect = st_connect, tc_read = st_read, tc_operation = st_operation, tc_attempt = st_attempt,
      standard_retry = (3, Standard),
      with_max_attempts = (\<lambda>n r. (n, snd r)), with_retry_mode = (\<lambda>m r. (fst r, m)),
      rc_max_attempts = fst, rc_mode = snd,
      assume_role_provider = (\<lambda>role cfg name ext. (role, name, ext))\<rparr>"

interpretation std_sdk: sdk_laws "sdk_std env_region" for env_region
  by unfold_locales (simp_all add: sdk_std_def)

section \<open>What validation guarantees\<close>

lemma set_somes [simp]: "x \<in> set (somes xs) \<longleftrightarrow> Some x \<in> set xs"
  by (force simp: somes_def image_iff)

lemma somes_ball: "(\<forall>x. Some x \<in> set xs \<longrightarrow> Q x) \<longleftrightarrow> (\<forall>v \<in> set xs. pred_option Q v)"
  by (metis (full_types) option.pred_inject(1) option.pred_inject(2) option.exhaust)

lemma timeout_ok_iff: "timeout_ok v \<longleftrightarrow> (\<exists>q. v = Finite q \<and> 0 < q \<and> q \<le> 2 ^ 32 - 1)"
  by (cases v) (auto simp: timeout_ok_def)

definition timeouts_of :: "request_config \<Rightarrow> f64 list" where
  "timeouts_of c = somes [connect_timeout c, read_timeout c, operation_timeout c, attempt_timeout c]"

definition texts_of :: "request_config \<Rightarrow> string list" where
  "texts_of c = somes [access_key_id c, secret_access_key c, session_token c, role_arn c,
     role_session_name c, external_id c, proxy_url c, no_proxy c, ca_bundle c]"

text \<open>The configurations a client may be built with.\<close>

definition settings_ok :: "request_config \<Rightarrow> bool" where
  "settings_ok c \<longleftrightarrow>
     (access_key_id c = None \<longleftrightarrow> secret_access_key c = None)
     \<and> (session_token c \<noteq> None \<longrightarrow> access_key_id c \<noteq> None)
     \<and> (role_session_name c \<noteq> None \<or> external_id c \<noteq> None \<longrightarrow> role_arn c \<noteq> None)
     \<and> (\<forall>s \<in> set (texts_of c). \<not> trim_is_empty s)
     \<and> (\<forall>t \<in> set (timeouts_of c). \<exists>q. t = Finite q \<and> 0 < q \<and> q \<le> 2 ^ 32 - 1)
     \<and> max_attempts c \<noteq> Some 0
     \<and> retry_mode c \<in> {None, Some ''standard'', Some ''adaptive''}
     \<and> (no_proxy c \<noteq> None \<longrightarrow> proxy_url c \<noteq> None)"

definition well_formed :: "('p, 'tr, 'tls, 's, 'c, 'sl, 'con, 'http, 'cert, 'roots) transport_api \<Rightarrow>
    request_config \<Rightarrow> bool" where
  "well_formed T c \<longleftrightarrow> settings_ok c
     \<and> (\<forall>url. proxy_url c = Some url \<longrightarrow> (\<exists>p. proxy_all T url = Inr p))"

lemma proxy_ok_iff: "(\<exists>p. proxy T c = Inr p) \<longleftrightarrow>
    (no_proxy c \<noteq> None \<longrightarrow> proxy_url c \<noteq> None) \<and> (\<forall>url. proxy_url c = Some url \<longrightarrow> (\<exists>p. proxy_all T url = Inr p))"
  by (cases "proxy_url c") (auto simp: proxy_def)

lemma validate_guards:
  "settings_ok c \<longleftrightarrow>
      \<not> ((access_key_id c \<noteq> None) \<noteq> (secret_access_key c \<noteq> None))
      \<and> \<not> (session_token c \<noteq> None \<and> access_key_id c = None)
      \<and> \<not> (role_arn c = None \<and> (role_session_name c \<noteq> None \<or> external_id c \<noteq> None))
      \<and> \<not> list_ex trim_is_empty (texts_of c)
      \<and> \<not> list_ex (\<lambda>v. \<not> timeout_ok v) (timeouts_of c)
      \<and> max_attempts c \<noteq> Some 0
      \<and> retry_mode c \<in> {None, Some ''standard'', Some ''adaptive''}
      \<and> (no_proxy c \<noteq> None \<longrightarrow> proxy_url c \<noteq> None)"
proof -
  have "\<not> list_ex trim_is_empty (texts_of c) \<longleftrightarrow> (\<forall>s \<in> set (texts_of c). \<not> trim_is_empty s)"
    by (simp add: list_ex_iff)
  moreover have "\<not> list_ex (\<lambda>v. \<not> timeout_ok v) (timeouts_of c) \<longleftrightarrow>
      (\<forall>t \<in> set (timeouts_of c). \<exists>q. t = Finite q \<and> 0 < q \<and> q \<le> 2 ^ 32 - 1)"
    by (simp add: list_ex_iff timeout_ok_iff conj_commute conj_left_commute)
  ultimately show ?thesis unfolding settings_ok_def by argo
qed

text \<open>On sound settings only the parse of the proxy URL remains.\<close>

lemma validate_settings_ok:
  assumes "settings_ok c"
  shows "validate T c = (case proxy_url c of None \<Rightarrow> Inr ()
    | Some url \<Rightarrow> and_then (map_err (\<lambda>_. invalid_proxy) (proxy_all T url)) (\<lambda>_. Inr ()))"
proof -
  note g = assms [unfolded validate_guards texts_of_def timeouts_of_def]
  have c1: "\<not> ((access_key_id c \<noteq> None) \<noteq> (secret_access_key c \<noteq> None))"
    and c7: "\<not> \<not> retry_mode c \<in> {None, Some ''standard'', Some ''adaptive''}"
    using g by blast+
  have "validate T c = (if proxy_url c \<noteq> None \<or> no_proxy c \<noteq> None
      then and_then (proxy T c) (\<lambda>_. Inr ()) else Inr ())"
    unfolding validate_def if_not_P [OF c1] if_not_P [OF c7] using g by (simp only: if_False)
  also have "\<dots> = (case proxy_url c of None \<Rightarrow> Inr ()
    | Some url \<Rightarrow> and_then (map_err (\<lambda>_. invalid_proxy) (proxy_all T url)) (\<lambda>_. Inr ()))"
    using g by (auto simp: proxy_def and_then_def split: option.splits sum.splits)
  finally show ?thesis .
qed

lemma validate_iff: "validate T c = Inr () \<longleftrightarrow> well_formed T c"
proof -
  have "(if proxy_url c \<noteq> None \<or> no_proxy c \<noteq> None then and_then (proxy T c) (\<lambda>_. Inr ()) else Inr ()) = Inr ()
      \<longleftrightarrow> (proxy_url c \<noteq> None \<or> no_proxy c \<noteq> None \<longrightarrow> (\<exists>p. proxy T c = Inr p))"
    by (cases "proxy T c") simp_all
  then have "validate T c = Inr () \<longleftrightarrow>
      \<not> ((access_key_id c \<noteq> None) \<noteq> (secret_access_key c \<noteq> None))
      \<and> \<not> (session_token c \<noteq> None \<and> access_key_id c = None)
      \<and> \<not> (role_arn c = None \<and> (role_session_name c \<noteq> None \<or> external_id c \<noteq> None))
      \<and> \<not> list_ex trim_is_empty (texts_of c)
      \<and> \<not> list_ex (\<lambda>v. \<not> timeout_ok v) (timeouts_of c)
      \<and> max_attempts c \<noteq> Some 0
      \<and> \<not> \<not> retry_mode c \<in> {None, Some ''standard'', Some ''adaptive''}
      \<and> (proxy_url c \<noteq> None \<or> no_proxy c \<noteq> None \<longrightarrow> (\<exists>p. proxy T c = Inr p))"
    unfolding validate_def texts_of_def timeouts_of_def by (simp only: guard_eq_Inr)
  moreover have "\<not> list_ex trim_is_empty (texts_of c) \<longleftrightarrow> (\<forall>s \<in> set (texts_of c). \<not> trim_is_empty s)"
    by (simp add: list_ex_iff)
  moreover have "\<not> list_ex (\<lambda>v. \<not> timeout_ok v) (timeouts_of c) \<longleftrightarrow>
      (\<forall>t \<in> set (timeouts_of c). \<exists>q. t = Finite q \<and> 0 < q \<and> q \<le> 2 ^ 32 - 1)"
    by (simp add: list_ex_iff timeout_ok_iff conj_commute conj_left_commute)
  moreover have "(proxy_url c \<noteq> None \<or> no_proxy c \<noteq> None \<longrightarrow> (\<exists>p. proxy T c = Inr p)) \<longleftrightarrow>
      (no_proxy c \<noteq> None \<longrightarrow> proxy_url c \<noteq> None)
      \<and> (\<forall>url. proxy_url c = Some url \<longrightarrow> (\<exists>p. proxy_all T url = Inr p))"
    unfolding proxy_ok_iff by (cases "proxy_url c"; cases "no_proxy c") simp_all
  ultimately show ?thesis unfolding well_formed_def settings_ok_def by argo
qed

text \<open>
  C8: \<open>RequestConfig::validate\<close> accepts exactly the well-formed configurations: credentials
  complete, role settings only with a role, no blank text, timeouts in (0, 2^32 - 1], at least
  one attempt, a known retry mode, \<open>no_proxy\<close> only with a proxy URL the transport can parse.
\<close>

theorem validate_accepts_well_formed: "validate T c = Inr () \<longleftrightarrow> well_formed T c"
  by (rule validate_iff)

section \<open>Loading a validated configuration\<close>

lemma round_half_even_near: "\<bar>of_int (round_half_even q) - q\<bar> \<le> 1 / 2"
proof -
  have "0 \<le> q - of_int \<lfloor>q\<rfloor>" and "q - of_int \<lfloor>q\<rfloor> < 1" by linarith+
  then show ?thesis unfolding round_half_even_def Let_def by (auto simp: abs_le_iff; linarith)
qed

lemma from_secs_f64_near:
  assumes "0 < q" and "q \<le> 2 ^ 32 - 1"
  obtains d where "from_secs_f64 (Finite q) = Some d" and "\<bar>of_nat d - q * 10 ^ 9\<bar> \<le> 1 / 2"
proof -
  let ?n = "round_half_even (q * 10 ^ 9)"
  note near = round_half_even_near [of "q * 10 ^ 9"]
  have "q * 10 ^ 9 \<le> (2 ^ 32 - 1) * 10 ^ 9" using assms by simp
  moreover have "of_int ?n \<le> q * 10 ^ 9 + 1 / 2" using near by linarith
  ultimately have up: "of_int ?n < (2 ^ 64 * 10 ^ 9 :: rat)" by simp
  then have u: "?n < 2 ^ 64 * 10 ^ 9"
    by (metis (mono_tags) of_int_less_iff of_int_mult of_int_numeral of_int_power)
  have "0 < q * 10 ^ 9" using assms by simp
  then have "- 1 < (of_int ?n :: rat)" using near by linarith
  then have "- 1 < ?n" by (metis of_int_less_iff of_int_minus of_int_1)
  then have z: "0 \<le> ?n" by simp
  have r: "(of_nat (nat ?n) :: rat) = of_int ?n" using z by simp
  show ?thesis
    by (rule that [of "nat ?n"]) (use u assms near r in \<open>simp_all add: Let_def\<close>)
qed

text \<open>The value of a setting when the application gives an optional one over the base's.\<close>

definition overridden :: "nat option \<Rightarrow> f64 option \<Rightarrow> nat option" where
  "overridden base given = (case given of None \<Rightarrow> base | Some secs \<Rightarrow> from_secs_f64 secs)"

lemma set_timeout_get:
  assumes "\<And>t. v = Some t \<Longrightarrow> \<exists>q. t = Finite q \<and> 0 < q \<and> q \<le> 2 ^ 32 - 1"
    and "\<And>d. get (setter d t) = Some d" and "\<And>d. ga (setter d t) = ga t"
    and "\<And>d. gb (setter d t) = gb t" and "\<And>d. gc (setter d t) = gc t"
  obtains t' where "set_timeout setter v t = Some t'" and "get t' = overridden (get t) v"
    and "ga t' = ga t" and "gb t' = gb t" and "gc t' = gc t"
proof (cases v)
  case None
  then show ?thesis using that [of t] by (simp add: set_timeout_def overridden_def)
next
  case (Some x)
  with assms(1) obtain q where q: "x = Finite q" "0 < q" "q \<le> 2 ^ 32 - 1" by blast
  from from_secs_f64_near [OF q(2,3)] obtain d where "from_secs_f64 x = Some d" using q(1) by blast
  then show ?thesis
    using that [of "setter d t"] assms(2-5) by (simp add: set_timeout_def overridden_def Some)
qed

lemma timeouts_ofI:
  "connect_timeout c = Some t \<Longrightarrow> t \<in> set (timeouts_of c)"
  "read_timeout c = Some t \<Longrightarrow> t \<in> set (timeouts_of c)"
  "operation_timeout c = Some t \<Longrightarrow> t \<in> set (timeouts_of c)"
  "attempt_timeout c = Some t \<Longrightarrow> t \<in> set (timeouts_of c)"
  by (simp_all add: timeouts_of_def)

context sdk_laws
begin

lemma override_timeouts_ok:
  assumes "well_formed T c"
  obtains t' where "override_timeouts S c t = Some t'"
    and "tc_connect S t' = overridden (tc_connect S t) (connect_timeout c)"
    and "tc_read S t' = overridden (tc_read S t) (read_timeout c)"
    and "tc_operation S t' = overridden (tc_operation S t) (operation_timeout c)"
    and "tc_attempt S t' = overridden (tc_attempt S t) (attempt_timeout c)"
proof -
  have ok: "\<exists>q. t = Finite q \<and> 0 < q \<and> q \<le> 2 ^ 32 - 1" if "t \<in> set (timeouts_of c)" for t
    using assms that by (simp add: well_formed_def settings_ok_def)
  note range = ok [OF timeouts_ofI(1)] ok [OF timeouts_ofI(2)] ok [OF timeouts_ofI(3)] ok [OF timeouts_ofI(4)]
  obtain t1 where t1: "set_timeout (set_connect S) (connect_timeout c) t = Some t1"
    "tc_connect S t1 = overridden (tc_connect S t) (connect_timeout c)"
    "tc_read S t1 = tc_read S t" "tc_operation S t1 = tc_operation S t" "tc_attempt S t1 = tc_attempt S t"
    by (rule set_timeout_get [where v = "connect_timeout c" and t = t and setter = "set_connect S"
        and get = "tc_connect S" and ga = "tc_read S" and gb = "tc_operation S" and gc = "tc_attempt S"])
      (use range(1) in \<open>simp_all add: laws\<close>)
  obtain t2 where t2: "set_timeout (set_read S) (read_timeout c) t1 = Some t2"
    "tc_read S t2 = overridden (tc_read S t1) (read_timeout c)"
    "tc_connect S t2 = tc_connect S t1" "tc_operation S t2 = tc_operation S t1" "tc_attempt S t2 = tc_attempt S t1"
    by (rule set_timeout_get [where v = "read_timeout c" and t = t1 and setter = "set_read S"
        and get = "tc_read S" and ga = "tc_connect S" and gb = "tc_operation S" and gc = "tc_attempt S"])
      (use range(2) in \<open>simp_all add: laws\<close>)
  obtain t3 where t3: "set_timeout (set_operation S) (operation_timeout c) t2 = Some t3"
    "tc_operation S t3 = overridden (tc_operation S t2) (operation_timeout c)"
    "tc_connect S t3 = tc_connect S t2" "tc_read S t3 = tc_read S t2" "tc_attempt S t3 = tc_attempt S t2"
    by (rule set_timeout_get [where v = "operation_timeout c" and t = t2 and setter = "set_operation S"
        and get = "tc_operation S" and ga = "tc_connect S" and gb = "tc_read S" and gc = "tc_attempt S"])
      (use range(3) in \<open>simp_all add: laws\<close>)
  obtain t4 where t4: "set_timeout (set_attempt S) (attempt_timeout c) t3 = Some t4"
    "tc_attempt S t4 = overridden (tc_attempt S t3) (attempt_timeout c)"
    "tc_connect S t4 = tc_connect S t3" "tc_read S t4 = tc_read S t3" "tc_operation S t4 = tc_operation S t3"
    by (rule set_timeout_get [where v = "attempt_timeout c" and t = t3 and setter = "set_attempt S"
        and get = "tc_attempt S" and ga = "tc_connect S" and gb = "tc_read S" and gc = "tc_operation S"])
      (use range(4) in \<open>simp_all add: laws\<close>)
  show ?thesis
    by (rule that [of t4]) (simp_all add: override_timeouts_def t1 t2 t3 t4)
qed

lemma override_retries_get:
  assumes "well_formed T c"
  shows "rc_max_attempts S (override_retries S c r) = unwrap_or (rc_max_attempts S r) (max_attempts c)"
    and "rc_mode S (override_retries S c r) =
      (case retry_mode c of None \<Rightarrow> rc_mode S r | Some m \<Rightarrow> if m = ''adaptive'' then Adaptive else Standard)"
  using assms
  by (auto simp: override_retries_def laws unwrap_or_def well_formed_def settings_ok_def split: option.splits)

lemma load_cases:
  assumes "well_formed T c" and "load_transport M T joined env c = Inr transport"
  obtains t' where
    "load M T S joined env c region profile = Some
      (let base = load_config S region profile transport (explicit_credentials c);
           base' = with_settings S base t' (override_retries S c (unwrap_or (standard_retry S) (cfg_retry S base)))
       in if cfg_region S base = None then
            Inl (config_error M ''No region configured; pass region or configure a profile/environment region'')
          else (case role_arn c of
              Some role \<Rightarrow> Inr (with_provider S base' (assume_role_provider S role base'
                  (unwrap_or ''rboto'' (role_session_name c)) (external_id c)))
            | None \<Rightarrow> Inr base'))"
    and "let t = unwrap_or (no_timeouts S) (cfg_timeouts S (load_config S region profile transport (explicit_credentials c)))
      in tc_connect S t' = overridden (tc_connect S t) (connect_timeout c)
        \<and> tc_read S t' = overridden (tc_read S t) (read_timeout c)
        \<and> tc_operation S t' = overridden (tc_operation S t) (operation_timeout c)
        \<and> tc_attempt S t' = overridden (tc_attempt S t) (attempt_timeout c)"
proof -
  let ?b = "load_config S region profile transport (explicit_credentials c)"
  obtain t' where t': "override_timeouts S c (unwrap_or (no_timeouts S) (cfg_timeouts S ?b)) = Some t'"
    and g: "tc_connect S t' = overridden (tc_connect S (unwrap_or (no_timeouts S) (cfg_timeouts S ?b))) (connect_timeout c)"
      "tc_read S t' = overridden (tc_read S (unwrap_or (no_timeouts S) (cfg_timeouts S ?b))) (read_timeout c)"
      "tc_operation S t' = overridden (tc_operation S (unwrap_or (no_timeouts S) (cfg_timeouts S ?b))) (operation_timeout c)"
      "tc_attempt S t' = overridden (tc_attempt S (unwrap_or (no_timeouts S) (cfg_timeouts S ?b))) (attempt_timeout c)"
    by (rule override_timeouts_ok [OF assms(1), of "unwrap_or (no_timeouts S) (cfg_timeouts S ?b)"])
  show ?thesis
    by (rule that [of t']) (simp_all add: load_def assms(2) t' g Let_def laws)
qed

end

lemma load_transport_error:
  assumes "rboto_modules M" and "load_transport M T joined env c = Inl e"
  shows "err_class e = ''ConfigurationError''"
proof -
  have ce: "err_class (config_error M msg) = ''ConfigurationError''" for msg
    by (simp add: config_error_def rboto_modules.raise_core [OF assms(1)])
  show ?thesis
    using assms(2)
    by (auto simp: load_transport_def ca_bundle_path_def and_then_eq_Inl ce map_err_def map_ok_def
        split: option.splits env_var.splits if_splits sum.splits)
qed

text \<open>
  C11: loading a validated configuration never panics (every given timeout converts to a
  duration); it fails only with \<open>ConfigurationError\<close>. When it succeeds the client has a region
  and its limits are the given ones where the application gave them and those of the
  environment or profile everywhere else; with a role the credentials come from the role
  provider, whose session name defaults to \<open>rboto\<close>.
\<close>

theorem load_keeps_base_settings:
  assumes "sdk_laws S" and "rboto_modules M" and "validate T c = Inr ()"
  shows "\<exists>result. load M T S joined env c region profile = Some result \<and>
    (case result of
       Inl e \<Rightarrow> err_class e = ''ConfigurationError''
     | Inr cfg \<Rightarrow> (\<exists>transport. load_transport M T joined env c = Inr transport \<and>
         (let base = load_config S region profile transport (explicit_credentials c);
              timeouts = unwrap_or (no_timeouts S) (cfg_timeouts S base);
              retries = unwrap_or (standard_retry S) (cfg_retry S base)
          in cfg_region S cfg \<noteq> None \<and> cfg_region S cfg = cfg_region S base
             \<and> (\<exists>t r. cfg_timeouts S cfg = Some t \<and> cfg_retry S cfg = Some r
               \<and> tc_connect S t = overridden (tc_connect S timeouts) (connect_timeout c)
               \<and> tc_read S t = overridden (tc_read S timeouts) (read_timeout c)
               \<and> tc_operation S t = overridden (tc_operation S timeouts) (operation_timeout c)
               \<and> tc_attempt S t = overridden (tc_attempt S timeouts) (attempt_timeout c)
               \<and> rc_max_attempts S r = unwrap_or (rc_max_attempts S retries) (max_attempts c)
               \<and> rc_mode S r = (case retry_mode c of None \<Rightarrow> rc_mode S retries
                   | Some m \<Rightarrow> if m = ''adaptive'' then Adaptive else Standard))
             \<and> (\<forall>role. role_arn c = Some role \<longrightarrow> (\<exists>b. cfg_provider S cfg =
                 Some (assume_role_provider S role b (unwrap_or ''rboto'' (role_session_name c)) (external_id c)))))))"
proof (cases "load_transport M T joined env c")
  case (Inl e)
  then show ?thesis using load_transport_error [OF assms(2) Inl] by (simp add: load_def)
next
  case (Inr transport)
  have wf: "well_formed T c" using assms(3) validate_iff by blast
  have ce: "err_class (config_error M msg) = ''ConfigurationError''" for msg
    by (simp add: config_error_def rboto_modules.raise_core [OF assms(2)])
  note laws = sdk_laws.settings_law [OF assms(1)] sdk_laws.provider_law [OF assms(1)]
  note retries = sdk_laws.override_retries_get [OF assms(1) wf]
  show ?thesis
    by (rule sdk_laws.load_cases [OF assms(1) wf Inr, of region profile])
      (auto simp: Inr ce Let_def laws retries split: option.splits)
qed

text \<open>
  A concrete transport library: a proxy URL parses when it starts with \<open>http\<close>, a certificate
  file is its bytes, each nonzero byte a certificate.
\<close>

definition transport_std :: "(string \<Rightarrow> unit + byte list) \<Rightarrow>
    (string \<times> string option, byte list, byte list, nat, nat, nat, nat, byte list \<times> string, byte, byte list) transport_api" where
  "transport_std files =
     \<lparr>proxy_all = (\<lambda>u. if take 4 u = ''http'' then Inr (u, None) else Inl ()),
      proxy_from_env = ([], None), proxy_rules = (\<lambda>p r. (fst p, Some r)),
      trust_default = [], trust_with_pem = (\<lambda>t pem. t @ pem), tls_context = Inr,
      sleep_impl = Some, connector = (\<lambda>tls p s sl. 0),
      client_with_connector = (\<lambda>f. ([], [])),
      read_file = files,
      pem_certificates = map (\<lambda>b. if b = 0 then Inl () else Inr b),
      no_roots = [], add_root = (\<lambda>rs c. Inr (c # rs)), roots_empty = (\<lambda>rs. rs = [])\<rparr>"

theorem load_keeps_base_settings_witness:
  "\<exists>result. load (std_modules []) (transport_std (\<lambda>p. Inl ())) (sdk_std (Some ''eu-west-1'')) True EnvNotPresent
      (default_config\<lparr>operation_timeout := Some (Finite 2)\<rparr>) None None = Some result"
proof -
  have "validate (transport_std (\<lambda>p. Inl ())) (default_config\<lparr>operation_timeout := Some (Finite 2)\<rparr>) = Inr ()"
    by (simp add: validate_def default_config_def somes_def timeout_ok_def)
  from load_keeps_base_settings [OF std_sdk.sdk_laws_axioms std_mods.rboto_modules_axioms this]
  show ?thesis by blast
qed

section \<open>Trust\<close>

locale roots_laws =
  fixes T :: "('p, 'tr, 'tls, 's, 'c, 'sl, 'con, 'http, 'cert, 'roots) transport_api"
  assumes no_roots_empty: "roots_empty T (no_roots T)"
    and add_root_nonempty: "add_root T r c = Inr r' \<Longrightarrow> \<not> roots_empty T r'"
begin

lemma add_certificates_ok:
  "add_certificates T r certs = Inr r' \<Longrightarrow>
    (\<forall>c \<in> set certs. \<exists>x. c = Inr x) \<and> (if certs = [] then r' = r else \<not> roots_empty T r')"
proof (induction certs arbitrary: r)
  case Nil
  then show ?case by simp
next
  case (Cons c certs)
  then obtain x r1 where x: "c = Inr x" "add_root T r x = Inr r1" "add_certificates T r1 certs = Inr r'"
    by auto
  from Cons.IH [OF x(3)] add_root_nonempty [OF x(2)] x(1) show ?case by (auto split: if_splits)
qed

lemma add_certificates_error: "add_certificates T r certs = Inl e \<Longrightarrow> e = bad_pem"
  by (induction certs arbitrary: r) (auto simp: and_then_eq_Inl map_err_eq_Inl)

lemma validate_certificates_ok:
  assumes "validate_certificates T pem = Inr ()"
  shows "pem_certificates T pem \<noteq> []" and "\<forall>c \<in> set (pem_certificates T pem). \<exists>x. c = Inr x"
  using assms add_certificates_ok [of "no_roots T" "pem_certificates T pem"] no_roots_empty
  by (auto simp: validate_certificates_def guard_eq_Inr split: if_splits)

end

interpretation std_roots: roots_laws "transport_std files" for files
  by unfold_locales (auto simp: transport_std_def)

text \<open>The bundle a client uses: its own, or the one of the environment.\<close>

definition bundle_of :: "env_var \<Rightarrow> request_config \<Rightarrow> string option" where
  "bundle_of env c = or_opt (ca_bundle c) (case env of EnvOk p \<Rightarrow> Some p | _ \<Rightarrow> None)"

text \<open>
  A client gets a transport of its own exactly when a proxy or a certificate bundle is
  configured; the client's bundle takes precedence over \<open>AWS_CA_BUNDLE\<close>, which must not be
  blank. The bundle's file is trusted only after every certificate in it parsed and was
  accepted as a root, and there is at least one.
\<close>

lemma custom_trust_is_validated:
  assumes "roots_laws T" and "load_transport M T joined env c = Inr transport"
  shows "(transport = None \<longleftrightarrow> proxy_url c = None \<and> bundle_of env c = None)
    \<and> (\<forall>path. bundle_of env c = Some path \<longrightarrow> (ca_bundle c = None \<longrightarrow> \<not> trim_is_empty path)
        \<and> (\<exists>pem context p. read_file T path = Inr pem \<and> pem_certificates T pem \<noteq> []
            \<and> (\<forall>cert \<in> set (pem_certificates T pem). \<exists>x. cert = Inr x)
            \<and> tls_context T (trust_with_pem T (trust_default T) pem) = Inr context
            \<and> transport = Some (client_with_connector T (\<lambda>settings components.
                connector T context p settings (Option.bind components (sleep_impl T))))))"
proof -
  from assms(2) obtain chosen where b: "ca_bundle_path M env c = Inr chosen"
    and t: "(if proxy_url c \<noteq> None \<or> chosen \<noteq> None then
         (if \<not> joined then Inl (config_error M ''Could not configure transport'')
          else map_ok Some (map_err (config_error M) (build_transport T (c\<lparr>ca_bundle := chosen\<rparr>))))
       else Inr None) = Inr transport"
    by (auto simp: load_transport_def simp del: if_split)
  have chosen: "chosen = bundle_of env c" and nb: "ca_bundle c = None \<Longrightarrow> chosen = Some path \<Longrightarrow> \<not> trim_is_empty path" for path
    using b by (cases "ca_bundle c"; cases env;
        auto simp: ca_bundle_path_def bundle_of_def or_opt_def split: if_splits)+
  have built: "\<exists>pem context p. read_file T path = Inr pem \<and> validate_certificates T pem = Inr ()
            \<and> tls_context T (trust_with_pem T (trust_default T) pem) = Inr context
            \<and> transport = Some (client_with_connector T (\<lambda>settings components.
                connector T context p settings (Option.bind components (sleep_impl T))))"
    if "chosen = Some path" for path
    using t that by (auto simp: build_transport_def split: if_splits)
  show ?thesis
    using t nb built roots_laws.validate_certificates_ok [OF assms(1)]
    unfolding chosen by (fastforce split: if_splits)
qed

section \<open>The Python configuration class\<close>

text \<open>
  \<open>ClientConfig\<close> with the values of its fields, and \<open>__post_init__\<close>. The parse of a proxy URL
  by \<open>urlsplit\<close> is an argument. \<open>str.strip\<close> also removes the separators U+001C to U+001F, which
  Rust's \<open>trim\<close> keeps.
\<close>

record client_config =
  pc_access_key_id :: pyval
  pc_secret_access_key :: pyval
  pc_session_token :: pyval
  pc_role_arn :: pyval
  pc_role_session_name :: pyval
  pc_external_id :: pyval
  pc_connect_timeout :: pyval
  pc_read_timeout :: pyval
  pc_operation_timeout :: pyval
  pc_attempt_timeout :: pyval
  pc_max_attempts :: pyval
  pc_retry_mode :: pyval
  pc_proxy_url :: pyval
  pc_no_proxy :: pyval
  pc_ca_bundle :: pyval

definition py_space :: "nat \<Rightarrow> bool" where
  "py_space a \<longleftrightarrow> a = 32 \<or> (9 \<le> a \<and> a \<le> 13) \<or> (28 \<le> a \<and> a \<le> 31)"

definition py_text_ok :: "pyval \<Rightarrow> bool" where
  "py_text_ok v = (case v of PyNone \<Rightarrow> True | PyStr s \<Rightarrow> \<not> blank py_space (map byte_of s) | _ \<Rightarrow> False)"

fun number_of :: "pyval \<Rightarrow> f64 option" where
  "number_of (PyInt n) = Some (Finite (of_int n))"
| "number_of (PyFloat x) = Some x"
| "number_of _ = None"

definition py_timeout_ok :: "pyval \<Rightarrow> bool" where
  "py_timeout_ok v \<longleftrightarrow> v = PyNone \<or>
     (case number_of v of
        None \<Rightarrow> False
      | Some x \<Rightarrow> \<not> (f64_le x 0 \<or> f64_gt x (2 ^ 32 - 1) \<or> \<not> is_finite x))"

definition py_attempts_ok :: "pyval \<Rightarrow> bool" where
  "py_attempts_ok v = (case v of PyNone \<Rightarrow> True | PyInt n \<Rightarrow> 1 \<le> n \<and> n \<le> 2 ^ 32 - 1 | _ \<Rightarrow> False)"

definition py_config_error :: "string \<Rightarrow> pyerr" where
  "py_config_error msg = new_err ''ConfigurationError'' [''RbotoError''] msg"

definition post_init :: "(pyval \<Rightarrow> bool) \<Rightarrow> client_config \<Rightarrow> unit pyresult" where
  "post_init url_ok c =
     (if (pc_access_key_id c = PyNone) \<noteq> (pc_secret_access_key c = PyNone) then
        Inl (py_config_error ''access_key_id and secret_access_key must be supplied together'')
      else if pc_session_token c \<noteq> PyNone \<and> pc_access_key_id c = PyNone then
        Inl (py_config_error ''session_token requires explicit credentials'')
      else if pc_role_arn c = PyNone \<and> (pc_role_session_name c \<noteq> PyNone \<or> pc_external_id c \<noteq> PyNone) then
        Inl (py_config_error ''role_session_name and external_id require role_arn'')
      else if \<not> list_all py_text_ok
          [pc_access_key_id c, pc_secret_access_key c, pc_session_token c, pc_role_arn c,
           pc_role_session_name c, pc_external_id c, pc_proxy_url c, pc_no_proxy c, pc_ca_bundle c] then
        Inl (py_config_error ''must be a nonempty string'')
      else if \<not> list_all py_timeout_ok
          [pc_connect_timeout c, pc_read_timeout c, pc_operation_timeout c, pc_attempt_timeout c] then
        Inl (py_config_error ''must be finite and positive (at most 2**32 - 1)'')
      else if \<not> py_attempts_ok (pc_max_attempts c) then
        Inl (py_config_error ''max_attempts must be an integer between 1 and 2**32 - 1'')
      else if \<not> pc_retry_mode c \<in> {PyNone, PyStr ''standard'', PyStr ''adaptive''} then
        Inl (py_config_error ''retry_mode must be standard or adaptive'')
      else if pc_no_proxy c \<noteq> PyNone \<and> pc_proxy_url c = PyNone then
        Inl (py_config_error ''no_proxy requires proxy_url'')
      else if pc_proxy_url c \<noteq> PyNone \<and> \<not> url_ok (pc_proxy_url c) then
        Inl (py_config_error ''proxy_url must be an HTTP(S) URL with a host'')
      else Inr ())"

text \<open>The derived \<open>FromPyObject\<close>: one attribute after the other, \<open>None\<close> being an absent value.\<close>

definition opt_extract :: "(pyval \<Rightarrow> 'a pyresult) \<Rightarrow> pyval \<Rightarrow> 'a option pyresult" where
  "opt_extract conv v = (if v = PyNone then Inr None else map_ok Some (conv v))"

definition extract_config :: "pyo3 \<Rightarrow> client_config \<Rightarrow> request_config pyresult" where
  "extract_config P c =
     and_then (opt_extract (extract_string P) (pc_access_key_id c)) (\<lambda>v0.
     and_then (opt_extract (extract_string P) (pc_secret_access_key c)) (\<lambda>v1.
     and_then (opt_extract (extract_string P) (pc_session_token c)) (\<lambda>v2.
     and_then (opt_extract (extract_string P) (pc_role_arn c)) (\<lambda>v3.
     and_then (opt_extract (extract_string P) (pc_role_session_name c)) (\<lambda>v4.
     and_then (opt_extract (extract_string P) (pc_external_id c)) (\<lambda>v5.
     and_then (opt_extract (extract_f64 P) (pc_connect_timeout c)) (\<lambda>v6.
     and_then (opt_extract (extract_f64 P) (pc_read_timeout c)) (\<lambda>v7.
     and_then (opt_extract (extract_f64 P) (pc_operation_timeout c)) (\<lambda>v8.
     and_then (opt_extract (extract_f64 P) (pc_attempt_timeout c)) (\<lambda>v9.
     and_then (opt_extract (extract_u32 P) (pc_max_attempts c)) (\<lambda>v10.
     and_then (opt_extract (extract_string P) (pc_retry_mode c)) (\<lambda>v11.
     and_then (opt_extract (extract_string P) (pc_proxy_url c)) (\<lambda>v12.
     and_then (opt_extract (extract_string P) (pc_no_proxy c)) (\<lambda>v13.
     and_then (opt_extract (extract_string P) (pc_ca_bundle c)) (\<lambda>v14.
     Inr
       \<lparr>access_key_id = v0, secret_access_key = v1, session_token = v2, role_arn = v3,
        role_session_name = v4, external_id = v5, connect_timeout = v6, read_timeout = v7,
        operation_timeout = v8, attempt_timeout = v9, max_attempts = v10, retry_mode = v11,
        proxy_url = v12, no_proxy = v13, ca_bundle = v14\<rparr>)))))))))))))))"

lemma py_blank_blank: "blank rust_space s \<Longrightarrow> blank py_space s"
  by (erule blank_mono [rotated 2]) (auto simp: rust_space_def py_space_def)

definition text_of :: "pyval \<Rightarrow> string option" where
  "text_of v = (case v of PyStr s \<Rightarrow> Some s | _ \<Rightarrow> None)"

lemma py_text_ok_text:
  assumes "py_text_ok v"
  shows "text_of v = None \<longleftrightarrow> v = PyNone" and "\<And>s. text_of v = Some s \<Longrightarrow> \<not> trim_is_empty s"
  using assms py_blank_blank by (auto simp: py_text_ok_def text_of_def trim_is_empty_def split: pyval.splits)

context pyo3_laws
begin

lemma extract_text: "py_text_ok v \<Longrightarrow> opt_extract (extract_string P) v = Inr (text_of v)"
  by (cases v) (auto simp: opt_extract_def py_text_ok_def text_of_def string_ok)

lemma extract_timeout:
  assumes "py_timeout_ok v"
  shows "opt_extract (extract_f64 P) v = Inr (number_of v)"
    and "\<And>x. number_of v = Some x \<Longrightarrow> timeout_ok x"
proof -
  show "opt_extract (extract_f64 P) v = Inr (number_of v)"
  proof (cases v)
    case (PyInt n)
    then have "(of_int n :: rat) \<le> 2 ^ 32 - 1" "0 < (of_int n :: rat)"
      using assms by (auto simp: py_timeout_ok_def)
    then have "of_int n \<le> (of_int (2 ^ 32 - 1) :: rat)" "0 < n" by simp_all
    then have "n \<le> 2 ^ 32 - 1" by (simp only: of_int_le_iff)
    then show ?thesis using f64_int [of n] \<open>0 < n\<close> PyInt by (simp add: opt_extract_def)
  qed (use assms in \<open>auto simp: opt_extract_def py_timeout_ok_def f64_ok\<close>)
  show "\<And>x. number_of v = Some x \<Longrightarrow> timeout_ok x"
    using assms by (auto simp: py_timeout_ok_def timeout_ok_def split: option.splits)
qed

lemma extract_attempts:
  assumes "py_attempts_ok v"
  obtains n where "opt_extract (extract_u32 P) v = Inr n" and "n \<noteq> Some 0"
proof (cases v)
  case (PyInt k)
  then have k: "1 \<le> k" "k < 2 ^ 32" using assms by (auto simp: py_attempts_ok_def)
  have "uint (word_of_int k :: 32 word) = k" using k by (simp add: uint_word_of_int)
  then have "(word_of_int k :: 32 word) \<noteq> 0" using k(1) by auto
  then show ?thesis using that [of "Some (word_of_int k)"] u32_ok [of k] k PyInt by (simp add: opt_extract_def)
qed (use assms that in \<open>auto simp: py_attempts_ok_def opt_extract_def\<close>)

end


definition plain_config :: client_config where
  "plain_config =
     \<lparr>pc_access_key_id = PyNone, pc_secret_access_key = PyNone, pc_session_token = PyNone,
      pc_role_arn = PyNone, pc_role_session_name = PyNone, pc_external_id = PyNone,
      pc_connect_timeout = PyInt 3, pc_read_timeout = PyFloat (Finite (1 / 2)),
      pc_operation_timeout = PyNone, pc_attempt_timeout = PyNone, pc_max_attempts = PyInt 5,
      pc_retry_mode = PyStr ''adaptive'', pc_proxy_url = PyNone, pc_no_proxy = PyNone,
      pc_ca_bundle = PyNone\<rparr>"


end
