(* ===== verification/Observation.thy ===== *)
theory Observation
  imports ErrorMap
begin

text \<open>
  Per-invocation metadata: \<open>crates/rboto-core/src/observation.rs\<close>. The SDK calls
  \<open>read_before_attempt\<close> and \<open>read_after_attempt\<close> around every attempt; the record they fill is
  read once when the operation ends. An \<open>Instant\<close> is a number of nanoseconds, \<open>elapsed\<close>
  saturates at zero, and \<open>as_secs_f64\<close> is the number it approximates. A poisoned lock is a flag
  of the state: every method then leaves the record alone.
\<close>

section \<open>Definitions\<close>

definition max_recorded_attempts :: nat where
  "max_recorded_attempts = 32"

type_synonym attempt = "64 word \<times> f64 \<times> 16 word option \<times> string option"

record observed =
  ob_started :: "nat option"
  ob_attempt_count :: "64 word"
  ob_status_code :: "16 word option"
  ob_request_id :: "string option"
  ob_extended_request_id :: "string option"
  ob_attempts :: "attempt list"

record operation_observation =
  ob_record :: observed
  ob_poisoned :: bool
  ob_detailed :: bool

definition new_observation :: "bool \<Rightarrow> operation_observation" where
  "new_observation detailed =
     \<lparr>ob_record = \<lparr>ob_started = None, ob_attempt_count = 0, ob_status_code = None, ob_request_id = None,
        ob_extended_request_id = None, ob_attempts = []\<rparr>,
      ob_poisoned = False, ob_detailed = detailed\<rparr>"

text \<open>\<open>usize::saturating_sub\<close>\<close>

definition saturating_sub :: "'a::len word \<Rightarrow> 'a word \<Rightarrow> 'a word" where
  "saturating_sub a b = (if a < b then 0 else a - b)"

definition response_metadata :: "operation_observation \<Rightarrow> response_metadata" where
  "response_metadata o' =
     (if ob_poisoned o' then no_metadata
      else (let r = ob_record o'
            in \<lparr>md_status_code = ob_status_code r, md_request_id = ob_request_id r,
                md_extended_request_id = ob_extended_request_id r,
                md_retry_attempts = Some (saturating_sub (ob_attempt_count r) 1)\<rparr>))"

definition as_secs_f64 :: "nat \<Rightarrow> f64" where
  "as_secs_f64 nanos = Finite (of_nat nanos / 10 ^ 9)"

definition read_before_attempt :: "nat \<Rightarrow> operation_observation \<Rightarrow> operation_observation" where
  "read_before_attempt now o' =
     (if ob_poisoned o' then o'
      else (let r = ob_record o'
            in o'\<lparr>ob_record := r\<lparr>ob_attempt_count := ob_attempt_count r + 1,
                   ob_started := (if ob_detailed o' then Some now else None),
                   ob_status_code := None, ob_request_id := None, ob_extended_request_id := None\<rparr>\<rparr>))"

definition read_after_attempt :: "nat \<Rightarrow> http_response option \<Rightarrow> operation_observation \<Rightarrow> operation_observation" where
  "read_after_attempt now response o' =
     (if ob_poisoned o' then o'
      else (let r = ob_record o';
                r = (case response of
                       Some response \<Rightarrow>
                         (let metadata = from_response response
                          in r\<lparr>ob_status_code := md_status_code metadata,
                               ob_request_id := md_request_id metadata,
                               ob_extended_request_id := md_extended_request_id metadata\<rparr>)
                     | None \<Rightarrow> r);
                r = (case ob_started r of
                       None \<Rightarrow> r
                     | Some started \<Rightarrow>
                         (let r = r\<lparr>ob_started := None\<rparr>
                          in if length (ob_attempts r) < max_recorded_attempts
                             then r\<lparr>ob_attempts := ob_attempts r @
                                [(ob_attempt_count r, as_secs_f64 (now - started), ob_status_code r, ob_request_id r)]\<rparr>
                             else r))
            in o'\<lparr>ob_record := r\<rparr>))"

definition attempt_to_py :: "attempt \<Rightarrow> pyval" where
  "attempt_to_py a = (case a of (n, secs, status, rid) \<Rightarrow>
     PyTuple [PyInt (uint n), PyFloat secs, opt_py (\<lambda>c. PyInt (uint c)) status, opt_py PyStr rid])"

text \<open>\<open>publish\<close> stores six entries into the dictionary the caller passed.\<close>

definition publish :: "operation_observation \<Rightarrow> string option \<Rightarrow> pydict \<Rightarrow> pydict" where
  "publish o' region sink =
     (if ob_poisoned o' then sink
      else (let r = ob_record o'
            in fold (\<lambda>(k, v). set_item (PyStr k) v)
                 [(''region'', opt_py PyStr region),
                  (''attempt_count'', PyInt (uint (ob_attempt_count r))),
                  (''status_code'', opt_py (\<lambda>c. PyInt (uint c)) (ob_status_code r)),
                  (''request_id'', opt_py PyStr (ob_request_id r)),
                  (''attempts'', PyList (map attempt_to_py (ob_attempts r))),
                  (''attempts_truncated'', PyBool (length (ob_attempts r) < unat (ob_attempt_count r)))]
                 sink))"

section \<open>Any sequence of hooks\<close>

datatype hook = Before nat | After nat "http_response option"

fun run_hook :: "hook \<Rightarrow> operation_observation \<Rightarrow> operation_observation" where
  "run_hook (Before now) = read_before_attempt now"
| "run_hook (After now r) = read_after_attempt now r"

definition run_hooks :: "hook list \<Rightarrow> operation_observation \<Rightarrow> operation_observation" where
  "run_hooks hs o' = fold run_hook hs o'"

text \<open>
  The record is bounded; what it holds is safe; numbers of recorded attempts increase and the
  last one is that of the current attempt only when its clock has stopped.
\<close>

definition recorded :: "operation_observation \<Rightarrow> nat list" where
  "recorded o' = map (\<lambda>a. unat (fst a)) (ob_attempts (ob_record o'))"

definition obs_inv :: "operation_observation \<Rightarrow> bool" where
  "obs_inv o' \<longleftrightarrow>
     length (recorded o') \<le> max_recorded_attempts
     \<and> sorted_wrt (<) (0 # recorded o')
     \<and> last (0 # recorded o') + (if ob_started (ob_record o') = None then 0 else 1)
         \<le> unat (ob_attempt_count (ob_record o'))
     \<and> safe_opt (ob_request_id (ob_record o')) \<and> safe_opt (ob_extended_request_id (ob_record o'))
     \<and> (\<forall>a \<in> set (ob_attempts (ob_record o')). safe_opt (snd (snd (snd a))))"

lemma obs_inv_new: "obs_inv (new_observation d)"
  by (simp add: obs_inv_def recorded_def new_observation_def safe_opt_def)

lemma sorted_wrt_less_snoc:
  "sorted_wrt (<) ((0::nat) # xs) \<Longrightarrow> last (0 # xs) < n \<Longrightarrow> sorted_wrt (<) (0 # xs @ [n])"
  by (cases xs rule: rev_cases) (auto simp: sorted_wrt_append intro: less_trans)

lemma obs_inv_before:
  assumes "obs_inv o'" and "unat (ob_attempt_count (ob_record o')) + 1 < 2 ^ 64"
  shows "obs_inv (read_before_attempt now o')"
proof -
  have "unat (ob_attempt_count (ob_record o') + 1) = unat (ob_attempt_count (ob_record o')) + 1"
    using assms(2) unat_add_lem [of "ob_attempt_count (ob_record o')" 1] by simp
  then show ?thesis
    using assms(1) by (auto simp: obs_inv_def recorded_def read_before_attempt_def Let_def safe_opt_def)
qed

lemma obs_inv_after: "obs_inv o' \<Longrightarrow> obs_inv (read_after_attempt now response o')"
  using sorted_wrt_less_snoc [of "recorded o'" "unat (ob_attempt_count (ob_record o'))"]
  by (auto simp: obs_inv_def recorded_def read_after_attempt_def Let_def from_response_def
      safe_opt_find_map safe_opt_bind split: option.splits)

definition is_before :: "hook \<Rightarrow> bool" where
  "is_before h = (case h of Before now \<Rightarrow> True | After now r \<Rightarrow> False)"

lemma run_hooks_inv:
  "obs_inv o' \<Longrightarrow> unat (ob_attempt_count (ob_record o')) + length (filter is_before hs) < 2 ^ 64 \<Longrightarrow>
   obs_inv (run_hooks hs o')"
proof (induction hs arbitrary: o')
  case Nil
  then show ?case by (simp add: run_hooks_def)
next
  case (Cons h hs)
  show ?case
  proof (cases h)
    case (Before now)
    have b: "unat (ob_attempt_count (ob_record o')) + 1 < 2 ^ 64"
      using Cons.prems(2) Before by (simp add: is_before_def)
    have "unat (ob_attempt_count (ob_record (read_before_attempt now o'))) \<le> unat (ob_attempt_count (ob_record o')) + 1"
      using b unat_add_lem [of "ob_attempt_count (ob_record o')" 1]
      by (simp add: read_before_attempt_def Let_def)
    then show ?thesis
      using Cons.IH [OF obs_inv_before [OF Cons.prems(1) b, of now]] Cons.prems(2) Before
      by (simp add: run_hooks_def is_before_def)
  next
    case (After now r)
    have "ob_attempt_count (ob_record (read_after_attempt now r o')) = ob_attempt_count (ob_record o')"
      by (auto simp: read_after_attempt_def Let_def split: option.splits)
    then show ?thesis
      using Cons.IH [OF obs_inv_after [OF Cons.prems(1), of now r]] Cons.prems(2) After
      by (simp add: run_hooks_def is_before_def)
  qed
qed

text \<open>
  C10: whatever hooks the SDK calls, in whatever order, the record stays bounded and clean: at
  most 32 attempts, numbered strictly upwards from at least 1 and never beyond the number
  started, every identifier well-formed, the \<open>attempts_truncated\<close> entry set exactly when more
  attempts were started than are listed.
\<close>

theorem observation_bounded:
  assumes "length (filter is_before hs) < 2 ^ 64"
    and "r = ob_record (run_hooks hs (new_observation detailed))"
  shows "length (ob_attempts r) \<le> 32
    \<and> sorted_wrt (<) (0 # map (\<lambda>a. unat (fst a)) (ob_attempts r))
    \<and> (\<forall>a \<in> set (ob_attempts r). unat (fst a) \<le> unat (ob_attempt_count r) \<and> safe_opt (snd (snd (snd a))))
    \<and> safe_opt (ob_request_id r) \<and> safe_opt (ob_extended_request_id r)"
proof -
  have inv: "obs_inv (run_hooks hs (new_observation detailed))"
    using assms(1) by (intro run_hooks_inv obs_inv_new) (simp add: new_observation_def)
  have top: "n \<le> last (0 # ns)" if "sorted_wrt (<) (0 # ns)" and "n \<in> set ns" for n :: nat and ns
    using that by (induction ns rule: rev_induct) (auto simp: sorted_wrt_append intro: less_imp_le)
  have "unat (fst a) \<le> unat (ob_attempt_count r)" if "a \<in> set (ob_attempts r)" for a
    using inv that top [of "recorded (run_hooks hs (new_observation detailed))" "unat (fst a)"]
    unfolding assms(2) by (fastforce simp: obs_inv_def recorded_def)
  with inv show ?thesis
    unfolding assms(2) by (auto simp: obs_inv_def recorded_def max_recorded_attempts_def)
qed

theorem observation_bounded_witness:
  "length (ob_attempts (ob_record (run_hooks [Before 0, Before 1, After 5 None] (new_observation True)))) \<le> 32"
  using observation_bounded [of "[Before 0, Before 1, After 5 None]" _ True, OF _ refl]
  by (simp add: is_before_def)

section \<open>The ids of an exception\<close>

lemma response_metadata_safe:
  assumes "safe_opt (ob_request_id (ob_record o'))" and "safe_opt (ob_extended_request_id (ob_record o'))"
  shows "safe_metadata (response_metadata (run_hooks hs o'))"
  using assms
proof (induction hs arbitrary: o')
  case Nil
  then show ?case by (simp add: run_hooks_def response_metadata_def safe_metadata_def no_metadata_def safe_opt_def Let_def)
next
  case (Cons h hs)
  have "safe_opt (ob_request_id (ob_record (run_hook h o')))" "safe_opt (ob_extended_request_id (ob_record (run_hook h o')))"
    using Cons.prems
    by (cases h; auto simp: read_before_attempt_def read_after_attempt_def Let_def from_response_def
        safe_opt_find_map safe_opt_bind split: option.splits; simp add: safe_opt_def)+
  from Cons.IH [OF this] show ?case by (simp add: run_hooks_def)
qed

text \<open>
  C28: no header data leaks through identifiers. Whatever attempts were observed and whatever the
  headers and bodies of their responses hold, every request id and host id that the exception of a
  failed operation carries is nonempty, at most 1024 bytes long and printable ASCII. The one exception
  it does not make is the application's own, raised while the SDK read a streamed body: that is
  passed on as it is.
\<close>

theorem exception_ids_safe:
  assumes "rboto_modules M" and "client_classes M modname"
  shows "let exc = http_sdk_error_to_py M err op' modname base (response_metadata (run_hooks hs (new_observation detailed)))
    in case python_error_source err of
        Some own \<Rightarrow> exc = own
      | None \<Rightarrow> \<forall>v \<in> carried_ids exc.
          v = PyNone \<or> (\<exists>s. v = PyStr s \<and> 0 < length s \<and> length s \<le> 1024 \<and> list_all is_ascii_graphic s)"
proof (cases "python_error_source err")
  case None
  have md: "safe_metadata (response_metadata (run_hooks hs (new_observation detailed)))"
    by (rule response_metadata_safe) (simp_all add: new_observation_def safe_opt_def)
  from exception_ids [OF assms md None] None show ?thesis by (simp add: Let_def)
next
  case (Some own)
  then show ?thesis
    by (cases err) (simp_all add: http_sdk_error_to_py_def sdk_error_to_py_def Let_def with_response_def)
qed

theorem exception_ids_safe_witness:
  "carried_ids (http_sdk_error_to_py (std_modules [])
      (ResponseError [] \<lparr>response_status = 200, response_header = (\<lambda>h. Some (''a'' @ [CHR 0x0A]))\<rparr>)
      ''op'' ''m'' ''b'' (response_metadata (run_hooks [Before 0] (new_observation True))))
    \<subseteq> {PyNone} \<union> PyStr ` {s. list_all is_ascii_graphic s}"
proof -
  have "client_classes (std_modules []) ''m''"
    by (simp add: client_classes_def std_modules_def table_modules_def)
  from exception_ids_safe [OF std_mods.rboto_modules_axioms this, of
      "ResponseError [] \<lparr>response_status = 200, response_header = (\<lambda>h. Some (''a'' @ [CHR 0x0A]))\<rparr>"]
  show ?thesis by (fastforce simp: Let_def)
qed

section \<open>A whole operation\<close>

text \<open>An attempt: when it started, when it ended, and the response it got.\<close>

type_synonym trip = "nat \<times> nat \<times> http_response option"

definition run_attempt :: "trip \<Rightarrow> operation_observation \<Rightarrow> operation_observation" where
  "run_attempt a o' = (case a of (t0, t1, response) \<Rightarrow>
     read_after_attempt t1 response (read_before_attempt t0 o'))"

definition run_operation :: "bool \<Rightarrow> trip list \<Rightarrow> operation_observation" where
  "run_operation detailed attempts = fold run_attempt attempts (new_observation detailed)"

definition response_status_of :: "http_response option \<Rightarrow> 16 word option" where
  "response_status_of r = map_option response_status r"

definition response_id_of :: "http_response option \<Rightarrow> string option" where
  "response_id_of r = Option.bind r (\<lambda>r. md_request_id (from_response r))"

definition entry_of :: "nat \<Rightarrow> trip \<Rightarrow> attempt" where
  "entry_of i a = (case a of (t0, t1, response) \<Rightarrow>
     (of_nat (Suc i), as_secs_f64 (t1 - t0), response_status_of response, response_id_of response))"

lemma run_operation_snoc: "run_operation d (as @ [a]) = run_attempt a (run_operation d as)"
  by (simp add: run_operation_def)

lemma run_attempt_effect:
  assumes "\<not> ob_poisoned o'"
  shows "\<not> ob_poisoned (run_attempt (t0, t1, r) o')"
    and "ob_detailed (run_attempt (t0, t1, r) o') = ob_detailed o'"
    and "ob_attempt_count (ob_record (run_attempt (t0, t1, r) o')) = ob_attempt_count (ob_record o') + 1"
    and "ob_attempts (ob_record (run_attempt (t0, t1, r) o')) = ob_attempts (ob_record o') @
      (if ob_detailed o' \<and> length (ob_attempts (ob_record o')) < 32
       then [(ob_attempt_count (ob_record o') + 1, as_secs_f64 (t1 - t0), response_status_of r, response_id_of r)]
       else [])"
    and "ob_status_code (ob_record (run_attempt (t0, t1, r) o')) = response_status_of r"
    and "ob_request_id (ob_record (run_attempt (t0, t1, r) o')) = response_id_of r"
  using assms
  by (auto simp: run_attempt_def read_before_attempt_def read_after_attempt_def Let_def
      max_recorded_attempts_def response_status_of_def response_id_of_def from_response_def
      split: option.splits)

lemma entries_snoc:
  "map (\<lambda>i. entry_of i ((as @ [a]) ! i)) [0..<min 32 (length (as @ [a]))] =
   map (\<lambda>i. entry_of i (as ! i)) [0..<min 32 (length as)] @
     (if length as < 32 then [entry_of (length as) a] else [])"
proof (cases "length as < 32")
  case True
  then have "min 32 (length (as @ [a])) = Suc (length as)" and "min 32 (length as) = length as" by simp_all
  then show ?thesis using True by (simp add: nth_append)
next
  case False
  then have "min 32 (length (as @ [a])) = 32" and "min 32 (length as) = 32" by simp_all
  then show ?thesis using False by (simp add: nth_append)
qed

lemma run_operation_state:
  "\<not> ob_poisoned (run_operation d as)
   \<and> ob_detailed (run_operation d as) = d
   \<and> ob_attempt_count (ob_record (run_operation d as)) = of_nat (length as)
   \<and> ob_attempts (ob_record (run_operation d as)) =
       (if d then map (\<lambda>i. entry_of i (as ! i)) [0..<min 32 (length as)] else [])
   \<and> (as \<noteq> [] \<longrightarrow> ob_status_code (ob_record (run_operation d as)) = response_status_of (snd (snd (last as)))
       \<and> ob_request_id (ob_record (run_operation d as)) = response_id_of (snd (snd (last as))))"
proof (induction as rule: rev_induct)
  case Nil
  then show ?case by (simp add: run_operation_def new_observation_def)
next
  case (snoc a as)
  obtain t0 t1 r where a: "a = (t0, t1, r)" by (cases a)
  have np: "\<not> ob_poisoned (run_operation d as)" using snoc by blast
  have len: "length (ob_attempts (ob_record (run_operation d as))) < 32 \<longleftrightarrow> length as < 32" if d
    using snoc that by (simp add: min_def)
  have e: "entry_of (length as) a =
      (of_nat (length as) + 1, as_secs_f64 (t1 - t0), response_status_of r, response_id_of r)"
    by (simp add: entry_of_def a add.commute)
  note eff = run_attempt_effect [OF np, of t0 t1 r, folded a]
  have st: "ob_detailed (run_operation d as) = d"
    "ob_attempt_count (ob_record (run_operation d as)) = of_nat (length as)"
    "ob_attempts (ob_record (run_operation d as)) =
       (if d then map (\<lambda>i. entry_of i (as ! i)) [0..<min 32 (length as)] else [])"
    using snoc by blast+
  have "ob_attempts (ob_record (run_operation d (as @ [a]))) =
      (if d then map (\<lambda>i. entry_of i ((as @ [a]) ! i)) [0..<min 32 (length (as @ [a]))] else [])"
    unfolding run_operation_snoc eff(4) entries_snoc e st by simp
  then show ?case
    unfolding run_operation_snoc using eff st a by simp
qed

text \<open>
  For an operation of \<open>n\<close> attempts with detailed observation, \<open>publish\<close> tells the number of
  attempts, the status and request id of the last response, the first 32 attempts in order with
  number, duration, status and request id, and whether some were left out; the metadata of an
  error says \<open>n - 1\<close> retries, none when nothing was attempted. What was in the dictionary under other
  keys stays.
\<close>

definition final_response :: "trip list \<Rightarrow> http_response option" where
  "final_response as = (if as = [] then None else snd (snd (last as)))"

lemma operation_published:
  assumes "length as < 2 ^ 64"
  shows "map_of (publish (run_operation True as) region sink) = (map_of sink)
     (PyStr ''region'' \<mapsto> opt_py PyStr region,
      PyStr ''attempt_count'' \<mapsto> PyInt (int (length as)),
      PyStr ''status_code'' \<mapsto> opt_py (\<lambda>c. PyInt (uint c)) (response_status_of (final_response as)),
      PyStr ''request_id'' \<mapsto> opt_py PyStr (response_id_of (final_response as)),
      PyStr ''attempts'' \<mapsto> PyList (map (\<lambda>i. attempt_to_py (entry_of i (as ! i))) [0..<min 32 (length as)]),
      PyStr ''attempts_truncated'' \<mapsto> PyBool (32 < length as))
    \<and> md_retry_attempts (response_metadata (run_operation True as)) = Some (of_nat (length as - 1))"
proof (cases "as = []")
  case True
  then show ?thesis
    by (simp add: run_operation_def new_observation_def final_response_def response_status_of_def response_id_of_def
        publish_def response_metadata_def Let_def map_of_set_item saturating_sub_def)
next
  case False
  note st = run_operation_state [of True as]
  have n: "unat (of_nat (length as) :: 64 word) = length as"
    using assms by (simp add: unat_of_nat take_bit_nat_eq_self)
  have u: "uint (of_nat (length as) :: 64 word) = int (length as)"
    using n by (metis uint_nat)
  have one: "\<not> (of_nat (length as) :: 64 word) < 1"
    using n False by (simp add: word_less_nat_alt Suc_le_eq)
  have d: "(of_nat (length as) :: 64 word) - 1 = of_nat (length as - Suc 0)"
    using False by (cases "length as") simp_all
  show ?thesis
    using st assms n u one d False
    by (simp add: publish_def response_metadata_def Let_def map_of_set_item saturating_sub_def comp_def
        min_def final_response_def)
qed

end
