(* ===== verification/Lifecycle.thy ===== *)
theory Lifecycle
  imports Prelude
begin

text \<open>
  Clients and streams as closable resources: \<open>crates/rboto-core/src/lifecycle.rs\<close>. The lifecycle
  counts leases and publishes closure; a \<open>ManagedResource\<close> keeps its value in a slot that
  iterators borrow and closure empties. Threads interleave at the granularity of the locks: one
  step is one critical section, and \<open>restore\<close>, whose check happens under the slot lock, is
  three.

  tokio's \<open>Notify\<close> is the record \<open>notify_api\<close>, with the documented behaviour of
  \<open>notify_waiters\<close> as the laws of a locale; the async mutex of a resource is the task that holds
  its guard. \<open>active\<close> is a count of live leases, far below the range of \<open>usize\<close>.
\<close>

section \<open>The lifecycle\<close>

record 'n notify_api =
  no_waiters :: 'n
  enable :: "nat \<Rightarrow> 'n \<Rightarrow> 'n"
  notify_waiters :: "'n \<Rightarrow> 'n"
  registered :: "nat \<Rightarrow> 'n \<Rightarrow> bool"
  notified :: "nat \<Rightarrow> 'n \<Rightarrow> bool"

record 'n lifecycle =
  lc_closed :: bool
  lc_active :: nat
  lc_changed :: 'n

definition new_lifecycle :: "'n notify_api \<Rightarrow> 'n lifecycle" where
  "new_lifecycle N = \<lparr>lc_closed = False, lc_active = 0, lc_changed = no_waiters N\<rparr>"

text \<open>\<open>enter\<close>: \<open>None\<close> when closed, otherwise the lifecycle with one more lease.\<close>

definition enter :: "'n lifecycle \<Rightarrow> 'n lifecycle option" where
  "enter lc = (if lc_closed lc then None else Some (lc\<lparr>lc_active := lc_active lc + 1\<rparr>))"

text \<open>\<open>close\<close> in its two steps: the flag under the lock, the notification after it.\<close>

definition close_flag :: "'n lifecycle \<Rightarrow> 'n lifecycle" where
  "close_flag lc = lc\<lparr>lc_closed := True\<rparr>"

definition close_notify :: "'n notify_api \<Rightarrow> 'n lifecycle \<Rightarrow> 'n lifecycle" where
  "close_notify N lc = lc\<lparr>lc_changed := notify_waiters N (lc_changed lc)\<rparr>"

definition is_closed :: "'n lifecycle \<Rightarrow> bool" where
  "is_closed lc = lc_closed lc"

definition is_idle :: "'n lifecycle \<Rightarrow> bool" where
  "is_idle lc \<longleftrightarrow> lc_active lc = 0"

text \<open>\<open>Lease::drop\<close>; \<open>None\<close> is the underflow of \<open>active -= 1\<close>.\<close>

definition drop_lease :: "'n notify_api \<Rightarrow> 'n lifecycle \<Rightarrow> 'n lifecycle option" where
  "drop_lease N lc =
     (if lc_active lc = 0 then None
      else (let lc = lc\<lparr>lc_active := lc_active lc - 1\<rparr>
            in Some (if lc_active lc = 0 then lc\<lparr>lc_changed := notify_waiters N (lc_changed lc)\<rparr> else lc)))"

text \<open>
  One poll of \<open>Lease::run\<close>: \<open>select\<close> polls the closure first, so a closed resource wins over a
  finished future.
\<close>

datatype 'a poll = Pending | Ready 'a

definition poll_run :: "bool \<Rightarrow> 'a poll \<Rightarrow> 'a option poll" where
  "poll_run shut future =
     (if shut then Ready None
      else (case future of Ready output \<Rightarrow> Ready (Some output) | Pending \<Rightarrow> Pending))"

text \<open>\<open>run_client\<close> turns an interrupted run into the error \<open>client_closed\<close>.\<close>

definition poll_run_client :: "'e \<Rightarrow> bool \<Rightarrow> ('e + 'a) poll \<Rightarrow> ('e + 'a) poll" where
  "poll_run_client closed_error shut future =
     (case poll_run shut future of
        Pending \<Rightarrow> Pending
      | Ready None \<Rightarrow> Ready (Inl closed_error)
      | Ready (Some r) \<Rightarrow> Ready r)"

text \<open>What \<open>aclose\<close> returns once closure is published.\<close>

datatype awaitable = CompletedFuture | WaitForIdle

definition aclose_result :: "'n lifecycle \<Rightarrow> awaitable" where
  "aclose_result lc = (if is_idle lc then CompletedFuture else WaitForIdle)"

section \<open>A managed resource\<close>

text \<open>
  What one task is doing: nothing yet; holding a lease (waiting for access, or working without
  the value); holding access; owning the value as an \<open>IteratorValue\<close>; inside \<open>restore\<close> before
  and after its check; owning the value for good (\<open>read\<close>); holding a clone of the value
  (\<open>acquire\<close>); done with its work but not with its lease; inside \<open>start_close\<close> after the flag
  and after the notification; closed; finished.
\<close>

datatype 'v task =
    Start
  | Leased
  | Accessing
  | Owner 'v
  | Restoring 'v
  | Decided 'v bool
  | Draining 'v
  | Cloned 'v
  | Releasing
  | Flagged
  | Notified
  | Closed
  | Finished

record ('v, 'n) managed =
  m_lifecycle :: "'n lifecycle"
  m_slot :: "'v option"
  m_slot_lock :: "nat option"
  m_access :: "nat option"
  m_tasks :: "nat \<Rightarrow> 'v task"
  m_dropped :: "'v list"

definition new_managed :: "'n notify_api \<Rightarrow> 'v \<Rightarrow> ('v, 'n) managed" where
  "new_managed N v =
     \<lparr>m_lifecycle = new_lifecycle N, m_slot = Some v, m_slot_lock = None, m_access = None,
      m_tasks = (\<lambda>t. Start), m_dropped = []\<rparr>"

definition set_task :: "nat \<Rightarrow> 'v task \<Rightarrow> ('v, 'n) managed \<Rightarrow> ('v, 'n) managed" where
  "set_task t p m = m\<lparr>m_tasks := (m_tasks m)(t := p)\<rparr>"

definition opt_list :: "'a option \<Rightarrow> 'a list" where
  "opt_list v = (case v of None \<Rightarrow> [] | Some x \<Rightarrow> [x])"

text \<open>\<open>take\<close>, inside the slot lock.\<close>

definition take_slot :: "('v, 'n) managed \<Rightarrow> 'v option \<times> ('v, 'n) managed" where
  "take_slot m = (m_slot m, m\<lparr>m_slot := None\<rparr>)"

text \<open>The two outcomes of \<open>restore\<close>; storing over a value would drop that one.\<close>

definition store_value :: "'v \<Rightarrow> ('v, 'n) managed \<Rightarrow> ('v, 'n) managed" where
  "store_value v m = m\<lparr>m_slot := Some v, m_slot_lock := None, m_access := None,
     m_dropped := m_dropped m @ opt_list (m_slot m)\<rparr>"

definition refuse_value :: "'v \<Rightarrow> ('v, 'n) managed \<Rightarrow> ('v, 'n) managed" where
  "refuse_value v m = m\<lparr>m_slot_lock := None, m_access := None, m_dropped := m_dropped m @ [v]\<rparr>"

text \<open>
  The steps. Dropping the future of a task, on closure or cancellation, drops what it holds:
  access, or the \<open>IteratorValue\<close>, whose destructor is \<open>restore\<close>.
\<close>

inductive step :: "'n notify_api \<Rightarrow> ('v, 'n) managed \<Rightarrow> ('v, 'n) managed \<Rightarrow> bool" for N where
  begin_ok: "m_tasks m t = Start \<Longrightarrow> enter (m_lifecycle m) = Some lc \<Longrightarrow>
    step N m (set_task t Leased (m\<lparr>m_lifecycle := lc\<rparr>))"
| begin_closed: "m_tasks m t = Start \<Longrightarrow> enter (m_lifecycle m) = None \<Longrightarrow> step N m (set_task t Finished m)"
| clone_value: "m_tasks m t = Leased \<Longrightarrow> m_slot_lock m = None \<Longrightarrow> m_slot m = Some v \<Longrightarrow>
    step N m (set_task t (Cloned v) m)"
| drop_clone: "m_tasks m t = Cloned v \<Longrightarrow> step N m (set_task t Releasing m)"
| get_access: "m_tasks m t = Leased \<Longrightarrow> m_access m = None \<Longrightarrow>
    step N m (set_task t Accessing (m\<lparr>m_access := Some t\<rparr>))"
| abandon: "m_tasks m t = Leased \<Longrightarrow> step N m (set_task t Releasing m)"
| take_nothing: "m_tasks m t = Accessing \<Longrightarrow> m_slot_lock m = None \<Longrightarrow> take_slot m = (None, m') \<Longrightarrow>
    step N m (set_task t Releasing (m'\<lparr>m_access := None\<rparr>))"
| take_iteration: "m_tasks m t = Accessing \<Longrightarrow> m_slot_lock m = None \<Longrightarrow> take_slot m = (Some v, m') \<Longrightarrow>
    step N m (set_task t (Owner v) m')"
| take_read: "m_tasks m t = Accessing \<Longrightarrow> m_slot_lock m = None \<Longrightarrow> take_slot m = (Some v, m') \<Longrightarrow>
    step N m (set_task t (Draining v) (m'\<lparr>m_access := None\<rparr>))"
| discard: "m_tasks m t = Owner v \<Longrightarrow>
    step N m (set_task t Releasing (m\<lparr>m_access := None, m_dropped := m_dropped m @ [v]\<rparr>))"
| restore_lock: "m_tasks m t = Owner v \<Longrightarrow> m_slot_lock m = None \<Longrightarrow>
    step N m (set_task t (Restoring v) (m\<lparr>m_slot_lock := Some t\<rparr>))"
| restore_check: "m_tasks m t = Restoring v \<Longrightarrow>
    step N m (set_task t (Decided v (is_closed (m_lifecycle m))) m)"
| restore_store: "m_tasks m t = Decided v False \<Longrightarrow> step N m (set_task t Releasing (store_value v m))"
| restore_refuse: "m_tasks m t = Decided v True \<Longrightarrow> step N m (set_task t Releasing (refuse_value v m))"
| drained: "m_tasks m t = Draining v \<Longrightarrow>
    step N m (set_task t Releasing (m\<lparr>m_dropped := m_dropped m @ [v]\<rparr>))"
| release: "m_tasks m t = Releasing \<Longrightarrow> drop_lease N (m_lifecycle m) = Some lc \<Longrightarrow>
    step N m (set_task t Finished (m\<lparr>m_lifecycle := lc\<rparr>))"
| close_flagged: "m_tasks m t = Start \<Longrightarrow>
    step N m (set_task t Flagged (m\<lparr>m_lifecycle := close_flag (m_lifecycle m)\<rparr>))"
| close_notified: "m_tasks m t = Flagged \<Longrightarrow>
    step N m (set_task t Notified (m\<lparr>m_lifecycle := close_notify N (m_lifecycle m)\<rparr>))"
| close_taken: "m_tasks m t = Notified \<Longrightarrow> m_slot_lock m = None \<Longrightarrow> take_slot m = (v, m') \<Longrightarrow>
    step N m (set_task t Closed (m'\<lparr>m_dropped := m_dropped m @ opt_list v\<rparr>))"

inductive reachable :: "'n notify_api \<Rightarrow> 'v \<Rightarrow> ('v, 'n) managed \<Rightarrow> bool" for N v where
  initial: "reachable N v (new_managed N v)"
| further: "reachable N v m \<Longrightarrow> step N m m' \<Longrightarrow> reachable N v m'"

section \<open>Invariants\<close>

fun leased :: "'v task \<Rightarrow> bool" where
  "leased Leased = True"
| "leased Accessing = True"
| "leased (Owner v) = True"
| "leased (Restoring v) = True"
| "leased (Decided v b) = True"
| "leased (Draining v) = True"
| "leased (Cloned v) = True"
| "leased Releasing = True"
| "leased _ = False"

fun owned :: "'v task \<Rightarrow> 'v option" where
  "owned (Owner v) = Some v"
| "owned (Restoring v) = Some v"
| "owned (Decided v b) = Some v"
| "owned (Draining v) = Some v"
| "owned _ = None"

fun in_slot_section :: "'v task \<Rightarrow> bool" where
  "in_slot_section (Restoring v) = True"
| "in_slot_section (Decided v b) = True"
| "in_slot_section _ = False"

fun has_access :: "'v task \<Rightarrow> bool" where
  "has_access Accessing = True"
| "has_access (Owner v) = True"
| "has_access (Restoring v) = True"
| "has_access (Decided v b) = True"
| "has_access _ = False"

text \<open>The value is in one place: the slot, one task, or dropped.\<close>

definition one_place :: "'v \<Rightarrow> ('v, 'n) managed \<Rightarrow> bool" where
  "one_place v m \<longleftrightarrow>
     (m_slot m = Some v \<and> (\<forall>t. owned (m_tasks m t) = None) \<and> m_dropped m = [])
     \<or> (m_slot m = None \<and> (\<exists>t. owned (m_tasks m t) = Some v \<and> (\<forall>u. u \<noteq> t \<longrightarrow> owned (m_tasks m u) = None))
          \<and> m_dropped m = [])
     \<or> (m_slot m = None \<and> (\<forall>t. owned (m_tasks m t) = None) \<and> m_dropped m = [v])"

definition held_by :: "nat option \<Rightarrow> (nat \<Rightarrow> bool) \<Rightarrow> bool" where
  "held_by lock holds = (case lock of None \<Rightarrow> \<forall>t. \<not> holds t | Some t \<Rightarrow> \<forall>u. holds u \<longleftrightarrow> u = t)"

definition locks_ok :: "('v, 'n) managed \<Rightarrow> bool" where
  "locks_ok m \<longleftrightarrow> held_by (m_slot_lock m) (\<lambda>t. in_slot_section (m_tasks m t))
     \<and> held_by (m_access m) (\<lambda>t. has_access (m_tasks m t))"

definition count_ok :: "('v, 'n) managed \<Rightarrow> bool" where
  "count_ok m \<longleftrightarrow> finite {t. leased (m_tasks m t)}
     \<and> lc_active (m_lifecycle m) = card {t. leased (m_tasks m t)}"

definition closing_ok :: "('v, 'n) managed \<Rightarrow> bool" where
  "closing_ok m \<longleftrightarrow>
     ((\<exists>t. m_tasks m t \<in> {Flagged, Notified, Closed}) \<longrightarrow> lc_closed (m_lifecycle m))
     \<and> (\<forall>t v. m_tasks m t = Decided v True \<longrightarrow> lc_closed (m_lifecycle m))
     \<and> ((\<exists>t. m_tasks m t = Closed) \<longrightarrow> m_slot m = None \<and> (\<forall>t v. m_tasks m t \<noteq> Decided v False))"

lemma set_task_simps [simp]:
  "m_tasks (set_task t p m) = (m_tasks m)(t := p)"
  "m_lifecycle (set_task t p m) = m_lifecycle m"
  "m_slot (set_task t p m) = m_slot m"
  "m_slot_lock (set_task t p m) = m_slot_lock m"
  "m_access (set_task t p m) = m_access m"
  "m_dropped (set_task t p m) = m_dropped m"
  by (simp_all add: set_task_def)

lemma take_slot_iff [simp]: "take_slot m = (v, m') \<longleftrightarrow> v = m_slot m \<and> m' = m\<lparr>m_slot := None\<rparr>"
  by (auto simp: take_slot_def)

lemma store_value_simps [simp]:
  "m_tasks (store_value v m) = m_tasks m" "m_lifecycle (store_value v m) = m_lifecycle m"
  "m_slot (store_value v m) = Some v" "m_slot_lock (store_value v m) = None"
  "m_access (store_value v m) = None" "m_dropped (store_value v m) = m_dropped m @ opt_list (m_slot m)"
  by (simp_all add: store_value_def)

lemma refuse_value_simps [simp]:
  "m_tasks (refuse_value v m) = m_tasks m" "m_lifecycle (refuse_value v m) = m_lifecycle m"
  "m_slot (refuse_value v m) = m_slot m" "m_slot_lock (refuse_value v m) = None"
  "m_access (refuse_value v m) = None" "m_dropped (refuse_value v m) = m_dropped m @ [v]"
  by (simp_all add: refuse_value_def)

lemma lifecycle_simps [simp]:
  "lc_active (close_flag lc) = lc_active lc" "lc_closed (close_flag lc)"
  "lc_active (close_notify N lc) = lc_active lc" "lc_closed (close_notify N lc) = lc_closed lc"
  by (simp_all add: close_flag_def close_notify_def)

lemma enter_Some [simp]: "enter lc = Some lc' \<longleftrightarrow> \<not> lc_closed lc \<and> lc' = lc\<lparr>lc_active := lc_active lc + 1\<rparr>"
  by (auto simp: enter_def)

lemma enter_None [simp]: "enter lc = None \<longleftrightarrow> lc_closed lc"
  by (simp add: enter_def)

lemma drop_lease_Some:
  "drop_lease N lc = Some lc' \<Longrightarrow> 0 < lc_active lc \<and> lc_active lc' = lc_active lc - 1 \<and> lc_closed lc' = lc_closed lc"
  by (auto simp: drop_lease_def Let_def split: if_splits)

lemma owner_place:
  assumes "one_place v m" and "owned (m_tasks m t) = Some w"
  shows "w = v \<and> m_slot m = None \<and> (\<forall>u. u \<noteq> t \<longrightarrow> owned (m_tasks m u) = None) \<and> m_dropped m = []"
  using assms(1) unfolding one_place_def
proof (elim disjE conjE exE)
  fix u assume "owned (m_tasks m u) = Some v" and others: "\<forall>w. w \<noteq> u \<longrightarrow> owned (m_tasks m w) = None"
    and "m_slot m = None" and "m_dropped m = []"
  moreover from others assms(2) have "u = t" by (metis option.distinct(1))
  ultimately show ?thesis using assms(2) by simp
qed (use assms(2) in simp_all)

lemma owned_same:
  "owned p = owned (m_tasks m t) \<Longrightarrow> owned (((m_tasks m)(t := p)) u) = owned (m_tasks m u)"
  by simp

lemma one_place_step: "step N m m' \<Longrightarrow> one_place v m \<Longrightarrow> one_place v m'"
proof (induction rule: step.induct)
  case (restore_store m t w)
  then have "owned (m_tasks m t) = Some w" by simp
  from owner_place [OF restore_store(2) this] show ?case
    by (auto simp: one_place_def opt_list_def)
next
  case (restore_refuse m t w)
  then have "owned (m_tasks m t) = Some w" by simp
  from owner_place [OF restore_refuse(2) this] show ?case by (auto simp: one_place_def)
next
  case (discard m t w)
  then have "owned (m_tasks m t) = Some w" by simp
  from owner_place [OF discard(2) this] show ?case by (auto simp: one_place_def)
next
  case (drained m t w)
  then have "owned (m_tasks m t) = Some w" by simp
  from owner_place [OF drained(2) this] show ?case by (auto simp: one_place_def)
next
  case (restore_lock m t w)
  then have "owned (m_tasks m t) = Some w" by simp
  from owner_place [OF restore_lock(3) this] show ?case by (auto simp: one_place_def)
next
  case (restore_check m t w)
  then have "owned (m_tasks m t) = Some w" by simp
  from owner_place [OF restore_check(2) this] show ?case by (auto simp: one_place_def)
next
  case (close_taken m t v' m'')
  then have "owned Closed = owned (m_tasks m t)" by simp
  note same = owned_same [of Closed m t, OF this]
  from close_taken show ?case by (auto simp: one_place_def opt_list_def same simp del: fun_upd_apply)
next
  case (take_iteration m t w m')
  then show ?case by (auto simp: one_place_def)
next
  case (take_read m t w m')
  then show ?case by (auto simp: one_place_def)
qed (simp_all add: one_place_def owned_same del: fun_upd_apply)

lemma held_by_take: "held_by None (\<lambda>u. holds (f u)) \<Longrightarrow> holds p \<Longrightarrow> held_by (Some t) (\<lambda>u. holds ((f(t := p)) u))"
  by (auto simp: held_by_def)

lemma held_by_release:
  "held_by lock (\<lambda>u. holds (f u)) \<Longrightarrow> holds (f t) \<Longrightarrow> \<not> holds p \<Longrightarrow> held_by None (\<lambda>u. holds ((f(t := p)) u))"
  by (auto simp: held_by_def split: option.splits)

lemma held_by_same:
  "held_by lock (\<lambda>u. holds (f u)) \<Longrightarrow> holds p = holds (f t) \<Longrightarrow> held_by lock (\<lambda>u. holds ((f(t := p)) u))"
  by (auto simp: held_by_def split: option.splits)

lemmas slot_rules = held_by_take [where holds = in_slot_section] held_by_same [where holds = in_slot_section]
  held_by_release [where holds = in_slot_section and lock = "m_slot_lock m" and f = "m_tasks m" for m]

lemmas access_rules = held_by_take [where holds = has_access] held_by_same [where holds = has_access]
  held_by_release [where holds = has_access and lock = "m_access m" and f = "m_tasks m" for m]

lemma locks_ok_step: "step N m m' \<Longrightarrow> locks_ok m \<Longrightarrow> locks_ok m'"
  by (induction rule: step.induct)
    (simp_all add: locks_ok_def slot_rules access_rules del: fun_upd_apply)

lemma leased_insert:
  "\<not> leased (m_tasks m t) \<Longrightarrow> leased p \<Longrightarrow>
   {u. leased (((m_tasks m)(t := p)) u)} = insert t {u. leased (m_tasks m u)}"
  by auto

lemma leased_remove:
  "leased (m_tasks m t) \<Longrightarrow> \<not> leased p \<Longrightarrow>
   {u. leased (((m_tasks m)(t := p)) u)} = {u. leased (m_tasks m u)} - {t}"
  by auto

lemma leased_same:
  "leased p = leased (m_tasks m t) \<Longrightarrow> {u. leased (((m_tasks m)(t := p)) u)} = {u. leased (m_tasks m u)}"
  by auto

lemma count_ok_step: "step N m m' \<Longrightarrow> count_ok m \<Longrightarrow> count_ok m'"
proof (induction rule: step.induct)
  case (begin_ok m t lc)
  then show ?case by (simp add: count_ok_def leased_insert del: fun_upd_apply)
next
  case (release m t lc)
  then have "t \<in> {u. leased (m_tasks m u)}" by simp
  with release drop_lease_Some [OF release(2)] show ?case
    by (simp add: count_ok_def leased_remove card_Diff_singleton del: fun_upd_apply)
qed (simp_all add: count_ok_def leased_same del: fun_upd_apply)

lemma closing_ok_step: "step N m m' \<Longrightarrow> closing_ok m \<Longrightarrow> locks_ok m \<Longrightarrow> closing_ok m'"
proof (induction rule: step.induct)
  case (release m t lc)
  then show ?case using drop_lease_Some [OF release(2)] by (auto simp: closing_ok_def)
next
  case (restore_check m t w)
  then show ?case by (auto simp: closing_ok_def is_closed_def)
next
  case (close_taken m t v' m'')
  have "m_tasks m u \<noteq> Decided w b" for u w b
  proof
    assume "m_tasks m u = Decided w b"
    then have "in_slot_section (m_tasks m u)" by simp
    with close_taken show False by (simp add: locks_ok_def held_by_def)
  qed
  then show ?case using close_taken by (auto simp: closing_ok_def)
qed (auto simp: closing_ok_def)

text \<open>All of it holds in every reachable state.\<close>

lemma reachable_inv:
  assumes "reachable N v m"
  shows "one_place v m" and "locks_ok m" and "count_ok m" and "closing_ok m"
proof -
  have "one_place v m \<and> locks_ok m \<and> count_ok m \<and> closing_ok m"
    using assms
  proof (induction rule: reachable.induct)
    case initial
    show ?case
      by (simp add: one_place_def locks_ok_def count_ok_def closing_ok_def new_managed_def new_lifecycle_def held_by_def)
  next
    case (further m m')
    then show ?case
      using one_place_step [OF further(2)] locks_ok_step [OF further(2)] count_ok_step [OF further(2)]
        closing_ok_step [OF further(2)] by simp
  qed
  then show "one_place v m" and "locks_ok m" and "count_ok m" and "closing_ok m" by blast+
qed

section \<open>Properties of managed resources\<close>

text \<open>The laws of \<open>Notify\<close>, and an instance: who is registered and who was notified.\<close>

locale notify_laws =
  fixes N :: "'n notify_api"
  assumes enable_registers: "registered N t (enable N t n)"
    and enable_fresh: "\<not> notified N t (enable N t n)"
    and enable_other: "u \<noteq> t \<Longrightarrow> registered N u (enable N t n) = registered N u n"
      "u \<noteq> t \<Longrightarrow> notified N u (enable N t n) = notified N u n"
    and notify_all: "notified N u (notify_waiters N n) \<longleftrightarrow> notified N u n \<or> registered N u n"

definition notify_std :: "(nat set \<times> nat set) notify_api" where
  "notify_std =
     \<lparr>no_waiters = ({}, {}), enable = (\<lambda>t (r, n). (insert t r, n - {t})),
      notify_waiters = (\<lambda>(r, n). ({}, n \<union> r)), registered = (\<lambda>t (r, n). t \<in> r),
      notified = (\<lambda>t (r, n). t \<in> n)\<rparr>"

interpretation std_notify: notify_laws notify_std
  by unfold_locales (auto simp: notify_std_def split: prod.splits)

text \<open>A short run: closure without any other task.\<close>

definition closed_managed :: "(nat, nat set \<times> nat set) managed" where
  "closed_managed =
     (let m = new_managed notify_std 7;
          m = set_task 0 Flagged (m\<lparr>m_lifecycle := close_flag (m_lifecycle m)\<rparr>);
          m = set_task 0 Notified (m\<lparr>m_lifecycle := close_notify notify_std (m_lifecycle m)\<rparr>)
      in set_task 0 Closed (m\<lparr>m_slot := None, m_dropped := [7]\<rparr>))"

lemma closed_slot: "m_slot closed_managed = None" "m_dropped closed_managed = [7]"
  by (simp_all add: closed_managed_def Let_def set_task_def)

lemma reachable_closed: "reachable notify_std 7 closed_managed"
proof -
  let ?m0 = "new_managed notify_std 7 :: (nat, nat set \<times> nat set) managed"
  let ?m1 = "set_task 0 Flagged (?m0\<lparr>m_lifecycle := close_flag (m_lifecycle ?m0)\<rparr>)"
  let ?m2 = "set_task 0 Notified (?m1\<lparr>m_lifecycle := close_notify notify_std (m_lifecycle ?m1)\<rparr>)"
  have s1: "step notify_std ?m0 ?m1"
    by (rule step.close_flagged) (simp add: new_managed_def)
  have s2: "step notify_std ?m1 ?m2"
    by (rule step.close_notified) simp
  have s3: "step notify_std ?m2 closed_managed"
    using step.close_taken [of ?m2 0 "Some 7" "?m2\<lparr>m_slot := None\<rparr>" notify_std]
    by (simp add: closed_managed_def new_managed_def opt_list_def set_task_def Let_def)
  have "reachable notify_std 7 ?m1" by (rule reachable.further [OF reachable.initial s1])
  then have "reachable notify_std 7 ?m2" by (rule reachable.further [OF _ s2])
  then show ?thesis by (rule reachable.further [OF _ s3])
qed

text \<open>
  C1: the value of a resource is never duplicated and never lost: in every reachable state,
  under every interleaving of iterators, readers, cancellations and closures, it is in the slot,
  or owned by exactly one task, or dropped once.
\<close>

theorem resource_has_one_owner:
  assumes "reachable N v m"
  shows "(m_slot m = Some v \<and> (\<forall>t. owned (m_tasks m t) = None) \<and> m_dropped m = [])
    \<or> (m_slot m = None \<and> (\<exists>!t. owned (m_tasks m t) \<noteq> None) \<and> (\<exists>t. owned (m_tasks m t) = Some v) \<and> m_dropped m = [])
    \<or> (m_slot m = None \<and> (\<forall>t. owned (m_tasks m t) = None) \<and> m_dropped m = [v])"
  using reachable_inv(1) [OF assms] unfolding one_place_def by (metis option.distinct(1))

theorem resource_has_one_owner_witness:
  "m_slot closed_managed = None \<and> (\<forall>t. owned (m_tasks closed_managed t) = None) \<and> m_dropped closed_managed = [7]"
  using resource_has_one_owner [OF reachable_closed] by (auto simp: closed_slot)

lemma closed_stays: "step N m m' \<Longrightarrow> m_tasks m t = Closed \<Longrightarrow> m_tasks m' t = Closed"
  by (induction rule: step.induct) auto

text \<open>
  C9: closure is final. Once one \<open>start_close\<close> has run to its end the slot is empty, whatever
  happens afterwards: an iterator in flight cannot put its value back, and no new lease is given
  out.
\<close>

theorem closure_is_final:
  assumes "reachable N v m" and "m_tasks m t = Closed" and "(step N)\<^sup>*\<^sup>* m m'"
  shows "m_slot m' = None \<and> enter (m_lifecycle m') = None \<and> (\<forall>w u. m_tasks m' u \<noteq> Decided w False)"
proof -
  from assms(3) have "reachable N v m' \<and> m_tasks m' t = Closed"
  proof (induction rule: rtranclp_induct)
    case base
    show ?case using assms(1,2) by simp
  next
    case (step x y)
    then show ?case using closed_stays [OF step(2)] reachable.further [of N v x y] by simp
  qed
  then show ?thesis using reachable_inv(4) [of N v m'] by (auto simp: closing_ok_def)
qed

theorem closure_is_final_witness: "enter (m_lifecycle closed_managed) = None"
proof -
  have "m_tasks closed_managed 0 = Closed" by (simp add: closed_managed_def Let_def)
  from closure_is_final [OF reachable_closed this rtranclp.rtrancl_refl] show ?thesis by blast
qed

text \<open>
  C38: when a closed resource is idle it is gone. After \<open>start_close\<close>, as soon as no lease is
  left (which is when \<open>aclose\<close> completes), the value has been dropped, no task owns it or holds a
  clone of it, and no task works.
\<close>

theorem idle_after_close_means_dropped:
  assumes "reachable N v m" and "m_tasks m t = Closed" and "is_idle (m_lifecycle m)"
  shows "m_dropped m = [v] \<and> (\<forall>u. \<not> leased (m_tasks m u)) \<and> aclose_result (m_lifecycle m) = CompletedFuture"
proof -
  note inv = reachable_inv [OF assms(1)]
  have none: "\<not> leased (m_tasks m u)" for u
    using inv(3) assms(3) by (auto simp: count_ok_def is_idle_def)
  have "owned (m_tasks m u) = None" for u
    using none [of u] by (cases "m_tasks m u") auto
  moreover have "m_slot m = None"
    using inv(4) assms(2) by (auto simp: closing_ok_def)
  ultimately show ?thesis
    using inv(1) none assms(3) by (auto simp: one_place_def aclose_result_def)
qed

theorem idle_after_close_means_dropped_witness: "m_dropped closed_managed = [7]"
proof -
  have "m_tasks closed_managed 0 = Closed" and "is_idle (m_lifecycle closed_managed)"
    by (simp_all add: closed_managed_def is_idle_def new_managed_def new_lifecycle_def Let_def)
  from idle_after_close_means_dropped [OF reachable_closed this] show ?thesis by blast
qed

text \<open>How far a task is from its end.\<close>

fun rank :: "'v task \<Rightarrow> nat" where
  "rank Start = 8"
| "rank Leased = 7"
| "rank Accessing = 6"
| "rank (Owner v) = 5"
| "rank (Restoring v) = 4"
| "rank (Decided v b) = 3"
| "rank (Draining v) = 3"
| "rank (Cloned v) = 3"
| "rank Releasing = 2"
| "rank Flagged = 3"
| "rank Notified = 2"
| "rank Closed = 0"
| "rank Finished = 0"

lemma task_moves:
  assumes "m_tasks m t \<notin> {Start, Finished, Closed}" and "m_slot_lock m = None \<or> in_slot_section (m_tasks m t)"
    and "m_tasks m t = Releasing \<Longrightarrow> 0 < lc_active (m_lifecycle m)"
  shows "\<exists>m' p. step N m m' \<and> m_tasks m' = (m_tasks m)(t := p) \<and> rank p < rank (m_tasks m t)"
proof (cases "m_tasks m t")
  case Leased
  then show ?thesis using step.abandon [of m t N] by (intro exI conjI) auto
next
  case Accessing
  show ?thesis
  proof (cases "m_slot m")
    case None
    then show ?thesis
      using step.take_nothing [of m t "m\<lparr>m_slot := None\<rparr>" N] Accessing assms(2) by (intro exI conjI) auto
  next
    case (Some v)
    then show ?thesis
      using step.take_iteration [of m t v "m\<lparr>m_slot := None\<rparr>" N] Accessing assms(2) by (intro exI conjI) auto
  qed
next
  case (Owner v)
  then show ?thesis using step.discard [of m t v N] by (intro exI conjI) auto
next
  case (Restoring v)
  then show ?thesis using step.restore_check [of m t v N] by (intro exI conjI) auto
next
  case (Decided v b)
  then show ?thesis
    using step.restore_store [of m t v N] step.restore_refuse [of m t v N]
    by (cases b) (intro exI conjI, auto)+
next
  case (Draining v)
  then show ?thesis using step.drained [of m t v N] by (intro exI conjI) auto
next
  case (Cloned v)
  then show ?thesis using step.drop_clone [of m t v N] by (intro exI conjI) auto
next
  case Releasing
  then obtain lc where "drop_lease N (m_lifecycle m) = Some lc"
    using assms(3) by (auto simp: drop_lease_def Let_def)
  then show ?thesis using step.release [of m t N lc] Releasing by (intro exI conjI) auto
next
  case Flagged
  then show ?thesis using step.close_notified [of m t N] by (intro exI conjI) auto
next
  case Notified
  then show ?thesis
    using step.close_taken [of m t "m_slot m" "m\<lparr>m_slot := None\<rparr>" N] assms(2) by (intro exI conjI) auto
qed (use assms(1) in auto)

text \<open>
  C30: the leases are counted exactly, dropping one never underflows, and no task can block the
  others for ever: while a task that has begun is not at its end some task that has begun can
  move, and every move brings one task strictly nearer its end.
\<close>

theorem resource_makes_progress:
  assumes "reachable N v m" and "m_tasks m t \<notin> {Start, Finished, Closed}"
  shows "lc_active (m_lifecycle m) = card {u. leased (m_tasks m u)}
    \<and> (\<exists>m' u. step N m m' \<and> m_tasks m u \<noteq> Start \<and> rank (m_tasks m' u) < rank (m_tasks m u)
          \<and> (\<forall>w. w \<noteq> u \<longrightarrow> m_tasks m' w = m_tasks m w))"
proof -
  note inv = reachable_inv [OF assms(1)]
  have active: "0 < lc_active (m_lifecycle m)" if "m_tasks m u = Releasing" for u
  proof -
    have "{u. leased (m_tasks m u)} \<noteq> {}" using that by (auto intro!: exI [of _ u])
    then show ?thesis using inv(3) by (auto simp: count_ok_def card_gt_0_iff)
  qed
  obtain u where u: "m_tasks m u \<notin> {Start, Finished, Closed}"
    and free: "m_slot_lock m = None \<or> in_slot_section (m_tasks m u)"
  proof (cases "m_slot_lock m")
    case None
    then show ?thesis using that [OF assms(2)] by blast
  next
    case (Some s)
    then have "in_slot_section (m_tasks m s)" using inv(2) by (simp add: locks_ok_def held_by_def)
    then show ?thesis using that [of s] by (cases "m_tasks m s") auto
  qed
  from task_moves [OF u free active] obtain m' p where
    m': "step N m m'" "m_tasks m' = (m_tasks m)(u := p)" "rank p < rank (m_tasks m u)" by blast
  then have "m_tasks m u \<noteq> Start \<and> rank (m_tasks m' u) < rank (m_tasks m u)
      \<and> (\<forall>w. w \<noteq> u \<longrightarrow> m_tasks m' w = m_tasks m w)" using u by simp
  with m'(1) inv(3) show ?thesis unfolding count_ok_def by blast
qed

theorem resource_makes_progress_witness:
  "\<exists>m' u. step notify_std (set_task 0 Flagged ((new_managed notify_std (7::nat))\<lparr>m_lifecycle := close_flag (new_lifecycle notify_std)\<rparr>)) m'
    \<and> rank (m_tasks m' u) < 4"
proof -
  let ?m0 = "new_managed notify_std 7 :: (nat, nat set \<times> nat set) managed"
  let ?m1 = "set_task 0 Flagged (?m0\<lparr>m_lifecycle := close_flag (new_lifecycle notify_std)\<rparr>)"
  have "step notify_std ?m0 ?m1"
    using step.close_flagged [of ?m0 0 notify_std] by (simp add: new_managed_def)
  then have r: "reachable notify_std 7 ?m1" by (intro reachable.further [OF reachable.initial])
  have "m_tasks ?m1 0 \<notin> {Start, Finished, Closed}" by simp
  from resource_makes_progress [OF r this] obtain m' u where
    m': "step notify_std ?m1 m'" "m_tasks ?m1 u \<noteq> Start" "rank (m_tasks m' u) < rank (m_tasks ?m1 u)" by blast
  from m'(2) have "u = 0" by (auto simp: new_managed_def split: if_splits)
  with m' show ?thesis by (intro exI [of _ m'] exI [of _ u]) simp
qed

end
