(* ===== verification/Waiting.thy ===== *)
theory Waiting
  imports Lifecycle
begin

text \<open>
  \<open>Lifecycle::wait_for\<close> (\<open>crates/rboto-core/src/lifecycle.rs\<close>): tasks that wait until a resource is
  closed (every running lease) or idle (every \<open>aclose\<close>), against tasks that take and drop leases
  and close. A round of the loop is three steps: register, check, park.
\<close>

section \<open>Definitions\<close>

datatype wait_kind = UntilClosed | UntilIdle

fun predicate :: "wait_kind \<Rightarrow> 'n lifecycle \<Rightarrow> bool" where
  "predicate UntilClosed lc = is_closed lc"
| "predicate UntilIdle lc = is_idle lc"

datatype actor = Free | Holding | Closing | Looping wait_kind | Enabled wait_kind | Parked wait_kind
  | Returned wait_kind

record 'n monitor =
  mo_lifecycle :: "'n lifecycle"
  mo_actors :: "nat \<Rightarrow> actor"

definition new_monitor :: "'n notify_api \<Rightarrow> 'n monitor" where
  "new_monitor N = \<lparr>mo_lifecycle = new_lifecycle N, mo_actors = (\<lambda>t. Free)\<rparr>"

definition act :: "nat \<Rightarrow> actor \<Rightarrow> 'n lifecycle \<Rightarrow> 'n monitor \<Rightarrow> 'n monitor" where
  "act t a lc m = m\<lparr>mo_lifecycle := lc, mo_actors := (mo_actors m)(t := a)\<rparr>"

text \<open>\<open>let notified = changed.notified(); notified.enable()\<close> by task \<open>t\<close>.\<close>

definition register :: "'n notify_api \<Rightarrow> nat \<Rightarrow> 'n lifecycle \<Rightarrow> 'n lifecycle" where
  "register N t lc = lc\<lparr>lc_changed := enable N t (lc_changed lc)\<rparr>"

inductive mstep :: "'n notify_api \<Rightarrow> 'n monitor \<Rightarrow> 'n monitor \<Rightarrow> bool" for N where
  lease: "mo_actors m t = Free \<Longrightarrow> enter (mo_lifecycle m) = Some lc \<Longrightarrow> mstep N m (act t Holding lc m)"
| unlease: "mo_actors m t = Holding \<Longrightarrow> drop_lease N (mo_lifecycle m) = Some lc \<Longrightarrow> mstep N m (act t Free lc m)"
| flag: "mo_actors m t = Free \<Longrightarrow> mstep N m (act t Closing (close_flag (mo_lifecycle m)) m)"
| notify: "mo_actors m t = Closing \<Longrightarrow> mstep N m (act t Free (close_notify N (mo_lifecycle m)) m)"
| wait: "mo_actors m t = Free \<Longrightarrow> mstep N m (act t (Looping k) (mo_lifecycle m) m)"
| register: "mo_actors m t = Looping k \<Longrightarrow> mstep N m (act t (Enabled k) (register N t (mo_lifecycle m)) m)"
| return: "mo_actors m t = Enabled k \<Longrightarrow> predicate k (mo_lifecycle m) \<Longrightarrow>
    mstep N m (act t (Returned k) (mo_lifecycle m) m)"
| park: "mo_actors m t = Enabled k \<Longrightarrow> \<not> predicate k (mo_lifecycle m) \<Longrightarrow>
    mstep N m (act t (Parked k) (mo_lifecycle m) m)"
| wake: "mo_actors m t = Parked k \<Longrightarrow> notified N t (lc_changed (mo_lifecycle m)) \<Longrightarrow>
    mstep N m (act t (Looping k) (mo_lifecycle m) m)"

inductive mreachable :: "'n notify_api \<Rightarrow> 'n monitor \<Rightarrow> bool" for N where
  start: "mreachable N (new_monitor N)"
| next_step: "mreachable N m \<Longrightarrow> mstep N m m' \<Longrightarrow> mreachable N m'"

section \<open>The invariant\<close>

lemma act_simps [simp]:
  "mo_lifecycle (act t a lc m) = lc"
  "mo_actors (act t a lc m) = (mo_actors m)(t := a)"
  by (simp_all add: act_def)

text \<open>
  A registered or notified waiter; one that parked and was not notified has a false predicate,
  or a closer is about to notify it.
\<close>

lemma predicate_changed [simp]: "predicate k (lc\<lparr>lc_changed := n\<rparr>) = predicate k lc"
  by (cases k) (simp_all add: is_closed_def is_idle_def)

definition closer :: "'n monitor \<Rightarrow> bool" where
  "closer m \<longleftrightarrow> (\<exists>u. mo_actors m u = Closing)"

lemma closer_same: "mo_actors m t \<noteq> Closing \<Longrightarrow> a \<noteq> Closing \<Longrightarrow> closer (act t a lc m) = closer m"
  unfolding closer_def act_simps by force

lemma closer_new: "closer (act t Closing lc m)"
  unfolding closer_def act_simps by (rule exI [of _ t]) simp

definition waiter_ok :: "'n notify_api \<Rightarrow> 'n monitor \<Rightarrow> nat \<Rightarrow> bool" where
  "waiter_ok N m t \<longleftrightarrow>
     (\<forall>k. mo_actors m t \<in> {Enabled k, Parked k} \<longrightarrow>
        notified N t (lc_changed (mo_lifecycle m)) \<or> registered N t (lc_changed (mo_lifecycle m)))
     \<and> (\<forall>k. mo_actors m t = Parked k \<and> predicate k (mo_lifecycle m) \<longrightarrow>
        notified N t (lc_changed (mo_lifecycle m)) \<or> (k = UntilClosed \<and> closer m))"

definition waiters_ok :: "'n notify_api \<Rightarrow> 'n monitor \<Rightarrow> bool" where
  "waiters_ok N m \<longleftrightarrow> (\<forall>t. waiter_ok N m t)"

context notify_laws
begin

lemma waiter_ok_step:
  "mstep N m m' \<Longrightarrow> waiters_ok N m \<Longrightarrow> waiters_ok N m'"
proof (induction rule: mstep.induct)
  case (unlease m t lc)
  show ?case
    unfolding waiters_ok_def
  proof
    fix u
    have u: "waiter_ok N m u" using unlease(3) by (simp add: closer_def waiters_ok_def)
    show "waiter_ok N (act t Free lc m) u"
    proof (cases "lc_active lc = 0")
      case True
      then have "lc_changed lc = notify_waiters N (lc_changed (mo_lifecycle m))"
        using unlease(2) by (auto simp: drop_lease_def Let_def split: if_splits)
      then show ?thesis using u by (auto simp: waiter_ok_def notify_all)
    next
      case False
      then have "lc_changed lc = lc_changed (mo_lifecycle m)" "lc_closed lc = lc_closed (mo_lifecycle m)"
        using unlease(2) by (auto simp: drop_lease_def Let_def split: if_splits)
      then show ?thesis
        using u False unlease(1)
        by (auto simp: waiter_ok_def closer_same is_closed_def is_idle_def elim!: predicate.elims)
    qed
  qed
next
  case (lease m t lc)
  then show ?case
    by (auto simp: closer_same closer_new waiters_ok_def waiter_ok_def is_closed_def is_idle_def elim!: predicate.elims)
next
  case (flag m t)
  show ?case
    unfolding waiters_ok_def
  proof
    fix u
    have u: "waiter_ok N m u" using flag(2) by (simp add: waiters_ok_def)
    have idle: "predicate UntilIdle (close_flag (mo_lifecycle m)) = predicate UntilIdle (mo_lifecycle m)"
      by (simp add: is_idle_def)
    show "waiter_ok N (act t Closing (close_flag (mo_lifecycle m)) m) u"
      unfolding waiter_ok_def
    proof (intro conjI allI impI)
      fix k assume "mo_actors (act t Closing (close_flag (mo_lifecycle m)) m) u \<in> {Enabled k, Parked k}"
      then show "notified N u (lc_changed (mo_lifecycle (act t Closing (close_flag (mo_lifecycle m)) m)))
          \<or> registered N u (lc_changed (mo_lifecycle (act t Closing (close_flag (mo_lifecycle m)) m)))"
        using u by (auto simp: waiter_ok_def close_flag_def split: if_splits)
    next
      fix k assume "mo_actors (act t Closing (close_flag (mo_lifecycle m)) m) u = Parked k
        \<and> predicate k (mo_lifecycle (act t Closing (close_flag (mo_lifecycle m)) m))"
      then show "notified N u (lc_changed (mo_lifecycle (act t Closing (close_flag (mo_lifecycle m)) m)))
          \<or> (k = UntilClosed \<and> closer (act t Closing (close_flag (mo_lifecycle m)) m))"
        using u idle closer_new [of t "close_flag (mo_lifecycle m)" m]
        by (cases k) (auto simp: waiter_ok_def close_flag_def split: if_splits)
    qed
  qed
next
  case (notify m t)
  then show ?case
    by (auto simp: closer_same closer_new waiters_ok_def waiter_ok_def close_notify_def notify_all)
next
  case (register m t k)
  then show ?case
    by (auto simp: closer_same closer_new waiters_ok_def waiter_ok_def register_def enable_registers enable_other)
qed (auto simp: closer_same closer_new waiters_ok_def waiter_ok_def)

lemma mreachable_ok: "mreachable N m \<Longrightarrow> waiters_ok N m"
  by (induction rule: mreachable.induct)
    (simp add: closer_def waiters_ok_def waiter_ok_def new_monitor_def, rule waiter_ok_step)

end

section \<open>Properties\<close>

text \<open>
  C5: no wakeup is lost. In every reachable state a parked waiter whose predicate has come true
  has been notified, or the closer that made it true stands between setting the flag and
  notifying.
\<close>

theorem no_lost_wakeup:
  assumes "notify_laws N" and "mreachable N m"
    and "mo_actors m t = Parked k" and "predicate k (mo_lifecycle m)"
  shows "notified N t (lc_changed (mo_lifecycle m)) \<or> (k = UntilClosed \<and> (\<exists>u. mo_actors m u = Closing))"
  using notify_laws.mreachable_ok [OF assms(1,2)] assms(3,4)
  by (auto simp: waiters_ok_def waiter_ok_def closer_def)

text \<open>A waiter parks while a lease is out; dropping the lease notifies it.\<close>

definition parked_run :: "(nat set \<times> nat set) monitor" where
  "parked_run =
     (let m = new_monitor notify_std;
          m = act 0 Holding ((mo_lifecycle m)\<lparr>lc_active := 1\<rparr>) m;
          m = act 1 (Looping UntilIdle) (mo_lifecycle m) m;
          m = act 1 (Enabled UntilIdle) (register notify_std 1 (mo_lifecycle m)) m;
          m = act 1 (Parked UntilIdle) (mo_lifecycle m) m
      in act 0 Free (the (drop_lease notify_std (mo_lifecycle m))) m)"

lemma reachable_parked_run: "mreachable notify_std parked_run"
proof -
  let ?m0 = "new_monitor notify_std"
  let ?m1 = "act 0 Holding ((mo_lifecycle ?m0)\<lparr>lc_active := 1\<rparr>) ?m0"
  let ?m2 = "act 1 (Looping UntilIdle) (mo_lifecycle ?m1) ?m1"
  let ?m3 = "act 1 (Enabled UntilIdle) (register notify_std 1 (mo_lifecycle ?m2)) ?m2"
  let ?m4 = "act 1 (Parked UntilIdle) (mo_lifecycle ?m3) ?m3"
  have "mstep notify_std ?m0 ?m1"
    by (rule mstep.lease) (simp_all add: new_monitor_def new_lifecycle_def)
  then have r1: "mreachable notify_std ?m1" by (rule mreachable.next_step [OF mreachable.start])
  have "mstep notify_std ?m1 ?m2" by (rule mstep.wait) (simp add: new_monitor_def)
  then have r2: "mreachable notify_std ?m2" by (rule mreachable.next_step [OF r1])
  have "mstep notify_std ?m2 ?m3" by (rule mstep.register) simp
  then have r3: "mreachable notify_std ?m3" by (rule mreachable.next_step [OF r2])
  have "mstep notify_std ?m3 ?m4" by (rule mstep.park) (simp_all add: is_idle_def register_def)
  then have r4: "mreachable notify_std ?m4" by (rule mreachable.next_step [OF r3])
  have "mstep notify_std ?m4 parked_run"
    unfolding parked_run_def Let_def
    by (rule mstep.unlease) (simp_all add: drop_lease_def register_def Let_def)
  then show ?thesis by (rule mreachable.next_step [OF r4])
qed

theorem no_lost_wakeup_witness: "notified notify_std 1 (lc_changed (mo_lifecycle parked_run))"
proof -
  have "mo_actors parked_run 1 = Parked UntilIdle" and "predicate UntilIdle (mo_lifecycle parked_run)"
    by (simp_all add: parked_run_def drop_lease_def register_def is_idle_def Let_def)
  from no_lost_wakeup [OF std_notify.notify_laws_axioms reachable_parked_run this] show ?thesis by simp
qed

text \<open>
  C39: a waiter whose predicate holds returns. From every reachable state in which no closer is
  between its two steps, a waiter whose predicate is true can run to its end by steps of its
  own, which leave the predicate true; an \<open>aclose\<close> that waits for the last lease therefore
  completes.
\<close>

theorem waiter_returns:
  assumes "notify_laws N" and "mreachable N m" and "mo_actors m t \<in> {Looping k, Enabled k, Parked k}"
    and "predicate k (mo_lifecycle m)" and "\<forall>u. mo_actors m u \<noteq> Closing"
  shows "\<exists>m'. (mstep N)\<^sup>*\<^sup>* m m' \<and> mo_actors m' t = Returned k \<and> predicate k (mo_lifecycle m')"
proof -
  have enabled: "\<exists>m'. mstep N m m' \<and> mo_actors m' t = Returned k \<and> predicate k (mo_lifecycle m')"
    if "mo_actors m t = Enabled k" "predicate k (mo_lifecycle m)" for m
    by (intro exI [of _ "act t (Returned k) (mo_lifecycle m) m"] conjI mstep.return that) (simp_all add: that)
  have looping: "\<exists>m'. (mstep N)\<^sup>*\<^sup>* m m' \<and> mo_actors m' t = Returned k \<and> predicate k (mo_lifecycle m')"
    if lo: "mo_actors m t = Looping k" "predicate k (mo_lifecycle m)" for m
  proof -
    let ?m = "act t (Enabled k) (register N t (mo_lifecycle m)) m"
    have "mstep N m ?m" by (rule mstep.register [OF lo(1)])
    moreover obtain m' where "mstep N ?m m'" "mo_actors m' t = Returned k" "predicate k (mo_lifecycle m')"
      using enabled [of ?m] lo(2) by (auto simp: register_def)
    ultimately show ?thesis by (meson converse_rtranclp_into_rtranclp r_into_rtranclp)
  qed
  from assms(3) consider "mo_actors m t = Looping k" | "mo_actors m t = Enabled k" | "mo_actors m t = Parked k"
    by blast
  then show ?thesis
  proof cases
    case 1
    then show ?thesis using looping assms(4) by blast
  next
    case 2
    then show ?thesis using enabled [OF 2 assms(4)] by blast
  next
    case 3
    have "waiters_ok N m" by (rule notify_laws.mreachable_ok [OF assms(1,2)])
    then have "notified N t (lc_changed (mo_lifecycle m))"
      using 3 assms(4,5) by (auto simp: waiters_ok_def waiter_ok_def closer_def)
    then have "mstep N m (act t (Looping k) (mo_lifecycle m) m)" by (rule mstep.wake [OF 3])
    moreover obtain m' where "(mstep N)\<^sup>*\<^sup>* (act t (Looping k) (mo_lifecycle m) m) m'"
      "mo_actors m' t = Returned k" "predicate k (mo_lifecycle m')"
      using looping [of "act t (Looping k) (mo_lifecycle m) m"] assms(4) by auto
    ultimately show ?thesis by (meson converse_rtranclp_into_rtranclp)
  qed
qed

theorem waiter_returns_witness:
  "\<exists>m'. (mstep notify_std)\<^sup>*\<^sup>* parked_run m' \<and> mo_actors m' 1 = Returned UntilIdle"
proof -
  have "mo_actors parked_run 1 \<in> {Looping UntilIdle, Enabled UntilIdle, Parked UntilIdle}"
    and "predicate UntilIdle (mo_lifecycle parked_run)" and "\<forall>u. mo_actors parked_run u \<noteq> Closing"
    by (simp_all add: parked_run_def drop_lease_def register_def is_idle_def new_monitor_def Let_def)
  from waiter_returns [OF std_notify.notify_laws_axioms reachable_parked_run this] show ?thesis by blast
qed

end
