(* ===== verification/Streams.thy ===== *)
theory Streams
  imports InputError ErrorMap Lifecycle
begin

text \<open>
  Request and response streams: \<open>crates/rboto-core/src/async_iter.rs\<close>, \<open>byte_stream.rs\<close>,
  \<open>event_stream.rs\<close> and \<open>stream.rs\<close>. A stream is a state with a poll function; polling gives
  \<open>Pending\<close>, an item or the end. \<open>unfold\<close>, \<open>map\<close> and \<open>fuse\<close> of futures-util have their
  documented behaviour: \<open>unfold\<close> keeps its state between items, \<open>fuse\<close> answers \<open>None\<close> for ever
  after the first.
\<close>

section \<open>Driving a Python async iterable\<close>

text \<open>
  The Python side: creating one poll object and its future (\<open>_EventPoll\<close>, \<open>receive\<close>), polling the
  future, and cancelling the poll on its event loop; each acts on the producer's state.
\<close>

record 's producer =
  start_poll :: "'s \<Rightarrow> pyerr + 's"
  poll_future :: "'s \<Rightarrow> pyval pyresult poll \<times> 's"
  cancel_poll :: "'s \<Rightarrow> 's"

text \<open>
  The state of \<open>python_async_iterator\<close>: the producer, the \<open>done\<close> flag of the unfold, whether a
  poll is in flight (its \<open>PendingPoll\<close> guard is armed) and whether the stream is fused.
\<close>

record 's iter_state =
  it_producer :: 's
  it_done :: bool
  it_armed :: bool
  it_fused :: bool

definition python_async_iterator :: "'s \<Rightarrow> 's iter_state" where
  "python_async_iterator s = \<lparr>it_producer = s, it_done = False, it_armed = False, it_fused = False\<rparr>"

text \<open>What follows an awaited \<open>__anext__\<close>.\<close>

definition finish_poll :: "pyval pyresult \<Rightarrow> 's iter_state \<Rightarrow> pyval pyresult option poll \<times> 's iter_state" where
  "finish_poll r st =
     (case r of
        Inl error \<Rightarrow>
          (if is_instance error ''StopAsyncIteration'' then (Ready None, st\<lparr>it_fused := True\<rparr>)
           else (Ready (Some r), st\<lparr>it_done := True\<rparr>))
      | Inr value \<Rightarrow> (Ready (Some r), st))"

definition await_poll :: "'s producer \<Rightarrow> 's iter_state \<Rightarrow> pyval pyresult option poll \<times> 's iter_state" where
  "await_poll Y st =
     (case poll_future Y (it_producer st) of
        (Pending, s) \<Rightarrow> (Pending, st\<lparr>it_producer := s, it_armed := True\<rparr>)
      | (Ready r, s) \<Rightarrow> finish_poll r (st\<lparr>it_producer := s, it_armed := False\<rparr>))"

definition poll_iterator :: "'s producer \<Rightarrow> 's iter_state \<Rightarrow> pyval pyresult option poll \<times> 's iter_state" where
  "poll_iterator Y st =
     (if it_fused st then (Ready None, st)
      else if it_armed st then await_poll Y st
      else if it_done st then (Ready None, st\<lparr>it_fused := True\<rparr>)
      else (case start_poll Y (it_producer st) of
          Inl error \<Rightarrow> finish_poll (Inl error) st
        | Inr s \<Rightarrow> await_poll Y (st\<lparr>it_producer := s\<rparr>)))"

text \<open>Dropping the stream runs the guard: an armed poll is cancelled.\<close>

definition drop_iterator :: "'s producer \<Rightarrow> 's iter_state \<Rightarrow> 's" where
  "drop_iterator Y st = (if it_armed st then cancel_poll Y (it_producer st) else it_producer st)"

section \<open>Adapters\<close>

definition map_item :: "('a \<Rightarrow> 'b) \<Rightarrow> 'a option poll \<times> 's \<Rightarrow> 'b option poll \<times> 's" where
  "map_item f p = (case p of
     (Pending, s) \<Rightarrow> (Pending, s)
   | (Ready None, s) \<Rightarrow> (Ready None, s)
   | (Ready (Some x), s) \<Rightarrow> (Ready (Some (f x)), s))"

text \<open>\<open>stop_after_error\<close>: an unfold over the input and its \<open>failed\<close> flag, fused.\<close>

record 's stop_state =
  sp_input :: 's
  sp_failed :: bool
  sp_fused :: bool

definition stop_after_error :: "'s \<Rightarrow> 's stop_state" where
  "stop_after_error s = \<lparr>sp_input = s, sp_failed = False, sp_fused = False\<rparr>"

definition poll_stop :: "('s \<Rightarrow> ('e + 'a) option poll \<times> 's) \<Rightarrow> 's stop_state \<Rightarrow>
    ('e + 'a) option poll \<times> 's stop_state" where
  "poll_stop input st =
     (if sp_fused st then (Ready None, st)
      else if sp_failed st then (Ready None, st\<lparr>sp_fused := True\<rparr>)
      else (case input (sp_input st) of
          (Pending, s) \<Rightarrow> (Pending, st\<lparr>sp_input := s\<rparr>)
        | (Ready None, s) \<Rightarrow> (Ready None, st\<lparr>sp_input := s, sp_fused := True\<rparr>)
        | (Ready (Some (Inl e)), s) \<Rightarrow> (Ready (Some (Inl e)), st\<lparr>sp_input := s, sp_failed := True\<rparr>)
        | (Ready (Some (Inr x)), s) \<Rightarrow> (Ready (Some (Inr x)), st\<lparr>sp_input := s\<rparr>)))"

text \<open>\<open>python_event_stream\<close>: convert every event, then stop after the first error.\<close>

definition convert_event :: "(pyval \<Rightarrow> 'a pyresult) \<Rightarrow> (pyerr \<Rightarrow> 'e) \<Rightarrow> pyval pyresult \<Rightarrow> 'e + 'a" where
  "convert_event conv map_error event = map_err map_error (and_then event conv)"

definition python_event_stream :: "(pyval \<Rightarrow> 's pyresult) \<Rightarrow> pyval \<Rightarrow> 's iter_state stop_state pyresult" where
  "python_event_stream aiter value =
     map_ok (\<lambda>s. stop_after_error (python_async_iterator s)) (aiter value)"

definition poll_event_stream :: "'s producer \<Rightarrow> (pyval \<Rightarrow> 'a pyresult) \<Rightarrow> (pyerr \<Rightarrow> 'e) \<Rightarrow>
    's iter_state stop_state \<Rightarrow> ('e + 'a) option poll \<times> 's iter_state stop_state" where
  "poll_event_stream Y conv map_error =
     poll_stop (\<lambda>st. map_item (convert_event conv map_error) (poll_iterator Y st))"

section \<open>Request bodies\<close>

record 's stream_body =
  sb_chunks :: 's
  sb_remaining :: "64 word option"
  sb_finished :: bool

definition saturating_sub_u64 :: "64 word \<Rightarrow> 64 word \<Rightarrow> 64 word" where
  "saturating_sub_u64 a b = (if a < b then 0 else a - b)"

definition poll_frame :: "('s \<Rightarrow> ('e + byte list) option poll \<times> 's) \<Rightarrow> 's stream_body \<Rightarrow>
    ('e + byte list) option poll \<times> 's stream_body" where
  "poll_frame poll_next b =
     (if sb_finished b then (Ready None, b)
      else (case poll_next (sb_chunks b) of
          (Pending, s) \<Rightarrow> (Pending, b\<lparr>sb_chunks := s\<rparr>)
        | (Ready None, s) \<Rightarrow> (Ready None, b\<lparr>sb_chunks := s, sb_finished := True\<rparr>)
        | (Ready (Some (Inr chunk)), s) \<Rightarrow>
            (Ready (Some (Inr chunk)),
             b\<lparr>sb_chunks := s,
               sb_remaining := map_option (\<lambda>r. saturating_sub_u64 r (of_nat (length chunk))) (sb_remaining b)\<rparr>)
        | (Ready (Some (Inl e)), s) \<Rightarrow> (Ready (Some (Inl e)), b\<lparr>sb_chunks := s, sb_finished := True\<rparr>)))"

definition is_end_stream :: "'s stream_body \<Rightarrow> bool" where
  "is_end_stream b = sb_finished b"

text \<open>\<open>size_hint().exact()\<close>\<close>

definition size_hint :: "'s stream_body \<Rightarrow> 64 word option" where
  "size_hint b = (if sb_finished b then Some 0 else sb_remaining b)"

definition chunk_bytes :: "pyval pyresult \<Rightarrow> byte list pyresult" where
  "chunk_bytes chunk = and_then chunk (\<lambda>chunk. case chunk of
     PyBytes bytes \<Rightarrow> Inr bytes
   | _ \<Rightarrow> Inl (type_error ''streaming body chunks must be bytes''))"

datatype 's byte_stream = InMemory "byte list" | Streamed "'s iter_state stream_body"

text \<open>
  \<open>python_byte_stream\<close>; \<open>has_aiter\<close> and \<open>aiter\<close> are \<open>hasattr(value, "__aiter__")\<close> and reading the
  current event loop with calling \<open>__aiter__\<close>.
\<close>

definition python_byte_stream :: "pyo3 \<Rightarrow> (pyval \<Rightarrow> bool pyresult) \<Rightarrow> (pyval \<Rightarrow> 's pyresult) \<Rightarrow>
    pyval \<Rightarrow> 64 word option \<Rightarrow> bool \<Rightarrow> 's byte_stream pyresult" where
  "python_byte_stream P has_aiter aiter value declared_length length_required =
     (if is_bytes value \<or> is_bytearray value then
        map_ok InMemory (extract_bytes P value)
      else and_then (has_aiter value) (\<lambda>ok.
        if \<not> ok then
          Inl (type_error ''streaming body must be bytes, bytearray, or an async iterable of bytes'')
        else if length_required \<and> declared_length = None then
          Inl (input_rule (value_error ''content_length is required for an async iterable body'') Root
                 ''async iterable with content_length'' (Some ''missing''))
        else map_ok (\<lambda>s. Streamed \<lparr>sb_chunks = python_async_iterator s, sb_remaining = declared_length,
               sb_finished = False\<rparr>) (aiter value)))"

definition poll_python_body :: "'s producer \<Rightarrow> 's iter_state stream_body \<Rightarrow>
    byte list pyresult option poll \<times> 's iter_state stream_body" where
  "poll_python_body Y = poll_frame (\<lambda>st. map_item chunk_bytes (poll_iterator Y st))"

section \<open>Response bodies\<close>

text \<open>\<open>collected_body_to_bytes\<close> writes the segments one after the other.\<close>

definition collected_body_to_bytes :: "byte list list \<Rightarrow> byte list" where
  "collected_body_to_bytes segments = fold (\<lambda>segment written. written @ segment) segments []"

lemma collected_concat: "collected_body_to_bytes segments = concat segments"
proof -
  have "fold (\<lambda>segment written. written @ segment) segments w = w @ concat segments" for w
    by (induction segments arbitrary: w) simp_all
  then show ?thesis by (simp add: collected_body_to_bytes_def)
qed

section \<open>Outputs of a stream\<close>

text \<open>The answers of \<open>n\<close> polls, and those that are ready.\<close>

fun polls :: "('s \<Rightarrow> 'a poll \<times> 's) \<Rightarrow> nat \<Rightarrow> 's \<Rightarrow> 'a poll list \<times> 's" where
  "polls f 0 s = ([], s)"
| "polls f (Suc n) s = (let (a, s) = f s; (as, s) = polls f n s in (a # as, s))"

fun readies :: "'a poll list \<Rightarrow> 'a list" where
  "readies [] = []"
| "readies (Pending # as) = readies as"
| "readies (Ready a # as) = a # readies as"

lemma readies_stopped: "readies (replicate n (Ready a)) = replicate n a"
  by (induction n) simp_all

text \<open>Items, then nothing, or one error, then nothing.\<close>

fun ends_properly :: "('e + 'a) option list \<Rightarrow> bool" where
  "ends_properly [] = True"
| "ends_properly (Some (Inr x) # out) = ends_properly out"
| "ends_properly (Some (Inl e) # out) = list_all (\<lambda>a. a = None) out"
| "ends_properly (None # out) = list_all (\<lambda>a. a = None) out"

text \<open>
  A stream with a \<open>stopped\<close> predicate: it stops on an error and on the end, and a stopped stream
  answers \<open>None\<close>, stays stopped and leaves what it reads from alone.
\<close>

locale terminating_stream =
  fixes f :: "'s \<Rightarrow> ('e + 'a) option poll \<times> 's" and stopped :: "'s \<Rightarrow> bool" and source :: "'s \<Rightarrow> 'u"
  assumes stops: "f s = (Ready None, s') \<Longrightarrow> stopped s'" "f s = (Ready (Some (Inl e)), s') \<Longrightarrow> stopped s'"
    and stopped_polls: "stopped s \<Longrightarrow> fst (f s) = Ready None \<and> stopped (snd (f s)) \<and> source (snd (f s)) = source s"
begin

lemma stopped_answers:
  "stopped s \<Longrightarrow> fst (polls f n s) = replicate n (Ready None) \<and> source (snd (polls f n s)) = source s"
proof (induction n arbitrary: s)
  case 0
  then show ?case by simp
next
  case (Suc n)
  obtain s' where s': "f s = (Ready None, s')" "stopped s'" "source s' = source s"
    using stopped_polls [OF Suc.prems] by (metis prod.collapse)
  from Suc.IH [OF s'(2)] s' show ?case by (simp add: case_prod_unfold Let_def)
qed

lemma stopped_outputs:
  "stopped s \<Longrightarrow> list_all (\<lambda>a. a = None) (readies (fst (polls f n s))) \<and> source (snd (polls f n s)) = source s"
  using stopped_answers [of s n] by (simp add: readies_stopped list_all_iff)

lemma outputs_end_properly: "ends_properly (readies (fst (polls f n s)))"
proof (induction n arbitrary: s)
  case 0
  then show ?case by simp
next
  case (Suc n)
  obtain a s' where a: "f s = (a, s')" by (cases "f s")
  note rest = stopped_outputs [of s' n]
  show ?case
  proof (cases a)
    case Pending
    then show ?thesis using a Suc.IH [of s'] by (simp add: case_prod_unfold Let_def)
  next
    case (Ready r)
    show ?thesis
    proof (cases r)
      case None
      then show ?thesis using a Ready stops(1) rest by (simp add: case_prod_unfold Let_def)
    next
      case (Some item)
      then show ?thesis
        using a Ready stops(2) rest Suc.IH [of s'] by (cases item) (simp_all add: case_prod_unfold Let_def)
    qed
  qed
qed

end

lemma poll_stop_terminating:
  "terminating_stream (poll_stop input) (\<lambda>st. sp_fused st \<or> sp_failed st) sp_input"
  by unfold_locales
    (auto simp: poll_stop_def split: if_splits prod.splits poll.splits option.splits sum.splits)

lemma poll_frame_terminating:
  "terminating_stream (poll_frame poll_next) sb_finished sb_chunks"
  by unfold_locales
    (auto simp: poll_frame_def split: if_splits prod.splits poll.splits option.splits sum.splits)

lemma poll_iterator_terminating:
  "terminating_stream (poll_iterator Y) (\<lambda>st. it_fused st \<or> (it_done st \<and> \<not> it_armed st)) it_producer"
  by unfold_locales
    (auto simp: poll_iterator_def await_poll_def finish_poll_def
      split: if_splits prod.splits poll.splits option.splits sum.splits)

interpretation stop: terminating_stream "poll_stop input" "\<lambda>st. sp_fused st \<or> sp_failed st" sp_input for input
  by (rule poll_stop_terminating)

interpretation frame: terminating_stream "poll_frame poll_next" sb_finished sb_chunks for poll_next
  by (rule poll_frame_terminating)

interpretation iter: terminating_stream "poll_iterator Y" "\<lambda>st. it_fused st \<or> (it_done st \<and> \<not> it_armed st)" it_producer for Y
  by (rule poll_iterator_terminating)

text \<open>One poll of an event stream that goes on.\<close>

lemma poll_event_step:
  assumes "poll_iterator Y (sp_input st) = (a, s)" and "\<not> sp_failed st" and "\<not> sp_fused st"
  shows "poll_event_stream Y conv map_error st =
    (case a of
       Pending \<Rightarrow> (Pending, st\<lparr>sp_input := s\<rparr>)
     | Ready None \<Rightarrow> (Ready None, st\<lparr>sp_input := s, sp_fused := True\<rparr>)
     | Ready (Some r) \<Rightarrow>
         (Ready (Some (convert_event conv map_error r)),
          st\<lparr>sp_input := s, sp_failed := (\<exists>e. convert_event conv map_error r = Inl e)\<rparr>))"
  using assms
  by (auto simp: poll_event_stream_def poll_stop_def map_item_def split: poll.splits option.splits sum.splits)

text \<open>
  An event stream gives exactly the converted items of what it reads, up to the first that does not
  convert, the first failure of what it reads, or its end. That is the last it reads: whatever was still
  to come (\<open>later\<close>), it has polled the iterator \<open>j\<close> times, up to that answer, and every later poll
  finds the end.
\<close>

lemma converted_then_stopped:
  assumes "readies (fst (polls (poll_iterator Y) n (sp_input st))) = map (\<lambda>v. Some (Inr v)) vs @ later"
    and "\<forall>v \<in> set vs. \<exists>x. conv v = Inr x" and "\<forall>v rest. later = Some (Inr v) # rest \<longrightarrow> (\<exists>e. conv v = Inl e)"
    and "\<not> sp_failed st" and "\<not> sp_fused st"
  shows "\<exists>j \<le> n. sp_input (snd (polls (poll_event_stream Y conv map_error) n st)) = snd (polls (poll_iterator Y) j (sp_input st))
    \<and> readies (fst (polls (poll_iterator Y) j (sp_input st))) = map (\<lambda>v. Some (Inr v)) vs @ take 1 later
    \<and> readies (fst (polls (poll_event_stream Y conv map_error) n st)) = map (\<lambda>v. Some (map_err map_error (conv v))) vs
        @ (case later of [] \<Rightarrow> [] | a # _ \<Rightarrow> map_option (convert_event conv map_error) a # replicate (n - j) None)"
  using assms
proof (induction n arbitrary: st vs)
  case 0
  then show ?case by simp
next
  case (Suc n)
  obtain a s1 where a: "poll_iterator Y (sp_input st) = (a, s1)" by (cases "poll_iterator Y (sp_input st)")
  have out: "readies (a # fst (polls (poll_iterator Y) n s1)) = map (\<lambda>v. Some (Inr v)) vs @ later"
    using Suc.prems(1) a by (simp add: case_prod_unfold Let_def)
  note step = poll_event_step [OF a Suc.prems(4,5), where conv = conv and map_error = map_error]
  have convert_value: "convert_event conv map_error (Inr v) = map_err map_error (conv v)" for v
    by (simp add: convert_event_def)
  show ?case
  proof (cases a)
    case Pending
    from Suc.IH [of "st\<lparr>sp_input := s1\<rparr>" vs] Suc.prems out Pending obtain j where
      j: "j \<le> n" "sp_input (snd (polls (poll_event_stream Y conv map_error) n (st\<lparr>sp_input := s1\<rparr>))) =
          snd (polls (poll_iterator Y) j s1)"
        "readies (fst (polls (poll_iterator Y) j s1)) = map (\<lambda>v. Some (Inr v)) vs @ take 1 later"
        "readies (fst (polls (poll_event_stream Y conv map_error) n (st\<lparr>sp_input := s1\<rparr>))) =
          map (\<lambda>v. Some (map_err map_error (conv v))) vs
          @ (case later of [] \<Rightarrow> [] | a # _ \<Rightarrow> map_option (convert_event conv map_error) a # replicate (n - j) None)"
      by auto
    then show ?thesis using Pending step a
      by (intro exI [of _ "Suc j"]) (simp add: case_prod_unfold Let_def cong: list.case_cong)
  next
    case (Ready r)
    show ?thesis
    proof (cases vs)
      case (Cons v ws)
      with out Ready have r: "r = Some (Inr v)"
        and ws: "readies (fst (polls (poll_iterator Y) n s1)) = map (\<lambda>v. Some (Inr v)) ws @ later" by simp_all
      from Suc.prems(2) Cons obtain x where x: "conv v = Inr x" by auto
      let ?st = "st\<lparr>sp_input := s1, sp_failed := False\<rparr>"
      from Suc.IH [of ?st ws] Suc.prems ws Cons obtain j where
        j: "j \<le> n" "sp_input (snd (polls (poll_event_stream Y conv map_error) n ?st)) = snd (polls (poll_iterator Y) j s1)"
          "readies (fst (polls (poll_iterator Y) j s1)) = map (\<lambda>v. Some (Inr v)) ws @ take 1 later"
          "readies (fst (polls (poll_event_stream Y conv map_error) n ?st)) =
            map (\<lambda>v. Some (map_err map_error (conv v))) ws
            @ (case later of [] \<Rightarrow> [] | a # _ \<Rightarrow> map_option (convert_event conv map_error) a # replicate (n - j) None)"
        by auto
      then show ?thesis using Ready r x Cons step a
        by (intro exI [of _ "Suc j"]) (simp add: case_prod_unfold Let_def convert_value cong: list.case_cong)
    next
      case Nil
      with out Ready obtain rest where later: "later = r # rest" by (metis append_Nil list.simps(8) readies.simps(3))
      define st' where "st' = (case r of None \<Rightarrow> st\<lparr>sp_input := s1, sp_fused := True\<rparr>
          | Some q \<Rightarrow> st\<lparr>sp_input := s1, sp_failed := True\<rparr>)"
      have "\<exists>e. convert_event conv map_error q = Inl e" if "r = Some q" for q
        using Suc.prems(3) later that by (cases q) (auto simp: convert_event_def)
      then have first: "poll_event_stream Y conv map_error st = (Ready (map_option (convert_event conv map_error) r), st')"
        using step Ready by (cases r) (simp_all add: st'_def)
      have "sp_fused st' \<or> sp_failed st'" and "sp_input st' = s1" by (cases r; simp add: st'_def)+
      then have "fst (polls (poll_event_stream Y conv map_error) n st') = replicate n (Ready None)
          \<and> sp_input (snd (polls (poll_event_stream Y conv map_error) n st')) = s1"
        by (simp add: poll_event_stream_def stop.stopped_answers)
      with first a Ready Nil later show ?thesis
        by (intro exI [of _ 1]) (simp add: case_prod_unfold Let_def readies_stopped)
    qed
  qed
qed

section \<open>Properties\<close>

text \<open>
  C12: a Python async iterable consumed by the SDK ends properly: its items, then the end or one
  error, then nothing, however often it is polled; the application's producer is never touched
  again after that. The same holds of a request body and of an event stream, whatever their
  converters reject.
\<close>

theorem request_streams_end_properly:
  shows "ends_properly (readies (fst (polls (poll_iterator Y) n (python_async_iterator s))))
    \<and> ends_properly (readies (fst (polls (poll_python_body Y) n b)))
    \<and> ends_properly (readies (fst (polls (poll_event_stream Y conv map_error) n e)))
    \<and> (sb_finished b \<longrightarrow> sb_chunks (snd (polls (poll_python_body Y) n b)) = sb_chunks b)
    \<and> (sp_failed e \<longrightarrow> sp_input (snd (polls (poll_event_stream Y conv map_error) n e)) = sp_input e)"
  by (simp_all add: poll_python_body_def poll_event_stream_def iter.outputs_end_properly
      frame.outputs_end_properly frame.stopped_outputs stop.outputs_end_properly stop.stopped_outputs)

text \<open>A producer for examples: the list of what its polls give.\<close>

definition list_producer :: "pyval pyresult poll list producer" where
  "list_producer =
     \<lparr>start_poll = Inr, poll_future = (\<lambda>as. case as of [] \<Rightarrow> (Ready (Inl stop_async_iteration), []) | a # as \<Rightarrow> (a, as)),
      cancel_poll = (\<lambda>as. [])\<rparr>"

definition finished_body :: "pyval pyresult poll list iter_state stream_body" where
  "finished_body =
     \<lparr>sb_chunks = python_async_iterator [Ready (Inr PyNone)], sb_remaining = None, sb_finished = True\<rparr>"

theorem request_streams_end_properly_witness:
  "sb_chunks (snd (polls (poll_python_body list_producer) 3 finished_body)) = sb_chunks finished_body"
  by (rule request_streams_end_properly [THEN conjunct2, THEN conjunct2, THEN conjunct2, THEN conjunct1, THEN mp])
    (simp add: finished_body_def)

text \<open>The bytes a list of answers carries.\<close>

definition total_bytes :: "('e + byte list) option list \<Rightarrow> nat" where
  "total_bytes out = sum_list (map (\<lambda>a. case a of Some (Inr chunk) \<Rightarrow> length chunk | _ \<Rightarrow> 0) out)"

lemma total_bytes_simps [simp]:
  "total_bytes [] = 0"
  "total_bytes (Some (Inr chunk) # out) = length chunk + total_bytes out"
  "total_bytes (Some (Inl e) # out) = total_bytes out"
  "total_bytes (None # out) = total_bytes out"
  by (simp_all add: total_bytes_def)

lemma unat_saturating_sub:
  assumes "l < 2 ^ 64"
  shows "unat (saturating_sub_u64 r (of_nat l)) = unat r - l"
proof -
  have l: "unat (of_nat l :: 64 word) = l"
    using assms by (simp add: unat_of_nat take_bit_nat_eq_self)
  show ?thesis
  proof (cases "r < of_nat l")
    case True
    then have "unat r < l" using l by (simp add: word_less_nat_alt)
    with True show ?thesis by (simp add: saturating_sub_u64_def)
  next
    case False
    then have "(of_nat l :: 64 word) \<le> r" by simp
    then have "unat (r - of_nat l) = unat r - l" using l by (simp add: unat_sub)
    with False show ?thesis by (simp add: saturating_sub_u64_def)
  qed
qed

lemma total_stopped: "list_all (\<lambda>a. a = None) out \<Longrightarrow> total_bytes out = 0"
  by (induction out) auto

text \<open>
  The length hint is exact. As long as the body is not finished its hint is the declared
  length less the bytes already handed out, never below zero; a body without a declared length
  gives no hint; a finished body says zero.
\<close>

lemma body_hint_exact:
  assumes "polls (poll_frame poll_next) n b = (out, b')" and "total_bytes (readies out) < 2 ^ 64"
  shows "if sb_finished b' then size_hint b' = Some 0
    else map_option unat (size_hint b') = map_option (\<lambda>d. unat d - total_bytes (readies out)) (sb_remaining b)"
proof -
  have "if sb_finished b' then size_hint b' = Some 0
      else map_option unat (size_hint b') = map_option (\<lambda>d. unat d - total_bytes (readies out)) (sb_remaining b)"
    if "polls (poll_frame poll_next) n b = (out, b')" "total_bytes (readies out) < 2 ^ 64" for b out
    using that
  proof (induction n arbitrary: b out)
    case 0
    then show ?case by (auto simp: size_hint_def)
  next
    case (Suc n)
    obtain a b1 where a: "poll_frame poll_next b = (a, b1)" by (cases "poll_frame poll_next b")
    obtain rest where rest: "polls (poll_frame poll_next) n b1 = (rest, b')" and out: "out = a # rest"
      using Suc.prems(1) a by (auto simp: case_prod_unfold Let_def prod_eq_iff)
    show ?case
    proof (cases "\<exists>chunk. a = Ready (Some (Inr chunk))")
      case True
      then obtain chunk where chunk: "a = Ready (Some (Inr chunk))" by blast
      then have rem: "sb_remaining b1 = map_option (\<lambda>r. saturating_sub_u64 r (of_nat (length chunk))) (sb_remaining b)"
        using a by (auto simp: poll_frame_def split: if_splits prod.splits poll.splits option.splits sum.splits)
      have "length chunk < 2 ^ 64" and "total_bytes (readies rest) < 2 ^ 64"
        using Suc.prems(2) chunk out by simp_all
      with Suc.IH [OF rest] show ?thesis
        by (auto simp: rem chunk out option.map_comp comp_def unat_saturating_sub split: if_splits)
    next
      case False
      then have rem: "sb_remaining b1 = sb_remaining b"
        using a by (auto simp: poll_frame_def split: if_splits prod.splits poll.splits option.splits sum.splits)
      have tot: "total_bytes (readies out) = total_bytes (readies rest)"
        using False by (cases a) (auto simp: out total_bytes_def split: option.splits sum.splits)
      show ?thesis using Suc.IH [OF rest] Suc.prems(2) by (simp add: tot rem)
    qed
  qed
  with assms show ?thesis by blast
qed

text \<open>The guard of a poll is armed exactly while the poll is pending.\<close>

lemma armed_step:
  "poll_iterator Y st = (a, st') \<Longrightarrow> (it_fused st \<longrightarrow> \<not> it_armed st) \<Longrightarrow>
   (it_armed st' \<longleftrightarrow> a = Pending) \<and> (it_fused st' \<longrightarrow> \<not> it_armed st')"
  by (auto simp: poll_iterator_def await_poll_def finish_poll_def
      split: if_splits prod.splits poll.splits sum.splits)

text \<open>
  Cancellation reaches the application. Dropping a request stream while its last poll is
  pending cancels that poll on the application's event loop; dropping it at any other time does
  nothing.
\<close>

lemma drop_cancels_pending_poll:
  assumes "polls (poll_iterator Y) n (python_async_iterator s) = (out, st)" and "0 < n"
  shows "drop_iterator Y st = (if last out = Pending then cancel_poll Y (it_producer st) else it_producer st)"
proof -
  have "it_armed st' \<longleftrightarrow> last out = Pending"
    if "polls (poll_iterator Y) n st0 = (out, st')" "0 < n" "it_fused st0 \<longrightarrow> \<not> it_armed st0" for st0 st' out
    using that
  proof (induction n arbitrary: st0 out)
    case (Suc n)
    obtain a st1 where a: "poll_iterator Y st0 = (a, st1)" by (cases "poll_iterator Y st0")
    note one = armed_step [OF a Suc.prems(3)]
    obtain rest where rest: "polls (poll_iterator Y) n st1 = (rest, st')" and out: "out = a # rest"
      using Suc.prems(1) a by (auto simp: case_prod_unfold Let_def prod_eq_iff)
    show ?case
    proof (cases n)
      case 0
      then show ?thesis using rest out one by simp
    next
      case (Suc k)
      then have "rest \<noteq> []" using rest by (auto simp: case_prod_unfold Let_def)
      moreover have "it_fused st1 \<longrightarrow> \<not> it_armed st1" using one by blast
      ultimately show ?thesis using Suc.IH [OF rest] out Suc by (simp del: polls.simps)
    qed
  qed simp
  then show ?thesis using assms by (simp add: drop_iterator_def python_async_iterator_def)
qed

text \<open>
  Bytes are kept as they are and need no length; an asynchronous iterable for an operation that
  models its length, given without one, fails with the rule that a length is missing, published
  for the field of the body.
\<close>

context pyo3_laws
begin

lemma in_memory_body:
  "python_byte_stream P has_aiter aiter (PyBytes bs) len required = Inr (InMemory bs)"
  "python_byte_stream P has_aiter aiter (PyByteArray bs) len required = Inr (InMemory bs)"
  by (simp_all add: python_byte_stream_def bytes_ok bytearray_ok)

end

lemma body_without_length:
  assumes "has_aiter (PyObject cls n) = Inr True"
  obtains e where "python_byte_stream P has_aiter aiter (PyObject cls n) None True = Inl e"
    and "err_class (input_operation (input_error e (Field ''body'') x) service operation) = ''ValueError''"
    and "err_context (input_operation (input_error e (Field ''body'') x) service operation) =
      Some (context_for [Field ''body'', Root] ''async iterable with content_length'' ''missing'' service operation)"
proof
  let ?e = "input_rule (value_error ''content_length is required for an async iterable body'') Root
    ''async iterable with content_length'' (Some ''missing'')"
  show "python_byte_stream P has_aiter aiter (PyObject cls n) None True = Inl ?e"
    by (simp add: python_byte_stream_def assms)
  show "err_class (input_operation (input_error ?e (Field ''body'') x) service operation) = ''ValueError''"
    by (simp add: input_operation_preserves input_error_preserves input_rule_preserves builtin_errors)
  have "err_context (input_operation (unwind [(Field ''body'', x)] ?e) service operation) =
      Some (context_for (rev (map fst [(Field ''body'', x)]) @ [Root])
        ''async iterable with content_length'' ''missing'' service operation)"
    by (rule rule_context) (simp_all add: builtin_errors good_path_def is_cont_def byte_of_def)
  then show "err_context (input_operation (input_error ?e (Field ''body'') x) service operation) =
      Some (context_for [Field ''body'', Root] ''async iterable with content_length'' ''missing'' service operation)"
    by simp
qed

end
