(* ===== verification/Runtime.thy ===== *)
theory Runtime
  imports PyModel
begin

text \<open>
  The native runtime policy: \<open>crates/rboto-core/src/runtime.rs\<close>, of which every service extension
  has its own copy, and the Python module \<open>packages/rboto/src/rboto/runtime.py\<close> all copies share.
  The policy module serialises its two functions by a lock and \<open>PyOnceLock\<close> runs one
  initialiser at a time, so a history is a sequence of whole calls.
\<close>

section \<open>The shared policy\<close>

record policy =
  configured :: "int option"
  frozen :: "int option"

definition new_policy :: policy where
  "new_policy = \<lparr>configured = None, frozen = None\<rparr>"

definition maxsize :: int where
  "maxsize = 2 ^ 63 - 1"

definition validate_workers :: "pyval \<Rightarrow> int pyresult" where
  "validate_workers v =
     (case v of
        PyInt n \<Rightarrow> (if 1 \<le> n \<and> n \<le> maxsize then Inr n
          else Inl (value_error ''worker_threads must be between 1 and sys.maxsize''))
      | _ \<Rightarrow> Inl (type_error ''worker_threads must be an integer''))"

definition configure_runtime :: "pyval \<Rightarrow> policy \<Rightarrow> unit pyresult \<times> policy" where
  "configure_runtime worker_threads p =
     (case validate_workers worker_threads of
        Inl e \<Rightarrow> (Inl e, p)
      | Inr v \<Rightarrow>
          (if frozen p \<noteq> None \<and> frozen p \<noteq> Some v then
             (Inl (runtime_error ''rboto runtime policy is already frozen''), p)
           else (Inr (), p\<lparr>configured := Some v\<rparr>)))"

text \<open>\<open>int(override)\<close> of a decimal numeral, with \<open>removeprefix("+")\<close> and \<open>isdecimal\<close>.\<close>

definition is_digit :: "char \<Rightarrow> bool" where
  "is_digit c \<longleftrightarrow> 48 \<le> byte_of c \<and> byte_of c \<le> 57"

definition decimal_value :: "string \<Rightarrow> int" where
  "decimal_value s = fold (\<lambda>c n. 10 * n + (int (byte_of c) - 48)) s 0"

definition remove_plus :: "string \<Rightarrow> string" where
  "remove_plus s = (if starts_with (CHR ''+'') s then tl s else s)"

definition freeze_worker_threads :: "string option \<Rightarrow> int \<Rightarrow> policy \<Rightarrow> int pyresult \<times> policy" where
  "freeze_worker_threads env available p =
     (case frozen p of
        Some v \<Rightarrow> (Inr v, p)
      | None \<Rightarrow>
          (let r = (case configured p of
               Some v \<Rightarrow> Inr v
             | None \<Rightarrow>
                 (case env of
                    Some override \<Rightarrow>
                      (let digits = remove_plus override
                       in if digits = [] \<or> \<not> list_all is_digit digits
                          then Inl (value_error ''TOKIO_WORKER_THREADS must be a positive decimal integer'')
                          else validate_workers (PyInt (decimal_value digits)))
                  | None \<Rightarrow> map_ok (\<lambda>v. min 2 v) (validate_workers (PyInt available))))
           in case r of
                Inl e \<Rightarrow> (Inl e, p)
              | Inr v \<Rightarrow> (Inr v, p\<lparr>frozen := Some v\<rparr>)))"

section \<open>One extension\<close>

text \<open>The statics \<open>RUNTIME\<close> (by its worker count) and \<open>REGISTERED\<close>, and whether pyo3-async-runtimes
  of this extension already has a runtime.\<close>

record extension =
  ext_runtime :: "int option"
  ext_registered :: bool
  ext_initialized :: bool

definition new_extension :: extension where
  "new_extension = \<lparr>ext_runtime = None, ext_registered = False, ext_initialized = False\<rparr>"

text \<open>What the outside gives one call: the event loop's locals, the environment variable, the
  number of processors and whether the thread pool could be built.\<close>

record surroundings =
  in_event_loop :: bool
  env_override :: "string option"
  parallelism :: int
  pool_builds :: bool

definition ensure_runtime :: "surroundings \<Rightarrow> policy \<Rightarrow> extension \<Rightarrow> unit pyresult \<times> policy \<times> extension" where
  "ensure_runtime w p x =
     (if ext_registered x then (Inr (), p, x)
      else
        (let (r, p, x) =
           (case ext_runtime x of
              Some n \<Rightarrow> (Inr (), p, x)
            | None \<Rightarrow>
                (case freeze_worker_threads (env_override w) (parallelism w) p of
                   (Inl e, p) \<Rightarrow> (Inl e, p, x)
                 | (Inr workers, p) \<Rightarrow>
                     (if pool_builds w then (Inr (), p, x\<lparr>ext_runtime := Some workers\<rparr>)
                      else (Inl (runtime_error ''Unable to start rboto runtime''), p, x))))
         in case r of
              Inl e \<Rightarrow> (Inl e, p, x)
            | Inr _ \<Rightarrow>
                (if ext_initialized x then
                   (Inl (runtime_error ''rboto runtime was initialized outside its policy''), p, x)
                 else (Inr (), p, x\<lparr>ext_initialized := True, ext_registered := True\<rparr>))))"

definition future_into_py :: "surroundings \<Rightarrow> policy \<Rightarrow> extension \<Rightarrow> unit pyresult \<times> policy \<times> extension" where
  "future_into_py w p x =
     (if in_event_loop w then ensure_runtime w p x
      else (Inl (runtime_error ''no running event loop''), p, x))"

definition runtime_worker_threads :: "extension \<Rightarrow> int option" where
  "runtime_worker_threads x = ext_runtime x"

section \<open>Histories\<close>

datatype call = Configure pyval | Operation nat surroundings

record world =
  w_policy :: policy
  w_extensions :: "nat \<Rightarrow> extension"

definition new_world :: world where
  "new_world = \<lparr>w_policy = new_policy, w_extensions = (\<lambda>i. new_extension)\<rparr>"

fun run_call :: "call \<Rightarrow> world \<Rightarrow> world" where
  "run_call (Configure v) w = w\<lparr>w_policy := snd (configure_runtime v (w_policy w))\<rparr>"
| "run_call (Operation i s) w =
     (case future_into_py s (w_policy w) (w_extensions w i) of
        (r, p, x) \<Rightarrow> w\<lparr>w_policy := p, w_extensions := (w_extensions w)(i := x)\<rparr>)"

definition run_calls :: "call list \<Rightarrow> world \<Rightarrow> world" where
  "run_calls cs w = fold run_call cs w"

definition world_ok :: "world \<Rightarrow> bool" where
  "world_ok w \<longleftrightarrow>
     (\<forall>v. frozen (w_policy w) = Some v \<longrightarrow> 1 \<le> v \<and> v \<le> maxsize)
     \<and> (\<forall>v. configured (w_policy w) = Some v \<longrightarrow> 1 \<le> v \<and> v \<le> maxsize)
     \<and> (\<forall>i n. ext_runtime (w_extensions w i) = Some n \<longrightarrow> frozen (w_policy w) = Some n)
     \<and> (\<forall>i. ext_registered (w_extensions w i) = ext_initialized (w_extensions w i))
     \<and> (\<forall>i. ext_registered (w_extensions w i) \<longrightarrow> ext_runtime (w_extensions w i) \<noteq> None)"

lemma validate_workers_Inr: "validate_workers v = Inr n \<longleftrightarrow> v = PyInt n \<and> 1 \<le> n \<and> n \<le> maxsize"
  by (cases v) (auto simp: validate_workers_def)

lemma freeze_cases:
  assumes "freeze_worker_threads env available p = (r, p')"
    and "\<forall>v. configured p = Some v \<longrightarrow> 1 \<le> v \<and> v \<le> maxsize"
    and "\<forall>v. frozen p = Some v \<longrightarrow> 1 \<le> v \<and> v \<le> maxsize"
  shows "configured p' = configured p"
    and "case r of Inl e \<Rightarrow> p' = p
      | Inr v \<Rightarrow> frozen p' = Some v \<and> 1 \<le> v \<and> v \<le> maxsize \<and> (\<forall>u. frozen p = Some u \<longrightarrow> u = v)"
  using assms
  by (auto simp: freeze_worker_threads_def validate_workers_Inr Let_def min_def
      split: option.splits sum.splits if_splits)

lemma configure_cases:
  "snd (configure_runtime v p) = p \<or>
   (\<exists>n. snd (configure_runtime v p) = p\<lparr>configured := Some n\<rparr> \<and> 1 \<le> n \<and> n \<le> maxsize)"
  by (auto simp: configure_runtime_def validate_workers_Inr split: sum.splits)

lemma ensure_runtime_ok:
  assumes "ensure_runtime s p x = (r, p', x')"
    and "\<forall>v. configured p = Some v \<longrightarrow> 1 \<le> v \<and> v \<le> maxsize"
    and "\<forall>v. frozen p = Some v \<longrightarrow> 1 \<le> v \<and> v \<le> maxsize"
    and "\<forall>n. ext_runtime x = Some n \<longrightarrow> frozen p = Some n"
    and "ext_registered x = ext_initialized x" and "ext_registered x \<longrightarrow> ext_runtime x \<noteq> None"
  shows "configured p' = configured p \<and> (\<forall>v. frozen p = Some v \<longrightarrow> frozen p' = Some v)
    \<and> (\<forall>v. frozen p' = Some v \<longrightarrow> 1 \<le> v \<and> v \<le> maxsize)
    \<and> (\<forall>n. ext_runtime x' = Some n \<longrightarrow> frozen p' = Some n)
    \<and> ext_registered x' = ext_initialized x' \<and> (ext_registered x' \<longrightarrow> ext_runtime x' \<noteq> None)"
proof (cases "freeze_worker_threads (env_override s) (parallelism s) p")
  case (Pair q p1)
  note f = freeze_cases [OF Pair assms(2,3)]
  show ?thesis
    using assms f
    by (cases q) (auto simp: ensure_runtime_def Pair split: if_splits option.splits)
qed

lemma world_ok_call:
  assumes "world_ok w"
  shows "world_ok (run_call c w)"
    and "frozen (w_policy w) = Some v \<Longrightarrow> frozen (w_policy (run_call c w)) = Some v"
proof -
  have "world_ok (run_call c w) \<and> (\<forall>v. frozen (w_policy w) = Some v \<longrightarrow> frozen (w_policy (run_call c w)) = Some v)"
  proof (cases c)
    case (Configure u)
    then show ?thesis
      using assms configure_cases [of u "w_policy w"] by (auto simp: world_ok_def)
  next
    case (Operation i s)
    obtain r p x where res: "ensure_runtime s (w_policy w) (w_extensions w i) = (r, p, x)"
      by (cases "ensure_runtime s (w_policy w) (w_extensions w i)")
    have "configured p = configured (w_policy w) \<and> (\<forall>v. frozen (w_policy w) = Some v \<longrightarrow> frozen p = Some v)
        \<and> (\<forall>v. frozen p = Some v \<longrightarrow> 1 \<le> v \<and> v \<le> maxsize)
        \<and> (\<forall>n. ext_runtime x = Some n \<longrightarrow> frozen p = Some n)
        \<and> ext_registered x = ext_initialized x \<and> (ext_registered x \<longrightarrow> ext_runtime x \<noteq> None)"
      using assms by (intro ensure_runtime_ok [OF res]) (auto simp: world_ok_def)
    then show ?thesis
      using assms Operation by (auto simp: future_into_py_def res world_ok_def)
  qed
  then show "world_ok (run_call c w)"
    and "frozen (w_policy w) = Some v \<Longrightarrow> frozen (w_policy (run_call c w)) = Some v" by blast+
qed

lemma world_ok_calls:
  "world_ok w \<Longrightarrow> world_ok (run_calls cs w) \<and>
     (\<forall>v. frozen (w_policy w) = Some v \<longrightarrow> frozen (w_policy (run_calls cs w)) = Some v)"
proof (induction cs arbitrary: w)
  case Nil
  then show ?case by (simp add: run_calls_def)
next
  case (Cons c cs)
  from Cons.IH [OF world_ok_call(1) [OF Cons.prems, of c]] world_ok_call(2) [OF Cons.prems, of _ c]
  show ?case by (simp add: run_calls_def)
qed

lemma world_ok_new: "world_ok new_world"
  by (simp add: world_ok_def new_world_def new_policy_def new_extension_def)

section \<open>Properties\<close>

text \<open>
  C32: the worker policy is decided once for the process. After any history of configuration
  calls and operations, over any number of extensions and whatever the environment says, the
  frozen number of workers lies between 1 and \<open>sys.maxsize\<close>, never changes again, and every
  extension that has started its runtime runs exactly that many workers.
\<close>

theorem worker_policy_is_frozen_once:
  assumes "w = run_calls before new_world" and "frozen (w_policy w) = Some v"
  shows "1 \<le> v \<and> v \<le> maxsize \<and> frozen (w_policy (run_calls after w)) = Some v
    \<and> (\<forall>i n. runtime_worker_threads (w_extensions (run_calls after w) i) = Some n \<longrightarrow> n = v)"
  using world_ok_calls [OF world_ok_new, of before] world_ok_calls [of w after] assms
  by (auto simp: world_ok_def runtime_worker_threads_def)

theorem worker_policy_is_frozen_once_witness:
  "frozen (w_policy (run_calls [Configure (PyInt 9)] (run_calls
      [Operation 0 \<lparr>in_event_loop = True, env_override = Some ''+6'', parallelism = 8, pool_builds = True\<rparr>] new_world))) = Some 6"
proof -
  have "frozen (w_policy (run_calls
      [Operation 0 \<lparr>in_event_loop = True, env_override = Some ''+6'', parallelism = 8, pool_builds = True\<rparr>] new_world)) = Some 6"
    by (simp add: run_calls_def future_into_py_def ensure_runtime_def freeze_worker_threads_def
        new_world_def new_policy_def new_extension_def remove_plus_def is_digit_def decimal_value_def
        byte_of_def validate_workers_def maxsize_def)
  from worker_policy_is_frozen_once [OF refl this] show ?thesis by blast
qed

text \<open>
  \<open>configure_runtime\<close> before the first operation decides the number of workers whatever the
  environment says; without it a small pool of at most two workers is started; a call outside an
  event loop changes nothing; and once the policy is frozen only its own value is accepted.
\<close>

lemma runtime_configuration_precedence:
  assumes "in_event_loop s" and "pool_builds s" and "frozen p = None" and "1 \<le> n" and "n \<le> maxsize"
  shows "fst (configure_runtime (PyInt n) p) = Inr ()
    \<and> (\<exists>q x. future_into_py s (snd (configure_runtime (PyInt n) p)) new_extension = (Inr (), q, x)
        \<and> runtime_worker_threads x = Some n \<and> frozen q = Some n
        \<and> (\<forall>k. 1 \<le> k \<and> k \<le> maxsize \<longrightarrow> (fst (configure_runtime (PyInt k) q) = Inr ()) = (k = n)))
    \<and> (configured p = None \<and> env_override s = None \<and> 1 \<le> parallelism s \<and> parallelism s \<le> maxsize \<longrightarrow>
        (\<exists>q x. future_into_py s p new_extension = (Inr (), q, x)
          \<and> runtime_worker_threads x = Some (min 2 (parallelism s))))
    \<and> snd (future_into_py (s\<lparr>in_event_loop := False\<rparr>) p e) = (p, e)"
  using assms
  by (auto simp: configure_runtime_def validate_workers_def future_into_py_def ensure_runtime_def
      freeze_worker_threads_def new_extension_def runtime_worker_threads_def)

end
