(* ===== verification/Dynamo.thy ===== *)
theory Dynamo
  imports Convert
begin

text \<open>
  DynamoDB's attribute values, from \<open>crates/rboto-dynamodb/src/generated.rs\<close>: the recursive union
  that every item, key and expression value of that service is made of. Unlike documents the
  converter has no limit on nesting; the first argument of the recursion is the number of its own
  calls the native stack still holds.
\<close>

section \<open>Definitions\<close>

text \<open>The SDK's enum is open: \<open>AvUnknown\<close> is a variant this version of it does not know.\<close>

datatype attribute_value =
    AvS string
  | AvN string
  | AvB "byte list"
  | AvSs "string list"
  | AvNs "string list"
  | AvBs "byte list list"
  | AvM "(string, attribute_value) fmap"
  | AvL "attribute_value list"
  | AvNull bool
  | AvBool bool
  | AvUnknown

text \<open>Running out of native stack ends the process; this value stands for it.\<close>

definition stack_exhausted :: pyerr where
  "stack_exhausted = runtime_error ''native stack exhausted''"

definition known_variant :: string where
  "known_variant = ''exactly one known union variant''"

definition attribute_variants ::
    "pyo3 \<Rightarrow> (pyval \<Rightarrow> attribute_value pyresult) \<Rightarrow> (string \<times> string \<times> (pyval \<Rightarrow> attribute_value pyresult)) list" where
  "attribute_variants P nested =
     [(''s'', ''str'', \<lambda>v. map_ok AvS (string_from_py P v)),
      (''n'', ''str'', \<lambda>v. map_ok AvN (string_from_py P v)),
      (''b'', ''bytes'', \<lambda>v. map_ok AvB (blob_from_py P v)),
      (''ss'', ''sequence'', \<lambda>v. map_ok AvSs (seq_from_py P ''str'' (string_from_py P) v)),
      (''ns'', ''sequence'', \<lambda>v. map_ok AvNs (seq_from_py P ''str'' (string_from_py P) v)),
      (''bs'', ''sequence'', \<lambda>v. map_ok AvBs (seq_from_py P ''bytes'' (blob_from_py P) v)),
      (''m'', ''dict'', \<lambda>v. map_ok AvM (map_from_py P ''str'' known_variant nested v)),
      (''l'', ''sequence'', \<lambda>v. map_ok AvL (seq_from_py P known_variant nested v)),
      (''null'', ''bool'', \<lambda>v. map_ok AvNull (bool_from_py P v)),
      (''bool'', ''bool'', \<lambda>v. map_ok AvBool (bool_from_py P v))]"

primrec attribute_value_from_py :: "pyo3 \<Rightarrow> nat \<Rightarrow> pyval \<Rightarrow> attribute_value pyresult" where
  "attribute_value_from_py P 0 = (\<lambda>value. Inl stack_exhausted)"
| "attribute_value_from_py P (Suc stack) =
     union_from_py P ''AttributeValue'' (attribute_variants P (attribute_value_from_py P stack))"

primrec attribute_value_to_py ::
    "((string, pyval) fmap \<Rightarrow> (string \<times> pyval) list) \<Rightarrow> attribute_value \<Rightarrow> pyval" where
  "attribute_value_to_py enum (AvS value) = PyDict (py_dict [(''s'', PyStr value)])"
| "attribute_value_to_py enum (AvN value) = PyDict (py_dict [(''n'', PyStr value)])"
| "attribute_value_to_py enum (AvB value) = PyDict (py_dict [(''b'', PyBytes value)])"
| "attribute_value_to_py enum (AvSs value) = PyDict (py_dict [(''ss'', seq_to_py PyStr value)])"
| "attribute_value_to_py enum (AvNs value) = PyDict (py_dict [(''ns'', seq_to_py PyStr value)])"
| "attribute_value_to_py enum (AvBs value) = PyDict (py_dict [(''bs'', seq_to_py PyBytes value)])"
| "attribute_value_to_py enum (AvM value) =
     PyDict (py_dict [(''m'', map_to_py enum (fmmap (attribute_value_to_py enum) value))])"
| "attribute_value_to_py enum (AvL value) =
     PyDict (py_dict [(''l'', PyList (map (attribute_value_to_py enum) value))])"
| "attribute_value_to_py enum (AvNull value) = PyDict (py_dict [(''null'', PyBool value)])"
| "attribute_value_to_py enum (AvBool value) = PyDict (py_dict [(''bool'', PyBool value)])"
| "attribute_value_to_py enum AvUnknown = PyDict (py_dict [(''unknown'', PyBool True)])"

text \<open>The \<open>item\<close> of a \<open>PutItem\<close>: a mapping from attribute names to values.\<close>

definition item_from_py :: "pyo3 \<Rightarrow> nat \<Rightarrow> pyval \<Rightarrow> (string, attribute_value) fmap pyresult" where
  "item_from_py P stack = map_from_py P ''str'' known_variant (attribute_value_from_py P stack)"

definition put_item_item ::
    "pyo3 \<Rightarrow> nat \<Rightarrow> pydict \<Rightarrow> (string, attribute_value) fmap option pyresult" where
  "put_item_item P stack params =
     op_param P ''dynamodb'' ''PutItem'' params ''item'' ''dict'' (item_from_py P stack)"

text \<open>The modelled details of a failed condition: the item found, when the service returned it.\<close>

definition conditional_check_failed_details ::
    "((string, pyval) fmap \<Rightarrow> (string \<times> pyval) list) \<Rightarrow> (string, attribute_value) fmap option \<Rightarrow> pydict" where
  "conditional_check_failed_details enum item =
     (case item of
        None \<Rightarrow> []
      | Some m \<Rightarrow> py_dict [(''item'', map_to_py enum (fmmap (attribute_value_to_py enum) m))])"

section \<open>Shape\<close>

text \<open>\<open>stack_for a n\<close>: converting \<open>a\<close> nests at most \<open>n\<close> calls.\<close>

primrec stack_for :: "attribute_value \<Rightarrow> nat \<Rightarrow> bool" where
  "stack_for (AvS v) n = (0 < n)"
| "stack_for (AvN v) n = (0 < n)"
| "stack_for (AvB v) n = (0 < n)"
| "stack_for (AvSs v) n = (0 < n)"
| "stack_for (AvNs v) n = (0 < n)"
| "stack_for (AvBs v) n = (0 < n)"
| "stack_for (AvM v) n = (0 < n \<and> fmpred (\<lambda>k f. f (n - 1)) (fmmap stack_for v))"
| "stack_for (AvL v) n = (0 < n \<and> list_all (\<lambda>f. f (n - 1)) (map stack_for v))"
| "stack_for (AvNull v) n = (0 < n)"
| "stack_for (AvBool v) n = (0 < n)"
| "stack_for AvUnknown n = (0 < n)"

text \<open>No part is of an unknown variant.\<close>

primrec known :: "attribute_value \<Rightarrow> bool" where
  "known (AvS v) = True"
| "known (AvN v) = True"
| "known (AvB v) = True"
| "known (AvSs v) = True"
| "known (AvNs v) = True"
| "known (AvBs v) = True"
| "known (AvM v) = fmpred (\<lambda>k b. b) (fmmap known v)"
| "known (AvL v) = list_all id (map known v)"
| "known (AvNull v) = True"
| "known (AvBool v) = True"
| "known AvUnknown = False"

lemma stack_for_M: "stack_for (AvM m) n \<longleftrightarrow> 0 < n \<and> (\<forall>a \<in> fmran' m. stack_for a (n - 1))"
  by (auto simp: fmpred_iff elim!: fmran'E intro: fmran'I)

lemma stack_for_L: "stack_for (AvL l) n \<longleftrightarrow> 0 < n \<and> (\<forall>a \<in> set l. stack_for a (n - 1))"
  by (auto simp: list_all_iff)

lemma known_M: "known (AvM m) \<longleftrightarrow> (\<forall>a \<in> fmran' m. known a)"
  by (auto simp: fmpred_iff elim!: fmran'E intro: fmran'I)

lemma known_L: "known (AvL l) \<longleftrightarrow> (\<forall>a \<in> set l. known a)"
  by (auto simp: list_all_iff)

lemma attribute_value_to_py_not_none [simp]: "attribute_value_to_py enum a \<noteq> PyNone"
  by (cases a) simp_all

text \<open>The converter only builds known variants.\<close>

lemma attribute_value_from_py_known: "attribute_value_from_py P n v = Inr a \<Longrightarrow> known a"
proof (induction n arbitrary: v a)
  case 0
  then show ?case by simp
next
  case (Suc n)
  have m: "known y" if "map_from_py P kx x (attribute_value_from_py P n) w = Inr m" and "fmlookup m k = Some y"
    for kx x w m k y
    using map_from [OF that] Suc.IH by blast
  have l: "known y" if "seq_from_py P x (attribute_value_from_py P n) w = Inr ys" and "y \<in> set ys"
    for x w ys y
    using seq_from [OF that] Suc.IH by blast
  have "known u" if "t \<in> set (attribute_variants P (attribute_value_from_py P n))"
    and "snd (snd t) w = Inr u" for t w u
    using that
    by (auto simp: attribute_variants_def known_M known_L simp del: known.simps(7,8)
        elim!: fmran'E) (erule (1) m, erule (1) l)
  then show ?case using Suc.prems by (auto elim!: union_from)
qed

section \<open>Properties\<close>

context pyo3_laws
begin

lemmas attribute_read = union_from_py_def attribute_variants_def dict_ok dict_value_eq string_roundtrip
  blob_roundtrip bool_roundtrip

lemma attribute_value_roundtrip:
  assumes enum: "iterates enum"
  shows "known a \<Longrightarrow> stack_for a n \<Longrightarrow> attribute_value_from_py P n (attribute_value_to_py enum a) = Inr a"
proof (induction a arbitrary: n)
  case (AvM m)
  from AvM.prems obtain n' where n: "n = Suc n'" by (cases n) auto
  have "map_from_py P ''str'' known_variant (attribute_value_from_py P n')
      (map_to_py enum (fmmap (attribute_value_to_py enum) m)) = Inr m"
    using AvM n by (intro map_roundtrip [OF enum]) (auto simp: known_M stack_for_M simp del: known.simps stack_for.simps)
  then show ?case by (simp add: n attribute_read map_to_py_def)
next
  case (AvL l)
  from AvL.prems obtain n' where n: "n = Suc n'" by (cases n) auto
  have "seq_from_py P known_variant (attribute_value_from_py P n')
      (seq_to_py (attribute_value_to_py enum) l) = Inr l"
    using AvL n by (intro seq_roundtrip) (auto simp: known_L stack_for_L simp del: known.simps stack_for.simps)
  then show ?case by (simp add: n attribute_read seq_to_py_def)
next
  case (AvS v)
  then show ?case by (cases n) (simp_all add: attribute_read)
next
  case (AvN v)
  then show ?case by (cases n) (simp_all add: attribute_read)
next
  case (AvB v)
  then show ?case by (cases n) (simp_all add: attribute_read)
next
  case (AvSs v)
  have "seq_from_py P ''str'' (string_from_py P) (seq_to_py PyStr v) = Inr v"
    by (rule seq_roundtrip) (rule string_roundtrip)
  with AvSs show ?case by (cases n) (simp_all add: attribute_read seq_to_py_def)
next
  case (AvNs v)
  have "seq_from_py P ''str'' (string_from_py P) (seq_to_py PyStr v) = Inr v"
    by (rule seq_roundtrip) (rule string_roundtrip)
  with AvNs show ?case by (cases n) (simp_all add: attribute_read seq_to_py_def)
next
  case (AvBs v)
  have "seq_from_py P ''bytes'' (blob_from_py P) (seq_to_py PyBytes v) = Inr v"
    by (rule seq_roundtrip) (rule blob_roundtrip)
  with AvBs show ?case by (cases n) (simp_all add: attribute_read seq_to_py_def)
next
  case (AvNull v)
  then show ?case by (cases n) (simp_all add: attribute_read)
next
  case (AvBool v)
  then show ?case by (cases n) (simp_all add: attribute_read)
qed simp

lemma item_roundtrip:
  assumes "iterates enum" and "\<forall>a \<in> fmran' m. known a \<and> stack_for a n"
  shows "item_from_py P n (map_to_py enum (fmmap (attribute_value_to_py enum) m)) = Inr m"
  unfolding item_from_py_def using assms by (intro map_roundtrip attribute_value_roundtrip) auto

text \<open>Where a mapping's first failing entry is reported.\<close>

lemma map_first_error:
  assumes "k < length d" and "d ! k = (PyStr a, v)" and "conv v = Inl e"
    and "\<forall>j < k. \<exists>b w y. d ! j = (PyStr b, w) \<and> conv w = Inr y"
  shows "map_from_py P ''str'' x conv (PyDict d) = Inl (input_error e (MapValue k) x)"
proof -
  have "traverse 0 (map_entry P ''str'' x conv) d = Inl (input_error e (MapValue k) x)"
    unfolding traverse_error_iff
  proof (intro exI [of _ k] conjI allI impI)
    fix j assume "j < k"
    with assms(4) obtain b w y where "d ! j = (PyStr b, w)" and "conv w = Inr y" by blast
    then show "\<exists>y. map_entry P ''str'' x conv (0 + j) (d ! j) = Inr y" by (auto simp: map_entry_eq)
  qed (use assms in \<open>simp_all add: map_entry_def string_ok\<close>)
  then show ?thesis by (simp add: map_from_py_def dict_ok)
qed

end

text \<open>
  C37: exactly the attribute values without a part of an unknown variant survive the trip to Python
  and back, whatever their nesting, as long as the native stack holds their depth. In particular an
  item that a failed condition reports in its details can be sent back as it is.
\<close>

theorem attribute_value_survives_iff:
  assumes "pyo3_laws P" and "iterates enum" and "stack_for a n" and "\<forall>b \<in> fmran' m. known b \<and> stack_for b n"
  shows "(attribute_value_from_py P n (attribute_value_to_py enum a) = Inr a \<longleftrightarrow> known a)
    \<and> (\<exists>v. conditional_check_failed_details enum (Some m) = [(PyStr ''item'', v)] \<and> item_from_py P n v = Inr m)"
  using pyo3_laws.attribute_value_roundtrip [OF assms(1,2) _ assms(3)] attribute_value_from_py_known
    pyo3_laws.item_roundtrip [OF assms(1,2,4)]
  by (auto simp: conditional_check_failed_details_def)

definition example_value :: attribute_value where
  "example_value = AvL [AvS ''a'', AvNull True, AvL [AvBs [[1, 2], []], AvN ''3'']]"

theorem attribute_value_survives_iff_witness:
  "attribute_value_from_py pyo3_std 3 (attribute_value_to_py by_key example_value) = Inr example_value
   \<and> (\<exists>v. conditional_check_failed_details by_key (Some (fmupd ''id'' (AvS ''1'') fmempty)) = [(PyStr ''item'', v)]
        \<and> item_from_py pyo3_std 3 v = Inr (fmupd ''id'' (AvS ''1'') fmempty))"
proof -
  have s: "stack_for example_value 3" and k: "known example_value"
    by (simp_all add: example_value_def)
  have "\<forall>b \<in> fmran' (fmupd ''id'' (AvS ''1'') fmempty). known b \<and> stack_for b 3"
    by (auto elim!: fmran'E split: if_splits)
  from attribute_value_survives_iff [OF std.pyo3_laws_axioms iterates_by_key s this] k
  show ?thesis by blast
qed

lemma bad_union:
  assumes "pyo3_laws P"
    and "length u \<noteq> 1 \<or> (\<exists>k w. u = [(PyStr k, w)] \<and> k \<notin> fst ` set (attribute_variants P conv))"
  shows "\<exists>message. union_from_py P name (attribute_variants P conv) (PyDict u) = Inl (union_rule message)"
  using assms(2) pyo3_laws.union_count [OF assms(1)] pyo3_laws.union_miss [OF assms(1)] by blast

text \<open>
  An attribute value that is no union is reported by its place. When the first bad entry of a
  \<open>PutItem\<close>'s \<open>item\<close> is a dictionary with no entry, several entries, or one that names no known
  variant, the operation's context says \<open>item[value#k]\<close>, expected exactly one known union variant,
  of category \<open>union\<close>.
\<close>

lemma put_item_names_bad_attribute:
  assumes laws: "pyo3_laws P" and "str_keys params"
    and "map_of params (PyStr ''item'') = Some (PyDict d)"
    and "k < length d" and "d ! k = (PyStr a, PyDict u)"
    and "\<forall>j < k. \<exists>b w y. d ! j = (PyStr b, w) \<and> attribute_value_from_py P (Suc n) w = Inr y"
    and "length u \<noteq> 1 \<or> (\<exists>key w. u = [(PyStr key, w)]
          \<and> key \<notin> {''s'', ''n'', ''b'', ''ss'', ''ns'', ''bs'', ''m'', ''l'', ''null'', ''bool''})"
  shows "\<exists>e. put_item_item P (Suc n) params = Inl e
    \<and> err_context e = Some (context_for [Field ''item'', MapValue k, Root] known_variant ''union''
        ''dynamodb'' ''PutItem'')"
proof -
  have "fst ` set (attribute_variants P conv) =
      {''s'', ''n'', ''b'', ''ss'', ''ns'', ''bs'', ''m'', ''l'', ''null'', ''bool''}" for conv
    by (auto simp: attribute_variants_def)
  then have "length u \<noteq> 1 \<or> (\<exists>key w. u = [(PyStr key, w)]
      \<and> key \<notin> fst ` set (attribute_variants P (attribute_value_from_py P n)))"
    using assms(7) by simp
  from bad_union [OF laws this, of "''AttributeValue''"] obtain message where
    u: "attribute_value_from_py P (Suc n) (PyDict u) = Inl (union_rule message)" by auto
  let ?locs = "[(MapValue k, known_variant), (Field ''item'', ''dict'')]"
  have "item_from_py P (Suc n) (PyDict d) = Inl (input_error (union_rule message) (MapValue k) known_variant)"
    unfolding item_from_py_def by (rule pyo3_laws.map_first_error [OF laws assms(4,5) u assms(6)])
  then have put: "put_item_item P (Suc n) params = Inl (input_operation (unwind ?locs (union_rule message)) ''dynamodb'' ''PutItem'')"
    by (simp add: put_item_item_def pyo3_laws.op_param_present [OF laws assms(2,3)])
  have "err_context (input_operation (unwind ?locs (union_rule message)) ''dynamodb'' ''PutItem'') =
      Some (context_for (rev (map fst ?locs) @ [Root]) known_variant ''union'' ''dynamodb'' ''PutItem'')"
    unfolding union_rule_def known_variant_def
    by (rule rule_context) (simp_all add: builtin_errors good_path_def is_cont_def byte_of_def)
  with put show ?thesis by simp
qed

definition bad_item :: pydict where
  "bad_item = [(PyStr ''item'', PyDict [(PyStr ''id'', PyDict [(PyStr ''s'', PyStr ''1'')]),
     (PyStr ''age'', PyDict [(PyStr ''number'', PyStr ''2'')])])]"

end
