(* ===== verification/Service.thy ===== *)
theory Service
  imports Config Streams Observation Convert
begin

text \<open>
  The part every service extension shares, from the generated
  \<open>crates/rboto-sts/src/lib.rs\<close>: the lazily built client, the response stream object, and the way
  an operation runs under the client's lease, is observed, and maps its failure. What differs
  between services is the record \<open>service_env\<close> and, per operation, the SDK call.
\<close>

section \<open>The client\<close>

record client_config =
  cc_region :: "string option"
  cc_profile :: "string option"
  cc_endpoint_url :: "string option"
  cc_options :: request_config

text \<open>\<open>OnceCell<Client>\<close> is an option: once set it stays.\<close>

record 'client client_state =
  cs_config :: Service.client_config
  cs_client :: "'client option"

text \<open>
  The service: its exceptions module and base class, how its client is built from a loaded SDK
  configuration and an endpoint, and the region of a client.
\<close>

record ('cfg, 'client) service_env =
  se_modules :: py_modules
  se_exceptions :: string
  se_base :: string
  se_load :: "request_config \<Rightarrow> string option \<Rightarrow> string option \<Rightarrow> 'cfg pyresult option"
  se_client :: "'cfg \<Rightarrow> string option \<Rightarrow> 'client"
  se_region :: "'client \<Rightarrow> string option"

text \<open>\<open>ClientState::client\<close>; the outer \<open>None\<close> is a panic of \<open>load\<close>.\<close>

definition get_client :: "('cfg, 'client) service_env \<Rightarrow> 'client client_state \<Rightarrow>
    ('client pyresult \<times> 'client client_state) option" where
  "get_client E st =
     (case cs_client st of
        Some client \<Rightarrow> Some (Inr client, st)
      | None \<Rightarrow>
          (case se_load E (cc_options (cs_config st)) (cc_region (cs_config st)) (cc_profile (cs_config st)) of
             None \<Rightarrow> None
           | Some (Inl e) \<Rightarrow> Some (Inl e, st)
           | Some (Inr shared) \<Rightarrow>
               (let client = se_client E shared (cc_endpoint_url (cs_config st))
                in Some (Inr client, st\<lparr>cs_client := Some client\<rparr>))))"

text \<open>The client object: a managed resource around the shared state, whose slot holds the state
  until it is closed.\<close>

record 'client client_handle =
  ch_closed :: bool
  ch_state :: "'client client_state"

definition client_closed :: "py_modules \<Rightarrow> pyerr" where
  "client_closed M = raise_core_error M ''ClientClosedError'' ''client is closed''"

definition stream_closed :: "py_modules \<Rightarrow> pyerr" where
  "stream_closed M = raise_core_error M ''StreamClosedError'' ''stream is closed''"

text \<open>\<open>new\<close> of the generated client.\<close>

definition new_client :: "py_modules \<Rightarrow>
    ('p, 'tr, 'tls, 's, 'c, 'sl, 'con, 'http, 'cert, 'roots) transport_api \<Rightarrow>
    string option \<Rightarrow> string option \<Rightarrow> string option \<Rightarrow> request_config option \<Rightarrow> 'client client_handle pyresult" where
  "new_client M T region profile endpoint_url config =
     (let options = unwrap_or default_config config
      in and_then (map_err (\<lambda>message. raise_core_error M ''ConfigurationError'' message) (validate T options))
        (\<lambda>_. Inr \<lparr>ch_closed = False,
           ch_state = \<lparr>cs_config = \<lparr>cc_region = region, cc_profile = profile,
               cc_endpoint_url = endpoint_url, cc_options = options\<rparr>, cs_client = None\<rparr>\<rparr>))"

definition ensure_open :: "py_modules \<Rightarrow> 'client client_handle \<Rightarrow> unit pyresult" where
  "ensure_open M c = (if ch_closed c then Inl (client_closed M) else Inr ())"

text \<open>\<open>aclose\<close> publishes closure before it returns its awaitable; \<open>__aexit__\<close> is \<open>aclose\<close>.\<close>

definition close_client :: "'client client_handle \<Rightarrow> 'client client_handle" where
  "close_client c = c\<lparr>ch_closed := True\<rparr>"

definition enter_client :: "py_modules \<Rightarrow> 'client client_handle \<Rightarrow> 'client client_handle pyresult" where
  "enter_client M c = and_then (ensure_open M c) (\<lambda>_. Inr c)"

section \<open>Failures\<close>

text \<open>\<open>error.setattr("_details", details)\<close>, whose failure is ignored.\<close>

definition set_details :: "pydict \<Rightarrow> pyerr \<Rightarrow> pyerr" where
  "set_details d e =
     (if open_attrs e then e\<lparr>err_attrs := map_option (\<lambda>a. a\<lparr>ce_details := d\<rparr>) (err_attrs e)\<rparr> else e)"

definition with_modeled_details :: "('e \<Rightarrow> pydict pyresult) \<Rightarrow> pyerr \<Rightarrow> 'e service_error option \<Rightarrow> pyerr" where
  "with_modeled_details details error service =
     (case service of
        None \<Rightarrow> error
      | Some s \<Rightarrow> (case details (svc_shape s) of Inl _ \<Rightarrow> error | Inr d \<Rightarrow> set_details d error))"

definition service_error_to_py :: "('cfg, 'client) service_env \<Rightarrow> ('e \<Rightarrow> pydict pyresult) \<Rightarrow>
    ('e, http_response) sdk_error \<Rightarrow> string \<Rightarrow> response_metadata \<Rightarrow> pyerr" where
  "service_error_to_py E details error operation metadata =
     with_modeled_details details
       (http_sdk_error_to_py (se_modules E) error operation (se_exceptions E) (se_base E) metadata)
       (as_service_error error)"

text \<open>The trait's own \<open>details\<close>, which every error without modelled members keeps.\<close>

definition no_details :: "'e \<Rightarrow> pydict pyresult" where
  "no_details e = Inr []"

text \<open>
  The members the details of a modelled error show. A member the service left out is left out
  here as well, where a structure would show \<open>None\<close>.
\<close>

definition details_of :: "(string \<times> pyval option) list \<Rightarrow> pydict" where
  "details_of members = py_dict (concat (map (\<lambda>(k, v). case v of None \<Rightarrow> [] | Some x \<Rightarrow> [(k, x)]) members))"

text \<open>\<open>sdk_error_to_py_with_code\<close>, for event receivers.\<close>

definition service_error_with_code :: "('cfg, 'client) service_env \<Rightarrow> ('e \<Rightarrow> pydict pyresult) \<Rightarrow>
    ('e, 'r) sdk_error \<Rightarrow> stream_error_context \<Rightarrow> string option \<Rightarrow> pyerr" where
  "service_error_with_code E details error context fallback_code =
     (case error of
        DispatchFailure kind chain \<Rightarrow> stream_error_to_py (se_modules E) (CConnector kind # chain) context
      | _ \<Rightarrow> with_modeled_details details
          (sdk_error_to_py (se_modules E) error (ctx_op context) (se_exceptions E) (se_base E)
             fallback_code (md_request_id (ctx_metadata context)) (ctx_metadata context))
          (as_service_error error))"

section \<open>One operation\<close>

text \<open>
  The shape of every generated operation. The client is acquired first, then the parameters are
  converted, then the future is handed to the event loop (\<open>bridge\<close>, which may fail) and runs
  under the lease: closure wins over whatever it was doing (\<open>interrupted\<close>), dropping the future
  before anything is published.
\<close>

definition execute :: "('cfg, 'client) service_env \<Rightarrow> unit pyresult \<Rightarrow> bool \<Rightarrow>
    ('client \<Rightarrow> 'i \<Rightarrow> trip list \<times> (('e, http_response) sdk_error + 'o)) \<Rightarrow> ('e \<Rightarrow> pydict pyresult) \<Rightarrow>
    string \<Rightarrow> 'i pyresult \<Rightarrow> 'client client_handle \<Rightarrow> pydict option \<Rightarrow>
    ('o pyresult \<times> 'client client_handle \<times> pydict option) option" where
  "execute E bridge interrupted send details operation params c sink =
     (if ch_closed c then Some (Inl (client_closed (se_modules E)), c, sink)
      else (case params of
        Inl e \<Rightarrow> Some (Inl e, c, sink)
      | Inr request \<Rightarrow>
     (case bridge of
        Inl e \<Rightarrow> Some (Inl e, c, sink)
      | Inr _ \<Rightarrow>
     (if interrupted then Some (Inl (client_closed (se_modules E)), close_client c, sink)
      else (case get_client E (ch_state c) of
        None \<Rightarrow> None
      | Some (Inl e, st) \<Rightarrow> Some (Inl e, c\<lparr>ch_state := st\<rparr>, sink)
      | Some (Inr client, st) \<Rightarrow>
          (let (attempts, result) = send client request;
               observer = run_operation (sink \<noteq> None) attempts
           in Some
             (map_err (\<lambda>error. service_error_to_py E details error operation (response_metadata observer)) result,
              c\<lparr>ch_state := st\<rparr>,
              map_option (publish observer (se_region E client)) sink)))))))"

section \<open>Response streams\<close>

text \<open>
  A \<open>PyByteStream\<close>: closed or not, and the stream while it has one. The SDK's stream is a state
  with \<open>try_next\<close> (a chunk, the end, or a failure with its causes) and \<open>collect\<close>.
\<close>

record 's stream_api =
  try_next :: "'s \<Rightarrow> (cause list + byte list) option \<times> 's"
  collect :: "'s \<Rightarrow> cause list + byte list list"

record 's py_byte_stream =
  bs_closed :: bool
  bs_slot :: "'s option"
  bs_context :: stream_error_context

definition new_stream :: "'s \<Rightarrow> stream_error_context \<Rightarrow> 's py_byte_stream" where
  "new_stream s context = \<lparr>bs_closed = False, bs_slot = Some s, bs_context = context\<rparr>"

definition close_stream :: "'s py_byte_stream \<Rightarrow> 's py_byte_stream" where
  "close_stream b = b\<lparr>bs_closed := True, bs_slot := None\<rparr>"

definition enter_stream :: "py_modules \<Rightarrow> 's py_byte_stream \<Rightarrow> 's py_byte_stream pyresult" where
  "enter_stream M b = (if bs_closed b then Inl (stream_closed M) else Inr b)"

definition anext :: "py_modules \<Rightarrow> 's stream_api \<Rightarrow> bool \<Rightarrow> 's py_byte_stream \<Rightarrow>
    pyval pyresult \<times> 's py_byte_stream" where
  "anext M A interrupted b =
     (if bs_closed b then (Inl stop_async_iteration, b)
      else if interrupted then (Inl stop_async_iteration, close_stream b)
      else (case bs_slot b of
          None \<Rightarrow> (Inl stop_async_iteration, b)
        | Some s \<Rightarrow>
            (case try_next A s of
               (Some (Inr chunk), s) \<Rightarrow> (Inr (PyBytes chunk), b\<lparr>bs_slot := Some s\<rparr>)
             | (None, s) \<Rightarrow> (Inl stop_async_iteration, b\<lparr>bs_slot := None\<rparr>)
             | (Some (Inl error), s) \<Rightarrow>
                 (Inl (stream_error_to_py M error (bs_context b)), b\<lparr>bs_slot := None\<rparr>))))"

definition read_all :: "py_modules \<Rightarrow> 's stream_api \<Rightarrow> bool \<Rightarrow> 's py_byte_stream \<Rightarrow>
    pyval pyresult \<times> 's py_byte_stream" where
  "read_all M A interrupted b =
     (if bs_closed b then (Inr (PyBytes []), b)
      else if interrupted then (Inl (stream_closed M), close_stream b)
      else (case bs_slot b of
          None \<Rightarrow> (Inr (PyBytes []), b)
        | Some s \<Rightarrow>
            (case collect A s of
               Inl error \<Rightarrow> (Inl (stream_error_to_py M error (bs_context b)), b\<lparr>bs_slot := None\<rparr>)
             | Inr body \<Rightarrow> (Inr (PyBytes (collected_body_to_bytes body)), b\<lparr>bs_slot := None\<rparr>))))"

text \<open>
  An operation that answers with a stream: its response object is built from the SDK's output and
  the context later failures of the stream are reported in, which is the operation and the metadata
  of its attempts.
\<close>

definition with_context :: "string \<Rightarrow> bool \<Rightarrow> (stream_error_context \<Rightarrow> 'o \<Rightarrow> 'p) \<Rightarrow>
    ('client \<Rightarrow> 'i \<Rightarrow> trip list \<times> ('x + 'o)) \<Rightarrow> 'client \<Rightarrow> 'i \<Rightarrow> trip list \<times> ('x + 'p)" where
  "with_context operation observed build send client request =
     (let (attempts, result) = send client request;
          context = \<lparr>ctx_op = operation,
            ctx_metadata = response_metadata (run_operation observed attempts)\<rparr>
      in (attempts, map_ok (build context) result))"

section \<open>Properties of clients\<close>

lemma get_client_stays: "get_client E st = Some (Inr client, st') \<Longrightarrow> cs_client st' = Some client \<and> cs_config st' = cs_config st"
  by (auto simp: get_client_def Let_def split: option.splits sum.splits)

lemma get_client_failed: "get_client E st = Some (Inl e, st') \<Longrightarrow> st' = st \<and> cs_client st = None"
  by (auto simp: get_client_def Let_def split: option.splits sum.splits)

lemma execute_client:
  "execute E bridge interrupted send details operation params c sink = Some (r, c', sink') \<Longrightarrow>
     (c' = c \<or> c' = close_client c \<or>
       (\<exists>client st. get_client E (ch_state c) = Some (Inr client, st) \<and> c' = c\<lparr>ch_state := st\<rparr>))"
  by (auto simp: execute_def Let_def split: if_splits sum.splits option.splits prod.splits dest!: get_client_failed)

lemma execute_open:
  assumes "\<not> ch_closed c" and "get_client E (ch_state c) = Some (Inr client, st)"
    and "send client i = (attempts, result)"
  shows "execute E (Inr ()) False send details operation (Inr i) c observation =
    Some (map_err (\<lambda>error. service_error_to_py E details error operation
            (response_metadata (run_operation (observation \<noteq> None) attempts))) result,
          c\<lparr>ch_state := st\<rparr>,
          map_option (publish (run_operation (observation \<noteq> None) attempts) (se_region E client)) observation)"
  using assms by (simp add: execute_def Let_def)

text \<open>
  C31: a client builds its SDK client once and only when it must. A closed client refuses every
  operation before it looks at the parameters; parameters that do not convert raise without
  loading any configuration or sending anything; a failed load leaves the client as it was, so the
  next operation tries again; and once built the SDK client is the one every later operation
  uses, whatever loading would give then.
\<close>

theorem client_built_once:
  fixes E F :: "('cfg, 'client) service_env"
  assumes "execute E bridge interrupted send details operation params c sink = Some (r, c', sink')"
  shows "(ch_closed c \<longrightarrow> r = Inl (client_closed (se_modules E)) \<and> c' = c \<and> sink' = sink)
    \<and> (\<forall>e. \<not> ch_closed c \<and> params = Inl e \<longrightarrow> r = Inl e \<and> c' = c \<and> sink' = sink)
    \<and> (\<forall>client. cs_client (ch_state c) = Some client \<longrightarrow> cs_client (ch_state c') = Some client)
    \<and> (\<forall>e f. se_load E (cc_options (cs_config (ch_state c))) (cc_region (cs_config (ch_state c)))
          (cc_profile (cs_config (ch_state c))) = Some (Inl e) \<longrightarrow> ch_state c' = ch_state c)
    \<and> (\<forall>client. cs_client (ch_state c') = Some client \<longrightarrow>
          get_client F (ch_state c') = Some (Inr client, ch_state c'))"
proof -
  have st: "ch_state c' = ch_state c \<or> (\<exists>client. get_client E (ch_state c) = Some (Inr client, ch_state c'))"
    using execute_client [OF assms] by (auto simp: close_client_def)
  have closed: "ch_closed c \<longrightarrow> r = Inl (client_closed (se_modules E)) \<and> c' = c \<and> sink' = sink"
    and params: "\<forall>e. \<not> ch_closed c \<and> params = Inl e \<longrightarrow> r = Inl e \<and> c' = c \<and> sink' = sink"
    using assms by (auto simp: execute_def split: if_splits)
  have keep: "\<forall>client. cs_client (ch_state c) = Some client \<longrightarrow> cs_client (ch_state c') = Some client"
    and failed: "\<forall>e f. se_load E (cc_options (cs_config (ch_state c))) (cc_region (cs_config (ch_state c)))
          (cc_profile (cs_config (ch_state c))) = Some (Inl e) \<longrightarrow> ch_state c' = ch_state c"
    using st by (auto simp: get_client_def split: option.splits)
  have "\<forall>client. cs_client (ch_state c') = Some client \<longrightarrow>
          get_client F (ch_state c') = Some (Inr client, ch_state c')"
    by (simp add: get_client_def)
  with closed params keep failed show ?thesis by blast
qed

definition example_env :: "(nat, nat) service_env" where
  "example_env =
     \<lparr>se_modules = std_modules [], se_exceptions = ''rboto_sts.exceptions'', se_base = ''STSError'',
      se_load = (\<lambda>options region profile. Some (Inr 1)), se_client = (\<lambda>shared endpoint. 5),
      se_region = (\<lambda>client. Some ''eu-west-1'')\<rparr>"

definition example_client :: "nat client_handle" where
  "example_client =
     \<lparr>ch_closed = False, ch_state = \<lparr>cs_config = \<lparr>cc_region = None, cc_profile = None,
        cc_endpoint_url = None, cc_options = default_config\<rparr>, cs_client = None\<rparr>\<rparr>"

theorem client_built_once_witness:
  "get_client (example_env\<lparr>se_load := (\<lambda>o' r p. None)\<rparr>) (ch_state (example_client\<lparr>ch_state :=
      (ch_state example_client)\<lparr>cs_client := Some 5\<rparr>\<rparr>)) =
    Some (Inr 5, (ch_state example_client)\<lparr>cs_client := Some 5\<rparr>)"
proof -
  have "execute example_env (Inr ()) False (\<lambda>client i. ([], Inr ())) (\<lambda>e. Inr []) ''op''
      (Inr ()) example_client None =
    Some (Inr (), example_client\<lparr>ch_state := (ch_state example_client)\<lparr>cs_client := Some 5\<rparr>\<rparr>, None)"
    by (simp add: execute_def example_env_def example_client_def get_client_def)
  from client_built_once [OF this, of "example_env\<lparr>se_load := (\<lambda>o' r p. None)\<rparr>"] show ?thesis by simp
qed

text \<open>
  Operations on a client that was constructed never panic: \<open>new\<close> raises
  \<open>ConfigurationError\<close> for an invalid configuration, and otherwise the lazily loaded configuration
  is one \<open>load\<close> can turn into durations, in whatever environment the first operation runs.
\<close>

lemma constructed_client_never_panics:
  assumes "sdk_laws S" and "rboto_modules M"
    and "new_client M T region profile endpoint config = r"
    and "se_load E = load M T S joined env"
  shows "case r of
      Inl e \<Rightarrow> err_class e = ''ConfigurationError''
    | Inr c \<Rightarrow> execute E bridge interrupted send details operation params c sink \<noteq> None"
proof (cases "validate T (unwrap_or default_config config)")
  case (Inl msg)
  then show ?thesis
    using assms(3) by (auto simp: new_client_def rboto_modules.raise_core [OF assms(2)])
next
  case (Inr u)
  then have wf: "well_formed T (unwrap_or default_config config)"
    using validate_iff [of T] by simp
  have "load M T S joined env (unwrap_or default_config config) region profile \<noteq> None"
  proof (cases "load_transport M T joined env (unwrap_or default_config config)")
    case (Inl e)
    then show ?thesis by (simp add: load_def)
  next
    case (Inr transport)
    show ?thesis
      by (rule sdk_laws.load_cases [OF assms(1) wf Inr, of region profile]) simp
  qed
  with Inr assms(3,4) show ?thesis
    by (auto simp: new_client_def execute_def get_client_def Let_def
        split: option.splits sum.splits prod.splits)
qed

definition loading_env :: "(std_cfg, nat) service_env" where
  "loading_env =
     \<lparr>se_modules = std_modules [], se_exceptions = ''rboto_sts.exceptions'', se_base = ''STSError'',
      se_load = load (std_modules []) (transport_std (\<lambda>p. Inl ())) (sdk_std None) True EnvNotPresent,
      se_client = (\<lambda>shared endpoint. 5), se_region = (\<lambda>client. None)\<rparr>"

text \<open>
  Supplementary details never replace the original exception. Whatever \<open>details\<close> does, the
  exception of a failed operation keeps class, bases, message, notes, code, request id and
  response metadata; only the \<open>details\<close> attribute changes, and only to what \<open>details\<close> returned.
\<close>

lemma details_keep_exception:
  "same_exception (service_error_to_py E details err operation md)
      (http_sdk_error_to_py (se_modules E) err operation (se_exceptions E) (se_base E) md)
   \<and> err_message (service_error_to_py E details err operation md)
      = err_message (http_sdk_error_to_py (se_modules E) err operation (se_exceptions E) (se_base E) md)
   \<and> carried_ids (service_error_to_py E details err operation md)
      = carried_ids (http_sdk_error_to_py (se_modules E) err operation (se_exceptions E) (se_base E) md)
   \<and> map_option ce_error_code (err_attrs (service_error_to_py E details err operation md))
      = map_option ce_error_code (err_attrs (http_sdk_error_to_py (se_modules E) err operation
          (se_exceptions E) (se_base E) md))
   \<and> (\<forall>a. err_attrs (service_error_to_py E details err operation md) = Some a \<longrightarrow>
        (\<exists>b. err_attrs (http_sdk_error_to_py (se_modules E) err operation (se_exceptions E) (se_base E) md) = Some b
          \<and> (ce_details a = ce_details b \<or> (\<exists>s. as_service_error err = Some s \<and> details (svc_shape s) = Inr (ce_details a)))))"
  by (cases "err_attrs (http_sdk_error_to_py (se_modules E) err operation (se_exceptions E) (se_base E) md)")
    (auto simp: service_error_to_py_def with_modeled_details_def set_details_def same_exception_def
      carried_ids_def split: option.splits sum.splits)

section \<open>Properties of response streams\<close>

text \<open>What the SDK documents: \<open>collect\<close> gives the chunks \<open>try_next\<close> would.\<close>

locale stream_laws =
  fixes A :: "'s stream_api"
  assumes collect_chunk: "try_next A s = (Some (Inr c), s') \<Longrightarrow>
      map_ok concat (collect A s) = map_ok (\<lambda>rest. c @ rest) (map_ok concat (collect A s'))"
    and collect_end: "try_next A s = (None, s') \<Longrightarrow> map_ok concat (collect A s) = Inr []"
    and collect_error: "try_next A s = (Some (Inl e), s') \<Longrightarrow> collect A s = Inl e"

text \<open>An instance: the list of the chunks to come, each a success or a failure.\<close>

fun list_next :: "(cause list + byte list) list \<Rightarrow> (cause list + byte list) option \<times> (cause list + byte list) list" where
  "list_next [] = (None, [])"
| "list_next (c # cs) = (Some c, cs)"

fun list_collect :: "(cause list + byte list) list \<Rightarrow> cause list + byte list list" where
  "list_collect [] = Inr []"
| "list_collect (Inl e # cs) = Inl e"
| "list_collect (Inr c # cs) = map_ok (\<lambda>rest. c # rest) (list_collect cs)"

definition list_stream :: "(cause list + byte list) list stream_api" where
  "list_stream = \<lparr>try_next = list_next, collect = list_collect\<rparr>"

interpretation std_stream: stream_laws list_stream
proof
  fix s c s'
  assume "try_next list_stream s = (Some (Inr c), s')"
  then have "s = Inr c # s'" by (cases s) (auto simp: list_stream_def)
  then show "map_ok concat (collect list_stream s) =
      map_ok (\<lambda>rest. c @ rest) (map_ok concat (collect list_stream s'))"
    by (cases "list_collect s'") (simp_all add: list_stream_def)
next
  fix s s'
  assume "try_next list_stream s = (None, s')"
  then show "map_ok concat (collect list_stream s) = Inr []" by (cases s) (auto simp: list_stream_def)
next
  fix s e s'
  assume "try_next list_stream s = (Some (Inl e), s')"
  then show "collect list_stream s = Inl e" by (cases s) (auto simp: list_stream_def)
qed

text \<open>\<open>n\<close> iterations that each gave a chunk.\<close>

fun chunks :: "py_modules \<Rightarrow> 's stream_api \<Rightarrow> nat \<Rightarrow> 's py_byte_stream \<Rightarrow> (byte list list \<times> 's py_byte_stream) option" where
  "chunks M A 0 b = Some ([], b)"
| "chunks M A (Suc n) b =
     (case anext M A False b of
        (Inr (PyBytes c), b) \<Rightarrow> map_option (\<lambda>(cs, b). (c # cs, b)) (chunks M A n b)
      | _ \<Rightarrow> None)"

context stream_laws
begin

lemma anext_chunk:
  assumes "anext M A False b = (Inr (PyBytes c), b')"
  obtains s s' where "bs_slot b = Some s" and "try_next A s = (Some (Inr c), s')"
    and "b' = b\<lparr>bs_slot := Some s'\<rparr>" and "\<not> bs_closed b"
  using assms by (auto simp: anext_def split: if_splits option.splits prod.splits sum.splits)

lemma chunks_collect:
  "chunks M A n b = Some (cs, b') \<Longrightarrow> \<not> bs_closed b \<Longrightarrow> bs_slot b = Some s \<Longrightarrow>
   \<exists>s'. bs_slot b' = Some s' \<and> \<not> bs_closed b' \<and> bs_context b' = bs_context b
     \<and> map_ok concat (collect A s) = map_ok (\<lambda>rest. concat cs @ rest) (map_ok concat (collect A s'))"
proof (induction n arbitrary: b cs s)
  case 0
  then show ?case by (cases "collect A s") auto
next
  case (Suc n)
  from Suc.prems(1) obtain c b1 cs1 where one: "anext M A False b = (Inr (PyBytes c), b1)"
    and rest: "chunks M A n b1 = Some (cs1, b')" and cs: "cs = c # cs1"
    by (auto split: prod.splits sum.splits pyval.splits)
  from anext_chunk [OF one] Suc.prems obtain s1 where s1: "try_next A s = (Some (Inr c), s1)"
    and b1: "b1 = b\<lparr>bs_slot := Some s1\<rparr>" by auto
  from Suc.IH [OF rest] b1 Suc.prems obtain s' where s': "bs_slot b' = Some s'" "\<not> bs_closed b'"
    "bs_context b' = bs_context b"
    "map_ok concat (collect A s1) = map_ok (\<lambda>rest. concat cs1 @ rest) (map_ok concat (collect A s'))" by auto
  with collect_chunk [OF s1] show ?case
    by (intro exI [of _ s']) (cases "collect A s'"; simp add: cs)
qed

end

text \<open>
  Iterating and reading share one body. After any number of chunks taken by iteration,
  \<open>read\<close> returns exactly the rest of the body (or the error reading all of it would have given);
  after it the stream is used up: reading gives no bytes and iterating stops.
\<close>

lemma iterate_then_read:
  assumes "stream_laws A" and "chunks M A n (new_stream s context) = Some (cs, b)"
    and "read_all M A False b = (r, b')"
  shows "(case collect A s of
      Inr body \<Rightarrow> (\<exists>rest. r = Inr (PyBytes rest) \<and> concat cs @ rest = concat body)
    | Inl error \<Rightarrow> r = Inl (stream_error_to_py M error context))
    \<and> fst (read_all M A False b') = Inr (PyBytes []) \<and> fst (anext M A False b') = Inl stop_async_iteration"
proof -
  have new: "\<not> bs_closed (new_stream s context)" "bs_slot (new_stream s context) = Some s"
    "bs_context (new_stream s context) = context"
    by (simp_all add: new_stream_def)
  from stream_laws.chunks_collect [OF assms(1,2) new(1,2)] obtain s' where
    s': "bs_slot b = Some s'" "\<not> bs_closed b" "bs_context b = context"
    and split: "map_ok concat (collect A s) = map_ok (\<lambda>rest. concat cs @ rest) (map_ok concat (collect A s'))"
    using new(3) by auto
  show ?thesis
  proof (cases "collect A s'")
    case (Inl e)
    then have "collect A s = Inl e" using split by (cases "collect A s") auto
    with Inl assms(3) s' show ?thesis by (auto simp: read_all_def anext_def)
  next
    case (Inr body)
    with assms(3) s' split show ?thesis
      by (cases "collect A s") (auto simp: read_all_def anext_def collected_concat)
  qed
qed

text \<open>
  A failed stream and a closed stream stay finished. After an error, the end, or closure in
  the middle of an iteration or a read, the stream no longer holds its body; iteration raises
  \<open>StopAsyncIteration\<close>, reading returns no bytes, and a closed one refuses to be entered.
\<close>

lemma finished_stream_stays_finished:
  assumes "anext M A interrupted b = (Inl e, b') \<or> read_all M A interrupted b = (r, b')"
  shows "(bs_closed b' \<or> bs_slot b' = None)
    \<and> fst (anext M A i b') = Inl stop_async_iteration
    \<and> fst (read_all M A False b') = Inr (PyBytes [])
    \<and> (bs_closed b' \<longrightarrow> enter_stream M b' = Inl (stream_closed M))"
  using assms
  by (auto simp: anext_def read_all_def close_stream_def enter_stream_def
      split: if_splits option.splits prod.splits sum.splits)

end
