(* ===== verification/Receiver.thy ===== *)
theory Receiver
  imports Service
begin

text \<open>
  Event receivers: the response objects the generated crates give for operations that answer with
  a stream of events (\<open>PyResponseStreamEventReceiver\<close> in
  \<open>crates/rboto-sagemaker-runtime-http2/src/generated.rs\<close>; the same in every crate that has one,
  but for the type of its events and errors). A receiver is an asynchronous iterator in Python; its
  reference here is the SDK's own sequence of events.
\<close>

section \<open>Definitions\<close>

text \<open>\<open>EventReceiver::recv\<close> of the SDK: an event, the end, or a failure.\<close>

record ('s, 'ev, 'e, 'r) receiver_api =
  recv :: "'s \<Rightarrow> (('e, 'r) sdk_error + 'ev option) \<times> 's"

text \<open>The managed resource of a receiver: closed or not, and the SDK's receiver while it has one.\<close>

record 's event_receiver =
  er_closed :: bool
  er_slot :: "'s option"
  er_context :: stream_error_context

definition new_receiver :: "'s \<Rightarrow> stream_error_context \<Rightarrow> 's event_receiver" where
  "new_receiver s context = \<lparr>er_closed = False, er_slot = Some s, er_context = context\<rparr>"

definition close_receiver :: "'s event_receiver \<Rightarrow> 's event_receiver" where
  "close_receiver b = b\<lparr>er_closed := True, er_slot := None\<rparr>"

definition enter_receiver :: "py_modules \<Rightarrow> 's event_receiver \<Rightarrow> 's event_receiver pyresult" where
  "enter_receiver M b = (if er_closed b then Inl (stream_closed M) else Inr b)"

text \<open>
  \<open>__anext__\<close>. \<open>interrupted\<close> says that the receiver is closed while this call is under way, which
  the lease answers with \<open>StopAsyncIteration\<close>. \<open>fallback_code\<close> names the code of the failures the
  service models, for those whose own code is missing.
\<close>

definition receiver_anext :: "('cfg, 'client) service_env \<Rightarrow> ('s, 'ev, 'e, 'r) receiver_api \<Rightarrow>
    ('ev \<Rightarrow> pyval) \<Rightarrow> ('e \<Rightarrow> pydict pyresult) \<Rightarrow> ('e service_error \<Rightarrow> string option) \<Rightarrow>
    bool \<Rightarrow> 's event_receiver \<Rightarrow> pyval pyresult \<times> 's event_receiver" where
  "receiver_anext E A event_to_py details fallback_code interrupted b =
     (if er_closed b then (Inl stop_async_iteration, b)
      else if interrupted then (Inl stop_async_iteration, close_receiver b)
      else (case er_slot b of
          None \<Rightarrow> (Inl stop_async_iteration, b)
        | Some stream \<Rightarrow>
            (case recv A stream of
               (Inr (Some event), stream) \<Rightarrow> (Inr (event_to_py event), b\<lparr>er_slot := Some stream\<rparr>)
             | (Inr None, stream) \<Rightarrow> (Inl stop_async_iteration, b\<lparr>er_slot := None\<rparr>)
             | (Inl error, stream) \<Rightarrow>
                 (let code = Option.bind (as_service_error error) fallback_code
                  in (Inl (service_error_with_code E details error (er_context b) code),
                      b\<lparr>er_slot := None\<rparr>)))))"

section \<open>The SDK's own sequence\<close>

text \<open>
  What \<open>n\<close> calls of \<open>recv\<close> give before the first that is no event: the events, and that answer
  when there was one (\<open>None\<close> of the inner option is the end); with the state after them.
\<close>

fun sdk_events :: "('s, 'ev, 'e, 'r) receiver_api \<Rightarrow> nat \<Rightarrow> 's \<Rightarrow>
    'ev list \<times> ('e, 'r) sdk_error option option \<times> 's" where
  "sdk_events A 0 s = ([], None, s)"
| "sdk_events A (Suc n) s =
     (case recv A s of
        (Inr (Some event), s) \<Rightarrow> (let (events, last, s) = sdk_events A n s in (event # events, last, s))
      | (Inr None, s) \<Rightarrow> ([], Some None, s)
      | (Inl error, s) \<Rightarrow> ([], Some (Some error), s))"

text \<open>The answers of \<open>n\<close> calls of \<open>__anext__\<close>, none of them interrupted.\<close>

fun receiver_answers :: "('cfg, 'client) service_env \<Rightarrow> ('s, 'ev, 'e, 'r) receiver_api \<Rightarrow>
    ('ev \<Rightarrow> pyval) \<Rightarrow> ('e \<Rightarrow> pydict pyresult) \<Rightarrow> ('e service_error \<Rightarrow> string option) \<Rightarrow>
    nat \<Rightarrow> 's event_receiver \<Rightarrow> pyval pyresult list \<times> 's event_receiver" where
  "receiver_answers E A event_to_py details code 0 b = ([], b)"
| "receiver_answers E A event_to_py details code (Suc n) b =
     (let (r, b) = receiver_anext E A event_to_py details code False b;
          (rs, b) = receiver_answers E A event_to_py details code n b
      in (r # rs, b))"

text \<open>How a receiver's last answer is raised.\<close>

definition last_answer :: "('cfg, 'client) service_env \<Rightarrow> ('e \<Rightarrow> pydict pyresult) \<Rightarrow>
    ('e service_error \<Rightarrow> string option) \<Rightarrow> stream_error_context \<Rightarrow> ('e, 'r) sdk_error option \<Rightarrow> pyerr" where
  "last_answer E details fallback_code context outcome =
     (case outcome of
        None \<Rightarrow> stop_async_iteration
      | Some error \<Rightarrow> service_error_with_code E details error context
          (Option.bind (as_service_error error) fallback_code))"

lemma sdk_events_length: "sdk_events A n s = (events, outcome, s') \<Longrightarrow> length events \<le> n"
  by (induction n arbitrary: s events)
    (auto simp: Let_def split: prod.splits sum.splits option.splits)

lemma finished_receiver_answers:
  "er_closed b \<or> er_slot b = None \<Longrightarrow>
   receiver_answers E A event_to_py details code n b = (replicate n (Inl stop_async_iteration), b)"
  by (induction n) (auto simp: receiver_anext_def)

lemma receiver_answers_open:
  assumes "\<not> er_closed b" and "er_slot b = Some s" and "sdk_events A n s = (events, outcome, s')"
  shows "receiver_answers E A event_to_py details code n b =
    (map (\<lambda>e. Inr (event_to_py e)) events @
      (case outcome of
         None \<Rightarrow> []
       | Some err \<Rightarrow> Inl (last_answer E details code (er_context b) err) #
           replicate (n - length events - 1) (Inl stop_async_iteration)),
     b\<lparr>er_slot := (if outcome = None then Some s' else None)\<rparr>)"
  using assms
proof (induction n arbitrary: b s events)
  case 0
  then show ?case by simp
next
  case (Suc n)
  obtain r s1 where r: "recv A s = (r, s1)" by (cases "recv A s")
  consider (event) e where "r = Inr (Some e)" | (finished) "r = Inr None" | (failed) e where "r = Inl e"
    by (cases r) (auto split: option.splits elim: option.exhaust)
  then show ?case
  proof cases
    case event
    obtain es where es: "sdk_events A n s1 = (es, outcome, s')" and "events = e # es"
      using Suc.prems(3) r event by (auto simp: Let_def split: prod.splits)
    with Suc.IH [of "b\<lparr>er_slot := Some s1\<rparr>" s1 es] Suc.prems r event show ?thesis
      by (simp add: receiver_anext_def Let_def cong: option.case_cong)
  next
    case finished
    with Suc.prems r show ?thesis
      by (auto simp: receiver_anext_def last_answer_def finished_receiver_answers Let_def)
  next
    case failed
    with Suc.prems r show ?thesis
      by (auto simp: receiver_anext_def last_answer_def finished_receiver_answers Let_def)
  qed
qed

text \<open>A stream of events for examples: what its calls of \<open>recv\<close> give.\<close>

definition list_receiver :: "('a + 'b option) list \<Rightarrow> ('a + 'b option) \<times> ('a + 'b option) list" where
  "list_receiver outcomes = (case outcomes of [] \<Rightarrow> (Inr None, []) | r # rs \<Rightarrow> (r, rs))"

section \<open>Properties\<close>

text \<open>
  C36: iterating over a receiver gives the SDK's own events. \<open>n\<close> iterations give, in order, the
  first events of the SDK's sequence as dictionaries; where that sequence ends they raise
  \<open>StopAsyncIteration\<close>, where it fails the mapped exception once, and from then on
  \<open>StopAsyncIteration\<close>, the SDK's receiver having been dropped. Until then the receiver is exactly
  where the SDK's sequence is: no event is taken that was not given to the application.
\<close>

theorem receiver_refines_sdk:
  "receiver_answers E A event_to_py details code n (new_receiver s context) =
    (let (events, outcome, s') = sdk_events A n s
     in (map (\<lambda>e. Inr (event_to_py e)) events @
          (case outcome of
             None \<Rightarrow> []
           | Some err \<Rightarrow> Inl (last_answer E details code context err) #
               replicate (n - length events - 1) (Inl stop_async_iteration)),
         (new_receiver s context)\<lparr>er_slot := (if outcome = None then Some s' else None)\<rparr>))"
  by (cases "sdk_events A n s")
    (simp add: receiver_answers_open [where s = s] new_receiver_def cong: option.case_cong)

text \<open>
  A closed receiver is finished. Whether it was closed before or while an event was awaited,
  iteration raises \<open>StopAsyncIteration\<close> from then on, it cannot be entered again, and nothing
  further is asked of the SDK.
\<close>

lemma closed_receiver_is_finished:
  assumes "b' = close_receiver b \<or> (\<not> er_closed b \<and> receiver_anext E A event_to_py details code True b = (r, b'))"
  shows "receiver_answers E A event_to_py details code n b' = (replicate n (Inl stop_async_iteration), b')
    \<and> enter_receiver M b' = Inl (stream_closed M) \<and> er_slot b' = None"
proof -
  have "er_closed b' \<and> er_slot b' = None"
    using assms by (auto simp: receiver_anext_def close_receiver_def)
  then show ?thesis by (simp add: finished_receiver_answers enter_receiver_def)
qed

end
