(* ===== verification/Params.thy ===== *)
theory Params
  imports Convert
begin

text \<open>
  The dictionary of parameters between the two languages: how the methods of the generated Python
  clients (\<open>packages/rboto-*/python/rboto_*/client.py\<close>) build it from their typed arguments, and the
  rules by which each reader of \<open>Convert\<close> gets an argument back from it.
\<close>

section \<open>Parameters from Python\<close>

text \<open>
  The dictionary a Python method builds: the required parameters, then each optional one that is
  not \<open>None\<close>.
\<close>

definition py_params :: "(string \<times> pyval) list \<Rightarrow> (string \<times> pyval) list \<Rightarrow> pydict" where
  "py_params required optional = py_dict (required @ filter (\<lambda>(name, v). v \<noteq> PyNone) optional)"

definition argument :: "pydict \<Rightarrow> string \<Rightarrow> pyval" where
  "argument d k = (case map_of d (PyStr k) of None \<Rightarrow> PyNone | Some v \<Rightarrow> v)"

text \<open>What an application reads from a dictionary under a key.\<close>

fun entry :: "string \<Rightarrow> pyval \<Rightarrow> pyval" where
  "entry k (PyDict d) = argument d k"
| "entry k v = PyNone"

lemma map_of_filter_given:
  "distinct (map fst kvs) \<Longrightarrow>
   map_of (filter (\<lambda>(k, v). v \<noteq> PyNone) kvs) a =
     (case map_of kvs a of None \<Rightarrow> None | Some v \<Rightarrow> if v = PyNone then None else Some v)"
proof (induction kvs)
  case Nil
  then show ?case by simp
next
  case (Cons kv kvs)
  obtain k v where kv: "kv = (k, v)" by (cases kv)
  have "map_of kvs k = None" using Cons.prems kv by (simp add: map_of_eq_None_iff)
  then show ?case using Cons kv by auto
qed

lemma map_of_rev_distinct: "distinct (map fst kvs) \<Longrightarrow> map_of (rev kvs) a = map_of kvs a"
  by (simp add: distinct_map_of_rev)

lemma argument_py_params:
  assumes "distinct (map fst (required @ optional))"
  shows "argument (py_params required optional) k =
    (case map_of (required @ optional) k of None \<Rightarrow> PyNone | Some v \<Rightarrow> v)"
proof -
  let ?o = "filter (\<lambda>(name, v). v \<noteq> PyNone) optional"
  have d: "distinct (map fst (required @ ?o))"
    using assms by (auto simp: distinct_map_filter)
  have "map_of (py_params required optional) (PyStr k) = map_of (required @ ?o) k"
    unfolding py_params_def map_of_py_dict by (rule map_of_rev_distinct [OF d])
  moreover have "map_of ?o k =
      (case map_of optional k of None \<Rightarrow> None | Some v \<Rightarrow> if v = PyNone then None else Some v)"
    using assms by (intro map_of_filter_given) simp
  moreover have "map_of optional k = None" if "map_of required k = Some v" for v
    using assms that by (auto simp: map_of_eq_None_iff dest!: map_of_SomeD) (metis disjoint_iff fst_conv imageI)
  ultimately show ?thesis
    by (auto simp: argument_def map_add_def split: option.splits)
qed

lemma arguments:
  assumes "call = py_params required optional" and "distinct (map fst (required @ optional))"
  shows "list_all (\<lambda>(k, v). argument call k = v) (required @ optional)"
  unfolding list_all_iff assms(1)
  using assms(2) argument_py_params [OF assms(2)] by (auto simp del: map_of_append set_append)

lemma argument_given: "argument d k = v \<Longrightarrow> v \<noteq> PyNone \<Longrightarrow> map_of d (PyStr k) = Some v"
  by (auto simp: argument_def split: option.splits)

lemma str_keys_py_params [simp]: "str_keys (py_params required optional)"
  by (simp add: py_params_def)

section \<open>Timestamps\<close>

text \<open>A \<open>DateTime\<close>: seconds since the epoch and nanoseconds. The SDK reads and writes its text.\<close>

type_synonym datetime = "int \<times> nat"

record smithy_dates =
  parse_datetime :: "string \<Rightarrow> unit + datetime"
  show_datetime :: "datetime \<Rightarrow> string"

text \<open>\<open>DateTime::from_str(value.extract()?, Format::DateTime)\<close>, and \<open>to_string\<close>.\<close>

definition datetime_from_py :: "pyo3 \<Rightarrow> 'z smithy_dates_scheme \<Rightarrow> pyval \<Rightarrow> datetime pyresult" where
  "datetime_from_py P S value =
     and_then (extract_string P value)
       (\<lambda>timestamp. map_err (\<lambda>_. value_error ''invalid timestamp'') (parse_datetime S timestamp))"

definition datetime_to_py :: "'z smithy_dates_scheme \<Rightarrow> datetime \<Rightarrow> pyval" where
  "datetime_to_py S d = PyStr (show_datetime S d)"

text \<open>Timestamps the SDK reads back from its own text.\<close>

definition dates_ok :: "'z smithy_dates_scheme \<Rightarrow> datetime option list \<Rightarrow> bool" where
  "dates_ok S ds = list_all (\<lambda>d. case d of None \<Rightarrow> True | Some t \<Rightarrow> parse_datetime S (show_datetime S t) = Inr t) ds"

text \<open>For concrete SDKs: the number a text's digits stand for.\<close>

definition digits_value :: "string \<Rightarrow> nat" where
  "digits_value s = fold (\<lambda>c n. 10 * n + (byte_of c - 48)) s 0"

section \<open>Reading arguments and members back\<close>

text \<open>A converter reads a rendering when it gives back every value that was rendered, and no
  rendering looks absent.\<close>

definition reads :: "(pyval \<Rightarrow> 'a pyresult) \<Rightarrow> ('a \<Rightarrow> pyval) \<Rightarrow> bool" where
  "reads conv f \<longleftrightarrow> (\<forall>y. f y \<noteq> PyNone \<and> conv (f y) = Inr y)"

lemma readsI: "(\<And>y. f y \<noteq> PyNone) \<Longrightarrow> (\<And>y. conv (f y) = Inr y) \<Longrightarrow> reads conv f"
  by (simp add: reads_def)

lemma readsD: "reads conv f \<Longrightarrow> conv (f y) = Inr y"
  by (simp add: reads_def)

definition mapping_to_py ::
    "((string, pyval) fmap \<Rightarrow> (string \<times> pyval) list) \<Rightarrow> ('a \<Rightarrow> pyval) \<Rightarrow> (string, 'a) fmap \<Rightarrow> pyval" where
  "mapping_to_py order f m = map_to_py order (fmmap f m)"

context pyo3_laws
begin

lemma member_str:
  "str_keys d \<Longrightarrow> map_of d (PyStr k) = Some (PyStr s) \<Longrightarrow> member P d k x (string_from_py P) = Inr (Some s)"
  by (simp add: member_present string_roundtrip)

lemma member_opt_str:
  "str_keys d \<Longrightarrow> map_of d (PyStr k) = Some (opt_to_py PyStr v) \<Longrightarrow> member P d k x (string_from_py P) = Inr v"
  by (erule member_opt) (auto simp: string_roundtrip)

lemma member_datetime:
  "str_keys d \<Longrightarrow> map_of d (PyStr k) = Some (datetime_to_py S t) \<Longrightarrow>
   parse_datetime S (show_datetime S t) = Inr t \<Longrightarrow> member P d k x (datetime_from_py P S) = Inr (Some t)"
  by (simp add: member_present datetime_to_py_def datetime_from_py_def string_ok)

lemma member_opt_blob:
  "str_keys d \<Longrightarrow> map_of d (PyStr k) = Some (opt_to_py PyBytes v) \<Longrightarrow> member P d k x (blob_from_py P) = Inr v"
  by (erule member_opt) (auto simp: blob_roundtrip)

lemma reads_str: "reads (string_from_py P) PyStr"
  by (simp add: reads_def string_roundtrip)

lemma reads_enum: "reads (enum_from_py P) PyStr"
  by (simp add: reads_def enum_roundtrip)

lemma reads_blob: "reads (blob_from_py P) PyBytes"
  by (simp add: reads_def blob_roundtrip)

lemma reads_bool: "reads (bool_from_py P) PyBool"
  by (simp add: reads_def bool_roundtrip)

lemma reads_i32: "reads (i32_from_py P) i32_to_py"
  using i32_roundtrip by (simp add: reads_def) (simp add: i32_to_py_def)

lemma reads_i64: "reads (i64_from_py P) i64_to_py"
  using i64_roundtrip by (simp add: reads_def) (simp add: i64_to_py_def)

lemma reads_seq: "reads conv f \<Longrightarrow> reads (seq_from_py P x conv) (seq_to_py f)"
  by (intro readsI seq_roundtrip) (auto simp: seq_to_py_def reads_def)

lemma reads_map:
  "iterates order \<Longrightarrow> reads conv f \<Longrightarrow> reads (map_from_py P kx x conv) (mapping_to_py order f)"
  unfolding mapping_to_py_def by (intro readsI map_roundtrip) (auto simp: map_to_py_def reads_def)

lemma member_reads:
  "reads conv f \<Longrightarrow> str_keys d \<Longrightarrow> map_of d (PyStr k) = Some (opt_to_py f v) \<Longrightarrow> member P d k x conv = Inr v"
  by (erule (1) member_opt) (simp add: reads_def)

lemma member_reads_given:
  "reads conv f \<Longrightarrow> str_keys d \<Longrightarrow> map_of d (PyStr k) = Some (f y) \<Longrightarrow> member P d k x conv = Inr (Some y)"
  using member_req [of d k f y conv] by (auto simp: reads_def)

lemma op_param_argument:
  assumes "str_keys d" and "argument d k = opt_to_py f v"
    and "\<And>y. v = Some y \<Longrightarrow> f y \<noteq> PyNone \<and> conv (f y) = Inr y"
  shows "op_param P s op' d k x conv = Inr v"
  using assms by (cases v)
    (auto simp: argument_def op_param_absent op_param_present split: option.splits)

lemma string_param:
  "str_keys d \<Longrightarrow> argument d k = opt_to_py PyStr v \<Longrightarrow> op_param P s op' d k x (string_from_py P) = Inr v"
  by (rule op_param_argument) (auto simp: string_roundtrip)

lemma i32_not_none: "i32_to_py n \<noteq> PyNone"
  by (simp add: i32_to_py_def)

lemma i32_param:
  "str_keys d \<Longrightarrow> argument d k = opt_to_py i32_to_py v \<Longrightarrow> op_param P s op' d k x (i32_from_py P) = Inr v"
  by (rule op_param_argument) (auto simp: i32_roundtrip i32_not_none)

lemma param_reads:
  "reads conv f \<Longrightarrow> str_keys d \<Longrightarrow> argument d k = opt_to_py f v \<Longrightarrow> op_param P s op' d k x conv = Inr v"
  by (erule (1) op_param_argument) (simp add: reads_def)

lemma date_param:
  "dates_ok S ds \<Longrightarrow> v \<in> set ds \<Longrightarrow> str_keys d \<Longrightarrow> argument d k = opt_to_py (datetime_to_py S) v \<Longrightarrow>
   op_param P s op' d k x (datetime_from_py P S) = Inr v"
  by (erule (1) op_param_argument)
    (auto simp: dates_ok_def list_all_iff datetime_to_py_def datetime_from_py_def string_ok)

lemma seq_param:
  assumes "str_keys d" and "argument d k = opt_to_py (seq_to_py f) v" and "\<And>y. conv (f y) = Inr y"
  shows "op_param P s op' d k x (seq_from_py P z conv) = Inr v"
proof (rule op_param_argument [OF assms(1,2)])
  fix ys
  show "seq_to_py f ys \<noteq> PyNone \<and> seq_from_py P z conv (seq_to_py f ys) = Inr ys"
    by (intro conjI seq_roundtrip assms(3)) (simp add: seq_to_py_def)
qed

lemmas string_seq_param = seq_param [where f = PyStr and conv = "string_from_py P", OF _ _ string_roundtrip]

end

end
