(* ===== verification/Sagemaker.thy ===== *)
theory Sagemaker
  imports Receiver Params
begin

text \<open>
  The SageMaker Runtime HTTP/2 extension, \<open>crates/rboto-sagemaker-runtime-http2/src/generated.rs\<close>:
  its one operation sends an endpoint a stream of events the application produces and answers with
  a stream of events. Here are the events in both directions, the details of its modelled errors,
  the operation, and the Python method that calls it (\<open>rboto_sagemaker_runtime_http2/client.py\<close>).
\<close>

section \<open>Events\<close>

record request_payload_part =
  rqp_bytes :: "byte list option"
  rqp_data_type :: "string option"
  rqp_completion_state :: "string option"
  rqp_p :: "string option"

record response_payload_part =
  rsp_bytes :: "byte list option"
  rsp_data_type :: "string option"
  rsp_completion_state :: "string option"
  rsp_p :: "string option"

text \<open>The unions are open: an unknown variant is one this version of the SDK does not know.\<close>

datatype request_stream_event = RequestPayloadPart request_payload_part | RequestUnknown

datatype response_stream_event = ResponsePayloadPart response_payload_part | ResponseUnknown

text \<open>The SDK's builders, none of which can fail.\<close>

record sm_types =
  build_request_payload_part ::
    "byte list option \<Rightarrow> string option \<Rightarrow> string option \<Rightarrow> string option \<Rightarrow> request_payload_part"
  build_response_payload_part ::
    "byte list option \<Rightarrow> string option \<Rightarrow> string option \<Rightarrow> string option \<Rightarrow> response_payload_part"

definition request_payload_part_from_py :: "pyo3 \<Rightarrow> sm_types \<Rightarrow> pyval \<Rightarrow> request_payload_part pyresult" where
  "request_payload_part_from_py P S value =
     and_then (cast_dict P value) (\<lambda>values.
     and_then (member P values ''bytes'' ''bytes'' (blob_from_py P)) (\<lambda>bytes_value.
     and_then (member P values ''data_type'' ''str'' (string_from_py P)) (\<lambda>data_type_value.
     and_then (member P values ''completion_state'' ''str'' (string_from_py P)) (\<lambda>completion_state_value.
     and_then (member P values ''p'' ''str'' (string_from_py P)) (\<lambda>p_value.
     Inr (build_request_payload_part S bytes_value data_type_value completion_state_value p_value))))))"

definition request_payload_part_to_py :: "request_payload_part \<Rightarrow> pyval" where
  "request_payload_part_to_py v = PyDict (py_dict
     [(''bytes'', opt_to_py PyBytes (rqp_bytes v)),
      (''data_type'', opt_to_py PyStr (rqp_data_type v)),
      (''completion_state'', opt_to_py PyStr (rqp_completion_state v)),
      (''p'', opt_to_py PyStr (rqp_p v))])"

definition request_stream_event_from_py :: "pyo3 \<Rightarrow> sm_types \<Rightarrow> pyval \<Rightarrow> request_stream_event pyresult" where
  "request_stream_event_from_py P S =
     union_from_py P ''RequestStreamEvent''
       [(''payload_part'', ''dict (RequestPayloadPart)'',
         \<lambda>value. map_ok RequestPayloadPart (request_payload_part_from_py P S value))]"

definition request_stream_event_to_py :: "request_stream_event \<Rightarrow> pyval" where
  "request_stream_event_to_py v = PyDict (py_dict
     (case v of
        RequestPayloadPart value \<Rightarrow> [(''payload_part'', request_payload_part_to_py value)]
      | RequestUnknown \<Rightarrow> [(''unknown'', PyBool True)]))"

definition response_payload_part_from_py :: "pyo3 \<Rightarrow> sm_types \<Rightarrow> pyval \<Rightarrow> response_payload_part pyresult" where
  "response_payload_part_from_py P S value =
     and_then (cast_dict P value) (\<lambda>values.
     and_then (member P values ''bytes'' ''bytes'' (blob_from_py P)) (\<lambda>bytes_value.
     and_then (member P values ''data_type'' ''str'' (string_from_py P)) (\<lambda>data_type_value.
     and_then (member P values ''completion_state'' ''str'' (string_from_py P)) (\<lambda>completion_state_value.
     and_then (member P values ''p'' ''str'' (string_from_py P)) (\<lambda>p_value.
     Inr (build_response_payload_part S bytes_value data_type_value completion_state_value p_value))))))"

definition response_payload_part_to_py :: "response_payload_part \<Rightarrow> pyval" where
  "response_payload_part_to_py v = PyDict (py_dict
     [(''bytes'', opt_to_py PyBytes (rsp_bytes v)),
      (''data_type'', opt_to_py PyStr (rsp_data_type v)),
      (''completion_state'', opt_to_py PyStr (rsp_completion_state v)),
      (''p'', opt_to_py PyStr (rsp_p v))])"

definition response_stream_event_from_py :: "pyo3 \<Rightarrow> sm_types \<Rightarrow> pyval \<Rightarrow> response_stream_event pyresult" where
  "response_stream_event_from_py P S =
     union_from_py P ''ResponseStreamEvent''
       [(''payload_part'', ''dict (ResponsePayloadPart)'',
         \<lambda>value. map_ok ResponsePayloadPart (response_payload_part_from_py P S value))]"

definition response_stream_event_to_py :: "response_stream_event \<Rightarrow> pyval" where
  "response_stream_event_to_py v = PyDict (py_dict
     (case v of
        ResponsePayloadPart value \<Rightarrow> [(''payload_part'', response_payload_part_to_py value)]
      | ResponseUnknown \<Rightarrow> [(''unknown'', PyBool True)]))"

section \<open>Errors\<close>

text \<open>The members the details show of each modelled error.\<close>

record input_validation_error =
  ive_error_code :: "string option"

record internal_server_error =
  ise_error_code :: "string option"

record model_error =
  me_original_status_code :: "32 word option"
  me_original_message :: "string option"
  me_log_stream_arn :: "string option"
  me_error_code :: "string option"

record model_stream_error =
  mse_error_code :: "string option"

record service_unavailable_error =
  sue_error_code :: "string option"

definition input_validation_error_details :: "input_validation_error \<Rightarrow> pydict" where
  "input_validation_error_details value = details_of
     [(''error_code'', map_option PyStr (ive_error_code value))]"

definition internal_server_error_details :: "internal_server_error \<Rightarrow> pydict" where
  "internal_server_error_details value = details_of
     [(''error_code'', map_option PyStr (ise_error_code value))]"

definition model_error_details :: "model_error \<Rightarrow> pydict" where
  "model_error_details value = details_of
     [(''original_status_code'', map_option i32_to_py (me_original_status_code value)),
      (''original_message'', map_option PyStr (me_original_message value)),
      (''log_stream_arn'', map_option PyStr (me_log_stream_arn value)),
      (''error_code'', map_option PyStr (me_error_code value))]"

definition model_stream_error_details :: "model_stream_error \<Rightarrow> pydict" where
  "model_stream_error_details value = details_of
     [(''error_code'', map_option PyStr (mse_error_code value))]"

definition service_unavailable_error_details :: "service_unavailable_error \<Rightarrow> pydict" where
  "service_unavailable_error_details value = details_of
     [(''error_code'', map_option PyStr (sue_error_code value))]"

text \<open>The errors of the operation and of the two streams.\<close>

datatype invoke_error =
    InvokeInputValidationError input_validation_error
  | InvokeInternalServerError internal_server_error
  | InvokeInternalStreamFailure
  | InvokeModelError model_error
  | InvokeModelStreamError model_stream_error
  | InvokeServiceUnavailableError service_unavailable_error
  | InvokeUnhandled

datatype response_stream_event_error =
    EventModelStreamError model_stream_error
  | EventInternalStreamFailure
  | EventUnhandled

datatype request_stream_event_error = RequestUnhandled pyerr

definition invoke_error_details :: "invoke_error \<Rightarrow> pydict pyresult" where
  "invoke_error_details e = Inr (case e of
     InvokeInputValidationError value \<Rightarrow> input_validation_error_details value
   | InvokeInternalServerError value \<Rightarrow> internal_server_error_details value
   | InvokeModelError value \<Rightarrow> model_error_details value
   | InvokeModelStreamError value \<Rightarrow> model_stream_error_details value
   | InvokeServiceUnavailableError value \<Rightarrow> service_unavailable_error_details value
   | _ \<Rightarrow> [])"

definition response_stream_event_error_details :: "response_stream_event_error \<Rightarrow> pydict pyresult" where
  "response_stream_event_error_details e = Inr (case e of
     EventModelStreamError value \<Rightarrow> model_stream_error_details value
   | _ \<Rightarrow> [])"

text \<open>The code of an event error the wire named by its type only.\<close>

definition response_event_code :: "response_stream_event_error service_error \<Rightarrow> string option" where
  "response_event_code e = (case svc_shape e of
     EventModelStreamError value \<Rightarrow> Some ''ModelStreamError''
   | EventInternalStreamFailure \<Rightarrow> Some ''InternalStreamFailure''
   | EventUnhandled \<Rightarrow> None)"

section \<open>The operation\<close>

text \<open>\<open>__anext__\<close> of the receiver of this operation.\<close>

definition response_event_anext :: "('cfg, 'client) service_env \<Rightarrow>
    ('s, response_stream_event, response_stream_event_error, 'r) receiver_api \<Rightarrow> bool \<Rightarrow>
    's event_receiver \<Rightarrow> pyval pyresult \<times> 's event_receiver" where
  "response_event_anext E A =
     receiver_anext E A response_stream_event_to_py response_stream_event_error_details response_event_code"

text \<open>The body is the event stream the SDK polls while it sends.\<close>

record 'b invoke_input =
  inv_endpoint_name :: "string option"
  inv_body :: "'b iter_state stop_state option"
  inv_target_variant :: "string option"
  inv_model_invocation_path :: "string option"
  inv_model_query_string :: "string option"

definition request_body_poll :: "pyo3 \<Rightarrow> sm_types \<Rightarrow> 'b producer \<Rightarrow> 'b iter_state stop_state \<Rightarrow>
    (request_stream_event_error + request_stream_event) option poll \<times> 'b iter_state stop_state" where
  "request_body_poll P S Y = poll_event_stream Y (request_stream_event_from_py P S) RequestUnhandled"

definition invoke_params :: "pyo3 \<Rightarrow> (pyval \<Rightarrow> 'b pyresult) \<Rightarrow> pydict \<Rightarrow> 'b invoke_input pyresult" where
  "invoke_params P aiter params =
     (let service = ''sagemaker-runtime-http2''; operation = ''InvokeEndpointWithBidirectionalStream'' in
     and_then (op_param P service operation params ''endpoint_name'' ''str'' (string_from_py P)) (\<lambda>endpoint_name.
     and_then (op_param P service operation params ''body'' ''async iterator'' (python_event_stream aiter)) (\<lambda>body.
     and_then (op_param P service operation params ''target_variant'' ''str'' (string_from_py P)) (\<lambda>target_variant.
     and_then (op_param P service operation params ''model_invocation_path'' ''str'' (string_from_py P)) (\<lambda>model_invocation_path.
     and_then (op_param P service operation params ''model_query_string'' ''str'' (string_from_py P)) (\<lambda>model_query_string.
     Inr \<lparr>inv_endpoint_name = endpoint_name, inv_body = body, inv_target_variant = target_variant,
       inv_model_invocation_path = model_invocation_path, inv_model_query_string = model_query_string\<rparr>))))))"

text \<open>The SDK's output, and the two entries of the dictionary the caller gets.\<close>

record 's invoke_output =
  io_body :: 's
  io_invoked_production_variant :: "string option"

record 's invoke_response =
  ir_body :: "'s event_receiver"
  ir_invoked_production_variant :: pyval

definition invoke_output_to_py :: "stream_error_context \<Rightarrow> 's invoke_output \<Rightarrow> 's invoke_response" where
  "invoke_output_to_py context output =
     \<lparr>ir_body = new_receiver (io_body output) context,
      ir_invoked_production_variant = opt_to_py PyStr (io_invoked_production_variant output)\<rparr>"

definition invoke_endpoint :: "('cfg, 'client) service_env \<Rightarrow> pyo3 \<Rightarrow> (pyval \<Rightarrow> 'b pyresult) \<Rightarrow>
    unit pyresult \<Rightarrow> bool \<Rightarrow>
    ('client \<Rightarrow> 'b invoke_input \<Rightarrow> trip list \<times> ((invoke_error, http_response) sdk_error + 's invoke_output)) \<Rightarrow>
    'client client_handle \<Rightarrow> pydict \<Rightarrow> pydict option \<Rightarrow>
    ('s invoke_response pyresult \<times> 'client client_handle \<times> pydict option) option" where
  "invoke_endpoint E P aiter bridge interrupted send c params observation =
     (let operation = ''InvokeEndpointWithBidirectionalStream''
      in execute E bridge interrupted
           (with_context operation (observation \<noteq> None) invoke_output_to_py send)
           invoke_error_details operation (invoke_params P aiter params) c observation)"

text \<open>The Python method: the body is the application's iterable.\<close>

definition invoke_call :: "string \<Rightarrow> pyval \<Rightarrow> string option \<Rightarrow> string option \<Rightarrow> string option \<Rightarrow> pydict" where
  "invoke_call endpoint_name body target_variant model_invocation_path model_query_string =
     py_params
       [(''endpoint_name'', PyStr endpoint_name), (''body'', body)]
       [(''target_variant'', opt_to_py PyStr target_variant),
        (''model_invocation_path'', opt_to_py PyStr model_invocation_path),
        (''model_query_string'', opt_to_py PyStr model_query_string)]"

section \<open>Round trips of events\<close>

locale sm_types_laws =
  fixes S :: sm_types
  assumes request_built: "build_request_payload_part S b d c p =
      \<lparr>rqp_bytes = b, rqp_data_type = d, rqp_completion_state = c, rqp_p = p\<rparr>"
    and response_built: "build_response_payload_part S b d c p =
      \<lparr>rsp_bytes = b, rsp_data_type = d, rsp_completion_state = c, rsp_p = p\<rparr>"

definition sm_std :: sm_types where
  "sm_std =
     \<lparr>build_request_payload_part =
        (\<lambda>b d c p. \<lparr>rqp_bytes = b, rqp_data_type = d, rqp_completion_state = c, rqp_p = p\<rparr>),
      build_response_payload_part =
        (\<lambda>b d c p. \<lparr>rsp_bytes = b, rsp_data_type = d, rsp_completion_state = c, rsp_p = p\<rparr>)\<rparr>"

interpretation std_sm: sm_types_laws sm_std
  by unfold_locales (simp_all add: sm_std_def)

locale sm_conversions = pyo3_laws P + sm_types_laws S for P S
begin

lemma request_part_roundtrip: "request_payload_part_from_py P S (request_payload_part_to_py v) = Inr v"
  by (cases v) (simp add: request_payload_part_from_py_def request_payload_part_to_py_def dict_ok
      py_dict_distinct member_opt_str member_opt_blob request_built)

lemma response_part_roundtrip: "response_payload_part_from_py P S (response_payload_part_to_py v) = Inr v"
  by (cases v) (simp add: response_payload_part_from_py_def response_payload_part_to_py_def dict_ok
      py_dict_distinct member_opt_str member_opt_blob response_built)

lemma request_event_roundtrip:
  "request_stream_event_from_py P S (request_stream_event_to_py (RequestPayloadPart v)) = Inr (RequestPayloadPart v)"
  using request_part_roundtrip [of v]
  by (simp add: request_stream_event_from_py_def request_stream_event_to_py_def union_from_py_def
      dict_ok dict_value_eq request_payload_part_to_py_def)

lemma response_event_roundtrip:
  "response_stream_event_from_py P S (response_stream_event_to_py (ResponsePayloadPart v)) = Inr (ResponsePayloadPart v)"
  using response_part_roundtrip [of v]
  by (simp add: response_stream_event_from_py_def response_stream_event_to_py_def union_from_py_def
      dict_ok dict_value_eq response_payload_part_to_py_def)

lemma event_never_unknown:
  "request_stream_event_from_py P S v \<noteq> Inr RequestUnknown"
  "response_stream_event_from_py P S v \<noteq> Inr ResponseUnknown"
  by (auto simp: request_stream_event_from_py_def response_stream_event_from_py_def elim!: union_from)

end

text \<open>
  C35: what the application gives is what the endpoint is sent. While the SDK polls the body of an
  invocation it gets, in order, the typed events the application's iterable yields as dictionaries
  (\<open>parts\<close>). What is given next ends the request: a value that is no event and an exception of the
  iterable are delivered once, as the unhandled error with the exception in it; the end is the end. From
  then on every poll finds the end, whatever the iterable would still give (the rest of \<open>later\<close>), and the
  iterable is not asked again: it is left as its \<open>j\<close> polls up to that answer left it.
\<close>

theorem request_events_reach_sdk:
  assumes "pyo3_laws P" and "sm_types_laws S" and "python_event_stream aiter body = Inr st"
    and "readies (fst (polls (poll_iterator Y) n (sp_input st))) =
      map (\<lambda>p. Some (Inr (request_stream_event_to_py (RequestPayloadPart p)))) parts @ later"
    and "\<And>v rest. later = Some (Inr v) # rest \<Longrightarrow> \<exists>e. request_stream_event_from_py P S v = Inl e"
  shows "\<exists>j \<le> n. sp_input (snd (polls (request_body_poll P S Y) n st)) = snd (polls (poll_iterator Y) j (sp_input st))
    \<and> readies (fst (polls (poll_iterator Y) j (sp_input st))) =
      map (\<lambda>p. Some (Inr (request_stream_event_to_py (RequestPayloadPart p)))) parts @ take 1 later
    \<and> readies (fst (polls (request_body_poll P S Y) n st)) =
      map (\<lambda>p. Some (Inr (RequestPayloadPart p))) parts
        @ (case later of
             [] \<Rightarrow> []
           | None # _ \<Rightarrow> None # replicate (n - j) None
           | Some (Inl e) # _ \<Rightarrow> Some (Inl (RequestUnhandled e)) # replicate (n - j) None
           | Some (Inr v) # _ \<Rightarrow>
               (case request_stream_event_from_py P S v of
                  Inl e \<Rightarrow> Some (Inl (RequestUnhandled e)) # replicate (n - j) None
                | Inr _ \<Rightarrow> []))"
proof -
  note conv = sm_conversions.intro [OF assms(1,2)]
  let ?conv = "request_stream_event_from_py P S"
  let ?vs = "map (\<lambda>p. request_stream_event_to_py (RequestPayloadPart p)) parts"
  have given: "readies (fst (polls (poll_iterator Y) n (sp_input st))) = map (\<lambda>v. Some (Inr v)) ?vs @ later"
    using assms(4) by (simp add: comp_def)
  have good: "\<forall>v \<in> set ?vs. \<exists>x. ?conv v = Inr x"
    by (auto simp: sm_conversions.request_event_roundtrip [OF conv])
  have bad: "\<forall>v rest. later = Some (Inr v) # rest \<longrightarrow> (\<exists>e. ?conv v = Inl e)" using assms(5) by blast
  have open': "\<not> sp_failed st" "\<not> sp_fused st"
    using assms(3) by (auto simp: python_event_stream_def stop_after_error_def)
  from converted_then_stopped [where conv = ?conv and map_error = RequestUnhandled,
      OF given good bad open'] obtain j where
    "j \<le> n" "sp_input (snd (polls (request_body_poll P S Y) n st)) = snd (polls (poll_iterator Y) j (sp_input st))"
    "readies (fst (polls (poll_iterator Y) j (sp_input st))) = map (\<lambda>v. Some (Inr v)) ?vs @ take 1 later"
    "readies (fst (polls (request_body_poll P S Y) n st)) = map (\<lambda>v. Some (map_err RequestUnhandled (?conv v))) ?vs
      @ (case later of [] \<Rightarrow> [] | a # _ \<Rightarrow> map_option (convert_event ?conv RequestUnhandled) a # replicate (n - j) None)"
    unfolding request_body_poll_def [symmetric] by (elim exE conjE) (rule that)
  with bad show ?thesis
    by (intro exI [of _ j]) (auto simp: comp_def sm_conversions.request_event_roundtrip [OF conv] convert_event_def
        split: list.split option.split sum.split)
qed

definition example_part :: request_payload_part where
  "example_part = \<lparr>rqp_bytes = Some [104, 105], rqp_data_type = None, rqp_completion_state = Some ''COMPLETE'', rqp_p = None\<rparr>"

text \<open>The application yields an event, then something else, and would yield events again.\<close>

theorem request_events_reach_sdk_witness:
  "\<exists>st e. python_event_stream (\<lambda>v. Inr [Ready (Inr (request_stream_event_to_py (RequestPayloadPart example_part))),
        Pending, Ready (Inr (PyInt 3)), Ready (Inr (request_stream_event_to_py (RequestPayloadPart example_part)))])
        (PyObject ''events'' 1) = Inr st
    \<and> readies (fst (polls (request_body_poll pyo3_std sm_std list_producer) 5 st)) =
        [Some (Inr (RequestPayloadPart example_part)), Some (Inl (RequestUnhandled e)), None, None]"
proof -
  let ?event = "request_stream_event_to_py (RequestPayloadPart example_part)"
  let ?events = "[Ready (Inr ?event), Pending, Ready (Inr (PyInt 3)), Ready (Inr ?event)]"
  let ?st = "stop_after_error (python_async_iterator ?events)"
  have st: "python_event_stream (\<lambda>v. Inr ?events) (PyObject ''events'' 1) = Inr ?st"
    by (simp add: python_event_stream_def)
  have given: "readies (fst (polls (poll_iterator list_producer) 5 (sp_input ?st))) =
      map (\<lambda>p. Some (Inr (request_stream_event_to_py (RequestPayloadPart p)))) [example_part]
      @ [Some (Inr (PyInt 3)), Some (Inr ?event), None]"
    by (simp add: numeral_eq_Suc stop_after_error_def poll_iterator_def await_poll_def finish_poll_def
        list_producer_def python_async_iterator_def stop_async_iteration_def is_instance_def)
  have bad: "\<exists>e. request_stream_event_from_py pyo3_std sm_std (PyInt 3) = Inl e"
    by (simp add: request_stream_event_from_py_def union_from_py_def pyo3_std_def)
  then obtain e where e: "request_stream_event_from_py pyo3_std sm_std (PyInt 3) = Inl e" by blast
  from request_events_reach_sdk [OF std.pyo3_laws_axioms std_sm.sm_types_laws_axioms st given] bad obtain j where
    "j \<le> 5" and j: "readies (fst (polls (poll_iterator list_producer) j (sp_input ?st))) = [Some (Inr ?event), Some (Inr (PyInt 3))]"
    and sent: "readies (fst (polls (request_body_poll pyo3_std sm_std list_producer) 5 ?st)) =
      Some (Inr (RequestPayloadPart example_part)) # Some (Inl (RequestUnhandled e)) # replicate (5 - j) None"
    by (auto simp: e)
  from \<open>j \<le> 5\<close> have "j \<in> {0, 1, 2, 3, 4, 5}" by auto
  with j have "j = 3"
    by (auto simp: numeral_eq_Suc stop_after_error_def poll_iterator_def await_poll_def finish_poll_def
        list_producer_def python_async_iterator_def stop_async_iteration_def is_instance_def)
  with sent st show ?thesis by (intro exI [of _ ?st] exI [of _ e]) (simp add: numeral_eq_Suc)
qed

section \<open>Failures of the response stream\<close>

text \<open>
  A failure the endpoint's stream models is raised as its own class. When the SDK's sequence
  fails with a service error after some events, iteration gives those events and then raises the
  class the error's code names (for an error without a code, its type on the wire:
  \<open>ModelStreamError\<close> or \<open>InternalStreamFailure\<close>), with that code, the request id of the operation,
  and the modelled members of the error as details; after it the iteration is over.
\<close>

lemma endpoint_stream_failure:
  assumes "rboto_modules (se_modules E)" and "client_classes (se_modules E) (se_exceptions E)"
    and "safe_opt (md_request_id (ctx_metadata context))"
    and "sdk_events A n s = (events, Some (Some (ServiceError e r)), s')"
  shows "\<exists>exc a. fst (receiver_answers E A response_stream_event_to_py response_stream_event_error_details
        response_event_code n (new_receiver s context)) =
      map (\<lambda>e. Inr (response_stream_event_to_py e)) events @ Inl exc #
        replicate (n - length events - 1) (Inl stop_async_iteration)
    \<and> (let code = unwrap_or ''UnknownError'' (or_opt (svc_code e) (response_event_code e))
       in err_class exc = fst (service_class (se_modules E) (se_exceptions E) (se_base E) code)
        \<and> err_attrs exc = Some a \<and> ce_error_code a = code)
    \<and> ce_details a = (case svc_shape e of
          EventModelStreamError v \<Rightarrow> (case mse_error_code v of None \<Rightarrow> [] | Some c \<Rightarrow> [(PyStr ''error_code'', PyStr c)])
        | _ \<Rightarrow> [])
    \<and> (\<forall>i. md_request_id (ctx_metadata context) = Some i \<longrightarrow> ce_request_id a = PyStr i)"
proof -
  let ?M = "se_modules E" and ?rid = "md_request_id (ctx_metadata context)"
  let ?code = "unwrap_or ''UnknownError'' (or_opt (svc_code e) (response_event_code e))"
  let ?id = "or_opt ?rid (Option.bind (svc_extra_request_id e) safe_id)"
  define exc where "exc = service_error_with_code E response_stream_event_error_details (ServiceError e r)
      context (response_event_code e)"
  obtain d where d: "response_stream_event_error_details (svc_shape e) = Inr d"
    by (simp add: response_stream_event_error_details_def)
  have dd: "d = (case svc_shape e of
          EventModelStreamError v \<Rightarrow> (case mse_error_code v of None \<Rightarrow> [] | Some c \<Rightarrow> [(PyStr ''error_code'', PyStr c)])
        | _ \<Rightarrow> [])"
    using d by (auto simp: response_stream_event_error_details_def model_stream_error_details_def
        details_of_def split: response_stream_event_error.splits option.splits)
  have safe: "safe_opt ?id" using assms(3) by (intro safe_opt_or safe_opt_bind)
  let ?init = "client_error_init (service_class ?M (se_exceptions E) (se_base E) ?code)
      (unwrap_or ''Service returned an error'' (svc_message e)) ?code (opt_py PyStr ?id) (ctx_op context)
      (metadata_to_py (ctx_metadata context))"
  have exc: "exc = set_details d ?init"
    by (simp add: exc_def service_error_with_code_def sdk_error_to_py_def with_modeled_details_def d Let_def
        rboto_modules.raise_service [OF assms(1) service_class_client [OF assms(2)]])
  have cls: "err_class exc = fst (service_class ?M (se_exceptions E) (se_base E) ?code)"
    by (simp add: exc set_details_def client_error_init_def new_err_def Let_def)
  from client_error_attrs [OF safe] obtain a where a: "err_attrs exc = Some a" "ce_error_code a = ?code"
    "ce_details a = d" "ce_request_id a = opt_py PyStr (or_opt ?id ?rid)"
    by (auto simp: exc set_details_def client_error_init_def new_err_def Let_def)
  have "fst (receiver_answers E A response_stream_event_to_py response_stream_event_error_details
        response_event_code n (new_receiver s context)) =
      map (\<lambda>e. Inr (response_stream_event_to_py e)) events @ Inl exc #
        replicate (n - length events - 1) (Inl stop_async_iteration)"
    by (simp add: receiver_answers_open [OF _ _ assms(4)] new_receiver_def last_answer_def exc_def)
  with cls a dd show ?thesis
    by (intro exI [of _ exc] exI [of _ a]) (auto simp: Let_def or_opt_def opt_py_def)
qed

definition sm_modules :: py_modules where
  "sm_modules = std_modules
     [(''rboto_sagemaker_runtime_http2.exceptions'',
       [(''SageMakerRuntimeHTTP2Error'', [''ServiceError'', ''ClientError'', ''RbotoError'']),
        (''ModelStreamError'', [''SageMakerRuntimeHTTP2Error'', ''ServiceError'', ''ClientError'', ''RbotoError''])])]"

definition sm_env :: "(nat, nat) service_env" where
  "sm_env =
     \<lparr>se_modules = sm_modules, se_exceptions = ''rboto_sagemaker_runtime_http2.exceptions'',
      se_base = ''SageMakerRuntimeHTTP2Error'', se_load = (\<lambda>options region profile. Some (Inr 1)),
      se_client = (\<lambda>shared endpoint. 5), se_region = (\<lambda>client. None)\<rparr>"

definition model_failure :: "response_stream_event_error service_error" where
  "model_failure = \<lparr>svc_code = None, svc_message = Some ''out of memory'', svc_extra_request_id = None,
     svc_shape = EventModelStreamError \<lparr>mse_error_code = Some ''OOM''\<rparr>\<rparr>"

section \<open>The operation end to end\<close>

text \<open>
  An invocation delivers its arguments and hands back a live stream. On an open client, what
  the Python method puts together reaches \<open>send\<close> unchanged, its body as a stream of which nothing
  has been polled; a response becomes a receiver that is open, at the start of the SDK's stream,
  and reports later failures under the operation's name with the metadata of these attempts; a
  failure becomes the mapped exception with the details of the modelled error.
\<close>

lemma invoke_endpoint_end_to_end:
  assumes "pyo3_laws P"
    and "body \<noteq> PyNone" and "aiter body = Inr b"
    and "\<not> ch_closed c" and "get_client E (ch_state c) = Some (Inr client, st)"
    and "send client \<lparr>inv_endpoint_name = Some name, inv_body = Some (stop_after_error (python_async_iterator b)),
        inv_target_variant = variant, inv_model_invocation_path = path, inv_model_query_string = query\<rparr> = (attempts, result)"
    and "observer = run_operation (observation \<noteq> None) attempts"
  shows "invoke_endpoint E P aiter (Inr ()) False send c (invoke_call name body variant path query) observation =
    Some (case result of
            Inl error \<Rightarrow> Inl (service_error_to_py E invoke_error_details error
              ''InvokeEndpointWithBidirectionalStream'' (response_metadata observer))
          | Inr output \<Rightarrow> Inr \<lparr>ir_body = \<lparr>er_closed = False, er_slot = Some (io_body output),
                er_context = \<lparr>ctx_op = ''InvokeEndpointWithBidirectionalStream'', ctx_metadata = response_metadata observer\<rparr>\<rparr>,
              ir_invoked_production_variant = opt_to_py PyStr (io_invoked_production_variant output)\<rparr>,
          c\<lparr>ch_state := st\<rparr>,
          map_option (publish observer (se_region E client)) observation)
    \<and> cs_client st = Some client"
proof -
  let ?d = "invoke_call name body variant path query"
  let ?i = "\<lparr>inv_endpoint_name = Some name, inv_body = Some (stop_after_error (python_async_iterator b)),
        inv_target_variant = variant, inv_model_invocation_path = path, inv_model_query_string = query\<rparr>"
  let ?op = "''InvokeEndpointWithBidirectionalStream''"
  have s: "str_keys ?d" by (simp add: invoke_call_def)
  have a: "argument ?d ''endpoint_name'' = opt_to_py PyStr (Some name)"
    "argument ?d ''body'' = opt_to_py (\<lambda>_. body) (Some (stop_after_error (python_async_iterator b)))"
    "argument ?d ''target_variant'' = opt_to_py PyStr variant"
    "argument ?d ''model_invocation_path'' = opt_to_py PyStr path"
    "argument ?d ''model_query_string'' = opt_to_py PyStr query"
    unfolding invoke_call_def by (simp_all add: argument_py_params)
  have "op_param P service operation ?d ''body'' x (python_event_stream aiter) =
      Inr (Some (stop_after_error (python_async_iterator b)))" for service operation x
    by (rule pyo3_laws.op_param_argument [OF assms(1) s a(2)])
      (use assms(2,3) in \<open>auto simp: python_event_stream_def\<close>)
  then have params: "invoke_params P aiter ?d = Inr ?i"
    by (simp add: invoke_params_def Let_def pyo3_laws.string_param [OF assms(1) s a(1)]
        pyo3_laws.string_param [OF assms(1) s a(3)] pyo3_laws.string_param [OF assms(1) s a(4)]
        pyo3_laws.string_param [OF assms(1) s a(5)])
  have send: "with_context ?op (observation \<noteq> None) invoke_output_to_py send client ?i =
      (attempts, map_ok (invoke_output_to_py \<lparr>ctx_op = ?op, ctx_metadata = response_metadata observer\<rparr>) result)"
    by (simp add: with_context_def assms(6,7))
  show ?thesis
    using execute_open [where send = "with_context ?op (observation \<noteq> None) invoke_output_to_py send",
        OF assms(4,5) send, of invoke_error_details ?op observation] get_client_stays [OF assms(5)]
    by (cases result) (simp_all add: invoke_endpoint_def params Let_def assms(7) invoke_output_to_py_def new_receiver_def)
qed

end
