(* ===== verification/Bodies.thy ===== *)
theory Bodies
  imports Service Params
begin

text \<open>
  Request bodies as parameters: an operation with a \<open>content_length\<close> reads it once more as the hint
  of its body's length (\<open>content_length_hint\<close> in \<open>crates/rboto-s3/src/generated.rs\<close>), before the
  body becomes a stream.
\<close>

text \<open>What a body argument stands for: nothing, bytes, or an asynchronous iterable of chunks.\<close>

definition body_given :: "pyo3 \<Rightarrow> (pyval \<Rightarrow> bool pyresult) \<Rightarrow> (pyval \<Rightarrow> 'b pyresult) \<Rightarrow> 64 word option \<Rightarrow>
    pyval \<Rightarrow> 'b byte_stream option \<Rightarrow> bool" where
  "body_given P has_aiter aiter hint body b \<longleftrightarrow>
     (case b of
        None \<Rightarrow> body = PyNone
      | Some stream \<Rightarrow> body \<noteq> PyNone \<and> python_byte_stream P has_aiter aiter body hint True = Inr stream)"

definition natural_length :: "64 word option \<Rightarrow> bool" where
  "natural_length n \<longleftrightarrow> (case n of None \<Rightarrow> True | Some m \<Rightarrow> 0 \<le> sint m)"

context pyo3_laws
begin

lemma body_param:
  assumes "str_keys d" and "argument d k = body" and "body_given P has_aiter aiter hint body b"
  shows "op_param P s op' d k x (\<lambda>value. python_byte_stream P has_aiter aiter value hint True) = Inr b"
  by (rule op_param_argument [where f = "\<lambda>_. body"])
    (use assms in \<open>auto simp: body_given_def split: option.splits\<close>)

lemma length_hint:
  assumes "str_keys d" and "argument d k = opt_to_py i64_to_py n" and "natural_length n"
  shows "op_param P s op' d k x (extract_u64 P) = Inr n"
proof (rule op_param_argument [OF assms(1,2)])
  fix m assume "n = Some m"
  then have "0 \<le> sint m" using assms(3) by (simp add: natural_length_def)
  moreover have "sint m < 2 ^ 64" using sint_lt [of m] by simp
  ultimately show "i64_to_py m \<noteq> PyNone \<and> extract_u64 P (i64_to_py m) = Inr m"
    by (simp add: i64_to_py_def u64_ok)
qed

end

end
