(* ===== verification/PollyTypes.thy ===== *)
theory PollyTypes
  imports Bodies
begin

text \<open>
  The structures of the Polly extension, from \<open>crates/rboto-polly/src/generated.rs\<close>: the converters
  between Python dictionaries and the SDK's structures, which are records with the members the code
  reads and sets. An enum of the SDK is its text, and \<open>order\<close> is the order in which the iterator of
  a \<open>HashMap\<close> yields its entries. The builders belong to the SDK and are the record \<open>polly_types\<close>.
\<close>

section \<open>Structures\<close>

record audio_event =
  pae_audio_chunk :: "byte list option"

datatype close_stream_event = CloseStreamEvent

record flush_stream_configuration =
  pfsc_force :: bool

record lexicon =
  pl_content :: "string option"
  pl_name :: "string option"

record lexicon_attributes =
  pla_alphabet :: "string option"
  pla_language_code :: "string option"
  pla_last_modified :: "datetime option"
  pla_lexicon_arn :: "string option"
  pla_lexemes_count :: "32 word"
  pla_size :: "32 word"

record lexicon_description =
  pld_name :: "string option"
  pld_attributes :: "lexicon_attributes option"

record text_event =
  pte_text :: string
  pte_text_type :: "string option"
  pte_flush_stream_configuration :: "flush_stream_configuration option"

datatype start_speech_synthesis_stream_action_stream =
    ActionTextEvent text_event
  | ActionCloseStreamEvent close_stream_event
  | ActionUnknown

record stream_closed_event =
  psce_request_characters :: "32 word"

datatype start_speech_synthesis_stream_event_stream =
    EventAudioEvent audio_event
  | EventStreamClosedEvent stream_closed_event
  | EventUnknown

record synthesis_task =
  pst_engine :: "string option"
  pst_task_id :: "string option"
  pst_task_status :: "string option"
  pst_task_status_reason :: "string option"
  pst_output_uri :: "string option"
  pst_creation_time :: "datetime option"
  pst_request_characters :: "32 word"
  pst_sns_topic_arn :: "string option"
  pst_lexicon_names :: "string list option"
  pst_output_format :: "string option"
  pst_sample_rate :: "string option"
  pst_speech_mark_types :: "string list option"
  pst_text_type :: "string option"
  pst_voice_id :: "string option"
  pst_language_code :: "string option"

record throttling_reason =
  ptr_reason :: "string option"
  ptr_resource :: "string option"

record validation_exception_field =
  pvef_name :: string
  pvef_message :: string

record voice =
  pv_gender :: "string option"
  pv_id :: "string option"
  pv_language_code :: "string option"
  pv_language_name :: "string option"
  pv_name :: "string option"
  pv_additional_language_codes :: "string list option"
  pv_supported_engines :: "string list option"

record polly_types = smithy_dates +
  build_audio_event :: "byte list option \<Rightarrow> audio_event"
  build_close_stream_event :: close_stream_event
  build_flush_stream_configuration :: "bool option \<Rightarrow> flush_stream_configuration"
  build_lexicon :: "string option \<Rightarrow> string option \<Rightarrow> lexicon"
  build_lexicon_attributes :: "string option \<Rightarrow> string option \<Rightarrow> datetime option \<Rightarrow> string option \<Rightarrow> 32 word option \<Rightarrow> 32 word option \<Rightarrow> lexicon_attributes"
  build_lexicon_description :: "string option \<Rightarrow> lexicon_attributes option \<Rightarrow> lexicon_description"
  build_text_event :: "string option \<Rightarrow> string option \<Rightarrow> flush_stream_configuration option \<Rightarrow> unit + text_event"
  build_stream_closed_event :: "32 word option \<Rightarrow> stream_closed_event"
  build_synthesis_task :: "string option \<Rightarrow> string option \<Rightarrow> string option \<Rightarrow> string option \<Rightarrow> string option \<Rightarrow> datetime option \<Rightarrow> 32 word option \<Rightarrow> string option \<Rightarrow> string list option \<Rightarrow> string option \<Rightarrow> string option \<Rightarrow> string list option \<Rightarrow> string option \<Rightarrow> string option \<Rightarrow> string option \<Rightarrow> synthesis_task"
  build_throttling_reason :: "string option \<Rightarrow> string option \<Rightarrow> throttling_reason"
  build_validation_exception_field :: "string option \<Rightarrow> string option \<Rightarrow> unit + validation_exception_field"
  build_voice :: "string option \<Rightarrow> string option \<Rightarrow> string option \<Rightarrow> string option \<Rightarrow> string option \<Rightarrow> string list option \<Rightarrow> string list option \<Rightarrow> voice"

section \<open>Converters\<close>

definition audio_event_from_py :: "pyo3 \<Rightarrow> polly_types \<Rightarrow> pyval \<Rightarrow> audio_event pyresult" where
  "audio_event_from_py P S value =
     and_then (cast_dict P value) (\<lambda>values.
     and_then (member P values ''audio_chunk'' ''bytes'' (blob_from_py P)) (\<lambda>audio_chunk_value.
     Inr (build_audio_event S audio_chunk_value)))"

definition audio_event_to_py :: "audio_event \<Rightarrow> pyval" where
  "audio_event_to_py v = PyDict (py_dict
     [(''audio_chunk'', opt_to_py PyBytes (pae_audio_chunk v))])"

definition close_stream_event_from_py :: "pyo3 \<Rightarrow> polly_types \<Rightarrow> pyval \<Rightarrow> close_stream_event pyresult" where
  "close_stream_event_from_py P S value =
     and_then (cast_dict P value) (\<lambda>_.
     Inr (build_close_stream_event S))"

definition close_stream_event_to_py :: "close_stream_event \<Rightarrow> pyval" where
  "close_stream_event_to_py v = PyDict (py_dict [])"

definition flush_stream_configuration_from_py :: "pyo3 \<Rightarrow> polly_types \<Rightarrow> pyval \<Rightarrow> flush_stream_configuration pyresult" where
  "flush_stream_configuration_from_py P S value =
     and_then (cast_dict P value) (\<lambda>values.
     and_then (member P values ''force'' ''bool'' (bool_from_py P)) (\<lambda>force_value.
     Inr (build_flush_stream_configuration S force_value)))"

definition flush_stream_configuration_to_py :: "flush_stream_configuration \<Rightarrow> pyval" where
  "flush_stream_configuration_to_py v = PyDict (py_dict
     [(''force'', PyBool (pfsc_force v))])"

definition lexicon_from_py :: "pyo3 \<Rightarrow> polly_types \<Rightarrow> pyval \<Rightarrow> lexicon pyresult" where
  "lexicon_from_py P S value =
     and_then (cast_dict P value) (\<lambda>values.
     and_then (member P values ''content'' ''str'' (string_from_py P)) (\<lambda>content_value.
     and_then (member P values ''name'' ''str'' (string_from_py P)) (\<lambda>name_value.
     Inr (build_lexicon S content_value name_value))))"

definition lexicon_to_py :: "lexicon \<Rightarrow> pyval" where
  "lexicon_to_py v = PyDict (py_dict
     [(''content'', opt_to_py PyStr (pl_content v)),
      (''name'', opt_to_py PyStr (pl_name v))])"

definition lexicon_attributes_from_py :: "pyo3 \<Rightarrow> polly_types \<Rightarrow> pyval \<Rightarrow> lexicon_attributes pyresult" where
  "lexicon_attributes_from_py P S value =
     and_then (cast_dict P value) (\<lambda>values.
     and_then (member P values ''alphabet'' ''str'' (string_from_py P)) (\<lambda>alphabet_value.
     and_then (member P values ''language_code'' ''str (LanguageCode)'' (enum_from_py P)) (\<lambda>language_code_value.
     and_then (member P values ''last_modified'' ''ISO 8601 timestamp string'' (datetime_from_py P S)) (\<lambda>last_modified_value.
     and_then (member P values ''lexicon_arn'' ''str'' (string_from_py P)) (\<lambda>lexicon_arn_value.
     and_then (member P values ''lexemes_count'' ''int'' (i32_from_py P)) (\<lambda>lexemes_count_value.
     and_then (member P values ''size'' ''int'' (i32_from_py P)) (\<lambda>size_value.
     Inr (build_lexicon_attributes S alphabet_value language_code_value last_modified_value lexicon_arn_value lexemes_count_value size_value))))))))"

definition lexicon_attributes_to_py :: "polly_types \<Rightarrow> lexicon_attributes \<Rightarrow> pyval" where
  "lexicon_attributes_to_py S v = PyDict (py_dict
     [(''alphabet'', opt_to_py PyStr (pla_alphabet v)),
      (''language_code'', opt_to_py PyStr (pla_language_code v)),
      (''last_modified'', opt_to_py (datetime_to_py S) (pla_last_modified v)),
      (''lexicon_arn'', opt_to_py PyStr (pla_lexicon_arn v)),
      (''lexemes_count'', i32_to_py (pla_lexemes_count v)),
      (''size'', i32_to_py (pla_size v))])"

definition lexicon_description_from_py :: "pyo3 \<Rightarrow> polly_types \<Rightarrow> pyval \<Rightarrow> lexicon_description pyresult" where
  "lexicon_description_from_py P S value =
     and_then (cast_dict P value) (\<lambda>values.
     and_then (member P values ''name'' ''str'' (string_from_py P)) (\<lambda>name_value.
     and_then (member P values ''attributes'' ''dict (LexiconAttributes)'' (lexicon_attributes_from_py P S)) (\<lambda>attributes_value.
     Inr (build_lexicon_description S name_value attributes_value))))"

definition lexicon_description_to_py :: "polly_types \<Rightarrow> lexicon_description \<Rightarrow> pyval" where
  "lexicon_description_to_py S v = PyDict (py_dict
     [(''name'', opt_to_py PyStr (pld_name v)),
      (''attributes'', opt_to_py (lexicon_attributes_to_py S) (pld_attributes v))])"

definition text_event_from_py :: "pyo3 \<Rightarrow> polly_types \<Rightarrow> pyval \<Rightarrow> text_event pyresult" where
  "text_event_from_py P S value =
     and_then (cast_dict P value) (\<lambda>values.
     and_then (member P values ''text'' ''str'' (string_from_py P)) (\<lambda>text_value.
     and_then (member P values ''text_type'' ''str (TextType)'' (enum_from_py P)) (\<lambda>text_type_value.
     and_then (member P values ''flush_stream_configuration'' ''dict (FlushStreamConfiguration)'' (flush_stream_configuration_from_py P S)) (\<lambda>flush_stream_configuration_value.
     map_err (\<lambda>_. input_builder_error P values
         [(''text'', ''text'')])
       (build_text_event S text_value text_type_value flush_stream_configuration_value)))))"

definition text_event_to_py :: "text_event \<Rightarrow> pyval" where
  "text_event_to_py v = PyDict (py_dict
     [(''text'', PyStr (pte_text v)),
      (''text_type'', opt_to_py PyStr (pte_text_type v)),
      (''flush_stream_configuration'', opt_to_py flush_stream_configuration_to_py (pte_flush_stream_configuration v))])"

definition start_speech_synthesis_stream_action_stream_from_py :: "pyo3 \<Rightarrow> polly_types \<Rightarrow> pyval \<Rightarrow> start_speech_synthesis_stream_action_stream pyresult" where
  "start_speech_synthesis_stream_action_stream_from_py P S = union_from_py P ''StartSpeechSynthesisStreamActionStream''
     [(''text_event'', ''dict (TextEvent)'', \<lambda>value. map_ok ActionTextEvent (text_event_from_py P S value)),
      (''close_stream_event'', ''dict (CloseStreamEvent)'', \<lambda>value. map_ok ActionCloseStreamEvent (close_stream_event_from_py P S value))]"

definition start_speech_synthesis_stream_action_stream_to_py :: "start_speech_synthesis_stream_action_stream \<Rightarrow> pyval" where
  "start_speech_synthesis_stream_action_stream_to_py v = PyDict (py_dict
     (case v of
        ActionTextEvent value \<Rightarrow> [(''text_event'', text_event_to_py value)]
      | ActionCloseStreamEvent value \<Rightarrow> [(''close_stream_event'', close_stream_event_to_py value)]
      | ActionUnknown \<Rightarrow> [(''unknown'', PyBool True)]))"

definition stream_closed_event_from_py :: "pyo3 \<Rightarrow> polly_types \<Rightarrow> pyval \<Rightarrow> stream_closed_event pyresult" where
  "stream_closed_event_from_py P S value =
     and_then (cast_dict P value) (\<lambda>values.
     and_then (member P values ''request_characters'' ''int'' (i32_from_py P)) (\<lambda>request_characters_value.
     Inr (build_stream_closed_event S request_characters_value)))"

definition stream_closed_event_to_py :: "stream_closed_event \<Rightarrow> pyval" where
  "stream_closed_event_to_py v = PyDict (py_dict
     [(''request_characters'', i32_to_py (psce_request_characters v))])"

definition start_speech_synthesis_stream_event_stream_from_py :: "pyo3 \<Rightarrow> polly_types \<Rightarrow> pyval \<Rightarrow> start_speech_synthesis_stream_event_stream pyresult" where
  "start_speech_synthesis_stream_event_stream_from_py P S = union_from_py P ''StartSpeechSynthesisStreamEventStream''
     [(''audio_event'', ''dict (AudioEvent)'', \<lambda>value. map_ok EventAudioEvent (audio_event_from_py P S value)),
      (''stream_closed_event'', ''dict (StreamClosedEvent)'', \<lambda>value. map_ok EventStreamClosedEvent (stream_closed_event_from_py P S value))]"

definition start_speech_synthesis_stream_event_stream_to_py :: "start_speech_synthesis_stream_event_stream \<Rightarrow> pyval" where
  "start_speech_synthesis_stream_event_stream_to_py v = PyDict (py_dict
     (case v of
        EventAudioEvent value \<Rightarrow> [(''audio_event'', audio_event_to_py value)]
      | EventStreamClosedEvent value \<Rightarrow> [(''stream_closed_event'', stream_closed_event_to_py value)]
      | EventUnknown \<Rightarrow> [(''unknown'', PyBool True)]))"

definition synthesis_task_from_py :: "pyo3 \<Rightarrow> polly_types \<Rightarrow> pyval \<Rightarrow> synthesis_task pyresult" where
  "synthesis_task_from_py P S value =
     and_then (cast_dict P value) (\<lambda>values.
     and_then (member P values ''engine'' ''str (Engine)'' (enum_from_py P)) (\<lambda>engine_value.
     and_then (member P values ''task_id'' ''str'' (string_from_py P)) (\<lambda>task_id_value.
     and_then (member P values ''task_status'' ''str (TaskStatus)'' (enum_from_py P)) (\<lambda>task_status_value.
     and_then (member P values ''task_status_reason'' ''str'' (string_from_py P)) (\<lambda>task_status_reason_value.
     and_then (member P values ''output_uri'' ''str'' (string_from_py P)) (\<lambda>output_uri_value.
     and_then (member P values ''creation_time'' ''ISO 8601 timestamp string'' (datetime_from_py P S)) (\<lambda>creation_time_value.
     and_then (member P values ''request_characters'' ''int'' (i32_from_py P)) (\<lambda>request_characters_value.
     and_then (member P values ''sns_topic_arn'' ''str'' (string_from_py P)) (\<lambda>sns_topic_arn_value.
     and_then (member P values ''lexicon_names'' ''sequence'' (seq_from_py P ''str'' (string_from_py P))) (\<lambda>lexicon_names_value.
     and_then (member P values ''output_format'' ''str (OutputFormat)'' (enum_from_py P)) (\<lambda>output_format_value.
     and_then (member P values ''sample_rate'' ''str'' (string_from_py P)) (\<lambda>sample_rate_value.
     and_then (member P values ''speech_mark_types'' ''sequence'' (seq_from_py P ''str (SpeechMarkType)'' (enum_from_py P))) (\<lambda>speech_mark_types_value.
     and_then (member P values ''text_type'' ''str (TextType)'' (enum_from_py P)) (\<lambda>text_type_value.
     and_then (member P values ''voice_id'' ''str (VoiceId)'' (enum_from_py P)) (\<lambda>voice_id_value.
     and_then (member P values ''language_code'' ''str (LanguageCode)'' (enum_from_py P)) (\<lambda>language_code_value.
     Inr (build_synthesis_task S engine_value task_id_value task_status_value task_status_reason_value output_uri_value creation_time_value request_characters_value sns_topic_arn_value lexicon_names_value output_format_value sample_rate_value speech_mark_types_value text_type_value voice_id_value language_code_value)))))))))))))))))"

definition synthesis_task_to_py :: "polly_types \<Rightarrow> synthesis_task \<Rightarrow> pyval" where
  "synthesis_task_to_py S v = PyDict (py_dict
     [(''engine'', opt_to_py PyStr (pst_engine v)),
      (''task_id'', opt_to_py PyStr (pst_task_id v)),
      (''task_status'', opt_to_py PyStr (pst_task_status v)),
      (''task_status_reason'', opt_to_py PyStr (pst_task_status_reason v)),
      (''output_uri'', opt_to_py PyStr (pst_output_uri v)),
      (''creation_time'', opt_to_py (datetime_to_py S) (pst_creation_time v)),
      (''request_characters'', i32_to_py (pst_request_characters v)),
      (''sns_topic_arn'', opt_to_py PyStr (pst_sns_topic_arn v)),
      (''lexicon_names'', opt_to_py (seq_to_py PyStr) (pst_lexicon_names v)),
      (''output_format'', opt_to_py PyStr (pst_output_format v)),
      (''sample_rate'', opt_to_py PyStr (pst_sample_rate v)),
      (''speech_mark_types'', opt_to_py (seq_to_py PyStr) (pst_speech_mark_types v)),
      (''text_type'', opt_to_py PyStr (pst_text_type v)),
      (''voice_id'', opt_to_py PyStr (pst_voice_id v)),
      (''language_code'', opt_to_py PyStr (pst_language_code v))])"

definition throttling_reason_from_py :: "pyo3 \<Rightarrow> polly_types \<Rightarrow> pyval \<Rightarrow> throttling_reason pyresult" where
  "throttling_reason_from_py P S value =
     and_then (cast_dict P value) (\<lambda>values.
     and_then (member P values ''reason'' ''str'' (string_from_py P)) (\<lambda>reason_value.
     and_then (member P values ''resource'' ''str'' (string_from_py P)) (\<lambda>resource_value.
     Inr (build_throttling_reason S reason_value resource_value))))"

definition throttling_reason_to_py :: "throttling_reason \<Rightarrow> pyval" where
  "throttling_reason_to_py v = PyDict (py_dict
     [(''reason'', opt_to_py PyStr (ptr_reason v)),
      (''resource'', opt_to_py PyStr (ptr_resource v))])"

definition validation_exception_field_from_py :: "pyo3 \<Rightarrow> polly_types \<Rightarrow> pyval \<Rightarrow> validation_exception_field pyresult" where
  "validation_exception_field_from_py P S value =
     and_then (cast_dict P value) (\<lambda>values.
     and_then (member P values ''name'' ''str'' (string_from_py P)) (\<lambda>name_value.
     and_then (member P values ''message'' ''str'' (string_from_py P)) (\<lambda>message_value.
     map_err (\<lambda>_. input_builder_error P values
         [(''name'', ''name''), (''message'', ''message'')])
       (build_validation_exception_field S name_value message_value))))"

definition validation_exception_field_to_py :: "validation_exception_field \<Rightarrow> pyval" where
  "validation_exception_field_to_py v = PyDict (py_dict
     [(''name'', PyStr (pvef_name v)),
      (''message'', PyStr (pvef_message v))])"

definition voice_from_py :: "pyo3 \<Rightarrow> polly_types \<Rightarrow> pyval \<Rightarrow> voice pyresult" where
  "voice_from_py P S value =
     and_then (cast_dict P value) (\<lambda>values.
     and_then (member P values ''gender'' ''str (Gender)'' (enum_from_py P)) (\<lambda>gender_value.
     and_then (member P values ''id'' ''str (VoiceId)'' (enum_from_py P)) (\<lambda>id_value.
     and_then (member P values ''language_code'' ''str (LanguageCode)'' (enum_from_py P)) (\<lambda>language_code_value.
     and_then (member P values ''language_name'' ''str'' (string_from_py P)) (\<lambda>language_name_value.
     and_then (member P values ''name'' ''str'' (string_from_py P)) (\<lambda>name_value.
     and_then (member P values ''additional_language_codes'' ''sequence'' (seq_from_py P ''str (LanguageCode)'' (enum_from_py P))) (\<lambda>additional_language_codes_value.
     and_then (member P values ''supported_engines'' ''sequence'' (seq_from_py P ''str (Engine)'' (enum_from_py P))) (\<lambda>supported_engines_value.
     Inr (build_voice S gender_value id_value language_code_value language_name_value name_value additional_language_codes_value supported_engines_value)))))))))"

definition voice_to_py :: "voice \<Rightarrow> pyval" where
  "voice_to_py v = PyDict (py_dict
     [(''gender'', opt_to_py PyStr (pv_gender v)),
      (''id'', opt_to_py PyStr (pv_id v)),
      (''language_code'', opt_to_py PyStr (pv_language_code v)),
      (''language_name'', opt_to_py PyStr (pv_language_name v)),
      (''name'', opt_to_py PyStr (pv_name v)),
      (''additional_language_codes'', opt_to_py (seq_to_py PyStr) (pv_additional_language_codes v)),
      (''supported_engines'', opt_to_py (seq_to_py PyStr) (pv_supported_engines v))])"

section \<open>Round trips\<close>

text \<open>What the builders document: a builder given every member the structure must have gives the
  structure with the members it was given, and one that lacks a required member fails.\<close>

locale polly_types_laws =
  fixes S :: polly_types
  assumes audio_event_built: "build_audio_event S pae0 =
       \<lparr>pae_audio_chunk = pae0\<rparr>"
    and flush_stream_configuration_built: "build_flush_stream_configuration S (Some pfsc0) =
       \<lparr>pfsc_force = pfsc0\<rparr>"
    and lexicon_built: "build_lexicon S pl0 pl1 =
       \<lparr>pl_content = pl0, pl_name = pl1\<rparr>"
    and lexicon_attributes_built: "build_lexicon_attributes S pla0 pla1 pla2 pla3 (Some pla4) (Some pla5) =
       \<lparr>pla_alphabet = pla0, pla_language_code = pla1, pla_last_modified = pla2, pla_lexicon_arn = pla3, pla_lexemes_count = pla4, pla_size = pla5\<rparr>"
    and lexicon_description_built: "build_lexicon_description S pld0 pld1 =
       \<lparr>pld_name = pld0, pld_attributes = pld1\<rparr>"
    and text_event_built: "build_text_event S (Some pte0) pte1 pte2 =
       Inr \<lparr>pte_text = pte0, pte_text_type = pte1, pte_flush_stream_configuration = pte2\<rparr>"
    and stream_closed_event_built: "build_stream_closed_event S (Some psce0) =
       \<lparr>psce_request_characters = psce0\<rparr>"
    and synthesis_task_built: "build_synthesis_task S pst0 pst1 pst2 pst3 pst4 pst5 (Some pst6) pst7 pst8 pst9 pst10 pst11 pst12 pst13 pst14 =
       \<lparr>pst_engine = pst0, pst_task_id = pst1, pst_task_status = pst2, pst_task_status_reason = pst3, pst_output_uri = pst4, pst_creation_time = pst5, pst_request_characters = pst6, pst_sns_topic_arn = pst7, pst_lexicon_names = pst8, pst_output_format = pst9, pst_sample_rate = pst10, pst_speech_mark_types = pst11, pst_text_type = pst12, pst_voice_id = pst13, pst_language_code = pst14\<rparr>"
    and throttling_reason_built: "build_throttling_reason S ptr0 ptr1 =
       \<lparr>ptr_reason = ptr0, ptr_resource = ptr1\<rparr>"
    and validation_exception_field_built: "build_validation_exception_field S (Some pvef0) (Some pvef1) =
       Inr \<lparr>pvef_name = pvef0, pvef_message = pvef1\<rparr>"
    and voice_built: "build_voice S pv0 pv1 pv2 pv3 pv4 pv5 pv6 =
       \<lparr>pv_gender = pv0, pv_id = pv1, pv_language_code = pv2, pv_language_name = pv3, pv_name = pv4, pv_additional_language_codes = pv5, pv_supported_engines = pv6\<rparr>"
    and text_event_incomplete: "opte0 = None \<Longrightarrow>
       build_text_event S opte0 opte1 opte2 = Inl ()"
    and validation_exception_field_incomplete: "opvef0 = None \<or> opvef1 = None \<Longrightarrow>
       build_validation_exception_field S opvef0 opvef1 = Inl ()"

text \<open>A concrete SDK.\<close>

definition polly_std :: polly_types where
  "polly_std =
     \<lparr>parse_datetime = (\<lambda>s. Inr (int (digits_value s), 0)),
      show_datetime = (\<lambda>d. show_nat (nat (fst d))),
      build_audio_event = (\<lambda>a0. \<lparr>pae_audio_chunk = a0\<rparr>),
      build_close_stream_event = CloseStreamEvent,
      build_flush_stream_configuration = (\<lambda>a0. \<lparr>pfsc_force = unwrap_or False a0\<rparr>),
      build_lexicon = (\<lambda>a0 a1. \<lparr>pl_content = a0, pl_name = a1\<rparr>),
      build_lexicon_attributes = (\<lambda>a0 a1 a2 a3 a4 a5. \<lparr>pla_alphabet = a0, pla_language_code = a1, pla_last_modified = a2, pla_lexicon_arn = a3, pla_lexemes_count = unwrap_or 0 a4, pla_size = unwrap_or 0 a5\<rparr>),
      build_lexicon_description = (\<lambda>a0 a1. \<lparr>pld_name = a0, pld_attributes = a1\<rparr>),
      build_text_event = (\<lambda>a0 a1 a2. if a0 = None then Inl ()
        else Inr \<lparr>pte_text = the a0, pte_text_type = a1, pte_flush_stream_configuration = a2\<rparr>),
      build_stream_closed_event = (\<lambda>a0. \<lparr>psce_request_characters = unwrap_or 0 a0\<rparr>),
      build_synthesis_task = (\<lambda>a0 a1 a2 a3 a4 a5 a6 a7 a8 a9 a10 a11 a12 a13 a14. \<lparr>pst_engine = a0, pst_task_id = a1, pst_task_status = a2, pst_task_status_reason = a3, pst_output_uri = a4, pst_creation_time = a5, pst_request_characters = unwrap_or 0 a6, pst_sns_topic_arn = a7, pst_lexicon_names = a8, pst_output_format = a9, pst_sample_rate = a10, pst_speech_mark_types = a11, pst_text_type = a12, pst_voice_id = a13, pst_language_code = a14\<rparr>),
      build_throttling_reason = (\<lambda>a0 a1. \<lparr>ptr_reason = a0, ptr_resource = a1\<rparr>),
      build_validation_exception_field = (\<lambda>a0 a1. if a0 = None \<or> a1 = None then Inl ()
        else Inr \<lparr>pvef_name = the a0, pvef_message = the a1\<rparr>),
      build_voice = (\<lambda>a0 a1 a2 a3 a4 a5 a6. \<lparr>pv_gender = a0, pv_id = a1, pv_language_code = a2, pv_language_name = a3, pv_name = a4, pv_additional_language_codes = a5, pv_supported_engines = a6\<rparr>)\<rparr>"

interpretation std_polly: polly_types_laws polly_std
  by unfold_locales (auto simp: polly_std_def unwrap_or_def)

locale polly_conversions = pyo3_laws P + polly_types_laws S for P S +
  fixes order :: "(string, pyval) fmap \<Rightarrow> (string \<times> pyval) list"
  assumes order: "iterates order"
begin

lemma audio_event_reads: "reads (audio_event_from_py P S) (audio_event_to_py)"
proof (rule readsI)
  show "audio_event_to_py v \<noteq> PyNone" for v
    by (simp add: audio_event_to_py_def)
  show "audio_event_from_py P S (audio_event_to_py v) = Inr v" for v
    by (cases v) (simp add: audio_event_from_py_def audio_event_to_py_def dict_ok py_dict_distinct audio_event_built
        member_reads [OF reads_blob])
qed

lemma close_stream_event_reads: "reads (close_stream_event_from_py P S) close_stream_event_to_py"
proof (rule readsI)
  show "close_stream_event_from_py P S (close_stream_event_to_py v) = Inr v" for v
    by (cases v, cases "build_close_stream_event S") (simp add: close_stream_event_from_py_def close_stream_event_to_py_def dict_ok)
qed (simp add: close_stream_event_to_py_def)

lemma flush_stream_configuration_reads: "reads (flush_stream_configuration_from_py P S) (flush_stream_configuration_to_py)"
proof (rule readsI)
  show "flush_stream_configuration_to_py v \<noteq> PyNone" for v
    by (simp add: flush_stream_configuration_to_py_def)
  show "flush_stream_configuration_from_py P S (flush_stream_configuration_to_py v) = Inr v" for v
    by (cases v) (simp add: flush_stream_configuration_from_py_def flush_stream_configuration_to_py_def dict_ok py_dict_distinct flush_stream_configuration_built
        member_reads_given [OF reads_bool])
qed

lemma lexicon_reads: "reads (lexicon_from_py P S) (lexicon_to_py)"
proof (rule readsI)
  show "lexicon_to_py v \<noteq> PyNone" for v
    by (simp add: lexicon_to_py_def)
  show "lexicon_from_py P S (lexicon_to_py v) = Inr v" for v
    by (cases v) (simp add: lexicon_from_py_def lexicon_to_py_def dict_ok py_dict_distinct lexicon_built
        member_reads [OF reads_str])
qed

lemma text_event_reads: "reads (text_event_from_py P S) (text_event_to_py)"
proof (rule readsI)
  show "text_event_to_py v \<noteq> PyNone" for v
    by (simp add: text_event_to_py_def)
  show "text_event_from_py P S (text_event_to_py v) = Inr v" for v
    by (cases v) (simp add: text_event_from_py_def text_event_to_py_def dict_ok py_dict_distinct text_event_built
        member_reads_given [OF reads_str]
        member_reads [OF reads_enum]
        member_reads [OF flush_stream_configuration_reads])
qed

lemma start_speech_synthesis_stream_action_stream_roundtrip: "v \<noteq> ActionUnknown \<Longrightarrow> start_speech_synthesis_stream_action_stream_from_py P S (start_speech_synthesis_stream_action_stream_to_py v) = Inr v"
  using text_event_reads close_stream_event_reads
  by (cases v) (simp_all add: start_speech_synthesis_stream_action_stream_from_py_def start_speech_synthesis_stream_action_stream_to_py_def union_from_py_def dict_ok dict_value_eq reads_def)

lemma start_speech_synthesis_stream_action_stream_known: "start_speech_synthesis_stream_action_stream_from_py P S v \<noteq> Inr ActionUnknown"
  by (auto simp: start_speech_synthesis_stream_action_stream_from_py_def elim!: union_from)

lemma stream_closed_event_reads: "reads (stream_closed_event_from_py P S) (stream_closed_event_to_py)"
proof (rule readsI)
  show "stream_closed_event_to_py v \<noteq> PyNone" for v
    by (simp add: stream_closed_event_to_py_def)
  show "stream_closed_event_from_py P S (stream_closed_event_to_py v) = Inr v" for v
    by (cases v) (simp add: stream_closed_event_from_py_def stream_closed_event_to_py_def dict_ok py_dict_distinct stream_closed_event_built
        member_reads_given [OF reads_i32])
qed

lemma start_speech_synthesis_stream_event_stream_roundtrip: "v \<noteq> EventUnknown \<Longrightarrow> start_speech_synthesis_stream_event_stream_from_py P S (start_speech_synthesis_stream_event_stream_to_py v) = Inr v"
  using audio_event_reads stream_closed_event_reads
  by (cases v) (simp_all add: start_speech_synthesis_stream_event_stream_from_py_def start_speech_synthesis_stream_event_stream_to_py_def union_from_py_def dict_ok dict_value_eq reads_def)

lemma start_speech_synthesis_stream_event_stream_known: "start_speech_synthesis_stream_event_stream_from_py P S v \<noteq> Inr EventUnknown"
  by (auto simp: start_speech_synthesis_stream_event_stream_from_py_def elim!: union_from)

lemma throttling_reason_reads: "reads (throttling_reason_from_py P S) (throttling_reason_to_py)"
proof (rule readsI)
  show "throttling_reason_to_py v \<noteq> PyNone" for v
    by (simp add: throttling_reason_to_py_def)
  show "throttling_reason_from_py P S (throttling_reason_to_py v) = Inr v" for v
    by (cases v) (simp add: throttling_reason_from_py_def throttling_reason_to_py_def dict_ok py_dict_distinct throttling_reason_built
        member_reads [OF reads_str])
qed

lemma validation_exception_field_reads: "reads (validation_exception_field_from_py P S) (validation_exception_field_to_py)"
proof (rule readsI)
  show "validation_exception_field_to_py v \<noteq> PyNone" for v
    by (simp add: validation_exception_field_to_py_def)
  show "validation_exception_field_from_py P S (validation_exception_field_to_py v) = Inr v" for v
    by (cases v) (simp add: validation_exception_field_from_py_def validation_exception_field_to_py_def dict_ok py_dict_distinct validation_exception_field_built
        member_reads_given [OF reads_str])
qed

lemma voice_reads: "reads (voice_from_py P S) (voice_to_py)"
proof (rule readsI)
  show "voice_to_py v \<noteq> PyNone" for v
    by (simp add: voice_to_py_def)
  show "voice_from_py P S (voice_to_py v) = Inr v" for v
    by (cases v) (simp add: voice_from_py_def voice_to_py_def dict_ok py_dict_distinct voice_built
        member_reads [OF reads_enum]
        member_reads [OF reads_str]
        member_reads [OF reads_seq [OF reads_enum]])
qed

end

interpretation std_polly_conv: polly_conversions pyo3_std polly_std by_key
  by (intro polly_conversions.intro polly_conversions_axioms.intro std.pyo3_laws_axioms std_polly.polly_types_laws_axioms iterates_by_key)

end
