(* ===== verification/PollyOutputs.thy ===== *)
theory PollyOutputs
  imports PollyTypes
begin

text \<open>
  The response objects of the Polly extension, from \<open>crates/rboto-polly/src/generated.rs\<close>: per class, the
  fields it holds, its getters in order, and \<open>to_dict\<close>. A getter of structures gives objects that
  share them (\<open>Arc::clone\<close>), one per structure of a list or mapping; every other getter gives a
  plain value, and an absent one is \<open>None\<close>. Integers whose width the code does not show are \<open>int\<close>.
\<close>

section \<open>Attributes\<close>

datatype polly_object =
    PollyLexicon lexicon
  | PollyLexiconAttributes lexicon_attributes
  | PollyLexiconDescription lexicon_description
  | PollySynthesisTask synthesis_task
  | PollyVoice voice

datatype polly_attr =
    PollyPlain pyval
  | PollyObject polly_object
  | PollyObjects "polly_object list"
  | PollyObjectMap "(string, polly_object) fmap"

definition polly_opt_attr :: "('a \<Rightarrow> polly_attr) \<Rightarrow> 'a option \<Rightarrow> polly_attr" where
  "polly_opt_attr f v = (case v of None \<Rightarrow> PollyPlain PyNone | Some x \<Rightarrow> f x)"

section \<open>\<open>Lexicon\<close>\<close>

definition polly_lexicon_attributes :: "((string, pyval) fmap \<Rightarrow> (string \<times> pyval) list) \<Rightarrow> polly_types \<Rightarrow> lexicon \<Rightarrow> (string \<times> polly_attr) list" where
  "polly_lexicon_attributes order S v =
     [(''content'', PollyPlain (opt_to_py PyStr (pl_content v))),
      (''name'', PollyPlain (opt_to_py PyStr (pl_name v)))]"

definition polly_lexicon_to_dict :: "((string, pyval) fmap \<Rightarrow> (string \<times> pyval) list) \<Rightarrow> polly_types \<Rightarrow> lexicon \<Rightarrow> pyval" where
  "polly_lexicon_to_dict order S v = lexicon_to_py v"

section \<open>\<open>LexiconAttributes\<close>\<close>

definition lexicon_attributes_attributes :: "((string, pyval) fmap \<Rightarrow> (string \<times> pyval) list) \<Rightarrow> polly_types \<Rightarrow> lexicon_attributes \<Rightarrow> (string \<times> polly_attr) list" where
  "lexicon_attributes_attributes order S v =
     [(''alphabet'', PollyPlain (opt_to_py PyStr (pla_alphabet v))),
      (''language_code'', PollyPlain (opt_to_py PyStr (pla_language_code v))),
      (''last_modified'', PollyPlain (opt_to_py (datetime_to_py S) (pla_last_modified v))),
      (''lexicon_arn'', PollyPlain (opt_to_py PyStr (pla_lexicon_arn v))),
      (''lexemes_count'', PollyPlain (i32_to_py (pla_lexemes_count v))),
      (''size'', PollyPlain (i32_to_py (pla_size v)))]"

definition lexicon_attributes_to_dict :: "((string, pyval) fmap \<Rightarrow> (string \<times> pyval) list) \<Rightarrow> polly_types \<Rightarrow> lexicon_attributes \<Rightarrow> pyval" where
  "lexicon_attributes_to_dict order S v = lexicon_attributes_to_py S v"

section \<open>\<open>LexiconDescription\<close>\<close>

definition lexicon_description_attributes :: "((string, pyval) fmap \<Rightarrow> (string \<times> pyval) list) \<Rightarrow> polly_types \<Rightarrow> lexicon_description \<Rightarrow> (string \<times> polly_attr) list" where
  "lexicon_description_attributes order S v =
     [(''name'', PollyPlain (opt_to_py PyStr (pld_name v))),
      (''attributes'', polly_opt_attr (\<lambda>x. PollyObject (PollyLexiconAttributes x)) (pld_attributes v))]"

definition lexicon_description_to_dict :: "((string, pyval) fmap \<Rightarrow> (string \<times> pyval) list) \<Rightarrow> polly_types \<Rightarrow> lexicon_description \<Rightarrow> pyval" where
  "lexicon_description_to_dict order S v = lexicon_description_to_py S v"

section \<open>\<open>SynthesisTask\<close>\<close>

definition synthesis_task_attributes :: "((string, pyval) fmap \<Rightarrow> (string \<times> pyval) list) \<Rightarrow> polly_types \<Rightarrow> synthesis_task \<Rightarrow> (string \<times> polly_attr) list" where
  "synthesis_task_attributes order S v =
     [(''engine'', PollyPlain (opt_to_py PyStr (pst_engine v))),
      (''task_id'', PollyPlain (opt_to_py PyStr (pst_task_id v))),
      (''task_status'', PollyPlain (opt_to_py PyStr (pst_task_status v))),
      (''task_status_reason'', PollyPlain (opt_to_py PyStr (pst_task_status_reason v))),
      (''output_uri'', PollyPlain (opt_to_py PyStr (pst_output_uri v))),
      (''creation_time'', PollyPlain (opt_to_py (datetime_to_py S) (pst_creation_time v))),
      (''request_characters'', PollyPlain (i32_to_py (pst_request_characters v))),
      (''sns_topic_arn'', PollyPlain (opt_to_py PyStr (pst_sns_topic_arn v))),
      (''lexicon_names'', PollyPlain (opt_to_py (seq_to_py PyStr) (pst_lexicon_names v))),
      (''output_format'', PollyPlain (opt_to_py PyStr (pst_output_format v))),
      (''sample_rate'', PollyPlain (opt_to_py PyStr (pst_sample_rate v))),
      (''speech_mark_types'', PollyPlain (opt_to_py (seq_to_py PyStr) (pst_speech_mark_types v))),
      (''text_type'', PollyPlain (opt_to_py PyStr (pst_text_type v))),
      (''voice_id'', PollyPlain (opt_to_py PyStr (pst_voice_id v))),
      (''language_code'', PollyPlain (opt_to_py PyStr (pst_language_code v)))]"

definition synthesis_task_to_dict :: "((string, pyval) fmap \<Rightarrow> (string \<times> pyval) list) \<Rightarrow> polly_types \<Rightarrow> synthesis_task \<Rightarrow> pyval" where
  "synthesis_task_to_dict order S v = synthesis_task_to_py S v"

section \<open>\<open>Voice\<close>\<close>

definition voice_attributes :: "((string, pyval) fmap \<Rightarrow> (string \<times> pyval) list) \<Rightarrow> polly_types \<Rightarrow> voice \<Rightarrow> (string \<times> polly_attr) list" where
  "voice_attributes order S v =
     [(''gender'', PollyPlain (opt_to_py PyStr (pv_gender v))),
      (''id'', PollyPlain (opt_to_py PyStr (pv_id v))),
      (''language_code'', PollyPlain (opt_to_py PyStr (pv_language_code v))),
      (''language_name'', PollyPlain (opt_to_py PyStr (pv_language_name v))),
      (''name'', PollyPlain (opt_to_py PyStr (pv_name v))),
      (''additional_language_codes'', PollyPlain (opt_to_py (seq_to_py PyStr) (pv_additional_language_codes v))),
      (''supported_engines'', PollyPlain (opt_to_py (seq_to_py PyStr) (pv_supported_engines v)))]"

definition voice_to_dict :: "((string, pyval) fmap \<Rightarrow> (string \<times> pyval) list) \<Rightarrow> polly_types \<Rightarrow> voice \<Rightarrow> pyval" where
  "voice_to_dict order S v = voice_to_py v"

section \<open>\<open>DeleteLexiconOutput\<close>\<close>

datatype delete_lexicon_output = DeleteLexiconOutput

definition delete_lexicon_output_attributes :: "((string, pyval) fmap \<Rightarrow> (string \<times> pyval) list) \<Rightarrow> polly_types \<Rightarrow> delete_lexicon_output \<Rightarrow> (string \<times> polly_attr) list" where
  "delete_lexicon_output_attributes order S v = []"

definition delete_lexicon_output_to_dict :: "((string, pyval) fmap \<Rightarrow> (string \<times> pyval) list) \<Rightarrow> polly_types \<Rightarrow> delete_lexicon_output \<Rightarrow> pyval" where
  "delete_lexicon_output_to_dict order S v = PyDict (py_dict [])"

section \<open>\<open>DescribeVoicesOutput\<close>\<close>

record describe_voices_output =
  pdvo_voices :: "voice list option"
  pdvo_next_token :: "string option"

definition describe_voices_output_attributes :: "((string, pyval) fmap \<Rightarrow> (string \<times> pyval) list) \<Rightarrow> polly_types \<Rightarrow> describe_voices_output \<Rightarrow> (string \<times> polly_attr) list" where
  "describe_voices_output_attributes order S v =
     [(''voices'', polly_opt_attr (\<lambda>xs. PollyObjects (map PollyVoice xs)) (pdvo_voices v)),
      (''next_token'', PollyPlain (opt_to_py PyStr (pdvo_next_token v)))]"

definition describe_voices_output_to_dict :: "((string, pyval) fmap \<Rightarrow> (string \<times> pyval) list) \<Rightarrow> polly_types \<Rightarrow> describe_voices_output \<Rightarrow> pyval" where
  "describe_voices_output_to_dict order S v = PyDict (py_dict
     [(''voices'', opt_to_py (seq_to_py voice_to_py) (pdvo_voices v)),
      (''next_token'', opt_to_py PyStr (pdvo_next_token v))])"

section \<open>\<open>GetLexiconOutput\<close>\<close>

record get_lexicon_output =
  pglo_lexicon :: "lexicon option"
  pglo_lexicon_attributes :: "lexicon_attributes option"

definition get_lexicon_output_attributes :: "((string, pyval) fmap \<Rightarrow> (string \<times> pyval) list) \<Rightarrow> polly_types \<Rightarrow> get_lexicon_output \<Rightarrow> (string \<times> polly_attr) list" where
  "get_lexicon_output_attributes order S v =
     [(''lexicon'', polly_opt_attr (\<lambda>x. PollyObject (PollyLexicon x)) (pglo_lexicon v)),
      (''lexicon_attributes'', polly_opt_attr (\<lambda>x. PollyObject (PollyLexiconAttributes x)) (pglo_lexicon_attributes v))]"

definition get_lexicon_output_to_dict :: "((string, pyval) fmap \<Rightarrow> (string \<times> pyval) list) \<Rightarrow> polly_types \<Rightarrow> get_lexicon_output \<Rightarrow> pyval" where
  "get_lexicon_output_to_dict order S v = PyDict (py_dict
     [(''lexicon'', opt_to_py lexicon_to_py (pglo_lexicon v)),
      (''lexicon_attributes'', opt_to_py (lexicon_attributes_to_py S) (pglo_lexicon_attributes v))])"

section \<open>\<open>GetSpeechSynthesisTaskOutput\<close>\<close>

record get_speech_synthesis_task_output =
  pgssto_synthesis_task :: "synthesis_task option"

definition get_speech_synthesis_task_output_attributes :: "((string, pyval) fmap \<Rightarrow> (string \<times> pyval) list) \<Rightarrow> polly_types \<Rightarrow> get_speech_synthesis_task_output \<Rightarrow> (string \<times> polly_attr) list" where
  "get_speech_synthesis_task_output_attributes order S v =
     [(''synthesis_task'', polly_opt_attr (\<lambda>x. PollyObject (PollySynthesisTask x)) (pgssto_synthesis_task v))]"

definition get_speech_synthesis_task_output_to_dict :: "((string, pyval) fmap \<Rightarrow> (string \<times> pyval) list) \<Rightarrow> polly_types \<Rightarrow> get_speech_synthesis_task_output \<Rightarrow> pyval" where
  "get_speech_synthesis_task_output_to_dict order S v = PyDict (py_dict
     [(''synthesis_task'', opt_to_py (synthesis_task_to_py S) (pgssto_synthesis_task v))])"

section \<open>\<open>ListLexiconsOutput\<close>\<close>

record list_lexicons_output =
  pllo_lexicons :: "lexicon_description list option"
  pllo_next_token :: "string option"

definition list_lexicons_output_attributes :: "((string, pyval) fmap \<Rightarrow> (string \<times> pyval) list) \<Rightarrow> polly_types \<Rightarrow> list_lexicons_output \<Rightarrow> (string \<times> polly_attr) list" where
  "list_lexicons_output_attributes order S v =
     [(''lexicons'', polly_opt_attr (\<lambda>xs. PollyObjects (map PollyLexiconDescription xs)) (pllo_lexicons v)),
      (''next_token'', PollyPlain (opt_to_py PyStr (pllo_next_token v)))]"

definition list_lexicons_output_to_dict :: "((string, pyval) fmap \<Rightarrow> (string \<times> pyval) list) \<Rightarrow> polly_types \<Rightarrow> list_lexicons_output \<Rightarrow> pyval" where
  "list_lexicons_output_to_dict order S v = PyDict (py_dict
     [(''lexicons'', opt_to_py (seq_to_py (lexicon_description_to_py S)) (pllo_lexicons v)),
      (''next_token'', opt_to_py PyStr (pllo_next_token v))])"

section \<open>\<open>ListSpeechSynthesisTasksOutput\<close>\<close>

record list_speech_synthesis_tasks_output =
  plssto_next_token :: "string option"
  plssto_synthesis_tasks :: "synthesis_task list option"

definition list_speech_synthesis_tasks_output_attributes :: "((string, pyval) fmap \<Rightarrow> (string \<times> pyval) list) \<Rightarrow> polly_types \<Rightarrow> list_speech_synthesis_tasks_output \<Rightarrow> (string \<times> polly_attr) list" where
  "list_speech_synthesis_tasks_output_attributes order S v =
     [(''next_token'', PollyPlain (opt_to_py PyStr (plssto_next_token v))),
      (''synthesis_tasks'', polly_opt_attr (\<lambda>xs. PollyObjects (map PollySynthesisTask xs)) (plssto_synthesis_tasks v))]"

definition list_speech_synthesis_tasks_output_to_dict :: "((string, pyval) fmap \<Rightarrow> (string \<times> pyval) list) \<Rightarrow> polly_types \<Rightarrow> list_speech_synthesis_tasks_output \<Rightarrow> pyval" where
  "list_speech_synthesis_tasks_output_to_dict order S v = PyDict (py_dict
     [(''next_token'', opt_to_py PyStr (plssto_next_token v)),
      (''synthesis_tasks'', opt_to_py (seq_to_py (synthesis_task_to_py S)) (plssto_synthesis_tasks v))])"

section \<open>\<open>PutLexiconOutput\<close>\<close>

datatype put_lexicon_output = PutLexiconOutput

definition put_lexicon_output_attributes :: "((string, pyval) fmap \<Rightarrow> (string \<times> pyval) list) \<Rightarrow> polly_types \<Rightarrow> put_lexicon_output \<Rightarrow> (string \<times> polly_attr) list" where
  "put_lexicon_output_attributes order S v = []"

definition put_lexicon_output_to_dict :: "((string, pyval) fmap \<Rightarrow> (string \<times> pyval) list) \<Rightarrow> polly_types \<Rightarrow> put_lexicon_output \<Rightarrow> pyval" where
  "put_lexicon_output_to_dict order S v = PyDict (py_dict [])"

section \<open>\<open>StartSpeechSynthesisTaskOutput\<close>\<close>

record start_speech_synthesis_task_output =
  psssto_synthesis_task :: "synthesis_task option"

definition start_speech_synthesis_task_output_attributes :: "((string, pyval) fmap \<Rightarrow> (string \<times> pyval) list) \<Rightarrow> polly_types \<Rightarrow> start_speech_synthesis_task_output \<Rightarrow> (string \<times> polly_attr) list" where
  "start_speech_synthesis_task_output_attributes order S v =
     [(''synthesis_task'', polly_opt_attr (\<lambda>x. PollyObject (PollySynthesisTask x)) (psssto_synthesis_task v))]"

definition start_speech_synthesis_task_output_to_dict :: "((string, pyval) fmap \<Rightarrow> (string \<times> pyval) list) \<Rightarrow> polly_types \<Rightarrow> start_speech_synthesis_task_output \<Rightarrow> pyval" where
  "start_speech_synthesis_task_output_to_dict order S v = PyDict (py_dict
     [(''synthesis_task'', opt_to_py (synthesis_task_to_py S) (psssto_synthesis_task v))])"

section \<open>\<open>SynthesizeSpeechOutput\<close>\<close>

record 'b polly_synthesize_speech_output =
  ppsso_audio_stream :: 'b
  ppsso_content_type :: "string option"
  ppsso_request_characters :: int

definition polly_synthesize_speech_output_response :: "stream_error_context \<Rightarrow> 's polly_synthesize_speech_output \<Rightarrow> 's py_byte_stream polly_synthesize_speech_output" where
  "polly_synthesize_speech_output_response context v =
     \<lparr>ppsso_audio_stream = new_stream (ppsso_audio_stream v) context,
      ppsso_content_type = ppsso_content_type v,
      ppsso_request_characters = ppsso_request_characters v\<rparr>"

definition polly_synthesize_speech_output_attributes :: "((string, pyval) fmap \<Rightarrow> (string \<times> pyval) list) \<Rightarrow> polly_types \<Rightarrow> 's py_byte_stream polly_synthesize_speech_output \<Rightarrow> (string \<times> ('s py_byte_stream + polly_attr)) list" where
  "polly_synthesize_speech_output_attributes order S v =
     [(''audio_stream'', Inl (ppsso_audio_stream v)),
      (''content_type'', Inr (PollyPlain (opt_to_py PyStr (ppsso_content_type v)))),
      (''request_characters'', Inr (PollyPlain (PyInt (ppsso_request_characters v))))]"

definition polly_synthesize_speech_output_to_dict :: "((string, pyval) fmap \<Rightarrow> (string \<times> pyval) list) \<Rightarrow> polly_types \<Rightarrow> 's py_byte_stream polly_synthesize_speech_output \<Rightarrow> (string \<times> ('s py_byte_stream + pyval)) list" where
  "polly_synthesize_speech_output_to_dict order S v =
     [(''audio_stream'', Inl (ppsso_audio_stream v)),
      (''content_type'', Inr (opt_to_py PyStr (ppsso_content_type v))),
      (''request_characters'', Inr (PyInt (ppsso_request_characters v)))]"

section \<open>Dictionaries and attributes agree\<close>

text \<open>The plain value of an object is what its own \<open>to_dict\<close> gives.\<close>

fun polly_render_object :: "((string, pyval) fmap \<Rightarrow> (string \<times> pyval) list) \<Rightarrow> polly_types \<Rightarrow> polly_object \<Rightarrow> pyval" where
  "polly_render_object order S (PollyLexicon v) = polly_lexicon_to_dict order S v"
| "polly_render_object order S (PollyLexiconAttributes v) = lexicon_attributes_to_dict order S v"
| "polly_render_object order S (PollyLexiconDescription v) = lexicon_description_to_dict order S v"
| "polly_render_object order S (PollySynthesisTask v) = synthesis_task_to_dict order S v"
| "polly_render_object order S (PollyVoice v) = voice_to_dict order S v"

fun polly_render :: "((string, pyval) fmap \<Rightarrow> (string \<times> pyval) list) \<Rightarrow> polly_types \<Rightarrow> polly_attr \<Rightarrow> pyval" where
  "polly_render order S (PollyPlain v) = v"
| "polly_render order S (PollyObject x) = polly_render_object order S x"
| "polly_render order S (PollyObjects xs) = seq_to_py (polly_render_object order S) xs"
| "polly_render order S (PollyObjectMap m) = mapping_to_py order (polly_render_object order S) m"

lemma polly_render_parts [simp]:
  "polly_render order S (polly_opt_attr f v) = opt_to_py (\<lambda>x. polly_render order S (f x)) v"
  "seq_to_py g (map h xs) = seq_to_py (\<lambda>x. g (h x)) xs"
  "mapping_to_py order g (fmmap k m) = mapping_to_py order (\<lambda>x. g (k x)) m"
  by (simp_all add: polly_opt_attr_def seq_to_py_def mapping_to_py_def fmap.map_comp comp_def split: option.splits)

definition polly_attribute_dict :: "((string, pyval) fmap \<Rightarrow> (string \<times> pyval) list) \<Rightarrow> polly_types \<Rightarrow> (string \<times> polly_attr) list \<Rightarrow> pyval" where
  "polly_attribute_dict order S attrs = PyDict (map (\<lambda>(name, a). (PyStr name, polly_render order S a)) attrs)"

text \<open>
  For each of the 14 response classes, \<open>to_dict\<close> has exactly one entry per attribute, in the order of
  the getters, with the attribute's value: the value itself, or the dictionaries of the objects.
\<close>

lemma polly_lexicon_agrees:
  "polly_lexicon_to_dict order S v = polly_attribute_dict order S (polly_lexicon_attributes order S v)"
  by (simp add: polly_attribute_dict_def py_dict_distinct polly_lexicon_to_dict_def polly_lexicon_attributes_def
      lexicon_to_py_def)

lemma lexicon_attributes_agrees:
  "lexicon_attributes_to_dict order S v = polly_attribute_dict order S (lexicon_attributes_attributes order S v)"
  by (simp add: polly_attribute_dict_def py_dict_distinct lexicon_attributes_to_dict_def lexicon_attributes_attributes_def
      lexicon_attributes_to_py_def)

lemma lexicon_description_agrees:
  "lexicon_description_to_dict order S v = polly_attribute_dict order S (lexicon_description_attributes order S v)"
  by (simp add: polly_attribute_dict_def py_dict_distinct lexicon_description_to_dict_def lexicon_description_attributes_def
      lexicon_description_to_py_def lexicon_attributes_to_dict_def)

lemma synthesis_task_agrees:
  "synthesis_task_to_dict order S v = polly_attribute_dict order S (synthesis_task_attributes order S v)"
  by (simp add: polly_attribute_dict_def py_dict_distinct synthesis_task_to_dict_def synthesis_task_attributes_def
      synthesis_task_to_py_def)

lemma voice_agrees:
  "voice_to_dict order S v = polly_attribute_dict order S (voice_attributes order S v)"
  by (simp add: polly_attribute_dict_def py_dict_distinct voice_to_dict_def voice_attributes_def
      voice_to_py_def)

lemma polly_synthesize_speech_output_agrees:
  "polly_synthesize_speech_output_to_dict order S v = map (map_prod id (map_sum id (polly_render order S))) (polly_synthesize_speech_output_attributes order S v)"
  by (simp add: polly_synthesize_speech_output_to_dict_def polly_synthesize_speech_output_attributes_def polly_lexicon_to_dict_def lexicon_attributes_to_dict_def lexicon_description_to_dict_def synthesis_task_to_dict_def voice_to_dict_def)

lemma polly_outputs_agree:
  "delete_lexicon_output_to_dict order S v5 = polly_attribute_dict order S (delete_lexicon_output_attributes order S v5)"
  "describe_voices_output_to_dict order S v6 = polly_attribute_dict order S (describe_voices_output_attributes order S v6)"
  "get_lexicon_output_to_dict order S v7 = polly_attribute_dict order S (get_lexicon_output_attributes order S v7)"
  "get_speech_synthesis_task_output_to_dict order S v8 = polly_attribute_dict order S (get_speech_synthesis_task_output_attributes order S v8)"
  "list_lexicons_output_to_dict order S v9 = polly_attribute_dict order S (list_lexicons_output_attributes order S v9)"
  "list_speech_synthesis_tasks_output_to_dict order S v10 = polly_attribute_dict order S (list_speech_synthesis_tasks_output_attributes order S v10)"
  "put_lexicon_output_to_dict order S v11 = polly_attribute_dict order S (put_lexicon_output_attributes order S v11)"
  "start_speech_synthesis_task_output_to_dict order S v12 = polly_attribute_dict order S (start_speech_synthesis_task_output_attributes order S v12)"
  by (simp_all add: polly_attribute_dict_def py_dict_distinct
      delete_lexicon_output_to_dict_def delete_lexicon_output_attributes_def
      describe_voices_output_to_dict_def describe_voices_output_attributes_def
      get_lexicon_output_to_dict_def get_lexicon_output_attributes_def
      get_speech_synthesis_task_output_to_dict_def get_speech_synthesis_task_output_attributes_def
      list_lexicons_output_to_dict_def list_lexicons_output_attributes_def
      list_speech_synthesis_tasks_output_to_dict_def list_speech_synthesis_tasks_output_attributes_def
      put_lexicon_output_to_dict_def put_lexicon_output_attributes_def
      start_speech_synthesis_task_output_to_dict_def start_speech_synthesis_task_output_attributes_def
      polly_lexicon_to_dict_def
      lexicon_attributes_to_dict_def
      lexicon_description_to_dict_def
      synthesis_task_to_dict_def
      voice_to_dict_def)

end
