(* ===== verification/Polly.thy ===== *)
theory Polly
  imports PollyOutputs
begin

text \<open>
  The operations of the Polly client: the methods of \<open>PollyClient\<close> in
  \<open>crates/rboto-polly/src/generated.rs\<close>, each reading its parameters from a dictionary and sending them
  through the shared \<open>execute\<close>, and the methods of the Python client
  (\<open>packages/rboto-polly/python/rboto_polly/client.py\<close>) that build those dictionaries.
\<close>

section \<open>Operations\<close>

subsection \<open>\<open>DeleteLexicon\<close>\<close>

record delete_lexicon_input =
  pdli_name :: "string option"

definition delete_lexicon_params :: "pyo3 \<Rightarrow> polly_types \<Rightarrow> pydict \<Rightarrow>
    delete_lexicon_input pyresult" where
  "delete_lexicon_params P S params =
     and_then (op_param P ''polly'' ''DeleteLexicon'' params ''name'' ''str'' (string_from_py P)) (\<lambda>name.
     Inr \<lparr>pdli_name = name\<rparr>)"

definition delete_lexicon :: "('cfg, 'client) service_env \<Rightarrow> pyo3 \<Rightarrow> polly_types \<Rightarrow> unit pyresult \<Rightarrow> bool \<Rightarrow>
    ('client \<Rightarrow> delete_lexicon_input \<Rightarrow> trip list \<times> (('e, http_response) sdk_error + delete_lexicon_output)) \<Rightarrow>
    'client client_handle \<Rightarrow> pydict \<Rightarrow> pydict option \<Rightarrow>
    (delete_lexicon_output pyresult \<times> 'client client_handle \<times> pydict option) option" where
  "delete_lexicon E P S bridge interrupted send c params observation =
     execute E bridge interrupted send no_details
       ''DeleteLexicon'' (delete_lexicon_params P S params) c observation"

definition delete_lexicon_call :: "delete_lexicon_input \<Rightarrow> pydict" where
  "delete_lexicon_call i = py_params
     [(''name'', opt_to_py PyStr (pdli_name i))]
     []"

subsection \<open>\<open>DescribeVoices\<close>\<close>

record describe_voices_input =
  pdvi_engine :: "string option"
  pdvi_language_code :: "string option"
  pdvi_include_additional_language_codes :: "bool option"
  pdvi_next_token :: "string option"

definition describe_voices_params :: "pyo3 \<Rightarrow> polly_types \<Rightarrow> pydict \<Rightarrow>
    describe_voices_input pyresult" where
  "describe_voices_params P S params =
     and_then (op_param P ''polly'' ''DescribeVoices'' params ''engine'' ''str (Engine)'' (enum_from_py P)) (\<lambda>engine.
     and_then (op_param P ''polly'' ''DescribeVoices'' params ''language_code'' ''str (LanguageCode)'' (enum_from_py P)) (\<lambda>language_code.
     and_then (op_param P ''polly'' ''DescribeVoices'' params ''include_additional_language_codes'' ''bool'' (bool_from_py P)) (\<lambda>include_additional_language_codes.
     and_then (op_param P ''polly'' ''DescribeVoices'' params ''next_token'' ''str'' (string_from_py P)) (\<lambda>next_token.
     Inr \<lparr>pdvi_engine = engine,
       pdvi_language_code = language_code,
       pdvi_include_additional_language_codes = include_additional_language_codes,
       pdvi_next_token = next_token\<rparr>))))"

definition describe_voices :: "('cfg, 'client) service_env \<Rightarrow> pyo3 \<Rightarrow> polly_types \<Rightarrow> unit pyresult \<Rightarrow> bool \<Rightarrow>
    ('client \<Rightarrow> describe_voices_input \<Rightarrow> trip list \<times> (('e, http_response) sdk_error + describe_voices_output)) \<Rightarrow>
    'client client_handle \<Rightarrow> pydict \<Rightarrow> pydict option \<Rightarrow>
    (describe_voices_output pyresult \<times> 'client client_handle \<times> pydict option) option" where
  "describe_voices E P S bridge interrupted send c params observation =
     execute E bridge interrupted send no_details
       ''DescribeVoices'' (describe_voices_params P S params) c observation"

definition describe_voices_call :: "describe_voices_input \<Rightarrow> pydict" where
  "describe_voices_call i = py_params
     []
     [(''engine'', opt_to_py PyStr (pdvi_engine i)),
      (''language_code'', opt_to_py PyStr (pdvi_language_code i)),
      (''include_additional_language_codes'', opt_to_py PyBool (pdvi_include_additional_language_codes i)),
      (''next_token'', opt_to_py PyStr (pdvi_next_token i))]"

subsection \<open>\<open>GetLexicon\<close>\<close>

record get_lexicon_input =
  pgli_name :: "string option"

definition get_lexicon_params :: "pyo3 \<Rightarrow> polly_types \<Rightarrow> pydict \<Rightarrow>
    get_lexicon_input pyresult" where
  "get_lexicon_params P S params =
     and_then (op_param P ''polly'' ''GetLexicon'' params ''name'' ''str'' (string_from_py P)) (\<lambda>name.
     Inr \<lparr>pgli_name = name\<rparr>)"

definition get_lexicon :: "('cfg, 'client) service_env \<Rightarrow> pyo3 \<Rightarrow> polly_types \<Rightarrow> unit pyresult \<Rightarrow> bool \<Rightarrow>
    ('client \<Rightarrow> get_lexicon_input \<Rightarrow> trip list \<times> (('e, http_response) sdk_error + get_lexicon_output)) \<Rightarrow>
    'client client_handle \<Rightarrow> pydict \<Rightarrow> pydict option \<Rightarrow>
    (get_lexicon_output pyresult \<times> 'client client_handle \<times> pydict option) option" where
  "get_lexicon E P S bridge interrupted send c params observation =
     execute E bridge interrupted send no_details
       ''GetLexicon'' (get_lexicon_params P S params) c observation"

definition get_lexicon_call :: "get_lexicon_input \<Rightarrow> pydict" where
  "get_lexicon_call i = py_params
     [(''name'', opt_to_py PyStr (pgli_name i))]
     []"

subsection \<open>\<open>GetSpeechSynthesisTask\<close>\<close>

record get_speech_synthesis_task_input =
  pgssti_task_id :: "string option"

definition get_speech_synthesis_task_params :: "pyo3 \<Rightarrow> polly_types \<Rightarrow> pydict \<Rightarrow>
    get_speech_synthesis_task_input pyresult" where
  "get_speech_synthesis_task_params P S params =
     and_then (op_param P ''polly'' ''GetSpeechSynthesisTask'' params ''task_id'' ''str'' (string_from_py P)) (\<lambda>task_id.
     Inr \<lparr>pgssti_task_id = task_id\<rparr>)"

definition get_speech_synthesis_task :: "('cfg, 'client) service_env \<Rightarrow> pyo3 \<Rightarrow> polly_types \<Rightarrow> unit pyresult \<Rightarrow> bool \<Rightarrow>
    ('client \<Rightarrow> get_speech_synthesis_task_input \<Rightarrow> trip list \<times> (('e, http_response) sdk_error + get_speech_synthesis_task_output)) \<Rightarrow>
    'client client_handle \<Rightarrow> pydict \<Rightarrow> pydict option \<Rightarrow>
    (get_speech_synthesis_task_output pyresult \<times> 'client client_handle \<times> pydict option) option" where
  "get_speech_synthesis_task E P S bridge interrupted send c params observation =
     execute E bridge interrupted send no_details
       ''GetSpeechSynthesisTask'' (get_speech_synthesis_task_params P S params) c observation"

definition get_speech_synthesis_task_call :: "get_speech_synthesis_task_input \<Rightarrow> pydict" where
  "get_speech_synthesis_task_call i = py_params
     [(''task_id'', opt_to_py PyStr (pgssti_task_id i))]
     []"

subsection \<open>\<open>ListLexicons\<close>\<close>

record list_lexicons_input =
  plli_next_token :: "string option"

definition list_lexicons_params :: "pyo3 \<Rightarrow> polly_types \<Rightarrow> pydict \<Rightarrow>
    list_lexicons_input pyresult" where
  "list_lexicons_params P S params =
     and_then (op_param P ''polly'' ''ListLexicons'' params ''next_token'' ''str'' (string_from_py P)) (\<lambda>next_token.
     Inr \<lparr>plli_next_token = next_token\<rparr>)"

definition list_lexicons :: "('cfg, 'client) service_env \<Rightarrow> pyo3 \<Rightarrow> polly_types \<Rightarrow> unit pyresult \<Rightarrow> bool \<Rightarrow>
    ('client \<Rightarrow> list_lexicons_input \<Rightarrow> trip list \<times> (('e, http_response) sdk_error + list_lexicons_output)) \<Rightarrow>
    'client client_handle \<Rightarrow> pydict \<Rightarrow> pydict option \<Rightarrow>
    (list_lexicons_output pyresult \<times> 'client client_handle \<times> pydict option) option" where
  "list_lexicons E P S bridge interrupted send c params observation =
     execute E bridge interrupted send no_details
       ''ListLexicons'' (list_lexicons_params P S params) c observation"

definition list_lexicons_call :: "list_lexicons_input \<Rightarrow> pydict" where
  "list_lexicons_call i = py_params
     []
     [(''next_token'', opt_to_py PyStr (plli_next_token i))]"

subsection \<open>\<open>ListSpeechSynthesisTasks\<close>\<close>

record list_speech_synthesis_tasks_input =
  plssti_max_results :: "32 word option"
  plssti_next_token :: "string option"
  plssti_status :: "string option"

definition list_speech_synthesis_tasks_params :: "pyo3 \<Rightarrow> polly_types \<Rightarrow> pydict \<Rightarrow>
    list_speech_synthesis_tasks_input pyresult" where
  "list_speech_synthesis_tasks_params P S params =
     and_then (op_param P ''polly'' ''ListSpeechSynthesisTasks'' params ''max_results'' ''int'' (i32_from_py P)) (\<lambda>max_results.
     and_then (op_param P ''polly'' ''ListSpeechSynthesisTasks'' params ''next_token'' ''str'' (string_from_py P)) (\<lambda>next_token.
     and_then (op_param P ''polly'' ''ListSpeechSynthesisTasks'' params ''status'' ''str (TaskStatus)'' (enum_from_py P)) (\<lambda>status.
     Inr \<lparr>plssti_max_results = max_results,
       plssti_next_token = next_token,
       plssti_status = status\<rparr>)))"

definition list_speech_synthesis_tasks :: "('cfg, 'client) service_env \<Rightarrow> pyo3 \<Rightarrow> polly_types \<Rightarrow> unit pyresult \<Rightarrow> bool \<Rightarrow>
    ('client \<Rightarrow> list_speech_synthesis_tasks_input \<Rightarrow> trip list \<times> (('e, http_response) sdk_error + list_speech_synthesis_tasks_output)) \<Rightarrow>
    'client client_handle \<Rightarrow> pydict \<Rightarrow> pydict option \<Rightarrow>
    (list_speech_synthesis_tasks_output pyresult \<times> 'client client_handle \<times> pydict option) option" where
  "list_speech_synthesis_tasks E P S bridge interrupted send c params observation =
     execute E bridge interrupted send no_details
       ''ListSpeechSynthesisTasks'' (list_speech_synthesis_tasks_params P S params) c observation"

definition list_speech_synthesis_tasks_call :: "list_speech_synthesis_tasks_input \<Rightarrow> pydict" where
  "list_speech_synthesis_tasks_call i = py_params
     []
     [(''max_results'', opt_to_py i32_to_py (plssti_max_results i)),
      (''next_token'', opt_to_py PyStr (plssti_next_token i)),
      (''status'', opt_to_py PyStr (plssti_status i))]"

subsection \<open>\<open>PutLexicon\<close>\<close>

record put_lexicon_input =
  ppli_name :: "string option"
  ppli_content :: "string option"

definition put_lexicon_params :: "pyo3 \<Rightarrow> polly_types \<Rightarrow> pydict \<Rightarrow>
    put_lexicon_input pyresult" where
  "put_lexicon_params P S params =
     and_then (op_param P ''polly'' ''PutLexicon'' params ''name'' ''str'' (string_from_py P)) (\<lambda>name.
     and_then (op_param P ''polly'' ''PutLexicon'' params ''content'' ''str'' (string_from_py P)) (\<lambda>content.
     Inr \<lparr>ppli_name = name,
       ppli_content = content\<rparr>))"

definition put_lexicon :: "('cfg, 'client) service_env \<Rightarrow> pyo3 \<Rightarrow> polly_types \<Rightarrow> unit pyresult \<Rightarrow> bool \<Rightarrow>
    ('client \<Rightarrow> put_lexicon_input \<Rightarrow> trip list \<times> (('e, http_response) sdk_error + put_lexicon_output)) \<Rightarrow>
    'client client_handle \<Rightarrow> pydict \<Rightarrow> pydict option \<Rightarrow>
    (put_lexicon_output pyresult \<times> 'client client_handle \<times> pydict option) option" where
  "put_lexicon E P S bridge interrupted send c params observation =
     execute E bridge interrupted send no_details
       ''PutLexicon'' (put_lexicon_params P S params) c observation"

definition put_lexicon_call :: "put_lexicon_input \<Rightarrow> pydict" where
  "put_lexicon_call i = py_params
     [(''name'', opt_to_py PyStr (ppli_name i)),
      (''content'', opt_to_py PyStr (ppli_content i))]
     []"

subsection \<open>\<open>StartSpeechSynthesisTask\<close>\<close>

record start_speech_synthesis_task_input =
  psssti_engine :: "string option"
  psssti_language_code :: "string option"
  psssti_lexicon_names :: "string list option"
  psssti_output_format :: "string option"
  psssti_output_s3_bucket_name :: "string option"
  psssti_output_s3_key_prefix :: "string option"
  psssti_sample_rate :: "string option"
  psssti_sns_topic_arn :: "string option"
  psssti_speech_mark_types :: "string list option"
  psssti_text :: "string option"
  psssti_text_type :: "string option"
  psssti_voice_id :: "string option"

definition start_speech_synthesis_task_params_1 :: "pyo3 \<Rightarrow> polly_types \<Rightarrow> pydict \<Rightarrow>
    (string option \<times> string option \<times> string list option \<times> string option \<times> string option \<times> string option) pyresult" where
  "start_speech_synthesis_task_params_1 P S params =
     and_then (op_param P ''polly'' ''StartSpeechSynthesisTask'' params ''engine'' ''str (Engine)'' (enum_from_py P)) (\<lambda>engine.
     and_then (op_param P ''polly'' ''StartSpeechSynthesisTask'' params ''language_code'' ''str (LanguageCode)'' (enum_from_py P)) (\<lambda>language_code.
     and_then (op_param P ''polly'' ''StartSpeechSynthesisTask'' params ''lexicon_names'' ''sequence'' (seq_from_py P ''str'' (string_from_py P))) (\<lambda>lexicon_names.
     and_then (op_param P ''polly'' ''StartSpeechSynthesisTask'' params ''output_format'' ''str (OutputFormat)'' (enum_from_py P)) (\<lambda>output_format.
     and_then (op_param P ''polly'' ''StartSpeechSynthesisTask'' params ''output_s3_bucket_name'' ''str'' (string_from_py P)) (\<lambda>output_s3_bucket_name.
     and_then (op_param P ''polly'' ''StartSpeechSynthesisTask'' params ''output_s3_key_prefix'' ''str'' (string_from_py P)) (\<lambda>output_s3_key_prefix.
     Inr (engine, language_code, lexicon_names, output_format, output_s3_bucket_name, output_s3_key_prefix)))))))"

definition start_speech_synthesis_task_params_2 :: "pyo3 \<Rightarrow> polly_types \<Rightarrow> pydict \<Rightarrow>
    (string option \<times> string option \<times> string list option \<times> string option \<times> string option \<times> string option) pyresult" where
  "start_speech_synthesis_task_params_2 P S params =
     and_then (op_param P ''polly'' ''StartSpeechSynthesisTask'' params ''sample_rate'' ''str'' (string_from_py P)) (\<lambda>sample_rate.
     and_then (op_param P ''polly'' ''StartSpeechSynthesisTask'' params ''sns_topic_arn'' ''str'' (string_from_py P)) (\<lambda>sns_topic_arn.
     and_then (op_param P ''polly'' ''StartSpeechSynthesisTask'' params ''speech_mark_types'' ''sequence'' (seq_from_py P ''str (SpeechMarkType)'' (enum_from_py P))) (\<lambda>speech_mark_types.
     and_then (op_param P ''polly'' ''StartSpeechSynthesisTask'' params ''text'' ''str'' (string_from_py P)) (\<lambda>text.
     and_then (op_param P ''polly'' ''StartSpeechSynthesisTask'' params ''text_type'' ''str (TextType)'' (enum_from_py P)) (\<lambda>text_type.
     and_then (op_param P ''polly'' ''StartSpeechSynthesisTask'' params ''voice_id'' ''str (VoiceId)'' (enum_from_py P)) (\<lambda>voice_id.
     Inr (sample_rate, sns_topic_arn, speech_mark_types, text, text_type, voice_id)))))))"

definition start_speech_synthesis_task_params :: "pyo3 \<Rightarrow> polly_types \<Rightarrow> pydict \<Rightarrow>
    start_speech_synthesis_task_input pyresult" where
  "start_speech_synthesis_task_params P S params =
     and_then (start_speech_synthesis_task_params_1 P S params) (\<lambda>(engine, language_code, lexicon_names, output_format, output_s3_bucket_name, output_s3_key_prefix).
     and_then (start_speech_synthesis_task_params_2 P S params) (\<lambda>(sample_rate, sns_topic_arn, speech_mark_types, text, text_type, voice_id).
     Inr \<lparr>psssti_engine = engine,
       psssti_language_code = language_code,
       psssti_lexicon_names = lexicon_names,
       psssti_output_format = output_format,
       psssti_output_s3_bucket_name = output_s3_bucket_name,
       psssti_output_s3_key_prefix = output_s3_key_prefix,
       psssti_sample_rate = sample_rate,
       psssti_sns_topic_arn = sns_topic_arn,
       psssti_speech_mark_types = speech_mark_types,
       psssti_text = text,
       psssti_text_type = text_type,
       psssti_voice_id = voice_id\<rparr>))"

definition start_speech_synthesis_task :: "('cfg, 'client) service_env \<Rightarrow> pyo3 \<Rightarrow> polly_types \<Rightarrow> unit pyresult \<Rightarrow> bool \<Rightarrow>
    ('client \<Rightarrow> start_speech_synthesis_task_input \<Rightarrow> trip list \<times> (('e, http_response) sdk_error + start_speech_synthesis_task_output)) \<Rightarrow>
    'client client_handle \<Rightarrow> pydict \<Rightarrow> pydict option \<Rightarrow>
    (start_speech_synthesis_task_output pyresult \<times> 'client client_handle \<times> pydict option) option" where
  "start_speech_synthesis_task E P S bridge interrupted send c params observation =
     execute E bridge interrupted send no_details
       ''StartSpeechSynthesisTask'' (start_speech_synthesis_task_params P S params) c observation"

definition start_speech_synthesis_task_call :: "start_speech_synthesis_task_input \<Rightarrow> pydict" where
  "start_speech_synthesis_task_call i = py_params
     [(''output_format'', opt_to_py PyStr (psssti_output_format i)),
      (''output_s3_bucket_name'', opt_to_py PyStr (psssti_output_s3_bucket_name i)),
      (''text'', opt_to_py PyStr (psssti_text i)),
      (''voice_id'', opt_to_py PyStr (psssti_voice_id i))]
     [(''engine'', opt_to_py PyStr (psssti_engine i)),
      (''language_code'', opt_to_py PyStr (psssti_language_code i)),
      (''lexicon_names'', opt_to_py (seq_to_py PyStr) (psssti_lexicon_names i)),
      (''output_s3_key_prefix'', opt_to_py PyStr (psssti_output_s3_key_prefix i)),
      (''sample_rate'', opt_to_py PyStr (psssti_sample_rate i)),
      (''sns_topic_arn'', opt_to_py PyStr (psssti_sns_topic_arn i)),
      (''speech_mark_types'', opt_to_py (seq_to_py PyStr) (psssti_speech_mark_types i)),
      (''text_type'', opt_to_py PyStr (psssti_text_type i))]"

subsection \<open>\<open>SynthesizeSpeech\<close>\<close>

record polly_synthesize_speech_input =
  ppssi_engine :: "string option"
  ppssi_language_code :: "string option"
  ppssi_lexicon_names :: "string list option"
  ppssi_output_format :: "string option"
  ppssi_sample_rate :: "string option"
  ppssi_speech_mark_types :: "string list option"
  ppssi_text :: "string option"
  ppssi_text_type :: "string option"
  ppssi_voice_id :: "string option"

definition polly_synthesize_speech_params_1 :: "pyo3 \<Rightarrow> polly_types \<Rightarrow> pydict \<Rightarrow>
    (string option \<times> string option \<times> string list option \<times> string option \<times> string option) pyresult" where
  "polly_synthesize_speech_params_1 P S params =
     and_then (op_param P ''polly'' ''SynthesizeSpeech'' params ''engine'' ''str (Engine)'' (enum_from_py P)) (\<lambda>engine.
     and_then (op_param P ''polly'' ''SynthesizeSpeech'' params ''language_code'' ''str (LanguageCode)'' (enum_from_py P)) (\<lambda>language_code.
     and_then (op_param P ''polly'' ''SynthesizeSpeech'' params ''lexicon_names'' ''sequence'' (seq_from_py P ''str'' (string_from_py P))) (\<lambda>lexicon_names.
     and_then (op_param P ''polly'' ''SynthesizeSpeech'' params ''output_format'' ''str (OutputFormat)'' (enum_from_py P)) (\<lambda>output_format.
     and_then (op_param P ''polly'' ''SynthesizeSpeech'' params ''sample_rate'' ''str'' (string_from_py P)) (\<lambda>sample_rate.
     Inr (engine, language_code, lexicon_names, output_format, sample_rate))))))"

definition polly_synthesize_speech_params_2 :: "pyo3 \<Rightarrow> polly_types \<Rightarrow> pydict \<Rightarrow>
    (string list option \<times> string option \<times> string option \<times> string option) pyresult" where
  "polly_synthesize_speech_params_2 P S params =
     and_then (op_param P ''polly'' ''SynthesizeSpeech'' params ''speech_mark_types'' ''sequence'' (seq_from_py P ''str (SpeechMarkType)'' (enum_from_py P))) (\<lambda>speech_mark_types.
     and_then (op_param P ''polly'' ''SynthesizeSpeech'' params ''text'' ''str'' (string_from_py P)) (\<lambda>text.
     and_then (op_param P ''polly'' ''SynthesizeSpeech'' params ''text_type'' ''str (TextType)'' (enum_from_py P)) (\<lambda>text_type.
     and_then (op_param P ''polly'' ''SynthesizeSpeech'' params ''voice_id'' ''str (VoiceId)'' (enum_from_py P)) (\<lambda>voice_id.
     Inr (speech_mark_types, text, text_type, voice_id)))))"

definition polly_synthesize_speech_params :: "pyo3 \<Rightarrow> polly_types \<Rightarrow> pydict \<Rightarrow>
    polly_synthesize_speech_input pyresult" where
  "polly_synthesize_speech_params P S params =
     and_then (polly_synthesize_speech_params_1 P S params) (\<lambda>(engine, language_code, lexicon_names, output_format, sample_rate).
     and_then (polly_synthesize_speech_params_2 P S params) (\<lambda>(speech_mark_types, text, text_type, voice_id).
     Inr \<lparr>ppssi_engine = engine,
       ppssi_language_code = language_code,
       ppssi_lexicon_names = lexicon_names,
       ppssi_output_format = output_format,
       ppssi_sample_rate = sample_rate,
       ppssi_speech_mark_types = speech_mark_types,
       ppssi_text = text,
       ppssi_text_type = text_type,
       ppssi_voice_id = voice_id\<rparr>))"

definition polly_synthesize_speech :: "('cfg, 'client) service_env \<Rightarrow> pyo3 \<Rightarrow> polly_types \<Rightarrow> unit pyresult \<Rightarrow> bool \<Rightarrow>
    ('client \<Rightarrow> polly_synthesize_speech_input \<Rightarrow> trip list \<times> (('e, http_response) sdk_error + 's polly_synthesize_speech_output)) \<Rightarrow>
    'client client_handle \<Rightarrow> pydict \<Rightarrow> pydict option \<Rightarrow>
    ('s py_byte_stream polly_synthesize_speech_output pyresult \<times> 'client client_handle \<times> pydict option) option" where
  "polly_synthesize_speech E P S bridge interrupted send c params observation =
     execute E bridge interrupted (with_context ''SynthesizeSpeech'' (observation \<noteq> None) polly_synthesize_speech_output_response send) no_details
       ''SynthesizeSpeech'' (polly_synthesize_speech_params P S params) c observation"

definition polly_synthesize_speech_call :: "polly_synthesize_speech_input \<Rightarrow> pydict" where
  "polly_synthesize_speech_call i = py_params
     [(''output_format'', opt_to_py PyStr (ppssi_output_format i)),
      (''text'', opt_to_py PyStr (ppssi_text i)),
      (''voice_id'', opt_to_py PyStr (ppssi_voice_id i))]
     [(''engine'', opt_to_py PyStr (ppssi_engine i)),
      (''language_code'', opt_to_py PyStr (ppssi_language_code i)),
      (''lexicon_names'', opt_to_py (seq_to_py PyStr) (ppssi_lexicon_names i)),
      (''sample_rate'', opt_to_py PyStr (ppssi_sample_rate i)),
      (''speech_mark_types'', opt_to_py (seq_to_py PyStr) (ppssi_speech_mark_types i)),
      (''text_type'', opt_to_py PyStr (ppssi_text_type i))]"

section \<open>Parameters arrive\<close>

context polly_conversions
begin

lemma delete_lexicon_delivered: "delete_lexicon_params P S (delete_lexicon_call i) = Inr i"
proof -
  have s: "str_keys (delete_lexicon_call i)" by (simp add: delete_lexicon_call_def)
  have a: "argument (delete_lexicon_call i) ''name'' = opt_to_py PyStr (pdli_name i)"
    unfolding delete_lexicon_call_def by (simp_all add: argument_py_params)
  show ?thesis
    unfolding delete_lexicon_params_def
    by (simp add: param_reads [OF reads_str s a])
qed

lemma describe_voices_delivered: "describe_voices_params P S (describe_voices_call i) = Inr i"
proof -
  have s: "str_keys (describe_voices_call i)" by (simp add: describe_voices_call_def)
  note p = arguments [OF describe_voices_call_def [of i], simplified]
  have a: "argument (describe_voices_call i) ''engine'' = opt_to_py PyStr (pdvi_engine i)"
    "argument (describe_voices_call i) ''language_code'' = opt_to_py PyStr (pdvi_language_code i)"
    "argument (describe_voices_call i) ''include_additional_language_codes'' = opt_to_py PyBool (pdvi_include_additional_language_codes i)"
    "argument (describe_voices_call i) ''next_token'' = opt_to_py PyStr (pdvi_next_token i)"
    by (simp_all only: p)
  show ?thesis
    unfolding describe_voices_params_def
    by (simp add: param_reads [OF reads_enum s a(1)]
        param_reads [OF reads_enum s a(2)]
        param_reads [OF reads_bool s a(3)]
        param_reads [OF reads_str s a(4)])
qed

lemma get_lexicon_delivered: "get_lexicon_params P S (get_lexicon_call i) = Inr i"
proof -
  have s: "str_keys (get_lexicon_call i)" by (simp add: get_lexicon_call_def)
  have a: "argument (get_lexicon_call i) ''name'' = opt_to_py PyStr (pgli_name i)"
    unfolding get_lexicon_call_def by (simp_all add: argument_py_params)
  show ?thesis
    unfolding get_lexicon_params_def
    by (simp add: param_reads [OF reads_str s a])
qed

lemma get_speech_synthesis_task_delivered: "get_speech_synthesis_task_params P S (get_speech_synthesis_task_call i) = Inr i"
proof -
  have s: "str_keys (get_speech_synthesis_task_call i)" by (simp add: get_speech_synthesis_task_call_def)
  have a: "argument (get_speech_synthesis_task_call i) ''task_id'' = opt_to_py PyStr (pgssti_task_id i)"
    unfolding get_speech_synthesis_task_call_def by (simp_all add: argument_py_params)
  show ?thesis
    unfolding get_speech_synthesis_task_params_def
    by (simp add: param_reads [OF reads_str s a])
qed

lemma list_lexicons_delivered: "list_lexicons_params P S (list_lexicons_call i) = Inr i"
proof -
  have s: "str_keys (list_lexicons_call i)" by (simp add: list_lexicons_call_def)
  have a: "argument (list_lexicons_call i) ''next_token'' = opt_to_py PyStr (plli_next_token i)"
    unfolding list_lexicons_call_def by (simp_all add: argument_py_params)
  show ?thesis
    unfolding list_lexicons_params_def
    by (simp add: param_reads [OF reads_str s a])
qed

lemma list_speech_synthesis_tasks_delivered: "list_speech_synthesis_tasks_params P S (list_speech_synthesis_tasks_call i) = Inr i"
proof -
  have s: "str_keys (list_speech_synthesis_tasks_call i)" by (simp add: list_speech_synthesis_tasks_call_def)
  note p = arguments [OF list_speech_synthesis_tasks_call_def [of i], simplified]
  have a: "argument (list_speech_synthesis_tasks_call i) ''max_results'' = opt_to_py i32_to_py (plssti_max_results i)"
    "argument (list_speech_synthesis_tasks_call i) ''next_token'' = opt_to_py PyStr (plssti_next_token i)"
    "argument (list_speech_synthesis_tasks_call i) ''status'' = opt_to_py PyStr (plssti_status i)"
    by (simp_all only: p)
  show ?thesis
    unfolding list_speech_synthesis_tasks_params_def
    by (simp add: param_reads [OF reads_i32 s a(1)]
        param_reads [OF reads_str s a(2)]
        param_reads [OF reads_enum s a(3)])
qed

lemma put_lexicon_delivered: "put_lexicon_params P S (put_lexicon_call i) = Inr i"
proof -
  have s: "str_keys (put_lexicon_call i)" by (simp add: put_lexicon_call_def)
  have a: "argument (put_lexicon_call i) ''name'' = opt_to_py PyStr (ppli_name i)"
    "argument (put_lexicon_call i) ''content'' = opt_to_py PyStr (ppli_content i)"
    unfolding put_lexicon_call_def by (simp_all add: argument_py_params)
  show ?thesis
    unfolding put_lexicon_params_def
    by (simp add: param_reads [OF reads_str s a(1)]
        param_reads [OF reads_str s a(2)])
qed

lemma start_speech_synthesis_task_delivered: "start_speech_synthesis_task_params P S (start_speech_synthesis_task_call i) = Inr i"
proof -
  have s: "str_keys (start_speech_synthesis_task_call i)" by (simp add: start_speech_synthesis_task_call_def)
  note p = arguments [OF start_speech_synthesis_task_call_def [of i], simplified]
  have a: "argument (start_speech_synthesis_task_call i) ''engine'' = opt_to_py PyStr (psssti_engine i)"
    "argument (start_speech_synthesis_task_call i) ''language_code'' = opt_to_py PyStr (psssti_language_code i)"
    "argument (start_speech_synthesis_task_call i) ''lexicon_names'' = opt_to_py (seq_to_py PyStr) (psssti_lexicon_names i)"
    "argument (start_speech_synthesis_task_call i) ''output_format'' = opt_to_py PyStr (psssti_output_format i)"
    "argument (start_speech_synthesis_task_call i) ''output_s3_bucket_name'' = opt_to_py PyStr (psssti_output_s3_bucket_name i)"
    "argument (start_speech_synthesis_task_call i) ''output_s3_key_prefix'' = opt_to_py PyStr (psssti_output_s3_key_prefix i)"
    "argument (start_speech_synthesis_task_call i) ''sample_rate'' = opt_to_py PyStr (psssti_sample_rate i)"
    "argument (start_speech_synthesis_task_call i) ''sns_topic_arn'' = opt_to_py PyStr (psssti_sns_topic_arn i)"
    "argument (start_speech_synthesis_task_call i) ''speech_mark_types'' = opt_to_py (seq_to_py PyStr) (psssti_speech_mark_types i)"
    "argument (start_speech_synthesis_task_call i) ''text'' = opt_to_py PyStr (psssti_text i)"
    "argument (start_speech_synthesis_task_call i) ''text_type'' = opt_to_py PyStr (psssti_text_type i)"
    "argument (start_speech_synthesis_task_call i) ''voice_id'' = opt_to_py PyStr (psssti_voice_id i)"
    by (simp_all only: p)
  show ?thesis
    unfolding start_speech_synthesis_task_params_def start_speech_synthesis_task_params_1_def start_speech_synthesis_task_params_2_def
    by (simp add: param_reads [OF reads_enum s a(1)]
        param_reads [OF reads_enum s a(2)]
        param_reads [OF reads_seq [OF reads_str] s a(3)]
        param_reads [OF reads_enum s a(4)]
        param_reads [OF reads_str s a(5)]
        param_reads [OF reads_str s a(6)]
        param_reads [OF reads_str s a(7)]
        param_reads [OF reads_str s a(8)]
        param_reads [OF reads_seq [OF reads_enum] s a(9)]
        param_reads [OF reads_str s a(10)]
        param_reads [OF reads_enum s a(11)]
        param_reads [OF reads_enum s a(12)])
qed

lemma polly_synthesize_speech_delivered: "polly_synthesize_speech_params P S (polly_synthesize_speech_call i) = Inr i"
proof -
  have s: "str_keys (polly_synthesize_speech_call i)" by (simp add: polly_synthesize_speech_call_def)
  note p = arguments [OF polly_synthesize_speech_call_def [of i], simplified]
  have a: "argument (polly_synthesize_speech_call i) ''engine'' = opt_to_py PyStr (ppssi_engine i)"
    "argument (polly_synthesize_speech_call i) ''language_code'' = opt_to_py PyStr (ppssi_language_code i)"
    "argument (polly_synthesize_speech_call i) ''lexicon_names'' = opt_to_py (seq_to_py PyStr) (ppssi_lexicon_names i)"
    "argument (polly_synthesize_speech_call i) ''output_format'' = opt_to_py PyStr (ppssi_output_format i)"
    "argument (polly_synthesize_speech_call i) ''sample_rate'' = opt_to_py PyStr (ppssi_sample_rate i)"
    "argument (polly_synthesize_speech_call i) ''speech_mark_types'' = opt_to_py (seq_to_py PyStr) (ppssi_speech_mark_types i)"
    "argument (polly_synthesize_speech_call i) ''text'' = opt_to_py PyStr (ppssi_text i)"
    "argument (polly_synthesize_speech_call i) ''text_type'' = opt_to_py PyStr (ppssi_text_type i)"
    "argument (polly_synthesize_speech_call i) ''voice_id'' = opt_to_py PyStr (ppssi_voice_id i)"
    by (simp_all only: p)
  show ?thesis
    unfolding polly_synthesize_speech_params_def polly_synthesize_speech_params_1_def polly_synthesize_speech_params_2_def
    by (simp add: param_reads [OF reads_enum s a(1)]
        param_reads [OF reads_enum s a(2)]
        param_reads [OF reads_seq [OF reads_str] s a(3)]
        param_reads [OF reads_enum s a(4)]
        param_reads [OF reads_str s a(5)]
        param_reads [OF reads_seq [OF reads_enum] s a(6)]
        param_reads [OF reads_str s a(7)]
        param_reads [OF reads_enum s a(8)]
        param_reads [OF reads_enum s a(9)])
qed

end

end
