(* ===== verification/PollyStreams.thy ===== *)
theory PollyStreams
  imports Polly Receiver
begin

text \<open>
  \<open>StartSpeechSynthesisStream\<close> of \<open>crates/rboto-polly/src/generated.rs\<close>, a conversation in events:
  the text the application gives, and the audio it hears, with the details of the errors it models.
\<close>

section \<open>Errors with details\<close>

record service_quota_exceeded_exception =
  sqx_quota_code :: string
  sqx_service_code :: string

record throttling_exception =
  thx_throttling_reasons :: "throttling_reason list option"

record validation_exception =
  vax_reason :: string
  vax_fields :: "validation_exception_field list option"

definition service_quota_exceeded_exception_details :: "service_quota_exceeded_exception \<Rightarrow> pydict" where
  "service_quota_exceeded_exception_details value = details_of
     [(''quota_code'', Some (PyStr (sqx_quota_code value))),
      (''service_code'', Some (PyStr (sqx_service_code value)))]"

definition throttling_exception_details :: "throttling_exception \<Rightarrow> pydict" where
  "throttling_exception_details value = details_of
     [(''throttling_reasons'', map_option (seq_to_py throttling_reason_to_py) (thx_throttling_reasons value))]"

definition validation_exception_details :: "validation_exception \<Rightarrow> pydict" where
  "validation_exception_details value = details_of
     [(''reason'', Some (PyStr (vax_reason value))),
      (''fields'', map_option (seq_to_py validation_exception_field_to_py) (vax_fields value))]"

text \<open>The errors of the operation that have details, and those of its stream of events.\<close>

datatype start_speech_synthesis_stream_error =
    StartServiceQuotaExceeded service_quota_exceeded_exception
  | StartThrottling throttling_exception
  | StartValidation validation_exception
  | StartOther

datatype speech_event_error =
    SpeechValidation validation_exception
  | SpeechServiceQuotaExceeded service_quota_exceeded_exception
  | SpeechServiceFailure
  | SpeechThrottling throttling_exception
  | SpeechOther

datatype speech_action_error = ActionUnhandled pyerr

definition start_speech_synthesis_stream_error_details :: "start_speech_synthesis_stream_error \<Rightarrow> pydict pyresult" where
  "start_speech_synthesis_stream_error_details e = Inr (case e of
     StartServiceQuotaExceeded value \<Rightarrow> service_quota_exceeded_exception_details value
   | StartThrottling value \<Rightarrow> throttling_exception_details value
   | StartValidation value \<Rightarrow> validation_exception_details value
   | StartOther \<Rightarrow> [])"

definition speech_event_error_details :: "speech_event_error \<Rightarrow> pydict pyresult" where
  "speech_event_error_details e = Inr (case e of
     SpeechValidation value \<Rightarrow> validation_exception_details value
   | SpeechServiceQuotaExceeded value \<Rightarrow> service_quota_exceeded_exception_details value
   | SpeechThrottling value \<Rightarrow> throttling_exception_details value
   | _ \<Rightarrow> [])"

text \<open>The code of an event error the wire named by its type only.\<close>

definition speech_event_code :: "speech_event_error service_error \<Rightarrow> string option" where
  "speech_event_code e = (case svc_shape e of
     SpeechValidation value \<Rightarrow> Some ''ValidationException''
   | SpeechServiceQuotaExceeded value \<Rightarrow> Some ''ServiceQuotaExceededException''
   | SpeechServiceFailure \<Rightarrow> Some ''ServiceFailureException''
   | SpeechThrottling value \<Rightarrow> Some ''ThrottlingException''
   | SpeechOther \<Rightarrow> None)"

section \<open>\<open>StartSpeechSynthesisStream\<close>\<close>

record 'b start_speech_synthesis_stream_input =
  pstream_engine :: "string option"
  pstream_language_code :: "string option"
  pstream_lexicon_names :: "string list option"
  pstream_output_format :: "string option"
  pstream_sample_rate :: "string option"
  pstream_voice_id :: "string option"
  pstream_action_stream :: "'b iter_state stop_state option"

text \<open>What the SDK polls while it sends.\<close>

definition action_stream_poll :: "pyo3 \<Rightarrow> polly_types \<Rightarrow> 'b producer \<Rightarrow> 'b iter_state stop_state \<Rightarrow>
    (speech_action_error + start_speech_synthesis_stream_action_stream) option poll \<times> 'b iter_state stop_state" where
  "action_stream_poll P S Y =
     poll_event_stream Y (start_speech_synthesis_stream_action_stream_from_py P S) ActionUnhandled"

definition start_speech_synthesis_stream_params_1 :: "pyo3 \<Rightarrow> pydict \<Rightarrow>
    (string option \<times> string option \<times> string list option \<times> string option) pyresult" where
  "start_speech_synthesis_stream_params_1 P params =
     and_then (op_param P ''polly'' ''StartSpeechSynthesisStream'' params ''engine'' ''str (Engine)'' (enum_from_py P))
       (\<lambda>engine.
     and_then (op_param P ''polly'' ''StartSpeechSynthesisStream'' params ''language_code'' ''str (LanguageCode)'' (enum_from_py P))
       (\<lambda>language_code.
     and_then (op_param P ''polly'' ''StartSpeechSynthesisStream'' params ''lexicon_names'' ''sequence''
         (seq_from_py P ''str'' (string_from_py P)))
       (\<lambda>lexicon_names.
     and_then (op_param P ''polly'' ''StartSpeechSynthesisStream'' params ''output_format'' ''str (OutputFormat)'' (enum_from_py P))
       (\<lambda>output_format.
     Inr (engine, language_code, lexicon_names, output_format)))))"

definition start_speech_synthesis_stream_params :: "pyo3 \<Rightarrow> (pyval \<Rightarrow> 'b pyresult) \<Rightarrow> pydict \<Rightarrow>
    'b start_speech_synthesis_stream_input pyresult" where
  "start_speech_synthesis_stream_params P aiter params =
     and_then (start_speech_synthesis_stream_params_1 P params)
       (\<lambda>(engine, language_code, lexicon_names, output_format).
     and_then (op_param P ''polly'' ''StartSpeechSynthesisStream'' params ''sample_rate'' ''str'' (string_from_py P))
       (\<lambda>sample_rate.
     and_then (op_param P ''polly'' ''StartSpeechSynthesisStream'' params ''voice_id'' ''str (VoiceId)'' (enum_from_py P))
       (\<lambda>voice_id.
     and_then (op_param P ''polly'' ''StartSpeechSynthesisStream'' params ''action_stream'' ''async iterator''
         (python_event_stream aiter))
       (\<lambda>action_stream.
     Inr \<lparr>pstream_engine = engine, pstream_language_code = language_code,
       pstream_lexicon_names = lexicon_names, pstream_output_format = output_format,
       pstream_sample_rate = sample_rate, pstream_voice_id = voice_id,
       pstream_action_stream = action_stream\<rparr>))))"

text \<open>The dictionary the caller gets has one entry, the receiver.\<close>

record 's speech_response =
  sr_event_stream :: "'s event_receiver"

definition start_speech_synthesis_stream :: "('cfg, 'client) service_env \<Rightarrow> pyo3 \<Rightarrow> (pyval \<Rightarrow> 'b pyresult) \<Rightarrow>
    unit pyresult \<Rightarrow> bool \<Rightarrow>
    ('client \<Rightarrow> 'b start_speech_synthesis_stream_input \<Rightarrow>
      trip list \<times> ((start_speech_synthesis_stream_error, http_response) sdk_error + 's)) \<Rightarrow>
    'client client_handle \<Rightarrow> pydict \<Rightarrow> pydict option \<Rightarrow>
    ('s speech_response pyresult \<times> 'client client_handle \<times> pydict option) option" where
  "start_speech_synthesis_stream E P aiter bridge interrupted send c params observation =
     execute E bridge interrupted
       (with_context ''StartSpeechSynthesisStream'' (observation \<noteq> None)
          (\<lambda>context stream. \<lparr>sr_event_stream = new_receiver stream context\<rparr>) send)
       start_speech_synthesis_stream_error_details ''StartSpeechSynthesisStream''
       (start_speech_synthesis_stream_params P aiter params) c observation"

text \<open>\<open>__anext__\<close> of its receiver.\<close>

definition speech_event_anext :: "('cfg, 'client) service_env \<Rightarrow>
    ('s, start_speech_synthesis_stream_event_stream, speech_event_error, 'r) receiver_api \<Rightarrow> bool \<Rightarrow>
    's event_receiver \<Rightarrow> pyval pyresult \<times> 's event_receiver" where
  "speech_event_anext E A =
     receiver_anext E A start_speech_synthesis_stream_event_stream_to_py speech_event_error_details speech_event_code"

text \<open>The Python method; \<open>action_stream\<close> is the application's iterator, or \<open>None\<close>.\<close>

definition start_speech_synthesis_stream_call ::
    "'b start_speech_synthesis_stream_input \<Rightarrow> pyval \<Rightarrow> pydict" where
  "start_speech_synthesis_stream_call i action_stream = py_params
     [(''engine'', opt_to_py PyStr (pstream_engine i)),
      (''output_format'', opt_to_py PyStr (pstream_output_format i)),
      (''voice_id'', opt_to_py PyStr (pstream_voice_id i))]
     [(''language_code'', opt_to_py PyStr (pstream_language_code i)),
      (''lexicon_names'', opt_to_py (seq_to_py PyStr) (pstream_lexicon_names i)),
      (''sample_rate'', opt_to_py PyStr (pstream_sample_rate i)),
      (''action_stream'', action_stream)]"

section \<open>Properties\<close>

text \<open>The audio of an event, and what an application takes from the dictionary of one.\<close>

definition spoken :: "start_speech_synthesis_stream_event_stream \<Rightarrow> byte list" where
  "spoken e = (case e of EventAudioEvent a \<Rightarrow> unwrap_or [] (pae_audio_chunk a) | _ \<Rightarrow> [])"

definition heard :: "pyval pyresult \<Rightarrow> byte list" where
  "heard answer =
     (case answer of
        Inr event \<Rightarrow> (case entry ''audio_chunk'' (entry ''audio_event'' event) of PyBytes chunk \<Rightarrow> chunk | _ \<Rightarrow> [])
      | Inl e \<Rightarrow> [])"

lemma heard_event: "heard (Inr (start_speech_synthesis_stream_event_stream_to_py e)) = spoken e"
  by (cases e) (auto simp: heard_def spoken_def start_speech_synthesis_stream_event_stream_to_py_def
      argument_def audio_event_to_py_def py_dict_distinct unwrap_or_def split: option.splits)

lemma heard_error [simp]: "heard (Inl e) = []"
  by (simp add: heard_def)

lemma start_speech_synthesis_stream_delivered:
  assumes "pyo3_laws P" and "text \<noteq> PyNone" and "aiter text = Inr a"
    and "pstream_action_stream i = Some (stop_after_error (python_async_iterator a))"
  shows "start_speech_synthesis_stream_params P aiter (start_speech_synthesis_stream_call i text) = Inr i"
proof -
  let ?d = "start_speech_synthesis_stream_call i text"
  note params = pyo3_laws.param_reads [OF assms(1)]
    and str = pyo3_laws.reads_str [OF assms(1)] and enum = pyo3_laws.reads_enum [OF assms(1)]
  have s: "str_keys ?d" by (simp add: start_speech_synthesis_stream_call_def)
  have a: "argument ?d ''engine'' = opt_to_py PyStr (pstream_engine i)"
    "argument ?d ''language_code'' = opt_to_py PyStr (pstream_language_code i)"
    "argument ?d ''lexicon_names'' = opt_to_py (seq_to_py PyStr) (pstream_lexicon_names i)"
    "argument ?d ''output_format'' = opt_to_py PyStr (pstream_output_format i)"
    "argument ?d ''sample_rate'' = opt_to_py PyStr (pstream_sample_rate i)"
    "argument ?d ''voice_id'' = opt_to_py PyStr (pstream_voice_id i)"
    "argument ?d ''action_stream'' = opt_to_py (\<lambda>_. text) (pstream_action_stream i)"
    unfolding start_speech_synthesis_stream_call_def by (simp_all add: argument_py_params assms(4))
  have "op_param P ''polly'' ''StartSpeechSynthesisStream'' ?d ''action_stream'' ''async iterator''
      (python_event_stream aiter) = Inr (pstream_action_stream i)"
    by (rule pyo3_laws.op_param_argument [OF assms(1) s a(7)])
      (use assms(2-4) in \<open>auto simp: python_event_stream_def\<close>)
  then show ?thesis
    by (simp add: start_speech_synthesis_stream_params_def start_speech_synthesis_stream_params_1_def
        params [OF enum s a(1)] params [OF enum s a(2)]
        params [OF pyo3_laws.reads_seq [OF assms(1) str] s a(3)] params [OF enum s a(4)]
        params [OF str s a(5)] params [OF enum s a(6)])
qed

text \<open>
  C34: the application hears what Polly says. A conversation started with a text iterator sends the
  SDK exactly the arguments and, as its action stream, the iterator with nothing taken from it yet.
  The receiver the application gets back yields, in \<open>n\<close> iterations, exactly the audio of the first
  events of the SDK's sequence, byte for byte, and where that sequence fails raises the mapped
  exception, under the operation's name and with the metadata of its attempts.
\<close>

theorem speech_is_heard:
  assumes "pyo3_laws P" and "text \<noteq> PyNone" and "aiter text = Inr a"
    and "pstream_action_stream i = Some (stop_after_error (python_async_iterator a))"
    and "\<not> ch_closed c" and "get_client E (ch_state c) = Some (Inr client, st)"
    and "send client i = (attempts, Inr stream)"
    and "sdk_events A n stream = (events, outcome, stream')"
    and "context = \<lparr>ctx_op = ''StartSpeechSynthesisStream'',
           ctx_metadata = response_metadata (run_operation (observation \<noteq> None) attempts)\<rparr>"
  shows "\<exists>r published answers b.
      start_speech_synthesis_stream E P aiter (Inr ()) False send c
        (start_speech_synthesis_stream_call i text) observation = Some (Inr r, c\<lparr>ch_state := st\<rparr>, published)
    \<and> receiver_answers E A start_speech_synthesis_stream_event_stream_to_py speech_event_error_details
        speech_event_code n (sr_event_stream r) = (answers, b)
    \<and> concat (map heard answers) = concat (map spoken events)
    \<and> (\<forall>e. outcome = Some (Some e) \<longrightarrow> answers ! length events =
          Inl (last_answer E speech_event_error_details speech_event_code context (Some e)))"
proof -
  let ?op = "''StartSpeechSynthesisStream''"
  let ?build = "\<lambda>context stream. \<lparr>sr_event_stream = new_receiver stream context\<rparr>"
  let ?r = "\<lparr>sr_event_stream = new_receiver stream context\<rparr>"
  have send: "with_context ?op (observation \<noteq> None) ?build send client i = (attempts, Inr ?r)"
    by (simp add: with_context_def assms(7,9))
  note params = start_speech_synthesis_stream_delivered [where aiter = aiter and a = a and i = i,
      OF assms(1-4)]
  have run: "start_speech_synthesis_stream E P aiter (Inr ()) False send c
      (start_speech_synthesis_stream_call i text) observation =
      Some (Inr ?r, c\<lparr>ch_state := st\<rparr>,
        map_option (publish (run_operation (observation \<noteq> None) attempts) (se_region E client)) observation)"
    unfolding start_speech_synthesis_stream_def params
    by (subst execute_open [where send = "with_context ?op (observation \<noteq> None) ?build send", OF assms(5,6) send]) simp
  define answers where "answers = map (\<lambda>e. Inr (start_speech_synthesis_stream_event_stream_to_py e)) events @
      (case outcome of None \<Rightarrow> []
       | Some err \<Rightarrow> Inl (last_answer E speech_event_error_details speech_event_code context err) #
           replicate (n - length events - 1) (Inl stop_async_iteration))"
  have "fst (receiver_answers E A start_speech_synthesis_stream_event_stream_to_py speech_event_error_details
      speech_event_code n (sr_event_stream ?r)) = answers"
    by (simp add: receiver_answers_open [OF _ _ assms(8)] new_receiver_def answers_def cong: option.case_cong)
  moreover have "concat (map heard answers) = concat (map spoken events)"
    by (auto simp: answers_def heard_event comp_def split: option.splits)
  moreover have "answers ! length events = Inl (last_answer E speech_event_error_details speech_event_code context (Some e))"
    if "outcome = Some (Some e)" for e
    by (simp add: answers_def nth_append that)
  ultimately show ?thesis using run
    by (metis prod.collapse speech_response.select_convs(1))
qed

definition example_speech :: "nat start_speech_synthesis_stream_input" where
  "example_speech =
     \<lparr>pstream_engine = Some ''neural'', pstream_language_code = None, pstream_lexicon_names = None,
      pstream_output_format = Some ''pcm'', pstream_sample_rate = None, pstream_voice_id = Some ''Joanna'',
      pstream_action_stream = Some (stop_after_error (python_async_iterator 7))\<rparr>"

definition example_speech_events ::
    "((speech_event_error, unit) sdk_error + start_speech_synthesis_stream_event_stream option) list" where
  "example_speech_events =
     [Inr (Some (EventAudioEvent \<lparr>pae_audio_chunk = Some [1, 2]\<rparr>)),
      Inr (Some (EventAudioEvent \<lparr>pae_audio_chunk = Some [3]\<rparr>)), Inl (TimeoutError [])]"

theorem speech_is_heard_witness:
  "\<exists>r published answers b.
      start_speech_synthesis_stream example_env pyo3_std (\<lambda>v. Inr (7::nat)) (Inr ()) False
        (\<lambda>client i. ([], Inr example_speech_events))
        example_client (start_speech_synthesis_stream_call example_speech (PyObject ''text'' 1)) None =
          Some (Inr r, example_client\<lparr>ch_state := (ch_state example_client)\<lparr>cs_client := Some 5\<rparr>\<rparr>, published)
    \<and> receiver_answers example_env \<lparr>recv = list_receiver\<rparr> start_speech_synthesis_stream_event_stream_to_py
        speech_event_error_details speech_event_code 3 (sr_event_stream r) = (answers, b)
    \<and> concat (map heard answers) = [1, 2, 3]"
proof -
  let ?text = "PyObject ''text'' 1"
  have g: "get_client example_env (ch_state example_client) =
      Some (Inr 5, (ch_state example_client)\<lparr>cs_client := Some 5\<rparr>)"
    by (simp add: get_client_def example_env_def example_client_def)
  have e: "sdk_events \<lparr>recv = list_receiver\<rparr> 3 example_speech_events =
      ([EventAudioEvent \<lparr>pae_audio_chunk = Some [1, 2]\<rparr>, EventAudioEvent \<lparr>pae_audio_chunk = Some [3]\<rparr>],
       Some (Some (TimeoutError [])), [])"
    by (simp add: numeral_eq_Suc list_receiver_def example_speech_events_def)
  have o: "\<not> ch_closed example_client" by (simp add: example_client_def)
  have i: "pstream_action_stream example_speech = Some (stop_after_error (python_async_iterator 7))"
    by (simp add: example_speech_def)
  have t: "?text \<noteq> PyNone" by simp
  from speech_is_heard [where aiter = "\<lambda>v. Inr (7::nat)" and observation = None
      and send = "\<lambda>client i. ([], Inr example_speech_events)", OF std.pyo3_laws_axioms t refl i o g refl e refl]
  obtain r published answers b where
    "start_speech_synthesis_stream example_env pyo3_std (\<lambda>v. Inr (7::nat)) (Inr ()) False
        (\<lambda>client i. ([], Inr example_speech_events)) example_client
        (start_speech_synthesis_stream_call example_speech ?text) None =
          Some (Inr r, example_client\<lparr>ch_state := (ch_state example_client)\<lparr>cs_client := Some 5\<rparr>\<rparr>, published)"
    and "receiver_answers example_env \<lparr>recv = list_receiver\<rparr> start_speech_synthesis_stream_event_stream_to_py
        speech_event_error_details speech_event_code 3 (sr_event_stream r) = (answers, b)"
    and "concat (map heard answers) = concat (map spoken
        [EventAudioEvent \<lparr>pae_audio_chunk = Some [1, 2]\<rparr>, EventAudioEvent \<lparr>pae_audio_chunk = Some [3]\<rparr>])"
    by (elim exE conjE)
  moreover from this(3) have "concat (map heard answers) = [1, 2, 3]"
    by (simp add: spoken_def unwrap_or_def)
  ultimately show ?thesis by blast
qed

end
