(* ===== verification/S3Types.thy ===== *)
theory S3Types
  imports Bodies
begin

text \<open>
  The structures of the S3 extension, from \<open>crates/rboto-s3/src/generated.rs\<close>: the converters
  between Python dictionaries and the SDK's structures, which are records with the members the code
  reads and sets. An enum of the SDK is its text, and \<open>order\<close> is the order in which the iterator of
  a \<open>HashMap\<close> yields its entries. The builders belong to the SDK and are the record \<open>s3_types\<close>.
\<close>

section \<open>Structures\<close>

record common_prefix =
  kcp_prefix :: "string option"

record completed_part =
  kcp2_e_tag :: "string option"
  kcp2_checksum_crc32 :: "string option"
  kcp2_checksum_crc32_c :: "string option"
  kcp2_checksum_crc64_nvme :: "string option"
  kcp2_checksum_sha1 :: "string option"
  kcp2_checksum_sha256 :: "string option"
  kcp2_checksum_sha512 :: "string option"
  kcp2_checksum_md5 :: "string option"
  kcp2_checksum_xxhash64 :: "string option"
  kcp2_checksum_xxhash3 :: "string option"
  kcp2_checksum_xxhash128 :: "string option"
  kcp2_part_number :: "32 word option"

record completed_multipart_upload =
  kcmu_parts :: "completed_part list option"

record copy_object_result =
  kcor_e_tag :: "string option"
  kcor_last_modified :: "datetime option"
  kcor_checksum_type :: "string option"
  kcor_checksum_crc32 :: "string option"
  kcor_checksum_crc32_c :: "string option"
  kcor_checksum_crc64_nvme :: "string option"
  kcor_checksum_sha1 :: "string option"
  kcor_checksum_sha256 :: "string option"
  kcor_checksum_sha512 :: "string option"
  kcor_checksum_md5 :: "string option"
  kcor_checksum_xxhash64 :: "string option"
  kcor_checksum_xxhash3 :: "string option"
  kcor_checksum_xxhash128 :: "string option"

record object_identifier =
  koi_key :: string
  koi_version_id :: "string option"
  koi_e_tag :: "string option"
  koi_last_modified_time :: "datetime option"
  koi_size :: "64 word option"

record s3_delete =
  kd_objects :: "object_identifier list"
  kd_quiet :: "bool option"

record deleted_object =
  kdo_key :: "string option"
  kdo_version_id :: "string option"
  kdo_delete_marker :: "bool option"
  kdo_delete_marker_version_id :: "string option"

record s3_error =
  ke_key :: "string option"
  ke_version_id :: "string option"
  ke_code :: "string option"
  ke_message :: "string option"

record initiator =
  ki_id :: "string option"
  ki_display_name :: "string option"

record s3_owner =
  ko_display_name :: "string option"
  ko_id :: "string option"

record restore_status =
  krs_is_restore_in_progress :: "bool option"
  krs_restore_expiry_date :: "datetime option"

record stored_object =
  ko2_key :: "string option"
  ko2_last_modified :: "datetime option"
  ko2_e_tag :: "string option"
  ko2_checksum_algorithm :: "string list option"
  ko2_checksum_type :: "string option"
  ko2_size :: "64 word option"
  ko2_storage_class :: "string option"
  ko2_owner :: "s3_owner option"
  ko2_restore_status :: "restore_status option"

record s3_part =
  kp_part_number :: "32 word option"
  kp_last_modified :: "datetime option"
  kp_e_tag :: "string option"
  kp_size :: "64 word option"
  kp_checksum_crc32 :: "string option"
  kp_checksum_crc32_c :: "string option"
  kp_checksum_crc64_nvme :: "string option"
  kp_checksum_sha1 :: "string option"
  kp_checksum_sha256 :: "string option"
  kp_checksum_sha512 :: "string option"
  kp_checksum_md5 :: "string option"
  kp_checksum_xxhash64 :: "string option"
  kp_checksum_xxhash3 :: "string option"
  kp_checksum_xxhash128 :: "string option"

record s3_types = smithy_dates +
  build_common_prefix :: "string option \<Rightarrow> common_prefix"
  build_completed_part :: "string option \<Rightarrow> string option \<Rightarrow> string option \<Rightarrow> string option \<Rightarrow> string option \<Rightarrow> string option \<Rightarrow> string option \<Rightarrow> string option \<Rightarrow> string option \<Rightarrow> string option \<Rightarrow> string option \<Rightarrow> 32 word option \<Rightarrow> completed_part"
  build_completed_multipart_upload :: "completed_part list option \<Rightarrow> completed_multipart_upload"
  build_copy_object_result :: "string option \<Rightarrow> datetime option \<Rightarrow> string option \<Rightarrow> string option \<Rightarrow> string option \<Rightarrow> string option \<Rightarrow> string option \<Rightarrow> string option \<Rightarrow> string option \<Rightarrow> string option \<Rightarrow> string option \<Rightarrow> string option \<Rightarrow> string option \<Rightarrow> copy_object_result"
  build_object_identifier :: "string option \<Rightarrow> string option \<Rightarrow> string option \<Rightarrow> datetime option \<Rightarrow> 64 word option \<Rightarrow> unit + object_identifier"
  build_delete :: "object_identifier list option \<Rightarrow> bool option \<Rightarrow> unit + s3_delete"
  build_deleted_object :: "string option \<Rightarrow> string option \<Rightarrow> bool option \<Rightarrow> string option \<Rightarrow> deleted_object"
  build_error :: "string option \<Rightarrow> string option \<Rightarrow> string option \<Rightarrow> string option \<Rightarrow> s3_error"
  build_initiator :: "string option \<Rightarrow> string option \<Rightarrow> initiator"
  build_owner :: "string option \<Rightarrow> string option \<Rightarrow> s3_owner"
  build_restore_status :: "bool option \<Rightarrow> datetime option \<Rightarrow> restore_status"
  build_object :: "string option \<Rightarrow> datetime option \<Rightarrow> string option \<Rightarrow> string list option \<Rightarrow> string option \<Rightarrow> 64 word option \<Rightarrow> string option \<Rightarrow> s3_owner option \<Rightarrow> restore_status option \<Rightarrow> stored_object"
  build_part :: "32 word option \<Rightarrow> datetime option \<Rightarrow> string option \<Rightarrow> 64 word option \<Rightarrow> string option \<Rightarrow> string option \<Rightarrow> string option \<Rightarrow> string option \<Rightarrow> string option \<Rightarrow> string option \<Rightarrow> string option \<Rightarrow> string option \<Rightarrow> string option \<Rightarrow> string option \<Rightarrow> s3_part"

section \<open>Converters\<close>

definition common_prefix_from_py :: "pyo3 \<Rightarrow> s3_types \<Rightarrow> pyval \<Rightarrow> common_prefix pyresult" where
  "common_prefix_from_py P S value =
     and_then (cast_dict P value) (\<lambda>values.
     and_then (member P values ''prefix'' ''str'' (string_from_py P)) (\<lambda>prefix_value.
     Inr (build_common_prefix S prefix_value)))"

definition common_prefix_to_py :: "common_prefix \<Rightarrow> pyval" where
  "common_prefix_to_py v = PyDict (py_dict
     [(''prefix'', opt_to_py PyStr (kcp_prefix v))])"

definition completed_part_from_py :: "pyo3 \<Rightarrow> s3_types \<Rightarrow> pyval \<Rightarrow> completed_part pyresult" where
  "completed_part_from_py P S value =
     and_then (cast_dict P value) (\<lambda>values.
     and_then (member P values ''e_tag'' ''str'' (string_from_py P)) (\<lambda>e_tag_value.
     and_then (member P values ''checksum_crc32'' ''str'' (string_from_py P)) (\<lambda>checksum_crc32_value.
     and_then (member P values ''checksum_crc32_c'' ''str'' (string_from_py P)) (\<lambda>checksum_crc32_c_value.
     and_then (member P values ''checksum_crc64_nvme'' ''str'' (string_from_py P)) (\<lambda>checksum_crc64_nvme_value.
     and_then (member P values ''checksum_sha1'' ''str'' (string_from_py P)) (\<lambda>checksum_sha1_value.
     and_then (member P values ''checksum_sha256'' ''str'' (string_from_py P)) (\<lambda>checksum_sha256_value.
     and_then (member P values ''checksum_sha512'' ''str'' (string_from_py P)) (\<lambda>checksum_sha512_value.
     and_then (member P values ''checksum_md5'' ''str'' (string_from_py P)) (\<lambda>checksum_md5_value.
     and_then (member P values ''checksum_xxhash64'' ''str'' (string_from_py P)) (\<lambda>checksum_xxhash64_value.
     and_then (member P values ''checksum_xxhash3'' ''str'' (string_from_py P)) (\<lambda>checksum_xxhash3_value.
     and_then (member P values ''checksum_xxhash128'' ''str'' (string_from_py P)) (\<lambda>checksum_xxhash128_value.
     and_then (member P values ''part_number'' ''int'' (i32_from_py P)) (\<lambda>part_number_value.
     Inr (build_completed_part S e_tag_value checksum_crc32_value checksum_crc32_c_value checksum_crc64_nvme_value checksum_sha1_value checksum_sha256_value checksum_sha512_value checksum_md5_value checksum_xxhash64_value checksum_xxhash3_value checksum_xxhash128_value part_number_value))))))))))))))"

definition completed_part_to_py :: "completed_part \<Rightarrow> pyval" where
  "completed_part_to_py v = PyDict (py_dict
     [(''e_tag'', opt_to_py PyStr (kcp2_e_tag v)),
      (''checksum_crc32'', opt_to_py PyStr (kcp2_checksum_crc32 v)),
      (''checksum_crc32_c'', opt_to_py PyStr (kcp2_checksum_crc32_c v)),
      (''checksum_crc64_nvme'', opt_to_py PyStr (kcp2_checksum_crc64_nvme v)),
      (''checksum_sha1'', opt_to_py PyStr (kcp2_checksum_sha1 v)),
      (''checksum_sha256'', opt_to_py PyStr (kcp2_checksum_sha256 v)),
      (''checksum_sha512'', opt_to_py PyStr (kcp2_checksum_sha512 v)),
      (''checksum_md5'', opt_to_py PyStr (kcp2_checksum_md5 v)),
      (''checksum_xxhash64'', opt_to_py PyStr (kcp2_checksum_xxhash64 v)),
      (''checksum_xxhash3'', opt_to_py PyStr (kcp2_checksum_xxhash3 v)),
      (''checksum_xxhash128'', opt_to_py PyStr (kcp2_checksum_xxhash128 v)),
      (''part_number'', opt_to_py i32_to_py (kcp2_part_number v))])"

definition completed_multipart_upload_from_py :: "pyo3 \<Rightarrow> s3_types \<Rightarrow> pyval \<Rightarrow> completed_multipart_upload pyresult" where
  "completed_multipart_upload_from_py P S value =
     and_then (cast_dict P value) (\<lambda>values.
     and_then (member P values ''parts'' ''sequence'' (seq_from_py P ''dict (CompletedPart)'' (completed_part_from_py P S))) (\<lambda>parts_value.
     Inr (build_completed_multipart_upload S parts_value)))"

definition completed_multipart_upload_to_py :: "completed_multipart_upload \<Rightarrow> pyval" where
  "completed_multipart_upload_to_py v = PyDict (py_dict
     [(''parts'', opt_to_py (seq_to_py completed_part_to_py) (kcmu_parts v))])"

definition copy_object_result_from_py :: "pyo3 \<Rightarrow> s3_types \<Rightarrow> pyval \<Rightarrow> copy_object_result pyresult" where
  "copy_object_result_from_py P S value =
     and_then (cast_dict P value) (\<lambda>values.
     and_then (member P values ''e_tag'' ''str'' (string_from_py P)) (\<lambda>e_tag_value.
     and_then (member P values ''last_modified'' ''ISO 8601 timestamp string'' (datetime_from_py P S)) (\<lambda>last_modified_value.
     and_then (member P values ''checksum_type'' ''str (ChecksumType)'' (enum_from_py P)) (\<lambda>checksum_type_value.
     and_then (member P values ''checksum_crc32'' ''str'' (string_from_py P)) (\<lambda>checksum_crc32_value.
     and_then (member P values ''checksum_crc32_c'' ''str'' (string_from_py P)) (\<lambda>checksum_crc32_c_value.
     and_then (member P values ''checksum_crc64_nvme'' ''str'' (string_from_py P)) (\<lambda>checksum_crc64_nvme_value.
     and_then (member P values ''checksum_sha1'' ''str'' (string_from_py P)) (\<lambda>checksum_sha1_value.
     and_then (member P values ''checksum_sha256'' ''str'' (string_from_py P)) (\<lambda>checksum_sha256_value.
     and_then (member P values ''checksum_sha512'' ''str'' (string_from_py P)) (\<lambda>checksum_sha512_value.
     and_then (member P values ''checksum_md5'' ''str'' (string_from_py P)) (\<lambda>checksum_md5_value.
     and_then (member P values ''checksum_xxhash64'' ''str'' (string_from_py P)) (\<lambda>checksum_xxhash64_value.
     and_then (member P values ''checksum_xxhash3'' ''str'' (string_from_py P)) (\<lambda>checksum_xxhash3_value.
     and_then (member P values ''checksum_xxhash128'' ''str'' (string_from_py P)) (\<lambda>checksum_xxhash128_value.
     Inr (build_copy_object_result S e_tag_value last_modified_value checksum_type_value checksum_crc32_value checksum_crc32_c_value checksum_crc64_nvme_value checksum_sha1_value checksum_sha256_value checksum_sha512_value checksum_md5_value checksum_xxhash64_value checksum_xxhash3_value checksum_xxhash128_value)))))))))))))))"

definition copy_object_result_to_py :: "s3_types \<Rightarrow> copy_object_result \<Rightarrow> pyval" where
  "copy_object_result_to_py S v = PyDict (py_dict
     [(''e_tag'', opt_to_py PyStr (kcor_e_tag v)),
      (''last_modified'', opt_to_py (datetime_to_py S) (kcor_last_modified v)),
      (''checksum_type'', opt_to_py PyStr (kcor_checksum_type v)),
      (''checksum_crc32'', opt_to_py PyStr (kcor_checksum_crc32 v)),
      (''checksum_crc32_c'', opt_to_py PyStr (kcor_checksum_crc32_c v)),
      (''checksum_crc64_nvme'', opt_to_py PyStr (kcor_checksum_crc64_nvme v)),
      (''checksum_sha1'', opt_to_py PyStr (kcor_checksum_sha1 v)),
      (''checksum_sha256'', opt_to_py PyStr (kcor_checksum_sha256 v)),
      (''checksum_sha512'', opt_to_py PyStr (kcor_checksum_sha512 v)),
      (''checksum_md5'', opt_to_py PyStr (kcor_checksum_md5 v)),
      (''checksum_xxhash64'', opt_to_py PyStr (kcor_checksum_xxhash64 v)),
      (''checksum_xxhash3'', opt_to_py PyStr (kcor_checksum_xxhash3 v)),
      (''checksum_xxhash128'', opt_to_py PyStr (kcor_checksum_xxhash128 v))])"

definition object_identifier_from_py :: "pyo3 \<Rightarrow> s3_types \<Rightarrow> pyval \<Rightarrow> object_identifier pyresult" where
  "object_identifier_from_py P S value =
     and_then (cast_dict P value) (\<lambda>values.
     and_then (member P values ''key'' ''str'' (string_from_py P)) (\<lambda>key_value.
     and_then (member P values ''version_id'' ''str'' (string_from_py P)) (\<lambda>version_id_value.
     and_then (member P values ''e_tag'' ''str'' (string_from_py P)) (\<lambda>e_tag_value.
     and_then (member P values ''last_modified_time'' ''ISO 8601 timestamp string'' (datetime_from_py P S)) (\<lambda>last_modified_time_value.
     and_then (member P values ''size'' ''int'' (i64_from_py P)) (\<lambda>size_value.
     map_err (\<lambda>_. input_builder_error P values
         [(''key'', ''key'')])
       (build_object_identifier S key_value version_id_value e_tag_value last_modified_time_value size_value)))))))"

definition object_identifier_to_py :: "s3_types \<Rightarrow> object_identifier \<Rightarrow> pyval" where
  "object_identifier_to_py S v = PyDict (py_dict
     [(''key'', PyStr (koi_key v)),
      (''version_id'', opt_to_py PyStr (koi_version_id v)),
      (''e_tag'', opt_to_py PyStr (koi_e_tag v)),
      (''last_modified_time'', opt_to_py (datetime_to_py S) (koi_last_modified_time v)),
      (''size'', opt_to_py i64_to_py (koi_size v))])"

definition delete_from_py :: "pyo3 \<Rightarrow> s3_types \<Rightarrow> pyval \<Rightarrow> s3_delete pyresult" where
  "delete_from_py P S value =
     and_then (cast_dict P value) (\<lambda>values.
     and_then (member P values ''objects'' ''sequence'' (seq_from_py P ''dict (ObjectIdentifier)'' (object_identifier_from_py P S))) (\<lambda>objects_value.
     and_then (member P values ''quiet'' ''bool'' (bool_from_py P)) (\<lambda>quiet_value.
     map_err (\<lambda>_. input_builder_error P values
         [(''objects'', ''objects'')])
       (build_delete S objects_value quiet_value))))"

definition delete_to_py :: "s3_types \<Rightarrow> s3_delete \<Rightarrow> pyval" where
  "delete_to_py S v = PyDict (py_dict
     [(''objects'', seq_to_py (object_identifier_to_py S) (kd_objects v)),
      (''quiet'', opt_to_py PyBool (kd_quiet v))])"

definition deleted_object_from_py :: "pyo3 \<Rightarrow> s3_types \<Rightarrow> pyval \<Rightarrow> deleted_object pyresult" where
  "deleted_object_from_py P S value =
     and_then (cast_dict P value) (\<lambda>values.
     and_then (member P values ''key'' ''str'' (string_from_py P)) (\<lambda>key_value.
     and_then (member P values ''version_id'' ''str'' (string_from_py P)) (\<lambda>version_id_value.
     and_then (member P values ''delete_marker'' ''bool'' (bool_from_py P)) (\<lambda>delete_marker_value.
     and_then (member P values ''delete_marker_version_id'' ''str'' (string_from_py P)) (\<lambda>delete_marker_version_id_value.
     Inr (build_deleted_object S key_value version_id_value delete_marker_value delete_marker_version_id_value))))))"

definition deleted_object_to_py :: "deleted_object \<Rightarrow> pyval" where
  "deleted_object_to_py v = PyDict (py_dict
     [(''key'', opt_to_py PyStr (kdo_key v)),
      (''version_id'', opt_to_py PyStr (kdo_version_id v)),
      (''delete_marker'', opt_to_py PyBool (kdo_delete_marker v)),
      (''delete_marker_version_id'', opt_to_py PyStr (kdo_delete_marker_version_id v))])"

definition error_from_py :: "pyo3 \<Rightarrow> s3_types \<Rightarrow> pyval \<Rightarrow> s3_error pyresult" where
  "error_from_py P S value =
     and_then (cast_dict P value) (\<lambda>values.
     and_then (member P values ''key'' ''str'' (string_from_py P)) (\<lambda>key_value.
     and_then (member P values ''version_id'' ''str'' (string_from_py P)) (\<lambda>version_id_value.
     and_then (member P values ''code'' ''str'' (string_from_py P)) (\<lambda>code_value.
     and_then (member P values ''message'' ''str'' (string_from_py P)) (\<lambda>message_value.
     Inr (build_error S key_value version_id_value code_value message_value))))))"

definition error_to_py :: "s3_error \<Rightarrow> pyval" where
  "error_to_py v = PyDict (py_dict
     [(''key'', opt_to_py PyStr (ke_key v)),
      (''version_id'', opt_to_py PyStr (ke_version_id v)),
      (''code'', opt_to_py PyStr (ke_code v)),
      (''message'', opt_to_py PyStr (ke_message v))])"

definition initiator_from_py :: "pyo3 \<Rightarrow> s3_types \<Rightarrow> pyval \<Rightarrow> initiator pyresult" where
  "initiator_from_py P S value =
     and_then (cast_dict P value) (\<lambda>values.
     and_then (member P values ''id'' ''str'' (string_from_py P)) (\<lambda>id_value.
     and_then (member P values ''display_name'' ''str'' (string_from_py P)) (\<lambda>display_name_value.
     Inr (build_initiator S id_value display_name_value))))"

definition initiator_to_py :: "initiator \<Rightarrow> pyval" where
  "initiator_to_py v = PyDict (py_dict
     [(''id'', opt_to_py PyStr (ki_id v)),
      (''display_name'', opt_to_py PyStr (ki_display_name v))])"

definition owner_from_py :: "pyo3 \<Rightarrow> s3_types \<Rightarrow> pyval \<Rightarrow> s3_owner pyresult" where
  "owner_from_py P S value =
     and_then (cast_dict P value) (\<lambda>values.
     and_then (member P values ''display_name'' ''str'' (string_from_py P)) (\<lambda>display_name_value.
     and_then (member P values ''id'' ''str'' (string_from_py P)) (\<lambda>id_value.
     Inr (build_owner S display_name_value id_value))))"

definition owner_to_py :: "s3_owner \<Rightarrow> pyval" where
  "owner_to_py v = PyDict (py_dict
     [(''display_name'', opt_to_py PyStr (ko_display_name v)),
      (''id'', opt_to_py PyStr (ko_id v))])"

definition restore_status_from_py :: "pyo3 \<Rightarrow> s3_types \<Rightarrow> pyval \<Rightarrow> restore_status pyresult" where
  "restore_status_from_py P S value =
     and_then (cast_dict P value) (\<lambda>values.
     and_then (member P values ''is_restore_in_progress'' ''bool'' (bool_from_py P)) (\<lambda>is_restore_in_progress_value.
     and_then (member P values ''restore_expiry_date'' ''ISO 8601 timestamp string'' (datetime_from_py P S)) (\<lambda>restore_expiry_date_value.
     Inr (build_restore_status S is_restore_in_progress_value restore_expiry_date_value))))"

definition restore_status_to_py :: "s3_types \<Rightarrow> restore_status \<Rightarrow> pyval" where
  "restore_status_to_py S v = PyDict (py_dict
     [(''is_restore_in_progress'', opt_to_py PyBool (krs_is_restore_in_progress v)),
      (''restore_expiry_date'', opt_to_py (datetime_to_py S) (krs_restore_expiry_date v))])"

definition object_from_py :: "pyo3 \<Rightarrow> s3_types \<Rightarrow> pyval \<Rightarrow> stored_object pyresult" where
  "object_from_py P S value =
     and_then (cast_dict P value) (\<lambda>values.
     and_then (member P values ''key'' ''str'' (string_from_py P)) (\<lambda>key_value.
     and_then (member P values ''last_modified'' ''ISO 8601 timestamp string'' (datetime_from_py P S)) (\<lambda>last_modified_value.
     and_then (member P values ''e_tag'' ''str'' (string_from_py P)) (\<lambda>e_tag_value.
     and_then (member P values ''checksum_algorithm'' ''sequence'' (seq_from_py P ''str (ChecksumAlgorithm)'' (enum_from_py P))) (\<lambda>checksum_algorithm_value.
     and_then (member P values ''checksum_type'' ''str (ChecksumType)'' (enum_from_py P)) (\<lambda>checksum_type_value.
     and_then (member P values ''size'' ''int'' (i64_from_py P)) (\<lambda>size_value.
     and_then (member P values ''storage_class'' ''str (ObjectStorageClass)'' (enum_from_py P)) (\<lambda>storage_class_value.
     and_then (member P values ''owner'' ''dict (Owner)'' (owner_from_py P S)) (\<lambda>owner_value.
     and_then (member P values ''restore_status'' ''dict (RestoreStatus)'' (restore_status_from_py P S)) (\<lambda>restore_status_value.
     Inr (build_object S key_value last_modified_value e_tag_value checksum_algorithm_value checksum_type_value size_value storage_class_value owner_value restore_status_value)))))))))))"

definition object_to_py :: "s3_types \<Rightarrow> stored_object \<Rightarrow> pyval" where
  "object_to_py S v = PyDict (py_dict
     [(''key'', opt_to_py PyStr (ko2_key v)),
      (''last_modified'', opt_to_py (datetime_to_py S) (ko2_last_modified v)),
      (''e_tag'', opt_to_py PyStr (ko2_e_tag v)),
      (''checksum_algorithm'', opt_to_py (seq_to_py PyStr) (ko2_checksum_algorithm v)),
      (''checksum_type'', opt_to_py PyStr (ko2_checksum_type v)),
      (''size'', opt_to_py i64_to_py (ko2_size v)),
      (''storage_class'', opt_to_py PyStr (ko2_storage_class v)),
      (''owner'', opt_to_py owner_to_py (ko2_owner v)),
      (''restore_status'', opt_to_py (restore_status_to_py S) (ko2_restore_status v))])"

definition part_from_py :: "pyo3 \<Rightarrow> s3_types \<Rightarrow> pyval \<Rightarrow> s3_part pyresult" where
  "part_from_py P S value =
     and_then (cast_dict P value) (\<lambda>values.
     and_then (member P values ''part_number'' ''int'' (i32_from_py P)) (\<lambda>part_number_value.
     and_then (member P values ''last_modified'' ''ISO 8601 timestamp string'' (datetime_from_py P S)) (\<lambda>last_modified_value.
     and_then (member P values ''e_tag'' ''str'' (string_from_py P)) (\<lambda>e_tag_value.
     and_then (member P values ''size'' ''int'' (i64_from_py P)) (\<lambda>size_value.
     and_then (member P values ''checksum_crc32'' ''str'' (string_from_py P)) (\<lambda>checksum_crc32_value.
     and_then (member P values ''checksum_crc32_c'' ''str'' (string_from_py P)) (\<lambda>checksum_crc32_c_value.
     and_then (member P values ''checksum_crc64_nvme'' ''str'' (string_from_py P)) (\<lambda>checksum_crc64_nvme_value.
     and_then (member P values ''checksum_sha1'' ''str'' (string_from_py P)) (\<lambda>checksum_sha1_value.
     and_then (member P values ''checksum_sha256'' ''str'' (string_from_py P)) (\<lambda>checksum_sha256_value.
     and_then (member P values ''checksum_sha512'' ''str'' (string_from_py P)) (\<lambda>checksum_sha512_value.
     and_then (member P values ''checksum_md5'' ''str'' (string_from_py P)) (\<lambda>checksum_md5_value.
     and_then (member P values ''checksum_xxhash64'' ''str'' (string_from_py P)) (\<lambda>checksum_xxhash64_value.
     and_then (member P values ''checksum_xxhash3'' ''str'' (string_from_py P)) (\<lambda>checksum_xxhash3_value.
     and_then (member P values ''checksum_xxhash128'' ''str'' (string_from_py P)) (\<lambda>checksum_xxhash128_value.
     Inr (build_part S part_number_value last_modified_value e_tag_value size_value checksum_crc32_value checksum_crc32_c_value checksum_crc64_nvme_value checksum_sha1_value checksum_sha256_value checksum_sha512_value checksum_md5_value checksum_xxhash64_value checksum_xxhash3_value checksum_xxhash128_value))))))))))))))))"

definition part_to_py :: "s3_types \<Rightarrow> s3_part \<Rightarrow> pyval" where
  "part_to_py S v = PyDict (py_dict
     [(''part_number'', opt_to_py i32_to_py (kp_part_number v)),
      (''last_modified'', opt_to_py (datetime_to_py S) (kp_last_modified v)),
      (''e_tag'', opt_to_py PyStr (kp_e_tag v)),
      (''size'', opt_to_py i64_to_py (kp_size v)),
      (''checksum_crc32'', opt_to_py PyStr (kp_checksum_crc32 v)),
      (''checksum_crc32_c'', opt_to_py PyStr (kp_checksum_crc32_c v)),
      (''checksum_crc64_nvme'', opt_to_py PyStr (kp_checksum_crc64_nvme v)),
      (''checksum_sha1'', opt_to_py PyStr (kp_checksum_sha1 v)),
      (''checksum_sha256'', opt_to_py PyStr (kp_checksum_sha256 v)),
      (''checksum_sha512'', opt_to_py PyStr (kp_checksum_sha512 v)),
      (''checksum_md5'', opt_to_py PyStr (kp_checksum_md5 v)),
      (''checksum_xxhash64'', opt_to_py PyStr (kp_checksum_xxhash64 v)),
      (''checksum_xxhash3'', opt_to_py PyStr (kp_checksum_xxhash3 v)),
      (''checksum_xxhash128'', opt_to_py PyStr (kp_checksum_xxhash128 v))])"

section \<open>Round trips\<close>

text \<open>What the builders document: a builder given every member the structure must have gives the
  structure with the members it was given, and one that lacks a required member fails.\<close>

locale s3_types_laws =
  fixes S :: s3_types
  assumes common_prefix_built: "build_common_prefix S kcp0 =
       \<lparr>kcp_prefix = kcp0\<rparr>"
    and completed_part_built: "build_completed_part S kcp20 kcp21 kcp22 kcp23 kcp24 kcp25 kcp26 kcp27 kcp28 kcp29 kcp210 kcp211 =
       \<lparr>kcp2_e_tag = kcp20, kcp2_checksum_crc32 = kcp21, kcp2_checksum_crc32_c = kcp22, kcp2_checksum_crc64_nvme = kcp23, kcp2_checksum_sha1 = kcp24, kcp2_checksum_sha256 = kcp25, kcp2_checksum_sha512 = kcp26, kcp2_checksum_md5 = kcp27, kcp2_checksum_xxhash64 = kcp28, kcp2_checksum_xxhash3 = kcp29, kcp2_checksum_xxhash128 = kcp210, kcp2_part_number = kcp211\<rparr>"
    and completed_multipart_upload_built: "build_completed_multipart_upload S kcmu0 =
       \<lparr>kcmu_parts = kcmu0\<rparr>"
    and copy_object_result_built: "build_copy_object_result S kcor0 kcor1 kcor2 kcor3 kcor4 kcor5 kcor6 kcor7 kcor8 kcor9 kcor10 kcor11 kcor12 =
       \<lparr>kcor_e_tag = kcor0, kcor_last_modified = kcor1, kcor_checksum_type = kcor2, kcor_checksum_crc32 = kcor3, kcor_checksum_crc32_c = kcor4, kcor_checksum_crc64_nvme = kcor5, kcor_checksum_sha1 = kcor6, kcor_checksum_sha256 = kcor7, kcor_checksum_sha512 = kcor8, kcor_checksum_md5 = kcor9, kcor_checksum_xxhash64 = kcor10, kcor_checksum_xxhash3 = kcor11, kcor_checksum_xxhash128 = kcor12\<rparr>"
    and object_identifier_built: "build_object_identifier S (Some koi0) koi1 koi2 koi3 koi4 =
       Inr \<lparr>koi_key = koi0, koi_version_id = koi1, koi_e_tag = koi2, koi_last_modified_time = koi3, koi_size = koi4\<rparr>"
    and delete_built: "build_delete S (Some kd0) kd1 =
       Inr \<lparr>kd_objects = kd0, kd_quiet = kd1\<rparr>"
    and deleted_object_built: "build_deleted_object S kdo0 kdo1 kdo2 kdo3 =
       \<lparr>kdo_key = kdo0, kdo_version_id = kdo1, kdo_delete_marker = kdo2, kdo_delete_marker_version_id = kdo3\<rparr>"
    and error_built: "build_error S ke0 ke1 ke2 ke3 =
       \<lparr>ke_key = ke0, ke_version_id = ke1, ke_code = ke2, ke_message = ke3\<rparr>"
    and initiator_built: "build_initiator S ki0 ki1 =
       \<lparr>ki_id = ki0, ki_display_name = ki1\<rparr>"
    and owner_built: "build_owner S ko0 ko1 =
       \<lparr>ko_display_name = ko0, ko_id = ko1\<rparr>"
    and restore_status_built: "build_restore_status S krs0 krs1 =
       \<lparr>krs_is_restore_in_progress = krs0, krs_restore_expiry_date = krs1\<rparr>"
    and object_built: "build_object S ko20 ko21 ko22 ko23 ko24 ko25 ko26 ko27 ko28 =
       \<lparr>ko2_key = ko20, ko2_last_modified = ko21, ko2_e_tag = ko22, ko2_checksum_algorithm = ko23, ko2_checksum_type = ko24, ko2_size = ko25, ko2_storage_class = ko26, ko2_owner = ko27, ko2_restore_status = ko28\<rparr>"
    and part_built: "build_part S kp0 kp1 kp2 kp3 kp4 kp5 kp6 kp7 kp8 kp9 kp10 kp11 kp12 kp13 =
       \<lparr>kp_part_number = kp0, kp_last_modified = kp1, kp_e_tag = kp2, kp_size = kp3, kp_checksum_crc32 = kp4, kp_checksum_crc32_c = kp5, kp_checksum_crc64_nvme = kp6, kp_checksum_sha1 = kp7, kp_checksum_sha256 = kp8, kp_checksum_sha512 = kp9, kp_checksum_md5 = kp10, kp_checksum_xxhash64 = kp11, kp_checksum_xxhash3 = kp12, kp_checksum_xxhash128 = kp13\<rparr>"
    and object_identifier_incomplete: "okoi0 = None \<Longrightarrow>
       build_object_identifier S okoi0 okoi1 okoi2 okoi3 okoi4 = Inl ()"
    and delete_incomplete: "okd0 = None \<Longrightarrow>
       build_delete S okd0 okd1 = Inl ()"

text \<open>A concrete SDK.\<close>

definition s3_std :: s3_types where
  "s3_std =
     \<lparr>parse_datetime = (\<lambda>s. Inr (int (digits_value s), 0)),
      show_datetime = (\<lambda>d. show_nat (nat (fst d))),
      build_common_prefix = (\<lambda>a0. \<lparr>kcp_prefix = a0\<rparr>),
      build_completed_part = (\<lambda>a0 a1 a2 a3 a4 a5 a6 a7 a8 a9 a10 a11. \<lparr>kcp2_e_tag = a0, kcp2_checksum_crc32 = a1, kcp2_checksum_crc32_c = a2, kcp2_checksum_crc64_nvme = a3, kcp2_checksum_sha1 = a4, kcp2_checksum_sha256 = a5, kcp2_checksum_sha512 = a6, kcp2_checksum_md5 = a7, kcp2_checksum_xxhash64 = a8, kcp2_checksum_xxhash3 = a9, kcp2_checksum_xxhash128 = a10, kcp2_part_number = a11\<rparr>),
      build_completed_multipart_upload = (\<lambda>a0. \<lparr>kcmu_parts = a0\<rparr>),
      build_copy_object_result = (\<lambda>a0 a1 a2 a3 a4 a5 a6 a7 a8 a9 a10 a11 a12. \<lparr>kcor_e_tag = a0, kcor_last_modified = a1, kcor_checksum_type = a2, kcor_checksum_crc32 = a3, kcor_checksum_crc32_c = a4, kcor_checksum_crc64_nvme = a5, kcor_checksum_sha1 = a6, kcor_checksum_sha256 = a7, kcor_checksum_sha512 = a8, kcor_checksum_md5 = a9, kcor_checksum_xxhash64 = a10, kcor_checksum_xxhash3 = a11, kcor_checksum_xxhash128 = a12\<rparr>),
      build_object_identifier = (\<lambda>a0 a1 a2 a3 a4. if a0 = None then Inl ()
        else Inr \<lparr>koi_key = the a0, koi_version_id = a1, koi_e_tag = a2, koi_last_modified_time = a3, koi_size = a4\<rparr>),
      build_delete = (\<lambda>a0 a1. if a0 = None then Inl ()
        else Inr \<lparr>kd_objects = the a0, kd_quiet = a1\<rparr>),
      build_deleted_object = (\<lambda>a0 a1 a2 a3. \<lparr>kdo_key = a0, kdo_version_id = a1, kdo_delete_marker = a2, kdo_delete_marker_version_id = a3\<rparr>),
      build_error = (\<lambda>a0 a1 a2 a3. \<lparr>ke_key = a0, ke_version_id = a1, ke_code = a2, ke_message = a3\<rparr>),
      build_initiator = (\<lambda>a0 a1. \<lparr>ki_id = a0, ki_display_name = a1\<rparr>),
      build_owner = (\<lambda>a0 a1. \<lparr>ko_display_name = a0, ko_id = a1\<rparr>),
      build_restore_status = (\<lambda>a0 a1. \<lparr>krs_is_restore_in_progress = a0, krs_restore_expiry_date = a1\<rparr>),
      build_object = (\<lambda>a0 a1 a2 a3 a4 a5 a6 a7 a8. \<lparr>ko2_key = a0, ko2_last_modified = a1, ko2_e_tag = a2, ko2_checksum_algorithm = a3, ko2_checksum_type = a4, ko2_size = a5, ko2_storage_class = a6, ko2_owner = a7, ko2_restore_status = a8\<rparr>),
      build_part = (\<lambda>a0 a1 a2 a3 a4 a5 a6 a7 a8 a9 a10 a11 a12 a13. \<lparr>kp_part_number = a0, kp_last_modified = a1, kp_e_tag = a2, kp_size = a3, kp_checksum_crc32 = a4, kp_checksum_crc32_c = a5, kp_checksum_crc64_nvme = a6, kp_checksum_sha1 = a7, kp_checksum_sha256 = a8, kp_checksum_sha512 = a9, kp_checksum_md5 = a10, kp_checksum_xxhash64 = a11, kp_checksum_xxhash3 = a12, kp_checksum_xxhash128 = a13\<rparr>)\<rparr>"

interpretation std_s3: s3_types_laws s3_std
  by unfold_locales (auto simp: s3_std_def unwrap_or_def)

locale s3_conversions = pyo3_laws P + s3_types_laws S for P S +
  fixes order :: "(string, pyval) fmap \<Rightarrow> (string \<times> pyval) list"
  assumes order: "iterates order"
begin

lemma common_prefix_reads: "reads (common_prefix_from_py P S) (common_prefix_to_py)"
proof (rule readsI)
  show "common_prefix_to_py v \<noteq> PyNone" for v
    by (simp add: common_prefix_to_py_def)
  show "common_prefix_from_py P S (common_prefix_to_py v) = Inr v" for v
    by (cases v) (simp add: common_prefix_from_py_def common_prefix_to_py_def dict_ok py_dict_distinct common_prefix_built
        member_reads [OF reads_str])
qed

lemma completed_part_reads: "reads (completed_part_from_py P S) (completed_part_to_py)"
proof (rule readsI)
  show "completed_part_to_py v \<noteq> PyNone" for v
    by (simp add: completed_part_to_py_def)
  show "completed_part_from_py P S (completed_part_to_py v) = Inr v" for v
    by (cases v) (simp add: completed_part_from_py_def completed_part_to_py_def dict_ok py_dict_distinct completed_part_built
        member_reads [OF reads_str]
        member_reads [OF reads_i32])
qed

lemma completed_multipart_upload_reads: "reads (completed_multipart_upload_from_py P S) (completed_multipart_upload_to_py)"
proof (rule readsI)
  show "completed_multipart_upload_to_py v \<noteq> PyNone" for v
    by (simp add: completed_multipart_upload_to_py_def)
  show "completed_multipart_upload_from_py P S (completed_multipart_upload_to_py v) = Inr v" for v
    by (cases v) (simp add: completed_multipart_upload_from_py_def completed_multipart_upload_to_py_def dict_ok py_dict_distinct completed_multipart_upload_built
        member_reads [OF reads_seq [OF completed_part_reads]])
qed

lemma deleted_object_reads: "reads (deleted_object_from_py P S) (deleted_object_to_py)"
proof (rule readsI)
  show "deleted_object_to_py v \<noteq> PyNone" for v
    by (simp add: deleted_object_to_py_def)
  show "deleted_object_from_py P S (deleted_object_to_py v) = Inr v" for v
    by (cases v) (simp add: deleted_object_from_py_def deleted_object_to_py_def dict_ok py_dict_distinct deleted_object_built
        member_reads [OF reads_str]
        member_reads [OF reads_bool])
qed

lemma error_reads: "reads (error_from_py P S) (error_to_py)"
proof (rule readsI)
  show "error_to_py v \<noteq> PyNone" for v
    by (simp add: error_to_py_def)
  show "error_from_py P S (error_to_py v) = Inr v" for v
    by (cases v) (simp add: error_from_py_def error_to_py_def dict_ok py_dict_distinct error_built
        member_reads [OF reads_str])
qed

lemma initiator_reads: "reads (initiator_from_py P S) (initiator_to_py)"
proof (rule readsI)
  show "initiator_to_py v \<noteq> PyNone" for v
    by (simp add: initiator_to_py_def)
  show "initiator_from_py P S (initiator_to_py v) = Inr v" for v
    by (cases v) (simp add: initiator_from_py_def initiator_to_py_def dict_ok py_dict_distinct initiator_built
        member_reads [OF reads_str])
qed

lemma owner_reads: "reads (owner_from_py P S) (owner_to_py)"
proof (rule readsI)
  show "owner_to_py v \<noteq> PyNone" for v
    by (simp add: owner_to_py_def)
  show "owner_from_py P S (owner_to_py v) = Inr v" for v
    by (cases v) (simp add: owner_from_py_def owner_to_py_def dict_ok py_dict_distinct owner_built
        member_reads [OF reads_str])
qed

end

interpretation std_s3_conv: s3_conversions pyo3_std s3_std by_key
  by (intro s3_conversions.intro s3_conversions_axioms.intro std.pyo3_laws_axioms std_s3.s3_types_laws_axioms iterates_by_key)

end
