(* ===== verification/S3Outputs.thy ===== *)
theory S3Outputs
  imports S3Types
begin

text \<open>
  The response objects of the S3 extension, from \<open>crates/rboto-s3/src/generated.rs\<close>: per class, the
  fields it holds, its getters in order, and \<open>to_dict\<close>. A getter of structures gives objects that
  share them (\<open>Arc::clone\<close>), one per structure of a list or mapping; every other getter gives a
  plain value, and an absent one is \<open>None\<close>. Integers whose width the code does not show are \<open>int\<close>.
\<close>

section \<open>Attributes\<close>

datatype s3_object =
    S3CommonPrefix common_prefix
  | S3CopyObjectResult copy_object_result
  | S3DeletedObject deleted_object
  | S3Error s3_error
  | S3Initiator initiator
  | S3StoredObject stored_object
  | S3Owner s3_owner
  | S3Part s3_part
  | S3RestoreStatus restore_status

datatype s3_attr =
    S3Plain pyval
  | S3Object s3_object
  | S3Objects "s3_object list"
  | S3ObjectMap "(string, s3_object) fmap"

definition s3_opt_attr :: "('a \<Rightarrow> s3_attr) \<Rightarrow> 'a option \<Rightarrow> s3_attr" where
  "s3_opt_attr f v = (case v of None \<Rightarrow> S3Plain PyNone | Some x \<Rightarrow> f x)"

section \<open>\<open>CommonPrefix\<close>\<close>

definition common_prefix_attributes :: "((string, pyval) fmap \<Rightarrow> (string \<times> pyval) list) \<Rightarrow> s3_types \<Rightarrow> common_prefix \<Rightarrow> (string \<times> s3_attr) list" where
  "common_prefix_attributes order S v =
     [(''prefix'', S3Plain (opt_to_py PyStr (kcp_prefix v)))]"

definition common_prefix_to_dict :: "((string, pyval) fmap \<Rightarrow> (string \<times> pyval) list) \<Rightarrow> s3_types \<Rightarrow> common_prefix \<Rightarrow> pyval" where
  "common_prefix_to_dict order S v = common_prefix_to_py v"

section \<open>\<open>CopyObjectResult\<close>\<close>

definition copy_object_result_attributes :: "((string, pyval) fmap \<Rightarrow> (string \<times> pyval) list) \<Rightarrow> s3_types \<Rightarrow> copy_object_result \<Rightarrow> (string \<times> s3_attr) list" where
  "copy_object_result_attributes order S v =
     [(''e_tag'', S3Plain (opt_to_py PyStr (kcor_e_tag v))),
      (''last_modified'', S3Plain (opt_to_py (datetime_to_py S) (kcor_last_modified v))),
      (''checksum_type'', S3Plain (opt_to_py PyStr (kcor_checksum_type v))),
      (''checksum_crc32'', S3Plain (opt_to_py PyStr (kcor_checksum_crc32 v))),
      (''checksum_crc32_c'', S3Plain (opt_to_py PyStr (kcor_checksum_crc32_c v))),
      (''checksum_crc64_nvme'', S3Plain (opt_to_py PyStr (kcor_checksum_crc64_nvme v))),
      (''checksum_sha1'', S3Plain (opt_to_py PyStr (kcor_checksum_sha1 v))),
      (''checksum_sha256'', S3Plain (opt_to_py PyStr (kcor_checksum_sha256 v))),
      (''checksum_sha512'', S3Plain (opt_to_py PyStr (kcor_checksum_sha512 v))),
      (''checksum_md5'', S3Plain (opt_to_py PyStr (kcor_checksum_md5 v))),
      (''checksum_xxhash64'', S3Plain (opt_to_py PyStr (kcor_checksum_xxhash64 v))),
      (''checksum_xxhash3'', S3Plain (opt_to_py PyStr (kcor_checksum_xxhash3 v))),
      (''checksum_xxhash128'', S3Plain (opt_to_py PyStr (kcor_checksum_xxhash128 v)))]"

definition copy_object_result_to_dict :: "((string, pyval) fmap \<Rightarrow> (string \<times> pyval) list) \<Rightarrow> s3_types \<Rightarrow> copy_object_result \<Rightarrow> pyval" where
  "copy_object_result_to_dict order S v = copy_object_result_to_py S v"

section \<open>\<open>DeletedObject\<close>\<close>

definition deleted_object_attributes :: "((string, pyval) fmap \<Rightarrow> (string \<times> pyval) list) \<Rightarrow> s3_types \<Rightarrow> deleted_object \<Rightarrow> (string \<times> s3_attr) list" where
  "deleted_object_attributes order S v =
     [(''key'', S3Plain (opt_to_py PyStr (kdo_key v))),
      (''version_id'', S3Plain (opt_to_py PyStr (kdo_version_id v))),
      (''delete_marker'', S3Plain (opt_to_py PyBool (kdo_delete_marker v))),
      (''delete_marker_version_id'', S3Plain (opt_to_py PyStr (kdo_delete_marker_version_id v)))]"

definition deleted_object_to_dict :: "((string, pyval) fmap \<Rightarrow> (string \<times> pyval) list) \<Rightarrow> s3_types \<Rightarrow> deleted_object \<Rightarrow> pyval" where
  "deleted_object_to_dict order S v = deleted_object_to_py v"

section \<open>\<open>Error\<close>\<close>

definition error_attributes :: "((string, pyval) fmap \<Rightarrow> (string \<times> pyval) list) \<Rightarrow> s3_types \<Rightarrow> s3_error \<Rightarrow> (string \<times> s3_attr) list" where
  "error_attributes order S v =
     [(''key'', S3Plain (opt_to_py PyStr (ke_key v))),
      (''version_id'', S3Plain (opt_to_py PyStr (ke_version_id v))),
      (''code'', S3Plain (opt_to_py PyStr (ke_code v))),
      (''message'', S3Plain (opt_to_py PyStr (ke_message v)))]"

definition error_to_dict :: "((string, pyval) fmap \<Rightarrow> (string \<times> pyval) list) \<Rightarrow> s3_types \<Rightarrow> s3_error \<Rightarrow> pyval" where
  "error_to_dict order S v = error_to_py v"

section \<open>\<open>Initiator\<close>\<close>

definition initiator_attributes :: "((string, pyval) fmap \<Rightarrow> (string \<times> pyval) list) \<Rightarrow> s3_types \<Rightarrow> initiator \<Rightarrow> (string \<times> s3_attr) list" where
  "initiator_attributes order S v =
     [(''id'', S3Plain (opt_to_py PyStr (ki_id v))),
      (''display_name'', S3Plain (opt_to_py PyStr (ki_display_name v)))]"

definition initiator_to_dict :: "((string, pyval) fmap \<Rightarrow> (string \<times> pyval) list) \<Rightarrow> s3_types \<Rightarrow> initiator \<Rightarrow> pyval" where
  "initiator_to_dict order S v = initiator_to_py v"

section \<open>\<open>Object\<close>\<close>

definition object_attributes :: "((string, pyval) fmap \<Rightarrow> (string \<times> pyval) list) \<Rightarrow> s3_types \<Rightarrow> stored_object \<Rightarrow> (string \<times> s3_attr) list" where
  "object_attributes order S v =
     [(''key'', S3Plain (opt_to_py PyStr (ko2_key v))),
      (''last_modified'', S3Plain (opt_to_py (datetime_to_py S) (ko2_last_modified v))),
      (''e_tag'', S3Plain (opt_to_py PyStr (ko2_e_tag v))),
      (''checksum_algorithm'', S3Plain (opt_to_py (seq_to_py PyStr) (ko2_checksum_algorithm v))),
      (''checksum_type'', S3Plain (opt_to_py PyStr (ko2_checksum_type v))),
      (''size'', S3Plain (opt_to_py i64_to_py (ko2_size v))),
      (''storage_class'', S3Plain (opt_to_py PyStr (ko2_storage_class v))),
      (''owner'', s3_opt_attr (\<lambda>x. S3Object (S3Owner x)) (ko2_owner v)),
      (''restore_status'', s3_opt_attr (\<lambda>x. S3Object (S3RestoreStatus x)) (ko2_restore_status v))]"

definition object_to_dict :: "((string, pyval) fmap \<Rightarrow> (string \<times> pyval) list) \<Rightarrow> s3_types \<Rightarrow> stored_object \<Rightarrow> pyval" where
  "object_to_dict order S v = object_to_py S v"

section \<open>\<open>Owner\<close>\<close>

definition owner_attributes :: "((string, pyval) fmap \<Rightarrow> (string \<times> pyval) list) \<Rightarrow> s3_types \<Rightarrow> s3_owner \<Rightarrow> (string \<times> s3_attr) list" where
  "owner_attributes order S v =
     [(''display_name'', S3Plain (opt_to_py PyStr (ko_display_name v))),
      (''id'', S3Plain (opt_to_py PyStr (ko_id v)))]"

definition owner_to_dict :: "((string, pyval) fmap \<Rightarrow> (string \<times> pyval) list) \<Rightarrow> s3_types \<Rightarrow> s3_owner \<Rightarrow> pyval" where
  "owner_to_dict order S v = owner_to_py v"

section \<open>\<open>Part\<close>\<close>

definition part_attributes :: "((string, pyval) fmap \<Rightarrow> (string \<times> pyval) list) \<Rightarrow> s3_types \<Rightarrow> s3_part \<Rightarrow> (string \<times> s3_attr) list" where
  "part_attributes order S v =
     [(''part_number'', S3Plain (opt_to_py i32_to_py (kp_part_number v))),
      (''last_modified'', S3Plain (opt_to_py (datetime_to_py S) (kp_last_modified v))),
      (''e_tag'', S3Plain (opt_to_py PyStr (kp_e_tag v))),
      (''size'', S3Plain (opt_to_py i64_to_py (kp_size v))),
      (''checksum_crc32'', S3Plain (opt_to_py PyStr (kp_checksum_crc32 v))),
      (''checksum_crc32_c'', S3Plain (opt_to_py PyStr (kp_checksum_crc32_c v))),
      (''checksum_crc64_nvme'', S3Plain (opt_to_py PyStr (kp_checksum_crc64_nvme v))),
      (''checksum_sha1'', S3Plain (opt_to_py PyStr (kp_checksum_sha1 v))),
      (''checksum_sha256'', S3Plain (opt_to_py PyStr (kp_checksum_sha256 v))),
      (''checksum_sha512'', S3Plain (opt_to_py PyStr (kp_checksum_sha512 v))),
      (''checksum_md5'', S3Plain (opt_to_py PyStr (kp_checksum_md5 v))),
      (''checksum_xxhash64'', S3Plain (opt_to_py PyStr (kp_checksum_xxhash64 v))),
      (''checksum_xxhash3'', S3Plain (opt_to_py PyStr (kp_checksum_xxhash3 v))),
      (''checksum_xxhash128'', S3Plain (opt_to_py PyStr (kp_checksum_xxhash128 v)))]"

definition part_to_dict :: "((string, pyval) fmap \<Rightarrow> (string \<times> pyval) list) \<Rightarrow> s3_types \<Rightarrow> s3_part \<Rightarrow> pyval" where
  "part_to_dict order S v = part_to_py S v"

section \<open>\<open>RestoreStatus\<close>\<close>

definition restore_status_attributes :: "((string, pyval) fmap \<Rightarrow> (string \<times> pyval) list) \<Rightarrow> s3_types \<Rightarrow> restore_status \<Rightarrow> (string \<times> s3_attr) list" where
  "restore_status_attributes order S v =
     [(''is_restore_in_progress'', S3Plain (opt_to_py PyBool (krs_is_restore_in_progress v))),
      (''restore_expiry_date'', S3Plain (opt_to_py (datetime_to_py S) (krs_restore_expiry_date v)))]"

definition restore_status_to_dict :: "((string, pyval) fmap \<Rightarrow> (string \<times> pyval) list) \<Rightarrow> s3_types \<Rightarrow> restore_status \<Rightarrow> pyval" where
  "restore_status_to_dict order S v = restore_status_to_py S v"

section \<open>\<open>AbortMultipartUploadOutput\<close>\<close>

record abort_multipart_upload_output =
  kamuo_request_charged :: "string option"

definition abort_multipart_upload_output_attributes :: "((string, pyval) fmap \<Rightarrow> (string \<times> pyval) list) \<Rightarrow> s3_types \<Rightarrow> abort_multipart_upload_output \<Rightarrow> (string \<times> s3_attr) list" where
  "abort_multipart_upload_output_attributes order S v =
     [(''request_charged'', S3Plain (opt_to_py PyStr (kamuo_request_charged v)))]"

definition abort_multipart_upload_output_to_dict :: "((string, pyval) fmap \<Rightarrow> (string \<times> pyval) list) \<Rightarrow> s3_types \<Rightarrow> abort_multipart_upload_output \<Rightarrow> pyval" where
  "abort_multipart_upload_output_to_dict order S v = PyDict (py_dict
     [(''request_charged'', opt_to_py PyStr (kamuo_request_charged v))])"

section \<open>\<open>CompleteMultipartUploadOutput\<close>\<close>

record complete_multipart_upload_output =
  kcmuo_location :: "string option"
  kcmuo_bucket :: "string option"
  kcmuo_key :: "string option"
  kcmuo_expiration :: "string option"
  kcmuo_e_tag :: "string option"
  kcmuo_checksum_crc32 :: "string option"
  kcmuo_checksum_crc32_c :: "string option"
  kcmuo_checksum_crc64_nvme :: "string option"
  kcmuo_checksum_sha1 :: "string option"
  kcmuo_checksum_sha256 :: "string option"
  kcmuo_checksum_sha512 :: "string option"
  kcmuo_checksum_md5 :: "string option"
  kcmuo_checksum_xxhash64 :: "string option"
  kcmuo_checksum_xxhash3 :: "string option"
  kcmuo_checksum_xxhash128 :: "string option"
  kcmuo_checksum_type :: "string option"
  kcmuo_server_side_encryption :: "string option"
  kcmuo_version_id :: "string option"
  kcmuo_ssekms_key_id :: "string option"
  kcmuo_bucket_key_enabled :: "bool option"
  kcmuo_request_charged :: "string option"

definition complete_multipart_upload_output_attributes :: "((string, pyval) fmap \<Rightarrow> (string \<times> pyval) list) \<Rightarrow> s3_types \<Rightarrow> complete_multipart_upload_output \<Rightarrow> (string \<times> s3_attr) list" where
  "complete_multipart_upload_output_attributes order S v =
     [(''location'', S3Plain (opt_to_py PyStr (kcmuo_location v))),
      (''bucket'', S3Plain (opt_to_py PyStr (kcmuo_bucket v))),
      (''key'', S3Plain (opt_to_py PyStr (kcmuo_key v))),
      (''expiration'', S3Plain (opt_to_py PyStr (kcmuo_expiration v))),
      (''e_tag'', S3Plain (opt_to_py PyStr (kcmuo_e_tag v))),
      (''checksum_crc32'', S3Plain (opt_to_py PyStr (kcmuo_checksum_crc32 v))),
      (''checksum_crc32_c'', S3Plain (opt_to_py PyStr (kcmuo_checksum_crc32_c v))),
      (''checksum_crc64_nvme'', S3Plain (opt_to_py PyStr (kcmuo_checksum_crc64_nvme v))),
      (''checksum_sha1'', S3Plain (opt_to_py PyStr (kcmuo_checksum_sha1 v))),
      (''checksum_sha256'', S3Plain (opt_to_py PyStr (kcmuo_checksum_sha256 v))),
      (''checksum_sha512'', S3Plain (opt_to_py PyStr (kcmuo_checksum_sha512 v))),
      (''checksum_md5'', S3Plain (opt_to_py PyStr (kcmuo_checksum_md5 v))),
      (''checksum_xxhash64'', S3Plain (opt_to_py PyStr (kcmuo_checksum_xxhash64 v))),
      (''checksum_xxhash3'', S3Plain (opt_to_py PyStr (kcmuo_checksum_xxhash3 v))),
      (''checksum_xxhash128'', S3Plain (opt_to_py PyStr (kcmuo_checksum_xxhash128 v))),
      (''checksum_type'', S3Plain (opt_to_py PyStr (kcmuo_checksum_type v))),
      (''server_side_encryption'', S3Plain (opt_to_py PyStr (kcmuo_server_side_encryption v))),
      (''version_id'', S3Plain (opt_to_py PyStr (kcmuo_version_id v))),
      (''ssekms_key_id'', S3Plain (opt_to_py PyStr (kcmuo_ssekms_key_id v))),
      (''bucket_key_enabled'', S3Plain (opt_to_py PyBool (kcmuo_bucket_key_enabled v))),
      (''request_charged'', S3Plain (opt_to_py PyStr (kcmuo_request_charged v)))]"

definition complete_multipart_upload_output_to_dict :: "((string, pyval) fmap \<Rightarrow> (string \<times> pyval) list) \<Rightarrow> s3_types \<Rightarrow> complete_multipart_upload_output \<Rightarrow> pyval" where
  "complete_multipart_upload_output_to_dict order S v = PyDict (py_dict
     [(''location'', opt_to_py PyStr (kcmuo_location v)),
      (''bucket'', opt_to_py PyStr (kcmuo_bucket v)),
      (''key'', opt_to_py PyStr (kcmuo_key v)),
      (''expiration'', opt_to_py PyStr (kcmuo_expiration v)),
      (''e_tag'', opt_to_py PyStr (kcmuo_e_tag v)),
      (''checksum_crc32'', opt_to_py PyStr (kcmuo_checksum_crc32 v)),
      (''checksum_crc32_c'', opt_to_py PyStr (kcmuo_checksum_crc32_c v)),
      (''checksum_crc64_nvme'', opt_to_py PyStr (kcmuo_checksum_crc64_nvme v)),
      (''checksum_sha1'', opt_to_py PyStr (kcmuo_checksum_sha1 v)),
      (''checksum_sha256'', opt_to_py PyStr (kcmuo_checksum_sha256 v)),
      (''checksum_sha512'', opt_to_py PyStr (kcmuo_checksum_sha512 v)),
      (''checksum_md5'', opt_to_py PyStr (kcmuo_checksum_md5 v)),
      (''checksum_xxhash64'', opt_to_py PyStr (kcmuo_checksum_xxhash64 v)),
      (''checksum_xxhash3'', opt_to_py PyStr (kcmuo_checksum_xxhash3 v)),
      (''checksum_xxhash128'', opt_to_py PyStr (kcmuo_checksum_xxhash128 v)),
      (''checksum_type'', opt_to_py PyStr (kcmuo_checksum_type v)),
      (''server_side_encryption'', opt_to_py PyStr (kcmuo_server_side_encryption v)),
      (''version_id'', opt_to_py PyStr (kcmuo_version_id v)),
      (''ssekms_key_id'', opt_to_py PyStr (kcmuo_ssekms_key_id v)),
      (''bucket_key_enabled'', opt_to_py PyBool (kcmuo_bucket_key_enabled v)),
      (''request_charged'', opt_to_py PyStr (kcmuo_request_charged v))])"

section \<open>\<open>CopyObjectOutput\<close>\<close>

record copy_object_output =
  kcoo_copy_object_result :: "copy_object_result option"
  kcoo_expiration :: "string option"
  kcoo_copy_source_version_id :: "string option"
  kcoo_version_id :: "string option"
  kcoo_server_side_encryption :: "string option"
  kcoo_sse_customer_algorithm :: "string option"
  kcoo_sse_customer_key_md5 :: "string option"
  kcoo_ssekms_key_id :: "string option"
  kcoo_ssekms_encryption_context :: "string option"
  kcoo_bucket_key_enabled :: "bool option"
  kcoo_request_charged :: "string option"

definition copy_object_output_attributes :: "((string, pyval) fmap \<Rightarrow> (string \<times> pyval) list) \<Rightarrow> s3_types \<Rightarrow> copy_object_output \<Rightarrow> (string \<times> s3_attr) list" where
  "copy_object_output_attributes order S v =
     [(''copy_object_result'', s3_opt_attr (\<lambda>x. S3Object (S3CopyObjectResult x)) (kcoo_copy_object_result v)),
      (''expiration'', S3Plain (opt_to_py PyStr (kcoo_expiration v))),
      (''copy_source_version_id'', S3Plain (opt_to_py PyStr (kcoo_copy_source_version_id v))),
      (''version_id'', S3Plain (opt_to_py PyStr (kcoo_version_id v))),
      (''server_side_encryption'', S3Plain (opt_to_py PyStr (kcoo_server_side_encryption v))),
      (''sse_customer_algorithm'', S3Plain (opt_to_py PyStr (kcoo_sse_customer_algorithm v))),
      (''sse_customer_key_md5'', S3Plain (opt_to_py PyStr (kcoo_sse_customer_key_md5 v))),
      (''ssekms_key_id'', S3Plain (opt_to_py PyStr (kcoo_ssekms_key_id v))),
      (''ssekms_encryption_context'', S3Plain (opt_to_py PyStr (kcoo_ssekms_encryption_context v))),
      (''bucket_key_enabled'', S3Plain (opt_to_py PyBool (kcoo_bucket_key_enabled v))),
      (''request_charged'', S3Plain (opt_to_py PyStr (kcoo_request_charged v)))]"

definition copy_object_output_to_dict :: "((string, pyval) fmap \<Rightarrow> (string \<times> pyval) list) \<Rightarrow> s3_types \<Rightarrow> copy_object_output \<Rightarrow> pyval" where
  "copy_object_output_to_dict order S v = PyDict (py_dict
     [(''copy_object_result'', opt_to_py (copy_object_result_to_py S) (kcoo_copy_object_result v)),
      (''expiration'', opt_to_py PyStr (kcoo_expiration v)),
      (''copy_source_version_id'', opt_to_py PyStr (kcoo_copy_source_version_id v)),
      (''version_id'', opt_to_py PyStr (kcoo_version_id v)),
      (''server_side_encryption'', opt_to_py PyStr (kcoo_server_side_encryption v)),
      (''sse_customer_algorithm'', opt_to_py PyStr (kcoo_sse_customer_algorithm v)),
      (''sse_customer_key_md5'', opt_to_py PyStr (kcoo_sse_customer_key_md5 v)),
      (''ssekms_key_id'', opt_to_py PyStr (kcoo_ssekms_key_id v)),
      (''ssekms_encryption_context'', opt_to_py PyStr (kcoo_ssekms_encryption_context v)),
      (''bucket_key_enabled'', opt_to_py PyBool (kcoo_bucket_key_enabled v)),
      (''request_charged'', opt_to_py PyStr (kcoo_request_charged v))])"

section \<open>\<open>CreateMultipartUploadOutput\<close>\<close>

record create_multipart_upload_output =
  kcmuo2_abort_date :: "datetime option"
  kcmuo2_abort_rule_id :: "string option"
  kcmuo2_bucket :: "string option"
  kcmuo2_key :: "string option"
  kcmuo2_upload_id :: "string option"
  kcmuo2_server_side_encryption :: "string option"
  kcmuo2_sse_customer_algorithm :: "string option"
  kcmuo2_sse_customer_key_md5 :: "string option"
  kcmuo2_ssekms_key_id :: "string option"
  kcmuo2_ssekms_encryption_context :: "string option"
  kcmuo2_bucket_key_enabled :: "bool option"
  kcmuo2_request_charged :: "string option"
  kcmuo2_checksum_algorithm :: "string option"
  kcmuo2_checksum_type :: "string option"

definition create_multipart_upload_output_attributes :: "((string, pyval) fmap \<Rightarrow> (string \<times> pyval) list) \<Rightarrow> s3_types \<Rightarrow> create_multipart_upload_output \<Rightarrow> (string \<times> s3_attr) list" where
  "create_multipart_upload_output_attributes order S v =
     [(''abort_date'', S3Plain (opt_to_py (datetime_to_py S) (kcmuo2_abort_date v))),
      (''abort_rule_id'', S3Plain (opt_to_py PyStr (kcmuo2_abort_rule_id v))),
      (''bucket'', S3Plain (opt_to_py PyStr (kcmuo2_bucket v))),
      (''key'', S3Plain (opt_to_py PyStr (kcmuo2_key v))),
      (''upload_id'', S3Plain (opt_to_py PyStr (kcmuo2_upload_id v))),
      (''server_side_encryption'', S3Plain (opt_to_py PyStr (kcmuo2_server_side_encryption v))),
      (''sse_customer_algorithm'', S3Plain (opt_to_py PyStr (kcmuo2_sse_customer_algorithm v))),
      (''sse_customer_key_md5'', S3Plain (opt_to_py PyStr (kcmuo2_sse_customer_key_md5 v))),
      (''ssekms_key_id'', S3Plain (opt_to_py PyStr (kcmuo2_ssekms_key_id v))),
      (''ssekms_encryption_context'', S3Plain (opt_to_py PyStr (kcmuo2_ssekms_encryption_context v))),
      (''bucket_key_enabled'', S3Plain (opt_to_py PyBool (kcmuo2_bucket_key_enabled v))),
      (''request_charged'', S3Plain (opt_to_py PyStr (kcmuo2_request_charged v))),
      (''checksum_algorithm'', S3Plain (opt_to_py PyStr (kcmuo2_checksum_algorithm v))),
      (''checksum_type'', S3Plain (opt_to_py PyStr (kcmuo2_checksum_type v)))]"

definition create_multipart_upload_output_to_dict :: "((string, pyval) fmap \<Rightarrow> (string \<times> pyval) list) \<Rightarrow> s3_types \<Rightarrow> create_multipart_upload_output \<Rightarrow> pyval" where
  "create_multipart_upload_output_to_dict order S v = PyDict (py_dict
     [(''abort_date'', opt_to_py (datetime_to_py S) (kcmuo2_abort_date v)),
      (''abort_rule_id'', opt_to_py PyStr (kcmuo2_abort_rule_id v)),
      (''bucket'', opt_to_py PyStr (kcmuo2_bucket v)),
      (''key'', opt_to_py PyStr (kcmuo2_key v)),
      (''upload_id'', opt_to_py PyStr (kcmuo2_upload_id v)),
      (''server_side_encryption'', opt_to_py PyStr (kcmuo2_server_side_encryption v)),
      (''sse_customer_algorithm'', opt_to_py PyStr (kcmuo2_sse_customer_algorithm v)),
      (''sse_customer_key_md5'', opt_to_py PyStr (kcmuo2_sse_customer_key_md5 v)),
      (''ssekms_key_id'', opt_to_py PyStr (kcmuo2_ssekms_key_id v)),
      (''ssekms_encryption_context'', opt_to_py PyStr (kcmuo2_ssekms_encryption_context v)),
      (''bucket_key_enabled'', opt_to_py PyBool (kcmuo2_bucket_key_enabled v)),
      (''request_charged'', opt_to_py PyStr (kcmuo2_request_charged v)),
      (''checksum_algorithm'', opt_to_py PyStr (kcmuo2_checksum_algorithm v)),
      (''checksum_type'', opt_to_py PyStr (kcmuo2_checksum_type v))])"

section \<open>\<open>DeleteObjectOutput\<close>\<close>

record delete_object_output =
  kdoo_delete_marker :: "bool option"
  kdoo_version_id :: "string option"
  kdoo_request_charged :: "string option"

definition delete_object_output_attributes :: "((string, pyval) fmap \<Rightarrow> (string \<times> pyval) list) \<Rightarrow> s3_types \<Rightarrow> delete_object_output \<Rightarrow> (string \<times> s3_attr) list" where
  "delete_object_output_attributes order S v =
     [(''delete_marker'', S3Plain (opt_to_py PyBool (kdoo_delete_marker v))),
      (''version_id'', S3Plain (opt_to_py PyStr (kdoo_version_id v))),
      (''request_charged'', S3Plain (opt_to_py PyStr (kdoo_request_charged v)))]"

definition delete_object_output_to_dict :: "((string, pyval) fmap \<Rightarrow> (string \<times> pyval) list) \<Rightarrow> s3_types \<Rightarrow> delete_object_output \<Rightarrow> pyval" where
  "delete_object_output_to_dict order S v = PyDict (py_dict
     [(''delete_marker'', opt_to_py PyBool (kdoo_delete_marker v)),
      (''version_id'', opt_to_py PyStr (kdoo_version_id v)),
      (''request_charged'', opt_to_py PyStr (kdoo_request_charged v))])"

section \<open>\<open>DeleteObjectsOutput\<close>\<close>

record delete_objects_output =
  kdoo2_deleted :: "deleted_object list option"
  kdoo2_request_charged :: "string option"
  kdoo2_errors :: "s3_error list option"

definition delete_objects_output_attributes :: "((string, pyval) fmap \<Rightarrow> (string \<times> pyval) list) \<Rightarrow> s3_types \<Rightarrow> delete_objects_output \<Rightarrow> (string \<times> s3_attr) list" where
  "delete_objects_output_attributes order S v =
     [(''deleted'', s3_opt_attr (\<lambda>xs. S3Objects (map S3DeletedObject xs)) (kdoo2_deleted v)),
      (''request_charged'', S3Plain (opt_to_py PyStr (kdoo2_request_charged v))),
      (''errors'', s3_opt_attr (\<lambda>xs. S3Objects (map S3Error xs)) (kdoo2_errors v))]"

definition delete_objects_output_to_dict :: "((string, pyval) fmap \<Rightarrow> (string \<times> pyval) list) \<Rightarrow> s3_types \<Rightarrow> delete_objects_output \<Rightarrow> pyval" where
  "delete_objects_output_to_dict order S v = PyDict (py_dict
     [(''deleted'', opt_to_py (seq_to_py deleted_object_to_py) (kdoo2_deleted v)),
      (''request_charged'', opt_to_py PyStr (kdoo2_request_charged v)),
      (''errors'', opt_to_py (seq_to_py error_to_py) (kdoo2_errors v))])"

section \<open>\<open>GetObjectOutput\<close>\<close>

record 'b get_object_output =
  kgoo_body :: 'b
  kgoo_delete_marker :: "bool option"
  kgoo_accept_ranges :: "string option"
  kgoo_expiration :: "string option"
  kgoo_restore :: "string option"
  kgoo_last_modified :: "datetime option"
  kgoo_content_length :: "int option"
  kgoo_e_tag :: "string option"
  kgoo_checksum_crc32 :: "string option"
  kgoo_checksum_crc32_c :: "string option"
  kgoo_checksum_crc64_nvme :: "string option"
  kgoo_checksum_sha1 :: "string option"
  kgoo_checksum_sha256 :: "string option"
  kgoo_checksum_sha512 :: "string option"
  kgoo_checksum_md5 :: "string option"
  kgoo_checksum_xxhash64 :: "string option"
  kgoo_checksum_xxhash3 :: "string option"
  kgoo_checksum_xxhash128 :: "string option"
  kgoo_checksum_type :: "string option"
  kgoo_missing_meta :: "int option"
  kgoo_version_id :: "string option"
  kgoo_cache_control :: "string option"
  kgoo_content_disposition :: "string option"
  kgoo_content_encoding :: "string option"
  kgoo_content_language :: "string option"
  kgoo_content_range :: "string option"
  kgoo_content_type :: "string option"
  kgoo_website_redirect_location :: "string option"
  kgoo_server_side_encryption :: "string option"
  kgoo_metadata :: "(string, string) fmap option"
  kgoo_sse_customer_algorithm :: "string option"
  kgoo_sse_customer_key_md5 :: "string option"
  kgoo_ssekms_key_id :: "string option"
  kgoo_bucket_key_enabled :: "bool option"
  kgoo_storage_class :: "string option"
  kgoo_request_charged :: "string option"
  kgoo_replication_status :: "string option"
  kgoo_parts_count :: "int option"
  kgoo_tag_count :: "int option"
  kgoo_object_lock_mode :: "string option"
  kgoo_object_lock_retain_until_date :: "datetime option"
  kgoo_object_lock_legal_hold_status :: "string option"
  kgoo_object_lock_event_hold :: "string option"
  kgoo_object_lock_event_hold_duration_days :: "int option"
  kgoo_object_lock_event_hold_duration_years :: "int option"
  kgoo_expires :: "datetime option"
  kgoo_expires_string :: "string option"

definition get_object_output_response :: "stream_error_context \<Rightarrow> 's get_object_output \<Rightarrow> 's py_byte_stream get_object_output" where
  "get_object_output_response context v =
     \<lparr>kgoo_body = new_stream (kgoo_body v) context,
      kgoo_delete_marker = kgoo_delete_marker v,
      kgoo_accept_ranges = kgoo_accept_ranges v,
      kgoo_expiration = kgoo_expiration v,
      kgoo_restore = kgoo_restore v,
      kgoo_last_modified = kgoo_last_modified v,
      kgoo_content_length = kgoo_content_length v,
      kgoo_e_tag = kgoo_e_tag v,
      kgoo_checksum_crc32 = kgoo_checksum_crc32 v,
      kgoo_checksum_crc32_c = kgoo_checksum_crc32_c v,
      kgoo_checksum_crc64_nvme = kgoo_checksum_crc64_nvme v,
      kgoo_checksum_sha1 = kgoo_checksum_sha1 v,
      kgoo_checksum_sha256 = kgoo_checksum_sha256 v,
      kgoo_checksum_sha512 = kgoo_checksum_sha512 v,
      kgoo_checksum_md5 = kgoo_checksum_md5 v,
      kgoo_checksum_xxhash64 = kgoo_checksum_xxhash64 v,
      kgoo_checksum_xxhash3 = kgoo_checksum_xxhash3 v,
      kgoo_checksum_xxhash128 = kgoo_checksum_xxhash128 v,
      kgoo_checksum_type = kgoo_checksum_type v,
      kgoo_missing_meta = kgoo_missing_meta v,
      kgoo_version_id = kgoo_version_id v,
      kgoo_cache_control = kgoo_cache_control v,
      kgoo_content_disposition = kgoo_content_disposition v,
      kgoo_content_encoding = kgoo_content_encoding v,
      kgoo_content_language = kgoo_content_language v,
      kgoo_content_range = kgoo_content_range v,
      kgoo_content_type = kgoo_content_type v,
      kgoo_website_redirect_location = kgoo_website_redirect_location v,
      kgoo_server_side_encryption = kgoo_server_side_encryption v,
      kgoo_metadata = kgoo_metadata v,
      kgoo_sse_customer_algorithm = kgoo_sse_customer_algorithm v,
      kgoo_sse_customer_key_md5 = kgoo_sse_customer_key_md5 v,
      kgoo_ssekms_key_id = kgoo_ssekms_key_id v,
      kgoo_bucket_key_enabled = kgoo_bucket_key_enabled v,
      kgoo_storage_class = kgoo_storage_class v,
      kgoo_request_charged = kgoo_request_charged v,
      kgoo_replication_status = kgoo_replication_status v,
      kgoo_parts_count = kgoo_parts_count v,
      kgoo_tag_count = kgoo_tag_count v,
      kgoo_object_lock_mode = kgoo_object_lock_mode v,
      kgoo_object_lock_retain_until_date = kgoo_object_lock_retain_until_date v,
      kgoo_object_lock_legal_hold_status = kgoo_object_lock_legal_hold_status v,
      kgoo_object_lock_event_hold = kgoo_object_lock_event_hold v,
      kgoo_object_lock_event_hold_duration_days = kgoo_object_lock_event_hold_duration_days v,
      kgoo_object_lock_event_hold_duration_years = kgoo_object_lock_event_hold_duration_years v,
      kgoo_expires = kgoo_expires v,
      kgoo_expires_string = kgoo_expires_string v\<rparr>"

definition get_object_output_attributes :: "((string, pyval) fmap \<Rightarrow> (string \<times> pyval) list) \<Rightarrow> s3_types \<Rightarrow> 's py_byte_stream get_object_output \<Rightarrow> (string \<times> ('s py_byte_stream + s3_attr)) list" where
  "get_object_output_attributes order S v =
     [(''body'', Inl (kgoo_body v)),
      (''delete_marker'', Inr (S3Plain (opt_to_py PyBool (kgoo_delete_marker v)))),
      (''accept_ranges'', Inr (S3Plain (opt_to_py PyStr (kgoo_accept_ranges v)))),
      (''expiration'', Inr (S3Plain (opt_to_py PyStr (kgoo_expiration v)))),
      (''restore'', Inr (S3Plain (opt_to_py PyStr (kgoo_restore v)))),
      (''last_modified'', Inr (S3Plain (opt_to_py (datetime_to_py S) (kgoo_last_modified v)))),
      (''content_length'', Inr (S3Plain (opt_to_py PyInt (kgoo_content_length v)))),
      (''e_tag'', Inr (S3Plain (opt_to_py PyStr (kgoo_e_tag v)))),
      (''checksum_crc32'', Inr (S3Plain (opt_to_py PyStr (kgoo_checksum_crc32 v)))),
      (''checksum_crc32_c'', Inr (S3Plain (opt_to_py PyStr (kgoo_checksum_crc32_c v)))),
      (''checksum_crc64_nvme'', Inr (S3Plain (opt_to_py PyStr (kgoo_checksum_crc64_nvme v)))),
      (''checksum_sha1'', Inr (S3Plain (opt_to_py PyStr (kgoo_checksum_sha1 v)))),
      (''checksum_sha256'', Inr (S3Plain (opt_to_py PyStr (kgoo_checksum_sha256 v)))),
      (''checksum_sha512'', Inr (S3Plain (opt_to_py PyStr (kgoo_checksum_sha512 v)))),
      (''checksum_md5'', Inr (S3Plain (opt_to_py PyStr (kgoo_checksum_md5 v)))),
      (''checksum_xxhash64'', Inr (S3Plain (opt_to_py PyStr (kgoo_checksum_xxhash64 v)))),
      (''checksum_xxhash3'', Inr (S3Plain (opt_to_py PyStr (kgoo_checksum_xxhash3 v)))),
      (''checksum_xxhash128'', Inr (S3Plain (opt_to_py PyStr (kgoo_checksum_xxhash128 v)))),
      (''checksum_type'', Inr (S3Plain (opt_to_py PyStr (kgoo_checksum_type v)))),
      (''missing_meta'', Inr (S3Plain (opt_to_py PyInt (kgoo_missing_meta v)))),
      (''version_id'', Inr (S3Plain (opt_to_py PyStr (kgoo_version_id v)))),
      (''cache_control'', Inr (S3Plain (opt_to_py PyStr (kgoo_cache_control v)))),
      (''content_disposition'', Inr (S3Plain (opt_to_py PyStr (kgoo_content_disposition v)))),
      (''content_encoding'', Inr (S3Plain (opt_to_py PyStr (kgoo_content_encoding v)))),
      (''content_language'', Inr (S3Plain (opt_to_py PyStr (kgoo_content_language v)))),
      (''content_range'', Inr (S3Plain (opt_to_py PyStr (kgoo_content_range v)))),
      (''content_type'', Inr (S3Plain (opt_to_py PyStr (kgoo_content_type v)))),
      (''website_redirect_location'', Inr (S3Plain (opt_to_py PyStr (kgoo_website_redirect_location v)))),
      (''server_side_encryption'', Inr (S3Plain (opt_to_py PyStr (kgoo_server_side_encryption v)))),
      (''metadata'', Inr (S3Plain (opt_to_py (mapping_to_py order PyStr) (kgoo_metadata v)))),
      (''sse_customer_algorithm'', Inr (S3Plain (opt_to_py PyStr (kgoo_sse_customer_algorithm v)))),
      (''sse_customer_key_md5'', Inr (S3Plain (opt_to_py PyStr (kgoo_sse_customer_key_md5 v)))),
      (''ssekms_key_id'', Inr (S3Plain (opt_to_py PyStr (kgoo_ssekms_key_id v)))),
      (''bucket_key_enabled'', Inr (S3Plain (opt_to_py PyBool (kgoo_bucket_key_enabled v)))),
      (''storage_class'', Inr (S3Plain (opt_to_py PyStr (kgoo_storage_class v)))),
      (''request_charged'', Inr (S3Plain (opt_to_py PyStr (kgoo_request_charged v)))),
      (''replication_status'', Inr (S3Plain (opt_to_py PyStr (kgoo_replication_status v)))),
      (''parts_count'', Inr (S3Plain (opt_to_py PyInt (kgoo_parts_count v)))),
      (''tag_count'', Inr (S3Plain (opt_to_py PyInt (kgoo_tag_count v)))),
      (''object_lock_mode'', Inr (S3Plain (opt_to_py PyStr (kgoo_object_lock_mode v)))),
      (''object_lock_retain_until_date'', Inr (S3Plain (opt_to_py (datetime_to_py S) (kgoo_object_lock_retain_until_date v)))),
      (''object_lock_legal_hold_status'', Inr (S3Plain (opt_to_py PyStr (kgoo_object_lock_legal_hold_status v)))),
      (''object_lock_event_hold'', Inr (S3Plain (opt_to_py PyStr (kgoo_object_lock_event_hold v)))),
      (''object_lock_event_hold_duration_days'', Inr (S3Plain (opt_to_py PyInt (kgoo_object_lock_event_hold_duration_days v)))),
      (''object_lock_event_hold_duration_years'', Inr (S3Plain (opt_to_py PyInt (kgoo_object_lock_event_hold_duration_years v)))),
      (''expires'', Inr (S3Plain (opt_to_py (datetime_to_py S) (kgoo_expires v)))),
      (''expires_string'', Inr (S3Plain (opt_to_py PyStr (kgoo_expires_string v))))]"

definition get_object_output_to_dict :: "((string, pyval) fmap \<Rightarrow> (string \<times> pyval) list) \<Rightarrow> s3_types \<Rightarrow> 's py_byte_stream get_object_output \<Rightarrow> (string \<times> ('s py_byte_stream + pyval)) list" where
  "get_object_output_to_dict order S v =
     [(''body'', Inl (kgoo_body v)),
      (''delete_marker'', Inr (opt_to_py PyBool (kgoo_delete_marker v))),
      (''accept_ranges'', Inr (opt_to_py PyStr (kgoo_accept_ranges v))),
      (''expiration'', Inr (opt_to_py PyStr (kgoo_expiration v))),
      (''restore'', Inr (opt_to_py PyStr (kgoo_restore v))),
      (''last_modified'', Inr (opt_to_py (datetime_to_py S) (kgoo_last_modified v))),
      (''content_length'', Inr (opt_to_py PyInt (kgoo_content_length v))),
      (''e_tag'', Inr (opt_to_py PyStr (kgoo_e_tag v))),
      (''checksum_crc32'', Inr (opt_to_py PyStr (kgoo_checksum_crc32 v))),
      (''checksum_crc32_c'', Inr (opt_to_py PyStr (kgoo_checksum_crc32_c v))),
      (''checksum_crc64_nvme'', Inr (opt_to_py PyStr (kgoo_checksum_crc64_nvme v))),
      (''checksum_sha1'', Inr (opt_to_py PyStr (kgoo_checksum_sha1 v))),
      (''checksum_sha256'', Inr (opt_to_py PyStr (kgoo_checksum_sha256 v))),
      (''checksum_sha512'', Inr (opt_to_py PyStr (kgoo_checksum_sha512 v))),
      (''checksum_md5'', Inr (opt_to_py PyStr (kgoo_checksum_md5 v))),
      (''checksum_xxhash64'', Inr (opt_to_py PyStr (kgoo_checksum_xxhash64 v))),
      (''checksum_xxhash3'', Inr (opt_to_py PyStr (kgoo_checksum_xxhash3 v))),
      (''checksum_xxhash128'', Inr (opt_to_py PyStr (kgoo_checksum_xxhash128 v))),
      (''checksum_type'', Inr (opt_to_py PyStr (kgoo_checksum_type v))),
      (''missing_meta'', Inr (opt_to_py PyInt (kgoo_missing_meta v))),
      (''version_id'', Inr (opt_to_py PyStr (kgoo_version_id v))),
      (''cache_control'', Inr (opt_to_py PyStr (kgoo_cache_control v))),
      (''content_disposition'', Inr (opt_to_py PyStr (kgoo_content_disposition v))),
      (''content_encoding'', Inr (opt_to_py PyStr (kgoo_content_encoding v))),
      (''content_language'', Inr (opt_to_py PyStr (kgoo_content_language v))),
      (''content_range'', Inr (opt_to_py PyStr (kgoo_content_range v))),
      (''content_type'', Inr (opt_to_py PyStr (kgoo_content_type v))),
      (''website_redirect_location'', Inr (opt_to_py PyStr (kgoo_website_redirect_location v))),
      (''server_side_encryption'', Inr (opt_to_py PyStr (kgoo_server_side_encryption v))),
      (''metadata'', Inr (opt_to_py (mapping_to_py order PyStr) (kgoo_metadata v))),
      (''sse_customer_algorithm'', Inr (opt_to_py PyStr (kgoo_sse_customer_algorithm v))),
      (''sse_customer_key_md5'', Inr (opt_to_py PyStr (kgoo_sse_customer_key_md5 v))),
      (''ssekms_key_id'', Inr (opt_to_py PyStr (kgoo_ssekms_key_id v))),
      (''bucket_key_enabled'', Inr (opt_to_py PyBool (kgoo_bucket_key_enabled v))),
      (''storage_class'', Inr (opt_to_py PyStr (kgoo_storage_class v))),
      (''request_charged'', Inr (opt_to_py PyStr (kgoo_request_charged v))),
      (''replication_status'', Inr (opt_to_py PyStr (kgoo_replication_status v))),
      (''parts_count'', Inr (opt_to_py PyInt (kgoo_parts_count v))),
      (''tag_count'', Inr (opt_to_py PyInt (kgoo_tag_count v))),
      (''object_lock_mode'', Inr (opt_to_py PyStr (kgoo_object_lock_mode v))),
      (''object_lock_retain_until_date'', Inr (opt_to_py (datetime_to_py S) (kgoo_object_lock_retain_until_date v))),
      (''object_lock_legal_hold_status'', Inr (opt_to_py PyStr (kgoo_object_lock_legal_hold_status v))),
      (''object_lock_event_hold'', Inr (opt_to_py PyStr (kgoo_object_lock_event_hold v))),
      (''object_lock_event_hold_duration_days'', Inr (opt_to_py PyInt (kgoo_object_lock_event_hold_duration_days v))),
      (''object_lock_event_hold_duration_years'', Inr (opt_to_py PyInt (kgoo_object_lock_event_hold_duration_years v))),
      (''expires'', Inr (opt_to_py (datetime_to_py S) (kgoo_expires v))),
      (''expires_string'', Inr (opt_to_py PyStr (kgoo_expires_string v)))]"

section \<open>\<open>HeadBucketOutput\<close>\<close>

record head_bucket_output =
  khbo_bucket_arn :: "string option"
  khbo_bucket_location_type :: "string option"
  khbo_bucket_location_name :: "string option"
  khbo_bucket_region :: "string option"
  khbo_access_point_alias :: "bool option"

definition head_bucket_output_attributes :: "((string, pyval) fmap \<Rightarrow> (string \<times> pyval) list) \<Rightarrow> s3_types \<Rightarrow> head_bucket_output \<Rightarrow> (string \<times> s3_attr) list" where
  "head_bucket_output_attributes order S v =
     [(''bucket_arn'', S3Plain (opt_to_py PyStr (khbo_bucket_arn v))),
      (''bucket_location_type'', S3Plain (opt_to_py PyStr (khbo_bucket_location_type v))),
      (''bucket_location_name'', S3Plain (opt_to_py PyStr (khbo_bucket_location_name v))),
      (''bucket_region'', S3Plain (opt_to_py PyStr (khbo_bucket_region v))),
      (''access_point_alias'', S3Plain (opt_to_py PyBool (khbo_access_point_alias v)))]"

definition head_bucket_output_to_dict :: "((string, pyval) fmap \<Rightarrow> (string \<times> pyval) list) \<Rightarrow> s3_types \<Rightarrow> head_bucket_output \<Rightarrow> pyval" where
  "head_bucket_output_to_dict order S v = PyDict (py_dict
     [(''bucket_arn'', opt_to_py PyStr (khbo_bucket_arn v)),
      (''bucket_location_type'', opt_to_py PyStr (khbo_bucket_location_type v)),
      (''bucket_location_name'', opt_to_py PyStr (khbo_bucket_location_name v)),
      (''bucket_region'', opt_to_py PyStr (khbo_bucket_region v)),
      (''access_point_alias'', opt_to_py PyBool (khbo_access_point_alias v))])"

section \<open>\<open>HeadObjectOutput\<close>\<close>

record head_object_output =
  khoo_delete_marker :: "bool option"
  khoo_accept_ranges :: "string option"
  khoo_expiration :: "string option"
  khoo_restore :: "string option"
  khoo_archive_status :: "string option"
  khoo_last_modified :: "datetime option"
  khoo_content_length :: "int option"
  khoo_checksum_crc32 :: "string option"
  khoo_checksum_crc32_c :: "string option"
  khoo_checksum_crc64_nvme :: "string option"
  khoo_checksum_sha1 :: "string option"
  khoo_checksum_sha256 :: "string option"
  khoo_checksum_sha512 :: "string option"
  khoo_checksum_md5 :: "string option"
  khoo_checksum_xxhash64 :: "string option"
  khoo_checksum_xxhash3 :: "string option"
  khoo_checksum_xxhash128 :: "string option"
  khoo_checksum_type :: "string option"
  khoo_e_tag :: "string option"
  khoo_missing_meta :: "int option"
  khoo_version_id :: "string option"
  khoo_cache_control :: "string option"
  khoo_content_disposition :: "string option"
  khoo_content_encoding :: "string option"
  khoo_content_language :: "string option"
  khoo_content_type :: "string option"
  khoo_content_range :: "string option"
  khoo_website_redirect_location :: "string option"
  khoo_server_side_encryption :: "string option"
  khoo_metadata :: "(string, string) fmap option"
  khoo_sse_customer_algorithm :: "string option"
  khoo_sse_customer_key_md5 :: "string option"
  khoo_ssekms_key_id :: "string option"
  khoo_bucket_key_enabled :: "bool option"
  khoo_storage_class :: "string option"
  khoo_request_charged :: "string option"
  khoo_replication_status :: "string option"
  khoo_parts_count :: "int option"
  khoo_tag_count :: "int option"
  khoo_object_lock_mode :: "string option"
  khoo_object_lock_retain_until_date :: "datetime option"
  khoo_object_lock_legal_hold_status :: "string option"
  khoo_object_lock_event_hold :: "string option"
  khoo_object_lock_event_hold_duration_days :: "int option"
  khoo_object_lock_event_hold_duration_years :: "int option"
  khoo_expires :: "datetime option"
  khoo_expires_string :: "string option"

definition head_object_output_attributes :: "((string, pyval) fmap \<Rightarrow> (string \<times> pyval) list) \<Rightarrow> s3_types \<Rightarrow> head_object_output \<Rightarrow> (string \<times> s3_attr) list" where
  "head_object_output_attributes order S v =
     [(''delete_marker'', S3Plain (opt_to_py PyBool (khoo_delete_marker v))),
      (''accept_ranges'', S3Plain (opt_to_py PyStr (khoo_accept_ranges v))),
      (''expiration'', S3Plain (opt_to_py PyStr (khoo_expiration v))),
      (''restore'', S3Plain (opt_to_py PyStr (khoo_restore v))),
      (''archive_status'', S3Plain (opt_to_py PyStr (khoo_archive_status v))),
      (''last_modified'', S3Plain (opt_to_py (datetime_to_py S) (khoo_last_modified v))),
      (''content_length'', S3Plain (opt_to_py PyInt (khoo_content_length v))),
      (''checksum_crc32'', S3Plain (opt_to_py PyStr (khoo_checksum_crc32 v))),
      (''checksum_crc32_c'', S3Plain (opt_to_py PyStr (khoo_checksum_crc32_c v))),
      (''checksum_crc64_nvme'', S3Plain (opt_to_py PyStr (khoo_checksum_crc64_nvme v))),
      (''checksum_sha1'', S3Plain (opt_to_py PyStr (khoo_checksum_sha1 v))),
      (''checksum_sha256'', S3Plain (opt_to_py PyStr (khoo_checksum_sha256 v))),
      (''checksum_sha512'', S3Plain (opt_to_py PyStr (khoo_checksum_sha512 v))),
      (''checksum_md5'', S3Plain (opt_to_py PyStr (khoo_checksum_md5 v))),
      (''checksum_xxhash64'', S3Plain (opt_to_py PyStr (khoo_checksum_xxhash64 v))),
      (''checksum_xxhash3'', S3Plain (opt_to_py PyStr (khoo_checksum_xxhash3 v))),
      (''checksum_xxhash128'', S3Plain (opt_to_py PyStr (khoo_checksum_xxhash128 v))),
      (''checksum_type'', S3Plain (opt_to_py PyStr (khoo_checksum_type v))),
      (''e_tag'', S3Plain (opt_to_py PyStr (khoo_e_tag v))),
      (''missing_meta'', S3Plain (opt_to_py PyInt (khoo_missing_meta v))),
      (''version_id'', S3Plain (opt_to_py PyStr (khoo_version_id v))),
      (''cache_control'', S3Plain (opt_to_py PyStr (khoo_cache_control v))),
      (''content_disposition'', S3Plain (opt_to_py PyStr (khoo_content_disposition v))),
      (''content_encoding'', S3Plain (opt_to_py PyStr (khoo_content_encoding v))),
      (''content_language'', S3Plain (opt_to_py PyStr (khoo_content_language v))),
      (''content_type'', S3Plain (opt_to_py PyStr (khoo_content_type v))),
      (''content_range'', S3Plain (opt_to_py PyStr (khoo_content_range v))),
      (''website_redirect_location'', S3Plain (opt_to_py PyStr (khoo_website_redirect_location v))),
      (''server_side_encryption'', S3Plain (opt_to_py PyStr (khoo_server_side_encryption v))),
      (''metadata'', S3Plain (opt_to_py (mapping_to_py order PyStr) (khoo_metadata v))),
      (''sse_customer_algorithm'', S3Plain (opt_to_py PyStr (khoo_sse_customer_algorithm v))),
      (''sse_customer_key_md5'', S3Plain (opt_to_py PyStr (khoo_sse_customer_key_md5 v))),
      (''ssekms_key_id'', S3Plain (opt_to_py PyStr (khoo_ssekms_key_id v))),
      (''bucket_key_enabled'', S3Plain (opt_to_py PyBool (khoo_bucket_key_enabled v))),
      (''storage_class'', S3Plain (opt_to_py PyStr (khoo_storage_class v))),
      (''request_charged'', S3Plain (opt_to_py PyStr (khoo_request_charged v))),
      (''replication_status'', S3Plain (opt_to_py PyStr (khoo_replication_status v))),
      (''parts_count'', S3Plain (opt_to_py PyInt (khoo_parts_count v))),
      (''tag_count'', S3Plain (opt_to_py PyInt (khoo_tag_count v))),
      (''object_lock_mode'', S3Plain (opt_to_py PyStr (khoo_object_lock_mode v))),
      (''object_lock_retain_until_date'', S3Plain (opt_to_py (datetime_to_py S) (khoo_object_lock_retain_until_date v))),
      (''object_lock_legal_hold_status'', S3Plain (opt_to_py PyStr (khoo_object_lock_legal_hold_status v))),
      (''object_lock_event_hold'', S3Plain (opt_to_py PyStr (khoo_object_lock_event_hold v))),
      (''object_lock_event_hold_duration_days'', S3Plain (opt_to_py PyInt (khoo_object_lock_event_hold_duration_days v))),
      (''object_lock_event_hold_duration_years'', S3Plain (opt_to_py PyInt (khoo_object_lock_event_hold_duration_years v))),
      (''expires'', S3Plain (opt_to_py (datetime_to_py S) (khoo_expires v))),
      (''expires_string'', S3Plain (opt_to_py PyStr (khoo_expires_string v)))]"

definition head_object_output_to_dict :: "((string, pyval) fmap \<Rightarrow> (string \<times> pyval) list) \<Rightarrow> s3_types \<Rightarrow> head_object_output \<Rightarrow> pyval" where
  "head_object_output_to_dict order S v = PyDict (py_dict
     [(''delete_marker'', opt_to_py PyBool (khoo_delete_marker v)),
      (''accept_ranges'', opt_to_py PyStr (khoo_accept_ranges v)),
      (''expiration'', opt_to_py PyStr (khoo_expiration v)),
      (''restore'', opt_to_py PyStr (khoo_restore v)),
      (''archive_status'', opt_to_py PyStr (khoo_archive_status v)),
      (''last_modified'', opt_to_py (datetime_to_py S) (khoo_last_modified v)),
      (''content_length'', opt_to_py PyInt (khoo_content_length v)),
      (''checksum_crc32'', opt_to_py PyStr (khoo_checksum_crc32 v)),
      (''checksum_crc32_c'', opt_to_py PyStr (khoo_checksum_crc32_c v)),
      (''checksum_crc64_nvme'', opt_to_py PyStr (khoo_checksum_crc64_nvme v)),
      (''checksum_sha1'', opt_to_py PyStr (khoo_checksum_sha1 v)),
      (''checksum_sha256'', opt_to_py PyStr (khoo_checksum_sha256 v)),
      (''checksum_sha512'', opt_to_py PyStr (khoo_checksum_sha512 v)),
      (''checksum_md5'', opt_to_py PyStr (khoo_checksum_md5 v)),
      (''checksum_xxhash64'', opt_to_py PyStr (khoo_checksum_xxhash64 v)),
      (''checksum_xxhash3'', opt_to_py PyStr (khoo_checksum_xxhash3 v)),
      (''checksum_xxhash128'', opt_to_py PyStr (khoo_checksum_xxhash128 v)),
      (''checksum_type'', opt_to_py PyStr (khoo_checksum_type v)),
      (''e_tag'', opt_to_py PyStr (khoo_e_tag v)),
      (''missing_meta'', opt_to_py PyInt (khoo_missing_meta v)),
      (''version_id'', opt_to_py PyStr (khoo_version_id v)),
      (''cache_control'', opt_to_py PyStr (khoo_cache_control v)),
      (''content_disposition'', opt_to_py PyStr (khoo_content_disposition v)),
      (''content_encoding'', opt_to_py PyStr (khoo_content_encoding v)),
      (''content_language'', opt_to_py PyStr (khoo_content_language v)),
      (''content_type'', opt_to_py PyStr (khoo_content_type v)),
      (''content_range'', opt_to_py PyStr (khoo_content_range v)),
      (''website_redirect_location'', opt_to_py PyStr (khoo_website_redirect_location v)),
      (''server_side_encryption'', opt_to_py PyStr (khoo_server_side_encryption v)),
      (''metadata'', opt_to_py (mapping_to_py order PyStr) (khoo_metadata v)),
      (''sse_customer_algorithm'', opt_to_py PyStr (khoo_sse_customer_algorithm v)),
      (''sse_customer_key_md5'', opt_to_py PyStr (khoo_sse_customer_key_md5 v)),
      (''ssekms_key_id'', opt_to_py PyStr (khoo_ssekms_key_id v)),
      (''bucket_key_enabled'', opt_to_py PyBool (khoo_bucket_key_enabled v)),
      (''storage_class'', opt_to_py PyStr (khoo_storage_class v)),
      (''request_charged'', opt_to_py PyStr (khoo_request_charged v)),
      (''replication_status'', opt_to_py PyStr (khoo_replication_status v)),
      (''parts_count'', opt_to_py PyInt (khoo_parts_count v)),
      (''tag_count'', opt_to_py PyInt (khoo_tag_count v)),
      (''object_lock_mode'', opt_to_py PyStr (khoo_object_lock_mode v)),
      (''object_lock_retain_until_date'', opt_to_py (datetime_to_py S) (khoo_object_lock_retain_until_date v)),
      (''object_lock_legal_hold_status'', opt_to_py PyStr (khoo_object_lock_legal_hold_status v)),
      (''object_lock_event_hold'', opt_to_py PyStr (khoo_object_lock_event_hold v)),
      (''object_lock_event_hold_duration_days'', opt_to_py PyInt (khoo_object_lock_event_hold_duration_days v)),
      (''object_lock_event_hold_duration_years'', opt_to_py PyInt (khoo_object_lock_event_hold_duration_years v)),
      (''expires'', opt_to_py (datetime_to_py S) (khoo_expires v)),
      (''expires_string'', opt_to_py PyStr (khoo_expires_string v))])"

section \<open>\<open>ListObjectsV2Output\<close>\<close>

record list_objects_v2_output =
  klovo_is_truncated :: "bool option"
  klovo_contents :: "stored_object list option"
  klovo_name :: "string option"
  klovo_prefix :: "string option"
  klovo_delimiter :: "string option"
  klovo_max_keys :: "int option"
  klovo_common_prefixes :: "common_prefix list option"
  klovo_encoding_type :: "string option"
  klovo_key_count :: "int option"
  klovo_continuation_token :: "string option"
  klovo_next_continuation_token :: "string option"
  klovo_start_after :: "string option"
  klovo_request_charged :: "string option"

definition list_objects_v2_output_attributes :: "((string, pyval) fmap \<Rightarrow> (string \<times> pyval) list) \<Rightarrow> s3_types \<Rightarrow> list_objects_v2_output \<Rightarrow> (string \<times> s3_attr) list" where
  "list_objects_v2_output_attributes order S v =
     [(''is_truncated'', S3Plain (opt_to_py PyBool (klovo_is_truncated v))),
      (''contents'', s3_opt_attr (\<lambda>xs. S3Objects (map S3StoredObject xs)) (klovo_contents v)),
      (''name'', S3Plain (opt_to_py PyStr (klovo_name v))),
      (''prefix'', S3Plain (opt_to_py PyStr (klovo_prefix v))),
      (''delimiter'', S3Plain (opt_to_py PyStr (klovo_delimiter v))),
      (''max_keys'', S3Plain (opt_to_py PyInt (klovo_max_keys v))),
      (''common_prefixes'', s3_opt_attr (\<lambda>xs. S3Objects (map S3CommonPrefix xs)) (klovo_common_prefixes v)),
      (''encoding_type'', S3Plain (opt_to_py PyStr (klovo_encoding_type v))),
      (''key_count'', S3Plain (opt_to_py PyInt (klovo_key_count v))),
      (''continuation_token'', S3Plain (opt_to_py PyStr (klovo_continuation_token v))),
      (''next_continuation_token'', S3Plain (opt_to_py PyStr (klovo_next_continuation_token v))),
      (''start_after'', S3Plain (opt_to_py PyStr (klovo_start_after v))),
      (''request_charged'', S3Plain (opt_to_py PyStr (klovo_request_charged v)))]"

definition list_objects_v2_output_to_dict :: "((string, pyval) fmap \<Rightarrow> (string \<times> pyval) list) \<Rightarrow> s3_types \<Rightarrow> list_objects_v2_output \<Rightarrow> pyval" where
  "list_objects_v2_output_to_dict order S v = PyDict (py_dict
     [(''is_truncated'', opt_to_py PyBool (klovo_is_truncated v)),
      (''contents'', opt_to_py (seq_to_py (object_to_py S)) (klovo_contents v)),
      (''name'', opt_to_py PyStr (klovo_name v)),
      (''prefix'', opt_to_py PyStr (klovo_prefix v)),
      (''delimiter'', opt_to_py PyStr (klovo_delimiter v)),
      (''max_keys'', opt_to_py PyInt (klovo_max_keys v)),
      (''common_prefixes'', opt_to_py (seq_to_py common_prefix_to_py) (klovo_common_prefixes v)),
      (''encoding_type'', opt_to_py PyStr (klovo_encoding_type v)),
      (''key_count'', opt_to_py PyInt (klovo_key_count v)),
      (''continuation_token'', opt_to_py PyStr (klovo_continuation_token v)),
      (''next_continuation_token'', opt_to_py PyStr (klovo_next_continuation_token v)),
      (''start_after'', opt_to_py PyStr (klovo_start_after v)),
      (''request_charged'', opt_to_py PyStr (klovo_request_charged v))])"

section \<open>\<open>ListPartsOutput\<close>\<close>

record list_parts_output =
  klpo_abort_date :: "datetime option"
  klpo_abort_rule_id :: "string option"
  klpo_bucket :: "string option"
  klpo_key :: "string option"
  klpo_upload_id :: "string option"
  klpo_part_number_marker :: "string option"
  klpo_next_part_number_marker :: "string option"
  klpo_max_parts :: "int option"
  klpo_is_truncated :: "bool option"
  klpo_parts :: "s3_part list option"
  klpo_initiator :: "initiator option"
  klpo_owner :: "s3_owner option"
  klpo_storage_class :: "string option"
  klpo_request_charged :: "string option"
  klpo_checksum_algorithm :: "string option"
  klpo_checksum_type :: "string option"

definition list_parts_output_attributes :: "((string, pyval) fmap \<Rightarrow> (string \<times> pyval) list) \<Rightarrow> s3_types \<Rightarrow> list_parts_output \<Rightarrow> (string \<times> s3_attr) list" where
  "list_parts_output_attributes order S v =
     [(''abort_date'', S3Plain (opt_to_py (datetime_to_py S) (klpo_abort_date v))),
      (''abort_rule_id'', S3Plain (opt_to_py PyStr (klpo_abort_rule_id v))),
      (''bucket'', S3Plain (opt_to_py PyStr (klpo_bucket v))),
      (''key'', S3Plain (opt_to_py PyStr (klpo_key v))),
      (''upload_id'', S3Plain (opt_to_py PyStr (klpo_upload_id v))),
      (''part_number_marker'', S3Plain (opt_to_py PyStr (klpo_part_number_marker v))),
      (''next_part_number_marker'', S3Plain (opt_to_py PyStr (klpo_next_part_number_marker v))),
      (''max_parts'', S3Plain (opt_to_py PyInt (klpo_max_parts v))),
      (''is_truncated'', S3Plain (opt_to_py PyBool (klpo_is_truncated v))),
      (''parts'', s3_opt_attr (\<lambda>xs. S3Objects (map S3Part xs)) (klpo_parts v)),
      (''initiator'', s3_opt_attr (\<lambda>x. S3Object (S3Initiator x)) (klpo_initiator v)),
      (''owner'', s3_opt_attr (\<lambda>x. S3Object (S3Owner x)) (klpo_owner v)),
      (''storage_class'', S3Plain (opt_to_py PyStr (klpo_storage_class v))),
      (''request_charged'', S3Plain (opt_to_py PyStr (klpo_request_charged v))),
      (''checksum_algorithm'', S3Plain (opt_to_py PyStr (klpo_checksum_algorithm v))),
      (''checksum_type'', S3Plain (opt_to_py PyStr (klpo_checksum_type v)))]"

definition list_parts_output_to_dict :: "((string, pyval) fmap \<Rightarrow> (string \<times> pyval) list) \<Rightarrow> s3_types \<Rightarrow> list_parts_output \<Rightarrow> pyval" where
  "list_parts_output_to_dict order S v = PyDict (py_dict
     [(''abort_date'', opt_to_py (datetime_to_py S) (klpo_abort_date v)),
      (''abort_rule_id'', opt_to_py PyStr (klpo_abort_rule_id v)),
      (''bucket'', opt_to_py PyStr (klpo_bucket v)),
      (''key'', opt_to_py PyStr (klpo_key v)),
      (''upload_id'', opt_to_py PyStr (klpo_upload_id v)),
      (''part_number_marker'', opt_to_py PyStr (klpo_part_number_marker v)),
      (''next_part_number_marker'', opt_to_py PyStr (klpo_next_part_number_marker v)),
      (''max_parts'', opt_to_py PyInt (klpo_max_parts v)),
      (''is_truncated'', opt_to_py PyBool (klpo_is_truncated v)),
      (''parts'', opt_to_py (seq_to_py (part_to_py S)) (klpo_parts v)),
      (''initiator'', opt_to_py initiator_to_py (klpo_initiator v)),
      (''owner'', opt_to_py owner_to_py (klpo_owner v)),
      (''storage_class'', opt_to_py PyStr (klpo_storage_class v)),
      (''request_charged'', opt_to_py PyStr (klpo_request_charged v)),
      (''checksum_algorithm'', opt_to_py PyStr (klpo_checksum_algorithm v)),
      (''checksum_type'', opt_to_py PyStr (klpo_checksum_type v))])"

section \<open>\<open>PutObjectOutput\<close>\<close>

record put_object_output =
  kpoo_expiration :: "string option"
  kpoo_e_tag :: "string option"
  kpoo_checksum_crc32 :: "string option"
  kpoo_checksum_crc32_c :: "string option"
  kpoo_checksum_crc64_nvme :: "string option"
  kpoo_checksum_sha1 :: "string option"
  kpoo_checksum_sha256 :: "string option"
  kpoo_checksum_sha512 :: "string option"
  kpoo_checksum_md5 :: "string option"
  kpoo_checksum_xxhash64 :: "string option"
  kpoo_checksum_xxhash3 :: "string option"
  kpoo_checksum_xxhash128 :: "string option"
  kpoo_checksum_type :: "string option"
  kpoo_server_side_encryption :: "string option"
  kpoo_version_id :: "string option"
  kpoo_sse_customer_algorithm :: "string option"
  kpoo_sse_customer_key_md5 :: "string option"
  kpoo_ssekms_key_id :: "string option"
  kpoo_ssekms_encryption_context :: "string option"
  kpoo_bucket_key_enabled :: "bool option"
  kpoo_size :: "int option"
  kpoo_request_charged :: "string option"

definition put_object_output_attributes :: "((string, pyval) fmap \<Rightarrow> (string \<times> pyval) list) \<Rightarrow> s3_types \<Rightarrow> put_object_output \<Rightarrow> (string \<times> s3_attr) list" where
  "put_object_output_attributes order S v =
     [(''expiration'', S3Plain (opt_to_py PyStr (kpoo_expiration v))),
      (''e_tag'', S3Plain (opt_to_py PyStr (kpoo_e_tag v))),
      (''checksum_crc32'', S3Plain (opt_to_py PyStr (kpoo_checksum_crc32 v))),
      (''checksum_crc32_c'', S3Plain (opt_to_py PyStr (kpoo_checksum_crc32_c v))),
      (''checksum_crc64_nvme'', S3Plain (opt_to_py PyStr (kpoo_checksum_crc64_nvme v))),
      (''checksum_sha1'', S3Plain (opt_to_py PyStr (kpoo_checksum_sha1 v))),
      (''checksum_sha256'', S3Plain (opt_to_py PyStr (kpoo_checksum_sha256 v))),
      (''checksum_sha512'', S3Plain (opt_to_py PyStr (kpoo_checksum_sha512 v))),
      (''checksum_md5'', S3Plain (opt_to_py PyStr (kpoo_checksum_md5 v))),
      (''checksum_xxhash64'', S3Plain (opt_to_py PyStr (kpoo_checksum_xxhash64 v))),
      (''checksum_xxhash3'', S3Plain (opt_to_py PyStr (kpoo_checksum_xxhash3 v))),
      (''checksum_xxhash128'', S3Plain (opt_to_py PyStr (kpoo_checksum_xxhash128 v))),
      (''checksum_type'', S3Plain (opt_to_py PyStr (kpoo_checksum_type v))),
      (''server_side_encryption'', S3Plain (opt_to_py PyStr (kpoo_server_side_encryption v))),
      (''version_id'', S3Plain (opt_to_py PyStr (kpoo_version_id v))),
      (''sse_customer_algorithm'', S3Plain (opt_to_py PyStr (kpoo_sse_customer_algorithm v))),
      (''sse_customer_key_md5'', S3Plain (opt_to_py PyStr (kpoo_sse_customer_key_md5 v))),
      (''ssekms_key_id'', S3Plain (opt_to_py PyStr (kpoo_ssekms_key_id v))),
      (''ssekms_encryption_context'', S3Plain (opt_to_py PyStr (kpoo_ssekms_encryption_context v))),
      (''bucket_key_enabled'', S3Plain (opt_to_py PyBool (kpoo_bucket_key_enabled v))),
      (''size'', S3Plain (opt_to_py PyInt (kpoo_size v))),
      (''request_charged'', S3Plain (opt_to_py PyStr (kpoo_request_charged v)))]"

definition put_object_output_to_dict :: "((string, pyval) fmap \<Rightarrow> (string \<times> pyval) list) \<Rightarrow> s3_types \<Rightarrow> put_object_output \<Rightarrow> pyval" where
  "put_object_output_to_dict order S v = PyDict (py_dict
     [(''expiration'', opt_to_py PyStr (kpoo_expiration v)),
      (''e_tag'', opt_to_py PyStr (kpoo_e_tag v)),
      (''checksum_crc32'', opt_to_py PyStr (kpoo_checksum_crc32 v)),
      (''checksum_crc32_c'', opt_to_py PyStr (kpoo_checksum_crc32_c v)),
      (''checksum_crc64_nvme'', opt_to_py PyStr (kpoo_checksum_crc64_nvme v)),
      (''checksum_sha1'', opt_to_py PyStr (kpoo_checksum_sha1 v)),
      (''checksum_sha256'', opt_to_py PyStr (kpoo_checksum_sha256 v)),
      (''checksum_sha512'', opt_to_py PyStr (kpoo_checksum_sha512 v)),
      (''checksum_md5'', opt_to_py PyStr (kpoo_checksum_md5 v)),
      (''checksum_xxhash64'', opt_to_py PyStr (kpoo_checksum_xxhash64 v)),
      (''checksum_xxhash3'', opt_to_py PyStr (kpoo_checksum_xxhash3 v)),
      (''checksum_xxhash128'', opt_to_py PyStr (kpoo_checksum_xxhash128 v)),
      (''checksum_type'', opt_to_py PyStr (kpoo_checksum_type v)),
      (''server_side_encryption'', opt_to_py PyStr (kpoo_server_side_encryption v)),
      (''version_id'', opt_to_py PyStr (kpoo_version_id v)),
      (''sse_customer_algorithm'', opt_to_py PyStr (kpoo_sse_customer_algorithm v)),
      (''sse_customer_key_md5'', opt_to_py PyStr (kpoo_sse_customer_key_md5 v)),
      (''ssekms_key_id'', opt_to_py PyStr (kpoo_ssekms_key_id v)),
      (''ssekms_encryption_context'', opt_to_py PyStr (kpoo_ssekms_encryption_context v)),
      (''bucket_key_enabled'', opt_to_py PyBool (kpoo_bucket_key_enabled v)),
      (''size'', opt_to_py PyInt (kpoo_size v)),
      (''request_charged'', opt_to_py PyStr (kpoo_request_charged v))])"

section \<open>\<open>UploadPartOutput\<close>\<close>

record upload_part_output =
  kupo_server_side_encryption :: "string option"
  kupo_e_tag :: "string option"
  kupo_checksum_crc32 :: "string option"
  kupo_checksum_crc32_c :: "string option"
  kupo_checksum_crc64_nvme :: "string option"
  kupo_checksum_sha1 :: "string option"
  kupo_checksum_sha256 :: "string option"
  kupo_checksum_sha512 :: "string option"
  kupo_checksum_md5 :: "string option"
  kupo_checksum_xxhash64 :: "string option"
  kupo_checksum_xxhash3 :: "string option"
  kupo_checksum_xxhash128 :: "string option"
  kupo_sse_customer_algorithm :: "string option"
  kupo_sse_customer_key_md5 :: "string option"
  kupo_ssekms_key_id :: "string option"
  kupo_bucket_key_enabled :: "bool option"
  kupo_request_charged :: "string option"

definition upload_part_output_attributes :: "((string, pyval) fmap \<Rightarrow> (string \<times> pyval) list) \<Rightarrow> s3_types \<Rightarrow> upload_part_output \<Rightarrow> (string \<times> s3_attr) list" where
  "upload_part_output_attributes order S v =
     [(''server_side_encryption'', S3Plain (opt_to_py PyStr (kupo_server_side_encryption v))),
      (''e_tag'', S3Plain (opt_to_py PyStr (kupo_e_tag v))),
      (''checksum_crc32'', S3Plain (opt_to_py PyStr (kupo_checksum_crc32 v))),
      (''checksum_crc32_c'', S3Plain (opt_to_py PyStr (kupo_checksum_crc32_c v))),
      (''checksum_crc64_nvme'', S3Plain (opt_to_py PyStr (kupo_checksum_crc64_nvme v))),
      (''checksum_sha1'', S3Plain (opt_to_py PyStr (kupo_checksum_sha1 v))),
      (''checksum_sha256'', S3Plain (opt_to_py PyStr (kupo_checksum_sha256 v))),
      (''checksum_sha512'', S3Plain (opt_to_py PyStr (kupo_checksum_sha512 v))),
      (''checksum_md5'', S3Plain (opt_to_py PyStr (kupo_checksum_md5 v))),
      (''checksum_xxhash64'', S3Plain (opt_to_py PyStr (kupo_checksum_xxhash64 v))),
      (''checksum_xxhash3'', S3Plain (opt_to_py PyStr (kupo_checksum_xxhash3 v))),
      (''checksum_xxhash128'', S3Plain (opt_to_py PyStr (kupo_checksum_xxhash128 v))),
      (''sse_customer_algorithm'', S3Plain (opt_to_py PyStr (kupo_sse_customer_algorithm v))),
      (''sse_customer_key_md5'', S3Plain (opt_to_py PyStr (kupo_sse_customer_key_md5 v))),
      (''ssekms_key_id'', S3Plain (opt_to_py PyStr (kupo_ssekms_key_id v))),
      (''bucket_key_enabled'', S3Plain (opt_to_py PyBool (kupo_bucket_key_enabled v))),
      (''request_charged'', S3Plain (opt_to_py PyStr (kupo_request_charged v)))]"

definition upload_part_output_to_dict :: "((string, pyval) fmap \<Rightarrow> (string \<times> pyval) list) \<Rightarrow> s3_types \<Rightarrow> upload_part_output \<Rightarrow> pyval" where
  "upload_part_output_to_dict order S v = PyDict (py_dict
     [(''server_side_encryption'', opt_to_py PyStr (kupo_server_side_encryption v)),
      (''e_tag'', opt_to_py PyStr (kupo_e_tag v)),
      (''checksum_crc32'', opt_to_py PyStr (kupo_checksum_crc32 v)),
      (''checksum_crc32_c'', opt_to_py PyStr (kupo_checksum_crc32_c v)),
      (''checksum_crc64_nvme'', opt_to_py PyStr (kupo_checksum_crc64_nvme v)),
      (''checksum_sha1'', opt_to_py PyStr (kupo_checksum_sha1 v)),
      (''checksum_sha256'', opt_to_py PyStr (kupo_checksum_sha256 v)),
      (''checksum_sha512'', opt_to_py PyStr (kupo_checksum_sha512 v)),
      (''checksum_md5'', opt_to_py PyStr (kupo_checksum_md5 v)),
      (''checksum_xxhash64'', opt_to_py PyStr (kupo_checksum_xxhash64 v)),
      (''checksum_xxhash3'', opt_to_py PyStr (kupo_checksum_xxhash3 v)),
      (''checksum_xxhash128'', opt_to_py PyStr (kupo_checksum_xxhash128 v)),
      (''sse_customer_algorithm'', opt_to_py PyStr (kupo_sse_customer_algorithm v)),
      (''sse_customer_key_md5'', opt_to_py PyStr (kupo_sse_customer_key_md5 v)),
      (''ssekms_key_id'', opt_to_py PyStr (kupo_ssekms_key_id v)),
      (''bucket_key_enabled'', opt_to_py PyBool (kupo_bucket_key_enabled v)),
      (''request_charged'', opt_to_py PyStr (kupo_request_charged v))])"

section \<open>Dictionaries and attributes agree\<close>

text \<open>The plain value of an object is what its own \<open>to_dict\<close> gives.\<close>

fun s3_render_object :: "((string, pyval) fmap \<Rightarrow> (string \<times> pyval) list) \<Rightarrow> s3_types \<Rightarrow> s3_object \<Rightarrow> pyval" where
  "s3_render_object order S (S3CommonPrefix v) = common_prefix_to_dict order S v"
| "s3_render_object order S (S3CopyObjectResult v) = copy_object_result_to_dict order S v"
| "s3_render_object order S (S3DeletedObject v) = deleted_object_to_dict order S v"
| "s3_render_object order S (S3Error v) = error_to_dict order S v"
| "s3_render_object order S (S3Initiator v) = initiator_to_dict order S v"
| "s3_render_object order S (S3StoredObject v) = object_to_dict order S v"
| "s3_render_object order S (S3Owner v) = owner_to_dict order S v"
| "s3_render_object order S (S3Part v) = part_to_dict order S v"
| "s3_render_object order S (S3RestoreStatus v) = restore_status_to_dict order S v"

fun s3_render :: "((string, pyval) fmap \<Rightarrow> (string \<times> pyval) list) \<Rightarrow> s3_types \<Rightarrow> s3_attr \<Rightarrow> pyval" where
  "s3_render order S (S3Plain v) = v"
| "s3_render order S (S3Object x) = s3_render_object order S x"
| "s3_render order S (S3Objects xs) = seq_to_py (s3_render_object order S) xs"
| "s3_render order S (S3ObjectMap m) = mapping_to_py order (s3_render_object order S) m"

lemma s3_render_parts [simp]:
  "s3_render order S (s3_opt_attr f v) = opt_to_py (\<lambda>x. s3_render order S (f x)) v"
  "seq_to_py g (map h xs) = seq_to_py (\<lambda>x. g (h x)) xs"
  "mapping_to_py order g (fmmap k m) = mapping_to_py order (\<lambda>x. g (k x)) m"
  by (simp_all add: s3_opt_attr_def seq_to_py_def mapping_to_py_def fmap.map_comp comp_def split: option.splits)

definition s3_attribute_dict :: "((string, pyval) fmap \<Rightarrow> (string \<times> pyval) list) \<Rightarrow> s3_types \<Rightarrow> (string \<times> s3_attr) list \<Rightarrow> pyval" where
  "s3_attribute_dict order S attrs = PyDict (map (\<lambda>(name, a). (PyStr name, s3_render order S a)) attrs)"

text \<open>
  For each of the 22 response classes, \<open>to_dict\<close> has exactly one entry per attribute, in the order of
  the getters, with the attribute's value: the value itself, or the dictionaries of the objects.
\<close>

lemma common_prefix_agrees:
  "common_prefix_to_dict order S v = s3_attribute_dict order S (common_prefix_attributes order S v)"
  by (simp add: s3_attribute_dict_def py_dict_distinct common_prefix_to_dict_def common_prefix_attributes_def
      common_prefix_to_py_def)

lemma copy_object_result_agrees:
  "copy_object_result_to_dict order S v = s3_attribute_dict order S (copy_object_result_attributes order S v)"
  by (simp add: s3_attribute_dict_def py_dict_distinct copy_object_result_to_dict_def copy_object_result_attributes_def
      copy_object_result_to_py_def)

lemma deleted_object_agrees:
  "deleted_object_to_dict order S v = s3_attribute_dict order S (deleted_object_attributes order S v)"
  by (simp add: s3_attribute_dict_def py_dict_distinct deleted_object_to_dict_def deleted_object_attributes_def
      deleted_object_to_py_def)

lemma error_agrees:
  "error_to_dict order S v = s3_attribute_dict order S (error_attributes order S v)"
  by (simp add: s3_attribute_dict_def py_dict_distinct error_to_dict_def error_attributes_def
      error_to_py_def)

lemma initiator_agrees:
  "initiator_to_dict order S v = s3_attribute_dict order S (initiator_attributes order S v)"
  by (simp add: s3_attribute_dict_def py_dict_distinct initiator_to_dict_def initiator_attributes_def
      initiator_to_py_def)

lemma object_agrees:
  "object_to_dict order S v = s3_attribute_dict order S (object_attributes order S v)"
  by (simp add: s3_attribute_dict_def py_dict_distinct object_to_dict_def object_attributes_def
      object_to_py_def owner_to_dict_def restore_status_to_dict_def)

lemma owner_agrees:
  "owner_to_dict order S v = s3_attribute_dict order S (owner_attributes order S v)"
  by (simp add: s3_attribute_dict_def py_dict_distinct owner_to_dict_def owner_attributes_def
      owner_to_py_def)

lemma part_agrees:
  "part_to_dict order S v = s3_attribute_dict order S (part_attributes order S v)"
  by (simp add: s3_attribute_dict_def py_dict_distinct part_to_dict_def part_attributes_def
      part_to_py_def)

lemma restore_status_agrees:
  "restore_status_to_dict order S v = s3_attribute_dict order S (restore_status_attributes order S v)"
  by (simp add: s3_attribute_dict_def py_dict_distinct restore_status_to_dict_def restore_status_attributes_def
      restore_status_to_py_def)

lemma get_object_output_agrees:
  "get_object_output_to_dict order S v = map (map_prod id (map_sum id (s3_render order S))) (get_object_output_attributes order S v)"
  by (simp add: get_object_output_to_dict_def get_object_output_attributes_def common_prefix_to_dict_def copy_object_result_to_dict_def deleted_object_to_dict_def error_to_dict_def initiator_to_dict_def object_to_dict_def owner_to_dict_def part_to_dict_def restore_status_to_dict_def)

lemma s3_outputs_agree:
  "abort_multipart_upload_output_to_dict order S v9 = s3_attribute_dict order S (abort_multipart_upload_output_attributes order S v9)"
  "complete_multipart_upload_output_to_dict order S v10 = s3_attribute_dict order S (complete_multipart_upload_output_attributes order S v10)"
  "copy_object_output_to_dict order S v11 = s3_attribute_dict order S (copy_object_output_attributes order S v11)"
  "create_multipart_upload_output_to_dict order S v12 = s3_attribute_dict order S (create_multipart_upload_output_attributes order S v12)"
  "delete_object_output_to_dict order S v13 = s3_attribute_dict order S (delete_object_output_attributes order S v13)"
  "delete_objects_output_to_dict order S v14 = s3_attribute_dict order S (delete_objects_output_attributes order S v14)"
  "head_bucket_output_to_dict order S v15 = s3_attribute_dict order S (head_bucket_output_attributes order S v15)"
  "head_object_output_to_dict order S v16 = s3_attribute_dict order S (head_object_output_attributes order S v16)"
  "list_objects_v2_output_to_dict order S v17 = s3_attribute_dict order S (list_objects_v2_output_attributes order S v17)"
  "list_parts_output_to_dict order S v18 = s3_attribute_dict order S (list_parts_output_attributes order S v18)"
  "put_object_output_to_dict order S v19 = s3_attribute_dict order S (put_object_output_attributes order S v19)"
  "upload_part_output_to_dict order S v20 = s3_attribute_dict order S (upload_part_output_attributes order S v20)"
  by (simp_all add: s3_attribute_dict_def py_dict_distinct
      abort_multipart_upload_output_to_dict_def abort_multipart_upload_output_attributes_def
      complete_multipart_upload_output_to_dict_def complete_multipart_upload_output_attributes_def
      copy_object_output_to_dict_def copy_object_output_attributes_def
      create_multipart_upload_output_to_dict_def create_multipart_upload_output_attributes_def
      delete_object_output_to_dict_def delete_object_output_attributes_def
      delete_objects_output_to_dict_def delete_objects_output_attributes_def
      head_bucket_output_to_dict_def head_bucket_output_attributes_def
      head_object_output_to_dict_def head_object_output_attributes_def
      list_objects_v2_output_to_dict_def list_objects_v2_output_attributes_def
      list_parts_output_to_dict_def list_parts_output_attributes_def
      put_object_output_to_dict_def put_object_output_attributes_def
      upload_part_output_to_dict_def upload_part_output_attributes_def
      common_prefix_to_dict_def
      copy_object_result_to_dict_def
      deleted_object_to_dict_def
      error_to_dict_def
      initiator_to_dict_def
      object_to_dict_def
      owner_to_dict_def
      part_to_dict_def
      restore_status_to_dict_def)

end
