(* ===== verification/S3.thy ===== *)
theory S3
  imports S3Outputs
begin

text \<open>
  The operations of the S3 client: the methods of \<open>S3Client\<close> in
  \<open>crates/rboto-s3/src/generated.rs\<close>, each reading its parameters from a dictionary and sending them
  through the shared \<open>execute\<close>, and the methods of the Python client
  (\<open>packages/rboto-s3/python/rboto_s3/client.py\<close>) that build those dictionaries.
\<close>

section \<open>The error of \<open>GetObject\<close> with details\<close>

text \<open>An object that is archived has to be restored before it can be read.\<close>

record invalid_object_state =
  ios_storage_class :: "string option"
  ios_access_tier :: "string option"

definition invalid_object_state_details :: "invalid_object_state \<Rightarrow> pydict" where
  "invalid_object_state_details value = details_of
     [(''storage_class'', map_option PyStr (ios_storage_class value)),
      (''access_tier'', map_option PyStr (ios_access_tier value))]"

datatype get_object_error = InvalidObjectState invalid_object_state | GetObjectOther

definition get_object_error_details :: "get_object_error \<Rightarrow> pydict pyresult" where
  "get_object_error_details e = Inr (case e of
     InvalidObjectState value \<Rightarrow> invalid_object_state_details value
   | GetObjectOther \<Rightarrow> [])"

section \<open>Operations\<close>

subsection \<open>\<open>AbortMultipartUpload\<close>\<close>

record abort_multipart_upload_input =
  kamui_bucket :: "string option"
  kamui_key :: "string option"
  kamui_upload_id :: "string option"
  kamui_request_payer :: "string option"
  kamui_expected_bucket_owner :: "string option"
  kamui_if_match_initiated_time :: "datetime option"

definition abort_multipart_upload_params :: "pyo3 \<Rightarrow> s3_types \<Rightarrow> pydict \<Rightarrow>
    abort_multipart_upload_input pyresult" where
  "abort_multipart_upload_params P S params =
     and_then (op_param P ''s3'' ''AbortMultipartUpload'' params ''bucket'' ''str'' (string_from_py P)) (\<lambda>bucket.
     and_then (op_param P ''s3'' ''AbortMultipartUpload'' params ''key'' ''str'' (string_from_py P)) (\<lambda>key.
     and_then (op_param P ''s3'' ''AbortMultipartUpload'' params ''upload_id'' ''str'' (string_from_py P)) (\<lambda>upload_id.
     and_then (op_param P ''s3'' ''AbortMultipartUpload'' params ''request_payer'' ''str (RequestPayer)'' (enum_from_py P)) (\<lambda>request_payer.
     and_then (op_param P ''s3'' ''AbortMultipartUpload'' params ''expected_bucket_owner'' ''str'' (string_from_py P)) (\<lambda>expected_bucket_owner.
     and_then (op_param P ''s3'' ''AbortMultipartUpload'' params ''if_match_initiated_time'' ''ISO 8601 timestamp string'' (datetime_from_py P S)) (\<lambda>if_match_initiated_time.
     Inr \<lparr>kamui_bucket = bucket,
       kamui_key = key,
       kamui_upload_id = upload_id,
       kamui_request_payer = request_payer,
       kamui_expected_bucket_owner = expected_bucket_owner,
       kamui_if_match_initiated_time = if_match_initiated_time\<rparr>))))))"

definition abort_multipart_upload :: "('cfg, 'client) service_env \<Rightarrow> pyo3 \<Rightarrow> s3_types \<Rightarrow> unit pyresult \<Rightarrow> bool \<Rightarrow>
    ('client \<Rightarrow> abort_multipart_upload_input \<Rightarrow> trip list \<times> (('e, http_response) sdk_error + abort_multipart_upload_output)) \<Rightarrow>
    'client client_handle \<Rightarrow> pydict \<Rightarrow> pydict option \<Rightarrow>
    (abort_multipart_upload_output pyresult \<times> 'client client_handle \<times> pydict option) option" where
  "abort_multipart_upload E P S bridge interrupted send c params observation =
     execute E bridge interrupted send no_details
       ''AbortMultipartUpload'' (abort_multipart_upload_params P S params) c observation"

definition abort_multipart_upload_call :: "s3_types \<Rightarrow> abort_multipart_upload_input \<Rightarrow> pydict" where
  "abort_multipart_upload_call S i = py_params
     [(''bucket'', opt_to_py PyStr (kamui_bucket i)),
      (''key'', opt_to_py PyStr (kamui_key i)),
      (''upload_id'', opt_to_py PyStr (kamui_upload_id i))]
     [(''request_payer'', opt_to_py PyStr (kamui_request_payer i)),
      (''expected_bucket_owner'', opt_to_py PyStr (kamui_expected_bucket_owner i)),
      (''if_match_initiated_time'', opt_to_py (datetime_to_py S) (kamui_if_match_initiated_time i))]"

subsection \<open>\<open>CompleteMultipartUpload\<close>\<close>

record complete_multipart_upload_input =
  kcmui_bucket :: "string option"
  kcmui_key :: "string option"
  kcmui_multipart_upload :: "completed_multipart_upload option"
  kcmui_upload_id :: "string option"
  kcmui_checksum_crc32 :: "string option"
  kcmui_checksum_crc32_c :: "string option"
  kcmui_checksum_crc64_nvme :: "string option"
  kcmui_checksum_sha1 :: "string option"
  kcmui_checksum_sha256 :: "string option"
  kcmui_checksum_sha512 :: "string option"
  kcmui_checksum_md5 :: "string option"
  kcmui_checksum_xxhash64 :: "string option"
  kcmui_checksum_xxhash3 :: "string option"
  kcmui_checksum_xxhash128 :: "string option"
  kcmui_checksum_type :: "string option"
  kcmui_mpu_object_size :: "64 word option"
  kcmui_request_payer :: "string option"
  kcmui_expected_bucket_owner :: "string option"
  kcmui_if_match :: "string option"
  kcmui_if_none_match :: "string option"
  kcmui_sse_customer_algorithm :: "string option"
  kcmui_sse_customer_key :: "string option"
  kcmui_sse_customer_key_md5 :: "string option"

definition complete_multipart_upload_params_1 :: "pyo3 \<Rightarrow> s3_types \<Rightarrow> pydict \<Rightarrow>
    (string option \<times> string option \<times> completed_multipart_upload option \<times> string option \<times> string option \<times> string option) pyresult" where
  "complete_multipart_upload_params_1 P S params =
     and_then (op_param P ''s3'' ''CompleteMultipartUpload'' params ''bucket'' ''str'' (string_from_py P)) (\<lambda>bucket.
     and_then (op_param P ''s3'' ''CompleteMultipartUpload'' params ''key'' ''str'' (string_from_py P)) (\<lambda>key.
     and_then (op_param P ''s3'' ''CompleteMultipartUpload'' params ''multipart_upload'' ''dict (CompletedMultipartUpload)'' (completed_multipart_upload_from_py P S)) (\<lambda>multipart_upload.
     and_then (op_param P ''s3'' ''CompleteMultipartUpload'' params ''upload_id'' ''str'' (string_from_py P)) (\<lambda>upload_id.
     and_then (op_param P ''s3'' ''CompleteMultipartUpload'' params ''checksum_crc32'' ''str'' (string_from_py P)) (\<lambda>checksum_crc32.
     and_then (op_param P ''s3'' ''CompleteMultipartUpload'' params ''checksum_crc32_c'' ''str'' (string_from_py P)) (\<lambda>checksum_crc32_c.
     Inr (bucket, key, multipart_upload, upload_id, checksum_crc32, checksum_crc32_c)))))))"

definition complete_multipart_upload_params_2 :: "pyo3 \<Rightarrow> s3_types \<Rightarrow> pydict \<Rightarrow>
    (string option \<times> string option \<times> string option \<times> string option \<times> string option \<times> string option) pyresult" where
  "complete_multipart_upload_params_2 P S params =
     and_then (op_param P ''s3'' ''CompleteMultipartUpload'' params ''checksum_crc64_nvme'' ''str'' (string_from_py P)) (\<lambda>checksum_crc64_nvme.
     and_then (op_param P ''s3'' ''CompleteMultipartUpload'' params ''checksum_sha1'' ''str'' (string_from_py P)) (\<lambda>checksum_sha1.
     and_then (op_param P ''s3'' ''CompleteMultipartUpload'' params ''checksum_sha256'' ''str'' (string_from_py P)) (\<lambda>checksum_sha256.
     and_then (op_param P ''s3'' ''CompleteMultipartUpload'' params ''checksum_sha512'' ''str'' (string_from_py P)) (\<lambda>checksum_sha512.
     and_then (op_param P ''s3'' ''CompleteMultipartUpload'' params ''checksum_md5'' ''str'' (string_from_py P)) (\<lambda>checksum_md5.
     and_then (op_param P ''s3'' ''CompleteMultipartUpload'' params ''checksum_xxhash64'' ''str'' (string_from_py P)) (\<lambda>checksum_xxhash64.
     Inr (checksum_crc64_nvme, checksum_sha1, checksum_sha256, checksum_sha512, checksum_md5, checksum_xxhash64)))))))"

definition complete_multipart_upload_params_3 :: "pyo3 \<Rightarrow> s3_types \<Rightarrow> pydict \<Rightarrow>
    (string option \<times> string option \<times> string option \<times> 64 word option \<times> string option \<times> string option) pyresult" where
  "complete_multipart_upload_params_3 P S params =
     and_then (op_param P ''s3'' ''CompleteMultipartUpload'' params ''checksum_xxhash3'' ''str'' (string_from_py P)) (\<lambda>checksum_xxhash3.
     and_then (op_param P ''s3'' ''CompleteMultipartUpload'' params ''checksum_xxhash128'' ''str'' (string_from_py P)) (\<lambda>checksum_xxhash128.
     and_then (op_param P ''s3'' ''CompleteMultipartUpload'' params ''checksum_type'' ''str (ChecksumType)'' (enum_from_py P)) (\<lambda>checksum_type.
     and_then (op_param P ''s3'' ''CompleteMultipartUpload'' params ''mpu_object_size'' ''int'' (i64_from_py P)) (\<lambda>mpu_object_size.
     and_then (op_param P ''s3'' ''CompleteMultipartUpload'' params ''request_payer'' ''str (RequestPayer)'' (enum_from_py P)) (\<lambda>request_payer.
     and_then (op_param P ''s3'' ''CompleteMultipartUpload'' params ''expected_bucket_owner'' ''str'' (string_from_py P)) (\<lambda>expected_bucket_owner.
     Inr (checksum_xxhash3, checksum_xxhash128, checksum_type, mpu_object_size, request_payer, expected_bucket_owner)))))))"

definition complete_multipart_upload_params_4 :: "pyo3 \<Rightarrow> s3_types \<Rightarrow> pydict \<Rightarrow>
    (string option \<times> string option \<times> string option \<times> string option \<times> string option) pyresult" where
  "complete_multipart_upload_params_4 P S params =
     and_then (op_param P ''s3'' ''CompleteMultipartUpload'' params ''if_match'' ''str'' (string_from_py P)) (\<lambda>if_match.
     and_then (op_param P ''s3'' ''CompleteMultipartUpload'' params ''if_none_match'' ''str'' (string_from_py P)) (\<lambda>if_none_match.
     and_then (op_param P ''s3'' ''CompleteMultipartUpload'' params ''sse_customer_algorithm'' ''str'' (string_from_py P)) (\<lambda>sse_customer_algorithm.
     and_then (op_param P ''s3'' ''CompleteMultipartUpload'' params ''sse_customer_key'' ''str'' (string_from_py P)) (\<lambda>sse_customer_key.
     and_then (op_param P ''s3'' ''CompleteMultipartUpload'' params ''sse_customer_key_md5'' ''str'' (string_from_py P)) (\<lambda>sse_customer_key_md5.
     Inr (if_match, if_none_match, sse_customer_algorithm, sse_customer_key, sse_customer_key_md5))))))"

definition complete_multipart_upload_params :: "pyo3 \<Rightarrow> s3_types \<Rightarrow> pydict \<Rightarrow>
    complete_multipart_upload_input pyresult" where
  "complete_multipart_upload_params P S params =
     and_then (complete_multipart_upload_params_1 P S params) (\<lambda>(bucket, key, multipart_upload, upload_id, checksum_crc32, checksum_crc32_c).
     and_then (complete_multipart_upload_params_2 P S params) (\<lambda>(checksum_crc64_nvme, checksum_sha1, checksum_sha256, checksum_sha512, checksum_md5, checksum_xxhash64).
     and_then (complete_multipart_upload_params_3 P S params) (\<lambda>(checksum_xxhash3, checksum_xxhash128, checksum_type, mpu_object_size, request_payer, expected_bucket_owner).
     and_then (complete_multipart_upload_params_4 P S params) (\<lambda>(if_match, if_none_match, sse_customer_algorithm, sse_customer_key, sse_customer_key_md5).
     Inr \<lparr>kcmui_bucket = bucket,
       kcmui_key = key,
       kcmui_multipart_upload = multipart_upload,
       kcmui_upload_id = upload_id,
       kcmui_checksum_crc32 = checksum_crc32,
       kcmui_checksum_crc32_c = checksum_crc32_c,
       kcmui_checksum_crc64_nvme = checksum_crc64_nvme,
       kcmui_checksum_sha1 = checksum_sha1,
       kcmui_checksum_sha256 = checksum_sha256,
       kcmui_checksum_sha512 = checksum_sha512,
       kcmui_checksum_md5 = checksum_md5,
       kcmui_checksum_xxhash64 = checksum_xxhash64,
       kcmui_checksum_xxhash3 = checksum_xxhash3,
       kcmui_checksum_xxhash128 = checksum_xxhash128,
       kcmui_checksum_type = checksum_type,
       kcmui_mpu_object_size = mpu_object_size,
       kcmui_request_payer = request_payer,
       kcmui_expected_bucket_owner = expected_bucket_owner,
       kcmui_if_match = if_match,
       kcmui_if_none_match = if_none_match,
       kcmui_sse_customer_algorithm = sse_customer_algorithm,
       kcmui_sse_customer_key = sse_customer_key,
       kcmui_sse_customer_key_md5 = sse_customer_key_md5\<rparr>))))"

definition complete_multipart_upload :: "('cfg, 'client) service_env \<Rightarrow> pyo3 \<Rightarrow> s3_types \<Rightarrow> unit pyresult \<Rightarrow> bool \<Rightarrow>
    ('client \<Rightarrow> complete_multipart_upload_input \<Rightarrow> trip list \<times> (('e, http_response) sdk_error + complete_multipart_upload_output)) \<Rightarrow>
    'client client_handle \<Rightarrow> pydict \<Rightarrow> pydict option \<Rightarrow>
    (complete_multipart_upload_output pyresult \<times> 'client client_handle \<times> pydict option) option" where
  "complete_multipart_upload E P S bridge interrupted send c params observation =
     execute E bridge interrupted send no_details
       ''CompleteMultipartUpload'' (complete_multipart_upload_params P S params) c observation"

definition complete_multipart_upload_call :: "complete_multipart_upload_input \<Rightarrow> pydict" where
  "complete_multipart_upload_call i = py_params
     [(''bucket'', opt_to_py PyStr (kcmui_bucket i)),
      (''key'', opt_to_py PyStr (kcmui_key i)),
      (''upload_id'', opt_to_py PyStr (kcmui_upload_id i))]
     [(''multipart_upload'', opt_to_py completed_multipart_upload_to_py (kcmui_multipart_upload i)),
      (''checksum_crc32'', opt_to_py PyStr (kcmui_checksum_crc32 i)),
      (''checksum_crc32_c'', opt_to_py PyStr (kcmui_checksum_crc32_c i)),
      (''checksum_crc64_nvme'', opt_to_py PyStr (kcmui_checksum_crc64_nvme i)),
      (''checksum_sha1'', opt_to_py PyStr (kcmui_checksum_sha1 i)),
      (''checksum_sha256'', opt_to_py PyStr (kcmui_checksum_sha256 i)),
      (''checksum_sha512'', opt_to_py PyStr (kcmui_checksum_sha512 i)),
      (''checksum_md5'', opt_to_py PyStr (kcmui_checksum_md5 i)),
      (''checksum_xxhash64'', opt_to_py PyStr (kcmui_checksum_xxhash64 i)),
      (''checksum_xxhash3'', opt_to_py PyStr (kcmui_checksum_xxhash3 i)),
      (''checksum_xxhash128'', opt_to_py PyStr (kcmui_checksum_xxhash128 i)),
      (''checksum_type'', opt_to_py PyStr (kcmui_checksum_type i)),
      (''mpu_object_size'', opt_to_py i64_to_py (kcmui_mpu_object_size i)),
      (''request_payer'', opt_to_py PyStr (kcmui_request_payer i)),
      (''expected_bucket_owner'', opt_to_py PyStr (kcmui_expected_bucket_owner i)),
      (''if_match'', opt_to_py PyStr (kcmui_if_match i)),
      (''if_none_match'', opt_to_py PyStr (kcmui_if_none_match i)),
      (''sse_customer_algorithm'', opt_to_py PyStr (kcmui_sse_customer_algorithm i)),
      (''sse_customer_key'', opt_to_py PyStr (kcmui_sse_customer_key i)),
      (''sse_customer_key_md5'', opt_to_py PyStr (kcmui_sse_customer_key_md5 i))]"

subsection \<open>\<open>CopyObject\<close>\<close>

record copy_object_input =
  kcoi_acl :: "string option"
  kcoi_bucket :: "string option"
  kcoi_cache_control :: "string option"
  kcoi_checksum_algorithm :: "string option"
  kcoi_content_disposition :: "string option"
  kcoi_content_encoding :: "string option"
  kcoi_content_language :: "string option"
  kcoi_content_type :: "string option"
  kcoi_copy_source :: "string option"
  kcoi_copy_source_if_match :: "string option"
  kcoi_copy_source_if_modified_since :: "datetime option"
  kcoi_copy_source_if_none_match :: "string option"
  kcoi_copy_source_if_unmodified_since :: "datetime option"
  kcoi_expires :: "datetime option"
  kcoi_grant_full_control :: "string option"
  kcoi_grant_read :: "string option"
  kcoi_grant_read_acp :: "string option"
  kcoi_grant_write_acp :: "string option"
  kcoi_if_match :: "string option"
  kcoi_if_none_match :: "string option"
  kcoi_key :: "string option"
  kcoi_metadata :: "(string, string) fmap option"
  kcoi_metadata_directive :: "string option"
  kcoi_tagging_directive :: "string option"
  kcoi_annotation_directive :: "string option"
  kcoi_server_side_encryption :: "string option"
  kcoi_storage_class :: "string option"
  kcoi_website_redirect_location :: "string option"
  kcoi_sse_customer_algorithm :: "string option"
  kcoi_sse_customer_key :: "string option"
  kcoi_sse_customer_key_md5 :: "string option"
  kcoi_ssekms_key_id :: "string option"
  kcoi_ssekms_encryption_context :: "string option"
  kcoi_bucket_key_enabled :: "bool option"
  kcoi_copy_source_sse_customer_algorithm :: "string option"
  kcoi_copy_source_sse_customer_key :: "string option"
  kcoi_copy_source_sse_customer_key_md5 :: "string option"
  kcoi_request_payer :: "string option"
  kcoi_tagging :: "string option"
  kcoi_object_lock_mode :: "string option"
  kcoi_object_lock_retain_until_date :: "datetime option"
  kcoi_object_lock_legal_hold_status :: "string option"
  kcoi_object_lock_event_hold :: "string option"
  kcoi_object_lock_event_hold_duration_days :: "32 word option"
  kcoi_object_lock_event_hold_duration_years :: "32 word option"
  kcoi_expected_bucket_owner :: "string option"
  kcoi_expected_source_bucket_owner :: "string option"

definition copy_object_params_1 :: "pyo3 \<Rightarrow> s3_types \<Rightarrow> pydict \<Rightarrow>
    (string option \<times> string option \<times> string option \<times> string option \<times> string option \<times> string option \<times> string option) pyresult" where
  "copy_object_params_1 P S params =
     and_then (op_param P ''s3'' ''CopyObject'' params ''acl'' ''str (ObjectCannedAcl)'' (enum_from_py P)) (\<lambda>acl.
     and_then (op_param P ''s3'' ''CopyObject'' params ''bucket'' ''str'' (string_from_py P)) (\<lambda>bucket.
     and_then (op_param P ''s3'' ''CopyObject'' params ''cache_control'' ''str'' (string_from_py P)) (\<lambda>cache_control.
     and_then (op_param P ''s3'' ''CopyObject'' params ''checksum_algorithm'' ''str (ChecksumAlgorithm)'' (enum_from_py P)) (\<lambda>checksum_algorithm.
     and_then (op_param P ''s3'' ''CopyObject'' params ''content_disposition'' ''str'' (string_from_py P)) (\<lambda>content_disposition.
     and_then (op_param P ''s3'' ''CopyObject'' params ''content_encoding'' ''str'' (string_from_py P)) (\<lambda>content_encoding.
     and_then (op_param P ''s3'' ''CopyObject'' params ''content_language'' ''str'' (string_from_py P)) (\<lambda>content_language.
     Inr (acl, bucket, cache_control, checksum_algorithm, content_disposition, content_encoding, content_language))))))))"

definition copy_object_params_2 :: "pyo3 \<Rightarrow> s3_types \<Rightarrow> pydict \<Rightarrow>
    (string option \<times> string option \<times> string option \<times> datetime option \<times> string option \<times> datetime option \<times> datetime option) pyresult" where
  "copy_object_params_2 P S params =
     and_then (op_param P ''s3'' ''CopyObject'' params ''content_type'' ''str'' (string_from_py P)) (\<lambda>content_type.
     and_then (op_param P ''s3'' ''CopyObject'' params ''copy_source'' ''str'' (string_from_py P)) (\<lambda>copy_source.
     and_then (op_param P ''s3'' ''CopyObject'' params ''copy_source_if_match'' ''str'' (string_from_py P)) (\<lambda>copy_source_if_match.
     and_then (op_param P ''s3'' ''CopyObject'' params ''copy_source_if_modified_since'' ''ISO 8601 timestamp string'' (datetime_from_py P S)) (\<lambda>copy_source_if_modified_since.
     and_then (op_param P ''s3'' ''CopyObject'' params ''copy_source_if_none_match'' ''str'' (string_from_py P)) (\<lambda>copy_source_if_none_match.
     and_then (op_param P ''s3'' ''CopyObject'' params ''copy_source_if_unmodified_since'' ''ISO 8601 timestamp string'' (datetime_from_py P S)) (\<lambda>copy_source_if_unmodified_since.
     and_then (op_param P ''s3'' ''CopyObject'' params ''expires'' ''ISO 8601 timestamp string'' (datetime_from_py P S)) (\<lambda>expires.
     Inr (content_type, copy_source, copy_source_if_match, copy_source_if_modified_since, copy_source_if_none_match, copy_source_if_unmodified_since, expires))))))))"

definition copy_object_params_3 :: "pyo3 \<Rightarrow> s3_types \<Rightarrow> pydict \<Rightarrow>
    (string option \<times> string option \<times> string option \<times> string option \<times> string option \<times> string option \<times> string option) pyresult" where
  "copy_object_params_3 P S params =
     and_then (op_param P ''s3'' ''CopyObject'' params ''grant_full_control'' ''str'' (string_from_py P)) (\<lambda>grant_full_control.
     and_then (op_param P ''s3'' ''CopyObject'' params ''grant_read'' ''str'' (string_from_py P)) (\<lambda>grant_read.
     and_then (op_param P ''s3'' ''CopyObject'' params ''grant_read_acp'' ''str'' (string_from_py P)) (\<lambda>grant_read_acp.
     and_then (op_param P ''s3'' ''CopyObject'' params ''grant_write_acp'' ''str'' (string_from_py P)) (\<lambda>grant_write_acp.
     and_then (op_param P ''s3'' ''CopyObject'' params ''if_match'' ''str'' (string_from_py P)) (\<lambda>if_match.
     and_then (op_param P ''s3'' ''CopyObject'' params ''if_none_match'' ''str'' (string_from_py P)) (\<lambda>if_none_match.
     and_then (op_param P ''s3'' ''CopyObject'' params ''key'' ''str'' (string_from_py P)) (\<lambda>key.
     Inr (grant_full_control, grant_read, grant_read_acp, grant_write_acp, if_match, if_none_match, key))))))))"

definition copy_object_params_4 :: "pyo3 \<Rightarrow> s3_types \<Rightarrow> pydict \<Rightarrow>
    ((string, string) fmap option \<times> string option \<times> string option \<times> string option \<times> string option \<times> string option) pyresult" where
  "copy_object_params_4 P S params =
     and_then (op_param P ''s3'' ''CopyObject'' params ''metadata'' ''dict'' (map_from_py P ''str'' ''str'' (string_from_py P))) (\<lambda>metadata.
     and_then (op_param P ''s3'' ''CopyObject'' params ''metadata_directive'' ''str (MetadataDirective)'' (enum_from_py P)) (\<lambda>metadata_directive.
     and_then (op_param P ''s3'' ''CopyObject'' params ''tagging_directive'' ''str (TaggingDirective)'' (enum_from_py P)) (\<lambda>tagging_directive.
     and_then (op_param P ''s3'' ''CopyObject'' params ''annotation_directive'' ''str (AnnotationDirective)'' (enum_from_py P)) (\<lambda>annotation_directive.
     and_then (op_param P ''s3'' ''CopyObject'' params ''server_side_encryption'' ''str (ServerSideEncryption)'' (enum_from_py P)) (\<lambda>server_side_encryption.
     and_then (op_param P ''s3'' ''CopyObject'' params ''storage_class'' ''str (StorageClass)'' (enum_from_py P)) (\<lambda>storage_class.
     Inr (metadata, metadata_directive, tagging_directive, annotation_directive, server_side_encryption, storage_class)))))))"

definition copy_object_params_5 :: "pyo3 \<Rightarrow> s3_types \<Rightarrow> pydict \<Rightarrow>
    (string option \<times> string option \<times> string option \<times> string option \<times> string option \<times> string option \<times> bool option) pyresult" where
  "copy_object_params_5 P S params =
     and_then (op_param P ''s3'' ''CopyObject'' params ''website_redirect_location'' ''str'' (string_from_py P)) (\<lambda>website_redirect_location.
     and_then (op_param P ''s3'' ''CopyObject'' params ''sse_customer_algorithm'' ''str'' (string_from_py P)) (\<lambda>sse_customer_algorithm.
     and_then (op_param P ''s3'' ''CopyObject'' params ''sse_customer_key'' ''str'' (string_from_py P)) (\<lambda>sse_customer_key.
     and_then (op_param P ''s3'' ''CopyObject'' params ''sse_customer_key_md5'' ''str'' (string_from_py P)) (\<lambda>sse_customer_key_md5.
     and_then (op_param P ''s3'' ''CopyObject'' params ''ssekms_key_id'' ''str'' (string_from_py P)) (\<lambda>ssekms_key_id.
     and_then (op_param P ''s3'' ''CopyObject'' params ''ssekms_encryption_context'' ''str'' (string_from_py P)) (\<lambda>ssekms_encryption_context.
     and_then (op_param P ''s3'' ''CopyObject'' params ''bucket_key_enabled'' ''bool'' (bool_from_py P)) (\<lambda>bucket_key_enabled.
     Inr (website_redirect_location, sse_customer_algorithm, sse_customer_key, sse_customer_key_md5, ssekms_key_id, ssekms_encryption_context, bucket_key_enabled))))))))"

definition copy_object_params_6 :: "pyo3 \<Rightarrow> s3_types \<Rightarrow> pydict \<Rightarrow>
    (string option \<times> string option \<times> string option \<times> string option \<times> string option \<times> string option \<times> datetime option) pyresult" where
  "copy_object_params_6 P S params =
     and_then (op_param P ''s3'' ''CopyObject'' params ''copy_source_sse_customer_algorithm'' ''str'' (string_from_py P)) (\<lambda>copy_source_sse_customer_algorithm.
     and_then (op_param P ''s3'' ''CopyObject'' params ''copy_source_sse_customer_key'' ''str'' (string_from_py P)) (\<lambda>copy_source_sse_customer_key.
     and_then (op_param P ''s3'' ''CopyObject'' params ''copy_source_sse_customer_key_md5'' ''str'' (string_from_py P)) (\<lambda>copy_source_sse_customer_key_md5.
     and_then (op_param P ''s3'' ''CopyObject'' params ''request_payer'' ''str (RequestPayer)'' (enum_from_py P)) (\<lambda>request_payer.
     and_then (op_param P ''s3'' ''CopyObject'' params ''tagging'' ''str'' (string_from_py P)) (\<lambda>tagging.
     and_then (op_param P ''s3'' ''CopyObject'' params ''object_lock_mode'' ''str (ObjectLockMode)'' (enum_from_py P)) (\<lambda>object_lock_mode.
     and_then (op_param P ''s3'' ''CopyObject'' params ''object_lock_retain_until_date'' ''ISO 8601 timestamp string'' (datetime_from_py P S)) (\<lambda>object_lock_retain_until_date.
     Inr (copy_source_sse_customer_algorithm, copy_source_sse_customer_key, copy_source_sse_customer_key_md5, request_payer, tagging, object_lock_mode, object_lock_retain_until_date))))))))"

definition copy_object_params_7 :: "pyo3 \<Rightarrow> s3_types \<Rightarrow> pydict \<Rightarrow>
    (string option \<times> string option \<times> 32 word option \<times> 32 word option \<times> string option \<times> string option) pyresult" where
  "copy_object_params_7 P S params =
     and_then (op_param P ''s3'' ''CopyObject'' params ''object_lock_legal_hold_status'' ''str (ObjectLockLegalHoldStatus)'' (enum_from_py P)) (\<lambda>object_lock_legal_hold_status.
     and_then (op_param P ''s3'' ''CopyObject'' params ''object_lock_event_hold'' ''str (ObjectLockEventHold)'' (enum_from_py P)) (\<lambda>object_lock_event_hold.
     and_then (op_param P ''s3'' ''CopyObject'' params ''object_lock_event_hold_duration_days'' ''int'' (i32_from_py P)) (\<lambda>object_lock_event_hold_duration_days.
     and_then (op_param P ''s3'' ''CopyObject'' params ''object_lock_event_hold_duration_years'' ''int'' (i32_from_py P)) (\<lambda>object_lock_event_hold_duration_years.
     and_then (op_param P ''s3'' ''CopyObject'' params ''expected_bucket_owner'' ''str'' (string_from_py P)) (\<lambda>expected_bucket_owner.
     and_then (op_param P ''s3'' ''CopyObject'' params ''expected_source_bucket_owner'' ''str'' (string_from_py P)) (\<lambda>expected_source_bucket_owner.
     Inr (object_lock_legal_hold_status, object_lock_event_hold, object_lock_event_hold_duration_days, object_lock_event_hold_duration_years, expected_bucket_owner, expected_source_bucket_owner)))))))"

definition copy_object_params :: "pyo3 \<Rightarrow> s3_types \<Rightarrow> pydict \<Rightarrow>
    copy_object_input pyresult" where
  "copy_object_params P S params =
     and_then (copy_object_params_1 P S params) (\<lambda>(acl, bucket, cache_control, checksum_algorithm, content_disposition, content_encoding, content_language).
     and_then (copy_object_params_2 P S params) (\<lambda>(content_type, copy_source, copy_source_if_match, copy_source_if_modified_since, copy_source_if_none_match, copy_source_if_unmodified_since, expires).
     and_then (copy_object_params_3 P S params) (\<lambda>(grant_full_control, grant_read, grant_read_acp, grant_write_acp, if_match, if_none_match, key).
     and_then (copy_object_params_4 P S params) (\<lambda>(metadata, metadata_directive, tagging_directive, annotation_directive, server_side_encryption, storage_class).
     and_then (copy_object_params_5 P S params) (\<lambda>(website_redirect_location, sse_customer_algorithm, sse_customer_key, sse_customer_key_md5, ssekms_key_id, ssekms_encryption_context, bucket_key_enabled).
     and_then (copy_object_params_6 P S params) (\<lambda>(copy_source_sse_customer_algorithm, copy_source_sse_customer_key, copy_source_sse_customer_key_md5, request_payer, tagging, object_lock_mode, object_lock_retain_until_date).
     and_then (copy_object_params_7 P S params) (\<lambda>(object_lock_legal_hold_status, object_lock_event_hold, object_lock_event_hold_duration_days, object_lock_event_hold_duration_years, expected_bucket_owner, expected_source_bucket_owner).
     Inr \<lparr>kcoi_acl = acl,
       kcoi_bucket = bucket,
       kcoi_cache_control = cache_control,
       kcoi_checksum_algorithm = checksum_algorithm,
       kcoi_content_disposition = content_disposition,
       kcoi_content_encoding = content_encoding,
       kcoi_content_language = content_language,
       kcoi_content_type = content_type,
       kcoi_copy_source = copy_source,
       kcoi_copy_source_if_match = copy_source_if_match,
       kcoi_copy_source_if_modified_since = copy_source_if_modified_since,
       kcoi_copy_source_if_none_match = copy_source_if_none_match,
       kcoi_copy_source_if_unmodified_since = copy_source_if_unmodified_since,
       kcoi_expires = expires,
       kcoi_grant_full_control = grant_full_control,
       kcoi_grant_read = grant_read,
       kcoi_grant_read_acp = grant_read_acp,
       kcoi_grant_write_acp = grant_write_acp,
       kcoi_if_match = if_match,
       kcoi_if_none_match = if_none_match,
       kcoi_key = key,
       kcoi_metadata = metadata,
       kcoi_metadata_directive = metadata_directive,
       kcoi_tagging_directive = tagging_directive,
       kcoi_annotation_directive = annotation_directive,
       kcoi_server_side_encryption = server_side_encryption,
       kcoi_storage_class = storage_class,
       kcoi_website_redirect_location = website_redirect_location,
       kcoi_sse_customer_algorithm = sse_customer_algorithm,
       kcoi_sse_customer_key = sse_customer_key,
       kcoi_sse_customer_key_md5 = sse_customer_key_md5,
       kcoi_ssekms_key_id = ssekms_key_id,
       kcoi_ssekms_encryption_context = ssekms_encryption_context,
       kcoi_bucket_key_enabled = bucket_key_enabled,
       kcoi_copy_source_sse_customer_algorithm = copy_source_sse_customer_algorithm,
       kcoi_copy_source_sse_customer_key = copy_source_sse_customer_key,
       kcoi_copy_source_sse_customer_key_md5 = copy_source_sse_customer_key_md5,
       kcoi_request_payer = request_payer,
       kcoi_tagging = tagging,
       kcoi_object_lock_mode = object_lock_mode,
       kcoi_object_lock_retain_until_date = object_lock_retain_until_date,
       kcoi_object_lock_legal_hold_status = object_lock_legal_hold_status,
       kcoi_object_lock_event_hold = object_lock_event_hold,
       kcoi_object_lock_event_hold_duration_days = object_lock_event_hold_duration_days,
       kcoi_object_lock_event_hold_duration_years = object_lock_event_hold_duration_years,
       kcoi_expected_bucket_owner = expected_bucket_owner,
       kcoi_expected_source_bucket_owner = expected_source_bucket_owner\<rparr>)))))))"

definition copy_object :: "('cfg, 'client) service_env \<Rightarrow> pyo3 \<Rightarrow> s3_types \<Rightarrow> unit pyresult \<Rightarrow> bool \<Rightarrow>
    ('client \<Rightarrow> copy_object_input \<Rightarrow> trip list \<times> (('e, http_response) sdk_error + copy_object_output)) \<Rightarrow>
    'client client_handle \<Rightarrow> pydict \<Rightarrow> pydict option \<Rightarrow>
    (copy_object_output pyresult \<times> 'client client_handle \<times> pydict option) option" where
  "copy_object E P S bridge interrupted send c params observation =
     execute E bridge interrupted send no_details
       ''CopyObject'' (copy_object_params P S params) c observation"

definition copy_object_call :: "((string, pyval) fmap \<Rightarrow> (string \<times> pyval) list) \<Rightarrow> s3_types \<Rightarrow> copy_object_input \<Rightarrow> pydict" where
  "copy_object_call order S i = py_params
     [(''bucket'', opt_to_py PyStr (kcoi_bucket i)),
      (''copy_source'', opt_to_py PyStr (kcoi_copy_source i)),
      (''key'', opt_to_py PyStr (kcoi_key i))]
     [(''acl'', opt_to_py PyStr (kcoi_acl i)),
      (''cache_control'', opt_to_py PyStr (kcoi_cache_control i)),
      (''checksum_algorithm'', opt_to_py PyStr (kcoi_checksum_algorithm i)),
      (''content_disposition'', opt_to_py PyStr (kcoi_content_disposition i)),
      (''content_encoding'', opt_to_py PyStr (kcoi_content_encoding i)),
      (''content_language'', opt_to_py PyStr (kcoi_content_language i)),
      (''content_type'', opt_to_py PyStr (kcoi_content_type i)),
      (''copy_source_if_match'', opt_to_py PyStr (kcoi_copy_source_if_match i)),
      (''copy_source_if_modified_since'', opt_to_py (datetime_to_py S) (kcoi_copy_source_if_modified_since i)),
      (''copy_source_if_none_match'', opt_to_py PyStr (kcoi_copy_source_if_none_match i)),
      (''copy_source_if_unmodified_since'', opt_to_py (datetime_to_py S) (kcoi_copy_source_if_unmodified_since i)),
      (''expires'', opt_to_py (datetime_to_py S) (kcoi_expires i)),
      (''grant_full_control'', opt_to_py PyStr (kcoi_grant_full_control i)),
      (''grant_read'', opt_to_py PyStr (kcoi_grant_read i)),
      (''grant_read_acp'', opt_to_py PyStr (kcoi_grant_read_acp i)),
      (''grant_write_acp'', opt_to_py PyStr (kcoi_grant_write_acp i)),
      (''if_match'', opt_to_py PyStr (kcoi_if_match i)),
      (''if_none_match'', opt_to_py PyStr (kcoi_if_none_match i)),
      (''metadata'', opt_to_py (mapping_to_py order PyStr) (kcoi_metadata i)),
      (''metadata_directive'', opt_to_py PyStr (kcoi_metadata_directive i)),
      (''tagging_directive'', opt_to_py PyStr (kcoi_tagging_directive i)),
      (''annotation_directive'', opt_to_py PyStr (kcoi_annotation_directive i)),
      (''server_side_encryption'', opt_to_py PyStr (kcoi_server_side_encryption i)),
      (''storage_class'', opt_to_py PyStr (kcoi_storage_class i)),
      (''website_redirect_location'', opt_to_py PyStr (kcoi_website_redirect_location i)),
      (''sse_customer_algorithm'', opt_to_py PyStr (kcoi_sse_customer_algorithm i)),
      (''sse_customer_key'', opt_to_py PyStr (kcoi_sse_customer_key i)),
      (''sse_customer_key_md5'', opt_to_py PyStr (kcoi_sse_customer_key_md5 i)),
      (''ssekms_key_id'', opt_to_py PyStr (kcoi_ssekms_key_id i)),
      (''ssekms_encryption_context'', opt_to_py PyStr (kcoi_ssekms_encryption_context i)),
      (''bucket_key_enabled'', opt_to_py PyBool (kcoi_bucket_key_enabled i)),
      (''copy_source_sse_customer_algorithm'', opt_to_py PyStr (kcoi_copy_source_sse_customer_algorithm i)),
      (''copy_source_sse_customer_key'', opt_to_py PyStr (kcoi_copy_source_sse_customer_key i)),
      (''copy_source_sse_customer_key_md5'', opt_to_py PyStr (kcoi_copy_source_sse_customer_key_md5 i)),
      (''request_payer'', opt_to_py PyStr (kcoi_request_payer i)),
      (''tagging'', opt_to_py PyStr (kcoi_tagging i)),
      (''object_lock_mode'', opt_to_py PyStr (kcoi_object_lock_mode i)),
      (''object_lock_retain_until_date'', opt_to_py (datetime_to_py S) (kcoi_object_lock_retain_until_date i)),
      (''object_lock_legal_hold_status'', opt_to_py PyStr (kcoi_object_lock_legal_hold_status i)),
      (''object_lock_event_hold'', opt_to_py PyStr (kcoi_object_lock_event_hold i)),
      (''object_lock_event_hold_duration_days'', opt_to_py i32_to_py (kcoi_object_lock_event_hold_duration_days i)),
      (''object_lock_event_hold_duration_years'', opt_to_py i32_to_py (kcoi_object_lock_event_hold_duration_years i)),
      (''expected_bucket_owner'', opt_to_py PyStr (kcoi_expected_bucket_owner i)),
      (''expected_source_bucket_owner'', opt_to_py PyStr (kcoi_expected_source_bucket_owner i))]"

subsection \<open>\<open>CreateMultipartUpload\<close>\<close>

record create_multipart_upload_input =
  kcmui2_acl :: "string option"
  kcmui2_bucket :: "string option"
  kcmui2_cache_control :: "string option"
  kcmui2_content_disposition :: "string option"
  kcmui2_content_encoding :: "string option"
  kcmui2_content_language :: "string option"
  kcmui2_content_type :: "string option"
  kcmui2_expires :: "datetime option"
  kcmui2_grant_full_control :: "string option"
  kcmui2_grant_read :: "string option"
  kcmui2_grant_read_acp :: "string option"
  kcmui2_grant_write_acp :: "string option"
  kcmui2_key :: "string option"
  kcmui2_metadata :: "(string, string) fmap option"
  kcmui2_server_side_encryption :: "string option"
  kcmui2_storage_class :: "string option"
  kcmui2_website_redirect_location :: "string option"
  kcmui2_sse_customer_algorithm :: "string option"
  kcmui2_sse_customer_key :: "string option"
  kcmui2_sse_customer_key_md5 :: "string option"
  kcmui2_ssekms_key_id :: "string option"
  kcmui2_ssekms_encryption_context :: "string option"
  kcmui2_bucket_key_enabled :: "bool option"
  kcmui2_request_payer :: "string option"
  kcmui2_tagging :: "string option"
  kcmui2_object_lock_mode :: "string option"
  kcmui2_object_lock_retain_until_date :: "datetime option"
  kcmui2_object_lock_legal_hold_status :: "string option"
  kcmui2_object_lock_event_hold :: "string option"
  kcmui2_object_lock_event_hold_duration_days :: "32 word option"
  kcmui2_object_lock_event_hold_duration_years :: "32 word option"
  kcmui2_expected_bucket_owner :: "string option"
  kcmui2_checksum_algorithm :: "string option"
  kcmui2_checksum_type :: "string option"

definition create_multipart_upload_params_1 :: "pyo3 \<Rightarrow> s3_types \<Rightarrow> pydict \<Rightarrow>
    (string option \<times> string option \<times> string option \<times> string option \<times> string option \<times> string option \<times> string option) pyresult" where
  "create_multipart_upload_params_1 P S params =
     and_then (op_param P ''s3'' ''CreateMultipartUpload'' params ''acl'' ''str (ObjectCannedAcl)'' (enum_from_py P)) (\<lambda>acl.
     and_then (op_param P ''s3'' ''CreateMultipartUpload'' params ''bucket'' ''str'' (string_from_py P)) (\<lambda>bucket.
     and_then (op_param P ''s3'' ''CreateMultipartUpload'' params ''cache_control'' ''str'' (string_from_py P)) (\<lambda>cache_control.
     and_then (op_param P ''s3'' ''CreateMultipartUpload'' params ''content_disposition'' ''str'' (string_from_py P)) (\<lambda>content_disposition.
     and_then (op_param P ''s3'' ''CreateMultipartUpload'' params ''content_encoding'' ''str'' (string_from_py P)) (\<lambda>content_encoding.
     and_then (op_param P ''s3'' ''CreateMultipartUpload'' params ''content_language'' ''str'' (string_from_py P)) (\<lambda>content_language.
     and_then (op_param P ''s3'' ''CreateMultipartUpload'' params ''content_type'' ''str'' (string_from_py P)) (\<lambda>content_type.
     Inr (acl, bucket, cache_control, content_disposition, content_encoding, content_language, content_type))))))))"

definition create_multipart_upload_params_2 :: "pyo3 \<Rightarrow> s3_types \<Rightarrow> pydict \<Rightarrow>
    (datetime option \<times> string option \<times> string option \<times> string option \<times> string option \<times> string option) pyresult" where
  "create_multipart_upload_params_2 P S params =
     and_then (op_param P ''s3'' ''CreateMultipartUpload'' params ''expires'' ''ISO 8601 timestamp string'' (datetime_from_py P S)) (\<lambda>expires.
     and_then (op_param P ''s3'' ''CreateMultipartUpload'' params ''grant_full_control'' ''str'' (string_from_py P)) (\<lambda>grant_full_control.
     and_then (op_param P ''s3'' ''CreateMultipartUpload'' params ''grant_read'' ''str'' (string_from_py P)) (\<lambda>grant_read.
     and_then (op_param P ''s3'' ''CreateMultipartUpload'' params ''grant_read_acp'' ''str'' (string_from_py P)) (\<lambda>grant_read_acp.
     and_then (op_param P ''s3'' ''CreateMultipartUpload'' params ''grant_write_acp'' ''str'' (string_from_py P)) (\<lambda>grant_write_acp.
     and_then (op_param P ''s3'' ''CreateMultipartUpload'' params ''key'' ''str'' (string_from_py P)) (\<lambda>key.
     Inr (expires, grant_full_control, grant_read, grant_read_acp, grant_write_acp, key)))))))"

definition create_multipart_upload_params_3 :: "pyo3 \<Rightarrow> s3_types \<Rightarrow> pydict \<Rightarrow>
    ((string, string) fmap option \<times> string option \<times> string option \<times> string option \<times> string option \<times> string option) pyresult" where
  "create_multipart_upload_params_3 P S params =
     and_then (op_param P ''s3'' ''CreateMultipartUpload'' params ''metadata'' ''dict'' (map_from_py P ''str'' ''str'' (string_from_py P))) (\<lambda>metadata.
     and_then (op_param P ''s3'' ''CreateMultipartUpload'' params ''server_side_encryption'' ''str (ServerSideEncryption)'' (enum_from_py P)) (\<lambda>server_side_encryption.
     and_then (op_param P ''s3'' ''CreateMultipartUpload'' params ''storage_class'' ''str (StorageClass)'' (enum_from_py P)) (\<lambda>storage_class.
     and_then (op_param P ''s3'' ''CreateMultipartUpload'' params ''website_redirect_location'' ''str'' (string_from_py P)) (\<lambda>website_redirect_location.
     and_then (op_param P ''s3'' ''CreateMultipartUpload'' params ''sse_customer_algorithm'' ''str'' (string_from_py P)) (\<lambda>sse_customer_algorithm.
     and_then (op_param P ''s3'' ''CreateMultipartUpload'' params ''sse_customer_key'' ''str'' (string_from_py P)) (\<lambda>sse_customer_key.
     Inr (metadata, server_side_encryption, storage_class, website_redirect_location, sse_customer_algorithm, sse_customer_key)))))))"

definition create_multipart_upload_params_4 :: "pyo3 \<Rightarrow> s3_types \<Rightarrow> pydict \<Rightarrow>
    (string option \<times> string option \<times> string option \<times> bool option \<times> string option \<times> string option \<times> string option) pyresult" where
  "create_multipart_upload_params_4 P S params =
     and_then (op_param P ''s3'' ''CreateMultipartUpload'' params ''sse_customer_key_md5'' ''str'' (string_from_py P)) (\<lambda>sse_customer_key_md5.
     and_then (op_param P ''s3'' ''CreateMultipartUpload'' params ''ssekms_key_id'' ''str'' (string_from_py P)) (\<lambda>ssekms_key_id.
     and_then (op_param P ''s3'' ''CreateMultipartUpload'' params ''ssekms_encryption_context'' ''str'' (string_from_py P)) (\<lambda>ssekms_encryption_context.
     and_then (op_param P ''s3'' ''CreateMultipartUpload'' params ''bucket_key_enabled'' ''bool'' (bool_from_py P)) (\<lambda>bucket_key_enabled.
     and_then (op_param P ''s3'' ''CreateMultipartUpload'' params ''request_payer'' ''str (RequestPayer)'' (enum_from_py P)) (\<lambda>request_payer.
     and_then (op_param P ''s3'' ''CreateMultipartUpload'' params ''tagging'' ''str'' (string_from_py P)) (\<lambda>tagging.
     and_then (op_param P ''s3'' ''CreateMultipartUpload'' params ''object_lock_mode'' ''str (ObjectLockMode)'' (enum_from_py P)) (\<lambda>object_lock_mode.
     Inr (sse_customer_key_md5, ssekms_key_id, ssekms_encryption_context, bucket_key_enabled, request_payer, tagging, object_lock_mode))))))))"

definition create_multipart_upload_params_5 :: "pyo3 \<Rightarrow> s3_types \<Rightarrow> pydict \<Rightarrow>
    (datetime option \<times> string option \<times> string option \<times> 32 word option \<times> 32 word option \<times> string option \<times> string option) pyresult" where
  "create_multipart_upload_params_5 P S params =
     and_then (op_param P ''s3'' ''CreateMultipartUpload'' params ''object_lock_retain_until_date'' ''ISO 8601 timestamp string'' (datetime_from_py P S)) (\<lambda>object_lock_retain_until_date.
     and_then (op_param P ''s3'' ''CreateMultipartUpload'' params ''object_lock_legal_hold_status'' ''str (ObjectLockLegalHoldStatus)'' (enum_from_py P)) (\<lambda>object_lock_legal_hold_status.
     and_then (op_param P ''s3'' ''CreateMultipartUpload'' params ''object_lock_event_hold'' ''str (ObjectLockEventHold)'' (enum_from_py P)) (\<lambda>object_lock_event_hold.
     and_then (op_param P ''s3'' ''CreateMultipartUpload'' params ''object_lock_event_hold_duration_days'' ''int'' (i32_from_py P)) (\<lambda>object_lock_event_hold_duration_days.
     and_then (op_param P ''s3'' ''CreateMultipartUpload'' params ''object_lock_event_hold_duration_years'' ''int'' (i32_from_py P)) (\<lambda>object_lock_event_hold_duration_years.
     and_then (op_param P ''s3'' ''CreateMultipartUpload'' params ''expected_bucket_owner'' ''str'' (string_from_py P)) (\<lambda>expected_bucket_owner.
     and_then (op_param P ''s3'' ''CreateMultipartUpload'' params ''checksum_algorithm'' ''str (ChecksumAlgorithm)'' (enum_from_py P)) (\<lambda>checksum_algorithm.
     Inr (object_lock_retain_until_date, object_lock_legal_hold_status, object_lock_event_hold, object_lock_event_hold_duration_days, object_lock_event_hold_duration_years, expected_bucket_owner, checksum_algorithm))))))))"

definition create_multipart_upload_params_6 :: "pyo3 \<Rightarrow> s3_types \<Rightarrow> pydict \<Rightarrow>
    (string option) pyresult" where
  "create_multipart_upload_params_6 P S params =
     and_then (op_param P ''s3'' ''CreateMultipartUpload'' params ''checksum_type'' ''str (ChecksumType)'' (enum_from_py P)) (\<lambda>checksum_type.
     Inr (checksum_type))"

definition create_multipart_upload_params :: "pyo3 \<Rightarrow> s3_types \<Rightarrow> pydict \<Rightarrow>
    create_multipart_upload_input pyresult" where
  "create_multipart_upload_params P S params =
     and_then (create_multipart_upload_params_1 P S params) (\<lambda>(acl, bucket, cache_control, content_disposition, content_encoding, content_language, content_type).
     and_then (create_multipart_upload_params_2 P S params) (\<lambda>(expires, grant_full_control, grant_read, grant_read_acp, grant_write_acp, key).
     and_then (create_multipart_upload_params_3 P S params) (\<lambda>(metadata, server_side_encryption, storage_class, website_redirect_location, sse_customer_algorithm, sse_customer_key).
     and_then (create_multipart_upload_params_4 P S params) (\<lambda>(sse_customer_key_md5, ssekms_key_id, ssekms_encryption_context, bucket_key_enabled, request_payer, tagging, object_lock_mode).
     and_then (create_multipart_upload_params_5 P S params) (\<lambda>(object_lock_retain_until_date, object_lock_legal_hold_status, object_lock_event_hold, object_lock_event_hold_duration_days, object_lock_event_hold_duration_years, expected_bucket_owner, checksum_algorithm).
     and_then (create_multipart_upload_params_6 P S params) (\<lambda>checksum_type.
     Inr \<lparr>kcmui2_acl = acl,
       kcmui2_bucket = bucket,
       kcmui2_cache_control = cache_control,
       kcmui2_content_disposition = content_disposition,
       kcmui2_content_encoding = content_encoding,
       kcmui2_content_language = content_language,
       kcmui2_content_type = content_type,
       kcmui2_expires = expires,
       kcmui2_grant_full_control = grant_full_control,
       kcmui2_grant_read = grant_read,
       kcmui2_grant_read_acp = grant_read_acp,
       kcmui2_grant_write_acp = grant_write_acp,
       kcmui2_key = key,
       kcmui2_metadata = metadata,
       kcmui2_server_side_encryption = server_side_encryption,
       kcmui2_storage_class = storage_class,
       kcmui2_website_redirect_location = website_redirect_location,
       kcmui2_sse_customer_algorithm = sse_customer_algorithm,
       kcmui2_sse_customer_key = sse_customer_key,
       kcmui2_sse_customer_key_md5 = sse_customer_key_md5,
       kcmui2_ssekms_key_id = ssekms_key_id,
       kcmui2_ssekms_encryption_context = ssekms_encryption_context,
       kcmui2_bucket_key_enabled = bucket_key_enabled,
       kcmui2_request_payer = request_payer,
       kcmui2_tagging = tagging,
       kcmui2_object_lock_mode = object_lock_mode,
       kcmui2_object_lock_retain_until_date = object_lock_retain_until_date,
       kcmui2_object_lock_legal_hold_status = object_lock_legal_hold_status,
       kcmui2_object_lock_event_hold = object_lock_event_hold,
       kcmui2_object_lock_event_hold_duration_days = object_lock_event_hold_duration_days,
       kcmui2_object_lock_event_hold_duration_years = object_lock_event_hold_duration_years,
       kcmui2_expected_bucket_owner = expected_bucket_owner,
       kcmui2_checksum_algorithm = checksum_algorithm,
       kcmui2_checksum_type = checksum_type\<rparr>))))))"

definition create_multipart_upload :: "('cfg, 'client) service_env \<Rightarrow> pyo3 \<Rightarrow> s3_types \<Rightarrow> unit pyresult \<Rightarrow> bool \<Rightarrow>
    ('client \<Rightarrow> create_multipart_upload_input \<Rightarrow> trip list \<times> (('e, http_response) sdk_error + create_multipart_upload_output)) \<Rightarrow>
    'client client_handle \<Rightarrow> pydict \<Rightarrow> pydict option \<Rightarrow>
    (create_multipart_upload_output pyresult \<times> 'client client_handle \<times> pydict option) option" where
  "create_multipart_upload E P S bridge interrupted send c params observation =
     execute E bridge interrupted send no_details
       ''CreateMultipartUpload'' (create_multipart_upload_params P S params) c observation"

definition create_multipart_upload_call :: "((string, pyval) fmap \<Rightarrow> (string \<times> pyval) list) \<Rightarrow> s3_types \<Rightarrow> create_multipart_upload_input \<Rightarrow> pydict" where
  "create_multipart_upload_call order S i = py_params
     [(''bucket'', opt_to_py PyStr (kcmui2_bucket i)),
      (''key'', opt_to_py PyStr (kcmui2_key i))]
     [(''acl'', opt_to_py PyStr (kcmui2_acl i)),
      (''cache_control'', opt_to_py PyStr (kcmui2_cache_control i)),
      (''content_disposition'', opt_to_py PyStr (kcmui2_content_disposition i)),
      (''content_encoding'', opt_to_py PyStr (kcmui2_content_encoding i)),
      (''content_language'', opt_to_py PyStr (kcmui2_content_language i)),
      (''content_type'', opt_to_py PyStr (kcmui2_content_type i)),
      (''expires'', opt_to_py (datetime_to_py S) (kcmui2_expires i)),
      (''grant_full_control'', opt_to_py PyStr (kcmui2_grant_full_control i)),
      (''grant_read'', opt_to_py PyStr (kcmui2_grant_read i)),
      (''grant_read_acp'', opt_to_py PyStr (kcmui2_grant_read_acp i)),
      (''grant_write_acp'', opt_to_py PyStr (kcmui2_grant_write_acp i)),
      (''metadata'', opt_to_py (mapping_to_py order PyStr) (kcmui2_metadata i)),
      (''server_side_encryption'', opt_to_py PyStr (kcmui2_server_side_encryption i)),
      (''storage_class'', opt_to_py PyStr (kcmui2_storage_class i)),
      (''website_redirect_location'', opt_to_py PyStr (kcmui2_website_redirect_location i)),
      (''sse_customer_algorithm'', opt_to_py PyStr (kcmui2_sse_customer_algorithm i)),
      (''sse_customer_key'', opt_to_py PyStr (kcmui2_sse_customer_key i)),
      (''sse_customer_key_md5'', opt_to_py PyStr (kcmui2_sse_customer_key_md5 i)),
      (''ssekms_key_id'', opt_to_py PyStr (kcmui2_ssekms_key_id i)),
      (''ssekms_encryption_context'', opt_to_py PyStr (kcmui2_ssekms_encryption_context i)),
      (''bucket_key_enabled'', opt_to_py PyBool (kcmui2_bucket_key_enabled i)),
      (''request_payer'', opt_to_py PyStr (kcmui2_request_payer i)),
      (''tagging'', opt_to_py PyStr (kcmui2_tagging i)),
      (''object_lock_mode'', opt_to_py PyStr (kcmui2_object_lock_mode i)),
      (''object_lock_retain_until_date'', opt_to_py (datetime_to_py S) (kcmui2_object_lock_retain_until_date i)),
      (''object_lock_legal_hold_status'', opt_to_py PyStr (kcmui2_object_lock_legal_hold_status i)),
      (''object_lock_event_hold'', opt_to_py PyStr (kcmui2_object_lock_event_hold i)),
      (''object_lock_event_hold_duration_days'', opt_to_py i32_to_py (kcmui2_object_lock_event_hold_duration_days i)),
      (''object_lock_event_hold_duration_years'', opt_to_py i32_to_py (kcmui2_object_lock_event_hold_duration_years i)),
      (''expected_bucket_owner'', opt_to_py PyStr (kcmui2_expected_bucket_owner i)),
      (''checksum_algorithm'', opt_to_py PyStr (kcmui2_checksum_algorithm i)),
      (''checksum_type'', opt_to_py PyStr (kcmui2_checksum_type i))]"

subsection \<open>\<open>DeleteObject\<close>\<close>

record delete_object_input =
  kdoi_bucket :: "string option"
  kdoi_key :: "string option"
  kdoi_mfa :: "string option"
  kdoi_version_id :: "string option"
  kdoi_request_payer :: "string option"
  kdoi_bypass_governance_retention :: "bool option"
  kdoi_expected_bucket_owner :: "string option"
  kdoi_if_match :: "string option"
  kdoi_if_match_last_modified_time :: "datetime option"
  kdoi_if_match_size :: "64 word option"

definition delete_object_params_1 :: "pyo3 \<Rightarrow> s3_types \<Rightarrow> pydict \<Rightarrow>
    (string option \<times> string option \<times> string option \<times> string option \<times> string option \<times> bool option) pyresult" where
  "delete_object_params_1 P S params =
     and_then (op_param P ''s3'' ''DeleteObject'' params ''bucket'' ''str'' (string_from_py P)) (\<lambda>bucket.
     and_then (op_param P ''s3'' ''DeleteObject'' params ''key'' ''str'' (string_from_py P)) (\<lambda>key.
     and_then (op_param P ''s3'' ''DeleteObject'' params ''mfa'' ''str'' (string_from_py P)) (\<lambda>mfa.
     and_then (op_param P ''s3'' ''DeleteObject'' params ''version_id'' ''str'' (string_from_py P)) (\<lambda>version_id.
     and_then (op_param P ''s3'' ''DeleteObject'' params ''request_payer'' ''str (RequestPayer)'' (enum_from_py P)) (\<lambda>request_payer.
     and_then (op_param P ''s3'' ''DeleteObject'' params ''bypass_governance_retention'' ''bool'' (bool_from_py P)) (\<lambda>bypass_governance_retention.
     Inr (bucket, key, mfa, version_id, request_payer, bypass_governance_retention)))))))"

definition delete_object_params_2 :: "pyo3 \<Rightarrow> s3_types \<Rightarrow> pydict \<Rightarrow>
    (string option \<times> string option \<times> datetime option \<times> 64 word option) pyresult" where
  "delete_object_params_2 P S params =
     and_then (op_param P ''s3'' ''DeleteObject'' params ''expected_bucket_owner'' ''str'' (string_from_py P)) (\<lambda>expected_bucket_owner.
     and_then (op_param P ''s3'' ''DeleteObject'' params ''if_match'' ''str'' (string_from_py P)) (\<lambda>if_match.
     and_then (op_param P ''s3'' ''DeleteObject'' params ''if_match_last_modified_time'' ''ISO 8601 timestamp string'' (datetime_from_py P S)) (\<lambda>if_match_last_modified_time.
     and_then (op_param P ''s3'' ''DeleteObject'' params ''if_match_size'' ''int'' (i64_from_py P)) (\<lambda>if_match_size.
     Inr (expected_bucket_owner, if_match, if_match_last_modified_time, if_match_size)))))"

definition delete_object_params :: "pyo3 \<Rightarrow> s3_types \<Rightarrow> pydict \<Rightarrow>
    delete_object_input pyresult" where
  "delete_object_params P S params =
     and_then (delete_object_params_1 P S params) (\<lambda>(bucket, key, mfa, version_id, request_payer, bypass_governance_retention).
     and_then (delete_object_params_2 P S params) (\<lambda>(expected_bucket_owner, if_match, if_match_last_modified_time, if_match_size).
     Inr \<lparr>kdoi_bucket = bucket,
       kdoi_key = key,
       kdoi_mfa = mfa,
       kdoi_version_id = version_id,
       kdoi_request_payer = request_payer,
       kdoi_bypass_governance_retention = bypass_governance_retention,
       kdoi_expected_bucket_owner = expected_bucket_owner,
       kdoi_if_match = if_match,
       kdoi_if_match_last_modified_time = if_match_last_modified_time,
       kdoi_if_match_size = if_match_size\<rparr>))"

definition delete_object :: "('cfg, 'client) service_env \<Rightarrow> pyo3 \<Rightarrow> s3_types \<Rightarrow> unit pyresult \<Rightarrow> bool \<Rightarrow>
    ('client \<Rightarrow> delete_object_input \<Rightarrow> trip list \<times> (('e, http_response) sdk_error + delete_object_output)) \<Rightarrow>
    'client client_handle \<Rightarrow> pydict \<Rightarrow> pydict option \<Rightarrow>
    (delete_object_output pyresult \<times> 'client client_handle \<times> pydict option) option" where
  "delete_object E P S bridge interrupted send c params observation =
     execute E bridge interrupted send no_details
       ''DeleteObject'' (delete_object_params P S params) c observation"

definition delete_object_call :: "s3_types \<Rightarrow> delete_object_input \<Rightarrow> pydict" where
  "delete_object_call S i = py_params
     [(''bucket'', opt_to_py PyStr (kdoi_bucket i)),
      (''key'', opt_to_py PyStr (kdoi_key i))]
     [(''mfa'', opt_to_py PyStr (kdoi_mfa i)),
      (''version_id'', opt_to_py PyStr (kdoi_version_id i)),
      (''request_payer'', opt_to_py PyStr (kdoi_request_payer i)),
      (''bypass_governance_retention'', opt_to_py PyBool (kdoi_bypass_governance_retention i)),
      (''expected_bucket_owner'', opt_to_py PyStr (kdoi_expected_bucket_owner i)),
      (''if_match'', opt_to_py PyStr (kdoi_if_match i)),
      (''if_match_last_modified_time'', opt_to_py (datetime_to_py S) (kdoi_if_match_last_modified_time i)),
      (''if_match_size'', opt_to_py i64_to_py (kdoi_if_match_size i))]"

subsection \<open>\<open>DeleteObjects\<close>\<close>

record delete_objects_input =
  kdoi2_bucket :: "string option"
  kdoi2_delete :: "s3_delete option"
  kdoi2_mfa :: "string option"
  kdoi2_request_payer :: "string option"
  kdoi2_bypass_governance_retention :: "bool option"
  kdoi2_expected_bucket_owner :: "string option"
  kdoi2_checksum_algorithm :: "string option"

definition delete_objects_params :: "pyo3 \<Rightarrow> s3_types \<Rightarrow> pydict \<Rightarrow>
    delete_objects_input pyresult" where
  "delete_objects_params P S params =
     and_then (op_param P ''s3'' ''DeleteObjects'' params ''bucket'' ''str'' (string_from_py P)) (\<lambda>bucket.
     and_then (op_param P ''s3'' ''DeleteObjects'' params ''delete'' ''dict (Delete)'' (delete_from_py P S)) (\<lambda>delete.
     and_then (op_param P ''s3'' ''DeleteObjects'' params ''mfa'' ''str'' (string_from_py P)) (\<lambda>mfa.
     and_then (op_param P ''s3'' ''DeleteObjects'' params ''request_payer'' ''str (RequestPayer)'' (enum_from_py P)) (\<lambda>request_payer.
     and_then (op_param P ''s3'' ''DeleteObjects'' params ''bypass_governance_retention'' ''bool'' (bool_from_py P)) (\<lambda>bypass_governance_retention.
     and_then (op_param P ''s3'' ''DeleteObjects'' params ''expected_bucket_owner'' ''str'' (string_from_py P)) (\<lambda>expected_bucket_owner.
     and_then (op_param P ''s3'' ''DeleteObjects'' params ''checksum_algorithm'' ''str (ChecksumAlgorithm)'' (enum_from_py P)) (\<lambda>checksum_algorithm.
     Inr \<lparr>kdoi2_bucket = bucket,
       kdoi2_delete = delete,
       kdoi2_mfa = mfa,
       kdoi2_request_payer = request_payer,
       kdoi2_bypass_governance_retention = bypass_governance_retention,
       kdoi2_expected_bucket_owner = expected_bucket_owner,
       kdoi2_checksum_algorithm = checksum_algorithm\<rparr>)))))))"

definition delete_objects :: "('cfg, 'client) service_env \<Rightarrow> pyo3 \<Rightarrow> s3_types \<Rightarrow> unit pyresult \<Rightarrow> bool \<Rightarrow>
    ('client \<Rightarrow> delete_objects_input \<Rightarrow> trip list \<times> (('e, http_response) sdk_error + delete_objects_output)) \<Rightarrow>
    'client client_handle \<Rightarrow> pydict \<Rightarrow> pydict option \<Rightarrow>
    (delete_objects_output pyresult \<times> 'client client_handle \<times> pydict option) option" where
  "delete_objects E P S bridge interrupted send c params observation =
     execute E bridge interrupted send no_details
       ''DeleteObjects'' (delete_objects_params P S params) c observation"

definition delete_objects_call :: "s3_types \<Rightarrow> delete_objects_input \<Rightarrow> pydict" where
  "delete_objects_call S i = py_params
     [(''bucket'', opt_to_py PyStr (kdoi2_bucket i)),
      (''delete'', opt_to_py (delete_to_py S) (kdoi2_delete i))]
     [(''mfa'', opt_to_py PyStr (kdoi2_mfa i)),
      (''request_payer'', opt_to_py PyStr (kdoi2_request_payer i)),
      (''bypass_governance_retention'', opt_to_py PyBool (kdoi2_bypass_governance_retention i)),
      (''expected_bucket_owner'', opt_to_py PyStr (kdoi2_expected_bucket_owner i)),
      (''checksum_algorithm'', opt_to_py PyStr (kdoi2_checksum_algorithm i))]"

subsection \<open>\<open>GetObject\<close>\<close>

record get_object_input =
  kgoi_bucket :: "string option"
  kgoi_if_match :: "string option"
  kgoi_if_modified_since :: "datetime option"
  kgoi_if_none_match :: "string option"
  kgoi_if_unmodified_since :: "datetime option"
  kgoi_key :: "string option"
  kgoi_range :: "string option"
  kgoi_response_cache_control :: "string option"
  kgoi_response_content_disposition :: "string option"
  kgoi_response_content_encoding :: "string option"
  kgoi_response_content_language :: "string option"
  kgoi_response_content_type :: "string option"
  kgoi_response_expires :: "datetime option"
  kgoi_version_id :: "string option"
  kgoi_sse_customer_algorithm :: "string option"
  kgoi_sse_customer_key :: "string option"
  kgoi_sse_customer_key_md5 :: "string option"
  kgoi_request_payer :: "string option"
  kgoi_part_number :: "32 word option"
  kgoi_expected_bucket_owner :: "string option"
  kgoi_checksum_mode :: "string option"

definition get_object_params_1 :: "pyo3 \<Rightarrow> s3_types \<Rightarrow> pydict \<Rightarrow>
    (string option \<times> string option \<times> datetime option \<times> string option \<times> datetime option \<times> string option \<times> string option \<times> string option) pyresult" where
  "get_object_params_1 P S params =
     and_then (op_param P ''s3'' ''GetObject'' params ''bucket'' ''str'' (string_from_py P)) (\<lambda>bucket.
     and_then (op_param P ''s3'' ''GetObject'' params ''if_match'' ''str'' (string_from_py P)) (\<lambda>if_match.
     and_then (op_param P ''s3'' ''GetObject'' params ''if_modified_since'' ''ISO 8601 timestamp string'' (datetime_from_py P S)) (\<lambda>if_modified_since.
     and_then (op_param P ''s3'' ''GetObject'' params ''if_none_match'' ''str'' (string_from_py P)) (\<lambda>if_none_match.
     and_then (op_param P ''s3'' ''GetObject'' params ''if_unmodified_since'' ''ISO 8601 timestamp string'' (datetime_from_py P S)) (\<lambda>if_unmodified_since.
     and_then (op_param P ''s3'' ''GetObject'' params ''key'' ''str'' (string_from_py P)) (\<lambda>key.
     and_then (op_param P ''s3'' ''GetObject'' params ''range'' ''str'' (string_from_py P)) (\<lambda>range.
     and_then (op_param P ''s3'' ''GetObject'' params ''response_cache_control'' ''str'' (string_from_py P)) (\<lambda>response_cache_control.
     Inr (bucket, if_match, if_modified_since, if_none_match, if_unmodified_since, key, range, response_cache_control)))))))))"

definition get_object_params_2 :: "pyo3 \<Rightarrow> s3_types \<Rightarrow> pydict \<Rightarrow>
    (string option \<times> string option \<times> string option \<times> string option \<times> datetime option \<times> string option \<times> string option) pyresult" where
  "get_object_params_2 P S params =
     and_then (op_param P ''s3'' ''GetObject'' params ''response_content_disposition'' ''str'' (string_from_py P)) (\<lambda>response_content_disposition.
     and_then (op_param P ''s3'' ''GetObject'' params ''response_content_encoding'' ''str'' (string_from_py P)) (\<lambda>response_content_encoding.
     and_then (op_param P ''s3'' ''GetObject'' params ''response_content_language'' ''str'' (string_from_py P)) (\<lambda>response_content_language.
     and_then (op_param P ''s3'' ''GetObject'' params ''response_content_type'' ''str'' (string_from_py P)) (\<lambda>response_content_type.
     and_then (op_param P ''s3'' ''GetObject'' params ''response_expires'' ''ISO 8601 timestamp string'' (datetime_from_py P S)) (\<lambda>response_expires.
     and_then (op_param P ''s3'' ''GetObject'' params ''version_id'' ''str'' (string_from_py P)) (\<lambda>version_id.
     and_then (op_param P ''s3'' ''GetObject'' params ''sse_customer_algorithm'' ''str'' (string_from_py P)) (\<lambda>sse_customer_algorithm.
     Inr (response_content_disposition, response_content_encoding, response_content_language, response_content_type, response_expires, version_id, sse_customer_algorithm))))))))"

definition get_object_params_3 :: "pyo3 \<Rightarrow> s3_types \<Rightarrow> pydict \<Rightarrow>
    (string option \<times> string option \<times> string option \<times> 32 word option \<times> string option \<times> string option) pyresult" where
  "get_object_params_3 P S params =
     and_then (op_param P ''s3'' ''GetObject'' params ''sse_customer_key'' ''str'' (string_from_py P)) (\<lambda>sse_customer_key.
     and_then (op_param P ''s3'' ''GetObject'' params ''sse_customer_key_md5'' ''str'' (string_from_py P)) (\<lambda>sse_customer_key_md5.
     and_then (op_param P ''s3'' ''GetObject'' params ''request_payer'' ''str (RequestPayer)'' (enum_from_py P)) (\<lambda>request_payer.
     and_then (op_param P ''s3'' ''GetObject'' params ''part_number'' ''int'' (i32_from_py P)) (\<lambda>part_number.
     and_then (op_param P ''s3'' ''GetObject'' params ''expected_bucket_owner'' ''str'' (string_from_py P)) (\<lambda>expected_bucket_owner.
     and_then (op_param P ''s3'' ''GetObject'' params ''checksum_mode'' ''str (ChecksumMode)'' (enum_from_py P)) (\<lambda>checksum_mode.
     Inr (sse_customer_key, sse_customer_key_md5, request_payer, part_number, expected_bucket_owner, checksum_mode)))))))"

definition get_object_params :: "pyo3 \<Rightarrow> s3_types \<Rightarrow> pydict \<Rightarrow>
    get_object_input pyresult" where
  "get_object_params P S params =
     and_then (get_object_params_1 P S params) (\<lambda>(bucket, if_match, if_modified_since, if_none_match, if_unmodified_since, key, range, response_cache_control).
     and_then (get_object_params_2 P S params) (\<lambda>(response_content_disposition, response_content_encoding, response_content_language, response_content_type, response_expires, version_id, sse_customer_algorithm).
     and_then (get_object_params_3 P S params) (\<lambda>(sse_customer_key, sse_customer_key_md5, request_payer, part_number, expected_bucket_owner, checksum_mode).
     Inr \<lparr>kgoi_bucket = bucket,
       kgoi_if_match = if_match,
       kgoi_if_modified_since = if_modified_since,
       kgoi_if_none_match = if_none_match,
       kgoi_if_unmodified_since = if_unmodified_since,
       kgoi_key = key,
       kgoi_range = range,
       kgoi_response_cache_control = response_cache_control,
       kgoi_response_content_disposition = response_content_disposition,
       kgoi_response_content_encoding = response_content_encoding,
       kgoi_response_content_language = response_content_language,
       kgoi_response_content_type = response_content_type,
       kgoi_response_expires = response_expires,
       kgoi_version_id = version_id,
       kgoi_sse_customer_algorithm = sse_customer_algorithm,
       kgoi_sse_customer_key = sse_customer_key,
       kgoi_sse_customer_key_md5 = sse_customer_key_md5,
       kgoi_request_payer = request_payer,
       kgoi_part_number = part_number,
       kgoi_expected_bucket_owner = expected_bucket_owner,
       kgoi_checksum_mode = checksum_mode\<rparr>)))"

definition get_object :: "('cfg, 'client) service_env \<Rightarrow> pyo3 \<Rightarrow> s3_types \<Rightarrow> unit pyresult \<Rightarrow> bool \<Rightarrow>
    ('client \<Rightarrow> get_object_input \<Rightarrow> trip list \<times> ((get_object_error, http_response) sdk_error + 's get_object_output)) \<Rightarrow>
    'client client_handle \<Rightarrow> pydict \<Rightarrow> pydict option \<Rightarrow>
    ('s py_byte_stream get_object_output pyresult \<times> 'client client_handle \<times> pydict option) option" where
  "get_object E P S bridge interrupted send c params observation =
     execute E bridge interrupted (with_context ''GetObject'' (observation \<noteq> None) get_object_output_response send) get_object_error_details
       ''GetObject'' (get_object_params P S params) c observation"

definition get_object_call :: "s3_types \<Rightarrow> get_object_input \<Rightarrow> pydict" where
  "get_object_call S i = py_params
     [(''bucket'', opt_to_py PyStr (kgoi_bucket i)),
      (''key'', opt_to_py PyStr (kgoi_key i))]
     [(''if_match'', opt_to_py PyStr (kgoi_if_match i)),
      (''if_modified_since'', opt_to_py (datetime_to_py S) (kgoi_if_modified_since i)),
      (''if_none_match'', opt_to_py PyStr (kgoi_if_none_match i)),
      (''if_unmodified_since'', opt_to_py (datetime_to_py S) (kgoi_if_unmodified_since i)),
      (''range'', opt_to_py PyStr (kgoi_range i)),
      (''response_cache_control'', opt_to_py PyStr (kgoi_response_cache_control i)),
      (''response_content_disposition'', opt_to_py PyStr (kgoi_response_content_disposition i)),
      (''response_content_encoding'', opt_to_py PyStr (kgoi_response_content_encoding i)),
      (''response_content_language'', opt_to_py PyStr (kgoi_response_content_language i)),
      (''response_content_type'', opt_to_py PyStr (kgoi_response_content_type i)),
      (''response_expires'', opt_to_py (datetime_to_py S) (kgoi_response_expires i)),
      (''version_id'', opt_to_py PyStr (kgoi_version_id i)),
      (''sse_customer_algorithm'', opt_to_py PyStr (kgoi_sse_customer_algorithm i)),
      (''sse_customer_key'', opt_to_py PyStr (kgoi_sse_customer_key i)),
      (''sse_customer_key_md5'', opt_to_py PyStr (kgoi_sse_customer_key_md5 i)),
      (''request_payer'', opt_to_py PyStr (kgoi_request_payer i)),
      (''part_number'', opt_to_py i32_to_py (kgoi_part_number i)),
      (''expected_bucket_owner'', opt_to_py PyStr (kgoi_expected_bucket_owner i)),
      (''checksum_mode'', opt_to_py PyStr (kgoi_checksum_mode i))]"

subsection \<open>\<open>HeadBucket\<close>\<close>

record head_bucket_input =
  khbi_bucket :: "string option"
  khbi_expected_bucket_owner :: "string option"

definition head_bucket_params :: "pyo3 \<Rightarrow> s3_types \<Rightarrow> pydict \<Rightarrow>
    head_bucket_input pyresult" where
  "head_bucket_params P S params =
     and_then (op_param P ''s3'' ''HeadBucket'' params ''bucket'' ''str'' (string_from_py P)) (\<lambda>bucket.
     and_then (op_param P ''s3'' ''HeadBucket'' params ''expected_bucket_owner'' ''str'' (string_from_py P)) (\<lambda>expected_bucket_owner.
     Inr \<lparr>khbi_bucket = bucket,
       khbi_expected_bucket_owner = expected_bucket_owner\<rparr>))"

definition head_bucket :: "('cfg, 'client) service_env \<Rightarrow> pyo3 \<Rightarrow> s3_types \<Rightarrow> unit pyresult \<Rightarrow> bool \<Rightarrow>
    ('client \<Rightarrow> head_bucket_input \<Rightarrow> trip list \<times> (('e, http_response) sdk_error + head_bucket_output)) \<Rightarrow>
    'client client_handle \<Rightarrow> pydict \<Rightarrow> pydict option \<Rightarrow>
    (head_bucket_output pyresult \<times> 'client client_handle \<times> pydict option) option" where
  "head_bucket E P S bridge interrupted send c params observation =
     execute E bridge interrupted send no_details
       ''HeadBucket'' (head_bucket_params P S params) c observation"

definition head_bucket_call :: "head_bucket_input \<Rightarrow> pydict" where
  "head_bucket_call i = py_params
     [(''bucket'', opt_to_py PyStr (khbi_bucket i))]
     [(''expected_bucket_owner'', opt_to_py PyStr (khbi_expected_bucket_owner i))]"

subsection \<open>\<open>HeadObject\<close>\<close>

record head_object_input =
  khoi_bucket :: "string option"
  khoi_if_match :: "string option"
  khoi_if_modified_since :: "datetime option"
  khoi_if_none_match :: "string option"
  khoi_if_unmodified_since :: "datetime option"
  khoi_key :: "string option"
  khoi_range :: "string option"
  khoi_response_cache_control :: "string option"
  khoi_response_content_disposition :: "string option"
  khoi_response_content_encoding :: "string option"
  khoi_response_content_language :: "string option"
  khoi_response_content_type :: "string option"
  khoi_response_expires :: "datetime option"
  khoi_version_id :: "string option"
  khoi_sse_customer_algorithm :: "string option"
  khoi_sse_customer_key :: "string option"
  khoi_sse_customer_key_md5 :: "string option"
  khoi_request_payer :: "string option"
  khoi_part_number :: "32 word option"
  khoi_expected_bucket_owner :: "string option"
  khoi_checksum_mode :: "string option"

definition head_object_params_1 :: "pyo3 \<Rightarrow> s3_types \<Rightarrow> pydict \<Rightarrow>
    (string option \<times> string option \<times> datetime option \<times> string option \<times> datetime option \<times> string option \<times> string option \<times> string option) pyresult" where
  "head_object_params_1 P S params =
     and_then (op_param P ''s3'' ''HeadObject'' params ''bucket'' ''str'' (string_from_py P)) (\<lambda>bucket.
     and_then (op_param P ''s3'' ''HeadObject'' params ''if_match'' ''str'' (string_from_py P)) (\<lambda>if_match.
     and_then (op_param P ''s3'' ''HeadObject'' params ''if_modified_since'' ''ISO 8601 timestamp string'' (datetime_from_py P S)) (\<lambda>if_modified_since.
     and_then (op_param P ''s3'' ''HeadObject'' params ''if_none_match'' ''str'' (string_from_py P)) (\<lambda>if_none_match.
     and_then (op_param P ''s3'' ''HeadObject'' params ''if_unmodified_since'' ''ISO 8601 timestamp string'' (datetime_from_py P S)) (\<lambda>if_unmodified_since.
     and_then (op_param P ''s3'' ''HeadObject'' params ''key'' ''str'' (string_from_py P)) (\<lambda>key.
     and_then (op_param P ''s3'' ''HeadObject'' params ''range'' ''str'' (string_from_py P)) (\<lambda>range.
     and_then (op_param P ''s3'' ''HeadObject'' params ''response_cache_control'' ''str'' (string_from_py P)) (\<lambda>response_cache_control.
     Inr (bucket, if_match, if_modified_since, if_none_match, if_unmodified_since, key, range, response_cache_control)))))))))"

definition head_object_params_2 :: "pyo3 \<Rightarrow> s3_types \<Rightarrow> pydict \<Rightarrow>
    (string option \<times> string option \<times> string option \<times> string option \<times> datetime option \<times> string option \<times> string option) pyresult" where
  "head_object_params_2 P S params =
     and_then (op_param P ''s3'' ''HeadObject'' params ''response_content_disposition'' ''str'' (string_from_py P)) (\<lambda>response_content_disposition.
     and_then (op_param P ''s3'' ''HeadObject'' params ''response_content_encoding'' ''str'' (string_from_py P)) (\<lambda>response_content_encoding.
     and_then (op_param P ''s3'' ''HeadObject'' params ''response_content_language'' ''str'' (string_from_py P)) (\<lambda>response_content_language.
     and_then (op_param P ''s3'' ''HeadObject'' params ''response_content_type'' ''str'' (string_from_py P)) (\<lambda>response_content_type.
     and_then (op_param P ''s3'' ''HeadObject'' params ''response_expires'' ''ISO 8601 timestamp string'' (datetime_from_py P S)) (\<lambda>response_expires.
     and_then (op_param P ''s3'' ''HeadObject'' params ''version_id'' ''str'' (string_from_py P)) (\<lambda>version_id.
     and_then (op_param P ''s3'' ''HeadObject'' params ''sse_customer_algorithm'' ''str'' (string_from_py P)) (\<lambda>sse_customer_algorithm.
     Inr (response_content_disposition, response_content_encoding, response_content_language, response_content_type, response_expires, version_id, sse_customer_algorithm))))))))"

definition head_object_params_3 :: "pyo3 \<Rightarrow> s3_types \<Rightarrow> pydict \<Rightarrow>
    (string option \<times> string option \<times> string option \<times> 32 word option \<times> string option \<times> string option) pyresult" where
  "head_object_params_3 P S params =
     and_then (op_param P ''s3'' ''HeadObject'' params ''sse_customer_key'' ''str'' (string_from_py P)) (\<lambda>sse_customer_key.
     and_then (op_param P ''s3'' ''HeadObject'' params ''sse_customer_key_md5'' ''str'' (string_from_py P)) (\<lambda>sse_customer_key_md5.
     and_then (op_param P ''s3'' ''HeadObject'' params ''request_payer'' ''str (RequestPayer)'' (enum_from_py P)) (\<lambda>request_payer.
     and_then (op_param P ''s3'' ''HeadObject'' params ''part_number'' ''int'' (i32_from_py P)) (\<lambda>part_number.
     and_then (op_param P ''s3'' ''HeadObject'' params ''expected_bucket_owner'' ''str'' (string_from_py P)) (\<lambda>expected_bucket_owner.
     and_then (op_param P ''s3'' ''HeadObject'' params ''checksum_mode'' ''str (ChecksumMode)'' (enum_from_py P)) (\<lambda>checksum_mode.
     Inr (sse_customer_key, sse_customer_key_md5, request_payer, part_number, expected_bucket_owner, checksum_mode)))))))"

definition head_object_params :: "pyo3 \<Rightarrow> s3_types \<Rightarrow> pydict \<Rightarrow>
    head_object_input pyresult" where
  "head_object_params P S params =
     and_then (head_object_params_1 P S params) (\<lambda>(bucket, if_match, if_modified_since, if_none_match, if_unmodified_since, key, range, response_cache_control).
     and_then (head_object_params_2 P S params) (\<lambda>(response_content_disposition, response_content_encoding, response_content_language, response_content_type, response_expires, version_id, sse_customer_algorithm).
     and_then (head_object_params_3 P S params) (\<lambda>(sse_customer_key, sse_customer_key_md5, request_payer, part_number, expected_bucket_owner, checksum_mode).
     Inr \<lparr>khoi_bucket = bucket,
       khoi_if_match = if_match,
       khoi_if_modified_since = if_modified_since,
       khoi_if_none_match = if_none_match,
       khoi_if_unmodified_since = if_unmodified_since,
       khoi_key = key,
       khoi_range = range,
       khoi_response_cache_control = response_cache_control,
       khoi_response_content_disposition = response_content_disposition,
       khoi_response_content_encoding = response_content_encoding,
       khoi_response_content_language = response_content_language,
       khoi_response_content_type = response_content_type,
       khoi_response_expires = response_expires,
       khoi_version_id = version_id,
       khoi_sse_customer_algorithm = sse_customer_algorithm,
       khoi_sse_customer_key = sse_customer_key,
       khoi_sse_customer_key_md5 = sse_customer_key_md5,
       khoi_request_payer = request_payer,
       khoi_part_number = part_number,
       khoi_expected_bucket_owner = expected_bucket_owner,
       khoi_checksum_mode = checksum_mode\<rparr>)))"

definition head_object :: "('cfg, 'client) service_env \<Rightarrow> pyo3 \<Rightarrow> s3_types \<Rightarrow> unit pyresult \<Rightarrow> bool \<Rightarrow>
    ('client \<Rightarrow> head_object_input \<Rightarrow> trip list \<times> (('e, http_response) sdk_error + head_object_output)) \<Rightarrow>
    'client client_handle \<Rightarrow> pydict \<Rightarrow> pydict option \<Rightarrow>
    (head_object_output pyresult \<times> 'client client_handle \<times> pydict option) option" where
  "head_object E P S bridge interrupted send c params observation =
     execute E bridge interrupted send no_details
       ''HeadObject'' (head_object_params P S params) c observation"

definition head_object_call :: "s3_types \<Rightarrow> head_object_input \<Rightarrow> pydict" where
  "head_object_call S i = py_params
     [(''bucket'', opt_to_py PyStr (khoi_bucket i)),
      (''key'', opt_to_py PyStr (khoi_key i))]
     [(''if_match'', opt_to_py PyStr (khoi_if_match i)),
      (''if_modified_since'', opt_to_py (datetime_to_py S) (khoi_if_modified_since i)),
      (''if_none_match'', opt_to_py PyStr (khoi_if_none_match i)),
      (''if_unmodified_since'', opt_to_py (datetime_to_py S) (khoi_if_unmodified_since i)),
      (''range'', opt_to_py PyStr (khoi_range i)),
      (''response_cache_control'', opt_to_py PyStr (khoi_response_cache_control i)),
      (''response_content_disposition'', opt_to_py PyStr (khoi_response_content_disposition i)),
      (''response_content_encoding'', opt_to_py PyStr (khoi_response_content_encoding i)),
      (''response_content_language'', opt_to_py PyStr (khoi_response_content_language i)),
      (''response_content_type'', opt_to_py PyStr (khoi_response_content_type i)),
      (''response_expires'', opt_to_py (datetime_to_py S) (khoi_response_expires i)),
      (''version_id'', opt_to_py PyStr (khoi_version_id i)),
      (''sse_customer_algorithm'', opt_to_py PyStr (khoi_sse_customer_algorithm i)),
      (''sse_customer_key'', opt_to_py PyStr (khoi_sse_customer_key i)),
      (''sse_customer_key_md5'', opt_to_py PyStr (khoi_sse_customer_key_md5 i)),
      (''request_payer'', opt_to_py PyStr (khoi_request_payer i)),
      (''part_number'', opt_to_py i32_to_py (khoi_part_number i)),
      (''expected_bucket_owner'', opt_to_py PyStr (khoi_expected_bucket_owner i)),
      (''checksum_mode'', opt_to_py PyStr (khoi_checksum_mode i))]"

subsection \<open>\<open>ListObjectsV2\<close>\<close>

record list_objects_v2_input =
  klovi_bucket :: "string option"
  klovi_delimiter :: "string option"
  klovi_encoding_type :: "string option"
  klovi_max_keys :: "32 word option"
  klovi_prefix :: "string option"
  klovi_continuation_token :: "string option"
  klovi_fetch_owner :: "bool option"
  klovi_start_after :: "string option"
  klovi_request_payer :: "string option"
  klovi_expected_bucket_owner :: "string option"
  klovi_optional_object_attributes :: "string list option"

definition list_objects_v2_params_1 :: "pyo3 \<Rightarrow> s3_types \<Rightarrow> pydict \<Rightarrow>
    (string option \<times> string option \<times> string option \<times> 32 word option \<times> string option \<times> string option \<times> bool option) pyresult" where
  "list_objects_v2_params_1 P S params =
     and_then (op_param P ''s3'' ''ListObjectsV2'' params ''bucket'' ''str'' (string_from_py P)) (\<lambda>bucket.
     and_then (op_param P ''s3'' ''ListObjectsV2'' params ''delimiter'' ''str'' (string_from_py P)) (\<lambda>delimiter.
     and_then (op_param P ''s3'' ''ListObjectsV2'' params ''encoding_type'' ''str (EncodingType)'' (enum_from_py P)) (\<lambda>encoding_type.
     and_then (op_param P ''s3'' ''ListObjectsV2'' params ''max_keys'' ''int'' (i32_from_py P)) (\<lambda>max_keys.
     and_then (op_param P ''s3'' ''ListObjectsV2'' params ''prefix'' ''str'' (string_from_py P)) (\<lambda>prefix.
     and_then (op_param P ''s3'' ''ListObjectsV2'' params ''continuation_token'' ''str'' (string_from_py P)) (\<lambda>continuation_token.
     and_then (op_param P ''s3'' ''ListObjectsV2'' params ''fetch_owner'' ''bool'' (bool_from_py P)) (\<lambda>fetch_owner.
     Inr (bucket, delimiter, encoding_type, max_keys, prefix, continuation_token, fetch_owner))))))))"

definition list_objects_v2_params_2 :: "pyo3 \<Rightarrow> s3_types \<Rightarrow> pydict \<Rightarrow>
    (string option \<times> string option \<times> string option \<times> string list option) pyresult" where
  "list_objects_v2_params_2 P S params =
     and_then (op_param P ''s3'' ''ListObjectsV2'' params ''start_after'' ''str'' (string_from_py P)) (\<lambda>start_after.
     and_then (op_param P ''s3'' ''ListObjectsV2'' params ''request_payer'' ''str (RequestPayer)'' (enum_from_py P)) (\<lambda>request_payer.
     and_then (op_param P ''s3'' ''ListObjectsV2'' params ''expected_bucket_owner'' ''str'' (string_from_py P)) (\<lambda>expected_bucket_owner.
     and_then (op_param P ''s3'' ''ListObjectsV2'' params ''optional_object_attributes'' ''sequence'' (seq_from_py P ''str (OptionalObjectAttributes)'' (enum_from_py P))) (\<lambda>optional_object_attributes.
     Inr (start_after, request_payer, expected_bucket_owner, optional_object_attributes)))))"

definition list_objects_v2_params :: "pyo3 \<Rightarrow> s3_types \<Rightarrow> pydict \<Rightarrow>
    list_objects_v2_input pyresult" where
  "list_objects_v2_params P S params =
     and_then (list_objects_v2_params_1 P S params) (\<lambda>(bucket, delimiter, encoding_type, max_keys, prefix, continuation_token, fetch_owner).
     and_then (list_objects_v2_params_2 P S params) (\<lambda>(start_after, request_payer, expected_bucket_owner, optional_object_attributes).
     Inr \<lparr>klovi_bucket = bucket,
       klovi_delimiter = delimiter,
       klovi_encoding_type = encoding_type,
       klovi_max_keys = max_keys,
       klovi_prefix = prefix,
       klovi_continuation_token = continuation_token,
       klovi_fetch_owner = fetch_owner,
       klovi_start_after = start_after,
       klovi_request_payer = request_payer,
       klovi_expected_bucket_owner = expected_bucket_owner,
       klovi_optional_object_attributes = optional_object_attributes\<rparr>))"

definition list_objects_v2 :: "('cfg, 'client) service_env \<Rightarrow> pyo3 \<Rightarrow> s3_types \<Rightarrow> unit pyresult \<Rightarrow> bool \<Rightarrow>
    ('client \<Rightarrow> list_objects_v2_input \<Rightarrow> trip list \<times> (('e, http_response) sdk_error + list_objects_v2_output)) \<Rightarrow>
    'client client_handle \<Rightarrow> pydict \<Rightarrow> pydict option \<Rightarrow>
    (list_objects_v2_output pyresult \<times> 'client client_handle \<times> pydict option) option" where
  "list_objects_v2 E P S bridge interrupted send c params observation =
     execute E bridge interrupted send no_details
       ''ListObjectsV2'' (list_objects_v2_params P S params) c observation"

definition list_objects_v2_call :: "list_objects_v2_input \<Rightarrow> pydict" where
  "list_objects_v2_call i = py_params
     [(''bucket'', opt_to_py PyStr (klovi_bucket i))]
     [(''delimiter'', opt_to_py PyStr (klovi_delimiter i)),
      (''encoding_type'', opt_to_py PyStr (klovi_encoding_type i)),
      (''max_keys'', opt_to_py i32_to_py (klovi_max_keys i)),
      (''prefix'', opt_to_py PyStr (klovi_prefix i)),
      (''continuation_token'', opt_to_py PyStr (klovi_continuation_token i)),
      (''fetch_owner'', opt_to_py PyBool (klovi_fetch_owner i)),
      (''start_after'', opt_to_py PyStr (klovi_start_after i)),
      (''request_payer'', opt_to_py PyStr (klovi_request_payer i)),
      (''expected_bucket_owner'', opt_to_py PyStr (klovi_expected_bucket_owner i)),
      (''optional_object_attributes'', opt_to_py (seq_to_py PyStr) (klovi_optional_object_attributes i))]"

subsection \<open>\<open>ListParts\<close>\<close>

record list_parts_input =
  klpi_bucket :: "string option"
  klpi_key :: "string option"
  klpi_max_parts :: "32 word option"
  klpi_part_number_marker :: "string option"
  klpi_upload_id :: "string option"
  klpi_request_payer :: "string option"
  klpi_expected_bucket_owner :: "string option"
  klpi_sse_customer_algorithm :: "string option"
  klpi_sse_customer_key :: "string option"
  klpi_sse_customer_key_md5 :: "string option"

definition list_parts_params_1 :: "pyo3 \<Rightarrow> s3_types \<Rightarrow> pydict \<Rightarrow>
    (string option \<times> string option \<times> 32 word option \<times> string option \<times> string option) pyresult" where
  "list_parts_params_1 P S params =
     and_then (op_param P ''s3'' ''ListParts'' params ''bucket'' ''str'' (string_from_py P)) (\<lambda>bucket.
     and_then (op_param P ''s3'' ''ListParts'' params ''key'' ''str'' (string_from_py P)) (\<lambda>key.
     and_then (op_param P ''s3'' ''ListParts'' params ''max_parts'' ''int'' (i32_from_py P)) (\<lambda>max_parts.
     and_then (op_param P ''s3'' ''ListParts'' params ''part_number_marker'' ''str'' (string_from_py P)) (\<lambda>part_number_marker.
     and_then (op_param P ''s3'' ''ListParts'' params ''upload_id'' ''str'' (string_from_py P)) (\<lambda>upload_id.
     Inr (bucket, key, max_parts, part_number_marker, upload_id))))))"

definition list_parts_params_2 :: "pyo3 \<Rightarrow> s3_types \<Rightarrow> pydict \<Rightarrow>
    (string option \<times> string option \<times> string option \<times> string option \<times> string option) pyresult" where
  "list_parts_params_2 P S params =
     and_then (op_param P ''s3'' ''ListParts'' params ''request_payer'' ''str (RequestPayer)'' (enum_from_py P)) (\<lambda>request_payer.
     and_then (op_param P ''s3'' ''ListParts'' params ''expected_bucket_owner'' ''str'' (string_from_py P)) (\<lambda>expected_bucket_owner.
     and_then (op_param P ''s3'' ''ListParts'' params ''sse_customer_algorithm'' ''str'' (string_from_py P)) (\<lambda>sse_customer_algorithm.
     and_then (op_param P ''s3'' ''ListParts'' params ''sse_customer_key'' ''str'' (string_from_py P)) (\<lambda>sse_customer_key.
     and_then (op_param P ''s3'' ''ListParts'' params ''sse_customer_key_md5'' ''str'' (string_from_py P)) (\<lambda>sse_customer_key_md5.
     Inr (request_payer, expected_bucket_owner, sse_customer_algorithm, sse_customer_key, sse_customer_key_md5))))))"

definition list_parts_params :: "pyo3 \<Rightarrow> s3_types \<Rightarrow> pydict \<Rightarrow>
    list_parts_input pyresult" where
  "list_parts_params P S params =
     and_then (list_parts_params_1 P S params) (\<lambda>(bucket, key, max_parts, part_number_marker, upload_id).
     and_then (list_parts_params_2 P S params) (\<lambda>(request_payer, expected_bucket_owner, sse_customer_algorithm, sse_customer_key, sse_customer_key_md5).
     Inr \<lparr>klpi_bucket = bucket,
       klpi_key = key,
       klpi_max_parts = max_parts,
       klpi_part_number_marker = part_number_marker,
       klpi_upload_id = upload_id,
       klpi_request_payer = request_payer,
       klpi_expected_bucket_owner = expected_bucket_owner,
       klpi_sse_customer_algorithm = sse_customer_algorithm,
       klpi_sse_customer_key = sse_customer_key,
       klpi_sse_customer_key_md5 = sse_customer_key_md5\<rparr>))"

definition list_parts :: "('cfg, 'client) service_env \<Rightarrow> pyo3 \<Rightarrow> s3_types \<Rightarrow> unit pyresult \<Rightarrow> bool \<Rightarrow>
    ('client \<Rightarrow> list_parts_input \<Rightarrow> trip list \<times> (('e, http_response) sdk_error + list_parts_output)) \<Rightarrow>
    'client client_handle \<Rightarrow> pydict \<Rightarrow> pydict option \<Rightarrow>
    (list_parts_output pyresult \<times> 'client client_handle \<times> pydict option) option" where
  "list_parts E P S bridge interrupted send c params observation =
     execute E bridge interrupted send no_details
       ''ListParts'' (list_parts_params P S params) c observation"

definition list_parts_call :: "list_parts_input \<Rightarrow> pydict" where
  "list_parts_call i = py_params
     [(''bucket'', opt_to_py PyStr (klpi_bucket i)),
      (''key'', opt_to_py PyStr (klpi_key i)),
      (''upload_id'', opt_to_py PyStr (klpi_upload_id i))]
     [(''max_parts'', opt_to_py i32_to_py (klpi_max_parts i)),
      (''part_number_marker'', opt_to_py PyStr (klpi_part_number_marker i)),
      (''request_payer'', opt_to_py PyStr (klpi_request_payer i)),
      (''expected_bucket_owner'', opt_to_py PyStr (klpi_expected_bucket_owner i)),
      (''sse_customer_algorithm'', opt_to_py PyStr (klpi_sse_customer_algorithm i)),
      (''sse_customer_key'', opt_to_py PyStr (klpi_sse_customer_key i)),
      (''sse_customer_key_md5'', opt_to_py PyStr (klpi_sse_customer_key_md5 i))]"

subsection \<open>\<open>PutObject\<close>\<close>

record 'b put_object_input =
  kpoi_acl :: "string option"
  kpoi_body :: "'b byte_stream option"
  kpoi_bucket :: "string option"
  kpoi_cache_control :: "string option"
  kpoi_content_disposition :: "string option"
  kpoi_content_encoding :: "string option"
  kpoi_content_language :: "string option"
  kpoi_content_length :: "64 word option"
  kpoi_content_md5 :: "string option"
  kpoi_content_type :: "string option"
  kpoi_checksum_algorithm :: "string option"
  kpoi_checksum_crc32 :: "string option"
  kpoi_checksum_crc32_c :: "string option"
  kpoi_checksum_crc64_nvme :: "string option"
  kpoi_checksum_sha1 :: "string option"
  kpoi_checksum_sha256 :: "string option"
  kpoi_checksum_sha512 :: "string option"
  kpoi_checksum_md5 :: "string option"
  kpoi_checksum_xxhash64 :: "string option"
  kpoi_checksum_xxhash3 :: "string option"
  kpoi_checksum_xxhash128 :: "string option"
  kpoi_expires :: "datetime option"
  kpoi_if_match :: "string option"
  kpoi_if_none_match :: "string option"
  kpoi_grant_full_control :: "string option"
  kpoi_grant_read :: "string option"
  kpoi_grant_read_acp :: "string option"
  kpoi_grant_write_acp :: "string option"
  kpoi_key :: "string option"
  kpoi_write_offset_bytes :: "64 word option"
  kpoi_metadata :: "(string, string) fmap option"
  kpoi_server_side_encryption :: "string option"
  kpoi_storage_class :: "string option"
  kpoi_website_redirect_location :: "string option"
  kpoi_sse_customer_algorithm :: "string option"
  kpoi_sse_customer_key :: "string option"
  kpoi_sse_customer_key_md5 :: "string option"
  kpoi_ssekms_key_id :: "string option"
  kpoi_ssekms_encryption_context :: "string option"
  kpoi_bucket_key_enabled :: "bool option"
  kpoi_request_payer :: "string option"
  kpoi_tagging :: "string option"
  kpoi_object_lock_mode :: "string option"
  kpoi_object_lock_retain_until_date :: "datetime option"
  kpoi_object_lock_legal_hold_status :: "string option"
  kpoi_object_lock_event_hold :: "string option"
  kpoi_object_lock_event_hold_duration_days :: "32 word option"
  kpoi_object_lock_event_hold_duration_years :: "32 word option"
  kpoi_expected_bucket_owner :: "string option"

definition put_object_params_1 :: "pyo3 \<Rightarrow> s3_types \<Rightarrow> (pyval \<Rightarrow> bool pyresult) \<Rightarrow> (pyval \<Rightarrow> 'b pyresult) \<Rightarrow> pydict \<Rightarrow>
    (string option \<times> 'b byte_stream option \<times> string option \<times> string option \<times> string option \<times> string option \<times> string option \<times> 64 word option) pyresult" where
  "put_object_params_1 P S has_aiter aiter params =
     and_then (op_param P ''s3'' ''PutObject'' params ''content_length'' ''int'' (extract_u64 P)) (\<lambda>content_length_hint.
     and_then (op_param P ''s3'' ''PutObject'' params ''acl'' ''str (ObjectCannedAcl)'' (enum_from_py P)) (\<lambda>acl.
     and_then (op_param P ''s3'' ''PutObject'' params ''body'' ''bytes or async iterable of bytes''
         (\<lambda>value. python_byte_stream P has_aiter aiter value content_length_hint True)) (\<lambda>body.
     and_then (op_param P ''s3'' ''PutObject'' params ''bucket'' ''str'' (string_from_py P)) (\<lambda>bucket.
     and_then (op_param P ''s3'' ''PutObject'' params ''cache_control'' ''str'' (string_from_py P)) (\<lambda>cache_control.
     and_then (op_param P ''s3'' ''PutObject'' params ''content_disposition'' ''str'' (string_from_py P)) (\<lambda>content_disposition.
     and_then (op_param P ''s3'' ''PutObject'' params ''content_encoding'' ''str'' (string_from_py P)) (\<lambda>content_encoding.
     and_then (op_param P ''s3'' ''PutObject'' params ''content_language'' ''str'' (string_from_py P)) (\<lambda>content_language.
     and_then (op_param P ''s3'' ''PutObject'' params ''content_length'' ''int'' (i64_from_py P)) (\<lambda>content_length.
     Inr (acl, body, bucket, cache_control, content_disposition, content_encoding, content_language, content_length))))))))))"

definition put_object_params_2 :: "pyo3 \<Rightarrow> s3_types \<Rightarrow> pydict \<Rightarrow>
    (string option \<times> string option \<times> string option \<times> string option \<times> string option \<times> string option \<times> string option) pyresult" where
  "put_object_params_2 P S params =
     and_then (op_param P ''s3'' ''PutObject'' params ''content_md5'' ''str'' (string_from_py P)) (\<lambda>content_md5.
     and_then (op_param P ''s3'' ''PutObject'' params ''content_type'' ''str'' (string_from_py P)) (\<lambda>content_type.
     and_then (op_param P ''s3'' ''PutObject'' params ''checksum_algorithm'' ''str (ChecksumAlgorithm)'' (enum_from_py P)) (\<lambda>checksum_algorithm.
     and_then (op_param P ''s3'' ''PutObject'' params ''checksum_crc32'' ''str'' (string_from_py P)) (\<lambda>checksum_crc32.
     and_then (op_param P ''s3'' ''PutObject'' params ''checksum_crc32_c'' ''str'' (string_from_py P)) (\<lambda>checksum_crc32_c.
     and_then (op_param P ''s3'' ''PutObject'' params ''checksum_crc64_nvme'' ''str'' (string_from_py P)) (\<lambda>checksum_crc64_nvme.
     and_then (op_param P ''s3'' ''PutObject'' params ''checksum_sha1'' ''str'' (string_from_py P)) (\<lambda>checksum_sha1.
     Inr (content_md5, content_type, checksum_algorithm, checksum_crc32, checksum_crc32_c, checksum_crc64_nvme, checksum_sha1))))))))"

definition put_object_params_3 :: "pyo3 \<Rightarrow> s3_types \<Rightarrow> pydict \<Rightarrow>
    (string option \<times> string option \<times> string option \<times> string option \<times> string option \<times> string option \<times> datetime option \<times> string option) pyresult" where
  "put_object_params_3 P S params =
     and_then (op_param P ''s3'' ''PutObject'' params ''checksum_sha256'' ''str'' (string_from_py P)) (\<lambda>checksum_sha256.
     and_then (op_param P ''s3'' ''PutObject'' params ''checksum_sha512'' ''str'' (string_from_py P)) (\<lambda>checksum_sha512.
     and_then (op_param P ''s3'' ''PutObject'' params ''checksum_md5'' ''str'' (string_from_py P)) (\<lambda>checksum_md5.
     and_then (op_param P ''s3'' ''PutObject'' params ''checksum_xxhash64'' ''str'' (string_from_py P)) (\<lambda>checksum_xxhash64.
     and_then (op_param P ''s3'' ''PutObject'' params ''checksum_xxhash3'' ''str'' (string_from_py P)) (\<lambda>checksum_xxhash3.
     and_then (op_param P ''s3'' ''PutObject'' params ''checksum_xxhash128'' ''str'' (string_from_py P)) (\<lambda>checksum_xxhash128.
     and_then (op_param P ''s3'' ''PutObject'' params ''expires'' ''ISO 8601 timestamp string'' (datetime_from_py P S)) (\<lambda>expires.
     and_then (op_param P ''s3'' ''PutObject'' params ''if_match'' ''str'' (string_from_py P)) (\<lambda>if_match.
     Inr (checksum_sha256, checksum_sha512, checksum_md5, checksum_xxhash64, checksum_xxhash3, checksum_xxhash128, expires, if_match)))))))))"

definition put_object_params_4 :: "pyo3 \<Rightarrow> s3_types \<Rightarrow> pydict \<Rightarrow>
    (string option \<times> string option \<times> string option \<times> string option \<times> string option \<times> string option \<times> 64 word option) pyresult" where
  "put_object_params_4 P S params =
     and_then (op_param P ''s3'' ''PutObject'' params ''if_none_match'' ''str'' (string_from_py P)) (\<lambda>if_none_match.
     and_then (op_param P ''s3'' ''PutObject'' params ''grant_full_control'' ''str'' (string_from_py P)) (\<lambda>grant_full_control.
     and_then (op_param P ''s3'' ''PutObject'' params ''grant_read'' ''str'' (string_from_py P)) (\<lambda>grant_read.
     and_then (op_param P ''s3'' ''PutObject'' params ''grant_read_acp'' ''str'' (string_from_py P)) (\<lambda>grant_read_acp.
     and_then (op_param P ''s3'' ''PutObject'' params ''grant_write_acp'' ''str'' (string_from_py P)) (\<lambda>grant_write_acp.
     and_then (op_param P ''s3'' ''PutObject'' params ''key'' ''str'' (string_from_py P)) (\<lambda>key.
     and_then (op_param P ''s3'' ''PutObject'' params ''write_offset_bytes'' ''int'' (i64_from_py P)) (\<lambda>write_offset_bytes.
     Inr (if_none_match, grant_full_control, grant_read, grant_read_acp, grant_write_acp, key, write_offset_bytes))))))))"

definition put_object_params_5 :: "pyo3 \<Rightarrow> s3_types \<Rightarrow> pydict \<Rightarrow>
    ((string, string) fmap option \<times> string option \<times> string option \<times> string option \<times> string option \<times> string option) pyresult" where
  "put_object_params_5 P S params =
     and_then (op_param P ''s3'' ''PutObject'' params ''metadata'' ''dict'' (map_from_py P ''str'' ''str'' (string_from_py P))) (\<lambda>metadata.
     and_then (op_param P ''s3'' ''PutObject'' params ''server_side_encryption'' ''str (ServerSideEncryption)'' (enum_from_py P)) (\<lambda>server_side_encryption.
     and_then (op_param P ''s3'' ''PutObject'' params ''storage_class'' ''str (StorageClass)'' (enum_from_py P)) (\<lambda>storage_class.
     and_then (op_param P ''s3'' ''PutObject'' params ''website_redirect_location'' ''str'' (string_from_py P)) (\<lambda>website_redirect_location.
     and_then (op_param P ''s3'' ''PutObject'' params ''sse_customer_algorithm'' ''str'' (string_from_py P)) (\<lambda>sse_customer_algorithm.
     and_then (op_param P ''s3'' ''PutObject'' params ''sse_customer_key'' ''str'' (string_from_py P)) (\<lambda>sse_customer_key.
     Inr (metadata, server_side_encryption, storage_class, website_redirect_location, sse_customer_algorithm, sse_customer_key)))))))"

definition put_object_params_6 :: "pyo3 \<Rightarrow> s3_types \<Rightarrow> pydict \<Rightarrow>
    (string option \<times> string option \<times> string option \<times> bool option \<times> string option \<times> string option \<times> string option) pyresult" where
  "put_object_params_6 P S params =
     and_then (op_param P ''s3'' ''PutObject'' params ''sse_customer_key_md5'' ''str'' (string_from_py P)) (\<lambda>sse_customer_key_md5.
     and_then (op_param P ''s3'' ''PutObject'' params ''ssekms_key_id'' ''str'' (string_from_py P)) (\<lambda>ssekms_key_id.
     and_then (op_param P ''s3'' ''PutObject'' params ''ssekms_encryption_context'' ''str'' (string_from_py P)) (\<lambda>ssekms_encryption_context.
     and_then (op_param P ''s3'' ''PutObject'' params ''bucket_key_enabled'' ''bool'' (bool_from_py P)) (\<lambda>bucket_key_enabled.
     and_then (op_param P ''s3'' ''PutObject'' params ''request_payer'' ''str (RequestPayer)'' (enum_from_py P)) (\<lambda>request_payer.
     and_then (op_param P ''s3'' ''PutObject'' params ''tagging'' ''str'' (string_from_py P)) (\<lambda>tagging.
     and_then (op_param P ''s3'' ''PutObject'' params ''object_lock_mode'' ''str (ObjectLockMode)'' (enum_from_py P)) (\<lambda>object_lock_mode.
     Inr (sse_customer_key_md5, ssekms_key_id, ssekms_encryption_context, bucket_key_enabled, request_payer, tagging, object_lock_mode))))))))"

definition put_object_params_7 :: "pyo3 \<Rightarrow> s3_types \<Rightarrow> pydict \<Rightarrow>
    (datetime option \<times> string option \<times> string option \<times> 32 word option \<times> 32 word option \<times> string option) pyresult" where
  "put_object_params_7 P S params =
     and_then (op_param P ''s3'' ''PutObject'' params ''object_lock_retain_until_date'' ''ISO 8601 timestamp string'' (datetime_from_py P S)) (\<lambda>object_lock_retain_until_date.
     and_then (op_param P ''s3'' ''PutObject'' params ''object_lock_legal_hold_status'' ''str (ObjectLockLegalHoldStatus)'' (enum_from_py P)) (\<lambda>object_lock_legal_hold_status.
     and_then (op_param P ''s3'' ''PutObject'' params ''object_lock_event_hold'' ''str (ObjectLockEventHold)'' (enum_from_py P)) (\<lambda>object_lock_event_hold.
     and_then (op_param P ''s3'' ''PutObject'' params ''object_lock_event_hold_duration_days'' ''int'' (i32_from_py P)) (\<lambda>object_lock_event_hold_duration_days.
     and_then (op_param P ''s3'' ''PutObject'' params ''object_lock_event_hold_duration_years'' ''int'' (i32_from_py P)) (\<lambda>object_lock_event_hold_duration_years.
     and_then (op_param P ''s3'' ''PutObject'' params ''expected_bucket_owner'' ''str'' (string_from_py P)) (\<lambda>expected_bucket_owner.
     Inr (object_lock_retain_until_date, object_lock_legal_hold_status, object_lock_event_hold, object_lock_event_hold_duration_days, object_lock_event_hold_duration_years, expected_bucket_owner)))))))"

definition put_object_params :: "pyo3 \<Rightarrow> s3_types \<Rightarrow> (pyval \<Rightarrow> bool pyresult) \<Rightarrow> (pyval \<Rightarrow> 'b pyresult) \<Rightarrow> pydict \<Rightarrow>
    'b put_object_input pyresult" where
  "put_object_params P S has_aiter aiter params =
     and_then (put_object_params_1 P S has_aiter aiter params) (\<lambda>(acl, body, bucket, cache_control, content_disposition, content_encoding, content_language, content_length).
     and_then (put_object_params_2 P S params) (\<lambda>(content_md5, content_type, checksum_algorithm, checksum_crc32, checksum_crc32_c, checksum_crc64_nvme, checksum_sha1).
     and_then (put_object_params_3 P S params) (\<lambda>(checksum_sha256, checksum_sha512, checksum_md5, checksum_xxhash64, checksum_xxhash3, checksum_xxhash128, expires, if_match).
     and_then (put_object_params_4 P S params) (\<lambda>(if_none_match, grant_full_control, grant_read, grant_read_acp, grant_write_acp, key, write_offset_bytes).
     and_then (put_object_params_5 P S params) (\<lambda>(metadata, server_side_encryption, storage_class, website_redirect_location, sse_customer_algorithm, sse_customer_key).
     and_then (put_object_params_6 P S params) (\<lambda>(sse_customer_key_md5, ssekms_key_id, ssekms_encryption_context, bucket_key_enabled, request_payer, tagging, object_lock_mode).
     and_then (put_object_params_7 P S params) (\<lambda>(object_lock_retain_until_date, object_lock_legal_hold_status, object_lock_event_hold, object_lock_event_hold_duration_days, object_lock_event_hold_duration_years, expected_bucket_owner).
     Inr \<lparr>kpoi_acl = acl,
       kpoi_body = body,
       kpoi_bucket = bucket,
       kpoi_cache_control = cache_control,
       kpoi_content_disposition = content_disposition,
       kpoi_content_encoding = content_encoding,
       kpoi_content_language = content_language,
       kpoi_content_length = content_length,
       kpoi_content_md5 = content_md5,
       kpoi_content_type = content_type,
       kpoi_checksum_algorithm = checksum_algorithm,
       kpoi_checksum_crc32 = checksum_crc32,
       kpoi_checksum_crc32_c = checksum_crc32_c,
       kpoi_checksum_crc64_nvme = checksum_crc64_nvme,
       kpoi_checksum_sha1 = checksum_sha1,
       kpoi_checksum_sha256 = checksum_sha256,
       kpoi_checksum_sha512 = checksum_sha512,
       kpoi_checksum_md5 = checksum_md5,
       kpoi_checksum_xxhash64 = checksum_xxhash64,
       kpoi_checksum_xxhash3 = checksum_xxhash3,
       kpoi_checksum_xxhash128 = checksum_xxhash128,
       kpoi_expires = expires,
       kpoi_if_match = if_match,
       kpoi_if_none_match = if_none_match,
       kpoi_grant_full_control = grant_full_control,
       kpoi_grant_read = grant_read,
       kpoi_grant_read_acp = grant_read_acp,
       kpoi_grant_write_acp = grant_write_acp,
       kpoi_key = key,
       kpoi_write_offset_bytes = write_offset_bytes,
       kpoi_metadata = metadata,
       kpoi_server_side_encryption = server_side_encryption,
       kpoi_storage_class = storage_class,
       kpoi_website_redirect_location = website_redirect_location,
       kpoi_sse_customer_algorithm = sse_customer_algorithm,
       kpoi_sse_customer_key = sse_customer_key,
       kpoi_sse_customer_key_md5 = sse_customer_key_md5,
       kpoi_ssekms_key_id = ssekms_key_id,
       kpoi_ssekms_encryption_context = ssekms_encryption_context,
       kpoi_bucket_key_enabled = bucket_key_enabled,
       kpoi_request_payer = request_payer,
       kpoi_tagging = tagging,
       kpoi_object_lock_mode = object_lock_mode,
       kpoi_object_lock_retain_until_date = object_lock_retain_until_date,
       kpoi_object_lock_legal_hold_status = object_lock_legal_hold_status,
       kpoi_object_lock_event_hold = object_lock_event_hold,
       kpoi_object_lock_event_hold_duration_days = object_lock_event_hold_duration_days,
       kpoi_object_lock_event_hold_duration_years = object_lock_event_hold_duration_years,
       kpoi_expected_bucket_owner = expected_bucket_owner\<rparr>)))))))"

definition put_object :: "('cfg, 'client) service_env \<Rightarrow> pyo3 \<Rightarrow> s3_types \<Rightarrow> (pyval \<Rightarrow> bool pyresult) \<Rightarrow> (pyval \<Rightarrow> 'b pyresult) \<Rightarrow> unit pyresult \<Rightarrow> bool \<Rightarrow>
    ('client \<Rightarrow> 'b put_object_input \<Rightarrow> trip list \<times> (('e, http_response) sdk_error + put_object_output)) \<Rightarrow>
    'client client_handle \<Rightarrow> pydict \<Rightarrow> pydict option \<Rightarrow>
    (put_object_output pyresult \<times> 'client client_handle \<times> pydict option) option" where
  "put_object E P S has_aiter aiter bridge interrupted send c params observation =
     execute E bridge interrupted send no_details
       ''PutObject'' (put_object_params P S has_aiter aiter params) c observation"

definition put_object_call :: "((string, pyval) fmap \<Rightarrow> (string \<times> pyval) list) \<Rightarrow> s3_types \<Rightarrow> 'b put_object_input \<Rightarrow> pyval \<Rightarrow> pydict" where
  "put_object_call order S i body = py_params
     [(''bucket'', opt_to_py PyStr (kpoi_bucket i)),
      (''key'', opt_to_py PyStr (kpoi_key i))]
     [(''acl'', opt_to_py PyStr (kpoi_acl i)),
      (''body'', body),
      (''cache_control'', opt_to_py PyStr (kpoi_cache_control i)),
      (''content_disposition'', opt_to_py PyStr (kpoi_content_disposition i)),
      (''content_encoding'', opt_to_py PyStr (kpoi_content_encoding i)),
      (''content_language'', opt_to_py PyStr (kpoi_content_language i)),
      (''content_length'', opt_to_py i64_to_py (kpoi_content_length i)),
      (''content_md5'', opt_to_py PyStr (kpoi_content_md5 i)),
      (''content_type'', opt_to_py PyStr (kpoi_content_type i)),
      (''checksum_algorithm'', opt_to_py PyStr (kpoi_checksum_algorithm i)),
      (''checksum_crc32'', opt_to_py PyStr (kpoi_checksum_crc32 i)),
      (''checksum_crc32_c'', opt_to_py PyStr (kpoi_checksum_crc32_c i)),
      (''checksum_crc64_nvme'', opt_to_py PyStr (kpoi_checksum_crc64_nvme i)),
      (''checksum_sha1'', opt_to_py PyStr (kpoi_checksum_sha1 i)),
      (''checksum_sha256'', opt_to_py PyStr (kpoi_checksum_sha256 i)),
      (''checksum_sha512'', opt_to_py PyStr (kpoi_checksum_sha512 i)),
      (''checksum_md5'', opt_to_py PyStr (kpoi_checksum_md5 i)),
      (''checksum_xxhash64'', opt_to_py PyStr (kpoi_checksum_xxhash64 i)),
      (''checksum_xxhash3'', opt_to_py PyStr (kpoi_checksum_xxhash3 i)),
      (''checksum_xxhash128'', opt_to_py PyStr (kpoi_checksum_xxhash128 i)),
      (''expires'', opt_to_py (datetime_to_py S) (kpoi_expires i)),
      (''if_match'', opt_to_py PyStr (kpoi_if_match i)),
      (''if_none_match'', opt_to_py PyStr (kpoi_if_none_match i)),
      (''grant_full_control'', opt_to_py PyStr (kpoi_grant_full_control i)),
      (''grant_read'', opt_to_py PyStr (kpoi_grant_read i)),
      (''grant_read_acp'', opt_to_py PyStr (kpoi_grant_read_acp i)),
      (''grant_write_acp'', opt_to_py PyStr (kpoi_grant_write_acp i)),
      (''write_offset_bytes'', opt_to_py i64_to_py (kpoi_write_offset_bytes i)),
      (''metadata'', opt_to_py (mapping_to_py order PyStr) (kpoi_metadata i)),
      (''server_side_encryption'', opt_to_py PyStr (kpoi_server_side_encryption i)),
      (''storage_class'', opt_to_py PyStr (kpoi_storage_class i)),
      (''website_redirect_location'', opt_to_py PyStr (kpoi_website_redirect_location i)),
      (''sse_customer_algorithm'', opt_to_py PyStr (kpoi_sse_customer_algorithm i)),
      (''sse_customer_key'', opt_to_py PyStr (kpoi_sse_customer_key i)),
      (''sse_customer_key_md5'', opt_to_py PyStr (kpoi_sse_customer_key_md5 i)),
      (''ssekms_key_id'', opt_to_py PyStr (kpoi_ssekms_key_id i)),
      (''ssekms_encryption_context'', opt_to_py PyStr (kpoi_ssekms_encryption_context i)),
      (''bucket_key_enabled'', opt_to_py PyBool (kpoi_bucket_key_enabled i)),
      (''request_payer'', opt_to_py PyStr (kpoi_request_payer i)),
      (''tagging'', opt_to_py PyStr (kpoi_tagging i)),
      (''object_lock_mode'', opt_to_py PyStr (kpoi_object_lock_mode i)),
      (''object_lock_retain_until_date'', opt_to_py (datetime_to_py S) (kpoi_object_lock_retain_until_date i)),
      (''object_lock_legal_hold_status'', opt_to_py PyStr (kpoi_object_lock_legal_hold_status i)),
      (''object_lock_event_hold'', opt_to_py PyStr (kpoi_object_lock_event_hold i)),
      (''object_lock_event_hold_duration_days'', opt_to_py i32_to_py (kpoi_object_lock_event_hold_duration_days i)),
      (''object_lock_event_hold_duration_years'', opt_to_py i32_to_py (kpoi_object_lock_event_hold_duration_years i)),
      (''expected_bucket_owner'', opt_to_py PyStr (kpoi_expected_bucket_owner i))]"

subsection \<open>\<open>UploadPart\<close>\<close>

record 'b upload_part_input =
  kupi_body :: "'b byte_stream option"
  kupi_bucket :: "string option"
  kupi_content_length :: "64 word option"
  kupi_content_md5 :: "string option"
  kupi_checksum_algorithm :: "string option"
  kupi_checksum_crc32 :: "string option"
  kupi_checksum_crc32_c :: "string option"
  kupi_checksum_crc64_nvme :: "string option"
  kupi_checksum_sha1 :: "string option"
  kupi_checksum_sha256 :: "string option"
  kupi_checksum_sha512 :: "string option"
  kupi_checksum_md5 :: "string option"
  kupi_checksum_xxhash64 :: "string option"
  kupi_checksum_xxhash3 :: "string option"
  kupi_checksum_xxhash128 :: "string option"
  kupi_key :: "string option"
  kupi_part_number :: "32 word option"
  kupi_upload_id :: "string option"
  kupi_sse_customer_algorithm :: "string option"
  kupi_sse_customer_key :: "string option"
  kupi_sse_customer_key_md5 :: "string option"
  kupi_request_payer :: "string option"
  kupi_expected_bucket_owner :: "string option"

definition upload_part_params_1 :: "pyo3 \<Rightarrow> s3_types \<Rightarrow> (pyval \<Rightarrow> bool pyresult) \<Rightarrow> (pyval \<Rightarrow> 'b pyresult) \<Rightarrow> pydict \<Rightarrow>
    ('b byte_stream option \<times> string option \<times> 64 word option \<times> string option \<times> string option \<times> string option) pyresult" where
  "upload_part_params_1 P S has_aiter aiter params =
     and_then (op_param P ''s3'' ''UploadPart'' params ''content_length'' ''int'' (extract_u64 P)) (\<lambda>content_length_hint.
     and_then (op_param P ''s3'' ''UploadPart'' params ''body'' ''bytes or async iterable of bytes''
         (\<lambda>value. python_byte_stream P has_aiter aiter value content_length_hint True)) (\<lambda>body.
     and_then (op_param P ''s3'' ''UploadPart'' params ''bucket'' ''str'' (string_from_py P)) (\<lambda>bucket.
     and_then (op_param P ''s3'' ''UploadPart'' params ''content_length'' ''int'' (i64_from_py P)) (\<lambda>content_length.
     and_then (op_param P ''s3'' ''UploadPart'' params ''content_md5'' ''str'' (string_from_py P)) (\<lambda>content_md5.
     and_then (op_param P ''s3'' ''UploadPart'' params ''checksum_algorithm'' ''str (ChecksumAlgorithm)'' (enum_from_py P)) (\<lambda>checksum_algorithm.
     and_then (op_param P ''s3'' ''UploadPart'' params ''checksum_crc32'' ''str'' (string_from_py P)) (\<lambda>checksum_crc32.
     Inr (body, bucket, content_length, content_md5, checksum_algorithm, checksum_crc32))))))))"

definition upload_part_params_2 :: "pyo3 \<Rightarrow> s3_types \<Rightarrow> pydict \<Rightarrow>
    (string option \<times> string option \<times> string option \<times> string option \<times> string option \<times> string option) pyresult" where
  "upload_part_params_2 P S params =
     and_then (op_param P ''s3'' ''UploadPart'' params ''checksum_crc32_c'' ''str'' (string_from_py P)) (\<lambda>checksum_crc32_c.
     and_then (op_param P ''s3'' ''UploadPart'' params ''checksum_crc64_nvme'' ''str'' (string_from_py P)) (\<lambda>checksum_crc64_nvme.
     and_then (op_param P ''s3'' ''UploadPart'' params ''checksum_sha1'' ''str'' (string_from_py P)) (\<lambda>checksum_sha1.
     and_then (op_param P ''s3'' ''UploadPart'' params ''checksum_sha256'' ''str'' (string_from_py P)) (\<lambda>checksum_sha256.
     and_then (op_param P ''s3'' ''UploadPart'' params ''checksum_sha512'' ''str'' (string_from_py P)) (\<lambda>checksum_sha512.
     and_then (op_param P ''s3'' ''UploadPart'' params ''checksum_md5'' ''str'' (string_from_py P)) (\<lambda>checksum_md5.
     Inr (checksum_crc32_c, checksum_crc64_nvme, checksum_sha1, checksum_sha256, checksum_sha512, checksum_md5)))))))"

definition upload_part_params_3 :: "pyo3 \<Rightarrow> s3_types \<Rightarrow> pydict \<Rightarrow>
    (string option \<times> string option \<times> string option \<times> string option \<times> 32 word option \<times> string option) pyresult" where
  "upload_part_params_3 P S params =
     and_then (op_param P ''s3'' ''UploadPart'' params ''checksum_xxhash64'' ''str'' (string_from_py P)) (\<lambda>checksum_xxhash64.
     and_then (op_param P ''s3'' ''UploadPart'' params ''checksum_xxhash3'' ''str'' (string_from_py P)) (\<lambda>checksum_xxhash3.
     and_then (op_param P ''s3'' ''UploadPart'' params ''checksum_xxhash128'' ''str'' (string_from_py P)) (\<lambda>checksum_xxhash128.
     and_then (op_param P ''s3'' ''UploadPart'' params ''key'' ''str'' (string_from_py P)) (\<lambda>key.
     and_then (op_param P ''s3'' ''UploadPart'' params ''part_number'' ''int'' (i32_from_py P)) (\<lambda>part_number.
     and_then (op_param P ''s3'' ''UploadPart'' params ''upload_id'' ''str'' (string_from_py P)) (\<lambda>upload_id.
     Inr (checksum_xxhash64, checksum_xxhash3, checksum_xxhash128, key, part_number, upload_id)))))))"

definition upload_part_params_4 :: "pyo3 \<Rightarrow> s3_types \<Rightarrow> pydict \<Rightarrow>
    (string option \<times> string option \<times> string option \<times> string option \<times> string option) pyresult" where
  "upload_part_params_4 P S params =
     and_then (op_param P ''s3'' ''UploadPart'' params ''sse_customer_algorithm'' ''str'' (string_from_py P)) (\<lambda>sse_customer_algorithm.
     and_then (op_param P ''s3'' ''UploadPart'' params ''sse_customer_key'' ''str'' (string_from_py P)) (\<lambda>sse_customer_key.
     and_then (op_param P ''s3'' ''UploadPart'' params ''sse_customer_key_md5'' ''str'' (string_from_py P)) (\<lambda>sse_customer_key_md5.
     and_then (op_param P ''s3'' ''UploadPart'' params ''request_payer'' ''str (RequestPayer)'' (enum_from_py P)) (\<lambda>request_payer.
     and_then (op_param P ''s3'' ''UploadPart'' params ''expected_bucket_owner'' ''str'' (string_from_py P)) (\<lambda>expected_bucket_owner.
     Inr (sse_customer_algorithm, sse_customer_key, sse_customer_key_md5, request_payer, expected_bucket_owner))))))"

definition upload_part_params :: "pyo3 \<Rightarrow> s3_types \<Rightarrow> (pyval \<Rightarrow> bool pyresult) \<Rightarrow> (pyval \<Rightarrow> 'b pyresult) \<Rightarrow> pydict \<Rightarrow>
    'b upload_part_input pyresult" where
  "upload_part_params P S has_aiter aiter params =
     and_then (upload_part_params_1 P S has_aiter aiter params) (\<lambda>(body, bucket, content_length, content_md5, checksum_algorithm, checksum_crc32).
     and_then (upload_part_params_2 P S params) (\<lambda>(checksum_crc32_c, checksum_crc64_nvme, checksum_sha1, checksum_sha256, checksum_sha512, checksum_md5).
     and_then (upload_part_params_3 P S params) (\<lambda>(checksum_xxhash64, checksum_xxhash3, checksum_xxhash128, key, part_number, upload_id).
     and_then (upload_part_params_4 P S params) (\<lambda>(sse_customer_algorithm, sse_customer_key, sse_customer_key_md5, request_payer, expected_bucket_owner).
     Inr \<lparr>kupi_body = body,
       kupi_bucket = bucket,
       kupi_content_length = content_length,
       kupi_content_md5 = content_md5,
       kupi_checksum_algorithm = checksum_algorithm,
       kupi_checksum_crc32 = checksum_crc32,
       kupi_checksum_crc32_c = checksum_crc32_c,
       kupi_checksum_crc64_nvme = checksum_crc64_nvme,
       kupi_checksum_sha1 = checksum_sha1,
       kupi_checksum_sha256 = checksum_sha256,
       kupi_checksum_sha512 = checksum_sha512,
       kupi_checksum_md5 = checksum_md5,
       kupi_checksum_xxhash64 = checksum_xxhash64,
       kupi_checksum_xxhash3 = checksum_xxhash3,
       kupi_checksum_xxhash128 = checksum_xxhash128,
       kupi_key = key,
       kupi_part_number = part_number,
       kupi_upload_id = upload_id,
       kupi_sse_customer_algorithm = sse_customer_algorithm,
       kupi_sse_customer_key = sse_customer_key,
       kupi_sse_customer_key_md5 = sse_customer_key_md5,
       kupi_request_payer = request_payer,
       kupi_expected_bucket_owner = expected_bucket_owner\<rparr>))))"

definition upload_part :: "('cfg, 'client) service_env \<Rightarrow> pyo3 \<Rightarrow> s3_types \<Rightarrow> (pyval \<Rightarrow> bool pyresult) \<Rightarrow> (pyval \<Rightarrow> 'b pyresult) \<Rightarrow> unit pyresult \<Rightarrow> bool \<Rightarrow>
    ('client \<Rightarrow> 'b upload_part_input \<Rightarrow> trip list \<times> (('e, http_response) sdk_error + upload_part_output)) \<Rightarrow>
    'client client_handle \<Rightarrow> pydict \<Rightarrow> pydict option \<Rightarrow>
    (upload_part_output pyresult \<times> 'client client_handle \<times> pydict option) option" where
  "upload_part E P S has_aiter aiter bridge interrupted send c params observation =
     execute E bridge interrupted send no_details
       ''UploadPart'' (upload_part_params P S has_aiter aiter params) c observation"

definition upload_part_call :: "'b upload_part_input \<Rightarrow> pyval \<Rightarrow> pydict" where
  "upload_part_call i body = py_params
     [(''bucket'', opt_to_py PyStr (kupi_bucket i)),
      (''key'', opt_to_py PyStr (kupi_key i)),
      (''part_number'', opt_to_py i32_to_py (kupi_part_number i)),
      (''upload_id'', opt_to_py PyStr (kupi_upload_id i))]
     [(''body'', body),
      (''content_length'', opt_to_py i64_to_py (kupi_content_length i)),
      (''content_md5'', opt_to_py PyStr (kupi_content_md5 i)),
      (''checksum_algorithm'', opt_to_py PyStr (kupi_checksum_algorithm i)),
      (''checksum_crc32'', opt_to_py PyStr (kupi_checksum_crc32 i)),
      (''checksum_crc32_c'', opt_to_py PyStr (kupi_checksum_crc32_c i)),
      (''checksum_crc64_nvme'', opt_to_py PyStr (kupi_checksum_crc64_nvme i)),
      (''checksum_sha1'', opt_to_py PyStr (kupi_checksum_sha1 i)),
      (''checksum_sha256'', opt_to_py PyStr (kupi_checksum_sha256 i)),
      (''checksum_sha512'', opt_to_py PyStr (kupi_checksum_sha512 i)),
      (''checksum_md5'', opt_to_py PyStr (kupi_checksum_md5 i)),
      (''checksum_xxhash64'', opt_to_py PyStr (kupi_checksum_xxhash64 i)),
      (''checksum_xxhash3'', opt_to_py PyStr (kupi_checksum_xxhash3 i)),
      (''checksum_xxhash128'', opt_to_py PyStr (kupi_checksum_xxhash128 i)),
      (''sse_customer_algorithm'', opt_to_py PyStr (kupi_sse_customer_algorithm i)),
      (''sse_customer_key'', opt_to_py PyStr (kupi_sse_customer_key i)),
      (''sse_customer_key_md5'', opt_to_py PyStr (kupi_sse_customer_key_md5 i)),
      (''request_payer'', opt_to_py PyStr (kupi_request_payer i)),
      (''expected_bucket_owner'', opt_to_py PyStr (kupi_expected_bucket_owner i))]"

section \<open>Parameters arrive\<close>

context s3_conversions
begin

lemma abort_multipart_upload_delivered:
  assumes dates: "dates_ok S [kamui_if_match_initiated_time i]"
  shows "abort_multipart_upload_params P S (abort_multipart_upload_call S i) = Inr i"
proof -
  have s: "str_keys (abort_multipart_upload_call S i)" by (simp add: abort_multipart_upload_call_def)
  note p = arguments [OF abort_multipart_upload_call_def [of S i], simplified]
  have a: "argument (abort_multipart_upload_call S i) ''bucket'' = opt_to_py PyStr (kamui_bucket i)"
    "argument (abort_multipart_upload_call S i) ''key'' = opt_to_py PyStr (kamui_key i)"
    "argument (abort_multipart_upload_call S i) ''upload_id'' = opt_to_py PyStr (kamui_upload_id i)"
    "argument (abort_multipart_upload_call S i) ''request_payer'' = opt_to_py PyStr (kamui_request_payer i)"
    "argument (abort_multipart_upload_call S i) ''expected_bucket_owner'' = opt_to_py PyStr (kamui_expected_bucket_owner i)"
    "argument (abort_multipart_upload_call S i) ''if_match_initiated_time'' = opt_to_py (datetime_to_py S) (kamui_if_match_initiated_time i)"
    by (simp_all only: p)
  show ?thesis
    unfolding abort_multipart_upload_params_def
    by (simp add: param_reads [OF reads_str s a(1)]
        param_reads [OF reads_str s a(2)]
        param_reads [OF reads_str s a(3)]
        param_reads [OF reads_enum s a(4)]
        param_reads [OF reads_str s a(5)]
        date_param [OF dates _ s a(6)])
qed

lemma complete_multipart_upload_delivered: "complete_multipart_upload_params P S (complete_multipart_upload_call i) = Inr i"
proof -
  have s: "str_keys (complete_multipart_upload_call i)" by (simp add: complete_multipart_upload_call_def)
  note p = arguments [OF complete_multipart_upload_call_def [of i], simplified]
  have a: "argument (complete_multipart_upload_call i) ''bucket'' = opt_to_py PyStr (kcmui_bucket i)"
    "argument (complete_multipart_upload_call i) ''key'' = opt_to_py PyStr (kcmui_key i)"
    "argument (complete_multipart_upload_call i) ''multipart_upload'' = opt_to_py completed_multipart_upload_to_py (kcmui_multipart_upload i)"
    "argument (complete_multipart_upload_call i) ''upload_id'' = opt_to_py PyStr (kcmui_upload_id i)"
    "argument (complete_multipart_upload_call i) ''checksum_crc32'' = opt_to_py PyStr (kcmui_checksum_crc32 i)"
    "argument (complete_multipart_upload_call i) ''checksum_crc32_c'' = opt_to_py PyStr (kcmui_checksum_crc32_c i)"
    "argument (complete_multipart_upload_call i) ''checksum_crc64_nvme'' = opt_to_py PyStr (kcmui_checksum_crc64_nvme i)"
    "argument (complete_multipart_upload_call i) ''checksum_sha1'' = opt_to_py PyStr (kcmui_checksum_sha1 i)"
    "argument (complete_multipart_upload_call i) ''checksum_sha256'' = opt_to_py PyStr (kcmui_checksum_sha256 i)"
    "argument (complete_multipart_upload_call i) ''checksum_sha512'' = opt_to_py PyStr (kcmui_checksum_sha512 i)"
    "argument (complete_multipart_upload_call i) ''checksum_md5'' = opt_to_py PyStr (kcmui_checksum_md5 i)"
    "argument (complete_multipart_upload_call i) ''checksum_xxhash64'' = opt_to_py PyStr (kcmui_checksum_xxhash64 i)"
    "argument (complete_multipart_upload_call i) ''checksum_xxhash3'' = opt_to_py PyStr (kcmui_checksum_xxhash3 i)"
    "argument (complete_multipart_upload_call i) ''checksum_xxhash128'' = opt_to_py PyStr (kcmui_checksum_xxhash128 i)"
    "argument (complete_multipart_upload_call i) ''checksum_type'' = opt_to_py PyStr (kcmui_checksum_type i)"
    "argument (complete_multipart_upload_call i) ''mpu_object_size'' = opt_to_py i64_to_py (kcmui_mpu_object_size i)"
    "argument (complete_multipart_upload_call i) ''request_payer'' = opt_to_py PyStr (kcmui_request_payer i)"
    "argument (complete_multipart_upload_call i) ''expected_bucket_owner'' = opt_to_py PyStr (kcmui_expected_bucket_owner i)"
    "argument (complete_multipart_upload_call i) ''if_match'' = opt_to_py PyStr (kcmui_if_match i)"
    "argument (complete_multipart_upload_call i) ''if_none_match'' = opt_to_py PyStr (kcmui_if_none_match i)"
    "argument (complete_multipart_upload_call i) ''sse_customer_algorithm'' = opt_to_py PyStr (kcmui_sse_customer_algorithm i)"
    "argument (complete_multipart_upload_call i) ''sse_customer_key'' = opt_to_py PyStr (kcmui_sse_customer_key i)"
    "argument (complete_multipart_upload_call i) ''sse_customer_key_md5'' = opt_to_py PyStr (kcmui_sse_customer_key_md5 i)"
    by (simp_all only: p)
  show ?thesis
    unfolding complete_multipart_upload_params_def complete_multipart_upload_params_1_def complete_multipart_upload_params_2_def complete_multipart_upload_params_3_def complete_multipart_upload_params_4_def
    by (simp add: param_reads [OF reads_str s a(1)]
        param_reads [OF reads_str s a(2)]
        param_reads [OF completed_multipart_upload_reads s a(3)]
        param_reads [OF reads_str s a(4)]
        param_reads [OF reads_str s a(5)]
        param_reads [OF reads_str s a(6)]
        param_reads [OF reads_str s a(7)]
        param_reads [OF reads_str s a(8)]
        param_reads [OF reads_str s a(9)]
        param_reads [OF reads_str s a(10)]
        param_reads [OF reads_str s a(11)]
        param_reads [OF reads_str s a(12)]
        param_reads [OF reads_str s a(13)]
        param_reads [OF reads_str s a(14)]
        param_reads [OF reads_enum s a(15)]
        param_reads [OF reads_i64 s a(16)]
        param_reads [OF reads_enum s a(17)]
        param_reads [OF reads_str s a(18)]
        param_reads [OF reads_str s a(19)]
        param_reads [OF reads_str s a(20)]
        param_reads [OF reads_str s a(21)]
        param_reads [OF reads_str s a(22)]
        param_reads [OF reads_str s a(23)])
qed

lemma copy_object_delivered:
  assumes dates: "dates_ok S [kcoi_copy_source_if_modified_since i, kcoi_copy_source_if_unmodified_since i, kcoi_expires i, kcoi_object_lock_retain_until_date i]"
  shows "copy_object_params P S (copy_object_call order S i) = Inr i"
proof -
  have s: "str_keys (copy_object_call order S i)" by (simp add: copy_object_call_def)
  note p = arguments [OF copy_object_call_def [of order S i], simplified]
  have a: "argument (copy_object_call order S i) ''acl'' = opt_to_py PyStr (kcoi_acl i)"
    "argument (copy_object_call order S i) ''bucket'' = opt_to_py PyStr (kcoi_bucket i)"
    "argument (copy_object_call order S i) ''cache_control'' = opt_to_py PyStr (kcoi_cache_control i)"
    "argument (copy_object_call order S i) ''checksum_algorithm'' = opt_to_py PyStr (kcoi_checksum_algorithm i)"
    "argument (copy_object_call order S i) ''content_disposition'' = opt_to_py PyStr (kcoi_content_disposition i)"
    "argument (copy_object_call order S i) ''content_encoding'' = opt_to_py PyStr (kcoi_content_encoding i)"
    "argument (copy_object_call order S i) ''content_language'' = opt_to_py PyStr (kcoi_content_language i)"
    "argument (copy_object_call order S i) ''content_type'' = opt_to_py PyStr (kcoi_content_type i)"
    "argument (copy_object_call order S i) ''copy_source'' = opt_to_py PyStr (kcoi_copy_source i)"
    "argument (copy_object_call order S i) ''copy_source_if_match'' = opt_to_py PyStr (kcoi_copy_source_if_match i)"
    "argument (copy_object_call order S i) ''copy_source_if_modified_since'' = opt_to_py (datetime_to_py S) (kcoi_copy_source_if_modified_since i)"
    "argument (copy_object_call order S i) ''copy_source_if_none_match'' = opt_to_py PyStr (kcoi_copy_source_if_none_match i)"
    "argument (copy_object_call order S i) ''copy_source_if_unmodified_since'' = opt_to_py (datetime_to_py S) (kcoi_copy_source_if_unmodified_since i)"
    "argument (copy_object_call order S i) ''expires'' = opt_to_py (datetime_to_py S) (kcoi_expires i)"
    "argument (copy_object_call order S i) ''grant_full_control'' = opt_to_py PyStr (kcoi_grant_full_control i)"
    "argument (copy_object_call order S i) ''grant_read'' = opt_to_py PyStr (kcoi_grant_read i)"
    "argument (copy_object_call order S i) ''grant_read_acp'' = opt_to_py PyStr (kcoi_grant_read_acp i)"
    "argument (copy_object_call order S i) ''grant_write_acp'' = opt_to_py PyStr (kcoi_grant_write_acp i)"
    "argument (copy_object_call order S i) ''if_match'' = opt_to_py PyStr (kcoi_if_match i)"
    "argument (copy_object_call order S i) ''if_none_match'' = opt_to_py PyStr (kcoi_if_none_match i)"
    "argument (copy_object_call order S i) ''key'' = opt_to_py PyStr (kcoi_key i)"
    "argument (copy_object_call order S i) ''metadata'' = opt_to_py (mapping_to_py order PyStr) (kcoi_metadata i)"
    "argument (copy_object_call order S i) ''metadata_directive'' = opt_to_py PyStr (kcoi_metadata_directive i)"
    "argument (copy_object_call order S i) ''tagging_directive'' = opt_to_py PyStr (kcoi_tagging_directive i)"
    "argument (copy_object_call order S i) ''annotation_directive'' = opt_to_py PyStr (kcoi_annotation_directive i)"
    "argument (copy_object_call order S i) ''server_side_encryption'' = opt_to_py PyStr (kcoi_server_side_encryption i)"
    "argument (copy_object_call order S i) ''storage_class'' = opt_to_py PyStr (kcoi_storage_class i)"
    "argument (copy_object_call order S i) ''website_redirect_location'' = opt_to_py PyStr (kcoi_website_redirect_location i)"
    "argument (copy_object_call order S i) ''sse_customer_algorithm'' = opt_to_py PyStr (kcoi_sse_customer_algorithm i)"
    "argument (copy_object_call order S i) ''sse_customer_key'' = opt_to_py PyStr (kcoi_sse_customer_key i)"
    "argument (copy_object_call order S i) ''sse_customer_key_md5'' = opt_to_py PyStr (kcoi_sse_customer_key_md5 i)"
    "argument (copy_object_call order S i) ''ssekms_key_id'' = opt_to_py PyStr (kcoi_ssekms_key_id i)"
    "argument (copy_object_call order S i) ''ssekms_encryption_context'' = opt_to_py PyStr (kcoi_ssekms_encryption_context i)"
    "argument (copy_object_call order S i) ''bucket_key_enabled'' = opt_to_py PyBool (kcoi_bucket_key_enabled i)"
    "argument (copy_object_call order S i) ''copy_source_sse_customer_algorithm'' = opt_to_py PyStr (kcoi_copy_source_sse_customer_algorithm i)"
    "argument (copy_object_call order S i) ''copy_source_sse_customer_key'' = opt_to_py PyStr (kcoi_copy_source_sse_customer_key i)"
    "argument (copy_object_call order S i) ''copy_source_sse_customer_key_md5'' = opt_to_py PyStr (kcoi_copy_source_sse_customer_key_md5 i)"
    "argument (copy_object_call order S i) ''request_payer'' = opt_to_py PyStr (kcoi_request_payer i)"
    "argument (copy_object_call order S i) ''tagging'' = opt_to_py PyStr (kcoi_tagging i)"
    "argument (copy_object_call order S i) ''object_lock_mode'' = opt_to_py PyStr (kcoi_object_lock_mode i)"
    "argument (copy_object_call order S i) ''object_lock_retain_until_date'' = opt_to_py (datetime_to_py S) (kcoi_object_lock_retain_until_date i)"
    "argument (copy_object_call order S i) ''object_lock_legal_hold_status'' = opt_to_py PyStr (kcoi_object_lock_legal_hold_status i)"
    "argument (copy_object_call order S i) ''object_lock_event_hold'' = opt_to_py PyStr (kcoi_object_lock_event_hold i)"
    "argument (copy_object_call order S i) ''object_lock_event_hold_duration_days'' = opt_to_py i32_to_py (kcoi_object_lock_event_hold_duration_days i)"
    "argument (copy_object_call order S i) ''object_lock_event_hold_duration_years'' = opt_to_py i32_to_py (kcoi_object_lock_event_hold_duration_years i)"
    "argument (copy_object_call order S i) ''expected_bucket_owner'' = opt_to_py PyStr (kcoi_expected_bucket_owner i)"
    "argument (copy_object_call order S i) ''expected_source_bucket_owner'' = opt_to_py PyStr (kcoi_expected_source_bucket_owner i)"
    by (simp_all only: p)
  show ?thesis
    unfolding copy_object_params_def copy_object_params_1_def copy_object_params_2_def copy_object_params_3_def copy_object_params_4_def copy_object_params_5_def copy_object_params_6_def copy_object_params_7_def
    by (simp add: param_reads [OF reads_enum s a(1)]
        param_reads [OF reads_str s a(2)]
        param_reads [OF reads_str s a(3)]
        param_reads [OF reads_enum s a(4)]
        param_reads [OF reads_str s a(5)]
        param_reads [OF reads_str s a(6)]
        param_reads [OF reads_str s a(7)]
        param_reads [OF reads_str s a(8)]
        param_reads [OF reads_str s a(9)]
        param_reads [OF reads_str s a(10)]
        date_param [OF dates _ s a(11)]
        param_reads [OF reads_str s a(12)]
        date_param [OF dates _ s a(13)]
        date_param [OF dates _ s a(14)]
        param_reads [OF reads_str s a(15)]
        param_reads [OF reads_str s a(16)]
        param_reads [OF reads_str s a(17)]
        param_reads [OF reads_str s a(18)]
        param_reads [OF reads_str s a(19)]
        param_reads [OF reads_str s a(20)]
        param_reads [OF reads_str s a(21)]
        param_reads [OF reads_map [OF order reads_str] s a(22)]
        param_reads [OF reads_enum s a(23)]
        param_reads [OF reads_enum s a(24)]
        param_reads [OF reads_enum s a(25)]
        param_reads [OF reads_enum s a(26)]
        param_reads [OF reads_enum s a(27)]
        param_reads [OF reads_str s a(28)]
        param_reads [OF reads_str s a(29)]
        param_reads [OF reads_str s a(30)]
        param_reads [OF reads_str s a(31)]
        param_reads [OF reads_str s a(32)]
        param_reads [OF reads_str s a(33)]
        param_reads [OF reads_bool s a(34)]
        param_reads [OF reads_str s a(35)]
        param_reads [OF reads_str s a(36)]
        param_reads [OF reads_str s a(37)]
        param_reads [OF reads_enum s a(38)]
        param_reads [OF reads_str s a(39)]
        param_reads [OF reads_enum s a(40)]
        date_param [OF dates _ s a(41)]
        param_reads [OF reads_enum s a(42)]
        param_reads [OF reads_enum s a(43)]
        param_reads [OF reads_i32 s a(44)]
        param_reads [OF reads_i32 s a(45)]
        param_reads [OF reads_str s a(46)]
        param_reads [OF reads_str s a(47)])
qed

lemma create_multipart_upload_delivered:
  assumes dates: "dates_ok S [kcmui2_expires i, kcmui2_object_lock_retain_until_date i]"
  shows "create_multipart_upload_params P S (create_multipart_upload_call order S i) = Inr i"
proof -
  have s: "str_keys (create_multipart_upload_call order S i)" by (simp add: create_multipart_upload_call_def)
  note p = arguments [OF create_multipart_upload_call_def [of order S i], simplified]
  have a: "argument (create_multipart_upload_call order S i) ''acl'' = opt_to_py PyStr (kcmui2_acl i)"
    "argument (create_multipart_upload_call order S i) ''bucket'' = opt_to_py PyStr (kcmui2_bucket i)"
    "argument (create_multipart_upload_call order S i) ''cache_control'' = opt_to_py PyStr (kcmui2_cache_control i)"
    "argument (create_multipart_upload_call order S i) ''content_disposition'' = opt_to_py PyStr (kcmui2_content_disposition i)"
    "argument (create_multipart_upload_call order S i) ''content_encoding'' = opt_to_py PyStr (kcmui2_content_encoding i)"
    "argument (create_multipart_upload_call order S i) ''content_language'' = opt_to_py PyStr (kcmui2_content_language i)"
    "argument (create_multipart_upload_call order S i) ''content_type'' = opt_to_py PyStr (kcmui2_content_type i)"
    "argument (create_multipart_upload_call order S i) ''expires'' = opt_to_py (datetime_to_py S) (kcmui2_expires i)"
    "argument (create_multipart_upload_call order S i) ''grant_full_control'' = opt_to_py PyStr (kcmui2_grant_full_control i)"
    "argument (create_multipart_upload_call order S i) ''grant_read'' = opt_to_py PyStr (kcmui2_grant_read i)"
    "argument (create_multipart_upload_call order S i) ''grant_read_acp'' = opt_to_py PyStr (kcmui2_grant_read_acp i)"
    "argument (create_multipart_upload_call order S i) ''grant_write_acp'' = opt_to_py PyStr (kcmui2_grant_write_acp i)"
    "argument (create_multipart_upload_call order S i) ''key'' = opt_to_py PyStr (kcmui2_key i)"
    "argument (create_multipart_upload_call order S i) ''metadata'' = opt_to_py (mapping_to_py order PyStr) (kcmui2_metadata i)"
    "argument (create_multipart_upload_call order S i) ''server_side_encryption'' = opt_to_py PyStr (kcmui2_server_side_encryption i)"
    "argument (create_multipart_upload_call order S i) ''storage_class'' = opt_to_py PyStr (kcmui2_storage_class i)"
    "argument (create_multipart_upload_call order S i) ''website_redirect_location'' = opt_to_py PyStr (kcmui2_website_redirect_location i)"
    "argument (create_multipart_upload_call order S i) ''sse_customer_algorithm'' = opt_to_py PyStr (kcmui2_sse_customer_algorithm i)"
    "argument (create_multipart_upload_call order S i) ''sse_customer_key'' = opt_to_py PyStr (kcmui2_sse_customer_key i)"
    "argument (create_multipart_upload_call order S i) ''sse_customer_key_md5'' = opt_to_py PyStr (kcmui2_sse_customer_key_md5 i)"
    "argument (create_multipart_upload_call order S i) ''ssekms_key_id'' = opt_to_py PyStr (kcmui2_ssekms_key_id i)"
    "argument (create_multipart_upload_call order S i) ''ssekms_encryption_context'' = opt_to_py PyStr (kcmui2_ssekms_encryption_context i)"
    "argument (create_multipart_upload_call order S i) ''bucket_key_enabled'' = opt_to_py PyBool (kcmui2_bucket_key_enabled i)"
    "argument (create_multipart_upload_call order S i) ''request_payer'' = opt_to_py PyStr (kcmui2_request_payer i)"
    "argument (create_multipart_upload_call order S i) ''tagging'' = opt_to_py PyStr (kcmui2_tagging i)"
    "argument (create_multipart_upload_call order S i) ''object_lock_mode'' = opt_to_py PyStr (kcmui2_object_lock_mode i)"
    "argument (create_multipart_upload_call order S i) ''object_lock_retain_until_date'' = opt_to_py (datetime_to_py S) (kcmui2_object_lock_retain_until_date i)"
    "argument (create_multipart_upload_call order S i) ''object_lock_legal_hold_status'' = opt_to_py PyStr (kcmui2_object_lock_legal_hold_status i)"
    "argument (create_multipart_upload_call order S i) ''object_lock_event_hold'' = opt_to_py PyStr (kcmui2_object_lock_event_hold i)"
    "argument (create_multipart_upload_call order S i) ''object_lock_event_hold_duration_days'' = opt_to_py i32_to_py (kcmui2_object_lock_event_hold_duration_days i)"
    "argument (create_multipart_upload_call order S i) ''object_lock_event_hold_duration_years'' = opt_to_py i32_to_py (kcmui2_object_lock_event_hold_duration_years i)"
    "argument (create_multipart_upload_call order S i) ''expected_bucket_owner'' = opt_to_py PyStr (kcmui2_expected_bucket_owner i)"
    "argument (create_multipart_upload_call order S i) ''checksum_algorithm'' = opt_to_py PyStr (kcmui2_checksum_algorithm i)"
    "argument (create_multipart_upload_call order S i) ''checksum_type'' = opt_to_py PyStr (kcmui2_checksum_type i)"
    by (simp_all only: p)
  show ?thesis
    unfolding create_multipart_upload_params_def create_multipart_upload_params_1_def create_multipart_upload_params_2_def create_multipart_upload_params_3_def create_multipart_upload_params_4_def create_multipart_upload_params_5_def create_multipart_upload_params_6_def
    by (simp add: param_reads [OF reads_enum s a(1)]
        param_reads [OF reads_str s a(2)]
        param_reads [OF reads_str s a(3)]
        param_reads [OF reads_str s a(4)]
        param_reads [OF reads_str s a(5)]
        param_reads [OF reads_str s a(6)]
        param_reads [OF reads_str s a(7)]
        date_param [OF dates _ s a(8)]
        param_reads [OF reads_str s a(9)]
        param_reads [OF reads_str s a(10)]
        param_reads [OF reads_str s a(11)]
        param_reads [OF reads_str s a(12)]
        param_reads [OF reads_str s a(13)]
        param_reads [OF reads_map [OF order reads_str] s a(14)]
        param_reads [OF reads_enum s a(15)]
        param_reads [OF reads_enum s a(16)]
        param_reads [OF reads_str s a(17)]
        param_reads [OF reads_str s a(18)]
        param_reads [OF reads_str s a(19)]
        param_reads [OF reads_str s a(20)]
        param_reads [OF reads_str s a(21)]
        param_reads [OF reads_str s a(22)]
        param_reads [OF reads_bool s a(23)]
        param_reads [OF reads_enum s a(24)]
        param_reads [OF reads_str s a(25)]
        param_reads [OF reads_enum s a(26)]
        date_param [OF dates _ s a(27)]
        param_reads [OF reads_enum s a(28)]
        param_reads [OF reads_enum s a(29)]
        param_reads [OF reads_i32 s a(30)]
        param_reads [OF reads_i32 s a(31)]
        param_reads [OF reads_str s a(32)]
        param_reads [OF reads_enum s a(33)]
        param_reads [OF reads_enum s a(34)])
qed

lemma delete_object_delivered:
  assumes dates: "dates_ok S [kdoi_if_match_last_modified_time i]"
  shows "delete_object_params P S (delete_object_call S i) = Inr i"
proof -
  have s: "str_keys (delete_object_call S i)" by (simp add: delete_object_call_def)
  note p = arguments [OF delete_object_call_def [of S i], simplified]
  have a: "argument (delete_object_call S i) ''bucket'' = opt_to_py PyStr (kdoi_bucket i)"
    "argument (delete_object_call S i) ''key'' = opt_to_py PyStr (kdoi_key i)"
    "argument (delete_object_call S i) ''mfa'' = opt_to_py PyStr (kdoi_mfa i)"
    "argument (delete_object_call S i) ''version_id'' = opt_to_py PyStr (kdoi_version_id i)"
    "argument (delete_object_call S i) ''request_payer'' = opt_to_py PyStr (kdoi_request_payer i)"
    "argument (delete_object_call S i) ''bypass_governance_retention'' = opt_to_py PyBool (kdoi_bypass_governance_retention i)"
    "argument (delete_object_call S i) ''expected_bucket_owner'' = opt_to_py PyStr (kdoi_expected_bucket_owner i)"
    "argument (delete_object_call S i) ''if_match'' = opt_to_py PyStr (kdoi_if_match i)"
    "argument (delete_object_call S i) ''if_match_last_modified_time'' = opt_to_py (datetime_to_py S) (kdoi_if_match_last_modified_time i)"
    "argument (delete_object_call S i) ''if_match_size'' = opt_to_py i64_to_py (kdoi_if_match_size i)"
    by (simp_all only: p)
  show ?thesis
    unfolding delete_object_params_def delete_object_params_1_def delete_object_params_2_def
    by (simp add: param_reads [OF reads_str s a(1)]
        param_reads [OF reads_str s a(2)]
        param_reads [OF reads_str s a(3)]
        param_reads [OF reads_str s a(4)]
        param_reads [OF reads_enum s a(5)]
        param_reads [OF reads_bool s a(6)]
        param_reads [OF reads_str s a(7)]
        param_reads [OF reads_str s a(8)]
        date_param [OF dates _ s a(9)]
        param_reads [OF reads_i64 s a(10)])
qed

lemma get_object_delivered:
  assumes dates: "dates_ok S [kgoi_if_modified_since i, kgoi_if_unmodified_since i, kgoi_response_expires i]"
  shows "get_object_params P S (get_object_call S i) = Inr i"
proof -
  have s: "str_keys (get_object_call S i)" by (simp add: get_object_call_def)
  note p = arguments [OF get_object_call_def [of S i], simplified]
  have a: "argument (get_object_call S i) ''bucket'' = opt_to_py PyStr (kgoi_bucket i)"
    "argument (get_object_call S i) ''if_match'' = opt_to_py PyStr (kgoi_if_match i)"
    "argument (get_object_call S i) ''if_modified_since'' = opt_to_py (datetime_to_py S) (kgoi_if_modified_since i)"
    "argument (get_object_call S i) ''if_none_match'' = opt_to_py PyStr (kgoi_if_none_match i)"
    "argument (get_object_call S i) ''if_unmodified_since'' = opt_to_py (datetime_to_py S) (kgoi_if_unmodified_since i)"
    "argument (get_object_call S i) ''key'' = opt_to_py PyStr (kgoi_key i)"
    "argument (get_object_call S i) ''range'' = opt_to_py PyStr (kgoi_range i)"
    "argument (get_object_call S i) ''response_cache_control'' = opt_to_py PyStr (kgoi_response_cache_control i)"
    "argument (get_object_call S i) ''response_content_disposition'' = opt_to_py PyStr (kgoi_response_content_disposition i)"
    "argument (get_object_call S i) ''response_content_encoding'' = opt_to_py PyStr (kgoi_response_content_encoding i)"
    "argument (get_object_call S i) ''response_content_language'' = opt_to_py PyStr (kgoi_response_content_language i)"
    "argument (get_object_call S i) ''response_content_type'' = opt_to_py PyStr (kgoi_response_content_type i)"
    "argument (get_object_call S i) ''response_expires'' = opt_to_py (datetime_to_py S) (kgoi_response_expires i)"
    "argument (get_object_call S i) ''version_id'' = opt_to_py PyStr (kgoi_version_id i)"
    "argument (get_object_call S i) ''sse_customer_algorithm'' = opt_to_py PyStr (kgoi_sse_customer_algorithm i)"
    "argument (get_object_call S i) ''sse_customer_key'' = opt_to_py PyStr (kgoi_sse_customer_key i)"
    "argument (get_object_call S i) ''sse_customer_key_md5'' = opt_to_py PyStr (kgoi_sse_customer_key_md5 i)"
    "argument (get_object_call S i) ''request_payer'' = opt_to_py PyStr (kgoi_request_payer i)"
    "argument (get_object_call S i) ''part_number'' = opt_to_py i32_to_py (kgoi_part_number i)"
    "argument (get_object_call S i) ''expected_bucket_owner'' = opt_to_py PyStr (kgoi_expected_bucket_owner i)"
    "argument (get_object_call S i) ''checksum_mode'' = opt_to_py PyStr (kgoi_checksum_mode i)"
    by (simp_all only: p)
  show ?thesis
    unfolding get_object_params_def get_object_params_1_def get_object_params_2_def get_object_params_3_def
    by (simp add: param_reads [OF reads_str s a(1)]
        param_reads [OF reads_str s a(2)]
        date_param [OF dates _ s a(3)]
        param_reads [OF reads_str s a(4)]
        date_param [OF dates _ s a(5)]
        param_reads [OF reads_str s a(6)]
        param_reads [OF reads_str s a(7)]
        param_reads [OF reads_str s a(8)]
        param_reads [OF reads_str s a(9)]
        param_reads [OF reads_str s a(10)]
        param_reads [OF reads_str s a(11)]
        param_reads [OF reads_str s a(12)]
        date_param [OF dates _ s a(13)]
        param_reads [OF reads_str s a(14)]
        param_reads [OF reads_str s a(15)]
        param_reads [OF reads_str s a(16)]
        param_reads [OF reads_str s a(17)]
        param_reads [OF reads_enum s a(18)]
        param_reads [OF reads_i32 s a(19)]
        param_reads [OF reads_str s a(20)]
        param_reads [OF reads_enum s a(21)])
qed

lemma head_bucket_delivered: "head_bucket_params P S (head_bucket_call i) = Inr i"
proof -
  have s: "str_keys (head_bucket_call i)" by (simp add: head_bucket_call_def)
  have a: "argument (head_bucket_call i) ''bucket'' = opt_to_py PyStr (khbi_bucket i)"
    "argument (head_bucket_call i) ''expected_bucket_owner'' = opt_to_py PyStr (khbi_expected_bucket_owner i)"
    unfolding head_bucket_call_def by (simp_all add: argument_py_params)
  show ?thesis
    unfolding head_bucket_params_def
    by (simp add: param_reads [OF reads_str s a(1)]
        param_reads [OF reads_str s a(2)])
qed

lemma head_object_delivered:
  assumes dates: "dates_ok S [khoi_if_modified_since i, khoi_if_unmodified_since i, khoi_response_expires i]"
  shows "head_object_params P S (head_object_call S i) = Inr i"
proof -
  have s: "str_keys (head_object_call S i)" by (simp add: head_object_call_def)
  note p = arguments [OF head_object_call_def [of S i], simplified]
  have a: "argument (head_object_call S i) ''bucket'' = opt_to_py PyStr (khoi_bucket i)"
    "argument (head_object_call S i) ''if_match'' = opt_to_py PyStr (khoi_if_match i)"
    "argument (head_object_call S i) ''if_modified_since'' = opt_to_py (datetime_to_py S) (khoi_if_modified_since i)"
    "argument (head_object_call S i) ''if_none_match'' = opt_to_py PyStr (khoi_if_none_match i)"
    "argument (head_object_call S i) ''if_unmodified_since'' = opt_to_py (datetime_to_py S) (khoi_if_unmodified_since i)"
    "argument (head_object_call S i) ''key'' = opt_to_py PyStr (khoi_key i)"
    "argument (head_object_call S i) ''range'' = opt_to_py PyStr (khoi_range i)"
    "argument (head_object_call S i) ''response_cache_control'' = opt_to_py PyStr (khoi_response_cache_control i)"
    "argument (head_object_call S i) ''response_content_disposition'' = opt_to_py PyStr (khoi_response_content_disposition i)"
    "argument (head_object_call S i) ''response_content_encoding'' = opt_to_py PyStr (khoi_response_content_encoding i)"
    "argument (head_object_call S i) ''response_content_language'' = opt_to_py PyStr (khoi_response_content_language i)"
    "argument (head_object_call S i) ''response_content_type'' = opt_to_py PyStr (khoi_response_content_type i)"
    "argument (head_object_call S i) ''response_expires'' = opt_to_py (datetime_to_py S) (khoi_response_expires i)"
    "argument (head_object_call S i) ''version_id'' = opt_to_py PyStr (khoi_version_id i)"
    "argument (head_object_call S i) ''sse_customer_algorithm'' = opt_to_py PyStr (khoi_sse_customer_algorithm i)"
    "argument (head_object_call S i) ''sse_customer_key'' = opt_to_py PyStr (khoi_sse_customer_key i)"
    "argument (head_object_call S i) ''sse_customer_key_md5'' = opt_to_py PyStr (khoi_sse_customer_key_md5 i)"
    "argument (head_object_call S i) ''request_payer'' = opt_to_py PyStr (khoi_request_payer i)"
    "argument (head_object_call S i) ''part_number'' = opt_to_py i32_to_py (khoi_part_number i)"
    "argument (head_object_call S i) ''expected_bucket_owner'' = opt_to_py PyStr (khoi_expected_bucket_owner i)"
    "argument (head_object_call S i) ''checksum_mode'' = opt_to_py PyStr (khoi_checksum_mode i)"
    by (simp_all only: p)
  show ?thesis
    unfolding head_object_params_def head_object_params_1_def head_object_params_2_def head_object_params_3_def
    by (simp add: param_reads [OF reads_str s a(1)]
        param_reads [OF reads_str s a(2)]
        date_param [OF dates _ s a(3)]
        param_reads [OF reads_str s a(4)]
        date_param [OF dates _ s a(5)]
        param_reads [OF reads_str s a(6)]
        param_reads [OF reads_str s a(7)]
        param_reads [OF reads_str s a(8)]
        param_reads [OF reads_str s a(9)]
        param_reads [OF reads_str s a(10)]
        param_reads [OF reads_str s a(11)]
        param_reads [OF reads_str s a(12)]
        date_param [OF dates _ s a(13)]
        param_reads [OF reads_str s a(14)]
        param_reads [OF reads_str s a(15)]
        param_reads [OF reads_str s a(16)]
        param_reads [OF reads_str s a(17)]
        param_reads [OF reads_enum s a(18)]
        param_reads [OF reads_i32 s a(19)]
        param_reads [OF reads_str s a(20)]
        param_reads [OF reads_enum s a(21)])
qed

lemma list_objects_v2_delivered: "list_objects_v2_params P S (list_objects_v2_call i) = Inr i"
proof -
  have s: "str_keys (list_objects_v2_call i)" by (simp add: list_objects_v2_call_def)
  note p = arguments [OF list_objects_v2_call_def [of i], simplified]
  have a: "argument (list_objects_v2_call i) ''bucket'' = opt_to_py PyStr (klovi_bucket i)"
    "argument (list_objects_v2_call i) ''delimiter'' = opt_to_py PyStr (klovi_delimiter i)"
    "argument (list_objects_v2_call i) ''encoding_type'' = opt_to_py PyStr (klovi_encoding_type i)"
    "argument (list_objects_v2_call i) ''max_keys'' = opt_to_py i32_to_py (klovi_max_keys i)"
    "argument (list_objects_v2_call i) ''prefix'' = opt_to_py PyStr (klovi_prefix i)"
    "argument (list_objects_v2_call i) ''continuation_token'' = opt_to_py PyStr (klovi_continuation_token i)"
    "argument (list_objects_v2_call i) ''fetch_owner'' = opt_to_py PyBool (klovi_fetch_owner i)"
    "argument (list_objects_v2_call i) ''start_after'' = opt_to_py PyStr (klovi_start_after i)"
    "argument (list_objects_v2_call i) ''request_payer'' = opt_to_py PyStr (klovi_request_payer i)"
    "argument (list_objects_v2_call i) ''expected_bucket_owner'' = opt_to_py PyStr (klovi_expected_bucket_owner i)"
    "argument (list_objects_v2_call i) ''optional_object_attributes'' = opt_to_py (seq_to_py PyStr) (klovi_optional_object_attributes i)"
    by (simp_all only: p)
  show ?thesis
    unfolding list_objects_v2_params_def list_objects_v2_params_1_def list_objects_v2_params_2_def
    by (simp add: param_reads [OF reads_str s a(1)]
        param_reads [OF reads_str s a(2)]
        param_reads [OF reads_enum s a(3)]
        param_reads [OF reads_i32 s a(4)]
        param_reads [OF reads_str s a(5)]
        param_reads [OF reads_str s a(6)]
        param_reads [OF reads_bool s a(7)]
        param_reads [OF reads_str s a(8)]
        param_reads [OF reads_enum s a(9)]
        param_reads [OF reads_str s a(10)]
        param_reads [OF reads_seq [OF reads_enum] s a(11)])
qed

lemma list_parts_delivered: "list_parts_params P S (list_parts_call i) = Inr i"
proof -
  have s: "str_keys (list_parts_call i)" by (simp add: list_parts_call_def)
  note p = arguments [OF list_parts_call_def [of i], simplified]
  have a: "argument (list_parts_call i) ''bucket'' = opt_to_py PyStr (klpi_bucket i)"
    "argument (list_parts_call i) ''key'' = opt_to_py PyStr (klpi_key i)"
    "argument (list_parts_call i) ''max_parts'' = opt_to_py i32_to_py (klpi_max_parts i)"
    "argument (list_parts_call i) ''part_number_marker'' = opt_to_py PyStr (klpi_part_number_marker i)"
    "argument (list_parts_call i) ''upload_id'' = opt_to_py PyStr (klpi_upload_id i)"
    "argument (list_parts_call i) ''request_payer'' = opt_to_py PyStr (klpi_request_payer i)"
    "argument (list_parts_call i) ''expected_bucket_owner'' = opt_to_py PyStr (klpi_expected_bucket_owner i)"
    "argument (list_parts_call i) ''sse_customer_algorithm'' = opt_to_py PyStr (klpi_sse_customer_algorithm i)"
    "argument (list_parts_call i) ''sse_customer_key'' = opt_to_py PyStr (klpi_sse_customer_key i)"
    "argument (list_parts_call i) ''sse_customer_key_md5'' = opt_to_py PyStr (klpi_sse_customer_key_md5 i)"
    by (simp_all only: p)
  show ?thesis
    unfolding list_parts_params_def list_parts_params_1_def list_parts_params_2_def
    by (simp add: param_reads [OF reads_str s a(1)]
        param_reads [OF reads_str s a(2)]
        param_reads [OF reads_i32 s a(3)]
        param_reads [OF reads_str s a(4)]
        param_reads [OF reads_str s a(5)]
        param_reads [OF reads_enum s a(6)]
        param_reads [OF reads_str s a(7)]
        param_reads [OF reads_str s a(8)]
        param_reads [OF reads_str s a(9)]
        param_reads [OF reads_str s a(10)])
qed

lemma put_object_delivered:
  assumes dates: "dates_ok S [kpoi_expires i, kpoi_object_lock_retain_until_date i]"
    and len: "natural_length (kpoi_content_length i)"
    and body: "body_given P has_aiter aiter (kpoi_content_length i) body (kpoi_body i)"
  shows "put_object_params P S has_aiter aiter (put_object_call order S i body) = Inr i"
proof -
  have s: "str_keys (put_object_call order S i body)" by (simp add: put_object_call_def)
  note p = arguments [OF put_object_call_def [of order S i body], simplified]
  have a: "argument (put_object_call order S i body) ''acl'' = opt_to_py PyStr (kpoi_acl i)"
    "argument (put_object_call order S i body) ''body'' = body"
    "argument (put_object_call order S i body) ''bucket'' = opt_to_py PyStr (kpoi_bucket i)"
    "argument (put_object_call order S i body) ''cache_control'' = opt_to_py PyStr (kpoi_cache_control i)"
    "argument (put_object_call order S i body) ''content_disposition'' = opt_to_py PyStr (kpoi_content_disposition i)"
    "argument (put_object_call order S i body) ''content_encoding'' = opt_to_py PyStr (kpoi_content_encoding i)"
    "argument (put_object_call order S i body) ''content_language'' = opt_to_py PyStr (kpoi_content_language i)"
    "argument (put_object_call order S i body) ''content_length'' = opt_to_py i64_to_py (kpoi_content_length i)"
    "argument (put_object_call order S i body) ''content_md5'' = opt_to_py PyStr (kpoi_content_md5 i)"
    "argument (put_object_call order S i body) ''content_type'' = opt_to_py PyStr (kpoi_content_type i)"
    "argument (put_object_call order S i body) ''checksum_algorithm'' = opt_to_py PyStr (kpoi_checksum_algorithm i)"
    "argument (put_object_call order S i body) ''checksum_crc32'' = opt_to_py PyStr (kpoi_checksum_crc32 i)"
    "argument (put_object_call order S i body) ''checksum_crc32_c'' = opt_to_py PyStr (kpoi_checksum_crc32_c i)"
    "argument (put_object_call order S i body) ''checksum_crc64_nvme'' = opt_to_py PyStr (kpoi_checksum_crc64_nvme i)"
    "argument (put_object_call order S i body) ''checksum_sha1'' = opt_to_py PyStr (kpoi_checksum_sha1 i)"
    "argument (put_object_call order S i body) ''checksum_sha256'' = opt_to_py PyStr (kpoi_checksum_sha256 i)"
    "argument (put_object_call order S i body) ''checksum_sha512'' = opt_to_py PyStr (kpoi_checksum_sha512 i)"
    "argument (put_object_call order S i body) ''checksum_md5'' = opt_to_py PyStr (kpoi_checksum_md5 i)"
    "argument (put_object_call order S i body) ''checksum_xxhash64'' = opt_to_py PyStr (kpoi_checksum_xxhash64 i)"
    "argument (put_object_call order S i body) ''checksum_xxhash3'' = opt_to_py PyStr (kpoi_checksum_xxhash3 i)"
    "argument (put_object_call order S i body) ''checksum_xxhash128'' = opt_to_py PyStr (kpoi_checksum_xxhash128 i)"
    "argument (put_object_call order S i body) ''expires'' = opt_to_py (datetime_to_py S) (kpoi_expires i)"
    "argument (put_object_call order S i body) ''if_match'' = opt_to_py PyStr (kpoi_if_match i)"
    "argument (put_object_call order S i body) ''if_none_match'' = opt_to_py PyStr (kpoi_if_none_match i)"
    "argument (put_object_call order S i body) ''grant_full_control'' = opt_to_py PyStr (kpoi_grant_full_control i)"
    "argument (put_object_call order S i body) ''grant_read'' = opt_to_py PyStr (kpoi_grant_read i)"
    "argument (put_object_call order S i body) ''grant_read_acp'' = opt_to_py PyStr (kpoi_grant_read_acp i)"
    "argument (put_object_call order S i body) ''grant_write_acp'' = opt_to_py PyStr (kpoi_grant_write_acp i)"
    "argument (put_object_call order S i body) ''key'' = opt_to_py PyStr (kpoi_key i)"
    "argument (put_object_call order S i body) ''write_offset_bytes'' = opt_to_py i64_to_py (kpoi_write_offset_bytes i)"
    "argument (put_object_call order S i body) ''metadata'' = opt_to_py (mapping_to_py order PyStr) (kpoi_metadata i)"
    "argument (put_object_call order S i body) ''server_side_encryption'' = opt_to_py PyStr (kpoi_server_side_encryption i)"
    "argument (put_object_call order S i body) ''storage_class'' = opt_to_py PyStr (kpoi_storage_class i)"
    "argument (put_object_call order S i body) ''website_redirect_location'' = opt_to_py PyStr (kpoi_website_redirect_location i)"
    "argument (put_object_call order S i body) ''sse_customer_algorithm'' = opt_to_py PyStr (kpoi_sse_customer_algorithm i)"
    "argument (put_object_call order S i body) ''sse_customer_key'' = opt_to_py PyStr (kpoi_sse_customer_key i)"
    "argument (put_object_call order S i body) ''sse_customer_key_md5'' = opt_to_py PyStr (kpoi_sse_customer_key_md5 i)"
    "argument (put_object_call order S i body) ''ssekms_key_id'' = opt_to_py PyStr (kpoi_ssekms_key_id i)"
    "argument (put_object_call order S i body) ''ssekms_encryption_context'' = opt_to_py PyStr (kpoi_ssekms_encryption_context i)"
    "argument (put_object_call order S i body) ''bucket_key_enabled'' = opt_to_py PyBool (kpoi_bucket_key_enabled i)"
    "argument (put_object_call order S i body) ''request_payer'' = opt_to_py PyStr (kpoi_request_payer i)"
    "argument (put_object_call order S i body) ''tagging'' = opt_to_py PyStr (kpoi_tagging i)"
    "argument (put_object_call order S i body) ''object_lock_mode'' = opt_to_py PyStr (kpoi_object_lock_mode i)"
    "argument (put_object_call order S i body) ''object_lock_retain_until_date'' = opt_to_py (datetime_to_py S) (kpoi_object_lock_retain_until_date i)"
    "argument (put_object_call order S i body) ''object_lock_legal_hold_status'' = opt_to_py PyStr (kpoi_object_lock_legal_hold_status i)"
    "argument (put_object_call order S i body) ''object_lock_event_hold'' = opt_to_py PyStr (kpoi_object_lock_event_hold i)"
    "argument (put_object_call order S i body) ''object_lock_event_hold_duration_days'' = opt_to_py i32_to_py (kpoi_object_lock_event_hold_duration_days i)"
    "argument (put_object_call order S i body) ''object_lock_event_hold_duration_years'' = opt_to_py i32_to_py (kpoi_object_lock_event_hold_duration_years i)"
    "argument (put_object_call order S i body) ''expected_bucket_owner'' = opt_to_py PyStr (kpoi_expected_bucket_owner i)"
    by (simp_all only: p)
  show ?thesis
    unfolding put_object_params_def put_object_params_1_def put_object_params_2_def put_object_params_3_def put_object_params_4_def put_object_params_5_def put_object_params_6_def put_object_params_7_def
    by (simp add: param_reads [OF reads_enum s a(1)]
        body_param [OF s a(2) body]
        param_reads [OF reads_str s a(3)]
        param_reads [OF reads_str s a(4)]
        param_reads [OF reads_str s a(5)]
        param_reads [OF reads_str s a(6)]
        param_reads [OF reads_str s a(7)]
        param_reads [OF reads_i64 s a(8)]
        param_reads [OF reads_str s a(9)]
        param_reads [OF reads_str s a(10)]
        param_reads [OF reads_enum s a(11)]
        param_reads [OF reads_str s a(12)]
        param_reads [OF reads_str s a(13)]
        param_reads [OF reads_str s a(14)]
        param_reads [OF reads_str s a(15)]
        param_reads [OF reads_str s a(16)]
        param_reads [OF reads_str s a(17)]
        param_reads [OF reads_str s a(18)]
        param_reads [OF reads_str s a(19)]
        param_reads [OF reads_str s a(20)]
        param_reads [OF reads_str s a(21)]
        date_param [OF dates _ s a(22)]
        param_reads [OF reads_str s a(23)]
        param_reads [OF reads_str s a(24)]
        param_reads [OF reads_str s a(25)]
        param_reads [OF reads_str s a(26)]
        param_reads [OF reads_str s a(27)]
        param_reads [OF reads_str s a(28)]
        param_reads [OF reads_str s a(29)]
        param_reads [OF reads_i64 s a(30)]
        param_reads [OF reads_map [OF order reads_str] s a(31)]
        param_reads [OF reads_enum s a(32)]
        param_reads [OF reads_enum s a(33)]
        param_reads [OF reads_str s a(34)]
        param_reads [OF reads_str s a(35)]
        param_reads [OF reads_str s a(36)]
        param_reads [OF reads_str s a(37)]
        param_reads [OF reads_str s a(38)]
        param_reads [OF reads_str s a(39)]
        param_reads [OF reads_bool s a(40)]
        param_reads [OF reads_enum s a(41)]
        param_reads [OF reads_str s a(42)]
        param_reads [OF reads_enum s a(43)]
        date_param [OF dates _ s a(44)]
        param_reads [OF reads_enum s a(45)]
        param_reads [OF reads_enum s a(46)]
        param_reads [OF reads_i32 s a(47)]
        param_reads [OF reads_i32 s a(48)]
        param_reads [OF reads_str s a(49)]
        length_hint [OF s a(8) len])
qed

lemma upload_part_delivered:
  assumes len: "natural_length (kupi_content_length i)"
    and body: "body_given P has_aiter aiter (kupi_content_length i) body (kupi_body i)"
  shows "upload_part_params P S has_aiter aiter (upload_part_call i body) = Inr i"
proof -
  have s: "str_keys (upload_part_call i body)" by (simp add: upload_part_call_def)
  note p = arguments [OF upload_part_call_def [of i body], simplified]
  have a: "argument (upload_part_call i body) ''body'' = body"
    "argument (upload_part_call i body) ''bucket'' = opt_to_py PyStr (kupi_bucket i)"
    "argument (upload_part_call i body) ''content_length'' = opt_to_py i64_to_py (kupi_content_length i)"
    "argument (upload_part_call i body) ''content_md5'' = opt_to_py PyStr (kupi_content_md5 i)"
    "argument (upload_part_call i body) ''checksum_algorithm'' = opt_to_py PyStr (kupi_checksum_algorithm i)"
    "argument (upload_part_call i body) ''checksum_crc32'' = opt_to_py PyStr (kupi_checksum_crc32 i)"
    "argument (upload_part_call i body) ''checksum_crc32_c'' = opt_to_py PyStr (kupi_checksum_crc32_c i)"
    "argument (upload_part_call i body) ''checksum_crc64_nvme'' = opt_to_py PyStr (kupi_checksum_crc64_nvme i)"
    "argument (upload_part_call i body) ''checksum_sha1'' = opt_to_py PyStr (kupi_checksum_sha1 i)"
    "argument (upload_part_call i body) ''checksum_sha256'' = opt_to_py PyStr (kupi_checksum_sha256 i)"
    "argument (upload_part_call i body) ''checksum_sha512'' = opt_to_py PyStr (kupi_checksum_sha512 i)"
    "argument (upload_part_call i body) ''checksum_md5'' = opt_to_py PyStr (kupi_checksum_md5 i)"
    "argument (upload_part_call i body) ''checksum_xxhash64'' = opt_to_py PyStr (kupi_checksum_xxhash64 i)"
    "argument (upload_part_call i body) ''checksum_xxhash3'' = opt_to_py PyStr (kupi_checksum_xxhash3 i)"
    "argument (upload_part_call i body) ''checksum_xxhash128'' = opt_to_py PyStr (kupi_checksum_xxhash128 i)"
    "argument (upload_part_call i body) ''key'' = opt_to_py PyStr (kupi_key i)"
    "argument (upload_part_call i body) ''part_number'' = opt_to_py i32_to_py (kupi_part_number i)"
    "argument (upload_part_call i body) ''upload_id'' = opt_to_py PyStr (kupi_upload_id i)"
    "argument (upload_part_call i body) ''sse_customer_algorithm'' = opt_to_py PyStr (kupi_sse_customer_algorithm i)"
    "argument (upload_part_call i body) ''sse_customer_key'' = opt_to_py PyStr (kupi_sse_customer_key i)"
    "argument (upload_part_call i body) ''sse_customer_key_md5'' = opt_to_py PyStr (kupi_sse_customer_key_md5 i)"
    "argument (upload_part_call i body) ''request_payer'' = opt_to_py PyStr (kupi_request_payer i)"
    "argument (upload_part_call i body) ''expected_bucket_owner'' = opt_to_py PyStr (kupi_expected_bucket_owner i)"
    by (simp_all only: p)
  show ?thesis
    unfolding upload_part_params_def upload_part_params_1_def upload_part_params_2_def upload_part_params_3_def upload_part_params_4_def
    by (simp add: body_param [OF s a(1) body]
        param_reads [OF reads_str s a(2)]
        param_reads [OF reads_i64 s a(3)]
        param_reads [OF reads_str s a(4)]
        param_reads [OF reads_enum s a(5)]
        param_reads [OF reads_str s a(6)]
        param_reads [OF reads_str s a(7)]
        param_reads [OF reads_str s a(8)]
        param_reads [OF reads_str s a(9)]
        param_reads [OF reads_str s a(10)]
        param_reads [OF reads_str s a(11)]
        param_reads [OF reads_str s a(12)]
        param_reads [OF reads_str s a(13)]
        param_reads [OF reads_str s a(14)]
        param_reads [OF reads_str s a(15)]
        param_reads [OF reads_str s a(16)]
        param_reads [OF reads_i32 s a(17)]
        param_reads [OF reads_str s a(18)]
        param_reads [OF reads_str s a(19)]
        param_reads [OF reads_str s a(20)]
        param_reads [OF reads_str s a(21)]
        param_reads [OF reads_enum s a(22)]
        param_reads [OF reads_str s a(23)]
        length_hint [OF s a(3) len])
qed

end

end
