(* ===== verification/S3Transfer.thy ===== *)
theory S3Transfer
  imports S3
begin

text \<open>
  Moving objects to and from S3: what an application relies on when it uploads a body, reads one
  back, and completes an upload from the parts S3 lists. The operations are those of \<open>S3\<close>, the
  streams those of \<open>Streams\<close> and \<open>Service\<close>.
\<close>

section \<open>Downloads\<close>

text \<open>
  C13: an object arrives whole. A successful \<open>GetObject\<close> hands back the members of the response and
  a live stream of its body. However many chunks the application takes by iterating, reading the
  stream then gives exactly the rest of the object, or, when the transfer fails, the error reading
  it all would have given, reported under \<open>GetObject\<close> with the metadata of the operation's attempts.
\<close>

theorem get_object_streams_body:
  assumes "pyo3_laws P" and "s3_types_laws S" and "stream_laws A"
    and "dates_ok S [kgoi_if_modified_since i, kgoi_if_unmodified_since i, kgoi_response_expires i]"
    and "\<not> ch_closed c" and "get_client E (ch_state c) = Some (Inr client, st)"
    and "send client i = (attempts, Inr output)"
    and "context = \<lparr>ctx_op = ''GetObject'',
           ctx_metadata = response_metadata (run_operation (observation \<noteq> None) attempts)\<rparr>"
  shows "\<exists>r published. get_object E P S (Inr ()) False send c (get_object_call S i) observation =
        Some (Inr r, c\<lparr>ch_state := st\<rparr>, published)
    \<and> kgoo_e_tag r = kgoo_e_tag output \<and> kgoo_content_length r = kgoo_content_length output
    \<and> kgoo_metadata r = kgoo_metadata output
    \<and> (\<forall>n cs b. chunks M A n (kgoo_body r) = Some (cs, b) \<longrightarrow>
        (case collect A (kgoo_body output) of
           Inr body \<Rightarrow> \<exists>rest. fst (read_all M A False b) = Inr (PyBytes rest) \<and> concat cs @ rest = concat body
         | Inl error \<Rightarrow> fst (read_all M A False b) = Inl (stream_error_to_py M error context)))"
proof -
  let ?send = "with_context ''GetObject'' (observation \<noteq> None) get_object_output_response send"
  let ?r = "get_object_output_response context output"
  note conv = s3_conversions.intro [OF assms(1,2) s3_conversions_axioms.intro, OF iterates_by_key]
  have send: "?send client i = (attempts, Inr ?r)"
    by (simp add: with_context_def assms(7,8))
  have run: "get_object E P S (Inr ()) False send c (get_object_call S i) observation =
      Some (Inr ?r, c\<lparr>ch_state := st\<rparr>,
        map_option (publish (run_operation (observation \<noteq> None) attempts) (se_region E client)) observation)"
    unfolding get_object_def s3_conversions.get_object_delivered [OF conv assms(4)]
    by (subst execute_open [where send = ?send, OF assms(5,6) send]) simp
  have body: "case collect A (kgoo_body output) of
      Inr body \<Rightarrow> \<exists>rest. fst (read_all M A False b) = Inr (PyBytes rest) \<and> concat cs @ rest = concat body
    | Inl error \<Rightarrow> fst (read_all M A False b) = Inl (stream_error_to_py M error context)"
    if "chunks M A n (kgoo_body ?r) = Some (cs, b)" for n cs b
    using iterate_then_read [OF assms(3) _ surjective_pairing, of M n "kgoo_body output" "context" cs b] that
    by (auto simp: get_object_output_response_def split: sum.splits)
  show ?thesis
  proof (intro exI [of _ ?r] exI conjI allI impI)
    show "kgoo_e_tag ?r = kgoo_e_tag output" "kgoo_content_length ?r = kgoo_content_length output"
      "kgoo_metadata ?r = kgoo_metadata output"
      by (simp_all add: get_object_output_response_def)
  qed (fact run, rule body)
qed

definition example_get :: get_object_input where
  "example_get =
     \<lparr>kgoi_bucket = Some ''b'', kgoi_if_match = None, kgoi_if_modified_since = None,
      kgoi_if_none_match = None, kgoi_if_unmodified_since = None, kgoi_key = Some ''k'',
      kgoi_range = None, kgoi_response_cache_control = None,
      kgoi_response_content_disposition = None, kgoi_response_content_encoding = None,
      kgoi_response_content_language = None, kgoi_response_content_type = None,
      kgoi_response_expires = None, kgoi_version_id = None, kgoi_sse_customer_algorithm = None,
      kgoi_sse_customer_key = None, kgoi_sse_customer_key_md5 = None, kgoi_request_payer = None,
      kgoi_part_number = None, kgoi_expected_bucket_owner = None, kgoi_checksum_mode = None\<rparr>"

definition example_object :: "(cause list + byte list) list get_object_output" where
  "example_object =
     \<lparr>kgoo_body = [Inr [1, 2], Inr [3], Inr [4]], kgoo_delete_marker = None,
      kgoo_accept_ranges = None, kgoo_expiration = None, kgoo_restore = None,
      kgoo_last_modified = None, kgoo_content_length = None, kgoo_e_tag = Some ''tag'',
      kgoo_checksum_crc32 = None, kgoo_checksum_crc32_c = None, kgoo_checksum_crc64_nvme = None,
      kgoo_checksum_sha1 = None, kgoo_checksum_sha256 = None, kgoo_checksum_sha512 = None,
      kgoo_checksum_md5 = None, kgoo_checksum_xxhash64 = None, kgoo_checksum_xxhash3 = None,
      kgoo_checksum_xxhash128 = None, kgoo_checksum_type = None, kgoo_missing_meta = None,
      kgoo_version_id = None, kgoo_cache_control = None, kgoo_content_disposition = None,
      kgoo_content_encoding = None, kgoo_content_language = None, kgoo_content_range = None,
      kgoo_content_type = None, kgoo_website_redirect_location = None,
      kgoo_server_side_encryption = None, kgoo_metadata = None, kgoo_sse_customer_algorithm = None,
      kgoo_sse_customer_key_md5 = None, kgoo_ssekms_key_id = None, kgoo_bucket_key_enabled = None,
      kgoo_storage_class = None, kgoo_request_charged = None, kgoo_replication_status = None,
      kgoo_parts_count = None, kgoo_tag_count = None, kgoo_object_lock_mode = None,
      kgoo_object_lock_retain_until_date = None, kgoo_object_lock_legal_hold_status = None,
      kgoo_object_lock_event_hold = None, kgoo_object_lock_event_hold_duration_days = None,
      kgoo_object_lock_event_hold_duration_years = None, kgoo_expires = None,
      kgoo_expires_string = None\<rparr>"

theorem get_object_streams_body_witness:
  "\<exists>r published. get_object example_env pyo3_std s3_std (Inr ()) False (\<lambda>client i. ([], Inr example_object))
        example_client (get_object_call s3_std example_get) None =
      Some (Inr r, example_client\<lparr>ch_state := (ch_state example_client)\<lparr>cs_client := Some 5\<rparr>\<rparr>, published)
    \<and> kgoo_e_tag r = Some ''tag''
    \<and> fst (read_all (std_modules []) list_stream False (kgoo_body r)) = Inr (PyBytes [1, 2, 3, 4])"
proof -
  have g: "get_client example_env (ch_state example_client) =
      Some (Inr 5, (ch_state example_client)\<lparr>cs_client := Some 5\<rparr>)"
    by (simp add: get_client_def example_env_def example_client_def)
  have d: "dates_ok s3_std [kgoi_if_modified_since example_get, kgoi_if_unmodified_since example_get,
      kgoi_response_expires example_get]"
    by (simp add: dates_ok_def example_get_def)
  have o: "\<not> ch_closed example_client" by (simp add: example_client_def)
  have body: "kgoo_body example_object = [Inr [1, 2], Inr [3], Inr [4]]" by (simp add: example_object_def)
  from get_object_streams_body [where send = "\<lambda>client i. ([], Inr example_object)" and observation = None
      and M = "std_modules []",
      OF std.pyo3_laws_axioms std_s3.s3_types_laws_axioms std_stream.stream_laws_axioms d o g refl refl]
  obtain r published where run: "get_object example_env pyo3_std s3_std (Inr ()) False
        (\<lambda>client i. ([], Inr example_object)) example_client (get_object_call s3_std example_get) None =
      Some (Inr r, example_client\<lparr>ch_state := (ch_state example_client)\<lparr>cs_client := Some 5\<rparr>\<rparr>, published)"
    and tag: "kgoo_e_tag r = kgoo_e_tag example_object"
    and read: "\<And>n cs b. chunks (std_modules []) list_stream n (kgoo_body r) = Some (cs, b) \<Longrightarrow>
        (case collect list_stream (kgoo_body example_object) of
           Inr body \<Rightarrow> \<exists>rest. fst (read_all (std_modules []) list_stream False b) = Inr (PyBytes rest)
             \<and> concat cs @ rest = concat body
         | Inl error \<Rightarrow> fst (read_all (std_modules []) list_stream False b) =
             Inl (stream_error_to_py (std_modules []) error \<lparr>ctx_op = ''GetObject'',
               ctx_metadata = response_metadata (run_operation (None \<noteq> (None :: pydict option)) [])\<rparr>))"
    by blast
  from read [of 0 "[]"] have "fst (read_all (std_modules []) list_stream False (kgoo_body r)) = Inr (PyBytes [1, 2, 3, 4])"
    by (simp add: body list_stream_def)
  moreover have "kgoo_e_tag r = Some ''tag''" by (simp add: tag example_object_def)
  ultimately show ?thesis using run by blast
qed

section \<open>Uploads\<close>

text \<open>
  C14: a body of unknown length is refused before anything happens. \<open>PutObject\<close> with an asynchronous
  iterable and no \<open>content_length\<close> raises \<open>ValueError\<close> with the context \<open>s3\<close>, \<open>PutObject\<close>, \<open>body\<close>,
  category \<open>missing\<close>: no client is built, no request sent, nothing observed, and whatever the SDK
  would have answered does not matter.
\<close>

theorem put_object_requires_length:
  assumes "pyo3_laws P" and "has_aiter (PyObject cls n) = Inr True"
    and "kpoi_content_length i = None" and "\<not> ch_closed c"
  shows "\<exists>e. put_object E P S has_aiter aiter bridge interrupted send c
        (put_object_call order S i (PyObject cls n)) observation = Some (Inl e, c, observation)
    \<and> err_class e = ''ValueError''
    \<and> err_context e = Some (context_for [Field ''body'', Root]
        ''async iterable with content_length'' ''missing'' ''s3'' ''PutObject'')"
proof -
  let ?v = "PyObject cls n"
  let ?d = "put_object_call order S i ?v"
  have s: "str_keys ?d" by (simp add: put_object_call_def)
  note p = arguments [OF put_object_call_def [of order S i ?v], simplified]
  have a: "argument ?d ''acl'' = opt_to_py PyStr (kpoi_acl i)"
    "argument ?d ''content_length'' = opt_to_py i64_to_py (kpoi_content_length i)"
    "argument ?d ''body'' = ?v"
    by (simp_all only: p)
  obtain e where e: "python_byte_stream P has_aiter aiter ?v None True = Inl e"
    and cls: "err_class (input_operation (input_error e (Field ''body'') ''bytes or async iterable of bytes'') ''s3'' ''PutObject'') = ''ValueError''"
    and ctx: "err_context (input_operation (input_error e (Field ''body'') ''bytes or async iterable of bytes'') ''s3'' ''PutObject'') =
      Some (context_for [Field ''body'', Root] ''async iterable with content_length'' ''missing'' ''s3'' ''PutObject'')"
    by (rule body_without_length [where has_aiter = has_aiter and cls = cls and n = n, OF assms(2)])
  have hint: "op_param P ''s3'' ''PutObject'' ?d ''content_length'' ''int'' (extract_u64 P) = Inr None"
    using pyo3_laws.length_hint [OF assms(1) s a(2)] assms(3) by (simp add: natural_length_def)
  have "put_object_params P S has_aiter aiter ?d =
      Inl (input_operation (input_error e (Field ''body'') ''bytes or async iterable of bytes'') ''s3'' ''PutObject'')"
    by (simp add: put_object_params_def put_object_params_1_def hint e
        pyo3_laws.param_reads [OF assms(1) pyo3_laws.reads_enum [OF assms(1)] s a(1)]
        pyo3_laws.op_param_present [OF assms(1) s argument_given [OF a(3)]])
  with cls ctx assms(4) show ?thesis
    by (intro exI conjI) (simp_all add: put_object_def execute_def)
qed

definition example_put :: "nat put_object_input" where
  "example_put =
     \<lparr>kpoi_acl = None, kpoi_body = None, kpoi_bucket = Some ''b'',
      kpoi_cache_control = None, kpoi_content_disposition = None, kpoi_content_encoding = None,
      kpoi_content_language = None, kpoi_content_length = None, kpoi_content_md5 = None,
      kpoi_content_type = None, kpoi_checksum_algorithm = None, kpoi_checksum_crc32 = None,
      kpoi_checksum_crc32_c = None, kpoi_checksum_crc64_nvme = None, kpoi_checksum_sha1 = None,
      kpoi_checksum_sha256 = None, kpoi_checksum_sha512 = None, kpoi_checksum_md5 = None,
      kpoi_checksum_xxhash64 = None, kpoi_checksum_xxhash3 = None, kpoi_checksum_xxhash128 = None,
      kpoi_expires = None, kpoi_if_match = None, kpoi_if_none_match = None,
      kpoi_grant_full_control = None, kpoi_grant_read = None, kpoi_grant_read_acp = None,
      kpoi_grant_write_acp = None, kpoi_key = Some ''k'', kpoi_write_offset_bytes = None,
      kpoi_metadata = None, kpoi_server_side_encryption = None, kpoi_storage_class = None,
      kpoi_website_redirect_location = None, kpoi_sse_customer_algorithm = None,
      kpoi_sse_customer_key = None, kpoi_sse_customer_key_md5 = None, kpoi_ssekms_key_id = None,
      kpoi_ssekms_encryption_context = None, kpoi_bucket_key_enabled = None,
      kpoi_request_payer = None, kpoi_tagging = None, kpoi_object_lock_mode = None,
      kpoi_object_lock_retain_until_date = None, kpoi_object_lock_legal_hold_status = None,
      kpoi_object_lock_event_hold = None, kpoi_object_lock_event_hold_duration_days = None,
      kpoi_object_lock_event_hold_duration_years = None, kpoi_expected_bucket_owner = None\<rparr>"

theorem put_object_requires_length_witness:
  "\<exists>e. put_object example_env pyo3_std s3_std (\<lambda>v. Inr True) (\<lambda>v. Inr (0::nat)) (Inr ()) False
        (\<lambda>client i. ([], (Inl (TimeoutError []) :: (nat, http_response) sdk_error + put_object_output))) example_client
        (put_object_call by_key s3_std example_put (PyObject ''Upload'' 1)) None = Some (Inl e, example_client, None)
    \<and> err_class e = ''ValueError''
    \<and> err_context e = Some \<lparr>ctx_service = ''s3'', ctx_operation = ''PutObject'', ctx_path = ''body'',
        ctx_expected = ''async iterable with content_length'', ctx_category = ''missing'', ctx_truncated = False\<rparr>"
proof -
  have n: "kpoi_content_length example_put = None" by (simp add: example_put_def)
  have o: "\<not> ch_closed example_client" by (simp add: example_client_def)
  have c: "context_for [Field ''body'', Root] ''async iterable with content_length'' ''missing'' ''s3'' ''PutObject'' =
      \<lparr>ctx_service = ''s3'', ctx_operation = ''PutObject'', ctx_path = ''body'',
        ctx_expected = ''async iterable with content_length'', ctx_category = ''missing'', ctx_truncated = False\<rparr>"
    by code_simp
  show ?thesis
    by (rule put_object_requires_length [OF std.pyo3_laws_axioms refl n o, unfolded c])
qed

section \<open>Multipart uploads\<close>

text \<open>The dictionary of a completed upload an application builds from the parts S3 lists.\<close>

definition completed_from :: "pyval \<Rightarrow> pyval" where
  "completed_from parts = PyDict (py_dict [(''parts'', PyList (case parts of
     PyList ps \<Rightarrow> map (\<lambda>p. PyDict (py_dict
       [(''e_tag'', entry ''e_tag'' p), (''part_number'', entry ''part_number'' p)])) ps
   | _ \<Rightarrow> []))])"

text \<open>The completed part of a part that was listed.\<close>

definition completed :: "s3_part \<Rightarrow> completed_part" where
  "completed p =
     \<lparr>kcp2_e_tag = kp_e_tag p, kcp2_checksum_crc32 = None, kcp2_checksum_crc32_c = None,
      kcp2_checksum_crc64_nvme = None, kcp2_checksum_sha1 = None, kcp2_checksum_sha256 = None,
      kcp2_checksum_sha512 = None, kcp2_checksum_md5 = None, kcp2_checksum_xxhash64 = None,
      kcp2_checksum_xxhash3 = None, kcp2_checksum_xxhash128 = None, kcp2_part_number = kp_part_number p\<rparr>"

context s3_conversions
begin

lemma listed_part_completes:
  "completed_part_from_py P S (PyDict (py_dict
     [(''e_tag'', opt_to_py PyStr (kp_e_tag p)), (''part_number'', opt_to_py i32_to_py (kp_part_number p))])) =
   Inr (completed p)"
  by (simp add: completed_part_from_py_def dict_ok py_dict_distinct completed_part_built completed_def
      member_absent member_reads [OF reads_str] member_reads [OF reads_i32])

lemma listed_parts_complete:
  "completed_multipart_upload_from_py P S (completed_from (opt_to_py (seq_to_py (part_to_py S)) (Some ps))) =
   Inr \<lparr>kcmu_parts = Some (map completed ps)\<rparr>"
proof -
  let ?part = "\<lambda>p. PyDict (py_dict
     [(''e_tag'', opt_to_py PyStr (kp_e_tag p)), (''part_number'', opt_to_py i32_to_py (kp_part_number p))])"
  have "completed_from (opt_to_py (seq_to_py (part_to_py S)) (Some ps)) =
      PyDict (py_dict [(''parts'', PyList (map ?part ps))])"
    by (simp add: completed_from_def seq_to_py_def comp_def part_to_py_def argument_def map_of_py_dict)
  moreover have "traverse 0 (seq_item x (completed_part_from_py P S)) (map (\<lambda>p. Inr (?part p)) ps) =
      Inr (map completed ps)" for x
    by (intro traverse_all) (simp add: seq_item_eq listed_part_completes)
  ultimately show ?thesis
    by (simp add: completed_multipart_upload_from_py_def dict_ok py_dict_distinct member_present
        seq_from_py_def iter_list comp_def completed_multipart_upload_built)
qed

end

text \<open>
  C15: an upload is completed with the parts S3 lists. An application that takes the parts and the
  upload id from the dictionary of a \<open>ListParts\<close> response and passes each part's entity tag and
  number to \<open>CompleteMultipartUpload\<close> sends exactly those: the listed parts, in their order, for the
  upload that was listed, with no checksum and no condition it did not ask for.
\<close>

theorem listed_parts_are_completed:
  assumes "pyo3_laws P" and "s3_types_laws S" and "iterates order"
    and "listing = list_parts_output_to_dict order S out" and "klpo_parts out = Some ps"
  shows "\<exists>i. complete_multipart_upload_params P S (py_params
        [(''bucket'', PyStr bucket), (''key'', PyStr key), (''upload_id'', entry ''upload_id'' listing)]
        [(''multipart_upload'', completed_from (entry ''parts'' listing))]) = Inr i
    \<and> kcmui_bucket i = Some bucket \<and> kcmui_key i = Some key \<and> kcmui_upload_id i = klpo_upload_id out
    \<and> kcmui_multipart_upload i = Some \<lparr>kcmu_parts = Some (map completed ps)\<rparr>
    \<and> kcmui_checksum_crc32 i = None \<and> kcmui_if_match i = None \<and> kcmui_mpu_object_size i = None"
proof -
  note conv = s3_conversions.intro [OF assms(1,2) s3_conversions_axioms.intro, OF assms(3)]
  let ?d = "py_params
        [(''bucket'', PyStr bucket), (''key'', PyStr key), (''upload_id'', entry ''upload_id'' listing)]
        [(''multipart_upload'', completed_from (entry ''parts'' listing))]"
  have e: "entry ''upload_id'' listing = opt_to_py PyStr (klpo_upload_id out)"
    "entry ''parts'' listing = opt_to_py (seq_to_py (part_to_py S)) (Some ps)"
    by (simp_all add: assms(4,5) list_parts_output_to_dict_def argument_def map_of_py_dict)
  have s: "str_keys ?d" by simp
  have a: "argument ?d ''bucket'' = opt_to_py PyStr (Some bucket)"
    "argument ?d ''key'' = opt_to_py PyStr (Some key)"
    "argument ?d ''upload_id'' = opt_to_py PyStr (klpo_upload_id out)"
    "argument ?d ''multipart_upload'' = opt_to_py (\<lambda>_. completed_from (entry ''parts'' listing))
      (Some \<lparr>kcmu_parts = Some (map completed ps)\<rparr>)"
    by (simp_all add: argument_py_params e)
  have absent: "op_param P sv op' ?d k x conv = Inr None"
    if "k \<notin> {''bucket'', ''key'', ''upload_id'', ''multipart_upload''}" for sv op' k x conv
  proof -
    have "argument ?d k = opt_to_py (\<lambda>_. PyNone) None" using that by (auto simp: argument_py_params)
    then show ?thesis by (rule pyo3_laws.op_param_argument [OF assms(1) s]) simp
  qed
  have parts: "op_param P sv op' ?d ''multipart_upload'' x (completed_multipart_upload_from_py P S) =
      Inr (Some \<lparr>kcmu_parts = Some (map completed ps)\<rparr>)" for sv op' x
    using s3_conversions.listed_parts_complete [OF conv, of ps]
    by (intro pyo3_laws.op_param_argument [OF assms(1) s a(4)]) (simp add: e(2) completed_from_def)
  note str = pyo3_laws.param_reads [OF assms(1) pyo3_laws.reads_str [OF assms(1)] s]
  show ?thesis
    by (simp add: complete_multipart_upload_params_def complete_multipart_upload_params_1_def
        complete_multipart_upload_params_2_def complete_multipart_upload_params_3_def
        complete_multipart_upload_params_4_def str [OF a(1)] str [OF a(2)] str [OF a(3)] parts absent)
qed

definition example_part :: "32 word \<Rightarrow> s3_part" where
  "example_part n =
     \<lparr>kp_part_number = Some n, kp_last_modified = None, kp_e_tag = Some ''t'',
      kp_size = None, kp_checksum_crc32 = None, kp_checksum_crc32_c = None,
      kp_checksum_crc64_nvme = None, kp_checksum_sha1 = None, kp_checksum_sha256 = None,
      kp_checksum_sha512 = None, kp_checksum_md5 = None, kp_checksum_xxhash64 = None,
      kp_checksum_xxhash3 = None, kp_checksum_xxhash128 = None\<rparr>"

definition example_listing :: list_parts_output where
  "example_listing =
     \<lparr>klpo_abort_date = None, klpo_abort_rule_id = None, klpo_bucket = None,
      klpo_key = None, klpo_upload_id = Some ''u'', klpo_part_number_marker = None,
      klpo_next_part_number_marker = None, klpo_max_parts = None, klpo_is_truncated = None,
      klpo_parts = Some [example_part 1, example_part 2], klpo_initiator = None, klpo_owner = None,
      klpo_storage_class = None, klpo_request_charged = None, klpo_checksum_algorithm = None,
      klpo_checksum_type = None\<rparr>"

theorem listed_parts_are_completed_witness:
  "\<exists>i. complete_multipart_upload_params pyo3_std s3_std (py_params
        [(''bucket'', PyStr ''b''), (''key'', PyStr ''k''),
         (''upload_id'', entry ''upload_id'' (list_parts_output_to_dict by_key s3_std example_listing))]
        [(''multipart_upload'',
          completed_from (entry ''parts'' (list_parts_output_to_dict by_key s3_std example_listing)))]) = Inr i
    \<and> kcmui_upload_id i = Some ''u''
    \<and> kcmui_multipart_upload i = Some \<lparr>kcmu_parts = Some [completed (example_part 1), completed (example_part 2)]\<rparr>"
proof -
  have "klpo_parts example_listing = Some [example_part 1, example_part 2]" by (simp add: example_listing_def)
  from listed_parts_are_completed [OF std.pyo3_laws_axioms std_s3.s3_types_laws_axioms iterates_by_key refl this,
      of "''b''" "''k''"] show ?thesis
    by (auto simp: example_listing_def)
qed

end
