(* ===== verification/Pagination.thy ===== *)
theory Pagination
  imports Params "HOL-Library.AList"
begin

text \<open>
  The loop behind every generated paginator, \<open>packages/rboto/src/rboto/_pagination.py\<close>: an
  asynchronous generator that calls an operation, yields the page, reads the continuation tokens
  from it and calls again, until there is no more or the tokens repeat.
\<close>

section \<open>Reading pages\<close>

text \<open>
  A page is a dictionary or a native response object. Of objects the code reads attributes
  (\<open>getattr\<close> with \<open>None\<close> for one that is missing) and the dictionary of \<open>to_dict\<close>, which is plain
  data, where the object has that method.
\<close>

record page_api =
  page_attr :: "pyval \<Rightarrow> string \<Rightarrow> pyval"
  cursor_dict :: "pyval \<Rightarrow> pyval option"

datatype part = Name string | At int

record pagination_spec =
  input_tokens :: "string list"
  output_tokens :: "part list list list"
  more_results :: "part list option"

text \<open>\<open>_snapshot\<close> copies continuation state: what is no container stays the value it is.\<close>

fun snapshot_data :: "pyval \<Rightarrow> pyval" where
  "snapshot_data (PyDict d) = PyDict (map (\<lambda>kv. (fst kv, snapshot_data (snd kv))) d)"
| "snapshot_data (PyList vs) = PyList (map snapshot_data vs)"
| "snapshot_data (PyTuple vs) = PyList (map snapshot_data vs)"
| "snapshot_data v = v"

fun snapshot :: "page_api \<Rightarrow> pyval \<Rightarrow> pyval" where
  "snapshot A (PyDict d) = PyDict (map (\<lambda>kv. (fst kv, snapshot A (snd kv))) d)"
| "snapshot A (PyList vs) = PyList (map (snapshot A) vs)"
| "snapshot A (PyTuple vs) = PyList (map (snapshot A) vs)"
| "snapshot A (PyObject c n) =
     (case cursor_dict A (PyObject c n) of None \<Rightarrow> PyObject c n | Some v \<Rightarrow> snapshot_data v)"
| "snapshot A v = v"

fun present :: "pyval \<Rightarrow> bool" where
  "present PyNone = False"
| "present (PyStr s) = (s \<noteq> [])"
| "present (PyBytes b) = (b \<noteq> [])"
| "present (PyByteArray b) = (b \<noteq> [])"
| "present (PyList vs) = (vs \<noteq> [])"
| "present (PyTuple vs) = (vs \<noteq> [])"
| "present (PyDict d) = (d \<noteq> [])"
| "present v = True"

text \<open>A \<open>Sequence\<close> that is neither \<open>str\<close> nor \<open>bytes\<close>, as its items.\<close>

fun sequence_items :: "pyval \<Rightarrow> pyval list option" where
  "sequence_items (PyList vs) = Some vs"
| "sequence_items (PyTuple vs) = Some vs"
| "sequence_items (PyByteArray b) = Some (map (\<lambda>x. PyInt (uint x)) b)"
| "sequence_items v = None"

text \<open>Python's indexing: a negative index counts from the end; \<open>None\<close> is \<open>IndexError\<close>.\<close>

definition item_at :: "'a list \<Rightarrow> int \<Rightarrow> 'a option" where
  "item_at vs n =
     (if 0 \<le> n \<and> n < int (length vs) then Some (vs ! nat n)
      else if n < 0 \<and> - int (length vs) \<le> n then Some (vs ! nat (int (length vs) + n))
      else None)"

fun read_path :: "page_api \<Rightarrow> pyval \<Rightarrow> part list \<Rightarrow> pyval" where
  "read_path A value [] = value"
| "read_path A value (At n # path) =
     (if value = PyNone then PyNone
      else case Option.bind (sequence_items value) (\<lambda>vs. item_at vs n) of
          None \<Rightarrow> PyNone
        | Some v \<Rightarrow> read_path A v path)"
| "read_path A value (Name k # path) =
     (if value = PyNone then PyNone
      else case value of
          PyDict d \<Rightarrow> read_path A (argument d k) path
        | _ \<Rightarrow> read_path A (page_attr A value k) path)"

fun page_token :: "page_api \<Rightarrow> pyval \<Rightarrow> part list list \<Rightarrow> pyval" where
  "page_token A page [] = PyNone"
| "page_token A page (path # alternatives) =
     (let value = read_path A page path
      in if present value then value else page_token A page alternatives)"

text \<open>
  Python's \<open>==\<close> on the values a token can have. Dictionaries compare without regard to order, and
  their keys are \<open>str\<close>; numbers compare by value. A NaN equals itself, as the same object does
  inside a container.
\<close>

fun number :: "pyval \<Rightarrow> f64 option" where
  "number (PyBool b) = Some (Finite (if b then 1 else 0))"
| "number (PyInt n) = Some (Finite (of_int n))"
| "number (PyFloat x) = Some x"
| "number v = None"

fun octets :: "pyval \<Rightarrow> byte list option" where
  "octets (PyBytes b) = Some b"
| "octets (PyByteArray b) = Some b"
| "octets v = None"

fun py_eq :: "pyval \<Rightarrow> pyval \<Rightarrow> bool" where
  "py_eq (PyDict d) v =
     (case v of
        PyDict d' \<Rightarrow> length d = length d' \<and>
          (\<forall>kv \<in> set d. case map_of d' (fst kv) of None \<Rightarrow> False | Some w \<Rightarrow> py_eq (snd kv) w)
      | _ \<Rightarrow> False)"
| "py_eq (PyList vs) v = (case v of PyList ws \<Rightarrow> list_all2 py_eq vs ws | _ \<Rightarrow> False)"
| "py_eq (PyTuple vs) v = (case v of PyTuple ws \<Rightarrow> list_all2 py_eq vs ws | _ \<Rightarrow> False)"
| "py_eq u v = (u = v \<or> (number u \<noteq> None \<and> number u = number v) \<or> (octets u \<noteq> None \<and> octets u = octets v))"

section \<open>The generator\<close>

text \<open>The variables of \<open>paginate\<close> while it is suspended; \<open>pg_finished\<close> once it returned or raised.\<close>

record pager =
  pg_request :: "(string \<times> pyval) list"
  pg_previous :: "pyval list"
  pg_finished :: bool

definition request_value :: "(string \<times> pyval) list \<Rightarrow> string \<Rightarrow> pyval" where
  "request_value request name = (case map_of request name of None \<Rightarrow> PyNone | Some v \<Rightarrow> v)"

definition request_tokens :: "page_api \<Rightarrow> pagination_spec \<Rightarrow> (string \<times> pyval) list \<Rightarrow> pyval list" where
  "request_tokens A spec request = map (\<lambda>name. snapshot A (request_value request name)) (input_tokens spec)"

definition paginate :: "page_api \<Rightarrow> pagination_spec \<Rightarrow> (string \<times> pyval) list \<Rightarrow> pager" where
  "paginate A spec params =
     \<lparr>pg_request = params, pg_previous = request_tokens A spec params, pg_finished = False\<rparr>"

definition following_tokens :: "page_api \<Rightarrow> pagination_spec \<Rightarrow> pyval \<Rightarrow> pyval list" where
  "following_tokens A spec page = map (\<lambda>paths. snapshot A (page_token A page paths)) (output_tokens spec)"

definition has_more :: "page_api \<Rightarrow> pagination_spec \<Rightarrow> pyval \<Rightarrow> bool" where
  "has_more A spec page = (case more_results spec of None \<Rightarrow> True | Some path \<Rightarrow> py_truth (read_path A page path))"

definition last_page :: "page_api \<Rightarrow> pagination_spec \<Rightarrow> pyval \<Rightarrow> bool" where
  "last_page A spec page \<longleftrightarrow>
     \<not> has_more A spec page \<or> \<not> list_ex present (following_tokens A spec page)"

text \<open>A token is put into the request, or its name is taken out; the other parameters stay.\<close>

definition put_token :: "string \<times> pyval \<Rightarrow> (string \<times> pyval) list \<Rightarrow> (string \<times> pyval) list" where
  "put_token t request =
     (if present (snd t) then AList.update (fst t) (snd t) request else AList.delete (fst t) request)"

definition advance :: "pagination_spec \<Rightarrow> pyval list \<Rightarrow> (string \<times> pyval) list \<Rightarrow> (string \<times> pyval) list" where
  "advance spec following request = fold put_token (zip (input_tokens spec) following) request"

text \<open>
  One resumption (\<open>__anext__\<close>): the page, the exception of the call, or \<open>StopAsyncIteration\<close>. What
  the loop does after the \<open>yield\<close> reads nothing the consumer can change, so it is done here.
\<close>

definition next_page :: "page_api \<Rightarrow> pagination_spec \<Rightarrow>
    ((string \<times> pyval) list \<Rightarrow> 'w \<Rightarrow> pyval pyresult \<times> 'w) \<Rightarrow> pager \<Rightarrow> 'w \<Rightarrow> pyval pyresult \<times> pager \<times> 'w" where
  "next_page A spec call pg w =
     (if pg_finished pg then (Inl stop_async_iteration, pg, w)
      else (case call (pg_request pg) w of
          (Inl e, w) \<Rightarrow> (Inl e, pg\<lparr>pg_finished := True\<rparr>, w)
        | (Inr page, w) \<Rightarrow>
            (let following = following_tokens A spec page;
                 repeated = list_all2 py_eq following (pg_previous pg)
             in (Inr page,
                 (if last_page A spec page \<or> repeated then pg\<lparr>pg_finished := True\<rparr>
                  else pg\<lparr>pg_request := advance spec following (pg_request pg),
                         pg_previous := map (snapshot A) following\<rparr>),
                 w))))"

text \<open>\<open>n\<close> resumptions: what they gave, and the requests that were made.\<close>

fun pages :: "nat \<Rightarrow> page_api \<Rightarrow> pagination_spec \<Rightarrow>
    ((string \<times> pyval) list \<Rightarrow> 'w \<Rightarrow> pyval pyresult \<times> 'w) \<Rightarrow> pager \<Rightarrow> 'w \<Rightarrow>
    pyval pyresult list \<times> (string \<times> pyval) list list \<times> pager \<times> 'w" where
  "pages 0 A spec call pg w = ([], [], pg, w)"
| "pages (Suc n) A spec call pg w =
     (let (r, pg', w) = next_page A spec call pg w;
          (rs, requests, pg'', w) = pages n A spec call pg' w
      in (r # rs, (if pg_finished pg then [] else [pg_request pg]) @ requests, pg'', w))"

section \<open>Tokens in requests\<close>

lemma request_value_put [simp]:
  "request_value (put_token (k, v) request) k' =
     (if k' = k then if present v then v else PyNone else request_value request k')"
  by (simp add: put_token_def request_value_def update_conv' delete_conv')

lemma request_value_fold_other:
  "k \<notin> fst ` set ts \<Longrightarrow> request_value (fold put_token ts request) k = request_value request k"
  by (induction ts arbitrary: request) auto

lemma request_value_fold:
  "distinct (map fst ts) \<Longrightarrow> (k, v) \<in> set ts \<Longrightarrow>
   request_value (fold put_token ts request) k = (if present v then v else PyNone)"
  by (induction ts arbitrary: request) (auto simp: request_value_fold_other rev_image_eqI)

text \<open>What pagination relies on: a token name for every token, each once, and native structures
  whose dictionaries are not empty.\<close>

definition well_formed_spec :: "pagination_spec \<Rightarrow> bool" where
  "well_formed_spec spec \<longleftrightarrow> distinct (input_tokens spec) \<and> length (output_tokens spec) = length (input_tokens spec)"

definition cursors_present :: "page_api \<Rightarrow> bool" where
  "cursors_present A \<longleftrightarrow> (\<forall>v d. cursor_dict A v = Some d \<longrightarrow> present (snapshot_data d))"

lemma present_snapshot: "cursors_present A \<Longrightarrow> present v \<Longrightarrow> present (snapshot A v)"
  by (cases v) (auto simp: cursors_present_def split: option.splits)

lemma page_token_present: "present (page_token A page paths) \<or> page_token A page paths = PyNone"
  by (induction A page paths rule: page_token.induct) (auto simp: Let_def)

lemma following_present:
  "cursors_present A \<Longrightarrow> f \<in> set (following_tokens A spec page) \<Longrightarrow> present f \<or> f = PyNone"
  using page_token_present [of A page] present_snapshot [of A] by (fastforce simp: following_tokens_def)

lemma advanced_tokens:
  assumes "well_formed_spec spec" and "cursors_present A"
  shows "map (request_value (advance spec (following_tokens A spec page) request)) (input_tokens spec) =
    following_tokens A spec page"
proof (rule nth_equalityI)
  let ?f = "following_tokens A spec page"
  have len: "length ?f = length (input_tokens spec)"
    using assms(1) by (simp add: following_tokens_def well_formed_spec_def)
  then show "length (map (request_value (advance spec ?f request)) (input_tokens spec)) = length ?f" by simp
  fix i assume i: "i < length (map (request_value (advance spec ?f request)) (input_tokens spec))"
  let ?ts = "zip (input_tokens spec) ?f"
  have "(input_tokens spec ! i, ?f ! i) \<in> set ?ts" using i len by (auto simp: set_zip)
  moreover have "distinct (map fst ?ts)" using assms(1) len by (simp add: well_formed_spec_def)
  ultimately have "request_value (advance spec ?f request) (input_tokens spec ! i) =
      (if present (?f ! i) then ?f ! i else PyNone)"
    unfolding advance_def by (intro request_value_fold)
  then show "map (request_value (advance spec ?f request)) (input_tokens spec) ! i = ?f ! i"
    using i len following_present [OF assms(2), of "?f ! i" spec page] by auto
qed

lemma advanced_request_tokens:
  assumes "well_formed_spec spec" and "cursors_present A"
  shows "request_tokens A spec (advance spec (following_tokens A spec page) request) =
    map (snapshot A) (following_tokens A spec page)"
proof -
  have "request_tokens A spec r = map (snapshot A) (map (request_value r) (input_tokens spec))" for r
    by (simp add: request_tokens_def)
  then show ?thesis by (simp only: advanced_tokens [OF assms])
qed

lemma advanced_others:
  "k \<notin> set (input_tokens spec) \<Longrightarrow> request_value (advance spec following request) k = request_value request k"
  unfolding advance_def by (intro request_value_fold_other) (auto dest: set_zip_leftD)

text \<open>The generator's variables: while it runs, \<open>previous\<close> are the tokens of the request it makes next.\<close>

definition in_step :: "page_api \<Rightarrow> pagination_spec \<Rightarrow> pager \<Rightarrow> bool" where
  "in_step A spec pg \<longleftrightarrow> pg_finished pg \<or> pg_previous pg = request_tokens A spec (pg_request pg)"

lemma paginate_in_step: "in_step A spec (paginate A spec params)"
  by (simp add: in_step_def paginate_def)

lemma next_page_continues:
  assumes "well_formed_spec spec" and "cursors_present A" and "in_step A spec pg"
    and "next_page A spec call pg w = (r, pg', w')" and "\<not> pg_finished pg'"
  obtains page where "\<not> pg_finished pg" and "r = Inr page" and "call (pg_request pg) w = (Inr page, w')"
    and "\<not> last_page A spec page"
    and "pg_request pg' = advance spec (following_tokens A spec page) (pg_request pg)"
    and "\<not> list_all2 py_eq (following_tokens A spec page) (request_tokens A spec (pg_request pg))"
    and "request_tokens A spec (pg_request pg') = map (snapshot A) (following_tokens A spec page)"
proof -
  from assms(4,5) obtain page where page: "\<not> pg_finished pg" "r = Inr page" "call (pg_request pg) w = (Inr page, w')"
      "\<not> last_page A spec page" "\<not> list_all2 py_eq (following_tokens A spec page) (pg_previous pg)"
      "pg' = pg\<lparr>pg_request := advance spec (following_tokens A spec page) (pg_request pg),
        pg_previous := map (snapshot A) (following_tokens A spec page)\<rparr>"
    by (auto simp: next_page_def Let_def split: if_splits prod.splits sum.splits)
  with advanced_request_tokens [OF assms(1,2)]
  have "request_tokens A spec (pg_request pg') = map (snapshot A) (following_tokens A spec page)" by simp
  with that [OF page(1-4)] page(1,5,6) assms(3) show thesis by (simp add: in_step_def)
qed

lemma next_page_in_step:
  assumes "well_formed_spec spec" and "cursors_present A" and "in_step A spec pg"
    and "next_page A spec call pg w = (r, pg', w')"
  shows "in_step A spec pg'"
proof (cases "pg_finished pg'")
  case False
  obtain page where "pg_previous pg' = map (snapshot A) (following_tokens A spec page)"
    and "request_tokens A spec (pg_request pg') = map (snapshot A) (following_tokens A spec page)"
  proof (rule next_page_continues [OF assms False])
    fix page assume p: "\<not> pg_finished pg" "call (pg_request pg) w = (Inr page, w')"
      and t: "request_tokens A spec (pg_request pg') = map (snapshot A) (following_tokens A spec page)"
    have "pg_previous pg' = map (snapshot A) (following_tokens A spec page)"
      using assms(4) False p by (auto simp: next_page_def Let_def split: if_splits)
    with t that show thesis by blast
  qed
  then show ?thesis by (simp add: in_step_def)
qed (simp add: in_step_def)

lemma pages_finished: "pg_finished pg \<Longrightarrow> pages n A spec call pg w = (replicate n (Inl stop_async_iteration), [], pg, w)"
  by (induction n) (simp_all add: next_page_def)

lemma pages_first: "pages n A spec call pg w = (rs, requests, pg', w') \<Longrightarrow> requests \<noteq> [] \<Longrightarrow>
    \<not> pg_finished pg \<and> hd requests = pg_request pg"
proof (induction n arbitrary: pg w rs requests)
  case (Suc n)
  show ?case
  proof (cases "pg_finished pg")
    case True
    with Suc.prems show ?thesis by (simp add: pages_finished del: pages.simps)
  next
    case False
    with Suc.prems show ?thesis by (auto simp: Let_def split: prod.splits)
  qed
qed simp

lemma pages_in_step:
  assumes "well_formed_spec spec" and "cursors_present A"
  shows "in_step A spec pg \<Longrightarrow> pages n A spec call pg w = (rs, requests, pg', w') \<Longrightarrow> Suc i < length requests \<Longrightarrow>
    \<not> list_all2 py_eq (map (request_value (requests ! Suc i)) (input_tokens spec)) (request_tokens A spec (requests ! i))
    \<and> (\<forall>k. k \<notin> set (input_tokens spec) \<longrightarrow> request_value (requests ! Suc i) k = request_value (pg_request pg) k)"
proof (induction n arbitrary: pg w rs requests i)
  case (Suc n)
  obtain r pg1 w1 where one: "next_page A spec call pg w = (r, pg1, w1)" by (cases "next_page A spec call pg w")
  obtain rs' requests' where rest: "pages n A spec call pg1 w1 = (rs', requests', pg', w')"
    and requests: "requests = (if pg_finished pg then [] else [pg_request pg]) @ requests'"
    using Suc.prems(2) one by (auto split: prod.splits)
  have some: "requests' \<noteq> []" using Suc.prems(3) requests by (auto split: if_splits)
  from pages_first [OF rest some] have running: "\<not> pg_finished pg1" and first: "hd requests' = pg_request pg1" by auto
  obtain page where started: "\<not> pg_finished pg"
    and next_request: "pg_request pg1 = advance spec (following_tokens A spec page) (pg_request pg)"
    and new: "\<not> list_all2 py_eq (following_tokens A spec page) (request_tokens A spec (pg_request pg))"
    by (rule next_page_continues [OF assms Suc.prems(1) one running])
  have others: "k \<notin> set (input_tokens spec) \<Longrightarrow> request_value (pg_request pg1) k = request_value (pg_request pg) k" for k
    using next_request advanced_others by simp
  show ?case
  proof (cases i)
    case 0
    have "requests ! Suc 0 = pg_request pg1" "requests ! 0 = pg_request pg"
      using requests started some first by (simp_all add: hd_conv_nth)
    with 0 new next_request others advanced_tokens [OF assms] show ?thesis by simp
  next
    case (Suc j)
    have "in_step A spec pg1" by (rule next_page_in_step [OF assms Suc.prems(1) one])
    from Suc.IH [OF this rest, of j] Suc.prems(3) show ?thesis
      using requests started Suc others by simp
  qed
qed simp

lemma pages_end:
  assumes "well_formed_spec spec" and "cursors_present A"
    and progress: "\<And>request w page w'. call request w = (Inr page, w') \<Longrightarrow> \<not> last_page A spec page \<Longrightarrow>
      \<mu> (map (snapshot A) (following_tokens A spec page)) < \<mu> (request_tokens A spec request)"
  shows "in_step A spec pg \<Longrightarrow> \<mu> (request_tokens A spec (pg_request pg)) < n \<Longrightarrow>
    pages n A spec call pg w = (rs, requests, pg', w') \<Longrightarrow> pg_finished pg'"
proof (induction n arbitrary: pg w rs requests)
  case (Suc n)
  obtain r pg1 w1 where one: "next_page A spec call pg w = (r, pg1, w1)" by (cases "next_page A spec call pg w")
  obtain rs' requests' where rest: "pages n A spec call pg1 w1 = (rs', requests', pg', w')"
    using Suc.prems(3) one by (auto split: prod.splits)
  show ?case
  proof (cases "pg_finished pg1")
    case True
    with rest show ?thesis by (simp add: pages_finished)
  next
    case False
    obtain page where "call (pg_request pg) w = (Inr page, w1)" "\<not> last_page A spec page"
      and "request_tokens A spec (pg_request pg1) = map (snapshot A) (following_tokens A spec page)"
      by (rule next_page_continues [OF assms(1,2) Suc.prems(1) one False])
    with progress have "\<mu> (request_tokens A spec (pg_request pg1)) < \<mu> (request_tokens A spec (pg_request pg))" by simp
    with Suc.prems(2) have "\<mu> (request_tokens A spec (pg_request pg1)) < n" by simp
    from Suc.IH [OF next_page_in_step [OF assms(1,2) Suc.prems(1) one] this rest] show ?thesis .
  qed
qed simp

text \<open>
  A server that hands out \<open>N\<close> pages: whoever asks with the tokens of page \<open>j\<close> gets page \<open>j\<close>, which
  carries the tokens of page \<open>j + 1\<close>, other than its own. Then the generator gives all of them, in
  order, whatever the calls do to the world as long as they keep the server's promise.
\<close>

lemma pages_in_order:
  fixes page :: "nat \<Rightarrow> pyval" and tokens :: "nat \<Rightarrow> pyval list" and good :: "nat \<Rightarrow> 'w \<Rightarrow> bool"
  assumes "well_formed_spec spec" and "cursors_present A"
    and chain: "\<And>j. Suc j < N \<Longrightarrow> \<not> last_page A spec (page j)
      \<and> following_tokens A spec (page j) = tokens (Suc j)
      \<and> \<not> list_all2 py_eq (tokens (Suc j)) (map (snapshot A) (tokens j))"
    and final: "\<And>j. Suc j = N \<Longrightarrow> last_page A spec (page j)"
    and serve: "\<And>j request w. j < N \<Longrightarrow> map (request_value request) (input_tokens spec) = tokens j \<Longrightarrow>
      (\<And>k. k \<notin> set (input_tokens spec) \<Longrightarrow> request_value request k = request_value params k) \<Longrightarrow> good j w \<Longrightarrow>
      \<exists>w'. call request w = (Inr (page j), w') \<and> good (Suc j) w'"
  shows "i + n = N \<Longrightarrow> 0 < n \<Longrightarrow> \<not> pg_finished pg \<Longrightarrow> pg_previous pg = request_tokens A spec (pg_request pg) \<Longrightarrow>
    map (request_value (pg_request pg)) (input_tokens spec) = tokens i \<Longrightarrow>
    (\<And>k. k \<notin> set (input_tokens spec) \<Longrightarrow> request_value (pg_request pg) k = request_value params k) \<Longrightarrow> good i w \<Longrightarrow>
    \<exists>requests pg' w'. pages (n + m) A spec call pg w =
        (map (\<lambda>j. Inr (page j)) [i..<N] @ replicate m (Inl stop_async_iteration), requests, pg', w')
      \<and> length requests = n \<and> pg_finished pg' \<and> good N w'"
proof (induction n arbitrary: i pg w)
  case (Suc n)
  from Suc.prems(1) have i: "i < N" by simp
  obtain w1 where call: "call (pg_request pg) w = (Inr (page i), w1)" and good: "good (Suc i) w1"
    using serve [OF i Suc.prems(5) Suc.prems(6) Suc.prems(7)] by blast
  have upt: "[i..<N] = i # [Suc i..<N]" using i by (rule upt_conv_Cons)
  show ?case
  proof (cases "n = 0")
    case True
    with Suc.prems(1) final [of i] have "next_page A spec call pg w = (Inr (page i), pg\<lparr>pg_finished := True\<rparr>, w1)"
      using Suc.prems(3) call by (simp add: next_page_def Let_def)
    with True Suc.prems(1,3) good show ?thesis by (simp add: upt pages_finished)
  next
    case False
    let ?f = "following_tokens A spec (page i)"
    let ?pg = "pg\<lparr>pg_request := advance spec ?f (pg_request pg), pg_previous := map (snapshot A) ?f\<rparr>"
    from False Suc.prems(1) chain [of i] have step: "\<not> last_page A spec (page i)"
      "?f = tokens (Suc i)" "\<not> list_all2 py_eq ?f (map (snapshot A) (tokens i))" by auto
    from Suc.prems(4,5) have previous: "pg_previous pg = map (snapshot A) (tokens i)"
      by (simp add: request_tokens_def flip: Suc.prems(5))
    have one: "next_page A spec call pg w = (Inr (page i), ?pg, w1)"
      using Suc.prems(3) previous call step(1,3) by (simp add: next_page_def Let_def)
    have tokens: "map (request_value (pg_request ?pg)) (input_tokens spec) = tokens (Suc i)"
      using advanced_tokens [OF assms(1,2), of "page i" "pg_request pg"] by (simp add: step(2))
    have in_step: "pg_previous ?pg = request_tokens A spec (pg_request ?pg)"
      using advanced_request_tokens [OF assms(1,2)] by simp
    have others: "request_value (pg_request ?pg) k = request_value params k" if "k \<notin> set (input_tokens spec)" for k
      using that Suc.prems(6) by (simp add: advanced_others)
    obtain requests pg' w' where rest: "pages (n + m) A spec call ?pg w1 =
        (map (\<lambda>j. Inr (page j)) [Suc i..<N] @ replicate m (Inl stop_async_iteration), requests, pg', w')"
      "length requests = n" "pg_finished pg'" "good N w'"
      using Suc.IH [OF _ _ _ in_step tokens others good] Suc.prems(1,3) False by auto
    from one rest Suc.prems(3) show ?thesis by (simp add: upt)
  qed
qed simp

section \<open>Properties\<close>

text \<open>
  A paginator never asks for the same page twice in a row. Whatever the operation answers, two
  consecutive requests differ in the values of the continuation parameters, as Python compares
  them, and in nothing else: every other parameter is the one the application gave.
\<close>

lemma pages_progress:
  assumes "well_formed_spec spec" and "cursors_present A"
    and "pages n A spec call (paginate A spec params) w = (rs, requests, pg, w')" and "Suc i < length requests"
  shows "\<not> list_all2 py_eq (map (request_value (requests ! Suc i)) (input_tokens spec)) (request_tokens A spec (requests ! i))
    \<and> (\<forall>k. k \<notin> set (input_tokens spec) \<longrightarrow> request_value (requests ! Suc i) k = request_value params k)"
  using pages_in_step [OF assms(1,2) paginate_in_step assms(3,4)] by (simp add: paginate_def)

definition plain_pages :: page_api where
  "plain_pages = \<lparr>page_attr = (\<lambda>v k. PyNone), cursor_dict = (\<lambda>v. None)\<rparr>"

definition example_spec :: pagination_spec where
  "example_spec = \<lparr>input_tokens = [''marker''], output_tokens = [[[Name ''next'']]], more_results = None\<rparr>"

definition counting :: "(string \<times> pyval) list \<Rightarrow> unit \<Rightarrow> pyval pyresult \<times> unit" where
  "counting request w = (Inr (PyDict
     (case request_value request ''marker'' of PyInt n \<Rightarrow> if n < 3 then [(PyStr ''next'', PyInt (n + 1))] else [] | _ \<Rightarrow> [])), w)"

lemma example_spec_ok [simp]: "well_formed_spec example_spec" "cursors_present plain_pages"
  by (simp_all add: well_formed_spec_def example_spec_def cursors_present_def plain_pages_def)

text \<open>
  C25: a paginator ends when the server makes progress. If the continuation tokens of every page that
  is not the last are smaller than those it was asked with, under some measure, the generator has
  finished after at most one resumption more than the measure of the first request.
\<close>

theorem pagination_ends:
  assumes "well_formed_spec spec" and "cursors_present A"
    and "\<And>request w page w'. call request w = (Inr page, w') \<Longrightarrow> \<not> last_page A spec page \<Longrightarrow>
      \<mu> (map (snapshot A) (following_tokens A spec page)) < \<mu> (request_tokens A spec request)"
  shows "pg_finished (fst (snd (snd (pages (Suc (\<mu> (request_tokens A spec params))) A spec call (paginate A spec params) w))))"
proof -
  let ?n = "Suc (\<mu> (request_tokens A spec params))"
  obtain rs requests pg w' where p: "pages ?n A spec call (paginate A spec params) w = (rs, requests, pg, w')"
    by (cases "pages ?n A spec call (paginate A spec params) w")
  have "pg_finished pg"
    by (rule pages_end [where \<mu> = \<mu>, OF assms paginate_in_step _ p]) (simp_all add: paginate_def)
  with p show ?thesis by (simp del: pages.simps)
qed

theorem pagination_ends_witness:
  "pg_finished (fst (snd (snd (pages 3 plain_pages example_spec counting
      (paginate plain_pages example_spec [(''marker'', PyInt 1)]) ()))))"
proof -
  let ?\<mu> = "\<lambda>ts. case ts of [PyInt n] \<Rightarrow> nat (3 - n) | _ \<Rightarrow> 0"
  have "?\<mu> (map (snapshot plain_pages) (following_tokens plain_pages example_spec page))
      < ?\<mu> (request_tokens plain_pages example_spec request)"
    if called: "counting request w = (Inr page, w')" and more: "\<not> last_page plain_pages example_spec page"
    for request w page w'
  proof -
    have last: "last_page plain_pages example_spec (PyDict [])"
      by (simp add: example_spec_def last_page_def has_more_def following_tokens_def argument_def)
    with called more obtain n where n: "request_value request ''marker'' = PyInt n" "n < 3"
      by (cases "request_value request ''marker''") (auto simp: counting_def split: if_splits)
    with called have "page = PyDict [(PyStr ''next'', PyInt (n + 1))]" by (simp add: counting_def)
    with n show ?thesis
      by (simp add: example_spec_def following_tokens_def request_tokens_def argument_def)
  qed
  from pagination_ends [OF example_spec_ok, where call = counting and \<mu> = ?\<mu> and params = "[(''marker'', PyInt 1)]", OF this] show ?thesis
    by (simp add: request_tokens_def example_spec_def request_value_def numeral_3_eq_3 del: pages.simps)
qed

end
