(* ===== verification/ClientPages.thy ===== *)
theory ClientPages
  imports Service Pagination
begin

text \<open>
  Paginators over a client: the generator of \<open>Pagination\<close> calls an operation of a client handle, and
  every response is a new object of the operation's response class. What a server has to promise for
  all its pages to arrive is stated once here, for the paginators of every service.
\<close>

text \<open>
  The objects an application has made so far are numbered in order. \<open>paged_call\<close>: the generator's call
  is the operation on the client handle; where the operation returns, a new object holds the response.
\<close>

definition paged_call :: "string \<Rightarrow>
    ((string \<times> pyval) list \<Rightarrow> 'c \<Rightarrow> ('o pyresult \<times> 'c \<times> pydict option) option) \<Rightarrow>
    ((string \<times> pyval) list \<Rightarrow> 'c \<times> 'o list \<Rightarrow> pyval pyresult \<times> 'c \<times> 'o list) \<Rightarrow> bool" where
  "paged_call cls operation call \<longleftrightarrow>
     (\<forall>request c made r c' published. operation request c = Some (Inr r, c', published) \<longrightarrow>
        call request (c, made) = (Inr (PyObject cls (length made)), (c', made @ [r])))"

lemma client_pages:
  fixes outs :: "'o list" and c :: "'client client_handle"
  assumes "well_formed_spec spec" and "cursors_present A" and "paged_call cls operation call"
    and "\<not> ch_closed c" and "get_client E (ch_state c) = Some (Inr client, st)" and "outs \<noteq> []"
    and chain: "\<And>j. Suc j < length outs \<Longrightarrow> \<not> last_page A spec (PyObject cls j)
      \<and> following_tokens A spec (PyObject cls j) = tokens (Suc j)
      \<and> \<not> list_all2 py_eq (tokens (Suc j)) (map (snapshot A) (tokens j))"
    and final: "last_page A spec (PyObject cls (length outs - 1))"
    and first: "map (request_value params) (input_tokens spec) = tokens 0"
    and runs: "\<And>j request c. j < length outs \<Longrightarrow> map (request_value request) (input_tokens spec) = tokens j \<Longrightarrow>
      (\<And>k. k \<notin> set (input_tokens spec) \<Longrightarrow> request_value request k = request_value params k) \<Longrightarrow>
      \<not> ch_closed c \<Longrightarrow> get_client E (ch_state c) = Some (Inr client, st) \<Longrightarrow>
      \<exists>published. operation request c = Some (Inr (outs ! j), c\<lparr>ch_state := st\<rparr>, published)"
  shows "\<exists>requests pg c'. pages (length outs + m) A spec call (paginate A spec params) (c, []) =
    (map (\<lambda>j. Inr (PyObject cls j)) [0..<length outs] @ replicate m (Inl stop_async_iteration), requests, pg, (c', outs))
    \<and> length requests = length outs \<and> pg_finished pg \<and> ch_state c' = st"
proof -
  let ?N = "length outs"
  define good where "good j w \<longleftrightarrow> snd w = take j outs \<and> \<not> ch_closed (fst w)
      \<and> get_client E (ch_state (fst w)) = Some (Inr client, st) \<and> (0 < j \<longrightarrow> ch_state (fst w) = st)"
    for j and w :: "'client client_handle \<times> 'o list"
  have client: "get_client E st = Some (Inr client, st)"
    using get_client_stays [OF assms(5)] by (simp add: get_client_def)
  have serve: "\<exists>w'. call request w = (Inr (PyObject cls j), w') \<and> good (Suc j) w'"
    if "j < ?N" and "map (request_value request) (input_tokens spec) = tokens j"
      and "\<And>k. k \<notin> set (input_tokens spec) \<Longrightarrow> request_value request k = request_value params k"
      and "good j w" for j request w
  proof -
    obtain c1 made where w: "w = (c1, made)" by (cases w)
    from that(4) w have made: "made = take j outs" and open_c: "\<not> ch_closed c1"
      and built: "get_client E (ch_state c1) = Some (Inr client, st)" by (auto simp: good_def)
    from runs [OF that(1,2) _ open_c built] that(3) obtain published where
      "operation request c1 = Some (Inr (outs ! j), c1\<lparr>ch_state := st\<rparr>, published)" by blast
    with assms(3) have "call request (c1, made) = (Inr (PyObject cls (length made)), (c1\<lparr>ch_state := st\<rparr>, made @ [outs ! j]))"
      by (simp add: paged_call_def)
    with w made that(1) open_c client show ?thesis by (auto simp: good_def take_Suc_conv_app_nth)
  qed
  have last: "last_page A spec (PyObject cls j)" if "Suc j = ?N" for j
    using final that [symmetric] by simp
  have "\<exists>requests pg' w'. pages (?N + m) A spec call (paginate A spec params) (c, []) =
      (map (\<lambda>j. Inr (PyObject cls j)) [0..<?N] @ replicate m (Inl stop_async_iteration), requests, pg', w')
      \<and> length requests = ?N \<and> pg_finished pg' \<and> good ?N w'"
    by (rule pages_in_order [where page = "PyObject cls" and tokens = tokens and good = good and call = call
          and N = ?N and i = 0 and n = ?N, OF assms(1,2) chain last serve])
      (use assms(4-6) first in \<open>auto simp: paginate_def good_def\<close>)
  with assms(6) show ?thesis by (auto simp: good_def)
qed

section \<open>Keyword arguments\<close>

text \<open>
  A generated paginator starts from a dictionary with the required parameter and the optional ones that
  are not \<open>None\<close>; the client's method gets its entries as keyword arguments, \<open>None\<close> when one is
  missing, and builds the parameters of the operation from them.
\<close>

definition page_arguments :: "string \<times> pyval \<Rightarrow> (string \<times> pyval) list \<Rightarrow> (string \<times> pyval) list" where
  "page_arguments required optional = required # filter (\<lambda>(name, v). v \<noteq> PyNone) optional"

definition keyword_arguments :: "string \<Rightarrow> string list \<Rightarrow> (string \<times> pyval) list \<Rightarrow> pydict" where
  "keyword_arguments required optional request = py_params
     [(required, request_value request required)] (map (\<lambda>k. (k, request_value request k)) optional)"

lemma page_arguments_value:
  "distinct (map fst (r # kvs)) \<Longrightarrow> request_value (page_arguments r kvs) k = request_value (r # kvs) k"
  by (cases r) (auto simp: page_arguments_def request_value_def map_of_filter_given split: option.splits)

lemma page_arguments_given:
  "distinct (map fst (r # kvs)) \<Longrightarrow> (k, v) \<in> set (r # kvs) \<Longrightarrow> request_value (page_arguments r kvs) k = v"
  by (simp only: page_arguments_value) (simp only: request_value_def map_of_is_SomeI option.case)

lemma keyword_arguments_of_pages:
  assumes "distinct (map fst ((n, v) # kvs))" and "n \<noteq> t"
    and "\<And>k. k \<noteq> t \<Longrightarrow> request_value request k = request_value (page_arguments (n, v) kvs) k"
  shows "keyword_arguments n (map fst kvs) request =
    py_params [(n, v)] (map (\<lambda>(k, w). (k, if k = t then request_value request t else w)) kvs)"
proof -
  have "request_value request k = (if k = t then request_value request t else w)"
    if "(k, w) \<in> set ((n, v) # kvs)" for k w
    using assms(3) [of k] page_arguments_given [OF assms(1) that] by auto
  from this [of n v] this have "request_value request n = v"
    "map (\<lambda>k. (k, request_value request k)) (map fst kvs) =
      map (\<lambda>(k, w). (k, if k = t then request_value request t else w)) kvs"
    using assms(2) by auto
  then show ?thesis by (simp only: keyword_arguments_def)
qed

end
