(* ===== verification/S3Listing.thy ===== *)
theory S3Listing
  imports S3Transfer ClientPages
begin

text \<open>
  Listing a bucket: the generated paginator of \<open>ListObjectsV2\<close>
  (\<open>packages/rboto-s3/python/rboto_s3/paginators.py\<close>) over the operation of \<open>S3\<close> and the generator
  of \<open>Pagination\<close>, from the keyword arguments of the application to the responses of the SDK.
\<close>

section \<open>The paginator\<close>

text \<open>The dictionary \<open>paginators.list_objects_v2\<close> starts from.\<close>

definition list_objects_v2_options :: "list_objects_v2_input \<Rightarrow> (string \<times> pyval) list" where
  "list_objects_v2_options i =
     [(''delimiter'', opt_to_py PyStr (klovi_delimiter i)),
      (''encoding_type'', opt_to_py PyStr (klovi_encoding_type i)),
      (''max_keys'', opt_to_py i32_to_py (klovi_max_keys i)),
      (''prefix'', opt_to_py PyStr (klovi_prefix i)),
      (''continuation_token'', opt_to_py PyStr (klovi_continuation_token i)),
      (''fetch_owner'', opt_to_py PyBool (klovi_fetch_owner i)),
      (''start_after'', opt_to_py PyStr (klovi_start_after i)),
      (''request_payer'', opt_to_py PyStr (klovi_request_payer i)),
      (''expected_bucket_owner'', opt_to_py PyStr (klovi_expected_bucket_owner i)),
      (''optional_object_attributes'', opt_to_py (seq_to_py PyStr) (klovi_optional_object_attributes i))]"

definition list_objects_v2_pages :: "list_objects_v2_input \<Rightarrow> (string \<times> pyval) list" where
  "list_objects_v2_pages i =
     page_arguments (''bucket'', opt_to_py PyStr (klovi_bucket i)) (list_objects_v2_options i)"

definition list_objects_v2_spec :: pagination_spec where
  "list_objects_v2_spec = \<lparr>input_tokens = [''continuation_token''],
     output_tokens = [[[Name ''next_continuation_token'']]], more_results = Some [Name ''is_truncated'']\<rparr>"

text \<open>\<open>client.list_objects_v2(**request)\<close>: the keyword arguments become the operation's parameters.\<close>

definition list_objects_v2_kwargs :: "(string \<times> pyval) list \<Rightarrow> pydict" where
  "list_objects_v2_kwargs = keyword_arguments ''bucket''
     [''delimiter'', ''encoding_type'', ''max_keys'', ''prefix'', ''continuation_token'', ''fetch_owner'',
      ''start_after'', ''request_payer'', ''expected_bucket_owner'', ''optional_object_attributes'']"

text \<open>Responses are objects, numbered in the order they were made; the generator reads their attributes.\<close>

definition listing_page :: "nat \<Rightarrow> pyval" where
  "listing_page n = PyObject ''ListObjectsV2Output'' n"

definition listing_api :: "((string, pyval) fmap \<Rightarrow> (string \<times> pyval) list) \<Rightarrow> s3_types \<Rightarrow> list_objects_v2_output list \<Rightarrow> page_api" where
  "listing_api order S outs =
     \<lparr>page_attr = (\<lambda>v k. case v of
          PyObject c n \<Rightarrow> (case map_of (list_objects_v2_output_attributes order S (outs ! n)) k of
             Some (S3Plain u) \<Rightarrow> u
           | _ \<Rightarrow> PyNone)
        | _ \<Rightarrow> PyNone),
      cursor_dict = (\<lambda>v. case v of
          PyObject c n \<Rightarrow> Some (list_objects_v2_output_to_dict order S (outs ! n))
        | _ \<Rightarrow> None)\<rparr>"

lemma listing_spec_ok: "well_formed_spec list_objects_v2_spec"
  by (simp add: well_formed_spec_def list_objects_v2_spec_def)

lemma py_dict_nonempty: "(k, v) \<in> set kvs \<Longrightarrow> py_dict kvs \<noteq> []"
  using map_of_py_dict [of kvs k] weak_map_of_SomeI [of k v "rev kvs"] by auto

lemma listing_api_ok: "cursors_present (listing_api order S outs)"
  by (auto simp: cursors_present_def listing_api_def list_objects_v2_output_to_dict_def
      split: pyval.splits dest!: py_dict_nonempty [OF list.set_intros(1), THEN notE])

lemma listing_reads:
  "read_path (listing_api order S outs) (listing_page n) [Name ''is_truncated''] =
     opt_to_py PyBool (klovo_is_truncated (outs ! n))"
  "read_path (listing_api order S outs) (listing_page n) [Name ''next_continuation_token''] =
     opt_to_py PyStr (klovo_next_continuation_token (outs ! n))"
  by (simp_all add: listing_api_def listing_page_def list_objects_v2_output_attributes_def)

lemma listing_following:
  "following_tokens (listing_api order S outs) list_objects_v2_spec (listing_page n) =
     [case klovo_next_continuation_token (outs ! n) of None \<Rightarrow> PyNone | Some t \<Rightarrow> if t = [] then PyNone else PyStr t]"
  by (simp add: following_tokens_def list_objects_v2_spec_def listing_reads opt_to_py_def Let_def
      del: read_path.simps split: option.splits)

lemma listing_last:
  "last_page (listing_api order S outs) list_objects_v2_spec (listing_page n) \<longleftrightarrow>
     klovo_is_truncated (outs ! n) \<noteq> Some True \<or> klovo_next_continuation_token (outs ! n) \<in> {None, Some []}"
proof -
  have "more_results list_objects_v2_spec = Some [Name ''is_truncated'']" by (simp add: list_objects_v2_spec_def)
  then show ?thesis
    by (auto simp: last_page_def has_more_def listing_following listing_reads opt_to_py_def
        simp del: read_path.simps split: option.splits)
qed

lemma list_objects_v2_kwargs_call:
  assumes "\<And>k. k \<noteq> ''continuation_token'' \<Longrightarrow> request_value request k = request_value (list_objects_v2_pages i) k"
    and "request_value request ''continuation_token'' = opt_to_py PyStr t"
  shows "list_objects_v2_kwargs request = list_objects_v2_call (i\<lparr>klovi_continuation_token := t\<rparr>)"
proof -
  let ?r = "(''bucket'', opt_to_py PyStr (klovi_bucket i))" and ?o = "list_objects_v2_options i"
  have "list_objects_v2_kwargs request = keyword_arguments ''bucket'' (map fst ?o) request"
    by (simp add: list_objects_v2_kwargs_def list_objects_v2_options_def)
  also have "\<dots> = py_params [?r] (map (\<lambda>(k, w). (k, if k = ''continuation_token'' then opt_to_py PyStr t else w)) ?o)"
    using assms(1)
    by (subst keyword_arguments_of_pages [where t = "''continuation_token''" and v = "snd ?r"])
      (simp_all add: list_objects_v2_pages_def list_objects_v2_options_def assms(2))
  also have "\<dots> = list_objects_v2_call (i\<lparr>klovi_continuation_token := t\<rparr>)"
    by (simp add: list_objects_v2_options_def list_objects_v2_call_def)
  finally show ?thesis .
qed

lemma list_objects_v2_runs:
  assumes "pyo3_laws P" and "s3_types_laws S" and "\<not> ch_closed c"
    and "get_client E (ch_state c) = Some (Inr client, st)" and "send client i = (attempts, Inr output)"
  shows "list_objects_v2 E P S (Inr ()) False send c (list_objects_v2_call i) None = Some (Inr output, c\<lparr>ch_state := st\<rparr>, None)"
proof -
  note conv = s3_conversions.intro [OF assms(1,2) s3_conversions_axioms.intro, OF iterates_by_key]
  show ?thesis
    unfolding list_objects_v2_def s3_conversions.list_objects_v2_delivered [OF conv]
    by (subst execute_open [OF assms(3,4), where send = send, OF assms(5)]) simp
qed

text \<open>
  C21: a listing is complete. Against a bucket whose pages are \<open>outs\<close> (asked with the token of page
  \<open>j\<close>, the service answers page \<open>j\<close>; every page but the last is truncated and names the token of the
  page after it, which is not empty and not the token it was asked with), iterating the paginator of
  \<open>ListObjectsV2\<close> yields the responses of all pages, each once, in order, and then stops; the
  parameters of the application reach the SDK with every request, and one client is built for all.
\<close>

theorem listing_is_complete:
  fixes outs :: "list_objects_v2_output list" and c :: "'client client_handle" and token :: "nat \<Rightarrow> string option"
  assumes "pyo3_laws P" and "s3_types_laws S"
    and "\<not> ch_closed c" and "get_client E (ch_state c) = Some (Inr client, st)"
    and answers: "\<And>j. j < length outs \<Longrightarrow> \<exists>attempts.
      send client (i\<lparr>klovi_continuation_token := token j\<rparr>) = (attempts, Inr (outs ! j))"
    and first: "token 0 = klovi_continuation_token i" and "outs \<noteq> []"
    and chain: "\<And>j. Suc j < length outs \<Longrightarrow> klovo_is_truncated (outs ! j) = Some True
      \<and> klovo_next_continuation_token (outs ! j) = token (Suc j) \<and> token (Suc j) \<notin> {None, Some [], token j}"
    and last: "klovo_is_truncated (last outs) \<noteq> Some True"
    and call: "paged_call ''ListObjectsV2Output''
      (\<lambda>request c. list_objects_v2 E P S (Inr ()) False send c (list_objects_v2_kwargs request) None) call"
  shows "\<exists>requests pg c'. pages (length outs + m) (listing_api order S outs) list_objects_v2_spec call
      (paginate (listing_api order S outs) list_objects_v2_spec (list_objects_v2_pages i)) (c, []) =
    (map (\<lambda>j. Inr (listing_page j)) [0..<length outs] @ replicate m (Inl stop_async_iteration), requests, pg, (c', outs))
    \<and> length requests = length outs \<and> pg_finished pg \<and> ch_state c' = st"
  unfolding listing_page_def
proof (rule client_pages [where tokens = "\<lambda>j. [opt_to_py PyStr (token j)]",
      OF listing_spec_ok listing_api_ok call assms(3,4,7)], fold listing_page_def)
  let ?A = "listing_api order S outs"
  have "request_value (list_objects_v2_pages i) ''continuation_token'' = opt_to_py PyStr (token 0)"
    unfolding list_objects_v2_pages_def
    by (rule page_arguments_given) (simp_all add: list_objects_v2_options_def first)
  then show "map (request_value (list_objects_v2_pages i)) (input_tokens list_objects_v2_spec) = [opt_to_py PyStr (token 0)]"
    by (simp add: list_objects_v2_spec_def)
  show "last_page ?A list_objects_v2_spec (listing_page (length outs - 1))"
    using last last_conv_nth [OF assms(7)] by (simp add: listing_last)
next
  fix j request and c :: "'client client_handle"
  assume j: "j < length outs"
    and token: "map (request_value request) (input_tokens list_objects_v2_spec) = [opt_to_py PyStr (token j)]"
    and others: "\<And>k. k \<notin> set (input_tokens list_objects_v2_spec) \<Longrightarrow>
      request_value request k = request_value (list_objects_v2_pages i) k"
    and built: "\<not> ch_closed c" "get_client E (ch_state c) = Some (Inr client, st)"
  from token have "request_value request ''continuation_token'' = opt_to_py PyStr (token j)"
    by (simp add: list_objects_v2_spec_def)
  with others have kw: "list_objects_v2_kwargs request = list_objects_v2_call (i\<lparr>klovi_continuation_token := token j\<rparr>)"
    by (intro list_objects_v2_kwargs_call) (simp_all add: list_objects_v2_spec_def)
  from answers [OF j] obtain attempts where
    "send client (i\<lparr>klovi_continuation_token := token j\<rparr>) = (attempts, Inr (outs ! j))" ..
  from list_objects_v2_runs [where send = send, OF assms(1,2) built this, folded kw]
  show "\<exists>published. list_objects_v2 E P S (Inr ()) False send c (list_objects_v2_kwargs request) None =
      Some (Inr (outs ! j), c\<lparr>ch_state := st\<rparr>, published)" by blast
next
  fix j assume "Suc j < length outs"
  from chain [OF this] obtain t where t: "klovo_next_continuation_token (outs ! j) = Some t" "token (Suc j) = Some t"
    "t \<noteq> []" "token j \<noteq> Some t" and more: "klovo_is_truncated (outs ! j) = Some True"
    by (cases "token (Suc j)") auto
  have "following_tokens (listing_api order S outs) list_objects_v2_spec (listing_page j) = [PyStr t]"
    using t(1,3) by (simp add: listing_following)
  moreover have "snapshot (listing_api order S outs) (opt_to_py PyStr (token j)) = opt_to_py PyStr (token j)"
    "\<not> py_eq (PyStr t) (opt_to_py PyStr (token j))"
    using t(4) by (cases "token j"; simp add: opt_to_py_def)+
  ultimately show "\<not> last_page (listing_api order S outs) list_objects_v2_spec (listing_page j)
      \<and> following_tokens (listing_api order S outs) list_objects_v2_spec (listing_page j) = [opt_to_py PyStr (token (Suc j))]
      \<and> \<not> list_all2 py_eq [opt_to_py PyStr (token (Suc j))] (map (snapshot (listing_api order S outs)) [opt_to_py PyStr (token j)])"
    using t(1,2,3) more by (simp add: listing_last opt_to_py_def)
qed

definition example_list :: list_objects_v2_input where
  "example_list =
     \<lparr>klovi_bucket = Some ''b'', klovi_delimiter = None, klovi_encoding_type = None,
      klovi_max_keys = None, klovi_prefix = None, klovi_continuation_token = None,
      klovi_fetch_owner = None, klovi_start_after = None, klovi_request_payer = None,
      klovi_expected_bucket_owner = None, klovi_optional_object_attributes = None\<rparr>"

definition example_listed :: "string option \<Rightarrow> list_objects_v2_output" where
  "example_listed after =
     \<lparr>klovo_is_truncated = Some (after \<noteq> None), klovo_contents = None,
      klovo_name = None, klovo_prefix = None, klovo_delimiter = None, klovo_max_keys = None,
      klovo_common_prefixes = None, klovo_encoding_type = None, klovo_key_count = None,
      klovo_continuation_token = None, klovo_next_continuation_token = after,
      klovo_start_after = None, klovo_request_charged = None\<rparr>"

definition example_listing_send :: "nat \<Rightarrow> list_objects_v2_input \<Rightarrow>
    trip list \<times> ((string, http_response) sdk_error + list_objects_v2_output)" where
  "example_listing_send client i =
     ([], Inr (example_listed (if klovi_continuation_token i = None then Some ''t'' else None)))"

definition example_listing_call :: "(string \<times> pyval) list \<Rightarrow> nat client_handle \<times> list_objects_v2_output list \<Rightarrow>
    pyval pyresult \<times> nat client_handle \<times> list_objects_v2_output list" where
  "example_listing_call request w =
     (case list_objects_v2 example_env pyo3_std s3_std (Inr ()) False example_listing_send (fst w)
        (list_objects_v2_kwargs request) None of
        Some (Inr r, c, published) \<Rightarrow> (Inr (listing_page (length (snd w))), (c, snd w @ [r]))
      | Some (Inl e, c, published) \<Rightarrow> (Inl e, (c, snd w))
      | None \<Rightarrow> (Inl (runtime_error ''unloaded''), w))"

theorem listing_is_complete_witness:
  "fst (pages 3 (listing_api by_key s3_std [example_listed (Some ''t''), example_listed None]) list_objects_v2_spec
      example_listing_call
      (paginate (listing_api by_key s3_std [example_listed (Some ''t''), example_listed None]) list_objects_v2_spec
        (list_objects_v2_pages example_list)) (example_client, [])) =
    [Inr (listing_page 0), Inr (listing_page 1), Inl stop_async_iteration]"
proof -
  let ?outs = "[example_listed (Some ''t''), example_listed None]"
  let ?token = "\<lambda>j. if j = 0 then None else Some ''t''"
  have g: "get_client example_env (ch_state example_client) =
      Some (Inr 5, (ch_state example_client)\<lparr>cs_client := Some 5\<rparr>)"
    by (simp add: get_client_def example_env_def example_client_def)
  have o: "\<not> ch_closed example_client" by (simp add: example_client_def)
  have answers: "\<exists>attempts. example_listing_send 5 (example_list\<lparr>klovi_continuation_token := ?token j\<rparr>) =
      (attempts, Inr (?outs ! j))" if "j < length ?outs" for j
    using that by (auto simp: example_listing_send_def less_Suc_eq)
  have chain: "klovo_is_truncated (?outs ! j) = Some True
      \<and> klovo_next_continuation_token (?outs ! j) = ?token (Suc j) \<and> ?token (Suc j) \<notin> {None, Some [], ?token j}"
    if "Suc j < length ?outs" for j
    using that by (simp add: example_listed_def)
  have last: "klovo_is_truncated (last ?outs) \<noteq> Some True" by (simp add: example_listed_def)
  have call: "paged_call ''ListObjectsV2Output'' (\<lambda>request c. list_objects_v2 example_env pyo3_std s3_std (Inr ()) False
      example_listing_send c (list_objects_v2_kwargs request) None) example_listing_call"
    by (simp add: paged_call_def example_listing_call_def listing_page_def)
  have "?token 0 = klovi_continuation_token example_list" by (simp add: example_list_def)
  from listing_is_complete [where call = example_listing_call and order = by_key and m = 1 and token = ?token
      and outs = ?outs and send = example_listing_send and i = example_list,
      OF std.pyo3_laws_axioms std_s3.s3_types_laws_axioms o g answers this _ chain last call]
  show ?thesis by (auto simp: numeral_3_eq_3 upt_rec simp del: pages.simps)
qed

end
