(* ===== verification/DdbTypes.thy ===== *)
theory DdbTypes
  imports Bodies Dynamo
begin

text \<open>
  The structures of the DynamoDB extension, from \<open>crates/rboto-dynamodb/src/generated.rs\<close>: the converters
  between Python dictionaries and the SDK's structures, which are records with the members the code
  reads and sets. An enum of the SDK is its text, and \<open>order\<close> is the order in which the iterator of
  a \<open>HashMap\<close> yields its entries. The builders belong to the SDK and are the record \<open>dynamo_types\<close>.
\<close>

section \<open>Structures\<close>

record attribute_value_update =
  davu_value :: "attribute_value option"
  davu_action :: "string option"

record batch_statement_error =
  dbse_code :: "string option"
  dbse_message :: "string option"
  dbse_item :: "(string, attribute_value) fmap option"

record batch_statement_request =
  dbsr_statement :: string
  dbsr_parameters :: "attribute_value list option"
  dbsr_consistent_read :: "bool option"
  dbsr_return_values_on_condition_check_failure :: "string option"

record batch_statement_response =
  dbsr2_error :: "batch_statement_error option"
  dbsr2_table_name :: "string option"
  dbsr2_item :: "(string, attribute_value) fmap option"

record cancellation_reason =
  dcr_item :: "(string, attribute_value) fmap option"
  dcr_code :: "string option"
  dcr_message :: "string option"

record dynamo_capacity =
  dc_read_capacity_units :: "f64 option"
  dc_write_capacity_units :: "f64 option"
  dc_capacity_units :: "f64 option"

record dynamo_condition =
  dc2_attribute_value_list :: "attribute_value list option"
  dc2_comparison_operator :: string

record condition_check =
  dcc_key :: "(string, attribute_value) fmap"
  dcc_table_name :: string
  dcc_condition_expression :: string
  dcc_expression_attribute_names :: "(string, string) fmap option"
  dcc_expression_attribute_values :: "(string, attribute_value) fmap option"
  dcc_return_values_on_condition_check_failure :: "string option"

record vector_capacity =
  dvc_vector_search_request_bytes :: "f64 option"
  dvc_vector_write_request_bytes :: "f64 option"

record consumed_capacity =
  dcc2_table_name :: "string option"
  dcc2_capacity_units :: "f64 option"
  dcc2_read_capacity_units :: "f64 option"
  dcc2_write_capacity_units :: "f64 option"
  dcc2_table :: "dynamo_capacity option"
  dcc2_local_secondary_indexes :: "(string, dynamo_capacity) fmap option"
  dcc2_global_secondary_indexes :: "(string, dynamo_capacity) fmap option"
  dcc2_vector_indexes :: "(string, vector_capacity) fmap option"

record dynamo_delete =
  dd_key :: "(string, attribute_value) fmap"
  dd_table_name :: string
  dd_condition_expression :: "string option"
  dd_expression_attribute_names :: "(string, string) fmap option"
  dd_expression_attribute_values :: "(string, attribute_value) fmap option"
  dd_return_values_on_condition_check_failure :: "string option"

record delete_request =
  ddr_key :: "(string, attribute_value) fmap"

record expected_attribute_value =
  deav_value :: "attribute_value option"
  deav_exists :: "bool option"
  deav_comparison_operator :: "string option"
  deav_attribute_value_list :: "attribute_value list option"

record dynamo_get =
  dg_key :: "(string, attribute_value) fmap"
  dg_table_name :: string
  dg_projection_expression :: "string option"
  dg_expression_attribute_names :: "(string, string) fmap option"

record item_collection_metrics =
  dicm_item_collection_key :: "(string, attribute_value) fmap option"
  dicm_size_estimate_range_gb :: "f64 list option"

record item_response =
  dir_item :: "(string, attribute_value) fmap option"

record keys_and_attributes =
  dkaa_keys :: "(string, attribute_value) fmap list"
  dkaa_attributes_to_get :: "string list option"
  dkaa_consistent_read :: "bool option"
  dkaa_projection_expression :: "string option"
  dkaa_expression_attribute_names :: "(string, string) fmap option"

record parameterized_statement =
  dps_statement :: string
  dps_parameters :: "attribute_value list option"
  dps_return_values_on_condition_check_failure :: "string option"

record dynamo_put =
  dp_item :: "(string, attribute_value) fmap"
  dp_table_name :: string
  dp_condition_expression :: "string option"
  dp_expression_attribute_names :: "(string, string) fmap option"
  dp_expression_attribute_values :: "(string, attribute_value) fmap option"
  dp_return_values_on_condition_check_failure :: "string option"

record put_request =
  dpr_item :: "(string, attribute_value) fmap"

record dynamo_throttling_reason =
  dtr_reason :: "string option"
  dtr_resource :: "string option"

record transact_get_item =
  dtgi_get :: "dynamo_get option"

record dynamo_update =
  du_key :: "(string, attribute_value) fmap"
  du_update_expression :: string
  du_table_name :: string
  du_condition_expression :: "string option"
  du_expression_attribute_names :: "(string, string) fmap option"
  du_expression_attribute_values :: "(string, attribute_value) fmap option"
  du_return_values_on_condition_check_failure :: "string option"

record transact_write_item =
  dtwi_condition_check :: "condition_check option"
  dtwi_put :: "dynamo_put option"
  dtwi_delete :: "dynamo_delete option"
  dtwi_update :: "dynamo_update option"

record write_request =
  dwr_put_request :: "put_request option"
  dwr_delete_request :: "delete_request option"

record dynamo_types =
  dynamo_stack :: nat
  build_attribute_value_update :: "attribute_value option \<Rightarrow> string option \<Rightarrow> attribute_value_update"
  build_batch_statement_error :: "string option \<Rightarrow> string option \<Rightarrow> (string, attribute_value) fmap option \<Rightarrow> batch_statement_error"
  build_batch_statement_request :: "string option \<Rightarrow> attribute_value list option \<Rightarrow> bool option \<Rightarrow> string option \<Rightarrow> unit + batch_statement_request"
  build_batch_statement_response :: "batch_statement_error option \<Rightarrow> string option \<Rightarrow> (string, attribute_value) fmap option \<Rightarrow> batch_statement_response"
  build_cancellation_reason :: "(string, attribute_value) fmap option \<Rightarrow> string option \<Rightarrow> string option \<Rightarrow> cancellation_reason"
  build_capacity :: "f64 option \<Rightarrow> f64 option \<Rightarrow> f64 option \<Rightarrow> dynamo_capacity"
  build_condition :: "attribute_value list option \<Rightarrow> string option \<Rightarrow> unit + dynamo_condition"
  build_condition_check :: "(string, attribute_value) fmap option \<Rightarrow> string option \<Rightarrow> string option \<Rightarrow> (string, string) fmap option \<Rightarrow> (string, attribute_value) fmap option \<Rightarrow> string option \<Rightarrow> unit + condition_check"
  build_vector_capacity :: "f64 option \<Rightarrow> f64 option \<Rightarrow> vector_capacity"
  build_consumed_capacity :: "string option \<Rightarrow> f64 option \<Rightarrow> f64 option \<Rightarrow> f64 option \<Rightarrow> dynamo_capacity option \<Rightarrow> (string, dynamo_capacity) fmap option \<Rightarrow> (string, dynamo_capacity) fmap option \<Rightarrow> (string, vector_capacity) fmap option \<Rightarrow> consumed_capacity"
  build_dynamo_delete :: "(string, attribute_value) fmap option \<Rightarrow> string option \<Rightarrow> string option \<Rightarrow> (string, string) fmap option \<Rightarrow> (string, attribute_value) fmap option \<Rightarrow> string option \<Rightarrow> unit + dynamo_delete"
  build_delete_request :: "(string, attribute_value) fmap option \<Rightarrow> unit + delete_request"
  build_expected_attribute_value :: "attribute_value option \<Rightarrow> bool option \<Rightarrow> string option \<Rightarrow> attribute_value list option \<Rightarrow> expected_attribute_value"
  build_get :: "(string, attribute_value) fmap option \<Rightarrow> string option \<Rightarrow> string option \<Rightarrow> (string, string) fmap option \<Rightarrow> unit + dynamo_get"
  build_item_collection_metrics :: "(string, attribute_value) fmap option \<Rightarrow> f64 list option \<Rightarrow> item_collection_metrics"
  build_item_response :: "(string, attribute_value) fmap option \<Rightarrow> item_response"
  build_keys_and_attributes :: "(string, attribute_value) fmap list option \<Rightarrow> string list option \<Rightarrow> bool option \<Rightarrow> string option \<Rightarrow> (string, string) fmap option \<Rightarrow> unit + keys_and_attributes"
  build_parameterized_statement :: "string option \<Rightarrow> attribute_value list option \<Rightarrow> string option \<Rightarrow> unit + parameterized_statement"
  build_put :: "(string, attribute_value) fmap option \<Rightarrow> string option \<Rightarrow> string option \<Rightarrow> (string, string) fmap option \<Rightarrow> (string, attribute_value) fmap option \<Rightarrow> string option \<Rightarrow> unit + dynamo_put"
  build_put_request :: "(string, attribute_value) fmap option \<Rightarrow> unit + put_request"
  build_dynamo_throttling_reason :: "string option \<Rightarrow> string option \<Rightarrow> dynamo_throttling_reason"
  build_transact_get_item :: "dynamo_get option \<Rightarrow> transact_get_item"
  build_update :: "(string, attribute_value) fmap option \<Rightarrow> string option \<Rightarrow> string option \<Rightarrow> string option \<Rightarrow> (string, string) fmap option \<Rightarrow> (string, attribute_value) fmap option \<Rightarrow> string option \<Rightarrow> unit + dynamo_update"
  build_transact_write_item :: "condition_check option \<Rightarrow> dynamo_put option \<Rightarrow> dynamo_delete option \<Rightarrow> dynamo_update option \<Rightarrow> transact_write_item"
  build_write_request :: "put_request option \<Rightarrow> delete_request option \<Rightarrow> write_request"

section \<open>Converters\<close>

definition attribute_value_update_from_py :: "pyo3 \<Rightarrow> dynamo_types \<Rightarrow> pyval \<Rightarrow> attribute_value_update pyresult" where
  "attribute_value_update_from_py P S value =
     and_then (cast_dict P value) (\<lambda>values.
     and_then (member P values ''value'' ''exactly one known union variant'' (attribute_value_from_py P (dynamo_stack S))) (\<lambda>value_value.
     and_then (member P values ''action'' ''str (AttributeAction)'' (enum_from_py P)) (\<lambda>action_value.
     Inr (build_attribute_value_update S value_value action_value))))"

definition attribute_value_update_to_py :: "((string, pyval) fmap \<Rightarrow> (string \<times> pyval) list) \<Rightarrow> attribute_value_update \<Rightarrow> pyval" where
  "attribute_value_update_to_py order v = PyDict (py_dict
     [(''value'', opt_to_py (attribute_value_to_py order) (davu_value v)),
      (''action'', opt_to_py PyStr (davu_action v))])"

definition batch_statement_error_from_py :: "pyo3 \<Rightarrow> dynamo_types \<Rightarrow> pyval \<Rightarrow> batch_statement_error pyresult" where
  "batch_statement_error_from_py P S value =
     and_then (cast_dict P value) (\<lambda>values.
     and_then (member P values ''code'' ''str (BatchStatementErrorCodeEnum)'' (enum_from_py P)) (\<lambda>code_value.
     and_then (member P values ''message'' ''str'' (string_from_py P)) (\<lambda>message_value.
     and_then (member P values ''item'' ''dict'' (map_from_py P ''str'' ''exactly one known union variant'' (attribute_value_from_py P (dynamo_stack S)))) (\<lambda>item_value.
     Inr (build_batch_statement_error S code_value message_value item_value)))))"

definition batch_statement_error_to_py :: "((string, pyval) fmap \<Rightarrow> (string \<times> pyval) list) \<Rightarrow> batch_statement_error \<Rightarrow> pyval" where
  "batch_statement_error_to_py order v = PyDict (py_dict
     [(''code'', opt_to_py PyStr (dbse_code v)),
      (''message'', opt_to_py PyStr (dbse_message v)),
      (''item'', opt_to_py (mapping_to_py order (attribute_value_to_py order)) (dbse_item v))])"

definition batch_statement_request_from_py :: "pyo3 \<Rightarrow> dynamo_types \<Rightarrow> pyval \<Rightarrow> batch_statement_request pyresult" where
  "batch_statement_request_from_py P S value =
     and_then (cast_dict P value) (\<lambda>values.
     and_then (member P values ''statement'' ''str'' (string_from_py P)) (\<lambda>statement_value.
     and_then (member P values ''parameters'' ''sequence'' (seq_from_py P ''exactly one known union variant'' (attribute_value_from_py P (dynamo_stack S)))) (\<lambda>parameters_value.
     and_then (member P values ''consistent_read'' ''bool'' (bool_from_py P)) (\<lambda>consistent_read_value.
     and_then (member P values ''return_values_on_condition_check_failure'' ''str (ReturnValuesOnConditionCheckFailure)'' (enum_from_py P)) (\<lambda>return_values_on_condition_check_failure_value.
     map_err (\<lambda>_. input_builder_error P values
         [(''statement'', ''statement'')])
       (build_batch_statement_request S statement_value parameters_value consistent_read_value return_values_on_condition_check_failure_value))))))"

definition batch_statement_request_to_py :: "((string, pyval) fmap \<Rightarrow> (string \<times> pyval) list) \<Rightarrow> batch_statement_request \<Rightarrow> pyval" where
  "batch_statement_request_to_py order v = PyDict (py_dict
     [(''statement'', PyStr (dbsr_statement v)),
      (''parameters'', opt_to_py (seq_to_py (attribute_value_to_py order)) (dbsr_parameters v)),
      (''consistent_read'', opt_to_py PyBool (dbsr_consistent_read v)),
      (''return_values_on_condition_check_failure'', opt_to_py PyStr (dbsr_return_values_on_condition_check_failure v))])"

definition batch_statement_response_from_py :: "pyo3 \<Rightarrow> dynamo_types \<Rightarrow> pyval \<Rightarrow> batch_statement_response pyresult" where
  "batch_statement_response_from_py P S value =
     and_then (cast_dict P value) (\<lambda>values.
     and_then (member P values ''error'' ''dict (BatchStatementError)'' (batch_statement_error_from_py P S)) (\<lambda>error_value.
     and_then (member P values ''table_name'' ''str'' (string_from_py P)) (\<lambda>table_name_value.
     and_then (member P values ''item'' ''dict'' (map_from_py P ''str'' ''exactly one known union variant'' (attribute_value_from_py P (dynamo_stack S)))) (\<lambda>item_value.
     Inr (build_batch_statement_response S error_value table_name_value item_value)))))"

definition batch_statement_response_to_py :: "((string, pyval) fmap \<Rightarrow> (string \<times> pyval) list) \<Rightarrow> batch_statement_response \<Rightarrow> pyval" where
  "batch_statement_response_to_py order v = PyDict (py_dict
     [(''error'', opt_to_py (batch_statement_error_to_py order) (dbsr2_error v)),
      (''table_name'', opt_to_py PyStr (dbsr2_table_name v)),
      (''item'', opt_to_py (mapping_to_py order (attribute_value_to_py order)) (dbsr2_item v))])"

definition cancellation_reason_from_py :: "pyo3 \<Rightarrow> dynamo_types \<Rightarrow> pyval \<Rightarrow> cancellation_reason pyresult" where
  "cancellation_reason_from_py P S value =
     and_then (cast_dict P value) (\<lambda>values.
     and_then (member P values ''item'' ''dict'' (map_from_py P ''str'' ''exactly one known union variant'' (attribute_value_from_py P (dynamo_stack S)))) (\<lambda>item_value.
     and_then (member P values ''code'' ''str'' (string_from_py P)) (\<lambda>code_value.
     and_then (member P values ''message'' ''str'' (string_from_py P)) (\<lambda>message_value.
     Inr (build_cancellation_reason S item_value code_value message_value)))))"

definition cancellation_reason_to_py :: "((string, pyval) fmap \<Rightarrow> (string \<times> pyval) list) \<Rightarrow> cancellation_reason \<Rightarrow> pyval" where
  "cancellation_reason_to_py order v = PyDict (py_dict
     [(''item'', opt_to_py (mapping_to_py order (attribute_value_to_py order)) (dcr_item v)),
      (''code'', opt_to_py PyStr (dcr_code v)),
      (''message'', opt_to_py PyStr (dcr_message v))])"

definition capacity_from_py :: "pyo3 \<Rightarrow> dynamo_types \<Rightarrow> pyval \<Rightarrow> dynamo_capacity pyresult" where
  "capacity_from_py P S value =
     and_then (cast_dict P value) (\<lambda>values.
     and_then (member P values ''read_capacity_units'' ''float'' (extract_f64 P)) (\<lambda>read_capacity_units_value.
     and_then (member P values ''write_capacity_units'' ''float'' (extract_f64 P)) (\<lambda>write_capacity_units_value.
     and_then (member P values ''capacity_units'' ''float'' (extract_f64 P)) (\<lambda>capacity_units_value.
     Inr (build_capacity S read_capacity_units_value write_capacity_units_value capacity_units_value)))))"

definition capacity_to_py :: "dynamo_capacity \<Rightarrow> pyval" where
  "capacity_to_py v = PyDict (py_dict
     [(''read_capacity_units'', opt_to_py PyFloat (dc_read_capacity_units v)),
      (''write_capacity_units'', opt_to_py PyFloat (dc_write_capacity_units v)),
      (''capacity_units'', opt_to_py PyFloat (dc_capacity_units v))])"

definition condition_from_py :: "pyo3 \<Rightarrow> dynamo_types \<Rightarrow> pyval \<Rightarrow> dynamo_condition pyresult" where
  "condition_from_py P S value =
     and_then (cast_dict P value) (\<lambda>values.
     and_then (member P values ''attribute_value_list'' ''sequence'' (seq_from_py P ''exactly one known union variant'' (attribute_value_from_py P (dynamo_stack S)))) (\<lambda>attribute_value_list_value.
     and_then (member P values ''comparison_operator'' ''str (ComparisonOperator)'' (enum_from_py P)) (\<lambda>comparison_operator_value.
     map_err (\<lambda>_. input_builder_error P values
         [(''comparison_operator'', ''comparison_operator'')])
       (build_condition S attribute_value_list_value comparison_operator_value))))"

definition condition_to_py :: "((string, pyval) fmap \<Rightarrow> (string \<times> pyval) list) \<Rightarrow> dynamo_condition \<Rightarrow> pyval" where
  "condition_to_py order v = PyDict (py_dict
     [(''attribute_value_list'', opt_to_py (seq_to_py (attribute_value_to_py order)) (dc2_attribute_value_list v)),
      (''comparison_operator'', PyStr (dc2_comparison_operator v))])"

definition condition_check_from_py :: "pyo3 \<Rightarrow> dynamo_types \<Rightarrow> pyval \<Rightarrow> condition_check pyresult" where
  "condition_check_from_py P S value =
     and_then (cast_dict P value) (\<lambda>values.
     and_then (member P values ''key'' ''dict'' (map_from_py P ''str'' ''exactly one known union variant'' (attribute_value_from_py P (dynamo_stack S)))) (\<lambda>key_value.
     and_then (member P values ''table_name'' ''str'' (string_from_py P)) (\<lambda>table_name_value.
     and_then (member P values ''condition_expression'' ''str'' (string_from_py P)) (\<lambda>condition_expression_value.
     and_then (member P values ''expression_attribute_names'' ''dict'' (map_from_py P ''str'' ''str'' (string_from_py P))) (\<lambda>expression_attribute_names_value.
     and_then (member P values ''expression_attribute_values'' ''dict'' (map_from_py P ''str'' ''exactly one known union variant'' (attribute_value_from_py P (dynamo_stack S)))) (\<lambda>expression_attribute_values_value.
     and_then (member P values ''return_values_on_condition_check_failure'' ''str (ReturnValuesOnConditionCheckFailure)'' (enum_from_py P)) (\<lambda>return_values_on_condition_check_failure_value.
     map_err (\<lambda>_. input_builder_error P values
         [(''key'', ''key''), (''table_name'', ''table_name''), (''condition_expression'', ''condition_expression'')])
       (build_condition_check S key_value table_name_value condition_expression_value expression_attribute_names_value expression_attribute_values_value return_values_on_condition_check_failure_value))))))))"

definition condition_check_to_py :: "((string, pyval) fmap \<Rightarrow> (string \<times> pyval) list) \<Rightarrow> condition_check \<Rightarrow> pyval" where
  "condition_check_to_py order v = PyDict (py_dict
     [(''key'', mapping_to_py order (attribute_value_to_py order) (dcc_key v)),
      (''table_name'', PyStr (dcc_table_name v)),
      (''condition_expression'', PyStr (dcc_condition_expression v)),
      (''expression_attribute_names'', opt_to_py (mapping_to_py order PyStr) (dcc_expression_attribute_names v)),
      (''expression_attribute_values'', opt_to_py (mapping_to_py order (attribute_value_to_py order)) (dcc_expression_attribute_values v)),
      (''return_values_on_condition_check_failure'', opt_to_py PyStr (dcc_return_values_on_condition_check_failure v))])"

definition vector_capacity_from_py :: "pyo3 \<Rightarrow> dynamo_types \<Rightarrow> pyval \<Rightarrow> vector_capacity pyresult" where
  "vector_capacity_from_py P S value =
     and_then (cast_dict P value) (\<lambda>values.
     and_then (member P values ''vector_search_request_bytes'' ''float'' (extract_f64 P)) (\<lambda>vector_search_request_bytes_value.
     and_then (member P values ''vector_write_request_bytes'' ''float'' (extract_f64 P)) (\<lambda>vector_write_request_bytes_value.
     Inr (build_vector_capacity S vector_search_request_bytes_value vector_write_request_bytes_value))))"

definition vector_capacity_to_py :: "vector_capacity \<Rightarrow> pyval" where
  "vector_capacity_to_py v = PyDict (py_dict
     [(''vector_search_request_bytes'', opt_to_py PyFloat (dvc_vector_search_request_bytes v)),
      (''vector_write_request_bytes'', opt_to_py PyFloat (dvc_vector_write_request_bytes v))])"

definition consumed_capacity_from_py :: "pyo3 \<Rightarrow> dynamo_types \<Rightarrow> pyval \<Rightarrow> consumed_capacity pyresult" where
  "consumed_capacity_from_py P S value =
     and_then (cast_dict P value) (\<lambda>values.
     and_then (member P values ''table_name'' ''str'' (string_from_py P)) (\<lambda>table_name_value.
     and_then (member P values ''capacity_units'' ''float'' (extract_f64 P)) (\<lambda>capacity_units_value.
     and_then (member P values ''read_capacity_units'' ''float'' (extract_f64 P)) (\<lambda>read_capacity_units_value.
     and_then (member P values ''write_capacity_units'' ''float'' (extract_f64 P)) (\<lambda>write_capacity_units_value.
     and_then (member P values ''table'' ''dict (Capacity)'' (capacity_from_py P S)) (\<lambda>table_value.
     and_then (member P values ''local_secondary_indexes'' ''dict'' (map_from_py P ''str'' ''dict (Capacity)'' (capacity_from_py P S))) (\<lambda>local_secondary_indexes_value.
     and_then (member P values ''global_secondary_indexes'' ''dict'' (map_from_py P ''str'' ''dict (Capacity)'' (capacity_from_py P S))) (\<lambda>global_secondary_indexes_value.
     and_then (member P values ''vector_indexes'' ''dict'' (map_from_py P ''str'' ''dict (VectorCapacity)'' (vector_capacity_from_py P S))) (\<lambda>vector_indexes_value.
     Inr (build_consumed_capacity S table_name_value capacity_units_value read_capacity_units_value write_capacity_units_value table_value local_secondary_indexes_value global_secondary_indexes_value vector_indexes_value))))))))))"

definition consumed_capacity_to_py :: "((string, pyval) fmap \<Rightarrow> (string \<times> pyval) list) \<Rightarrow> consumed_capacity \<Rightarrow> pyval" where
  "consumed_capacity_to_py order v = PyDict (py_dict
     [(''table_name'', opt_to_py PyStr (dcc2_table_name v)),
      (''capacity_units'', opt_to_py PyFloat (dcc2_capacity_units v)),
      (''read_capacity_units'', opt_to_py PyFloat (dcc2_read_capacity_units v)),
      (''write_capacity_units'', opt_to_py PyFloat (dcc2_write_capacity_units v)),
      (''table'', opt_to_py capacity_to_py (dcc2_table v)),
      (''local_secondary_indexes'', opt_to_py (mapping_to_py order capacity_to_py) (dcc2_local_secondary_indexes v)),
      (''global_secondary_indexes'', opt_to_py (mapping_to_py order capacity_to_py) (dcc2_global_secondary_indexes v)),
      (''vector_indexes'', opt_to_py (mapping_to_py order vector_capacity_to_py) (dcc2_vector_indexes v))])"

definition dynamo_delete_from_py :: "pyo3 \<Rightarrow> dynamo_types \<Rightarrow> pyval \<Rightarrow> dynamo_delete pyresult" where
  "dynamo_delete_from_py P S value =
     and_then (cast_dict P value) (\<lambda>values.
     and_then (member P values ''key'' ''dict'' (map_from_py P ''str'' ''exactly one known union variant'' (attribute_value_from_py P (dynamo_stack S)))) (\<lambda>key_value.
     and_then (member P values ''table_name'' ''str'' (string_from_py P)) (\<lambda>table_name_value.
     and_then (member P values ''condition_expression'' ''str'' (string_from_py P)) (\<lambda>condition_expression_value.
     and_then (member P values ''expression_attribute_names'' ''dict'' (map_from_py P ''str'' ''str'' (string_from_py P))) (\<lambda>expression_attribute_names_value.
     and_then (member P values ''expression_attribute_values'' ''dict'' (map_from_py P ''str'' ''exactly one known union variant'' (attribute_value_from_py P (dynamo_stack S)))) (\<lambda>expression_attribute_values_value.
     and_then (member P values ''return_values_on_condition_check_failure'' ''str (ReturnValuesOnConditionCheckFailure)'' (enum_from_py P)) (\<lambda>return_values_on_condition_check_failure_value.
     map_err (\<lambda>_. input_builder_error P values
         [(''key'', ''key''), (''table_name'', ''table_name'')])
       (build_dynamo_delete S key_value table_name_value condition_expression_value expression_attribute_names_value expression_attribute_values_value return_values_on_condition_check_failure_value))))))))"

definition dynamo_delete_to_py :: "((string, pyval) fmap \<Rightarrow> (string \<times> pyval) list) \<Rightarrow> dynamo_delete \<Rightarrow> pyval" where
  "dynamo_delete_to_py order v = PyDict (py_dict
     [(''key'', mapping_to_py order (attribute_value_to_py order) (dd_key v)),
      (''table_name'', PyStr (dd_table_name v)),
      (''condition_expression'', opt_to_py PyStr (dd_condition_expression v)),
      (''expression_attribute_names'', opt_to_py (mapping_to_py order PyStr) (dd_expression_attribute_names v)),
      (''expression_attribute_values'', opt_to_py (mapping_to_py order (attribute_value_to_py order)) (dd_expression_attribute_values v)),
      (''return_values_on_condition_check_failure'', opt_to_py PyStr (dd_return_values_on_condition_check_failure v))])"

definition delete_request_from_py :: "pyo3 \<Rightarrow> dynamo_types \<Rightarrow> pyval \<Rightarrow> delete_request pyresult" where
  "delete_request_from_py P S value =
     and_then (cast_dict P value) (\<lambda>values.
     and_then (member P values ''key'' ''dict'' (map_from_py P ''str'' ''exactly one known union variant'' (attribute_value_from_py P (dynamo_stack S)))) (\<lambda>key_value.
     map_err (\<lambda>_. input_builder_error P values
         [(''key'', ''key'')])
       (build_delete_request S key_value)))"

definition delete_request_to_py :: "((string, pyval) fmap \<Rightarrow> (string \<times> pyval) list) \<Rightarrow> delete_request \<Rightarrow> pyval" where
  "delete_request_to_py order v = PyDict (py_dict
     [(''key'', mapping_to_py order (attribute_value_to_py order) (ddr_key v))])"

definition expected_attribute_value_from_py :: "pyo3 \<Rightarrow> dynamo_types \<Rightarrow> pyval \<Rightarrow> expected_attribute_value pyresult" where
  "expected_attribute_value_from_py P S value =
     and_then (cast_dict P value) (\<lambda>values.
     and_then (member P values ''value'' ''exactly one known union variant'' (attribute_value_from_py P (dynamo_stack S))) (\<lambda>value_value.
     and_then (member P values ''exists'' ''bool'' (bool_from_py P)) (\<lambda>exists_value.
     and_then (member P values ''comparison_operator'' ''str (ComparisonOperator)'' (enum_from_py P)) (\<lambda>comparison_operator_value.
     and_then (member P values ''attribute_value_list'' ''sequence'' (seq_from_py P ''exactly one known union variant'' (attribute_value_from_py P (dynamo_stack S)))) (\<lambda>attribute_value_list_value.
     Inr (build_expected_attribute_value S value_value exists_value comparison_operator_value attribute_value_list_value))))))"

definition expected_attribute_value_to_py :: "((string, pyval) fmap \<Rightarrow> (string \<times> pyval) list) \<Rightarrow> expected_attribute_value \<Rightarrow> pyval" where
  "expected_attribute_value_to_py order v = PyDict (py_dict
     [(''value'', opt_to_py (attribute_value_to_py order) (deav_value v)),
      (''exists'', opt_to_py PyBool (deav_exists v)),
      (''comparison_operator'', opt_to_py PyStr (deav_comparison_operator v)),
      (''attribute_value_list'', opt_to_py (seq_to_py (attribute_value_to_py order)) (deav_attribute_value_list v))])"

definition get_from_py :: "pyo3 \<Rightarrow> dynamo_types \<Rightarrow> pyval \<Rightarrow> dynamo_get pyresult" where
  "get_from_py P S value =
     and_then (cast_dict P value) (\<lambda>values.
     and_then (member P values ''key'' ''dict'' (map_from_py P ''str'' ''exactly one known union variant'' (attribute_value_from_py P (dynamo_stack S)))) (\<lambda>key_value.
     and_then (member P values ''table_name'' ''str'' (string_from_py P)) (\<lambda>table_name_value.
     and_then (member P values ''projection_expression'' ''str'' (string_from_py P)) (\<lambda>projection_expression_value.
     and_then (member P values ''expression_attribute_names'' ''dict'' (map_from_py P ''str'' ''str'' (string_from_py P))) (\<lambda>expression_attribute_names_value.
     map_err (\<lambda>_. input_builder_error P values
         [(''key'', ''key''), (''table_name'', ''table_name'')])
       (build_get S key_value table_name_value projection_expression_value expression_attribute_names_value))))))"

definition get_to_py :: "((string, pyval) fmap \<Rightarrow> (string \<times> pyval) list) \<Rightarrow> dynamo_get \<Rightarrow> pyval" where
  "get_to_py order v = PyDict (py_dict
     [(''key'', mapping_to_py order (attribute_value_to_py order) (dg_key v)),
      (''table_name'', PyStr (dg_table_name v)),
      (''projection_expression'', opt_to_py PyStr (dg_projection_expression v)),
      (''expression_attribute_names'', opt_to_py (mapping_to_py order PyStr) (dg_expression_attribute_names v))])"

definition item_collection_metrics_from_py :: "pyo3 \<Rightarrow> dynamo_types \<Rightarrow> pyval \<Rightarrow> item_collection_metrics pyresult" where
  "item_collection_metrics_from_py P S value =
     and_then (cast_dict P value) (\<lambda>values.
     and_then (member P values ''item_collection_key'' ''dict'' (map_from_py P ''str'' ''exactly one known union variant'' (attribute_value_from_py P (dynamo_stack S)))) (\<lambda>item_collection_key_value.
     and_then (member P values ''size_estimate_range_gb'' ''sequence'' (seq_from_py P ''float'' (extract_f64 P))) (\<lambda>size_estimate_range_gb_value.
     Inr (build_item_collection_metrics S item_collection_key_value size_estimate_range_gb_value))))"

definition item_collection_metrics_to_py :: "((string, pyval) fmap \<Rightarrow> (string \<times> pyval) list) \<Rightarrow> item_collection_metrics \<Rightarrow> pyval" where
  "item_collection_metrics_to_py order v = PyDict (py_dict
     [(''item_collection_key'', opt_to_py (mapping_to_py order (attribute_value_to_py order)) (dicm_item_collection_key v)),
      (''size_estimate_range_gb'', opt_to_py (seq_to_py PyFloat) (dicm_size_estimate_range_gb v))])"

definition item_response_from_py :: "pyo3 \<Rightarrow> dynamo_types \<Rightarrow> pyval \<Rightarrow> item_response pyresult" where
  "item_response_from_py P S value =
     and_then (cast_dict P value) (\<lambda>values.
     and_then (member P values ''item'' ''dict'' (map_from_py P ''str'' ''exactly one known union variant'' (attribute_value_from_py P (dynamo_stack S)))) (\<lambda>item_value.
     Inr (build_item_response S item_value)))"

definition item_response_to_py :: "((string, pyval) fmap \<Rightarrow> (string \<times> pyval) list) \<Rightarrow> item_response \<Rightarrow> pyval" where
  "item_response_to_py order v = PyDict (py_dict
     [(''item'', opt_to_py (mapping_to_py order (attribute_value_to_py order)) (dir_item v))])"

definition keys_and_attributes_from_py :: "pyo3 \<Rightarrow> dynamo_types \<Rightarrow> pyval \<Rightarrow> keys_and_attributes pyresult" where
  "keys_and_attributes_from_py P S value =
     and_then (cast_dict P value) (\<lambda>values.
     and_then (member P values ''keys'' ''sequence'' (seq_from_py P ''dict'' (map_from_py P ''str'' ''exactly one known union variant'' (attribute_value_from_py P (dynamo_stack S))))) (\<lambda>keys_value.
     and_then (member P values ''attributes_to_get'' ''sequence'' (seq_from_py P ''str'' (string_from_py P))) (\<lambda>attributes_to_get_value.
     and_then (member P values ''consistent_read'' ''bool'' (bool_from_py P)) (\<lambda>consistent_read_value.
     and_then (member P values ''projection_expression'' ''str'' (string_from_py P)) (\<lambda>projection_expression_value.
     and_then (member P values ''expression_attribute_names'' ''dict'' (map_from_py P ''str'' ''str'' (string_from_py P))) (\<lambda>expression_attribute_names_value.
     map_err (\<lambda>_. input_builder_error P values
         [(''keys'', ''keys'')])
       (build_keys_and_attributes S keys_value attributes_to_get_value consistent_read_value projection_expression_value expression_attribute_names_value)))))))"

definition keys_and_attributes_to_py :: "((string, pyval) fmap \<Rightarrow> (string \<times> pyval) list) \<Rightarrow> keys_and_attributes \<Rightarrow> pyval" where
  "keys_and_attributes_to_py order v = PyDict (py_dict
     [(''keys'', seq_to_py (mapping_to_py order (attribute_value_to_py order)) (dkaa_keys v)),
      (''attributes_to_get'', opt_to_py (seq_to_py PyStr) (dkaa_attributes_to_get v)),
      (''consistent_read'', opt_to_py PyBool (dkaa_consistent_read v)),
      (''projection_expression'', opt_to_py PyStr (dkaa_projection_expression v)),
      (''expression_attribute_names'', opt_to_py (mapping_to_py order PyStr) (dkaa_expression_attribute_names v))])"

definition parameterized_statement_from_py :: "pyo3 \<Rightarrow> dynamo_types \<Rightarrow> pyval \<Rightarrow> parameterized_statement pyresult" where
  "parameterized_statement_from_py P S value =
     and_then (cast_dict P value) (\<lambda>values.
     and_then (member P values ''statement'' ''str'' (string_from_py P)) (\<lambda>statement_value.
     and_then (member P values ''parameters'' ''sequence'' (seq_from_py P ''exactly one known union variant'' (attribute_value_from_py P (dynamo_stack S)))) (\<lambda>parameters_value.
     and_then (member P values ''return_values_on_condition_check_failure'' ''str (ReturnValuesOnConditionCheckFailure)'' (enum_from_py P)) (\<lambda>return_values_on_condition_check_failure_value.
     map_err (\<lambda>_. input_builder_error P values
         [(''statement'', ''statement'')])
       (build_parameterized_statement S statement_value parameters_value return_values_on_condition_check_failure_value)))))"

definition parameterized_statement_to_py :: "((string, pyval) fmap \<Rightarrow> (string \<times> pyval) list) \<Rightarrow> parameterized_statement \<Rightarrow> pyval" where
  "parameterized_statement_to_py order v = PyDict (py_dict
     [(''statement'', PyStr (dps_statement v)),
      (''parameters'', opt_to_py (seq_to_py (attribute_value_to_py order)) (dps_parameters v)),
      (''return_values_on_condition_check_failure'', opt_to_py PyStr (dps_return_values_on_condition_check_failure v))])"

definition put_from_py :: "pyo3 \<Rightarrow> dynamo_types \<Rightarrow> pyval \<Rightarrow> dynamo_put pyresult" where
  "put_from_py P S value =
     and_then (cast_dict P value) (\<lambda>values.
     and_then (member P values ''item'' ''dict'' (map_from_py P ''str'' ''exactly one known union variant'' (attribute_value_from_py P (dynamo_stack S)))) (\<lambda>item_value.
     and_then (member P values ''table_name'' ''str'' (string_from_py P)) (\<lambda>table_name_value.
     and_then (member P values ''condition_expression'' ''str'' (string_from_py P)) (\<lambda>condition_expression_value.
     and_then (member P values ''expression_attribute_names'' ''dict'' (map_from_py P ''str'' ''str'' (string_from_py P))) (\<lambda>expression_attribute_names_value.
     and_then (member P values ''expression_attribute_values'' ''dict'' (map_from_py P ''str'' ''exactly one known union variant'' (attribute_value_from_py P (dynamo_stack S)))) (\<lambda>expression_attribute_values_value.
     and_then (member P values ''return_values_on_condition_check_failure'' ''str (ReturnValuesOnConditionCheckFailure)'' (enum_from_py P)) (\<lambda>return_values_on_condition_check_failure_value.
     map_err (\<lambda>_. input_builder_error P values
         [(''item'', ''item''), (''table_name'', ''table_name'')])
       (build_put S item_value table_name_value condition_expression_value expression_attribute_names_value expression_attribute_values_value return_values_on_condition_check_failure_value))))))))"

definition put_to_py :: "((string, pyval) fmap \<Rightarrow> (string \<times> pyval) list) \<Rightarrow> dynamo_put \<Rightarrow> pyval" where
  "put_to_py order v = PyDict (py_dict
     [(''item'', mapping_to_py order (attribute_value_to_py order) (dp_item v)),
      (''table_name'', PyStr (dp_table_name v)),
      (''condition_expression'', opt_to_py PyStr (dp_condition_expression v)),
      (''expression_attribute_names'', opt_to_py (mapping_to_py order PyStr) (dp_expression_attribute_names v)),
      (''expression_attribute_values'', opt_to_py (mapping_to_py order (attribute_value_to_py order)) (dp_expression_attribute_values v)),
      (''return_values_on_condition_check_failure'', opt_to_py PyStr (dp_return_values_on_condition_check_failure v))])"

definition put_request_from_py :: "pyo3 \<Rightarrow> dynamo_types \<Rightarrow> pyval \<Rightarrow> put_request pyresult" where
  "put_request_from_py P S value =
     and_then (cast_dict P value) (\<lambda>values.
     and_then (member P values ''item'' ''dict'' (map_from_py P ''str'' ''exactly one known union variant'' (attribute_value_from_py P (dynamo_stack S)))) (\<lambda>item_value.
     map_err (\<lambda>_. input_builder_error P values
         [(''item'', ''item'')])
       (build_put_request S item_value)))"

definition put_request_to_py :: "((string, pyval) fmap \<Rightarrow> (string \<times> pyval) list) \<Rightarrow> put_request \<Rightarrow> pyval" where
  "put_request_to_py order v = PyDict (py_dict
     [(''item'', mapping_to_py order (attribute_value_to_py order) (dpr_item v))])"

definition dynamo_throttling_reason_from_py :: "pyo3 \<Rightarrow> dynamo_types \<Rightarrow> pyval \<Rightarrow> dynamo_throttling_reason pyresult" where
  "dynamo_throttling_reason_from_py P S value =
     and_then (cast_dict P value) (\<lambda>values.
     and_then (member P values ''reason'' ''str'' (string_from_py P)) (\<lambda>reason_value.
     and_then (member P values ''resource'' ''str'' (string_from_py P)) (\<lambda>resource_value.
     Inr (build_dynamo_throttling_reason S reason_value resource_value))))"

definition dynamo_throttling_reason_to_py :: "dynamo_throttling_reason \<Rightarrow> pyval" where
  "dynamo_throttling_reason_to_py v = PyDict (py_dict
     [(''reason'', opt_to_py PyStr (dtr_reason v)),
      (''resource'', opt_to_py PyStr (dtr_resource v))])"

definition transact_get_item_from_py :: "pyo3 \<Rightarrow> dynamo_types \<Rightarrow> pyval \<Rightarrow> transact_get_item pyresult" where
  "transact_get_item_from_py P S value =
     and_then (cast_dict P value) (\<lambda>values.
     and_then (member P values ''get'' ''dict (Get)'' (get_from_py P S)) (\<lambda>get_value.
     Inr (build_transact_get_item S get_value)))"

definition transact_get_item_to_py :: "((string, pyval) fmap \<Rightarrow> (string \<times> pyval) list) \<Rightarrow> transact_get_item \<Rightarrow> pyval" where
  "transact_get_item_to_py order v = PyDict (py_dict
     [(''get'', opt_to_py (get_to_py order) (dtgi_get v))])"

definition update_from_py :: "pyo3 \<Rightarrow> dynamo_types \<Rightarrow> pyval \<Rightarrow> dynamo_update pyresult" where
  "update_from_py P S value =
     and_then (cast_dict P value) (\<lambda>values.
     and_then (member P values ''key'' ''dict'' (map_from_py P ''str'' ''exactly one known union variant'' (attribute_value_from_py P (dynamo_stack S)))) (\<lambda>key_value.
     and_then (member P values ''update_expression'' ''str'' (string_from_py P)) (\<lambda>update_expression_value.
     and_then (member P values ''table_name'' ''str'' (string_from_py P)) (\<lambda>table_name_value.
     and_then (member P values ''condition_expression'' ''str'' (string_from_py P)) (\<lambda>condition_expression_value.
     and_then (member P values ''expression_attribute_names'' ''dict'' (map_from_py P ''str'' ''str'' (string_from_py P))) (\<lambda>expression_attribute_names_value.
     and_then (member P values ''expression_attribute_values'' ''dict'' (map_from_py P ''str'' ''exactly one known union variant'' (attribute_value_from_py P (dynamo_stack S)))) (\<lambda>expression_attribute_values_value.
     and_then (member P values ''return_values_on_condition_check_failure'' ''str (ReturnValuesOnConditionCheckFailure)'' (enum_from_py P)) (\<lambda>return_values_on_condition_check_failure_value.
     map_err (\<lambda>_. input_builder_error P values
         [(''key'', ''key''), (''update_expression'', ''update_expression''), (''table_name'', ''table_name'')])
       (build_update S key_value update_expression_value table_name_value condition_expression_value expression_attribute_names_value expression_attribute_values_value return_values_on_condition_check_failure_value)))))))))"

definition update_to_py :: "((string, pyval) fmap \<Rightarrow> (string \<times> pyval) list) \<Rightarrow> dynamo_update \<Rightarrow> pyval" where
  "update_to_py order v = PyDict (py_dict
     [(''key'', mapping_to_py order (attribute_value_to_py order) (du_key v)),
      (''update_expression'', PyStr (du_update_expression v)),
      (''table_name'', PyStr (du_table_name v)),
      (''condition_expression'', opt_to_py PyStr (du_condition_expression v)),
      (''expression_attribute_names'', opt_to_py (mapping_to_py order PyStr) (du_expression_attribute_names v)),
      (''expression_attribute_values'', opt_to_py (mapping_to_py order (attribute_value_to_py order)) (du_expression_attribute_values v)),
      (''return_values_on_condition_check_failure'', opt_to_py PyStr (du_return_values_on_condition_check_failure v))])"

definition transact_write_item_from_py :: "pyo3 \<Rightarrow> dynamo_types \<Rightarrow> pyval \<Rightarrow> transact_write_item pyresult" where
  "transact_write_item_from_py P S value =
     and_then (cast_dict P value) (\<lambda>values.
     and_then (member P values ''condition_check'' ''dict (ConditionCheck)'' (condition_check_from_py P S)) (\<lambda>condition_check_value.
     and_then (member P values ''put'' ''dict (Put)'' (put_from_py P S)) (\<lambda>put_value.
     and_then (member P values ''delete'' ''dict (Delete)'' (dynamo_delete_from_py P S)) (\<lambda>delete_value.
     and_then (member P values ''update'' ''dict (Update)'' (update_from_py P S)) (\<lambda>update_value.
     Inr (build_transact_write_item S condition_check_value put_value delete_value update_value))))))"

definition transact_write_item_to_py :: "((string, pyval) fmap \<Rightarrow> (string \<times> pyval) list) \<Rightarrow> transact_write_item \<Rightarrow> pyval" where
  "transact_write_item_to_py order v = PyDict (py_dict
     [(''condition_check'', opt_to_py (condition_check_to_py order) (dtwi_condition_check v)),
      (''put'', opt_to_py (put_to_py order) (dtwi_put v)),
      (''delete'', opt_to_py (dynamo_delete_to_py order) (dtwi_delete v)),
      (''update'', opt_to_py (update_to_py order) (dtwi_update v))])"

definition write_request_from_py :: "pyo3 \<Rightarrow> dynamo_types \<Rightarrow> pyval \<Rightarrow> write_request pyresult" where
  "write_request_from_py P S value =
     and_then (cast_dict P value) (\<lambda>values.
     and_then (member P values ''put_request'' ''dict (PutRequest)'' (put_request_from_py P S)) (\<lambda>put_request_value.
     and_then (member P values ''delete_request'' ''dict (DeleteRequest)'' (delete_request_from_py P S)) (\<lambda>delete_request_value.
     Inr (build_write_request S put_request_value delete_request_value))))"

definition write_request_to_py :: "((string, pyval) fmap \<Rightarrow> (string \<times> pyval) list) \<Rightarrow> write_request \<Rightarrow> pyval" where
  "write_request_to_py order v = PyDict (py_dict
     [(''put_request'', opt_to_py (put_request_to_py order) (dwr_put_request v)),
      (''delete_request'', opt_to_py (delete_request_to_py order) (dwr_delete_request v))])"

section \<open>Round trips\<close>

text \<open>What the builders document: a builder given every member the structure must have gives the
  structure with the members it was given, and one that lacks a required member fails.\<close>

locale dynamo_types_laws =
  fixes S :: dynamo_types
  assumes attribute_value_update_built: "build_attribute_value_update S davu0 davu1 =
       \<lparr>davu_value = davu0, davu_action = davu1\<rparr>"
    and batch_statement_error_built: "build_batch_statement_error S dbse0 dbse1 dbse2 =
       \<lparr>dbse_code = dbse0, dbse_message = dbse1, dbse_item = dbse2\<rparr>"
    and batch_statement_request_built: "build_batch_statement_request S (Some dbsr0) dbsr1 dbsr2 dbsr3 =
       Inr \<lparr>dbsr_statement = dbsr0, dbsr_parameters = dbsr1, dbsr_consistent_read = dbsr2, dbsr_return_values_on_condition_check_failure = dbsr3\<rparr>"
    and batch_statement_response_built: "build_batch_statement_response S dbsr20 dbsr21 dbsr22 =
       \<lparr>dbsr2_error = dbsr20, dbsr2_table_name = dbsr21, dbsr2_item = dbsr22\<rparr>"
    and cancellation_reason_built: "build_cancellation_reason S dcr0 dcr1 dcr2 =
       \<lparr>dcr_item = dcr0, dcr_code = dcr1, dcr_message = dcr2\<rparr>"
    and capacity_built: "build_capacity S dc0 dc1 dc2 =
       \<lparr>dc_read_capacity_units = dc0, dc_write_capacity_units = dc1, dc_capacity_units = dc2\<rparr>"
    and condition_built: "build_condition S dc20 (Some dc21) =
       Inr \<lparr>dc2_attribute_value_list = dc20, dc2_comparison_operator = dc21\<rparr>"
    and condition_check_built: "build_condition_check S (Some dcc0) (Some dcc1) (Some dcc2) dcc3 dcc4 dcc5 =
       Inr \<lparr>dcc_key = dcc0, dcc_table_name = dcc1, dcc_condition_expression = dcc2, dcc_expression_attribute_names = dcc3, dcc_expression_attribute_values = dcc4, dcc_return_values_on_condition_check_failure = dcc5\<rparr>"
    and vector_capacity_built: "build_vector_capacity S dvc0 dvc1 =
       \<lparr>dvc_vector_search_request_bytes = dvc0, dvc_vector_write_request_bytes = dvc1\<rparr>"
    and consumed_capacity_built: "build_consumed_capacity S dcc20 dcc21 dcc22 dcc23 dcc24 dcc25 dcc26 dcc27 =
       \<lparr>dcc2_table_name = dcc20, dcc2_capacity_units = dcc21, dcc2_read_capacity_units = dcc22, dcc2_write_capacity_units = dcc23, dcc2_table = dcc24, dcc2_local_secondary_indexes = dcc25, dcc2_global_secondary_indexes = dcc26, dcc2_vector_indexes = dcc27\<rparr>"
    and dynamo_delete_built: "build_dynamo_delete S (Some dd0) (Some dd1) dd2 dd3 dd4 dd5 =
       Inr \<lparr>dd_key = dd0, dd_table_name = dd1, dd_condition_expression = dd2, dd_expression_attribute_names = dd3, dd_expression_attribute_values = dd4, dd_return_values_on_condition_check_failure = dd5\<rparr>"
    and delete_request_built: "build_delete_request S (Some ddr0) =
       Inr \<lparr>ddr_key = ddr0\<rparr>"
    and expected_attribute_value_built: "build_expected_attribute_value S deav0 deav1 deav2 deav3 =
       \<lparr>deav_value = deav0, deav_exists = deav1, deav_comparison_operator = deav2, deav_attribute_value_list = deav3\<rparr>"
    and get_built: "build_get S (Some dg0) (Some dg1) dg2 dg3 =
       Inr \<lparr>dg_key = dg0, dg_table_name = dg1, dg_projection_expression = dg2, dg_expression_attribute_names = dg3\<rparr>"
    and item_collection_metrics_built: "build_item_collection_metrics S dicm0 dicm1 =
       \<lparr>dicm_item_collection_key = dicm0, dicm_size_estimate_range_gb = dicm1\<rparr>"
    and item_response_built: "build_item_response S dir0 =
       \<lparr>dir_item = dir0\<rparr>"
    and keys_and_attributes_built: "build_keys_and_attributes S (Some dkaa0) dkaa1 dkaa2 dkaa3 dkaa4 =
       Inr \<lparr>dkaa_keys = dkaa0, dkaa_attributes_to_get = dkaa1, dkaa_consistent_read = dkaa2, dkaa_projection_expression = dkaa3, dkaa_expression_attribute_names = dkaa4\<rparr>"
    and parameterized_statement_built: "build_parameterized_statement S (Some dps0) dps1 dps2 =
       Inr \<lparr>dps_statement = dps0, dps_parameters = dps1, dps_return_values_on_condition_check_failure = dps2\<rparr>"
    and put_built: "build_put S (Some dp0) (Some dp1) dp2 dp3 dp4 dp5 =
       Inr \<lparr>dp_item = dp0, dp_table_name = dp1, dp_condition_expression = dp2, dp_expression_attribute_names = dp3, dp_expression_attribute_values = dp4, dp_return_values_on_condition_check_failure = dp5\<rparr>"
    and put_request_built: "build_put_request S (Some dpr0) =
       Inr \<lparr>dpr_item = dpr0\<rparr>"
    and dynamo_throttling_reason_built: "build_dynamo_throttling_reason S dtr0 dtr1 =
       \<lparr>dtr_reason = dtr0, dtr_resource = dtr1\<rparr>"
    and transact_get_item_built: "build_transact_get_item S dtgi0 =
       \<lparr>dtgi_get = dtgi0\<rparr>"
    and update_built: "build_update S (Some du0) (Some du1) (Some du2) du3 du4 du5 du6 =
       Inr \<lparr>du_key = du0, du_update_expression = du1, du_table_name = du2, du_condition_expression = du3, du_expression_attribute_names = du4, du_expression_attribute_values = du5, du_return_values_on_condition_check_failure = du6\<rparr>"
    and transact_write_item_built: "build_transact_write_item S dtwi0 dtwi1 dtwi2 dtwi3 =
       \<lparr>dtwi_condition_check = dtwi0, dtwi_put = dtwi1, dtwi_delete = dtwi2, dtwi_update = dtwi3\<rparr>"
    and write_request_built: "build_write_request S dwr0 dwr1 =
       \<lparr>dwr_put_request = dwr0, dwr_delete_request = dwr1\<rparr>"
    and batch_statement_request_incomplete: "odbsr0 = None \<Longrightarrow>
       build_batch_statement_request S odbsr0 odbsr1 odbsr2 odbsr3 = Inl ()"
    and condition_incomplete: "odc21 = None \<Longrightarrow>
       build_condition S odc20 odc21 = Inl ()"
    and condition_check_incomplete: "odcc0 = None \<or> odcc1 = None \<or> odcc2 = None \<Longrightarrow>
       build_condition_check S odcc0 odcc1 odcc2 odcc3 odcc4 odcc5 = Inl ()"
    and dynamo_delete_incomplete: "odd0 = None \<or> odd1 = None \<Longrightarrow>
       build_dynamo_delete S odd0 odd1 odd2 odd3 odd4 odd5 = Inl ()"
    and delete_request_incomplete: "oddr0 = None \<Longrightarrow>
       build_delete_request S oddr0 = Inl ()"
    and get_incomplete: "odg0 = None \<or> odg1 = None \<Longrightarrow>
       build_get S odg0 odg1 odg2 odg3 = Inl ()"
    and keys_and_attributes_incomplete: "odkaa0 = None \<Longrightarrow>
       build_keys_and_attributes S odkaa0 odkaa1 odkaa2 odkaa3 odkaa4 = Inl ()"
    and parameterized_statement_incomplete: "odps0 = None \<Longrightarrow>
       build_parameterized_statement S odps0 odps1 odps2 = Inl ()"
    and put_incomplete: "odp0 = None \<or> odp1 = None \<Longrightarrow>
       build_put S odp0 odp1 odp2 odp3 odp4 odp5 = Inl ()"
    and put_request_incomplete: "odpr0 = None \<Longrightarrow>
       build_put_request S odpr0 = Inl ()"
    and update_incomplete: "odu0 = None \<or> odu1 = None \<or> odu2 = None \<Longrightarrow>
       build_update S odu0 odu1 odu2 odu3 odu4 odu5 odu6 = Inl ()"

text \<open>A concrete SDK.\<close>

definition dynamo_std :: dynamo_types where
  "dynamo_std =
     \<lparr>dynamo_stack = 32,
      build_attribute_value_update = (\<lambda>a0 a1. \<lparr>davu_value = a0, davu_action = a1\<rparr>),
      build_batch_statement_error = (\<lambda>a0 a1 a2. \<lparr>dbse_code = a0, dbse_message = a1, dbse_item = a2\<rparr>),
      build_batch_statement_request = (\<lambda>a0 a1 a2 a3. if a0 = None then Inl ()
        else Inr \<lparr>dbsr_statement = the a0, dbsr_parameters = a1, dbsr_consistent_read = a2, dbsr_return_values_on_condition_check_failure = a3\<rparr>),
      build_batch_statement_response = (\<lambda>a0 a1 a2. \<lparr>dbsr2_error = a0, dbsr2_table_name = a1, dbsr2_item = a2\<rparr>),
      build_cancellation_reason = (\<lambda>a0 a1 a2. \<lparr>dcr_item = a0, dcr_code = a1, dcr_message = a2\<rparr>),
      build_capacity = (\<lambda>a0 a1 a2. \<lparr>dc_read_capacity_units = a0, dc_write_capacity_units = a1, dc_capacity_units = a2\<rparr>),
      build_condition = (\<lambda>a0 a1. if a1 = None then Inl ()
        else Inr \<lparr>dc2_attribute_value_list = a0, dc2_comparison_operator = the a1\<rparr>),
      build_condition_check = (\<lambda>a0 a1 a2 a3 a4 a5. if a0 = None \<or> a1 = None \<or> a2 = None then Inl ()
        else Inr \<lparr>dcc_key = the a0, dcc_table_name = the a1, dcc_condition_expression = the a2, dcc_expression_attribute_names = a3, dcc_expression_attribute_values = a4, dcc_return_values_on_condition_check_failure = a5\<rparr>),
      build_vector_capacity = (\<lambda>a0 a1. \<lparr>dvc_vector_search_request_bytes = a0, dvc_vector_write_request_bytes = a1\<rparr>),
      build_consumed_capacity = (\<lambda>a0 a1 a2 a3 a4 a5 a6 a7. \<lparr>dcc2_table_name = a0, dcc2_capacity_units = a1, dcc2_read_capacity_units = a2, dcc2_write_capacity_units = a3, dcc2_table = a4, dcc2_local_secondary_indexes = a5, dcc2_global_secondary_indexes = a6, dcc2_vector_indexes = a7\<rparr>),
      build_dynamo_delete = (\<lambda>a0 a1 a2 a3 a4 a5. if a0 = None \<or> a1 = None then Inl ()
        else Inr \<lparr>dd_key = the a0, dd_table_name = the a1, dd_condition_expression = a2, dd_expression_attribute_names = a3, dd_expression_attribute_values = a4, dd_return_values_on_condition_check_failure = a5\<rparr>),
      build_delete_request = (\<lambda>a0. if a0 = None then Inl ()
        else Inr \<lparr>ddr_key = the a0\<rparr>),
      build_expected_attribute_value = (\<lambda>a0 a1 a2 a3. \<lparr>deav_value = a0, deav_exists = a1, deav_comparison_operator = a2, deav_attribute_value_list = a3\<rparr>),
      build_get = (\<lambda>a0 a1 a2 a3. if a0 = None \<or> a1 = None then Inl ()
        else Inr \<lparr>dg_key = the a0, dg_table_name = the a1, dg_projection_expression = a2, dg_expression_attribute_names = a3\<rparr>),
      build_item_collection_metrics = (\<lambda>a0 a1. \<lparr>dicm_item_collection_key = a0, dicm_size_estimate_range_gb = a1\<rparr>),
      build_item_response = (\<lambda>a0. \<lparr>dir_item = a0\<rparr>),
      build_keys_and_attributes = (\<lambda>a0 a1 a2 a3 a4. if a0 = None then Inl ()
        else Inr \<lparr>dkaa_keys = the a0, dkaa_attributes_to_get = a1, dkaa_consistent_read = a2, dkaa_projection_expression = a3, dkaa_expression_attribute_names = a4\<rparr>),
      build_parameterized_statement = (\<lambda>a0 a1 a2. if a0 = None then Inl ()
        else Inr \<lparr>dps_statement = the a0, dps_parameters = a1, dps_return_values_on_condition_check_failure = a2\<rparr>),
      build_put = (\<lambda>a0 a1 a2 a3 a4 a5. if a0 = None \<or> a1 = None then Inl ()
        else Inr \<lparr>dp_item = the a0, dp_table_name = the a1, dp_condition_expression = a2, dp_expression_attribute_names = a3, dp_expression_attribute_values = a4, dp_return_values_on_condition_check_failure = a5\<rparr>),
      build_put_request = (\<lambda>a0. if a0 = None then Inl ()
        else Inr \<lparr>dpr_item = the a0\<rparr>),
      build_dynamo_throttling_reason = (\<lambda>a0 a1. \<lparr>dtr_reason = a0, dtr_resource = a1\<rparr>),
      build_transact_get_item = (\<lambda>a0. \<lparr>dtgi_get = a0\<rparr>),
      build_update = (\<lambda>a0 a1 a2 a3 a4 a5 a6. if a0 = None \<or> a1 = None \<or> a2 = None then Inl ()
        else Inr \<lparr>du_key = the a0, du_update_expression = the a1, du_table_name = the a2, du_condition_expression = a3, du_expression_attribute_names = a4, du_expression_attribute_values = a5, du_return_values_on_condition_check_failure = a6\<rparr>),
      build_transact_write_item = (\<lambda>a0 a1 a2 a3. \<lparr>dtwi_condition_check = a0, dtwi_put = a1, dtwi_delete = a2, dtwi_update = a3\<rparr>),
      build_write_request = (\<lambda>a0 a1. \<lparr>dwr_put_request = a0, dwr_delete_request = a1\<rparr>)\<rparr>"

text \<open>
  What can be sent: attribute values without a part of an unknown variant that the native stack
  holds, and the structures made of them.
\<close>

definition attribute_ok :: "dynamo_types \<Rightarrow> attribute_value \<Rightarrow> bool" where
  "attribute_ok S a \<longleftrightarrow> known a \<and> stack_for a (dynamo_stack S)"

definition reads_on :: "('a \<Rightarrow> bool) \<Rightarrow> (pyval \<Rightarrow> 'a pyresult) \<Rightarrow> ('a \<Rightarrow> pyval) \<Rightarrow> bool" where
  "reads_on A conv f \<longleftrightarrow> (\<forall>y. f y \<noteq> PyNone \<and> (A y \<longrightarrow> conv (f y) = Inr y))"

lemma reads_onI: "(\<And>y. f y \<noteq> PyNone) \<Longrightarrow> (\<And>y. A y \<Longrightarrow> conv (f y) = Inr y) \<Longrightarrow> reads_on A conv f"
  by (simp add: reads_on_def)

definition attribute_value_update_ok :: "dynamo_types \<Rightarrow> attribute_value_update \<Rightarrow> bool" where
  "attribute_value_update_ok S v \<longleftrightarrow> pred_option (attribute_ok S) (davu_value v)"

definition batch_statement_error_ok :: "dynamo_types \<Rightarrow> batch_statement_error \<Rightarrow> bool" where
  "batch_statement_error_ok S v \<longleftrightarrow> pred_option (fmpred (\<lambda>_. attribute_ok S)) (dbse_item v)"

definition batch_statement_request_ok :: "dynamo_types \<Rightarrow> batch_statement_request \<Rightarrow> bool" where
  "batch_statement_request_ok S v \<longleftrightarrow> pred_option (list_all (attribute_ok S)) (dbsr_parameters v)"

definition batch_statement_response_ok :: "dynamo_types \<Rightarrow> batch_statement_response \<Rightarrow> bool" where
  "batch_statement_response_ok S v \<longleftrightarrow> pred_option (batch_statement_error_ok S) (dbsr2_error v) \<and> pred_option (fmpred (\<lambda>_. attribute_ok S)) (dbsr2_item v)"

definition cancellation_reason_ok :: "dynamo_types \<Rightarrow> cancellation_reason \<Rightarrow> bool" where
  "cancellation_reason_ok S v \<longleftrightarrow> pred_option (fmpred (\<lambda>_. attribute_ok S)) (dcr_item v)"

definition condition_ok :: "dynamo_types \<Rightarrow> dynamo_condition \<Rightarrow> bool" where
  "condition_ok S v \<longleftrightarrow> pred_option (list_all (attribute_ok S)) (dc2_attribute_value_list v)"

definition condition_check_ok :: "dynamo_types \<Rightarrow> condition_check \<Rightarrow> bool" where
  "condition_check_ok S v \<longleftrightarrow> fmpred (\<lambda>_. attribute_ok S) (dcc_key v) \<and> pred_option (fmpred (\<lambda>_. attribute_ok S)) (dcc_expression_attribute_values v)"

definition dynamo_delete_ok :: "dynamo_types \<Rightarrow> dynamo_delete \<Rightarrow> bool" where
  "dynamo_delete_ok S v \<longleftrightarrow> fmpred (\<lambda>_. attribute_ok S) (dd_key v) \<and> pred_option (fmpred (\<lambda>_. attribute_ok S)) (dd_expression_attribute_values v)"

definition delete_request_ok :: "dynamo_types \<Rightarrow> delete_request \<Rightarrow> bool" where
  "delete_request_ok S v \<longleftrightarrow> fmpred (\<lambda>_. attribute_ok S) (ddr_key v)"

definition expected_attribute_value_ok :: "dynamo_types \<Rightarrow> expected_attribute_value \<Rightarrow> bool" where
  "expected_attribute_value_ok S v \<longleftrightarrow> pred_option (attribute_ok S) (deav_value v) \<and> pred_option (list_all (attribute_ok S)) (deav_attribute_value_list v)"

definition get_ok :: "dynamo_types \<Rightarrow> dynamo_get \<Rightarrow> bool" where
  "get_ok S v \<longleftrightarrow> fmpred (\<lambda>_. attribute_ok S) (dg_key v)"

definition item_collection_metrics_ok :: "dynamo_types \<Rightarrow> item_collection_metrics \<Rightarrow> bool" where
  "item_collection_metrics_ok S v \<longleftrightarrow> pred_option (fmpred (\<lambda>_. attribute_ok S)) (dicm_item_collection_key v)"

definition item_response_ok :: "dynamo_types \<Rightarrow> item_response \<Rightarrow> bool" where
  "item_response_ok S v \<longleftrightarrow> pred_option (fmpred (\<lambda>_. attribute_ok S)) (dir_item v)"

definition keys_and_attributes_ok :: "dynamo_types \<Rightarrow> keys_and_attributes \<Rightarrow> bool" where
  "keys_and_attributes_ok S v \<longleftrightarrow> list_all (fmpred (\<lambda>_. attribute_ok S)) (dkaa_keys v)"

definition parameterized_statement_ok :: "dynamo_types \<Rightarrow> parameterized_statement \<Rightarrow> bool" where
  "parameterized_statement_ok S v \<longleftrightarrow> pred_option (list_all (attribute_ok S)) (dps_parameters v)"

definition put_ok :: "dynamo_types \<Rightarrow> dynamo_put \<Rightarrow> bool" where
  "put_ok S v \<longleftrightarrow> fmpred (\<lambda>_. attribute_ok S) (dp_item v) \<and> pred_option (fmpred (\<lambda>_. attribute_ok S)) (dp_expression_attribute_values v)"

definition put_request_ok :: "dynamo_types \<Rightarrow> put_request \<Rightarrow> bool" where
  "put_request_ok S v \<longleftrightarrow> fmpred (\<lambda>_. attribute_ok S) (dpr_item v)"

definition transact_get_item_ok :: "dynamo_types \<Rightarrow> transact_get_item \<Rightarrow> bool" where
  "transact_get_item_ok S v \<longleftrightarrow> pred_option (get_ok S) (dtgi_get v)"

definition update_ok :: "dynamo_types \<Rightarrow> dynamo_update \<Rightarrow> bool" where
  "update_ok S v \<longleftrightarrow> fmpred (\<lambda>_. attribute_ok S) (du_key v) \<and> pred_option (fmpred (\<lambda>_. attribute_ok S)) (du_expression_attribute_values v)"

definition transact_write_item_ok :: "dynamo_types \<Rightarrow> transact_write_item \<Rightarrow> bool" where
  "transact_write_item_ok S v \<longleftrightarrow> pred_option (condition_check_ok S) (dtwi_condition_check v) \<and> pred_option (put_ok S) (dtwi_put v) \<and> pred_option (dynamo_delete_ok S) (dtwi_delete v) \<and> pred_option (update_ok S) (dtwi_update v)"

definition write_request_ok :: "dynamo_types \<Rightarrow> write_request \<Rightarrow> bool" where
  "write_request_ok S v \<longleftrightarrow> pred_option (put_request_ok S) (dwr_put_request v) \<and> pred_option (delete_request_ok S) (dwr_delete_request v)"

interpretation std_dynamo: dynamo_types_laws dynamo_std
  by unfold_locales (auto simp: dynamo_std_def unwrap_or_def)

locale dynamo_conversions = pyo3_laws P + dynamo_types_laws S for P S +
  fixes order :: "(string, pyval) fmap \<Rightarrow> (string \<times> pyval) list"
  assumes order: "iterates order"
begin


lemma reads_f64: "reads (extract_f64 P) PyFloat"
  by (simp add: reads_def f64_ok)

lemma reads_on_seq: "reads_on A conv f \<Longrightarrow> reads_on (list_all A) (seq_from_py P x conv) (seq_to_py f)"
  by (intro reads_onI seq_roundtrip) (auto simp: seq_to_py_def reads_on_def list_all_iff)

lemma reads_on_map:
  "iterates order \<Longrightarrow> reads_on A conv f \<Longrightarrow>
   reads_on (fmpred (\<lambda>_. A)) (map_from_py P kx x conv) (mapping_to_py order f)"
  unfolding mapping_to_py_def
  by (intro reads_onI map_roundtrip) (auto simp: map_to_py_def reads_on_def fmpred_iff elim!: fmran'E)

lemma member_reads_on:
  "reads_on A conv f \<Longrightarrow> str_keys d \<Longrightarrow> map_of d (PyStr k) = Some (opt_to_py f v) \<Longrightarrow> pred_option A v \<Longrightarrow>
   member P d k x conv = Inr v"
  by (erule (1) member_opt) (auto simp: reads_on_def)

lemma member_reads_on_given:
  "reads_on A conv f \<Longrightarrow> str_keys d \<Longrightarrow> map_of d (PyStr k) = Some (f y) \<Longrightarrow> A y \<Longrightarrow>
   member P d k x conv = Inr (Some y)"
  using member_req [of d k f y conv] by (auto simp: reads_on_def)

lemma param_reads_on:
  "reads_on A conv f \<Longrightarrow> str_keys d \<Longrightarrow> argument d k = opt_to_py f v \<Longrightarrow> pred_option A v \<Longrightarrow>
   op_param P s op' d k x conv = Inr v"
  by (erule (1) op_param_argument) (auto simp: reads_on_def)

lemma attribute_reads:
  "reads_on (attribute_ok S) (attribute_value_from_py P (dynamo_stack S)) (attribute_value_to_py order)"
  by (intro reads_onI attribute_value_roundtrip [OF order]) (simp_all add: attribute_ok_def)

lemma attribute_value_update_reads: "reads_on (attribute_value_update_ok S) (attribute_value_update_from_py P S) (attribute_value_update_to_py order)"
proof (rule reads_onI)
  show "attribute_value_update_to_py order v \<noteq> PyNone" for v
    by (simp add: attribute_value_update_to_py_def)
  show "attribute_value_update_from_py P S (attribute_value_update_to_py order v) = Inr v" if "attribute_value_update_ok S v" for v
    using that
    by (cases v) (simp add: attribute_value_update_ok_def attribute_value_update_from_py_def attribute_value_update_to_py_def dict_ok py_dict_distinct attribute_value_update_built
        member_reads_on [OF attribute_reads]
        member_reads [OF reads_enum])
qed

lemma batch_statement_error_reads: "reads_on (batch_statement_error_ok S) (batch_statement_error_from_py P S) (batch_statement_error_to_py order)"
proof (rule reads_onI)
  show "batch_statement_error_to_py order v \<noteq> PyNone" for v
    by (simp add: batch_statement_error_to_py_def)
  show "batch_statement_error_from_py P S (batch_statement_error_to_py order v) = Inr v" if "batch_statement_error_ok S v" for v
    using that
    by (cases v) (simp add: batch_statement_error_ok_def batch_statement_error_from_py_def batch_statement_error_to_py_def dict_ok py_dict_distinct batch_statement_error_built
        member_reads [OF reads_enum]
        member_reads [OF reads_str]
        member_reads_on [OF reads_on_map [OF order attribute_reads]])
qed

lemma batch_statement_request_reads: "reads_on (batch_statement_request_ok S) (batch_statement_request_from_py P S) (batch_statement_request_to_py order)"
proof (rule reads_onI)
  show "batch_statement_request_to_py order v \<noteq> PyNone" for v
    by (simp add: batch_statement_request_to_py_def)
  show "batch_statement_request_from_py P S (batch_statement_request_to_py order v) = Inr v" if "batch_statement_request_ok S v" for v
    using that
    by (cases v) (simp add: batch_statement_request_ok_def batch_statement_request_from_py_def batch_statement_request_to_py_def dict_ok py_dict_distinct batch_statement_request_built
        member_reads_given [OF reads_str]
        member_reads_on [OF reads_on_seq [OF attribute_reads]]
        member_reads [OF reads_bool]
        member_reads [OF reads_enum])
qed

lemma batch_statement_response_reads: "reads_on (batch_statement_response_ok S) (batch_statement_response_from_py P S) (batch_statement_response_to_py order)"
proof (rule reads_onI)
  show "batch_statement_response_to_py order v \<noteq> PyNone" for v
    by (simp add: batch_statement_response_to_py_def)
  show "batch_statement_response_from_py P S (batch_statement_response_to_py order v) = Inr v" if "batch_statement_response_ok S v" for v
    using that
    by (cases v) (simp add: batch_statement_response_ok_def batch_statement_response_from_py_def batch_statement_response_to_py_def dict_ok py_dict_distinct batch_statement_response_built
        member_reads_on [OF batch_statement_error_reads]
        member_reads [OF reads_str]
        member_reads_on [OF reads_on_map [OF order attribute_reads]])
qed

lemma cancellation_reason_reads: "reads_on (cancellation_reason_ok S) (cancellation_reason_from_py P S) (cancellation_reason_to_py order)"
proof (rule reads_onI)
  show "cancellation_reason_to_py order v \<noteq> PyNone" for v
    by (simp add: cancellation_reason_to_py_def)
  show "cancellation_reason_from_py P S (cancellation_reason_to_py order v) = Inr v" if "cancellation_reason_ok S v" for v
    using that
    by (cases v) (simp add: cancellation_reason_ok_def cancellation_reason_from_py_def cancellation_reason_to_py_def dict_ok py_dict_distinct cancellation_reason_built
        member_reads_on [OF reads_on_map [OF order attribute_reads]]
        member_reads [OF reads_str])
qed

lemma capacity_reads: "reads (capacity_from_py P S) (capacity_to_py)"
proof (rule readsI)
  show "capacity_to_py v \<noteq> PyNone" for v
    by (simp add: capacity_to_py_def)
  show "capacity_from_py P S (capacity_to_py v) = Inr v" for v
    by (cases v) (simp add: capacity_from_py_def capacity_to_py_def dict_ok py_dict_distinct capacity_built
        member_reads [OF reads_f64])
qed

lemma condition_reads: "reads_on (condition_ok S) (condition_from_py P S) (condition_to_py order)"
proof (rule reads_onI)
  show "condition_to_py order v \<noteq> PyNone" for v
    by (simp add: condition_to_py_def)
  show "condition_from_py P S (condition_to_py order v) = Inr v" if "condition_ok S v" for v
    using that
    by (cases v) (simp add: condition_ok_def condition_from_py_def condition_to_py_def dict_ok py_dict_distinct condition_built
        member_reads_on [OF reads_on_seq [OF attribute_reads]]
        member_reads_given [OF reads_enum])
qed

lemma condition_check_reads: "reads_on (condition_check_ok S) (condition_check_from_py P S) (condition_check_to_py order)"
proof (rule reads_onI)
  show "condition_check_to_py order v \<noteq> PyNone" for v
    by (simp add: condition_check_to_py_def)
  show "condition_check_from_py P S (condition_check_to_py order v) = Inr v" if "condition_check_ok S v" for v
    using that
    by (cases v) (simp add: condition_check_ok_def condition_check_from_py_def condition_check_to_py_def dict_ok py_dict_distinct condition_check_built
        member_reads_on_given [OF reads_on_map [OF order attribute_reads]]
        member_reads_given [OF reads_str]
        member_reads [OF reads_map [OF order reads_str]]
        member_reads_on [OF reads_on_map [OF order attribute_reads]]
        member_reads [OF reads_enum])
qed

lemma vector_capacity_reads: "reads (vector_capacity_from_py P S) (vector_capacity_to_py)"
proof (rule readsI)
  show "vector_capacity_to_py v \<noteq> PyNone" for v
    by (simp add: vector_capacity_to_py_def)
  show "vector_capacity_from_py P S (vector_capacity_to_py v) = Inr v" for v
    by (cases v) (simp add: vector_capacity_from_py_def vector_capacity_to_py_def dict_ok py_dict_distinct vector_capacity_built
        member_reads [OF reads_f64])
qed

lemma consumed_capacity_reads: "reads (consumed_capacity_from_py P S) (consumed_capacity_to_py order)"
proof (rule readsI)
  show "consumed_capacity_to_py order v \<noteq> PyNone" for v
    by (simp add: consumed_capacity_to_py_def)
  show "consumed_capacity_from_py P S (consumed_capacity_to_py order v) = Inr v" for v
    by (cases v) (simp add: consumed_capacity_from_py_def consumed_capacity_to_py_def dict_ok py_dict_distinct consumed_capacity_built
        member_reads [OF reads_str]
        member_reads [OF reads_f64]
        member_reads [OF capacity_reads]
        member_reads [OF reads_map [OF order capacity_reads]]
        member_reads [OF reads_map [OF order vector_capacity_reads]])
qed

lemma dynamo_delete_reads: "reads_on (dynamo_delete_ok S) (dynamo_delete_from_py P S) (dynamo_delete_to_py order)"
proof (rule reads_onI)
  show "dynamo_delete_to_py order v \<noteq> PyNone" for v
    by (simp add: dynamo_delete_to_py_def)
  show "dynamo_delete_from_py P S (dynamo_delete_to_py order v) = Inr v" if "dynamo_delete_ok S v" for v
    using that
    by (cases v) (simp add: dynamo_delete_ok_def dynamo_delete_from_py_def dynamo_delete_to_py_def dict_ok py_dict_distinct dynamo_delete_built
        member_reads_on_given [OF reads_on_map [OF order attribute_reads]]
        member_reads_given [OF reads_str]
        member_reads [OF reads_str]
        member_reads [OF reads_map [OF order reads_str]]
        member_reads_on [OF reads_on_map [OF order attribute_reads]]
        member_reads [OF reads_enum])
qed

lemma delete_request_reads: "reads_on (delete_request_ok S) (delete_request_from_py P S) (delete_request_to_py order)"
proof (rule reads_onI)
  show "delete_request_to_py order v \<noteq> PyNone" for v
    by (simp add: delete_request_to_py_def)
  show "delete_request_from_py P S (delete_request_to_py order v) = Inr v" if "delete_request_ok S v" for v
    using that
    by (cases v) (simp add: delete_request_ok_def delete_request_from_py_def delete_request_to_py_def dict_ok py_dict_distinct delete_request_built
        member_reads_on_given [OF reads_on_map [OF order attribute_reads]])
qed

lemma expected_attribute_value_reads: "reads_on (expected_attribute_value_ok S) (expected_attribute_value_from_py P S) (expected_attribute_value_to_py order)"
proof (rule reads_onI)
  show "expected_attribute_value_to_py order v \<noteq> PyNone" for v
    by (simp add: expected_attribute_value_to_py_def)
  show "expected_attribute_value_from_py P S (expected_attribute_value_to_py order v) = Inr v" if "expected_attribute_value_ok S v" for v
    using that
    by (cases v) (simp add: expected_attribute_value_ok_def expected_attribute_value_from_py_def expected_attribute_value_to_py_def dict_ok py_dict_distinct expected_attribute_value_built
        member_reads_on [OF attribute_reads]
        member_reads [OF reads_bool]
        member_reads [OF reads_enum]
        member_reads_on [OF reads_on_seq [OF attribute_reads]])
qed

lemma get_reads: "reads_on (get_ok S) (get_from_py P S) (get_to_py order)"
proof (rule reads_onI)
  show "get_to_py order v \<noteq> PyNone" for v
    by (simp add: get_to_py_def)
  show "get_from_py P S (get_to_py order v) = Inr v" if "get_ok S v" for v
    using that
    by (cases v) (simp add: get_ok_def get_from_py_def get_to_py_def dict_ok py_dict_distinct get_built
        member_reads_on_given [OF reads_on_map [OF order attribute_reads]]
        member_reads_given [OF reads_str]
        member_reads [OF reads_str]
        member_reads [OF reads_map [OF order reads_str]])
qed

lemma item_collection_metrics_reads: "reads_on (item_collection_metrics_ok S) (item_collection_metrics_from_py P S) (item_collection_metrics_to_py order)"
proof (rule reads_onI)
  show "item_collection_metrics_to_py order v \<noteq> PyNone" for v
    by (simp add: item_collection_metrics_to_py_def)
  show "item_collection_metrics_from_py P S (item_collection_metrics_to_py order v) = Inr v" if "item_collection_metrics_ok S v" for v
    using that
    by (cases v) (simp add: item_collection_metrics_ok_def item_collection_metrics_from_py_def item_collection_metrics_to_py_def dict_ok py_dict_distinct item_collection_metrics_built
        member_reads_on [OF reads_on_map [OF order attribute_reads]]
        member_reads [OF reads_seq [OF reads_f64]])
qed

lemma item_response_reads: "reads_on (item_response_ok S) (item_response_from_py P S) (item_response_to_py order)"
proof (rule reads_onI)
  show "item_response_to_py order v \<noteq> PyNone" for v
    by (simp add: item_response_to_py_def)
  show "item_response_from_py P S (item_response_to_py order v) = Inr v" if "item_response_ok S v" for v
    using that
    by (cases v) (simp add: item_response_ok_def item_response_from_py_def item_response_to_py_def dict_ok py_dict_distinct item_response_built
        member_reads_on [OF reads_on_map [OF order attribute_reads]])
qed

lemma keys_and_attributes_reads: "reads_on (keys_and_attributes_ok S) (keys_and_attributes_from_py P S) (keys_and_attributes_to_py order)"
proof (rule reads_onI)
  show "keys_and_attributes_to_py order v \<noteq> PyNone" for v
    by (simp add: keys_and_attributes_to_py_def)
  show "keys_and_attributes_from_py P S (keys_and_attributes_to_py order v) = Inr v" if "keys_and_attributes_ok S v" for v
    using that
    by (cases v) (simp add: keys_and_attributes_ok_def keys_and_attributes_from_py_def keys_and_attributes_to_py_def dict_ok py_dict_distinct keys_and_attributes_built
        member_reads_on_given [OF reads_on_seq [OF reads_on_map [OF order attribute_reads]]]
        member_reads [OF reads_seq [OF reads_str]]
        member_reads [OF reads_bool]
        member_reads [OF reads_str]
        member_reads [OF reads_map [OF order reads_str]])
qed

lemma parameterized_statement_reads: "reads_on (parameterized_statement_ok S) (parameterized_statement_from_py P S) (parameterized_statement_to_py order)"
proof (rule reads_onI)
  show "parameterized_statement_to_py order v \<noteq> PyNone" for v
    by (simp add: parameterized_statement_to_py_def)
  show "parameterized_statement_from_py P S (parameterized_statement_to_py order v) = Inr v" if "parameterized_statement_ok S v" for v
    using that
    by (cases v) (simp add: parameterized_statement_ok_def parameterized_statement_from_py_def parameterized_statement_to_py_def dict_ok py_dict_distinct parameterized_statement_built
        member_reads_given [OF reads_str]
        member_reads_on [OF reads_on_seq [OF attribute_reads]]
        member_reads [OF reads_enum])
qed

lemma put_reads: "reads_on (put_ok S) (put_from_py P S) (put_to_py order)"
proof (rule reads_onI)
  show "put_to_py order v \<noteq> PyNone" for v
    by (simp add: put_to_py_def)
  show "put_from_py P S (put_to_py order v) = Inr v" if "put_ok S v" for v
    using that
    by (cases v) (simp add: put_ok_def put_from_py_def put_to_py_def dict_ok py_dict_distinct put_built
        member_reads_on_given [OF reads_on_map [OF order attribute_reads]]
        member_reads_given [OF reads_str]
        member_reads [OF reads_str]
        member_reads [OF reads_map [OF order reads_str]]
        member_reads_on [OF reads_on_map [OF order attribute_reads]]
        member_reads [OF reads_enum])
qed

lemma put_request_reads: "reads_on (put_request_ok S) (put_request_from_py P S) (put_request_to_py order)"
proof (rule reads_onI)
  show "put_request_to_py order v \<noteq> PyNone" for v
    by (simp add: put_request_to_py_def)
  show "put_request_from_py P S (put_request_to_py order v) = Inr v" if "put_request_ok S v" for v
    using that
    by (cases v) (simp add: put_request_ok_def put_request_from_py_def put_request_to_py_def dict_ok py_dict_distinct put_request_built
        member_reads_on_given [OF reads_on_map [OF order attribute_reads]])
qed

lemma dynamo_throttling_reason_reads: "reads (dynamo_throttling_reason_from_py P S) (dynamo_throttling_reason_to_py)"
proof (rule readsI)
  show "dynamo_throttling_reason_to_py v \<noteq> PyNone" for v
    by (simp add: dynamo_throttling_reason_to_py_def)
  show "dynamo_throttling_reason_from_py P S (dynamo_throttling_reason_to_py v) = Inr v" for v
    by (cases v) (simp add: dynamo_throttling_reason_from_py_def dynamo_throttling_reason_to_py_def dict_ok py_dict_distinct dynamo_throttling_reason_built
        member_reads [OF reads_str])
qed

lemma transact_get_item_reads: "reads_on (transact_get_item_ok S) (transact_get_item_from_py P S) (transact_get_item_to_py order)"
proof (rule reads_onI)
  show "transact_get_item_to_py order v \<noteq> PyNone" for v
    by (simp add: transact_get_item_to_py_def)
  show "transact_get_item_from_py P S (transact_get_item_to_py order v) = Inr v" if "transact_get_item_ok S v" for v
    using that
    by (cases v) (simp add: transact_get_item_ok_def transact_get_item_from_py_def transact_get_item_to_py_def dict_ok py_dict_distinct transact_get_item_built
        member_reads_on [OF get_reads])
qed

lemma update_reads: "reads_on (update_ok S) (update_from_py P S) (update_to_py order)"
proof (rule reads_onI)
  show "update_to_py order v \<noteq> PyNone" for v
    by (simp add: update_to_py_def)
  show "update_from_py P S (update_to_py order v) = Inr v" if "update_ok S v" for v
    using that
    by (cases v) (simp add: update_ok_def update_from_py_def update_to_py_def dict_ok py_dict_distinct update_built
        member_reads_on_given [OF reads_on_map [OF order attribute_reads]]
        member_reads_given [OF reads_str]
        member_reads [OF reads_str]
        member_reads [OF reads_map [OF order reads_str]]
        member_reads_on [OF reads_on_map [OF order attribute_reads]]
        member_reads [OF reads_enum])
qed

lemma transact_write_item_reads: "reads_on (transact_write_item_ok S) (transact_write_item_from_py P S) (transact_write_item_to_py order)"
proof (rule reads_onI)
  show "transact_write_item_to_py order v \<noteq> PyNone" for v
    by (simp add: transact_write_item_to_py_def)
  show "transact_write_item_from_py P S (transact_write_item_to_py order v) = Inr v" if "transact_write_item_ok S v" for v
    using that
    by (cases v) (simp add: transact_write_item_ok_def transact_write_item_from_py_def transact_write_item_to_py_def dict_ok py_dict_distinct transact_write_item_built
        member_reads_on [OF condition_check_reads]
        member_reads_on [OF put_reads]
        member_reads_on [OF dynamo_delete_reads]
        member_reads_on [OF update_reads])
qed

lemma write_request_reads: "reads_on (write_request_ok S) (write_request_from_py P S) (write_request_to_py order)"
proof (rule reads_onI)
  show "write_request_to_py order v \<noteq> PyNone" for v
    by (simp add: write_request_to_py_def)
  show "write_request_from_py P S (write_request_to_py order v) = Inr v" if "write_request_ok S v" for v
    using that
    by (cases v) (simp add: write_request_ok_def write_request_from_py_def write_request_to_py_def dict_ok py_dict_distinct write_request_built
        member_reads_on [OF put_request_reads]
        member_reads_on [OF delete_request_reads])
qed

end

interpretation std_dynamo_conv: dynamo_conversions pyo3_std dynamo_std by_key
  by (intro dynamo_conversions.intro dynamo_conversions_axioms.intro std.pyo3_laws_axioms std_dynamo.dynamo_types_laws_axioms iterates_by_key)

end
