(* ===== verification/DdbOutputs.thy ===== *)
theory DdbOutputs
  imports DdbTypes
begin

text \<open>
  The response objects of the DynamoDB extension, from \<open>crates/rboto-dynamodb/src/generated.rs\<close>: per class, the
  fields it holds, its getters in order, and \<open>to_dict\<close>. A getter of structures gives objects that
  share them (\<open>Arc::clone\<close>), one per structure of a list or mapping; every other getter gives a
  plain value, and an absent one is \<open>None\<close>. Integers whose width the code does not show are \<open>int\<close>.
\<close>

section \<open>Attributes\<close>

datatype dynamo_object =
    DdbBatchStatementError batch_statement_error
  | DdbBatchStatementResponse batch_statement_response
  | DdbCapacity dynamo_capacity
  | DdbConsumedCapacity consumed_capacity
  | DdbDeleteRequest delete_request
  | DdbItemCollectionMetrics item_collection_metrics
  | DdbItemResponse item_response
  | DdbKeysAndAttributes keys_and_attributes
  | DdbPutRequest put_request
  | DdbVectorCapacity vector_capacity
  | DdbWriteRequest write_request

datatype dynamo_attr =
    DdbPlain pyval
  | DdbObject dynamo_object
  | DdbObjects "dynamo_object list"
  | DdbObjectMap "(string, dynamo_object) fmap"

definition dynamo_opt_attr :: "('a \<Rightarrow> dynamo_attr) \<Rightarrow> 'a option \<Rightarrow> dynamo_attr" where
  "dynamo_opt_attr f v = (case v of None \<Rightarrow> DdbPlain PyNone | Some x \<Rightarrow> f x)"

section \<open>\<open>BatchStatementError\<close>\<close>

definition batch_statement_error_attributes :: "((string, pyval) fmap \<Rightarrow> (string \<times> pyval) list) \<Rightarrow> dynamo_types \<Rightarrow> batch_statement_error \<Rightarrow> (string \<times> dynamo_attr) list" where
  "batch_statement_error_attributes order S v =
     [(''code'', DdbPlain (opt_to_py PyStr (dbse_code v))),
      (''message'', DdbPlain (opt_to_py PyStr (dbse_message v))),
      (''item'', DdbPlain (opt_to_py (mapping_to_py order (attribute_value_to_py order)) (dbse_item v)))]"

definition batch_statement_error_to_dict :: "((string, pyval) fmap \<Rightarrow> (string \<times> pyval) list) \<Rightarrow> dynamo_types \<Rightarrow> batch_statement_error \<Rightarrow> pyval" where
  "batch_statement_error_to_dict order S v = batch_statement_error_to_py order v"

section \<open>\<open>BatchStatementResponse\<close>\<close>

definition batch_statement_response_attributes :: "((string, pyval) fmap \<Rightarrow> (string \<times> pyval) list) \<Rightarrow> dynamo_types \<Rightarrow> batch_statement_response \<Rightarrow> (string \<times> dynamo_attr) list" where
  "batch_statement_response_attributes order S v =
     [(''error'', dynamo_opt_attr (\<lambda>x. DdbObject (DdbBatchStatementError x)) (dbsr2_error v)),
      (''table_name'', DdbPlain (opt_to_py PyStr (dbsr2_table_name v))),
      (''item'', DdbPlain (opt_to_py (mapping_to_py order (attribute_value_to_py order)) (dbsr2_item v)))]"

definition batch_statement_response_to_dict :: "((string, pyval) fmap \<Rightarrow> (string \<times> pyval) list) \<Rightarrow> dynamo_types \<Rightarrow> batch_statement_response \<Rightarrow> pyval" where
  "batch_statement_response_to_dict order S v = batch_statement_response_to_py order v"

section \<open>\<open>Capacity\<close>\<close>

definition capacity_attributes :: "((string, pyval) fmap \<Rightarrow> (string \<times> pyval) list) \<Rightarrow> dynamo_types \<Rightarrow> dynamo_capacity \<Rightarrow> (string \<times> dynamo_attr) list" where
  "capacity_attributes order S v =
     [(''read_capacity_units'', DdbPlain (opt_to_py PyFloat (dc_read_capacity_units v))),
      (''write_capacity_units'', DdbPlain (opt_to_py PyFloat (dc_write_capacity_units v))),
      (''capacity_units'', DdbPlain (opt_to_py PyFloat (dc_capacity_units v)))]"

definition capacity_to_dict :: "((string, pyval) fmap \<Rightarrow> (string \<times> pyval) list) \<Rightarrow> dynamo_types \<Rightarrow> dynamo_capacity \<Rightarrow> pyval" where
  "capacity_to_dict order S v = capacity_to_py v"

section \<open>\<open>ConsumedCapacity\<close>\<close>

definition consumed_capacity_attributes :: "((string, pyval) fmap \<Rightarrow> (string \<times> pyval) list) \<Rightarrow> dynamo_types \<Rightarrow> consumed_capacity \<Rightarrow> (string \<times> dynamo_attr) list" where
  "consumed_capacity_attributes order S v =
     [(''table_name'', DdbPlain (opt_to_py PyStr (dcc2_table_name v))),
      (''capacity_units'', DdbPlain (opt_to_py PyFloat (dcc2_capacity_units v))),
      (''read_capacity_units'', DdbPlain (opt_to_py PyFloat (dcc2_read_capacity_units v))),
      (''write_capacity_units'', DdbPlain (opt_to_py PyFloat (dcc2_write_capacity_units v))),
      (''table'', dynamo_opt_attr (\<lambda>x. DdbObject (DdbCapacity x)) (dcc2_table v)),
      (''local_secondary_indexes'', dynamo_opt_attr (\<lambda>m. DdbObjectMap (fmmap DdbCapacity m)) (dcc2_local_secondary_indexes v)),
      (''global_secondary_indexes'', dynamo_opt_attr (\<lambda>m. DdbObjectMap (fmmap DdbCapacity m)) (dcc2_global_secondary_indexes v)),
      (''vector_indexes'', dynamo_opt_attr (\<lambda>m. DdbObjectMap (fmmap DdbVectorCapacity m)) (dcc2_vector_indexes v))]"

definition consumed_capacity_to_dict :: "((string, pyval) fmap \<Rightarrow> (string \<times> pyval) list) \<Rightarrow> dynamo_types \<Rightarrow> consumed_capacity \<Rightarrow> pyval" where
  "consumed_capacity_to_dict order S v = consumed_capacity_to_py order v"

section \<open>\<open>DeleteRequest\<close>\<close>

definition delete_request_attributes :: "((string, pyval) fmap \<Rightarrow> (string \<times> pyval) list) \<Rightarrow> dynamo_types \<Rightarrow> delete_request \<Rightarrow> (string \<times> dynamo_attr) list" where
  "delete_request_attributes order S v =
     [(''key'', DdbPlain (mapping_to_py order (attribute_value_to_py order) (ddr_key v)))]"

definition delete_request_to_dict :: "((string, pyval) fmap \<Rightarrow> (string \<times> pyval) list) \<Rightarrow> dynamo_types \<Rightarrow> delete_request \<Rightarrow> pyval" where
  "delete_request_to_dict order S v = delete_request_to_py order v"

section \<open>\<open>ItemCollectionMetrics\<close>\<close>

definition item_collection_metrics_attributes :: "((string, pyval) fmap \<Rightarrow> (string \<times> pyval) list) \<Rightarrow> dynamo_types \<Rightarrow> item_collection_metrics \<Rightarrow> (string \<times> dynamo_attr) list" where
  "item_collection_metrics_attributes order S v =
     [(''item_collection_key'', DdbPlain (opt_to_py (mapping_to_py order (attribute_value_to_py order)) (dicm_item_collection_key v))),
      (''size_estimate_range_gb'', DdbPlain (opt_to_py (seq_to_py PyFloat) (dicm_size_estimate_range_gb v)))]"

definition item_collection_metrics_to_dict :: "((string, pyval) fmap \<Rightarrow> (string \<times> pyval) list) \<Rightarrow> dynamo_types \<Rightarrow> item_collection_metrics \<Rightarrow> pyval" where
  "item_collection_metrics_to_dict order S v = item_collection_metrics_to_py order v"

section \<open>\<open>ItemResponse\<close>\<close>

definition item_response_attributes :: "((string, pyval) fmap \<Rightarrow> (string \<times> pyval) list) \<Rightarrow> dynamo_types \<Rightarrow> item_response \<Rightarrow> (string \<times> dynamo_attr) list" where
  "item_response_attributes order S v =
     [(''item'', DdbPlain (opt_to_py (mapping_to_py order (attribute_value_to_py order)) (dir_item v)))]"

definition item_response_to_dict :: "((string, pyval) fmap \<Rightarrow> (string \<times> pyval) list) \<Rightarrow> dynamo_types \<Rightarrow> item_response \<Rightarrow> pyval" where
  "item_response_to_dict order S v = item_response_to_py order v"

section \<open>\<open>KeysAndAttributes\<close>\<close>

definition keys_and_attributes_attributes :: "((string, pyval) fmap \<Rightarrow> (string \<times> pyval) list) \<Rightarrow> dynamo_types \<Rightarrow> keys_and_attributes \<Rightarrow> (string \<times> dynamo_attr) list" where
  "keys_and_attributes_attributes order S v =
     [(''keys'', DdbPlain (seq_to_py (mapping_to_py order (attribute_value_to_py order)) (dkaa_keys v))),
      (''attributes_to_get'', DdbPlain (opt_to_py (seq_to_py PyStr) (dkaa_attributes_to_get v))),
      (''consistent_read'', DdbPlain (opt_to_py PyBool (dkaa_consistent_read v))),
      (''projection_expression'', DdbPlain (opt_to_py PyStr (dkaa_projection_expression v))),
      (''expression_attribute_names'', DdbPlain (opt_to_py (mapping_to_py order PyStr) (dkaa_expression_attribute_names v)))]"

definition keys_and_attributes_to_dict :: "((string, pyval) fmap \<Rightarrow> (string \<times> pyval) list) \<Rightarrow> dynamo_types \<Rightarrow> keys_and_attributes \<Rightarrow> pyval" where
  "keys_and_attributes_to_dict order S v = keys_and_attributes_to_py order v"

section \<open>\<open>PutRequest\<close>\<close>

definition put_request_attributes :: "((string, pyval) fmap \<Rightarrow> (string \<times> pyval) list) \<Rightarrow> dynamo_types \<Rightarrow> put_request \<Rightarrow> (string \<times> dynamo_attr) list" where
  "put_request_attributes order S v =
     [(''item'', DdbPlain (mapping_to_py order (attribute_value_to_py order) (dpr_item v)))]"

definition put_request_to_dict :: "((string, pyval) fmap \<Rightarrow> (string \<times> pyval) list) \<Rightarrow> dynamo_types \<Rightarrow> put_request \<Rightarrow> pyval" where
  "put_request_to_dict order S v = put_request_to_py order v"

section \<open>\<open>VectorCapacity\<close>\<close>

definition vector_capacity_attributes :: "((string, pyval) fmap \<Rightarrow> (string \<times> pyval) list) \<Rightarrow> dynamo_types \<Rightarrow> vector_capacity \<Rightarrow> (string \<times> dynamo_attr) list" where
  "vector_capacity_attributes order S v =
     [(''vector_search_request_bytes'', DdbPlain (opt_to_py PyFloat (dvc_vector_search_request_bytes v))),
      (''vector_write_request_bytes'', DdbPlain (opt_to_py PyFloat (dvc_vector_write_request_bytes v)))]"

definition vector_capacity_to_dict :: "((string, pyval) fmap \<Rightarrow> (string \<times> pyval) list) \<Rightarrow> dynamo_types \<Rightarrow> vector_capacity \<Rightarrow> pyval" where
  "vector_capacity_to_dict order S v = vector_capacity_to_py v"

section \<open>\<open>WriteRequest\<close>\<close>

definition write_request_attributes :: "((string, pyval) fmap \<Rightarrow> (string \<times> pyval) list) \<Rightarrow> dynamo_types \<Rightarrow> write_request \<Rightarrow> (string \<times> dynamo_attr) list" where
  "write_request_attributes order S v =
     [(''put_request'', dynamo_opt_attr (\<lambda>x. DdbObject (DdbPutRequest x)) (dwr_put_request v)),
      (''delete_request'', dynamo_opt_attr (\<lambda>x. DdbObject (DdbDeleteRequest x)) (dwr_delete_request v))]"

definition write_request_to_dict :: "((string, pyval) fmap \<Rightarrow> (string \<times> pyval) list) \<Rightarrow> dynamo_types \<Rightarrow> write_request \<Rightarrow> pyval" where
  "write_request_to_dict order S v = write_request_to_py order v"

section \<open>\<open>BatchExecuteStatementOutput\<close>\<close>

record batch_execute_statement_output =
  dbeso_responses :: "batch_statement_response list option"
  dbeso_consumed_capacity :: "consumed_capacity list option"

definition batch_execute_statement_output_attributes :: "((string, pyval) fmap \<Rightarrow> (string \<times> pyval) list) \<Rightarrow> dynamo_types \<Rightarrow> batch_execute_statement_output \<Rightarrow> (string \<times> dynamo_attr) list" where
  "batch_execute_statement_output_attributes order S v =
     [(''responses'', dynamo_opt_attr (\<lambda>xs. DdbObjects (map DdbBatchStatementResponse xs)) (dbeso_responses v)),
      (''consumed_capacity'', dynamo_opt_attr (\<lambda>xs. DdbObjects (map DdbConsumedCapacity xs)) (dbeso_consumed_capacity v))]"

definition batch_execute_statement_output_to_dict :: "((string, pyval) fmap \<Rightarrow> (string \<times> pyval) list) \<Rightarrow> dynamo_types \<Rightarrow> batch_execute_statement_output \<Rightarrow> pyval" where
  "batch_execute_statement_output_to_dict order S v = PyDict (py_dict
     [(''responses'', opt_to_py (seq_to_py (batch_statement_response_to_py order)) (dbeso_responses v)),
      (''consumed_capacity'', opt_to_py (seq_to_py (consumed_capacity_to_py order)) (dbeso_consumed_capacity v))])"

section \<open>\<open>BatchGetItemOutput\<close>\<close>

record batch_get_item_output =
  dbgio_responses :: "(string, (string, attribute_value) fmap list) fmap option"
  dbgio_unprocessed_keys :: "(string, keys_and_attributes) fmap option"
  dbgio_consumed_capacity :: "consumed_capacity list option"

definition batch_get_item_output_attributes :: "((string, pyval) fmap \<Rightarrow> (string \<times> pyval) list) \<Rightarrow> dynamo_types \<Rightarrow> batch_get_item_output \<Rightarrow> (string \<times> dynamo_attr) list" where
  "batch_get_item_output_attributes order S v =
     [(''responses'', DdbPlain (opt_to_py (mapping_to_py order (seq_to_py (mapping_to_py order (attribute_value_to_py order)))) (dbgio_responses v))),
      (''unprocessed_keys'', dynamo_opt_attr (\<lambda>m. DdbObjectMap (fmmap DdbKeysAndAttributes m)) (dbgio_unprocessed_keys v)),
      (''consumed_capacity'', dynamo_opt_attr (\<lambda>xs. DdbObjects (map DdbConsumedCapacity xs)) (dbgio_consumed_capacity v))]"

definition batch_get_item_output_to_dict :: "((string, pyval) fmap \<Rightarrow> (string \<times> pyval) list) \<Rightarrow> dynamo_types \<Rightarrow> batch_get_item_output \<Rightarrow> pyval" where
  "batch_get_item_output_to_dict order S v = PyDict (py_dict
     [(''responses'', opt_to_py (mapping_to_py order (seq_to_py (mapping_to_py order (attribute_value_to_py order)))) (dbgio_responses v)),
      (''unprocessed_keys'', opt_to_py (mapping_to_py order (keys_and_attributes_to_py order)) (dbgio_unprocessed_keys v)),
      (''consumed_capacity'', opt_to_py (seq_to_py (consumed_capacity_to_py order)) (dbgio_consumed_capacity v))])"

section \<open>\<open>BatchWriteItemOutput\<close>\<close>

record batch_write_item_output =
  dbwio_unprocessed_items :: "(string, write_request list) fmap option"
  dbwio_item_collection_metrics :: "(string, item_collection_metrics list) fmap option"
  dbwio_consumed_capacity :: "consumed_capacity list option"

definition batch_write_item_output_attributes :: "((string, pyval) fmap \<Rightarrow> (string \<times> pyval) list) \<Rightarrow> dynamo_types \<Rightarrow> batch_write_item_output \<Rightarrow> (string \<times> dynamo_attr) list" where
  "batch_write_item_output_attributes order S v =
     [(''unprocessed_items'', DdbPlain (opt_to_py (mapping_to_py order (seq_to_py (write_request_to_py order))) (dbwio_unprocessed_items v))),
      (''item_collection_metrics'', DdbPlain (opt_to_py (mapping_to_py order (seq_to_py (item_collection_metrics_to_py order))) (dbwio_item_collection_metrics v))),
      (''consumed_capacity'', dynamo_opt_attr (\<lambda>xs. DdbObjects (map DdbConsumedCapacity xs)) (dbwio_consumed_capacity v))]"

definition batch_write_item_output_to_dict :: "((string, pyval) fmap \<Rightarrow> (string \<times> pyval) list) \<Rightarrow> dynamo_types \<Rightarrow> batch_write_item_output \<Rightarrow> pyval" where
  "batch_write_item_output_to_dict order S v = PyDict (py_dict
     [(''unprocessed_items'', opt_to_py (mapping_to_py order (seq_to_py (write_request_to_py order))) (dbwio_unprocessed_items v)),
      (''item_collection_metrics'', opt_to_py (mapping_to_py order (seq_to_py (item_collection_metrics_to_py order))) (dbwio_item_collection_metrics v)),
      (''consumed_capacity'', opt_to_py (seq_to_py (consumed_capacity_to_py order)) (dbwio_consumed_capacity v))])"

section \<open>\<open>DeleteItemOutput\<close>\<close>

record delete_item_output =
  ddio_attributes :: "(string, attribute_value) fmap option"
  ddio_consumed_capacity :: "consumed_capacity option"
  ddio_item_collection_metrics :: "item_collection_metrics option"

definition delete_item_output_attributes :: "((string, pyval) fmap \<Rightarrow> (string \<times> pyval) list) \<Rightarrow> dynamo_types \<Rightarrow> delete_item_output \<Rightarrow> (string \<times> dynamo_attr) list" where
  "delete_item_output_attributes order S v =
     [(''attributes'', DdbPlain (opt_to_py (mapping_to_py order (attribute_value_to_py order)) (ddio_attributes v))),
      (''consumed_capacity'', dynamo_opt_attr (\<lambda>x. DdbObject (DdbConsumedCapacity x)) (ddio_consumed_capacity v)),
      (''item_collection_metrics'', dynamo_opt_attr (\<lambda>x. DdbObject (DdbItemCollectionMetrics x)) (ddio_item_collection_metrics v))]"

definition delete_item_output_to_dict :: "((string, pyval) fmap \<Rightarrow> (string \<times> pyval) list) \<Rightarrow> dynamo_types \<Rightarrow> delete_item_output \<Rightarrow> pyval" where
  "delete_item_output_to_dict order S v = PyDict (py_dict
     [(''attributes'', opt_to_py (mapping_to_py order (attribute_value_to_py order)) (ddio_attributes v)),
      (''consumed_capacity'', opt_to_py (consumed_capacity_to_py order) (ddio_consumed_capacity v)),
      (''item_collection_metrics'', opt_to_py (item_collection_metrics_to_py order) (ddio_item_collection_metrics v))])"

section \<open>\<open>ExecuteStatementOutput\<close>\<close>

record execute_statement_output =
  deso_items :: "(string, attribute_value) fmap list option"
  deso_next_token :: "string option"
  deso_consumed_capacity :: "consumed_capacity option"
  deso_last_evaluated_key :: "(string, attribute_value) fmap option"

definition execute_statement_output_attributes :: "((string, pyval) fmap \<Rightarrow> (string \<times> pyval) list) \<Rightarrow> dynamo_types \<Rightarrow> execute_statement_output \<Rightarrow> (string \<times> dynamo_attr) list" where
  "execute_statement_output_attributes order S v =
     [(''items'', DdbPlain (opt_to_py (seq_to_py (mapping_to_py order (attribute_value_to_py order))) (deso_items v))),
      (''next_token'', DdbPlain (opt_to_py PyStr (deso_next_token v))),
      (''consumed_capacity'', dynamo_opt_attr (\<lambda>x. DdbObject (DdbConsumedCapacity x)) (deso_consumed_capacity v)),
      (''last_evaluated_key'', DdbPlain (opt_to_py (mapping_to_py order (attribute_value_to_py order)) (deso_last_evaluated_key v)))]"

definition execute_statement_output_to_dict :: "((string, pyval) fmap \<Rightarrow> (string \<times> pyval) list) \<Rightarrow> dynamo_types \<Rightarrow> execute_statement_output \<Rightarrow> pyval" where
  "execute_statement_output_to_dict order S v = PyDict (py_dict
     [(''items'', opt_to_py (seq_to_py (mapping_to_py order (attribute_value_to_py order))) (deso_items v)),
      (''next_token'', opt_to_py PyStr (deso_next_token v)),
      (''consumed_capacity'', opt_to_py (consumed_capacity_to_py order) (deso_consumed_capacity v)),
      (''last_evaluated_key'', opt_to_py (mapping_to_py order (attribute_value_to_py order)) (deso_last_evaluated_key v))])"

section \<open>\<open>ExecuteTransactionOutput\<close>\<close>

record execute_transaction_output =
  deto_responses :: "item_response list option"
  deto_consumed_capacity :: "consumed_capacity list option"

definition execute_transaction_output_attributes :: "((string, pyval) fmap \<Rightarrow> (string \<times> pyval) list) \<Rightarrow> dynamo_types \<Rightarrow> execute_transaction_output \<Rightarrow> (string \<times> dynamo_attr) list" where
  "execute_transaction_output_attributes order S v =
     [(''responses'', dynamo_opt_attr (\<lambda>xs. DdbObjects (map DdbItemResponse xs)) (deto_responses v)),
      (''consumed_capacity'', dynamo_opt_attr (\<lambda>xs. DdbObjects (map DdbConsumedCapacity xs)) (deto_consumed_capacity v))]"

definition execute_transaction_output_to_dict :: "((string, pyval) fmap \<Rightarrow> (string \<times> pyval) list) \<Rightarrow> dynamo_types \<Rightarrow> execute_transaction_output \<Rightarrow> pyval" where
  "execute_transaction_output_to_dict order S v = PyDict (py_dict
     [(''responses'', opt_to_py (seq_to_py (item_response_to_py order)) (deto_responses v)),
      (''consumed_capacity'', opt_to_py (seq_to_py (consumed_capacity_to_py order)) (deto_consumed_capacity v))])"

section \<open>\<open>GetItemOutput\<close>\<close>

record get_item_output =
  dgio_item :: "(string, attribute_value) fmap option"
  dgio_consumed_capacity :: "consumed_capacity option"

definition get_item_output_attributes :: "((string, pyval) fmap \<Rightarrow> (string \<times> pyval) list) \<Rightarrow> dynamo_types \<Rightarrow> get_item_output \<Rightarrow> (string \<times> dynamo_attr) list" where
  "get_item_output_attributes order S v =
     [(''item'', DdbPlain (opt_to_py (mapping_to_py order (attribute_value_to_py order)) (dgio_item v))),
      (''consumed_capacity'', dynamo_opt_attr (\<lambda>x. DdbObject (DdbConsumedCapacity x)) (dgio_consumed_capacity v))]"

definition get_item_output_to_dict :: "((string, pyval) fmap \<Rightarrow> (string \<times> pyval) list) \<Rightarrow> dynamo_types \<Rightarrow> get_item_output \<Rightarrow> pyval" where
  "get_item_output_to_dict order S v = PyDict (py_dict
     [(''item'', opt_to_py (mapping_to_py order (attribute_value_to_py order)) (dgio_item v)),
      (''consumed_capacity'', opt_to_py (consumed_capacity_to_py order) (dgio_consumed_capacity v))])"

section \<open>\<open>PutItemOutput\<close>\<close>

record put_item_output =
  dpio_attributes :: "(string, attribute_value) fmap option"
  dpio_consumed_capacity :: "consumed_capacity option"
  dpio_item_collection_metrics :: "item_collection_metrics option"

definition put_item_output_attributes :: "((string, pyval) fmap \<Rightarrow> (string \<times> pyval) list) \<Rightarrow> dynamo_types \<Rightarrow> put_item_output \<Rightarrow> (string \<times> dynamo_attr) list" where
  "put_item_output_attributes order S v =
     [(''attributes'', DdbPlain (opt_to_py (mapping_to_py order (attribute_value_to_py order)) (dpio_attributes v))),
      (''consumed_capacity'', dynamo_opt_attr (\<lambda>x. DdbObject (DdbConsumedCapacity x)) (dpio_consumed_capacity v)),
      (''item_collection_metrics'', dynamo_opt_attr (\<lambda>x. DdbObject (DdbItemCollectionMetrics x)) (dpio_item_collection_metrics v))]"

definition put_item_output_to_dict :: "((string, pyval) fmap \<Rightarrow> (string \<times> pyval) list) \<Rightarrow> dynamo_types \<Rightarrow> put_item_output \<Rightarrow> pyval" where
  "put_item_output_to_dict order S v = PyDict (py_dict
     [(''attributes'', opt_to_py (mapping_to_py order (attribute_value_to_py order)) (dpio_attributes v)),
      (''consumed_capacity'', opt_to_py (consumed_capacity_to_py order) (dpio_consumed_capacity v)),
      (''item_collection_metrics'', opt_to_py (item_collection_metrics_to_py order) (dpio_item_collection_metrics v))])"

section \<open>\<open>QueryOutput\<close>\<close>

record query_output =
  dqo_items :: "(string, attribute_value) fmap list option"
  dqo_count :: int
  dqo_scanned_count :: int
  dqo_last_evaluated_key :: "(string, attribute_value) fmap option"
  dqo_consumed_capacity :: "consumed_capacity option"

definition query_output_attributes :: "((string, pyval) fmap \<Rightarrow> (string \<times> pyval) list) \<Rightarrow> dynamo_types \<Rightarrow> query_output \<Rightarrow> (string \<times> dynamo_attr) list" where
  "query_output_attributes order S v =
     [(''items'', DdbPlain (opt_to_py (seq_to_py (mapping_to_py order (attribute_value_to_py order))) (dqo_items v))),
      (''count'', DdbPlain (PyInt (dqo_count v))),
      (''scanned_count'', DdbPlain (PyInt (dqo_scanned_count v))),
      (''last_evaluated_key'', DdbPlain (opt_to_py (mapping_to_py order (attribute_value_to_py order)) (dqo_last_evaluated_key v))),
      (''consumed_capacity'', dynamo_opt_attr (\<lambda>x. DdbObject (DdbConsumedCapacity x)) (dqo_consumed_capacity v))]"

definition query_output_to_dict :: "((string, pyval) fmap \<Rightarrow> (string \<times> pyval) list) \<Rightarrow> dynamo_types \<Rightarrow> query_output \<Rightarrow> pyval" where
  "query_output_to_dict order S v = PyDict (py_dict
     [(''items'', opt_to_py (seq_to_py (mapping_to_py order (attribute_value_to_py order))) (dqo_items v)),
      (''count'', PyInt (dqo_count v)),
      (''scanned_count'', PyInt (dqo_scanned_count v)),
      (''last_evaluated_key'', opt_to_py (mapping_to_py order (attribute_value_to_py order)) (dqo_last_evaluated_key v)),
      (''consumed_capacity'', opt_to_py (consumed_capacity_to_py order) (dqo_consumed_capacity v))])"

section \<open>\<open>ScanOutput\<close>\<close>

record scan_output =
  dso_items :: "(string, attribute_value) fmap list option"
  dso_count :: int
  dso_scanned_count :: int
  dso_last_evaluated_key :: "(string, attribute_value) fmap option"
  dso_consumed_capacity :: "consumed_capacity option"

definition scan_output_attributes :: "((string, pyval) fmap \<Rightarrow> (string \<times> pyval) list) \<Rightarrow> dynamo_types \<Rightarrow> scan_output \<Rightarrow> (string \<times> dynamo_attr) list" where
  "scan_output_attributes order S v =
     [(''items'', DdbPlain (opt_to_py (seq_to_py (mapping_to_py order (attribute_value_to_py order))) (dso_items v))),
      (''count'', DdbPlain (PyInt (dso_count v))),
      (''scanned_count'', DdbPlain (PyInt (dso_scanned_count v))),
      (''last_evaluated_key'', DdbPlain (opt_to_py (mapping_to_py order (attribute_value_to_py order)) (dso_last_evaluated_key v))),
      (''consumed_capacity'', dynamo_opt_attr (\<lambda>x. DdbObject (DdbConsumedCapacity x)) (dso_consumed_capacity v))]"

definition scan_output_to_dict :: "((string, pyval) fmap \<Rightarrow> (string \<times> pyval) list) \<Rightarrow> dynamo_types \<Rightarrow> scan_output \<Rightarrow> pyval" where
  "scan_output_to_dict order S v = PyDict (py_dict
     [(''items'', opt_to_py (seq_to_py (mapping_to_py order (attribute_value_to_py order))) (dso_items v)),
      (''count'', PyInt (dso_count v)),
      (''scanned_count'', PyInt (dso_scanned_count v)),
      (''last_evaluated_key'', opt_to_py (mapping_to_py order (attribute_value_to_py order)) (dso_last_evaluated_key v)),
      (''consumed_capacity'', opt_to_py (consumed_capacity_to_py order) (dso_consumed_capacity v))])"

section \<open>\<open>TransactGetItemsOutput\<close>\<close>

record transact_get_items_output =
  dtgio_consumed_capacity :: "consumed_capacity list option"
  dtgio_responses :: "item_response list option"

definition transact_get_items_output_attributes :: "((string, pyval) fmap \<Rightarrow> (string \<times> pyval) list) \<Rightarrow> dynamo_types \<Rightarrow> transact_get_items_output \<Rightarrow> (string \<times> dynamo_attr) list" where
  "transact_get_items_output_attributes order S v =
     [(''consumed_capacity'', dynamo_opt_attr (\<lambda>xs. DdbObjects (map DdbConsumedCapacity xs)) (dtgio_consumed_capacity v)),
      (''responses'', dynamo_opt_attr (\<lambda>xs. DdbObjects (map DdbItemResponse xs)) (dtgio_responses v))]"

definition transact_get_items_output_to_dict :: "((string, pyval) fmap \<Rightarrow> (string \<times> pyval) list) \<Rightarrow> dynamo_types \<Rightarrow> transact_get_items_output \<Rightarrow> pyval" where
  "transact_get_items_output_to_dict order S v = PyDict (py_dict
     [(''consumed_capacity'', opt_to_py (seq_to_py (consumed_capacity_to_py order)) (dtgio_consumed_capacity v)),
      (''responses'', opt_to_py (seq_to_py (item_response_to_py order)) (dtgio_responses v))])"

section \<open>\<open>TransactWriteItemsOutput\<close>\<close>

record transact_write_items_output =
  dtwio_consumed_capacity :: "consumed_capacity list option"
  dtwio_item_collection_metrics :: "(string, item_collection_metrics list) fmap option"

definition transact_write_items_output_attributes :: "((string, pyval) fmap \<Rightarrow> (string \<times> pyval) list) \<Rightarrow> dynamo_types \<Rightarrow> transact_write_items_output \<Rightarrow> (string \<times> dynamo_attr) list" where
  "transact_write_items_output_attributes order S v =
     [(''consumed_capacity'', dynamo_opt_attr (\<lambda>xs. DdbObjects (map DdbConsumedCapacity xs)) (dtwio_consumed_capacity v)),
      (''item_collection_metrics'', DdbPlain (opt_to_py (mapping_to_py order (seq_to_py (item_collection_metrics_to_py order))) (dtwio_item_collection_metrics v)))]"

definition transact_write_items_output_to_dict :: "((string, pyval) fmap \<Rightarrow> (string \<times> pyval) list) \<Rightarrow> dynamo_types \<Rightarrow> transact_write_items_output \<Rightarrow> pyval" where
  "transact_write_items_output_to_dict order S v = PyDict (py_dict
     [(''consumed_capacity'', opt_to_py (seq_to_py (consumed_capacity_to_py order)) (dtwio_consumed_capacity v)),
      (''item_collection_metrics'', opt_to_py (mapping_to_py order (seq_to_py (item_collection_metrics_to_py order))) (dtwio_item_collection_metrics v))])"

section \<open>\<open>UpdateItemOutput\<close>\<close>

record update_item_output =
  duio_attributes :: "(string, attribute_value) fmap option"
  duio_consumed_capacity :: "consumed_capacity option"
  duio_item_collection_metrics :: "item_collection_metrics option"

definition update_item_output_attributes :: "((string, pyval) fmap \<Rightarrow> (string \<times> pyval) list) \<Rightarrow> dynamo_types \<Rightarrow> update_item_output \<Rightarrow> (string \<times> dynamo_attr) list" where
  "update_item_output_attributes order S v =
     [(''attributes'', DdbPlain (opt_to_py (mapping_to_py order (attribute_value_to_py order)) (duio_attributes v))),
      (''consumed_capacity'', dynamo_opt_attr (\<lambda>x. DdbObject (DdbConsumedCapacity x)) (duio_consumed_capacity v)),
      (''item_collection_metrics'', dynamo_opt_attr (\<lambda>x. DdbObject (DdbItemCollectionMetrics x)) (duio_item_collection_metrics v))]"

definition update_item_output_to_dict :: "((string, pyval) fmap \<Rightarrow> (string \<times> pyval) list) \<Rightarrow> dynamo_types \<Rightarrow> update_item_output \<Rightarrow> pyval" where
  "update_item_output_to_dict order S v = PyDict (py_dict
     [(''attributes'', opt_to_py (mapping_to_py order (attribute_value_to_py order)) (duio_attributes v)),
      (''consumed_capacity'', opt_to_py (consumed_capacity_to_py order) (duio_consumed_capacity v)),
      (''item_collection_metrics'', opt_to_py (item_collection_metrics_to_py order) (duio_item_collection_metrics v))])"

section \<open>Dictionaries and attributes agree\<close>

text \<open>The plain value of an object is what its own \<open>to_dict\<close> gives.\<close>

fun dynamo_render_object :: "((string, pyval) fmap \<Rightarrow> (string \<times> pyval) list) \<Rightarrow> dynamo_types \<Rightarrow> dynamo_object \<Rightarrow> pyval" where
  "dynamo_render_object order S (DdbBatchStatementError v) = batch_statement_error_to_dict order S v"
| "dynamo_render_object order S (DdbBatchStatementResponse v) = batch_statement_response_to_dict order S v"
| "dynamo_render_object order S (DdbCapacity v) = capacity_to_dict order S v"
| "dynamo_render_object order S (DdbConsumedCapacity v) = consumed_capacity_to_dict order S v"
| "dynamo_render_object order S (DdbDeleteRequest v) = delete_request_to_dict order S v"
| "dynamo_render_object order S (DdbItemCollectionMetrics v) = item_collection_metrics_to_dict order S v"
| "dynamo_render_object order S (DdbItemResponse v) = item_response_to_dict order S v"
| "dynamo_render_object order S (DdbKeysAndAttributes v) = keys_and_attributes_to_dict order S v"
| "dynamo_render_object order S (DdbPutRequest v) = put_request_to_dict order S v"
| "dynamo_render_object order S (DdbVectorCapacity v) = vector_capacity_to_dict order S v"
| "dynamo_render_object order S (DdbWriteRequest v) = write_request_to_dict order S v"

fun dynamo_render :: "((string, pyval) fmap \<Rightarrow> (string \<times> pyval) list) \<Rightarrow> dynamo_types \<Rightarrow> dynamo_attr \<Rightarrow> pyval" where
  "dynamo_render order S (DdbPlain v) = v"
| "dynamo_render order S (DdbObject x) = dynamo_render_object order S x"
| "dynamo_render order S (DdbObjects xs) = seq_to_py (dynamo_render_object order S) xs"
| "dynamo_render order S (DdbObjectMap m) = mapping_to_py order (dynamo_render_object order S) m"

lemma dynamo_render_parts [simp]:
  "dynamo_render order S (dynamo_opt_attr f v) = opt_to_py (\<lambda>x. dynamo_render order S (f x)) v"
  "seq_to_py g (map h xs) = seq_to_py (\<lambda>x. g (h x)) xs"
  "mapping_to_py order g (fmmap k m) = mapping_to_py order (\<lambda>x. g (k x)) m"
  by (simp_all add: dynamo_opt_attr_def seq_to_py_def mapping_to_py_def fmap.map_comp comp_def split: option.splits)

definition dynamo_attribute_dict :: "((string, pyval) fmap \<Rightarrow> (string \<times> pyval) list) \<Rightarrow> dynamo_types \<Rightarrow> (string \<times> dynamo_attr) list \<Rightarrow> pyval" where
  "dynamo_attribute_dict order S attrs = PyDict (map (\<lambda>(name, a). (PyStr name, dynamo_render order S a)) attrs)"

text \<open>
  For each of the 24 response classes, \<open>to_dict\<close> has exactly one entry per attribute, in the order of
  the getters, with the attribute's value: the value itself, or the dictionaries of the objects.
\<close>

lemma batch_statement_error_agrees:
  "batch_statement_error_to_dict order S v = dynamo_attribute_dict order S (batch_statement_error_attributes order S v)"
  by (simp add: dynamo_attribute_dict_def py_dict_distinct batch_statement_error_to_dict_def batch_statement_error_attributes_def
      batch_statement_error_to_py_def)

lemma batch_statement_response_agrees:
  "batch_statement_response_to_dict order S v = dynamo_attribute_dict order S (batch_statement_response_attributes order S v)"
  by (simp add: dynamo_attribute_dict_def py_dict_distinct batch_statement_response_to_dict_def batch_statement_response_attributes_def
      batch_statement_response_to_py_def batch_statement_error_to_dict_def)

lemma capacity_agrees:
  "capacity_to_dict order S v = dynamo_attribute_dict order S (capacity_attributes order S v)"
  by (simp add: dynamo_attribute_dict_def py_dict_distinct capacity_to_dict_def capacity_attributes_def
      capacity_to_py_def)

lemma consumed_capacity_agrees:
  "consumed_capacity_to_dict order S v = dynamo_attribute_dict order S (consumed_capacity_attributes order S v)"
  by (simp add: dynamo_attribute_dict_def py_dict_distinct consumed_capacity_to_dict_def consumed_capacity_attributes_def
      consumed_capacity_to_py_def capacity_to_dict_def vector_capacity_to_dict_def)

lemma delete_request_agrees:
  "delete_request_to_dict order S v = dynamo_attribute_dict order S (delete_request_attributes order S v)"
  by (simp add: dynamo_attribute_dict_def py_dict_distinct delete_request_to_dict_def delete_request_attributes_def
      delete_request_to_py_def)

lemma item_collection_metrics_agrees:
  "item_collection_metrics_to_dict order S v = dynamo_attribute_dict order S (item_collection_metrics_attributes order S v)"
  by (simp add: dynamo_attribute_dict_def py_dict_distinct item_collection_metrics_to_dict_def item_collection_metrics_attributes_def
      item_collection_metrics_to_py_def)

lemma item_response_agrees:
  "item_response_to_dict order S v = dynamo_attribute_dict order S (item_response_attributes order S v)"
  by (simp add: dynamo_attribute_dict_def py_dict_distinct item_response_to_dict_def item_response_attributes_def
      item_response_to_py_def)

lemma keys_and_attributes_agrees:
  "keys_and_attributes_to_dict order S v = dynamo_attribute_dict order S (keys_and_attributes_attributes order S v)"
  by (simp add: dynamo_attribute_dict_def py_dict_distinct keys_and_attributes_to_dict_def keys_and_attributes_attributes_def
      keys_and_attributes_to_py_def)

lemma put_request_agrees:
  "put_request_to_dict order S v = dynamo_attribute_dict order S (put_request_attributes order S v)"
  by (simp add: dynamo_attribute_dict_def py_dict_distinct put_request_to_dict_def put_request_attributes_def
      put_request_to_py_def)

lemma vector_capacity_agrees:
  "vector_capacity_to_dict order S v = dynamo_attribute_dict order S (vector_capacity_attributes order S v)"
  by (simp add: dynamo_attribute_dict_def py_dict_distinct vector_capacity_to_dict_def vector_capacity_attributes_def
      vector_capacity_to_py_def)

lemma write_request_agrees:
  "write_request_to_dict order S v = dynamo_attribute_dict order S (write_request_attributes order S v)"
  by (simp add: dynamo_attribute_dict_def py_dict_distinct write_request_to_dict_def write_request_attributes_def
      write_request_to_py_def delete_request_to_dict_def put_request_to_dict_def)

lemma dynamo_outputs_agree:
  "batch_execute_statement_output_to_dict order S v11 = dynamo_attribute_dict order S (batch_execute_statement_output_attributes order S v11)"
  "batch_get_item_output_to_dict order S v12 = dynamo_attribute_dict order S (batch_get_item_output_attributes order S v12)"
  "batch_write_item_output_to_dict order S v13 = dynamo_attribute_dict order S (batch_write_item_output_attributes order S v13)"
  "delete_item_output_to_dict order S v14 = dynamo_attribute_dict order S (delete_item_output_attributes order S v14)"
  "execute_statement_output_to_dict order S v15 = dynamo_attribute_dict order S (execute_statement_output_attributes order S v15)"
  "execute_transaction_output_to_dict order S v16 = dynamo_attribute_dict order S (execute_transaction_output_attributes order S v16)"
  "get_item_output_to_dict order S v17 = dynamo_attribute_dict order S (get_item_output_attributes order S v17)"
  "put_item_output_to_dict order S v18 = dynamo_attribute_dict order S (put_item_output_attributes order S v18)"
  "query_output_to_dict order S v19 = dynamo_attribute_dict order S (query_output_attributes order S v19)"
  "scan_output_to_dict order S v20 = dynamo_attribute_dict order S (scan_output_attributes order S v20)"
  "transact_get_items_output_to_dict order S v21 = dynamo_attribute_dict order S (transact_get_items_output_attributes order S v21)"
  "transact_write_items_output_to_dict order S v22 = dynamo_attribute_dict order S (transact_write_items_output_attributes order S v22)"
  "update_item_output_to_dict order S v23 = dynamo_attribute_dict order S (update_item_output_attributes order S v23)"
  by (simp_all add: dynamo_attribute_dict_def py_dict_distinct
      batch_execute_statement_output_to_dict_def batch_execute_statement_output_attributes_def
      batch_get_item_output_to_dict_def batch_get_item_output_attributes_def
      batch_write_item_output_to_dict_def batch_write_item_output_attributes_def
      delete_item_output_to_dict_def delete_item_output_attributes_def
      execute_statement_output_to_dict_def execute_statement_output_attributes_def
      execute_transaction_output_to_dict_def execute_transaction_output_attributes_def
      get_item_output_to_dict_def get_item_output_attributes_def
      put_item_output_to_dict_def put_item_output_attributes_def
      query_output_to_dict_def query_output_attributes_def
      scan_output_to_dict_def scan_output_attributes_def
      transact_get_items_output_to_dict_def transact_get_items_output_attributes_def
      transact_write_items_output_to_dict_def transact_write_items_output_attributes_def
      update_item_output_to_dict_def update_item_output_attributes_def
      batch_statement_error_to_dict_def
      batch_statement_response_to_dict_def
      capacity_to_dict_def
      consumed_capacity_to_dict_def
      delete_request_to_dict_def
      item_collection_metrics_to_dict_def
      item_response_to_dict_def
      keys_and_attributes_to_dict_def
      put_request_to_dict_def
      vector_capacity_to_dict_def
      write_request_to_dict_def)

end
