(* ===== verification/Ddb.thy ===== *)
theory Ddb
  imports DdbOutputs
begin

text \<open>
  The operations of the DynamoDB client: the methods of \<open>DynamoDBClient\<close> in
  \<open>crates/rboto-dynamodb/src/generated.rs\<close>, each reading its parameters from a dictionary and sending them
  through the shared \<open>execute\<close>, and the methods of the Python client
  (\<open>packages/rboto-dynamodb/python/rboto_dynamodb/client.py\<close>) that build those dictionaries.
\<close>

section \<open>Errors with details\<close>

text \<open>
  The modelled errors of the operations on items that carry details: the item found by a failed
  condition, the reasons of throttling, and those of a cancelled transaction. An operation has the
  variants its model names; the others are \<open>DynamoOther\<close>.
\<close>

datatype dynamo_error =
    ConditionalCheckFailed "(string, attribute_value) fmap option"
  | ProvisionedThroughputExceeded "dynamo_throttling_reason list option"
  | RequestLimitExceeded "dynamo_throttling_reason list option"
  | Throttling "dynamo_throttling_reason list option"
  | TransactionCanceled "cancellation_reason list option"
  | DynamoOther

definition throttling_details :: "dynamo_throttling_reason list option \<Rightarrow> pydict" where
  "throttling_details reasons = details_of [(''throttling_reasons'', map_option (seq_to_py dynamo_throttling_reason_to_py) reasons)]"

definition transaction_canceled_details ::
    "((string, pyval) fmap \<Rightarrow> (string \<times> pyval) list) \<Rightarrow> cancellation_reason list option \<Rightarrow> pydict" where
  "transaction_canceled_details order reasons =
     details_of [(''cancellation_reasons'', map_option (seq_to_py (cancellation_reason_to_py order)) reasons)]"

definition dynamo_error_details ::
    "((string, pyval) fmap \<Rightarrow> (string \<times> pyval) list) \<Rightarrow> dynamo_error \<Rightarrow> pydict pyresult" where
  "dynamo_error_details order e = Inr (case e of
     ConditionalCheckFailed item \<Rightarrow> conditional_check_failed_details order item
   | ProvisionedThroughputExceeded reasons \<Rightarrow> throttling_details reasons
   | RequestLimitExceeded reasons \<Rightarrow> throttling_details reasons
   | Throttling reasons \<Rightarrow> throttling_details reasons
   | TransactionCanceled reasons \<Rightarrow> transaction_canceled_details order reasons
   | DynamoOther \<Rightarrow> [])"

section \<open>Operations\<close>

subsection \<open>\<open>BatchExecuteStatement\<close>\<close>

record batch_execute_statement_input =
  dbesi_statements :: "batch_statement_request list option"
  dbesi_return_consumed_capacity :: "string option"

definition batch_execute_statement_params :: "pyo3 \<Rightarrow> dynamo_types \<Rightarrow> pydict \<Rightarrow>
    batch_execute_statement_input pyresult" where
  "batch_execute_statement_params P S params =
     and_then (op_param P ''dynamodb'' ''BatchExecuteStatement'' params ''statements'' ''sequence'' (seq_from_py P ''dict (BatchStatementRequest)'' (batch_statement_request_from_py P S))) (\<lambda>statements.
     and_then (op_param P ''dynamodb'' ''BatchExecuteStatement'' params ''return_consumed_capacity'' ''str (ReturnConsumedCapacity)'' (enum_from_py P)) (\<lambda>return_consumed_capacity.
     Inr \<lparr>dbesi_statements = statements,
       dbesi_return_consumed_capacity = return_consumed_capacity\<rparr>))"

definition batch_execute_statement :: "('cfg, 'client) service_env \<Rightarrow> pyo3 \<Rightarrow> dynamo_types \<Rightarrow> ((string, pyval) fmap \<Rightarrow> (string \<times> pyval) list) \<Rightarrow> unit pyresult \<Rightarrow> bool \<Rightarrow>
    ('client \<Rightarrow> batch_execute_statement_input \<Rightarrow> trip list \<times> ((dynamo_error, http_response) sdk_error + batch_execute_statement_output)) \<Rightarrow>
    'client client_handle \<Rightarrow> pydict \<Rightarrow> pydict option \<Rightarrow>
    (batch_execute_statement_output pyresult \<times> 'client client_handle \<times> pydict option) option" where
  "batch_execute_statement E P S order bridge interrupted send c params observation =
     execute E bridge interrupted send (dynamo_error_details order)
       ''BatchExecuteStatement'' (batch_execute_statement_params P S params) c observation"

definition batch_execute_statement_call :: "((string, pyval) fmap \<Rightarrow> (string \<times> pyval) list) \<Rightarrow> batch_execute_statement_input \<Rightarrow> pydict" where
  "batch_execute_statement_call order i = py_params
     [(''statements'', opt_to_py (seq_to_py (batch_statement_request_to_py order)) (dbesi_statements i))]
     [(''return_consumed_capacity'', opt_to_py PyStr (dbesi_return_consumed_capacity i))]"

subsection \<open>\<open>BatchGetItem\<close>\<close>

record batch_get_item_input =
  dbgii_request_items :: "(string, keys_and_attributes) fmap option"
  dbgii_return_consumed_capacity :: "string option"

definition batch_get_item_params :: "pyo3 \<Rightarrow> dynamo_types \<Rightarrow> pydict \<Rightarrow>
    batch_get_item_input pyresult" where
  "batch_get_item_params P S params =
     and_then (op_param P ''dynamodb'' ''BatchGetItem'' params ''request_items'' ''dict'' (map_from_py P ''str'' ''dict (KeysAndAttributes)'' (keys_and_attributes_from_py P S))) (\<lambda>request_items.
     and_then (op_param P ''dynamodb'' ''BatchGetItem'' params ''return_consumed_capacity'' ''str (ReturnConsumedCapacity)'' (enum_from_py P)) (\<lambda>return_consumed_capacity.
     Inr \<lparr>dbgii_request_items = request_items,
       dbgii_return_consumed_capacity = return_consumed_capacity\<rparr>))"

definition batch_get_item :: "('cfg, 'client) service_env \<Rightarrow> pyo3 \<Rightarrow> dynamo_types \<Rightarrow> ((string, pyval) fmap \<Rightarrow> (string \<times> pyval) list) \<Rightarrow> unit pyresult \<Rightarrow> bool \<Rightarrow>
    ('client \<Rightarrow> batch_get_item_input \<Rightarrow> trip list \<times> ((dynamo_error, http_response) sdk_error + batch_get_item_output)) \<Rightarrow>
    'client client_handle \<Rightarrow> pydict \<Rightarrow> pydict option \<Rightarrow>
    (batch_get_item_output pyresult \<times> 'client client_handle \<times> pydict option) option" where
  "batch_get_item E P S order bridge interrupted send c params observation =
     execute E bridge interrupted send (dynamo_error_details order)
       ''BatchGetItem'' (batch_get_item_params P S params) c observation"

definition batch_get_item_call :: "((string, pyval) fmap \<Rightarrow> (string \<times> pyval) list) \<Rightarrow> batch_get_item_input \<Rightarrow> pydict" where
  "batch_get_item_call order i = py_params
     [(''request_items'', opt_to_py (mapping_to_py order (keys_and_attributes_to_py order)) (dbgii_request_items i))]
     [(''return_consumed_capacity'', opt_to_py PyStr (dbgii_return_consumed_capacity i))]"

subsection \<open>\<open>BatchWriteItem\<close>\<close>

record batch_write_item_input =
  dbwii_request_items :: "(string, write_request list) fmap option"
  dbwii_return_consumed_capacity :: "string option"
  dbwii_return_item_collection_metrics :: "string option"

definition batch_write_item_params :: "pyo3 \<Rightarrow> dynamo_types \<Rightarrow> pydict \<Rightarrow>
    batch_write_item_input pyresult" where
  "batch_write_item_params P S params =
     and_then (op_param P ''dynamodb'' ''BatchWriteItem'' params ''request_items'' ''dict'' (map_from_py P ''str'' ''sequence'' (seq_from_py P ''dict (WriteRequest)'' (write_request_from_py P S)))) (\<lambda>request_items.
     and_then (op_param P ''dynamodb'' ''BatchWriteItem'' params ''return_consumed_capacity'' ''str (ReturnConsumedCapacity)'' (enum_from_py P)) (\<lambda>return_consumed_capacity.
     and_then (op_param P ''dynamodb'' ''BatchWriteItem'' params ''return_item_collection_metrics'' ''str (ReturnItemCollectionMetrics)'' (enum_from_py P)) (\<lambda>return_item_collection_metrics.
     Inr \<lparr>dbwii_request_items = request_items,
       dbwii_return_consumed_capacity = return_consumed_capacity,
       dbwii_return_item_collection_metrics = return_item_collection_metrics\<rparr>)))"

definition batch_write_item :: "('cfg, 'client) service_env \<Rightarrow> pyo3 \<Rightarrow> dynamo_types \<Rightarrow> ((string, pyval) fmap \<Rightarrow> (string \<times> pyval) list) \<Rightarrow> unit pyresult \<Rightarrow> bool \<Rightarrow>
    ('client \<Rightarrow> batch_write_item_input \<Rightarrow> trip list \<times> ((dynamo_error, http_response) sdk_error + batch_write_item_output)) \<Rightarrow>
    'client client_handle \<Rightarrow> pydict \<Rightarrow> pydict option \<Rightarrow>
    (batch_write_item_output pyresult \<times> 'client client_handle \<times> pydict option) option" where
  "batch_write_item E P S order bridge interrupted send c params observation =
     execute E bridge interrupted send (dynamo_error_details order)
       ''BatchWriteItem'' (batch_write_item_params P S params) c observation"

definition batch_write_item_call :: "((string, pyval) fmap \<Rightarrow> (string \<times> pyval) list) \<Rightarrow> batch_write_item_input \<Rightarrow> pydict" where
  "batch_write_item_call order i = py_params
     [(''request_items'', opt_to_py (mapping_to_py order (seq_to_py (write_request_to_py order))) (dbwii_request_items i))]
     [(''return_consumed_capacity'', opt_to_py PyStr (dbwii_return_consumed_capacity i)),
      (''return_item_collection_metrics'', opt_to_py PyStr (dbwii_return_item_collection_metrics i))]"

subsection \<open>\<open>DeleteItem\<close>\<close>

record delete_item_input =
  ddii_table_name :: "string option"
  ddii_key :: "(string, attribute_value) fmap option"
  ddii_expected :: "(string, expected_attribute_value) fmap option"
  ddii_conditional_operator :: "string option"
  ddii_return_values :: "string option"
  ddii_return_consumed_capacity :: "string option"
  ddii_return_item_collection_metrics :: "string option"
  ddii_condition_expression :: "string option"
  ddii_expression_attribute_names :: "(string, string) fmap option"
  ddii_expression_attribute_values :: "(string, attribute_value) fmap option"
  ddii_return_values_on_condition_check_failure :: "string option"

definition delete_item_params_1 :: "pyo3 \<Rightarrow> dynamo_types \<Rightarrow> pydict \<Rightarrow>
    (string option \<times> (string, attribute_value) fmap option \<times> (string, expected_attribute_value) fmap option) pyresult" where
  "delete_item_params_1 P S params =
     and_then (op_param P ''dynamodb'' ''DeleteItem'' params ''table_name'' ''str'' (string_from_py P)) (\<lambda>table_name.
     and_then (op_param P ''dynamodb'' ''DeleteItem'' params ''key'' ''dict'' (map_from_py P ''str'' ''exactly one known union variant'' (attribute_value_from_py P (dynamo_stack S)))) (\<lambda>key.
     and_then (op_param P ''dynamodb'' ''DeleteItem'' params ''expected'' ''dict'' (map_from_py P ''str'' ''dict (ExpectedAttributeValue)'' (expected_attribute_value_from_py P S))) (\<lambda>expected.
     Inr (table_name, key, expected))))"

definition delete_item_params_2 :: "pyo3 \<Rightarrow> dynamo_types \<Rightarrow> pydict \<Rightarrow>
    (string option \<times> string option \<times> string option \<times> string option \<times> string option) pyresult" where
  "delete_item_params_2 P S params =
     and_then (op_param P ''dynamodb'' ''DeleteItem'' params ''conditional_operator'' ''str (ConditionalOperator)'' (enum_from_py P)) (\<lambda>conditional_operator.
     and_then (op_param P ''dynamodb'' ''DeleteItem'' params ''return_values'' ''str (ReturnValue)'' (enum_from_py P)) (\<lambda>return_values.
     and_then (op_param P ''dynamodb'' ''DeleteItem'' params ''return_consumed_capacity'' ''str (ReturnConsumedCapacity)'' (enum_from_py P)) (\<lambda>return_consumed_capacity.
     and_then (op_param P ''dynamodb'' ''DeleteItem'' params ''return_item_collection_metrics'' ''str (ReturnItemCollectionMetrics)'' (enum_from_py P)) (\<lambda>return_item_collection_metrics.
     and_then (op_param P ''dynamodb'' ''DeleteItem'' params ''condition_expression'' ''str'' (string_from_py P)) (\<lambda>condition_expression.
     Inr (conditional_operator, return_values, return_consumed_capacity, return_item_collection_metrics, condition_expression))))))"

definition delete_item_params_3 :: "pyo3 \<Rightarrow> dynamo_types \<Rightarrow> pydict \<Rightarrow>
    ((string, string) fmap option \<times> (string, attribute_value) fmap option \<times> string option) pyresult" where
  "delete_item_params_3 P S params =
     and_then (op_param P ''dynamodb'' ''DeleteItem'' params ''expression_attribute_names'' ''dict'' (map_from_py P ''str'' ''str'' (string_from_py P))) (\<lambda>expression_attribute_names.
     and_then (op_param P ''dynamodb'' ''DeleteItem'' params ''expression_attribute_values'' ''dict'' (map_from_py P ''str'' ''exactly one known union variant'' (attribute_value_from_py P (dynamo_stack S)))) (\<lambda>expression_attribute_values.
     and_then (op_param P ''dynamodb'' ''DeleteItem'' params ''return_values_on_condition_check_failure'' ''str (ReturnValuesOnConditionCheckFailure)'' (enum_from_py P)) (\<lambda>return_values_on_condition_check_failure.
     Inr (expression_attribute_names, expression_attribute_values, return_values_on_condition_check_failure))))"

definition delete_item_params :: "pyo3 \<Rightarrow> dynamo_types \<Rightarrow> pydict \<Rightarrow>
    delete_item_input pyresult" where
  "delete_item_params P S params =
     and_then (delete_item_params_1 P S params) (\<lambda>(table_name, key, expected).
     and_then (delete_item_params_2 P S params) (\<lambda>(conditional_operator, return_values, return_consumed_capacity, return_item_collection_metrics, condition_expression).
     and_then (delete_item_params_3 P S params) (\<lambda>(expression_attribute_names, expression_attribute_values, return_values_on_condition_check_failure).
     Inr \<lparr>ddii_table_name = table_name,
       ddii_key = key,
       ddii_expected = expected,
       ddii_conditional_operator = conditional_operator,
       ddii_return_values = return_values,
       ddii_return_consumed_capacity = return_consumed_capacity,
       ddii_return_item_collection_metrics = return_item_collection_metrics,
       ddii_condition_expression = condition_expression,
       ddii_expression_attribute_names = expression_attribute_names,
       ddii_expression_attribute_values = expression_attribute_values,
       ddii_return_values_on_condition_check_failure = return_values_on_condition_check_failure\<rparr>)))"

definition delete_item :: "('cfg, 'client) service_env \<Rightarrow> pyo3 \<Rightarrow> dynamo_types \<Rightarrow> ((string, pyval) fmap \<Rightarrow> (string \<times> pyval) list) \<Rightarrow> unit pyresult \<Rightarrow> bool \<Rightarrow>
    ('client \<Rightarrow> delete_item_input \<Rightarrow> trip list \<times> ((dynamo_error, http_response) sdk_error + delete_item_output)) \<Rightarrow>
    'client client_handle \<Rightarrow> pydict \<Rightarrow> pydict option \<Rightarrow>
    (delete_item_output pyresult \<times> 'client client_handle \<times> pydict option) option" where
  "delete_item E P S order bridge interrupted send c params observation =
     execute E bridge interrupted send (dynamo_error_details order)
       ''DeleteItem'' (delete_item_params P S params) c observation"

definition delete_item_call :: "((string, pyval) fmap \<Rightarrow> (string \<times> pyval) list) \<Rightarrow> delete_item_input \<Rightarrow> pydict" where
  "delete_item_call order i = py_params
     [(''table_name'', opt_to_py PyStr (ddii_table_name i)),
      (''key'', opt_to_py (mapping_to_py order (attribute_value_to_py order)) (ddii_key i))]
     [(''expected'', opt_to_py (mapping_to_py order (expected_attribute_value_to_py order)) (ddii_expected i)),
      (''conditional_operator'', opt_to_py PyStr (ddii_conditional_operator i)),
      (''return_values'', opt_to_py PyStr (ddii_return_values i)),
      (''return_consumed_capacity'', opt_to_py PyStr (ddii_return_consumed_capacity i)),
      (''return_item_collection_metrics'', opt_to_py PyStr (ddii_return_item_collection_metrics i)),
      (''condition_expression'', opt_to_py PyStr (ddii_condition_expression i)),
      (''expression_attribute_names'', opt_to_py (mapping_to_py order PyStr) (ddii_expression_attribute_names i)),
      (''expression_attribute_values'', opt_to_py (mapping_to_py order (attribute_value_to_py order)) (ddii_expression_attribute_values i)),
      (''return_values_on_condition_check_failure'', opt_to_py PyStr (ddii_return_values_on_condition_check_failure i))]"

subsection \<open>\<open>ExecuteStatement\<close>\<close>

record execute_statement_input =
  desi_statement :: "string option"
  desi_parameters :: "attribute_value list option"
  desi_consistent_read :: "bool option"
  desi_next_token :: "string option"
  desi_return_consumed_capacity :: "string option"
  desi_limit :: "32 word option"
  desi_return_values_on_condition_check_failure :: "string option"

definition execute_statement_params_1 :: "pyo3 \<Rightarrow> dynamo_types \<Rightarrow> pydict \<Rightarrow>
    (string option \<times> attribute_value list option \<times> bool option) pyresult" where
  "execute_statement_params_1 P S params =
     and_then (op_param P ''dynamodb'' ''ExecuteStatement'' params ''statement'' ''str'' (string_from_py P)) (\<lambda>statement.
     and_then (op_param P ''dynamodb'' ''ExecuteStatement'' params ''parameters'' ''sequence'' (seq_from_py P ''exactly one known union variant'' (attribute_value_from_py P (dynamo_stack S)))) (\<lambda>parameters.
     and_then (op_param P ''dynamodb'' ''ExecuteStatement'' params ''consistent_read'' ''bool'' (bool_from_py P)) (\<lambda>consistent_read.
     Inr (statement, parameters, consistent_read))))"

definition execute_statement_params_2 :: "pyo3 \<Rightarrow> dynamo_types \<Rightarrow> pydict \<Rightarrow>
    (string option \<times> string option \<times> 32 word option \<times> string option) pyresult" where
  "execute_statement_params_2 P S params =
     and_then (op_param P ''dynamodb'' ''ExecuteStatement'' params ''next_token'' ''str'' (string_from_py P)) (\<lambda>next_token.
     and_then (op_param P ''dynamodb'' ''ExecuteStatement'' params ''return_consumed_capacity'' ''str (ReturnConsumedCapacity)'' (enum_from_py P)) (\<lambda>return_consumed_capacity.
     and_then (op_param P ''dynamodb'' ''ExecuteStatement'' params ''limit'' ''int'' (i32_from_py P)) (\<lambda>limit.
     and_then (op_param P ''dynamodb'' ''ExecuteStatement'' params ''return_values_on_condition_check_failure'' ''str (ReturnValuesOnConditionCheckFailure)'' (enum_from_py P)) (\<lambda>return_values_on_condition_check_failure.
     Inr (next_token, return_consumed_capacity, limit, return_values_on_condition_check_failure)))))"

definition execute_statement_params :: "pyo3 \<Rightarrow> dynamo_types \<Rightarrow> pydict \<Rightarrow>
    execute_statement_input pyresult" where
  "execute_statement_params P S params =
     and_then (execute_statement_params_1 P S params) (\<lambda>(statement, parameters, consistent_read).
     and_then (execute_statement_params_2 P S params) (\<lambda>(next_token, return_consumed_capacity, limit, return_values_on_condition_check_failure).
     Inr \<lparr>desi_statement = statement,
       desi_parameters = parameters,
       desi_consistent_read = consistent_read,
       desi_next_token = next_token,
       desi_return_consumed_capacity = return_consumed_capacity,
       desi_limit = limit,
       desi_return_values_on_condition_check_failure = return_values_on_condition_check_failure\<rparr>))"

definition execute_statement :: "('cfg, 'client) service_env \<Rightarrow> pyo3 \<Rightarrow> dynamo_types \<Rightarrow> ((string, pyval) fmap \<Rightarrow> (string \<times> pyval) list) \<Rightarrow> unit pyresult \<Rightarrow> bool \<Rightarrow>
    ('client \<Rightarrow> execute_statement_input \<Rightarrow> trip list \<times> ((dynamo_error, http_response) sdk_error + execute_statement_output)) \<Rightarrow>
    'client client_handle \<Rightarrow> pydict \<Rightarrow> pydict option \<Rightarrow>
    (execute_statement_output pyresult \<times> 'client client_handle \<times> pydict option) option" where
  "execute_statement E P S order bridge interrupted send c params observation =
     execute E bridge interrupted send (dynamo_error_details order)
       ''ExecuteStatement'' (execute_statement_params P S params) c observation"

definition execute_statement_call :: "((string, pyval) fmap \<Rightarrow> (string \<times> pyval) list) \<Rightarrow> execute_statement_input \<Rightarrow> pydict" where
  "execute_statement_call order i = py_params
     [(''statement'', opt_to_py PyStr (desi_statement i))]
     [(''parameters'', opt_to_py (seq_to_py (attribute_value_to_py order)) (desi_parameters i)),
      (''consistent_read'', opt_to_py PyBool (desi_consistent_read i)),
      (''next_token'', opt_to_py PyStr (desi_next_token i)),
      (''return_consumed_capacity'', opt_to_py PyStr (desi_return_consumed_capacity i)),
      (''limit'', opt_to_py i32_to_py (desi_limit i)),
      (''return_values_on_condition_check_failure'', opt_to_py PyStr (desi_return_values_on_condition_check_failure i))]"

subsection \<open>\<open>ExecuteTransaction\<close>\<close>

record execute_transaction_input =
  deti_transact_statements :: "parameterized_statement list option"
  deti_client_request_token :: "string option"
  deti_return_consumed_capacity :: "string option"

definition execute_transaction_params :: "pyo3 \<Rightarrow> dynamo_types \<Rightarrow> pydict \<Rightarrow>
    execute_transaction_input pyresult" where
  "execute_transaction_params P S params =
     and_then (op_param P ''dynamodb'' ''ExecuteTransaction'' params ''transact_statements'' ''sequence'' (seq_from_py P ''dict (ParameterizedStatement)'' (parameterized_statement_from_py P S))) (\<lambda>transact_statements.
     and_then (op_param P ''dynamodb'' ''ExecuteTransaction'' params ''client_request_token'' ''str'' (string_from_py P)) (\<lambda>client_request_token.
     and_then (op_param P ''dynamodb'' ''ExecuteTransaction'' params ''return_consumed_capacity'' ''str (ReturnConsumedCapacity)'' (enum_from_py P)) (\<lambda>return_consumed_capacity.
     Inr \<lparr>deti_transact_statements = transact_statements,
       deti_client_request_token = client_request_token,
       deti_return_consumed_capacity = return_consumed_capacity\<rparr>)))"

definition execute_transaction :: "('cfg, 'client) service_env \<Rightarrow> pyo3 \<Rightarrow> dynamo_types \<Rightarrow> ((string, pyval) fmap \<Rightarrow> (string \<times> pyval) list) \<Rightarrow> unit pyresult \<Rightarrow> bool \<Rightarrow>
    ('client \<Rightarrow> execute_transaction_input \<Rightarrow> trip list \<times> ((dynamo_error, http_response) sdk_error + execute_transaction_output)) \<Rightarrow>
    'client client_handle \<Rightarrow> pydict \<Rightarrow> pydict option \<Rightarrow>
    (execute_transaction_output pyresult \<times> 'client client_handle \<times> pydict option) option" where
  "execute_transaction E P S order bridge interrupted send c params observation =
     execute E bridge interrupted send (dynamo_error_details order)
       ''ExecuteTransaction'' (execute_transaction_params P S params) c observation"

definition execute_transaction_call :: "((string, pyval) fmap \<Rightarrow> (string \<times> pyval) list) \<Rightarrow> execute_transaction_input \<Rightarrow> pydict" where
  "execute_transaction_call order i = py_params
     [(''transact_statements'', opt_to_py (seq_to_py (parameterized_statement_to_py order)) (deti_transact_statements i))]
     [(''client_request_token'', opt_to_py PyStr (deti_client_request_token i)),
      (''return_consumed_capacity'', opt_to_py PyStr (deti_return_consumed_capacity i))]"

subsection \<open>\<open>GetItem\<close>\<close>

record dynamo_get_item_input =
  ddgii_table_name :: "string option"
  ddgii_key :: "(string, attribute_value) fmap option"
  ddgii_attributes_to_get :: "string list option"
  ddgii_consistent_read :: "bool option"
  ddgii_return_consumed_capacity :: "string option"
  ddgii_projection_expression :: "string option"
  ddgii_expression_attribute_names :: "(string, string) fmap option"

definition dynamo_get_item_params_1 :: "pyo3 \<Rightarrow> dynamo_types \<Rightarrow> pydict \<Rightarrow>
    (string option \<times> (string, attribute_value) fmap option \<times> string list option) pyresult" where
  "dynamo_get_item_params_1 P S params =
     and_then (op_param P ''dynamodb'' ''GetItem'' params ''table_name'' ''str'' (string_from_py P)) (\<lambda>table_name.
     and_then (op_param P ''dynamodb'' ''GetItem'' params ''key'' ''dict'' (map_from_py P ''str'' ''exactly one known union variant'' (attribute_value_from_py P (dynamo_stack S)))) (\<lambda>key.
     and_then (op_param P ''dynamodb'' ''GetItem'' params ''attributes_to_get'' ''sequence'' (seq_from_py P ''str'' (string_from_py P))) (\<lambda>attributes_to_get.
     Inr (table_name, key, attributes_to_get))))"

definition dynamo_get_item_params_2 :: "pyo3 \<Rightarrow> dynamo_types \<Rightarrow> pydict \<Rightarrow>
    (bool option \<times> string option \<times> string option \<times> (string, string) fmap option) pyresult" where
  "dynamo_get_item_params_2 P S params =
     and_then (op_param P ''dynamodb'' ''GetItem'' params ''consistent_read'' ''bool'' (bool_from_py P)) (\<lambda>consistent_read.
     and_then (op_param P ''dynamodb'' ''GetItem'' params ''return_consumed_capacity'' ''str (ReturnConsumedCapacity)'' (enum_from_py P)) (\<lambda>return_consumed_capacity.
     and_then (op_param P ''dynamodb'' ''GetItem'' params ''projection_expression'' ''str'' (string_from_py P)) (\<lambda>projection_expression.
     and_then (op_param P ''dynamodb'' ''GetItem'' params ''expression_attribute_names'' ''dict'' (map_from_py P ''str'' ''str'' (string_from_py P))) (\<lambda>expression_attribute_names.
     Inr (consistent_read, return_consumed_capacity, projection_expression, expression_attribute_names)))))"

definition dynamo_get_item_params :: "pyo3 \<Rightarrow> dynamo_types \<Rightarrow> pydict \<Rightarrow>
    dynamo_get_item_input pyresult" where
  "dynamo_get_item_params P S params =
     and_then (dynamo_get_item_params_1 P S params) (\<lambda>(table_name, key, attributes_to_get).
     and_then (dynamo_get_item_params_2 P S params) (\<lambda>(consistent_read, return_consumed_capacity, projection_expression, expression_attribute_names).
     Inr \<lparr>ddgii_table_name = table_name,
       ddgii_key = key,
       ddgii_attributes_to_get = attributes_to_get,
       ddgii_consistent_read = consistent_read,
       ddgii_return_consumed_capacity = return_consumed_capacity,
       ddgii_projection_expression = projection_expression,
       ddgii_expression_attribute_names = expression_attribute_names\<rparr>))"

definition dynamo_get_item :: "('cfg, 'client) service_env \<Rightarrow> pyo3 \<Rightarrow> dynamo_types \<Rightarrow> ((string, pyval) fmap \<Rightarrow> (string \<times> pyval) list) \<Rightarrow> unit pyresult \<Rightarrow> bool \<Rightarrow>
    ('client \<Rightarrow> dynamo_get_item_input \<Rightarrow> trip list \<times> ((dynamo_error, http_response) sdk_error + get_item_output)) \<Rightarrow>
    'client client_handle \<Rightarrow> pydict \<Rightarrow> pydict option \<Rightarrow>
    (get_item_output pyresult \<times> 'client client_handle \<times> pydict option) option" where
  "dynamo_get_item E P S order bridge interrupted send c params observation =
     execute E bridge interrupted send (dynamo_error_details order)
       ''GetItem'' (dynamo_get_item_params P S params) c observation"

definition dynamo_get_item_call :: "((string, pyval) fmap \<Rightarrow> (string \<times> pyval) list) \<Rightarrow> dynamo_get_item_input \<Rightarrow> pydict" where
  "dynamo_get_item_call order i = py_params
     [(''table_name'', opt_to_py PyStr (ddgii_table_name i)),
      (''key'', opt_to_py (mapping_to_py order (attribute_value_to_py order)) (ddgii_key i))]
     [(''attributes_to_get'', opt_to_py (seq_to_py PyStr) (ddgii_attributes_to_get i)),
      (''consistent_read'', opt_to_py PyBool (ddgii_consistent_read i)),
      (''return_consumed_capacity'', opt_to_py PyStr (ddgii_return_consumed_capacity i)),
      (''projection_expression'', opt_to_py PyStr (ddgii_projection_expression i)),
      (''expression_attribute_names'', opt_to_py (mapping_to_py order PyStr) (ddgii_expression_attribute_names i))]"

subsection \<open>\<open>PutItem\<close>\<close>

record put_item_input =
  dpii_table_name :: "string option"
  dpii_item :: "(string, attribute_value) fmap option"
  dpii_expected :: "(string, expected_attribute_value) fmap option"
  dpii_return_values :: "string option"
  dpii_return_consumed_capacity :: "string option"
  dpii_return_item_collection_metrics :: "string option"
  dpii_conditional_operator :: "string option"
  dpii_condition_expression :: "string option"
  dpii_expression_attribute_names :: "(string, string) fmap option"
  dpii_expression_attribute_values :: "(string, attribute_value) fmap option"
  dpii_return_values_on_condition_check_failure :: "string option"

definition put_item_params_1 :: "pyo3 \<Rightarrow> dynamo_types \<Rightarrow> pydict \<Rightarrow>
    (string option \<times> (string, attribute_value) fmap option \<times> (string, expected_attribute_value) fmap option) pyresult" where
  "put_item_params_1 P S params =
     and_then (op_param P ''dynamodb'' ''PutItem'' params ''table_name'' ''str'' (string_from_py P)) (\<lambda>table_name.
     and_then (op_param P ''dynamodb'' ''PutItem'' params ''item'' ''dict'' (map_from_py P ''str'' ''exactly one known union variant'' (attribute_value_from_py P (dynamo_stack S)))) (\<lambda>item.
     and_then (op_param P ''dynamodb'' ''PutItem'' params ''expected'' ''dict'' (map_from_py P ''str'' ''dict (ExpectedAttributeValue)'' (expected_attribute_value_from_py P S))) (\<lambda>expected.
     Inr (table_name, item, expected))))"

definition put_item_params_2 :: "pyo3 \<Rightarrow> dynamo_types \<Rightarrow> pydict \<Rightarrow>
    (string option \<times> string option \<times> string option \<times> string option \<times> string option) pyresult" where
  "put_item_params_2 P S params =
     and_then (op_param P ''dynamodb'' ''PutItem'' params ''return_values'' ''str (ReturnValue)'' (enum_from_py P)) (\<lambda>return_values.
     and_then (op_param P ''dynamodb'' ''PutItem'' params ''return_consumed_capacity'' ''str (ReturnConsumedCapacity)'' (enum_from_py P)) (\<lambda>return_consumed_capacity.
     and_then (op_param P ''dynamodb'' ''PutItem'' params ''return_item_collection_metrics'' ''str (ReturnItemCollectionMetrics)'' (enum_from_py P)) (\<lambda>return_item_collection_metrics.
     and_then (op_param P ''dynamodb'' ''PutItem'' params ''conditional_operator'' ''str (ConditionalOperator)'' (enum_from_py P)) (\<lambda>conditional_operator.
     and_then (op_param P ''dynamodb'' ''PutItem'' params ''condition_expression'' ''str'' (string_from_py P)) (\<lambda>condition_expression.
     Inr (return_values, return_consumed_capacity, return_item_collection_metrics, conditional_operator, condition_expression))))))"

definition put_item_params_3 :: "pyo3 \<Rightarrow> dynamo_types \<Rightarrow> pydict \<Rightarrow>
    ((string, string) fmap option \<times> (string, attribute_value) fmap option \<times> string option) pyresult" where
  "put_item_params_3 P S params =
     and_then (op_param P ''dynamodb'' ''PutItem'' params ''expression_attribute_names'' ''dict'' (map_from_py P ''str'' ''str'' (string_from_py P))) (\<lambda>expression_attribute_names.
     and_then (op_param P ''dynamodb'' ''PutItem'' params ''expression_attribute_values'' ''dict'' (map_from_py P ''str'' ''exactly one known union variant'' (attribute_value_from_py P (dynamo_stack S)))) (\<lambda>expression_attribute_values.
     and_then (op_param P ''dynamodb'' ''PutItem'' params ''return_values_on_condition_check_failure'' ''str (ReturnValuesOnConditionCheckFailure)'' (enum_from_py P)) (\<lambda>return_values_on_condition_check_failure.
     Inr (expression_attribute_names, expression_attribute_values, return_values_on_condition_check_failure))))"

definition put_item_params :: "pyo3 \<Rightarrow> dynamo_types \<Rightarrow> pydict \<Rightarrow>
    put_item_input pyresult" where
  "put_item_params P S params =
     and_then (put_item_params_1 P S params) (\<lambda>(table_name, item, expected).
     and_then (put_item_params_2 P S params) (\<lambda>(return_values, return_consumed_capacity, return_item_collection_metrics, conditional_operator, condition_expression).
     and_then (put_item_params_3 P S params) (\<lambda>(expression_attribute_names, expression_attribute_values, return_values_on_condition_check_failure).
     Inr \<lparr>dpii_table_name = table_name,
       dpii_item = item,
       dpii_expected = expected,
       dpii_return_values = return_values,
       dpii_return_consumed_capacity = return_consumed_capacity,
       dpii_return_item_collection_metrics = return_item_collection_metrics,
       dpii_conditional_operator = conditional_operator,
       dpii_condition_expression = condition_expression,
       dpii_expression_attribute_names = expression_attribute_names,
       dpii_expression_attribute_values = expression_attribute_values,
       dpii_return_values_on_condition_check_failure = return_values_on_condition_check_failure\<rparr>)))"

definition put_item :: "('cfg, 'client) service_env \<Rightarrow> pyo3 \<Rightarrow> dynamo_types \<Rightarrow> ((string, pyval) fmap \<Rightarrow> (string \<times> pyval) list) \<Rightarrow> unit pyresult \<Rightarrow> bool \<Rightarrow>
    ('client \<Rightarrow> put_item_input \<Rightarrow> trip list \<times> ((dynamo_error, http_response) sdk_error + put_item_output)) \<Rightarrow>
    'client client_handle \<Rightarrow> pydict \<Rightarrow> pydict option \<Rightarrow>
    (put_item_output pyresult \<times> 'client client_handle \<times> pydict option) option" where
  "put_item E P S order bridge interrupted send c params observation =
     execute E bridge interrupted send (dynamo_error_details order)
       ''PutItem'' (put_item_params P S params) c observation"

definition put_item_call :: "((string, pyval) fmap \<Rightarrow> (string \<times> pyval) list) \<Rightarrow> put_item_input \<Rightarrow> pydict" where
  "put_item_call order i = py_params
     [(''table_name'', opt_to_py PyStr (dpii_table_name i)),
      (''item'', opt_to_py (mapping_to_py order (attribute_value_to_py order)) (dpii_item i))]
     [(''expected'', opt_to_py (mapping_to_py order (expected_attribute_value_to_py order)) (dpii_expected i)),
      (''return_values'', opt_to_py PyStr (dpii_return_values i)),
      (''return_consumed_capacity'', opt_to_py PyStr (dpii_return_consumed_capacity i)),
      (''return_item_collection_metrics'', opt_to_py PyStr (dpii_return_item_collection_metrics i)),
      (''conditional_operator'', opt_to_py PyStr (dpii_conditional_operator i)),
      (''condition_expression'', opt_to_py PyStr (dpii_condition_expression i)),
      (''expression_attribute_names'', opt_to_py (mapping_to_py order PyStr) (dpii_expression_attribute_names i)),
      (''expression_attribute_values'', opt_to_py (mapping_to_py order (attribute_value_to_py order)) (dpii_expression_attribute_values i)),
      (''return_values_on_condition_check_failure'', opt_to_py PyStr (dpii_return_values_on_condition_check_failure i))]"

subsection \<open>\<open>Query\<close>\<close>

record query_input =
  dqi_table_name :: "string option"
  dqi_index_name :: "string option"
  dqi_select :: "string option"
  dqi_attributes_to_get :: "string list option"
  dqi_limit :: "32 word option"
  dqi_consistent_read :: "bool option"
  dqi_key_conditions :: "(string, dynamo_condition) fmap option"
  dqi_query_filter :: "(string, dynamo_condition) fmap option"
  dqi_conditional_operator :: "string option"
  dqi_scan_index_forward :: "bool option"
  dqi_exclusive_start_key :: "(string, attribute_value) fmap option"
  dqi_return_consumed_capacity :: "string option"
  dqi_projection_expression :: "string option"
  dqi_filter_expression :: "string option"
  dqi_key_condition_expression :: "string option"
  dqi_expression_attribute_names :: "(string, string) fmap option"
  dqi_expression_attribute_values :: "(string, attribute_value) fmap option"

definition query_params_1 :: "pyo3 \<Rightarrow> dynamo_types \<Rightarrow> pydict \<Rightarrow>
    (string option \<times> string option \<times> string option \<times> string list option \<times> 32 word option) pyresult" where
  "query_params_1 P S params =
     and_then (op_param P ''dynamodb'' ''Query'' params ''table_name'' ''str'' (string_from_py P)) (\<lambda>table_name.
     and_then (op_param P ''dynamodb'' ''Query'' params ''index_name'' ''str'' (string_from_py P)) (\<lambda>index_name.
     and_then (op_param P ''dynamodb'' ''Query'' params ''select'' ''str (Select)'' (enum_from_py P)) (\<lambda>select.
     and_then (op_param P ''dynamodb'' ''Query'' params ''attributes_to_get'' ''sequence'' (seq_from_py P ''str'' (string_from_py P))) (\<lambda>attributes_to_get.
     and_then (op_param P ''dynamodb'' ''Query'' params ''limit'' ''int'' (i32_from_py P)) (\<lambda>limit.
     Inr (table_name, index_name, select, attributes_to_get, limit))))))"

definition query_params_2 :: "pyo3 \<Rightarrow> dynamo_types \<Rightarrow> pydict \<Rightarrow>
    (bool option \<times> (string, dynamo_condition) fmap option \<times> (string, dynamo_condition) fmap option \<times> string option) pyresult" where
  "query_params_2 P S params =
     and_then (op_param P ''dynamodb'' ''Query'' params ''consistent_read'' ''bool'' (bool_from_py P)) (\<lambda>consistent_read.
     and_then (op_param P ''dynamodb'' ''Query'' params ''key_conditions'' ''dict'' (map_from_py P ''str'' ''dict (Condition)'' (condition_from_py P S))) (\<lambda>key_conditions.
     and_then (op_param P ''dynamodb'' ''Query'' params ''query_filter'' ''dict'' (map_from_py P ''str'' ''dict (Condition)'' (condition_from_py P S))) (\<lambda>query_filter.
     and_then (op_param P ''dynamodb'' ''Query'' params ''conditional_operator'' ''str (ConditionalOperator)'' (enum_from_py P)) (\<lambda>conditional_operator.
     Inr (consistent_read, key_conditions, query_filter, conditional_operator)))))"

definition query_params_3 :: "pyo3 \<Rightarrow> dynamo_types \<Rightarrow> pydict \<Rightarrow>
    (bool option \<times> (string, attribute_value) fmap option \<times> string option \<times> string option \<times> string option) pyresult" where
  "query_params_3 P S params =
     and_then (op_param P ''dynamodb'' ''Query'' params ''scan_index_forward'' ''bool'' (bool_from_py P)) (\<lambda>scan_index_forward.
     and_then (op_param P ''dynamodb'' ''Query'' params ''exclusive_start_key'' ''dict'' (map_from_py P ''str'' ''exactly one known union variant'' (attribute_value_from_py P (dynamo_stack S)))) (\<lambda>exclusive_start_key.
     and_then (op_param P ''dynamodb'' ''Query'' params ''return_consumed_capacity'' ''str (ReturnConsumedCapacity)'' (enum_from_py P)) (\<lambda>return_consumed_capacity.
     and_then (op_param P ''dynamodb'' ''Query'' params ''projection_expression'' ''str'' (string_from_py P)) (\<lambda>projection_expression.
     and_then (op_param P ''dynamodb'' ''Query'' params ''filter_expression'' ''str'' (string_from_py P)) (\<lambda>filter_expression.
     Inr (scan_index_forward, exclusive_start_key, return_consumed_capacity, projection_expression, filter_expression))))))"

definition query_params_4 :: "pyo3 \<Rightarrow> dynamo_types \<Rightarrow> pydict \<Rightarrow>
    (string option \<times> (string, string) fmap option \<times> (string, attribute_value) fmap option) pyresult" where
  "query_params_4 P S params =
     and_then (op_param P ''dynamodb'' ''Query'' params ''key_condition_expression'' ''str'' (string_from_py P)) (\<lambda>key_condition_expression.
     and_then (op_param P ''dynamodb'' ''Query'' params ''expression_attribute_names'' ''dict'' (map_from_py P ''str'' ''str'' (string_from_py P))) (\<lambda>expression_attribute_names.
     and_then (op_param P ''dynamodb'' ''Query'' params ''expression_attribute_values'' ''dict'' (map_from_py P ''str'' ''exactly one known union variant'' (attribute_value_from_py P (dynamo_stack S)))) (\<lambda>expression_attribute_values.
     Inr (key_condition_expression, expression_attribute_names, expression_attribute_values))))"

definition query_params :: "pyo3 \<Rightarrow> dynamo_types \<Rightarrow> pydict \<Rightarrow>
    query_input pyresult" where
  "query_params P S params =
     and_then (query_params_1 P S params) (\<lambda>(table_name, index_name, select, attributes_to_get, limit).
     and_then (query_params_2 P S params) (\<lambda>(consistent_read, key_conditions, query_filter, conditional_operator).
     and_then (query_params_3 P S params) (\<lambda>(scan_index_forward, exclusive_start_key, return_consumed_capacity, projection_expression, filter_expression).
     and_then (query_params_4 P S params) (\<lambda>(key_condition_expression, expression_attribute_names, expression_attribute_values).
     Inr \<lparr>dqi_table_name = table_name,
       dqi_index_name = index_name,
       dqi_select = select,
       dqi_attributes_to_get = attributes_to_get,
       dqi_limit = limit,
       dqi_consistent_read = consistent_read,
       dqi_key_conditions = key_conditions,
       dqi_query_filter = query_filter,
       dqi_conditional_operator = conditional_operator,
       dqi_scan_index_forward = scan_index_forward,
       dqi_exclusive_start_key = exclusive_start_key,
       dqi_return_consumed_capacity = return_consumed_capacity,
       dqi_projection_expression = projection_expression,
       dqi_filter_expression = filter_expression,
       dqi_key_condition_expression = key_condition_expression,
       dqi_expression_attribute_names = expression_attribute_names,
       dqi_expression_attribute_values = expression_attribute_values\<rparr>))))"

definition query :: "('cfg, 'client) service_env \<Rightarrow> pyo3 \<Rightarrow> dynamo_types \<Rightarrow> ((string, pyval) fmap \<Rightarrow> (string \<times> pyval) list) \<Rightarrow> unit pyresult \<Rightarrow> bool \<Rightarrow>
    ('client \<Rightarrow> query_input \<Rightarrow> trip list \<times> ((dynamo_error, http_response) sdk_error + query_output)) \<Rightarrow>
    'client client_handle \<Rightarrow> pydict \<Rightarrow> pydict option \<Rightarrow>
    (query_output pyresult \<times> 'client client_handle \<times> pydict option) option" where
  "query E P S order bridge interrupted send c params observation =
     execute E bridge interrupted send (dynamo_error_details order)
       ''Query'' (query_params P S params) c observation"

definition query_call :: "((string, pyval) fmap \<Rightarrow> (string \<times> pyval) list) \<Rightarrow> query_input \<Rightarrow> pydict" where
  "query_call order i = py_params
     [(''table_name'', opt_to_py PyStr (dqi_table_name i))]
     [(''index_name'', opt_to_py PyStr (dqi_index_name i)),
      (''select'', opt_to_py PyStr (dqi_select i)),
      (''attributes_to_get'', opt_to_py (seq_to_py PyStr) (dqi_attributes_to_get i)),
      (''limit'', opt_to_py i32_to_py (dqi_limit i)),
      (''consistent_read'', opt_to_py PyBool (dqi_consistent_read i)),
      (''key_conditions'', opt_to_py (mapping_to_py order (condition_to_py order)) (dqi_key_conditions i)),
      (''query_filter'', opt_to_py (mapping_to_py order (condition_to_py order)) (dqi_query_filter i)),
      (''conditional_operator'', opt_to_py PyStr (dqi_conditional_operator i)),
      (''scan_index_forward'', opt_to_py PyBool (dqi_scan_index_forward i)),
      (''exclusive_start_key'', opt_to_py (mapping_to_py order (attribute_value_to_py order)) (dqi_exclusive_start_key i)),
      (''return_consumed_capacity'', opt_to_py PyStr (dqi_return_consumed_capacity i)),
      (''projection_expression'', opt_to_py PyStr (dqi_projection_expression i)),
      (''filter_expression'', opt_to_py PyStr (dqi_filter_expression i)),
      (''key_condition_expression'', opt_to_py PyStr (dqi_key_condition_expression i)),
      (''expression_attribute_names'', opt_to_py (mapping_to_py order PyStr) (dqi_expression_attribute_names i)),
      (''expression_attribute_values'', opt_to_py (mapping_to_py order (attribute_value_to_py order)) (dqi_expression_attribute_values i))]"

subsection \<open>\<open>Scan\<close>\<close>

record scan_input =
  dsi_table_name :: "string option"
  dsi_index_name :: "string option"
  dsi_attributes_to_get :: "string list option"
  dsi_limit :: "32 word option"
  dsi_select :: "string option"
  dsi_scan_filter :: "(string, dynamo_condition) fmap option"
  dsi_conditional_operator :: "string option"
  dsi_exclusive_start_key :: "(string, attribute_value) fmap option"
  dsi_return_consumed_capacity :: "string option"
  dsi_total_segments :: "32 word option"
  dsi_segment :: "32 word option"
  dsi_projection_expression :: "string option"
  dsi_filter_expression :: "string option"
  dsi_expression_attribute_names :: "(string, string) fmap option"
  dsi_expression_attribute_values :: "(string, attribute_value) fmap option"
  dsi_consistent_read :: "bool option"

definition scan_params_1 :: "pyo3 \<Rightarrow> dynamo_types \<Rightarrow> pydict \<Rightarrow>
    (string option \<times> string option \<times> string list option \<times> 32 word option \<times> string option) pyresult" where
  "scan_params_1 P S params =
     and_then (op_param P ''dynamodb'' ''Scan'' params ''table_name'' ''str'' (string_from_py P)) (\<lambda>table_name.
     and_then (op_param P ''dynamodb'' ''Scan'' params ''index_name'' ''str'' (string_from_py P)) (\<lambda>index_name.
     and_then (op_param P ''dynamodb'' ''Scan'' params ''attributes_to_get'' ''sequence'' (seq_from_py P ''str'' (string_from_py P))) (\<lambda>attributes_to_get.
     and_then (op_param P ''dynamodb'' ''Scan'' params ''limit'' ''int'' (i32_from_py P)) (\<lambda>limit.
     and_then (op_param P ''dynamodb'' ''Scan'' params ''select'' ''str (Select)'' (enum_from_py P)) (\<lambda>select.
     Inr (table_name, index_name, attributes_to_get, limit, select))))))"

definition scan_params_2 :: "pyo3 \<Rightarrow> dynamo_types \<Rightarrow> pydict \<Rightarrow>
    ((string, dynamo_condition) fmap option \<times> string option \<times> (string, attribute_value) fmap option) pyresult" where
  "scan_params_2 P S params =
     and_then (op_param P ''dynamodb'' ''Scan'' params ''scan_filter'' ''dict'' (map_from_py P ''str'' ''dict (Condition)'' (condition_from_py P S))) (\<lambda>scan_filter.
     and_then (op_param P ''dynamodb'' ''Scan'' params ''conditional_operator'' ''str (ConditionalOperator)'' (enum_from_py P)) (\<lambda>conditional_operator.
     and_then (op_param P ''dynamodb'' ''Scan'' params ''exclusive_start_key'' ''dict'' (map_from_py P ''str'' ''exactly one known union variant'' (attribute_value_from_py P (dynamo_stack S)))) (\<lambda>exclusive_start_key.
     Inr (scan_filter, conditional_operator, exclusive_start_key))))"

definition scan_params_3 :: "pyo3 \<Rightarrow> dynamo_types \<Rightarrow> pydict \<Rightarrow>
    (string option \<times> 32 word option \<times> 32 word option \<times> string option \<times> string option) pyresult" where
  "scan_params_3 P S params =
     and_then (op_param P ''dynamodb'' ''Scan'' params ''return_consumed_capacity'' ''str (ReturnConsumedCapacity)'' (enum_from_py P)) (\<lambda>return_consumed_capacity.
     and_then (op_param P ''dynamodb'' ''Scan'' params ''total_segments'' ''int'' (i32_from_py P)) (\<lambda>total_segments.
     and_then (op_param P ''dynamodb'' ''Scan'' params ''segment'' ''int'' (i32_from_py P)) (\<lambda>segment.
     and_then (op_param P ''dynamodb'' ''Scan'' params ''projection_expression'' ''str'' (string_from_py P)) (\<lambda>projection_expression.
     and_then (op_param P ''dynamodb'' ''Scan'' params ''filter_expression'' ''str'' (string_from_py P)) (\<lambda>filter_expression.
     Inr (return_consumed_capacity, total_segments, segment, projection_expression, filter_expression))))))"

definition scan_params_4 :: "pyo3 \<Rightarrow> dynamo_types \<Rightarrow> pydict \<Rightarrow>
    ((string, string) fmap option \<times> (string, attribute_value) fmap option \<times> bool option) pyresult" where
  "scan_params_4 P S params =
     and_then (op_param P ''dynamodb'' ''Scan'' params ''expression_attribute_names'' ''dict'' (map_from_py P ''str'' ''str'' (string_from_py P))) (\<lambda>expression_attribute_names.
     and_then (op_param P ''dynamodb'' ''Scan'' params ''expression_attribute_values'' ''dict'' (map_from_py P ''str'' ''exactly one known union variant'' (attribute_value_from_py P (dynamo_stack S)))) (\<lambda>expression_attribute_values.
     and_then (op_param P ''dynamodb'' ''Scan'' params ''consistent_read'' ''bool'' (bool_from_py P)) (\<lambda>consistent_read.
     Inr (expression_attribute_names, expression_attribute_values, consistent_read))))"

definition scan_params :: "pyo3 \<Rightarrow> dynamo_types \<Rightarrow> pydict \<Rightarrow>
    scan_input pyresult" where
  "scan_params P S params =
     and_then (scan_params_1 P S params) (\<lambda>(table_name, index_name, attributes_to_get, limit, select).
     and_then (scan_params_2 P S params) (\<lambda>(scan_filter, conditional_operator, exclusive_start_key).
     and_then (scan_params_3 P S params) (\<lambda>(return_consumed_capacity, total_segments, segment, projection_expression, filter_expression).
     and_then (scan_params_4 P S params) (\<lambda>(expression_attribute_names, expression_attribute_values, consistent_read).
     Inr \<lparr>dsi_table_name = table_name,
       dsi_index_name = index_name,
       dsi_attributes_to_get = attributes_to_get,
       dsi_limit = limit,
       dsi_select = select,
       dsi_scan_filter = scan_filter,
       dsi_conditional_operator = conditional_operator,
       dsi_exclusive_start_key = exclusive_start_key,
       dsi_return_consumed_capacity = return_consumed_capacity,
       dsi_total_segments = total_segments,
       dsi_segment = segment,
       dsi_projection_expression = projection_expression,
       dsi_filter_expression = filter_expression,
       dsi_expression_attribute_names = expression_attribute_names,
       dsi_expression_attribute_values = expression_attribute_values,
       dsi_consistent_read = consistent_read\<rparr>))))"

definition scan :: "('cfg, 'client) service_env \<Rightarrow> pyo3 \<Rightarrow> dynamo_types \<Rightarrow> ((string, pyval) fmap \<Rightarrow> (string \<times> pyval) list) \<Rightarrow> unit pyresult \<Rightarrow> bool \<Rightarrow>
    ('client \<Rightarrow> scan_input \<Rightarrow> trip list \<times> ((dynamo_error, http_response) sdk_error + scan_output)) \<Rightarrow>
    'client client_handle \<Rightarrow> pydict \<Rightarrow> pydict option \<Rightarrow>
    (scan_output pyresult \<times> 'client client_handle \<times> pydict option) option" where
  "scan E P S order bridge interrupted send c params observation =
     execute E bridge interrupted send (dynamo_error_details order)
       ''Scan'' (scan_params P S params) c observation"

definition scan_call :: "((string, pyval) fmap \<Rightarrow> (string \<times> pyval) list) \<Rightarrow> scan_input \<Rightarrow> pydict" where
  "scan_call order i = py_params
     [(''table_name'', opt_to_py PyStr (dsi_table_name i))]
     [(''index_name'', opt_to_py PyStr (dsi_index_name i)),
      (''attributes_to_get'', opt_to_py (seq_to_py PyStr) (dsi_attributes_to_get i)),
      (''limit'', opt_to_py i32_to_py (dsi_limit i)),
      (''select'', opt_to_py PyStr (dsi_select i)),
      (''scan_filter'', opt_to_py (mapping_to_py order (condition_to_py order)) (dsi_scan_filter i)),
      (''conditional_operator'', opt_to_py PyStr (dsi_conditional_operator i)),
      (''exclusive_start_key'', opt_to_py (mapping_to_py order (attribute_value_to_py order)) (dsi_exclusive_start_key i)),
      (''return_consumed_capacity'', opt_to_py PyStr (dsi_return_consumed_capacity i)),
      (''total_segments'', opt_to_py i32_to_py (dsi_total_segments i)),
      (''segment'', opt_to_py i32_to_py (dsi_segment i)),
      (''projection_expression'', opt_to_py PyStr (dsi_projection_expression i)),
      (''filter_expression'', opt_to_py PyStr (dsi_filter_expression i)),
      (''expression_attribute_names'', opt_to_py (mapping_to_py order PyStr) (dsi_expression_attribute_names i)),
      (''expression_attribute_values'', opt_to_py (mapping_to_py order (attribute_value_to_py order)) (dsi_expression_attribute_values i)),
      (''consistent_read'', opt_to_py PyBool (dsi_consistent_read i))]"

subsection \<open>\<open>TransactGetItems\<close>\<close>

record transact_get_items_input =
  dtgii_transact_items :: "transact_get_item list option"
  dtgii_return_consumed_capacity :: "string option"

definition transact_get_items_params :: "pyo3 \<Rightarrow> dynamo_types \<Rightarrow> pydict \<Rightarrow>
    transact_get_items_input pyresult" where
  "transact_get_items_params P S params =
     and_then (op_param P ''dynamodb'' ''TransactGetItems'' params ''transact_items'' ''sequence'' (seq_from_py P ''dict (TransactGetItem)'' (transact_get_item_from_py P S))) (\<lambda>transact_items.
     and_then (op_param P ''dynamodb'' ''TransactGetItems'' params ''return_consumed_capacity'' ''str (ReturnConsumedCapacity)'' (enum_from_py P)) (\<lambda>return_consumed_capacity.
     Inr \<lparr>dtgii_transact_items = transact_items,
       dtgii_return_consumed_capacity = return_consumed_capacity\<rparr>))"

definition transact_get_items :: "('cfg, 'client) service_env \<Rightarrow> pyo3 \<Rightarrow> dynamo_types \<Rightarrow> ((string, pyval) fmap \<Rightarrow> (string \<times> pyval) list) \<Rightarrow> unit pyresult \<Rightarrow> bool \<Rightarrow>
    ('client \<Rightarrow> transact_get_items_input \<Rightarrow> trip list \<times> ((dynamo_error, http_response) sdk_error + transact_get_items_output)) \<Rightarrow>
    'client client_handle \<Rightarrow> pydict \<Rightarrow> pydict option \<Rightarrow>
    (transact_get_items_output pyresult \<times> 'client client_handle \<times> pydict option) option" where
  "transact_get_items E P S order bridge interrupted send c params observation =
     execute E bridge interrupted send (dynamo_error_details order)
       ''TransactGetItems'' (transact_get_items_params P S params) c observation"

definition transact_get_items_call :: "((string, pyval) fmap \<Rightarrow> (string \<times> pyval) list) \<Rightarrow> transact_get_items_input \<Rightarrow> pydict" where
  "transact_get_items_call order i = py_params
     [(''transact_items'', opt_to_py (seq_to_py (transact_get_item_to_py order)) (dtgii_transact_items i))]
     [(''return_consumed_capacity'', opt_to_py PyStr (dtgii_return_consumed_capacity i))]"

subsection \<open>\<open>TransactWriteItems\<close>\<close>

record transact_write_items_input =
  dtwii_transact_items :: "transact_write_item list option"
  dtwii_return_consumed_capacity :: "string option"
  dtwii_return_item_collection_metrics :: "string option"
  dtwii_client_request_token :: "string option"

definition transact_write_items_params :: "pyo3 \<Rightarrow> dynamo_types \<Rightarrow> pydict \<Rightarrow>
    transact_write_items_input pyresult" where
  "transact_write_items_params P S params =
     and_then (op_param P ''dynamodb'' ''TransactWriteItems'' params ''transact_items'' ''sequence'' (seq_from_py P ''dict (TransactWriteItem)'' (transact_write_item_from_py P S))) (\<lambda>transact_items.
     and_then (op_param P ''dynamodb'' ''TransactWriteItems'' params ''return_consumed_capacity'' ''str (ReturnConsumedCapacity)'' (enum_from_py P)) (\<lambda>return_consumed_capacity.
     and_then (op_param P ''dynamodb'' ''TransactWriteItems'' params ''return_item_collection_metrics'' ''str (ReturnItemCollectionMetrics)'' (enum_from_py P)) (\<lambda>return_item_collection_metrics.
     and_then (op_param P ''dynamodb'' ''TransactWriteItems'' params ''client_request_token'' ''str'' (string_from_py P)) (\<lambda>client_request_token.
     Inr \<lparr>dtwii_transact_items = transact_items,
       dtwii_return_consumed_capacity = return_consumed_capacity,
       dtwii_return_item_collection_metrics = return_item_collection_metrics,
       dtwii_client_request_token = client_request_token\<rparr>))))"

definition transact_write_items :: "('cfg, 'client) service_env \<Rightarrow> pyo3 \<Rightarrow> dynamo_types \<Rightarrow> ((string, pyval) fmap \<Rightarrow> (string \<times> pyval) list) \<Rightarrow> unit pyresult \<Rightarrow> bool \<Rightarrow>
    ('client \<Rightarrow> transact_write_items_input \<Rightarrow> trip list \<times> ((dynamo_error, http_response) sdk_error + transact_write_items_output)) \<Rightarrow>
    'client client_handle \<Rightarrow> pydict \<Rightarrow> pydict option \<Rightarrow>
    (transact_write_items_output pyresult \<times> 'client client_handle \<times> pydict option) option" where
  "transact_write_items E P S order bridge interrupted send c params observation =
     execute E bridge interrupted send (dynamo_error_details order)
       ''TransactWriteItems'' (transact_write_items_params P S params) c observation"

definition transact_write_items_call :: "((string, pyval) fmap \<Rightarrow> (string \<times> pyval) list) \<Rightarrow> transact_write_items_input \<Rightarrow> pydict" where
  "transact_write_items_call order i = py_params
     [(''transact_items'', opt_to_py (seq_to_py (transact_write_item_to_py order)) (dtwii_transact_items i))]
     [(''return_consumed_capacity'', opt_to_py PyStr (dtwii_return_consumed_capacity i)),
      (''return_item_collection_metrics'', opt_to_py PyStr (dtwii_return_item_collection_metrics i)),
      (''client_request_token'', opt_to_py PyStr (dtwii_client_request_token i))]"

subsection \<open>\<open>UpdateItem\<close>\<close>

record update_item_input =
  duii_table_name :: "string option"
  duii_key :: "(string, attribute_value) fmap option"
  duii_attribute_updates :: "(string, attribute_value_update) fmap option"
  duii_expected :: "(string, expected_attribute_value) fmap option"
  duii_conditional_operator :: "string option"
  duii_return_values :: "string option"
  duii_return_consumed_capacity :: "string option"
  duii_return_item_collection_metrics :: "string option"
  duii_update_expression :: "string option"
  duii_condition_expression :: "string option"
  duii_expression_attribute_names :: "(string, string) fmap option"
  duii_expression_attribute_values :: "(string, attribute_value) fmap option"
  duii_return_values_on_condition_check_failure :: "string option"

definition update_item_params_1 :: "pyo3 \<Rightarrow> dynamo_types \<Rightarrow> pydict \<Rightarrow>
    (string option \<times> (string, attribute_value) fmap option \<times> (string, attribute_value_update) fmap option) pyresult" where
  "update_item_params_1 P S params =
     and_then (op_param P ''dynamodb'' ''UpdateItem'' params ''table_name'' ''str'' (string_from_py P)) (\<lambda>table_name.
     and_then (op_param P ''dynamodb'' ''UpdateItem'' params ''key'' ''dict'' (map_from_py P ''str'' ''exactly one known union variant'' (attribute_value_from_py P (dynamo_stack S)))) (\<lambda>key.
     and_then (op_param P ''dynamodb'' ''UpdateItem'' params ''attribute_updates'' ''dict'' (map_from_py P ''str'' ''dict (AttributeValueUpdate)'' (attribute_value_update_from_py P S))) (\<lambda>attribute_updates.
     Inr (table_name, key, attribute_updates))))"

definition update_item_params_2 :: "pyo3 \<Rightarrow> dynamo_types \<Rightarrow> pydict \<Rightarrow>
    ((string, expected_attribute_value) fmap option \<times> string option \<times> string option \<times> string option \<times> string option) pyresult" where
  "update_item_params_2 P S params =
     and_then (op_param P ''dynamodb'' ''UpdateItem'' params ''expected'' ''dict'' (map_from_py P ''str'' ''dict (ExpectedAttributeValue)'' (expected_attribute_value_from_py P S))) (\<lambda>expected.
     and_then (op_param P ''dynamodb'' ''UpdateItem'' params ''conditional_operator'' ''str (ConditionalOperator)'' (enum_from_py P)) (\<lambda>conditional_operator.
     and_then (op_param P ''dynamodb'' ''UpdateItem'' params ''return_values'' ''str (ReturnValue)'' (enum_from_py P)) (\<lambda>return_values.
     and_then (op_param P ''dynamodb'' ''UpdateItem'' params ''return_consumed_capacity'' ''str (ReturnConsumedCapacity)'' (enum_from_py P)) (\<lambda>return_consumed_capacity.
     and_then (op_param P ''dynamodb'' ''UpdateItem'' params ''return_item_collection_metrics'' ''str (ReturnItemCollectionMetrics)'' (enum_from_py P)) (\<lambda>return_item_collection_metrics.
     Inr (expected, conditional_operator, return_values, return_consumed_capacity, return_item_collection_metrics))))))"

definition update_item_params_3 :: "pyo3 \<Rightarrow> dynamo_types \<Rightarrow> pydict \<Rightarrow>
    (string option \<times> string option \<times> (string, string) fmap option \<times> (string, attribute_value) fmap option) pyresult" where
  "update_item_params_3 P S params =
     and_then (op_param P ''dynamodb'' ''UpdateItem'' params ''update_expression'' ''str'' (string_from_py P)) (\<lambda>update_expression.
     and_then (op_param P ''dynamodb'' ''UpdateItem'' params ''condition_expression'' ''str'' (string_from_py P)) (\<lambda>condition_expression.
     and_then (op_param P ''dynamodb'' ''UpdateItem'' params ''expression_attribute_names'' ''dict'' (map_from_py P ''str'' ''str'' (string_from_py P))) (\<lambda>expression_attribute_names.
     and_then (op_param P ''dynamodb'' ''UpdateItem'' params ''expression_attribute_values'' ''dict'' (map_from_py P ''str'' ''exactly one known union variant'' (attribute_value_from_py P (dynamo_stack S)))) (\<lambda>expression_attribute_values.
     Inr (update_expression, condition_expression, expression_attribute_names, expression_attribute_values)))))"

definition update_item_params_4 :: "pyo3 \<Rightarrow> dynamo_types \<Rightarrow> pydict \<Rightarrow>
    (string option) pyresult" where
  "update_item_params_4 P S params =
     and_then (op_param P ''dynamodb'' ''UpdateItem'' params ''return_values_on_condition_check_failure'' ''str (ReturnValuesOnConditionCheckFailure)'' (enum_from_py P)) (\<lambda>return_values_on_condition_check_failure.
     Inr (return_values_on_condition_check_failure))"

definition update_item_params :: "pyo3 \<Rightarrow> dynamo_types \<Rightarrow> pydict \<Rightarrow>
    update_item_input pyresult" where
  "update_item_params P S params =
     and_then (update_item_params_1 P S params) (\<lambda>(table_name, key, attribute_updates).
     and_then (update_item_params_2 P S params) (\<lambda>(expected, conditional_operator, return_values, return_consumed_capacity, return_item_collection_metrics).
     and_then (update_item_params_3 P S params) (\<lambda>(update_expression, condition_expression, expression_attribute_names, expression_attribute_values).
     and_then (update_item_params_4 P S params) (\<lambda>return_values_on_condition_check_failure.
     Inr \<lparr>duii_table_name = table_name,
       duii_key = key,
       duii_attribute_updates = attribute_updates,
       duii_expected = expected,
       duii_conditional_operator = conditional_operator,
       duii_return_values = return_values,
       duii_return_consumed_capacity = return_consumed_capacity,
       duii_return_item_collection_metrics = return_item_collection_metrics,
       duii_update_expression = update_expression,
       duii_condition_expression = condition_expression,
       duii_expression_attribute_names = expression_attribute_names,
       duii_expression_attribute_values = expression_attribute_values,
       duii_return_values_on_condition_check_failure = return_values_on_condition_check_failure\<rparr>))))"

definition update_item :: "('cfg, 'client) service_env \<Rightarrow> pyo3 \<Rightarrow> dynamo_types \<Rightarrow> ((string, pyval) fmap \<Rightarrow> (string \<times> pyval) list) \<Rightarrow> unit pyresult \<Rightarrow> bool \<Rightarrow>
    ('client \<Rightarrow> update_item_input \<Rightarrow> trip list \<times> ((dynamo_error, http_response) sdk_error + update_item_output)) \<Rightarrow>
    'client client_handle \<Rightarrow> pydict \<Rightarrow> pydict option \<Rightarrow>
    (update_item_output pyresult \<times> 'client client_handle \<times> pydict option) option" where
  "update_item E P S order bridge interrupted send c params observation =
     execute E bridge interrupted send (dynamo_error_details order)
       ''UpdateItem'' (update_item_params P S params) c observation"

definition update_item_call :: "((string, pyval) fmap \<Rightarrow> (string \<times> pyval) list) \<Rightarrow> update_item_input \<Rightarrow> pydict" where
  "update_item_call order i = py_params
     [(''table_name'', opt_to_py PyStr (duii_table_name i)),
      (''key'', opt_to_py (mapping_to_py order (attribute_value_to_py order)) (duii_key i))]
     [(''attribute_updates'', opt_to_py (mapping_to_py order (attribute_value_update_to_py order)) (duii_attribute_updates i)),
      (''expected'', opt_to_py (mapping_to_py order (expected_attribute_value_to_py order)) (duii_expected i)),
      (''conditional_operator'', opt_to_py PyStr (duii_conditional_operator i)),
      (''return_values'', opt_to_py PyStr (duii_return_values i)),
      (''return_consumed_capacity'', opt_to_py PyStr (duii_return_consumed_capacity i)),
      (''return_item_collection_metrics'', opt_to_py PyStr (duii_return_item_collection_metrics i)),
      (''update_expression'', opt_to_py PyStr (duii_update_expression i)),
      (''condition_expression'', opt_to_py PyStr (duii_condition_expression i)),
      (''expression_attribute_names'', opt_to_py (mapping_to_py order PyStr) (duii_expression_attribute_names i)),
      (''expression_attribute_values'', opt_to_py (mapping_to_py order (attribute_value_to_py order)) (duii_expression_attribute_values i)),
      (''return_values_on_condition_check_failure'', opt_to_py PyStr (duii_return_values_on_condition_check_failure i))]"

section \<open>Parameters arrive\<close>

context dynamo_conversions
begin

lemma batch_execute_statement_delivered:
  assumes ok_statements: "pred_option (list_all (batch_statement_request_ok S)) (dbesi_statements i)"
  shows "batch_execute_statement_params P S (batch_execute_statement_call order i) = Inr i"
proof -
  have s: "str_keys (batch_execute_statement_call order i)" by (simp add: batch_execute_statement_call_def)
  have a: "argument (batch_execute_statement_call order i) ''statements'' = opt_to_py (seq_to_py (batch_statement_request_to_py order)) (dbesi_statements i)"
    "argument (batch_execute_statement_call order i) ''return_consumed_capacity'' = opt_to_py PyStr (dbesi_return_consumed_capacity i)"
    unfolding batch_execute_statement_call_def by (simp_all add: argument_py_params)
  show ?thesis
    unfolding batch_execute_statement_params_def
    by (simp add: param_reads_on [OF reads_on_seq [OF batch_statement_request_reads] s a(1) ok_statements]
        param_reads [OF reads_enum s a(2)])
qed

lemma batch_get_item_delivered:
  assumes ok_request_items: "pred_option (fmpred (\<lambda>_. keys_and_attributes_ok S)) (dbgii_request_items i)"
  shows "batch_get_item_params P S (batch_get_item_call order i) = Inr i"
proof -
  have s: "str_keys (batch_get_item_call order i)" by (simp add: batch_get_item_call_def)
  have a: "argument (batch_get_item_call order i) ''request_items'' = opt_to_py (mapping_to_py order (keys_and_attributes_to_py order)) (dbgii_request_items i)"
    "argument (batch_get_item_call order i) ''return_consumed_capacity'' = opt_to_py PyStr (dbgii_return_consumed_capacity i)"
    unfolding batch_get_item_call_def by (simp_all add: argument_py_params)
  show ?thesis
    unfolding batch_get_item_params_def
    by (simp add: param_reads_on [OF reads_on_map [OF order keys_and_attributes_reads] s a(1) ok_request_items]
        param_reads [OF reads_enum s a(2)])
qed

lemma batch_write_item_delivered:
  assumes ok_request_items: "pred_option (fmpred (\<lambda>_. list_all (write_request_ok S))) (dbwii_request_items i)"
  shows "batch_write_item_params P S (batch_write_item_call order i) = Inr i"
proof -
  have s: "str_keys (batch_write_item_call order i)" by (simp add: batch_write_item_call_def)
  note p = arguments [OF batch_write_item_call_def [of order i], simplified]
  have a: "argument (batch_write_item_call order i) ''request_items'' = opt_to_py (mapping_to_py order (seq_to_py (write_request_to_py order))) (dbwii_request_items i)"
    "argument (batch_write_item_call order i) ''return_consumed_capacity'' = opt_to_py PyStr (dbwii_return_consumed_capacity i)"
    "argument (batch_write_item_call order i) ''return_item_collection_metrics'' = opt_to_py PyStr (dbwii_return_item_collection_metrics i)"
    by (simp_all only: p)
  show ?thesis
    unfolding batch_write_item_params_def
    by (simp add: param_reads_on [OF reads_on_map [OF order reads_on_seq [OF write_request_reads]] s a(1) ok_request_items]
        param_reads [OF reads_enum s a(2)]
        param_reads [OF reads_enum s a(3)])
qed

lemma delete_item_delivered:
  assumes ok_key: "pred_option (fmpred (\<lambda>_. attribute_ok S)) (ddii_key i)"
    and ok_expected: "pred_option (fmpred (\<lambda>_. expected_attribute_value_ok S)) (ddii_expected i)"
    and ok_expression_attribute_values: "pred_option (fmpred (\<lambda>_. attribute_ok S)) (ddii_expression_attribute_values i)"
  shows "delete_item_params P S (delete_item_call order i) = Inr i"
proof -
  have s: "str_keys (delete_item_call order i)" by (simp add: delete_item_call_def)
  note p = arguments [OF delete_item_call_def [of order i], simplified]
  have a: "argument (delete_item_call order i) ''table_name'' = opt_to_py PyStr (ddii_table_name i)"
    "argument (delete_item_call order i) ''key'' = opt_to_py (mapping_to_py order (attribute_value_to_py order)) (ddii_key i)"
    "argument (delete_item_call order i) ''expected'' = opt_to_py (mapping_to_py order (expected_attribute_value_to_py order)) (ddii_expected i)"
    "argument (delete_item_call order i) ''conditional_operator'' = opt_to_py PyStr (ddii_conditional_operator i)"
    "argument (delete_item_call order i) ''return_values'' = opt_to_py PyStr (ddii_return_values i)"
    "argument (delete_item_call order i) ''return_consumed_capacity'' = opt_to_py PyStr (ddii_return_consumed_capacity i)"
    "argument (delete_item_call order i) ''return_item_collection_metrics'' = opt_to_py PyStr (ddii_return_item_collection_metrics i)"
    "argument (delete_item_call order i) ''condition_expression'' = opt_to_py PyStr (ddii_condition_expression i)"
    "argument (delete_item_call order i) ''expression_attribute_names'' = opt_to_py (mapping_to_py order PyStr) (ddii_expression_attribute_names i)"
    "argument (delete_item_call order i) ''expression_attribute_values'' = opt_to_py (mapping_to_py order (attribute_value_to_py order)) (ddii_expression_attribute_values i)"
    "argument (delete_item_call order i) ''return_values_on_condition_check_failure'' = opt_to_py PyStr (ddii_return_values_on_condition_check_failure i)"
    by (simp_all only: p)
  show ?thesis
    unfolding delete_item_params_def delete_item_params_1_def delete_item_params_2_def delete_item_params_3_def
    by (simp add: param_reads [OF reads_str s a(1)]
        param_reads_on [OF reads_on_map [OF order attribute_reads] s a(2) ok_key]
        param_reads_on [OF reads_on_map [OF order expected_attribute_value_reads] s a(3) ok_expected]
        param_reads [OF reads_enum s a(4)]
        param_reads [OF reads_enum s a(5)]
        param_reads [OF reads_enum s a(6)]
        param_reads [OF reads_enum s a(7)]
        param_reads [OF reads_str s a(8)]
        param_reads [OF reads_map [OF order reads_str] s a(9)]
        param_reads_on [OF reads_on_map [OF order attribute_reads] s a(10) ok_expression_attribute_values]
        param_reads [OF reads_enum s a(11)])
qed

lemma execute_statement_delivered:
  assumes ok_parameters: "pred_option (list_all (attribute_ok S)) (desi_parameters i)"
  shows "execute_statement_params P S (execute_statement_call order i) = Inr i"
proof -
  have s: "str_keys (execute_statement_call order i)" by (simp add: execute_statement_call_def)
  note p = arguments [OF execute_statement_call_def [of order i], simplified]
  have a: "argument (execute_statement_call order i) ''statement'' = opt_to_py PyStr (desi_statement i)"
    "argument (execute_statement_call order i) ''parameters'' = opt_to_py (seq_to_py (attribute_value_to_py order)) (desi_parameters i)"
    "argument (execute_statement_call order i) ''consistent_read'' = opt_to_py PyBool (desi_consistent_read i)"
    "argument (execute_statement_call order i) ''next_token'' = opt_to_py PyStr (desi_next_token i)"
    "argument (execute_statement_call order i) ''return_consumed_capacity'' = opt_to_py PyStr (desi_return_consumed_capacity i)"
    "argument (execute_statement_call order i) ''limit'' = opt_to_py i32_to_py (desi_limit i)"
    "argument (execute_statement_call order i) ''return_values_on_condition_check_failure'' = opt_to_py PyStr (desi_return_values_on_condition_check_failure i)"
    by (simp_all only: p)
  show ?thesis
    unfolding execute_statement_params_def execute_statement_params_1_def execute_statement_params_2_def
    by (simp add: param_reads [OF reads_str s a(1)]
        param_reads_on [OF reads_on_seq [OF attribute_reads] s a(2) ok_parameters]
        param_reads [OF reads_bool s a(3)]
        param_reads [OF reads_str s a(4)]
        param_reads [OF reads_enum s a(5)]
        param_reads [OF reads_i32 s a(6)]
        param_reads [OF reads_enum s a(7)])
qed

lemma execute_transaction_delivered:
  assumes ok_transact_statements: "pred_option (list_all (parameterized_statement_ok S)) (deti_transact_statements i)"
  shows "execute_transaction_params P S (execute_transaction_call order i) = Inr i"
proof -
  have s: "str_keys (execute_transaction_call order i)" by (simp add: execute_transaction_call_def)
  note p = arguments [OF execute_transaction_call_def [of order i], simplified]
  have a: "argument (execute_transaction_call order i) ''transact_statements'' = opt_to_py (seq_to_py (parameterized_statement_to_py order)) (deti_transact_statements i)"
    "argument (execute_transaction_call order i) ''client_request_token'' = opt_to_py PyStr (deti_client_request_token i)"
    "argument (execute_transaction_call order i) ''return_consumed_capacity'' = opt_to_py PyStr (deti_return_consumed_capacity i)"
    by (simp_all only: p)
  show ?thesis
    unfolding execute_transaction_params_def
    by (simp add: param_reads_on [OF reads_on_seq [OF parameterized_statement_reads] s a(1) ok_transact_statements]
        param_reads [OF reads_str s a(2)]
        param_reads [OF reads_enum s a(3)])
qed

lemma dynamo_get_item_delivered:
  assumes ok_key: "pred_option (fmpred (\<lambda>_. attribute_ok S)) (ddgii_key i)"
  shows "dynamo_get_item_params P S (dynamo_get_item_call order i) = Inr i"
proof -
  have s: "str_keys (dynamo_get_item_call order i)" by (simp add: dynamo_get_item_call_def)
  note p = arguments [OF dynamo_get_item_call_def [of order i], simplified]
  have a: "argument (dynamo_get_item_call order i) ''table_name'' = opt_to_py PyStr (ddgii_table_name i)"
    "argument (dynamo_get_item_call order i) ''key'' = opt_to_py (mapping_to_py order (attribute_value_to_py order)) (ddgii_key i)"
    "argument (dynamo_get_item_call order i) ''attributes_to_get'' = opt_to_py (seq_to_py PyStr) (ddgii_attributes_to_get i)"
    "argument (dynamo_get_item_call order i) ''consistent_read'' = opt_to_py PyBool (ddgii_consistent_read i)"
    "argument (dynamo_get_item_call order i) ''return_consumed_capacity'' = opt_to_py PyStr (ddgii_return_consumed_capacity i)"
    "argument (dynamo_get_item_call order i) ''projection_expression'' = opt_to_py PyStr (ddgii_projection_expression i)"
    "argument (dynamo_get_item_call order i) ''expression_attribute_names'' = opt_to_py (mapping_to_py order PyStr) (ddgii_expression_attribute_names i)"
    by (simp_all only: p)
  show ?thesis
    unfolding dynamo_get_item_params_def dynamo_get_item_params_1_def dynamo_get_item_params_2_def
    by (simp add: param_reads [OF reads_str s a(1)]
        param_reads_on [OF reads_on_map [OF order attribute_reads] s a(2) ok_key]
        param_reads [OF reads_seq [OF reads_str] s a(3)]
        param_reads [OF reads_bool s a(4)]
        param_reads [OF reads_enum s a(5)]
        param_reads [OF reads_str s a(6)]
        param_reads [OF reads_map [OF order reads_str] s a(7)])
qed

lemma put_item_delivered:
  assumes ok_item: "pred_option (fmpred (\<lambda>_. attribute_ok S)) (dpii_item i)"
    and ok_expected: "pred_option (fmpred (\<lambda>_. expected_attribute_value_ok S)) (dpii_expected i)"
    and ok_expression_attribute_values: "pred_option (fmpred (\<lambda>_. attribute_ok S)) (dpii_expression_attribute_values i)"
  shows "put_item_params P S (put_item_call order i) = Inr i"
proof -
  have s: "str_keys (put_item_call order i)" by (simp add: put_item_call_def)
  note p = arguments [OF put_item_call_def [of order i], simplified]
  have a: "argument (put_item_call order i) ''table_name'' = opt_to_py PyStr (dpii_table_name i)"
    "argument (put_item_call order i) ''item'' = opt_to_py (mapping_to_py order (attribute_value_to_py order)) (dpii_item i)"
    "argument (put_item_call order i) ''expected'' = opt_to_py (mapping_to_py order (expected_attribute_value_to_py order)) (dpii_expected i)"
    "argument (put_item_call order i) ''return_values'' = opt_to_py PyStr (dpii_return_values i)"
    "argument (put_item_call order i) ''return_consumed_capacity'' = opt_to_py PyStr (dpii_return_consumed_capacity i)"
    "argument (put_item_call order i) ''return_item_collection_metrics'' = opt_to_py PyStr (dpii_return_item_collection_metrics i)"
    "argument (put_item_call order i) ''conditional_operator'' = opt_to_py PyStr (dpii_conditional_operator i)"
    "argument (put_item_call order i) ''condition_expression'' = opt_to_py PyStr (dpii_condition_expression i)"
    "argument (put_item_call order i) ''expression_attribute_names'' = opt_to_py (mapping_to_py order PyStr) (dpii_expression_attribute_names i)"
    "argument (put_item_call order i) ''expression_attribute_values'' = opt_to_py (mapping_to_py order (attribute_value_to_py order)) (dpii_expression_attribute_values i)"
    "argument (put_item_call order i) ''return_values_on_condition_check_failure'' = opt_to_py PyStr (dpii_return_values_on_condition_check_failure i)"
    by (simp_all only: p)
  show ?thesis
    unfolding put_item_params_def put_item_params_1_def put_item_params_2_def put_item_params_3_def
    by (simp add: param_reads [OF reads_str s a(1)]
        param_reads_on [OF reads_on_map [OF order attribute_reads] s a(2) ok_item]
        param_reads_on [OF reads_on_map [OF order expected_attribute_value_reads] s a(3) ok_expected]
        param_reads [OF reads_enum s a(4)]
        param_reads [OF reads_enum s a(5)]
        param_reads [OF reads_enum s a(6)]
        param_reads [OF reads_enum s a(7)]
        param_reads [OF reads_str s a(8)]
        param_reads [OF reads_map [OF order reads_str] s a(9)]
        param_reads_on [OF reads_on_map [OF order attribute_reads] s a(10) ok_expression_attribute_values]
        param_reads [OF reads_enum s a(11)])
qed

lemma query_delivered:
  assumes ok_key_conditions: "pred_option (fmpred (\<lambda>_. condition_ok S)) (dqi_key_conditions i)"
    and ok_query_filter: "pred_option (fmpred (\<lambda>_. condition_ok S)) (dqi_query_filter i)"
    and ok_exclusive_start_key: "pred_option (fmpred (\<lambda>_. attribute_ok S)) (dqi_exclusive_start_key i)"
    and ok_expression_attribute_values: "pred_option (fmpred (\<lambda>_. attribute_ok S)) (dqi_expression_attribute_values i)"
  shows "query_params P S (query_call order i) = Inr i"
proof -
  have s: "str_keys (query_call order i)" by (simp add: query_call_def)
  note p = arguments [OF query_call_def [of order i], simplified]
  have a: "argument (query_call order i) ''table_name'' = opt_to_py PyStr (dqi_table_name i)"
    "argument (query_call order i) ''index_name'' = opt_to_py PyStr (dqi_index_name i)"
    "argument (query_call order i) ''select'' = opt_to_py PyStr (dqi_select i)"
    "argument (query_call order i) ''attributes_to_get'' = opt_to_py (seq_to_py PyStr) (dqi_attributes_to_get i)"
    "argument (query_call order i) ''limit'' = opt_to_py i32_to_py (dqi_limit i)"
    "argument (query_call order i) ''consistent_read'' = opt_to_py PyBool (dqi_consistent_read i)"
    "argument (query_call order i) ''key_conditions'' = opt_to_py (mapping_to_py order (condition_to_py order)) (dqi_key_conditions i)"
    "argument (query_call order i) ''query_filter'' = opt_to_py (mapping_to_py order (condition_to_py order)) (dqi_query_filter i)"
    "argument (query_call order i) ''conditional_operator'' = opt_to_py PyStr (dqi_conditional_operator i)"
    "argument (query_call order i) ''scan_index_forward'' = opt_to_py PyBool (dqi_scan_index_forward i)"
    "argument (query_call order i) ''exclusive_start_key'' = opt_to_py (mapping_to_py order (attribute_value_to_py order)) (dqi_exclusive_start_key i)"
    "argument (query_call order i) ''return_consumed_capacity'' = opt_to_py PyStr (dqi_return_consumed_capacity i)"
    "argument (query_call order i) ''projection_expression'' = opt_to_py PyStr (dqi_projection_expression i)"
    "argument (query_call order i) ''filter_expression'' = opt_to_py PyStr (dqi_filter_expression i)"
    "argument (query_call order i) ''key_condition_expression'' = opt_to_py PyStr (dqi_key_condition_expression i)"
    "argument (query_call order i) ''expression_attribute_names'' = opt_to_py (mapping_to_py order PyStr) (dqi_expression_attribute_names i)"
    "argument (query_call order i) ''expression_attribute_values'' = opt_to_py (mapping_to_py order (attribute_value_to_py order)) (dqi_expression_attribute_values i)"
    by (simp_all only: p)
  show ?thesis
    unfolding query_params_def query_params_1_def query_params_2_def query_params_3_def query_params_4_def
    by (simp add: param_reads [OF reads_str s a(1)]
        param_reads [OF reads_str s a(2)]
        param_reads [OF reads_enum s a(3)]
        param_reads [OF reads_seq [OF reads_str] s a(4)]
        param_reads [OF reads_i32 s a(5)]
        param_reads [OF reads_bool s a(6)]
        param_reads_on [OF reads_on_map [OF order condition_reads] s a(7) ok_key_conditions]
        param_reads_on [OF reads_on_map [OF order condition_reads] s a(8) ok_query_filter]
        param_reads [OF reads_enum s a(9)]
        param_reads [OF reads_bool s a(10)]
        param_reads_on [OF reads_on_map [OF order attribute_reads] s a(11) ok_exclusive_start_key]
        param_reads [OF reads_enum s a(12)]
        param_reads [OF reads_str s a(13)]
        param_reads [OF reads_str s a(14)]
        param_reads [OF reads_str s a(15)]
        param_reads [OF reads_map [OF order reads_str] s a(16)]
        param_reads_on [OF reads_on_map [OF order attribute_reads] s a(17) ok_expression_attribute_values])
qed

lemma scan_delivered:
  assumes ok_scan_filter: "pred_option (fmpred (\<lambda>_. condition_ok S)) (dsi_scan_filter i)"
    and ok_exclusive_start_key: "pred_option (fmpred (\<lambda>_. attribute_ok S)) (dsi_exclusive_start_key i)"
    and ok_expression_attribute_values: "pred_option (fmpred (\<lambda>_. attribute_ok S)) (dsi_expression_attribute_values i)"
  shows "scan_params P S (scan_call order i) = Inr i"
proof -
  have s: "str_keys (scan_call order i)" by (simp add: scan_call_def)
  note p = arguments [OF scan_call_def [of order i], simplified]
  have a: "argument (scan_call order i) ''table_name'' = opt_to_py PyStr (dsi_table_name i)"
    "argument (scan_call order i) ''index_name'' = opt_to_py PyStr (dsi_index_name i)"
    "argument (scan_call order i) ''attributes_to_get'' = opt_to_py (seq_to_py PyStr) (dsi_attributes_to_get i)"
    "argument (scan_call order i) ''limit'' = opt_to_py i32_to_py (dsi_limit i)"
    "argument (scan_call order i) ''select'' = opt_to_py PyStr (dsi_select i)"
    "argument (scan_call order i) ''scan_filter'' = opt_to_py (mapping_to_py order (condition_to_py order)) (dsi_scan_filter i)"
    "argument (scan_call order i) ''conditional_operator'' = opt_to_py PyStr (dsi_conditional_operator i)"
    "argument (scan_call order i) ''exclusive_start_key'' = opt_to_py (mapping_to_py order (attribute_value_to_py order)) (dsi_exclusive_start_key i)"
    "argument (scan_call order i) ''return_consumed_capacity'' = opt_to_py PyStr (dsi_return_consumed_capacity i)"
    "argument (scan_call order i) ''total_segments'' = opt_to_py i32_to_py (dsi_total_segments i)"
    "argument (scan_call order i) ''segment'' = opt_to_py i32_to_py (dsi_segment i)"
    "argument (scan_call order i) ''projection_expression'' = opt_to_py PyStr (dsi_projection_expression i)"
    "argument (scan_call order i) ''filter_expression'' = opt_to_py PyStr (dsi_filter_expression i)"
    "argument (scan_call order i) ''expression_attribute_names'' = opt_to_py (mapping_to_py order PyStr) (dsi_expression_attribute_names i)"
    "argument (scan_call order i) ''expression_attribute_values'' = opt_to_py (mapping_to_py order (attribute_value_to_py order)) (dsi_expression_attribute_values i)"
    "argument (scan_call order i) ''consistent_read'' = opt_to_py PyBool (dsi_consistent_read i)"
    by (simp_all only: p)
  show ?thesis
    unfolding scan_params_def scan_params_1_def scan_params_2_def scan_params_3_def scan_params_4_def
    by (simp add: param_reads [OF reads_str s a(1)]
        param_reads [OF reads_str s a(2)]
        param_reads [OF reads_seq [OF reads_str] s a(3)]
        param_reads [OF reads_i32 s a(4)]
        param_reads [OF reads_enum s a(5)]
        param_reads_on [OF reads_on_map [OF order condition_reads] s a(6) ok_scan_filter]
        param_reads [OF reads_enum s a(7)]
        param_reads_on [OF reads_on_map [OF order attribute_reads] s a(8) ok_exclusive_start_key]
        param_reads [OF reads_enum s a(9)]
        param_reads [OF reads_i32 s a(10)]
        param_reads [OF reads_i32 s a(11)]
        param_reads [OF reads_str s a(12)]
        param_reads [OF reads_str s a(13)]
        param_reads [OF reads_map [OF order reads_str] s a(14)]
        param_reads_on [OF reads_on_map [OF order attribute_reads] s a(15) ok_expression_attribute_values]
        param_reads [OF reads_bool s a(16)])
qed

lemma transact_get_items_delivered:
  assumes ok_transact_items: "pred_option (list_all (transact_get_item_ok S)) (dtgii_transact_items i)"
  shows "transact_get_items_params P S (transact_get_items_call order i) = Inr i"
proof -
  have s: "str_keys (transact_get_items_call order i)" by (simp add: transact_get_items_call_def)
  have a: "argument (transact_get_items_call order i) ''transact_items'' = opt_to_py (seq_to_py (transact_get_item_to_py order)) (dtgii_transact_items i)"
    "argument (transact_get_items_call order i) ''return_consumed_capacity'' = opt_to_py PyStr (dtgii_return_consumed_capacity i)"
    unfolding transact_get_items_call_def by (simp_all add: argument_py_params)
  show ?thesis
    unfolding transact_get_items_params_def
    by (simp add: param_reads_on [OF reads_on_seq [OF transact_get_item_reads] s a(1) ok_transact_items]
        param_reads [OF reads_enum s a(2)])
qed

lemma transact_write_items_delivered:
  assumes ok_transact_items: "pred_option (list_all (transact_write_item_ok S)) (dtwii_transact_items i)"
  shows "transact_write_items_params P S (transact_write_items_call order i) = Inr i"
proof -
  have s: "str_keys (transact_write_items_call order i)" by (simp add: transact_write_items_call_def)
  note p = arguments [OF transact_write_items_call_def [of order i], simplified]
  have a: "argument (transact_write_items_call order i) ''transact_items'' = opt_to_py (seq_to_py (transact_write_item_to_py order)) (dtwii_transact_items i)"
    "argument (transact_write_items_call order i) ''return_consumed_capacity'' = opt_to_py PyStr (dtwii_return_consumed_capacity i)"
    "argument (transact_write_items_call order i) ''return_item_collection_metrics'' = opt_to_py PyStr (dtwii_return_item_collection_metrics i)"
    "argument (transact_write_items_call order i) ''client_request_token'' = opt_to_py PyStr (dtwii_client_request_token i)"
    by (simp_all only: p)
  show ?thesis
    unfolding transact_write_items_params_def
    by (simp add: param_reads_on [OF reads_on_seq [OF transact_write_item_reads] s a(1) ok_transact_items]
        param_reads [OF reads_enum s a(2)]
        param_reads [OF reads_enum s a(3)]
        param_reads [OF reads_str s a(4)])
qed

lemma update_item_delivered:
  assumes ok_key: "pred_option (fmpred (\<lambda>_. attribute_ok S)) (duii_key i)"
    and ok_attribute_updates: "pred_option (fmpred (\<lambda>_. attribute_value_update_ok S)) (duii_attribute_updates i)"
    and ok_expected: "pred_option (fmpred (\<lambda>_. expected_attribute_value_ok S)) (duii_expected i)"
    and ok_expression_attribute_values: "pred_option (fmpred (\<lambda>_. attribute_ok S)) (duii_expression_attribute_values i)"
  shows "update_item_params P S (update_item_call order i) = Inr i"
proof -
  have s: "str_keys (update_item_call order i)" by (simp add: update_item_call_def)
  note p = arguments [OF update_item_call_def [of order i], simplified]
  have a: "argument (update_item_call order i) ''table_name'' = opt_to_py PyStr (duii_table_name i)"
    "argument (update_item_call order i) ''key'' = opt_to_py (mapping_to_py order (attribute_value_to_py order)) (duii_key i)"
    "argument (update_item_call order i) ''attribute_updates'' = opt_to_py (mapping_to_py order (attribute_value_update_to_py order)) (duii_attribute_updates i)"
    "argument (update_item_call order i) ''expected'' = opt_to_py (mapping_to_py order (expected_attribute_value_to_py order)) (duii_expected i)"
    "argument (update_item_call order i) ''conditional_operator'' = opt_to_py PyStr (duii_conditional_operator i)"
    "argument (update_item_call order i) ''return_values'' = opt_to_py PyStr (duii_return_values i)"
    "argument (update_item_call order i) ''return_consumed_capacity'' = opt_to_py PyStr (duii_return_consumed_capacity i)"
    "argument (update_item_call order i) ''return_item_collection_metrics'' = opt_to_py PyStr (duii_return_item_collection_metrics i)"
    "argument (update_item_call order i) ''update_expression'' = opt_to_py PyStr (duii_update_expression i)"
    "argument (update_item_call order i) ''condition_expression'' = opt_to_py PyStr (duii_condition_expression i)"
    "argument (update_item_call order i) ''expression_attribute_names'' = opt_to_py (mapping_to_py order PyStr) (duii_expression_attribute_names i)"
    "argument (update_item_call order i) ''expression_attribute_values'' = opt_to_py (mapping_to_py order (attribute_value_to_py order)) (duii_expression_attribute_values i)"
    "argument (update_item_call order i) ''return_values_on_condition_check_failure'' = opt_to_py PyStr (duii_return_values_on_condition_check_failure i)"
    by (simp_all only: p)
  show ?thesis
    unfolding update_item_params_def update_item_params_1_def update_item_params_2_def update_item_params_3_def update_item_params_4_def
    by (simp add: param_reads [OF reads_str s a(1)]
        param_reads_on [OF reads_on_map [OF order attribute_reads] s a(2) ok_key]
        param_reads_on [OF reads_on_map [OF order attribute_value_update_reads] s a(3) ok_attribute_updates]
        param_reads_on [OF reads_on_map [OF order expected_attribute_value_reads] s a(4) ok_expected]
        param_reads [OF reads_enum s a(5)]
        param_reads [OF reads_enum s a(6)]
        param_reads [OF reads_enum s a(7)]
        param_reads [OF reads_enum s a(8)]
        param_reads [OF reads_str s a(9)]
        param_reads [OF reads_str s a(10)]
        param_reads [OF reads_map [OF order reads_str] s a(11)]
        param_reads_on [OF reads_on_map [OF order attribute_reads] s a(12) ok_expression_attribute_values]
        param_reads [OF reads_enum s a(13)])
qed

end

end
