(* ===== verification/DdbItems.thy ===== *)
theory DdbItems
  imports Ddb ClientPages
begin

text \<open>
  Querying a table: the generated paginator of \<open>Query\<close>
  (\<open>packages/rboto-dynamodb/python/rboto_dynamodb/paginators.py\<close>) over the operation of \<open>Ddb\<close> and the
  generator of \<open>Pagination\<close>. The continuation state is the key of the last item read: a dictionary of
  attribute values that goes back to the service as it came.
\<close>

section \<open>Keys as continuation tokens\<close>

text \<open>\<open>_snapshot\<close> leaves a key as it is, and Python's \<open>==\<close> tells different keys apart.\<close>

lemma snapshot_mapping:
  assumes "iterates order" and "\<And>y. y \<in> fmran' m \<Longrightarrow> snapshot A (f y) = f y"
  shows "snapshot A (mapping_to_py order f m) = mapping_to_py order f m"
proof -
  from assms(1) have d: "distinct (map fst (order (fmmap f m)))" and l: "map_of (order (fmmap f m)) = fmlookup (fmmap f m)"
    by (simp_all add: iterates_def)
  have "snapshot A v = v" if "(k, v) \<in> set (order (fmmap f m))" for k v
    using map_of_is_SomeI [OF d that] assms(2) by (auto simp: l intro: fmran'I)
  with d show ?thesis by (auto simp: mapping_to_py_def map_to_py_def py_dict_distinct)
qed

lemma py_eq_mapping:
  assumes "iterates order" and f: "\<And>x y. x \<in> fmran' m \<Longrightarrow> py_eq (f x) (f y) \<Longrightarrow> x = y"
    and eq: "py_eq (mapping_to_py order f m) (mapping_to_py order f m')"
  shows "m = m'"
proof -
  have props: "distinct (map fst (order (fmmap f n)))" "map_of (order (fmmap f n)) = fmlookup (fmmap f n)" for n
    using assms(1) by (simp_all add: iterates_def)
  have dom: "fst ` set (order (fmmap f n)) = fset (fmdom n)" for n
    using dom_map_of_conv_image_fst [of "order (fmmap f n)"] by (simp add: props(2) fmlookup_dom_iff dom_def set_eq_iff)
  have size: "length (order (fmmap f n)) = card (fset (fmdom n))" for n
    using distinct_card [OF props(1), of n] by (simp add: dom)
  have look: "map_of (py_dict (order (fmmap f m'))) (PyStr k) = fmlookup (fmmap f m') k" for k
    by (simp add: py_dict_distinct_keys [OF props(1)] props(2))
  have same: "fmlookup m' k = Some x" if "fmlookup m k = Some x" for k x
  proof -
    have "(k, f x) \<in> set (order (fmmap f m))" using that map_of_SomeD [of "order (fmmap f m)" k] by (simp add: props(2))
    then have "(PyStr k, f x) \<in> set (py_dict (order (fmmap f m)))"
      by (force simp: py_dict_distinct [OF props(1)])
    with eq have "case map_of (py_dict (order (fmmap f m'))) (PyStr k) of None \<Rightarrow> False | Some w \<Rightarrow> py_eq (f x) w"
      unfolding mapping_to_py_def map_to_py_def py_eq.simps pyval.case by (auto dest!: bspec split: option.splits)
    with f [OF fmran'I [OF that]] show ?thesis by (auto simp: look split: option.splits)
  qed
  then have "fset (fmdom m) \<subseteq> fset (fmdom m')" by (auto simp: fmlookup_dom_iff)
  moreover have "card (fset (fmdom m)) = card (fset (fmdom m'))"
    using eq by (simp add: mapping_to_py_def map_to_py_def py_dict_distinct [OF props(1)] size)
  ultimately have "fset (fmdom m) = fset (fmdom m')" by (simp add: card_subset_eq)
  then have "fmdom m = fmdom m'" by (simp only: fset_inject)
  then have "fmlookup m k = fmlookup m' k" for k
    using same [of k] by (cases "fmlookup m k") (metis fmdom_notD fmdom_notI, simp)
  then show ?thesis by (rule fmap_ext)
qed

lemma snapshot_attribute:
  assumes "iterates order"
  shows "snapshot A (attribute_value_to_py order a) = attribute_value_to_py order a"
proof (induction a)
  case (AvM m)
  then have "snapshot A (mapping_to_py order (attribute_value_to_py order) m) = mapping_to_py order (attribute_value_to_py order) m"
    by (rule snapshot_mapping [OF assms])
  then show ?case by (simp add: py_dict_distinct mapping_to_py_def)
qed (simp_all add: py_dict_distinct seq_to_py_def)

lemma list_all2_inj: "(\<And>x y. x \<in> set xs \<Longrightarrow> R (f x) (f y) \<Longrightarrow> x = y) \<Longrightarrow> list_all2 R (map f xs) (map f ys) \<Longrightarrow> xs = ys"
  by (induction xs arbitrary: ys) (auto simp: list_all2_map1 list_all2_Cons1)

lemma py_eq_attribute:
  assumes "iterates order"
  shows "py_eq (attribute_value_to_py order a) (attribute_value_to_py order b) \<Longrightarrow> a = b"
proof (induction a arbitrary: b)
  case (AvM m)
  from AvM.prems show ?case
    by (cases b) (auto simp: py_dict_distinct simp flip: mapping_to_py_def intro: py_eq_mapping [OF assms] AvM.IH)
next
  case (AvL l)
  from AvL.prems show ?case
    by (cases b) (auto simp: py_dict_distinct intro: list_all2_inj AvL.IH)
next
  case (AvSs l)
  then show ?case by (cases b) (auto simp: py_dict_distinct seq_to_py_def intro: list_all2_inj [where R = py_eq and f = PyStr])
next
  case (AvNs l)
  then show ?case by (cases b) (auto simp: py_dict_distinct seq_to_py_def intro: list_all2_inj [where R = py_eq and f = PyStr])
next
  case (AvBs l)
  then show ?case by (cases b) (auto simp: py_dict_distinct seq_to_py_def intro: list_all2_inj [where R = py_eq and f = PyBytes])
qed (case_tac [!] b; auto simp: py_dict_distinct seq_to_py_def split: if_splits)+

definition key_to_py :: "((string, pyval) fmap \<Rightarrow> (string \<times> pyval) list) \<Rightarrow> (string, attribute_value) fmap \<Rightarrow> pyval" where
  "key_to_py order = mapping_to_py order (attribute_value_to_py order)"

lemma key_tokens:
  assumes "iterates order"
  shows "snapshot A (opt_to_py (key_to_py order) k) = opt_to_py (key_to_py order) k"
    and "py_eq (key_to_py order m) (opt_to_py (key_to_py order) k) \<Longrightarrow> k = Some m"
    and "present (key_to_py order m) \<longleftrightarrow> m \<noteq> fmempty"
proof -
  show "snapshot A (opt_to_py (key_to_py order) k) = opt_to_py (key_to_py order) k"
    by (cases k) (simp_all add: opt_to_py_def key_to_py_def snapshot_mapping [OF assms] snapshot_attribute [OF assms])
  assume "py_eq (key_to_py order m) (opt_to_py (key_to_py order) k)"
  then show "k = Some m"
    using py_eq_mapping [OF assms py_eq_attribute [OF assms], of m]
    by (cases k) (auto simp: opt_to_py_def key_to_py_def simp del: py_eq.simps
        simp: mapping_to_py_def [of _ _ m] map_to_py_def py_eq.simps(1) [of _ PyNone])
next
  have "order (fmmap f m) = [] \<longleftrightarrow> m = fmempty" for f
    using assms unfolding iterates_def by (metis fmap_ext fmempty_lookup fmlookup_map map_of_eq_empty_iff option.map_disc_iff)
  moreover have "distinct (map fst (order n))" for n using assms by (simp add: iterates_def)
  ultimately show "present (key_to_py order m) \<longleftrightarrow> m \<noteq> fmempty"
    by (simp add: key_to_py_def mapping_to_py_def map_to_py_def py_dict_distinct)
qed

section \<open>The paginator\<close>

text \<open>The dictionary \<open>paginators.query\<close> starts from.\<close>

definition query_options :: "((string, pyval) fmap \<Rightarrow> (string \<times> pyval) list) \<Rightarrow> query_input \<Rightarrow> (string \<times> pyval) list" where
  "query_options order i =
     [(''index_name'', opt_to_py PyStr (dqi_index_name i)),
      (''select'', opt_to_py PyStr (dqi_select i)),
      (''attributes_to_get'', opt_to_py (seq_to_py PyStr) (dqi_attributes_to_get i)),
      (''limit'', opt_to_py i32_to_py (dqi_limit i)),
      (''consistent_read'', opt_to_py PyBool (dqi_consistent_read i)),
      (''key_conditions'', opt_to_py (mapping_to_py order (condition_to_py order)) (dqi_key_conditions i)),
      (''query_filter'', opt_to_py (mapping_to_py order (condition_to_py order)) (dqi_query_filter i)),
      (''conditional_operator'', opt_to_py PyStr (dqi_conditional_operator i)),
      (''scan_index_forward'', opt_to_py PyBool (dqi_scan_index_forward i)),
      (''exclusive_start_key'', opt_to_py (key_to_py order) (dqi_exclusive_start_key i)),
      (''return_consumed_capacity'', opt_to_py PyStr (dqi_return_consumed_capacity i)),
      (''projection_expression'', opt_to_py PyStr (dqi_projection_expression i)),
      (''filter_expression'', opt_to_py PyStr (dqi_filter_expression i)),
      (''key_condition_expression'', opt_to_py PyStr (dqi_key_condition_expression i)),
      (''expression_attribute_names'', opt_to_py (mapping_to_py order PyStr) (dqi_expression_attribute_names i)),
      (''expression_attribute_values'', opt_to_py (mapping_to_py order (attribute_value_to_py order)) (dqi_expression_attribute_values i))]"

definition query_pages :: "((string, pyval) fmap \<Rightarrow> (string \<times> pyval) list) \<Rightarrow> query_input \<Rightarrow> (string \<times> pyval) list" where
  "query_pages order i = page_arguments (''table_name'', opt_to_py PyStr (dqi_table_name i)) (query_options order i)"

definition query_spec :: pagination_spec where
  "query_spec = \<lparr>input_tokens = [''exclusive_start_key''],
     output_tokens = [[[Name ''last_evaluated_key'']]], more_results = None\<rparr>"

text \<open>\<open>client.query(**request)\<close>.\<close>

definition query_kwargs :: "(string \<times> pyval) list \<Rightarrow> pydict" where
  "query_kwargs = keyword_arguments ''table_name''
     [''index_name'', ''select'', ''attributes_to_get'', ''limit'', ''consistent_read'',
      ''key_conditions'', ''query_filter'', ''conditional_operator'', ''scan_index_forward'',
      ''exclusive_start_key'', ''return_consumed_capacity'', ''projection_expression'',
      ''filter_expression'', ''key_condition_expression'', ''expression_attribute_names'',
      ''expression_attribute_values'']"

definition query_page :: "nat \<Rightarrow> pyval" where
  "query_page n = PyObject ''QueryOutput'' n"

definition query_api :: "((string, pyval) fmap \<Rightarrow> (string \<times> pyval) list) \<Rightarrow> dynamo_types \<Rightarrow> query_output list \<Rightarrow> page_api" where
  "query_api order S outs =
     \<lparr>page_attr = (\<lambda>v k. case v of
          PyObject c n \<Rightarrow> (case map_of (query_output_attributes order S (outs ! n)) k of
             Some (DdbPlain u) \<Rightarrow> u
           | _ \<Rightarrow> PyNone)
        | _ \<Rightarrow> PyNone),
      cursor_dict = (\<lambda>v. case v of
          PyObject c n \<Rightarrow> Some (query_output_to_dict order S (outs ! n))
        | _ \<Rightarrow> None)\<rparr>"

lemma query_spec_ok: "well_formed_spec query_spec"
  by (simp add: well_formed_spec_def query_spec_def)

lemma query_api_ok: "cursors_present (query_api order S outs)"
  by (auto simp: cursors_present_def query_api_def query_output_to_dict_def py_dict_distinct split: pyval.splits)

lemma query_following:
  assumes "iterates order"
  shows "following_tokens (query_api order S outs) query_spec (query_page n) =
    [case dqo_last_evaluated_key (outs ! n) of None \<Rightarrow> PyNone
     | Some k \<Rightarrow> if k = fmempty then PyNone else key_to_py order k]"
proof -
  have "read_path (query_api order S outs) (query_page n) [Name ''last_evaluated_key''] =
      opt_to_py (key_to_py order) (dqo_last_evaluated_key (outs ! n))"
    by (simp add: query_api_def query_page_def query_output_attributes_def key_to_py_def)
  then show ?thesis
    using key_tokens(1) [OF assms, of "query_api order S outs" "Some _"]
    by (simp add: following_tokens_def query_spec_def key_tokens(3) [OF assms] Let_def opt_to_py_def
        del: read_path.simps split: option.splits)
qed

lemma query_last:
  assumes "iterates order"
  shows "last_page (query_api order S outs) query_spec (query_page n) \<longleftrightarrow>
    dqo_last_evaluated_key (outs ! n) \<in> {None, Some fmempty}"
proof -
  have "more_results query_spec = None" by (simp add: query_spec_def)
  then show ?thesis
    by (auto simp: last_page_def has_more_def query_following [OF assms] key_tokens(3) [OF assms] split: option.splits)
qed

lemma query_kwargs_call:
  assumes "\<And>k. k \<noteq> ''exclusive_start_key'' \<Longrightarrow> request_value request k = request_value (query_pages order i) k"
    and "request_value request ''exclusive_start_key'' = opt_to_py (key_to_py order) t"
  shows "query_kwargs request = query_call order (i\<lparr>dqi_exclusive_start_key := t\<rparr>)"
proof -
  let ?r = "(''table_name'', opt_to_py PyStr (dqi_table_name i))" and ?o = "query_options order i"
  have "query_kwargs request = keyword_arguments ''table_name'' (map fst ?o) request"
    by (simp add: query_kwargs_def query_options_def)
  also have "\<dots> = py_params [?r] (map (\<lambda>(k, w). (k, if k = ''exclusive_start_key'' then opt_to_py (key_to_py order) t else w)) ?o)"
    using assms(1)
    by (subst keyword_arguments_of_pages [where t = "''exclusive_start_key''" and v = "snd ?r"])
      (simp_all add: query_pages_def query_options_def assms(2))
  also have "\<dots> = query_call order (i\<lparr>dqi_exclusive_start_key := t\<rparr>)"
    by (simp add: query_options_def query_call_def key_to_py_def)
  finally show ?thesis .
qed

text \<open>What can be asked for: every attribute value of the query is of a known variant and within the native stack.\<close>

definition query_ok :: "dynamo_types \<Rightarrow> query_input \<Rightarrow> bool" where
  "query_ok S i \<longleftrightarrow> pred_option (fmpred (\<lambda>_. condition_ok S)) (dqi_key_conditions i)
     \<and> pred_option (fmpred (\<lambda>_. condition_ok S)) (dqi_query_filter i)
     \<and> pred_option (fmpred (\<lambda>_. attribute_ok S)) (dqi_exclusive_start_key i)
     \<and> pred_option (fmpred (\<lambda>_. attribute_ok S)) (dqi_expression_attribute_values i)"

lemma query_runs:
  assumes "pyo3_laws P" and "dynamo_types_laws S" and "iterates order" and "query_ok S i" and "\<not> ch_closed c"
    and "get_client E (ch_state c) = Some (Inr client, st)" and "send client i = (attempts, Inr output)"
  shows "query E P S order (Inr ()) False send c (query_call order i) None = Some (Inr output, c\<lparr>ch_state := st\<rparr>, None)"
proof -
  note conv = dynamo_conversions.intro [OF assms(1,2) dynamo_conversions_axioms.intro, OF assms(3)]
  from assms(4) have "query_params P S (query_call order i) = Inr i"
    by (intro dynamo_conversions.query_delivered [OF conv]) (simp_all add: query_ok_def)
  then show ?thesis
    unfolding query_def by (simp only:) (subst execute_open [OF assms(5,6), where send = send, OF assms(7)], simp)
qed

section \<open>Properties\<close>

text \<open>
  C22: a query is complete. Against a table whose pages are \<open>outs\<close> (asked to start after the key of
  page \<open>j\<close>, the service answers page \<open>j\<close>; every page but the last names the last key it read, which
  is not empty and not the key it was asked to start after), iterating the paginator of \<open>Query\<close>
  yields the responses of all pages, each once, in order, and then stops. Every key comes back to the
  SDK as the service gave it, and the other parameters as the application gave them. The attribute
  values of the keys and of the application's parameters must be of variants the code knows and within
  the native stack (\<open>query_ok\<close>): others do not survive the conversions, and a key made of them ends
  the iteration with an exception. A page without items does not end the query.
\<close>

theorem query_is_complete:
  fixes outs :: "query_output list" and c :: "'client client_handle"
    and key :: "nat \<Rightarrow> (string, attribute_value) fmap option"
  assumes "pyo3_laws P" and "dynamo_types_laws S" and "iterates order"
    and "\<not> ch_closed c" and "get_client E (ch_state c) = Some (Inr client, st)"
    and answers: "\<And>j. j < length outs \<Longrightarrow> query_ok S (i\<lparr>dqi_exclusive_start_key := key j\<rparr>)
      \<and> (\<exists>attempts. send client (i\<lparr>dqi_exclusive_start_key := key j\<rparr>) = (attempts, Inr (outs ! j)))"
    and first: "key 0 = dqi_exclusive_start_key i" and "outs \<noteq> []"
    and chain: "\<And>j. Suc j < length outs \<Longrightarrow>
      dqo_last_evaluated_key (outs ! j) = key (Suc j) \<and> key (Suc j) \<notin> {None, Some fmempty, key j}"
    and last: "dqo_last_evaluated_key (last outs) \<in> {None, Some fmempty}"
    and call: "paged_call ''QueryOutput''
      (\<lambda>request c. query E P S order (Inr ()) False send c (query_kwargs request) None) call"
  shows "\<exists>requests pg c'. pages (length outs + m) (query_api order S outs) query_spec call
      (paginate (query_api order S outs) query_spec (query_pages order i)) (c, []) =
    (map (\<lambda>j. Inr (query_page j)) [0..<length outs] @ replicate m (Inl stop_async_iteration), requests, pg, (c', outs))
    \<and> length requests = length outs \<and> pg_finished pg \<and> ch_state c' = st"
  unfolding query_page_def
proof (rule client_pages [where tokens = "\<lambda>j. [opt_to_py (key_to_py order) (key j)]",
      OF query_spec_ok query_api_ok call assms(4,5,8)], fold query_page_def)
  let ?A = "query_api order S outs"
  have "request_value (query_pages order i) ''exclusive_start_key'' = opt_to_py (key_to_py order) (key 0)"
    unfolding query_pages_def
    by (rule page_arguments_given) (simp_all add: query_options_def first)
  then show "map (request_value (query_pages order i)) (input_tokens query_spec) = [opt_to_py (key_to_py order) (key 0)]"
    by (simp add: query_spec_def)
  show "last_page ?A query_spec (query_page (length outs - 1))"
    using last last_conv_nth [OF assms(8)] by (simp add: query_last [OF assms(3)])
next
  fix j request and c :: "'client client_handle"
  assume j: "j < length outs"
    and token: "map (request_value request) (input_tokens query_spec) = [opt_to_py (key_to_py order) (key j)]"
    and others: "\<And>k. k \<notin> set (input_tokens query_spec) \<Longrightarrow>
      request_value request k = request_value (query_pages order i) k"
    and built: "\<not> ch_closed c" "get_client E (ch_state c) = Some (Inr client, st)"
  from token others have kw: "query_kwargs request = query_call order (i\<lparr>dqi_exclusive_start_key := key j\<rparr>)"
    by (intro query_kwargs_call) (simp_all add: query_spec_def)
  from answers [OF j] obtain attempts where ok: "query_ok S (i\<lparr>dqi_exclusive_start_key := key j\<rparr>)"
    and sent: "send client (i\<lparr>dqi_exclusive_start_key := key j\<rparr>) = (attempts, Inr (outs ! j))" by blast
  from query_runs [where send = send, OF assms(1-3) ok built sent, folded kw]
  show "\<exists>published. query E P S order (Inr ()) False send c (query_kwargs request) None =
      Some (Inr (outs ! j), c\<lparr>ch_state := st\<rparr>, published)" by blast
next
  fix j assume "Suc j < length outs"
  from chain [OF this] obtain k where k: "dqo_last_evaluated_key (outs ! j) = Some k" "key (Suc j) = Some k"
    "k \<noteq> fmempty" "key j \<noteq> Some k" by (cases "key (Suc j)") auto
  have "\<not> py_eq (key_to_py order k) (opt_to_py (key_to_py order) (key j))"
    using key_tokens(2) [OF assms(3)] k(4) by blast
  then show "\<not> last_page (query_api order S outs) query_spec (query_page j)
      \<and> following_tokens (query_api order S outs) query_spec (query_page j) = [opt_to_py (key_to_py order) (key (Suc j))]
      \<and> \<not> list_all2 py_eq [opt_to_py (key_to_py order) (key (Suc j))] (map (snapshot (query_api order S outs)) [opt_to_py (key_to_py order) (key j)])"
    using k(1-3) by (simp add: query_last [OF assms(3)] query_following [OF assms(3)] key_tokens(1) [OF assms(3)] opt_to_py_def [of _ "Some k"] del: py_eq.simps)
qed

definition example_query :: query_input where
  "example_query = \<lparr>dqi_table_name = Some ''t'', dqi_index_name = None, dqi_select = None, dqi_attributes_to_get = None,
     dqi_limit = Some 1, dqi_consistent_read = None, dqi_key_conditions = None, dqi_query_filter = None,
     dqi_conditional_operator = None, dqi_scan_index_forward = None, dqi_exclusive_start_key = None,
     dqi_return_consumed_capacity = None, dqi_projection_expression = None, dqi_filter_expression = None,
     dqi_key_condition_expression = None, dqi_expression_attribute_names = None,
     dqi_expression_attribute_values = None\<rparr>"

definition example_key :: "(string, attribute_value) fmap" where
  "example_key = fmupd ''id'' (AvL [AvN ''1'', AvB [2]]) fmempty"

definition example_queried :: "(string, attribute_value) fmap option \<Rightarrow> query_output" where
  "example_queried after =
     \<lparr>dqo_items = Some [], dqo_count = 0, dqo_scanned_count = 1, dqo_last_evaluated_key = after,
      dqo_consumed_capacity = None\<rparr>"

definition example_query_send :: "nat \<Rightarrow> query_input \<Rightarrow> trip list \<times> ((dynamo_error, http_response) sdk_error + query_output)" where
  "example_query_send client i =
     ([], Inr (example_queried (if dqi_exclusive_start_key i = None then Some example_key else None)))"

definition example_query_call :: "(string \<times> pyval) list \<Rightarrow> nat client_handle \<times> query_output list \<Rightarrow>
    pyval pyresult \<times> nat client_handle \<times> query_output list" where
  "example_query_call request w =
     (case query example_env pyo3_std dynamo_std by_key (Inr ()) False example_query_send (fst w)
        (query_kwargs request) None of
        Some (Inr r, c, published) \<Rightarrow> (Inr (query_page (length (snd w))), (c, snd w @ [r]))
      | Some (Inl e, c, published) \<Rightarrow> (Inl e, (c, snd w))
      | None \<Rightarrow> (Inl (runtime_error ''unloaded''), w))"

theorem query_is_complete_witness:
  "fst (pages 3 (query_api by_key dynamo_std [example_queried (Some example_key), example_queried None]) query_spec
      example_query_call
      (paginate (query_api by_key dynamo_std [example_queried (Some example_key), example_queried None]) query_spec
        (query_pages by_key example_query)) (example_client, [])) =
    [Inr (query_page 0), Inr (query_page 1), Inl stop_async_iteration]"
proof -
  let ?outs = "[example_queried (Some example_key), example_queried None]"
  let ?key = "\<lambda>j. if j = 0 then None else Some example_key"
  have g: "get_client example_env (ch_state example_client) =
      Some (Inr 5, (ch_state example_client)\<lparr>cs_client := Some 5\<rparr>)"
    by (simp add: get_client_def example_env_def example_client_def)
  have o: "\<not> ch_closed example_client" by (simp add: example_client_def)
  have sent: "fmpred (\<lambda>_. attribute_ok dynamo_std) example_key"
    by (auto simp: example_key_def attribute_ok_def dynamo_std_def fmpred_upd)
  have answers: "query_ok dynamo_std (example_query\<lparr>dqi_exclusive_start_key := ?key j\<rparr>)
      \<and> (\<exists>attempts. example_query_send 5 (example_query\<lparr>dqi_exclusive_start_key := ?key j\<rparr>) = (attempts, Inr (?outs ! j)))"
    if "j < length ?outs" for j
    using that sent by (auto simp: example_query_send_def query_ok_def example_query_def less_Suc_eq)
  have "example_key \<noteq> fmempty" by (metis example_key_def fmempty_lookup fmupd_lookup option.distinct(1))
  then have chain: "dqo_last_evaluated_key (?outs ! j) = ?key (Suc j) \<and> ?key (Suc j) \<notin> {None, Some fmempty, ?key j}"
    if "Suc j < length ?outs" for j
    using that by (simp add: example_queried_def)
  have last: "dqo_last_evaluated_key (last ?outs) \<in> {None, Some fmempty}" by (simp add: example_queried_def)
  have call: "paged_call ''QueryOutput'' (\<lambda>request c. query example_env pyo3_std dynamo_std by_key (Inr ()) False
      example_query_send c (query_kwargs request) None) example_query_call"
    by (simp add: paged_call_def example_query_call_def query_page_def)
  have "?key 0 = dqi_exclusive_start_key example_query" by (simp add: example_query_def)
  from query_is_complete [where call = example_query_call and order = by_key and m = 1 and key = ?key
      and outs = ?outs and send = example_query_send and i = example_query,
      OF std.pyo3_laws_axioms std_dynamo.dynamo_types_laws_axioms iterates_by_key o g answers this _ chain last call]
  show ?thesis by (auto simp: numeral_3_eq_3 upt_rec simp del: pages.simps)
qed

end
