(* ===== verification/StsTypes.thy ===== *)
theory StsTypes
  imports Service Params
begin

text \<open>
  The structures of the STS extension, from \<open>crates/rboto-sts/src/generated.rs\<close>: the converters
  between Python dictionaries and the SDK's structures. The structures are records with the
  members the code reads and sets; their builders belong to the SDK and are, with its timestamps,
  the record \<open>sts_types\<close>.
\<close>

section \<open>Structures\<close>

record assumed_role_user =
  aru_assumed_role_id :: string
  aru_arn :: string

record sts_credentials =
  crd_access_key_id :: string
  crd_secret_access_key :: string
  crd_session_token :: string
  crd_expiration :: datetime

record federated_user =
  fu_federated_user_id :: string
  fu_arn :: string

record policy_descriptor_type =
  pdt_arn :: "string option"

record provided_context =
  pvc_provider_arn :: "string option"
  pvc_context_assertion :: "string option"

record tag =
  tag_key :: string
  tag_value :: string

record sts_types = smithy_dates +
  build_assumed_role_user :: "string option \<Rightarrow> string option \<Rightarrow> unit + assumed_role_user"
  build_credentials :: "string option \<Rightarrow> string option \<Rightarrow> string option \<Rightarrow> datetime option \<Rightarrow> unit + sts_credentials"
  build_federated_user :: "string option \<Rightarrow> string option \<Rightarrow> unit + federated_user"
  build_policy_descriptor_type :: "string option \<Rightarrow> policy_descriptor_type"
  build_provided_context :: "string option \<Rightarrow> string option \<Rightarrow> provided_context"
  build_tag :: "string option \<Rightarrow> string option \<Rightarrow> unit + tag"

section \<open>Converters\<close>

definition assumed_role_user_from_py :: "pyo3 \<Rightarrow> sts_types \<Rightarrow> pyval \<Rightarrow> assumed_role_user pyresult" where
  "assumed_role_user_from_py P S value =
     and_then (cast_dict P value) (\<lambda>values.
     and_then (member P values ''assumed_role_id'' ''str'' (string_from_py P)) (\<lambda>assumed_role_id_value.
     and_then (member P values ''arn'' ''str'' (string_from_py P)) (\<lambda>arn_value.
     map_err (\<lambda>_. input_builder_error P values
         [(''assumed_role_id'', ''assumed_role_id''), (''arn'', ''arn'')])
       (build_assumed_role_user S assumed_role_id_value arn_value))))"

definition assumed_role_user_to_py :: "assumed_role_user \<Rightarrow> pyval" where
  "assumed_role_user_to_py v = PyDict (py_dict
     [(''assumed_role_id'', PyStr (aru_assumed_role_id v)),
      (''arn'', PyStr (aru_arn v))])"

definition credentials_from_py :: "pyo3 \<Rightarrow> sts_types \<Rightarrow> pyval \<Rightarrow> sts_credentials pyresult" where
  "credentials_from_py P S value =
     and_then (cast_dict P value) (\<lambda>values.
     and_then (member P values ''access_key_id'' ''str'' (string_from_py P)) (\<lambda>access_key_id_value.
     and_then (member P values ''secret_access_key'' ''str'' (string_from_py P)) (\<lambda>secret_access_key_value.
     and_then (member P values ''session_token'' ''str'' (string_from_py P)) (\<lambda>session_token_value.
     and_then (member P values ''expiration'' ''ISO 8601 timestamp string'' (datetime_from_py P S)) (\<lambda>expiration_value.
     map_err (\<lambda>_. input_builder_error P values
         [(''access_key_id'', ''access_key_id''), (''secret_access_key'', ''secret_access_key''), (''session_token'', ''session_token''), (''expiration'', ''expiration'')])
       (build_credentials S access_key_id_value secret_access_key_value session_token_value expiration_value))))))"

definition credentials_to_py :: "sts_types \<Rightarrow> sts_credentials \<Rightarrow> pyval" where
  "credentials_to_py S v = PyDict (py_dict
     [(''access_key_id'', PyStr (crd_access_key_id v)),
      (''secret_access_key'', PyStr (crd_secret_access_key v)),
      (''session_token'', PyStr (crd_session_token v)),
      (''expiration'', datetime_to_py S (crd_expiration v))])"

definition federated_user_from_py :: "pyo3 \<Rightarrow> sts_types \<Rightarrow> pyval \<Rightarrow> federated_user pyresult" where
  "federated_user_from_py P S value =
     and_then (cast_dict P value) (\<lambda>values.
     and_then (member P values ''federated_user_id'' ''str'' (string_from_py P)) (\<lambda>federated_user_id_value.
     and_then (member P values ''arn'' ''str'' (string_from_py P)) (\<lambda>arn_value.
     map_err (\<lambda>_. input_builder_error P values
         [(''federated_user_id'', ''federated_user_id''), (''arn'', ''arn'')])
       (build_federated_user S federated_user_id_value arn_value))))"

definition federated_user_to_py :: "federated_user \<Rightarrow> pyval" where
  "federated_user_to_py v = PyDict (py_dict
     [(''federated_user_id'', PyStr (fu_federated_user_id v)),
      (''arn'', PyStr (fu_arn v))])"

definition policy_descriptor_type_from_py :: "pyo3 \<Rightarrow> sts_types \<Rightarrow> pyval \<Rightarrow> policy_descriptor_type pyresult" where
  "policy_descriptor_type_from_py P S value =
     and_then (cast_dict P value) (\<lambda>values.
     and_then (member P values ''arn'' ''str'' (string_from_py P)) (\<lambda>arn_value.
     Inr (build_policy_descriptor_type S arn_value)))"

definition policy_descriptor_type_to_py :: "policy_descriptor_type \<Rightarrow> pyval" where
  "policy_descriptor_type_to_py v = PyDict (py_dict
     [(''arn'', opt_to_py PyStr (pdt_arn v))])"

definition provided_context_from_py :: "pyo3 \<Rightarrow> sts_types \<Rightarrow> pyval \<Rightarrow> provided_context pyresult" where
  "provided_context_from_py P S value =
     and_then (cast_dict P value) (\<lambda>values.
     and_then (member P values ''provider_arn'' ''str'' (string_from_py P)) (\<lambda>provider_arn_value.
     and_then (member P values ''context_assertion'' ''str'' (string_from_py P)) (\<lambda>context_assertion_value.
     Inr (build_provided_context S provider_arn_value context_assertion_value))))"

definition provided_context_to_py :: "provided_context \<Rightarrow> pyval" where
  "provided_context_to_py v = PyDict (py_dict
     [(''provider_arn'', opt_to_py PyStr (pvc_provider_arn v)),
      (''context_assertion'', opt_to_py PyStr (pvc_context_assertion v))])"

definition tag_from_py :: "pyo3 \<Rightarrow> sts_types \<Rightarrow> pyval \<Rightarrow> tag pyresult" where
  "tag_from_py P S value =
     and_then (cast_dict P value) (\<lambda>values.
     and_then (member P values ''key'' ''str'' (string_from_py P)) (\<lambda>key_value.
     and_then (member P values ''value'' ''str'' (string_from_py P)) (\<lambda>value_value.
     map_err (\<lambda>_. input_builder_error P values
         [(''key'', ''key''), (''value'', ''value'')])
       (build_tag S key_value value_value))))"

definition tag_to_py :: "tag \<Rightarrow> pyval" where
  "tag_to_py v = PyDict (py_dict
     [(''key'', PyStr (tag_key v)),
      (''value'', PyStr (tag_value v))])"

section \<open>Round trips\<close>

text \<open>What the builders document: a builder of complete members gives the structure with those
  members, and one that lacks a required member fails.\<close>

locale sts_types_laws =
  fixes S :: sts_types
  assumes assumed_role_user_built: "build_assumed_role_user S (Some au0) (Some au1) =
       Inr \<lparr>aru_assumed_role_id = au0, aru_arn = au1\<rparr>"
    and credentials_built: "build_credentials S (Some cd0) (Some cd1) (Some cd2) (Some cd3) =
       Inr \<lparr>crd_access_key_id = cd0, crd_secret_access_key = cd1, crd_session_token = cd2, crd_expiration = cd3\<rparr>"
    and federated_user_built: "build_federated_user S (Some fu0) (Some fu1) =
       Inr \<lparr>fu_federated_user_id = fu0, fu_arn = fu1\<rparr>"
    and policy_descriptor_type_built: "build_policy_descriptor_type S pt0 =
       \<lparr>pdt_arn = pt0\<rparr>"
    and provided_context_built: "build_provided_context S pc0 pc1 =
       \<lparr>pvc_provider_arn = pc0, pvc_context_assertion = pc1\<rparr>"
    and tag_built: "build_tag S (Some tg0) (Some tg1) =
       Inr \<lparr>tag_key = tg0, tag_value = tg1\<rparr>"
    and assumed_role_user_incomplete: "oau0 = None \<or> oau1 = None \<Longrightarrow>
       build_assumed_role_user S oau0 oau1 = Inl ()"
    and credentials_incomplete: "ocd0 = None \<or> ocd1 = None \<or> ocd2 = None \<or> ocd3 = None \<Longrightarrow>
       build_credentials S ocd0 ocd1 ocd2 ocd3 = Inl ()"
    and federated_user_incomplete: "ofu0 = None \<or> ofu1 = None \<Longrightarrow>
       build_federated_user S ofu0 ofu1 = Inl ()"
    and tag_incomplete: "otg0 = None \<or> otg1 = None \<Longrightarrow>
       build_tag S otg0 otg1 = Inl ()"

text \<open>A concrete SDK: a timestamp is read back from the decimal digits of its seconds.\<close>

definition sts_std :: sts_types where
  "sts_std =
     \<lparr>parse_datetime = (\<lambda>s. Inr (int (digits_value s), 0)),
      show_datetime = (\<lambda>d. show_nat (nat (fst d))),
      build_assumed_role_user = (\<lambda>a0 a1. case (a0, a1) of
          (Some x0, Some x1) \<Rightarrow> Inr \<lparr>aru_assumed_role_id = x0, aru_arn = x1\<rparr> | _ \<Rightarrow> Inl ()),
      build_credentials = (\<lambda>a0 a1 a2 a3. case (a0, a1, a2, a3) of
          (Some x0, Some x1, Some x2, Some x3) \<Rightarrow> Inr \<lparr>crd_access_key_id = x0, crd_secret_access_key = x1, crd_session_token = x2, crd_expiration = x3\<rparr> | _ \<Rightarrow> Inl ()),
      build_federated_user = (\<lambda>a0 a1. case (a0, a1) of
          (Some x0, Some x1) \<Rightarrow> Inr \<lparr>fu_federated_user_id = x0, fu_arn = x1\<rparr> | _ \<Rightarrow> Inl ()),
      build_policy_descriptor_type = (\<lambda>a0. \<lparr>pdt_arn = a0\<rparr>),
      build_provided_context = (\<lambda>a0 a1. \<lparr>pvc_provider_arn = a0, pvc_context_assertion = a1\<rparr>),
      build_tag = (\<lambda>a0 a1. case (a0, a1) of
          (Some x0, Some x1) \<Rightarrow> Inr \<lparr>tag_key = x0, tag_value = x1\<rparr> | _ \<Rightarrow> Inl ())\<rparr>"

interpretation std_types: sts_types_laws sts_std
  by unfold_locales (auto simp: sts_std_def split: option.splits)

locale sts_conversions = pyo3_laws P + sts_types_laws S for P S
begin

lemma assumed_role_user_roundtrip: "assumed_role_user_from_py P S (assumed_role_user_to_py v) = Inr v"
  by (cases v) (simp add: assumed_role_user_from_py_def assumed_role_user_to_py_def dict_ok py_dict_distinct member_str member_opt_str
      member_datetime assumed_role_user_built)

lemma credentials_roundtrip: "parse_datetime S (show_datetime S (crd_expiration v)) = Inr (crd_expiration v) \<Longrightarrow> credentials_from_py P S (credentials_to_py S v) = Inr v"
  by (cases v) (simp add: credentials_from_py_def credentials_to_py_def dict_ok py_dict_distinct member_str member_opt_str
      member_datetime credentials_built)

lemma federated_user_roundtrip: "federated_user_from_py P S (federated_user_to_py v) = Inr v"
  by (cases v) (simp add: federated_user_from_py_def federated_user_to_py_def dict_ok py_dict_distinct member_str member_opt_str
      member_datetime federated_user_built)

lemma policy_descriptor_type_roundtrip: "policy_descriptor_type_from_py P S (policy_descriptor_type_to_py v) = Inr v"
  by (cases v) (simp add: policy_descriptor_type_from_py_def policy_descriptor_type_to_py_def dict_ok py_dict_distinct member_str member_opt_str
      member_datetime policy_descriptor_type_built)

lemma provided_context_roundtrip: "provided_context_from_py P S (provided_context_to_py v) = Inr v"
  by (cases v) (simp add: provided_context_from_py_def provided_context_to_py_def dict_ok py_dict_distinct member_str member_opt_str
      member_datetime provided_context_built)

lemma tag_roundtrip: "tag_from_py P S (tag_to_py v) = Inr v"
  by (cases v) (simp add: tag_from_py_def tag_to_py_def dict_ok py_dict_distinct member_str member_opt_str
      member_datetime tag_built)

end

interpretation std_conv: sts_conversions pyo3_std sts_std
  by (intro sts_conversions.intro std.pyo3_laws_axioms std_types.sts_types_laws_axioms)


end
