(* ===== verification/StsOutputs.thy ===== *)
theory StsOutputs
  imports StsTypes
begin

text \<open>
  The response objects of the STS extension, from \<open>crates/rboto-sts/src/generated.rs\<close>: per
  class, the fields it holds, its getters in order, and \<open>to_dict\<close>. A getter of a structure gives
  a new object that shares the structure (\<open>Arc::clone\<close>), every other one a plain value; the
  fields of a response are optional, and an absent one is \<open>None\<close>.
\<close>

section \<open>Attributes\<close>

datatype sts_attr =
    Plain pyval
  | CredentialsObject sts_credentials
  | AssumedRoleUserObject assumed_role_user
  | FederatedUserObject federated_user

definition opt_attr :: "('a \<Rightarrow> sts_attr) \<Rightarrow> 'a option \<Rightarrow> sts_attr" where
  "opt_attr f v = (case v of None \<Rightarrow> Plain PyNone | Some x \<Rightarrow> f x)"

section \<open>\<open>AssumedRoleUser\<close>\<close>

definition assumed_role_user_attributes :: "sts_types \<Rightarrow> assumed_role_user \<Rightarrow> (string \<times> sts_attr) list" where
  "assumed_role_user_attributes S v =
     [(''assumed_role_id'', Plain (PyStr (aru_assumed_role_id v))),
      (''arn'', Plain (PyStr (aru_arn v)))]"

definition assumed_role_user_to_dict :: "sts_types \<Rightarrow> assumed_role_user \<Rightarrow> pyval" where
  "assumed_role_user_to_dict S v = assumed_role_user_to_py v"

section \<open>\<open>Credentials\<close>\<close>

definition credentials_attributes :: "sts_types \<Rightarrow> sts_credentials \<Rightarrow> (string \<times> sts_attr) list" where
  "credentials_attributes S v =
     [(''access_key_id'', Plain (PyStr (crd_access_key_id v))),
      (''secret_access_key'', Plain (PyStr (crd_secret_access_key v))),
      (''session_token'', Plain (PyStr (crd_session_token v))),
      (''expiration'', Plain (datetime_to_py S (crd_expiration v)))]"

definition credentials_to_dict :: "sts_types \<Rightarrow> sts_credentials \<Rightarrow> pyval" where
  "credentials_to_dict S v = credentials_to_py S v"

section \<open>\<open>FederatedUser\<close>\<close>

definition federated_user_attributes :: "sts_types \<Rightarrow> federated_user \<Rightarrow> (string \<times> sts_attr) list" where
  "federated_user_attributes S v =
     [(''federated_user_id'', Plain (PyStr (fu_federated_user_id v))),
      (''arn'', Plain (PyStr (fu_arn v)))]"

definition federated_user_to_dict :: "sts_types \<Rightarrow> federated_user \<Rightarrow> pyval" where
  "federated_user_to_dict S v = federated_user_to_py v"

section \<open>\<open>AssumeRoleOutput\<close>\<close>

record assume_role_output =
  aro_credentials :: "sts_credentials option"
  aro_assumed_role_user :: "assumed_role_user option"
  aro_packed_policy_size :: "32 word option"
  aro_source_identity :: "string option"
  aro_session_token_utilization :: "32 word option"
  aro_session_token_size :: "32 word option"

definition assume_role_output_attributes :: "sts_types \<Rightarrow> assume_role_output \<Rightarrow> (string \<times> sts_attr) list" where
  "assume_role_output_attributes S v =
     [(''credentials'', opt_attr CredentialsObject (aro_credentials v)),
      (''assumed_role_user'', opt_attr AssumedRoleUserObject (aro_assumed_role_user v)),
      (''packed_policy_size'', Plain (opt_to_py i32_to_py (aro_packed_policy_size v))),
      (''source_identity'', Plain (opt_to_py PyStr (aro_source_identity v))),
      (''session_token_utilization'', Plain (opt_to_py i32_to_py (aro_session_token_utilization v))),
      (''session_token_size'', Plain (opt_to_py i32_to_py (aro_session_token_size v)))]"

definition assume_role_output_to_dict :: "sts_types \<Rightarrow> assume_role_output \<Rightarrow> pyval" where
  "assume_role_output_to_dict S v = PyDict (py_dict
     [(''credentials'', opt_to_py (credentials_to_py S) (aro_credentials v)),
      (''assumed_role_user'', opt_to_py assumed_role_user_to_py (aro_assumed_role_user v)),
      (''packed_policy_size'', opt_to_py i32_to_py (aro_packed_policy_size v)),
      (''source_identity'', opt_to_py PyStr (aro_source_identity v)),
      (''session_token_utilization'', opt_to_py i32_to_py (aro_session_token_utilization v)),
      (''session_token_size'', opt_to_py i32_to_py (aro_session_token_size v))])"

section \<open>\<open>AssumeRoleWithSAMLOutput\<close>\<close>

record assume_role_with_saml_output =
  saml_credentials :: "sts_credentials option"
  saml_assumed_role_user :: "assumed_role_user option"
  saml_packed_policy_size :: "32 word option"
  saml_subject :: "string option"
  saml_subject_type :: "string option"
  saml_issuer :: "string option"
  saml_audience :: "string option"
  saml_name_qualifier :: "string option"
  saml_source_identity :: "string option"
  saml_session_token_utilization :: "32 word option"
  saml_session_token_size :: "32 word option"

definition assume_role_with_saml_output_attributes :: "sts_types \<Rightarrow> assume_role_with_saml_output \<Rightarrow> (string \<times> sts_attr) list" where
  "assume_role_with_saml_output_attributes S v =
     [(''credentials'', opt_attr CredentialsObject (saml_credentials v)),
      (''assumed_role_user'', opt_attr AssumedRoleUserObject (saml_assumed_role_user v)),
      (''packed_policy_size'', Plain (opt_to_py i32_to_py (saml_packed_policy_size v))),
      (''subject'', Plain (opt_to_py PyStr (saml_subject v))),
      (''subject_type'', Plain (opt_to_py PyStr (saml_subject_type v))),
      (''issuer'', Plain (opt_to_py PyStr (saml_issuer v))),
      (''audience'', Plain (opt_to_py PyStr (saml_audience v))),
      (''name_qualifier'', Plain (opt_to_py PyStr (saml_name_qualifier v))),
      (''source_identity'', Plain (opt_to_py PyStr (saml_source_identity v))),
      (''session_token_utilization'', Plain (opt_to_py i32_to_py (saml_session_token_utilization v))),
      (''session_token_size'', Plain (opt_to_py i32_to_py (saml_session_token_size v)))]"

definition assume_role_with_saml_output_to_dict :: "sts_types \<Rightarrow> assume_role_with_saml_output \<Rightarrow> pyval" where
  "assume_role_with_saml_output_to_dict S v = PyDict (py_dict
     [(''credentials'', opt_to_py (credentials_to_py S) (saml_credentials v)),
      (''assumed_role_user'', opt_to_py assumed_role_user_to_py (saml_assumed_role_user v)),
      (''packed_policy_size'', opt_to_py i32_to_py (saml_packed_policy_size v)),
      (''subject'', opt_to_py PyStr (saml_subject v)),
      (''subject_type'', opt_to_py PyStr (saml_subject_type v)),
      (''issuer'', opt_to_py PyStr (saml_issuer v)),
      (''audience'', opt_to_py PyStr (saml_audience v)),
      (''name_qualifier'', opt_to_py PyStr (saml_name_qualifier v)),
      (''source_identity'', opt_to_py PyStr (saml_source_identity v)),
      (''session_token_utilization'', opt_to_py i32_to_py (saml_session_token_utilization v)),
      (''session_token_size'', opt_to_py i32_to_py (saml_session_token_size v))])"

section \<open>\<open>AssumeRoleWithWebIdentityOutput\<close>\<close>

record assume_role_with_web_identity_output =
  web_credentials :: "sts_credentials option"
  web_subject_from_web_identity_token :: "string option"
  web_assumed_role_user :: "assumed_role_user option"
  web_packed_policy_size :: "32 word option"
  web_provider :: "string option"
  web_audience :: "string option"
  web_source_identity :: "string option"
  web_session_token_utilization :: "32 word option"
  web_session_token_size :: "32 word option"

definition assume_role_with_web_identity_output_attributes :: "sts_types \<Rightarrow> assume_role_with_web_identity_output \<Rightarrow> (string \<times> sts_attr) list" where
  "assume_role_with_web_identity_output_attributes S v =
     [(''credentials'', opt_attr CredentialsObject (web_credentials v)),
      (''subject_from_web_identity_token'', Plain (opt_to_py PyStr (web_subject_from_web_identity_token v))),
      (''assumed_role_user'', opt_attr AssumedRoleUserObject (web_assumed_role_user v)),
      (''packed_policy_size'', Plain (opt_to_py i32_to_py (web_packed_policy_size v))),
      (''provider'', Plain (opt_to_py PyStr (web_provider v))),
      (''audience'', Plain (opt_to_py PyStr (web_audience v))),
      (''source_identity'', Plain (opt_to_py PyStr (web_source_identity v))),
      (''session_token_utilization'', Plain (opt_to_py i32_to_py (web_session_token_utilization v))),
      (''session_token_size'', Plain (opt_to_py i32_to_py (web_session_token_size v)))]"

definition assume_role_with_web_identity_output_to_dict :: "sts_types \<Rightarrow> assume_role_with_web_identity_output \<Rightarrow> pyval" where
  "assume_role_with_web_identity_output_to_dict S v = PyDict (py_dict
     [(''credentials'', opt_to_py (credentials_to_py S) (web_credentials v)),
      (''subject_from_web_identity_token'', opt_to_py PyStr (web_subject_from_web_identity_token v)),
      (''assumed_role_user'', opt_to_py assumed_role_user_to_py (web_assumed_role_user v)),
      (''packed_policy_size'', opt_to_py i32_to_py (web_packed_policy_size v)),
      (''provider'', opt_to_py PyStr (web_provider v)),
      (''audience'', opt_to_py PyStr (web_audience v)),
      (''source_identity'', opt_to_py PyStr (web_source_identity v)),
      (''session_token_utilization'', opt_to_py i32_to_py (web_session_token_utilization v)),
      (''session_token_size'', opt_to_py i32_to_py (web_session_token_size v))])"

section \<open>\<open>AssumeRootOutput\<close>\<close>

record assume_root_output =
  root_credentials :: "sts_credentials option"
  root_source_identity :: "string option"
  root_session_token_utilization :: "32 word option"
  root_session_token_size :: "32 word option"

definition assume_root_output_attributes :: "sts_types \<Rightarrow> assume_root_output \<Rightarrow> (string \<times> sts_attr) list" where
  "assume_root_output_attributes S v =
     [(''credentials'', opt_attr CredentialsObject (root_credentials v)),
      (''source_identity'', Plain (opt_to_py PyStr (root_source_identity v))),
      (''session_token_utilization'', Plain (opt_to_py i32_to_py (root_session_token_utilization v))),
      (''session_token_size'', Plain (opt_to_py i32_to_py (root_session_token_size v)))]"

definition assume_root_output_to_dict :: "sts_types \<Rightarrow> assume_root_output \<Rightarrow> pyval" where
  "assume_root_output_to_dict S v = PyDict (py_dict
     [(''credentials'', opt_to_py (credentials_to_py S) (root_credentials v)),
      (''source_identity'', opt_to_py PyStr (root_source_identity v)),
      (''session_token_utilization'', opt_to_py i32_to_py (root_session_token_utilization v)),
      (''session_token_size'', opt_to_py i32_to_py (root_session_token_size v))])"

section \<open>\<open>DecodeAuthorizationMessageOutput\<close>\<close>

record decode_authorization_message_output =
  dam_decoded_message :: "string option"

definition decode_authorization_message_output_attributes :: "sts_types \<Rightarrow> decode_authorization_message_output \<Rightarrow> (string \<times> sts_attr) list" where
  "decode_authorization_message_output_attributes S v =
     [(''decoded_message'', Plain (opt_to_py PyStr (dam_decoded_message v)))]"

definition decode_authorization_message_output_to_dict :: "sts_types \<Rightarrow> decode_authorization_message_output \<Rightarrow> pyval" where
  "decode_authorization_message_output_to_dict S v = PyDict (py_dict
     [(''decoded_message'', opt_to_py PyStr (dam_decoded_message v))])"

section \<open>\<open>GetAccessKeyInfoOutput\<close>\<close>

record get_access_key_info_output =
  gaki_account :: "string option"

definition get_access_key_info_output_attributes :: "sts_types \<Rightarrow> get_access_key_info_output \<Rightarrow> (string \<times> sts_attr) list" where
  "get_access_key_info_output_attributes S v =
     [(''account'', Plain (opt_to_py PyStr (gaki_account v)))]"

definition get_access_key_info_output_to_dict :: "sts_types \<Rightarrow> get_access_key_info_output \<Rightarrow> pyval" where
  "get_access_key_info_output_to_dict S v = PyDict (py_dict
     [(''account'', opt_to_py PyStr (gaki_account v))])"

section \<open>\<open>GetCallerIdentityOutput\<close>\<close>

record get_caller_identity_output =
  gci_user_id :: "string option"
  gci_account :: "string option"
  gci_arn :: "string option"

definition get_caller_identity_output_attributes :: "sts_types \<Rightarrow> get_caller_identity_output \<Rightarrow> (string \<times> sts_attr) list" where
  "get_caller_identity_output_attributes S v =
     [(''user_id'', Plain (opt_to_py PyStr (gci_user_id v))),
      (''account'', Plain (opt_to_py PyStr (gci_account v))),
      (''arn'', Plain (opt_to_py PyStr (gci_arn v)))]"

definition get_caller_identity_output_to_dict :: "sts_types \<Rightarrow> get_caller_identity_output \<Rightarrow> pyval" where
  "get_caller_identity_output_to_dict S v = PyDict (py_dict
     [(''user_id'', opt_to_py PyStr (gci_user_id v)),
      (''account'', opt_to_py PyStr (gci_account v)),
      (''arn'', opt_to_py PyStr (gci_arn v))])"

section \<open>\<open>GetDelegatedAccessTokenOutput\<close>\<close>

record get_delegated_access_token_output =
  gdat_credentials :: "sts_credentials option"
  gdat_packed_policy_size :: "32 word option"
  gdat_assumed_principal :: "string option"

definition get_delegated_access_token_output_attributes :: "sts_types \<Rightarrow> get_delegated_access_token_output \<Rightarrow> (string \<times> sts_attr) list" where
  "get_delegated_access_token_output_attributes S v =
     [(''credentials'', opt_attr CredentialsObject (gdat_credentials v)),
      (''packed_policy_size'', Plain (opt_to_py i32_to_py (gdat_packed_policy_size v))),
      (''assumed_principal'', Plain (opt_to_py PyStr (gdat_assumed_principal v)))]"

definition get_delegated_access_token_output_to_dict :: "sts_types \<Rightarrow> get_delegated_access_token_output \<Rightarrow> pyval" where
  "get_delegated_access_token_output_to_dict S v = PyDict (py_dict
     [(''credentials'', opt_to_py (credentials_to_py S) (gdat_credentials v)),
      (''packed_policy_size'', opt_to_py i32_to_py (gdat_packed_policy_size v)),
      (''assumed_principal'', opt_to_py PyStr (gdat_assumed_principal v))])"

section \<open>\<open>GetFederationTokenOutput\<close>\<close>

record get_federation_token_output =
  gft_credentials :: "sts_credentials option"
  gft_federated_user :: "federated_user option"
  gft_packed_policy_size :: "32 word option"
  gft_session_token_utilization :: "32 word option"
  gft_session_token_size :: "32 word option"

definition get_federation_token_output_attributes :: "sts_types \<Rightarrow> get_federation_token_output \<Rightarrow> (string \<times> sts_attr) list" where
  "get_federation_token_output_attributes S v =
     [(''credentials'', opt_attr CredentialsObject (gft_credentials v)),
      (''federated_user'', opt_attr FederatedUserObject (gft_federated_user v)),
      (''packed_policy_size'', Plain (opt_to_py i32_to_py (gft_packed_policy_size v))),
      (''session_token_utilization'', Plain (opt_to_py i32_to_py (gft_session_token_utilization v))),
      (''session_token_size'', Plain (opt_to_py i32_to_py (gft_session_token_size v)))]"

definition get_federation_token_output_to_dict :: "sts_types \<Rightarrow> get_federation_token_output \<Rightarrow> pyval" where
  "get_federation_token_output_to_dict S v = PyDict (py_dict
     [(''credentials'', opt_to_py (credentials_to_py S) (gft_credentials v)),
      (''federated_user'', opt_to_py federated_user_to_py (gft_federated_user v)),
      (''packed_policy_size'', opt_to_py i32_to_py (gft_packed_policy_size v)),
      (''session_token_utilization'', opt_to_py i32_to_py (gft_session_token_utilization v)),
      (''session_token_size'', opt_to_py i32_to_py (gft_session_token_size v))])"

section \<open>\<open>GetSessionTokenOutput\<close>\<close>

record get_session_token_output =
  gst_credentials :: "sts_credentials option"
  gst_session_token_utilization :: "32 word option"
  gst_session_token_size :: "32 word option"

definition get_session_token_output_attributes :: "sts_types \<Rightarrow> get_session_token_output \<Rightarrow> (string \<times> sts_attr) list" where
  "get_session_token_output_attributes S v =
     [(''credentials'', opt_attr CredentialsObject (gst_credentials v)),
      (''session_token_utilization'', Plain (opt_to_py i32_to_py (gst_session_token_utilization v))),
      (''session_token_size'', Plain (opt_to_py i32_to_py (gst_session_token_size v)))]"

definition get_session_token_output_to_dict :: "sts_types \<Rightarrow> get_session_token_output \<Rightarrow> pyval" where
  "get_session_token_output_to_dict S v = PyDict (py_dict
     [(''credentials'', opt_to_py (credentials_to_py S) (gst_credentials v)),
      (''session_token_utilization'', opt_to_py i32_to_py (gst_session_token_utilization v)),
      (''session_token_size'', opt_to_py i32_to_py (gst_session_token_size v))])"

section \<open>\<open>GetWebIdentityTokenOutput\<close>\<close>

record get_web_identity_token_output =
  gwit_web_identity_token :: "string option"
  gwit_expiration :: "datetime option"

definition get_web_identity_token_output_attributes :: "sts_types \<Rightarrow> get_web_identity_token_output \<Rightarrow> (string \<times> sts_attr) list" where
  "get_web_identity_token_output_attributes S v =
     [(''web_identity_token'', Plain (opt_to_py PyStr (gwit_web_identity_token v))),
      (''expiration'', Plain (opt_to_py (datetime_to_py S) (gwit_expiration v)))]"

definition get_web_identity_token_output_to_dict :: "sts_types \<Rightarrow> get_web_identity_token_output \<Rightarrow> pyval" where
  "get_web_identity_token_output_to_dict S v = PyDict (py_dict
     [(''web_identity_token'', opt_to_py PyStr (gwit_web_identity_token v)),
      (''expiration'', opt_to_py (datetime_to_py S) (gwit_expiration v))])"

section \<open>Dictionaries and attributes agree\<close>

text \<open>The plain value of an attribute: an object is what its own \<open>to_dict\<close> gives.\<close>

fun render :: "sts_types \<Rightarrow> sts_attr \<Rightarrow> pyval" where
  "render S (Plain v) = v"
| "render S (CredentialsObject c) = credentials_to_dict S c"
| "render S (AssumedRoleUserObject u) = assumed_role_user_to_dict S u"
| "render S (FederatedUserObject u) = federated_user_to_dict S u"

lemma render_opt_attr [simp]:
  "render S (opt_attr CredentialsObject c) = opt_to_py (credentials_to_py S) c"
  "render S (opt_attr AssumedRoleUserObject u) = opt_to_py assumed_role_user_to_py u"
  "render S (opt_attr FederatedUserObject f) = opt_to_py federated_user_to_py f"
  by (simp_all add: opt_attr_def credentials_to_dict_def assumed_role_user_to_dict_def
      federated_user_to_dict_def split: option.splits)

definition attribute_dict :: "sts_types \<Rightarrow> (string \<times> sts_attr) list \<Rightarrow> pyval" where
  "attribute_dict S attrs = PyDict (map (\<lambda>(name, a). (PyStr name, render S a)) attrs)"

text \<open>
  For each of the fourteen response classes, \<open>to_dict\<close> has exactly one entry per attribute,
  in the order of the getters, under the getter's name, and its value is the attribute's: the
  value itself, or the dictionary of the object the getter returns.
\<close>

lemma to_dict_matches_attributes:
  "assumed_role_user_to_dict S v0 = attribute_dict S (assumed_role_user_attributes S v0)
    \<and> credentials_to_dict S v1 = attribute_dict S (credentials_attributes S v1)
    \<and> federated_user_to_dict S v2 = attribute_dict S (federated_user_attributes S v2)
    \<and> assume_role_output_to_dict S v3 = attribute_dict S (assume_role_output_attributes S v3)
    \<and> assume_role_with_saml_output_to_dict S v4 = attribute_dict S (assume_role_with_saml_output_attributes S v4)
    \<and> assume_role_with_web_identity_output_to_dict S v5 = attribute_dict S (assume_role_with_web_identity_output_attributes S v5)
    \<and> assume_root_output_to_dict S v6 = attribute_dict S (assume_root_output_attributes S v6)
    \<and> decode_authorization_message_output_to_dict S v7 = attribute_dict S (decode_authorization_message_output_attributes S v7)
    \<and> get_access_key_info_output_to_dict S v8 = attribute_dict S (get_access_key_info_output_attributes S v8)
    \<and> get_caller_identity_output_to_dict S v9 = attribute_dict S (get_caller_identity_output_attributes S v9)
    \<and> get_delegated_access_token_output_to_dict S v10 = attribute_dict S (get_delegated_access_token_output_attributes S v10)
    \<and> get_federation_token_output_to_dict S v11 = attribute_dict S (get_federation_token_output_attributes S v11)
    \<and> get_session_token_output_to_dict S v12 = attribute_dict S (get_session_token_output_attributes S v12)
    \<and> get_web_identity_token_output_to_dict S v13 = attribute_dict S (get_web_identity_token_output_attributes S v13)"
  by (simp_all add: attribute_dict_def py_dict_distinct
      assumed_role_user_to_dict_def assumed_role_user_attributes_def
      credentials_to_dict_def credentials_attributes_def
      federated_user_to_dict_def federated_user_attributes_def
      assume_role_output_to_dict_def assume_role_output_attributes_def
      assume_role_with_saml_output_to_dict_def assume_role_with_saml_output_attributes_def
      assume_role_with_web_identity_output_to_dict_def assume_role_with_web_identity_output_attributes_def
      assume_root_output_to_dict_def assume_root_output_attributes_def
      decode_authorization_message_output_to_dict_def decode_authorization_message_output_attributes_def
      get_access_key_info_output_to_dict_def get_access_key_info_output_attributes_def
      get_caller_identity_output_to_dict_def get_caller_identity_output_attributes_def
      get_delegated_access_token_output_to_dict_def get_delegated_access_token_output_attributes_def
      get_federation_token_output_to_dict_def get_federation_token_output_attributes_def
      get_session_token_output_to_dict_def get_session_token_output_attributes_def
      get_web_identity_token_output_to_dict_def get_web_identity_token_output_attributes_def
      credentials_to_py_def assumed_role_user_to_py_def federated_user_to_py_def)

end
