(* ===== verification/Sts.thy ===== *)
theory Sts
  imports StsOutputs
begin

text \<open>
  The operations of the STS client: the methods of \<open>STSClient\<close> in
  \<open>crates/rboto-sts/src/generated.rs\<close>, each reading its parameters from a dictionary and sending
  them through the shared \<open>execute\<close>, and the methods of the Python client
  (\<open>packages/rboto-sts/python/rboto_sts/client.py\<close>) that build those dictionaries. What the SDK
  sends and what comes back is the argument \<open>send\<close> of each operation.
\<close>

section \<open>Operations\<close>

subsection \<open>\<open>AssumeRole\<close>\<close>

record assume_role_input =
  ar_role_arn :: "string option"
  ar_role_session_name :: "string option"
  ar_policy_arns :: "policy_descriptor_type list option"
  ar_policy :: "string option"
  ar_duration_seconds :: "32 word option"
  ar_tags :: "tag list option"
  ar_transitive_tag_keys :: "string list option"
  ar_external_id :: "string option"
  ar_serial_number :: "string option"
  ar_token_code :: "string option"
  ar_source_identity :: "string option"
  ar_provided_contexts :: "provided_context list option"
  ar_minimum_session_token_size :: "32 word option"

definition assume_role_params_1 :: "pyo3 \<Rightarrow> sts_types \<Rightarrow> pydict \<Rightarrow>
    (string option \<times> string option \<times> policy_descriptor_type list option \<times> string option \<times> 32 word option) pyresult" where
  "assume_role_params_1 P S params =
     and_then (op_param P ''sts'' ''AssumeRole'' params ''role_arn'' ''str'' (string_from_py P)) (\<lambda>role_arn.
     and_then (op_param P ''sts'' ''AssumeRole'' params ''role_session_name'' ''str'' (string_from_py P)) (\<lambda>role_session_name.
     and_then (op_param P ''sts'' ''AssumeRole'' params ''policy_arns'' ''sequence'' (seq_from_py P ''dict (PolicyDescriptorType)'' (policy_descriptor_type_from_py P S))) (\<lambda>policy_arns.
     and_then (op_param P ''sts'' ''AssumeRole'' params ''policy'' ''str'' (string_from_py P)) (\<lambda>policy.
     and_then (op_param P ''sts'' ''AssumeRole'' params ''duration_seconds'' ''int'' (i32_from_py P)) (\<lambda>duration_seconds.
     Inr (role_arn, role_session_name, policy_arns, policy, duration_seconds))))))"

definition assume_role_params_2 :: "pyo3 \<Rightarrow> sts_types \<Rightarrow> pydict \<Rightarrow>
    (tag list option \<times> string list option \<times> string option \<times> string option) pyresult" where
  "assume_role_params_2 P S params =
     and_then (op_param P ''sts'' ''AssumeRole'' params ''tags'' ''sequence'' (seq_from_py P ''dict (Tag)'' (tag_from_py P S))) (\<lambda>tags.
     and_then (op_param P ''sts'' ''AssumeRole'' params ''transitive_tag_keys'' ''sequence'' (seq_from_py P ''str'' (string_from_py P))) (\<lambda>transitive_tag_keys.
     and_then (op_param P ''sts'' ''AssumeRole'' params ''external_id'' ''str'' (string_from_py P)) (\<lambda>external_id.
     and_then (op_param P ''sts'' ''AssumeRole'' params ''serial_number'' ''str'' (string_from_py P)) (\<lambda>serial_number.
     Inr (tags, transitive_tag_keys, external_id, serial_number)))))"

definition assume_role_params_3 :: "pyo3 \<Rightarrow> sts_types \<Rightarrow> pydict \<Rightarrow>
    (string option \<times> string option \<times> provided_context list option \<times> 32 word option) pyresult" where
  "assume_role_params_3 P S params =
     and_then (op_param P ''sts'' ''AssumeRole'' params ''token_code'' ''str'' (string_from_py P)) (\<lambda>token_code.
     and_then (op_param P ''sts'' ''AssumeRole'' params ''source_identity'' ''str'' (string_from_py P)) (\<lambda>source_identity.
     and_then (op_param P ''sts'' ''AssumeRole'' params ''provided_contexts'' ''sequence'' (seq_from_py P ''dict (ProvidedContext)'' (provided_context_from_py P S))) (\<lambda>provided_contexts.
     and_then (op_param P ''sts'' ''AssumeRole'' params ''minimum_session_token_size'' ''int'' (i32_from_py P)) (\<lambda>minimum_session_token_size.
     Inr (token_code, source_identity, provided_contexts, minimum_session_token_size)))))"

definition assume_role_params :: "pyo3 \<Rightarrow> sts_types \<Rightarrow> pydict \<Rightarrow> assume_role_input pyresult" where
  "assume_role_params P S params =
     and_then (assume_role_params_1 P S params) (\<lambda>(role_arn, role_session_name, policy_arns, policy, duration_seconds).
     and_then (assume_role_params_2 P S params) (\<lambda>(tags, transitive_tag_keys, external_id, serial_number).
     and_then (assume_role_params_3 P S params) (\<lambda>(token_code, source_identity, provided_contexts, minimum_session_token_size).
     Inr \<lparr>ar_role_arn = role_arn,
       ar_role_session_name = role_session_name,
       ar_policy_arns = policy_arns,
       ar_policy = policy,
       ar_duration_seconds = duration_seconds,
       ar_tags = tags,
       ar_transitive_tag_keys = transitive_tag_keys,
       ar_external_id = external_id,
       ar_serial_number = serial_number,
       ar_token_code = token_code,
       ar_source_identity = source_identity,
       ar_provided_contexts = provided_contexts,
       ar_minimum_session_token_size = minimum_session_token_size\<rparr>)))"

definition assume_role :: "('cfg, 'client) service_env \<Rightarrow> pyo3 \<Rightarrow> sts_types \<Rightarrow> unit pyresult \<Rightarrow> bool \<Rightarrow>
    ('client \<Rightarrow> assume_role_input \<Rightarrow> trip list \<times> (('e, http_response) sdk_error + assume_role_output)) \<Rightarrow>
    'client client_handle \<Rightarrow> pydict \<Rightarrow> pydict option \<Rightarrow>
    (assume_role_output pyresult \<times> 'client client_handle \<times> pydict option) option" where
  "assume_role E P S bridge interrupted send c params observation =
     execute E bridge interrupted send no_details ''AssumeRole'' (assume_role_params P S params) c observation"

definition assume_role_call :: "assume_role_input \<Rightarrow> pydict" where
  "assume_role_call i = py_params
     [(''role_arn'', opt_to_py PyStr (ar_role_arn i)),
      (''role_session_name'', opt_to_py PyStr (ar_role_session_name i))]
     [(''policy_arns'', opt_to_py (seq_to_py policy_descriptor_type_to_py) (ar_policy_arns i)),
      (''policy'', opt_to_py PyStr (ar_policy i)),
      (''duration_seconds'', opt_to_py i32_to_py (ar_duration_seconds i)),
      (''tags'', opt_to_py (seq_to_py tag_to_py) (ar_tags i)),
      (''transitive_tag_keys'', opt_to_py (seq_to_py PyStr) (ar_transitive_tag_keys i)),
      (''external_id'', opt_to_py PyStr (ar_external_id i)),
      (''serial_number'', opt_to_py PyStr (ar_serial_number i)),
      (''token_code'', opt_to_py PyStr (ar_token_code i)),
      (''source_identity'', opt_to_py PyStr (ar_source_identity i)),
      (''provided_contexts'', opt_to_py (seq_to_py provided_context_to_py) (ar_provided_contexts i)),
      (''minimum_session_token_size'', opt_to_py i32_to_py (ar_minimum_session_token_size i))]"

subsection \<open>\<open>AssumeRoleWithSAML\<close>\<close>

record assume_role_with_saml_input =
  ars_role_arn :: "string option"
  ars_principal_arn :: "string option"
  ars_saml_assertion :: "string option"
  ars_policy_arns :: "policy_descriptor_type list option"
  ars_policy :: "string option"
  ars_duration_seconds :: "32 word option"
  ars_minimum_session_token_size :: "32 word option"

definition assume_role_with_saml_params :: "pyo3 \<Rightarrow> sts_types \<Rightarrow> pydict \<Rightarrow> assume_role_with_saml_input pyresult" where
  "assume_role_with_saml_params P S params =
     and_then (op_param P ''sts'' ''AssumeRoleWithSAML'' params ''role_arn'' ''str'' (string_from_py P)) (\<lambda>role_arn.
     and_then (op_param P ''sts'' ''AssumeRoleWithSAML'' params ''principal_arn'' ''str'' (string_from_py P)) (\<lambda>principal_arn.
     and_then (op_param P ''sts'' ''AssumeRoleWithSAML'' params ''saml_assertion'' ''str'' (string_from_py P)) (\<lambda>saml_assertion.
     and_then (op_param P ''sts'' ''AssumeRoleWithSAML'' params ''policy_arns'' ''sequence'' (seq_from_py P ''dict (PolicyDescriptorType)'' (policy_descriptor_type_from_py P S))) (\<lambda>policy_arns.
     and_then (op_param P ''sts'' ''AssumeRoleWithSAML'' params ''policy'' ''str'' (string_from_py P)) (\<lambda>policy.
     and_then (op_param P ''sts'' ''AssumeRoleWithSAML'' params ''duration_seconds'' ''int'' (i32_from_py P)) (\<lambda>duration_seconds.
     and_then (op_param P ''sts'' ''AssumeRoleWithSAML'' params ''minimum_session_token_size'' ''int'' (i32_from_py P)) (\<lambda>minimum_session_token_size.
     Inr \<lparr>ars_role_arn = role_arn,
       ars_principal_arn = principal_arn,
       ars_saml_assertion = saml_assertion,
       ars_policy_arns = policy_arns,
       ars_policy = policy,
       ars_duration_seconds = duration_seconds,
       ars_minimum_session_token_size = minimum_session_token_size\<rparr>)))))))"

definition assume_role_with_saml :: "('cfg, 'client) service_env \<Rightarrow> pyo3 \<Rightarrow> sts_types \<Rightarrow> unit pyresult \<Rightarrow> bool \<Rightarrow>
    ('client \<Rightarrow> assume_role_with_saml_input \<Rightarrow> trip list \<times> (('e, http_response) sdk_error + assume_role_with_saml_output)) \<Rightarrow>
    'client client_handle \<Rightarrow> pydict \<Rightarrow> pydict option \<Rightarrow>
    (assume_role_with_saml_output pyresult \<times> 'client client_handle \<times> pydict option) option" where
  "assume_role_with_saml E P S bridge interrupted send c params observation =
     execute E bridge interrupted send no_details ''AssumeRoleWithSAML'' (assume_role_with_saml_params P S params) c observation"

definition assume_role_with_saml_call :: "assume_role_with_saml_input \<Rightarrow> pydict" where
  "assume_role_with_saml_call i = py_params
     [(''role_arn'', opt_to_py PyStr (ars_role_arn i)),
      (''principal_arn'', opt_to_py PyStr (ars_principal_arn i)),
      (''saml_assertion'', opt_to_py PyStr (ars_saml_assertion i))]
     [(''policy_arns'', opt_to_py (seq_to_py policy_descriptor_type_to_py) (ars_policy_arns i)),
      (''policy'', opt_to_py PyStr (ars_policy i)),
      (''duration_seconds'', opt_to_py i32_to_py (ars_duration_seconds i)),
      (''minimum_session_token_size'', opt_to_py i32_to_py (ars_minimum_session_token_size i))]"

subsection \<open>\<open>AssumeRoleWithWebIdentity\<close>\<close>

record assume_role_with_web_identity_input =
  arw_role_arn :: "string option"
  arw_role_session_name :: "string option"
  arw_web_identity_token :: "string option"
  arw_provider_id :: "string option"
  arw_policy_arns :: "policy_descriptor_type list option"
  arw_policy :: "string option"
  arw_duration_seconds :: "32 word option"
  arw_minimum_session_token_size :: "32 word option"

definition assume_role_with_web_identity_params_1 :: "pyo3 \<Rightarrow> sts_types \<Rightarrow> pydict \<Rightarrow>
    (string option \<times> string option \<times> string option \<times> string option) pyresult" where
  "assume_role_with_web_identity_params_1 P S params =
     and_then (op_param P ''sts'' ''AssumeRoleWithWebIdentity'' params ''role_arn'' ''str'' (string_from_py P)) (\<lambda>role_arn.
     and_then (op_param P ''sts'' ''AssumeRoleWithWebIdentity'' params ''role_session_name'' ''str'' (string_from_py P)) (\<lambda>role_session_name.
     and_then (op_param P ''sts'' ''AssumeRoleWithWebIdentity'' params ''web_identity_token'' ''str'' (string_from_py P)) (\<lambda>web_identity_token.
     and_then (op_param P ''sts'' ''AssumeRoleWithWebIdentity'' params ''provider_id'' ''str'' (string_from_py P)) (\<lambda>provider_id.
     Inr (role_arn, role_session_name, web_identity_token, provider_id)))))"

definition assume_role_with_web_identity_params_2 :: "pyo3 \<Rightarrow> sts_types \<Rightarrow> pydict \<Rightarrow>
    (policy_descriptor_type list option \<times> string option \<times> 32 word option \<times> 32 word option) pyresult" where
  "assume_role_with_web_identity_params_2 P S params =
     and_then (op_param P ''sts'' ''AssumeRoleWithWebIdentity'' params ''policy_arns'' ''sequence'' (seq_from_py P ''dict (PolicyDescriptorType)'' (policy_descriptor_type_from_py P S))) (\<lambda>policy_arns.
     and_then (op_param P ''sts'' ''AssumeRoleWithWebIdentity'' params ''policy'' ''str'' (string_from_py P)) (\<lambda>policy.
     and_then (op_param P ''sts'' ''AssumeRoleWithWebIdentity'' params ''duration_seconds'' ''int'' (i32_from_py P)) (\<lambda>duration_seconds.
     and_then (op_param P ''sts'' ''AssumeRoleWithWebIdentity'' params ''minimum_session_token_size'' ''int'' (i32_from_py P)) (\<lambda>minimum_session_token_size.
     Inr (policy_arns, policy, duration_seconds, minimum_session_token_size)))))"

definition assume_role_with_web_identity_params :: "pyo3 \<Rightarrow> sts_types \<Rightarrow> pydict \<Rightarrow> assume_role_with_web_identity_input pyresult" where
  "assume_role_with_web_identity_params P S params =
     and_then (assume_role_with_web_identity_params_1 P S params) (\<lambda>(role_arn, role_session_name, web_identity_token, provider_id).
     and_then (assume_role_with_web_identity_params_2 P S params) (\<lambda>(policy_arns, policy, duration_seconds, minimum_session_token_size).
     Inr \<lparr>arw_role_arn = role_arn,
       arw_role_session_name = role_session_name,
       arw_web_identity_token = web_identity_token,
       arw_provider_id = provider_id,
       arw_policy_arns = policy_arns,
       arw_policy = policy,
       arw_duration_seconds = duration_seconds,
       arw_minimum_session_token_size = minimum_session_token_size\<rparr>))"

definition assume_role_with_web_identity :: "('cfg, 'client) service_env \<Rightarrow> pyo3 \<Rightarrow> sts_types \<Rightarrow> unit pyresult \<Rightarrow> bool \<Rightarrow>
    ('client \<Rightarrow> assume_role_with_web_identity_input \<Rightarrow> trip list \<times> (('e, http_response) sdk_error + assume_role_with_web_identity_output)) \<Rightarrow>
    'client client_handle \<Rightarrow> pydict \<Rightarrow> pydict option \<Rightarrow>
    (assume_role_with_web_identity_output pyresult \<times> 'client client_handle \<times> pydict option) option" where
  "assume_role_with_web_identity E P S bridge interrupted send c params observation =
     execute E bridge interrupted send no_details ''AssumeRoleWithWebIdentity'' (assume_role_with_web_identity_params P S params) c observation"

definition assume_role_with_web_identity_call :: "assume_role_with_web_identity_input \<Rightarrow> pydict" where
  "assume_role_with_web_identity_call i = py_params
     [(''role_arn'', opt_to_py PyStr (arw_role_arn i)),
      (''role_session_name'', opt_to_py PyStr (arw_role_session_name i)),
      (''web_identity_token'', opt_to_py PyStr (arw_web_identity_token i))]
     [(''provider_id'', opt_to_py PyStr (arw_provider_id i)),
      (''policy_arns'', opt_to_py (seq_to_py policy_descriptor_type_to_py) (arw_policy_arns i)),
      (''policy'', opt_to_py PyStr (arw_policy i)),
      (''duration_seconds'', opt_to_py i32_to_py (arw_duration_seconds i)),
      (''minimum_session_token_size'', opt_to_py i32_to_py (arw_minimum_session_token_size i))]"

subsection \<open>\<open>AssumeRoot\<close>\<close>

record assume_root_input =
  arr_target_principal :: "string option"
  arr_task_policy_arn :: "policy_descriptor_type option"
  arr_duration_seconds :: "32 word option"
  arr_minimum_session_token_size :: "32 word option"

definition assume_root_params :: "pyo3 \<Rightarrow> sts_types \<Rightarrow> pydict \<Rightarrow> assume_root_input pyresult" where
  "assume_root_params P S params =
     and_then (op_param P ''sts'' ''AssumeRoot'' params ''target_principal'' ''str'' (string_from_py P)) (\<lambda>target_principal.
     and_then (op_param P ''sts'' ''AssumeRoot'' params ''task_policy_arn'' ''dict (PolicyDescriptorType)'' (policy_descriptor_type_from_py P S)) (\<lambda>task_policy_arn.
     and_then (op_param P ''sts'' ''AssumeRoot'' params ''duration_seconds'' ''int'' (i32_from_py P)) (\<lambda>duration_seconds.
     and_then (op_param P ''sts'' ''AssumeRoot'' params ''minimum_session_token_size'' ''int'' (i32_from_py P)) (\<lambda>minimum_session_token_size.
     Inr \<lparr>arr_target_principal = target_principal,
       arr_task_policy_arn = task_policy_arn,
       arr_duration_seconds = duration_seconds,
       arr_minimum_session_token_size = minimum_session_token_size\<rparr>))))"

definition assume_root :: "('cfg, 'client) service_env \<Rightarrow> pyo3 \<Rightarrow> sts_types \<Rightarrow> unit pyresult \<Rightarrow> bool \<Rightarrow>
    ('client \<Rightarrow> assume_root_input \<Rightarrow> trip list \<times> (('e, http_response) sdk_error + assume_root_output)) \<Rightarrow>
    'client client_handle \<Rightarrow> pydict \<Rightarrow> pydict option \<Rightarrow>
    (assume_root_output pyresult \<times> 'client client_handle \<times> pydict option) option" where
  "assume_root E P S bridge interrupted send c params observation =
     execute E bridge interrupted send no_details ''AssumeRoot'' (assume_root_params P S params) c observation"

definition assume_root_call :: "assume_root_input \<Rightarrow> pydict" where
  "assume_root_call i = py_params
     [(''target_principal'', opt_to_py PyStr (arr_target_principal i)),
      (''task_policy_arn'', opt_to_py policy_descriptor_type_to_py (arr_task_policy_arn i))]
     [(''duration_seconds'', opt_to_py i32_to_py (arr_duration_seconds i)),
      (''minimum_session_token_size'', opt_to_py i32_to_py (arr_minimum_session_token_size i))]"

subsection \<open>\<open>DecodeAuthorizationMessage\<close>\<close>

record decode_authorization_message_input =
  da_encoded_message :: "string option"

definition decode_authorization_message_params :: "pyo3 \<Rightarrow> sts_types \<Rightarrow> pydict \<Rightarrow> decode_authorization_message_input pyresult" where
  "decode_authorization_message_params P S params =
     and_then (op_param P ''sts'' ''DecodeAuthorizationMessage'' params ''encoded_message'' ''str'' (string_from_py P)) (\<lambda>encoded_message.
     Inr \<lparr>da_encoded_message = encoded_message\<rparr>)"

definition decode_authorization_message :: "('cfg, 'client) service_env \<Rightarrow> pyo3 \<Rightarrow> sts_types \<Rightarrow> unit pyresult \<Rightarrow> bool \<Rightarrow>
    ('client \<Rightarrow> decode_authorization_message_input \<Rightarrow> trip list \<times> (('e, http_response) sdk_error + decode_authorization_message_output)) \<Rightarrow>
    'client client_handle \<Rightarrow> pydict \<Rightarrow> pydict option \<Rightarrow>
    (decode_authorization_message_output pyresult \<times> 'client client_handle \<times> pydict option) option" where
  "decode_authorization_message E P S bridge interrupted send c params observation =
     execute E bridge interrupted send no_details ''DecodeAuthorizationMessage'' (decode_authorization_message_params P S params) c observation"

definition decode_authorization_message_call :: "decode_authorization_message_input \<Rightarrow> pydict" where
  "decode_authorization_message_call i = py_params
     [(''encoded_message'', opt_to_py PyStr (da_encoded_message i))]
     []"

subsection \<open>\<open>GetAccessKeyInfo\<close>\<close>

record get_access_key_info_input =
  gk_access_key_id :: "string option"

definition get_access_key_info_params :: "pyo3 \<Rightarrow> sts_types \<Rightarrow> pydict \<Rightarrow> get_access_key_info_input pyresult" where
  "get_access_key_info_params P S params =
     and_then (op_param P ''sts'' ''GetAccessKeyInfo'' params ''access_key_id'' ''str'' (string_from_py P)) (\<lambda>access_key_id.
     Inr \<lparr>gk_access_key_id = access_key_id\<rparr>)"

definition get_access_key_info :: "('cfg, 'client) service_env \<Rightarrow> pyo3 \<Rightarrow> sts_types \<Rightarrow> unit pyresult \<Rightarrow> bool \<Rightarrow>
    ('client \<Rightarrow> get_access_key_info_input \<Rightarrow> trip list \<times> (('e, http_response) sdk_error + get_access_key_info_output)) \<Rightarrow>
    'client client_handle \<Rightarrow> pydict \<Rightarrow> pydict option \<Rightarrow>
    (get_access_key_info_output pyresult \<times> 'client client_handle \<times> pydict option) option" where
  "get_access_key_info E P S bridge interrupted send c params observation =
     execute E bridge interrupted send no_details ''GetAccessKeyInfo'' (get_access_key_info_params P S params) c observation"

definition get_access_key_info_call :: "get_access_key_info_input \<Rightarrow> pydict" where
  "get_access_key_info_call i = py_params
     [(''access_key_id'', opt_to_py PyStr (gk_access_key_id i))]
     []"

subsection \<open>\<open>GetCallerIdentity\<close>\<close>

definition get_caller_identity :: "('cfg, 'client) service_env \<Rightarrow> unit pyresult \<Rightarrow> bool \<Rightarrow>
    ('client \<Rightarrow> unit \<Rightarrow> trip list \<times> (('e, http_response) sdk_error + get_caller_identity_output)) \<Rightarrow>
    'client client_handle \<Rightarrow> pydict \<Rightarrow> pydict option \<Rightarrow>
    (get_caller_identity_output pyresult \<times> 'client client_handle \<times> pydict option) option" where
  "get_caller_identity E bridge interrupted send c params observation =
     execute E bridge interrupted send no_details ''GetCallerIdentity'' (Inr ()) c observation"

subsection \<open>\<open>GetDelegatedAccessToken\<close>\<close>

record get_delegated_access_token_input =
  gd_trade_in_token :: "string option"

definition get_delegated_access_token_params :: "pyo3 \<Rightarrow> sts_types \<Rightarrow> pydict \<Rightarrow> get_delegated_access_token_input pyresult" where
  "get_delegated_access_token_params P S params =
     and_then (op_param P ''sts'' ''GetDelegatedAccessToken'' params ''trade_in_token'' ''str'' (string_from_py P)) (\<lambda>trade_in_token.
     Inr \<lparr>gd_trade_in_token = trade_in_token\<rparr>)"

definition get_delegated_access_token :: "('cfg, 'client) service_env \<Rightarrow> pyo3 \<Rightarrow> sts_types \<Rightarrow> unit pyresult \<Rightarrow> bool \<Rightarrow>
    ('client \<Rightarrow> get_delegated_access_token_input \<Rightarrow> trip list \<times> (('e, http_response) sdk_error + get_delegated_access_token_output)) \<Rightarrow>
    'client client_handle \<Rightarrow> pydict \<Rightarrow> pydict option \<Rightarrow>
    (get_delegated_access_token_output pyresult \<times> 'client client_handle \<times> pydict option) option" where
  "get_delegated_access_token E P S bridge interrupted send c params observation =
     execute E bridge interrupted send no_details ''GetDelegatedAccessToken'' (get_delegated_access_token_params P S params) c observation"

definition get_delegated_access_token_call :: "get_delegated_access_token_input \<Rightarrow> pydict" where
  "get_delegated_access_token_call i = py_params
     [(''trade_in_token'', opt_to_py PyStr (gd_trade_in_token i))]
     []"

subsection \<open>\<open>GetFederationToken\<close>\<close>

record get_federation_token_input =
  gf_name :: "string option"
  gf_policy :: "string option"
  gf_policy_arns :: "policy_descriptor_type list option"
  gf_duration_seconds :: "32 word option"
  gf_tags :: "tag list option"
  gf_minimum_session_token_size :: "32 word option"

definition get_federation_token_params :: "pyo3 \<Rightarrow> sts_types \<Rightarrow> pydict \<Rightarrow> get_federation_token_input pyresult" where
  "get_federation_token_params P S params =
     and_then (op_param P ''sts'' ''GetFederationToken'' params ''name'' ''str'' (string_from_py P)) (\<lambda>name.
     and_then (op_param P ''sts'' ''GetFederationToken'' params ''policy'' ''str'' (string_from_py P)) (\<lambda>policy.
     and_then (op_param P ''sts'' ''GetFederationToken'' params ''policy_arns'' ''sequence'' (seq_from_py P ''dict (PolicyDescriptorType)'' (policy_descriptor_type_from_py P S))) (\<lambda>policy_arns.
     and_then (op_param P ''sts'' ''GetFederationToken'' params ''duration_seconds'' ''int'' (i32_from_py P)) (\<lambda>duration_seconds.
     and_then (op_param P ''sts'' ''GetFederationToken'' params ''tags'' ''sequence'' (seq_from_py P ''dict (Tag)'' (tag_from_py P S))) (\<lambda>tags.
     and_then (op_param P ''sts'' ''GetFederationToken'' params ''minimum_session_token_size'' ''int'' (i32_from_py P)) (\<lambda>minimum_session_token_size.
     Inr \<lparr>gf_name = name,
       gf_policy = policy,
       gf_policy_arns = policy_arns,
       gf_duration_seconds = duration_seconds,
       gf_tags = tags,
       gf_minimum_session_token_size = minimum_session_token_size\<rparr>))))))"

definition get_federation_token :: "('cfg, 'client) service_env \<Rightarrow> pyo3 \<Rightarrow> sts_types \<Rightarrow> unit pyresult \<Rightarrow> bool \<Rightarrow>
    ('client \<Rightarrow> get_federation_token_input \<Rightarrow> trip list \<times> (('e, http_response) sdk_error + get_federation_token_output)) \<Rightarrow>
    'client client_handle \<Rightarrow> pydict \<Rightarrow> pydict option \<Rightarrow>
    (get_federation_token_output pyresult \<times> 'client client_handle \<times> pydict option) option" where
  "get_federation_token E P S bridge interrupted send c params observation =
     execute E bridge interrupted send no_details ''GetFederationToken'' (get_federation_token_params P S params) c observation"

definition get_federation_token_call :: "get_federation_token_input \<Rightarrow> pydict" where
  "get_federation_token_call i = py_params
     [(''name'', opt_to_py PyStr (gf_name i))]
     [(''policy'', opt_to_py PyStr (gf_policy i)),
      (''policy_arns'', opt_to_py (seq_to_py policy_descriptor_type_to_py) (gf_policy_arns i)),
      (''duration_seconds'', opt_to_py i32_to_py (gf_duration_seconds i)),
      (''tags'', opt_to_py (seq_to_py tag_to_py) (gf_tags i)),
      (''minimum_session_token_size'', opt_to_py i32_to_py (gf_minimum_session_token_size i))]"

subsection \<open>\<open>GetSessionToken\<close>\<close>

record get_session_token_input =
  gs_duration_seconds :: "32 word option"
  gs_serial_number :: "string option"
  gs_token_code :: "string option"
  gs_minimum_session_token_size :: "32 word option"

definition get_session_token_params :: "pyo3 \<Rightarrow> sts_types \<Rightarrow> pydict \<Rightarrow> get_session_token_input pyresult" where
  "get_session_token_params P S params =
     and_then (op_param P ''sts'' ''GetSessionToken'' params ''duration_seconds'' ''int'' (i32_from_py P)) (\<lambda>duration_seconds.
     and_then (op_param P ''sts'' ''GetSessionToken'' params ''serial_number'' ''str'' (string_from_py P)) (\<lambda>serial_number.
     and_then (op_param P ''sts'' ''GetSessionToken'' params ''token_code'' ''str'' (string_from_py P)) (\<lambda>token_code.
     and_then (op_param P ''sts'' ''GetSessionToken'' params ''minimum_session_token_size'' ''int'' (i32_from_py P)) (\<lambda>minimum_session_token_size.
     Inr \<lparr>gs_duration_seconds = duration_seconds,
       gs_serial_number = serial_number,
       gs_token_code = token_code,
       gs_minimum_session_token_size = minimum_session_token_size\<rparr>))))"

definition get_session_token :: "('cfg, 'client) service_env \<Rightarrow> pyo3 \<Rightarrow> sts_types \<Rightarrow> unit pyresult \<Rightarrow> bool \<Rightarrow>
    ('client \<Rightarrow> get_session_token_input \<Rightarrow> trip list \<times> (('e, http_response) sdk_error + get_session_token_output)) \<Rightarrow>
    'client client_handle \<Rightarrow> pydict \<Rightarrow> pydict option \<Rightarrow>
    (get_session_token_output pyresult \<times> 'client client_handle \<times> pydict option) option" where
  "get_session_token E P S bridge interrupted send c params observation =
     execute E bridge interrupted send no_details ''GetSessionToken'' (get_session_token_params P S params) c observation"

definition get_session_token_call :: "get_session_token_input \<Rightarrow> pydict" where
  "get_session_token_call i = py_params
     []
     [(''duration_seconds'', opt_to_py i32_to_py (gs_duration_seconds i)),
      (''serial_number'', opt_to_py PyStr (gs_serial_number i)),
      (''token_code'', opt_to_py PyStr (gs_token_code i)),
      (''minimum_session_token_size'', opt_to_py i32_to_py (gs_minimum_session_token_size i))]"

subsection \<open>\<open>GetWebIdentityToken\<close>\<close>

record get_web_identity_token_input =
  gw_audience :: "string list option"
  gw_duration_seconds :: "32 word option"
  gw_signing_algorithm :: "string option"
  gw_tags :: "tag list option"

definition get_web_identity_token_params :: "pyo3 \<Rightarrow> sts_types \<Rightarrow> pydict \<Rightarrow> get_web_identity_token_input pyresult" where
  "get_web_identity_token_params P S params =
     and_then (op_param P ''sts'' ''GetWebIdentityToken'' params ''audience'' ''sequence'' (seq_from_py P ''str'' (string_from_py P))) (\<lambda>audience.
     and_then (op_param P ''sts'' ''GetWebIdentityToken'' params ''duration_seconds'' ''int'' (i32_from_py P)) (\<lambda>duration_seconds.
     and_then (op_param P ''sts'' ''GetWebIdentityToken'' params ''signing_algorithm'' ''str'' (string_from_py P)) (\<lambda>signing_algorithm.
     and_then (op_param P ''sts'' ''GetWebIdentityToken'' params ''tags'' ''sequence'' (seq_from_py P ''dict (Tag)'' (tag_from_py P S))) (\<lambda>tags.
     Inr \<lparr>gw_audience = audience,
       gw_duration_seconds = duration_seconds,
       gw_signing_algorithm = signing_algorithm,
       gw_tags = tags\<rparr>))))"

definition get_web_identity_token :: "('cfg, 'client) service_env \<Rightarrow> pyo3 \<Rightarrow> sts_types \<Rightarrow> unit pyresult \<Rightarrow> bool \<Rightarrow>
    ('client \<Rightarrow> get_web_identity_token_input \<Rightarrow> trip list \<times> (('e, http_response) sdk_error + get_web_identity_token_output)) \<Rightarrow>
    'client client_handle \<Rightarrow> pydict \<Rightarrow> pydict option \<Rightarrow>
    (get_web_identity_token_output pyresult \<times> 'client client_handle \<times> pydict option) option" where
  "get_web_identity_token E P S bridge interrupted send c params observation =
     execute E bridge interrupted send no_details ''GetWebIdentityToken'' (get_web_identity_token_params P S params) c observation"

definition get_web_identity_token_call :: "get_web_identity_token_input \<Rightarrow> pydict" where
  "get_web_identity_token_call i = py_params
     [(''audience'', opt_to_py (seq_to_py PyStr) (gw_audience i)),
      (''signing_algorithm'', opt_to_py PyStr (gw_signing_algorithm i))]
     [(''duration_seconds'', opt_to_py i32_to_py (gw_duration_seconds i)),
      (''tags'', opt_to_py (seq_to_py tag_to_py) (gw_tags i))]"

section \<open>Parameters arrive\<close>

context sts_conversions
begin

lemmas tag_seq_param = seq_param [where f = tag_to_py and conv = "tag_from_py P S", OF _ _ tag_roundtrip]
lemmas policy_seq_param = seq_param [where f = policy_descriptor_type_to_py
  and conv = "policy_descriptor_type_from_py P S", OF _ _ policy_descriptor_type_roundtrip]
lemmas context_seq_param = seq_param [where f = provided_context_to_py
  and conv = "provided_context_from_py P S", OF _ _ provided_context_roundtrip]

lemma policy_not_none: "policy_descriptor_type_to_py p \<noteq> PyNone"
  by (simp add: policy_descriptor_type_to_py_def)

lemma policy_param:
  "str_keys d \<Longrightarrow> argument d k = opt_to_py policy_descriptor_type_to_py v \<Longrightarrow>
   op_param P s op' d k x (policy_descriptor_type_from_py P S) = Inr v"
  by (rule op_param_argument) (auto simp: policy_descriptor_type_roundtrip policy_not_none)


lemma assume_role_delivered: "assume_role_params P S (assume_role_call i) = Inr i"
proof -
  have s: "str_keys (assume_role_call i)" by (simp add: assume_role_call_def)
  note p = arguments [OF assume_role_call_def [of i], simplified]
  have a: "argument (assume_role_call i) ''role_arn'' = opt_to_py PyStr (ar_role_arn i)"
    "argument (assume_role_call i) ''role_session_name'' = opt_to_py PyStr (ar_role_session_name i)"
    "argument (assume_role_call i) ''policy_arns'' = opt_to_py (seq_to_py policy_descriptor_type_to_py) (ar_policy_arns i)"
    "argument (assume_role_call i) ''policy'' = opt_to_py PyStr (ar_policy i)"
    "argument (assume_role_call i) ''duration_seconds'' = opt_to_py i32_to_py (ar_duration_seconds i)"
    "argument (assume_role_call i) ''tags'' = opt_to_py (seq_to_py tag_to_py) (ar_tags i)"
    "argument (assume_role_call i) ''transitive_tag_keys'' = opt_to_py (seq_to_py PyStr) (ar_transitive_tag_keys i)"
    "argument (assume_role_call i) ''external_id'' = opt_to_py PyStr (ar_external_id i)"
    "argument (assume_role_call i) ''serial_number'' = opt_to_py PyStr (ar_serial_number i)"
    "argument (assume_role_call i) ''token_code'' = opt_to_py PyStr (ar_token_code i)"
    "argument (assume_role_call i) ''source_identity'' = opt_to_py PyStr (ar_source_identity i)"
    "argument (assume_role_call i) ''provided_contexts'' = opt_to_py (seq_to_py provided_context_to_py) (ar_provided_contexts i)"
    "argument (assume_role_call i) ''minimum_session_token_size'' = opt_to_py i32_to_py (ar_minimum_session_token_size i)"
    by (simp_all only: p)
  show ?thesis
    unfolding assume_role_params_def assume_role_params_1_def assume_role_params_2_def assume_role_params_3_def
    by (simp add: string_param [OF s a(1)]
        string_param [OF s a(2)]
        policy_seq_param [OF s a(3)]
        string_param [OF s a(4)]
        i32_param [OF s a(5)]
        tag_seq_param [OF s a(6)]
        string_seq_param [OF s a(7)]
        string_param [OF s a(8)]
        string_param [OF s a(9)]
        string_param [OF s a(10)]
        string_param [OF s a(11)]
        context_seq_param [OF s a(12)]
        i32_param [OF s a(13)])
qed

lemma assume_role_with_saml_delivered: "assume_role_with_saml_params P S (assume_role_with_saml_call i) = Inr i"
proof -
  have s: "str_keys (assume_role_with_saml_call i)" by (simp add: assume_role_with_saml_call_def)
  note p = arguments [OF assume_role_with_saml_call_def [of i], simplified]
  have a: "argument (assume_role_with_saml_call i) ''role_arn'' = opt_to_py PyStr (ars_role_arn i)"
    "argument (assume_role_with_saml_call i) ''principal_arn'' = opt_to_py PyStr (ars_principal_arn i)"
    "argument (assume_role_with_saml_call i) ''saml_assertion'' = opt_to_py PyStr (ars_saml_assertion i)"
    "argument (assume_role_with_saml_call i) ''policy_arns'' = opt_to_py (seq_to_py policy_descriptor_type_to_py) (ars_policy_arns i)"
    "argument (assume_role_with_saml_call i) ''policy'' = opt_to_py PyStr (ars_policy i)"
    "argument (assume_role_with_saml_call i) ''duration_seconds'' = opt_to_py i32_to_py (ars_duration_seconds i)"
    "argument (assume_role_with_saml_call i) ''minimum_session_token_size'' = opt_to_py i32_to_py (ars_minimum_session_token_size i)"
    by (simp_all only: p)
  show ?thesis
    unfolding assume_role_with_saml_params_def
    by (simp add: string_param [OF s a(1)]
        string_param [OF s a(2)]
        string_param [OF s a(3)]
        policy_seq_param [OF s a(4)]
        string_param [OF s a(5)]
        i32_param [OF s a(6)]
        i32_param [OF s a(7)])
qed

lemma assume_role_with_web_identity_delivered: "assume_role_with_web_identity_params P S (assume_role_with_web_identity_call i) = Inr i"
proof -
  have s: "str_keys (assume_role_with_web_identity_call i)" by (simp add: assume_role_with_web_identity_call_def)
  note p = arguments [OF assume_role_with_web_identity_call_def [of i], simplified]
  have a: "argument (assume_role_with_web_identity_call i) ''role_arn'' = opt_to_py PyStr (arw_role_arn i)"
    "argument (assume_role_with_web_identity_call i) ''role_session_name'' = opt_to_py PyStr (arw_role_session_name i)"
    "argument (assume_role_with_web_identity_call i) ''web_identity_token'' = opt_to_py PyStr (arw_web_identity_token i)"
    "argument (assume_role_with_web_identity_call i) ''provider_id'' = opt_to_py PyStr (arw_provider_id i)"
    "argument (assume_role_with_web_identity_call i) ''policy_arns'' = opt_to_py (seq_to_py policy_descriptor_type_to_py) (arw_policy_arns i)"
    "argument (assume_role_with_web_identity_call i) ''policy'' = opt_to_py PyStr (arw_policy i)"
    "argument (assume_role_with_web_identity_call i) ''duration_seconds'' = opt_to_py i32_to_py (arw_duration_seconds i)"
    "argument (assume_role_with_web_identity_call i) ''minimum_session_token_size'' = opt_to_py i32_to_py (arw_minimum_session_token_size i)"
    by (simp_all only: p)
  show ?thesis
    unfolding assume_role_with_web_identity_params_def assume_role_with_web_identity_params_1_def assume_role_with_web_identity_params_2_def
    by (simp add: string_param [OF s a(1)]
        string_param [OF s a(2)]
        string_param [OF s a(3)]
        string_param [OF s a(4)]
        policy_seq_param [OF s a(5)]
        string_param [OF s a(6)]
        i32_param [OF s a(7)]
        i32_param [OF s a(8)])
qed

lemma assume_root_delivered: "assume_root_params P S (assume_root_call i) = Inr i"
proof -
  have s: "str_keys (assume_root_call i)" by (simp add: assume_root_call_def)
  note p = arguments [OF assume_root_call_def [of i], simplified]
  have a: "argument (assume_root_call i) ''target_principal'' = opt_to_py PyStr (arr_target_principal i)"
    "argument (assume_root_call i) ''task_policy_arn'' = opt_to_py policy_descriptor_type_to_py (arr_task_policy_arn i)"
    "argument (assume_root_call i) ''duration_seconds'' = opt_to_py i32_to_py (arr_duration_seconds i)"
    "argument (assume_root_call i) ''minimum_session_token_size'' = opt_to_py i32_to_py (arr_minimum_session_token_size i)"
    by (simp_all only: p)
  show ?thesis
    unfolding assume_root_params_def
    by (simp add: string_param [OF s a(1)]
        policy_param [OF s a(2)]
        i32_param [OF s a(3)]
        i32_param [OF s a(4)])
qed

lemma decode_authorization_message_delivered: "decode_authorization_message_params P S (decode_authorization_message_call i) = Inr i"
proof -
  have s: "str_keys (decode_authorization_message_call i)" by (simp add: decode_authorization_message_call_def)
  have a: "argument (decode_authorization_message_call i) ''encoded_message'' = opt_to_py PyStr (da_encoded_message i)"
    unfolding decode_authorization_message_call_def by (simp_all add: argument_py_params)
  show ?thesis
    unfolding decode_authorization_message_params_def
    by (simp add: string_param [OF s a])
qed

lemma get_access_key_info_delivered: "get_access_key_info_params P S (get_access_key_info_call i) = Inr i"
proof -
  have s: "str_keys (get_access_key_info_call i)" by (simp add: get_access_key_info_call_def)
  have a: "argument (get_access_key_info_call i) ''access_key_id'' = opt_to_py PyStr (gk_access_key_id i)"
    unfolding get_access_key_info_call_def by (simp_all add: argument_py_params)
  show ?thesis
    unfolding get_access_key_info_params_def
    by (simp add: string_param [OF s a])
qed

lemma get_delegated_access_token_delivered: "get_delegated_access_token_params P S (get_delegated_access_token_call i) = Inr i"
proof -
  have s: "str_keys (get_delegated_access_token_call i)" by (simp add: get_delegated_access_token_call_def)
  have a: "argument (get_delegated_access_token_call i) ''trade_in_token'' = opt_to_py PyStr (gd_trade_in_token i)"
    unfolding get_delegated_access_token_call_def by (simp_all add: argument_py_params)
  show ?thesis
    unfolding get_delegated_access_token_params_def
    by (simp add: string_param [OF s a])
qed

lemma get_federation_token_delivered: "get_federation_token_params P S (get_federation_token_call i) = Inr i"
proof -
  have s: "str_keys (get_federation_token_call i)" by (simp add: get_federation_token_call_def)
  note p = arguments [OF get_federation_token_call_def [of i], simplified]
  have a: "argument (get_federation_token_call i) ''name'' = opt_to_py PyStr (gf_name i)"
    "argument (get_federation_token_call i) ''policy'' = opt_to_py PyStr (gf_policy i)"
    "argument (get_federation_token_call i) ''policy_arns'' = opt_to_py (seq_to_py policy_descriptor_type_to_py) (gf_policy_arns i)"
    "argument (get_federation_token_call i) ''duration_seconds'' = opt_to_py i32_to_py (gf_duration_seconds i)"
    "argument (get_federation_token_call i) ''tags'' = opt_to_py (seq_to_py tag_to_py) (gf_tags i)"
    "argument (get_federation_token_call i) ''minimum_session_token_size'' = opt_to_py i32_to_py (gf_minimum_session_token_size i)"
    by (simp_all only: p)
  show ?thesis
    unfolding get_federation_token_params_def
    by (simp add: string_param [OF s a(1)]
        string_param [OF s a(2)]
        policy_seq_param [OF s a(3)]
        i32_param [OF s a(4)]
        tag_seq_param [OF s a(5)]
        i32_param [OF s a(6)])
qed

lemma get_session_token_delivered: "get_session_token_params P S (get_session_token_call i) = Inr i"
proof -
  have s: "str_keys (get_session_token_call i)" by (simp add: get_session_token_call_def)
  note p = arguments [OF get_session_token_call_def [of i], simplified]
  have a: "argument (get_session_token_call i) ''duration_seconds'' = opt_to_py i32_to_py (gs_duration_seconds i)"
    "argument (get_session_token_call i) ''serial_number'' = opt_to_py PyStr (gs_serial_number i)"
    "argument (get_session_token_call i) ''token_code'' = opt_to_py PyStr (gs_token_code i)"
    "argument (get_session_token_call i) ''minimum_session_token_size'' = opt_to_py i32_to_py (gs_minimum_session_token_size i)"
    by (simp_all only: p)
  show ?thesis
    unfolding get_session_token_params_def
    by (simp add: i32_param [OF s a(1)]
        string_param [OF s a(2)]
        string_param [OF s a(3)]
        i32_param [OF s a(4)])
qed

lemma get_web_identity_token_delivered: "get_web_identity_token_params P S (get_web_identity_token_call i) = Inr i"
proof -
  have s: "str_keys (get_web_identity_token_call i)" by (simp add: get_web_identity_token_call_def)
  note p = arguments [OF get_web_identity_token_call_def [of i], simplified]
  have a: "argument (get_web_identity_token_call i) ''audience'' = opt_to_py (seq_to_py PyStr) (gw_audience i)"
    "argument (get_web_identity_token_call i) ''duration_seconds'' = opt_to_py i32_to_py (gw_duration_seconds i)"
    "argument (get_web_identity_token_call i) ''signing_algorithm'' = opt_to_py PyStr (gw_signing_algorithm i)"
    "argument (get_web_identity_token_call i) ''tags'' = opt_to_py (seq_to_py tag_to_py) (gw_tags i)"
    by (simp_all only: p)
  show ?thesis
    unfolding get_web_identity_token_params_def
    by (simp add: string_seq_param [OF s a(1)]
        i32_param [OF s a(2)]
        string_param [OF s a(3)]
        tag_seq_param [OF s a(4)])
qed

lemma bad_tag:
  assumes "str_keys t" and "map_of t (PyStr ''key'') = Some v" and "v \<noteq> PyNone"
    and "extract_string P v = Inl e"
  shows "tag_from_py P S (PyDict t) = Inl (input_error e (Field ''key'') ''str'')"
  using assms by (simp add: tag_from_py_def dict_ok member_present string_from_py_def)

lemma bad_tags:
  assumes "str_keys d" and "map_of d (PyStr ''tags'') = Some (PyList vs)" and "k < length vs"
    and "\<forall>j < k. \<exists>y. tag_from_py P S (vs ! j) = Inr y"
    and "vs ! k = PyDict t" and "str_keys t" and "map_of t (PyStr ''key'') = Some v" and "v \<noteq> PyNone"
    and "extract_string P v = Inl e"
  shows "op_param P ''sts'' operation d ''tags'' ''sequence'' (seq_from_py P ''dict (Tag)'' (tag_from_py P S))
    = Inl (input_operation (unwind [(Field ''key'', ''str''), (Index k, ''dict (Tag)''),
        (Field ''tags'', ''sequence'')] e) ''sts'' operation)"
proof -
  have "tag_from_py P S (vs ! k) = Inl (input_error e (Field ''key'') ''str'')"
    using assms by (simp add: bad_tag)
  from seq_first_error [OF assms(3) this assms(4)] show ?thesis
    using assms(1,2) by (simp add: op_param_present)
qed

end

section \<open>Properties\<close>

text \<open>
  C7: every typed parameter of every operation reaches the SDK request. For each operation that
  takes parameters, converting the dictionary the Python client builds from typed arguments gives
  back exactly those arguments, given or absent: no name, type or nesting is lost between the two
  languages.
\<close>

theorem sts_parameters_arrive:
  assumes "pyo3_laws P" and "sts_types_laws S"
  shows "assume_role_params P S (assume_role_call i0) = Inr i0
    \<and> assume_role_with_saml_params P S (assume_role_with_saml_call i1) = Inr i1
    \<and> assume_role_with_web_identity_params P S (assume_role_with_web_identity_call i2) = Inr i2
    \<and> assume_root_params P S (assume_root_call i3) = Inr i3
    \<and> decode_authorization_message_params P S (decode_authorization_message_call i4) = Inr i4
    \<and> get_access_key_info_params P S (get_access_key_info_call i5) = Inr i5
    \<and> get_delegated_access_token_params P S (get_delegated_access_token_call i6) = Inr i6
    \<and> get_federation_token_params P S (get_federation_token_call i7) = Inr i7
    \<and> get_session_token_params P S (get_session_token_call i8) = Inr i8
    \<and> get_web_identity_token_params P S (get_web_identity_token_call i9) = Inr i9"
  using sts_conversions.intro [OF assms]
  by (simp_all add: sts_conversions.assume_role_delivered sts_conversions.assume_role_with_saml_delivered
      sts_conversions.assume_role_with_web_identity_delivered
      sts_conversions.assume_root_delivered
      sts_conversions.decode_authorization_message_delivered
      sts_conversions.get_access_key_info_delivered
      sts_conversions.get_delegated_access_token_delivered
      sts_conversions.get_federation_token_delivered
      sts_conversions.get_session_token_delivered
      sts_conversions.get_web_identity_token_delivered)

definition example_session :: get_session_token_input where
  "example_session =
     \<lparr>gs_duration_seconds = Some 900, gs_serial_number = None, gs_token_code = Some ''123456'',
      gs_minimum_session_token_size = None\<rparr>"

theorem sts_parameters_arrive_witness:
  "get_session_token_params pyo3_std sts_std
     [(PyStr ''duration_seconds'', PyInt 900), (PyStr ''token_code'', PyStr ''123456'')] = Inr example_session"
proof -
  have "get_session_token_call example_session =
      [(PyStr ''duration_seconds'', PyInt 900), (PyStr ''token_code'', PyStr ''123456'')]"
    by (simp add: get_session_token_call_def py_params_def example_session_def i32_to_py_def py_dict_distinct)
  with sts_parameters_arrive [OF std.pyo3_laws_axioms std_types.sts_types_laws_axioms]
  show ?thesis by metis
qed

text \<open>
  C2: \<open>AssumeRole\<close> from end to end. On an open client whose SDK client can be had, the Python
  arguments arrive at \<open>send\<close> unchanged, the caller gets \<open>send\<close>'s response or its failure as the
  STS exception with the metadata of the attempts, the observation is published once when there is
  one, and the SDK client that was used is kept.
\<close>

theorem assume_role_end_to_end:
  assumes "pyo3_laws P" and "sts_types_laws S"
    and "\<not> ch_closed c" and "get_client E (ch_state c) = Some (Inr client, st)"
    and "send client i = (attempts, result)"
  shows "assume_role E P S (Inr ()) False send c (assume_role_call i) observation =
    Some (map_err (\<lambda>error. service_error_to_py E no_details error ''AssumeRole''
            (response_metadata (run_operation (observation \<noteq> None) attempts))) result,
          c\<lparr>ch_state := st\<rparr>,
          map_option (publish (run_operation (observation \<noteq> None) attempts) (se_region E client)) observation)
    \<and> cs_client st = Some client"
  using execute_open [where send = send, OF assms(3-5), of no_details "''AssumeRole''" observation]
    sts_conversions.assume_role_delivered [OF sts_conversions.intro [OF assms(1,2)], of i]
    get_client_stays [OF assms(4)]
  by (simp add: assume_role_def)

definition example_role :: assume_role_input where
  "example_role =
     \<lparr>ar_role_arn = Some ''arn:aws:iam::1:role/r'', ar_role_session_name = Some ''s'', ar_policy_arns = None,
      ar_policy = None, ar_duration_seconds = Some 3600, ar_tags = Some [\<lparr>tag_key = ''k'', tag_value = ''v''\<rparr>],
      ar_transitive_tag_keys = Some [''k''], ar_external_id = None, ar_serial_number = None,
      ar_token_code = None, ar_source_identity = None, ar_provided_contexts = None,
      ar_minimum_session_token_size = None\<rparr>"

definition empty_role_output :: assume_role_output where
  "empty_role_output =
     \<lparr>aro_credentials = None, aro_assumed_role_user = None, aro_packed_policy_size = Some 5,
      aro_source_identity = None, aro_session_token_utilization = None, aro_session_token_size = None\<rparr>"

definition answering_send :: "nat \<Rightarrow> assume_role_input \<Rightarrow>
    trip list \<times> ((unit, http_response) sdk_error + assume_role_output)" where
  "answering_send client i =
     ([], if ar_role_session_name i = Some ''s'' then Inr empty_role_output else Inl (TimeoutError []))"

theorem assume_role_end_to_end_witness:
  "map_option fst (assume_role example_env pyo3_std sts_std (Inr ()) False answering_send example_client
      (assume_role_call example_role) None) = Some (Inr empty_role_output)"
proof -
  have g: "get_client example_env (ch_state example_client) =
      Some (Inr 5, (ch_state example_client)\<lparr>cs_client := Some 5\<rparr>)"
    by (simp add: get_client_def example_env_def example_client_def)
  have "answering_send 5 example_role = ([], Inr empty_role_output)"
    by (simp add: answering_send_def example_role_def)
  from assume_role_end_to_end [where send = answering_send and client = 5 and i = example_role and observation = None,
      OF std.pyo3_laws_axioms std_types.sts_types_laws_axioms _ g this]
  show ?thesis by (simp add: example_client_def)
qed

text \<open>
  C33: a bad value deep in a parameter is reported by its place. When the first bad item of
  \<open>tags\<close> has a key that is not a \<open>str\<close>, \<open>AssumeRole\<close> raises the exception of that read with the
  context \<open>sts\<close>, \<open>AssumeRole\<close>, \<open>tags[k].key\<close>, expected \<open>str\<close>; the client, the observation and the
  network are untouched.
\<close>

theorem assume_role_names_bad_tag:
  assumes laws: "pyo3_laws P" "sts_types_laws S"
    and opened: "\<not> ch_closed c" "str_keys d" "assume_role_params_1 P S d = Inr earlier"
    and tags: "map_of d (PyStr ''tags'') = Some (PyList vs)" "k < length vs"
      "\<forall>j < k. \<exists>y. tag_from_py P S (vs ! j) = Inr y"
    and tag: "vs ! k = PyDict t" "str_keys t" "map_of t (PyStr ''key'') = Some v" "v \<noteq> PyNone"
    and read: "extract_string P v = Inl e" "input_detail e = None" "open_attrs e"
  shows "\<exists>e'. assume_role E P S bridge interrupted send c d observation = Some (Inl e', c, observation)
    \<and> err_context e' = Some (context_for [Field ''tags'', Index k, Field ''key''] ''str''
        (default_category e) ''sts'' ''AssumeRole'')
    \<and> same_exception e' e"
proof -
  let ?locs = "[(Index k, ''dict (Tag)''), (Field ''tags'', ''sequence'')]"
  let ?e = "input_operation (unwind ((Field ''key'', ''str'') # ?locs) e) ''sts'' ''AssumeRole''"
  have "op_param P ''sts'' ''AssumeRole'' d ''tags'' ''sequence''
      (seq_from_py P ''dict (Tag)'' (tag_from_py P S)) = Inl ?e"
    by (rule sts_conversions.bad_tags [OF sts_conversions.intro [OF laws] opened(2) tags tag read(1)])
  then have "assume_role_params P S d = Inl ?e"
    using opened(3) by (simp add: assume_role_params_def assume_role_params_2_def split: prod.splits)
  then have "assume_role E P S bridge interrupted send c d observation = Some (Inl ?e, c, observation)"
    using opened(1) by (simp add: assume_role_def execute_def)
  moreover have "err_context ?e = Some (context_for [Field ''tags'', Index k, Field ''key''] ''str''
      (default_category e) ''sts'' ''AssumeRole'') \<and> same_exception ?e e"
    using operation_context [OF read(2,3), of "Field ''key''" "''str''" ?locs "''sts''" "''AssumeRole''"]
    by (simp add: good_path_def is_cont_def byte_of_def del: unwind_simps)
  ultimately show ?thesis by blast
qed

lemma std_int_not_str: "extract_string pyo3_std (PyInt n) = Inl (type_error ''not an instance of str'')"
  by (simp add: pyo3_std_def)

definition bad_pair :: pydict where
  "bad_pair = [(PyStr ''key'', PyInt 7), (PyStr ''value'', PyStr ''c'')]"

definition badly_tagged :: pydict where
  "badly_tagged =
     [(PyStr ''role_arn'', PyStr ''r''), (PyStr ''role_session_name'', PyStr ''s''),
      (PyStr ''tags'', PyList [tag_to_py \<lparr>tag_key = ''a'', tag_value = ''b''\<rparr>, PyDict bad_pair])]"

theorem assume_role_names_bad_tag_witness:
  "\<exists>e'. assume_role example_env pyo3_std sts_std (Inr ()) False answering_send example_client badly_tagged None
      = Some (Inl e', example_client, None)
    \<and> err_context e' = Some \<lparr>ctx_service = ''sts'', ctx_operation = ''AssumeRole'',
        ctx_path = ''tags[1].key'', ctx_expected = ''str'', ctx_category = ''type'', ctx_truncated = False\<rparr>"
proof -
  have p: "\<exists>earlier. assume_role_params_1 pyo3_std sts_std badly_tagged = Inr earlier"
    by (simp add: assume_role_params_1_def badly_tagged_def op_param_def dict_value_def pyo3_std_def string_from_py_def)
  then obtain earlier where p: "assume_role_params_1 pyo3_std sts_std badly_tagged = Inr earlier" by blast
  have "\<exists>e'. assume_role example_env pyo3_std sts_std (Inr ()) False answering_send example_client badly_tagged None
      = Some (Inl e', example_client, None)
    \<and> err_context e' = Some (context_for [Field ''tags'', Index 1, Field ''key''] ''str''
        (default_category (type_error ''not an instance of str'')) ''sts'' ''AssumeRole'')
    \<and> same_exception e' (type_error ''not an instance of str'')"
    by (intro assume_role_names_bad_tag [where k = 1 and t = bad_pair and v = "PyInt 7"
        and vs = "[tag_to_py \<lparr>tag_key = ''a'', tag_value = ''b''\<rparr>, PyDict bad_pair]",
        OF std.pyo3_laws_axioms std_types.sts_types_laws_axioms _ _ p])
      (simp_all add: badly_tagged_def bad_pair_def example_client_def std_int_not_str
        std_conv.tag_roundtrip type_error_def new_err_def)
  moreover have "context_for [Field ''tags'', Index 1, Field ''key''] ''str''
        (default_category (type_error ''not an instance of str'')) ''sts'' ''AssumeRole''
    = \<lparr>ctx_service = ''sts'', ctx_operation = ''AssumeRole'',
        ctx_path = ''tags[1].key'', ctx_expected = ''str'', ctx_category = ''type'', ctx_truncated = False\<rparr>"
    by code_simp
  ultimately show ?thesis by auto
qed

end
