(* ===== verification/SqsTypes.thy ===== *)
theory SqsTypes
  imports Bodies Sts
begin

text \<open>
  The structures of the SQS extension, from \<open>crates/rboto-sqs/src/generated.rs\<close>: the converters
  between Python dictionaries and the SDK's structures, which are records with the members the code
  reads and sets. An enum of the SDK is its text, and \<open>order\<close> is the order in which the iterator of
  a \<open>HashMap\<close> yields its entries. The builders belong to the SDK and are the record \<open>sqs_types\<close>.
\<close>

section \<open>Structures\<close>

record batch_result_error_entry =
  qbree_id :: string
  qbree_sender_fault :: bool
  qbree_code :: string
  qbree_message :: "string option"

record change_message_visibility_batch_request_entry =
  qcmvbre_id :: string
  qcmvbre_receipt_handle :: string
  qcmvbre_visibility_timeout :: "32 word option"

record change_message_visibility_batch_result_entry =
  qcmvbre2_id :: string

record delete_message_batch_request_entry =
  qdmbre_id :: string
  qdmbre_receipt_handle :: string

record delete_message_batch_result_entry =
  qdmbre2_id :: string

record list_message_move_tasks_result_entry =
  qlmmtre_task_handle :: "string option"
  qlmmtre_status :: "string option"
  qlmmtre_source_arn :: "string option"
  qlmmtre_destination_arn :: "string option"
  qlmmtre_max_number_of_messages_per_second :: "32 word option"
  qlmmtre_approximate_number_of_messages_moved :: "64 word"
  qlmmtre_approximate_number_of_messages_to_move :: "64 word option"
  qlmmtre_failure_reason :: "string option"
  qlmmtre_started_timestamp :: "64 word"

record message_attribute_value =
  qmav_string_value :: "string option"
  qmav_binary_value :: "byte list option"
  qmav_string_list_values :: "string list option"
  qmav_binary_list_values :: "byte list list option"
  qmav_data_type :: string

record message =
  qm_message_id :: "string option"
  qm_receipt_handle :: "string option"
  qm_md5_of_body :: "string option"
  qm_body :: "string option"
  qm_attributes :: "(string, string) fmap option"
  qm_md5_of_message_attributes :: "string option"
  qm_message_attributes :: "(string, message_attribute_value) fmap option"

record message_system_attribute_value =
  qmsav_string_value :: "string option"
  qmsav_binary_value :: "byte list option"
  qmsav_string_list_values :: "string list option"
  qmsav_binary_list_values :: "byte list list option"
  qmsav_data_type :: string

record send_message_batch_request_entry =
  qsmbre_id :: string
  qsmbre_message_body :: string
  qsmbre_delay_seconds :: "32 word option"
  qsmbre_message_attributes :: "(string, message_attribute_value) fmap option"
  qsmbre_message_system_attributes :: "(string, message_system_attribute_value) fmap option"
  qsmbre_message_deduplication_id :: "string option"
  qsmbre_message_group_id :: "string option"

record send_message_batch_result_entry =
  qsmbre2_id :: string
  qsmbre2_message_id :: string
  qsmbre2_md5_of_message_body :: string
  qsmbre2_md5_of_message_attributes :: "string option"
  qsmbre2_md5_of_message_system_attributes :: "string option"
  qsmbre2_sequence_number :: "string option"

record sqs_types =
  build_batch_result_error_entry :: "string option \<Rightarrow> bool option \<Rightarrow> string option \<Rightarrow> string option \<Rightarrow> unit + batch_result_error_entry"
  build_change_message_visibility_batch_request_entry :: "string option \<Rightarrow> string option \<Rightarrow> 32 word option \<Rightarrow> unit + change_message_visibility_batch_request_entry"
  build_change_message_visibility_batch_result_entry :: "string option \<Rightarrow> unit + change_message_visibility_batch_result_entry"
  build_delete_message_batch_request_entry :: "string option \<Rightarrow> string option \<Rightarrow> unit + delete_message_batch_request_entry"
  build_delete_message_batch_result_entry :: "string option \<Rightarrow> unit + delete_message_batch_result_entry"
  build_list_message_move_tasks_result_entry :: "string option \<Rightarrow> string option \<Rightarrow> string option \<Rightarrow> string option \<Rightarrow> 32 word option \<Rightarrow> 64 word option \<Rightarrow> 64 word option \<Rightarrow> string option \<Rightarrow> 64 word option \<Rightarrow> list_message_move_tasks_result_entry"
  build_message_attribute_value :: "string option \<Rightarrow> byte list option \<Rightarrow> string list option \<Rightarrow> byte list list option \<Rightarrow> string option \<Rightarrow> unit + message_attribute_value"
  build_message :: "string option \<Rightarrow> string option \<Rightarrow> string option \<Rightarrow> string option \<Rightarrow> (string, string) fmap option \<Rightarrow> string option \<Rightarrow> (string, message_attribute_value) fmap option \<Rightarrow> message"
  build_message_system_attribute_value :: "string option \<Rightarrow> byte list option \<Rightarrow> string list option \<Rightarrow> byte list list option \<Rightarrow> string option \<Rightarrow> unit + message_system_attribute_value"
  build_send_message_batch_request_entry :: "string option \<Rightarrow> string option \<Rightarrow> 32 word option \<Rightarrow> (string, message_attribute_value) fmap option \<Rightarrow> (string, message_system_attribute_value) fmap option \<Rightarrow> string option \<Rightarrow> string option \<Rightarrow> unit + send_message_batch_request_entry"
  build_send_message_batch_result_entry :: "string option \<Rightarrow> string option \<Rightarrow> string option \<Rightarrow> string option \<Rightarrow> string option \<Rightarrow> string option \<Rightarrow> unit + send_message_batch_result_entry"

section \<open>Converters\<close>

definition batch_result_error_entry_from_py :: "pyo3 \<Rightarrow> sqs_types \<Rightarrow> pyval \<Rightarrow> batch_result_error_entry pyresult" where
  "batch_result_error_entry_from_py P S value =
     and_then (cast_dict P value) (\<lambda>values.
     and_then (member P values ''id'' ''str'' (string_from_py P)) (\<lambda>id_value.
     and_then (member P values ''sender_fault'' ''bool'' (bool_from_py P)) (\<lambda>sender_fault_value.
     and_then (member P values ''code'' ''str'' (string_from_py P)) (\<lambda>code_value.
     and_then (member P values ''message'' ''str'' (string_from_py P)) (\<lambda>message_value.
     map_err (\<lambda>_. input_builder_error P values
         [(''id'', ''id''), (''code'', ''code'')])
       (build_batch_result_error_entry S id_value sender_fault_value code_value message_value))))))"

definition batch_result_error_entry_to_py :: "batch_result_error_entry \<Rightarrow> pyval" where
  "batch_result_error_entry_to_py v = PyDict (py_dict
     [(''id'', PyStr (qbree_id v)),
      (''sender_fault'', PyBool (qbree_sender_fault v)),
      (''code'', PyStr (qbree_code v)),
      (''message'', opt_to_py PyStr (qbree_message v))])"

definition change_message_visibility_batch_request_entry_from_py :: "pyo3 \<Rightarrow> sqs_types \<Rightarrow> pyval \<Rightarrow> change_message_visibility_batch_request_entry pyresult" where
  "change_message_visibility_batch_request_entry_from_py P S value =
     and_then (cast_dict P value) (\<lambda>values.
     and_then (member P values ''id'' ''str'' (string_from_py P)) (\<lambda>id_value.
     and_then (member P values ''receipt_handle'' ''str'' (string_from_py P)) (\<lambda>receipt_handle_value.
     and_then (member P values ''visibility_timeout'' ''int'' (i32_from_py P)) (\<lambda>visibility_timeout_value.
     map_err (\<lambda>_. input_builder_error P values
         [(''id'', ''id''), (''receipt_handle'', ''receipt_handle'')])
       (build_change_message_visibility_batch_request_entry S id_value receipt_handle_value visibility_timeout_value)))))"

definition change_message_visibility_batch_request_entry_to_py :: "change_message_visibility_batch_request_entry \<Rightarrow> pyval" where
  "change_message_visibility_batch_request_entry_to_py v = PyDict (py_dict
     [(''id'', PyStr (qcmvbre_id v)),
      (''receipt_handle'', PyStr (qcmvbre_receipt_handle v)),
      (''visibility_timeout'', opt_to_py i32_to_py (qcmvbre_visibility_timeout v))])"

definition change_message_visibility_batch_result_entry_from_py :: "pyo3 \<Rightarrow> sqs_types \<Rightarrow> pyval \<Rightarrow> change_message_visibility_batch_result_entry pyresult" where
  "change_message_visibility_batch_result_entry_from_py P S value =
     and_then (cast_dict P value) (\<lambda>values.
     and_then (member P values ''id'' ''str'' (string_from_py P)) (\<lambda>id_value.
     map_err (\<lambda>_. input_builder_error P values
         [(''id'', ''id'')])
       (build_change_message_visibility_batch_result_entry S id_value)))"

definition change_message_visibility_batch_result_entry_to_py :: "change_message_visibility_batch_result_entry \<Rightarrow> pyval" where
  "change_message_visibility_batch_result_entry_to_py v = PyDict (py_dict
     [(''id'', PyStr (qcmvbre2_id v))])"

definition delete_message_batch_request_entry_from_py :: "pyo3 \<Rightarrow> sqs_types \<Rightarrow> pyval \<Rightarrow> delete_message_batch_request_entry pyresult" where
  "delete_message_batch_request_entry_from_py P S value =
     and_then (cast_dict P value) (\<lambda>values.
     and_then (member P values ''id'' ''str'' (string_from_py P)) (\<lambda>id_value.
     and_then (member P values ''receipt_handle'' ''str'' (string_from_py P)) (\<lambda>receipt_handle_value.
     map_err (\<lambda>_. input_builder_error P values
         [(''id'', ''id''), (''receipt_handle'', ''receipt_handle'')])
       (build_delete_message_batch_request_entry S id_value receipt_handle_value))))"

definition delete_message_batch_request_entry_to_py :: "delete_message_batch_request_entry \<Rightarrow> pyval" where
  "delete_message_batch_request_entry_to_py v = PyDict (py_dict
     [(''id'', PyStr (qdmbre_id v)),
      (''receipt_handle'', PyStr (qdmbre_receipt_handle v))])"

definition delete_message_batch_result_entry_from_py :: "pyo3 \<Rightarrow> sqs_types \<Rightarrow> pyval \<Rightarrow> delete_message_batch_result_entry pyresult" where
  "delete_message_batch_result_entry_from_py P S value =
     and_then (cast_dict P value) (\<lambda>values.
     and_then (member P values ''id'' ''str'' (string_from_py P)) (\<lambda>id_value.
     map_err (\<lambda>_. input_builder_error P values
         [(''id'', ''id'')])
       (build_delete_message_batch_result_entry S id_value)))"

definition delete_message_batch_result_entry_to_py :: "delete_message_batch_result_entry \<Rightarrow> pyval" where
  "delete_message_batch_result_entry_to_py v = PyDict (py_dict
     [(''id'', PyStr (qdmbre2_id v))])"

definition list_message_move_tasks_result_entry_from_py :: "pyo3 \<Rightarrow> sqs_types \<Rightarrow> pyval \<Rightarrow> list_message_move_tasks_result_entry pyresult" where
  "list_message_move_tasks_result_entry_from_py P S value =
     and_then (cast_dict P value) (\<lambda>values.
     and_then (member P values ''task_handle'' ''str'' (string_from_py P)) (\<lambda>task_handle_value.
     and_then (member P values ''status'' ''str'' (string_from_py P)) (\<lambda>status_value.
     and_then (member P values ''source_arn'' ''str'' (string_from_py P)) (\<lambda>source_arn_value.
     and_then (member P values ''destination_arn'' ''str'' (string_from_py P)) (\<lambda>destination_arn_value.
     and_then (member P values ''max_number_of_messages_per_second'' ''int'' (i32_from_py P)) (\<lambda>max_number_of_messages_per_second_value.
     and_then (member P values ''approximate_number_of_messages_moved'' ''int'' (i64_from_py P)) (\<lambda>approximate_number_of_messages_moved_value.
     and_then (member P values ''approximate_number_of_messages_to_move'' ''int'' (i64_from_py P)) (\<lambda>approximate_number_of_messages_to_move_value.
     and_then (member P values ''failure_reason'' ''str'' (string_from_py P)) (\<lambda>failure_reason_value.
     and_then (member P values ''started_timestamp'' ''int'' (i64_from_py P)) (\<lambda>started_timestamp_value.
     Inr (build_list_message_move_tasks_result_entry S task_handle_value status_value source_arn_value destination_arn_value max_number_of_messages_per_second_value approximate_number_of_messages_moved_value approximate_number_of_messages_to_move_value failure_reason_value started_timestamp_value)))))))))))"

definition list_message_move_tasks_result_entry_to_py :: "list_message_move_tasks_result_entry \<Rightarrow> pyval" where
  "list_message_move_tasks_result_entry_to_py v = PyDict (py_dict
     [(''task_handle'', opt_to_py PyStr (qlmmtre_task_handle v)),
      (''status'', opt_to_py PyStr (qlmmtre_status v)),
      (''source_arn'', opt_to_py PyStr (qlmmtre_source_arn v)),
      (''destination_arn'', opt_to_py PyStr (qlmmtre_destination_arn v)),
      (''max_number_of_messages_per_second'', opt_to_py i32_to_py (qlmmtre_max_number_of_messages_per_second v)),
      (''approximate_number_of_messages_moved'', i64_to_py (qlmmtre_approximate_number_of_messages_moved v)),
      (''approximate_number_of_messages_to_move'', opt_to_py i64_to_py (qlmmtre_approximate_number_of_messages_to_move v)),
      (''failure_reason'', opt_to_py PyStr (qlmmtre_failure_reason v)),
      (''started_timestamp'', i64_to_py (qlmmtre_started_timestamp v))])"

definition message_attribute_value_from_py :: "pyo3 \<Rightarrow> sqs_types \<Rightarrow> pyval \<Rightarrow> message_attribute_value pyresult" where
  "message_attribute_value_from_py P S value =
     and_then (cast_dict P value) (\<lambda>values.
     and_then (member P values ''string_value'' ''str'' (string_from_py P)) (\<lambda>string_value_value.
     and_then (member P values ''binary_value'' ''bytes'' (blob_from_py P)) (\<lambda>binary_value_value.
     and_then (member P values ''string_list_values'' ''sequence'' (seq_from_py P ''str'' (string_from_py P))) (\<lambda>string_list_values_value.
     and_then (member P values ''binary_list_values'' ''sequence'' (seq_from_py P ''bytes'' (blob_from_py P))) (\<lambda>binary_list_values_value.
     and_then (member P values ''data_type'' ''str'' (string_from_py P)) (\<lambda>data_type_value.
     map_err (\<lambda>_. input_builder_error P values
         [(''data_type'', ''data_type'')])
       (build_message_attribute_value S string_value_value binary_value_value string_list_values_value binary_list_values_value data_type_value)))))))"

definition message_attribute_value_to_py :: "message_attribute_value \<Rightarrow> pyval" where
  "message_attribute_value_to_py v = PyDict (py_dict
     [(''string_value'', opt_to_py PyStr (qmav_string_value v)),
      (''binary_value'', opt_to_py PyBytes (qmav_binary_value v)),
      (''string_list_values'', opt_to_py (seq_to_py PyStr) (qmav_string_list_values v)),
      (''binary_list_values'', opt_to_py (seq_to_py PyBytes) (qmav_binary_list_values v)),
      (''data_type'', PyStr (qmav_data_type v))])"

definition message_from_py :: "pyo3 \<Rightarrow> sqs_types \<Rightarrow> pyval \<Rightarrow> message pyresult" where
  "message_from_py P S value =
     and_then (cast_dict P value) (\<lambda>values.
     and_then (member P values ''message_id'' ''str'' (string_from_py P)) (\<lambda>message_id_value.
     and_then (member P values ''receipt_handle'' ''str'' (string_from_py P)) (\<lambda>receipt_handle_value.
     and_then (member P values ''md5_of_body'' ''str'' (string_from_py P)) (\<lambda>md5_of_body_value.
     and_then (member P values ''body'' ''str'' (string_from_py P)) (\<lambda>body_value.
     and_then (member P values ''attributes'' ''dict'' (map_from_py P ''str (MessageSystemAttributeName)'' ''str'' (string_from_py P))) (\<lambda>attributes_value.
     and_then (member P values ''md5_of_message_attributes'' ''str'' (string_from_py P)) (\<lambda>md5_of_message_attributes_value.
     and_then (member P values ''message_attributes'' ''dict'' (map_from_py P ''str'' ''dict (MessageAttributeValue)'' (message_attribute_value_from_py P S))) (\<lambda>message_attributes_value.
     Inr (build_message S message_id_value receipt_handle_value md5_of_body_value body_value attributes_value md5_of_message_attributes_value message_attributes_value)))))))))"

definition message_to_py :: "((string, pyval) fmap \<Rightarrow> (string \<times> pyval) list) \<Rightarrow> message \<Rightarrow> pyval" where
  "message_to_py order v = PyDict (py_dict
     [(''message_id'', opt_to_py PyStr (qm_message_id v)),
      (''receipt_handle'', opt_to_py PyStr (qm_receipt_handle v)),
      (''md5_of_body'', opt_to_py PyStr (qm_md5_of_body v)),
      (''body'', opt_to_py PyStr (qm_body v)),
      (''attributes'', opt_to_py (mapping_to_py order PyStr) (qm_attributes v)),
      (''md5_of_message_attributes'', opt_to_py PyStr (qm_md5_of_message_attributes v)),
      (''message_attributes'', opt_to_py (mapping_to_py order message_attribute_value_to_py) (qm_message_attributes v))])"

definition message_system_attribute_value_from_py :: "pyo3 \<Rightarrow> sqs_types \<Rightarrow> pyval \<Rightarrow> message_system_attribute_value pyresult" where
  "message_system_attribute_value_from_py P S value =
     and_then (cast_dict P value) (\<lambda>values.
     and_then (member P values ''string_value'' ''str'' (string_from_py P)) (\<lambda>string_value_value.
     and_then (member P values ''binary_value'' ''bytes'' (blob_from_py P)) (\<lambda>binary_value_value.
     and_then (member P values ''string_list_values'' ''sequence'' (seq_from_py P ''str'' (string_from_py P))) (\<lambda>string_list_values_value.
     and_then (member P values ''binary_list_values'' ''sequence'' (seq_from_py P ''bytes'' (blob_from_py P))) (\<lambda>binary_list_values_value.
     and_then (member P values ''data_type'' ''str'' (string_from_py P)) (\<lambda>data_type_value.
     map_err (\<lambda>_. input_builder_error P values
         [(''data_type'', ''data_type'')])
       (build_message_system_attribute_value S string_value_value binary_value_value string_list_values_value binary_list_values_value data_type_value)))))))"

definition message_system_attribute_value_to_py :: "message_system_attribute_value \<Rightarrow> pyval" where
  "message_system_attribute_value_to_py v = PyDict (py_dict
     [(''string_value'', opt_to_py PyStr (qmsav_string_value v)),
      (''binary_value'', opt_to_py PyBytes (qmsav_binary_value v)),
      (''string_list_values'', opt_to_py (seq_to_py PyStr) (qmsav_string_list_values v)),
      (''binary_list_values'', opt_to_py (seq_to_py PyBytes) (qmsav_binary_list_values v)),
      (''data_type'', PyStr (qmsav_data_type v))])"

definition send_message_batch_request_entry_from_py :: "pyo3 \<Rightarrow> sqs_types \<Rightarrow> pyval \<Rightarrow> send_message_batch_request_entry pyresult" where
  "send_message_batch_request_entry_from_py P S value =
     and_then (cast_dict P value) (\<lambda>values.
     and_then (member P values ''id'' ''str'' (string_from_py P)) (\<lambda>id_value.
     and_then (member P values ''message_body'' ''str'' (string_from_py P)) (\<lambda>message_body_value.
     and_then (member P values ''delay_seconds'' ''int'' (i32_from_py P)) (\<lambda>delay_seconds_value.
     and_then (member P values ''message_attributes'' ''dict'' (map_from_py P ''str'' ''dict (MessageAttributeValue)'' (message_attribute_value_from_py P S))) (\<lambda>message_attributes_value.
     and_then (member P values ''message_system_attributes'' ''dict'' (map_from_py P ''str (MessageSystemAttributeNameForSends)'' ''dict (MessageSystemAttributeValue)'' (message_system_attribute_value_from_py P S))) (\<lambda>message_system_attributes_value.
     and_then (member P values ''message_deduplication_id'' ''str'' (string_from_py P)) (\<lambda>message_deduplication_id_value.
     and_then (member P values ''message_group_id'' ''str'' (string_from_py P)) (\<lambda>message_group_id_value.
     map_err (\<lambda>_. input_builder_error P values
         [(''id'', ''id''), (''message_body'', ''message_body'')])
       (build_send_message_batch_request_entry S id_value message_body_value delay_seconds_value message_attributes_value message_system_attributes_value message_deduplication_id_value message_group_id_value)))))))))"

definition send_message_batch_request_entry_to_py :: "((string, pyval) fmap \<Rightarrow> (string \<times> pyval) list) \<Rightarrow> send_message_batch_request_entry \<Rightarrow> pyval" where
  "send_message_batch_request_entry_to_py order v = PyDict (py_dict
     [(''id'', PyStr (qsmbre_id v)),
      (''message_body'', PyStr (qsmbre_message_body v)),
      (''delay_seconds'', opt_to_py i32_to_py (qsmbre_delay_seconds v)),
      (''message_attributes'', opt_to_py (mapping_to_py order message_attribute_value_to_py) (qsmbre_message_attributes v)),
      (''message_system_attributes'', opt_to_py (mapping_to_py order message_system_attribute_value_to_py) (qsmbre_message_system_attributes v)),
      (''message_deduplication_id'', opt_to_py PyStr (qsmbre_message_deduplication_id v)),
      (''message_group_id'', opt_to_py PyStr (qsmbre_message_group_id v))])"

definition send_message_batch_result_entry_from_py :: "pyo3 \<Rightarrow> sqs_types \<Rightarrow> pyval \<Rightarrow> send_message_batch_result_entry pyresult" where
  "send_message_batch_result_entry_from_py P S value =
     and_then (cast_dict P value) (\<lambda>values.
     and_then (member P values ''id'' ''str'' (string_from_py P)) (\<lambda>id_value.
     and_then (member P values ''message_id'' ''str'' (string_from_py P)) (\<lambda>message_id_value.
     and_then (member P values ''md5_of_message_body'' ''str'' (string_from_py P)) (\<lambda>md5_of_message_body_value.
     and_then (member P values ''md5_of_message_attributes'' ''str'' (string_from_py P)) (\<lambda>md5_of_message_attributes_value.
     and_then (member P values ''md5_of_message_system_attributes'' ''str'' (string_from_py P)) (\<lambda>md5_of_message_system_attributes_value.
     and_then (member P values ''sequence_number'' ''str'' (string_from_py P)) (\<lambda>sequence_number_value.
     map_err (\<lambda>_. input_builder_error P values
         [(''id'', ''id''), (''message_id'', ''message_id''), (''md5_of_message_body'', ''md5_of_message_body'')])
       (build_send_message_batch_result_entry S id_value message_id_value md5_of_message_body_value md5_of_message_attributes_value md5_of_message_system_attributes_value sequence_number_value))))))))"

definition send_message_batch_result_entry_to_py :: "send_message_batch_result_entry \<Rightarrow> pyval" where
  "send_message_batch_result_entry_to_py v = PyDict (py_dict
     [(''id'', PyStr (qsmbre2_id v)),
      (''message_id'', PyStr (qsmbre2_message_id v)),
      (''md5_of_message_body'', PyStr (qsmbre2_md5_of_message_body v)),
      (''md5_of_message_attributes'', opt_to_py PyStr (qsmbre2_md5_of_message_attributes v)),
      (''md5_of_message_system_attributes'', opt_to_py PyStr (qsmbre2_md5_of_message_system_attributes v)),
      (''sequence_number'', opt_to_py PyStr (qsmbre2_sequence_number v))])"

section \<open>Round trips\<close>

text \<open>What the builders document: a builder given every member the structure must have gives the
  structure with the members it was given, and one that lacks a required member fails.\<close>

locale sqs_types_laws =
  fixes S :: sqs_types
  assumes batch_result_error_entry_built: "build_batch_result_error_entry S (Some qbree0) (Some qbree1) (Some qbree2) qbree3 =
       Inr \<lparr>qbree_id = qbree0, qbree_sender_fault = qbree1, qbree_code = qbree2, qbree_message = qbree3\<rparr>"
    and change_message_visibility_batch_request_entry_built: "build_change_message_visibility_batch_request_entry S (Some qcmvbre0) (Some qcmvbre1) qcmvbre2 =
       Inr \<lparr>qcmvbre_id = qcmvbre0, qcmvbre_receipt_handle = qcmvbre1, qcmvbre_visibility_timeout = qcmvbre2\<rparr>"
    and change_message_visibility_batch_result_entry_built: "build_change_message_visibility_batch_result_entry S (Some qcmvbre20) =
       Inr \<lparr>qcmvbre2_id = qcmvbre20\<rparr>"
    and delete_message_batch_request_entry_built: "build_delete_message_batch_request_entry S (Some qdmbre0) (Some qdmbre1) =
       Inr \<lparr>qdmbre_id = qdmbre0, qdmbre_receipt_handle = qdmbre1\<rparr>"
    and delete_message_batch_result_entry_built: "build_delete_message_batch_result_entry S (Some qdmbre20) =
       Inr \<lparr>qdmbre2_id = qdmbre20\<rparr>"
    and list_message_move_tasks_result_entry_built: "build_list_message_move_tasks_result_entry S qlmmtre0 qlmmtre1 qlmmtre2 qlmmtre3 qlmmtre4 (Some qlmmtre5) qlmmtre6 qlmmtre7 (Some qlmmtre8) =
       \<lparr>qlmmtre_task_handle = qlmmtre0, qlmmtre_status = qlmmtre1, qlmmtre_source_arn = qlmmtre2, qlmmtre_destination_arn = qlmmtre3, qlmmtre_max_number_of_messages_per_second = qlmmtre4, qlmmtre_approximate_number_of_messages_moved = qlmmtre5, qlmmtre_approximate_number_of_messages_to_move = qlmmtre6, qlmmtre_failure_reason = qlmmtre7, qlmmtre_started_timestamp = qlmmtre8\<rparr>"
    and message_attribute_value_built: "build_message_attribute_value S qmav0 qmav1 qmav2 qmav3 (Some qmav4) =
       Inr \<lparr>qmav_string_value = qmav0, qmav_binary_value = qmav1, qmav_string_list_values = qmav2, qmav_binary_list_values = qmav3, qmav_data_type = qmav4\<rparr>"
    and message_built: "build_message S qm0 qm1 qm2 qm3 qm4 qm5 qm6 =
       \<lparr>qm_message_id = qm0, qm_receipt_handle = qm1, qm_md5_of_body = qm2, qm_body = qm3, qm_attributes = qm4, qm_md5_of_message_attributes = qm5, qm_message_attributes = qm6\<rparr>"
    and message_system_attribute_value_built: "build_message_system_attribute_value S qmsav0 qmsav1 qmsav2 qmsav3 (Some qmsav4) =
       Inr \<lparr>qmsav_string_value = qmsav0, qmsav_binary_value = qmsav1, qmsav_string_list_values = qmsav2, qmsav_binary_list_values = qmsav3, qmsav_data_type = qmsav4\<rparr>"
    and send_message_batch_request_entry_built: "build_send_message_batch_request_entry S (Some qsmbre0) (Some qsmbre1) qsmbre2 qsmbre3 qsmbre4 qsmbre5 qsmbre6 =
       Inr \<lparr>qsmbre_id = qsmbre0, qsmbre_message_body = qsmbre1, qsmbre_delay_seconds = qsmbre2, qsmbre_message_attributes = qsmbre3, qsmbre_message_system_attributes = qsmbre4, qsmbre_message_deduplication_id = qsmbre5, qsmbre_message_group_id = qsmbre6\<rparr>"
    and send_message_batch_result_entry_built: "build_send_message_batch_result_entry S (Some qsmbre20) (Some qsmbre21) (Some qsmbre22) qsmbre23 qsmbre24 qsmbre25 =
       Inr \<lparr>qsmbre2_id = qsmbre20, qsmbre2_message_id = qsmbre21, qsmbre2_md5_of_message_body = qsmbre22, qsmbre2_md5_of_message_attributes = qsmbre23, qsmbre2_md5_of_message_system_attributes = qsmbre24, qsmbre2_sequence_number = qsmbre25\<rparr>"
    and batch_result_error_entry_incomplete: "oqbree0 = None \<or> oqbree2 = None \<Longrightarrow>
       build_batch_result_error_entry S oqbree0 oqbree1 oqbree2 oqbree3 = Inl ()"
    and change_message_visibility_batch_request_entry_incomplete: "oqcmvbre0 = None \<or> oqcmvbre1 = None \<Longrightarrow>
       build_change_message_visibility_batch_request_entry S oqcmvbre0 oqcmvbre1 oqcmvbre2 = Inl ()"
    and change_message_visibility_batch_result_entry_incomplete: "oqcmvbre20 = None \<Longrightarrow>
       build_change_message_visibility_batch_result_entry S oqcmvbre20 = Inl ()"
    and delete_message_batch_request_entry_incomplete: "oqdmbre0 = None \<or> oqdmbre1 = None \<Longrightarrow>
       build_delete_message_batch_request_entry S oqdmbre0 oqdmbre1 = Inl ()"
    and delete_message_batch_result_entry_incomplete: "oqdmbre20 = None \<Longrightarrow>
       build_delete_message_batch_result_entry S oqdmbre20 = Inl ()"
    and message_attribute_value_incomplete: "oqmav4 = None \<Longrightarrow>
       build_message_attribute_value S oqmav0 oqmav1 oqmav2 oqmav3 oqmav4 = Inl ()"
    and message_system_attribute_value_incomplete: "oqmsav4 = None \<Longrightarrow>
       build_message_system_attribute_value S oqmsav0 oqmsav1 oqmsav2 oqmsav3 oqmsav4 = Inl ()"
    and send_message_batch_request_entry_incomplete: "oqsmbre0 = None \<or> oqsmbre1 = None \<Longrightarrow>
       build_send_message_batch_request_entry S oqsmbre0 oqsmbre1 oqsmbre2 oqsmbre3 oqsmbre4 oqsmbre5 oqsmbre6 = Inl ()"
    and send_message_batch_result_entry_incomplete: "oqsmbre20 = None \<or> oqsmbre21 = None \<or> oqsmbre22 = None \<Longrightarrow>
       build_send_message_batch_result_entry S oqsmbre20 oqsmbre21 oqsmbre22 oqsmbre23 oqsmbre24 oqsmbre25 = Inl ()"

text \<open>A concrete SDK.\<close>

definition sqs_std :: sqs_types where
  "sqs_std =
     \<lparr>build_batch_result_error_entry = (\<lambda>a0 a1 a2 a3. if a0 = None \<or> a2 = None then Inl ()
        else Inr \<lparr>qbree_id = the a0, qbree_sender_fault = unwrap_or False a1, qbree_code = the a2, qbree_message = a3\<rparr>),
      build_change_message_visibility_batch_request_entry = (\<lambda>a0 a1 a2. if a0 = None \<or> a1 = None then Inl ()
        else Inr \<lparr>qcmvbre_id = the a0, qcmvbre_receipt_handle = the a1, qcmvbre_visibility_timeout = a2\<rparr>),
      build_change_message_visibility_batch_result_entry = (\<lambda>a0. if a0 = None then Inl ()
        else Inr \<lparr>qcmvbre2_id = the a0\<rparr>),
      build_delete_message_batch_request_entry = (\<lambda>a0 a1. if a0 = None \<or> a1 = None then Inl ()
        else Inr \<lparr>qdmbre_id = the a0, qdmbre_receipt_handle = the a1\<rparr>),
      build_delete_message_batch_result_entry = (\<lambda>a0. if a0 = None then Inl ()
        else Inr \<lparr>qdmbre2_id = the a0\<rparr>),
      build_list_message_move_tasks_result_entry = (\<lambda>a0 a1 a2 a3 a4 a5 a6 a7 a8. \<lparr>qlmmtre_task_handle = a0, qlmmtre_status = a1, qlmmtre_source_arn = a2, qlmmtre_destination_arn = a3, qlmmtre_max_number_of_messages_per_second = a4, qlmmtre_approximate_number_of_messages_moved = unwrap_or 0 a5, qlmmtre_approximate_number_of_messages_to_move = a6, qlmmtre_failure_reason = a7, qlmmtre_started_timestamp = unwrap_or 0 a8\<rparr>),
      build_message_attribute_value = (\<lambda>a0 a1 a2 a3 a4. if a4 = None then Inl ()
        else Inr \<lparr>qmav_string_value = a0, qmav_binary_value = a1, qmav_string_list_values = a2, qmav_binary_list_values = a3, qmav_data_type = the a4\<rparr>),
      build_message = (\<lambda>a0 a1 a2 a3 a4 a5 a6. \<lparr>qm_message_id = a0, qm_receipt_handle = a1, qm_md5_of_body = a2, qm_body = a3, qm_attributes = a4, qm_md5_of_message_attributes = a5, qm_message_attributes = a6\<rparr>),
      build_message_system_attribute_value = (\<lambda>a0 a1 a2 a3 a4. if a4 = None then Inl ()
        else Inr \<lparr>qmsav_string_value = a0, qmsav_binary_value = a1, qmsav_string_list_values = a2, qmsav_binary_list_values = a3, qmsav_data_type = the a4\<rparr>),
      build_send_message_batch_request_entry = (\<lambda>a0 a1 a2 a3 a4 a5 a6. if a0 = None \<or> a1 = None then Inl ()
        else Inr \<lparr>qsmbre_id = the a0, qsmbre_message_body = the a1, qsmbre_delay_seconds = a2, qsmbre_message_attributes = a3, qsmbre_message_system_attributes = a4, qsmbre_message_deduplication_id = a5, qsmbre_message_group_id = a6\<rparr>),
      build_send_message_batch_result_entry = (\<lambda>a0 a1 a2 a3 a4 a5. if a0 = None \<or> a1 = None \<or> a2 = None then Inl ()
        else Inr \<lparr>qsmbre2_id = the a0, qsmbre2_message_id = the a1, qsmbre2_md5_of_message_body = the a2, qsmbre2_md5_of_message_attributes = a3, qsmbre2_md5_of_message_system_attributes = a4, qsmbre2_sequence_number = a5\<rparr>)\<rparr>"

interpretation std_sqs: sqs_types_laws sqs_std
  by unfold_locales (auto simp: sqs_std_def unwrap_or_def)

locale sqs_conversions = pyo3_laws P + sqs_types_laws S for P S +
  fixes order :: "(string, pyval) fmap \<Rightarrow> (string \<times> pyval) list"
  assumes order: "iterates order"
begin

lemma batch_result_error_entry_reads: "reads (batch_result_error_entry_from_py P S) (batch_result_error_entry_to_py)"
proof (rule readsI)
  show "batch_result_error_entry_to_py v \<noteq> PyNone" for v
    by (simp add: batch_result_error_entry_to_py_def)
  show "batch_result_error_entry_from_py P S (batch_result_error_entry_to_py v) = Inr v" for v
    by (cases v) (simp add: batch_result_error_entry_from_py_def batch_result_error_entry_to_py_def dict_ok py_dict_distinct batch_result_error_entry_built
        member_reads_given [OF reads_str]
        member_reads_given [OF reads_bool]
        member_reads [OF reads_str])
qed

lemma change_message_visibility_batch_request_entry_reads: "reads (change_message_visibility_batch_request_entry_from_py P S) (change_message_visibility_batch_request_entry_to_py)"
proof (rule readsI)
  show "change_message_visibility_batch_request_entry_to_py v \<noteq> PyNone" for v
    by (simp add: change_message_visibility_batch_request_entry_to_py_def)
  show "change_message_visibility_batch_request_entry_from_py P S (change_message_visibility_batch_request_entry_to_py v) = Inr v" for v
    by (cases v) (simp add: change_message_visibility_batch_request_entry_from_py_def change_message_visibility_batch_request_entry_to_py_def dict_ok py_dict_distinct change_message_visibility_batch_request_entry_built
        member_reads_given [OF reads_str]
        member_reads [OF reads_i32])
qed

lemma change_message_visibility_batch_result_entry_reads: "reads (change_message_visibility_batch_result_entry_from_py P S) (change_message_visibility_batch_result_entry_to_py)"
proof (rule readsI)
  show "change_message_visibility_batch_result_entry_to_py v \<noteq> PyNone" for v
    by (simp add: change_message_visibility_batch_result_entry_to_py_def)
  show "change_message_visibility_batch_result_entry_from_py P S (change_message_visibility_batch_result_entry_to_py v) = Inr v" for v
    by (cases v) (simp add: change_message_visibility_batch_result_entry_from_py_def change_message_visibility_batch_result_entry_to_py_def dict_ok py_dict_distinct change_message_visibility_batch_result_entry_built
        member_reads_given [OF reads_str])
qed

lemma delete_message_batch_request_entry_reads: "reads (delete_message_batch_request_entry_from_py P S) (delete_message_batch_request_entry_to_py)"
proof (rule readsI)
  show "delete_message_batch_request_entry_to_py v \<noteq> PyNone" for v
    by (simp add: delete_message_batch_request_entry_to_py_def)
  show "delete_message_batch_request_entry_from_py P S (delete_message_batch_request_entry_to_py v) = Inr v" for v
    by (cases v) (simp add: delete_message_batch_request_entry_from_py_def delete_message_batch_request_entry_to_py_def dict_ok py_dict_distinct delete_message_batch_request_entry_built
        member_reads_given [OF reads_str])
qed

lemma delete_message_batch_result_entry_reads: "reads (delete_message_batch_result_entry_from_py P S) (delete_message_batch_result_entry_to_py)"
proof (rule readsI)
  show "delete_message_batch_result_entry_to_py v \<noteq> PyNone" for v
    by (simp add: delete_message_batch_result_entry_to_py_def)
  show "delete_message_batch_result_entry_from_py P S (delete_message_batch_result_entry_to_py v) = Inr v" for v
    by (cases v) (simp add: delete_message_batch_result_entry_from_py_def delete_message_batch_result_entry_to_py_def dict_ok py_dict_distinct delete_message_batch_result_entry_built
        member_reads_given [OF reads_str])
qed

lemma list_message_move_tasks_result_entry_reads: "reads (list_message_move_tasks_result_entry_from_py P S) (list_message_move_tasks_result_entry_to_py)"
proof (rule readsI)
  show "list_message_move_tasks_result_entry_to_py v \<noteq> PyNone" for v
    by (simp add: list_message_move_tasks_result_entry_to_py_def)
  show "list_message_move_tasks_result_entry_from_py P S (list_message_move_tasks_result_entry_to_py v) = Inr v" for v
    by (cases v) (simp add: list_message_move_tasks_result_entry_from_py_def list_message_move_tasks_result_entry_to_py_def dict_ok py_dict_distinct list_message_move_tasks_result_entry_built
        member_reads [OF reads_str]
        member_reads [OF reads_i32]
        member_reads_given [OF reads_i64]
        member_reads [OF reads_i64])
qed

lemma message_attribute_value_reads: "reads (message_attribute_value_from_py P S) (message_attribute_value_to_py)"
proof (rule readsI)
  show "message_attribute_value_to_py v \<noteq> PyNone" for v
    by (simp add: message_attribute_value_to_py_def)
  show "message_attribute_value_from_py P S (message_attribute_value_to_py v) = Inr v" for v
    by (cases v) (simp add: message_attribute_value_from_py_def message_attribute_value_to_py_def dict_ok py_dict_distinct message_attribute_value_built
        member_reads [OF reads_str]
        member_reads [OF reads_blob]
        member_reads [OF reads_seq [OF reads_str]]
        member_reads [OF reads_seq [OF reads_blob]]
        member_reads_given [OF reads_str])
qed

lemma message_reads: "reads (message_from_py P S) (message_to_py order)"
proof (rule readsI)
  show "message_to_py order v \<noteq> PyNone" for v
    by (simp add: message_to_py_def)
  show "message_from_py P S (message_to_py order v) = Inr v" for v
    by (cases v) (simp add: message_from_py_def message_to_py_def dict_ok py_dict_distinct message_built
        member_reads [OF reads_str]
        member_reads [OF reads_map [OF order reads_str]]
        member_reads [OF reads_map [OF order message_attribute_value_reads]])
qed

lemma message_system_attribute_value_reads: "reads (message_system_attribute_value_from_py P S) (message_system_attribute_value_to_py)"
proof (rule readsI)
  show "message_system_attribute_value_to_py v \<noteq> PyNone" for v
    by (simp add: message_system_attribute_value_to_py_def)
  show "message_system_attribute_value_from_py P S (message_system_attribute_value_to_py v) = Inr v" for v
    by (cases v) (simp add: message_system_attribute_value_from_py_def message_system_attribute_value_to_py_def dict_ok py_dict_distinct message_system_attribute_value_built
        member_reads [OF reads_str]
        member_reads [OF reads_blob]
        member_reads [OF reads_seq [OF reads_str]]
        member_reads [OF reads_seq [OF reads_blob]]
        member_reads_given [OF reads_str])
qed

lemma send_message_batch_request_entry_reads: "reads (send_message_batch_request_entry_from_py P S) (send_message_batch_request_entry_to_py order)"
proof (rule readsI)
  show "send_message_batch_request_entry_to_py order v \<noteq> PyNone" for v
    by (simp add: send_message_batch_request_entry_to_py_def)
  show "send_message_batch_request_entry_from_py P S (send_message_batch_request_entry_to_py order v) = Inr v" for v
    by (cases v) (simp add: send_message_batch_request_entry_from_py_def send_message_batch_request_entry_to_py_def dict_ok py_dict_distinct send_message_batch_request_entry_built
        member_reads_given [OF reads_str]
        member_reads [OF reads_i32]
        member_reads [OF reads_map [OF order message_attribute_value_reads]]
        member_reads [OF reads_map [OF order message_system_attribute_value_reads]]
        member_reads [OF reads_str])
qed

lemma send_message_batch_result_entry_reads: "reads (send_message_batch_result_entry_from_py P S) (send_message_batch_result_entry_to_py)"
proof (rule readsI)
  show "send_message_batch_result_entry_to_py v \<noteq> PyNone" for v
    by (simp add: send_message_batch_result_entry_to_py_def)
  show "send_message_batch_result_entry_from_py P S (send_message_batch_result_entry_to_py v) = Inr v" for v
    by (cases v) (simp add: send_message_batch_result_entry_from_py_def send_message_batch_result_entry_to_py_def dict_ok py_dict_distinct send_message_batch_result_entry_built
        member_reads_given [OF reads_str]
        member_reads [OF reads_str])
qed

end

interpretation std_sqs_conv: sqs_conversions pyo3_std sqs_std by_key
  by (intro sqs_conversions.intro sqs_conversions_axioms.intro std.pyo3_laws_axioms std_sqs.sqs_types_laws_axioms iterates_by_key)

end
