(* ===== verification/SqsOutputs.thy ===== *)
theory SqsOutputs
  imports SqsTypes
begin

text \<open>
  The response objects of the SQS extension, from \<open>crates/rboto-sqs/src/generated.rs\<close>: per class, the
  fields it holds, its getters in order, and \<open>to_dict\<close>. A getter of structures gives objects that
  share them (\<open>Arc::clone\<close>), one per structure of a list or mapping; every other getter gives a
  plain value, and an absent one is \<open>None\<close>. Integers whose width the code does not show are \<open>int\<close>.
\<close>

section \<open>Attributes\<close>

datatype sqs_object =
    SqsBatchResultErrorEntry batch_result_error_entry
  | SqsChangeMessageVisibilityBatchResultEntry change_message_visibility_batch_result_entry
  | SqsDeleteMessageBatchResultEntry delete_message_batch_result_entry
  | SqsListMessageMoveTasksResultEntry list_message_move_tasks_result_entry
  | SqsMessage message
  | SqsMessageAttributeValue message_attribute_value
  | SqsSendMessageBatchResultEntry send_message_batch_result_entry

datatype sqs_attr =
    SqsPlain pyval
  | SqsObject sqs_object
  | SqsObjects "sqs_object list"
  | SqsObjectMap "(string, sqs_object) fmap"

definition sqs_opt_attr :: "('a \<Rightarrow> sqs_attr) \<Rightarrow> 'a option \<Rightarrow> sqs_attr" where
  "sqs_opt_attr f v = (case v of None \<Rightarrow> SqsPlain PyNone | Some x \<Rightarrow> f x)"

section \<open>\<open>BatchResultErrorEntry\<close>\<close>

definition batch_result_error_entry_attributes :: "((string, pyval) fmap \<Rightarrow> (string \<times> pyval) list) \<Rightarrow> sqs_types \<Rightarrow> batch_result_error_entry \<Rightarrow> (string \<times> sqs_attr) list" where
  "batch_result_error_entry_attributes order S v =
     [(''id'', SqsPlain (PyStr (qbree_id v))),
      (''sender_fault'', SqsPlain (PyBool (qbree_sender_fault v))),
      (''code'', SqsPlain (PyStr (qbree_code v))),
      (''message'', SqsPlain (opt_to_py PyStr (qbree_message v)))]"

definition batch_result_error_entry_to_dict :: "((string, pyval) fmap \<Rightarrow> (string \<times> pyval) list) \<Rightarrow> sqs_types \<Rightarrow> batch_result_error_entry \<Rightarrow> pyval" where
  "batch_result_error_entry_to_dict order S v = batch_result_error_entry_to_py v"

section \<open>\<open>ChangeMessageVisibilityBatchResultEntry\<close>\<close>

definition change_message_visibility_batch_result_entry_attributes :: "((string, pyval) fmap \<Rightarrow> (string \<times> pyval) list) \<Rightarrow> sqs_types \<Rightarrow> change_message_visibility_batch_result_entry \<Rightarrow> (string \<times> sqs_attr) list" where
  "change_message_visibility_batch_result_entry_attributes order S v =
     [(''id'', SqsPlain (PyStr (qcmvbre2_id v)))]"

definition change_message_visibility_batch_result_entry_to_dict :: "((string, pyval) fmap \<Rightarrow> (string \<times> pyval) list) \<Rightarrow> sqs_types \<Rightarrow> change_message_visibility_batch_result_entry \<Rightarrow> pyval" where
  "change_message_visibility_batch_result_entry_to_dict order S v = change_message_visibility_batch_result_entry_to_py v"

section \<open>\<open>DeleteMessageBatchResultEntry\<close>\<close>

definition delete_message_batch_result_entry_attributes :: "((string, pyval) fmap \<Rightarrow> (string \<times> pyval) list) \<Rightarrow> sqs_types \<Rightarrow> delete_message_batch_result_entry \<Rightarrow> (string \<times> sqs_attr) list" where
  "delete_message_batch_result_entry_attributes order S v =
     [(''id'', SqsPlain (PyStr (qdmbre2_id v)))]"

definition delete_message_batch_result_entry_to_dict :: "((string, pyval) fmap \<Rightarrow> (string \<times> pyval) list) \<Rightarrow> sqs_types \<Rightarrow> delete_message_batch_result_entry \<Rightarrow> pyval" where
  "delete_message_batch_result_entry_to_dict order S v = delete_message_batch_result_entry_to_py v"

section \<open>\<open>ListMessageMoveTasksResultEntry\<close>\<close>

definition list_message_move_tasks_result_entry_attributes :: "((string, pyval) fmap \<Rightarrow> (string \<times> pyval) list) \<Rightarrow> sqs_types \<Rightarrow> list_message_move_tasks_result_entry \<Rightarrow> (string \<times> sqs_attr) list" where
  "list_message_move_tasks_result_entry_attributes order S v =
     [(''task_handle'', SqsPlain (opt_to_py PyStr (qlmmtre_task_handle v))),
      (''status'', SqsPlain (opt_to_py PyStr (qlmmtre_status v))),
      (''source_arn'', SqsPlain (opt_to_py PyStr (qlmmtre_source_arn v))),
      (''destination_arn'', SqsPlain (opt_to_py PyStr (qlmmtre_destination_arn v))),
      (''max_number_of_messages_per_second'', SqsPlain (opt_to_py i32_to_py (qlmmtre_max_number_of_messages_per_second v))),
      (''approximate_number_of_messages_moved'', SqsPlain (i64_to_py (qlmmtre_approximate_number_of_messages_moved v))),
      (''approximate_number_of_messages_to_move'', SqsPlain (opt_to_py i64_to_py (qlmmtre_approximate_number_of_messages_to_move v))),
      (''failure_reason'', SqsPlain (opt_to_py PyStr (qlmmtre_failure_reason v))),
      (''started_timestamp'', SqsPlain (i64_to_py (qlmmtre_started_timestamp v)))]"

definition list_message_move_tasks_result_entry_to_dict :: "((string, pyval) fmap \<Rightarrow> (string \<times> pyval) list) \<Rightarrow> sqs_types \<Rightarrow> list_message_move_tasks_result_entry \<Rightarrow> pyval" where
  "list_message_move_tasks_result_entry_to_dict order S v = list_message_move_tasks_result_entry_to_py v"

section \<open>\<open>Message\<close>\<close>

definition message_attributes :: "((string, pyval) fmap \<Rightarrow> (string \<times> pyval) list) \<Rightarrow> sqs_types \<Rightarrow> message \<Rightarrow> (string \<times> sqs_attr) list" where
  "message_attributes order S v =
     [(''message_id'', SqsPlain (opt_to_py PyStr (qm_message_id v))),
      (''receipt_handle'', SqsPlain (opt_to_py PyStr (qm_receipt_handle v))),
      (''md5_of_body'', SqsPlain (opt_to_py PyStr (qm_md5_of_body v))),
      (''body'', SqsPlain (opt_to_py PyStr (qm_body v))),
      (''attributes'', SqsPlain (opt_to_py (mapping_to_py order PyStr) (qm_attributes v))),
      (''md5_of_message_attributes'', SqsPlain (opt_to_py PyStr (qm_md5_of_message_attributes v))),
      (''message_attributes'', sqs_opt_attr (\<lambda>m. SqsObjectMap (fmmap SqsMessageAttributeValue m)) (qm_message_attributes v))]"

definition message_to_dict :: "((string, pyval) fmap \<Rightarrow> (string \<times> pyval) list) \<Rightarrow> sqs_types \<Rightarrow> message \<Rightarrow> pyval" where
  "message_to_dict order S v = message_to_py order v"

section \<open>\<open>MessageAttributeValue\<close>\<close>

definition message_attribute_value_attributes :: "((string, pyval) fmap \<Rightarrow> (string \<times> pyval) list) \<Rightarrow> sqs_types \<Rightarrow> message_attribute_value \<Rightarrow> (string \<times> sqs_attr) list" where
  "message_attribute_value_attributes order S v =
     [(''string_value'', SqsPlain (opt_to_py PyStr (qmav_string_value v))),
      (''binary_value'', SqsPlain (opt_to_py PyBytes (qmav_binary_value v))),
      (''string_list_values'', SqsPlain (opt_to_py (seq_to_py PyStr) (qmav_string_list_values v))),
      (''binary_list_values'', SqsPlain (opt_to_py (seq_to_py PyBytes) (qmav_binary_list_values v))),
      (''data_type'', SqsPlain (PyStr (qmav_data_type v)))]"

definition message_attribute_value_to_dict :: "((string, pyval) fmap \<Rightarrow> (string \<times> pyval) list) \<Rightarrow> sqs_types \<Rightarrow> message_attribute_value \<Rightarrow> pyval" where
  "message_attribute_value_to_dict order S v = message_attribute_value_to_py v"

section \<open>\<open>SendMessageBatchResultEntry\<close>\<close>

definition send_message_batch_result_entry_attributes :: "((string, pyval) fmap \<Rightarrow> (string \<times> pyval) list) \<Rightarrow> sqs_types \<Rightarrow> send_message_batch_result_entry \<Rightarrow> (string \<times> sqs_attr) list" where
  "send_message_batch_result_entry_attributes order S v =
     [(''id'', SqsPlain (PyStr (qsmbre2_id v))),
      (''message_id'', SqsPlain (PyStr (qsmbre2_message_id v))),
      (''md5_of_message_body'', SqsPlain (PyStr (qsmbre2_md5_of_message_body v))),
      (''md5_of_message_attributes'', SqsPlain (opt_to_py PyStr (qsmbre2_md5_of_message_attributes v))),
      (''md5_of_message_system_attributes'', SqsPlain (opt_to_py PyStr (qsmbre2_md5_of_message_system_attributes v))),
      (''sequence_number'', SqsPlain (opt_to_py PyStr (qsmbre2_sequence_number v)))]"

definition send_message_batch_result_entry_to_dict :: "((string, pyval) fmap \<Rightarrow> (string \<times> pyval) list) \<Rightarrow> sqs_types \<Rightarrow> send_message_batch_result_entry \<Rightarrow> pyval" where
  "send_message_batch_result_entry_to_dict order S v = send_message_batch_result_entry_to_py v"

section \<open>\<open>CancelMessageMoveTaskOutput\<close>\<close>

record cancel_message_move_task_output =
  qcmmto_approximate_number_of_messages_moved :: int

definition cancel_message_move_task_output_attributes :: "((string, pyval) fmap \<Rightarrow> (string \<times> pyval) list) \<Rightarrow> sqs_types \<Rightarrow> cancel_message_move_task_output \<Rightarrow> (string \<times> sqs_attr) list" where
  "cancel_message_move_task_output_attributes order S v =
     [(''approximate_number_of_messages_moved'', SqsPlain (PyInt (qcmmto_approximate_number_of_messages_moved v)))]"

definition cancel_message_move_task_output_to_dict :: "((string, pyval) fmap \<Rightarrow> (string \<times> pyval) list) \<Rightarrow> sqs_types \<Rightarrow> cancel_message_move_task_output \<Rightarrow> pyval" where
  "cancel_message_move_task_output_to_dict order S v = PyDict (py_dict
     [(''approximate_number_of_messages_moved'', PyInt (qcmmto_approximate_number_of_messages_moved v))])"

section \<open>\<open>ChangeMessageVisibilityBatchOutput\<close>\<close>

record change_message_visibility_batch_output =
  qcmvbo_successful :: "change_message_visibility_batch_result_entry list"
  qcmvbo_failed :: "batch_result_error_entry list"

definition change_message_visibility_batch_output_attributes :: "((string, pyval) fmap \<Rightarrow> (string \<times> pyval) list) \<Rightarrow> sqs_types \<Rightarrow> change_message_visibility_batch_output \<Rightarrow> (string \<times> sqs_attr) list" where
  "change_message_visibility_batch_output_attributes order S v =
     [(''successful'', SqsObjects (map SqsChangeMessageVisibilityBatchResultEntry (qcmvbo_successful v))),
      (''failed'', SqsObjects (map SqsBatchResultErrorEntry (qcmvbo_failed v)))]"

definition change_message_visibility_batch_output_to_dict :: "((string, pyval) fmap \<Rightarrow> (string \<times> pyval) list) \<Rightarrow> sqs_types \<Rightarrow> change_message_visibility_batch_output \<Rightarrow> pyval" where
  "change_message_visibility_batch_output_to_dict order S v = PyDict (py_dict
     [(''successful'', seq_to_py change_message_visibility_batch_result_entry_to_py (qcmvbo_successful v)),
      (''failed'', seq_to_py batch_result_error_entry_to_py (qcmvbo_failed v))])"

section \<open>\<open>CreateQueueOutput\<close>\<close>

record create_queue_output =
  qcqo_queue_url :: "string option"

definition create_queue_output_attributes :: "((string, pyval) fmap \<Rightarrow> (string \<times> pyval) list) \<Rightarrow> sqs_types \<Rightarrow> create_queue_output \<Rightarrow> (string \<times> sqs_attr) list" where
  "create_queue_output_attributes order S v =
     [(''queue_url'', SqsPlain (opt_to_py PyStr (qcqo_queue_url v)))]"

definition create_queue_output_to_dict :: "((string, pyval) fmap \<Rightarrow> (string \<times> pyval) list) \<Rightarrow> sqs_types \<Rightarrow> create_queue_output \<Rightarrow> pyval" where
  "create_queue_output_to_dict order S v = PyDict (py_dict
     [(''queue_url'', opt_to_py PyStr (qcqo_queue_url v))])"

section \<open>\<open>DeleteMessageBatchOutput\<close>\<close>

record delete_message_batch_output =
  qdmbo_successful :: "delete_message_batch_result_entry list"
  qdmbo_failed :: "batch_result_error_entry list"

definition delete_message_batch_output_attributes :: "((string, pyval) fmap \<Rightarrow> (string \<times> pyval) list) \<Rightarrow> sqs_types \<Rightarrow> delete_message_batch_output \<Rightarrow> (string \<times> sqs_attr) list" where
  "delete_message_batch_output_attributes order S v =
     [(''successful'', SqsObjects (map SqsDeleteMessageBatchResultEntry (qdmbo_successful v))),
      (''failed'', SqsObjects (map SqsBatchResultErrorEntry (qdmbo_failed v)))]"

definition delete_message_batch_output_to_dict :: "((string, pyval) fmap \<Rightarrow> (string \<times> pyval) list) \<Rightarrow> sqs_types \<Rightarrow> delete_message_batch_output \<Rightarrow> pyval" where
  "delete_message_batch_output_to_dict order S v = PyDict (py_dict
     [(''successful'', seq_to_py delete_message_batch_result_entry_to_py (qdmbo_successful v)),
      (''failed'', seq_to_py batch_result_error_entry_to_py (qdmbo_failed v))])"

section \<open>\<open>GetQueueAttributesOutput\<close>\<close>

record get_queue_attributes_output =
  qgqao_attributes :: "(string, string) fmap option"

definition get_queue_attributes_output_attributes :: "((string, pyval) fmap \<Rightarrow> (string \<times> pyval) list) \<Rightarrow> sqs_types \<Rightarrow> get_queue_attributes_output \<Rightarrow> (string \<times> sqs_attr) list" where
  "get_queue_attributes_output_attributes order S v =
     [(''attributes'', SqsPlain (opt_to_py (mapping_to_py order PyStr) (qgqao_attributes v)))]"

definition get_queue_attributes_output_to_dict :: "((string, pyval) fmap \<Rightarrow> (string \<times> pyval) list) \<Rightarrow> sqs_types \<Rightarrow> get_queue_attributes_output \<Rightarrow> pyval" where
  "get_queue_attributes_output_to_dict order S v = PyDict (py_dict
     [(''attributes'', opt_to_py (mapping_to_py order PyStr) (qgqao_attributes v))])"

section \<open>\<open>GetQueueUrlOutput\<close>\<close>

record get_queue_url_output =
  qgquo_queue_url :: "string option"

definition get_queue_url_output_attributes :: "((string, pyval) fmap \<Rightarrow> (string \<times> pyval) list) \<Rightarrow> sqs_types \<Rightarrow> get_queue_url_output \<Rightarrow> (string \<times> sqs_attr) list" where
  "get_queue_url_output_attributes order S v =
     [(''queue_url'', SqsPlain (opt_to_py PyStr (qgquo_queue_url v)))]"

definition get_queue_url_output_to_dict :: "((string, pyval) fmap \<Rightarrow> (string \<times> pyval) list) \<Rightarrow> sqs_types \<Rightarrow> get_queue_url_output \<Rightarrow> pyval" where
  "get_queue_url_output_to_dict order S v = PyDict (py_dict
     [(''queue_url'', opt_to_py PyStr (qgquo_queue_url v))])"

section \<open>\<open>ListDeadLetterSourceQueuesOutput\<close>\<close>

record list_dead_letter_source_queues_output =
  qldlsqo_queue_urls :: "string list"
  qldlsqo_next_token :: "string option"

definition list_dead_letter_source_queues_output_attributes :: "((string, pyval) fmap \<Rightarrow> (string \<times> pyval) list) \<Rightarrow> sqs_types \<Rightarrow> list_dead_letter_source_queues_output \<Rightarrow> (string \<times> sqs_attr) list" where
  "list_dead_letter_source_queues_output_attributes order S v =
     [(''queue_urls'', SqsPlain (seq_to_py PyStr (qldlsqo_queue_urls v))),
      (''next_token'', SqsPlain (opt_to_py PyStr (qldlsqo_next_token v)))]"

definition list_dead_letter_source_queues_output_to_dict :: "((string, pyval) fmap \<Rightarrow> (string \<times> pyval) list) \<Rightarrow> sqs_types \<Rightarrow> list_dead_letter_source_queues_output \<Rightarrow> pyval" where
  "list_dead_letter_source_queues_output_to_dict order S v = PyDict (py_dict
     [(''queue_urls'', seq_to_py PyStr (qldlsqo_queue_urls v)),
      (''next_token'', opt_to_py PyStr (qldlsqo_next_token v))])"

section \<open>\<open>ListMessageMoveTasksOutput\<close>\<close>

record list_message_move_tasks_output =
  qlmmto_results :: "list_message_move_tasks_result_entry list option"

definition list_message_move_tasks_output_attributes :: "((string, pyval) fmap \<Rightarrow> (string \<times> pyval) list) \<Rightarrow> sqs_types \<Rightarrow> list_message_move_tasks_output \<Rightarrow> (string \<times> sqs_attr) list" where
  "list_message_move_tasks_output_attributes order S v =
     [(''results'', sqs_opt_attr (\<lambda>xs. SqsObjects (map SqsListMessageMoveTasksResultEntry xs)) (qlmmto_results v))]"

definition list_message_move_tasks_output_to_dict :: "((string, pyval) fmap \<Rightarrow> (string \<times> pyval) list) \<Rightarrow> sqs_types \<Rightarrow> list_message_move_tasks_output \<Rightarrow> pyval" where
  "list_message_move_tasks_output_to_dict order S v = PyDict (py_dict
     [(''results'', opt_to_py (seq_to_py list_message_move_tasks_result_entry_to_py) (qlmmto_results v))])"

section \<open>\<open>ListQueueTagsOutput\<close>\<close>

record list_queue_tags_output =
  qlqto_tags :: "(string, string) fmap option"

definition list_queue_tags_output_attributes :: "((string, pyval) fmap \<Rightarrow> (string \<times> pyval) list) \<Rightarrow> sqs_types \<Rightarrow> list_queue_tags_output \<Rightarrow> (string \<times> sqs_attr) list" where
  "list_queue_tags_output_attributes order S v =
     [(''tags'', SqsPlain (opt_to_py (mapping_to_py order PyStr) (qlqto_tags v)))]"

definition list_queue_tags_output_to_dict :: "((string, pyval) fmap \<Rightarrow> (string \<times> pyval) list) \<Rightarrow> sqs_types \<Rightarrow> list_queue_tags_output \<Rightarrow> pyval" where
  "list_queue_tags_output_to_dict order S v = PyDict (py_dict
     [(''tags'', opt_to_py (mapping_to_py order PyStr) (qlqto_tags v))])"

section \<open>\<open>ListQueuesOutput\<close>\<close>

record list_queues_output =
  qlqo_queue_urls :: "string list option"
  qlqo_next_token :: "string option"

definition list_queues_output_attributes :: "((string, pyval) fmap \<Rightarrow> (string \<times> pyval) list) \<Rightarrow> sqs_types \<Rightarrow> list_queues_output \<Rightarrow> (string \<times> sqs_attr) list" where
  "list_queues_output_attributes order S v =
     [(''queue_urls'', SqsPlain (opt_to_py (seq_to_py PyStr) (qlqo_queue_urls v))),
      (''next_token'', SqsPlain (opt_to_py PyStr (qlqo_next_token v)))]"

definition list_queues_output_to_dict :: "((string, pyval) fmap \<Rightarrow> (string \<times> pyval) list) \<Rightarrow> sqs_types \<Rightarrow> list_queues_output \<Rightarrow> pyval" where
  "list_queues_output_to_dict order S v = PyDict (py_dict
     [(''queue_urls'', opt_to_py (seq_to_py PyStr) (qlqo_queue_urls v)),
      (''next_token'', opt_to_py PyStr (qlqo_next_token v))])"

section \<open>\<open>ReceiveMessageOutput\<close>\<close>

record receive_message_output =
  qrmo_messages :: "message list option"

definition receive_message_output_attributes :: "((string, pyval) fmap \<Rightarrow> (string \<times> pyval) list) \<Rightarrow> sqs_types \<Rightarrow> receive_message_output \<Rightarrow> (string \<times> sqs_attr) list" where
  "receive_message_output_attributes order S v =
     [(''messages'', sqs_opt_attr (\<lambda>xs. SqsObjects (map SqsMessage xs)) (qrmo_messages v))]"

definition receive_message_output_to_dict :: "((string, pyval) fmap \<Rightarrow> (string \<times> pyval) list) \<Rightarrow> sqs_types \<Rightarrow> receive_message_output \<Rightarrow> pyval" where
  "receive_message_output_to_dict order S v = PyDict (py_dict
     [(''messages'', opt_to_py (seq_to_py (message_to_py order)) (qrmo_messages v))])"

section \<open>\<open>SendMessageOutput\<close>\<close>

record send_message_output =
  qsmo_md5_of_message_body :: "string option"
  qsmo_md5_of_message_attributes :: "string option"
  qsmo_md5_of_message_system_attributes :: "string option"
  qsmo_message_id :: "string option"
  qsmo_sequence_number :: "string option"

definition send_message_output_attributes :: "((string, pyval) fmap \<Rightarrow> (string \<times> pyval) list) \<Rightarrow> sqs_types \<Rightarrow> send_message_output \<Rightarrow> (string \<times> sqs_attr) list" where
  "send_message_output_attributes order S v =
     [(''md5_of_message_body'', SqsPlain (opt_to_py PyStr (qsmo_md5_of_message_body v))),
      (''md5_of_message_attributes'', SqsPlain (opt_to_py PyStr (qsmo_md5_of_message_attributes v))),
      (''md5_of_message_system_attributes'', SqsPlain (opt_to_py PyStr (qsmo_md5_of_message_system_attributes v))),
      (''message_id'', SqsPlain (opt_to_py PyStr (qsmo_message_id v))),
      (''sequence_number'', SqsPlain (opt_to_py PyStr (qsmo_sequence_number v)))]"

definition send_message_output_to_dict :: "((string, pyval) fmap \<Rightarrow> (string \<times> pyval) list) \<Rightarrow> sqs_types \<Rightarrow> send_message_output \<Rightarrow> pyval" where
  "send_message_output_to_dict order S v = PyDict (py_dict
     [(''md5_of_message_body'', opt_to_py PyStr (qsmo_md5_of_message_body v)),
      (''md5_of_message_attributes'', opt_to_py PyStr (qsmo_md5_of_message_attributes v)),
      (''md5_of_message_system_attributes'', opt_to_py PyStr (qsmo_md5_of_message_system_attributes v)),
      (''message_id'', opt_to_py PyStr (qsmo_message_id v)),
      (''sequence_number'', opt_to_py PyStr (qsmo_sequence_number v))])"

section \<open>\<open>SendMessageBatchOutput\<close>\<close>

record send_message_batch_output =
  qsmbo_successful :: "send_message_batch_result_entry list"
  qsmbo_failed :: "batch_result_error_entry list"

definition send_message_batch_output_attributes :: "((string, pyval) fmap \<Rightarrow> (string \<times> pyval) list) \<Rightarrow> sqs_types \<Rightarrow> send_message_batch_output \<Rightarrow> (string \<times> sqs_attr) list" where
  "send_message_batch_output_attributes order S v =
     [(''successful'', SqsObjects (map SqsSendMessageBatchResultEntry (qsmbo_successful v))),
      (''failed'', SqsObjects (map SqsBatchResultErrorEntry (qsmbo_failed v)))]"

definition send_message_batch_output_to_dict :: "((string, pyval) fmap \<Rightarrow> (string \<times> pyval) list) \<Rightarrow> sqs_types \<Rightarrow> send_message_batch_output \<Rightarrow> pyval" where
  "send_message_batch_output_to_dict order S v = PyDict (py_dict
     [(''successful'', seq_to_py send_message_batch_result_entry_to_py (qsmbo_successful v)),
      (''failed'', seq_to_py batch_result_error_entry_to_py (qsmbo_failed v))])"

section \<open>\<open>StartMessageMoveTaskOutput\<close>\<close>

record start_message_move_task_output =
  qsmmto_task_handle :: "string option"

definition start_message_move_task_output_attributes :: "((string, pyval) fmap \<Rightarrow> (string \<times> pyval) list) \<Rightarrow> sqs_types \<Rightarrow> start_message_move_task_output \<Rightarrow> (string \<times> sqs_attr) list" where
  "start_message_move_task_output_attributes order S v =
     [(''task_handle'', SqsPlain (opt_to_py PyStr (qsmmto_task_handle v)))]"

definition start_message_move_task_output_to_dict :: "((string, pyval) fmap \<Rightarrow> (string \<times> pyval) list) \<Rightarrow> sqs_types \<Rightarrow> start_message_move_task_output \<Rightarrow> pyval" where
  "start_message_move_task_output_to_dict order S v = PyDict (py_dict
     [(''task_handle'', opt_to_py PyStr (qsmmto_task_handle v))])"

section \<open>Dictionaries and attributes agree\<close>

text \<open>The plain value of an object is what its own \<open>to_dict\<close> gives.\<close>

fun sqs_render_object :: "((string, pyval) fmap \<Rightarrow> (string \<times> pyval) list) \<Rightarrow> sqs_types \<Rightarrow> sqs_object \<Rightarrow> pyval" where
  "sqs_render_object order S (SqsBatchResultErrorEntry v) = batch_result_error_entry_to_dict order S v"
| "sqs_render_object order S (SqsChangeMessageVisibilityBatchResultEntry v) = change_message_visibility_batch_result_entry_to_dict order S v"
| "sqs_render_object order S (SqsDeleteMessageBatchResultEntry v) = delete_message_batch_result_entry_to_dict order S v"
| "sqs_render_object order S (SqsListMessageMoveTasksResultEntry v) = list_message_move_tasks_result_entry_to_dict order S v"
| "sqs_render_object order S (SqsMessage v) = message_to_dict order S v"
| "sqs_render_object order S (SqsMessageAttributeValue v) = message_attribute_value_to_dict order S v"
| "sqs_render_object order S (SqsSendMessageBatchResultEntry v) = send_message_batch_result_entry_to_dict order S v"

fun sqs_render :: "((string, pyval) fmap \<Rightarrow> (string \<times> pyval) list) \<Rightarrow> sqs_types \<Rightarrow> sqs_attr \<Rightarrow> pyval" where
  "sqs_render order S (SqsPlain v) = v"
| "sqs_render order S (SqsObject x) = sqs_render_object order S x"
| "sqs_render order S (SqsObjects xs) = seq_to_py (sqs_render_object order S) xs"
| "sqs_render order S (SqsObjectMap m) = mapping_to_py order (sqs_render_object order S) m"

lemma sqs_render_parts [simp]:
  "sqs_render order S (sqs_opt_attr f v) = opt_to_py (\<lambda>x. sqs_render order S (f x)) v"
  "seq_to_py g (map h xs) = seq_to_py (\<lambda>x. g (h x)) xs"
  "mapping_to_py order g (fmmap k m) = mapping_to_py order (\<lambda>x. g (k x)) m"
  by (simp_all add: sqs_opt_attr_def seq_to_py_def mapping_to_py_def fmap.map_comp comp_def split: option.splits)

definition sqs_attribute_dict :: "((string, pyval) fmap \<Rightarrow> (string \<times> pyval) list) \<Rightarrow> sqs_types \<Rightarrow> (string \<times> sqs_attr) list \<Rightarrow> pyval" where
  "sqs_attribute_dict order S attrs = PyDict (map (\<lambda>(name, a). (PyStr name, sqs_render order S a)) attrs)"

text \<open>
  For each of the 21 response classes, \<open>to_dict\<close> has exactly one entry per attribute, in the order of
  the getters, with the attribute's value: the value itself, or the dictionaries of the objects.
\<close>

lemma batch_result_error_entry_agrees:
  "batch_result_error_entry_to_dict order S v = sqs_attribute_dict order S (batch_result_error_entry_attributes order S v)"
  by (simp add: sqs_attribute_dict_def py_dict_distinct batch_result_error_entry_to_dict_def batch_result_error_entry_attributes_def
      batch_result_error_entry_to_py_def)

lemma change_message_visibility_batch_result_entry_agrees:
  "change_message_visibility_batch_result_entry_to_dict order S v = sqs_attribute_dict order S (change_message_visibility_batch_result_entry_attributes order S v)"
  by (simp add: sqs_attribute_dict_def py_dict_distinct change_message_visibility_batch_result_entry_to_dict_def change_message_visibility_batch_result_entry_attributes_def
      change_message_visibility_batch_result_entry_to_py_def)

lemma delete_message_batch_result_entry_agrees:
  "delete_message_batch_result_entry_to_dict order S v = sqs_attribute_dict order S (delete_message_batch_result_entry_attributes order S v)"
  by (simp add: sqs_attribute_dict_def py_dict_distinct delete_message_batch_result_entry_to_dict_def delete_message_batch_result_entry_attributes_def
      delete_message_batch_result_entry_to_py_def)

lemma list_message_move_tasks_result_entry_agrees:
  "list_message_move_tasks_result_entry_to_dict order S v = sqs_attribute_dict order S (list_message_move_tasks_result_entry_attributes order S v)"
  by (simp add: sqs_attribute_dict_def py_dict_distinct list_message_move_tasks_result_entry_to_dict_def list_message_move_tasks_result_entry_attributes_def
      list_message_move_tasks_result_entry_to_py_def)

lemma message_agrees:
  "message_to_dict order S v = sqs_attribute_dict order S (message_attributes order S v)"
  by (simp add: sqs_attribute_dict_def py_dict_distinct message_to_dict_def message_attributes_def
      message_to_py_def message_attribute_value_to_dict_def)

lemma message_attribute_value_agrees:
  "message_attribute_value_to_dict order S v = sqs_attribute_dict order S (message_attribute_value_attributes order S v)"
  by (simp add: sqs_attribute_dict_def py_dict_distinct message_attribute_value_to_dict_def message_attribute_value_attributes_def
      message_attribute_value_to_py_def)

lemma send_message_batch_result_entry_agrees:
  "send_message_batch_result_entry_to_dict order S v = sqs_attribute_dict order S (send_message_batch_result_entry_attributes order S v)"
  by (simp add: sqs_attribute_dict_def py_dict_distinct send_message_batch_result_entry_to_dict_def send_message_batch_result_entry_attributes_def
      send_message_batch_result_entry_to_py_def)

lemma sqs_outputs_agree:
  "cancel_message_move_task_output_to_dict order S v7 = sqs_attribute_dict order S (cancel_message_move_task_output_attributes order S v7)"
  "change_message_visibility_batch_output_to_dict order S v8 = sqs_attribute_dict order S (change_message_visibility_batch_output_attributes order S v8)"
  "create_queue_output_to_dict order S v9 = sqs_attribute_dict order S (create_queue_output_attributes order S v9)"
  "delete_message_batch_output_to_dict order S v10 = sqs_attribute_dict order S (delete_message_batch_output_attributes order S v10)"
  "get_queue_attributes_output_to_dict order S v11 = sqs_attribute_dict order S (get_queue_attributes_output_attributes order S v11)"
  "get_queue_url_output_to_dict order S v12 = sqs_attribute_dict order S (get_queue_url_output_attributes order S v12)"
  "list_dead_letter_source_queues_output_to_dict order S v13 = sqs_attribute_dict order S (list_dead_letter_source_queues_output_attributes order S v13)"
  "list_message_move_tasks_output_to_dict order S v14 = sqs_attribute_dict order S (list_message_move_tasks_output_attributes order S v14)"
  "list_queue_tags_output_to_dict order S v15 = sqs_attribute_dict order S (list_queue_tags_output_attributes order S v15)"
  "list_queues_output_to_dict order S v16 = sqs_attribute_dict order S (list_queues_output_attributes order S v16)"
  "receive_message_output_to_dict order S v17 = sqs_attribute_dict order S (receive_message_output_attributes order S v17)"
  "send_message_output_to_dict order S v18 = sqs_attribute_dict order S (send_message_output_attributes order S v18)"
  "send_message_batch_output_to_dict order S v19 = sqs_attribute_dict order S (send_message_batch_output_attributes order S v19)"
  "start_message_move_task_output_to_dict order S v20 = sqs_attribute_dict order S (start_message_move_task_output_attributes order S v20)"
  by (simp_all add: sqs_attribute_dict_def py_dict_distinct
      cancel_message_move_task_output_to_dict_def cancel_message_move_task_output_attributes_def
      change_message_visibility_batch_output_to_dict_def change_message_visibility_batch_output_attributes_def
      create_queue_output_to_dict_def create_queue_output_attributes_def
      delete_message_batch_output_to_dict_def delete_message_batch_output_attributes_def
      get_queue_attributes_output_to_dict_def get_queue_attributes_output_attributes_def
      get_queue_url_output_to_dict_def get_queue_url_output_attributes_def
      list_dead_letter_source_queues_output_to_dict_def list_dead_letter_source_queues_output_attributes_def
      list_message_move_tasks_output_to_dict_def list_message_move_tasks_output_attributes_def
      list_queue_tags_output_to_dict_def list_queue_tags_output_attributes_def
      list_queues_output_to_dict_def list_queues_output_attributes_def
      receive_message_output_to_dict_def receive_message_output_attributes_def
      send_message_output_to_dict_def send_message_output_attributes_def
      send_message_batch_output_to_dict_def send_message_batch_output_attributes_def
      start_message_move_task_output_to_dict_def start_message_move_task_output_attributes_def
      batch_result_error_entry_to_dict_def
      change_message_visibility_batch_result_entry_to_dict_def
      delete_message_batch_result_entry_to_dict_def
      list_message_move_tasks_result_entry_to_dict_def
      message_to_dict_def
      message_attribute_value_to_dict_def
      send_message_batch_result_entry_to_dict_def)

end
