(* ===== verification/Sqs.thy ===== *)
theory Sqs
  imports SqsOutputs
begin

text \<open>
  The operations of the SQS client: the methods of \<open>SQSClient\<close> in
  \<open>crates/rboto-sqs/src/generated.rs\<close>, each reading its parameters from a dictionary and sending them
  through the shared \<open>execute\<close>, and the methods of the Python client
  (\<open>packages/rboto-sqs/python/rboto_sqs/client.py\<close>) that build those dictionaries.
\<close>

section \<open>Operations\<close>

subsection \<open>\<open>AddPermission\<close>\<close>

record add_permission_input =
  qapi_queue_url :: "string option"
  qapi_label :: "string option"
  qapi_aws_account_ids :: "string list option"
  qapi_actions :: "string list option"

definition add_permission_params :: "pyo3 \<Rightarrow> sqs_types \<Rightarrow> pydict \<Rightarrow>
    add_permission_input pyresult" where
  "add_permission_params P S params =
     and_then (op_param P ''sqs'' ''AddPermission'' params ''queue_url'' ''str'' (string_from_py P)) (\<lambda>queue_url.
     and_then (op_param P ''sqs'' ''AddPermission'' params ''label'' ''str'' (string_from_py P)) (\<lambda>label.
     and_then (op_param P ''sqs'' ''AddPermission'' params ''aws_account_ids'' ''sequence'' (seq_from_py P ''str'' (string_from_py P))) (\<lambda>aws_account_ids.
     and_then (op_param P ''sqs'' ''AddPermission'' params ''actions'' ''sequence'' (seq_from_py P ''str'' (string_from_py P))) (\<lambda>actions.
     Inr \<lparr>qapi_queue_url = queue_url,
       qapi_label = label,
       qapi_aws_account_ids = aws_account_ids,
       qapi_actions = actions\<rparr>))))"

definition add_permission :: "('cfg, 'client) service_env \<Rightarrow> pyo3 \<Rightarrow> sqs_types \<Rightarrow> unit pyresult \<Rightarrow> bool \<Rightarrow>
    ('client \<Rightarrow> add_permission_input \<Rightarrow> trip list \<times> (('e, http_response) sdk_error + unit)) \<Rightarrow>
    'client client_handle \<Rightarrow> pydict \<Rightarrow> pydict option \<Rightarrow>
    (unit pyresult \<times> 'client client_handle \<times> pydict option) option" where
  "add_permission E P S bridge interrupted send c params observation =
     execute E bridge interrupted send no_details ''AddPermission'' (add_permission_params P S params) c observation"

definition add_permission_call :: "add_permission_input \<Rightarrow> pydict" where
  "add_permission_call i = py_params
     [(''queue_url'', opt_to_py PyStr (qapi_queue_url i)),
      (''label'', opt_to_py PyStr (qapi_label i)),
      (''aws_account_ids'', opt_to_py (seq_to_py PyStr) (qapi_aws_account_ids i)),
      (''actions'', opt_to_py (seq_to_py PyStr) (qapi_actions i))]
     []"

subsection \<open>\<open>CancelMessageMoveTask\<close>\<close>

record cancel_message_move_task_input =
  qcmmti_task_handle :: "string option"

definition cancel_message_move_task_params :: "pyo3 \<Rightarrow> sqs_types \<Rightarrow> pydict \<Rightarrow>
    cancel_message_move_task_input pyresult" where
  "cancel_message_move_task_params P S params =
     and_then (op_param P ''sqs'' ''CancelMessageMoveTask'' params ''task_handle'' ''str'' (string_from_py P)) (\<lambda>task_handle.
     Inr \<lparr>qcmmti_task_handle = task_handle\<rparr>)"

definition cancel_message_move_task :: "('cfg, 'client) service_env \<Rightarrow> pyo3 \<Rightarrow> sqs_types \<Rightarrow> unit pyresult \<Rightarrow> bool \<Rightarrow>
    ('client \<Rightarrow> cancel_message_move_task_input \<Rightarrow> trip list \<times> (('e, http_response) sdk_error + cancel_message_move_task_output)) \<Rightarrow>
    'client client_handle \<Rightarrow> pydict \<Rightarrow> pydict option \<Rightarrow>
    (cancel_message_move_task_output pyresult \<times> 'client client_handle \<times> pydict option) option" where
  "cancel_message_move_task E P S bridge interrupted send c params observation =
     execute E bridge interrupted send no_details ''CancelMessageMoveTask'' (cancel_message_move_task_params P S params) c observation"

definition cancel_message_move_task_call :: "cancel_message_move_task_input \<Rightarrow> pydict" where
  "cancel_message_move_task_call i = py_params
     [(''task_handle'', opt_to_py PyStr (qcmmti_task_handle i))]
     []"

subsection \<open>\<open>ChangeMessageVisibility\<close>\<close>

record change_message_visibility_input =
  qcmvi_queue_url :: "string option"
  qcmvi_receipt_handle :: "string option"
  qcmvi_visibility_timeout :: "32 word option"

definition change_message_visibility_params :: "pyo3 \<Rightarrow> sqs_types \<Rightarrow> pydict \<Rightarrow>
    change_message_visibility_input pyresult" where
  "change_message_visibility_params P S params =
     and_then (op_param P ''sqs'' ''ChangeMessageVisibility'' params ''queue_url'' ''str'' (string_from_py P)) (\<lambda>queue_url.
     and_then (op_param P ''sqs'' ''ChangeMessageVisibility'' params ''receipt_handle'' ''str'' (string_from_py P)) (\<lambda>receipt_handle.
     and_then (op_param P ''sqs'' ''ChangeMessageVisibility'' params ''visibility_timeout'' ''int'' (i32_from_py P)) (\<lambda>visibility_timeout.
     Inr \<lparr>qcmvi_queue_url = queue_url,
       qcmvi_receipt_handle = receipt_handle,
       qcmvi_visibility_timeout = visibility_timeout\<rparr>)))"

definition change_message_visibility :: "('cfg, 'client) service_env \<Rightarrow> pyo3 \<Rightarrow> sqs_types \<Rightarrow> unit pyresult \<Rightarrow> bool \<Rightarrow>
    ('client \<Rightarrow> change_message_visibility_input \<Rightarrow> trip list \<times> (('e, http_response) sdk_error + unit)) \<Rightarrow>
    'client client_handle \<Rightarrow> pydict \<Rightarrow> pydict option \<Rightarrow>
    (unit pyresult \<times> 'client client_handle \<times> pydict option) option" where
  "change_message_visibility E P S bridge interrupted send c params observation =
     execute E bridge interrupted send no_details ''ChangeMessageVisibility'' (change_message_visibility_params P S params) c observation"

definition change_message_visibility_call :: "change_message_visibility_input \<Rightarrow> pydict" where
  "change_message_visibility_call i = py_params
     [(''queue_url'', opt_to_py PyStr (qcmvi_queue_url i)),
      (''receipt_handle'', opt_to_py PyStr (qcmvi_receipt_handle i)),
      (''visibility_timeout'', opt_to_py i32_to_py (qcmvi_visibility_timeout i))]
     []"

subsection \<open>\<open>ChangeMessageVisibilityBatch\<close>\<close>

record change_message_visibility_batch_input =
  qcmvbi_queue_url :: "string option"
  qcmvbi_entries :: "change_message_visibility_batch_request_entry list option"

definition change_message_visibility_batch_params :: "pyo3 \<Rightarrow> sqs_types \<Rightarrow> pydict \<Rightarrow>
    change_message_visibility_batch_input pyresult" where
  "change_message_visibility_batch_params P S params =
     and_then (op_param P ''sqs'' ''ChangeMessageVisibilityBatch'' params ''queue_url'' ''str'' (string_from_py P)) (\<lambda>queue_url.
     and_then (op_param P ''sqs'' ''ChangeMessageVisibilityBatch'' params ''entries'' ''sequence'' (seq_from_py P ''dict (ChangeMessageVisibilityBatchRequestEntry)'' (change_message_visibility_batch_request_entry_from_py P S))) (\<lambda>entries.
     Inr \<lparr>qcmvbi_queue_url = queue_url,
       qcmvbi_entries = entries\<rparr>))"

definition change_message_visibility_batch :: "('cfg, 'client) service_env \<Rightarrow> pyo3 \<Rightarrow> sqs_types \<Rightarrow> unit pyresult \<Rightarrow> bool \<Rightarrow>
    ('client \<Rightarrow> change_message_visibility_batch_input \<Rightarrow> trip list \<times> (('e, http_response) sdk_error + change_message_visibility_batch_output)) \<Rightarrow>
    'client client_handle \<Rightarrow> pydict \<Rightarrow> pydict option \<Rightarrow>
    (change_message_visibility_batch_output pyresult \<times> 'client client_handle \<times> pydict option) option" where
  "change_message_visibility_batch E P S bridge interrupted send c params observation =
     execute E bridge interrupted send no_details ''ChangeMessageVisibilityBatch'' (change_message_visibility_batch_params P S params) c observation"

definition change_message_visibility_batch_call :: "change_message_visibility_batch_input \<Rightarrow> pydict" where
  "change_message_visibility_batch_call i = py_params
     [(''queue_url'', opt_to_py PyStr (qcmvbi_queue_url i)),
      (''entries'', opt_to_py (seq_to_py change_message_visibility_batch_request_entry_to_py) (qcmvbi_entries i))]
     []"

subsection \<open>\<open>CreateQueue\<close>\<close>

record create_queue_input =
  qcqi_queue_name :: "string option"
  qcqi_attributes :: "(string, string) fmap option"
  qcqi_tags :: "(string, string) fmap option"

definition create_queue_params :: "pyo3 \<Rightarrow> sqs_types \<Rightarrow> pydict \<Rightarrow>
    create_queue_input pyresult" where
  "create_queue_params P S params =
     and_then (op_param P ''sqs'' ''CreateQueue'' params ''queue_name'' ''str'' (string_from_py P)) (\<lambda>queue_name.
     and_then (op_param P ''sqs'' ''CreateQueue'' params ''attributes'' ''dict'' (map_from_py P ''str (QueueAttributeName)'' ''str'' (string_from_py P))) (\<lambda>attributes.
     and_then (op_param P ''sqs'' ''CreateQueue'' params ''tags'' ''dict'' (map_from_py P ''str'' ''str'' (string_from_py P))) (\<lambda>tags.
     Inr \<lparr>qcqi_queue_name = queue_name,
       qcqi_attributes = attributes,
       qcqi_tags = tags\<rparr>)))"

definition create_queue :: "('cfg, 'client) service_env \<Rightarrow> pyo3 \<Rightarrow> sqs_types \<Rightarrow> unit pyresult \<Rightarrow> bool \<Rightarrow>
    ('client \<Rightarrow> create_queue_input \<Rightarrow> trip list \<times> (('e, http_response) sdk_error + create_queue_output)) \<Rightarrow>
    'client client_handle \<Rightarrow> pydict \<Rightarrow> pydict option \<Rightarrow>
    (create_queue_output pyresult \<times> 'client client_handle \<times> pydict option) option" where
  "create_queue E P S bridge interrupted send c params observation =
     execute E bridge interrupted send no_details ''CreateQueue'' (create_queue_params P S params) c observation"

definition create_queue_call :: "((string, pyval) fmap \<Rightarrow> (string \<times> pyval) list) \<Rightarrow> create_queue_input \<Rightarrow> pydict" where
  "create_queue_call order i = py_params
     [(''queue_name'', opt_to_py PyStr (qcqi_queue_name i))]
     [(''attributes'', opt_to_py (mapping_to_py order PyStr) (qcqi_attributes i)),
      (''tags'', opt_to_py (mapping_to_py order PyStr) (qcqi_tags i))]"

subsection \<open>\<open>DeleteMessage\<close>\<close>

record delete_message_input =
  qdmi_queue_url :: "string option"
  qdmi_receipt_handle :: "string option"

definition delete_message_params :: "pyo3 \<Rightarrow> sqs_types \<Rightarrow> pydict \<Rightarrow>
    delete_message_input pyresult" where
  "delete_message_params P S params =
     and_then (op_param P ''sqs'' ''DeleteMessage'' params ''queue_url'' ''str'' (string_from_py P)) (\<lambda>queue_url.
     and_then (op_param P ''sqs'' ''DeleteMessage'' params ''receipt_handle'' ''str'' (string_from_py P)) (\<lambda>receipt_handle.
     Inr \<lparr>qdmi_queue_url = queue_url,
       qdmi_receipt_handle = receipt_handle\<rparr>))"

definition delete_message :: "('cfg, 'client) service_env \<Rightarrow> pyo3 \<Rightarrow> sqs_types \<Rightarrow> unit pyresult \<Rightarrow> bool \<Rightarrow>
    ('client \<Rightarrow> delete_message_input \<Rightarrow> trip list \<times> (('e, http_response) sdk_error + unit)) \<Rightarrow>
    'client client_handle \<Rightarrow> pydict \<Rightarrow> pydict option \<Rightarrow>
    (unit pyresult \<times> 'client client_handle \<times> pydict option) option" where
  "delete_message E P S bridge interrupted send c params observation =
     execute E bridge interrupted send no_details ''DeleteMessage'' (delete_message_params P S params) c observation"

definition delete_message_call :: "delete_message_input \<Rightarrow> pydict" where
  "delete_message_call i = py_params
     [(''queue_url'', opt_to_py PyStr (qdmi_queue_url i)),
      (''receipt_handle'', opt_to_py PyStr (qdmi_receipt_handle i))]
     []"

subsection \<open>\<open>DeleteMessageBatch\<close>\<close>

record delete_message_batch_input =
  qdmbi_queue_url :: "string option"
  qdmbi_entries :: "delete_message_batch_request_entry list option"

definition delete_message_batch_params :: "pyo3 \<Rightarrow> sqs_types \<Rightarrow> pydict \<Rightarrow>
    delete_message_batch_input pyresult" where
  "delete_message_batch_params P S params =
     and_then (op_param P ''sqs'' ''DeleteMessageBatch'' params ''queue_url'' ''str'' (string_from_py P)) (\<lambda>queue_url.
     and_then (op_param P ''sqs'' ''DeleteMessageBatch'' params ''entries'' ''sequence'' (seq_from_py P ''dict (DeleteMessageBatchRequestEntry)'' (delete_message_batch_request_entry_from_py P S))) (\<lambda>entries.
     Inr \<lparr>qdmbi_queue_url = queue_url,
       qdmbi_entries = entries\<rparr>))"

definition delete_message_batch :: "('cfg, 'client) service_env \<Rightarrow> pyo3 \<Rightarrow> sqs_types \<Rightarrow> unit pyresult \<Rightarrow> bool \<Rightarrow>
    ('client \<Rightarrow> delete_message_batch_input \<Rightarrow> trip list \<times> (('e, http_response) sdk_error + delete_message_batch_output)) \<Rightarrow>
    'client client_handle \<Rightarrow> pydict \<Rightarrow> pydict option \<Rightarrow>
    (delete_message_batch_output pyresult \<times> 'client client_handle \<times> pydict option) option" where
  "delete_message_batch E P S bridge interrupted send c params observation =
     execute E bridge interrupted send no_details ''DeleteMessageBatch'' (delete_message_batch_params P S params) c observation"

definition delete_message_batch_call :: "delete_message_batch_input \<Rightarrow> pydict" where
  "delete_message_batch_call i = py_params
     [(''queue_url'', opt_to_py PyStr (qdmbi_queue_url i)),
      (''entries'', opt_to_py (seq_to_py delete_message_batch_request_entry_to_py) (qdmbi_entries i))]
     []"

subsection \<open>\<open>DeleteQueue\<close>\<close>

record delete_queue_input =
  qdqi_queue_url :: "string option"

definition delete_queue_params :: "pyo3 \<Rightarrow> sqs_types \<Rightarrow> pydict \<Rightarrow>
    delete_queue_input pyresult" where
  "delete_queue_params P S params =
     and_then (op_param P ''sqs'' ''DeleteQueue'' params ''queue_url'' ''str'' (string_from_py P)) (\<lambda>queue_url.
     Inr \<lparr>qdqi_queue_url = queue_url\<rparr>)"

definition delete_queue :: "('cfg, 'client) service_env \<Rightarrow> pyo3 \<Rightarrow> sqs_types \<Rightarrow> unit pyresult \<Rightarrow> bool \<Rightarrow>
    ('client \<Rightarrow> delete_queue_input \<Rightarrow> trip list \<times> (('e, http_response) sdk_error + unit)) \<Rightarrow>
    'client client_handle \<Rightarrow> pydict \<Rightarrow> pydict option \<Rightarrow>
    (unit pyresult \<times> 'client client_handle \<times> pydict option) option" where
  "delete_queue E P S bridge interrupted send c params observation =
     execute E bridge interrupted send no_details ''DeleteQueue'' (delete_queue_params P S params) c observation"

definition delete_queue_call :: "delete_queue_input \<Rightarrow> pydict" where
  "delete_queue_call i = py_params
     [(''queue_url'', opt_to_py PyStr (qdqi_queue_url i))]
     []"

subsection \<open>\<open>GetQueueAttributes\<close>\<close>

record get_queue_attributes_input =
  qgqai_queue_url :: "string option"
  qgqai_attribute_names :: "string list option"

definition get_queue_attributes_params :: "pyo3 \<Rightarrow> sqs_types \<Rightarrow> pydict \<Rightarrow>
    get_queue_attributes_input pyresult" where
  "get_queue_attributes_params P S params =
     and_then (op_param P ''sqs'' ''GetQueueAttributes'' params ''queue_url'' ''str'' (string_from_py P)) (\<lambda>queue_url.
     and_then (op_param P ''sqs'' ''GetQueueAttributes'' params ''attribute_names'' ''sequence'' (seq_from_py P ''str (QueueAttributeName)'' (enum_from_py P))) (\<lambda>attribute_names.
     Inr \<lparr>qgqai_queue_url = queue_url,
       qgqai_attribute_names = attribute_names\<rparr>))"

definition get_queue_attributes :: "('cfg, 'client) service_env \<Rightarrow> pyo3 \<Rightarrow> sqs_types \<Rightarrow> unit pyresult \<Rightarrow> bool \<Rightarrow>
    ('client \<Rightarrow> get_queue_attributes_input \<Rightarrow> trip list \<times> (('e, http_response) sdk_error + get_queue_attributes_output)) \<Rightarrow>
    'client client_handle \<Rightarrow> pydict \<Rightarrow> pydict option \<Rightarrow>
    (get_queue_attributes_output pyresult \<times> 'client client_handle \<times> pydict option) option" where
  "get_queue_attributes E P S bridge interrupted send c params observation =
     execute E bridge interrupted send no_details ''GetQueueAttributes'' (get_queue_attributes_params P S params) c observation"

definition get_queue_attributes_call :: "get_queue_attributes_input \<Rightarrow> pydict" where
  "get_queue_attributes_call i = py_params
     [(''queue_url'', opt_to_py PyStr (qgqai_queue_url i))]
     [(''attribute_names'', opt_to_py (seq_to_py PyStr) (qgqai_attribute_names i))]"

subsection \<open>\<open>GetQueueUrl\<close>\<close>

record get_queue_url_input =
  qgqui_queue_name :: "string option"
  qgqui_queue_owner_aws_account_id :: "string option"

definition get_queue_url_params :: "pyo3 \<Rightarrow> sqs_types \<Rightarrow> pydict \<Rightarrow>
    get_queue_url_input pyresult" where
  "get_queue_url_params P S params =
     and_then (op_param P ''sqs'' ''GetQueueUrl'' params ''queue_name'' ''str'' (string_from_py P)) (\<lambda>queue_name.
     and_then (op_param P ''sqs'' ''GetQueueUrl'' params ''queue_owner_aws_account_id'' ''str'' (string_from_py P)) (\<lambda>queue_owner_aws_account_id.
     Inr \<lparr>qgqui_queue_name = queue_name,
       qgqui_queue_owner_aws_account_id = queue_owner_aws_account_id\<rparr>))"

definition get_queue_url :: "('cfg, 'client) service_env \<Rightarrow> pyo3 \<Rightarrow> sqs_types \<Rightarrow> unit pyresult \<Rightarrow> bool \<Rightarrow>
    ('client \<Rightarrow> get_queue_url_input \<Rightarrow> trip list \<times> (('e, http_response) sdk_error + get_queue_url_output)) \<Rightarrow>
    'client client_handle \<Rightarrow> pydict \<Rightarrow> pydict option \<Rightarrow>
    (get_queue_url_output pyresult \<times> 'client client_handle \<times> pydict option) option" where
  "get_queue_url E P S bridge interrupted send c params observation =
     execute E bridge interrupted send no_details ''GetQueueUrl'' (get_queue_url_params P S params) c observation"

definition get_queue_url_call :: "get_queue_url_input \<Rightarrow> pydict" where
  "get_queue_url_call i = py_params
     [(''queue_name'', opt_to_py PyStr (qgqui_queue_name i))]
     [(''queue_owner_aws_account_id'', opt_to_py PyStr (qgqui_queue_owner_aws_account_id i))]"

subsection \<open>\<open>ListDeadLetterSourceQueues\<close>\<close>

record list_dead_letter_source_queues_input =
  qldlsqi_queue_url :: "string option"
  qldlsqi_next_token :: "string option"
  qldlsqi_max_results :: "32 word option"

definition list_dead_letter_source_queues_params :: "pyo3 \<Rightarrow> sqs_types \<Rightarrow> pydict \<Rightarrow>
    list_dead_letter_source_queues_input pyresult" where
  "list_dead_letter_source_queues_params P S params =
     and_then (op_param P ''sqs'' ''ListDeadLetterSourceQueues'' params ''queue_url'' ''str'' (string_from_py P)) (\<lambda>queue_url.
     and_then (op_param P ''sqs'' ''ListDeadLetterSourceQueues'' params ''next_token'' ''str'' (string_from_py P)) (\<lambda>next_token.
     and_then (op_param P ''sqs'' ''ListDeadLetterSourceQueues'' params ''max_results'' ''int'' (i32_from_py P)) (\<lambda>max_results.
     Inr \<lparr>qldlsqi_queue_url = queue_url,
       qldlsqi_next_token = next_token,
       qldlsqi_max_results = max_results\<rparr>)))"

definition list_dead_letter_source_queues :: "('cfg, 'client) service_env \<Rightarrow> pyo3 \<Rightarrow> sqs_types \<Rightarrow> unit pyresult \<Rightarrow> bool \<Rightarrow>
    ('client \<Rightarrow> list_dead_letter_source_queues_input \<Rightarrow> trip list \<times> (('e, http_response) sdk_error + list_dead_letter_source_queues_output)) \<Rightarrow>
    'client client_handle \<Rightarrow> pydict \<Rightarrow> pydict option \<Rightarrow>
    (list_dead_letter_source_queues_output pyresult \<times> 'client client_handle \<times> pydict option) option" where
  "list_dead_letter_source_queues E P S bridge interrupted send c params observation =
     execute E bridge interrupted send no_details ''ListDeadLetterSourceQueues'' (list_dead_letter_source_queues_params P S params) c observation"

definition list_dead_letter_source_queues_call :: "list_dead_letter_source_queues_input \<Rightarrow> pydict" where
  "list_dead_letter_source_queues_call i = py_params
     [(''queue_url'', opt_to_py PyStr (qldlsqi_queue_url i))]
     [(''next_token'', opt_to_py PyStr (qldlsqi_next_token i)),
      (''max_results'', opt_to_py i32_to_py (qldlsqi_max_results i))]"

subsection \<open>\<open>ListMessageMoveTasks\<close>\<close>

record list_message_move_tasks_input =
  qlmmti_source_arn :: "string option"
  qlmmti_max_results :: "32 word option"

definition list_message_move_tasks_params :: "pyo3 \<Rightarrow> sqs_types \<Rightarrow> pydict \<Rightarrow>
    list_message_move_tasks_input pyresult" where
  "list_message_move_tasks_params P S params =
     and_then (op_param P ''sqs'' ''ListMessageMoveTasks'' params ''source_arn'' ''str'' (string_from_py P)) (\<lambda>source_arn.
     and_then (op_param P ''sqs'' ''ListMessageMoveTasks'' params ''max_results'' ''int'' (i32_from_py P)) (\<lambda>max_results.
     Inr \<lparr>qlmmti_source_arn = source_arn,
       qlmmti_max_results = max_results\<rparr>))"

definition list_message_move_tasks :: "('cfg, 'client) service_env \<Rightarrow> pyo3 \<Rightarrow> sqs_types \<Rightarrow> unit pyresult \<Rightarrow> bool \<Rightarrow>
    ('client \<Rightarrow> list_message_move_tasks_input \<Rightarrow> trip list \<times> (('e, http_response) sdk_error + list_message_move_tasks_output)) \<Rightarrow>
    'client client_handle \<Rightarrow> pydict \<Rightarrow> pydict option \<Rightarrow>
    (list_message_move_tasks_output pyresult \<times> 'client client_handle \<times> pydict option) option" where
  "list_message_move_tasks E P S bridge interrupted send c params observation =
     execute E bridge interrupted send no_details ''ListMessageMoveTasks'' (list_message_move_tasks_params P S params) c observation"

definition list_message_move_tasks_call :: "list_message_move_tasks_input \<Rightarrow> pydict" where
  "list_message_move_tasks_call i = py_params
     [(''source_arn'', opt_to_py PyStr (qlmmti_source_arn i))]
     [(''max_results'', opt_to_py i32_to_py (qlmmti_max_results i))]"

subsection \<open>\<open>ListQueueTags\<close>\<close>

record list_queue_tags_input =
  qlqti_queue_url :: "string option"

definition list_queue_tags_params :: "pyo3 \<Rightarrow> sqs_types \<Rightarrow> pydict \<Rightarrow>
    list_queue_tags_input pyresult" where
  "list_queue_tags_params P S params =
     and_then (op_param P ''sqs'' ''ListQueueTags'' params ''queue_url'' ''str'' (string_from_py P)) (\<lambda>queue_url.
     Inr \<lparr>qlqti_queue_url = queue_url\<rparr>)"

definition list_queue_tags :: "('cfg, 'client) service_env \<Rightarrow> pyo3 \<Rightarrow> sqs_types \<Rightarrow> unit pyresult \<Rightarrow> bool \<Rightarrow>
    ('client \<Rightarrow> list_queue_tags_input \<Rightarrow> trip list \<times> (('e, http_response) sdk_error + list_queue_tags_output)) \<Rightarrow>
    'client client_handle \<Rightarrow> pydict \<Rightarrow> pydict option \<Rightarrow>
    (list_queue_tags_output pyresult \<times> 'client client_handle \<times> pydict option) option" where
  "list_queue_tags E P S bridge interrupted send c params observation =
     execute E bridge interrupted send no_details ''ListQueueTags'' (list_queue_tags_params P S params) c observation"

definition list_queue_tags_call :: "list_queue_tags_input \<Rightarrow> pydict" where
  "list_queue_tags_call i = py_params
     [(''queue_url'', opt_to_py PyStr (qlqti_queue_url i))]
     []"

subsection \<open>\<open>ListQueues\<close>\<close>

record list_queues_input =
  qlqi_queue_name_prefix :: "string option"
  qlqi_next_token :: "string option"
  qlqi_max_results :: "32 word option"

definition list_queues_params :: "pyo3 \<Rightarrow> sqs_types \<Rightarrow> pydict \<Rightarrow>
    list_queues_input pyresult" where
  "list_queues_params P S params =
     and_then (op_param P ''sqs'' ''ListQueues'' params ''queue_name_prefix'' ''str'' (string_from_py P)) (\<lambda>queue_name_prefix.
     and_then (op_param P ''sqs'' ''ListQueues'' params ''next_token'' ''str'' (string_from_py P)) (\<lambda>next_token.
     and_then (op_param P ''sqs'' ''ListQueues'' params ''max_results'' ''int'' (i32_from_py P)) (\<lambda>max_results.
     Inr \<lparr>qlqi_queue_name_prefix = queue_name_prefix,
       qlqi_next_token = next_token,
       qlqi_max_results = max_results\<rparr>)))"

definition list_queues :: "('cfg, 'client) service_env \<Rightarrow> pyo3 \<Rightarrow> sqs_types \<Rightarrow> unit pyresult \<Rightarrow> bool \<Rightarrow>
    ('client \<Rightarrow> list_queues_input \<Rightarrow> trip list \<times> (('e, http_response) sdk_error + list_queues_output)) \<Rightarrow>
    'client client_handle \<Rightarrow> pydict \<Rightarrow> pydict option \<Rightarrow>
    (list_queues_output pyresult \<times> 'client client_handle \<times> pydict option) option" where
  "list_queues E P S bridge interrupted send c params observation =
     execute E bridge interrupted send no_details ''ListQueues'' (list_queues_params P S params) c observation"

definition list_queues_call :: "list_queues_input \<Rightarrow> pydict" where
  "list_queues_call i = py_params
     []
     [(''queue_name_prefix'', opt_to_py PyStr (qlqi_queue_name_prefix i)),
      (''next_token'', opt_to_py PyStr (qlqi_next_token i)),
      (''max_results'', opt_to_py i32_to_py (qlqi_max_results i))]"

subsection \<open>\<open>PurgeQueue\<close>\<close>

record purge_queue_input =
  qpqi_queue_url :: "string option"

definition purge_queue_params :: "pyo3 \<Rightarrow> sqs_types \<Rightarrow> pydict \<Rightarrow>
    purge_queue_input pyresult" where
  "purge_queue_params P S params =
     and_then (op_param P ''sqs'' ''PurgeQueue'' params ''queue_url'' ''str'' (string_from_py P)) (\<lambda>queue_url.
     Inr \<lparr>qpqi_queue_url = queue_url\<rparr>)"

definition purge_queue :: "('cfg, 'client) service_env \<Rightarrow> pyo3 \<Rightarrow> sqs_types \<Rightarrow> unit pyresult \<Rightarrow> bool \<Rightarrow>
    ('client \<Rightarrow> purge_queue_input \<Rightarrow> trip list \<times> (('e, http_response) sdk_error + unit)) \<Rightarrow>
    'client client_handle \<Rightarrow> pydict \<Rightarrow> pydict option \<Rightarrow>
    (unit pyresult \<times> 'client client_handle \<times> pydict option) option" where
  "purge_queue E P S bridge interrupted send c params observation =
     execute E bridge interrupted send no_details ''PurgeQueue'' (purge_queue_params P S params) c observation"

definition purge_queue_call :: "purge_queue_input \<Rightarrow> pydict" where
  "purge_queue_call i = py_params
     [(''queue_url'', opt_to_py PyStr (qpqi_queue_url i))]
     []"

subsection \<open>\<open>ReceiveMessage\<close>\<close>

record receive_message_input =
  qrmi_queue_url :: "string option"
  qrmi_attribute_names :: "string list option"
  qrmi_message_system_attribute_names :: "string list option"
  qrmi_message_attribute_names :: "string list option"
  qrmi_max_number_of_messages :: "32 word option"
  qrmi_visibility_timeout :: "32 word option"
  qrmi_wait_time_seconds :: "32 word option"
  qrmi_receive_request_attempt_id :: "string option"

definition receive_message_params_1 :: "pyo3 \<Rightarrow> sqs_types \<Rightarrow> pydict \<Rightarrow>
    (string option \<times> string list option \<times> string list option) pyresult" where
  "receive_message_params_1 P S params =
     and_then (op_param P ''sqs'' ''ReceiveMessage'' params ''queue_url'' ''str'' (string_from_py P)) (\<lambda>queue_url.
     and_then (op_param P ''sqs'' ''ReceiveMessage'' params ''attribute_names'' ''sequence'' (seq_from_py P ''str (QueueAttributeName)'' (enum_from_py P))) (\<lambda>attribute_names.
     and_then (op_param P ''sqs'' ''ReceiveMessage'' params ''message_system_attribute_names'' ''sequence'' (seq_from_py P ''str (MessageSystemAttributeName)'' (enum_from_py P))) (\<lambda>message_system_attribute_names.
     Inr (queue_url, attribute_names, message_system_attribute_names))))"

definition receive_message_params_2 :: "pyo3 \<Rightarrow> sqs_types \<Rightarrow> pydict \<Rightarrow>
    (string list option \<times> 32 word option \<times> 32 word option \<times> 32 word option \<times> string option) pyresult" where
  "receive_message_params_2 P S params =
     and_then (op_param P ''sqs'' ''ReceiveMessage'' params ''message_attribute_names'' ''sequence'' (seq_from_py P ''str'' (string_from_py P))) (\<lambda>message_attribute_names.
     and_then (op_param P ''sqs'' ''ReceiveMessage'' params ''max_number_of_messages'' ''int'' (i32_from_py P)) (\<lambda>max_number_of_messages.
     and_then (op_param P ''sqs'' ''ReceiveMessage'' params ''visibility_timeout'' ''int'' (i32_from_py P)) (\<lambda>visibility_timeout.
     and_then (op_param P ''sqs'' ''ReceiveMessage'' params ''wait_time_seconds'' ''int'' (i32_from_py P)) (\<lambda>wait_time_seconds.
     and_then (op_param P ''sqs'' ''ReceiveMessage'' params ''receive_request_attempt_id'' ''str'' (string_from_py P)) (\<lambda>receive_request_attempt_id.
     Inr (message_attribute_names, max_number_of_messages, visibility_timeout, wait_time_seconds, receive_request_attempt_id))))))"

definition receive_message_params :: "pyo3 \<Rightarrow> sqs_types \<Rightarrow> pydict \<Rightarrow>
    receive_message_input pyresult" where
  "receive_message_params P S params =
     and_then (receive_message_params_1 P S params) (\<lambda>(queue_url, attribute_names, message_system_attribute_names).
     and_then (receive_message_params_2 P S params) (\<lambda>(message_attribute_names, max_number_of_messages, visibility_timeout, wait_time_seconds, receive_request_attempt_id).
     Inr \<lparr>qrmi_queue_url = queue_url,
       qrmi_attribute_names = attribute_names,
       qrmi_message_system_attribute_names = message_system_attribute_names,
       qrmi_message_attribute_names = message_attribute_names,
       qrmi_max_number_of_messages = max_number_of_messages,
       qrmi_visibility_timeout = visibility_timeout,
       qrmi_wait_time_seconds = wait_time_seconds,
       qrmi_receive_request_attempt_id = receive_request_attempt_id\<rparr>))"

definition receive_message :: "('cfg, 'client) service_env \<Rightarrow> pyo3 \<Rightarrow> sqs_types \<Rightarrow> unit pyresult \<Rightarrow> bool \<Rightarrow>
    ('client \<Rightarrow> receive_message_input \<Rightarrow> trip list \<times> (('e, http_response) sdk_error + receive_message_output)) \<Rightarrow>
    'client client_handle \<Rightarrow> pydict \<Rightarrow> pydict option \<Rightarrow>
    (receive_message_output pyresult \<times> 'client client_handle \<times> pydict option) option" where
  "receive_message E P S bridge interrupted send c params observation =
     execute E bridge interrupted send no_details ''ReceiveMessage'' (receive_message_params P S params) c observation"

definition receive_message_call :: "receive_message_input \<Rightarrow> pydict" where
  "receive_message_call i = py_params
     [(''queue_url'', opt_to_py PyStr (qrmi_queue_url i))]
     [(''attribute_names'', opt_to_py (seq_to_py PyStr) (qrmi_attribute_names i)),
      (''message_system_attribute_names'', opt_to_py (seq_to_py PyStr) (qrmi_message_system_attribute_names i)),
      (''message_attribute_names'', opt_to_py (seq_to_py PyStr) (qrmi_message_attribute_names i)),
      (''max_number_of_messages'', opt_to_py i32_to_py (qrmi_max_number_of_messages i)),
      (''visibility_timeout'', opt_to_py i32_to_py (qrmi_visibility_timeout i)),
      (''wait_time_seconds'', opt_to_py i32_to_py (qrmi_wait_time_seconds i)),
      (''receive_request_attempt_id'', opt_to_py PyStr (qrmi_receive_request_attempt_id i))]"

subsection \<open>\<open>RemovePermission\<close>\<close>

record remove_permission_input =
  qrpi_queue_url :: "string option"
  qrpi_label :: "string option"

definition remove_permission_params :: "pyo3 \<Rightarrow> sqs_types \<Rightarrow> pydict \<Rightarrow>
    remove_permission_input pyresult" where
  "remove_permission_params P S params =
     and_then (op_param P ''sqs'' ''RemovePermission'' params ''queue_url'' ''str'' (string_from_py P)) (\<lambda>queue_url.
     and_then (op_param P ''sqs'' ''RemovePermission'' params ''label'' ''str'' (string_from_py P)) (\<lambda>label.
     Inr \<lparr>qrpi_queue_url = queue_url,
       qrpi_label = label\<rparr>))"

definition remove_permission :: "('cfg, 'client) service_env \<Rightarrow> pyo3 \<Rightarrow> sqs_types \<Rightarrow> unit pyresult \<Rightarrow> bool \<Rightarrow>
    ('client \<Rightarrow> remove_permission_input \<Rightarrow> trip list \<times> (('e, http_response) sdk_error + unit)) \<Rightarrow>
    'client client_handle \<Rightarrow> pydict \<Rightarrow> pydict option \<Rightarrow>
    (unit pyresult \<times> 'client client_handle \<times> pydict option) option" where
  "remove_permission E P S bridge interrupted send c params observation =
     execute E bridge interrupted send no_details ''RemovePermission'' (remove_permission_params P S params) c observation"

definition remove_permission_call :: "remove_permission_input \<Rightarrow> pydict" where
  "remove_permission_call i = py_params
     [(''queue_url'', opt_to_py PyStr (qrpi_queue_url i)),
      (''label'', opt_to_py PyStr (qrpi_label i))]
     []"

subsection \<open>\<open>SendMessage\<close>\<close>

record send_message_input =
  qsmi_queue_url :: "string option"
  qsmi_message_body :: "string option"
  qsmi_delay_seconds :: "32 word option"
  qsmi_message_attributes :: "(string, message_attribute_value) fmap option"
  qsmi_message_system_attributes :: "(string, message_system_attribute_value) fmap option"
  qsmi_message_deduplication_id :: "string option"
  qsmi_message_group_id :: "string option"

definition send_message_params_1 :: "pyo3 \<Rightarrow> sqs_types \<Rightarrow> pydict \<Rightarrow>
    (string option \<times> string option \<times> 32 word option \<times> (string, message_attribute_value) fmap option) pyresult" where
  "send_message_params_1 P S params =
     and_then (op_param P ''sqs'' ''SendMessage'' params ''queue_url'' ''str'' (string_from_py P)) (\<lambda>queue_url.
     and_then (op_param P ''sqs'' ''SendMessage'' params ''message_body'' ''str'' (string_from_py P)) (\<lambda>message_body.
     and_then (op_param P ''sqs'' ''SendMessage'' params ''delay_seconds'' ''int'' (i32_from_py P)) (\<lambda>delay_seconds.
     and_then (op_param P ''sqs'' ''SendMessage'' params ''message_attributes'' ''dict'' (map_from_py P ''str'' ''dict (MessageAttributeValue)'' (message_attribute_value_from_py P S))) (\<lambda>message_attributes.
     Inr (queue_url, message_body, delay_seconds, message_attributes)))))"

definition send_message_params_2 :: "pyo3 \<Rightarrow> sqs_types \<Rightarrow> pydict \<Rightarrow>
    ((string, message_system_attribute_value) fmap option \<times> string option \<times> string option) pyresult" where
  "send_message_params_2 P S params =
     and_then (op_param P ''sqs'' ''SendMessage'' params ''message_system_attributes'' ''dict'' (map_from_py P ''str (MessageSystemAttributeNameForSends)'' ''dict (MessageSystemAttributeValue)'' (message_system_attribute_value_from_py P S))) (\<lambda>message_system_attributes.
     and_then (op_param P ''sqs'' ''SendMessage'' params ''message_deduplication_id'' ''str'' (string_from_py P)) (\<lambda>message_deduplication_id.
     and_then (op_param P ''sqs'' ''SendMessage'' params ''message_group_id'' ''str'' (string_from_py P)) (\<lambda>message_group_id.
     Inr (message_system_attributes, message_deduplication_id, message_group_id))))"

definition send_message_params :: "pyo3 \<Rightarrow> sqs_types \<Rightarrow> pydict \<Rightarrow>
    send_message_input pyresult" where
  "send_message_params P S params =
     and_then (send_message_params_1 P S params) (\<lambda>(queue_url, message_body, delay_seconds, message_attributes).
     and_then (send_message_params_2 P S params) (\<lambda>(message_system_attributes, message_deduplication_id, message_group_id).
     Inr \<lparr>qsmi_queue_url = queue_url,
       qsmi_message_body = message_body,
       qsmi_delay_seconds = delay_seconds,
       qsmi_message_attributes = message_attributes,
       qsmi_message_system_attributes = message_system_attributes,
       qsmi_message_deduplication_id = message_deduplication_id,
       qsmi_message_group_id = message_group_id\<rparr>))"

definition send_message :: "('cfg, 'client) service_env \<Rightarrow> pyo3 \<Rightarrow> sqs_types \<Rightarrow> unit pyresult \<Rightarrow> bool \<Rightarrow>
    ('client \<Rightarrow> send_message_input \<Rightarrow> trip list \<times> (('e, http_response) sdk_error + send_message_output)) \<Rightarrow>
    'client client_handle \<Rightarrow> pydict \<Rightarrow> pydict option \<Rightarrow>
    (send_message_output pyresult \<times> 'client client_handle \<times> pydict option) option" where
  "send_message E P S bridge interrupted send c params observation =
     execute E bridge interrupted send no_details ''SendMessage'' (send_message_params P S params) c observation"

definition send_message_call :: "((string, pyval) fmap \<Rightarrow> (string \<times> pyval) list) \<Rightarrow> send_message_input \<Rightarrow> pydict" where
  "send_message_call order i = py_params
     [(''queue_url'', opt_to_py PyStr (qsmi_queue_url i)),
      (''message_body'', opt_to_py PyStr (qsmi_message_body i))]
     [(''delay_seconds'', opt_to_py i32_to_py (qsmi_delay_seconds i)),
      (''message_attributes'', opt_to_py (mapping_to_py order message_attribute_value_to_py) (qsmi_message_attributes i)),
      (''message_system_attributes'', opt_to_py (mapping_to_py order message_system_attribute_value_to_py) (qsmi_message_system_attributes i)),
      (''message_deduplication_id'', opt_to_py PyStr (qsmi_message_deduplication_id i)),
      (''message_group_id'', opt_to_py PyStr (qsmi_message_group_id i))]"

subsection \<open>\<open>SendMessageBatch\<close>\<close>

record send_message_batch_input =
  qsmbi_queue_url :: "string option"
  qsmbi_entries :: "send_message_batch_request_entry list option"

definition send_message_batch_params :: "pyo3 \<Rightarrow> sqs_types \<Rightarrow> pydict \<Rightarrow>
    send_message_batch_input pyresult" where
  "send_message_batch_params P S params =
     and_then (op_param P ''sqs'' ''SendMessageBatch'' params ''queue_url'' ''str'' (string_from_py P)) (\<lambda>queue_url.
     and_then (op_param P ''sqs'' ''SendMessageBatch'' params ''entries'' ''sequence'' (seq_from_py P ''dict (SendMessageBatchRequestEntry)'' (send_message_batch_request_entry_from_py P S))) (\<lambda>entries.
     Inr \<lparr>qsmbi_queue_url = queue_url,
       qsmbi_entries = entries\<rparr>))"

definition send_message_batch :: "('cfg, 'client) service_env \<Rightarrow> pyo3 \<Rightarrow> sqs_types \<Rightarrow> unit pyresult \<Rightarrow> bool \<Rightarrow>
    ('client \<Rightarrow> send_message_batch_input \<Rightarrow> trip list \<times> (('e, http_response) sdk_error + send_message_batch_output)) \<Rightarrow>
    'client client_handle \<Rightarrow> pydict \<Rightarrow> pydict option \<Rightarrow>
    (send_message_batch_output pyresult \<times> 'client client_handle \<times> pydict option) option" where
  "send_message_batch E P S bridge interrupted send c params observation =
     execute E bridge interrupted send no_details ''SendMessageBatch'' (send_message_batch_params P S params) c observation"

definition send_message_batch_call :: "((string, pyval) fmap \<Rightarrow> (string \<times> pyval) list) \<Rightarrow> send_message_batch_input \<Rightarrow> pydict" where
  "send_message_batch_call order i = py_params
     [(''queue_url'', opt_to_py PyStr (qsmbi_queue_url i)),
      (''entries'', opt_to_py (seq_to_py (send_message_batch_request_entry_to_py order)) (qsmbi_entries i))]
     []"

subsection \<open>\<open>SetQueueAttributes\<close>\<close>

record set_queue_attributes_input =
  qsqai_queue_url :: "string option"
  qsqai_attributes :: "(string, string) fmap option"

definition set_queue_attributes_params :: "pyo3 \<Rightarrow> sqs_types \<Rightarrow> pydict \<Rightarrow>
    set_queue_attributes_input pyresult" where
  "set_queue_attributes_params P S params =
     and_then (op_param P ''sqs'' ''SetQueueAttributes'' params ''queue_url'' ''str'' (string_from_py P)) (\<lambda>queue_url.
     and_then (op_param P ''sqs'' ''SetQueueAttributes'' params ''attributes'' ''dict'' (map_from_py P ''str (QueueAttributeName)'' ''str'' (string_from_py P))) (\<lambda>attributes.
     Inr \<lparr>qsqai_queue_url = queue_url,
       qsqai_attributes = attributes\<rparr>))"

definition set_queue_attributes :: "('cfg, 'client) service_env \<Rightarrow> pyo3 \<Rightarrow> sqs_types \<Rightarrow> unit pyresult \<Rightarrow> bool \<Rightarrow>
    ('client \<Rightarrow> set_queue_attributes_input \<Rightarrow> trip list \<times> (('e, http_response) sdk_error + unit)) \<Rightarrow>
    'client client_handle \<Rightarrow> pydict \<Rightarrow> pydict option \<Rightarrow>
    (unit pyresult \<times> 'client client_handle \<times> pydict option) option" where
  "set_queue_attributes E P S bridge interrupted send c params observation =
     execute E bridge interrupted send no_details ''SetQueueAttributes'' (set_queue_attributes_params P S params) c observation"

definition set_queue_attributes_call :: "((string, pyval) fmap \<Rightarrow> (string \<times> pyval) list) \<Rightarrow> set_queue_attributes_input \<Rightarrow> pydict" where
  "set_queue_attributes_call order i = py_params
     [(''queue_url'', opt_to_py PyStr (qsqai_queue_url i)),
      (''attributes'', opt_to_py (mapping_to_py order PyStr) (qsqai_attributes i))]
     []"

subsection \<open>\<open>StartMessageMoveTask\<close>\<close>

record start_message_move_task_input =
  qsmmti_source_arn :: "string option"
  qsmmti_destination_arn :: "string option"
  qsmmti_max_number_of_messages_per_second :: "32 word option"

definition start_message_move_task_params :: "pyo3 \<Rightarrow> sqs_types \<Rightarrow> pydict \<Rightarrow>
    start_message_move_task_input pyresult" where
  "start_message_move_task_params P S params =
     and_then (op_param P ''sqs'' ''StartMessageMoveTask'' params ''source_arn'' ''str'' (string_from_py P)) (\<lambda>source_arn.
     and_then (op_param P ''sqs'' ''StartMessageMoveTask'' params ''destination_arn'' ''str'' (string_from_py P)) (\<lambda>destination_arn.
     and_then (op_param P ''sqs'' ''StartMessageMoveTask'' params ''max_number_of_messages_per_second'' ''int'' (i32_from_py P)) (\<lambda>max_number_of_messages_per_second.
     Inr \<lparr>qsmmti_source_arn = source_arn,
       qsmmti_destination_arn = destination_arn,
       qsmmti_max_number_of_messages_per_second = max_number_of_messages_per_second\<rparr>)))"

definition start_message_move_task :: "('cfg, 'client) service_env \<Rightarrow> pyo3 \<Rightarrow> sqs_types \<Rightarrow> unit pyresult \<Rightarrow> bool \<Rightarrow>
    ('client \<Rightarrow> start_message_move_task_input \<Rightarrow> trip list \<times> (('e, http_response) sdk_error + start_message_move_task_output)) \<Rightarrow>
    'client client_handle \<Rightarrow> pydict \<Rightarrow> pydict option \<Rightarrow>
    (start_message_move_task_output pyresult \<times> 'client client_handle \<times> pydict option) option" where
  "start_message_move_task E P S bridge interrupted send c params observation =
     execute E bridge interrupted send no_details ''StartMessageMoveTask'' (start_message_move_task_params P S params) c observation"

definition start_message_move_task_call :: "start_message_move_task_input \<Rightarrow> pydict" where
  "start_message_move_task_call i = py_params
     [(''source_arn'', opt_to_py PyStr (qsmmti_source_arn i))]
     [(''destination_arn'', opt_to_py PyStr (qsmmti_destination_arn i)),
      (''max_number_of_messages_per_second'', opt_to_py i32_to_py (qsmmti_max_number_of_messages_per_second i))]"

subsection \<open>\<open>TagQueue\<close>\<close>

record tag_queue_input =
  qtqi_queue_url :: "string option"
  qtqi_tags :: "(string, string) fmap option"

definition tag_queue_params :: "pyo3 \<Rightarrow> sqs_types \<Rightarrow> pydict \<Rightarrow>
    tag_queue_input pyresult" where
  "tag_queue_params P S params =
     and_then (op_param P ''sqs'' ''TagQueue'' params ''queue_url'' ''str'' (string_from_py P)) (\<lambda>queue_url.
     and_then (op_param P ''sqs'' ''TagQueue'' params ''tags'' ''dict'' (map_from_py P ''str'' ''str'' (string_from_py P))) (\<lambda>tags.
     Inr \<lparr>qtqi_queue_url = queue_url,
       qtqi_tags = tags\<rparr>))"

definition tag_queue :: "('cfg, 'client) service_env \<Rightarrow> pyo3 \<Rightarrow> sqs_types \<Rightarrow> unit pyresult \<Rightarrow> bool \<Rightarrow>
    ('client \<Rightarrow> tag_queue_input \<Rightarrow> trip list \<times> (('e, http_response) sdk_error + unit)) \<Rightarrow>
    'client client_handle \<Rightarrow> pydict \<Rightarrow> pydict option \<Rightarrow>
    (unit pyresult \<times> 'client client_handle \<times> pydict option) option" where
  "tag_queue E P S bridge interrupted send c params observation =
     execute E bridge interrupted send no_details ''TagQueue'' (tag_queue_params P S params) c observation"

definition tag_queue_call :: "((string, pyval) fmap \<Rightarrow> (string \<times> pyval) list) \<Rightarrow> tag_queue_input \<Rightarrow> pydict" where
  "tag_queue_call order i = py_params
     [(''queue_url'', opt_to_py PyStr (qtqi_queue_url i)),
      (''tags'', opt_to_py (mapping_to_py order PyStr) (qtqi_tags i))]
     []"

subsection \<open>\<open>UntagQueue\<close>\<close>

record untag_queue_input =
  quqi_queue_url :: "string option"
  quqi_tag_keys :: "string list option"

definition untag_queue_params :: "pyo3 \<Rightarrow> sqs_types \<Rightarrow> pydict \<Rightarrow>
    untag_queue_input pyresult" where
  "untag_queue_params P S params =
     and_then (op_param P ''sqs'' ''UntagQueue'' params ''queue_url'' ''str'' (string_from_py P)) (\<lambda>queue_url.
     and_then (op_param P ''sqs'' ''UntagQueue'' params ''tag_keys'' ''sequence'' (seq_from_py P ''str'' (string_from_py P))) (\<lambda>tag_keys.
     Inr \<lparr>quqi_queue_url = queue_url,
       quqi_tag_keys = tag_keys\<rparr>))"

definition untag_queue :: "('cfg, 'client) service_env \<Rightarrow> pyo3 \<Rightarrow> sqs_types \<Rightarrow> unit pyresult \<Rightarrow> bool \<Rightarrow>
    ('client \<Rightarrow> untag_queue_input \<Rightarrow> trip list \<times> (('e, http_response) sdk_error + unit)) \<Rightarrow>
    'client client_handle \<Rightarrow> pydict \<Rightarrow> pydict option \<Rightarrow>
    (unit pyresult \<times> 'client client_handle \<times> pydict option) option" where
  "untag_queue E P S bridge interrupted send c params observation =
     execute E bridge interrupted send no_details ''UntagQueue'' (untag_queue_params P S params) c observation"

definition untag_queue_call :: "untag_queue_input \<Rightarrow> pydict" where
  "untag_queue_call i = py_params
     [(''queue_url'', opt_to_py PyStr (quqi_queue_url i)),
      (''tag_keys'', opt_to_py (seq_to_py PyStr) (quqi_tag_keys i))]
     []"

section \<open>Parameters arrive\<close>

context sqs_conversions
begin

lemma add_permission_delivered: "add_permission_params P S (add_permission_call i) = Inr i"
proof -
  have s: "str_keys (add_permission_call i)" by (simp add: add_permission_call_def)
  note p = arguments [OF add_permission_call_def [of i], simplified]
  have a: "argument (add_permission_call i) ''queue_url'' = opt_to_py PyStr (qapi_queue_url i)"
    "argument (add_permission_call i) ''label'' = opt_to_py PyStr (qapi_label i)"
    "argument (add_permission_call i) ''aws_account_ids'' = opt_to_py (seq_to_py PyStr) (qapi_aws_account_ids i)"
    "argument (add_permission_call i) ''actions'' = opt_to_py (seq_to_py PyStr) (qapi_actions i)"
    by (simp_all only: p)
  show ?thesis
    unfolding add_permission_params_def
    by (simp add: param_reads [OF reads_str s a(1)]
        param_reads [OF reads_str s a(2)]
        param_reads [OF reads_seq [OF reads_str] s a(3)]
        param_reads [OF reads_seq [OF reads_str] s a(4)])
qed

lemma cancel_message_move_task_delivered: "cancel_message_move_task_params P S (cancel_message_move_task_call i) = Inr i"
proof -
  have s: "str_keys (cancel_message_move_task_call i)" by (simp add: cancel_message_move_task_call_def)
  have a: "argument (cancel_message_move_task_call i) ''task_handle'' = opt_to_py PyStr (qcmmti_task_handle i)"
    unfolding cancel_message_move_task_call_def by (simp_all add: argument_py_params)
  show ?thesis
    unfolding cancel_message_move_task_params_def
    by (simp add: param_reads [OF reads_str s a])
qed

lemma change_message_visibility_delivered: "change_message_visibility_params P S (change_message_visibility_call i) = Inr i"
proof -
  have s: "str_keys (change_message_visibility_call i)" by (simp add: change_message_visibility_call_def)
  note p = arguments [OF change_message_visibility_call_def [of i], simplified]
  have a: "argument (change_message_visibility_call i) ''queue_url'' = opt_to_py PyStr (qcmvi_queue_url i)"
    "argument (change_message_visibility_call i) ''receipt_handle'' = opt_to_py PyStr (qcmvi_receipt_handle i)"
    "argument (change_message_visibility_call i) ''visibility_timeout'' = opt_to_py i32_to_py (qcmvi_visibility_timeout i)"
    by (simp_all only: p)
  show ?thesis
    unfolding change_message_visibility_params_def
    by (simp add: param_reads [OF reads_str s a(1)]
        param_reads [OF reads_str s a(2)]
        param_reads [OF reads_i32 s a(3)])
qed

lemma change_message_visibility_batch_delivered: "change_message_visibility_batch_params P S (change_message_visibility_batch_call i) = Inr i"
proof -
  have s: "str_keys (change_message_visibility_batch_call i)" by (simp add: change_message_visibility_batch_call_def)
  have a: "argument (change_message_visibility_batch_call i) ''queue_url'' = opt_to_py PyStr (qcmvbi_queue_url i)"
    "argument (change_message_visibility_batch_call i) ''entries'' = opt_to_py (seq_to_py change_message_visibility_batch_request_entry_to_py) (qcmvbi_entries i)"
    unfolding change_message_visibility_batch_call_def by (simp_all add: argument_py_params)
  show ?thesis
    unfolding change_message_visibility_batch_params_def
    by (simp add: param_reads [OF reads_str s a(1)]
        param_reads [OF reads_seq [OF change_message_visibility_batch_request_entry_reads] s a(2)])
qed

lemma create_queue_delivered: "create_queue_params P S (create_queue_call order i) = Inr i"
proof -
  have s: "str_keys (create_queue_call order i)" by (simp add: create_queue_call_def)
  note p = arguments [OF create_queue_call_def [of order i], simplified]
  have a: "argument (create_queue_call order i) ''queue_name'' = opt_to_py PyStr (qcqi_queue_name i)"
    "argument (create_queue_call order i) ''attributes'' = opt_to_py (mapping_to_py order PyStr) (qcqi_attributes i)"
    "argument (create_queue_call order i) ''tags'' = opt_to_py (mapping_to_py order PyStr) (qcqi_tags i)"
    by (simp_all only: p)
  show ?thesis
    unfolding create_queue_params_def
    by (simp add: param_reads [OF reads_str s a(1)]
        param_reads [OF reads_map [OF order reads_str] s a(2)]
        param_reads [OF reads_map [OF order reads_str] s a(3)])
qed

lemma delete_message_delivered: "delete_message_params P S (delete_message_call i) = Inr i"
proof -
  have s: "str_keys (delete_message_call i)" by (simp add: delete_message_call_def)
  have a: "argument (delete_message_call i) ''queue_url'' = opt_to_py PyStr (qdmi_queue_url i)"
    "argument (delete_message_call i) ''receipt_handle'' = opt_to_py PyStr (qdmi_receipt_handle i)"
    unfolding delete_message_call_def by (simp_all add: argument_py_params)
  show ?thesis
    unfolding delete_message_params_def
    by (simp add: param_reads [OF reads_str s a(1)]
        param_reads [OF reads_str s a(2)])
qed

lemma delete_message_batch_delivered: "delete_message_batch_params P S (delete_message_batch_call i) = Inr i"
proof -
  have s: "str_keys (delete_message_batch_call i)" by (simp add: delete_message_batch_call_def)
  have a: "argument (delete_message_batch_call i) ''queue_url'' = opt_to_py PyStr (qdmbi_queue_url i)"
    "argument (delete_message_batch_call i) ''entries'' = opt_to_py (seq_to_py delete_message_batch_request_entry_to_py) (qdmbi_entries i)"
    unfolding delete_message_batch_call_def by (simp_all add: argument_py_params)
  show ?thesis
    unfolding delete_message_batch_params_def
    by (simp add: param_reads [OF reads_str s a(1)]
        param_reads [OF reads_seq [OF delete_message_batch_request_entry_reads] s a(2)])
qed

lemma delete_queue_delivered: "delete_queue_params P S (delete_queue_call i) = Inr i"
proof -
  have s: "str_keys (delete_queue_call i)" by (simp add: delete_queue_call_def)
  have a: "argument (delete_queue_call i) ''queue_url'' = opt_to_py PyStr (qdqi_queue_url i)"
    unfolding delete_queue_call_def by (simp_all add: argument_py_params)
  show ?thesis
    unfolding delete_queue_params_def
    by (simp add: param_reads [OF reads_str s a])
qed

lemma get_queue_attributes_delivered: "get_queue_attributes_params P S (get_queue_attributes_call i) = Inr i"
proof -
  have s: "str_keys (get_queue_attributes_call i)" by (simp add: get_queue_attributes_call_def)
  have a: "argument (get_queue_attributes_call i) ''queue_url'' = opt_to_py PyStr (qgqai_queue_url i)"
    "argument (get_queue_attributes_call i) ''attribute_names'' = opt_to_py (seq_to_py PyStr) (qgqai_attribute_names i)"
    unfolding get_queue_attributes_call_def by (simp_all add: argument_py_params)
  show ?thesis
    unfolding get_queue_attributes_params_def
    by (simp add: param_reads [OF reads_str s a(1)]
        param_reads [OF reads_seq [OF reads_enum] s a(2)])
qed

lemma get_queue_url_delivered: "get_queue_url_params P S (get_queue_url_call i) = Inr i"
proof -
  have s: "str_keys (get_queue_url_call i)" by (simp add: get_queue_url_call_def)
  have a: "argument (get_queue_url_call i) ''queue_name'' = opt_to_py PyStr (qgqui_queue_name i)"
    "argument (get_queue_url_call i) ''queue_owner_aws_account_id'' = opt_to_py PyStr (qgqui_queue_owner_aws_account_id i)"
    unfolding get_queue_url_call_def by (simp_all add: argument_py_params)
  show ?thesis
    unfolding get_queue_url_params_def
    by (simp add: param_reads [OF reads_str s a(1)]
        param_reads [OF reads_str s a(2)])
qed

lemma list_dead_letter_source_queues_delivered: "list_dead_letter_source_queues_params P S (list_dead_letter_source_queues_call i) = Inr i"
proof -
  have s: "str_keys (list_dead_letter_source_queues_call i)" by (simp add: list_dead_letter_source_queues_call_def)
  note p = arguments [OF list_dead_letter_source_queues_call_def [of i], simplified]
  have a: "argument (list_dead_letter_source_queues_call i) ''queue_url'' = opt_to_py PyStr (qldlsqi_queue_url i)"
    "argument (list_dead_letter_source_queues_call i) ''next_token'' = opt_to_py PyStr (qldlsqi_next_token i)"
    "argument (list_dead_letter_source_queues_call i) ''max_results'' = opt_to_py i32_to_py (qldlsqi_max_results i)"
    by (simp_all only: p)
  show ?thesis
    unfolding list_dead_letter_source_queues_params_def
    by (simp add: param_reads [OF reads_str s a(1)]
        param_reads [OF reads_str s a(2)]
        param_reads [OF reads_i32 s a(3)])
qed

lemma list_message_move_tasks_delivered: "list_message_move_tasks_params P S (list_message_move_tasks_call i) = Inr i"
proof -
  have s: "str_keys (list_message_move_tasks_call i)" by (simp add: list_message_move_tasks_call_def)
  have a: "argument (list_message_move_tasks_call i) ''source_arn'' = opt_to_py PyStr (qlmmti_source_arn i)"
    "argument (list_message_move_tasks_call i) ''max_results'' = opt_to_py i32_to_py (qlmmti_max_results i)"
    unfolding list_message_move_tasks_call_def by (simp_all add: argument_py_params)
  show ?thesis
    unfolding list_message_move_tasks_params_def
    by (simp add: param_reads [OF reads_str s a(1)]
        param_reads [OF reads_i32 s a(2)])
qed

lemma list_queue_tags_delivered: "list_queue_tags_params P S (list_queue_tags_call i) = Inr i"
proof -
  have s: "str_keys (list_queue_tags_call i)" by (simp add: list_queue_tags_call_def)
  have a: "argument (list_queue_tags_call i) ''queue_url'' = opt_to_py PyStr (qlqti_queue_url i)"
    unfolding list_queue_tags_call_def by (simp_all add: argument_py_params)
  show ?thesis
    unfolding list_queue_tags_params_def
    by (simp add: param_reads [OF reads_str s a])
qed

lemma list_queues_delivered: "list_queues_params P S (list_queues_call i) = Inr i"
proof -
  have s: "str_keys (list_queues_call i)" by (simp add: list_queues_call_def)
  note p = arguments [OF list_queues_call_def [of i], simplified]
  have a: "argument (list_queues_call i) ''queue_name_prefix'' = opt_to_py PyStr (qlqi_queue_name_prefix i)"
    "argument (list_queues_call i) ''next_token'' = opt_to_py PyStr (qlqi_next_token i)"
    "argument (list_queues_call i) ''max_results'' = opt_to_py i32_to_py (qlqi_max_results i)"
    by (simp_all only: p)
  show ?thesis
    unfolding list_queues_params_def
    by (simp add: param_reads [OF reads_str s a(1)]
        param_reads [OF reads_str s a(2)]
        param_reads [OF reads_i32 s a(3)])
qed

lemma purge_queue_delivered: "purge_queue_params P S (purge_queue_call i) = Inr i"
proof -
  have s: "str_keys (purge_queue_call i)" by (simp add: purge_queue_call_def)
  have a: "argument (purge_queue_call i) ''queue_url'' = opt_to_py PyStr (qpqi_queue_url i)"
    unfolding purge_queue_call_def by (simp_all add: argument_py_params)
  show ?thesis
    unfolding purge_queue_params_def
    by (simp add: param_reads [OF reads_str s a])
qed

lemma receive_message_delivered: "receive_message_params P S (receive_message_call i) = Inr i"
proof -
  have s: "str_keys (receive_message_call i)" by (simp add: receive_message_call_def)
  note p = arguments [OF receive_message_call_def [of i], simplified]
  have a: "argument (receive_message_call i) ''queue_url'' = opt_to_py PyStr (qrmi_queue_url i)"
    "argument (receive_message_call i) ''attribute_names'' = opt_to_py (seq_to_py PyStr) (qrmi_attribute_names i)"
    "argument (receive_message_call i) ''message_system_attribute_names'' = opt_to_py (seq_to_py PyStr) (qrmi_message_system_attribute_names i)"
    "argument (receive_message_call i) ''message_attribute_names'' = opt_to_py (seq_to_py PyStr) (qrmi_message_attribute_names i)"
    "argument (receive_message_call i) ''max_number_of_messages'' = opt_to_py i32_to_py (qrmi_max_number_of_messages i)"
    "argument (receive_message_call i) ''visibility_timeout'' = opt_to_py i32_to_py (qrmi_visibility_timeout i)"
    "argument (receive_message_call i) ''wait_time_seconds'' = opt_to_py i32_to_py (qrmi_wait_time_seconds i)"
    "argument (receive_message_call i) ''receive_request_attempt_id'' = opt_to_py PyStr (qrmi_receive_request_attempt_id i)"
    by (simp_all only: p)
  show ?thesis
    unfolding receive_message_params_def receive_message_params_1_def receive_message_params_2_def
    by (simp add: param_reads [OF reads_str s a(1)]
        param_reads [OF reads_seq [OF reads_enum] s a(2)]
        param_reads [OF reads_seq [OF reads_enum] s a(3)]
        param_reads [OF reads_seq [OF reads_str] s a(4)]
        param_reads [OF reads_i32 s a(5)]
        param_reads [OF reads_i32 s a(6)]
        param_reads [OF reads_i32 s a(7)]
        param_reads [OF reads_str s a(8)])
qed

lemma remove_permission_delivered: "remove_permission_params P S (remove_permission_call i) = Inr i"
proof -
  have s: "str_keys (remove_permission_call i)" by (simp add: remove_permission_call_def)
  have a: "argument (remove_permission_call i) ''queue_url'' = opt_to_py PyStr (qrpi_queue_url i)"
    "argument (remove_permission_call i) ''label'' = opt_to_py PyStr (qrpi_label i)"
    unfolding remove_permission_call_def by (simp_all add: argument_py_params)
  show ?thesis
    unfolding remove_permission_params_def
    by (simp add: param_reads [OF reads_str s a(1)]
        param_reads [OF reads_str s a(2)])
qed

lemma send_message_delivered: "send_message_params P S (send_message_call order i) = Inr i"
proof -
  have s: "str_keys (send_message_call order i)" by (simp add: send_message_call_def)
  note p = arguments [OF send_message_call_def [of order i], simplified]
  have a: "argument (send_message_call order i) ''queue_url'' = opt_to_py PyStr (qsmi_queue_url i)"
    "argument (send_message_call order i) ''message_body'' = opt_to_py PyStr (qsmi_message_body i)"
    "argument (send_message_call order i) ''delay_seconds'' = opt_to_py i32_to_py (qsmi_delay_seconds i)"
    "argument (send_message_call order i) ''message_attributes'' = opt_to_py (mapping_to_py order message_attribute_value_to_py) (qsmi_message_attributes i)"
    "argument (send_message_call order i) ''message_system_attributes'' = opt_to_py (mapping_to_py order message_system_attribute_value_to_py) (qsmi_message_system_attributes i)"
    "argument (send_message_call order i) ''message_deduplication_id'' = opt_to_py PyStr (qsmi_message_deduplication_id i)"
    "argument (send_message_call order i) ''message_group_id'' = opt_to_py PyStr (qsmi_message_group_id i)"
    by (simp_all only: p)
  show ?thesis
    unfolding send_message_params_def send_message_params_1_def send_message_params_2_def
    by (simp add: param_reads [OF reads_str s a(1)]
        param_reads [OF reads_str s a(2)]
        param_reads [OF reads_i32 s a(3)]
        param_reads [OF reads_map [OF order message_attribute_value_reads] s a(4)]
        param_reads [OF reads_map [OF order message_system_attribute_value_reads] s a(5)]
        param_reads [OF reads_str s a(6)]
        param_reads [OF reads_str s a(7)])
qed

lemma send_message_batch_delivered: "send_message_batch_params P S (send_message_batch_call order i) = Inr i"
proof -
  have s: "str_keys (send_message_batch_call order i)" by (simp add: send_message_batch_call_def)
  have a: "argument (send_message_batch_call order i) ''queue_url'' = opt_to_py PyStr (qsmbi_queue_url i)"
    "argument (send_message_batch_call order i) ''entries'' = opt_to_py (seq_to_py (send_message_batch_request_entry_to_py order)) (qsmbi_entries i)"
    unfolding send_message_batch_call_def by (simp_all add: argument_py_params)
  show ?thesis
    unfolding send_message_batch_params_def
    by (simp add: param_reads [OF reads_str s a(1)]
        param_reads [OF reads_seq [OF send_message_batch_request_entry_reads] s a(2)])
qed

lemma set_queue_attributes_delivered: "set_queue_attributes_params P S (set_queue_attributes_call order i) = Inr i"
proof -
  have s: "str_keys (set_queue_attributes_call order i)" by (simp add: set_queue_attributes_call_def)
  have a: "argument (set_queue_attributes_call order i) ''queue_url'' = opt_to_py PyStr (qsqai_queue_url i)"
    "argument (set_queue_attributes_call order i) ''attributes'' = opt_to_py (mapping_to_py order PyStr) (qsqai_attributes i)"
    unfolding set_queue_attributes_call_def by (simp_all add: argument_py_params)
  show ?thesis
    unfolding set_queue_attributes_params_def
    by (simp add: param_reads [OF reads_str s a(1)]
        param_reads [OF reads_map [OF order reads_str] s a(2)])
qed

lemma start_message_move_task_delivered: "start_message_move_task_params P S (start_message_move_task_call i) = Inr i"
proof -
  have s: "str_keys (start_message_move_task_call i)" by (simp add: start_message_move_task_call_def)
  note p = arguments [OF start_message_move_task_call_def [of i], simplified]
  have a: "argument (start_message_move_task_call i) ''source_arn'' = opt_to_py PyStr (qsmmti_source_arn i)"
    "argument (start_message_move_task_call i) ''destination_arn'' = opt_to_py PyStr (qsmmti_destination_arn i)"
    "argument (start_message_move_task_call i) ''max_number_of_messages_per_second'' = opt_to_py i32_to_py (qsmmti_max_number_of_messages_per_second i)"
    by (simp_all only: p)
  show ?thesis
    unfolding start_message_move_task_params_def
    by (simp add: param_reads [OF reads_str s a(1)]
        param_reads [OF reads_str s a(2)]
        param_reads [OF reads_i32 s a(3)])
qed

lemma tag_queue_delivered: "tag_queue_params P S (tag_queue_call order i) = Inr i"
proof -
  have s: "str_keys (tag_queue_call order i)" by (simp add: tag_queue_call_def)
  have a: "argument (tag_queue_call order i) ''queue_url'' = opt_to_py PyStr (qtqi_queue_url i)"
    "argument (tag_queue_call order i) ''tags'' = opt_to_py (mapping_to_py order PyStr) (qtqi_tags i)"
    unfolding tag_queue_call_def by (simp_all add: argument_py_params)
  show ?thesis
    unfolding tag_queue_params_def
    by (simp add: param_reads [OF reads_str s a(1)]
        param_reads [OF reads_map [OF order reads_str] s a(2)])
qed

lemma untag_queue_delivered: "untag_queue_params P S (untag_queue_call i) = Inr i"
proof -
  have s: "str_keys (untag_queue_call i)" by (simp add: untag_queue_call_def)
  have a: "argument (untag_queue_call i) ''queue_url'' = opt_to_py PyStr (quqi_queue_url i)"
    "argument (untag_queue_call i) ''tag_keys'' = opt_to_py (seq_to_py PyStr) (quqi_tag_keys i)"
    unfolding untag_queue_call_def by (simp_all add: argument_py_params)
  show ?thesis
    unfolding untag_queue_params_def
    by (simp add: param_reads [OF reads_str s a(1)]
        param_reads [OF reads_seq [OF reads_str] s a(2)])
qed

end

section \<open>Properties\<close>

text \<open>
  Every typed parameter of the twenty-three operations of SQS reaches the SDK request,
  mappings included: in whatever order a dictionary lists its entries, the request's \<open>HashMap\<close> has
  exactly those entries, and absent parameters stay absent.
\<close>

lemma sqs_parameters_arrive:
  assumes "pyo3_laws P" and "sqs_types_laws S" and "iterates order"
  shows "tag_queue_params P S (tag_queue_call order i0) = Inr i0
    \<and> add_permission_params P S (add_permission_call i1) = Inr i1
    \<and> cancel_message_move_task_params P S (cancel_message_move_task_call i2) = Inr i2
    \<and> change_message_visibility_params P S (change_message_visibility_call i3) = Inr i3
    \<and> change_message_visibility_batch_params P S (change_message_visibility_batch_call i4) = Inr i4
    \<and> create_queue_params P S (create_queue_call order i5) = Inr i5
    \<and> delete_message_params P S (delete_message_call i6) = Inr i6
    \<and> delete_message_batch_params P S (delete_message_batch_call i7) = Inr i7
    \<and> delete_queue_params P S (delete_queue_call i8) = Inr i8
    \<and> get_queue_attributes_params P S (get_queue_attributes_call i9) = Inr i9
    \<and> get_queue_url_params P S (get_queue_url_call i10) = Inr i10
    \<and> list_dead_letter_source_queues_params P S (list_dead_letter_source_queues_call i11) = Inr i11
    \<and> list_message_move_tasks_params P S (list_message_move_tasks_call i12) = Inr i12
    \<and> list_queue_tags_params P S (list_queue_tags_call i13) = Inr i13
    \<and> list_queues_params P S (list_queues_call i14) = Inr i14
    \<and> purge_queue_params P S (purge_queue_call i15) = Inr i15
    \<and> receive_message_params P S (receive_message_call i16) = Inr i16
    \<and> remove_permission_params P S (remove_permission_call i17) = Inr i17
    \<and> send_message_params P S (send_message_call order i18) = Inr i18
    \<and> send_message_batch_params P S (send_message_batch_call order i19) = Inr i19
    \<and> set_queue_attributes_params P S (set_queue_attributes_call order i20) = Inr i20
    \<and> start_message_move_task_params P S (start_message_move_task_call i21) = Inr i21
    \<and> untag_queue_params P S (untag_queue_call i22) = Inr i22"
proof -
  note conv = sqs_conversions.intro [OF assms(1,2) sqs_conversions_axioms.intro, OF assms(3)]
  show ?thesis
    by (simp add: sqs_conversions.tag_queue_delivered [OF conv]
      sqs_conversions.add_permission_delivered [OF conv]
      sqs_conversions.cancel_message_move_task_delivered [OF conv]
      sqs_conversions.change_message_visibility_delivered [OF conv]
      sqs_conversions.change_message_visibility_batch_delivered [OF conv]
      sqs_conversions.create_queue_delivered [OF conv]
      sqs_conversions.delete_message_delivered [OF conv]
      sqs_conversions.delete_message_batch_delivered [OF conv]
      sqs_conversions.delete_queue_delivered [OF conv]
      sqs_conversions.get_queue_attributes_delivered [OF conv]
      sqs_conversions.get_queue_url_delivered [OF conv]
      sqs_conversions.list_dead_letter_source_queues_delivered [OF conv]
      sqs_conversions.list_message_move_tasks_delivered [OF conv]
      sqs_conversions.list_queue_tags_delivered [OF conv]
      sqs_conversions.list_queues_delivered [OF conv]
      sqs_conversions.purge_queue_delivered [OF conv]
      sqs_conversions.receive_message_delivered [OF conv]
      sqs_conversions.remove_permission_delivered [OF conv]
      sqs_conversions.send_message_delivered [OF conv]
      sqs_conversions.send_message_batch_delivered [OF conv]
      sqs_conversions.set_queue_attributes_delivered [OF conv]
      sqs_conversions.start_message_move_task_delivered [OF conv]
      sqs_conversions.untag_queue_delivered [OF conv])
qed

text \<open>
  A received message can be forwarded and deleted. The application takes a message's
  dictionary, sends its body and attributes on to another queue with \<open>SendMessage\<close>, and deletes it
  with its receipt handle: the requests carry exactly the body, every attribute with its text,
  binary and list values and data type, and the receipt handle of the message; a message without
  attributes is forwarded without any.
\<close>

lemma received_message_forwarded:
  assumes "pyo3_laws P" and "sqs_types_laws S" and "iterates order"
    and "message_to_dict order S m = PyDict d"
  shows "(\<exists>i. send_message_params P S (py_params
          [(''queue_url'', PyStr url), (''message_body'', argument d ''body'')]
          [(''message_attributes'', argument d ''message_attributes'')]) = Inr i
        \<and> qsmi_queue_url i = Some url \<and> qsmi_message_body i = qm_body m
        \<and> qsmi_message_attributes i = qm_message_attributes m
        \<and> qsmi_delay_seconds i = None \<and> qsmi_message_group_id i = None)
    \<and> (\<exists>i. delete_message_params P S (py_params
          [(''queue_url'', PyStr url), (''receipt_handle'', argument d ''receipt_handle'')] []) = Inr i
        \<and> qdmi_queue_url i = Some url \<and> qdmi_receipt_handle i = qm_receipt_handle m)"
proof -
  note conv = sqs_conversions.intro [OF assms(1,2) sqs_conversions_axioms.intro, OF assms(3)]
  have a: "argument d ''body'' = opt_to_py PyStr (qm_body m)"
    "argument d ''message_attributes'' = opt_to_py (mapping_to_py order message_attribute_value_to_py) (qm_message_attributes m)"
    "argument d ''receipt_handle'' = opt_to_py PyStr (qm_receipt_handle m)"
    using assms(4) by (auto simp: message_to_dict_def message_to_py_def argument_def map_of_py_dict)
  let ?i = "\<lparr>qsmi_queue_url = Some url, qsmi_message_body = qm_body m, qsmi_delay_seconds = None,
      qsmi_message_attributes = qm_message_attributes m, qsmi_message_system_attributes = None,
      qsmi_message_deduplication_id = None, qsmi_message_group_id = None\<rparr>"
  have "py_params [(''queue_url'', PyStr url), (''message_body'', argument d ''body'')]
      [(''message_attributes'', argument d ''message_attributes'')] = send_message_call order ?i"
    by (simp add: a send_message_call_def py_params_def)
  moreover have "py_params [(''queue_url'', PyStr url), (''receipt_handle'', argument d ''receipt_handle'')] []
      = delete_message_call \<lparr>qdmi_queue_url = Some url, qdmi_receipt_handle = qm_receipt_handle m\<rparr>"
    by (simp add: a delete_message_call_def)
  ultimately show ?thesis
    by (simp add: sqs_conversions.send_message_delivered [OF conv] sqs_conversions.delete_message_delivered [OF conv])
qed

definition example_message :: message where
  "example_message =
     \<lparr>qm_message_id = Some ''1'', qm_receipt_handle = Some ''h'', qm_md5_of_body = None, qm_body = Some ''hi'',
      qm_attributes = None, qm_md5_of_message_attributes = None,
      qm_message_attributes = Some (fmupd ''n'' \<lparr>qmav_string_value = Some ''7'', qmav_binary_value = None,
        qmav_string_list_values = None, qmav_binary_list_values = None, qmav_data_type = ''Number''\<rparr> fmempty)\<rparr>"

lemma incomplete_batch_entry:
  assumes "pyo3_laws P" and "sqs_types_laws S" and "str_keys t"
    and given: "map_of t (PyStr ''id'') = map_option PyStr oid" "map_of t (PyStr ''message_body'') = map_option PyStr body"
    and others: "\<forall>n \<in> {''delay_seconds'', ''message_attributes'', ''message_system_attributes'',
        ''message_deduplication_id'', ''message_group_id''}. map_of t (PyStr n) = None"
    and lacks: "oid = None \<or> body = None"
  shows "send_message_batch_request_entry_from_py P S (PyDict t) =
    Inl (input_rule (value_error ''missing required member'')
      (Field (if oid = None then ''id'' else ''message_body'')) ''required member'' (Some ''missing''))"
proof -
  have str: "member P t k x (string_from_py P) = Inr v" if "map_of t (PyStr k) = map_option PyStr v" for k x v
    using that assms(1,3)
    by (cases v) (simp_all add: pyo3_laws.member_absent pyo3_laws.member_present pyo3_laws.string_roundtrip)
  have absent: "member P t k x c = Inr None" if "map_of t (PyStr k) = None" for k x and c :: "pyval \<Rightarrow> 'x pyresult"
    using that by (simp add: pyo3_laws.member_absent [OF assms(1,3)])
  have "send_message_batch_request_entry_from_py P S (PyDict t) =
      Inl (input_builder_error P t [(''id'', ''id''), (''message_body'', ''message_body'')])"
    using others str [OF given(1)] str [OF given(2)] lacks
    by (simp add: send_message_batch_request_entry_from_py_def pyo3_laws.dict_ok [OF assms(1)] absent
        pyo3_laws.member_absent [OF assms(1,3)]
        sqs_types_laws.send_message_batch_request_entry_incomplete [OF assms(2)])
  moreover have "input_builder_error P t [(''id'', ''id''), (''message_body'', ''message_body'')] =
      input_rule (value_error ''missing required member'')
        (Field (if oid = None then ''id'' else ''message_body'')) ''required member'' (Some ''missing'')"
    using given lacks by (cases oid; cases body) (simp_all add: pyo3_laws.get_item_ok [OF assms(1,3)])
  ultimately show ?thesis by simp
qed

text \<open>
  An incomplete entry of a batch is reported by its place. When the first entry of
  \<open>SendMessageBatch\<close> that the SDK's builder refuses lacks its id or its body, the operation raises
  under the path \<open>entries[k].id\<close> (or \<open>entries[k].message_body\<close> when the id is there), expected
  \<open>required member\<close>, category \<open>missing\<close>, and nothing is sent: the client and the observation are
  untouched.
\<close>

lemma send_message_batch_names_missing_member:
  assumes laws: "pyo3_laws P" "sqs_types_laws S"
    and opened: "\<not> ch_closed c" "str_keys params" "map_of params (PyStr ''queue_url'') = Some (PyStr url)"
    and entries: "map_of params (PyStr ''entries'') = Some (PyList vs)" "k < length vs" "vs ! k = PyDict t"
      "\<forall>j < k. \<exists>y. send_message_batch_request_entry_from_py P S (vs ! j) = Inr y"
    and entry: "str_keys t" "map_of t (PyStr ''id'') = map_option PyStr oid"
      "map_of t (PyStr ''message_body'') = map_option PyStr body" "oid = None \<or> body = None"
      "\<forall>n \<in> {''delay_seconds'', ''message_attributes'', ''message_system_attributes'',
        ''message_deduplication_id'', ''message_group_id''}. map_of t (PyStr n) = None"
  shows "\<exists>e. send_message_batch E P S bridge interrupted send c params observation = Some (Inl e, c, observation)
    \<and> err_context e = Some (context_for
        [Field ''entries'', Index k, Field (if oid = None then ''id'' else ''message_body'')]
        ''required member'' ''missing'' ''sqs'' ''SendMessageBatch'')"
proof -
  let ?locs = "[(Index k, ''dict (SendMessageBatchRequestEntry)''), (Field ''entries'', ''sequence'')]"
  let ?f = "Field (if oid = None then ''id'' else ''message_body'')"
  let ?e = "input_rule (value_error ''missing required member'') ?f ''required member'' (Some ''missing'')"
  have "seq_from_py P ''dict (SendMessageBatchRequestEntry)'' (send_message_batch_request_entry_from_py P S) (PyList vs)
      = Inl (input_error ?e (Index k) ''dict (SendMessageBatchRequestEntry)'')"
    by (rule pyo3_laws.seq_first_error [OF laws(1) entries(2) _ entries(4)])
      (simp only: entries(3) incomplete_batch_entry [OF laws entry(1,2,3,5,4)])
  then have "send_message_batch_params P S params = Inl (input_operation (unwind ?locs ?e) ''sqs'' ''SendMessageBatch'')"
    by (simp add: send_message_batch_params_def pyo3_laws.op_param_present [OF laws(1) opened(2,3)]
        pyo3_laws.op_param_present [OF laws(1) opened(2) entries(1)] pyo3_laws.string_roundtrip [OF laws(1)])
  then have "send_message_batch E P S bridge interrupted send c params observation =
      Some (Inl (input_operation (unwind ?locs ?e) ''sqs'' ''SendMessageBatch''), c, observation)"
    using opened(1) by (simp add: send_message_batch_def execute_def)
  moreover have "err_context (input_operation (unwind ?locs ?e) ''sqs'' ''SendMessageBatch'') =
      Some (context_for (rev (map fst ?locs) @ [?f]) ''required member'' ''missing'' ''sqs'' ''SendMessageBatch'')"
    by (rule rule_context) (simp_all add: builtin_errors good_path_def is_cont_def byte_of_def)
  ultimately show ?thesis by simp
qed

definition incomplete_entry :: pydict where
  "incomplete_entry = [(PyStr ''id'', PyStr ''b'')]"

definition batch_params :: pydict where
  "batch_params = [(PyStr ''queue_url'', PyStr ''https://q''), (PyStr ''entries'', PyList
     [PyDict [(PyStr ''id'', PyStr ''a''), (PyStr ''message_body'', PyStr ''hi'')], PyDict incomplete_entry])]"

lemma complete_entry_reads:
  "\<exists>y. send_message_batch_request_entry_from_py pyo3_std sqs_std
    (PyDict [(PyStr ''id'', PyStr ''a''), (PyStr ''message_body'', PyStr ''hi'')]) = Inr y"
  by (simp add: send_message_batch_request_entry_from_py_def std.dict_ok std.member_absent std.member_present
      std.string_roundtrip sqs_std_def)

end
