(* ===== verification/SnsTypes.thy ===== *)
theory SnsTypes
  imports Sqs
begin

text \<open>
  The structures of the SNS extension, from \<open>crates/rboto-sns/src/generated.rs\<close>: the converters
  between Python dictionaries and the SDK's structures, which are records with the members the code
  reads and sets. An enum of the SDK is its text, and \<open>order\<close> is the order in which the iterator of
  a \<open>HashMap\<close> yields its entries. The builders belong to the SDK and are the record \<open>sns_types\<close>.
\<close>

section \<open>Structures\<close>

record sns_batch_result_error_entry =
  nbree_id :: string
  nbree_code :: string
  nbree_message :: "string option"
  nbree_sender_fault :: bool

record endpoint =
  ne_endpoint_arn :: "string option"
  ne_attributes :: "(string, string) fmap option"

record sns_message_attribute_value =
  nmav_data_type :: string
  nmav_string_value :: "string option"
  nmav_binary_value :: "byte list option"

record phone_number_information =
  npni_created_at :: "datetime option"
  npni_phone_number :: "string option"
  npni_status :: "string option"
  npni_iso2_country_code :: "string option"
  npni_route_type :: "string option"
  npni_number_capabilities :: "string list option"

record platform_application =
  npa_platform_application_arn :: "string option"
  npa_attributes :: "(string, string) fmap option"

record publish_batch_request_entry =
  npbre_id :: string
  npbre_message :: string
  npbre_subject :: "string option"
  npbre_message_structure :: "string option"
  npbre_message_attributes :: "(string, sns_message_attribute_value) fmap option"
  npbre_message_deduplication_id :: "string option"
  npbre_message_group_id :: "string option"

record publish_batch_result_entry =
  npbre2_id :: "string option"
  npbre2_message_id :: "string option"
  npbre2_sequence_number :: "string option"

record sms_sandbox_phone_number =
  nsspn_phone_number :: "string option"
  nsspn_status :: "string option"

record subscription =
  ns_subscription_arn :: "string option"
  ns_owner :: "string option"
  ns_protocol :: "string option"
  ns_endpoint :: "string option"
  ns_topic_arn :: "string option"

record sns_tag =
  nt_key :: string
  nt_value :: string

record topic =
  nt2_topic_arn :: "string option"

record sns_types = smithy_dates +
  build_sns_batch_result_error_entry :: "string option \<Rightarrow> string option \<Rightarrow> string option \<Rightarrow> bool option \<Rightarrow> unit + sns_batch_result_error_entry"
  build_endpoint :: "string option \<Rightarrow> (string, string) fmap option \<Rightarrow> endpoint"
  build_sns_message_attribute_value :: "string option \<Rightarrow> string option \<Rightarrow> byte list option \<Rightarrow> unit + sns_message_attribute_value"
  build_phone_number_information :: "datetime option \<Rightarrow> string option \<Rightarrow> string option \<Rightarrow> string option \<Rightarrow> string option \<Rightarrow> string list option \<Rightarrow> phone_number_information"
  build_platform_application :: "string option \<Rightarrow> (string, string) fmap option \<Rightarrow> platform_application"
  build_publish_batch_request_entry :: "string option \<Rightarrow> string option \<Rightarrow> string option \<Rightarrow> string option \<Rightarrow> (string, sns_message_attribute_value) fmap option \<Rightarrow> string option \<Rightarrow> string option \<Rightarrow> unit + publish_batch_request_entry"
  build_publish_batch_result_entry :: "string option \<Rightarrow> string option \<Rightarrow> string option \<Rightarrow> publish_batch_result_entry"
  build_sms_sandbox_phone_number :: "string option \<Rightarrow> string option \<Rightarrow> sms_sandbox_phone_number"
  build_subscription :: "string option \<Rightarrow> string option \<Rightarrow> string option \<Rightarrow> string option \<Rightarrow> string option \<Rightarrow> subscription"
  build_sns_tag :: "string option \<Rightarrow> string option \<Rightarrow> unit + sns_tag"
  build_topic :: "string option \<Rightarrow> topic"

section \<open>Converters\<close>

definition sns_batch_result_error_entry_from_py :: "pyo3 \<Rightarrow> sns_types \<Rightarrow> pyval \<Rightarrow> sns_batch_result_error_entry pyresult" where
  "sns_batch_result_error_entry_from_py P S value =
     and_then (cast_dict P value) (\<lambda>values.
     and_then (member P values ''id'' ''str'' (string_from_py P)) (\<lambda>id_value.
     and_then (member P values ''code'' ''str'' (string_from_py P)) (\<lambda>code_value.
     and_then (member P values ''message'' ''str'' (string_from_py P)) (\<lambda>message_value.
     and_then (member P values ''sender_fault'' ''bool'' (bool_from_py P)) (\<lambda>sender_fault_value.
     map_err (\<lambda>_. input_builder_error P values
         [(''id'', ''id''), (''code'', ''code'')])
       (build_sns_batch_result_error_entry S id_value code_value message_value sender_fault_value))))))"

definition sns_batch_result_error_entry_to_py :: "sns_batch_result_error_entry \<Rightarrow> pyval" where
  "sns_batch_result_error_entry_to_py v = PyDict (py_dict
     [(''id'', PyStr (nbree_id v)),
      (''code'', PyStr (nbree_code v)),
      (''message'', opt_to_py PyStr (nbree_message v)),
      (''sender_fault'', PyBool (nbree_sender_fault v))])"

definition endpoint_from_py :: "pyo3 \<Rightarrow> sns_types \<Rightarrow> pyval \<Rightarrow> endpoint pyresult" where
  "endpoint_from_py P S value =
     and_then (cast_dict P value) (\<lambda>values.
     and_then (member P values ''endpoint_arn'' ''str'' (string_from_py P)) (\<lambda>endpoint_arn_value.
     and_then (member P values ''attributes'' ''dict'' (map_from_py P ''str'' ''str'' (string_from_py P))) (\<lambda>attributes_value.
     Inr (build_endpoint S endpoint_arn_value attributes_value))))"

definition endpoint_to_py :: "((string, pyval) fmap \<Rightarrow> (string \<times> pyval) list) \<Rightarrow> endpoint \<Rightarrow> pyval" where
  "endpoint_to_py order v = PyDict (py_dict
     [(''endpoint_arn'', opt_to_py PyStr (ne_endpoint_arn v)),
      (''attributes'', opt_to_py (mapping_to_py order PyStr) (ne_attributes v))])"

definition sns_message_attribute_value_from_py :: "pyo3 \<Rightarrow> sns_types \<Rightarrow> pyval \<Rightarrow> sns_message_attribute_value pyresult" where
  "sns_message_attribute_value_from_py P S value =
     and_then (cast_dict P value) (\<lambda>values.
     and_then (member P values ''data_type'' ''str'' (string_from_py P)) (\<lambda>data_type_value.
     and_then (member P values ''string_value'' ''str'' (string_from_py P)) (\<lambda>string_value_value.
     and_then (member P values ''binary_value'' ''bytes'' (blob_from_py P)) (\<lambda>binary_value_value.
     map_err (\<lambda>_. input_builder_error P values
         [(''data_type'', ''data_type'')])
       (build_sns_message_attribute_value S data_type_value string_value_value binary_value_value)))))"

definition sns_message_attribute_value_to_py :: "sns_message_attribute_value \<Rightarrow> pyval" where
  "sns_message_attribute_value_to_py v = PyDict (py_dict
     [(''data_type'', PyStr (nmav_data_type v)),
      (''string_value'', opt_to_py PyStr (nmav_string_value v)),
      (''binary_value'', opt_to_py PyBytes (nmav_binary_value v))])"

definition phone_number_information_from_py :: "pyo3 \<Rightarrow> sns_types \<Rightarrow> pyval \<Rightarrow> phone_number_information pyresult" where
  "phone_number_information_from_py P S value =
     and_then (cast_dict P value) (\<lambda>values.
     and_then (member P values ''created_at'' ''ISO 8601 timestamp string'' (datetime_from_py P S)) (\<lambda>created_at_value.
     and_then (member P values ''phone_number'' ''str'' (string_from_py P)) (\<lambda>phone_number_value.
     and_then (member P values ''status'' ''str'' (string_from_py P)) (\<lambda>status_value.
     and_then (member P values ''iso2_country_code'' ''str'' (string_from_py P)) (\<lambda>iso2_country_code_value.
     and_then (member P values ''route_type'' ''str (RouteType)'' (enum_from_py P)) (\<lambda>route_type_value.
     and_then (member P values ''number_capabilities'' ''sequence'' (seq_from_py P ''str (NumberCapability)'' (enum_from_py P))) (\<lambda>number_capabilities_value.
     Inr (build_phone_number_information S created_at_value phone_number_value status_value iso2_country_code_value route_type_value number_capabilities_value))))))))"

definition phone_number_information_to_py :: "sns_types \<Rightarrow> phone_number_information \<Rightarrow> pyval" where
  "phone_number_information_to_py S v = PyDict (py_dict
     [(''created_at'', opt_to_py (datetime_to_py S) (npni_created_at v)),
      (''phone_number'', opt_to_py PyStr (npni_phone_number v)),
      (''status'', opt_to_py PyStr (npni_status v)),
      (''iso2_country_code'', opt_to_py PyStr (npni_iso2_country_code v)),
      (''route_type'', opt_to_py PyStr (npni_route_type v)),
      (''number_capabilities'', opt_to_py (seq_to_py PyStr) (npni_number_capabilities v))])"

definition platform_application_from_py :: "pyo3 \<Rightarrow> sns_types \<Rightarrow> pyval \<Rightarrow> platform_application pyresult" where
  "platform_application_from_py P S value =
     and_then (cast_dict P value) (\<lambda>values.
     and_then (member P values ''platform_application_arn'' ''str'' (string_from_py P)) (\<lambda>platform_application_arn_value.
     and_then (member P values ''attributes'' ''dict'' (map_from_py P ''str'' ''str'' (string_from_py P))) (\<lambda>attributes_value.
     Inr (build_platform_application S platform_application_arn_value attributes_value))))"

definition platform_application_to_py :: "((string, pyval) fmap \<Rightarrow> (string \<times> pyval) list) \<Rightarrow> platform_application \<Rightarrow> pyval" where
  "platform_application_to_py order v = PyDict (py_dict
     [(''platform_application_arn'', opt_to_py PyStr (npa_platform_application_arn v)),
      (''attributes'', opt_to_py (mapping_to_py order PyStr) (npa_attributes v))])"

definition publish_batch_request_entry_from_py :: "pyo3 \<Rightarrow> sns_types \<Rightarrow> pyval \<Rightarrow> publish_batch_request_entry pyresult" where
  "publish_batch_request_entry_from_py P S value =
     and_then (cast_dict P value) (\<lambda>values.
     and_then (member P values ''id'' ''str'' (string_from_py P)) (\<lambda>id_value.
     and_then (member P values ''message'' ''str'' (string_from_py P)) (\<lambda>message_value.
     and_then (member P values ''subject'' ''str'' (string_from_py P)) (\<lambda>subject_value.
     and_then (member P values ''message_structure'' ''str'' (string_from_py P)) (\<lambda>message_structure_value.
     and_then (member P values ''message_attributes'' ''dict'' (map_from_py P ''str'' ''dict (MessageAttributeValue)'' (sns_message_attribute_value_from_py P S))) (\<lambda>message_attributes_value.
     and_then (member P values ''message_deduplication_id'' ''str'' (string_from_py P)) (\<lambda>message_deduplication_id_value.
     and_then (member P values ''message_group_id'' ''str'' (string_from_py P)) (\<lambda>message_group_id_value.
     map_err (\<lambda>_. input_builder_error P values
         [(''id'', ''id''), (''message'', ''message'')])
       (build_publish_batch_request_entry S id_value message_value subject_value message_structure_value message_attributes_value message_deduplication_id_value message_group_id_value)))))))))"

definition publish_batch_request_entry_to_py :: "((string, pyval) fmap \<Rightarrow> (string \<times> pyval) list) \<Rightarrow> publish_batch_request_entry \<Rightarrow> pyval" where
  "publish_batch_request_entry_to_py order v = PyDict (py_dict
     [(''id'', PyStr (npbre_id v)),
      (''message'', PyStr (npbre_message v)),
      (''subject'', opt_to_py PyStr (npbre_subject v)),
      (''message_structure'', opt_to_py PyStr (npbre_message_structure v)),
      (''message_attributes'', opt_to_py (mapping_to_py order sns_message_attribute_value_to_py) (npbre_message_attributes v)),
      (''message_deduplication_id'', opt_to_py PyStr (npbre_message_deduplication_id v)),
      (''message_group_id'', opt_to_py PyStr (npbre_message_group_id v))])"

definition publish_batch_result_entry_from_py :: "pyo3 \<Rightarrow> sns_types \<Rightarrow> pyval \<Rightarrow> publish_batch_result_entry pyresult" where
  "publish_batch_result_entry_from_py P S value =
     and_then (cast_dict P value) (\<lambda>values.
     and_then (member P values ''id'' ''str'' (string_from_py P)) (\<lambda>id_value.
     and_then (member P values ''message_id'' ''str'' (string_from_py P)) (\<lambda>message_id_value.
     and_then (member P values ''sequence_number'' ''str'' (string_from_py P)) (\<lambda>sequence_number_value.
     Inr (build_publish_batch_result_entry S id_value message_id_value sequence_number_value)))))"

definition publish_batch_result_entry_to_py :: "publish_batch_result_entry \<Rightarrow> pyval" where
  "publish_batch_result_entry_to_py v = PyDict (py_dict
     [(''id'', opt_to_py PyStr (npbre2_id v)),
      (''message_id'', opt_to_py PyStr (npbre2_message_id v)),
      (''sequence_number'', opt_to_py PyStr (npbre2_sequence_number v))])"

definition sms_sandbox_phone_number_from_py :: "pyo3 \<Rightarrow> sns_types \<Rightarrow> pyval \<Rightarrow> sms_sandbox_phone_number pyresult" where
  "sms_sandbox_phone_number_from_py P S value =
     and_then (cast_dict P value) (\<lambda>values.
     and_then (member P values ''phone_number'' ''str'' (string_from_py P)) (\<lambda>phone_number_value.
     and_then (member P values ''status'' ''str (SmsSandboxPhoneNumberVerificationStatus)'' (enum_from_py P)) (\<lambda>status_value.
     Inr (build_sms_sandbox_phone_number S phone_number_value status_value))))"

definition sms_sandbox_phone_number_to_py :: "sms_sandbox_phone_number \<Rightarrow> pyval" where
  "sms_sandbox_phone_number_to_py v = PyDict (py_dict
     [(''phone_number'', opt_to_py PyStr (nsspn_phone_number v)),
      (''status'', opt_to_py PyStr (nsspn_status v))])"

definition subscription_from_py :: "pyo3 \<Rightarrow> sns_types \<Rightarrow> pyval \<Rightarrow> subscription pyresult" where
  "subscription_from_py P S value =
     and_then (cast_dict P value) (\<lambda>values.
     and_then (member P values ''subscription_arn'' ''str'' (string_from_py P)) (\<lambda>subscription_arn_value.
     and_then (member P values ''owner'' ''str'' (string_from_py P)) (\<lambda>owner_value.
     and_then (member P values ''protocol'' ''str'' (string_from_py P)) (\<lambda>protocol_value.
     and_then (member P values ''endpoint'' ''str'' (string_from_py P)) (\<lambda>endpoint_value.
     and_then (member P values ''topic_arn'' ''str'' (string_from_py P)) (\<lambda>topic_arn_value.
     Inr (build_subscription S subscription_arn_value owner_value protocol_value endpoint_value topic_arn_value)))))))"

definition subscription_to_py :: "subscription \<Rightarrow> pyval" where
  "subscription_to_py v = PyDict (py_dict
     [(''subscription_arn'', opt_to_py PyStr (ns_subscription_arn v)),
      (''owner'', opt_to_py PyStr (ns_owner v)),
      (''protocol'', opt_to_py PyStr (ns_protocol v)),
      (''endpoint'', opt_to_py PyStr (ns_endpoint v)),
      (''topic_arn'', opt_to_py PyStr (ns_topic_arn v))])"

definition sns_tag_from_py :: "pyo3 \<Rightarrow> sns_types \<Rightarrow> pyval \<Rightarrow> sns_tag pyresult" where
  "sns_tag_from_py P S value =
     and_then (cast_dict P value) (\<lambda>values.
     and_then (member P values ''key'' ''str'' (string_from_py P)) (\<lambda>key_value.
     and_then (member P values ''value'' ''str'' (string_from_py P)) (\<lambda>value_value.
     map_err (\<lambda>_. input_builder_error P values
         [(''key'', ''key''), (''value'', ''value'')])
       (build_sns_tag S key_value value_value))))"

definition sns_tag_to_py :: "sns_tag \<Rightarrow> pyval" where
  "sns_tag_to_py v = PyDict (py_dict
     [(''key'', PyStr (nt_key v)),
      (''value'', PyStr (nt_value v))])"

definition topic_from_py :: "pyo3 \<Rightarrow> sns_types \<Rightarrow> pyval \<Rightarrow> topic pyresult" where
  "topic_from_py P S value =
     and_then (cast_dict P value) (\<lambda>values.
     and_then (member P values ''topic_arn'' ''str'' (string_from_py P)) (\<lambda>topic_arn_value.
     Inr (build_topic S topic_arn_value)))"

definition topic_to_py :: "topic \<Rightarrow> pyval" where
  "topic_to_py v = PyDict (py_dict
     [(''topic_arn'', opt_to_py PyStr (nt2_topic_arn v))])"

section \<open>Round trips\<close>

text \<open>What the builders document: a builder given every member the structure must have gives the
  structure with the members it was given, and one that lacks a required member fails.\<close>

locale sns_types_laws =
  fixes S :: sns_types
  assumes sns_batch_result_error_entry_built: "build_sns_batch_result_error_entry S (Some nbree0) (Some nbree1) nbree2 (Some nbree3) =
       Inr \<lparr>nbree_id = nbree0, nbree_code = nbree1, nbree_message = nbree2, nbree_sender_fault = nbree3\<rparr>"
    and endpoint_built: "build_endpoint S ne0 ne1 =
       \<lparr>ne_endpoint_arn = ne0, ne_attributes = ne1\<rparr>"
    and sns_message_attribute_value_built: "build_sns_message_attribute_value S (Some nmav0) nmav1 nmav2 =
       Inr \<lparr>nmav_data_type = nmav0, nmav_string_value = nmav1, nmav_binary_value = nmav2\<rparr>"
    and phone_number_information_built: "build_phone_number_information S npni0 npni1 npni2 npni3 npni4 npni5 =
       \<lparr>npni_created_at = npni0, npni_phone_number = npni1, npni_status = npni2, npni_iso2_country_code = npni3, npni_route_type = npni4, npni_number_capabilities = npni5\<rparr>"
    and platform_application_built: "build_platform_application S npa0 npa1 =
       \<lparr>npa_platform_application_arn = npa0, npa_attributes = npa1\<rparr>"
    and publish_batch_request_entry_built: "build_publish_batch_request_entry S (Some npbre0) (Some npbre1) npbre2 npbre3 npbre4 npbre5 npbre6 =
       Inr \<lparr>npbre_id = npbre0, npbre_message = npbre1, npbre_subject = npbre2, npbre_message_structure = npbre3, npbre_message_attributes = npbre4, npbre_message_deduplication_id = npbre5, npbre_message_group_id = npbre6\<rparr>"
    and publish_batch_result_entry_built: "build_publish_batch_result_entry S npbre20 npbre21 npbre22 =
       \<lparr>npbre2_id = npbre20, npbre2_message_id = npbre21, npbre2_sequence_number = npbre22\<rparr>"
    and sms_sandbox_phone_number_built: "build_sms_sandbox_phone_number S nsspn0 nsspn1 =
       \<lparr>nsspn_phone_number = nsspn0, nsspn_status = nsspn1\<rparr>"
    and subscription_built: "build_subscription S ns0 ns1 ns2 ns3 ns4 =
       \<lparr>ns_subscription_arn = ns0, ns_owner = ns1, ns_protocol = ns2, ns_endpoint = ns3, ns_topic_arn = ns4\<rparr>"
    and sns_tag_built: "build_sns_tag S (Some nt0) (Some nt1) =
       Inr \<lparr>nt_key = nt0, nt_value = nt1\<rparr>"
    and topic_built: "build_topic S nt20 =
       \<lparr>nt2_topic_arn = nt20\<rparr>"
    and sns_batch_result_error_entry_incomplete: "onbree0 = None \<or> onbree1 = None \<Longrightarrow>
       build_sns_batch_result_error_entry S onbree0 onbree1 onbree2 onbree3 = Inl ()"
    and sns_message_attribute_value_incomplete: "onmav0 = None \<Longrightarrow>
       build_sns_message_attribute_value S onmav0 onmav1 onmav2 = Inl ()"
    and publish_batch_request_entry_incomplete: "onpbre0 = None \<or> onpbre1 = None \<Longrightarrow>
       build_publish_batch_request_entry S onpbre0 onpbre1 onpbre2 onpbre3 onpbre4 onpbre5 onpbre6 = Inl ()"
    and sns_tag_incomplete: "ont0 = None \<or> ont1 = None \<Longrightarrow>
       build_sns_tag S ont0 ont1 = Inl ()"

text \<open>A concrete SDK.\<close>

definition sns_std :: sns_types where
  "sns_std =
     \<lparr>parse_datetime = (\<lambda>s. Inr (int (digits_value s), 0)),
      show_datetime = (\<lambda>d. show_nat (nat (fst d))),
      build_sns_batch_result_error_entry = (\<lambda>a0 a1 a2 a3. if a0 = None \<or> a1 = None then Inl ()
        else Inr \<lparr>nbree_id = the a0, nbree_code = the a1, nbree_message = a2, nbree_sender_fault = unwrap_or False a3\<rparr>),
      build_endpoint = (\<lambda>a0 a1. \<lparr>ne_endpoint_arn = a0, ne_attributes = a1\<rparr>),
      build_sns_message_attribute_value = (\<lambda>a0 a1 a2. if a0 = None then Inl ()
        else Inr \<lparr>nmav_data_type = the a0, nmav_string_value = a1, nmav_binary_value = a2\<rparr>),
      build_phone_number_information = (\<lambda>a0 a1 a2 a3 a4 a5. \<lparr>npni_created_at = a0, npni_phone_number = a1, npni_status = a2, npni_iso2_country_code = a3, npni_route_type = a4, npni_number_capabilities = a5\<rparr>),
      build_platform_application = (\<lambda>a0 a1. \<lparr>npa_platform_application_arn = a0, npa_attributes = a1\<rparr>),
      build_publish_batch_request_entry = (\<lambda>a0 a1 a2 a3 a4 a5 a6. if a0 = None \<or> a1 = None then Inl ()
        else Inr \<lparr>npbre_id = the a0, npbre_message = the a1, npbre_subject = a2, npbre_message_structure = a3, npbre_message_attributes = a4, npbre_message_deduplication_id = a5, npbre_message_group_id = a6\<rparr>),
      build_publish_batch_result_entry = (\<lambda>a0 a1 a2. \<lparr>npbre2_id = a0, npbre2_message_id = a1, npbre2_sequence_number = a2\<rparr>),
      build_sms_sandbox_phone_number = (\<lambda>a0 a1. \<lparr>nsspn_phone_number = a0, nsspn_status = a1\<rparr>),
      build_subscription = (\<lambda>a0 a1 a2 a3 a4. \<lparr>ns_subscription_arn = a0, ns_owner = a1, ns_protocol = a2, ns_endpoint = a3, ns_topic_arn = a4\<rparr>),
      build_sns_tag = (\<lambda>a0 a1. if a0 = None \<or> a1 = None then Inl ()
        else Inr \<lparr>nt_key = the a0, nt_value = the a1\<rparr>),
      build_topic = (\<lambda>a0. \<lparr>nt2_topic_arn = a0\<rparr>)\<rparr>"

interpretation std_sns: sns_types_laws sns_std
  by unfold_locales (auto simp: sns_std_def unwrap_or_def)

locale sns_conversions = pyo3_laws P + sns_types_laws S for P S +
  fixes order :: "(string, pyval) fmap \<Rightarrow> (string \<times> pyval) list"
  assumes order: "iterates order"
begin

lemma sns_batch_result_error_entry_reads: "reads (sns_batch_result_error_entry_from_py P S) (sns_batch_result_error_entry_to_py)"
proof (rule readsI)
  show "sns_batch_result_error_entry_to_py v \<noteq> PyNone" for v
    by (simp add: sns_batch_result_error_entry_to_py_def)
  show "sns_batch_result_error_entry_from_py P S (sns_batch_result_error_entry_to_py v) = Inr v" for v
    by (cases v) (simp add: sns_batch_result_error_entry_from_py_def sns_batch_result_error_entry_to_py_def dict_ok py_dict_distinct sns_batch_result_error_entry_built
        member_reads_given [OF reads_str]
        member_reads [OF reads_str]
        member_reads_given [OF reads_bool])
qed

lemma endpoint_reads: "reads (endpoint_from_py P S) (endpoint_to_py order)"
proof (rule readsI)
  show "endpoint_to_py order v \<noteq> PyNone" for v
    by (simp add: endpoint_to_py_def)
  show "endpoint_from_py P S (endpoint_to_py order v) = Inr v" for v
    by (cases v) (simp add: endpoint_from_py_def endpoint_to_py_def dict_ok py_dict_distinct endpoint_built
        member_reads [OF reads_str]
        member_reads [OF reads_map [OF order reads_str]])
qed

lemma sns_message_attribute_value_reads: "reads (sns_message_attribute_value_from_py P S) (sns_message_attribute_value_to_py)"
proof (rule readsI)
  show "sns_message_attribute_value_to_py v \<noteq> PyNone" for v
    by (simp add: sns_message_attribute_value_to_py_def)
  show "sns_message_attribute_value_from_py P S (sns_message_attribute_value_to_py v) = Inr v" for v
    by (cases v) (simp add: sns_message_attribute_value_from_py_def sns_message_attribute_value_to_py_def dict_ok py_dict_distinct sns_message_attribute_value_built
        member_reads_given [OF reads_str]
        member_reads [OF reads_str]
        member_reads [OF reads_blob])
qed

lemma platform_application_reads: "reads (platform_application_from_py P S) (platform_application_to_py order)"
proof (rule readsI)
  show "platform_application_to_py order v \<noteq> PyNone" for v
    by (simp add: platform_application_to_py_def)
  show "platform_application_from_py P S (platform_application_to_py order v) = Inr v" for v
    by (cases v) (simp add: platform_application_from_py_def platform_application_to_py_def dict_ok py_dict_distinct platform_application_built
        member_reads [OF reads_str]
        member_reads [OF reads_map [OF order reads_str]])
qed

lemma publish_batch_request_entry_reads: "reads (publish_batch_request_entry_from_py P S) (publish_batch_request_entry_to_py order)"
proof (rule readsI)
  show "publish_batch_request_entry_to_py order v \<noteq> PyNone" for v
    by (simp add: publish_batch_request_entry_to_py_def)
  show "publish_batch_request_entry_from_py P S (publish_batch_request_entry_to_py order v) = Inr v" for v
    by (cases v) (simp add: publish_batch_request_entry_from_py_def publish_batch_request_entry_to_py_def dict_ok py_dict_distinct publish_batch_request_entry_built
        member_reads_given [OF reads_str]
        member_reads [OF reads_str]
        member_reads [OF reads_map [OF order sns_message_attribute_value_reads]])
qed

lemma publish_batch_result_entry_reads: "reads (publish_batch_result_entry_from_py P S) (publish_batch_result_entry_to_py)"
proof (rule readsI)
  show "publish_batch_result_entry_to_py v \<noteq> PyNone" for v
    by (simp add: publish_batch_result_entry_to_py_def)
  show "publish_batch_result_entry_from_py P S (publish_batch_result_entry_to_py v) = Inr v" for v
    by (cases v) (simp add: publish_batch_result_entry_from_py_def publish_batch_result_entry_to_py_def dict_ok py_dict_distinct publish_batch_result_entry_built
        member_reads [OF reads_str])
qed

lemma sms_sandbox_phone_number_reads: "reads (sms_sandbox_phone_number_from_py P S) (sms_sandbox_phone_number_to_py)"
proof (rule readsI)
  show "sms_sandbox_phone_number_to_py v \<noteq> PyNone" for v
    by (simp add: sms_sandbox_phone_number_to_py_def)
  show "sms_sandbox_phone_number_from_py P S (sms_sandbox_phone_number_to_py v) = Inr v" for v
    by (cases v) (simp add: sms_sandbox_phone_number_from_py_def sms_sandbox_phone_number_to_py_def dict_ok py_dict_distinct sms_sandbox_phone_number_built
        member_reads [OF reads_str]
        member_reads [OF reads_enum])
qed

lemma subscription_reads: "reads (subscription_from_py P S) (subscription_to_py)"
proof (rule readsI)
  show "subscription_to_py v \<noteq> PyNone" for v
    by (simp add: subscription_to_py_def)
  show "subscription_from_py P S (subscription_to_py v) = Inr v" for v
    by (cases v) (simp add: subscription_from_py_def subscription_to_py_def dict_ok py_dict_distinct subscription_built
        member_reads [OF reads_str])
qed

lemma sns_tag_reads: "reads (sns_tag_from_py P S) (sns_tag_to_py)"
proof (rule readsI)
  show "sns_tag_to_py v \<noteq> PyNone" for v
    by (simp add: sns_tag_to_py_def)
  show "sns_tag_from_py P S (sns_tag_to_py v) = Inr v" for v
    by (cases v) (simp add: sns_tag_from_py_def sns_tag_to_py_def dict_ok py_dict_distinct sns_tag_built
        member_reads_given [OF reads_str])
qed

lemma topic_reads: "reads (topic_from_py P S) (topic_to_py)"
proof (rule readsI)
  show "topic_to_py v \<noteq> PyNone" for v
    by (simp add: topic_to_py_def)
  show "topic_from_py P S (topic_to_py v) = Inr v" for v
    by (cases v) (simp add: topic_from_py_def topic_to_py_def dict_ok py_dict_distinct topic_built
        member_reads [OF reads_str])
qed

end

interpretation std_sns_conv: sns_conversions pyo3_std sns_std by_key
  by (intro sns_conversions.intro sns_conversions_axioms.intro std.pyo3_laws_axioms std_sns.sns_types_laws_axioms iterates_by_key)

end
