(* ===== verification/SnsOutputs.thy ===== *)
theory SnsOutputs
  imports SnsTypes
begin

text \<open>
  The response objects of the SNS extension, from \<open>crates/rboto-sns/src/generated.rs\<close>: per class, the
  fields it holds, its getters in order, and \<open>to_dict\<close>. A getter of structures gives objects that
  share them (\<open>Arc::clone\<close>), one per structure of a list or mapping; every other getter gives a
  plain value, and an absent one is \<open>None\<close>. Integers whose width the code does not show are \<open>int\<close>.
\<close>

section \<open>Attributes\<close>

datatype sns_object =
    SnsBatchResultErrorEntry sns_batch_result_error_entry
  | SnsEndpoint endpoint
  | SnsPhoneNumberInformation phone_number_information
  | SnsPlatformApplication platform_application
  | SnsPublishBatchResultEntry publish_batch_result_entry
  | SnsSmsSandboxPhoneNumber sms_sandbox_phone_number
  | SnsSubscription subscription
  | SnsTag sns_tag
  | SnsTopic topic

datatype sns_attr =
    SnsPlain pyval
  | SnsObject sns_object
  | SnsObjects "sns_object list"
  | SnsObjectMap "(string, sns_object) fmap"

definition sns_opt_attr :: "('a \<Rightarrow> sns_attr) \<Rightarrow> 'a option \<Rightarrow> sns_attr" where
  "sns_opt_attr f v = (case v of None \<Rightarrow> SnsPlain PyNone | Some x \<Rightarrow> f x)"

section \<open>\<open>BatchResultErrorEntry\<close>\<close>

definition sns_batch_result_error_entry_attributes :: "((string, pyval) fmap \<Rightarrow> (string \<times> pyval) list) \<Rightarrow> sns_types \<Rightarrow> sns_batch_result_error_entry \<Rightarrow> (string \<times> sns_attr) list" where
  "sns_batch_result_error_entry_attributes order S v =
     [(''id'', SnsPlain (PyStr (nbree_id v))),
      (''code'', SnsPlain (PyStr (nbree_code v))),
      (''message'', SnsPlain (opt_to_py PyStr (nbree_message v))),
      (''sender_fault'', SnsPlain (PyBool (nbree_sender_fault v)))]"

definition sns_batch_result_error_entry_to_dict :: "((string, pyval) fmap \<Rightarrow> (string \<times> pyval) list) \<Rightarrow> sns_types \<Rightarrow> sns_batch_result_error_entry \<Rightarrow> pyval" where
  "sns_batch_result_error_entry_to_dict order S v = sns_batch_result_error_entry_to_py v"

section \<open>\<open>Endpoint\<close>\<close>

definition endpoint_attributes :: "((string, pyval) fmap \<Rightarrow> (string \<times> pyval) list) \<Rightarrow> sns_types \<Rightarrow> endpoint \<Rightarrow> (string \<times> sns_attr) list" where
  "endpoint_attributes order S v =
     [(''endpoint_arn'', SnsPlain (opt_to_py PyStr (ne_endpoint_arn v))),
      (''attributes'', SnsPlain (opt_to_py (mapping_to_py order PyStr) (ne_attributes v)))]"

definition endpoint_to_dict :: "((string, pyval) fmap \<Rightarrow> (string \<times> pyval) list) \<Rightarrow> sns_types \<Rightarrow> endpoint \<Rightarrow> pyval" where
  "endpoint_to_dict order S v = endpoint_to_py order v"

section \<open>\<open>PhoneNumberInformation\<close>\<close>

definition phone_number_information_attributes :: "((string, pyval) fmap \<Rightarrow> (string \<times> pyval) list) \<Rightarrow> sns_types \<Rightarrow> phone_number_information \<Rightarrow> (string \<times> sns_attr) list" where
  "phone_number_information_attributes order S v =
     [(''created_at'', SnsPlain (opt_to_py (datetime_to_py S) (npni_created_at v))),
      (''phone_number'', SnsPlain (opt_to_py PyStr (npni_phone_number v))),
      (''status'', SnsPlain (opt_to_py PyStr (npni_status v))),
      (''iso2_country_code'', SnsPlain (opt_to_py PyStr (npni_iso2_country_code v))),
      (''route_type'', SnsPlain (opt_to_py PyStr (npni_route_type v))),
      (''number_capabilities'', SnsPlain (opt_to_py (seq_to_py PyStr) (npni_number_capabilities v)))]"

definition phone_number_information_to_dict :: "((string, pyval) fmap \<Rightarrow> (string \<times> pyval) list) \<Rightarrow> sns_types \<Rightarrow> phone_number_information \<Rightarrow> pyval" where
  "phone_number_information_to_dict order S v = phone_number_information_to_py S v"

section \<open>\<open>PlatformApplication\<close>\<close>

definition platform_application_attributes :: "((string, pyval) fmap \<Rightarrow> (string \<times> pyval) list) \<Rightarrow> sns_types \<Rightarrow> platform_application \<Rightarrow> (string \<times> sns_attr) list" where
  "platform_application_attributes order S v =
     [(''platform_application_arn'', SnsPlain (opt_to_py PyStr (npa_platform_application_arn v))),
      (''attributes'', SnsPlain (opt_to_py (mapping_to_py order PyStr) (npa_attributes v)))]"

definition platform_application_to_dict :: "((string, pyval) fmap \<Rightarrow> (string \<times> pyval) list) \<Rightarrow> sns_types \<Rightarrow> platform_application \<Rightarrow> pyval" where
  "platform_application_to_dict order S v = platform_application_to_py order v"

section \<open>\<open>PublishBatchResultEntry\<close>\<close>

definition publish_batch_result_entry_attributes :: "((string, pyval) fmap \<Rightarrow> (string \<times> pyval) list) \<Rightarrow> sns_types \<Rightarrow> publish_batch_result_entry \<Rightarrow> (string \<times> sns_attr) list" where
  "publish_batch_result_entry_attributes order S v =
     [(''id'', SnsPlain (opt_to_py PyStr (npbre2_id v))),
      (''message_id'', SnsPlain (opt_to_py PyStr (npbre2_message_id v))),
      (''sequence_number'', SnsPlain (opt_to_py PyStr (npbre2_sequence_number v)))]"

definition publish_batch_result_entry_to_dict :: "((string, pyval) fmap \<Rightarrow> (string \<times> pyval) list) \<Rightarrow> sns_types \<Rightarrow> publish_batch_result_entry \<Rightarrow> pyval" where
  "publish_batch_result_entry_to_dict order S v = publish_batch_result_entry_to_py v"

section \<open>\<open>SmsSandboxPhoneNumber\<close>\<close>

definition sms_sandbox_phone_number_attributes :: "((string, pyval) fmap \<Rightarrow> (string \<times> pyval) list) \<Rightarrow> sns_types \<Rightarrow> sms_sandbox_phone_number \<Rightarrow> (string \<times> sns_attr) list" where
  "sms_sandbox_phone_number_attributes order S v =
     [(''phone_number'', SnsPlain (opt_to_py PyStr (nsspn_phone_number v))),
      (''status'', SnsPlain (opt_to_py PyStr (nsspn_status v)))]"

definition sms_sandbox_phone_number_to_dict :: "((string, pyval) fmap \<Rightarrow> (string \<times> pyval) list) \<Rightarrow> sns_types \<Rightarrow> sms_sandbox_phone_number \<Rightarrow> pyval" where
  "sms_sandbox_phone_number_to_dict order S v = sms_sandbox_phone_number_to_py v"

section \<open>\<open>Subscription\<close>\<close>

definition subscription_attributes :: "((string, pyval) fmap \<Rightarrow> (string \<times> pyval) list) \<Rightarrow> sns_types \<Rightarrow> subscription \<Rightarrow> (string \<times> sns_attr) list" where
  "subscription_attributes order S v =
     [(''subscription_arn'', SnsPlain (opt_to_py PyStr (ns_subscription_arn v))),
      (''owner'', SnsPlain (opt_to_py PyStr (ns_owner v))),
      (''protocol'', SnsPlain (opt_to_py PyStr (ns_protocol v))),
      (''endpoint'', SnsPlain (opt_to_py PyStr (ns_endpoint v))),
      (''topic_arn'', SnsPlain (opt_to_py PyStr (ns_topic_arn v)))]"

definition subscription_to_dict :: "((string, pyval) fmap \<Rightarrow> (string \<times> pyval) list) \<Rightarrow> sns_types \<Rightarrow> subscription \<Rightarrow> pyval" where
  "subscription_to_dict order S v = subscription_to_py v"

section \<open>\<open>Tag\<close>\<close>

definition sns_tag_attributes :: "((string, pyval) fmap \<Rightarrow> (string \<times> pyval) list) \<Rightarrow> sns_types \<Rightarrow> sns_tag \<Rightarrow> (string \<times> sns_attr) list" where
  "sns_tag_attributes order S v =
     [(''key'', SnsPlain (PyStr (nt_key v))),
      (''value'', SnsPlain (PyStr (nt_value v)))]"

definition sns_tag_to_dict :: "((string, pyval) fmap \<Rightarrow> (string \<times> pyval) list) \<Rightarrow> sns_types \<Rightarrow> sns_tag \<Rightarrow> pyval" where
  "sns_tag_to_dict order S v = sns_tag_to_py v"

section \<open>\<open>Topic\<close>\<close>

definition topic_attributes :: "((string, pyval) fmap \<Rightarrow> (string \<times> pyval) list) \<Rightarrow> sns_types \<Rightarrow> topic \<Rightarrow> (string \<times> sns_attr) list" where
  "topic_attributes order S v =
     [(''topic_arn'', SnsPlain (opt_to_py PyStr (nt2_topic_arn v)))]"

definition topic_to_dict :: "((string, pyval) fmap \<Rightarrow> (string \<times> pyval) list) \<Rightarrow> sns_types \<Rightarrow> topic \<Rightarrow> pyval" where
  "topic_to_dict order S v = topic_to_py v"

section \<open>\<open>CheckIfPhoneNumberIsOptedOutOutput\<close>\<close>

record check_if_phone_number_is_opted_out_output =
  ncipniooo_is_opted_out :: bool

definition check_if_phone_number_is_opted_out_output_attributes :: "((string, pyval) fmap \<Rightarrow> (string \<times> pyval) list) \<Rightarrow> sns_types \<Rightarrow> check_if_phone_number_is_opted_out_output \<Rightarrow> (string \<times> sns_attr) list" where
  "check_if_phone_number_is_opted_out_output_attributes order S v =
     [(''is_opted_out'', SnsPlain (PyBool (ncipniooo_is_opted_out v)))]"

definition check_if_phone_number_is_opted_out_output_to_dict :: "((string, pyval) fmap \<Rightarrow> (string \<times> pyval) list) \<Rightarrow> sns_types \<Rightarrow> check_if_phone_number_is_opted_out_output \<Rightarrow> pyval" where
  "check_if_phone_number_is_opted_out_output_to_dict order S v = PyDict (py_dict
     [(''is_opted_out'', PyBool (ncipniooo_is_opted_out v))])"

section \<open>\<open>ConfirmSubscriptionOutput\<close>\<close>

record confirm_subscription_output =
  ncso_subscription_arn :: "string option"

definition confirm_subscription_output_attributes :: "((string, pyval) fmap \<Rightarrow> (string \<times> pyval) list) \<Rightarrow> sns_types \<Rightarrow> confirm_subscription_output \<Rightarrow> (string \<times> sns_attr) list" where
  "confirm_subscription_output_attributes order S v =
     [(''subscription_arn'', SnsPlain (opt_to_py PyStr (ncso_subscription_arn v)))]"

definition confirm_subscription_output_to_dict :: "((string, pyval) fmap \<Rightarrow> (string \<times> pyval) list) \<Rightarrow> sns_types \<Rightarrow> confirm_subscription_output \<Rightarrow> pyval" where
  "confirm_subscription_output_to_dict order S v = PyDict (py_dict
     [(''subscription_arn'', opt_to_py PyStr (ncso_subscription_arn v))])"

section \<open>\<open>CreatePlatformApplicationOutput\<close>\<close>

record create_platform_application_output =
  ncpao_platform_application_arn :: "string option"

definition create_platform_application_output_attributes :: "((string, pyval) fmap \<Rightarrow> (string \<times> pyval) list) \<Rightarrow> sns_types \<Rightarrow> create_platform_application_output \<Rightarrow> (string \<times> sns_attr) list" where
  "create_platform_application_output_attributes order S v =
     [(''platform_application_arn'', SnsPlain (opt_to_py PyStr (ncpao_platform_application_arn v)))]"

definition create_platform_application_output_to_dict :: "((string, pyval) fmap \<Rightarrow> (string \<times> pyval) list) \<Rightarrow> sns_types \<Rightarrow> create_platform_application_output \<Rightarrow> pyval" where
  "create_platform_application_output_to_dict order S v = PyDict (py_dict
     [(''platform_application_arn'', opt_to_py PyStr (ncpao_platform_application_arn v))])"

section \<open>\<open>CreatePlatformEndpointOutput\<close>\<close>

record create_platform_endpoint_output =
  ncpeo_endpoint_arn :: "string option"

definition create_platform_endpoint_output_attributes :: "((string, pyval) fmap \<Rightarrow> (string \<times> pyval) list) \<Rightarrow> sns_types \<Rightarrow> create_platform_endpoint_output \<Rightarrow> (string \<times> sns_attr) list" where
  "create_platform_endpoint_output_attributes order S v =
     [(''endpoint_arn'', SnsPlain (opt_to_py PyStr (ncpeo_endpoint_arn v)))]"

definition create_platform_endpoint_output_to_dict :: "((string, pyval) fmap \<Rightarrow> (string \<times> pyval) list) \<Rightarrow> sns_types \<Rightarrow> create_platform_endpoint_output \<Rightarrow> pyval" where
  "create_platform_endpoint_output_to_dict order S v = PyDict (py_dict
     [(''endpoint_arn'', opt_to_py PyStr (ncpeo_endpoint_arn v))])"

section \<open>\<open>CreateSMSSandboxPhoneNumberOutput\<close>\<close>

datatype create_smssandbox_phone_number_output = CreateSmssandboxPhoneNumberOutput

definition create_smssandbox_phone_number_output_attributes :: "((string, pyval) fmap \<Rightarrow> (string \<times> pyval) list) \<Rightarrow> sns_types \<Rightarrow> create_smssandbox_phone_number_output \<Rightarrow> (string \<times> sns_attr) list" where
  "create_smssandbox_phone_number_output_attributes order S v = []"

definition create_smssandbox_phone_number_output_to_dict :: "((string, pyval) fmap \<Rightarrow> (string \<times> pyval) list) \<Rightarrow> sns_types \<Rightarrow> create_smssandbox_phone_number_output \<Rightarrow> pyval" where
  "create_smssandbox_phone_number_output_to_dict order S v = PyDict (py_dict [])"

section \<open>\<open>CreateTopicOutput\<close>\<close>

record create_topic_output =
  ncto_topic_arn :: "string option"

definition create_topic_output_attributes :: "((string, pyval) fmap \<Rightarrow> (string \<times> pyval) list) \<Rightarrow> sns_types \<Rightarrow> create_topic_output \<Rightarrow> (string \<times> sns_attr) list" where
  "create_topic_output_attributes order S v =
     [(''topic_arn'', SnsPlain (opt_to_py PyStr (ncto_topic_arn v)))]"

definition create_topic_output_to_dict :: "((string, pyval) fmap \<Rightarrow> (string \<times> pyval) list) \<Rightarrow> sns_types \<Rightarrow> create_topic_output \<Rightarrow> pyval" where
  "create_topic_output_to_dict order S v = PyDict (py_dict
     [(''topic_arn'', opt_to_py PyStr (ncto_topic_arn v))])"

section \<open>\<open>DeleteSMSSandboxPhoneNumberOutput\<close>\<close>

datatype delete_smssandbox_phone_number_output = DeleteSmssandboxPhoneNumberOutput

definition delete_smssandbox_phone_number_output_attributes :: "((string, pyval) fmap \<Rightarrow> (string \<times> pyval) list) \<Rightarrow> sns_types \<Rightarrow> delete_smssandbox_phone_number_output \<Rightarrow> (string \<times> sns_attr) list" where
  "delete_smssandbox_phone_number_output_attributes order S v = []"

definition delete_smssandbox_phone_number_output_to_dict :: "((string, pyval) fmap \<Rightarrow> (string \<times> pyval) list) \<Rightarrow> sns_types \<Rightarrow> delete_smssandbox_phone_number_output \<Rightarrow> pyval" where
  "delete_smssandbox_phone_number_output_to_dict order S v = PyDict (py_dict [])"

section \<open>\<open>GetDataProtectionPolicyOutput\<close>\<close>

record get_data_protection_policy_output =
  ngdppo_data_protection_policy :: "string option"

definition get_data_protection_policy_output_attributes :: "((string, pyval) fmap \<Rightarrow> (string \<times> pyval) list) \<Rightarrow> sns_types \<Rightarrow> get_data_protection_policy_output \<Rightarrow> (string \<times> sns_attr) list" where
  "get_data_protection_policy_output_attributes order S v =
     [(''data_protection_policy'', SnsPlain (opt_to_py PyStr (ngdppo_data_protection_policy v)))]"

definition get_data_protection_policy_output_to_dict :: "((string, pyval) fmap \<Rightarrow> (string \<times> pyval) list) \<Rightarrow> sns_types \<Rightarrow> get_data_protection_policy_output \<Rightarrow> pyval" where
  "get_data_protection_policy_output_to_dict order S v = PyDict (py_dict
     [(''data_protection_policy'', opt_to_py PyStr (ngdppo_data_protection_policy v))])"

section \<open>\<open>GetEndpointAttributesOutput\<close>\<close>

record get_endpoint_attributes_output =
  ngeao_attributes :: "(string, string) fmap option"

definition get_endpoint_attributes_output_attributes :: "((string, pyval) fmap \<Rightarrow> (string \<times> pyval) list) \<Rightarrow> sns_types \<Rightarrow> get_endpoint_attributes_output \<Rightarrow> (string \<times> sns_attr) list" where
  "get_endpoint_attributes_output_attributes order S v =
     [(''attributes'', SnsPlain (opt_to_py (mapping_to_py order PyStr) (ngeao_attributes v)))]"

definition get_endpoint_attributes_output_to_dict :: "((string, pyval) fmap \<Rightarrow> (string \<times> pyval) list) \<Rightarrow> sns_types \<Rightarrow> get_endpoint_attributes_output \<Rightarrow> pyval" where
  "get_endpoint_attributes_output_to_dict order S v = PyDict (py_dict
     [(''attributes'', opt_to_py (mapping_to_py order PyStr) (ngeao_attributes v))])"

section \<open>\<open>GetPlatformApplicationAttributesOutput\<close>\<close>

record get_platform_application_attributes_output =
  ngpaao_attributes :: "(string, string) fmap option"

definition get_platform_application_attributes_output_attributes :: "((string, pyval) fmap \<Rightarrow> (string \<times> pyval) list) \<Rightarrow> sns_types \<Rightarrow> get_platform_application_attributes_output \<Rightarrow> (string \<times> sns_attr) list" where
  "get_platform_application_attributes_output_attributes order S v =
     [(''attributes'', SnsPlain (opt_to_py (mapping_to_py order PyStr) (ngpaao_attributes v)))]"

definition get_platform_application_attributes_output_to_dict :: "((string, pyval) fmap \<Rightarrow> (string \<times> pyval) list) \<Rightarrow> sns_types \<Rightarrow> get_platform_application_attributes_output \<Rightarrow> pyval" where
  "get_platform_application_attributes_output_to_dict order S v = PyDict (py_dict
     [(''attributes'', opt_to_py (mapping_to_py order PyStr) (ngpaao_attributes v))])"

section \<open>\<open>GetSMSAttributesOutput\<close>\<close>

record get_smsattributes_output =
  ngso_attributes :: "(string, string) fmap option"

definition get_smsattributes_output_attributes :: "((string, pyval) fmap \<Rightarrow> (string \<times> pyval) list) \<Rightarrow> sns_types \<Rightarrow> get_smsattributes_output \<Rightarrow> (string \<times> sns_attr) list" where
  "get_smsattributes_output_attributes order S v =
     [(''attributes'', SnsPlain (opt_to_py (mapping_to_py order PyStr) (ngso_attributes v)))]"

definition get_smsattributes_output_to_dict :: "((string, pyval) fmap \<Rightarrow> (string \<times> pyval) list) \<Rightarrow> sns_types \<Rightarrow> get_smsattributes_output \<Rightarrow> pyval" where
  "get_smsattributes_output_to_dict order S v = PyDict (py_dict
     [(''attributes'', opt_to_py (mapping_to_py order PyStr) (ngso_attributes v))])"

section \<open>\<open>GetSMSSandboxAccountStatusOutput\<close>\<close>

record get_smssandbox_account_status_output =
  ngsaso_is_in_sandbox :: bool

definition get_smssandbox_account_status_output_attributes :: "((string, pyval) fmap \<Rightarrow> (string \<times> pyval) list) \<Rightarrow> sns_types \<Rightarrow> get_smssandbox_account_status_output \<Rightarrow> (string \<times> sns_attr) list" where
  "get_smssandbox_account_status_output_attributes order S v =
     [(''is_in_sandbox'', SnsPlain (PyBool (ngsaso_is_in_sandbox v)))]"

definition get_smssandbox_account_status_output_to_dict :: "((string, pyval) fmap \<Rightarrow> (string \<times> pyval) list) \<Rightarrow> sns_types \<Rightarrow> get_smssandbox_account_status_output \<Rightarrow> pyval" where
  "get_smssandbox_account_status_output_to_dict order S v = PyDict (py_dict
     [(''is_in_sandbox'', PyBool (ngsaso_is_in_sandbox v))])"

section \<open>\<open>GetSubscriptionAttributesOutput\<close>\<close>

record get_subscription_attributes_output =
  ngsao_attributes :: "(string, string) fmap option"

definition get_subscription_attributes_output_attributes :: "((string, pyval) fmap \<Rightarrow> (string \<times> pyval) list) \<Rightarrow> sns_types \<Rightarrow> get_subscription_attributes_output \<Rightarrow> (string \<times> sns_attr) list" where
  "get_subscription_attributes_output_attributes order S v =
     [(''attributes'', SnsPlain (opt_to_py (mapping_to_py order PyStr) (ngsao_attributes v)))]"

definition get_subscription_attributes_output_to_dict :: "((string, pyval) fmap \<Rightarrow> (string \<times> pyval) list) \<Rightarrow> sns_types \<Rightarrow> get_subscription_attributes_output \<Rightarrow> pyval" where
  "get_subscription_attributes_output_to_dict order S v = PyDict (py_dict
     [(''attributes'', opt_to_py (mapping_to_py order PyStr) (ngsao_attributes v))])"

section \<open>\<open>GetTopicAttributesOutput\<close>\<close>

record get_topic_attributes_output =
  ngtao_attributes :: "(string, string) fmap option"

definition get_topic_attributes_output_attributes :: "((string, pyval) fmap \<Rightarrow> (string \<times> pyval) list) \<Rightarrow> sns_types \<Rightarrow> get_topic_attributes_output \<Rightarrow> (string \<times> sns_attr) list" where
  "get_topic_attributes_output_attributes order S v =
     [(''attributes'', SnsPlain (opt_to_py (mapping_to_py order PyStr) (ngtao_attributes v)))]"

definition get_topic_attributes_output_to_dict :: "((string, pyval) fmap \<Rightarrow> (string \<times> pyval) list) \<Rightarrow> sns_types \<Rightarrow> get_topic_attributes_output \<Rightarrow> pyval" where
  "get_topic_attributes_output_to_dict order S v = PyDict (py_dict
     [(''attributes'', opt_to_py (mapping_to_py order PyStr) (ngtao_attributes v))])"

section \<open>\<open>ListEndpointsByPlatformApplicationOutput\<close>\<close>

record list_endpoints_by_platform_application_output =
  nlebpao_endpoints :: "endpoint list option"
  nlebpao_next_token :: "string option"

definition list_endpoints_by_platform_application_output_attributes :: "((string, pyval) fmap \<Rightarrow> (string \<times> pyval) list) \<Rightarrow> sns_types \<Rightarrow> list_endpoints_by_platform_application_output \<Rightarrow> (string \<times> sns_attr) list" where
  "list_endpoints_by_platform_application_output_attributes order S v =
     [(''endpoints'', sns_opt_attr (\<lambda>xs. SnsObjects (map SnsEndpoint xs)) (nlebpao_endpoints v)),
      (''next_token'', SnsPlain (opt_to_py PyStr (nlebpao_next_token v)))]"

definition list_endpoints_by_platform_application_output_to_dict :: "((string, pyval) fmap \<Rightarrow> (string \<times> pyval) list) \<Rightarrow> sns_types \<Rightarrow> list_endpoints_by_platform_application_output \<Rightarrow> pyval" where
  "list_endpoints_by_platform_application_output_to_dict order S v = PyDict (py_dict
     [(''endpoints'', opt_to_py (seq_to_py (endpoint_to_py order)) (nlebpao_endpoints v)),
      (''next_token'', opt_to_py PyStr (nlebpao_next_token v))])"

section \<open>\<open>ListOriginationNumbersOutput\<close>\<close>

record list_origination_numbers_output =
  nlono_next_token :: "string option"
  nlono_phone_numbers :: "phone_number_information list option"

definition list_origination_numbers_output_attributes :: "((string, pyval) fmap \<Rightarrow> (string \<times> pyval) list) \<Rightarrow> sns_types \<Rightarrow> list_origination_numbers_output \<Rightarrow> (string \<times> sns_attr) list" where
  "list_origination_numbers_output_attributes order S v =
     [(''next_token'', SnsPlain (opt_to_py PyStr (nlono_next_token v))),
      (''phone_numbers'', sns_opt_attr (\<lambda>xs. SnsObjects (map SnsPhoneNumberInformation xs)) (nlono_phone_numbers v))]"

definition list_origination_numbers_output_to_dict :: "((string, pyval) fmap \<Rightarrow> (string \<times> pyval) list) \<Rightarrow> sns_types \<Rightarrow> list_origination_numbers_output \<Rightarrow> pyval" where
  "list_origination_numbers_output_to_dict order S v = PyDict (py_dict
     [(''next_token'', opt_to_py PyStr (nlono_next_token v)),
      (''phone_numbers'', opt_to_py (seq_to_py (phone_number_information_to_py S)) (nlono_phone_numbers v))])"

section \<open>\<open>ListPhoneNumbersOptedOutOutput\<close>\<close>

record list_phone_numbers_opted_out_output =
  nlpnooo_phone_numbers :: "string list option"
  nlpnooo_next_token :: "string option"

definition list_phone_numbers_opted_out_output_attributes :: "((string, pyval) fmap \<Rightarrow> (string \<times> pyval) list) \<Rightarrow> sns_types \<Rightarrow> list_phone_numbers_opted_out_output \<Rightarrow> (string \<times> sns_attr) list" where
  "list_phone_numbers_opted_out_output_attributes order S v =
     [(''phone_numbers'', SnsPlain (opt_to_py (seq_to_py PyStr) (nlpnooo_phone_numbers v))),
      (''next_token'', SnsPlain (opt_to_py PyStr (nlpnooo_next_token v)))]"

definition list_phone_numbers_opted_out_output_to_dict :: "((string, pyval) fmap \<Rightarrow> (string \<times> pyval) list) \<Rightarrow> sns_types \<Rightarrow> list_phone_numbers_opted_out_output \<Rightarrow> pyval" where
  "list_phone_numbers_opted_out_output_to_dict order S v = PyDict (py_dict
     [(''phone_numbers'', opt_to_py (seq_to_py PyStr) (nlpnooo_phone_numbers v)),
      (''next_token'', opt_to_py PyStr (nlpnooo_next_token v))])"

section \<open>\<open>ListPlatformApplicationsOutput\<close>\<close>

record list_platform_applications_output =
  nlpao_platform_applications :: "platform_application list option"
  nlpao_next_token :: "string option"

definition list_platform_applications_output_attributes :: "((string, pyval) fmap \<Rightarrow> (string \<times> pyval) list) \<Rightarrow> sns_types \<Rightarrow> list_platform_applications_output \<Rightarrow> (string \<times> sns_attr) list" where
  "list_platform_applications_output_attributes order S v =
     [(''platform_applications'', sns_opt_attr (\<lambda>xs. SnsObjects (map SnsPlatformApplication xs)) (nlpao_platform_applications v)),
      (''next_token'', SnsPlain (opt_to_py PyStr (nlpao_next_token v)))]"

definition list_platform_applications_output_to_dict :: "((string, pyval) fmap \<Rightarrow> (string \<times> pyval) list) \<Rightarrow> sns_types \<Rightarrow> list_platform_applications_output \<Rightarrow> pyval" where
  "list_platform_applications_output_to_dict order S v = PyDict (py_dict
     [(''platform_applications'', opt_to_py (seq_to_py (platform_application_to_py order)) (nlpao_platform_applications v)),
      (''next_token'', opt_to_py PyStr (nlpao_next_token v))])"

section \<open>\<open>ListSMSSandboxPhoneNumbersOutput\<close>\<close>

record list_smssandbox_phone_numbers_output =
  nlspno_phone_numbers :: "sms_sandbox_phone_number list"
  nlspno_next_token :: "string option"

definition list_smssandbox_phone_numbers_output_attributes :: "((string, pyval) fmap \<Rightarrow> (string \<times> pyval) list) \<Rightarrow> sns_types \<Rightarrow> list_smssandbox_phone_numbers_output \<Rightarrow> (string \<times> sns_attr) list" where
  "list_smssandbox_phone_numbers_output_attributes order S v =
     [(''phone_numbers'', SnsObjects (map SnsSmsSandboxPhoneNumber (nlspno_phone_numbers v))),
      (''next_token'', SnsPlain (opt_to_py PyStr (nlspno_next_token v)))]"

definition list_smssandbox_phone_numbers_output_to_dict :: "((string, pyval) fmap \<Rightarrow> (string \<times> pyval) list) \<Rightarrow> sns_types \<Rightarrow> list_smssandbox_phone_numbers_output \<Rightarrow> pyval" where
  "list_smssandbox_phone_numbers_output_to_dict order S v = PyDict (py_dict
     [(''phone_numbers'', seq_to_py sms_sandbox_phone_number_to_py (nlspno_phone_numbers v)),
      (''next_token'', opt_to_py PyStr (nlspno_next_token v))])"

section \<open>\<open>ListSubscriptionsOutput\<close>\<close>

record list_subscriptions_output =
  nlso_subscriptions :: "subscription list option"
  nlso_next_token :: "string option"

definition list_subscriptions_output_attributes :: "((string, pyval) fmap \<Rightarrow> (string \<times> pyval) list) \<Rightarrow> sns_types \<Rightarrow> list_subscriptions_output \<Rightarrow> (string \<times> sns_attr) list" where
  "list_subscriptions_output_attributes order S v =
     [(''subscriptions'', sns_opt_attr (\<lambda>xs. SnsObjects (map SnsSubscription xs)) (nlso_subscriptions v)),
      (''next_token'', SnsPlain (opt_to_py PyStr (nlso_next_token v)))]"

definition list_subscriptions_output_to_dict :: "((string, pyval) fmap \<Rightarrow> (string \<times> pyval) list) \<Rightarrow> sns_types \<Rightarrow> list_subscriptions_output \<Rightarrow> pyval" where
  "list_subscriptions_output_to_dict order S v = PyDict (py_dict
     [(''subscriptions'', opt_to_py (seq_to_py subscription_to_py) (nlso_subscriptions v)),
      (''next_token'', opt_to_py PyStr (nlso_next_token v))])"

section \<open>\<open>ListSubscriptionsByTopicOutput\<close>\<close>

record list_subscriptions_by_topic_output =
  nlsbto_subscriptions :: "subscription list option"
  nlsbto_next_token :: "string option"

definition list_subscriptions_by_topic_output_attributes :: "((string, pyval) fmap \<Rightarrow> (string \<times> pyval) list) \<Rightarrow> sns_types \<Rightarrow> list_subscriptions_by_topic_output \<Rightarrow> (string \<times> sns_attr) list" where
  "list_subscriptions_by_topic_output_attributes order S v =
     [(''subscriptions'', sns_opt_attr (\<lambda>xs. SnsObjects (map SnsSubscription xs)) (nlsbto_subscriptions v)),
      (''next_token'', SnsPlain (opt_to_py PyStr (nlsbto_next_token v)))]"

definition list_subscriptions_by_topic_output_to_dict :: "((string, pyval) fmap \<Rightarrow> (string \<times> pyval) list) \<Rightarrow> sns_types \<Rightarrow> list_subscriptions_by_topic_output \<Rightarrow> pyval" where
  "list_subscriptions_by_topic_output_to_dict order S v = PyDict (py_dict
     [(''subscriptions'', opt_to_py (seq_to_py subscription_to_py) (nlsbto_subscriptions v)),
      (''next_token'', opt_to_py PyStr (nlsbto_next_token v))])"

section \<open>\<open>ListTagsForResourceOutput\<close>\<close>

record list_tags_for_resource_output =
  nltfro_tags :: "sns_tag list option"

definition list_tags_for_resource_output_attributes :: "((string, pyval) fmap \<Rightarrow> (string \<times> pyval) list) \<Rightarrow> sns_types \<Rightarrow> list_tags_for_resource_output \<Rightarrow> (string \<times> sns_attr) list" where
  "list_tags_for_resource_output_attributes order S v =
     [(''tags'', sns_opt_attr (\<lambda>xs. SnsObjects (map SnsTag xs)) (nltfro_tags v))]"

definition list_tags_for_resource_output_to_dict :: "((string, pyval) fmap \<Rightarrow> (string \<times> pyval) list) \<Rightarrow> sns_types \<Rightarrow> list_tags_for_resource_output \<Rightarrow> pyval" where
  "list_tags_for_resource_output_to_dict order S v = PyDict (py_dict
     [(''tags'', opt_to_py (seq_to_py sns_tag_to_py) (nltfro_tags v))])"

section \<open>\<open>ListTopicsOutput\<close>\<close>

record list_topics_output =
  nlto_topics :: "topic list option"
  nlto_next_token :: "string option"

definition list_topics_output_attributes :: "((string, pyval) fmap \<Rightarrow> (string \<times> pyval) list) \<Rightarrow> sns_types \<Rightarrow> list_topics_output \<Rightarrow> (string \<times> sns_attr) list" where
  "list_topics_output_attributes order S v =
     [(''topics'', sns_opt_attr (\<lambda>xs. SnsObjects (map SnsTopic xs)) (nlto_topics v)),
      (''next_token'', SnsPlain (opt_to_py PyStr (nlto_next_token v)))]"

definition list_topics_output_to_dict :: "((string, pyval) fmap \<Rightarrow> (string \<times> pyval) list) \<Rightarrow> sns_types \<Rightarrow> list_topics_output \<Rightarrow> pyval" where
  "list_topics_output_to_dict order S v = PyDict (py_dict
     [(''topics'', opt_to_py (seq_to_py topic_to_py) (nlto_topics v)),
      (''next_token'', opt_to_py PyStr (nlto_next_token v))])"

section \<open>\<open>OptInPhoneNumberOutput\<close>\<close>

datatype opt_in_phone_number_output = OptInPhoneNumberOutput

definition opt_in_phone_number_output_attributes :: "((string, pyval) fmap \<Rightarrow> (string \<times> pyval) list) \<Rightarrow> sns_types \<Rightarrow> opt_in_phone_number_output \<Rightarrow> (string \<times> sns_attr) list" where
  "opt_in_phone_number_output_attributes order S v = []"

definition opt_in_phone_number_output_to_dict :: "((string, pyval) fmap \<Rightarrow> (string \<times> pyval) list) \<Rightarrow> sns_types \<Rightarrow> opt_in_phone_number_output \<Rightarrow> pyval" where
  "opt_in_phone_number_output_to_dict order S v = PyDict (py_dict [])"

section \<open>\<open>PublishOutput\<close>\<close>

record publish_output =
  npo_message_id :: "string option"
  npo_sequence_number :: "string option"

definition publish_output_attributes :: "((string, pyval) fmap \<Rightarrow> (string \<times> pyval) list) \<Rightarrow> sns_types \<Rightarrow> publish_output \<Rightarrow> (string \<times> sns_attr) list" where
  "publish_output_attributes order S v =
     [(''message_id'', SnsPlain (opt_to_py PyStr (npo_message_id v))),
      (''sequence_number'', SnsPlain (opt_to_py PyStr (npo_sequence_number v)))]"

definition publish_output_to_dict :: "((string, pyval) fmap \<Rightarrow> (string \<times> pyval) list) \<Rightarrow> sns_types \<Rightarrow> publish_output \<Rightarrow> pyval" where
  "publish_output_to_dict order S v = PyDict (py_dict
     [(''message_id'', opt_to_py PyStr (npo_message_id v)),
      (''sequence_number'', opt_to_py PyStr (npo_sequence_number v))])"

section \<open>\<open>PublishBatchOutput\<close>\<close>

record publish_batch_output =
  npbo_successful :: "publish_batch_result_entry list option"
  npbo_failed :: "sns_batch_result_error_entry list option"

definition publish_batch_output_attributes :: "((string, pyval) fmap \<Rightarrow> (string \<times> pyval) list) \<Rightarrow> sns_types \<Rightarrow> publish_batch_output \<Rightarrow> (string \<times> sns_attr) list" where
  "publish_batch_output_attributes order S v =
     [(''successful'', sns_opt_attr (\<lambda>xs. SnsObjects (map SnsPublishBatchResultEntry xs)) (npbo_successful v)),
      (''failed'', sns_opt_attr (\<lambda>xs. SnsObjects (map SnsBatchResultErrorEntry xs)) (npbo_failed v))]"

definition publish_batch_output_to_dict :: "((string, pyval) fmap \<Rightarrow> (string \<times> pyval) list) \<Rightarrow> sns_types \<Rightarrow> publish_batch_output \<Rightarrow> pyval" where
  "publish_batch_output_to_dict order S v = PyDict (py_dict
     [(''successful'', opt_to_py (seq_to_py publish_batch_result_entry_to_py) (npbo_successful v)),
      (''failed'', opt_to_py (seq_to_py sns_batch_result_error_entry_to_py) (npbo_failed v))])"

section \<open>\<open>SetSMSAttributesOutput\<close>\<close>

datatype set_smsattributes_output = SetSmsattributesOutput

definition set_smsattributes_output_attributes :: "((string, pyval) fmap \<Rightarrow> (string \<times> pyval) list) \<Rightarrow> sns_types \<Rightarrow> set_smsattributes_output \<Rightarrow> (string \<times> sns_attr) list" where
  "set_smsattributes_output_attributes order S v = []"

definition set_smsattributes_output_to_dict :: "((string, pyval) fmap \<Rightarrow> (string \<times> pyval) list) \<Rightarrow> sns_types \<Rightarrow> set_smsattributes_output \<Rightarrow> pyval" where
  "set_smsattributes_output_to_dict order S v = PyDict (py_dict [])"

section \<open>\<open>SubscribeOutput\<close>\<close>

record subscribe_output =
  nso_subscription_arn :: "string option"

definition subscribe_output_attributes :: "((string, pyval) fmap \<Rightarrow> (string \<times> pyval) list) \<Rightarrow> sns_types \<Rightarrow> subscribe_output \<Rightarrow> (string \<times> sns_attr) list" where
  "subscribe_output_attributes order S v =
     [(''subscription_arn'', SnsPlain (opt_to_py PyStr (nso_subscription_arn v)))]"

definition subscribe_output_to_dict :: "((string, pyval) fmap \<Rightarrow> (string \<times> pyval) list) \<Rightarrow> sns_types \<Rightarrow> subscribe_output \<Rightarrow> pyval" where
  "subscribe_output_to_dict order S v = PyDict (py_dict
     [(''subscription_arn'', opt_to_py PyStr (nso_subscription_arn v))])"

section \<open>\<open>TagResourceOutput\<close>\<close>

datatype tag_resource_output = TagResourceOutput

definition tag_resource_output_attributes :: "((string, pyval) fmap \<Rightarrow> (string \<times> pyval) list) \<Rightarrow> sns_types \<Rightarrow> tag_resource_output \<Rightarrow> (string \<times> sns_attr) list" where
  "tag_resource_output_attributes order S v = []"

definition tag_resource_output_to_dict :: "((string, pyval) fmap \<Rightarrow> (string \<times> pyval) list) \<Rightarrow> sns_types \<Rightarrow> tag_resource_output \<Rightarrow> pyval" where
  "tag_resource_output_to_dict order S v = PyDict (py_dict [])"

section \<open>\<open>UntagResourceOutput\<close>\<close>

datatype untag_resource_output = UntagResourceOutput

definition untag_resource_output_attributes :: "((string, pyval) fmap \<Rightarrow> (string \<times> pyval) list) \<Rightarrow> sns_types \<Rightarrow> untag_resource_output \<Rightarrow> (string \<times> sns_attr) list" where
  "untag_resource_output_attributes order S v = []"

definition untag_resource_output_to_dict :: "((string, pyval) fmap \<Rightarrow> (string \<times> pyval) list) \<Rightarrow> sns_types \<Rightarrow> untag_resource_output \<Rightarrow> pyval" where
  "untag_resource_output_to_dict order S v = PyDict (py_dict [])"

section \<open>\<open>VerifySMSSandboxPhoneNumberOutput\<close>\<close>

datatype verify_smssandbox_phone_number_output = VerifySmssandboxPhoneNumberOutput

definition verify_smssandbox_phone_number_output_attributes :: "((string, pyval) fmap \<Rightarrow> (string \<times> pyval) list) \<Rightarrow> sns_types \<Rightarrow> verify_smssandbox_phone_number_output \<Rightarrow> (string \<times> sns_attr) list" where
  "verify_smssandbox_phone_number_output_attributes order S v = []"

definition verify_smssandbox_phone_number_output_to_dict :: "((string, pyval) fmap \<Rightarrow> (string \<times> pyval) list) \<Rightarrow> sns_types \<Rightarrow> verify_smssandbox_phone_number_output \<Rightarrow> pyval" where
  "verify_smssandbox_phone_number_output_to_dict order S v = PyDict (py_dict [])"

section \<open>Dictionaries and attributes agree\<close>

text \<open>The plain value of an object is what its own \<open>to_dict\<close> gives.\<close>

fun sns_render_object :: "((string, pyval) fmap \<Rightarrow> (string \<times> pyval) list) \<Rightarrow> sns_types \<Rightarrow> sns_object \<Rightarrow> pyval" where
  "sns_render_object order S (SnsBatchResultErrorEntry v) = sns_batch_result_error_entry_to_dict order S v"
| "sns_render_object order S (SnsEndpoint v) = endpoint_to_dict order S v"
| "sns_render_object order S (SnsPhoneNumberInformation v) = phone_number_information_to_dict order S v"
| "sns_render_object order S (SnsPlatformApplication v) = platform_application_to_dict order S v"
| "sns_render_object order S (SnsPublishBatchResultEntry v) = publish_batch_result_entry_to_dict order S v"
| "sns_render_object order S (SnsSmsSandboxPhoneNumber v) = sms_sandbox_phone_number_to_dict order S v"
| "sns_render_object order S (SnsSubscription v) = subscription_to_dict order S v"
| "sns_render_object order S (SnsTag v) = sns_tag_to_dict order S v"
| "sns_render_object order S (SnsTopic v) = topic_to_dict order S v"

fun sns_render :: "((string, pyval) fmap \<Rightarrow> (string \<times> pyval) list) \<Rightarrow> sns_types \<Rightarrow> sns_attr \<Rightarrow> pyval" where
  "sns_render order S (SnsPlain v) = v"
| "sns_render order S (SnsObject x) = sns_render_object order S x"
| "sns_render order S (SnsObjects xs) = seq_to_py (sns_render_object order S) xs"
| "sns_render order S (SnsObjectMap m) = mapping_to_py order (sns_render_object order S) m"

lemma sns_render_parts [simp]:
  "sns_render order S (sns_opt_attr f v) = opt_to_py (\<lambda>x. sns_render order S (f x)) v"
  "seq_to_py g (map h xs) = seq_to_py (\<lambda>x. g (h x)) xs"
  "mapping_to_py order g (fmmap k m) = mapping_to_py order (\<lambda>x. g (k x)) m"
  by (simp_all add: sns_opt_attr_def seq_to_py_def mapping_to_py_def fmap.map_comp comp_def split: option.splits)

definition sns_attribute_dict :: "((string, pyval) fmap \<Rightarrow> (string \<times> pyval) list) \<Rightarrow> sns_types \<Rightarrow> (string \<times> sns_attr) list \<Rightarrow> pyval" where
  "sns_attribute_dict order S attrs = PyDict (map (\<lambda>(name, a). (PyStr name, sns_render order S a)) attrs)"

text \<open>
  For each of the 40 response classes, \<open>to_dict\<close> has exactly one entry per attribute, in the order of
  the getters, with the attribute's value: the value itself, or the dictionaries of the objects.
\<close>

lemma sns_batch_result_error_entry_agrees:
  "sns_batch_result_error_entry_to_dict order S v = sns_attribute_dict order S (sns_batch_result_error_entry_attributes order S v)"
  by (simp add: sns_attribute_dict_def py_dict_distinct sns_batch_result_error_entry_to_dict_def sns_batch_result_error_entry_attributes_def
      sns_batch_result_error_entry_to_py_def)

lemma endpoint_agrees:
  "endpoint_to_dict order S v = sns_attribute_dict order S (endpoint_attributes order S v)"
  by (simp add: sns_attribute_dict_def py_dict_distinct endpoint_to_dict_def endpoint_attributes_def
      endpoint_to_py_def)

lemma phone_number_information_agrees:
  "phone_number_information_to_dict order S v = sns_attribute_dict order S (phone_number_information_attributes order S v)"
  by (simp add: sns_attribute_dict_def py_dict_distinct phone_number_information_to_dict_def phone_number_information_attributes_def
      phone_number_information_to_py_def)

lemma platform_application_agrees:
  "platform_application_to_dict order S v = sns_attribute_dict order S (platform_application_attributes order S v)"
  by (simp add: sns_attribute_dict_def py_dict_distinct platform_application_to_dict_def platform_application_attributes_def
      platform_application_to_py_def)

lemma publish_batch_result_entry_agrees:
  "publish_batch_result_entry_to_dict order S v = sns_attribute_dict order S (publish_batch_result_entry_attributes order S v)"
  by (simp add: sns_attribute_dict_def py_dict_distinct publish_batch_result_entry_to_dict_def publish_batch_result_entry_attributes_def
      publish_batch_result_entry_to_py_def)

lemma sms_sandbox_phone_number_agrees:
  "sms_sandbox_phone_number_to_dict order S v = sns_attribute_dict order S (sms_sandbox_phone_number_attributes order S v)"
  by (simp add: sns_attribute_dict_def py_dict_distinct sms_sandbox_phone_number_to_dict_def sms_sandbox_phone_number_attributes_def
      sms_sandbox_phone_number_to_py_def)

lemma subscription_agrees:
  "subscription_to_dict order S v = sns_attribute_dict order S (subscription_attributes order S v)"
  by (simp add: sns_attribute_dict_def py_dict_distinct subscription_to_dict_def subscription_attributes_def
      subscription_to_py_def)

lemma sns_tag_agrees:
  "sns_tag_to_dict order S v = sns_attribute_dict order S (sns_tag_attributes order S v)"
  by (simp add: sns_attribute_dict_def py_dict_distinct sns_tag_to_dict_def sns_tag_attributes_def
      sns_tag_to_py_def)

lemma topic_agrees:
  "topic_to_dict order S v = sns_attribute_dict order S (topic_attributes order S v)"
  by (simp add: sns_attribute_dict_def py_dict_distinct topic_to_dict_def topic_attributes_def
      topic_to_py_def)

lemma sns_outputs_agree:
  "check_if_phone_number_is_opted_out_output_to_dict order S v9 = sns_attribute_dict order S (check_if_phone_number_is_opted_out_output_attributes order S v9)"
  "confirm_subscription_output_to_dict order S v10 = sns_attribute_dict order S (confirm_subscription_output_attributes order S v10)"
  "create_platform_application_output_to_dict order S v11 = sns_attribute_dict order S (create_platform_application_output_attributes order S v11)"
  "create_platform_endpoint_output_to_dict order S v12 = sns_attribute_dict order S (create_platform_endpoint_output_attributes order S v12)"
  "create_smssandbox_phone_number_output_to_dict order S v13 = sns_attribute_dict order S (create_smssandbox_phone_number_output_attributes order S v13)"
  "create_topic_output_to_dict order S v14 = sns_attribute_dict order S (create_topic_output_attributes order S v14)"
  "delete_smssandbox_phone_number_output_to_dict order S v15 = sns_attribute_dict order S (delete_smssandbox_phone_number_output_attributes order S v15)"
  "get_data_protection_policy_output_to_dict order S v16 = sns_attribute_dict order S (get_data_protection_policy_output_attributes order S v16)"
  "get_endpoint_attributes_output_to_dict order S v17 = sns_attribute_dict order S (get_endpoint_attributes_output_attributes order S v17)"
  "get_platform_application_attributes_output_to_dict order S v18 = sns_attribute_dict order S (get_platform_application_attributes_output_attributes order S v18)"
  "get_smsattributes_output_to_dict order S v19 = sns_attribute_dict order S (get_smsattributes_output_attributes order S v19)"
  "get_smssandbox_account_status_output_to_dict order S v20 = sns_attribute_dict order S (get_smssandbox_account_status_output_attributes order S v20)"
  "get_subscription_attributes_output_to_dict order S v21 = sns_attribute_dict order S (get_subscription_attributes_output_attributes order S v21)"
  "get_topic_attributes_output_to_dict order S v22 = sns_attribute_dict order S (get_topic_attributes_output_attributes order S v22)"
  "list_endpoints_by_platform_application_output_to_dict order S v23 = sns_attribute_dict order S (list_endpoints_by_platform_application_output_attributes order S v23)"
  "list_origination_numbers_output_to_dict order S v24 = sns_attribute_dict order S (list_origination_numbers_output_attributes order S v24)"
  "list_phone_numbers_opted_out_output_to_dict order S v25 = sns_attribute_dict order S (list_phone_numbers_opted_out_output_attributes order S v25)"
  "list_platform_applications_output_to_dict order S v26 = sns_attribute_dict order S (list_platform_applications_output_attributes order S v26)"
  "list_smssandbox_phone_numbers_output_to_dict order S v27 = sns_attribute_dict order S (list_smssandbox_phone_numbers_output_attributes order S v27)"
  "list_subscriptions_output_to_dict order S v28 = sns_attribute_dict order S (list_subscriptions_output_attributes order S v28)"
  "list_subscriptions_by_topic_output_to_dict order S v29 = sns_attribute_dict order S (list_subscriptions_by_topic_output_attributes order S v29)"
  "list_tags_for_resource_output_to_dict order S v30 = sns_attribute_dict order S (list_tags_for_resource_output_attributes order S v30)"
  "list_topics_output_to_dict order S v31 = sns_attribute_dict order S (list_topics_output_attributes order S v31)"
  "opt_in_phone_number_output_to_dict order S v32 = sns_attribute_dict order S (opt_in_phone_number_output_attributes order S v32)"
  "publish_output_to_dict order S v33 = sns_attribute_dict order S (publish_output_attributes order S v33)"
  "publish_batch_output_to_dict order S v34 = sns_attribute_dict order S (publish_batch_output_attributes order S v34)"
  "set_smsattributes_output_to_dict order S v35 = sns_attribute_dict order S (set_smsattributes_output_attributes order S v35)"
  "subscribe_output_to_dict order S v36 = sns_attribute_dict order S (subscribe_output_attributes order S v36)"
  "tag_resource_output_to_dict order S v37 = sns_attribute_dict order S (tag_resource_output_attributes order S v37)"
  "untag_resource_output_to_dict order S v38 = sns_attribute_dict order S (untag_resource_output_attributes order S v38)"
  "verify_smssandbox_phone_number_output_to_dict order S v39 = sns_attribute_dict order S (verify_smssandbox_phone_number_output_attributes order S v39)"
  by (simp_all add: sns_attribute_dict_def py_dict_distinct
      check_if_phone_number_is_opted_out_output_to_dict_def check_if_phone_number_is_opted_out_output_attributes_def
      confirm_subscription_output_to_dict_def confirm_subscription_output_attributes_def
      create_platform_application_output_to_dict_def create_platform_application_output_attributes_def
      create_platform_endpoint_output_to_dict_def create_platform_endpoint_output_attributes_def
      create_smssandbox_phone_number_output_to_dict_def create_smssandbox_phone_number_output_attributes_def
      create_topic_output_to_dict_def create_topic_output_attributes_def
      delete_smssandbox_phone_number_output_to_dict_def delete_smssandbox_phone_number_output_attributes_def
      get_data_protection_policy_output_to_dict_def get_data_protection_policy_output_attributes_def
      get_endpoint_attributes_output_to_dict_def get_endpoint_attributes_output_attributes_def
      get_platform_application_attributes_output_to_dict_def get_platform_application_attributes_output_attributes_def
      get_smsattributes_output_to_dict_def get_smsattributes_output_attributes_def
      get_smssandbox_account_status_output_to_dict_def get_smssandbox_account_status_output_attributes_def
      get_subscription_attributes_output_to_dict_def get_subscription_attributes_output_attributes_def
      get_topic_attributes_output_to_dict_def get_topic_attributes_output_attributes_def
      list_endpoints_by_platform_application_output_to_dict_def list_endpoints_by_platform_application_output_attributes_def
      list_origination_numbers_output_to_dict_def list_origination_numbers_output_attributes_def
      list_phone_numbers_opted_out_output_to_dict_def list_phone_numbers_opted_out_output_attributes_def
      list_platform_applications_output_to_dict_def list_platform_applications_output_attributes_def
      list_smssandbox_phone_numbers_output_to_dict_def list_smssandbox_phone_numbers_output_attributes_def
      list_subscriptions_output_to_dict_def list_subscriptions_output_attributes_def
      list_subscriptions_by_topic_output_to_dict_def list_subscriptions_by_topic_output_attributes_def
      list_tags_for_resource_output_to_dict_def list_tags_for_resource_output_attributes_def
      list_topics_output_to_dict_def list_topics_output_attributes_def
      opt_in_phone_number_output_to_dict_def opt_in_phone_number_output_attributes_def
      publish_output_to_dict_def publish_output_attributes_def
      publish_batch_output_to_dict_def publish_batch_output_attributes_def
      set_smsattributes_output_to_dict_def set_smsattributes_output_attributes_def
      subscribe_output_to_dict_def subscribe_output_attributes_def
      tag_resource_output_to_dict_def tag_resource_output_attributes_def
      untag_resource_output_to_dict_def untag_resource_output_attributes_def
      verify_smssandbox_phone_number_output_to_dict_def verify_smssandbox_phone_number_output_attributes_def
      sns_batch_result_error_entry_to_dict_def
      endpoint_to_dict_def
      phone_number_information_to_dict_def
      platform_application_to_dict_def
      publish_batch_result_entry_to_dict_def
      sms_sandbox_phone_number_to_dict_def
      subscription_to_dict_def
      sns_tag_to_dict_def
      topic_to_dict_def)

end
