(* ===== verification/Sns.thy ===== *)
theory Sns
  imports SnsOutputs
begin

text \<open>
  The operations of the SNS client: the methods of \<open>SNSClient\<close> in
  \<open>crates/rboto-sns/src/generated.rs\<close>, each reading its parameters from a dictionary and sending them
  through the shared \<open>execute\<close>, and the methods of the Python client
  (\<open>packages/rboto-sns/python/rboto_sns/client.py\<close>) that build those dictionaries.
\<close>

section \<open>The error of \<open>VerifySMSSandboxPhoneNumber\<close> with details\<close>

text \<open>A one-time password that does not verify the number: the status the service gives.\<close>

definition verification_exception_details :: "string \<Rightarrow> pydict" where
  "verification_exception_details status = details_of [(''status'', Some (PyStr status))]"

datatype verify_sms_sandbox_phone_number_error = VerificationException string | VerifySmsSandboxPhoneNumberOther

definition verify_sms_sandbox_phone_number_error_details ::
    "verify_sms_sandbox_phone_number_error \<Rightarrow> pydict pyresult" where
  "verify_sms_sandbox_phone_number_error_details e = Inr (case e of
     VerificationException status \<Rightarrow> verification_exception_details status
   | VerifySmsSandboxPhoneNumberOther \<Rightarrow> [])"

section \<open>Operations\<close>

subsection \<open>\<open>AddPermission\<close>\<close>

record sns_add_permission_input =
  nsapi_topic_arn :: "string option"
  nsapi_label :: "string option"
  nsapi_aws_account_id :: "string list option"
  nsapi_action_name :: "string list option"

definition sns_add_permission_params :: "pyo3 \<Rightarrow> sns_types \<Rightarrow> pydict \<Rightarrow>
    sns_add_permission_input pyresult" where
  "sns_add_permission_params P S params =
     and_then (op_param P ''sns'' ''AddPermission'' params ''topic_arn'' ''str'' (string_from_py P)) (\<lambda>topic_arn.
     and_then (op_param P ''sns'' ''AddPermission'' params ''label'' ''str'' (string_from_py P)) (\<lambda>label.
     and_then (op_param P ''sns'' ''AddPermission'' params ''aws_account_id'' ''sequence'' (seq_from_py P ''str'' (string_from_py P))) (\<lambda>aws_account_id.
     and_then (op_param P ''sns'' ''AddPermission'' params ''action_name'' ''sequence'' (seq_from_py P ''str'' (string_from_py P))) (\<lambda>action_name.
     Inr \<lparr>nsapi_topic_arn = topic_arn,
       nsapi_label = label,
       nsapi_aws_account_id = aws_account_id,
       nsapi_action_name = action_name\<rparr>))))"

definition sns_add_permission :: "('cfg, 'client) service_env \<Rightarrow> pyo3 \<Rightarrow> sns_types \<Rightarrow> unit pyresult \<Rightarrow> bool \<Rightarrow>
    ('client \<Rightarrow> sns_add_permission_input \<Rightarrow> trip list \<times> (('e, http_response) sdk_error + unit)) \<Rightarrow>
    'client client_handle \<Rightarrow> pydict \<Rightarrow> pydict option \<Rightarrow>
    (unit pyresult \<times> 'client client_handle \<times> pydict option) option" where
  "sns_add_permission E P S bridge interrupted send c params observation =
     execute E bridge interrupted send no_details
       ''AddPermission'' (sns_add_permission_params P S params) c observation"

definition sns_add_permission_call :: "sns_add_permission_input \<Rightarrow> pydict" where
  "sns_add_permission_call i = py_params
     [(''topic_arn'', opt_to_py PyStr (nsapi_topic_arn i)),
      (''label'', opt_to_py PyStr (nsapi_label i)),
      (''aws_account_id'', opt_to_py (seq_to_py PyStr) (nsapi_aws_account_id i)),
      (''action_name'', opt_to_py (seq_to_py PyStr) (nsapi_action_name i))]
     []"

subsection \<open>\<open>CheckIfPhoneNumberIsOptedOut\<close>\<close>

record check_if_phone_number_is_opted_out_input =
  ncipniooi_phone_number :: "string option"

definition check_if_phone_number_is_opted_out_params :: "pyo3 \<Rightarrow> sns_types \<Rightarrow> pydict \<Rightarrow>
    check_if_phone_number_is_opted_out_input pyresult" where
  "check_if_phone_number_is_opted_out_params P S params =
     and_then (op_param P ''sns'' ''CheckIfPhoneNumberIsOptedOut'' params ''phone_number'' ''str'' (string_from_py P)) (\<lambda>phone_number.
     Inr \<lparr>ncipniooi_phone_number = phone_number\<rparr>)"

definition check_if_phone_number_is_opted_out :: "('cfg, 'client) service_env \<Rightarrow> pyo3 \<Rightarrow> sns_types \<Rightarrow> unit pyresult \<Rightarrow> bool \<Rightarrow>
    ('client \<Rightarrow> check_if_phone_number_is_opted_out_input \<Rightarrow> trip list \<times> (('e, http_response) sdk_error + check_if_phone_number_is_opted_out_output)) \<Rightarrow>
    'client client_handle \<Rightarrow> pydict \<Rightarrow> pydict option \<Rightarrow>
    (check_if_phone_number_is_opted_out_output pyresult \<times> 'client client_handle \<times> pydict option) option" where
  "check_if_phone_number_is_opted_out E P S bridge interrupted send c params observation =
     execute E bridge interrupted send no_details
       ''CheckIfPhoneNumberIsOptedOut'' (check_if_phone_number_is_opted_out_params P S params) c observation"

definition check_if_phone_number_is_opted_out_call :: "check_if_phone_number_is_opted_out_input \<Rightarrow> pydict" where
  "check_if_phone_number_is_opted_out_call i = py_params
     [(''phone_number'', opt_to_py PyStr (ncipniooi_phone_number i))]
     []"

subsection \<open>\<open>ConfirmSubscription\<close>\<close>

record confirm_subscription_input =
  ncsi_topic_arn :: "string option"
  ncsi_token :: "string option"
  ncsi_authenticate_on_unsubscribe :: "string option"

definition confirm_subscription_params :: "pyo3 \<Rightarrow> sns_types \<Rightarrow> pydict \<Rightarrow>
    confirm_subscription_input pyresult" where
  "confirm_subscription_params P S params =
     and_then (op_param P ''sns'' ''ConfirmSubscription'' params ''topic_arn'' ''str'' (string_from_py P)) (\<lambda>topic_arn.
     and_then (op_param P ''sns'' ''ConfirmSubscription'' params ''token'' ''str'' (string_from_py P)) (\<lambda>token.
     and_then (op_param P ''sns'' ''ConfirmSubscription'' params ''authenticate_on_unsubscribe'' ''str'' (string_from_py P)) (\<lambda>authenticate_on_unsubscribe.
     Inr \<lparr>ncsi_topic_arn = topic_arn,
       ncsi_token = token,
       ncsi_authenticate_on_unsubscribe = authenticate_on_unsubscribe\<rparr>)))"

definition confirm_subscription :: "('cfg, 'client) service_env \<Rightarrow> pyo3 \<Rightarrow> sns_types \<Rightarrow> unit pyresult \<Rightarrow> bool \<Rightarrow>
    ('client \<Rightarrow> confirm_subscription_input \<Rightarrow> trip list \<times> (('e, http_response) sdk_error + confirm_subscription_output)) \<Rightarrow>
    'client client_handle \<Rightarrow> pydict \<Rightarrow> pydict option \<Rightarrow>
    (confirm_subscription_output pyresult \<times> 'client client_handle \<times> pydict option) option" where
  "confirm_subscription E P S bridge interrupted send c params observation =
     execute E bridge interrupted send no_details
       ''ConfirmSubscription'' (confirm_subscription_params P S params) c observation"

definition confirm_subscription_call :: "confirm_subscription_input \<Rightarrow> pydict" where
  "confirm_subscription_call i = py_params
     [(''topic_arn'', opt_to_py PyStr (ncsi_topic_arn i)),
      (''token'', opt_to_py PyStr (ncsi_token i))]
     [(''authenticate_on_unsubscribe'', opt_to_py PyStr (ncsi_authenticate_on_unsubscribe i))]"

subsection \<open>\<open>CreatePlatformApplication\<close>\<close>

record create_platform_application_input =
  ncpai_name :: "string option"
  ncpai_platform :: "string option"
  ncpai_attributes :: "(string, string) fmap option"

definition create_platform_application_params :: "pyo3 \<Rightarrow> sns_types \<Rightarrow> pydict \<Rightarrow>
    create_platform_application_input pyresult" where
  "create_platform_application_params P S params =
     and_then (op_param P ''sns'' ''CreatePlatformApplication'' params ''name'' ''str'' (string_from_py P)) (\<lambda>name.
     and_then (op_param P ''sns'' ''CreatePlatformApplication'' params ''platform'' ''str'' (string_from_py P)) (\<lambda>platform.
     and_then (op_param P ''sns'' ''CreatePlatformApplication'' params ''attributes'' ''dict'' (map_from_py P ''str'' ''str'' (string_from_py P))) (\<lambda>attributes.
     Inr \<lparr>ncpai_name = name,
       ncpai_platform = platform,
       ncpai_attributes = attributes\<rparr>)))"

definition create_platform_application :: "('cfg, 'client) service_env \<Rightarrow> pyo3 \<Rightarrow> sns_types \<Rightarrow> unit pyresult \<Rightarrow> bool \<Rightarrow>
    ('client \<Rightarrow> create_platform_application_input \<Rightarrow> trip list \<times> (('e, http_response) sdk_error + create_platform_application_output)) \<Rightarrow>
    'client client_handle \<Rightarrow> pydict \<Rightarrow> pydict option \<Rightarrow>
    (create_platform_application_output pyresult \<times> 'client client_handle \<times> pydict option) option" where
  "create_platform_application E P S bridge interrupted send c params observation =
     execute E bridge interrupted send no_details
       ''CreatePlatformApplication'' (create_platform_application_params P S params) c observation"

definition create_platform_application_call :: "((string, pyval) fmap \<Rightarrow> (string \<times> pyval) list) \<Rightarrow> create_platform_application_input \<Rightarrow> pydict" where
  "create_platform_application_call order i = py_params
     [(''name'', opt_to_py PyStr (ncpai_name i)),
      (''platform'', opt_to_py PyStr (ncpai_platform i)),
      (''attributes'', opt_to_py (mapping_to_py order PyStr) (ncpai_attributes i))]
     []"

subsection \<open>\<open>CreatePlatformEndpoint\<close>\<close>

record create_platform_endpoint_input =
  ncpei_platform_application_arn :: "string option"
  ncpei_token :: "string option"
  ncpei_custom_user_data :: "string option"
  ncpei_attributes :: "(string, string) fmap option"

definition create_platform_endpoint_params :: "pyo3 \<Rightarrow> sns_types \<Rightarrow> pydict \<Rightarrow>
    create_platform_endpoint_input pyresult" where
  "create_platform_endpoint_params P S params =
     and_then (op_param P ''sns'' ''CreatePlatformEndpoint'' params ''platform_application_arn'' ''str'' (string_from_py P)) (\<lambda>platform_application_arn.
     and_then (op_param P ''sns'' ''CreatePlatformEndpoint'' params ''token'' ''str'' (string_from_py P)) (\<lambda>token.
     and_then (op_param P ''sns'' ''CreatePlatformEndpoint'' params ''custom_user_data'' ''str'' (string_from_py P)) (\<lambda>custom_user_data.
     and_then (op_param P ''sns'' ''CreatePlatformEndpoint'' params ''attributes'' ''dict'' (map_from_py P ''str'' ''str'' (string_from_py P))) (\<lambda>attributes.
     Inr \<lparr>ncpei_platform_application_arn = platform_application_arn,
       ncpei_token = token,
       ncpei_custom_user_data = custom_user_data,
       ncpei_attributes = attributes\<rparr>))))"

definition create_platform_endpoint :: "('cfg, 'client) service_env \<Rightarrow> pyo3 \<Rightarrow> sns_types \<Rightarrow> unit pyresult \<Rightarrow> bool \<Rightarrow>
    ('client \<Rightarrow> create_platform_endpoint_input \<Rightarrow> trip list \<times> (('e, http_response) sdk_error + create_platform_endpoint_output)) \<Rightarrow>
    'client client_handle \<Rightarrow> pydict \<Rightarrow> pydict option \<Rightarrow>
    (create_platform_endpoint_output pyresult \<times> 'client client_handle \<times> pydict option) option" where
  "create_platform_endpoint E P S bridge interrupted send c params observation =
     execute E bridge interrupted send no_details
       ''CreatePlatformEndpoint'' (create_platform_endpoint_params P S params) c observation"

definition create_platform_endpoint_call :: "((string, pyval) fmap \<Rightarrow> (string \<times> pyval) list) \<Rightarrow> create_platform_endpoint_input \<Rightarrow> pydict" where
  "create_platform_endpoint_call order i = py_params
     [(''platform_application_arn'', opt_to_py PyStr (ncpei_platform_application_arn i)),
      (''token'', opt_to_py PyStr (ncpei_token i))]
     [(''custom_user_data'', opt_to_py PyStr (ncpei_custom_user_data i)),
      (''attributes'', opt_to_py (mapping_to_py order PyStr) (ncpei_attributes i))]"

subsection \<open>\<open>CreateSMSSandboxPhoneNumber\<close>\<close>

record create_sms_sandbox_phone_number_input =
  ncsspni_phone_number :: "string option"
  ncsspni_language_code :: "string option"

definition create_sms_sandbox_phone_number_params :: "pyo3 \<Rightarrow> sns_types \<Rightarrow> pydict \<Rightarrow>
    create_sms_sandbox_phone_number_input pyresult" where
  "create_sms_sandbox_phone_number_params P S params =
     and_then (op_param P ''sns'' ''CreateSMSSandboxPhoneNumber'' params ''phone_number'' ''str'' (string_from_py P)) (\<lambda>phone_number.
     and_then (op_param P ''sns'' ''CreateSMSSandboxPhoneNumber'' params ''language_code'' ''str (LanguageCodeString)'' (enum_from_py P)) (\<lambda>language_code.
     Inr \<lparr>ncsspni_phone_number = phone_number,
       ncsspni_language_code = language_code\<rparr>))"

definition create_sms_sandbox_phone_number :: "('cfg, 'client) service_env \<Rightarrow> pyo3 \<Rightarrow> sns_types \<Rightarrow> unit pyresult \<Rightarrow> bool \<Rightarrow>
    ('client \<Rightarrow> create_sms_sandbox_phone_number_input \<Rightarrow> trip list \<times> (('e, http_response) sdk_error + create_smssandbox_phone_number_output)) \<Rightarrow>
    'client client_handle \<Rightarrow> pydict \<Rightarrow> pydict option \<Rightarrow>
    (create_smssandbox_phone_number_output pyresult \<times> 'client client_handle \<times> pydict option) option" where
  "create_sms_sandbox_phone_number E P S bridge interrupted send c params observation =
     execute E bridge interrupted send no_details
       ''CreateSMSSandboxPhoneNumber'' (create_sms_sandbox_phone_number_params P S params) c observation"

definition create_sms_sandbox_phone_number_call :: "create_sms_sandbox_phone_number_input \<Rightarrow> pydict" where
  "create_sms_sandbox_phone_number_call i = py_params
     [(''phone_number'', opt_to_py PyStr (ncsspni_phone_number i))]
     [(''language_code'', opt_to_py PyStr (ncsspni_language_code i))]"

subsection \<open>\<open>CreateTopic\<close>\<close>

record create_topic_input =
  ncti_name :: "string option"
  ncti_attributes :: "(string, string) fmap option"
  ncti_tags :: "sns_tag list option"
  ncti_data_protection_policy :: "string option"

definition create_topic_params :: "pyo3 \<Rightarrow> sns_types \<Rightarrow> pydict \<Rightarrow>
    create_topic_input pyresult" where
  "create_topic_params P S params =
     and_then (op_param P ''sns'' ''CreateTopic'' params ''name'' ''str'' (string_from_py P)) (\<lambda>name.
     and_then (op_param P ''sns'' ''CreateTopic'' params ''attributes'' ''dict'' (map_from_py P ''str'' ''str'' (string_from_py P))) (\<lambda>attributes.
     and_then (op_param P ''sns'' ''CreateTopic'' params ''tags'' ''sequence'' (seq_from_py P ''dict (Tag)'' (sns_tag_from_py P S))) (\<lambda>tags.
     and_then (op_param P ''sns'' ''CreateTopic'' params ''data_protection_policy'' ''str'' (string_from_py P)) (\<lambda>data_protection_policy.
     Inr \<lparr>ncti_name = name,
       ncti_attributes = attributes,
       ncti_tags = tags,
       ncti_data_protection_policy = data_protection_policy\<rparr>))))"

definition create_topic :: "('cfg, 'client) service_env \<Rightarrow> pyo3 \<Rightarrow> sns_types \<Rightarrow> unit pyresult \<Rightarrow> bool \<Rightarrow>
    ('client \<Rightarrow> create_topic_input \<Rightarrow> trip list \<times> (('e, http_response) sdk_error + create_topic_output)) \<Rightarrow>
    'client client_handle \<Rightarrow> pydict \<Rightarrow> pydict option \<Rightarrow>
    (create_topic_output pyresult \<times> 'client client_handle \<times> pydict option) option" where
  "create_topic E P S bridge interrupted send c params observation =
     execute E bridge interrupted send no_details
       ''CreateTopic'' (create_topic_params P S params) c observation"

definition create_topic_call :: "((string, pyval) fmap \<Rightarrow> (string \<times> pyval) list) \<Rightarrow> create_topic_input \<Rightarrow> pydict" where
  "create_topic_call order i = py_params
     [(''name'', opt_to_py PyStr (ncti_name i))]
     [(''attributes'', opt_to_py (mapping_to_py order PyStr) (ncti_attributes i)),
      (''tags'', opt_to_py (seq_to_py sns_tag_to_py) (ncti_tags i)),
      (''data_protection_policy'', opt_to_py PyStr (ncti_data_protection_policy i))]"

subsection \<open>\<open>DeleteEndpoint\<close>\<close>

record delete_endpoint_input =
  ndei_endpoint_arn :: "string option"

definition delete_endpoint_params :: "pyo3 \<Rightarrow> sns_types \<Rightarrow> pydict \<Rightarrow>
    delete_endpoint_input pyresult" where
  "delete_endpoint_params P S params =
     and_then (op_param P ''sns'' ''DeleteEndpoint'' params ''endpoint_arn'' ''str'' (string_from_py P)) (\<lambda>endpoint_arn.
     Inr \<lparr>ndei_endpoint_arn = endpoint_arn\<rparr>)"

definition delete_endpoint :: "('cfg, 'client) service_env \<Rightarrow> pyo3 \<Rightarrow> sns_types \<Rightarrow> unit pyresult \<Rightarrow> bool \<Rightarrow>
    ('client \<Rightarrow> delete_endpoint_input \<Rightarrow> trip list \<times> (('e, http_response) sdk_error + unit)) \<Rightarrow>
    'client client_handle \<Rightarrow> pydict \<Rightarrow> pydict option \<Rightarrow>
    (unit pyresult \<times> 'client client_handle \<times> pydict option) option" where
  "delete_endpoint E P S bridge interrupted send c params observation =
     execute E bridge interrupted send no_details
       ''DeleteEndpoint'' (delete_endpoint_params P S params) c observation"

definition delete_endpoint_call :: "delete_endpoint_input \<Rightarrow> pydict" where
  "delete_endpoint_call i = py_params
     [(''endpoint_arn'', opt_to_py PyStr (ndei_endpoint_arn i))]
     []"

subsection \<open>\<open>DeletePlatformApplication\<close>\<close>

record delete_platform_application_input =
  ndpai_platform_application_arn :: "string option"

definition delete_platform_application_params :: "pyo3 \<Rightarrow> sns_types \<Rightarrow> pydict \<Rightarrow>
    delete_platform_application_input pyresult" where
  "delete_platform_application_params P S params =
     and_then (op_param P ''sns'' ''DeletePlatformApplication'' params ''platform_application_arn'' ''str'' (string_from_py P)) (\<lambda>platform_application_arn.
     Inr \<lparr>ndpai_platform_application_arn = platform_application_arn\<rparr>)"

definition delete_platform_application :: "('cfg, 'client) service_env \<Rightarrow> pyo3 \<Rightarrow> sns_types \<Rightarrow> unit pyresult \<Rightarrow> bool \<Rightarrow>
    ('client \<Rightarrow> delete_platform_application_input \<Rightarrow> trip list \<times> (('e, http_response) sdk_error + unit)) \<Rightarrow>
    'client client_handle \<Rightarrow> pydict \<Rightarrow> pydict option \<Rightarrow>
    (unit pyresult \<times> 'client client_handle \<times> pydict option) option" where
  "delete_platform_application E P S bridge interrupted send c params observation =
     execute E bridge interrupted send no_details
       ''DeletePlatformApplication'' (delete_platform_application_params P S params) c observation"

definition delete_platform_application_call :: "delete_platform_application_input \<Rightarrow> pydict" where
  "delete_platform_application_call i = py_params
     [(''platform_application_arn'', opt_to_py PyStr (ndpai_platform_application_arn i))]
     []"

subsection \<open>\<open>DeleteSMSSandboxPhoneNumber\<close>\<close>

record delete_sms_sandbox_phone_number_input =
  ndsspni_phone_number :: "string option"

definition delete_sms_sandbox_phone_number_params :: "pyo3 \<Rightarrow> sns_types \<Rightarrow> pydict \<Rightarrow>
    delete_sms_sandbox_phone_number_input pyresult" where
  "delete_sms_sandbox_phone_number_params P S params =
     and_then (op_param P ''sns'' ''DeleteSMSSandboxPhoneNumber'' params ''phone_number'' ''str'' (string_from_py P)) (\<lambda>phone_number.
     Inr \<lparr>ndsspni_phone_number = phone_number\<rparr>)"

definition delete_sms_sandbox_phone_number :: "('cfg, 'client) service_env \<Rightarrow> pyo3 \<Rightarrow> sns_types \<Rightarrow> unit pyresult \<Rightarrow> bool \<Rightarrow>
    ('client \<Rightarrow> delete_sms_sandbox_phone_number_input \<Rightarrow> trip list \<times> (('e, http_response) sdk_error + delete_smssandbox_phone_number_output)) \<Rightarrow>
    'client client_handle \<Rightarrow> pydict \<Rightarrow> pydict option \<Rightarrow>
    (delete_smssandbox_phone_number_output pyresult \<times> 'client client_handle \<times> pydict option) option" where
  "delete_sms_sandbox_phone_number E P S bridge interrupted send c params observation =
     execute E bridge interrupted send no_details
       ''DeleteSMSSandboxPhoneNumber'' (delete_sms_sandbox_phone_number_params P S params) c observation"

definition delete_sms_sandbox_phone_number_call :: "delete_sms_sandbox_phone_number_input \<Rightarrow> pydict" where
  "delete_sms_sandbox_phone_number_call i = py_params
     [(''phone_number'', opt_to_py PyStr (ndsspni_phone_number i))]
     []"

subsection \<open>\<open>DeleteTopic\<close>\<close>

record delete_topic_input =
  ndti_topic_arn :: "string option"

definition delete_topic_params :: "pyo3 \<Rightarrow> sns_types \<Rightarrow> pydict \<Rightarrow>
    delete_topic_input pyresult" where
  "delete_topic_params P S params =
     and_then (op_param P ''sns'' ''DeleteTopic'' params ''topic_arn'' ''str'' (string_from_py P)) (\<lambda>topic_arn.
     Inr \<lparr>ndti_topic_arn = topic_arn\<rparr>)"

definition delete_topic :: "('cfg, 'client) service_env \<Rightarrow> pyo3 \<Rightarrow> sns_types \<Rightarrow> unit pyresult \<Rightarrow> bool \<Rightarrow>
    ('client \<Rightarrow> delete_topic_input \<Rightarrow> trip list \<times> (('e, http_response) sdk_error + unit)) \<Rightarrow>
    'client client_handle \<Rightarrow> pydict \<Rightarrow> pydict option \<Rightarrow>
    (unit pyresult \<times> 'client client_handle \<times> pydict option) option" where
  "delete_topic E P S bridge interrupted send c params observation =
     execute E bridge interrupted send no_details
       ''DeleteTopic'' (delete_topic_params P S params) c observation"

definition delete_topic_call :: "delete_topic_input \<Rightarrow> pydict" where
  "delete_topic_call i = py_params
     [(''topic_arn'', opt_to_py PyStr (ndti_topic_arn i))]
     []"

subsection \<open>\<open>GetDataProtectionPolicy\<close>\<close>

record get_data_protection_policy_input =
  ngdppi_resource_arn :: "string option"

definition get_data_protection_policy_params :: "pyo3 \<Rightarrow> sns_types \<Rightarrow> pydict \<Rightarrow>
    get_data_protection_policy_input pyresult" where
  "get_data_protection_policy_params P S params =
     and_then (op_param P ''sns'' ''GetDataProtectionPolicy'' params ''resource_arn'' ''str'' (string_from_py P)) (\<lambda>resource_arn.
     Inr \<lparr>ngdppi_resource_arn = resource_arn\<rparr>)"

definition get_data_protection_policy :: "('cfg, 'client) service_env \<Rightarrow> pyo3 \<Rightarrow> sns_types \<Rightarrow> unit pyresult \<Rightarrow> bool \<Rightarrow>
    ('client \<Rightarrow> get_data_protection_policy_input \<Rightarrow> trip list \<times> (('e, http_response) sdk_error + get_data_protection_policy_output)) \<Rightarrow>
    'client client_handle \<Rightarrow> pydict \<Rightarrow> pydict option \<Rightarrow>
    (get_data_protection_policy_output pyresult \<times> 'client client_handle \<times> pydict option) option" where
  "get_data_protection_policy E P S bridge interrupted send c params observation =
     execute E bridge interrupted send no_details
       ''GetDataProtectionPolicy'' (get_data_protection_policy_params P S params) c observation"

definition get_data_protection_policy_call :: "get_data_protection_policy_input \<Rightarrow> pydict" where
  "get_data_protection_policy_call i = py_params
     [(''resource_arn'', opt_to_py PyStr (ngdppi_resource_arn i))]
     []"

subsection \<open>\<open>GetEndpointAttributes\<close>\<close>

record get_endpoint_attributes_input =
  ngeai_endpoint_arn :: "string option"

definition get_endpoint_attributes_params :: "pyo3 \<Rightarrow> sns_types \<Rightarrow> pydict \<Rightarrow>
    get_endpoint_attributes_input pyresult" where
  "get_endpoint_attributes_params P S params =
     and_then (op_param P ''sns'' ''GetEndpointAttributes'' params ''endpoint_arn'' ''str'' (string_from_py P)) (\<lambda>endpoint_arn.
     Inr \<lparr>ngeai_endpoint_arn = endpoint_arn\<rparr>)"

definition get_endpoint_attributes :: "('cfg, 'client) service_env \<Rightarrow> pyo3 \<Rightarrow> sns_types \<Rightarrow> unit pyresult \<Rightarrow> bool \<Rightarrow>
    ('client \<Rightarrow> get_endpoint_attributes_input \<Rightarrow> trip list \<times> (('e, http_response) sdk_error + get_endpoint_attributes_output)) \<Rightarrow>
    'client client_handle \<Rightarrow> pydict \<Rightarrow> pydict option \<Rightarrow>
    (get_endpoint_attributes_output pyresult \<times> 'client client_handle \<times> pydict option) option" where
  "get_endpoint_attributes E P S bridge interrupted send c params observation =
     execute E bridge interrupted send no_details
       ''GetEndpointAttributes'' (get_endpoint_attributes_params P S params) c observation"

definition get_endpoint_attributes_call :: "get_endpoint_attributes_input \<Rightarrow> pydict" where
  "get_endpoint_attributes_call i = py_params
     [(''endpoint_arn'', opt_to_py PyStr (ngeai_endpoint_arn i))]
     []"

subsection \<open>\<open>GetPlatformApplicationAttributes\<close>\<close>

record get_platform_application_attributes_input =
  ngpaai_platform_application_arn :: "string option"

definition get_platform_application_attributes_params :: "pyo3 \<Rightarrow> sns_types \<Rightarrow> pydict \<Rightarrow>
    get_platform_application_attributes_input pyresult" where
  "get_platform_application_attributes_params P S params =
     and_then (op_param P ''sns'' ''GetPlatformApplicationAttributes'' params ''platform_application_arn'' ''str'' (string_from_py P)) (\<lambda>platform_application_arn.
     Inr \<lparr>ngpaai_platform_application_arn = platform_application_arn\<rparr>)"

definition get_platform_application_attributes :: "('cfg, 'client) service_env \<Rightarrow> pyo3 \<Rightarrow> sns_types \<Rightarrow> unit pyresult \<Rightarrow> bool \<Rightarrow>
    ('client \<Rightarrow> get_platform_application_attributes_input \<Rightarrow> trip list \<times> (('e, http_response) sdk_error + get_platform_application_attributes_output)) \<Rightarrow>
    'client client_handle \<Rightarrow> pydict \<Rightarrow> pydict option \<Rightarrow>
    (get_platform_application_attributes_output pyresult \<times> 'client client_handle \<times> pydict option) option" where
  "get_platform_application_attributes E P S bridge interrupted send c params observation =
     execute E bridge interrupted send no_details
       ''GetPlatformApplicationAttributes'' (get_platform_application_attributes_params P S params) c observation"

definition get_platform_application_attributes_call :: "get_platform_application_attributes_input \<Rightarrow> pydict" where
  "get_platform_application_attributes_call i = py_params
     [(''platform_application_arn'', opt_to_py PyStr (ngpaai_platform_application_arn i))]
     []"

subsection \<open>\<open>GetSMSAttributes\<close>\<close>

record get_sms_attributes_input =
  ngsai_attributes :: "string list option"

definition get_sms_attributes_params :: "pyo3 \<Rightarrow> sns_types \<Rightarrow> pydict \<Rightarrow>
    get_sms_attributes_input pyresult" where
  "get_sms_attributes_params P S params =
     and_then (op_param P ''sns'' ''GetSMSAttributes'' params ''attributes'' ''sequence'' (seq_from_py P ''str'' (string_from_py P))) (\<lambda>attributes.
     Inr \<lparr>ngsai_attributes = attributes\<rparr>)"

definition get_sms_attributes :: "('cfg, 'client) service_env \<Rightarrow> pyo3 \<Rightarrow> sns_types \<Rightarrow> unit pyresult \<Rightarrow> bool \<Rightarrow>
    ('client \<Rightarrow> get_sms_attributes_input \<Rightarrow> trip list \<times> (('e, http_response) sdk_error + get_smsattributes_output)) \<Rightarrow>
    'client client_handle \<Rightarrow> pydict \<Rightarrow> pydict option \<Rightarrow>
    (get_smsattributes_output pyresult \<times> 'client client_handle \<times> pydict option) option" where
  "get_sms_attributes E P S bridge interrupted send c params observation =
     execute E bridge interrupted send no_details
       ''GetSMSAttributes'' (get_sms_attributes_params P S params) c observation"

definition get_sms_attributes_call :: "get_sms_attributes_input \<Rightarrow> pydict" where
  "get_sms_attributes_call i = py_params
     []
     [(''attributes'', opt_to_py (seq_to_py PyStr) (ngsai_attributes i))]"

subsection \<open>\<open>GetSMSSandboxAccountStatus\<close>\<close>

definition get_sms_sandbox_account_status :: "('cfg, 'client) service_env \<Rightarrow> unit pyresult \<Rightarrow> bool \<Rightarrow>
    ('client \<Rightarrow> unit \<Rightarrow> trip list \<times> (('e, http_response) sdk_error + get_smssandbox_account_status_output)) \<Rightarrow>
    'client client_handle \<Rightarrow> pydict \<Rightarrow> pydict option \<Rightarrow>
    (get_smssandbox_account_status_output pyresult \<times> 'client client_handle \<times> pydict option) option" where
  "get_sms_sandbox_account_status E bridge interrupted send c params observation =
     execute E bridge interrupted send no_details
       ''GetSMSSandboxAccountStatus'' (Inr ()) c observation"

subsection \<open>\<open>GetSubscriptionAttributes\<close>\<close>

record get_subscription_attributes_input =
  ngsai2_subscription_arn :: "string option"

definition get_subscription_attributes_params :: "pyo3 \<Rightarrow> sns_types \<Rightarrow> pydict \<Rightarrow>
    get_subscription_attributes_input pyresult" where
  "get_subscription_attributes_params P S params =
     and_then (op_param P ''sns'' ''GetSubscriptionAttributes'' params ''subscription_arn'' ''str'' (string_from_py P)) (\<lambda>subscription_arn.
     Inr \<lparr>ngsai2_subscription_arn = subscription_arn\<rparr>)"

definition get_subscription_attributes :: "('cfg, 'client) service_env \<Rightarrow> pyo3 \<Rightarrow> sns_types \<Rightarrow> unit pyresult \<Rightarrow> bool \<Rightarrow>
    ('client \<Rightarrow> get_subscription_attributes_input \<Rightarrow> trip list \<times> (('e, http_response) sdk_error + get_subscription_attributes_output)) \<Rightarrow>
    'client client_handle \<Rightarrow> pydict \<Rightarrow> pydict option \<Rightarrow>
    (get_subscription_attributes_output pyresult \<times> 'client client_handle \<times> pydict option) option" where
  "get_subscription_attributes E P S bridge interrupted send c params observation =
     execute E bridge interrupted send no_details
       ''GetSubscriptionAttributes'' (get_subscription_attributes_params P S params) c observation"

definition get_subscription_attributes_call :: "get_subscription_attributes_input \<Rightarrow> pydict" where
  "get_subscription_attributes_call i = py_params
     [(''subscription_arn'', opt_to_py PyStr (ngsai2_subscription_arn i))]
     []"

subsection \<open>\<open>GetTopicAttributes\<close>\<close>

record get_topic_attributes_input =
  ngtai_topic_arn :: "string option"

definition get_topic_attributes_params :: "pyo3 \<Rightarrow> sns_types \<Rightarrow> pydict \<Rightarrow>
    get_topic_attributes_input pyresult" where
  "get_topic_attributes_params P S params =
     and_then (op_param P ''sns'' ''GetTopicAttributes'' params ''topic_arn'' ''str'' (string_from_py P)) (\<lambda>topic_arn.
     Inr \<lparr>ngtai_topic_arn = topic_arn\<rparr>)"

definition get_topic_attributes :: "('cfg, 'client) service_env \<Rightarrow> pyo3 \<Rightarrow> sns_types \<Rightarrow> unit pyresult \<Rightarrow> bool \<Rightarrow>
    ('client \<Rightarrow> get_topic_attributes_input \<Rightarrow> trip list \<times> (('e, http_response) sdk_error + get_topic_attributes_output)) \<Rightarrow>
    'client client_handle \<Rightarrow> pydict \<Rightarrow> pydict option \<Rightarrow>
    (get_topic_attributes_output pyresult \<times> 'client client_handle \<times> pydict option) option" where
  "get_topic_attributes E P S bridge interrupted send c params observation =
     execute E bridge interrupted send no_details
       ''GetTopicAttributes'' (get_topic_attributes_params P S params) c observation"

definition get_topic_attributes_call :: "get_topic_attributes_input \<Rightarrow> pydict" where
  "get_topic_attributes_call i = py_params
     [(''topic_arn'', opt_to_py PyStr (ngtai_topic_arn i))]
     []"

subsection \<open>\<open>ListEndpointsByPlatformApplication\<close>\<close>

record list_endpoints_by_platform_application_input =
  nlebpai_platform_application_arn :: "string option"
  nlebpai_next_token :: "string option"

definition list_endpoints_by_platform_application_params :: "pyo3 \<Rightarrow> sns_types \<Rightarrow> pydict \<Rightarrow>
    list_endpoints_by_platform_application_input pyresult" where
  "list_endpoints_by_platform_application_params P S params =
     and_then (op_param P ''sns'' ''ListEndpointsByPlatformApplication'' params ''platform_application_arn'' ''str'' (string_from_py P)) (\<lambda>platform_application_arn.
     and_then (op_param P ''sns'' ''ListEndpointsByPlatformApplication'' params ''next_token'' ''str'' (string_from_py P)) (\<lambda>next_token.
     Inr \<lparr>nlebpai_platform_application_arn = platform_application_arn,
       nlebpai_next_token = next_token\<rparr>))"

definition list_endpoints_by_platform_application :: "('cfg, 'client) service_env \<Rightarrow> pyo3 \<Rightarrow> sns_types \<Rightarrow> unit pyresult \<Rightarrow> bool \<Rightarrow>
    ('client \<Rightarrow> list_endpoints_by_platform_application_input \<Rightarrow> trip list \<times> (('e, http_response) sdk_error + list_endpoints_by_platform_application_output)) \<Rightarrow>
    'client client_handle \<Rightarrow> pydict \<Rightarrow> pydict option \<Rightarrow>
    (list_endpoints_by_platform_application_output pyresult \<times> 'client client_handle \<times> pydict option) option" where
  "list_endpoints_by_platform_application E P S bridge interrupted send c params observation =
     execute E bridge interrupted send no_details
       ''ListEndpointsByPlatformApplication'' (list_endpoints_by_platform_application_params P S params) c observation"

definition list_endpoints_by_platform_application_call :: "list_endpoints_by_platform_application_input \<Rightarrow> pydict" where
  "list_endpoints_by_platform_application_call i = py_params
     [(''platform_application_arn'', opt_to_py PyStr (nlebpai_platform_application_arn i))]
     [(''next_token'', opt_to_py PyStr (nlebpai_next_token i))]"

subsection \<open>\<open>ListOriginationNumbers\<close>\<close>

record list_origination_numbers_input =
  nloni_next_token :: "string option"
  nloni_max_results :: "32 word option"

definition list_origination_numbers_params :: "pyo3 \<Rightarrow> sns_types \<Rightarrow> pydict \<Rightarrow>
    list_origination_numbers_input pyresult" where
  "list_origination_numbers_params P S params =
     and_then (op_param P ''sns'' ''ListOriginationNumbers'' params ''next_token'' ''str'' (string_from_py P)) (\<lambda>next_token.
     and_then (op_param P ''sns'' ''ListOriginationNumbers'' params ''max_results'' ''int'' (i32_from_py P)) (\<lambda>max_results.
     Inr \<lparr>nloni_next_token = next_token,
       nloni_max_results = max_results\<rparr>))"

definition list_origination_numbers :: "('cfg, 'client) service_env \<Rightarrow> pyo3 \<Rightarrow> sns_types \<Rightarrow> unit pyresult \<Rightarrow> bool \<Rightarrow>
    ('client \<Rightarrow> list_origination_numbers_input \<Rightarrow> trip list \<times> (('e, http_response) sdk_error + list_origination_numbers_output)) \<Rightarrow>
    'client client_handle \<Rightarrow> pydict \<Rightarrow> pydict option \<Rightarrow>
    (list_origination_numbers_output pyresult \<times> 'client client_handle \<times> pydict option) option" where
  "list_origination_numbers E P S bridge interrupted send c params observation =
     execute E bridge interrupted send no_details
       ''ListOriginationNumbers'' (list_origination_numbers_params P S params) c observation"

definition list_origination_numbers_call :: "list_origination_numbers_input \<Rightarrow> pydict" where
  "list_origination_numbers_call i = py_params
     []
     [(''next_token'', opt_to_py PyStr (nloni_next_token i)),
      (''max_results'', opt_to_py i32_to_py (nloni_max_results i))]"

subsection \<open>\<open>ListPhoneNumbersOptedOut\<close>\<close>

record list_phone_numbers_opted_out_input =
  nlpnooi_next_token :: "string option"

definition list_phone_numbers_opted_out_params :: "pyo3 \<Rightarrow> sns_types \<Rightarrow> pydict \<Rightarrow>
    list_phone_numbers_opted_out_input pyresult" where
  "list_phone_numbers_opted_out_params P S params =
     and_then (op_param P ''sns'' ''ListPhoneNumbersOptedOut'' params ''next_token'' ''str'' (string_from_py P)) (\<lambda>next_token.
     Inr \<lparr>nlpnooi_next_token = next_token\<rparr>)"

definition list_phone_numbers_opted_out :: "('cfg, 'client) service_env \<Rightarrow> pyo3 \<Rightarrow> sns_types \<Rightarrow> unit pyresult \<Rightarrow> bool \<Rightarrow>
    ('client \<Rightarrow> list_phone_numbers_opted_out_input \<Rightarrow> trip list \<times> (('e, http_response) sdk_error + list_phone_numbers_opted_out_output)) \<Rightarrow>
    'client client_handle \<Rightarrow> pydict \<Rightarrow> pydict option \<Rightarrow>
    (list_phone_numbers_opted_out_output pyresult \<times> 'client client_handle \<times> pydict option) option" where
  "list_phone_numbers_opted_out E P S bridge interrupted send c params observation =
     execute E bridge interrupted send no_details
       ''ListPhoneNumbersOptedOut'' (list_phone_numbers_opted_out_params P S params) c observation"

definition list_phone_numbers_opted_out_call :: "list_phone_numbers_opted_out_input \<Rightarrow> pydict" where
  "list_phone_numbers_opted_out_call i = py_params
     []
     [(''next_token'', opt_to_py PyStr (nlpnooi_next_token i))]"

subsection \<open>\<open>ListPlatformApplications\<close>\<close>

record list_platform_applications_input =
  nlpai_next_token :: "string option"

definition list_platform_applications_params :: "pyo3 \<Rightarrow> sns_types \<Rightarrow> pydict \<Rightarrow>
    list_platform_applications_input pyresult" where
  "list_platform_applications_params P S params =
     and_then (op_param P ''sns'' ''ListPlatformApplications'' params ''next_token'' ''str'' (string_from_py P)) (\<lambda>next_token.
     Inr \<lparr>nlpai_next_token = next_token\<rparr>)"

definition list_platform_applications :: "('cfg, 'client) service_env \<Rightarrow> pyo3 \<Rightarrow> sns_types \<Rightarrow> unit pyresult \<Rightarrow> bool \<Rightarrow>
    ('client \<Rightarrow> list_platform_applications_input \<Rightarrow> trip list \<times> (('e, http_response) sdk_error + list_platform_applications_output)) \<Rightarrow>
    'client client_handle \<Rightarrow> pydict \<Rightarrow> pydict option \<Rightarrow>
    (list_platform_applications_output pyresult \<times> 'client client_handle \<times> pydict option) option" where
  "list_platform_applications E P S bridge interrupted send c params observation =
     execute E bridge interrupted send no_details
       ''ListPlatformApplications'' (list_platform_applications_params P S params) c observation"

definition list_platform_applications_call :: "list_platform_applications_input \<Rightarrow> pydict" where
  "list_platform_applications_call i = py_params
     []
     [(''next_token'', opt_to_py PyStr (nlpai_next_token i))]"

subsection \<open>\<open>ListSMSSandboxPhoneNumbers\<close>\<close>

record list_sms_sandbox_phone_numbers_input =
  nlsspni_next_token :: "string option"
  nlsspni_max_results :: "32 word option"

definition list_sms_sandbox_phone_numbers_params :: "pyo3 \<Rightarrow> sns_types \<Rightarrow> pydict \<Rightarrow>
    list_sms_sandbox_phone_numbers_input pyresult" where
  "list_sms_sandbox_phone_numbers_params P S params =
     and_then (op_param P ''sns'' ''ListSMSSandboxPhoneNumbers'' params ''next_token'' ''str'' (string_from_py P)) (\<lambda>next_token.
     and_then (op_param P ''sns'' ''ListSMSSandboxPhoneNumbers'' params ''max_results'' ''int'' (i32_from_py P)) (\<lambda>max_results.
     Inr \<lparr>nlsspni_next_token = next_token,
       nlsspni_max_results = max_results\<rparr>))"

definition list_sms_sandbox_phone_numbers :: "('cfg, 'client) service_env \<Rightarrow> pyo3 \<Rightarrow> sns_types \<Rightarrow> unit pyresult \<Rightarrow> bool \<Rightarrow>
    ('client \<Rightarrow> list_sms_sandbox_phone_numbers_input \<Rightarrow> trip list \<times> (('e, http_response) sdk_error + list_smssandbox_phone_numbers_output)) \<Rightarrow>
    'client client_handle \<Rightarrow> pydict \<Rightarrow> pydict option \<Rightarrow>
    (list_smssandbox_phone_numbers_output pyresult \<times> 'client client_handle \<times> pydict option) option" where
  "list_sms_sandbox_phone_numbers E P S bridge interrupted send c params observation =
     execute E bridge interrupted send no_details
       ''ListSMSSandboxPhoneNumbers'' (list_sms_sandbox_phone_numbers_params P S params) c observation"

definition list_sms_sandbox_phone_numbers_call :: "list_sms_sandbox_phone_numbers_input \<Rightarrow> pydict" where
  "list_sms_sandbox_phone_numbers_call i = py_params
     []
     [(''next_token'', opt_to_py PyStr (nlsspni_next_token i)),
      (''max_results'', opt_to_py i32_to_py (nlsspni_max_results i))]"

subsection \<open>\<open>ListSubscriptions\<close>\<close>

record list_subscriptions_input =
  nlsi_next_token :: "string option"

definition list_subscriptions_params :: "pyo3 \<Rightarrow> sns_types \<Rightarrow> pydict \<Rightarrow>
    list_subscriptions_input pyresult" where
  "list_subscriptions_params P S params =
     and_then (op_param P ''sns'' ''ListSubscriptions'' params ''next_token'' ''str'' (string_from_py P)) (\<lambda>next_token.
     Inr \<lparr>nlsi_next_token = next_token\<rparr>)"

definition list_subscriptions :: "('cfg, 'client) service_env \<Rightarrow> pyo3 \<Rightarrow> sns_types \<Rightarrow> unit pyresult \<Rightarrow> bool \<Rightarrow>
    ('client \<Rightarrow> list_subscriptions_input \<Rightarrow> trip list \<times> (('e, http_response) sdk_error + list_subscriptions_output)) \<Rightarrow>
    'client client_handle \<Rightarrow> pydict \<Rightarrow> pydict option \<Rightarrow>
    (list_subscriptions_output pyresult \<times> 'client client_handle \<times> pydict option) option" where
  "list_subscriptions E P S bridge interrupted send c params observation =
     execute E bridge interrupted send no_details
       ''ListSubscriptions'' (list_subscriptions_params P S params) c observation"

definition list_subscriptions_call :: "list_subscriptions_input \<Rightarrow> pydict" where
  "list_subscriptions_call i = py_params
     []
     [(''next_token'', opt_to_py PyStr (nlsi_next_token i))]"

subsection \<open>\<open>ListSubscriptionsByTopic\<close>\<close>

record list_subscriptions_by_topic_input =
  nlsbti_topic_arn :: "string option"
  nlsbti_next_token :: "string option"

definition list_subscriptions_by_topic_params :: "pyo3 \<Rightarrow> sns_types \<Rightarrow> pydict \<Rightarrow>
    list_subscriptions_by_topic_input pyresult" where
  "list_subscriptions_by_topic_params P S params =
     and_then (op_param P ''sns'' ''ListSubscriptionsByTopic'' params ''topic_arn'' ''str'' (string_from_py P)) (\<lambda>topic_arn.
     and_then (op_param P ''sns'' ''ListSubscriptionsByTopic'' params ''next_token'' ''str'' (string_from_py P)) (\<lambda>next_token.
     Inr \<lparr>nlsbti_topic_arn = topic_arn,
       nlsbti_next_token = next_token\<rparr>))"

definition list_subscriptions_by_topic :: "('cfg, 'client) service_env \<Rightarrow> pyo3 \<Rightarrow> sns_types \<Rightarrow> unit pyresult \<Rightarrow> bool \<Rightarrow>
    ('client \<Rightarrow> list_subscriptions_by_topic_input \<Rightarrow> trip list \<times> (('e, http_response) sdk_error + list_subscriptions_by_topic_output)) \<Rightarrow>
    'client client_handle \<Rightarrow> pydict \<Rightarrow> pydict option \<Rightarrow>
    (list_subscriptions_by_topic_output pyresult \<times> 'client client_handle \<times> pydict option) option" where
  "list_subscriptions_by_topic E P S bridge interrupted send c params observation =
     execute E bridge interrupted send no_details
       ''ListSubscriptionsByTopic'' (list_subscriptions_by_topic_params P S params) c observation"

definition list_subscriptions_by_topic_call :: "list_subscriptions_by_topic_input \<Rightarrow> pydict" where
  "list_subscriptions_by_topic_call i = py_params
     [(''topic_arn'', opt_to_py PyStr (nlsbti_topic_arn i))]
     [(''next_token'', opt_to_py PyStr (nlsbti_next_token i))]"

subsection \<open>\<open>ListTagsForResource\<close>\<close>

record list_tags_for_resource_input =
  nltfri_resource_arn :: "string option"

definition list_tags_for_resource_params :: "pyo3 \<Rightarrow> sns_types \<Rightarrow> pydict \<Rightarrow>
    list_tags_for_resource_input pyresult" where
  "list_tags_for_resource_params P S params =
     and_then (op_param P ''sns'' ''ListTagsForResource'' params ''resource_arn'' ''str'' (string_from_py P)) (\<lambda>resource_arn.
     Inr \<lparr>nltfri_resource_arn = resource_arn\<rparr>)"

definition list_tags_for_resource :: "('cfg, 'client) service_env \<Rightarrow> pyo3 \<Rightarrow> sns_types \<Rightarrow> unit pyresult \<Rightarrow> bool \<Rightarrow>
    ('client \<Rightarrow> list_tags_for_resource_input \<Rightarrow> trip list \<times> (('e, http_response) sdk_error + list_tags_for_resource_output)) \<Rightarrow>
    'client client_handle \<Rightarrow> pydict \<Rightarrow> pydict option \<Rightarrow>
    (list_tags_for_resource_output pyresult \<times> 'client client_handle \<times> pydict option) option" where
  "list_tags_for_resource E P S bridge interrupted send c params observation =
     execute E bridge interrupted send no_details
       ''ListTagsForResource'' (list_tags_for_resource_params P S params) c observation"

definition list_tags_for_resource_call :: "list_tags_for_resource_input \<Rightarrow> pydict" where
  "list_tags_for_resource_call i = py_params
     [(''resource_arn'', opt_to_py PyStr (nltfri_resource_arn i))]
     []"

subsection \<open>\<open>ListTopics\<close>\<close>

record list_topics_input =
  nlti_next_token :: "string option"

definition list_topics_params :: "pyo3 \<Rightarrow> sns_types \<Rightarrow> pydict \<Rightarrow>
    list_topics_input pyresult" where
  "list_topics_params P S params =
     and_then (op_param P ''sns'' ''ListTopics'' params ''next_token'' ''str'' (string_from_py P)) (\<lambda>next_token.
     Inr \<lparr>nlti_next_token = next_token\<rparr>)"

definition list_topics :: "('cfg, 'client) service_env \<Rightarrow> pyo3 \<Rightarrow> sns_types \<Rightarrow> unit pyresult \<Rightarrow> bool \<Rightarrow>
    ('client \<Rightarrow> list_topics_input \<Rightarrow> trip list \<times> (('e, http_response) sdk_error + list_topics_output)) \<Rightarrow>
    'client client_handle \<Rightarrow> pydict \<Rightarrow> pydict option \<Rightarrow>
    (list_topics_output pyresult \<times> 'client client_handle \<times> pydict option) option" where
  "list_topics E P S bridge interrupted send c params observation =
     execute E bridge interrupted send no_details
       ''ListTopics'' (list_topics_params P S params) c observation"

definition list_topics_call :: "list_topics_input \<Rightarrow> pydict" where
  "list_topics_call i = py_params
     []
     [(''next_token'', opt_to_py PyStr (nlti_next_token i))]"

subsection \<open>\<open>OptInPhoneNumber\<close>\<close>

record opt_in_phone_number_input =
  noipni_phone_number :: "string option"

definition opt_in_phone_number_params :: "pyo3 \<Rightarrow> sns_types \<Rightarrow> pydict \<Rightarrow>
    opt_in_phone_number_input pyresult" where
  "opt_in_phone_number_params P S params =
     and_then (op_param P ''sns'' ''OptInPhoneNumber'' params ''phone_number'' ''str'' (string_from_py P)) (\<lambda>phone_number.
     Inr \<lparr>noipni_phone_number = phone_number\<rparr>)"

definition opt_in_phone_number :: "('cfg, 'client) service_env \<Rightarrow> pyo3 \<Rightarrow> sns_types \<Rightarrow> unit pyresult \<Rightarrow> bool \<Rightarrow>
    ('client \<Rightarrow> opt_in_phone_number_input \<Rightarrow> trip list \<times> (('e, http_response) sdk_error + opt_in_phone_number_output)) \<Rightarrow>
    'client client_handle \<Rightarrow> pydict \<Rightarrow> pydict option \<Rightarrow>
    (opt_in_phone_number_output pyresult \<times> 'client client_handle \<times> pydict option) option" where
  "opt_in_phone_number E P S bridge interrupted send c params observation =
     execute E bridge interrupted send no_details
       ''OptInPhoneNumber'' (opt_in_phone_number_params P S params) c observation"

definition opt_in_phone_number_call :: "opt_in_phone_number_input \<Rightarrow> pydict" where
  "opt_in_phone_number_call i = py_params
     [(''phone_number'', opt_to_py PyStr (noipni_phone_number i))]
     []"

subsection \<open>\<open>Publish\<close>\<close>

record sns_publish_input =
  nspi_topic_arn :: "string option"
  nspi_target_arn :: "string option"
  nspi_phone_number :: "string option"
  nspi_message :: "string option"
  nspi_subject :: "string option"
  nspi_message_structure :: "string option"
  nspi_message_attributes :: "(string, sns_message_attribute_value) fmap option"
  nspi_message_deduplication_id :: "string option"
  nspi_message_group_id :: "string option"

definition sns_publish_params_1 :: "pyo3 \<Rightarrow> sns_types \<Rightarrow> pydict \<Rightarrow>
    (string option \<times> string option \<times> string option \<times> string option \<times> string option \<times> string option) pyresult" where
  "sns_publish_params_1 P S params =
     and_then (op_param P ''sns'' ''Publish'' params ''topic_arn'' ''str'' (string_from_py P)) (\<lambda>topic_arn.
     and_then (op_param P ''sns'' ''Publish'' params ''target_arn'' ''str'' (string_from_py P)) (\<lambda>target_arn.
     and_then (op_param P ''sns'' ''Publish'' params ''phone_number'' ''str'' (string_from_py P)) (\<lambda>phone_number.
     and_then (op_param P ''sns'' ''Publish'' params ''message'' ''str'' (string_from_py P)) (\<lambda>message.
     and_then (op_param P ''sns'' ''Publish'' params ''subject'' ''str'' (string_from_py P)) (\<lambda>subject.
     and_then (op_param P ''sns'' ''Publish'' params ''message_structure'' ''str'' (string_from_py P)) (\<lambda>message_structure.
     Inr (topic_arn, target_arn, phone_number, message, subject, message_structure)))))))"

definition sns_publish_params_2 :: "pyo3 \<Rightarrow> sns_types \<Rightarrow> pydict \<Rightarrow>
    ((string, sns_message_attribute_value) fmap option \<times> string option \<times> string option) pyresult" where
  "sns_publish_params_2 P S params =
     and_then (op_param P ''sns'' ''Publish'' params ''message_attributes'' ''dict'' (map_from_py P ''str'' ''dict (MessageAttributeValue)'' (sns_message_attribute_value_from_py P S))) (\<lambda>message_attributes.
     and_then (op_param P ''sns'' ''Publish'' params ''message_deduplication_id'' ''str'' (string_from_py P)) (\<lambda>message_deduplication_id.
     and_then (op_param P ''sns'' ''Publish'' params ''message_group_id'' ''str'' (string_from_py P)) (\<lambda>message_group_id.
     Inr (message_attributes, message_deduplication_id, message_group_id))))"

definition sns_publish_params :: "pyo3 \<Rightarrow> sns_types \<Rightarrow> pydict \<Rightarrow>
    sns_publish_input pyresult" where
  "sns_publish_params P S params =
     and_then (sns_publish_params_1 P S params) (\<lambda>(topic_arn, target_arn, phone_number, message, subject, message_structure).
     and_then (sns_publish_params_2 P S params) (\<lambda>(message_attributes, message_deduplication_id, message_group_id).
     Inr \<lparr>nspi_topic_arn = topic_arn,
       nspi_target_arn = target_arn,
       nspi_phone_number = phone_number,
       nspi_message = message,
       nspi_subject = subject,
       nspi_message_structure = message_structure,
       nspi_message_attributes = message_attributes,
       nspi_message_deduplication_id = message_deduplication_id,
       nspi_message_group_id = message_group_id\<rparr>))"

definition sns_publish :: "('cfg, 'client) service_env \<Rightarrow> pyo3 \<Rightarrow> sns_types \<Rightarrow> unit pyresult \<Rightarrow> bool \<Rightarrow>
    ('client \<Rightarrow> sns_publish_input \<Rightarrow> trip list \<times> (('e, http_response) sdk_error + publish_output)) \<Rightarrow>
    'client client_handle \<Rightarrow> pydict \<Rightarrow> pydict option \<Rightarrow>
    (publish_output pyresult \<times> 'client client_handle \<times> pydict option) option" where
  "sns_publish E P S bridge interrupted send c params observation =
     execute E bridge interrupted send no_details
       ''Publish'' (sns_publish_params P S params) c observation"

definition sns_publish_call :: "((string, pyval) fmap \<Rightarrow> (string \<times> pyval) list) \<Rightarrow> sns_publish_input \<Rightarrow> pydict" where
  "sns_publish_call order i = py_params
     [(''message'', opt_to_py PyStr (nspi_message i))]
     [(''topic_arn'', opt_to_py PyStr (nspi_topic_arn i)),
      (''target_arn'', opt_to_py PyStr (nspi_target_arn i)),
      (''phone_number'', opt_to_py PyStr (nspi_phone_number i)),
      (''subject'', opt_to_py PyStr (nspi_subject i)),
      (''message_structure'', opt_to_py PyStr (nspi_message_structure i)),
      (''message_attributes'', opt_to_py (mapping_to_py order sns_message_attribute_value_to_py) (nspi_message_attributes i)),
      (''message_deduplication_id'', opt_to_py PyStr (nspi_message_deduplication_id i)),
      (''message_group_id'', opt_to_py PyStr (nspi_message_group_id i))]"

subsection \<open>\<open>PublishBatch\<close>\<close>

record publish_batch_input =
  npbi_topic_arn :: "string option"
  npbi_publish_batch_request_entries :: "publish_batch_request_entry list option"

definition publish_batch_params :: "pyo3 \<Rightarrow> sns_types \<Rightarrow> pydict \<Rightarrow>
    publish_batch_input pyresult" where
  "publish_batch_params P S params =
     and_then (op_param P ''sns'' ''PublishBatch'' params ''topic_arn'' ''str'' (string_from_py P)) (\<lambda>topic_arn.
     and_then (op_param P ''sns'' ''PublishBatch'' params ''publish_batch_request_entries'' ''sequence'' (seq_from_py P ''dict (PublishBatchRequestEntry)'' (publish_batch_request_entry_from_py P S))) (\<lambda>publish_batch_request_entries.
     Inr \<lparr>npbi_topic_arn = topic_arn,
       npbi_publish_batch_request_entries = publish_batch_request_entries\<rparr>))"

definition publish_batch :: "('cfg, 'client) service_env \<Rightarrow> pyo3 \<Rightarrow> sns_types \<Rightarrow> unit pyresult \<Rightarrow> bool \<Rightarrow>
    ('client \<Rightarrow> publish_batch_input \<Rightarrow> trip list \<times> (('e, http_response) sdk_error + publish_batch_output)) \<Rightarrow>
    'client client_handle \<Rightarrow> pydict \<Rightarrow> pydict option \<Rightarrow>
    (publish_batch_output pyresult \<times> 'client client_handle \<times> pydict option) option" where
  "publish_batch E P S bridge interrupted send c params observation =
     execute E bridge interrupted send no_details
       ''PublishBatch'' (publish_batch_params P S params) c observation"

definition publish_batch_call :: "((string, pyval) fmap \<Rightarrow> (string \<times> pyval) list) \<Rightarrow> publish_batch_input \<Rightarrow> pydict" where
  "publish_batch_call order i = py_params
     [(''topic_arn'', opt_to_py PyStr (npbi_topic_arn i)),
      (''publish_batch_request_entries'', opt_to_py (seq_to_py (publish_batch_request_entry_to_py order)) (npbi_publish_batch_request_entries i))]
     []"

subsection \<open>\<open>PutDataProtectionPolicy\<close>\<close>

record put_data_protection_policy_input =
  npdppi_resource_arn :: "string option"
  npdppi_data_protection_policy :: "string option"

definition put_data_protection_policy_params :: "pyo3 \<Rightarrow> sns_types \<Rightarrow> pydict \<Rightarrow>
    put_data_protection_policy_input pyresult" where
  "put_data_protection_policy_params P S params =
     and_then (op_param P ''sns'' ''PutDataProtectionPolicy'' params ''resource_arn'' ''str'' (string_from_py P)) (\<lambda>resource_arn.
     and_then (op_param P ''sns'' ''PutDataProtectionPolicy'' params ''data_protection_policy'' ''str'' (string_from_py P)) (\<lambda>data_protection_policy.
     Inr \<lparr>npdppi_resource_arn = resource_arn,
       npdppi_data_protection_policy = data_protection_policy\<rparr>))"

definition put_data_protection_policy :: "('cfg, 'client) service_env \<Rightarrow> pyo3 \<Rightarrow> sns_types \<Rightarrow> unit pyresult \<Rightarrow> bool \<Rightarrow>
    ('client \<Rightarrow> put_data_protection_policy_input \<Rightarrow> trip list \<times> (('e, http_response) sdk_error + unit)) \<Rightarrow>
    'client client_handle \<Rightarrow> pydict \<Rightarrow> pydict option \<Rightarrow>
    (unit pyresult \<times> 'client client_handle \<times> pydict option) option" where
  "put_data_protection_policy E P S bridge interrupted send c params observation =
     execute E bridge interrupted send no_details
       ''PutDataProtectionPolicy'' (put_data_protection_policy_params P S params) c observation"

definition put_data_protection_policy_call :: "put_data_protection_policy_input \<Rightarrow> pydict" where
  "put_data_protection_policy_call i = py_params
     [(''resource_arn'', opt_to_py PyStr (npdppi_resource_arn i)),
      (''data_protection_policy'', opt_to_py PyStr (npdppi_data_protection_policy i))]
     []"

subsection \<open>\<open>RemovePermission\<close>\<close>

record sns_remove_permission_input =
  nsrpi_topic_arn :: "string option"
  nsrpi_label :: "string option"

definition sns_remove_permission_params :: "pyo3 \<Rightarrow> sns_types \<Rightarrow> pydict \<Rightarrow>
    sns_remove_permission_input pyresult" where
  "sns_remove_permission_params P S params =
     and_then (op_param P ''sns'' ''RemovePermission'' params ''topic_arn'' ''str'' (string_from_py P)) (\<lambda>topic_arn.
     and_then (op_param P ''sns'' ''RemovePermission'' params ''label'' ''str'' (string_from_py P)) (\<lambda>label.
     Inr \<lparr>nsrpi_topic_arn = topic_arn,
       nsrpi_label = label\<rparr>))"

definition sns_remove_permission :: "('cfg, 'client) service_env \<Rightarrow> pyo3 \<Rightarrow> sns_types \<Rightarrow> unit pyresult \<Rightarrow> bool \<Rightarrow>
    ('client \<Rightarrow> sns_remove_permission_input \<Rightarrow> trip list \<times> (('e, http_response) sdk_error + unit)) \<Rightarrow>
    'client client_handle \<Rightarrow> pydict \<Rightarrow> pydict option \<Rightarrow>
    (unit pyresult \<times> 'client client_handle \<times> pydict option) option" where
  "sns_remove_permission E P S bridge interrupted send c params observation =
     execute E bridge interrupted send no_details
       ''RemovePermission'' (sns_remove_permission_params P S params) c observation"

definition sns_remove_permission_call :: "sns_remove_permission_input \<Rightarrow> pydict" where
  "sns_remove_permission_call i = py_params
     [(''topic_arn'', opt_to_py PyStr (nsrpi_topic_arn i)),
      (''label'', opt_to_py PyStr (nsrpi_label i))]
     []"

subsection \<open>\<open>SetEndpointAttributes\<close>\<close>

record set_endpoint_attributes_input =
  nseai_endpoint_arn :: "string option"
  nseai_attributes :: "(string, string) fmap option"

definition set_endpoint_attributes_params :: "pyo3 \<Rightarrow> sns_types \<Rightarrow> pydict \<Rightarrow>
    set_endpoint_attributes_input pyresult" where
  "set_endpoint_attributes_params P S params =
     and_then (op_param P ''sns'' ''SetEndpointAttributes'' params ''endpoint_arn'' ''str'' (string_from_py P)) (\<lambda>endpoint_arn.
     and_then (op_param P ''sns'' ''SetEndpointAttributes'' params ''attributes'' ''dict'' (map_from_py P ''str'' ''str'' (string_from_py P))) (\<lambda>attributes.
     Inr \<lparr>nseai_endpoint_arn = endpoint_arn,
       nseai_attributes = attributes\<rparr>))"

definition set_endpoint_attributes :: "('cfg, 'client) service_env \<Rightarrow> pyo3 \<Rightarrow> sns_types \<Rightarrow> unit pyresult \<Rightarrow> bool \<Rightarrow>
    ('client \<Rightarrow> set_endpoint_attributes_input \<Rightarrow> trip list \<times> (('e, http_response) sdk_error + unit)) \<Rightarrow>
    'client client_handle \<Rightarrow> pydict \<Rightarrow> pydict option \<Rightarrow>
    (unit pyresult \<times> 'client client_handle \<times> pydict option) option" where
  "set_endpoint_attributes E P S bridge interrupted send c params observation =
     execute E bridge interrupted send no_details
       ''SetEndpointAttributes'' (set_endpoint_attributes_params P S params) c observation"

definition set_endpoint_attributes_call :: "((string, pyval) fmap \<Rightarrow> (string \<times> pyval) list) \<Rightarrow> set_endpoint_attributes_input \<Rightarrow> pydict" where
  "set_endpoint_attributes_call order i = py_params
     [(''endpoint_arn'', opt_to_py PyStr (nseai_endpoint_arn i)),
      (''attributes'', opt_to_py (mapping_to_py order PyStr) (nseai_attributes i))]
     []"

subsection \<open>\<open>SetPlatformApplicationAttributes\<close>\<close>

record set_platform_application_attributes_input =
  nspaai_platform_application_arn :: "string option"
  nspaai_attributes :: "(string, string) fmap option"

definition set_platform_application_attributes_params :: "pyo3 \<Rightarrow> sns_types \<Rightarrow> pydict \<Rightarrow>
    set_platform_application_attributes_input pyresult" where
  "set_platform_application_attributes_params P S params =
     and_then (op_param P ''sns'' ''SetPlatformApplicationAttributes'' params ''platform_application_arn'' ''str'' (string_from_py P)) (\<lambda>platform_application_arn.
     and_then (op_param P ''sns'' ''SetPlatformApplicationAttributes'' params ''attributes'' ''dict'' (map_from_py P ''str'' ''str'' (string_from_py P))) (\<lambda>attributes.
     Inr \<lparr>nspaai_platform_application_arn = platform_application_arn,
       nspaai_attributes = attributes\<rparr>))"

definition set_platform_application_attributes :: "('cfg, 'client) service_env \<Rightarrow> pyo3 \<Rightarrow> sns_types \<Rightarrow> unit pyresult \<Rightarrow> bool \<Rightarrow>
    ('client \<Rightarrow> set_platform_application_attributes_input \<Rightarrow> trip list \<times> (('e, http_response) sdk_error + unit)) \<Rightarrow>
    'client client_handle \<Rightarrow> pydict \<Rightarrow> pydict option \<Rightarrow>
    (unit pyresult \<times> 'client client_handle \<times> pydict option) option" where
  "set_platform_application_attributes E P S bridge interrupted send c params observation =
     execute E bridge interrupted send no_details
       ''SetPlatformApplicationAttributes'' (set_platform_application_attributes_params P S params) c observation"

definition set_platform_application_attributes_call :: "((string, pyval) fmap \<Rightarrow> (string \<times> pyval) list) \<Rightarrow> set_platform_application_attributes_input \<Rightarrow> pydict" where
  "set_platform_application_attributes_call order i = py_params
     [(''platform_application_arn'', opt_to_py PyStr (nspaai_platform_application_arn i)),
      (''attributes'', opt_to_py (mapping_to_py order PyStr) (nspaai_attributes i))]
     []"

subsection \<open>\<open>SetSMSAttributes\<close>\<close>

record set_sms_attributes_input =
  nssai_attributes :: "(string, string) fmap option"

definition set_sms_attributes_params :: "pyo3 \<Rightarrow> sns_types \<Rightarrow> pydict \<Rightarrow>
    set_sms_attributes_input pyresult" where
  "set_sms_attributes_params P S params =
     and_then (op_param P ''sns'' ''SetSMSAttributes'' params ''attributes'' ''dict'' (map_from_py P ''str'' ''str'' (string_from_py P))) (\<lambda>attributes.
     Inr \<lparr>nssai_attributes = attributes\<rparr>)"

definition set_sms_attributes :: "('cfg, 'client) service_env \<Rightarrow> pyo3 \<Rightarrow> sns_types \<Rightarrow> unit pyresult \<Rightarrow> bool \<Rightarrow>
    ('client \<Rightarrow> set_sms_attributes_input \<Rightarrow> trip list \<times> (('e, http_response) sdk_error + set_smsattributes_output)) \<Rightarrow>
    'client client_handle \<Rightarrow> pydict \<Rightarrow> pydict option \<Rightarrow>
    (set_smsattributes_output pyresult \<times> 'client client_handle \<times> pydict option) option" where
  "set_sms_attributes E P S bridge interrupted send c params observation =
     execute E bridge interrupted send no_details
       ''SetSMSAttributes'' (set_sms_attributes_params P S params) c observation"

definition set_sms_attributes_call :: "((string, pyval) fmap \<Rightarrow> (string \<times> pyval) list) \<Rightarrow> set_sms_attributes_input \<Rightarrow> pydict" where
  "set_sms_attributes_call order i = py_params
     [(''attributes'', opt_to_py (mapping_to_py order PyStr) (nssai_attributes i))]
     []"

subsection \<open>\<open>SetSubscriptionAttributes\<close>\<close>

record set_subscription_attributes_input =
  nssai2_subscription_arn :: "string option"
  nssai2_attribute_name :: "string option"
  nssai2_attribute_value :: "string option"

definition set_subscription_attributes_params :: "pyo3 \<Rightarrow> sns_types \<Rightarrow> pydict \<Rightarrow>
    set_subscription_attributes_input pyresult" where
  "set_subscription_attributes_params P S params =
     and_then (op_param P ''sns'' ''SetSubscriptionAttributes'' params ''subscription_arn'' ''str'' (string_from_py P)) (\<lambda>subscription_arn.
     and_then (op_param P ''sns'' ''SetSubscriptionAttributes'' params ''attribute_name'' ''str'' (string_from_py P)) (\<lambda>attribute_name.
     and_then (op_param P ''sns'' ''SetSubscriptionAttributes'' params ''attribute_value'' ''str'' (string_from_py P)) (\<lambda>attribute_value.
     Inr \<lparr>nssai2_subscription_arn = subscription_arn,
       nssai2_attribute_name = attribute_name,
       nssai2_attribute_value = attribute_value\<rparr>)))"

definition set_subscription_attributes :: "('cfg, 'client) service_env \<Rightarrow> pyo3 \<Rightarrow> sns_types \<Rightarrow> unit pyresult \<Rightarrow> bool \<Rightarrow>
    ('client \<Rightarrow> set_subscription_attributes_input \<Rightarrow> trip list \<times> (('e, http_response) sdk_error + unit)) \<Rightarrow>
    'client client_handle \<Rightarrow> pydict \<Rightarrow> pydict option \<Rightarrow>
    (unit pyresult \<times> 'client client_handle \<times> pydict option) option" where
  "set_subscription_attributes E P S bridge interrupted send c params observation =
     execute E bridge interrupted send no_details
       ''SetSubscriptionAttributes'' (set_subscription_attributes_params P S params) c observation"

definition set_subscription_attributes_call :: "set_subscription_attributes_input \<Rightarrow> pydict" where
  "set_subscription_attributes_call i = py_params
     [(''subscription_arn'', opt_to_py PyStr (nssai2_subscription_arn i)),
      (''attribute_name'', opt_to_py PyStr (nssai2_attribute_name i))]
     [(''attribute_value'', opt_to_py PyStr (nssai2_attribute_value i))]"

subsection \<open>\<open>SetTopicAttributes\<close>\<close>

record set_topic_attributes_input =
  nstai_topic_arn :: "string option"
  nstai_attribute_name :: "string option"
  nstai_attribute_value :: "string option"

definition set_topic_attributes_params :: "pyo3 \<Rightarrow> sns_types \<Rightarrow> pydict \<Rightarrow>
    set_topic_attributes_input pyresult" where
  "set_topic_attributes_params P S params =
     and_then (op_param P ''sns'' ''SetTopicAttributes'' params ''topic_arn'' ''str'' (string_from_py P)) (\<lambda>topic_arn.
     and_then (op_param P ''sns'' ''SetTopicAttributes'' params ''attribute_name'' ''str'' (string_from_py P)) (\<lambda>attribute_name.
     and_then (op_param P ''sns'' ''SetTopicAttributes'' params ''attribute_value'' ''str'' (string_from_py P)) (\<lambda>attribute_value.
     Inr \<lparr>nstai_topic_arn = topic_arn,
       nstai_attribute_name = attribute_name,
       nstai_attribute_value = attribute_value\<rparr>)))"

definition set_topic_attributes :: "('cfg, 'client) service_env \<Rightarrow> pyo3 \<Rightarrow> sns_types \<Rightarrow> unit pyresult \<Rightarrow> bool \<Rightarrow>
    ('client \<Rightarrow> set_topic_attributes_input \<Rightarrow> trip list \<times> (('e, http_response) sdk_error + unit)) \<Rightarrow>
    'client client_handle \<Rightarrow> pydict \<Rightarrow> pydict option \<Rightarrow>
    (unit pyresult \<times> 'client client_handle \<times> pydict option) option" where
  "set_topic_attributes E P S bridge interrupted send c params observation =
     execute E bridge interrupted send no_details
       ''SetTopicAttributes'' (set_topic_attributes_params P S params) c observation"

definition set_topic_attributes_call :: "set_topic_attributes_input \<Rightarrow> pydict" where
  "set_topic_attributes_call i = py_params
     [(''topic_arn'', opt_to_py PyStr (nstai_topic_arn i)),
      (''attribute_name'', opt_to_py PyStr (nstai_attribute_name i))]
     [(''attribute_value'', opt_to_py PyStr (nstai_attribute_value i))]"

subsection \<open>\<open>Subscribe\<close>\<close>

record subscribe_input =
  nsi_topic_arn :: "string option"
  nsi_protocol :: "string option"
  nsi_endpoint :: "string option"
  nsi_attributes :: "(string, string) fmap option"
  nsi_return_subscription_arn :: "bool option"

definition subscribe_params :: "pyo3 \<Rightarrow> sns_types \<Rightarrow> pydict \<Rightarrow>
    subscribe_input pyresult" where
  "subscribe_params P S params =
     and_then (op_param P ''sns'' ''Subscribe'' params ''topic_arn'' ''str'' (string_from_py P)) (\<lambda>topic_arn.
     and_then (op_param P ''sns'' ''Subscribe'' params ''protocol'' ''str'' (string_from_py P)) (\<lambda>protocol.
     and_then (op_param P ''sns'' ''Subscribe'' params ''endpoint'' ''str'' (string_from_py P)) (\<lambda>endpoint.
     and_then (op_param P ''sns'' ''Subscribe'' params ''attributes'' ''dict'' (map_from_py P ''str'' ''str'' (string_from_py P))) (\<lambda>attributes.
     and_then (op_param P ''sns'' ''Subscribe'' params ''return_subscription_arn'' ''bool'' (bool_from_py P)) (\<lambda>return_subscription_arn.
     Inr \<lparr>nsi_topic_arn = topic_arn,
       nsi_protocol = protocol,
       nsi_endpoint = endpoint,
       nsi_attributes = attributes,
       nsi_return_subscription_arn = return_subscription_arn\<rparr>)))))"

definition subscribe :: "('cfg, 'client) service_env \<Rightarrow> pyo3 \<Rightarrow> sns_types \<Rightarrow> unit pyresult \<Rightarrow> bool \<Rightarrow>
    ('client \<Rightarrow> subscribe_input \<Rightarrow> trip list \<times> (('e, http_response) sdk_error + subscribe_output)) \<Rightarrow>
    'client client_handle \<Rightarrow> pydict \<Rightarrow> pydict option \<Rightarrow>
    (subscribe_output pyresult \<times> 'client client_handle \<times> pydict option) option" where
  "subscribe E P S bridge interrupted send c params observation =
     execute E bridge interrupted send no_details
       ''Subscribe'' (subscribe_params P S params) c observation"

definition subscribe_call :: "((string, pyval) fmap \<Rightarrow> (string \<times> pyval) list) \<Rightarrow> subscribe_input \<Rightarrow> pydict" where
  "subscribe_call order i = py_params
     [(''topic_arn'', opt_to_py PyStr (nsi_topic_arn i)),
      (''protocol'', opt_to_py PyStr (nsi_protocol i))]
     [(''endpoint'', opt_to_py PyStr (nsi_endpoint i)),
      (''attributes'', opt_to_py (mapping_to_py order PyStr) (nsi_attributes i)),
      (''return_subscription_arn'', opt_to_py PyBool (nsi_return_subscription_arn i))]"

subsection \<open>\<open>TagResource\<close>\<close>

record sns_tag_resource_input =
  nstri_resource_arn :: "string option"
  nstri_tags :: "sns_tag list option"

definition sns_tag_resource_params :: "pyo3 \<Rightarrow> sns_types \<Rightarrow> pydict \<Rightarrow>
    sns_tag_resource_input pyresult" where
  "sns_tag_resource_params P S params =
     and_then (op_param P ''sns'' ''TagResource'' params ''resource_arn'' ''str'' (string_from_py P)) (\<lambda>resource_arn.
     and_then (op_param P ''sns'' ''TagResource'' params ''tags'' ''sequence'' (seq_from_py P ''dict (Tag)'' (sns_tag_from_py P S))) (\<lambda>tags.
     Inr \<lparr>nstri_resource_arn = resource_arn,
       nstri_tags = tags\<rparr>))"

definition sns_tag_resource :: "('cfg, 'client) service_env \<Rightarrow> pyo3 \<Rightarrow> sns_types \<Rightarrow> unit pyresult \<Rightarrow> bool \<Rightarrow>
    ('client \<Rightarrow> sns_tag_resource_input \<Rightarrow> trip list \<times> (('e, http_response) sdk_error + tag_resource_output)) \<Rightarrow>
    'client client_handle \<Rightarrow> pydict \<Rightarrow> pydict option \<Rightarrow>
    (tag_resource_output pyresult \<times> 'client client_handle \<times> pydict option) option" where
  "sns_tag_resource E P S bridge interrupted send c params observation =
     execute E bridge interrupted send no_details
       ''TagResource'' (sns_tag_resource_params P S params) c observation"

definition sns_tag_resource_call :: "sns_tag_resource_input \<Rightarrow> pydict" where
  "sns_tag_resource_call i = py_params
     [(''resource_arn'', opt_to_py PyStr (nstri_resource_arn i)),
      (''tags'', opt_to_py (seq_to_py sns_tag_to_py) (nstri_tags i))]
     []"

subsection \<open>\<open>Unsubscribe\<close>\<close>

record unsubscribe_input =
  nui_subscription_arn :: "string option"

definition unsubscribe_params :: "pyo3 \<Rightarrow> sns_types \<Rightarrow> pydict \<Rightarrow>
    unsubscribe_input pyresult" where
  "unsubscribe_params P S params =
     and_then (op_param P ''sns'' ''Unsubscribe'' params ''subscription_arn'' ''str'' (string_from_py P)) (\<lambda>subscription_arn.
     Inr \<lparr>nui_subscription_arn = subscription_arn\<rparr>)"

definition unsubscribe :: "('cfg, 'client) service_env \<Rightarrow> pyo3 \<Rightarrow> sns_types \<Rightarrow> unit pyresult \<Rightarrow> bool \<Rightarrow>
    ('client \<Rightarrow> unsubscribe_input \<Rightarrow> trip list \<times> (('e, http_response) sdk_error + unit)) \<Rightarrow>
    'client client_handle \<Rightarrow> pydict \<Rightarrow> pydict option \<Rightarrow>
    (unit pyresult \<times> 'client client_handle \<times> pydict option) option" where
  "unsubscribe E P S bridge interrupted send c params observation =
     execute E bridge interrupted send no_details
       ''Unsubscribe'' (unsubscribe_params P S params) c observation"

definition unsubscribe_call :: "unsubscribe_input \<Rightarrow> pydict" where
  "unsubscribe_call i = py_params
     [(''subscription_arn'', opt_to_py PyStr (nui_subscription_arn i))]
     []"

subsection \<open>\<open>UntagResource\<close>\<close>

record sns_untag_resource_input =
  nsuri_resource_arn :: "string option"
  nsuri_tag_keys :: "string list option"

definition sns_untag_resource_params :: "pyo3 \<Rightarrow> sns_types \<Rightarrow> pydict \<Rightarrow>
    sns_untag_resource_input pyresult" where
  "sns_untag_resource_params P S params =
     and_then (op_param P ''sns'' ''UntagResource'' params ''resource_arn'' ''str'' (string_from_py P)) (\<lambda>resource_arn.
     and_then (op_param P ''sns'' ''UntagResource'' params ''tag_keys'' ''sequence'' (seq_from_py P ''str'' (string_from_py P))) (\<lambda>tag_keys.
     Inr \<lparr>nsuri_resource_arn = resource_arn,
       nsuri_tag_keys = tag_keys\<rparr>))"

definition sns_untag_resource :: "('cfg, 'client) service_env \<Rightarrow> pyo3 \<Rightarrow> sns_types \<Rightarrow> unit pyresult \<Rightarrow> bool \<Rightarrow>
    ('client \<Rightarrow> sns_untag_resource_input \<Rightarrow> trip list \<times> (('e, http_response) sdk_error + untag_resource_output)) \<Rightarrow>
    'client client_handle \<Rightarrow> pydict \<Rightarrow> pydict option \<Rightarrow>
    (untag_resource_output pyresult \<times> 'client client_handle \<times> pydict option) option" where
  "sns_untag_resource E P S bridge interrupted send c params observation =
     execute E bridge interrupted send no_details
       ''UntagResource'' (sns_untag_resource_params P S params) c observation"

definition sns_untag_resource_call :: "sns_untag_resource_input \<Rightarrow> pydict" where
  "sns_untag_resource_call i = py_params
     [(''resource_arn'', opt_to_py PyStr (nsuri_resource_arn i)),
      (''tag_keys'', opt_to_py (seq_to_py PyStr) (nsuri_tag_keys i))]
     []"

subsection \<open>\<open>VerifySMSSandboxPhoneNumber\<close>\<close>

record verify_sms_sandbox_phone_number_input =
  nvsspni_phone_number :: "string option"
  nvsspni_one_time_password :: "string option"

definition verify_sms_sandbox_phone_number_params :: "pyo3 \<Rightarrow> sns_types \<Rightarrow> pydict \<Rightarrow>
    verify_sms_sandbox_phone_number_input pyresult" where
  "verify_sms_sandbox_phone_number_params P S params =
     and_then (op_param P ''sns'' ''VerifySMSSandboxPhoneNumber'' params ''phone_number'' ''str'' (string_from_py P)) (\<lambda>phone_number.
     and_then (op_param P ''sns'' ''VerifySMSSandboxPhoneNumber'' params ''one_time_password'' ''str'' (string_from_py P)) (\<lambda>one_time_password.
     Inr \<lparr>nvsspni_phone_number = phone_number,
       nvsspni_one_time_password = one_time_password\<rparr>))"

definition verify_sms_sandbox_phone_number :: "('cfg, 'client) service_env \<Rightarrow> pyo3 \<Rightarrow> sns_types \<Rightarrow> unit pyresult \<Rightarrow> bool \<Rightarrow>
    ('client \<Rightarrow> verify_sms_sandbox_phone_number_input \<Rightarrow> trip list \<times> ((verify_sms_sandbox_phone_number_error, http_response) sdk_error + verify_smssandbox_phone_number_output)) \<Rightarrow>
    'client client_handle \<Rightarrow> pydict \<Rightarrow> pydict option \<Rightarrow>
    (verify_smssandbox_phone_number_output pyresult \<times> 'client client_handle \<times> pydict option) option" where
  "verify_sms_sandbox_phone_number E P S bridge interrupted send c params observation =
     execute E bridge interrupted send verify_sms_sandbox_phone_number_error_details
       ''VerifySMSSandboxPhoneNumber'' (verify_sms_sandbox_phone_number_params P S params) c observation"

definition verify_sms_sandbox_phone_number_call :: "verify_sms_sandbox_phone_number_input \<Rightarrow> pydict" where
  "verify_sms_sandbox_phone_number_call i = py_params
     [(''phone_number'', opt_to_py PyStr (nvsspni_phone_number i)),
      (''one_time_password'', opt_to_py PyStr (nvsspni_one_time_password i))]
     []"

section \<open>Parameters arrive\<close>

context sns_conversions
begin

lemma sns_add_permission_delivered: "sns_add_permission_params P S (sns_add_permission_call i) = Inr i"
proof -
  have s: "str_keys (sns_add_permission_call i)" by (simp add: sns_add_permission_call_def)
  note p = arguments [OF sns_add_permission_call_def [of i], simplified]
  have a: "argument (sns_add_permission_call i) ''topic_arn'' = opt_to_py PyStr (nsapi_topic_arn i)"
    "argument (sns_add_permission_call i) ''label'' = opt_to_py PyStr (nsapi_label i)"
    "argument (sns_add_permission_call i) ''aws_account_id'' = opt_to_py (seq_to_py PyStr) (nsapi_aws_account_id i)"
    "argument (sns_add_permission_call i) ''action_name'' = opt_to_py (seq_to_py PyStr) (nsapi_action_name i)"
    by (simp_all only: p)
  show ?thesis
    unfolding sns_add_permission_params_def
    by (simp add: param_reads [OF reads_str s a(1)]
        param_reads [OF reads_str s a(2)]
        param_reads [OF reads_seq [OF reads_str] s a(3)]
        param_reads [OF reads_seq [OF reads_str] s a(4)])
qed

lemma check_if_phone_number_is_opted_out_delivered: "check_if_phone_number_is_opted_out_params P S (check_if_phone_number_is_opted_out_call i) = Inr i"
proof -
  have s: "str_keys (check_if_phone_number_is_opted_out_call i)" by (simp add: check_if_phone_number_is_opted_out_call_def)
  have a: "argument (check_if_phone_number_is_opted_out_call i) ''phone_number'' = opt_to_py PyStr (ncipniooi_phone_number i)"
    unfolding check_if_phone_number_is_opted_out_call_def by (simp_all add: argument_py_params)
  show ?thesis
    unfolding check_if_phone_number_is_opted_out_params_def
    by (simp add: param_reads [OF reads_str s a])
qed

lemma confirm_subscription_delivered: "confirm_subscription_params P S (confirm_subscription_call i) = Inr i"
proof -
  have s: "str_keys (confirm_subscription_call i)" by (simp add: confirm_subscription_call_def)
  note p = arguments [OF confirm_subscription_call_def [of i], simplified]
  have a: "argument (confirm_subscription_call i) ''topic_arn'' = opt_to_py PyStr (ncsi_topic_arn i)"
    "argument (confirm_subscription_call i) ''token'' = opt_to_py PyStr (ncsi_token i)"
    "argument (confirm_subscription_call i) ''authenticate_on_unsubscribe'' = opt_to_py PyStr (ncsi_authenticate_on_unsubscribe i)"
    by (simp_all only: p)
  show ?thesis
    unfolding confirm_subscription_params_def
    by (simp add: param_reads [OF reads_str s a(1)]
        param_reads [OF reads_str s a(2)]
        param_reads [OF reads_str s a(3)])
qed

lemma create_platform_application_delivered: "create_platform_application_params P S (create_platform_application_call order i) = Inr i"
proof -
  have s: "str_keys (create_platform_application_call order i)" by (simp add: create_platform_application_call_def)
  note p = arguments [OF create_platform_application_call_def [of order i], simplified]
  have a: "argument (create_platform_application_call order i) ''name'' = opt_to_py PyStr (ncpai_name i)"
    "argument (create_platform_application_call order i) ''platform'' = opt_to_py PyStr (ncpai_platform i)"
    "argument (create_platform_application_call order i) ''attributes'' = opt_to_py (mapping_to_py order PyStr) (ncpai_attributes i)"
    by (simp_all only: p)
  show ?thesis
    unfolding create_platform_application_params_def
    by (simp add: param_reads [OF reads_str s a(1)]
        param_reads [OF reads_str s a(2)]
        param_reads [OF reads_map [OF order reads_str] s a(3)])
qed

lemma create_platform_endpoint_delivered: "create_platform_endpoint_params P S (create_platform_endpoint_call order i) = Inr i"
proof -
  have s: "str_keys (create_platform_endpoint_call order i)" by (simp add: create_platform_endpoint_call_def)
  note p = arguments [OF create_platform_endpoint_call_def [of order i], simplified]
  have a: "argument (create_platform_endpoint_call order i) ''platform_application_arn'' = opt_to_py PyStr (ncpei_platform_application_arn i)"
    "argument (create_platform_endpoint_call order i) ''token'' = opt_to_py PyStr (ncpei_token i)"
    "argument (create_platform_endpoint_call order i) ''custom_user_data'' = opt_to_py PyStr (ncpei_custom_user_data i)"
    "argument (create_platform_endpoint_call order i) ''attributes'' = opt_to_py (mapping_to_py order PyStr) (ncpei_attributes i)"
    by (simp_all only: p)
  show ?thesis
    unfolding create_platform_endpoint_params_def
    by (simp add: param_reads [OF reads_str s a(1)]
        param_reads [OF reads_str s a(2)]
        param_reads [OF reads_str s a(3)]
        param_reads [OF reads_map [OF order reads_str] s a(4)])
qed

lemma create_sms_sandbox_phone_number_delivered: "create_sms_sandbox_phone_number_params P S (create_sms_sandbox_phone_number_call i) = Inr i"
proof -
  have s: "str_keys (create_sms_sandbox_phone_number_call i)" by (simp add: create_sms_sandbox_phone_number_call_def)
  have a: "argument (create_sms_sandbox_phone_number_call i) ''phone_number'' = opt_to_py PyStr (ncsspni_phone_number i)"
    "argument (create_sms_sandbox_phone_number_call i) ''language_code'' = opt_to_py PyStr (ncsspni_language_code i)"
    unfolding create_sms_sandbox_phone_number_call_def by (simp_all add: argument_py_params)
  show ?thesis
    unfolding create_sms_sandbox_phone_number_params_def
    by (simp add: param_reads [OF reads_str s a(1)]
        param_reads [OF reads_enum s a(2)])
qed

lemma create_topic_delivered: "create_topic_params P S (create_topic_call order i) = Inr i"
proof -
  have s: "str_keys (create_topic_call order i)" by (simp add: create_topic_call_def)
  note p = arguments [OF create_topic_call_def [of order i], simplified]
  have a: "argument (create_topic_call order i) ''name'' = opt_to_py PyStr (ncti_name i)"
    "argument (create_topic_call order i) ''attributes'' = opt_to_py (mapping_to_py order PyStr) (ncti_attributes i)"
    "argument (create_topic_call order i) ''tags'' = opt_to_py (seq_to_py sns_tag_to_py) (ncti_tags i)"
    "argument (create_topic_call order i) ''data_protection_policy'' = opt_to_py PyStr (ncti_data_protection_policy i)"
    by (simp_all only: p)
  show ?thesis
    unfolding create_topic_params_def
    by (simp add: param_reads [OF reads_str s a(1)]
        param_reads [OF reads_map [OF order reads_str] s a(2)]
        param_reads [OF reads_seq [OF sns_tag_reads] s a(3)]
        param_reads [OF reads_str s a(4)])
qed

lemma delete_endpoint_delivered: "delete_endpoint_params P S (delete_endpoint_call i) = Inr i"
proof -
  have s: "str_keys (delete_endpoint_call i)" by (simp add: delete_endpoint_call_def)
  have a: "argument (delete_endpoint_call i) ''endpoint_arn'' = opt_to_py PyStr (ndei_endpoint_arn i)"
    unfolding delete_endpoint_call_def by (simp_all add: argument_py_params)
  show ?thesis
    unfolding delete_endpoint_params_def
    by (simp add: param_reads [OF reads_str s a])
qed

lemma delete_platform_application_delivered: "delete_platform_application_params P S (delete_platform_application_call i) = Inr i"
proof -
  have s: "str_keys (delete_platform_application_call i)" by (simp add: delete_platform_application_call_def)
  have a: "argument (delete_platform_application_call i) ''platform_application_arn'' = opt_to_py PyStr (ndpai_platform_application_arn i)"
    unfolding delete_platform_application_call_def by (simp_all add: argument_py_params)
  show ?thesis
    unfolding delete_platform_application_params_def
    by (simp add: param_reads [OF reads_str s a])
qed

lemma delete_sms_sandbox_phone_number_delivered: "delete_sms_sandbox_phone_number_params P S (delete_sms_sandbox_phone_number_call i) = Inr i"
proof -
  have s: "str_keys (delete_sms_sandbox_phone_number_call i)" by (simp add: delete_sms_sandbox_phone_number_call_def)
  have a: "argument (delete_sms_sandbox_phone_number_call i) ''phone_number'' = opt_to_py PyStr (ndsspni_phone_number i)"
    unfolding delete_sms_sandbox_phone_number_call_def by (simp_all add: argument_py_params)
  show ?thesis
    unfolding delete_sms_sandbox_phone_number_params_def
    by (simp add: param_reads [OF reads_str s a])
qed

lemma delete_topic_delivered: "delete_topic_params P S (delete_topic_call i) = Inr i"
proof -
  have s: "str_keys (delete_topic_call i)" by (simp add: delete_topic_call_def)
  have a: "argument (delete_topic_call i) ''topic_arn'' = opt_to_py PyStr (ndti_topic_arn i)"
    unfolding delete_topic_call_def by (simp_all add: argument_py_params)
  show ?thesis
    unfolding delete_topic_params_def
    by (simp add: param_reads [OF reads_str s a])
qed

lemma get_data_protection_policy_delivered: "get_data_protection_policy_params P S (get_data_protection_policy_call i) = Inr i"
proof -
  have s: "str_keys (get_data_protection_policy_call i)" by (simp add: get_data_protection_policy_call_def)
  have a: "argument (get_data_protection_policy_call i) ''resource_arn'' = opt_to_py PyStr (ngdppi_resource_arn i)"
    unfolding get_data_protection_policy_call_def by (simp_all add: argument_py_params)
  show ?thesis
    unfolding get_data_protection_policy_params_def
    by (simp add: param_reads [OF reads_str s a])
qed

lemma get_endpoint_attributes_delivered: "get_endpoint_attributes_params P S (get_endpoint_attributes_call i) = Inr i"
proof -
  have s: "str_keys (get_endpoint_attributes_call i)" by (simp add: get_endpoint_attributes_call_def)
  have a: "argument (get_endpoint_attributes_call i) ''endpoint_arn'' = opt_to_py PyStr (ngeai_endpoint_arn i)"
    unfolding get_endpoint_attributes_call_def by (simp_all add: argument_py_params)
  show ?thesis
    unfolding get_endpoint_attributes_params_def
    by (simp add: param_reads [OF reads_str s a])
qed

lemma get_platform_application_attributes_delivered: "get_platform_application_attributes_params P S (get_platform_application_attributes_call i) = Inr i"
proof -
  have s: "str_keys (get_platform_application_attributes_call i)" by (simp add: get_platform_application_attributes_call_def)
  have a: "argument (get_platform_application_attributes_call i) ''platform_application_arn'' = opt_to_py PyStr (ngpaai_platform_application_arn i)"
    unfolding get_platform_application_attributes_call_def by (simp_all add: argument_py_params)
  show ?thesis
    unfolding get_platform_application_attributes_params_def
    by (simp add: param_reads [OF reads_str s a])
qed

lemma get_sms_attributes_delivered: "get_sms_attributes_params P S (get_sms_attributes_call i) = Inr i"
proof -
  have s: "str_keys (get_sms_attributes_call i)" by (simp add: get_sms_attributes_call_def)
  have a: "argument (get_sms_attributes_call i) ''attributes'' = opt_to_py (seq_to_py PyStr) (ngsai_attributes i)"
    unfolding get_sms_attributes_call_def by (simp_all add: argument_py_params)
  show ?thesis
    unfolding get_sms_attributes_params_def
    by (simp add: param_reads [OF reads_seq [OF reads_str] s a])
qed

lemma get_subscription_attributes_delivered: "get_subscription_attributes_params P S (get_subscription_attributes_call i) = Inr i"
proof -
  have s: "str_keys (get_subscription_attributes_call i)" by (simp add: get_subscription_attributes_call_def)
  have a: "argument (get_subscription_attributes_call i) ''subscription_arn'' = opt_to_py PyStr (ngsai2_subscription_arn i)"
    unfolding get_subscription_attributes_call_def by (simp_all add: argument_py_params)
  show ?thesis
    unfolding get_subscription_attributes_params_def
    by (simp add: param_reads [OF reads_str s a])
qed

lemma get_topic_attributes_delivered: "get_topic_attributes_params P S (get_topic_attributes_call i) = Inr i"
proof -
  have s: "str_keys (get_topic_attributes_call i)" by (simp add: get_topic_attributes_call_def)
  have a: "argument (get_topic_attributes_call i) ''topic_arn'' = opt_to_py PyStr (ngtai_topic_arn i)"
    unfolding get_topic_attributes_call_def by (simp_all add: argument_py_params)
  show ?thesis
    unfolding get_topic_attributes_params_def
    by (simp add: param_reads [OF reads_str s a])
qed

lemma list_endpoints_by_platform_application_delivered: "list_endpoints_by_platform_application_params P S (list_endpoints_by_platform_application_call i) = Inr i"
proof -
  have s: "str_keys (list_endpoints_by_platform_application_call i)" by (simp add: list_endpoints_by_platform_application_call_def)
  have a: "argument (list_endpoints_by_platform_application_call i) ''platform_application_arn'' = opt_to_py PyStr (nlebpai_platform_application_arn i)"
    "argument (list_endpoints_by_platform_application_call i) ''next_token'' = opt_to_py PyStr (nlebpai_next_token i)"
    unfolding list_endpoints_by_platform_application_call_def by (simp_all add: argument_py_params)
  show ?thesis
    unfolding list_endpoints_by_platform_application_params_def
    by (simp add: param_reads [OF reads_str s a(1)]
        param_reads [OF reads_str s a(2)])
qed

lemma list_origination_numbers_delivered: "list_origination_numbers_params P S (list_origination_numbers_call i) = Inr i"
proof -
  have s: "str_keys (list_origination_numbers_call i)" by (simp add: list_origination_numbers_call_def)
  have a: "argument (list_origination_numbers_call i) ''next_token'' = opt_to_py PyStr (nloni_next_token i)"
    "argument (list_origination_numbers_call i) ''max_results'' = opt_to_py i32_to_py (nloni_max_results i)"
    unfolding list_origination_numbers_call_def by (simp_all add: argument_py_params)
  show ?thesis
    unfolding list_origination_numbers_params_def
    by (simp add: param_reads [OF reads_str s a(1)]
        param_reads [OF reads_i32 s a(2)])
qed

lemma list_phone_numbers_opted_out_delivered: "list_phone_numbers_opted_out_params P S (list_phone_numbers_opted_out_call i) = Inr i"
proof -
  have s: "str_keys (list_phone_numbers_opted_out_call i)" by (simp add: list_phone_numbers_opted_out_call_def)
  have a: "argument (list_phone_numbers_opted_out_call i) ''next_token'' = opt_to_py PyStr (nlpnooi_next_token i)"
    unfolding list_phone_numbers_opted_out_call_def by (simp_all add: argument_py_params)
  show ?thesis
    unfolding list_phone_numbers_opted_out_params_def
    by (simp add: param_reads [OF reads_str s a])
qed

lemma list_platform_applications_delivered: "list_platform_applications_params P S (list_platform_applications_call i) = Inr i"
proof -
  have s: "str_keys (list_platform_applications_call i)" by (simp add: list_platform_applications_call_def)
  have a: "argument (list_platform_applications_call i) ''next_token'' = opt_to_py PyStr (nlpai_next_token i)"
    unfolding list_platform_applications_call_def by (simp_all add: argument_py_params)
  show ?thesis
    unfolding list_platform_applications_params_def
    by (simp add: param_reads [OF reads_str s a])
qed

lemma list_sms_sandbox_phone_numbers_delivered: "list_sms_sandbox_phone_numbers_params P S (list_sms_sandbox_phone_numbers_call i) = Inr i"
proof -
  have s: "str_keys (list_sms_sandbox_phone_numbers_call i)" by (simp add: list_sms_sandbox_phone_numbers_call_def)
  have a: "argument (list_sms_sandbox_phone_numbers_call i) ''next_token'' = opt_to_py PyStr (nlsspni_next_token i)"
    "argument (list_sms_sandbox_phone_numbers_call i) ''max_results'' = opt_to_py i32_to_py (nlsspni_max_results i)"
    unfolding list_sms_sandbox_phone_numbers_call_def by (simp_all add: argument_py_params)
  show ?thesis
    unfolding list_sms_sandbox_phone_numbers_params_def
    by (simp add: param_reads [OF reads_str s a(1)]
        param_reads [OF reads_i32 s a(2)])
qed

lemma list_subscriptions_delivered: "list_subscriptions_params P S (list_subscriptions_call i) = Inr i"
proof -
  have s: "str_keys (list_subscriptions_call i)" by (simp add: list_subscriptions_call_def)
  have a: "argument (list_subscriptions_call i) ''next_token'' = opt_to_py PyStr (nlsi_next_token i)"
    unfolding list_subscriptions_call_def by (simp_all add: argument_py_params)
  show ?thesis
    unfolding list_subscriptions_params_def
    by (simp add: param_reads [OF reads_str s a])
qed

lemma list_subscriptions_by_topic_delivered: "list_subscriptions_by_topic_params P S (list_subscriptions_by_topic_call i) = Inr i"
proof -
  have s: "str_keys (list_subscriptions_by_topic_call i)" by (simp add: list_subscriptions_by_topic_call_def)
  have a: "argument (list_subscriptions_by_topic_call i) ''topic_arn'' = opt_to_py PyStr (nlsbti_topic_arn i)"
    "argument (list_subscriptions_by_topic_call i) ''next_token'' = opt_to_py PyStr (nlsbti_next_token i)"
    unfolding list_subscriptions_by_topic_call_def by (simp_all add: argument_py_params)
  show ?thesis
    unfolding list_subscriptions_by_topic_params_def
    by (simp add: param_reads [OF reads_str s a(1)]
        param_reads [OF reads_str s a(2)])
qed

lemma list_tags_for_resource_delivered: "list_tags_for_resource_params P S (list_tags_for_resource_call i) = Inr i"
proof -
  have s: "str_keys (list_tags_for_resource_call i)" by (simp add: list_tags_for_resource_call_def)
  have a: "argument (list_tags_for_resource_call i) ''resource_arn'' = opt_to_py PyStr (nltfri_resource_arn i)"
    unfolding list_tags_for_resource_call_def by (simp_all add: argument_py_params)
  show ?thesis
    unfolding list_tags_for_resource_params_def
    by (simp add: param_reads [OF reads_str s a])
qed

lemma list_topics_delivered: "list_topics_params P S (list_topics_call i) = Inr i"
proof -
  have s: "str_keys (list_topics_call i)" by (simp add: list_topics_call_def)
  have a: "argument (list_topics_call i) ''next_token'' = opt_to_py PyStr (nlti_next_token i)"
    unfolding list_topics_call_def by (simp_all add: argument_py_params)
  show ?thesis
    unfolding list_topics_params_def
    by (simp add: param_reads [OF reads_str s a])
qed

lemma opt_in_phone_number_delivered: "opt_in_phone_number_params P S (opt_in_phone_number_call i) = Inr i"
proof -
  have s: "str_keys (opt_in_phone_number_call i)" by (simp add: opt_in_phone_number_call_def)
  have a: "argument (opt_in_phone_number_call i) ''phone_number'' = opt_to_py PyStr (noipni_phone_number i)"
    unfolding opt_in_phone_number_call_def by (simp_all add: argument_py_params)
  show ?thesis
    unfolding opt_in_phone_number_params_def
    by (simp add: param_reads [OF reads_str s a])
qed

lemma sns_publish_delivered: "sns_publish_params P S (sns_publish_call order i) = Inr i"
proof -
  have s: "str_keys (sns_publish_call order i)" by (simp add: sns_publish_call_def)
  note p = arguments [OF sns_publish_call_def [of order i], simplified]
  have a: "argument (sns_publish_call order i) ''topic_arn'' = opt_to_py PyStr (nspi_topic_arn i)"
    "argument (sns_publish_call order i) ''target_arn'' = opt_to_py PyStr (nspi_target_arn i)"
    "argument (sns_publish_call order i) ''phone_number'' = opt_to_py PyStr (nspi_phone_number i)"
    "argument (sns_publish_call order i) ''message'' = opt_to_py PyStr (nspi_message i)"
    "argument (sns_publish_call order i) ''subject'' = opt_to_py PyStr (nspi_subject i)"
    "argument (sns_publish_call order i) ''message_structure'' = opt_to_py PyStr (nspi_message_structure i)"
    "argument (sns_publish_call order i) ''message_attributes'' = opt_to_py (mapping_to_py order sns_message_attribute_value_to_py) (nspi_message_attributes i)"
    "argument (sns_publish_call order i) ''message_deduplication_id'' = opt_to_py PyStr (nspi_message_deduplication_id i)"
    "argument (sns_publish_call order i) ''message_group_id'' = opt_to_py PyStr (nspi_message_group_id i)"
    by (simp_all only: p)
  show ?thesis
    unfolding sns_publish_params_def sns_publish_params_1_def sns_publish_params_2_def
    by (simp add: param_reads [OF reads_str s a(1)]
        param_reads [OF reads_str s a(2)]
        param_reads [OF reads_str s a(3)]
        param_reads [OF reads_str s a(4)]
        param_reads [OF reads_str s a(5)]
        param_reads [OF reads_str s a(6)]
        param_reads [OF reads_map [OF order sns_message_attribute_value_reads] s a(7)]
        param_reads [OF reads_str s a(8)]
        param_reads [OF reads_str s a(9)])
qed

lemma publish_batch_delivered: "publish_batch_params P S (publish_batch_call order i) = Inr i"
proof -
  have s: "str_keys (publish_batch_call order i)" by (simp add: publish_batch_call_def)
  have a: "argument (publish_batch_call order i) ''topic_arn'' = opt_to_py PyStr (npbi_topic_arn i)"
    "argument (publish_batch_call order i) ''publish_batch_request_entries'' = opt_to_py (seq_to_py (publish_batch_request_entry_to_py order)) (npbi_publish_batch_request_entries i)"
    unfolding publish_batch_call_def by (simp_all add: argument_py_params)
  show ?thesis
    unfolding publish_batch_params_def
    by (simp add: param_reads [OF reads_str s a(1)]
        param_reads [OF reads_seq [OF publish_batch_request_entry_reads] s a(2)])
qed

lemma put_data_protection_policy_delivered: "put_data_protection_policy_params P S (put_data_protection_policy_call i) = Inr i"
proof -
  have s: "str_keys (put_data_protection_policy_call i)" by (simp add: put_data_protection_policy_call_def)
  have a: "argument (put_data_protection_policy_call i) ''resource_arn'' = opt_to_py PyStr (npdppi_resource_arn i)"
    "argument (put_data_protection_policy_call i) ''data_protection_policy'' = opt_to_py PyStr (npdppi_data_protection_policy i)"
    unfolding put_data_protection_policy_call_def by (simp_all add: argument_py_params)
  show ?thesis
    unfolding put_data_protection_policy_params_def
    by (simp add: param_reads [OF reads_str s a(1)]
        param_reads [OF reads_str s a(2)])
qed

lemma sns_remove_permission_delivered: "sns_remove_permission_params P S (sns_remove_permission_call i) = Inr i"
proof -
  have s: "str_keys (sns_remove_permission_call i)" by (simp add: sns_remove_permission_call_def)
  have a: "argument (sns_remove_permission_call i) ''topic_arn'' = opt_to_py PyStr (nsrpi_topic_arn i)"
    "argument (sns_remove_permission_call i) ''label'' = opt_to_py PyStr (nsrpi_label i)"
    unfolding sns_remove_permission_call_def by (simp_all add: argument_py_params)
  show ?thesis
    unfolding sns_remove_permission_params_def
    by (simp add: param_reads [OF reads_str s a(1)]
        param_reads [OF reads_str s a(2)])
qed

lemma set_endpoint_attributes_delivered: "set_endpoint_attributes_params P S (set_endpoint_attributes_call order i) = Inr i"
proof -
  have s: "str_keys (set_endpoint_attributes_call order i)" by (simp add: set_endpoint_attributes_call_def)
  have a: "argument (set_endpoint_attributes_call order i) ''endpoint_arn'' = opt_to_py PyStr (nseai_endpoint_arn i)"
    "argument (set_endpoint_attributes_call order i) ''attributes'' = opt_to_py (mapping_to_py order PyStr) (nseai_attributes i)"
    unfolding set_endpoint_attributes_call_def by (simp_all add: argument_py_params)
  show ?thesis
    unfolding set_endpoint_attributes_params_def
    by (simp add: param_reads [OF reads_str s a(1)]
        param_reads [OF reads_map [OF order reads_str] s a(2)])
qed

lemma set_platform_application_attributes_delivered: "set_platform_application_attributes_params P S (set_platform_application_attributes_call order i) = Inr i"
proof -
  have s: "str_keys (set_platform_application_attributes_call order i)" by (simp add: set_platform_application_attributes_call_def)
  have a: "argument (set_platform_application_attributes_call order i) ''platform_application_arn'' = opt_to_py PyStr (nspaai_platform_application_arn i)"
    "argument (set_platform_application_attributes_call order i) ''attributes'' = opt_to_py (mapping_to_py order PyStr) (nspaai_attributes i)"
    unfolding set_platform_application_attributes_call_def by (simp_all add: argument_py_params)
  show ?thesis
    unfolding set_platform_application_attributes_params_def
    by (simp add: param_reads [OF reads_str s a(1)]
        param_reads [OF reads_map [OF order reads_str] s a(2)])
qed

lemma set_sms_attributes_delivered: "set_sms_attributes_params P S (set_sms_attributes_call order i) = Inr i"
proof -
  have s: "str_keys (set_sms_attributes_call order i)" by (simp add: set_sms_attributes_call_def)
  have a: "argument (set_sms_attributes_call order i) ''attributes'' = opt_to_py (mapping_to_py order PyStr) (nssai_attributes i)"
    unfolding set_sms_attributes_call_def by (simp_all add: argument_py_params)
  show ?thesis
    unfolding set_sms_attributes_params_def
    by (simp add: param_reads [OF reads_map [OF order reads_str] s a])
qed

lemma set_subscription_attributes_delivered: "set_subscription_attributes_params P S (set_subscription_attributes_call i) = Inr i"
proof -
  have s: "str_keys (set_subscription_attributes_call i)" by (simp add: set_subscription_attributes_call_def)
  note p = arguments [OF set_subscription_attributes_call_def [of i], simplified]
  have a: "argument (set_subscription_attributes_call i) ''subscription_arn'' = opt_to_py PyStr (nssai2_subscription_arn i)"
    "argument (set_subscription_attributes_call i) ''attribute_name'' = opt_to_py PyStr (nssai2_attribute_name i)"
    "argument (set_subscription_attributes_call i) ''attribute_value'' = opt_to_py PyStr (nssai2_attribute_value i)"
    by (simp_all only: p)
  show ?thesis
    unfolding set_subscription_attributes_params_def
    by (simp add: param_reads [OF reads_str s a(1)]
        param_reads [OF reads_str s a(2)]
        param_reads [OF reads_str s a(3)])
qed

lemma set_topic_attributes_delivered: "set_topic_attributes_params P S (set_topic_attributes_call i) = Inr i"
proof -
  have s: "str_keys (set_topic_attributes_call i)" by (simp add: set_topic_attributes_call_def)
  note p = arguments [OF set_topic_attributes_call_def [of i], simplified]
  have a: "argument (set_topic_attributes_call i) ''topic_arn'' = opt_to_py PyStr (nstai_topic_arn i)"
    "argument (set_topic_attributes_call i) ''attribute_name'' = opt_to_py PyStr (nstai_attribute_name i)"
    "argument (set_topic_attributes_call i) ''attribute_value'' = opt_to_py PyStr (nstai_attribute_value i)"
    by (simp_all only: p)
  show ?thesis
    unfolding set_topic_attributes_params_def
    by (simp add: param_reads [OF reads_str s a(1)]
        param_reads [OF reads_str s a(2)]
        param_reads [OF reads_str s a(3)])
qed

lemma subscribe_delivered: "subscribe_params P S (subscribe_call order i) = Inr i"
proof -
  have s: "str_keys (subscribe_call order i)" by (simp add: subscribe_call_def)
  note p = arguments [OF subscribe_call_def [of order i], simplified]
  have a: "argument (subscribe_call order i) ''topic_arn'' = opt_to_py PyStr (nsi_topic_arn i)"
    "argument (subscribe_call order i) ''protocol'' = opt_to_py PyStr (nsi_protocol i)"
    "argument (subscribe_call order i) ''endpoint'' = opt_to_py PyStr (nsi_endpoint i)"
    "argument (subscribe_call order i) ''attributes'' = opt_to_py (mapping_to_py order PyStr) (nsi_attributes i)"
    "argument (subscribe_call order i) ''return_subscription_arn'' = opt_to_py PyBool (nsi_return_subscription_arn i)"
    by (simp_all only: p)
  show ?thesis
    unfolding subscribe_params_def
    by (simp add: param_reads [OF reads_str s a(1)]
        param_reads [OF reads_str s a(2)]
        param_reads [OF reads_str s a(3)]
        param_reads [OF reads_map [OF order reads_str] s a(4)]
        param_reads [OF reads_bool s a(5)])
qed

lemma sns_tag_resource_delivered: "sns_tag_resource_params P S (sns_tag_resource_call i) = Inr i"
proof -
  have s: "str_keys (sns_tag_resource_call i)" by (simp add: sns_tag_resource_call_def)
  have a: "argument (sns_tag_resource_call i) ''resource_arn'' = opt_to_py PyStr (nstri_resource_arn i)"
    "argument (sns_tag_resource_call i) ''tags'' = opt_to_py (seq_to_py sns_tag_to_py) (nstri_tags i)"
    unfolding sns_tag_resource_call_def by (simp_all add: argument_py_params)
  show ?thesis
    unfolding sns_tag_resource_params_def
    by (simp add: param_reads [OF reads_str s a(1)]
        param_reads [OF reads_seq [OF sns_tag_reads] s a(2)])
qed

lemma unsubscribe_delivered: "unsubscribe_params P S (unsubscribe_call i) = Inr i"
proof -
  have s: "str_keys (unsubscribe_call i)" by (simp add: unsubscribe_call_def)
  have a: "argument (unsubscribe_call i) ''subscription_arn'' = opt_to_py PyStr (nui_subscription_arn i)"
    unfolding unsubscribe_call_def by (simp_all add: argument_py_params)
  show ?thesis
    unfolding unsubscribe_params_def
    by (simp add: param_reads [OF reads_str s a])
qed

lemma sns_untag_resource_delivered: "sns_untag_resource_params P S (sns_untag_resource_call i) = Inr i"
proof -
  have s: "str_keys (sns_untag_resource_call i)" by (simp add: sns_untag_resource_call_def)
  have a: "argument (sns_untag_resource_call i) ''resource_arn'' = opt_to_py PyStr (nsuri_resource_arn i)"
    "argument (sns_untag_resource_call i) ''tag_keys'' = opt_to_py (seq_to_py PyStr) (nsuri_tag_keys i)"
    unfolding sns_untag_resource_call_def by (simp_all add: argument_py_params)
  show ?thesis
    unfolding sns_untag_resource_params_def
    by (simp add: param_reads [OF reads_str s a(1)]
        param_reads [OF reads_seq [OF reads_str] s a(2)])
qed

lemma verify_sms_sandbox_phone_number_delivered: "verify_sms_sandbox_phone_number_params P S (verify_sms_sandbox_phone_number_call i) = Inr i"
proof -
  have s: "str_keys (verify_sms_sandbox_phone_number_call i)" by (simp add: verify_sms_sandbox_phone_number_call_def)
  have a: "argument (verify_sms_sandbox_phone_number_call i) ''phone_number'' = opt_to_py PyStr (nvsspni_phone_number i)"
    "argument (verify_sms_sandbox_phone_number_call i) ''one_time_password'' = opt_to_py PyStr (nvsspni_one_time_password i)"
    unfolding verify_sms_sandbox_phone_number_call_def by (simp_all add: argument_py_params)
  show ?thesis
    unfolding verify_sms_sandbox_phone_number_params_def
    by (simp add: param_reads [OF reads_str s a(1)]
        param_reads [OF reads_str s a(2)])
qed

end

end
