(* ===== verification/SecretsTypes.thy ===== *)
theory SecretsTypes
  imports Sns
begin

text \<open>
  The structures of the Secrets Manager extension, from \<open>crates/rboto-secrets-manager/src/generated.rs\<close>: the converters
  between Python dictionaries and the SDK's structures, which are records with the members the code
  reads and sets. An enum of the SDK is its text, and \<open>order\<close> is the order in which the iterator of
  a \<open>HashMap\<close> yields its entries. The builders belong to the SDK and are the record \<open>sec_types\<close>.
\<close>

section \<open>Structures\<close>

record api_error_type =
  zaet_secret_id :: "string option"
  zaet_error_code :: "string option"
  zaet_message :: "string option"

record external_secret_rotation_metadata_item =
  zesrmi_key :: "string option"
  zesrmi_value :: "string option"

record sec_filter =
  zf_key :: "string option"
  zf_values :: "string list option"

record replica_region_type =
  zrrt_region :: "string option"
  zrrt_kms_key_id :: "string option"

record replication_status_type =
  zrst_region :: "string option"
  zrst_kms_key_id :: "string option"
  zrst_status :: "string option"
  zrst_status_message :: "string option"
  zrst_last_accessed_date :: "datetime option"

record rotation_rules_type =
  zrrt2_automatically_after_days :: "64 word option"
  zrrt2_duration :: "string option"
  zrrt2_schedule_expression :: "string option"

record sec_tag =
  zt_key :: "string option"
  zt_value :: "string option"

record secret_list_entry =
  zsle_arn :: "string option"
  zsle_name :: "string option"
  zsle_type :: "string option"
  zsle_description :: "string option"
  zsle_kms_key_id :: "string option"
  zsle_rotation_enabled :: "bool option"
  zsle_rotation_lambda_arn :: "string option"
  zsle_rotation_rules :: "rotation_rules_type option"
  zsle_external_secret_rotation_metadata :: "external_secret_rotation_metadata_item list option"
  zsle_external_secret_rotation_role_arn :: "string option"
  zsle_last_rotated_date :: "datetime option"
  zsle_last_changed_date :: "datetime option"
  zsle_last_accessed_date :: "datetime option"
  zsle_deleted_date :: "datetime option"
  zsle_next_rotation_date :: "datetime option"
  zsle_tags :: "sec_tag list option"
  zsle_secret_versions_to_stages :: "(string, string list) fmap option"
  zsle_owning_service :: "string option"
  zsle_created_date :: "datetime option"
  zsle_primary_region :: "string option"

record secret_value_entry =
  zsve_arn :: "string option"
  zsve_name :: "string option"
  zsve_version_id :: "string option"
  zsve_secret_binary :: "byte list option"
  zsve_secret_string :: "string option"
  zsve_version_stages :: "string list option"
  zsve_created_date :: "datetime option"

record secret_versions_list_entry =
  zsvle_version_id :: "string option"
  zsvle_version_stages :: "string list option"
  zsvle_last_accessed_date :: "datetime option"
  zsvle_created_date :: "datetime option"
  zsvle_kms_key_ids :: "string list option"

record validation_errors_entry =
  zvee_check_name :: "string option"
  zvee_error_message :: "string option"

record sec_types = smithy_dates +
  build_api_error_type :: "string option \<Rightarrow> string option \<Rightarrow> string option \<Rightarrow> api_error_type"
  build_external_secret_rotation_metadata_item :: "string option \<Rightarrow> string option \<Rightarrow> external_secret_rotation_metadata_item"
  build_filter :: "string option \<Rightarrow> string list option \<Rightarrow> sec_filter"
  build_replica_region_type :: "string option \<Rightarrow> string option \<Rightarrow> replica_region_type"
  build_replication_status_type :: "string option \<Rightarrow> string option \<Rightarrow> string option \<Rightarrow> string option \<Rightarrow> datetime option \<Rightarrow> replication_status_type"
  build_rotation_rules_type :: "64 word option \<Rightarrow> string option \<Rightarrow> string option \<Rightarrow> rotation_rules_type"
  build_sec_tag :: "string option \<Rightarrow> string option \<Rightarrow> sec_tag"
  build_secret_list_entry :: "string option \<Rightarrow> string option \<Rightarrow> string option \<Rightarrow> string option \<Rightarrow> string option \<Rightarrow> bool option \<Rightarrow> string option \<Rightarrow> rotation_rules_type option \<Rightarrow> external_secret_rotation_metadata_item list option \<Rightarrow> string option \<Rightarrow> datetime option \<Rightarrow> datetime option \<Rightarrow> datetime option \<Rightarrow> datetime option \<Rightarrow> datetime option \<Rightarrow> sec_tag list option \<Rightarrow> (string, string list) fmap option \<Rightarrow> string option \<Rightarrow> datetime option \<Rightarrow> string option \<Rightarrow> secret_list_entry"
  build_secret_value_entry :: "string option \<Rightarrow> string option \<Rightarrow> string option \<Rightarrow> byte list option \<Rightarrow> string option \<Rightarrow> string list option \<Rightarrow> datetime option \<Rightarrow> secret_value_entry"
  build_secret_versions_list_entry :: "string option \<Rightarrow> string list option \<Rightarrow> datetime option \<Rightarrow> datetime option \<Rightarrow> string list option \<Rightarrow> secret_versions_list_entry"
  build_validation_errors_entry :: "string option \<Rightarrow> string option \<Rightarrow> validation_errors_entry"

section \<open>Converters\<close>

definition api_error_type_from_py :: "pyo3 \<Rightarrow> sec_types \<Rightarrow> pyval \<Rightarrow> api_error_type pyresult" where
  "api_error_type_from_py P S value =
     and_then (cast_dict P value) (\<lambda>values.
     and_then (member P values ''secret_id'' ''str'' (string_from_py P)) (\<lambda>secret_id_value.
     and_then (member P values ''error_code'' ''str'' (string_from_py P)) (\<lambda>error_code_value.
     and_then (member P values ''message'' ''str'' (string_from_py P)) (\<lambda>message_value.
     Inr (build_api_error_type S secret_id_value error_code_value message_value)))))"

definition api_error_type_to_py :: "api_error_type \<Rightarrow> pyval" where
  "api_error_type_to_py v = PyDict (py_dict
     [(''secret_id'', opt_to_py PyStr (zaet_secret_id v)),
      (''error_code'', opt_to_py PyStr (zaet_error_code v)),
      (''message'', opt_to_py PyStr (zaet_message v))])"

definition external_secret_rotation_metadata_item_from_py :: "pyo3 \<Rightarrow> sec_types \<Rightarrow> pyval \<Rightarrow> external_secret_rotation_metadata_item pyresult" where
  "external_secret_rotation_metadata_item_from_py P S value =
     and_then (cast_dict P value) (\<lambda>values.
     and_then (member P values ''key'' ''str'' (string_from_py P)) (\<lambda>key_value.
     and_then (member P values ''value'' ''str'' (string_from_py P)) (\<lambda>value_value.
     Inr (build_external_secret_rotation_metadata_item S key_value value_value))))"

definition external_secret_rotation_metadata_item_to_py :: "external_secret_rotation_metadata_item \<Rightarrow> pyval" where
  "external_secret_rotation_metadata_item_to_py v = PyDict (py_dict
     [(''key'', opt_to_py PyStr (zesrmi_key v)),
      (''value'', opt_to_py PyStr (zesrmi_value v))])"

definition filter_from_py :: "pyo3 \<Rightarrow> sec_types \<Rightarrow> pyval \<Rightarrow> sec_filter pyresult" where
  "filter_from_py P S value =
     and_then (cast_dict P value) (\<lambda>values.
     and_then (member P values ''key'' ''str (FilterNameStringType)'' (enum_from_py P)) (\<lambda>key_value.
     and_then (member P values ''values'' ''sequence'' (seq_from_py P ''str'' (string_from_py P))) (\<lambda>values_value.
     Inr (build_filter S key_value values_value))))"

definition filter_to_py :: "sec_filter \<Rightarrow> pyval" where
  "filter_to_py v = PyDict (py_dict
     [(''key'', opt_to_py PyStr (zf_key v)),
      (''values'', opt_to_py (seq_to_py PyStr) (zf_values v))])"

definition replica_region_type_from_py :: "pyo3 \<Rightarrow> sec_types \<Rightarrow> pyval \<Rightarrow> replica_region_type pyresult" where
  "replica_region_type_from_py P S value =
     and_then (cast_dict P value) (\<lambda>values.
     and_then (member P values ''region'' ''str'' (string_from_py P)) (\<lambda>region_value.
     and_then (member P values ''kms_key_id'' ''str'' (string_from_py P)) (\<lambda>kms_key_id_value.
     Inr (build_replica_region_type S region_value kms_key_id_value))))"

definition replica_region_type_to_py :: "replica_region_type \<Rightarrow> pyval" where
  "replica_region_type_to_py v = PyDict (py_dict
     [(''region'', opt_to_py PyStr (zrrt_region v)),
      (''kms_key_id'', opt_to_py PyStr (zrrt_kms_key_id v))])"

definition replication_status_type_from_py :: "pyo3 \<Rightarrow> sec_types \<Rightarrow> pyval \<Rightarrow> replication_status_type pyresult" where
  "replication_status_type_from_py P S value =
     and_then (cast_dict P value) (\<lambda>values.
     and_then (member P values ''region'' ''str'' (string_from_py P)) (\<lambda>region_value.
     and_then (member P values ''kms_key_id'' ''str'' (string_from_py P)) (\<lambda>kms_key_id_value.
     and_then (member P values ''status'' ''str (StatusType)'' (enum_from_py P)) (\<lambda>status_value.
     and_then (member P values ''status_message'' ''str'' (string_from_py P)) (\<lambda>status_message_value.
     and_then (member P values ''last_accessed_date'' ''ISO 8601 timestamp string'' (datetime_from_py P S)) (\<lambda>last_accessed_date_value.
     Inr (build_replication_status_type S region_value kms_key_id_value status_value status_message_value last_accessed_date_value)))))))"

definition replication_status_type_to_py :: "sec_types \<Rightarrow> replication_status_type \<Rightarrow> pyval" where
  "replication_status_type_to_py S v = PyDict (py_dict
     [(''region'', opt_to_py PyStr (zrst_region v)),
      (''kms_key_id'', opt_to_py PyStr (zrst_kms_key_id v)),
      (''status'', opt_to_py PyStr (zrst_status v)),
      (''status_message'', opt_to_py PyStr (zrst_status_message v)),
      (''last_accessed_date'', opt_to_py (datetime_to_py S) (zrst_last_accessed_date v))])"

definition rotation_rules_type_from_py :: "pyo3 \<Rightarrow> sec_types \<Rightarrow> pyval \<Rightarrow> rotation_rules_type pyresult" where
  "rotation_rules_type_from_py P S value =
     and_then (cast_dict P value) (\<lambda>values.
     and_then (member P values ''automatically_after_days'' ''int'' (i64_from_py P)) (\<lambda>automatically_after_days_value.
     and_then (member P values ''duration'' ''str'' (string_from_py P)) (\<lambda>duration_value.
     and_then (member P values ''schedule_expression'' ''str'' (string_from_py P)) (\<lambda>schedule_expression_value.
     Inr (build_rotation_rules_type S automatically_after_days_value duration_value schedule_expression_value)))))"

definition rotation_rules_type_to_py :: "rotation_rules_type \<Rightarrow> pyval" where
  "rotation_rules_type_to_py v = PyDict (py_dict
     [(''automatically_after_days'', opt_to_py i64_to_py (zrrt2_automatically_after_days v)),
      (''duration'', opt_to_py PyStr (zrrt2_duration v)),
      (''schedule_expression'', opt_to_py PyStr (zrrt2_schedule_expression v))])"

definition sec_tag_from_py :: "pyo3 \<Rightarrow> sec_types \<Rightarrow> pyval \<Rightarrow> sec_tag pyresult" where
  "sec_tag_from_py P S value =
     and_then (cast_dict P value) (\<lambda>values.
     and_then (member P values ''key'' ''str'' (string_from_py P)) (\<lambda>key_value.
     and_then (member P values ''value'' ''str'' (string_from_py P)) (\<lambda>value_value.
     Inr (build_sec_tag S key_value value_value))))"

definition sec_tag_to_py :: "sec_tag \<Rightarrow> pyval" where
  "sec_tag_to_py v = PyDict (py_dict
     [(''key'', opt_to_py PyStr (zt_key v)),
      (''value'', opt_to_py PyStr (zt_value v))])"

definition secret_list_entry_from_py :: "pyo3 \<Rightarrow> sec_types \<Rightarrow> pyval \<Rightarrow> secret_list_entry pyresult" where
  "secret_list_entry_from_py P S value =
     and_then (cast_dict P value) (\<lambda>values.
     and_then (member P values ''arn'' ''str'' (string_from_py P)) (\<lambda>arn_value.
     and_then (member P values ''name'' ''str'' (string_from_py P)) (\<lambda>name_value.
     and_then (member P values ''type'' ''str'' (string_from_py P)) (\<lambda>type_value.
     and_then (member P values ''description'' ''str'' (string_from_py P)) (\<lambda>description_value.
     and_then (member P values ''kms_key_id'' ''str'' (string_from_py P)) (\<lambda>kms_key_id_value.
     and_then (member P values ''rotation_enabled'' ''bool'' (bool_from_py P)) (\<lambda>rotation_enabled_value.
     and_then (member P values ''rotation_lambda_arn'' ''str'' (string_from_py P)) (\<lambda>rotation_lambda_arn_value.
     and_then (member P values ''rotation_rules'' ''dict (RotationRulesType)'' (rotation_rules_type_from_py P S)) (\<lambda>rotation_rules_value.
     and_then (member P values ''external_secret_rotation_metadata'' ''sequence'' (seq_from_py P ''dict (ExternalSecretRotationMetadataItem)'' (external_secret_rotation_metadata_item_from_py P S))) (\<lambda>external_secret_rotation_metadata_value.
     and_then (member P values ''external_secret_rotation_role_arn'' ''str'' (string_from_py P)) (\<lambda>external_secret_rotation_role_arn_value.
     and_then (member P values ''last_rotated_date'' ''ISO 8601 timestamp string'' (datetime_from_py P S)) (\<lambda>last_rotated_date_value.
     and_then (member P values ''last_changed_date'' ''ISO 8601 timestamp string'' (datetime_from_py P S)) (\<lambda>last_changed_date_value.
     and_then (member P values ''last_accessed_date'' ''ISO 8601 timestamp string'' (datetime_from_py P S)) (\<lambda>last_accessed_date_value.
     and_then (member P values ''deleted_date'' ''ISO 8601 timestamp string'' (datetime_from_py P S)) (\<lambda>deleted_date_value.
     and_then (member P values ''next_rotation_date'' ''ISO 8601 timestamp string'' (datetime_from_py P S)) (\<lambda>next_rotation_date_value.
     and_then (member P values ''tags'' ''sequence'' (seq_from_py P ''dict (Tag)'' (sec_tag_from_py P S))) (\<lambda>tags_value.
     and_then (member P values ''secret_versions_to_stages'' ''dict'' (map_from_py P ''str'' ''sequence'' (seq_from_py P ''str'' (string_from_py P)))) (\<lambda>secret_versions_to_stages_value.
     and_then (member P values ''owning_service'' ''str'' (string_from_py P)) (\<lambda>owning_service_value.
     and_then (member P values ''created_date'' ''ISO 8601 timestamp string'' (datetime_from_py P S)) (\<lambda>created_date_value.
     and_then (member P values ''primary_region'' ''str'' (string_from_py P)) (\<lambda>primary_region_value.
     Inr (build_secret_list_entry S arn_value name_value type_value description_value kms_key_id_value rotation_enabled_value rotation_lambda_arn_value rotation_rules_value external_secret_rotation_metadata_value external_secret_rotation_role_arn_value last_rotated_date_value last_changed_date_value last_accessed_date_value deleted_date_value next_rotation_date_value tags_value secret_versions_to_stages_value owning_service_value created_date_value primary_region_value))))))))))))))))))))))"

definition secret_list_entry_to_py :: "((string, pyval) fmap \<Rightarrow> (string \<times> pyval) list) \<Rightarrow> sec_types \<Rightarrow> secret_list_entry \<Rightarrow> pyval" where
  "secret_list_entry_to_py order S v = PyDict (py_dict
     [(''arn'', opt_to_py PyStr (zsle_arn v)),
      (''name'', opt_to_py PyStr (zsle_name v)),
      (''type'', opt_to_py PyStr (zsle_type v)),
      (''description'', opt_to_py PyStr (zsle_description v)),
      (''kms_key_id'', opt_to_py PyStr (zsle_kms_key_id v)),
      (''rotation_enabled'', opt_to_py PyBool (zsle_rotation_enabled v)),
      (''rotation_lambda_arn'', opt_to_py PyStr (zsle_rotation_lambda_arn v)),
      (''rotation_rules'', opt_to_py rotation_rules_type_to_py (zsle_rotation_rules v)),
      (''external_secret_rotation_metadata'', opt_to_py (seq_to_py external_secret_rotation_metadata_item_to_py) (zsle_external_secret_rotation_metadata v)),
      (''external_secret_rotation_role_arn'', opt_to_py PyStr (zsle_external_secret_rotation_role_arn v)),
      (''last_rotated_date'', opt_to_py (datetime_to_py S) (zsle_last_rotated_date v)),
      (''last_changed_date'', opt_to_py (datetime_to_py S) (zsle_last_changed_date v)),
      (''last_accessed_date'', opt_to_py (datetime_to_py S) (zsle_last_accessed_date v)),
      (''deleted_date'', opt_to_py (datetime_to_py S) (zsle_deleted_date v)),
      (''next_rotation_date'', opt_to_py (datetime_to_py S) (zsle_next_rotation_date v)),
      (''tags'', opt_to_py (seq_to_py sec_tag_to_py) (zsle_tags v)),
      (''secret_versions_to_stages'', opt_to_py (mapping_to_py order (seq_to_py PyStr)) (zsle_secret_versions_to_stages v)),
      (''owning_service'', opt_to_py PyStr (zsle_owning_service v)),
      (''created_date'', opt_to_py (datetime_to_py S) (zsle_created_date v)),
      (''primary_region'', opt_to_py PyStr (zsle_primary_region v))])"

definition secret_value_entry_from_py :: "pyo3 \<Rightarrow> sec_types \<Rightarrow> pyval \<Rightarrow> secret_value_entry pyresult" where
  "secret_value_entry_from_py P S value =
     and_then (cast_dict P value) (\<lambda>values.
     and_then (member P values ''arn'' ''str'' (string_from_py P)) (\<lambda>arn_value.
     and_then (member P values ''name'' ''str'' (string_from_py P)) (\<lambda>name_value.
     and_then (member P values ''version_id'' ''str'' (string_from_py P)) (\<lambda>version_id_value.
     and_then (member P values ''secret_binary'' ''bytes'' (blob_from_py P)) (\<lambda>secret_binary_value.
     and_then (member P values ''secret_string'' ''str'' (string_from_py P)) (\<lambda>secret_string_value.
     and_then (member P values ''version_stages'' ''sequence'' (seq_from_py P ''str'' (string_from_py P))) (\<lambda>version_stages_value.
     and_then (member P values ''created_date'' ''ISO 8601 timestamp string'' (datetime_from_py P S)) (\<lambda>created_date_value.
     Inr (build_secret_value_entry S arn_value name_value version_id_value secret_binary_value secret_string_value version_stages_value created_date_value)))))))))"

definition secret_value_entry_to_py :: "sec_types \<Rightarrow> secret_value_entry \<Rightarrow> pyval" where
  "secret_value_entry_to_py S v = PyDict (py_dict
     [(''arn'', opt_to_py PyStr (zsve_arn v)),
      (''name'', opt_to_py PyStr (zsve_name v)),
      (''version_id'', opt_to_py PyStr (zsve_version_id v)),
      (''secret_binary'', opt_to_py PyBytes (zsve_secret_binary v)),
      (''secret_string'', opt_to_py PyStr (zsve_secret_string v)),
      (''version_stages'', opt_to_py (seq_to_py PyStr) (zsve_version_stages v)),
      (''created_date'', opt_to_py (datetime_to_py S) (zsve_created_date v))])"

definition secret_versions_list_entry_from_py :: "pyo3 \<Rightarrow> sec_types \<Rightarrow> pyval \<Rightarrow> secret_versions_list_entry pyresult" where
  "secret_versions_list_entry_from_py P S value =
     and_then (cast_dict P value) (\<lambda>values.
     and_then (member P values ''version_id'' ''str'' (string_from_py P)) (\<lambda>version_id_value.
     and_then (member P values ''version_stages'' ''sequence'' (seq_from_py P ''str'' (string_from_py P))) (\<lambda>version_stages_value.
     and_then (member P values ''last_accessed_date'' ''ISO 8601 timestamp string'' (datetime_from_py P S)) (\<lambda>last_accessed_date_value.
     and_then (member P values ''created_date'' ''ISO 8601 timestamp string'' (datetime_from_py P S)) (\<lambda>created_date_value.
     and_then (member P values ''kms_key_ids'' ''sequence'' (seq_from_py P ''str'' (string_from_py P))) (\<lambda>kms_key_ids_value.
     Inr (build_secret_versions_list_entry S version_id_value version_stages_value last_accessed_date_value created_date_value kms_key_ids_value)))))))"

definition secret_versions_list_entry_to_py :: "sec_types \<Rightarrow> secret_versions_list_entry \<Rightarrow> pyval" where
  "secret_versions_list_entry_to_py S v = PyDict (py_dict
     [(''version_id'', opt_to_py PyStr (zsvle_version_id v)),
      (''version_stages'', opt_to_py (seq_to_py PyStr) (zsvle_version_stages v)),
      (''last_accessed_date'', opt_to_py (datetime_to_py S) (zsvle_last_accessed_date v)),
      (''created_date'', opt_to_py (datetime_to_py S) (zsvle_created_date v)),
      (''kms_key_ids'', opt_to_py (seq_to_py PyStr) (zsvle_kms_key_ids v))])"

definition validation_errors_entry_from_py :: "pyo3 \<Rightarrow> sec_types \<Rightarrow> pyval \<Rightarrow> validation_errors_entry pyresult" where
  "validation_errors_entry_from_py P S value =
     and_then (cast_dict P value) (\<lambda>values.
     and_then (member P values ''check_name'' ''str'' (string_from_py P)) (\<lambda>check_name_value.
     and_then (member P values ''error_message'' ''str'' (string_from_py P)) (\<lambda>error_message_value.
     Inr (build_validation_errors_entry S check_name_value error_message_value))))"

definition validation_errors_entry_to_py :: "validation_errors_entry \<Rightarrow> pyval" where
  "validation_errors_entry_to_py v = PyDict (py_dict
     [(''check_name'', opt_to_py PyStr (zvee_check_name v)),
      (''error_message'', opt_to_py PyStr (zvee_error_message v))])"

section \<open>Round trips\<close>

text \<open>What the builders document: a builder given every member the structure must have gives the
  structure with the members it was given, and one that lacks a required member fails.\<close>

locale sec_types_laws =
  fixes S :: sec_types
  assumes api_error_type_built: "build_api_error_type S zaet0 zaet1 zaet2 =
       \<lparr>zaet_secret_id = zaet0, zaet_error_code = zaet1, zaet_message = zaet2\<rparr>"
    and external_secret_rotation_metadata_item_built: "build_external_secret_rotation_metadata_item S zesrmi0 zesrmi1 =
       \<lparr>zesrmi_key = zesrmi0, zesrmi_value = zesrmi1\<rparr>"
    and filter_built: "build_filter S zf0 zf1 =
       \<lparr>zf_key = zf0, zf_values = zf1\<rparr>"
    and replica_region_type_built: "build_replica_region_type S zrrt0 zrrt1 =
       \<lparr>zrrt_region = zrrt0, zrrt_kms_key_id = zrrt1\<rparr>"
    and replication_status_type_built: "build_replication_status_type S zrst0 zrst1 zrst2 zrst3 zrst4 =
       \<lparr>zrst_region = zrst0, zrst_kms_key_id = zrst1, zrst_status = zrst2, zrst_status_message = zrst3, zrst_last_accessed_date = zrst4\<rparr>"
    and rotation_rules_type_built: "build_rotation_rules_type S zrrt20 zrrt21 zrrt22 =
       \<lparr>zrrt2_automatically_after_days = zrrt20, zrrt2_duration = zrrt21, zrrt2_schedule_expression = zrrt22\<rparr>"
    and sec_tag_built: "build_sec_tag S zt0 zt1 =
       \<lparr>zt_key = zt0, zt_value = zt1\<rparr>"
    and secret_list_entry_built: "build_secret_list_entry S zsle0 zsle1 zsle2 zsle3 zsle4 zsle5 zsle6 zsle7 zsle8 zsle9 zsle10 zsle11 zsle12 zsle13 zsle14 zsle15 zsle16 zsle17 zsle18 zsle19 =
       \<lparr>zsle_arn = zsle0, zsle_name = zsle1, zsle_type = zsle2, zsle_description = zsle3, zsle_kms_key_id = zsle4, zsle_rotation_enabled = zsle5, zsle_rotation_lambda_arn = zsle6, zsle_rotation_rules = zsle7, zsle_external_secret_rotation_metadata = zsle8, zsle_external_secret_rotation_role_arn = zsle9, zsle_last_rotated_date = zsle10, zsle_last_changed_date = zsle11, zsle_last_accessed_date = zsle12, zsle_deleted_date = zsle13, zsle_next_rotation_date = zsle14, zsle_tags = zsle15, zsle_secret_versions_to_stages = zsle16, zsle_owning_service = zsle17, zsle_created_date = zsle18, zsle_primary_region = zsle19\<rparr>"
    and secret_value_entry_built: "build_secret_value_entry S zsve0 zsve1 zsve2 zsve3 zsve4 zsve5 zsve6 =
       \<lparr>zsve_arn = zsve0, zsve_name = zsve1, zsve_version_id = zsve2, zsve_secret_binary = zsve3, zsve_secret_string = zsve4, zsve_version_stages = zsve5, zsve_created_date = zsve6\<rparr>"
    and secret_versions_list_entry_built: "build_secret_versions_list_entry S zsvle0 zsvle1 zsvle2 zsvle3 zsvle4 =
       \<lparr>zsvle_version_id = zsvle0, zsvle_version_stages = zsvle1, zsvle_last_accessed_date = zsvle2, zsvle_created_date = zsvle3, zsvle_kms_key_ids = zsvle4\<rparr>"
    and validation_errors_entry_built: "build_validation_errors_entry S zvee0 zvee1 =
       \<lparr>zvee_check_name = zvee0, zvee_error_message = zvee1\<rparr>"

text \<open>A concrete SDK.\<close>

definition sec_std :: sec_types where
  "sec_std =
     \<lparr>parse_datetime = (\<lambda>s. Inr (int (digits_value s), 0)),
      show_datetime = (\<lambda>d. show_nat (nat (fst d))),
      build_api_error_type = (\<lambda>a0 a1 a2. \<lparr>zaet_secret_id = a0, zaet_error_code = a1, zaet_message = a2\<rparr>),
      build_external_secret_rotation_metadata_item = (\<lambda>a0 a1. \<lparr>zesrmi_key = a0, zesrmi_value = a1\<rparr>),
      build_filter = (\<lambda>a0 a1. \<lparr>zf_key = a0, zf_values = a1\<rparr>),
      build_replica_region_type = (\<lambda>a0 a1. \<lparr>zrrt_region = a0, zrrt_kms_key_id = a1\<rparr>),
      build_replication_status_type = (\<lambda>a0 a1 a2 a3 a4. \<lparr>zrst_region = a0, zrst_kms_key_id = a1, zrst_status = a2, zrst_status_message = a3, zrst_last_accessed_date = a4\<rparr>),
      build_rotation_rules_type = (\<lambda>a0 a1 a2. \<lparr>zrrt2_automatically_after_days = a0, zrrt2_duration = a1, zrrt2_schedule_expression = a2\<rparr>),
      build_sec_tag = (\<lambda>a0 a1. \<lparr>zt_key = a0, zt_value = a1\<rparr>),
      build_secret_list_entry = (\<lambda>a0 a1 a2 a3 a4 a5 a6 a7 a8 a9 a10 a11 a12 a13 a14 a15 a16 a17 a18 a19. \<lparr>zsle_arn = a0, zsle_name = a1, zsle_type = a2, zsle_description = a3, zsle_kms_key_id = a4, zsle_rotation_enabled = a5, zsle_rotation_lambda_arn = a6, zsle_rotation_rules = a7, zsle_external_secret_rotation_metadata = a8, zsle_external_secret_rotation_role_arn = a9, zsle_last_rotated_date = a10, zsle_last_changed_date = a11, zsle_last_accessed_date = a12, zsle_deleted_date = a13, zsle_next_rotation_date = a14, zsle_tags = a15, zsle_secret_versions_to_stages = a16, zsle_owning_service = a17, zsle_created_date = a18, zsle_primary_region = a19\<rparr>),
      build_secret_value_entry = (\<lambda>a0 a1 a2 a3 a4 a5 a6. \<lparr>zsve_arn = a0, zsve_name = a1, zsve_version_id = a2, zsve_secret_binary = a3, zsve_secret_string = a4, zsve_version_stages = a5, zsve_created_date = a6\<rparr>),
      build_secret_versions_list_entry = (\<lambda>a0 a1 a2 a3 a4. \<lparr>zsvle_version_id = a0, zsvle_version_stages = a1, zsvle_last_accessed_date = a2, zsvle_created_date = a3, zsvle_kms_key_ids = a4\<rparr>),
      build_validation_errors_entry = (\<lambda>a0 a1. \<lparr>zvee_check_name = a0, zvee_error_message = a1\<rparr>)\<rparr>"

interpretation std_sec: sec_types_laws sec_std
  by unfold_locales (auto simp: sec_std_def unwrap_or_def)

locale sec_conversions = pyo3_laws P + sec_types_laws S for P S +
  fixes order :: "(string, pyval) fmap \<Rightarrow> (string \<times> pyval) list"
  assumes order: "iterates order"
begin

lemma api_error_type_reads: "reads (api_error_type_from_py P S) (api_error_type_to_py)"
proof (rule readsI)
  show "api_error_type_to_py v \<noteq> PyNone" for v
    by (simp add: api_error_type_to_py_def)
  show "api_error_type_from_py P S (api_error_type_to_py v) = Inr v" for v
    by (cases v) (simp add: api_error_type_from_py_def api_error_type_to_py_def dict_ok py_dict_distinct api_error_type_built
        member_reads [OF reads_str])
qed

lemma external_secret_rotation_metadata_item_reads: "reads (external_secret_rotation_metadata_item_from_py P S) (external_secret_rotation_metadata_item_to_py)"
proof (rule readsI)
  show "external_secret_rotation_metadata_item_to_py v \<noteq> PyNone" for v
    by (simp add: external_secret_rotation_metadata_item_to_py_def)
  show "external_secret_rotation_metadata_item_from_py P S (external_secret_rotation_metadata_item_to_py v) = Inr v" for v
    by (cases v) (simp add: external_secret_rotation_metadata_item_from_py_def external_secret_rotation_metadata_item_to_py_def dict_ok py_dict_distinct external_secret_rotation_metadata_item_built
        member_reads [OF reads_str])
qed

lemma filter_reads: "reads (filter_from_py P S) (filter_to_py)"
proof (rule readsI)
  show "filter_to_py v \<noteq> PyNone" for v
    by (simp add: filter_to_py_def)
  show "filter_from_py P S (filter_to_py v) = Inr v" for v
    by (cases v) (simp add: filter_from_py_def filter_to_py_def dict_ok py_dict_distinct filter_built
        member_reads [OF reads_enum]
        member_reads [OF reads_seq [OF reads_str]])
qed

lemma replica_region_type_reads: "reads (replica_region_type_from_py P S) (replica_region_type_to_py)"
proof (rule readsI)
  show "replica_region_type_to_py v \<noteq> PyNone" for v
    by (simp add: replica_region_type_to_py_def)
  show "replica_region_type_from_py P S (replica_region_type_to_py v) = Inr v" for v
    by (cases v) (simp add: replica_region_type_from_py_def replica_region_type_to_py_def dict_ok py_dict_distinct replica_region_type_built
        member_reads [OF reads_str])
qed

lemma rotation_rules_type_reads: "reads (rotation_rules_type_from_py P S) (rotation_rules_type_to_py)"
proof (rule readsI)
  show "rotation_rules_type_to_py v \<noteq> PyNone" for v
    by (simp add: rotation_rules_type_to_py_def)
  show "rotation_rules_type_from_py P S (rotation_rules_type_to_py v) = Inr v" for v
    by (cases v) (simp add: rotation_rules_type_from_py_def rotation_rules_type_to_py_def dict_ok py_dict_distinct rotation_rules_type_built
        member_reads [OF reads_i64]
        member_reads [OF reads_str])
qed

lemma sec_tag_reads: "reads (sec_tag_from_py P S) (sec_tag_to_py)"
proof (rule readsI)
  show "sec_tag_to_py v \<noteq> PyNone" for v
    by (simp add: sec_tag_to_py_def)
  show "sec_tag_from_py P S (sec_tag_to_py v) = Inr v" for v
    by (cases v) (simp add: sec_tag_from_py_def sec_tag_to_py_def dict_ok py_dict_distinct sec_tag_built
        member_reads [OF reads_str])
qed

lemma validation_errors_entry_reads: "reads (validation_errors_entry_from_py P S) (validation_errors_entry_to_py)"
proof (rule readsI)
  show "validation_errors_entry_to_py v \<noteq> PyNone" for v
    by (simp add: validation_errors_entry_to_py_def)
  show "validation_errors_entry_from_py P S (validation_errors_entry_to_py v) = Inr v" for v
    by (cases v) (simp add: validation_errors_entry_from_py_def validation_errors_entry_to_py_def dict_ok py_dict_distinct validation_errors_entry_built
        member_reads [OF reads_str])
qed

end

interpretation std_sec_conv: sec_conversions pyo3_std sec_std by_key
  by (intro sec_conversions.intro sec_conversions_axioms.intro std.pyo3_laws_axioms std_sec.sec_types_laws_axioms iterates_by_key)

end
