(* ===== verification/SecretsOutputs.thy ===== *)
theory SecretsOutputs
  imports SecretsTypes
begin

text \<open>
  The response objects of the Secrets Manager extension, from \<open>crates/rboto-secrets-manager/src/generated.rs\<close>: per class, the
  fields it holds, its getters in order, and \<open>to_dict\<close>. A getter of structures gives objects that
  share them (\<open>Arc::clone\<close>), one per structure of a list or mapping; every other getter gives a
  plain value, and an absent one is \<open>None\<close>. Integers whose width the code does not show are \<open>int\<close>.
\<close>

section \<open>Attributes\<close>

datatype sec_object =
    SecretsApiErrorType api_error_type
  | SecretsExternalSecretRotationMetadataItem external_secret_rotation_metadata_item
  | SecretsReplicationStatusType replication_status_type
  | SecretsRotationRulesType rotation_rules_type
  | SecretsSecretListEntry secret_list_entry
  | SecretsSecretValueEntry secret_value_entry
  | SecretsSecretVersionsListEntry secret_versions_list_entry
  | SecretsTag sec_tag
  | SecretsValidationErrorsEntry validation_errors_entry

datatype sec_attr =
    SecretsPlain pyval
  | SecretsObject sec_object
  | SecretsObjects "sec_object list"
  | SecretsObjectMap "(string, sec_object) fmap"

definition sec_opt_attr :: "('a \<Rightarrow> sec_attr) \<Rightarrow> 'a option \<Rightarrow> sec_attr" where
  "sec_opt_attr f v = (case v of None \<Rightarrow> SecretsPlain PyNone | Some x \<Rightarrow> f x)"

section \<open>\<open>ApiErrorType\<close>\<close>

definition api_error_type_attributes :: "((string, pyval) fmap \<Rightarrow> (string \<times> pyval) list) \<Rightarrow> sec_types \<Rightarrow> api_error_type \<Rightarrow> (string \<times> sec_attr) list" where
  "api_error_type_attributes order S v =
     [(''secret_id'', SecretsPlain (opt_to_py PyStr (zaet_secret_id v))),
      (''error_code'', SecretsPlain (opt_to_py PyStr (zaet_error_code v))),
      (''message'', SecretsPlain (opt_to_py PyStr (zaet_message v)))]"

definition api_error_type_to_dict :: "((string, pyval) fmap \<Rightarrow> (string \<times> pyval) list) \<Rightarrow> sec_types \<Rightarrow> api_error_type \<Rightarrow> pyval" where
  "api_error_type_to_dict order S v = api_error_type_to_py v"

section \<open>\<open>ExternalSecretRotationMetadataItem\<close>\<close>

definition external_secret_rotation_metadata_item_attributes :: "((string, pyval) fmap \<Rightarrow> (string \<times> pyval) list) \<Rightarrow> sec_types \<Rightarrow> external_secret_rotation_metadata_item \<Rightarrow> (string \<times> sec_attr) list" where
  "external_secret_rotation_metadata_item_attributes order S v =
     [(''key'', SecretsPlain (opt_to_py PyStr (zesrmi_key v))),
      (''value'', SecretsPlain (opt_to_py PyStr (zesrmi_value v)))]"

definition external_secret_rotation_metadata_item_to_dict :: "((string, pyval) fmap \<Rightarrow> (string \<times> pyval) list) \<Rightarrow> sec_types \<Rightarrow> external_secret_rotation_metadata_item \<Rightarrow> pyval" where
  "external_secret_rotation_metadata_item_to_dict order S v = external_secret_rotation_metadata_item_to_py v"

section \<open>\<open>ReplicationStatusType\<close>\<close>

definition replication_status_type_attributes :: "((string, pyval) fmap \<Rightarrow> (string \<times> pyval) list) \<Rightarrow> sec_types \<Rightarrow> replication_status_type \<Rightarrow> (string \<times> sec_attr) list" where
  "replication_status_type_attributes order S v =
     [(''region'', SecretsPlain (opt_to_py PyStr (zrst_region v))),
      (''kms_key_id'', SecretsPlain (opt_to_py PyStr (zrst_kms_key_id v))),
      (''status'', SecretsPlain (opt_to_py PyStr (zrst_status v))),
      (''status_message'', SecretsPlain (opt_to_py PyStr (zrst_status_message v))),
      (''last_accessed_date'', SecretsPlain (opt_to_py (datetime_to_py S) (zrst_last_accessed_date v)))]"

definition replication_status_type_to_dict :: "((string, pyval) fmap \<Rightarrow> (string \<times> pyval) list) \<Rightarrow> sec_types \<Rightarrow> replication_status_type \<Rightarrow> pyval" where
  "replication_status_type_to_dict order S v = replication_status_type_to_py S v"

section \<open>\<open>RotationRulesType\<close>\<close>

definition rotation_rules_type_attributes :: "((string, pyval) fmap \<Rightarrow> (string \<times> pyval) list) \<Rightarrow> sec_types \<Rightarrow> rotation_rules_type \<Rightarrow> (string \<times> sec_attr) list" where
  "rotation_rules_type_attributes order S v =
     [(''automatically_after_days'', SecretsPlain (opt_to_py i64_to_py (zrrt2_automatically_after_days v))),
      (''duration'', SecretsPlain (opt_to_py PyStr (zrrt2_duration v))),
      (''schedule_expression'', SecretsPlain (opt_to_py PyStr (zrrt2_schedule_expression v)))]"

definition rotation_rules_type_to_dict :: "((string, pyval) fmap \<Rightarrow> (string \<times> pyval) list) \<Rightarrow> sec_types \<Rightarrow> rotation_rules_type \<Rightarrow> pyval" where
  "rotation_rules_type_to_dict order S v = rotation_rules_type_to_py v"

section \<open>\<open>SecretListEntry\<close>\<close>

definition secret_list_entry_attributes :: "((string, pyval) fmap \<Rightarrow> (string \<times> pyval) list) \<Rightarrow> sec_types \<Rightarrow> secret_list_entry \<Rightarrow> (string \<times> sec_attr) list" where
  "secret_list_entry_attributes order S v =
     [(''arn'', SecretsPlain (opt_to_py PyStr (zsle_arn v))),
      (''name'', SecretsPlain (opt_to_py PyStr (zsle_name v))),
      (''type'', SecretsPlain (opt_to_py PyStr (zsle_type v))),
      (''description'', SecretsPlain (opt_to_py PyStr (zsle_description v))),
      (''kms_key_id'', SecretsPlain (opt_to_py PyStr (zsle_kms_key_id v))),
      (''rotation_enabled'', SecretsPlain (opt_to_py PyBool (zsle_rotation_enabled v))),
      (''rotation_lambda_arn'', SecretsPlain (opt_to_py PyStr (zsle_rotation_lambda_arn v))),
      (''rotation_rules'', sec_opt_attr (\<lambda>x. SecretsObject (SecretsRotationRulesType x)) (zsle_rotation_rules v)),
      (''external_secret_rotation_metadata'', sec_opt_attr (\<lambda>xs. SecretsObjects (map SecretsExternalSecretRotationMetadataItem xs)) (zsle_external_secret_rotation_metadata v)),
      (''external_secret_rotation_role_arn'', SecretsPlain (opt_to_py PyStr (zsle_external_secret_rotation_role_arn v))),
      (''last_rotated_date'', SecretsPlain (opt_to_py (datetime_to_py S) (zsle_last_rotated_date v))),
      (''last_changed_date'', SecretsPlain (opt_to_py (datetime_to_py S) (zsle_last_changed_date v))),
      (''last_accessed_date'', SecretsPlain (opt_to_py (datetime_to_py S) (zsle_last_accessed_date v))),
      (''deleted_date'', SecretsPlain (opt_to_py (datetime_to_py S) (zsle_deleted_date v))),
      (''next_rotation_date'', SecretsPlain (opt_to_py (datetime_to_py S) (zsle_next_rotation_date v))),
      (''tags'', sec_opt_attr (\<lambda>xs. SecretsObjects (map SecretsTag xs)) (zsle_tags v)),
      (''secret_versions_to_stages'', SecretsPlain (opt_to_py (mapping_to_py order (seq_to_py PyStr)) (zsle_secret_versions_to_stages v))),
      (''owning_service'', SecretsPlain (opt_to_py PyStr (zsle_owning_service v))),
      (''created_date'', SecretsPlain (opt_to_py (datetime_to_py S) (zsle_created_date v))),
      (''primary_region'', SecretsPlain (opt_to_py PyStr (zsle_primary_region v)))]"

definition secret_list_entry_to_dict :: "((string, pyval) fmap \<Rightarrow> (string \<times> pyval) list) \<Rightarrow> sec_types \<Rightarrow> secret_list_entry \<Rightarrow> pyval" where
  "secret_list_entry_to_dict order S v = secret_list_entry_to_py order S v"

section \<open>\<open>SecretValueEntry\<close>\<close>

definition secret_value_entry_attributes :: "((string, pyval) fmap \<Rightarrow> (string \<times> pyval) list) \<Rightarrow> sec_types \<Rightarrow> secret_value_entry \<Rightarrow> (string \<times> sec_attr) list" where
  "secret_value_entry_attributes order S v =
     [(''arn'', SecretsPlain (opt_to_py PyStr (zsve_arn v))),
      (''name'', SecretsPlain (opt_to_py PyStr (zsve_name v))),
      (''version_id'', SecretsPlain (opt_to_py PyStr (zsve_version_id v))),
      (''secret_binary'', SecretsPlain (opt_to_py PyBytes (zsve_secret_binary v))),
      (''secret_string'', SecretsPlain (opt_to_py PyStr (zsve_secret_string v))),
      (''version_stages'', SecretsPlain (opt_to_py (seq_to_py PyStr) (zsve_version_stages v))),
      (''created_date'', SecretsPlain (opt_to_py (datetime_to_py S) (zsve_created_date v)))]"

definition secret_value_entry_to_dict :: "((string, pyval) fmap \<Rightarrow> (string \<times> pyval) list) \<Rightarrow> sec_types \<Rightarrow> secret_value_entry \<Rightarrow> pyval" where
  "secret_value_entry_to_dict order S v = secret_value_entry_to_py S v"

section \<open>\<open>SecretVersionsListEntry\<close>\<close>

definition secret_versions_list_entry_attributes :: "((string, pyval) fmap \<Rightarrow> (string \<times> pyval) list) \<Rightarrow> sec_types \<Rightarrow> secret_versions_list_entry \<Rightarrow> (string \<times> sec_attr) list" where
  "secret_versions_list_entry_attributes order S v =
     [(''version_id'', SecretsPlain (opt_to_py PyStr (zsvle_version_id v))),
      (''version_stages'', SecretsPlain (opt_to_py (seq_to_py PyStr) (zsvle_version_stages v))),
      (''last_accessed_date'', SecretsPlain (opt_to_py (datetime_to_py S) (zsvle_last_accessed_date v))),
      (''created_date'', SecretsPlain (opt_to_py (datetime_to_py S) (zsvle_created_date v))),
      (''kms_key_ids'', SecretsPlain (opt_to_py (seq_to_py PyStr) (zsvle_kms_key_ids v)))]"

definition secret_versions_list_entry_to_dict :: "((string, pyval) fmap \<Rightarrow> (string \<times> pyval) list) \<Rightarrow> sec_types \<Rightarrow> secret_versions_list_entry \<Rightarrow> pyval" where
  "secret_versions_list_entry_to_dict order S v = secret_versions_list_entry_to_py S v"

section \<open>\<open>Tag\<close>\<close>

definition sec_tag_attributes :: "((string, pyval) fmap \<Rightarrow> (string \<times> pyval) list) \<Rightarrow> sec_types \<Rightarrow> sec_tag \<Rightarrow> (string \<times> sec_attr) list" where
  "sec_tag_attributes order S v =
     [(''key'', SecretsPlain (opt_to_py PyStr (zt_key v))),
      (''value'', SecretsPlain (opt_to_py PyStr (zt_value v)))]"

definition sec_tag_to_dict :: "((string, pyval) fmap \<Rightarrow> (string \<times> pyval) list) \<Rightarrow> sec_types \<Rightarrow> sec_tag \<Rightarrow> pyval" where
  "sec_tag_to_dict order S v = sec_tag_to_py v"

section \<open>\<open>ValidationErrorsEntry\<close>\<close>

definition validation_errors_entry_attributes :: "((string, pyval) fmap \<Rightarrow> (string \<times> pyval) list) \<Rightarrow> sec_types \<Rightarrow> validation_errors_entry \<Rightarrow> (string \<times> sec_attr) list" where
  "validation_errors_entry_attributes order S v =
     [(''check_name'', SecretsPlain (opt_to_py PyStr (zvee_check_name v))),
      (''error_message'', SecretsPlain (opt_to_py PyStr (zvee_error_message v)))]"

definition validation_errors_entry_to_dict :: "((string, pyval) fmap \<Rightarrow> (string \<times> pyval) list) \<Rightarrow> sec_types \<Rightarrow> validation_errors_entry \<Rightarrow> pyval" where
  "validation_errors_entry_to_dict order S v = validation_errors_entry_to_py v"

section \<open>\<open>BatchGetSecretValueOutput\<close>\<close>

record batch_get_secret_value_output =
  zbgsvo_secret_values :: "secret_value_entry list option"
  zbgsvo_next_token :: "string option"
  zbgsvo_errors :: "api_error_type list option"

definition batch_get_secret_value_output_attributes :: "((string, pyval) fmap \<Rightarrow> (string \<times> pyval) list) \<Rightarrow> sec_types \<Rightarrow> batch_get_secret_value_output \<Rightarrow> (string \<times> sec_attr) list" where
  "batch_get_secret_value_output_attributes order S v =
     [(''secret_values'', sec_opt_attr (\<lambda>xs. SecretsObjects (map SecretsSecretValueEntry xs)) (zbgsvo_secret_values v)),
      (''next_token'', SecretsPlain (opt_to_py PyStr (zbgsvo_next_token v))),
      (''errors'', sec_opt_attr (\<lambda>xs. SecretsObjects (map SecretsApiErrorType xs)) (zbgsvo_errors v))]"

definition batch_get_secret_value_output_to_dict :: "((string, pyval) fmap \<Rightarrow> (string \<times> pyval) list) \<Rightarrow> sec_types \<Rightarrow> batch_get_secret_value_output \<Rightarrow> pyval" where
  "batch_get_secret_value_output_to_dict order S v = PyDict (py_dict
     [(''secret_values'', opt_to_py (seq_to_py (secret_value_entry_to_py S)) (zbgsvo_secret_values v)),
      (''next_token'', opt_to_py PyStr (zbgsvo_next_token v)),
      (''errors'', opt_to_py (seq_to_py api_error_type_to_py) (zbgsvo_errors v))])"

section \<open>\<open>CancelRotateSecretOutput\<close>\<close>

record cancel_rotate_secret_output =
  zcrso_arn :: "string option"
  zcrso_name :: "string option"
  zcrso_version_id :: "string option"

definition cancel_rotate_secret_output_attributes :: "((string, pyval) fmap \<Rightarrow> (string \<times> pyval) list) \<Rightarrow> sec_types \<Rightarrow> cancel_rotate_secret_output \<Rightarrow> (string \<times> sec_attr) list" where
  "cancel_rotate_secret_output_attributes order S v =
     [(''arn'', SecretsPlain (opt_to_py PyStr (zcrso_arn v))),
      (''name'', SecretsPlain (opt_to_py PyStr (zcrso_name v))),
      (''version_id'', SecretsPlain (opt_to_py PyStr (zcrso_version_id v)))]"

definition cancel_rotate_secret_output_to_dict :: "((string, pyval) fmap \<Rightarrow> (string \<times> pyval) list) \<Rightarrow> sec_types \<Rightarrow> cancel_rotate_secret_output \<Rightarrow> pyval" where
  "cancel_rotate_secret_output_to_dict order S v = PyDict (py_dict
     [(''arn'', opt_to_py PyStr (zcrso_arn v)),
      (''name'', opt_to_py PyStr (zcrso_name v)),
      (''version_id'', opt_to_py PyStr (zcrso_version_id v))])"

section \<open>\<open>CreateSecretOutput\<close>\<close>

record create_secret_output =
  zcso_arn :: "string option"
  zcso_name :: "string option"
  zcso_version_id :: "string option"
  zcso_replication_status :: "replication_status_type list option"

definition create_secret_output_attributes :: "((string, pyval) fmap \<Rightarrow> (string \<times> pyval) list) \<Rightarrow> sec_types \<Rightarrow> create_secret_output \<Rightarrow> (string \<times> sec_attr) list" where
  "create_secret_output_attributes order S v =
     [(''arn'', SecretsPlain (opt_to_py PyStr (zcso_arn v))),
      (''name'', SecretsPlain (opt_to_py PyStr (zcso_name v))),
      (''version_id'', SecretsPlain (opt_to_py PyStr (zcso_version_id v))),
      (''replication_status'', sec_opt_attr (\<lambda>xs. SecretsObjects (map SecretsReplicationStatusType xs)) (zcso_replication_status v))]"

definition create_secret_output_to_dict :: "((string, pyval) fmap \<Rightarrow> (string \<times> pyval) list) \<Rightarrow> sec_types \<Rightarrow> create_secret_output \<Rightarrow> pyval" where
  "create_secret_output_to_dict order S v = PyDict (py_dict
     [(''arn'', opt_to_py PyStr (zcso_arn v)),
      (''name'', opt_to_py PyStr (zcso_name v)),
      (''version_id'', opt_to_py PyStr (zcso_version_id v)),
      (''replication_status'', opt_to_py (seq_to_py (replication_status_type_to_py S)) (zcso_replication_status v))])"

section \<open>\<open>DeleteResourcePolicyOutput\<close>\<close>

record delete_resource_policy_output =
  zdrpo_arn :: "string option"
  zdrpo_name :: "string option"

definition delete_resource_policy_output_attributes :: "((string, pyval) fmap \<Rightarrow> (string \<times> pyval) list) \<Rightarrow> sec_types \<Rightarrow> delete_resource_policy_output \<Rightarrow> (string \<times> sec_attr) list" where
  "delete_resource_policy_output_attributes order S v =
     [(''arn'', SecretsPlain (opt_to_py PyStr (zdrpo_arn v))),
      (''name'', SecretsPlain (opt_to_py PyStr (zdrpo_name v)))]"

definition delete_resource_policy_output_to_dict :: "((string, pyval) fmap \<Rightarrow> (string \<times> pyval) list) \<Rightarrow> sec_types \<Rightarrow> delete_resource_policy_output \<Rightarrow> pyval" where
  "delete_resource_policy_output_to_dict order S v = PyDict (py_dict
     [(''arn'', opt_to_py PyStr (zdrpo_arn v)),
      (''name'', opt_to_py PyStr (zdrpo_name v))])"

section \<open>\<open>DeleteSecretOutput\<close>\<close>

record delete_secret_output =
  zdso_arn :: "string option"
  zdso_name :: "string option"
  zdso_deletion_date :: "datetime option"

definition delete_secret_output_attributes :: "((string, pyval) fmap \<Rightarrow> (string \<times> pyval) list) \<Rightarrow> sec_types \<Rightarrow> delete_secret_output \<Rightarrow> (string \<times> sec_attr) list" where
  "delete_secret_output_attributes order S v =
     [(''arn'', SecretsPlain (opt_to_py PyStr (zdso_arn v))),
      (''name'', SecretsPlain (opt_to_py PyStr (zdso_name v))),
      (''deletion_date'', SecretsPlain (opt_to_py (datetime_to_py S) (zdso_deletion_date v)))]"

definition delete_secret_output_to_dict :: "((string, pyval) fmap \<Rightarrow> (string \<times> pyval) list) \<Rightarrow> sec_types \<Rightarrow> delete_secret_output \<Rightarrow> pyval" where
  "delete_secret_output_to_dict order S v = PyDict (py_dict
     [(''arn'', opt_to_py PyStr (zdso_arn v)),
      (''name'', opt_to_py PyStr (zdso_name v)),
      (''deletion_date'', opt_to_py (datetime_to_py S) (zdso_deletion_date v))])"

section \<open>\<open>DescribeSecretOutput\<close>\<close>

record describe_secret_output =
  zdso2_arn :: "string option"
  zdso2_name :: "string option"
  zdso2_type :: "string option"
  zdso2_description :: "string option"
  zdso2_kms_key_id :: "string option"
  zdso2_rotation_enabled :: "bool option"
  zdso2_rotation_lambda_arn :: "string option"
  zdso2_rotation_rules :: "rotation_rules_type option"
  zdso2_external_secret_rotation_metadata :: "external_secret_rotation_metadata_item list option"
  zdso2_external_secret_rotation_role_arn :: "string option"
  zdso2_last_rotated_date :: "datetime option"
  zdso2_last_changed_date :: "datetime option"
  zdso2_last_accessed_date :: "datetime option"
  zdso2_deleted_date :: "datetime option"
  zdso2_next_rotation_date :: "datetime option"
  zdso2_tags :: "sec_tag list option"
  zdso2_version_ids_to_stages :: "(string, string list) fmap option"
  zdso2_owning_service :: "string option"
  zdso2_created_date :: "datetime option"
  zdso2_primary_region :: "string option"
  zdso2_replication_status :: "replication_status_type list option"

definition describe_secret_output_attributes :: "((string, pyval) fmap \<Rightarrow> (string \<times> pyval) list) \<Rightarrow> sec_types \<Rightarrow> describe_secret_output \<Rightarrow> (string \<times> sec_attr) list" where
  "describe_secret_output_attributes order S v =
     [(''arn'', SecretsPlain (opt_to_py PyStr (zdso2_arn v))),
      (''name'', SecretsPlain (opt_to_py PyStr (zdso2_name v))),
      (''type'', SecretsPlain (opt_to_py PyStr (zdso2_type v))),
      (''description'', SecretsPlain (opt_to_py PyStr (zdso2_description v))),
      (''kms_key_id'', SecretsPlain (opt_to_py PyStr (zdso2_kms_key_id v))),
      (''rotation_enabled'', SecretsPlain (opt_to_py PyBool (zdso2_rotation_enabled v))),
      (''rotation_lambda_arn'', SecretsPlain (opt_to_py PyStr (zdso2_rotation_lambda_arn v))),
      (''rotation_rules'', sec_opt_attr (\<lambda>x. SecretsObject (SecretsRotationRulesType x)) (zdso2_rotation_rules v)),
      (''external_secret_rotation_metadata'', sec_opt_attr (\<lambda>xs. SecretsObjects (map SecretsExternalSecretRotationMetadataItem xs)) (zdso2_external_secret_rotation_metadata v)),
      (''external_secret_rotation_role_arn'', SecretsPlain (opt_to_py PyStr (zdso2_external_secret_rotation_role_arn v))),
      (''last_rotated_date'', SecretsPlain (opt_to_py (datetime_to_py S) (zdso2_last_rotated_date v))),
      (''last_changed_date'', SecretsPlain (opt_to_py (datetime_to_py S) (zdso2_last_changed_date v))),
      (''last_accessed_date'', SecretsPlain (opt_to_py (datetime_to_py S) (zdso2_last_accessed_date v))),
      (''deleted_date'', SecretsPlain (opt_to_py (datetime_to_py S) (zdso2_deleted_date v))),
      (''next_rotation_date'', SecretsPlain (opt_to_py (datetime_to_py S) (zdso2_next_rotation_date v))),
      (''tags'', sec_opt_attr (\<lambda>xs. SecretsObjects (map SecretsTag xs)) (zdso2_tags v)),
      (''version_ids_to_stages'', SecretsPlain (opt_to_py (mapping_to_py order (seq_to_py PyStr)) (zdso2_version_ids_to_stages v))),
      (''owning_service'', SecretsPlain (opt_to_py PyStr (zdso2_owning_service v))),
      (''created_date'', SecretsPlain (opt_to_py (datetime_to_py S) (zdso2_created_date v))),
      (''primary_region'', SecretsPlain (opt_to_py PyStr (zdso2_primary_region v))),
      (''replication_status'', sec_opt_attr (\<lambda>xs. SecretsObjects (map SecretsReplicationStatusType xs)) (zdso2_replication_status v))]"

definition describe_secret_output_to_dict :: "((string, pyval) fmap \<Rightarrow> (string \<times> pyval) list) \<Rightarrow> sec_types \<Rightarrow> describe_secret_output \<Rightarrow> pyval" where
  "describe_secret_output_to_dict order S v = PyDict (py_dict
     [(''arn'', opt_to_py PyStr (zdso2_arn v)),
      (''name'', opt_to_py PyStr (zdso2_name v)),
      (''type'', opt_to_py PyStr (zdso2_type v)),
      (''description'', opt_to_py PyStr (zdso2_description v)),
      (''kms_key_id'', opt_to_py PyStr (zdso2_kms_key_id v)),
      (''rotation_enabled'', opt_to_py PyBool (zdso2_rotation_enabled v)),
      (''rotation_lambda_arn'', opt_to_py PyStr (zdso2_rotation_lambda_arn v)),
      (''rotation_rules'', opt_to_py rotation_rules_type_to_py (zdso2_rotation_rules v)),
      (''external_secret_rotation_metadata'', opt_to_py (seq_to_py external_secret_rotation_metadata_item_to_py) (zdso2_external_secret_rotation_metadata v)),
      (''external_secret_rotation_role_arn'', opt_to_py PyStr (zdso2_external_secret_rotation_role_arn v)),
      (''last_rotated_date'', opt_to_py (datetime_to_py S) (zdso2_last_rotated_date v)),
      (''last_changed_date'', opt_to_py (datetime_to_py S) (zdso2_last_changed_date v)),
      (''last_accessed_date'', opt_to_py (datetime_to_py S) (zdso2_last_accessed_date v)),
      (''deleted_date'', opt_to_py (datetime_to_py S) (zdso2_deleted_date v)),
      (''next_rotation_date'', opt_to_py (datetime_to_py S) (zdso2_next_rotation_date v)),
      (''tags'', opt_to_py (seq_to_py sec_tag_to_py) (zdso2_tags v)),
      (''version_ids_to_stages'', opt_to_py (mapping_to_py order (seq_to_py PyStr)) (zdso2_version_ids_to_stages v)),
      (''owning_service'', opt_to_py PyStr (zdso2_owning_service v)),
      (''created_date'', opt_to_py (datetime_to_py S) (zdso2_created_date v)),
      (''primary_region'', opt_to_py PyStr (zdso2_primary_region v)),
      (''replication_status'', opt_to_py (seq_to_py (replication_status_type_to_py S)) (zdso2_replication_status v))])"

section \<open>\<open>GetRandomPasswordOutput\<close>\<close>

record get_random_password_output =
  zgrpo_random_password :: "string option"

definition get_random_password_output_attributes :: "((string, pyval) fmap \<Rightarrow> (string \<times> pyval) list) \<Rightarrow> sec_types \<Rightarrow> get_random_password_output \<Rightarrow> (string \<times> sec_attr) list" where
  "get_random_password_output_attributes order S v =
     [(''random_password'', SecretsPlain (opt_to_py PyStr (zgrpo_random_password v)))]"

definition get_random_password_output_to_dict :: "((string, pyval) fmap \<Rightarrow> (string \<times> pyval) list) \<Rightarrow> sec_types \<Rightarrow> get_random_password_output \<Rightarrow> pyval" where
  "get_random_password_output_to_dict order S v = PyDict (py_dict
     [(''random_password'', opt_to_py PyStr (zgrpo_random_password v))])"

section \<open>\<open>GetResourcePolicyOutput\<close>\<close>

record get_resource_policy_output =
  zgrpo2_arn :: "string option"
  zgrpo2_name :: "string option"
  zgrpo2_resource_policy :: "string option"

definition get_resource_policy_output_attributes :: "((string, pyval) fmap \<Rightarrow> (string \<times> pyval) list) \<Rightarrow> sec_types \<Rightarrow> get_resource_policy_output \<Rightarrow> (string \<times> sec_attr) list" where
  "get_resource_policy_output_attributes order S v =
     [(''arn'', SecretsPlain (opt_to_py PyStr (zgrpo2_arn v))),
      (''name'', SecretsPlain (opt_to_py PyStr (zgrpo2_name v))),
      (''resource_policy'', SecretsPlain (opt_to_py PyStr (zgrpo2_resource_policy v)))]"

definition get_resource_policy_output_to_dict :: "((string, pyval) fmap \<Rightarrow> (string \<times> pyval) list) \<Rightarrow> sec_types \<Rightarrow> get_resource_policy_output \<Rightarrow> pyval" where
  "get_resource_policy_output_to_dict order S v = PyDict (py_dict
     [(''arn'', opt_to_py PyStr (zgrpo2_arn v)),
      (''name'', opt_to_py PyStr (zgrpo2_name v)),
      (''resource_policy'', opt_to_py PyStr (zgrpo2_resource_policy v))])"

section \<open>\<open>GetSecretValueOutput\<close>\<close>

record get_secret_value_output =
  zgsvo_arn :: "string option"
  zgsvo_name :: "string option"
  zgsvo_version_id :: "string option"
  zgsvo_secret_binary :: "byte list option"
  zgsvo_secret_string :: "string option"
  zgsvo_version_stages :: "string list option"
  zgsvo_created_date :: "datetime option"

definition get_secret_value_output_attributes :: "((string, pyval) fmap \<Rightarrow> (string \<times> pyval) list) \<Rightarrow> sec_types \<Rightarrow> get_secret_value_output \<Rightarrow> (string \<times> sec_attr) list" where
  "get_secret_value_output_attributes order S v =
     [(''arn'', SecretsPlain (opt_to_py PyStr (zgsvo_arn v))),
      (''name'', SecretsPlain (opt_to_py PyStr (zgsvo_name v))),
      (''version_id'', SecretsPlain (opt_to_py PyStr (zgsvo_version_id v))),
      (''secret_binary'', SecretsPlain (opt_to_py PyBytes (zgsvo_secret_binary v))),
      (''secret_string'', SecretsPlain (opt_to_py PyStr (zgsvo_secret_string v))),
      (''version_stages'', SecretsPlain (opt_to_py (seq_to_py PyStr) (zgsvo_version_stages v))),
      (''created_date'', SecretsPlain (opt_to_py (datetime_to_py S) (zgsvo_created_date v)))]"

definition get_secret_value_output_to_dict :: "((string, pyval) fmap \<Rightarrow> (string \<times> pyval) list) \<Rightarrow> sec_types \<Rightarrow> get_secret_value_output \<Rightarrow> pyval" where
  "get_secret_value_output_to_dict order S v = PyDict (py_dict
     [(''arn'', opt_to_py PyStr (zgsvo_arn v)),
      (''name'', opt_to_py PyStr (zgsvo_name v)),
      (''version_id'', opt_to_py PyStr (zgsvo_version_id v)),
      (''secret_binary'', opt_to_py PyBytes (zgsvo_secret_binary v)),
      (''secret_string'', opt_to_py PyStr (zgsvo_secret_string v)),
      (''version_stages'', opt_to_py (seq_to_py PyStr) (zgsvo_version_stages v)),
      (''created_date'', opt_to_py (datetime_to_py S) (zgsvo_created_date v))])"

section \<open>\<open>ListSecretVersionIdsOutput\<close>\<close>

record list_secret_version_ids_output =
  zlsvio_versions :: "secret_versions_list_entry list option"
  zlsvio_next_token :: "string option"
  zlsvio_arn :: "string option"
  zlsvio_name :: "string option"

definition list_secret_version_ids_output_attributes :: "((string, pyval) fmap \<Rightarrow> (string \<times> pyval) list) \<Rightarrow> sec_types \<Rightarrow> list_secret_version_ids_output \<Rightarrow> (string \<times> sec_attr) list" where
  "list_secret_version_ids_output_attributes order S v =
     [(''versions'', sec_opt_attr (\<lambda>xs. SecretsObjects (map SecretsSecretVersionsListEntry xs)) (zlsvio_versions v)),
      (''next_token'', SecretsPlain (opt_to_py PyStr (zlsvio_next_token v))),
      (''arn'', SecretsPlain (opt_to_py PyStr (zlsvio_arn v))),
      (''name'', SecretsPlain (opt_to_py PyStr (zlsvio_name v)))]"

definition list_secret_version_ids_output_to_dict :: "((string, pyval) fmap \<Rightarrow> (string \<times> pyval) list) \<Rightarrow> sec_types \<Rightarrow> list_secret_version_ids_output \<Rightarrow> pyval" where
  "list_secret_version_ids_output_to_dict order S v = PyDict (py_dict
     [(''versions'', opt_to_py (seq_to_py (secret_versions_list_entry_to_py S)) (zlsvio_versions v)),
      (''next_token'', opt_to_py PyStr (zlsvio_next_token v)),
      (''arn'', opt_to_py PyStr (zlsvio_arn v)),
      (''name'', opt_to_py PyStr (zlsvio_name v))])"

section \<open>\<open>ListSecretsOutput\<close>\<close>

record list_secrets_output =
  zlso_secret_list :: "secret_list_entry list option"
  zlso_next_token :: "string option"

definition list_secrets_output_attributes :: "((string, pyval) fmap \<Rightarrow> (string \<times> pyval) list) \<Rightarrow> sec_types \<Rightarrow> list_secrets_output \<Rightarrow> (string \<times> sec_attr) list" where
  "list_secrets_output_attributes order S v =
     [(''secret_list'', sec_opt_attr (\<lambda>xs. SecretsObjects (map SecretsSecretListEntry xs)) (zlso_secret_list v)),
      (''next_token'', SecretsPlain (opt_to_py PyStr (zlso_next_token v)))]"

definition list_secrets_output_to_dict :: "((string, pyval) fmap \<Rightarrow> (string \<times> pyval) list) \<Rightarrow> sec_types \<Rightarrow> list_secrets_output \<Rightarrow> pyval" where
  "list_secrets_output_to_dict order S v = PyDict (py_dict
     [(''secret_list'', opt_to_py (seq_to_py (secret_list_entry_to_py order S)) (zlso_secret_list v)),
      (''next_token'', opt_to_py PyStr (zlso_next_token v))])"

section \<open>\<open>PutResourcePolicyOutput\<close>\<close>

record put_resource_policy_output =
  zprpo_arn :: "string option"
  zprpo_name :: "string option"

definition put_resource_policy_output_attributes :: "((string, pyval) fmap \<Rightarrow> (string \<times> pyval) list) \<Rightarrow> sec_types \<Rightarrow> put_resource_policy_output \<Rightarrow> (string \<times> sec_attr) list" where
  "put_resource_policy_output_attributes order S v =
     [(''arn'', SecretsPlain (opt_to_py PyStr (zprpo_arn v))),
      (''name'', SecretsPlain (opt_to_py PyStr (zprpo_name v)))]"

definition put_resource_policy_output_to_dict :: "((string, pyval) fmap \<Rightarrow> (string \<times> pyval) list) \<Rightarrow> sec_types \<Rightarrow> put_resource_policy_output \<Rightarrow> pyval" where
  "put_resource_policy_output_to_dict order S v = PyDict (py_dict
     [(''arn'', opt_to_py PyStr (zprpo_arn v)),
      (''name'', opt_to_py PyStr (zprpo_name v))])"

section \<open>\<open>PutSecretValueOutput\<close>\<close>

record put_secret_value_output =
  zpsvo_arn :: "string option"
  zpsvo_name :: "string option"
  zpsvo_version_id :: "string option"
  zpsvo_version_stages :: "string list option"

definition put_secret_value_output_attributes :: "((string, pyval) fmap \<Rightarrow> (string \<times> pyval) list) \<Rightarrow> sec_types \<Rightarrow> put_secret_value_output \<Rightarrow> (string \<times> sec_attr) list" where
  "put_secret_value_output_attributes order S v =
     [(''arn'', SecretsPlain (opt_to_py PyStr (zpsvo_arn v))),
      (''name'', SecretsPlain (opt_to_py PyStr (zpsvo_name v))),
      (''version_id'', SecretsPlain (opt_to_py PyStr (zpsvo_version_id v))),
      (''version_stages'', SecretsPlain (opt_to_py (seq_to_py PyStr) (zpsvo_version_stages v)))]"

definition put_secret_value_output_to_dict :: "((string, pyval) fmap \<Rightarrow> (string \<times> pyval) list) \<Rightarrow> sec_types \<Rightarrow> put_secret_value_output \<Rightarrow> pyval" where
  "put_secret_value_output_to_dict order S v = PyDict (py_dict
     [(''arn'', opt_to_py PyStr (zpsvo_arn v)),
      (''name'', opt_to_py PyStr (zpsvo_name v)),
      (''version_id'', opt_to_py PyStr (zpsvo_version_id v)),
      (''version_stages'', opt_to_py (seq_to_py PyStr) (zpsvo_version_stages v))])"

section \<open>\<open>RemoveRegionsFromReplicationOutput\<close>\<close>

record remove_regions_from_replication_output =
  zrrfro_arn :: "string option"
  zrrfro_replication_status :: "replication_status_type list option"

definition remove_regions_from_replication_output_attributes :: "((string, pyval) fmap \<Rightarrow> (string \<times> pyval) list) \<Rightarrow> sec_types \<Rightarrow> remove_regions_from_replication_output \<Rightarrow> (string \<times> sec_attr) list" where
  "remove_regions_from_replication_output_attributes order S v =
     [(''arn'', SecretsPlain (opt_to_py PyStr (zrrfro_arn v))),
      (''replication_status'', sec_opt_attr (\<lambda>xs. SecretsObjects (map SecretsReplicationStatusType xs)) (zrrfro_replication_status v))]"

definition remove_regions_from_replication_output_to_dict :: "((string, pyval) fmap \<Rightarrow> (string \<times> pyval) list) \<Rightarrow> sec_types \<Rightarrow> remove_regions_from_replication_output \<Rightarrow> pyval" where
  "remove_regions_from_replication_output_to_dict order S v = PyDict (py_dict
     [(''arn'', opt_to_py PyStr (zrrfro_arn v)),
      (''replication_status'', opt_to_py (seq_to_py (replication_status_type_to_py S)) (zrrfro_replication_status v))])"

section \<open>\<open>ReplicateSecretToRegionsOutput\<close>\<close>

record replicate_secret_to_regions_output =
  zrstro_arn :: "string option"
  zrstro_replication_status :: "replication_status_type list option"

definition replicate_secret_to_regions_output_attributes :: "((string, pyval) fmap \<Rightarrow> (string \<times> pyval) list) \<Rightarrow> sec_types \<Rightarrow> replicate_secret_to_regions_output \<Rightarrow> (string \<times> sec_attr) list" where
  "replicate_secret_to_regions_output_attributes order S v =
     [(''arn'', SecretsPlain (opt_to_py PyStr (zrstro_arn v))),
      (''replication_status'', sec_opt_attr (\<lambda>xs. SecretsObjects (map SecretsReplicationStatusType xs)) (zrstro_replication_status v))]"

definition replicate_secret_to_regions_output_to_dict :: "((string, pyval) fmap \<Rightarrow> (string \<times> pyval) list) \<Rightarrow> sec_types \<Rightarrow> replicate_secret_to_regions_output \<Rightarrow> pyval" where
  "replicate_secret_to_regions_output_to_dict order S v = PyDict (py_dict
     [(''arn'', opt_to_py PyStr (zrstro_arn v)),
      (''replication_status'', opt_to_py (seq_to_py (replication_status_type_to_py S)) (zrstro_replication_status v))])"

section \<open>\<open>RestoreSecretOutput\<close>\<close>

record restore_secret_output =
  zrso_arn :: "string option"
  zrso_name :: "string option"

definition restore_secret_output_attributes :: "((string, pyval) fmap \<Rightarrow> (string \<times> pyval) list) \<Rightarrow> sec_types \<Rightarrow> restore_secret_output \<Rightarrow> (string \<times> sec_attr) list" where
  "restore_secret_output_attributes order S v =
     [(''arn'', SecretsPlain (opt_to_py PyStr (zrso_arn v))),
      (''name'', SecretsPlain (opt_to_py PyStr (zrso_name v)))]"

definition restore_secret_output_to_dict :: "((string, pyval) fmap \<Rightarrow> (string \<times> pyval) list) \<Rightarrow> sec_types \<Rightarrow> restore_secret_output \<Rightarrow> pyval" where
  "restore_secret_output_to_dict order S v = PyDict (py_dict
     [(''arn'', opt_to_py PyStr (zrso_arn v)),
      (''name'', opt_to_py PyStr (zrso_name v))])"

section \<open>\<open>RotateSecretOutput\<close>\<close>

record rotate_secret_output =
  zrso2_arn :: "string option"
  zrso2_name :: "string option"
  zrso2_version_id :: "string option"

definition rotate_secret_output_attributes :: "((string, pyval) fmap \<Rightarrow> (string \<times> pyval) list) \<Rightarrow> sec_types \<Rightarrow> rotate_secret_output \<Rightarrow> (string \<times> sec_attr) list" where
  "rotate_secret_output_attributes order S v =
     [(''arn'', SecretsPlain (opt_to_py PyStr (zrso2_arn v))),
      (''name'', SecretsPlain (opt_to_py PyStr (zrso2_name v))),
      (''version_id'', SecretsPlain (opt_to_py PyStr (zrso2_version_id v)))]"

definition rotate_secret_output_to_dict :: "((string, pyval) fmap \<Rightarrow> (string \<times> pyval) list) \<Rightarrow> sec_types \<Rightarrow> rotate_secret_output \<Rightarrow> pyval" where
  "rotate_secret_output_to_dict order S v = PyDict (py_dict
     [(''arn'', opt_to_py PyStr (zrso2_arn v)),
      (''name'', opt_to_py PyStr (zrso2_name v)),
      (''version_id'', opt_to_py PyStr (zrso2_version_id v))])"

section \<open>\<open>StopReplicationToReplicaOutput\<close>\<close>

record stop_replication_to_replica_output =
  zsrtro_arn :: "string option"

definition stop_replication_to_replica_output_attributes :: "((string, pyval) fmap \<Rightarrow> (string \<times> pyval) list) \<Rightarrow> sec_types \<Rightarrow> stop_replication_to_replica_output \<Rightarrow> (string \<times> sec_attr) list" where
  "stop_replication_to_replica_output_attributes order S v =
     [(''arn'', SecretsPlain (opt_to_py PyStr (zsrtro_arn v)))]"

definition stop_replication_to_replica_output_to_dict :: "((string, pyval) fmap \<Rightarrow> (string \<times> pyval) list) \<Rightarrow> sec_types \<Rightarrow> stop_replication_to_replica_output \<Rightarrow> pyval" where
  "stop_replication_to_replica_output_to_dict order S v = PyDict (py_dict
     [(''arn'', opt_to_py PyStr (zsrtro_arn v))])"

section \<open>\<open>UpdateSecretOutput\<close>\<close>

record update_secret_output =
  zuso_arn :: "string option"
  zuso_name :: "string option"
  zuso_version_id :: "string option"

definition update_secret_output_attributes :: "((string, pyval) fmap \<Rightarrow> (string \<times> pyval) list) \<Rightarrow> sec_types \<Rightarrow> update_secret_output \<Rightarrow> (string \<times> sec_attr) list" where
  "update_secret_output_attributes order S v =
     [(''arn'', SecretsPlain (opt_to_py PyStr (zuso_arn v))),
      (''name'', SecretsPlain (opt_to_py PyStr (zuso_name v))),
      (''version_id'', SecretsPlain (opt_to_py PyStr (zuso_version_id v)))]"

definition update_secret_output_to_dict :: "((string, pyval) fmap \<Rightarrow> (string \<times> pyval) list) \<Rightarrow> sec_types \<Rightarrow> update_secret_output \<Rightarrow> pyval" where
  "update_secret_output_to_dict order S v = PyDict (py_dict
     [(''arn'', opt_to_py PyStr (zuso_arn v)),
      (''name'', opt_to_py PyStr (zuso_name v)),
      (''version_id'', opt_to_py PyStr (zuso_version_id v))])"

section \<open>\<open>UpdateSecretVersionStageOutput\<close>\<close>

record update_secret_version_stage_output =
  zusvso_arn :: "string option"
  zusvso_name :: "string option"

definition update_secret_version_stage_output_attributes :: "((string, pyval) fmap \<Rightarrow> (string \<times> pyval) list) \<Rightarrow> sec_types \<Rightarrow> update_secret_version_stage_output \<Rightarrow> (string \<times> sec_attr) list" where
  "update_secret_version_stage_output_attributes order S v =
     [(''arn'', SecretsPlain (opt_to_py PyStr (zusvso_arn v))),
      (''name'', SecretsPlain (opt_to_py PyStr (zusvso_name v)))]"

definition update_secret_version_stage_output_to_dict :: "((string, pyval) fmap \<Rightarrow> (string \<times> pyval) list) \<Rightarrow> sec_types \<Rightarrow> update_secret_version_stage_output \<Rightarrow> pyval" where
  "update_secret_version_stage_output_to_dict order S v = PyDict (py_dict
     [(''arn'', opt_to_py PyStr (zusvso_arn v)),
      (''name'', opt_to_py PyStr (zusvso_name v))])"

section \<open>\<open>ValidateResourcePolicyOutput\<close>\<close>

record validate_resource_policy_output =
  zvrpo_policy_validation_passed :: bool
  zvrpo_validation_errors :: "validation_errors_entry list option"

definition validate_resource_policy_output_attributes :: "((string, pyval) fmap \<Rightarrow> (string \<times> pyval) list) \<Rightarrow> sec_types \<Rightarrow> validate_resource_policy_output \<Rightarrow> (string \<times> sec_attr) list" where
  "validate_resource_policy_output_attributes order S v =
     [(''policy_validation_passed'', SecretsPlain (PyBool (zvrpo_policy_validation_passed v))),
      (''validation_errors'', sec_opt_attr (\<lambda>xs. SecretsObjects (map SecretsValidationErrorsEntry xs)) (zvrpo_validation_errors v))]"

definition validate_resource_policy_output_to_dict :: "((string, pyval) fmap \<Rightarrow> (string \<times> pyval) list) \<Rightarrow> sec_types \<Rightarrow> validate_resource_policy_output \<Rightarrow> pyval" where
  "validate_resource_policy_output_to_dict order S v = PyDict (py_dict
     [(''policy_validation_passed'', PyBool (zvrpo_policy_validation_passed v)),
      (''validation_errors'', opt_to_py (seq_to_py validation_errors_entry_to_py) (zvrpo_validation_errors v))])"

section \<open>Dictionaries and attributes agree\<close>

text \<open>The plain value of an object is what its own \<open>to_dict\<close> gives.\<close>

fun sec_render_object :: "((string, pyval) fmap \<Rightarrow> (string \<times> pyval) list) \<Rightarrow> sec_types \<Rightarrow> sec_object \<Rightarrow> pyval" where
  "sec_render_object order S (SecretsApiErrorType v) = api_error_type_to_dict order S v"
| "sec_render_object order S (SecretsExternalSecretRotationMetadataItem v) = external_secret_rotation_metadata_item_to_dict order S v"
| "sec_render_object order S (SecretsReplicationStatusType v) = replication_status_type_to_dict order S v"
| "sec_render_object order S (SecretsRotationRulesType v) = rotation_rules_type_to_dict order S v"
| "sec_render_object order S (SecretsSecretListEntry v) = secret_list_entry_to_dict order S v"
| "sec_render_object order S (SecretsSecretValueEntry v) = secret_value_entry_to_dict order S v"
| "sec_render_object order S (SecretsSecretVersionsListEntry v) = secret_versions_list_entry_to_dict order S v"
| "sec_render_object order S (SecretsTag v) = sec_tag_to_dict order S v"
| "sec_render_object order S (SecretsValidationErrorsEntry v) = validation_errors_entry_to_dict order S v"

fun sec_render :: "((string, pyval) fmap \<Rightarrow> (string \<times> pyval) list) \<Rightarrow> sec_types \<Rightarrow> sec_attr \<Rightarrow> pyval" where
  "sec_render order S (SecretsPlain v) = v"
| "sec_render order S (SecretsObject x) = sec_render_object order S x"
| "sec_render order S (SecretsObjects xs) = seq_to_py (sec_render_object order S) xs"
| "sec_render order S (SecretsObjectMap m) = mapping_to_py order (sec_render_object order S) m"

lemma sec_render_parts [simp]:
  "sec_render order S (sec_opt_attr f v) = opt_to_py (\<lambda>x. sec_render order S (f x)) v"
  "seq_to_py g (map h xs) = seq_to_py (\<lambda>x. g (h x)) xs"
  "mapping_to_py order g (fmmap k m) = mapping_to_py order (\<lambda>x. g (k x)) m"
  by (simp_all add: sec_opt_attr_def seq_to_py_def mapping_to_py_def fmap.map_comp comp_def split: option.splits)

definition sec_attribute_dict :: "((string, pyval) fmap \<Rightarrow> (string \<times> pyval) list) \<Rightarrow> sec_types \<Rightarrow> (string \<times> sec_attr) list \<Rightarrow> pyval" where
  "sec_attribute_dict order S attrs = PyDict (map (\<lambda>(name, a). (PyStr name, sec_render order S a)) attrs)"

text \<open>
  For each of the 30 response classes, \<open>to_dict\<close> has exactly one entry per attribute, in the order of
  the getters, with the attribute's value: the value itself, or the dictionaries of the objects.
\<close>

lemma api_error_type_agrees:
  "api_error_type_to_dict order S v = sec_attribute_dict order S (api_error_type_attributes order S v)"
  by (simp add: sec_attribute_dict_def py_dict_distinct api_error_type_to_dict_def api_error_type_attributes_def
      api_error_type_to_py_def)

lemma external_secret_rotation_metadata_item_agrees:
  "external_secret_rotation_metadata_item_to_dict order S v = sec_attribute_dict order S (external_secret_rotation_metadata_item_attributes order S v)"
  by (simp add: sec_attribute_dict_def py_dict_distinct external_secret_rotation_metadata_item_to_dict_def external_secret_rotation_metadata_item_attributes_def
      external_secret_rotation_metadata_item_to_py_def)

lemma replication_status_type_agrees:
  "replication_status_type_to_dict order S v = sec_attribute_dict order S (replication_status_type_attributes order S v)"
  by (simp add: sec_attribute_dict_def py_dict_distinct replication_status_type_to_dict_def replication_status_type_attributes_def
      replication_status_type_to_py_def)

lemma rotation_rules_type_agrees:
  "rotation_rules_type_to_dict order S v = sec_attribute_dict order S (rotation_rules_type_attributes order S v)"
  by (simp add: sec_attribute_dict_def py_dict_distinct rotation_rules_type_to_dict_def rotation_rules_type_attributes_def
      rotation_rules_type_to_py_def)

lemma secret_list_entry_agrees:
  "secret_list_entry_to_dict order S v = sec_attribute_dict order S (secret_list_entry_attributes order S v)"
  by (simp add: sec_attribute_dict_def py_dict_distinct secret_list_entry_to_dict_def secret_list_entry_attributes_def
      secret_list_entry_to_py_def external_secret_rotation_metadata_item_to_dict_def rotation_rules_type_to_dict_def sec_tag_to_dict_def)

lemma secret_value_entry_agrees:
  "secret_value_entry_to_dict order S v = sec_attribute_dict order S (secret_value_entry_attributes order S v)"
  by (simp add: sec_attribute_dict_def py_dict_distinct secret_value_entry_to_dict_def secret_value_entry_attributes_def
      secret_value_entry_to_py_def)

lemma secret_versions_list_entry_agrees:
  "secret_versions_list_entry_to_dict order S v = sec_attribute_dict order S (secret_versions_list_entry_attributes order S v)"
  by (simp add: sec_attribute_dict_def py_dict_distinct secret_versions_list_entry_to_dict_def secret_versions_list_entry_attributes_def
      secret_versions_list_entry_to_py_def)

lemma sec_tag_agrees:
  "sec_tag_to_dict order S v = sec_attribute_dict order S (sec_tag_attributes order S v)"
  by (simp add: sec_attribute_dict_def py_dict_distinct sec_tag_to_dict_def sec_tag_attributes_def
      sec_tag_to_py_def)

lemma validation_errors_entry_agrees:
  "validation_errors_entry_to_dict order S v = sec_attribute_dict order S (validation_errors_entry_attributes order S v)"
  by (simp add: sec_attribute_dict_def py_dict_distinct validation_errors_entry_to_dict_def validation_errors_entry_attributes_def
      validation_errors_entry_to_py_def)

lemma sec_outputs_agree:
  "batch_get_secret_value_output_to_dict order S v9 = sec_attribute_dict order S (batch_get_secret_value_output_attributes order S v9)"
  "cancel_rotate_secret_output_to_dict order S v10 = sec_attribute_dict order S (cancel_rotate_secret_output_attributes order S v10)"
  "create_secret_output_to_dict order S v11 = sec_attribute_dict order S (create_secret_output_attributes order S v11)"
  "delete_resource_policy_output_to_dict order S v12 = sec_attribute_dict order S (delete_resource_policy_output_attributes order S v12)"
  "delete_secret_output_to_dict order S v13 = sec_attribute_dict order S (delete_secret_output_attributes order S v13)"
  "describe_secret_output_to_dict order S v14 = sec_attribute_dict order S (describe_secret_output_attributes order S v14)"
  "get_random_password_output_to_dict order S v15 = sec_attribute_dict order S (get_random_password_output_attributes order S v15)"
  "get_resource_policy_output_to_dict order S v16 = sec_attribute_dict order S (get_resource_policy_output_attributes order S v16)"
  "get_secret_value_output_to_dict order S v17 = sec_attribute_dict order S (get_secret_value_output_attributes order S v17)"
  "list_secret_version_ids_output_to_dict order S v18 = sec_attribute_dict order S (list_secret_version_ids_output_attributes order S v18)"
  "list_secrets_output_to_dict order S v19 = sec_attribute_dict order S (list_secrets_output_attributes order S v19)"
  "put_resource_policy_output_to_dict order S v20 = sec_attribute_dict order S (put_resource_policy_output_attributes order S v20)"
  "put_secret_value_output_to_dict order S v21 = sec_attribute_dict order S (put_secret_value_output_attributes order S v21)"
  "remove_regions_from_replication_output_to_dict order S v22 = sec_attribute_dict order S (remove_regions_from_replication_output_attributes order S v22)"
  "replicate_secret_to_regions_output_to_dict order S v23 = sec_attribute_dict order S (replicate_secret_to_regions_output_attributes order S v23)"
  "restore_secret_output_to_dict order S v24 = sec_attribute_dict order S (restore_secret_output_attributes order S v24)"
  "rotate_secret_output_to_dict order S v25 = sec_attribute_dict order S (rotate_secret_output_attributes order S v25)"
  "stop_replication_to_replica_output_to_dict order S v26 = sec_attribute_dict order S (stop_replication_to_replica_output_attributes order S v26)"
  "update_secret_output_to_dict order S v27 = sec_attribute_dict order S (update_secret_output_attributes order S v27)"
  "update_secret_version_stage_output_to_dict order S v28 = sec_attribute_dict order S (update_secret_version_stage_output_attributes order S v28)"
  "validate_resource_policy_output_to_dict order S v29 = sec_attribute_dict order S (validate_resource_policy_output_attributes order S v29)"
  by (simp_all add: sec_attribute_dict_def py_dict_distinct
      batch_get_secret_value_output_to_dict_def batch_get_secret_value_output_attributes_def
      cancel_rotate_secret_output_to_dict_def cancel_rotate_secret_output_attributes_def
      create_secret_output_to_dict_def create_secret_output_attributes_def
      delete_resource_policy_output_to_dict_def delete_resource_policy_output_attributes_def
      delete_secret_output_to_dict_def delete_secret_output_attributes_def
      describe_secret_output_to_dict_def describe_secret_output_attributes_def
      get_random_password_output_to_dict_def get_random_password_output_attributes_def
      get_resource_policy_output_to_dict_def get_resource_policy_output_attributes_def
      get_secret_value_output_to_dict_def get_secret_value_output_attributes_def
      list_secret_version_ids_output_to_dict_def list_secret_version_ids_output_attributes_def
      list_secrets_output_to_dict_def list_secrets_output_attributes_def
      put_resource_policy_output_to_dict_def put_resource_policy_output_attributes_def
      put_secret_value_output_to_dict_def put_secret_value_output_attributes_def
      remove_regions_from_replication_output_to_dict_def remove_regions_from_replication_output_attributes_def
      replicate_secret_to_regions_output_to_dict_def replicate_secret_to_regions_output_attributes_def
      restore_secret_output_to_dict_def restore_secret_output_attributes_def
      rotate_secret_output_to_dict_def rotate_secret_output_attributes_def
      stop_replication_to_replica_output_to_dict_def stop_replication_to_replica_output_attributes_def
      update_secret_output_to_dict_def update_secret_output_attributes_def
      update_secret_version_stage_output_to_dict_def update_secret_version_stage_output_attributes_def
      validate_resource_policy_output_to_dict_def validate_resource_policy_output_attributes_def
      api_error_type_to_dict_def
      external_secret_rotation_metadata_item_to_dict_def
      replication_status_type_to_dict_def
      rotation_rules_type_to_dict_def
      secret_list_entry_to_dict_def
      secret_value_entry_to_dict_def
      secret_versions_list_entry_to_dict_def
      sec_tag_to_dict_def
      validation_errors_entry_to_dict_def)

end
