(* ===== verification/Secrets.thy ===== *)
theory Secrets
  imports SecretsOutputs
begin

text \<open>
  The operations of the Secrets Manager client: the methods of \<open>SecretsManagerClient\<close> in
  \<open>crates/rboto-secrets-manager/src/generated.rs\<close>, each reading its parameters from a dictionary and sending them
  through the shared \<open>execute\<close>, and the methods of the Python client
  (\<open>packages/rboto-secrets-manager/python/rboto_secrets_manager/client.py\<close>) that build those dictionaries.
\<close>

section \<open>Operations\<close>

subsection \<open>\<open>BatchGetSecretValue\<close>\<close>

record batch_get_secret_value_input =
  zbgsvi_secret_id_list :: "string list option"
  zbgsvi_filters :: "sec_filter list option"
  zbgsvi_max_results :: "32 word option"
  zbgsvi_next_token :: "string option"

definition batch_get_secret_value_params :: "pyo3 \<Rightarrow> sec_types \<Rightarrow> pydict \<Rightarrow>
    batch_get_secret_value_input pyresult" where
  "batch_get_secret_value_params P S params =
     and_then (op_param P ''secrets-manager'' ''BatchGetSecretValue'' params ''secret_id_list'' ''sequence'' (seq_from_py P ''str'' (string_from_py P))) (\<lambda>secret_id_list.
     and_then (op_param P ''secrets-manager'' ''BatchGetSecretValue'' params ''filters'' ''sequence'' (seq_from_py P ''dict (Filter)'' (filter_from_py P S))) (\<lambda>filters.
     and_then (op_param P ''secrets-manager'' ''BatchGetSecretValue'' params ''max_results'' ''int'' (i32_from_py P)) (\<lambda>max_results.
     and_then (op_param P ''secrets-manager'' ''BatchGetSecretValue'' params ''next_token'' ''str'' (string_from_py P)) (\<lambda>next_token.
     Inr \<lparr>zbgsvi_secret_id_list = secret_id_list,
       zbgsvi_filters = filters,
       zbgsvi_max_results = max_results,
       zbgsvi_next_token = next_token\<rparr>))))"

definition batch_get_secret_value :: "('cfg, 'client) service_env \<Rightarrow> pyo3 \<Rightarrow> sec_types \<Rightarrow> unit pyresult \<Rightarrow> bool \<Rightarrow>
    ('client \<Rightarrow> batch_get_secret_value_input \<Rightarrow> trip list \<times> (('e, http_response) sdk_error + batch_get_secret_value_output)) \<Rightarrow>
    'client client_handle \<Rightarrow> pydict \<Rightarrow> pydict option \<Rightarrow>
    (batch_get_secret_value_output pyresult \<times> 'client client_handle \<times> pydict option) option" where
  "batch_get_secret_value E P S bridge interrupted send c params observation =
     execute E bridge interrupted send no_details
       ''BatchGetSecretValue'' (batch_get_secret_value_params P S params) c observation"

definition batch_get_secret_value_call :: "batch_get_secret_value_input \<Rightarrow> pydict" where
  "batch_get_secret_value_call i = py_params
     []
     [(''secret_id_list'', opt_to_py (seq_to_py PyStr) (zbgsvi_secret_id_list i)),
      (''filters'', opt_to_py (seq_to_py filter_to_py) (zbgsvi_filters i)),
      (''max_results'', opt_to_py i32_to_py (zbgsvi_max_results i)),
      (''next_token'', opt_to_py PyStr (zbgsvi_next_token i))]"

subsection \<open>\<open>CancelRotateSecret\<close>\<close>

record cancel_rotate_secret_input =
  zcrsi_secret_id :: "string option"

definition cancel_rotate_secret_params :: "pyo3 \<Rightarrow> sec_types \<Rightarrow> pydict \<Rightarrow>
    cancel_rotate_secret_input pyresult" where
  "cancel_rotate_secret_params P S params =
     and_then (op_param P ''secrets-manager'' ''CancelRotateSecret'' params ''secret_id'' ''str'' (string_from_py P)) (\<lambda>secret_id.
     Inr \<lparr>zcrsi_secret_id = secret_id\<rparr>)"

definition cancel_rotate_secret :: "('cfg, 'client) service_env \<Rightarrow> pyo3 \<Rightarrow> sec_types \<Rightarrow> unit pyresult \<Rightarrow> bool \<Rightarrow>
    ('client \<Rightarrow> cancel_rotate_secret_input \<Rightarrow> trip list \<times> (('e, http_response) sdk_error + cancel_rotate_secret_output)) \<Rightarrow>
    'client client_handle \<Rightarrow> pydict \<Rightarrow> pydict option \<Rightarrow>
    (cancel_rotate_secret_output pyresult \<times> 'client client_handle \<times> pydict option) option" where
  "cancel_rotate_secret E P S bridge interrupted send c params observation =
     execute E bridge interrupted send no_details
       ''CancelRotateSecret'' (cancel_rotate_secret_params P S params) c observation"

definition cancel_rotate_secret_call :: "cancel_rotate_secret_input \<Rightarrow> pydict" where
  "cancel_rotate_secret_call i = py_params
     [(''secret_id'', opt_to_py PyStr (zcrsi_secret_id i))]
     []"

subsection \<open>\<open>CreateSecret\<close>\<close>

record create_secret_input =
  zcsi_name :: "string option"
  zcsi_client_request_token :: "string option"
  zcsi_description :: "string option"
  zcsi_kms_key_id :: "string option"
  zcsi_secret_binary :: "byte list option"
  zcsi_secret_string :: "string option"
  zcsi_tags :: "sec_tag list option"
  zcsi_add_replica_regions :: "replica_region_type list option"
  zcsi_force_overwrite_replica_secret :: "bool option"
  zcsi_type :: "string option"

definition create_secret_params_1 :: "pyo3 \<Rightarrow> sec_types \<Rightarrow> pydict \<Rightarrow>
    (string option \<times> string option \<times> string option \<times> string option \<times> byte list option \<times> string option) pyresult" where
  "create_secret_params_1 P S params =
     and_then (op_param P ''secrets-manager'' ''CreateSecret'' params ''name'' ''str'' (string_from_py P)) (\<lambda>name.
     and_then (op_param P ''secrets-manager'' ''CreateSecret'' params ''client_request_token'' ''str'' (string_from_py P)) (\<lambda>client_request_token.
     and_then (op_param P ''secrets-manager'' ''CreateSecret'' params ''description'' ''str'' (string_from_py P)) (\<lambda>description.
     and_then (op_param P ''secrets-manager'' ''CreateSecret'' params ''kms_key_id'' ''str'' (string_from_py P)) (\<lambda>kms_key_id.
     and_then (op_param P ''secrets-manager'' ''CreateSecret'' params ''secret_binary'' ''bytes'' (blob_from_py P)) (\<lambda>secret_binary.
     and_then (op_param P ''secrets-manager'' ''CreateSecret'' params ''secret_string'' ''str'' (string_from_py P)) (\<lambda>secret_string.
     Inr (name, client_request_token, description, kms_key_id, secret_binary, secret_string)))))))"

definition create_secret_params_2 :: "pyo3 \<Rightarrow> sec_types \<Rightarrow> pydict \<Rightarrow>
    (sec_tag list option \<times> replica_region_type list option \<times> bool option \<times> string option) pyresult" where
  "create_secret_params_2 P S params =
     and_then (op_param P ''secrets-manager'' ''CreateSecret'' params ''tags'' ''sequence'' (seq_from_py P ''dict (Tag)'' (sec_tag_from_py P S))) (\<lambda>tags.
     and_then (op_param P ''secrets-manager'' ''CreateSecret'' params ''add_replica_regions'' ''sequence'' (seq_from_py P ''dict (ReplicaRegionType)'' (replica_region_type_from_py P S))) (\<lambda>add_replica_regions.
     and_then (op_param P ''secrets-manager'' ''CreateSecret'' params ''force_overwrite_replica_secret'' ''bool'' (bool_from_py P)) (\<lambda>force_overwrite_replica_secret.
     and_then (op_param P ''secrets-manager'' ''CreateSecret'' params ''type'' ''str'' (string_from_py P)) (\<lambda>type.
     Inr (tags, add_replica_regions, force_overwrite_replica_secret, type)))))"

definition create_secret_params :: "pyo3 \<Rightarrow> sec_types \<Rightarrow> pydict \<Rightarrow>
    create_secret_input pyresult" where
  "create_secret_params P S params =
     and_then (create_secret_params_1 P S params) (\<lambda>(name, client_request_token, description, kms_key_id, secret_binary, secret_string).
     and_then (create_secret_params_2 P S params) (\<lambda>(tags, add_replica_regions, force_overwrite_replica_secret, type).
     Inr \<lparr>zcsi_name = name,
       zcsi_client_request_token = client_request_token,
       zcsi_description = description,
       zcsi_kms_key_id = kms_key_id,
       zcsi_secret_binary = secret_binary,
       zcsi_secret_string = secret_string,
       zcsi_tags = tags,
       zcsi_add_replica_regions = add_replica_regions,
       zcsi_force_overwrite_replica_secret = force_overwrite_replica_secret,
       zcsi_type = type\<rparr>))"

definition create_secret :: "('cfg, 'client) service_env \<Rightarrow> pyo3 \<Rightarrow> sec_types \<Rightarrow> unit pyresult \<Rightarrow> bool \<Rightarrow>
    ('client \<Rightarrow> create_secret_input \<Rightarrow> trip list \<times> (('e, http_response) sdk_error + create_secret_output)) \<Rightarrow>
    'client client_handle \<Rightarrow> pydict \<Rightarrow> pydict option \<Rightarrow>
    (create_secret_output pyresult \<times> 'client client_handle \<times> pydict option) option" where
  "create_secret E P S bridge interrupted send c params observation =
     execute E bridge interrupted send no_details
       ''CreateSecret'' (create_secret_params P S params) c observation"

definition create_secret_call :: "create_secret_input \<Rightarrow> pydict" where
  "create_secret_call i = py_params
     [(''name'', opt_to_py PyStr (zcsi_name i))]
     [(''client_request_token'', opt_to_py PyStr (zcsi_client_request_token i)),
      (''description'', opt_to_py PyStr (zcsi_description i)),
      (''kms_key_id'', opt_to_py PyStr (zcsi_kms_key_id i)),
      (''secret_binary'', opt_to_py PyBytes (zcsi_secret_binary i)),
      (''secret_string'', opt_to_py PyStr (zcsi_secret_string i)),
      (''tags'', opt_to_py (seq_to_py sec_tag_to_py) (zcsi_tags i)),
      (''add_replica_regions'', opt_to_py (seq_to_py replica_region_type_to_py) (zcsi_add_replica_regions i)),
      (''force_overwrite_replica_secret'', opt_to_py PyBool (zcsi_force_overwrite_replica_secret i)),
      (''type'', opt_to_py PyStr (zcsi_type i))]"

subsection \<open>\<open>DeleteResourcePolicy\<close>\<close>

record delete_resource_policy_input =
  zdrpi_secret_id :: "string option"

definition delete_resource_policy_params :: "pyo3 \<Rightarrow> sec_types \<Rightarrow> pydict \<Rightarrow>
    delete_resource_policy_input pyresult" where
  "delete_resource_policy_params P S params =
     and_then (op_param P ''secrets-manager'' ''DeleteResourcePolicy'' params ''secret_id'' ''str'' (string_from_py P)) (\<lambda>secret_id.
     Inr \<lparr>zdrpi_secret_id = secret_id\<rparr>)"

definition delete_resource_policy :: "('cfg, 'client) service_env \<Rightarrow> pyo3 \<Rightarrow> sec_types \<Rightarrow> unit pyresult \<Rightarrow> bool \<Rightarrow>
    ('client \<Rightarrow> delete_resource_policy_input \<Rightarrow> trip list \<times> (('e, http_response) sdk_error + delete_resource_policy_output)) \<Rightarrow>
    'client client_handle \<Rightarrow> pydict \<Rightarrow> pydict option \<Rightarrow>
    (delete_resource_policy_output pyresult \<times> 'client client_handle \<times> pydict option) option" where
  "delete_resource_policy E P S bridge interrupted send c params observation =
     execute E bridge interrupted send no_details
       ''DeleteResourcePolicy'' (delete_resource_policy_params P S params) c observation"

definition delete_resource_policy_call :: "delete_resource_policy_input \<Rightarrow> pydict" where
  "delete_resource_policy_call i = py_params
     [(''secret_id'', opt_to_py PyStr (zdrpi_secret_id i))]
     []"

subsection \<open>\<open>DeleteSecret\<close>\<close>

record delete_secret_input =
  zdsi_secret_id :: "string option"
  zdsi_recovery_window_in_days :: "64 word option"
  zdsi_force_delete_without_recovery :: "bool option"

definition delete_secret_params :: "pyo3 \<Rightarrow> sec_types \<Rightarrow> pydict \<Rightarrow>
    delete_secret_input pyresult" where
  "delete_secret_params P S params =
     and_then (op_param P ''secrets-manager'' ''DeleteSecret'' params ''secret_id'' ''str'' (string_from_py P)) (\<lambda>secret_id.
     and_then (op_param P ''secrets-manager'' ''DeleteSecret'' params ''recovery_window_in_days'' ''int'' (i64_from_py P)) (\<lambda>recovery_window_in_days.
     and_then (op_param P ''secrets-manager'' ''DeleteSecret'' params ''force_delete_without_recovery'' ''bool'' (bool_from_py P)) (\<lambda>force_delete_without_recovery.
     Inr \<lparr>zdsi_secret_id = secret_id,
       zdsi_recovery_window_in_days = recovery_window_in_days,
       zdsi_force_delete_without_recovery = force_delete_without_recovery\<rparr>)))"

definition delete_secret :: "('cfg, 'client) service_env \<Rightarrow> pyo3 \<Rightarrow> sec_types \<Rightarrow> unit pyresult \<Rightarrow> bool \<Rightarrow>
    ('client \<Rightarrow> delete_secret_input \<Rightarrow> trip list \<times> (('e, http_response) sdk_error + delete_secret_output)) \<Rightarrow>
    'client client_handle \<Rightarrow> pydict \<Rightarrow> pydict option \<Rightarrow>
    (delete_secret_output pyresult \<times> 'client client_handle \<times> pydict option) option" where
  "delete_secret E P S bridge interrupted send c params observation =
     execute E bridge interrupted send no_details
       ''DeleteSecret'' (delete_secret_params P S params) c observation"

definition delete_secret_call :: "delete_secret_input \<Rightarrow> pydict" where
  "delete_secret_call i = py_params
     [(''secret_id'', opt_to_py PyStr (zdsi_secret_id i))]
     [(''recovery_window_in_days'', opt_to_py i64_to_py (zdsi_recovery_window_in_days i)),
      (''force_delete_without_recovery'', opt_to_py PyBool (zdsi_force_delete_without_recovery i))]"

subsection \<open>\<open>DescribeSecret\<close>\<close>

record describe_secret_input =
  zdsi2_secret_id :: "string option"

definition describe_secret_params :: "pyo3 \<Rightarrow> sec_types \<Rightarrow> pydict \<Rightarrow>
    describe_secret_input pyresult" where
  "describe_secret_params P S params =
     and_then (op_param P ''secrets-manager'' ''DescribeSecret'' params ''secret_id'' ''str'' (string_from_py P)) (\<lambda>secret_id.
     Inr \<lparr>zdsi2_secret_id = secret_id\<rparr>)"

definition describe_secret :: "('cfg, 'client) service_env \<Rightarrow> pyo3 \<Rightarrow> sec_types \<Rightarrow> unit pyresult \<Rightarrow> bool \<Rightarrow>
    ('client \<Rightarrow> describe_secret_input \<Rightarrow> trip list \<times> (('e, http_response) sdk_error + describe_secret_output)) \<Rightarrow>
    'client client_handle \<Rightarrow> pydict \<Rightarrow> pydict option \<Rightarrow>
    (describe_secret_output pyresult \<times> 'client client_handle \<times> pydict option) option" where
  "describe_secret E P S bridge interrupted send c params observation =
     execute E bridge interrupted send no_details
       ''DescribeSecret'' (describe_secret_params P S params) c observation"

definition describe_secret_call :: "describe_secret_input \<Rightarrow> pydict" where
  "describe_secret_call i = py_params
     [(''secret_id'', opt_to_py PyStr (zdsi2_secret_id i))]
     []"

subsection \<open>\<open>GetRandomPassword\<close>\<close>

record get_random_password_input =
  zgrpi_password_length :: "64 word option"
  zgrpi_exclude_characters :: "string option"
  zgrpi_exclude_numbers :: "bool option"
  zgrpi_exclude_punctuation :: "bool option"
  zgrpi_exclude_uppercase :: "bool option"
  zgrpi_exclude_lowercase :: "bool option"
  zgrpi_include_space :: "bool option"
  zgrpi_require_each_included_type :: "bool option"

definition get_random_password_params_1 :: "pyo3 \<Rightarrow> sec_types \<Rightarrow> pydict \<Rightarrow>
    (64 word option \<times> string option \<times> bool option \<times> bool option) pyresult" where
  "get_random_password_params_1 P S params =
     and_then (op_param P ''secrets-manager'' ''GetRandomPassword'' params ''password_length'' ''int'' (i64_from_py P)) (\<lambda>password_length.
     and_then (op_param P ''secrets-manager'' ''GetRandomPassword'' params ''exclude_characters'' ''str'' (string_from_py P)) (\<lambda>exclude_characters.
     and_then (op_param P ''secrets-manager'' ''GetRandomPassword'' params ''exclude_numbers'' ''bool'' (bool_from_py P)) (\<lambda>exclude_numbers.
     and_then (op_param P ''secrets-manager'' ''GetRandomPassword'' params ''exclude_punctuation'' ''bool'' (bool_from_py P)) (\<lambda>exclude_punctuation.
     Inr (password_length, exclude_characters, exclude_numbers, exclude_punctuation)))))"

definition get_random_password_params_2 :: "pyo3 \<Rightarrow> sec_types \<Rightarrow> pydict \<Rightarrow>
    (bool option \<times> bool option \<times> bool option \<times> bool option) pyresult" where
  "get_random_password_params_2 P S params =
     and_then (op_param P ''secrets-manager'' ''GetRandomPassword'' params ''exclude_uppercase'' ''bool'' (bool_from_py P)) (\<lambda>exclude_uppercase.
     and_then (op_param P ''secrets-manager'' ''GetRandomPassword'' params ''exclude_lowercase'' ''bool'' (bool_from_py P)) (\<lambda>exclude_lowercase.
     and_then (op_param P ''secrets-manager'' ''GetRandomPassword'' params ''include_space'' ''bool'' (bool_from_py P)) (\<lambda>include_space.
     and_then (op_param P ''secrets-manager'' ''GetRandomPassword'' params ''require_each_included_type'' ''bool'' (bool_from_py P)) (\<lambda>require_each_included_type.
     Inr (exclude_uppercase, exclude_lowercase, include_space, require_each_included_type)))))"

definition get_random_password_params :: "pyo3 \<Rightarrow> sec_types \<Rightarrow> pydict \<Rightarrow>
    get_random_password_input pyresult" where
  "get_random_password_params P S params =
     and_then (get_random_password_params_1 P S params) (\<lambda>(password_length, exclude_characters, exclude_numbers, exclude_punctuation).
     and_then (get_random_password_params_2 P S params) (\<lambda>(exclude_uppercase, exclude_lowercase, include_space, require_each_included_type).
     Inr \<lparr>zgrpi_password_length = password_length,
       zgrpi_exclude_characters = exclude_characters,
       zgrpi_exclude_numbers = exclude_numbers,
       zgrpi_exclude_punctuation = exclude_punctuation,
       zgrpi_exclude_uppercase = exclude_uppercase,
       zgrpi_exclude_lowercase = exclude_lowercase,
       zgrpi_include_space = include_space,
       zgrpi_require_each_included_type = require_each_included_type\<rparr>))"

definition get_random_password :: "('cfg, 'client) service_env \<Rightarrow> pyo3 \<Rightarrow> sec_types \<Rightarrow> unit pyresult \<Rightarrow> bool \<Rightarrow>
    ('client \<Rightarrow> get_random_password_input \<Rightarrow> trip list \<times> (('e, http_response) sdk_error + get_random_password_output)) \<Rightarrow>
    'client client_handle \<Rightarrow> pydict \<Rightarrow> pydict option \<Rightarrow>
    (get_random_password_output pyresult \<times> 'client client_handle \<times> pydict option) option" where
  "get_random_password E P S bridge interrupted send c params observation =
     execute E bridge interrupted send no_details
       ''GetRandomPassword'' (get_random_password_params P S params) c observation"

definition get_random_password_call :: "get_random_password_input \<Rightarrow> pydict" where
  "get_random_password_call i = py_params
     []
     [(''password_length'', opt_to_py i64_to_py (zgrpi_password_length i)),
      (''exclude_characters'', opt_to_py PyStr (zgrpi_exclude_characters i)),
      (''exclude_numbers'', opt_to_py PyBool (zgrpi_exclude_numbers i)),
      (''exclude_punctuation'', opt_to_py PyBool (zgrpi_exclude_punctuation i)),
      (''exclude_uppercase'', opt_to_py PyBool (zgrpi_exclude_uppercase i)),
      (''exclude_lowercase'', opt_to_py PyBool (zgrpi_exclude_lowercase i)),
      (''include_space'', opt_to_py PyBool (zgrpi_include_space i)),
      (''require_each_included_type'', opt_to_py PyBool (zgrpi_require_each_included_type i))]"

subsection \<open>\<open>GetResourcePolicy\<close>\<close>

record get_resource_policy_input =
  zgrpi2_secret_id :: "string option"

definition get_resource_policy_params :: "pyo3 \<Rightarrow> sec_types \<Rightarrow> pydict \<Rightarrow>
    get_resource_policy_input pyresult" where
  "get_resource_policy_params P S params =
     and_then (op_param P ''secrets-manager'' ''GetResourcePolicy'' params ''secret_id'' ''str'' (string_from_py P)) (\<lambda>secret_id.
     Inr \<lparr>zgrpi2_secret_id = secret_id\<rparr>)"

definition get_resource_policy :: "('cfg, 'client) service_env \<Rightarrow> pyo3 \<Rightarrow> sec_types \<Rightarrow> unit pyresult \<Rightarrow> bool \<Rightarrow>
    ('client \<Rightarrow> get_resource_policy_input \<Rightarrow> trip list \<times> (('e, http_response) sdk_error + get_resource_policy_output)) \<Rightarrow>
    'client client_handle \<Rightarrow> pydict \<Rightarrow> pydict option \<Rightarrow>
    (get_resource_policy_output pyresult \<times> 'client client_handle \<times> pydict option) option" where
  "get_resource_policy E P S bridge interrupted send c params observation =
     execute E bridge interrupted send no_details
       ''GetResourcePolicy'' (get_resource_policy_params P S params) c observation"

definition get_resource_policy_call :: "get_resource_policy_input \<Rightarrow> pydict" where
  "get_resource_policy_call i = py_params
     [(''secret_id'', opt_to_py PyStr (zgrpi2_secret_id i))]
     []"

subsection \<open>\<open>GetSecretValue\<close>\<close>

record get_secret_value_input =
  zgsvi_secret_id :: "string option"
  zgsvi_version_id :: "string option"
  zgsvi_version_stage :: "string option"

definition get_secret_value_params :: "pyo3 \<Rightarrow> sec_types \<Rightarrow> pydict \<Rightarrow>
    get_secret_value_input pyresult" where
  "get_secret_value_params P S params =
     and_then (op_param P ''secrets-manager'' ''GetSecretValue'' params ''secret_id'' ''str'' (string_from_py P)) (\<lambda>secret_id.
     and_then (op_param P ''secrets-manager'' ''GetSecretValue'' params ''version_id'' ''str'' (string_from_py P)) (\<lambda>version_id.
     and_then (op_param P ''secrets-manager'' ''GetSecretValue'' params ''version_stage'' ''str'' (string_from_py P)) (\<lambda>version_stage.
     Inr \<lparr>zgsvi_secret_id = secret_id,
       zgsvi_version_id = version_id,
       zgsvi_version_stage = version_stage\<rparr>)))"

definition get_secret_value :: "('cfg, 'client) service_env \<Rightarrow> pyo3 \<Rightarrow> sec_types \<Rightarrow> unit pyresult \<Rightarrow> bool \<Rightarrow>
    ('client \<Rightarrow> get_secret_value_input \<Rightarrow> trip list \<times> (('e, http_response) sdk_error + get_secret_value_output)) \<Rightarrow>
    'client client_handle \<Rightarrow> pydict \<Rightarrow> pydict option \<Rightarrow>
    (get_secret_value_output pyresult \<times> 'client client_handle \<times> pydict option) option" where
  "get_secret_value E P S bridge interrupted send c params observation =
     execute E bridge interrupted send no_details
       ''GetSecretValue'' (get_secret_value_params P S params) c observation"

definition get_secret_value_call :: "get_secret_value_input \<Rightarrow> pydict" where
  "get_secret_value_call i = py_params
     [(''secret_id'', opt_to_py PyStr (zgsvi_secret_id i))]
     [(''version_id'', opt_to_py PyStr (zgsvi_version_id i)),
      (''version_stage'', opt_to_py PyStr (zgsvi_version_stage i))]"

subsection \<open>\<open>ListSecretVersionIds\<close>\<close>

record list_secret_version_ids_input =
  zlsvii_secret_id :: "string option"
  zlsvii_max_results :: "32 word option"
  zlsvii_next_token :: "string option"
  zlsvii_include_deprecated :: "bool option"

definition list_secret_version_ids_params :: "pyo3 \<Rightarrow> sec_types \<Rightarrow> pydict \<Rightarrow>
    list_secret_version_ids_input pyresult" where
  "list_secret_version_ids_params P S params =
     and_then (op_param P ''secrets-manager'' ''ListSecretVersionIds'' params ''secret_id'' ''str'' (string_from_py P)) (\<lambda>secret_id.
     and_then (op_param P ''secrets-manager'' ''ListSecretVersionIds'' params ''max_results'' ''int'' (i32_from_py P)) (\<lambda>max_results.
     and_then (op_param P ''secrets-manager'' ''ListSecretVersionIds'' params ''next_token'' ''str'' (string_from_py P)) (\<lambda>next_token.
     and_then (op_param P ''secrets-manager'' ''ListSecretVersionIds'' params ''include_deprecated'' ''bool'' (bool_from_py P)) (\<lambda>include_deprecated.
     Inr \<lparr>zlsvii_secret_id = secret_id,
       zlsvii_max_results = max_results,
       zlsvii_next_token = next_token,
       zlsvii_include_deprecated = include_deprecated\<rparr>))))"

definition list_secret_version_ids :: "('cfg, 'client) service_env \<Rightarrow> pyo3 \<Rightarrow> sec_types \<Rightarrow> unit pyresult \<Rightarrow> bool \<Rightarrow>
    ('client \<Rightarrow> list_secret_version_ids_input \<Rightarrow> trip list \<times> (('e, http_response) sdk_error + list_secret_version_ids_output)) \<Rightarrow>
    'client client_handle \<Rightarrow> pydict \<Rightarrow> pydict option \<Rightarrow>
    (list_secret_version_ids_output pyresult \<times> 'client client_handle \<times> pydict option) option" where
  "list_secret_version_ids E P S bridge interrupted send c params observation =
     execute E bridge interrupted send no_details
       ''ListSecretVersionIds'' (list_secret_version_ids_params P S params) c observation"

definition list_secret_version_ids_call :: "list_secret_version_ids_input \<Rightarrow> pydict" where
  "list_secret_version_ids_call i = py_params
     [(''secret_id'', opt_to_py PyStr (zlsvii_secret_id i))]
     [(''max_results'', opt_to_py i32_to_py (zlsvii_max_results i)),
      (''next_token'', opt_to_py PyStr (zlsvii_next_token i)),
      (''include_deprecated'', opt_to_py PyBool (zlsvii_include_deprecated i))]"

subsection \<open>\<open>ListSecrets\<close>\<close>

record list_secrets_input =
  zlsi_include_planned_deletion :: "bool option"
  zlsi_max_results :: "32 word option"
  zlsi_next_token :: "string option"
  zlsi_filters :: "sec_filter list option"
  zlsi_sort_order :: "string option"
  zlsi_sort_by :: "string option"

definition list_secrets_params :: "pyo3 \<Rightarrow> sec_types \<Rightarrow> pydict \<Rightarrow>
    list_secrets_input pyresult" where
  "list_secrets_params P S params =
     and_then (op_param P ''secrets-manager'' ''ListSecrets'' params ''include_planned_deletion'' ''bool'' (bool_from_py P)) (\<lambda>include_planned_deletion.
     and_then (op_param P ''secrets-manager'' ''ListSecrets'' params ''max_results'' ''int'' (i32_from_py P)) (\<lambda>max_results.
     and_then (op_param P ''secrets-manager'' ''ListSecrets'' params ''next_token'' ''str'' (string_from_py P)) (\<lambda>next_token.
     and_then (op_param P ''secrets-manager'' ''ListSecrets'' params ''filters'' ''sequence'' (seq_from_py P ''dict (Filter)'' (filter_from_py P S))) (\<lambda>filters.
     and_then (op_param P ''secrets-manager'' ''ListSecrets'' params ''sort_order'' ''str (SortOrderType)'' (enum_from_py P)) (\<lambda>sort_order.
     and_then (op_param P ''secrets-manager'' ''ListSecrets'' params ''sort_by'' ''str (SortByType)'' (enum_from_py P)) (\<lambda>sort_by.
     Inr \<lparr>zlsi_include_planned_deletion = include_planned_deletion,
       zlsi_max_results = max_results,
       zlsi_next_token = next_token,
       zlsi_filters = filters,
       zlsi_sort_order = sort_order,
       zlsi_sort_by = sort_by\<rparr>))))))"

definition list_secrets :: "('cfg, 'client) service_env \<Rightarrow> pyo3 \<Rightarrow> sec_types \<Rightarrow> unit pyresult \<Rightarrow> bool \<Rightarrow>
    ('client \<Rightarrow> list_secrets_input \<Rightarrow> trip list \<times> (('e, http_response) sdk_error + list_secrets_output)) \<Rightarrow>
    'client client_handle \<Rightarrow> pydict \<Rightarrow> pydict option \<Rightarrow>
    (list_secrets_output pyresult \<times> 'client client_handle \<times> pydict option) option" where
  "list_secrets E P S bridge interrupted send c params observation =
     execute E bridge interrupted send no_details
       ''ListSecrets'' (list_secrets_params P S params) c observation"

definition list_secrets_call :: "list_secrets_input \<Rightarrow> pydict" where
  "list_secrets_call i = py_params
     []
     [(''include_planned_deletion'', opt_to_py PyBool (zlsi_include_planned_deletion i)),
      (''max_results'', opt_to_py i32_to_py (zlsi_max_results i)),
      (''next_token'', opt_to_py PyStr (zlsi_next_token i)),
      (''filters'', opt_to_py (seq_to_py filter_to_py) (zlsi_filters i)),
      (''sort_order'', opt_to_py PyStr (zlsi_sort_order i)),
      (''sort_by'', opt_to_py PyStr (zlsi_sort_by i))]"

subsection \<open>\<open>PutResourcePolicy\<close>\<close>

record put_resource_policy_input =
  zprpi_secret_id :: "string option"
  zprpi_resource_policy :: "string option"
  zprpi_block_public_policy :: "bool option"

definition put_resource_policy_params :: "pyo3 \<Rightarrow> sec_types \<Rightarrow> pydict \<Rightarrow>
    put_resource_policy_input pyresult" where
  "put_resource_policy_params P S params =
     and_then (op_param P ''secrets-manager'' ''PutResourcePolicy'' params ''secret_id'' ''str'' (string_from_py P)) (\<lambda>secret_id.
     and_then (op_param P ''secrets-manager'' ''PutResourcePolicy'' params ''resource_policy'' ''str'' (string_from_py P)) (\<lambda>resource_policy.
     and_then (op_param P ''secrets-manager'' ''PutResourcePolicy'' params ''block_public_policy'' ''bool'' (bool_from_py P)) (\<lambda>block_public_policy.
     Inr \<lparr>zprpi_secret_id = secret_id,
       zprpi_resource_policy = resource_policy,
       zprpi_block_public_policy = block_public_policy\<rparr>)))"

definition put_resource_policy :: "('cfg, 'client) service_env \<Rightarrow> pyo3 \<Rightarrow> sec_types \<Rightarrow> unit pyresult \<Rightarrow> bool \<Rightarrow>
    ('client \<Rightarrow> put_resource_policy_input \<Rightarrow> trip list \<times> (('e, http_response) sdk_error + put_resource_policy_output)) \<Rightarrow>
    'client client_handle \<Rightarrow> pydict \<Rightarrow> pydict option \<Rightarrow>
    (put_resource_policy_output pyresult \<times> 'client client_handle \<times> pydict option) option" where
  "put_resource_policy E P S bridge interrupted send c params observation =
     execute E bridge interrupted send no_details
       ''PutResourcePolicy'' (put_resource_policy_params P S params) c observation"

definition put_resource_policy_call :: "put_resource_policy_input \<Rightarrow> pydict" where
  "put_resource_policy_call i = py_params
     [(''secret_id'', opt_to_py PyStr (zprpi_secret_id i)),
      (''resource_policy'', opt_to_py PyStr (zprpi_resource_policy i))]
     [(''block_public_policy'', opt_to_py PyBool (zprpi_block_public_policy i))]"

subsection \<open>\<open>PutSecretValue\<close>\<close>

record put_secret_value_input =
  zpsvi_secret_id :: "string option"
  zpsvi_client_request_token :: "string option"
  zpsvi_secret_binary :: "byte list option"
  zpsvi_secret_string :: "string option"
  zpsvi_version_stages :: "string list option"
  zpsvi_rotation_token :: "string option"

definition put_secret_value_params :: "pyo3 \<Rightarrow> sec_types \<Rightarrow> pydict \<Rightarrow>
    put_secret_value_input pyresult" where
  "put_secret_value_params P S params =
     and_then (op_param P ''secrets-manager'' ''PutSecretValue'' params ''secret_id'' ''str'' (string_from_py P)) (\<lambda>secret_id.
     and_then (op_param P ''secrets-manager'' ''PutSecretValue'' params ''client_request_token'' ''str'' (string_from_py P)) (\<lambda>client_request_token.
     and_then (op_param P ''secrets-manager'' ''PutSecretValue'' params ''secret_binary'' ''bytes'' (blob_from_py P)) (\<lambda>secret_binary.
     and_then (op_param P ''secrets-manager'' ''PutSecretValue'' params ''secret_string'' ''str'' (string_from_py P)) (\<lambda>secret_string.
     and_then (op_param P ''secrets-manager'' ''PutSecretValue'' params ''version_stages'' ''sequence'' (seq_from_py P ''str'' (string_from_py P))) (\<lambda>version_stages.
     and_then (op_param P ''secrets-manager'' ''PutSecretValue'' params ''rotation_token'' ''str'' (string_from_py P)) (\<lambda>rotation_token.
     Inr \<lparr>zpsvi_secret_id = secret_id,
       zpsvi_client_request_token = client_request_token,
       zpsvi_secret_binary = secret_binary,
       zpsvi_secret_string = secret_string,
       zpsvi_version_stages = version_stages,
       zpsvi_rotation_token = rotation_token\<rparr>))))))"

definition put_secret_value :: "('cfg, 'client) service_env \<Rightarrow> pyo3 \<Rightarrow> sec_types \<Rightarrow> unit pyresult \<Rightarrow> bool \<Rightarrow>
    ('client \<Rightarrow> put_secret_value_input \<Rightarrow> trip list \<times> (('e, http_response) sdk_error + put_secret_value_output)) \<Rightarrow>
    'client client_handle \<Rightarrow> pydict \<Rightarrow> pydict option \<Rightarrow>
    (put_secret_value_output pyresult \<times> 'client client_handle \<times> pydict option) option" where
  "put_secret_value E P S bridge interrupted send c params observation =
     execute E bridge interrupted send no_details
       ''PutSecretValue'' (put_secret_value_params P S params) c observation"

definition put_secret_value_call :: "put_secret_value_input \<Rightarrow> pydict" where
  "put_secret_value_call i = py_params
     [(''secret_id'', opt_to_py PyStr (zpsvi_secret_id i))]
     [(''client_request_token'', opt_to_py PyStr (zpsvi_client_request_token i)),
      (''secret_binary'', opt_to_py PyBytes (zpsvi_secret_binary i)),
      (''secret_string'', opt_to_py PyStr (zpsvi_secret_string i)),
      (''version_stages'', opt_to_py (seq_to_py PyStr) (zpsvi_version_stages i)),
      (''rotation_token'', opt_to_py PyStr (zpsvi_rotation_token i))]"

subsection \<open>\<open>RemoveRegionsFromReplication\<close>\<close>

record remove_regions_from_replication_input =
  zrrfri_secret_id :: "string option"
  zrrfri_remove_replica_regions :: "string list option"

definition remove_regions_from_replication_params :: "pyo3 \<Rightarrow> sec_types \<Rightarrow> pydict \<Rightarrow>
    remove_regions_from_replication_input pyresult" where
  "remove_regions_from_replication_params P S params =
     and_then (op_param P ''secrets-manager'' ''RemoveRegionsFromReplication'' params ''secret_id'' ''str'' (string_from_py P)) (\<lambda>secret_id.
     and_then (op_param P ''secrets-manager'' ''RemoveRegionsFromReplication'' params ''remove_replica_regions'' ''sequence'' (seq_from_py P ''str'' (string_from_py P))) (\<lambda>remove_replica_regions.
     Inr \<lparr>zrrfri_secret_id = secret_id,
       zrrfri_remove_replica_regions = remove_replica_regions\<rparr>))"

definition remove_regions_from_replication :: "('cfg, 'client) service_env \<Rightarrow> pyo3 \<Rightarrow> sec_types \<Rightarrow> unit pyresult \<Rightarrow> bool \<Rightarrow>
    ('client \<Rightarrow> remove_regions_from_replication_input \<Rightarrow> trip list \<times> (('e, http_response) sdk_error + remove_regions_from_replication_output)) \<Rightarrow>
    'client client_handle \<Rightarrow> pydict \<Rightarrow> pydict option \<Rightarrow>
    (remove_regions_from_replication_output pyresult \<times> 'client client_handle \<times> pydict option) option" where
  "remove_regions_from_replication E P S bridge interrupted send c params observation =
     execute E bridge interrupted send no_details
       ''RemoveRegionsFromReplication'' (remove_regions_from_replication_params P S params) c observation"

definition remove_regions_from_replication_call :: "remove_regions_from_replication_input \<Rightarrow> pydict" where
  "remove_regions_from_replication_call i = py_params
     [(''secret_id'', opt_to_py PyStr (zrrfri_secret_id i)),
      (''remove_replica_regions'', opt_to_py (seq_to_py PyStr) (zrrfri_remove_replica_regions i))]
     []"

subsection \<open>\<open>ReplicateSecretToRegions\<close>\<close>

record replicate_secret_to_regions_input =
  zrstri_secret_id :: "string option"
  zrstri_add_replica_regions :: "replica_region_type list option"
  zrstri_force_overwrite_replica_secret :: "bool option"

definition replicate_secret_to_regions_params :: "pyo3 \<Rightarrow> sec_types \<Rightarrow> pydict \<Rightarrow>
    replicate_secret_to_regions_input pyresult" where
  "replicate_secret_to_regions_params P S params =
     and_then (op_param P ''secrets-manager'' ''ReplicateSecretToRegions'' params ''secret_id'' ''str'' (string_from_py P)) (\<lambda>secret_id.
     and_then (op_param P ''secrets-manager'' ''ReplicateSecretToRegions'' params ''add_replica_regions'' ''sequence'' (seq_from_py P ''dict (ReplicaRegionType)'' (replica_region_type_from_py P S))) (\<lambda>add_replica_regions.
     and_then (op_param P ''secrets-manager'' ''ReplicateSecretToRegions'' params ''force_overwrite_replica_secret'' ''bool'' (bool_from_py P)) (\<lambda>force_overwrite_replica_secret.
     Inr \<lparr>zrstri_secret_id = secret_id,
       zrstri_add_replica_regions = add_replica_regions,
       zrstri_force_overwrite_replica_secret = force_overwrite_replica_secret\<rparr>)))"

definition replicate_secret_to_regions :: "('cfg, 'client) service_env \<Rightarrow> pyo3 \<Rightarrow> sec_types \<Rightarrow> unit pyresult \<Rightarrow> bool \<Rightarrow>
    ('client \<Rightarrow> replicate_secret_to_regions_input \<Rightarrow> trip list \<times> (('e, http_response) sdk_error + replicate_secret_to_regions_output)) \<Rightarrow>
    'client client_handle \<Rightarrow> pydict \<Rightarrow> pydict option \<Rightarrow>
    (replicate_secret_to_regions_output pyresult \<times> 'client client_handle \<times> pydict option) option" where
  "replicate_secret_to_regions E P S bridge interrupted send c params observation =
     execute E bridge interrupted send no_details
       ''ReplicateSecretToRegions'' (replicate_secret_to_regions_params P S params) c observation"

definition replicate_secret_to_regions_call :: "replicate_secret_to_regions_input \<Rightarrow> pydict" where
  "replicate_secret_to_regions_call i = py_params
     [(''secret_id'', opt_to_py PyStr (zrstri_secret_id i)),
      (''add_replica_regions'', opt_to_py (seq_to_py replica_region_type_to_py) (zrstri_add_replica_regions i))]
     [(''force_overwrite_replica_secret'', opt_to_py PyBool (zrstri_force_overwrite_replica_secret i))]"

subsection \<open>\<open>RestoreSecret\<close>\<close>

record restore_secret_input =
  zrsi_secret_id :: "string option"

definition restore_secret_params :: "pyo3 \<Rightarrow> sec_types \<Rightarrow> pydict \<Rightarrow>
    restore_secret_input pyresult" where
  "restore_secret_params P S params =
     and_then (op_param P ''secrets-manager'' ''RestoreSecret'' params ''secret_id'' ''str'' (string_from_py P)) (\<lambda>secret_id.
     Inr \<lparr>zrsi_secret_id = secret_id\<rparr>)"

definition restore_secret :: "('cfg, 'client) service_env \<Rightarrow> pyo3 \<Rightarrow> sec_types \<Rightarrow> unit pyresult \<Rightarrow> bool \<Rightarrow>
    ('client \<Rightarrow> restore_secret_input \<Rightarrow> trip list \<times> (('e, http_response) sdk_error + restore_secret_output)) \<Rightarrow>
    'client client_handle \<Rightarrow> pydict \<Rightarrow> pydict option \<Rightarrow>
    (restore_secret_output pyresult \<times> 'client client_handle \<times> pydict option) option" where
  "restore_secret E P S bridge interrupted send c params observation =
     execute E bridge interrupted send no_details
       ''RestoreSecret'' (restore_secret_params P S params) c observation"

definition restore_secret_call :: "restore_secret_input \<Rightarrow> pydict" where
  "restore_secret_call i = py_params
     [(''secret_id'', opt_to_py PyStr (zrsi_secret_id i))]
     []"

subsection \<open>\<open>RotateSecret\<close>\<close>

record rotate_secret_input =
  zrsi2_secret_id :: "string option"
  zrsi2_client_request_token :: "string option"
  zrsi2_rotation_lambda_arn :: "string option"
  zrsi2_rotation_rules :: "rotation_rules_type option"
  zrsi2_external_secret_rotation_metadata :: "external_secret_rotation_metadata_item list option"
  zrsi2_external_secret_rotation_role_arn :: "string option"
  zrsi2_rotate_immediately :: "bool option"

definition rotate_secret_params_1 :: "pyo3 \<Rightarrow> sec_types \<Rightarrow> pydict \<Rightarrow>
    (string option \<times> string option \<times> string option \<times> rotation_rules_type option) pyresult" where
  "rotate_secret_params_1 P S params =
     and_then (op_param P ''secrets-manager'' ''RotateSecret'' params ''secret_id'' ''str'' (string_from_py P)) (\<lambda>secret_id.
     and_then (op_param P ''secrets-manager'' ''RotateSecret'' params ''client_request_token'' ''str'' (string_from_py P)) (\<lambda>client_request_token.
     and_then (op_param P ''secrets-manager'' ''RotateSecret'' params ''rotation_lambda_arn'' ''str'' (string_from_py P)) (\<lambda>rotation_lambda_arn.
     and_then (op_param P ''secrets-manager'' ''RotateSecret'' params ''rotation_rules'' ''dict (RotationRulesType)'' (rotation_rules_type_from_py P S)) (\<lambda>rotation_rules.
     Inr (secret_id, client_request_token, rotation_lambda_arn, rotation_rules)))))"

definition rotate_secret_params_2 :: "pyo3 \<Rightarrow> sec_types \<Rightarrow> pydict \<Rightarrow>
    (external_secret_rotation_metadata_item list option \<times> string option \<times> bool option) pyresult" where
  "rotate_secret_params_2 P S params =
     and_then (op_param P ''secrets-manager'' ''RotateSecret'' params ''external_secret_rotation_metadata'' ''sequence'' (seq_from_py P ''dict (ExternalSecretRotationMetadataItem)'' (external_secret_rotation_metadata_item_from_py P S))) (\<lambda>external_secret_rotation_metadata.
     and_then (op_param P ''secrets-manager'' ''RotateSecret'' params ''external_secret_rotation_role_arn'' ''str'' (string_from_py P)) (\<lambda>external_secret_rotation_role_arn.
     and_then (op_param P ''secrets-manager'' ''RotateSecret'' params ''rotate_immediately'' ''bool'' (bool_from_py P)) (\<lambda>rotate_immediately.
     Inr (external_secret_rotation_metadata, external_secret_rotation_role_arn, rotate_immediately))))"

definition rotate_secret_params :: "pyo3 \<Rightarrow> sec_types \<Rightarrow> pydict \<Rightarrow>
    rotate_secret_input pyresult" where
  "rotate_secret_params P S params =
     and_then (rotate_secret_params_1 P S params) (\<lambda>(secret_id, client_request_token, rotation_lambda_arn, rotation_rules).
     and_then (rotate_secret_params_2 P S params) (\<lambda>(external_secret_rotation_metadata, external_secret_rotation_role_arn, rotate_immediately).
     Inr \<lparr>zrsi2_secret_id = secret_id,
       zrsi2_client_request_token = client_request_token,
       zrsi2_rotation_lambda_arn = rotation_lambda_arn,
       zrsi2_rotation_rules = rotation_rules,
       zrsi2_external_secret_rotation_metadata = external_secret_rotation_metadata,
       zrsi2_external_secret_rotation_role_arn = external_secret_rotation_role_arn,
       zrsi2_rotate_immediately = rotate_immediately\<rparr>))"

definition rotate_secret :: "('cfg, 'client) service_env \<Rightarrow> pyo3 \<Rightarrow> sec_types \<Rightarrow> unit pyresult \<Rightarrow> bool \<Rightarrow>
    ('client \<Rightarrow> rotate_secret_input \<Rightarrow> trip list \<times> (('e, http_response) sdk_error + rotate_secret_output)) \<Rightarrow>
    'client client_handle \<Rightarrow> pydict \<Rightarrow> pydict option \<Rightarrow>
    (rotate_secret_output pyresult \<times> 'client client_handle \<times> pydict option) option" where
  "rotate_secret E P S bridge interrupted send c params observation =
     execute E bridge interrupted send no_details
       ''RotateSecret'' (rotate_secret_params P S params) c observation"

definition rotate_secret_call :: "rotate_secret_input \<Rightarrow> pydict" where
  "rotate_secret_call i = py_params
     [(''secret_id'', opt_to_py PyStr (zrsi2_secret_id i))]
     [(''client_request_token'', opt_to_py PyStr (zrsi2_client_request_token i)),
      (''rotation_lambda_arn'', opt_to_py PyStr (zrsi2_rotation_lambda_arn i)),
      (''rotation_rules'', opt_to_py rotation_rules_type_to_py (zrsi2_rotation_rules i)),
      (''external_secret_rotation_metadata'', opt_to_py (seq_to_py external_secret_rotation_metadata_item_to_py) (zrsi2_external_secret_rotation_metadata i)),
      (''external_secret_rotation_role_arn'', opt_to_py PyStr (zrsi2_external_secret_rotation_role_arn i)),
      (''rotate_immediately'', opt_to_py PyBool (zrsi2_rotate_immediately i))]"

subsection \<open>\<open>StopReplicationToReplica\<close>\<close>

record stop_replication_to_replica_input =
  zsrtri_secret_id :: "string option"

definition stop_replication_to_replica_params :: "pyo3 \<Rightarrow> sec_types \<Rightarrow> pydict \<Rightarrow>
    stop_replication_to_replica_input pyresult" where
  "stop_replication_to_replica_params P S params =
     and_then (op_param P ''secrets-manager'' ''StopReplicationToReplica'' params ''secret_id'' ''str'' (string_from_py P)) (\<lambda>secret_id.
     Inr \<lparr>zsrtri_secret_id = secret_id\<rparr>)"

definition stop_replication_to_replica :: "('cfg, 'client) service_env \<Rightarrow> pyo3 \<Rightarrow> sec_types \<Rightarrow> unit pyresult \<Rightarrow> bool \<Rightarrow>
    ('client \<Rightarrow> stop_replication_to_replica_input \<Rightarrow> trip list \<times> (('e, http_response) sdk_error + stop_replication_to_replica_output)) \<Rightarrow>
    'client client_handle \<Rightarrow> pydict \<Rightarrow> pydict option \<Rightarrow>
    (stop_replication_to_replica_output pyresult \<times> 'client client_handle \<times> pydict option) option" where
  "stop_replication_to_replica E P S bridge interrupted send c params observation =
     execute E bridge interrupted send no_details
       ''StopReplicationToReplica'' (stop_replication_to_replica_params P S params) c observation"

definition stop_replication_to_replica_call :: "stop_replication_to_replica_input \<Rightarrow> pydict" where
  "stop_replication_to_replica_call i = py_params
     [(''secret_id'', opt_to_py PyStr (zsrtri_secret_id i))]
     []"

subsection \<open>\<open>TagResource\<close>\<close>

record tag_resource_input =
  ztri_secret_id :: "string option"
  ztri_tags :: "sec_tag list option"

definition tag_resource_params :: "pyo3 \<Rightarrow> sec_types \<Rightarrow> pydict \<Rightarrow>
    tag_resource_input pyresult" where
  "tag_resource_params P S params =
     and_then (op_param P ''secrets-manager'' ''TagResource'' params ''secret_id'' ''str'' (string_from_py P)) (\<lambda>secret_id.
     and_then (op_param P ''secrets-manager'' ''TagResource'' params ''tags'' ''sequence'' (seq_from_py P ''dict (Tag)'' (sec_tag_from_py P S))) (\<lambda>tags.
     Inr \<lparr>ztri_secret_id = secret_id,
       ztri_tags = tags\<rparr>))"

definition tag_resource :: "('cfg, 'client) service_env \<Rightarrow> pyo3 \<Rightarrow> sec_types \<Rightarrow> unit pyresult \<Rightarrow> bool \<Rightarrow>
    ('client \<Rightarrow> tag_resource_input \<Rightarrow> trip list \<times> (('e, http_response) sdk_error + unit)) \<Rightarrow>
    'client client_handle \<Rightarrow> pydict \<Rightarrow> pydict option \<Rightarrow>
    (unit pyresult \<times> 'client client_handle \<times> pydict option) option" where
  "tag_resource E P S bridge interrupted send c params observation =
     execute E bridge interrupted send no_details
       ''TagResource'' (tag_resource_params P S params) c observation"

definition tag_resource_call :: "tag_resource_input \<Rightarrow> pydict" where
  "tag_resource_call i = py_params
     [(''secret_id'', opt_to_py PyStr (ztri_secret_id i)),
      (''tags'', opt_to_py (seq_to_py sec_tag_to_py) (ztri_tags i))]
     []"

subsection \<open>\<open>UntagResource\<close>\<close>

record untag_resource_input =
  zuri_secret_id :: "string option"
  zuri_tag_keys :: "string list option"

definition untag_resource_params :: "pyo3 \<Rightarrow> sec_types \<Rightarrow> pydict \<Rightarrow>
    untag_resource_input pyresult" where
  "untag_resource_params P S params =
     and_then (op_param P ''secrets-manager'' ''UntagResource'' params ''secret_id'' ''str'' (string_from_py P)) (\<lambda>secret_id.
     and_then (op_param P ''secrets-manager'' ''UntagResource'' params ''tag_keys'' ''sequence'' (seq_from_py P ''str'' (string_from_py P))) (\<lambda>tag_keys.
     Inr \<lparr>zuri_secret_id = secret_id,
       zuri_tag_keys = tag_keys\<rparr>))"

definition untag_resource :: "('cfg, 'client) service_env \<Rightarrow> pyo3 \<Rightarrow> sec_types \<Rightarrow> unit pyresult \<Rightarrow> bool \<Rightarrow>
    ('client \<Rightarrow> untag_resource_input \<Rightarrow> trip list \<times> (('e, http_response) sdk_error + unit)) \<Rightarrow>
    'client client_handle \<Rightarrow> pydict \<Rightarrow> pydict option \<Rightarrow>
    (unit pyresult \<times> 'client client_handle \<times> pydict option) option" where
  "untag_resource E P S bridge interrupted send c params observation =
     execute E bridge interrupted send no_details
       ''UntagResource'' (untag_resource_params P S params) c observation"

definition untag_resource_call :: "untag_resource_input \<Rightarrow> pydict" where
  "untag_resource_call i = py_params
     [(''secret_id'', opt_to_py PyStr (zuri_secret_id i)),
      (''tag_keys'', opt_to_py (seq_to_py PyStr) (zuri_tag_keys i))]
     []"

subsection \<open>\<open>UpdateSecret\<close>\<close>

record update_secret_input =
  zusi_secret_id :: "string option"
  zusi_client_request_token :: "string option"
  zusi_description :: "string option"
  zusi_kms_key_id :: "string option"
  zusi_secret_binary :: "byte list option"
  zusi_secret_string :: "string option"
  zusi_type :: "string option"

definition update_secret_params :: "pyo3 \<Rightarrow> sec_types \<Rightarrow> pydict \<Rightarrow>
    update_secret_input pyresult" where
  "update_secret_params P S params =
     and_then (op_param P ''secrets-manager'' ''UpdateSecret'' params ''secret_id'' ''str'' (string_from_py P)) (\<lambda>secret_id.
     and_then (op_param P ''secrets-manager'' ''UpdateSecret'' params ''client_request_token'' ''str'' (string_from_py P)) (\<lambda>client_request_token.
     and_then (op_param P ''secrets-manager'' ''UpdateSecret'' params ''description'' ''str'' (string_from_py P)) (\<lambda>description.
     and_then (op_param P ''secrets-manager'' ''UpdateSecret'' params ''kms_key_id'' ''str'' (string_from_py P)) (\<lambda>kms_key_id.
     and_then (op_param P ''secrets-manager'' ''UpdateSecret'' params ''secret_binary'' ''bytes'' (blob_from_py P)) (\<lambda>secret_binary.
     and_then (op_param P ''secrets-manager'' ''UpdateSecret'' params ''secret_string'' ''str'' (string_from_py P)) (\<lambda>secret_string.
     and_then (op_param P ''secrets-manager'' ''UpdateSecret'' params ''type'' ''str'' (string_from_py P)) (\<lambda>type.
     Inr \<lparr>zusi_secret_id = secret_id,
       zusi_client_request_token = client_request_token,
       zusi_description = description,
       zusi_kms_key_id = kms_key_id,
       zusi_secret_binary = secret_binary,
       zusi_secret_string = secret_string,
       zusi_type = type\<rparr>)))))))"

definition update_secret :: "('cfg, 'client) service_env \<Rightarrow> pyo3 \<Rightarrow> sec_types \<Rightarrow> unit pyresult \<Rightarrow> bool \<Rightarrow>
    ('client \<Rightarrow> update_secret_input \<Rightarrow> trip list \<times> (('e, http_response) sdk_error + update_secret_output)) \<Rightarrow>
    'client client_handle \<Rightarrow> pydict \<Rightarrow> pydict option \<Rightarrow>
    (update_secret_output pyresult \<times> 'client client_handle \<times> pydict option) option" where
  "update_secret E P S bridge interrupted send c params observation =
     execute E bridge interrupted send no_details
       ''UpdateSecret'' (update_secret_params P S params) c observation"

definition update_secret_call :: "update_secret_input \<Rightarrow> pydict" where
  "update_secret_call i = py_params
     [(''secret_id'', opt_to_py PyStr (zusi_secret_id i))]
     [(''client_request_token'', opt_to_py PyStr (zusi_client_request_token i)),
      (''description'', opt_to_py PyStr (zusi_description i)),
      (''kms_key_id'', opt_to_py PyStr (zusi_kms_key_id i)),
      (''secret_binary'', opt_to_py PyBytes (zusi_secret_binary i)),
      (''secret_string'', opt_to_py PyStr (zusi_secret_string i)),
      (''type'', opt_to_py PyStr (zusi_type i))]"

subsection \<open>\<open>UpdateSecretVersionStage\<close>\<close>

record update_secret_version_stage_input =
  zusvsi_secret_id :: "string option"
  zusvsi_version_stage :: "string option"
  zusvsi_remove_from_version_id :: "string option"
  zusvsi_move_to_version_id :: "string option"

definition update_secret_version_stage_params :: "pyo3 \<Rightarrow> sec_types \<Rightarrow> pydict \<Rightarrow>
    update_secret_version_stage_input pyresult" where
  "update_secret_version_stage_params P S params =
     and_then (op_param P ''secrets-manager'' ''UpdateSecretVersionStage'' params ''secret_id'' ''str'' (string_from_py P)) (\<lambda>secret_id.
     and_then (op_param P ''secrets-manager'' ''UpdateSecretVersionStage'' params ''version_stage'' ''str'' (string_from_py P)) (\<lambda>version_stage.
     and_then (op_param P ''secrets-manager'' ''UpdateSecretVersionStage'' params ''remove_from_version_id'' ''str'' (string_from_py P)) (\<lambda>remove_from_version_id.
     and_then (op_param P ''secrets-manager'' ''UpdateSecretVersionStage'' params ''move_to_version_id'' ''str'' (string_from_py P)) (\<lambda>move_to_version_id.
     Inr \<lparr>zusvsi_secret_id = secret_id,
       zusvsi_version_stage = version_stage,
       zusvsi_remove_from_version_id = remove_from_version_id,
       zusvsi_move_to_version_id = move_to_version_id\<rparr>))))"

definition update_secret_version_stage :: "('cfg, 'client) service_env \<Rightarrow> pyo3 \<Rightarrow> sec_types \<Rightarrow> unit pyresult \<Rightarrow> bool \<Rightarrow>
    ('client \<Rightarrow> update_secret_version_stage_input \<Rightarrow> trip list \<times> (('e, http_response) sdk_error + update_secret_version_stage_output)) \<Rightarrow>
    'client client_handle \<Rightarrow> pydict \<Rightarrow> pydict option \<Rightarrow>
    (update_secret_version_stage_output pyresult \<times> 'client client_handle \<times> pydict option) option" where
  "update_secret_version_stage E P S bridge interrupted send c params observation =
     execute E bridge interrupted send no_details
       ''UpdateSecretVersionStage'' (update_secret_version_stage_params P S params) c observation"

definition update_secret_version_stage_call :: "update_secret_version_stage_input \<Rightarrow> pydict" where
  "update_secret_version_stage_call i = py_params
     [(''secret_id'', opt_to_py PyStr (zusvsi_secret_id i)),
      (''version_stage'', opt_to_py PyStr (zusvsi_version_stage i))]
     [(''remove_from_version_id'', opt_to_py PyStr (zusvsi_remove_from_version_id i)),
      (''move_to_version_id'', opt_to_py PyStr (zusvsi_move_to_version_id i))]"

subsection \<open>\<open>ValidateResourcePolicy\<close>\<close>

record validate_resource_policy_input =
  zvrpi_secret_id :: "string option"
  zvrpi_resource_policy :: "string option"

definition validate_resource_policy_params :: "pyo3 \<Rightarrow> sec_types \<Rightarrow> pydict \<Rightarrow>
    validate_resource_policy_input pyresult" where
  "validate_resource_policy_params P S params =
     and_then (op_param P ''secrets-manager'' ''ValidateResourcePolicy'' params ''secret_id'' ''str'' (string_from_py P)) (\<lambda>secret_id.
     and_then (op_param P ''secrets-manager'' ''ValidateResourcePolicy'' params ''resource_policy'' ''str'' (string_from_py P)) (\<lambda>resource_policy.
     Inr \<lparr>zvrpi_secret_id = secret_id,
       zvrpi_resource_policy = resource_policy\<rparr>))"

definition validate_resource_policy :: "('cfg, 'client) service_env \<Rightarrow> pyo3 \<Rightarrow> sec_types \<Rightarrow> unit pyresult \<Rightarrow> bool \<Rightarrow>
    ('client \<Rightarrow> validate_resource_policy_input \<Rightarrow> trip list \<times> (('e, http_response) sdk_error + validate_resource_policy_output)) \<Rightarrow>
    'client client_handle \<Rightarrow> pydict \<Rightarrow> pydict option \<Rightarrow>
    (validate_resource_policy_output pyresult \<times> 'client client_handle \<times> pydict option) option" where
  "validate_resource_policy E P S bridge interrupted send c params observation =
     execute E bridge interrupted send no_details
       ''ValidateResourcePolicy'' (validate_resource_policy_params P S params) c observation"

definition validate_resource_policy_call :: "validate_resource_policy_input \<Rightarrow> pydict" where
  "validate_resource_policy_call i = py_params
     [(''resource_policy'', opt_to_py PyStr (zvrpi_resource_policy i))]
     [(''secret_id'', opt_to_py PyStr (zvrpi_secret_id i))]"

section \<open>Parameters arrive\<close>

context sec_conversions
begin

lemma batch_get_secret_value_delivered: "batch_get_secret_value_params P S (batch_get_secret_value_call i) = Inr i"
proof -
  have s: "str_keys (batch_get_secret_value_call i)" by (simp add: batch_get_secret_value_call_def)
  note p = arguments [OF batch_get_secret_value_call_def [of i], simplified]
  have a: "argument (batch_get_secret_value_call i) ''secret_id_list'' = opt_to_py (seq_to_py PyStr) (zbgsvi_secret_id_list i)"
    "argument (batch_get_secret_value_call i) ''filters'' = opt_to_py (seq_to_py filter_to_py) (zbgsvi_filters i)"
    "argument (batch_get_secret_value_call i) ''max_results'' = opt_to_py i32_to_py (zbgsvi_max_results i)"
    "argument (batch_get_secret_value_call i) ''next_token'' = opt_to_py PyStr (zbgsvi_next_token i)"
    by (simp_all only: p)
  show ?thesis
    unfolding batch_get_secret_value_params_def
    by (simp add: param_reads [OF reads_seq [OF reads_str] s a(1)]
        param_reads [OF reads_seq [OF filter_reads] s a(2)]
        param_reads [OF reads_i32 s a(3)]
        param_reads [OF reads_str s a(4)])
qed

lemma cancel_rotate_secret_delivered: "cancel_rotate_secret_params P S (cancel_rotate_secret_call i) = Inr i"
proof -
  have s: "str_keys (cancel_rotate_secret_call i)" by (simp add: cancel_rotate_secret_call_def)
  have a: "argument (cancel_rotate_secret_call i) ''secret_id'' = opt_to_py PyStr (zcrsi_secret_id i)"
    unfolding cancel_rotate_secret_call_def by (simp_all add: argument_py_params)
  show ?thesis
    unfolding cancel_rotate_secret_params_def
    by (simp add: param_reads [OF reads_str s a])
qed

lemma create_secret_delivered: "create_secret_params P S (create_secret_call i) = Inr i"
proof -
  have s: "str_keys (create_secret_call i)" by (simp add: create_secret_call_def)
  note p = arguments [OF create_secret_call_def [of i], simplified]
  have a: "argument (create_secret_call i) ''name'' = opt_to_py PyStr (zcsi_name i)"
    "argument (create_secret_call i) ''client_request_token'' = opt_to_py PyStr (zcsi_client_request_token i)"
    "argument (create_secret_call i) ''description'' = opt_to_py PyStr (zcsi_description i)"
    "argument (create_secret_call i) ''kms_key_id'' = opt_to_py PyStr (zcsi_kms_key_id i)"
    "argument (create_secret_call i) ''secret_binary'' = opt_to_py PyBytes (zcsi_secret_binary i)"
    "argument (create_secret_call i) ''secret_string'' = opt_to_py PyStr (zcsi_secret_string i)"
    "argument (create_secret_call i) ''tags'' = opt_to_py (seq_to_py sec_tag_to_py) (zcsi_tags i)"
    "argument (create_secret_call i) ''add_replica_regions'' = opt_to_py (seq_to_py replica_region_type_to_py) (zcsi_add_replica_regions i)"
    "argument (create_secret_call i) ''force_overwrite_replica_secret'' = opt_to_py PyBool (zcsi_force_overwrite_replica_secret i)"
    "argument (create_secret_call i) ''type'' = opt_to_py PyStr (zcsi_type i)"
    by (simp_all only: p)
  show ?thesis
    unfolding create_secret_params_def create_secret_params_1_def create_secret_params_2_def
    by (simp add: param_reads [OF reads_str s a(1)]
        param_reads [OF reads_str s a(2)]
        param_reads [OF reads_str s a(3)]
        param_reads [OF reads_str s a(4)]
        param_reads [OF reads_blob s a(5)]
        param_reads [OF reads_str s a(6)]
        param_reads [OF reads_seq [OF sec_tag_reads] s a(7)]
        param_reads [OF reads_seq [OF replica_region_type_reads] s a(8)]
        param_reads [OF reads_bool s a(9)]
        param_reads [OF reads_str s a(10)])
qed

lemma delete_resource_policy_delivered: "delete_resource_policy_params P S (delete_resource_policy_call i) = Inr i"
proof -
  have s: "str_keys (delete_resource_policy_call i)" by (simp add: delete_resource_policy_call_def)
  have a: "argument (delete_resource_policy_call i) ''secret_id'' = opt_to_py PyStr (zdrpi_secret_id i)"
    unfolding delete_resource_policy_call_def by (simp_all add: argument_py_params)
  show ?thesis
    unfolding delete_resource_policy_params_def
    by (simp add: param_reads [OF reads_str s a])
qed

lemma delete_secret_delivered: "delete_secret_params P S (delete_secret_call i) = Inr i"
proof -
  have s: "str_keys (delete_secret_call i)" by (simp add: delete_secret_call_def)
  note p = arguments [OF delete_secret_call_def [of i], simplified]
  have a: "argument (delete_secret_call i) ''secret_id'' = opt_to_py PyStr (zdsi_secret_id i)"
    "argument (delete_secret_call i) ''recovery_window_in_days'' = opt_to_py i64_to_py (zdsi_recovery_window_in_days i)"
    "argument (delete_secret_call i) ''force_delete_without_recovery'' = opt_to_py PyBool (zdsi_force_delete_without_recovery i)"
    by (simp_all only: p)
  show ?thesis
    unfolding delete_secret_params_def
    by (simp add: param_reads [OF reads_str s a(1)]
        param_reads [OF reads_i64 s a(2)]
        param_reads [OF reads_bool s a(3)])
qed

lemma describe_secret_delivered: "describe_secret_params P S (describe_secret_call i) = Inr i"
proof -
  have s: "str_keys (describe_secret_call i)" by (simp add: describe_secret_call_def)
  have a: "argument (describe_secret_call i) ''secret_id'' = opt_to_py PyStr (zdsi2_secret_id i)"
    unfolding describe_secret_call_def by (simp_all add: argument_py_params)
  show ?thesis
    unfolding describe_secret_params_def
    by (simp add: param_reads [OF reads_str s a])
qed

lemma get_random_password_delivered: "get_random_password_params P S (get_random_password_call i) = Inr i"
proof -
  have s: "str_keys (get_random_password_call i)" by (simp add: get_random_password_call_def)
  note p = arguments [OF get_random_password_call_def [of i], simplified]
  have a: "argument (get_random_password_call i) ''password_length'' = opt_to_py i64_to_py (zgrpi_password_length i)"
    "argument (get_random_password_call i) ''exclude_characters'' = opt_to_py PyStr (zgrpi_exclude_characters i)"
    "argument (get_random_password_call i) ''exclude_numbers'' = opt_to_py PyBool (zgrpi_exclude_numbers i)"
    "argument (get_random_password_call i) ''exclude_punctuation'' = opt_to_py PyBool (zgrpi_exclude_punctuation i)"
    "argument (get_random_password_call i) ''exclude_uppercase'' = opt_to_py PyBool (zgrpi_exclude_uppercase i)"
    "argument (get_random_password_call i) ''exclude_lowercase'' = opt_to_py PyBool (zgrpi_exclude_lowercase i)"
    "argument (get_random_password_call i) ''include_space'' = opt_to_py PyBool (zgrpi_include_space i)"
    "argument (get_random_password_call i) ''require_each_included_type'' = opt_to_py PyBool (zgrpi_require_each_included_type i)"
    by (simp_all only: p)
  show ?thesis
    unfolding get_random_password_params_def get_random_password_params_1_def get_random_password_params_2_def
    by (simp add: param_reads [OF reads_i64 s a(1)]
        param_reads [OF reads_str s a(2)]
        param_reads [OF reads_bool s a(3)]
        param_reads [OF reads_bool s a(4)]
        param_reads [OF reads_bool s a(5)]
        param_reads [OF reads_bool s a(6)]
        param_reads [OF reads_bool s a(7)]
        param_reads [OF reads_bool s a(8)])
qed

lemma get_resource_policy_delivered: "get_resource_policy_params P S (get_resource_policy_call i) = Inr i"
proof -
  have s: "str_keys (get_resource_policy_call i)" by (simp add: get_resource_policy_call_def)
  have a: "argument (get_resource_policy_call i) ''secret_id'' = opt_to_py PyStr (zgrpi2_secret_id i)"
    unfolding get_resource_policy_call_def by (simp_all add: argument_py_params)
  show ?thesis
    unfolding get_resource_policy_params_def
    by (simp add: param_reads [OF reads_str s a])
qed

lemma get_secret_value_delivered: "get_secret_value_params P S (get_secret_value_call i) = Inr i"
proof -
  have s: "str_keys (get_secret_value_call i)" by (simp add: get_secret_value_call_def)
  note p = arguments [OF get_secret_value_call_def [of i], simplified]
  have a: "argument (get_secret_value_call i) ''secret_id'' = opt_to_py PyStr (zgsvi_secret_id i)"
    "argument (get_secret_value_call i) ''version_id'' = opt_to_py PyStr (zgsvi_version_id i)"
    "argument (get_secret_value_call i) ''version_stage'' = opt_to_py PyStr (zgsvi_version_stage i)"
    by (simp_all only: p)
  show ?thesis
    unfolding get_secret_value_params_def
    by (simp add: param_reads [OF reads_str s a(1)]
        param_reads [OF reads_str s a(2)]
        param_reads [OF reads_str s a(3)])
qed

lemma list_secret_version_ids_delivered: "list_secret_version_ids_params P S (list_secret_version_ids_call i) = Inr i"
proof -
  have s: "str_keys (list_secret_version_ids_call i)" by (simp add: list_secret_version_ids_call_def)
  note p = arguments [OF list_secret_version_ids_call_def [of i], simplified]
  have a: "argument (list_secret_version_ids_call i) ''secret_id'' = opt_to_py PyStr (zlsvii_secret_id i)"
    "argument (list_secret_version_ids_call i) ''max_results'' = opt_to_py i32_to_py (zlsvii_max_results i)"
    "argument (list_secret_version_ids_call i) ''next_token'' = opt_to_py PyStr (zlsvii_next_token i)"
    "argument (list_secret_version_ids_call i) ''include_deprecated'' = opt_to_py PyBool (zlsvii_include_deprecated i)"
    by (simp_all only: p)
  show ?thesis
    unfolding list_secret_version_ids_params_def
    by (simp add: param_reads [OF reads_str s a(1)]
        param_reads [OF reads_i32 s a(2)]
        param_reads [OF reads_str s a(3)]
        param_reads [OF reads_bool s a(4)])
qed

lemma list_secrets_delivered: "list_secrets_params P S (list_secrets_call i) = Inr i"
proof -
  have s: "str_keys (list_secrets_call i)" by (simp add: list_secrets_call_def)
  note p = arguments [OF list_secrets_call_def [of i], simplified]
  have a: "argument (list_secrets_call i) ''include_planned_deletion'' = opt_to_py PyBool (zlsi_include_planned_deletion i)"
    "argument (list_secrets_call i) ''max_results'' = opt_to_py i32_to_py (zlsi_max_results i)"
    "argument (list_secrets_call i) ''next_token'' = opt_to_py PyStr (zlsi_next_token i)"
    "argument (list_secrets_call i) ''filters'' = opt_to_py (seq_to_py filter_to_py) (zlsi_filters i)"
    "argument (list_secrets_call i) ''sort_order'' = opt_to_py PyStr (zlsi_sort_order i)"
    "argument (list_secrets_call i) ''sort_by'' = opt_to_py PyStr (zlsi_sort_by i)"
    by (simp_all only: p)
  show ?thesis
    unfolding list_secrets_params_def
    by (simp add: param_reads [OF reads_bool s a(1)]
        param_reads [OF reads_i32 s a(2)]
        param_reads [OF reads_str s a(3)]
        param_reads [OF reads_seq [OF filter_reads] s a(4)]
        param_reads [OF reads_enum s a(5)]
        param_reads [OF reads_enum s a(6)])
qed

lemma put_resource_policy_delivered: "put_resource_policy_params P S (put_resource_policy_call i) = Inr i"
proof -
  have s: "str_keys (put_resource_policy_call i)" by (simp add: put_resource_policy_call_def)
  note p = arguments [OF put_resource_policy_call_def [of i], simplified]
  have a: "argument (put_resource_policy_call i) ''secret_id'' = opt_to_py PyStr (zprpi_secret_id i)"
    "argument (put_resource_policy_call i) ''resource_policy'' = opt_to_py PyStr (zprpi_resource_policy i)"
    "argument (put_resource_policy_call i) ''block_public_policy'' = opt_to_py PyBool (zprpi_block_public_policy i)"
    by (simp_all only: p)
  show ?thesis
    unfolding put_resource_policy_params_def
    by (simp add: param_reads [OF reads_str s a(1)]
        param_reads [OF reads_str s a(2)]
        param_reads [OF reads_bool s a(3)])
qed

lemma put_secret_value_delivered: "put_secret_value_params P S (put_secret_value_call i) = Inr i"
proof -
  have s: "str_keys (put_secret_value_call i)" by (simp add: put_secret_value_call_def)
  note p = arguments [OF put_secret_value_call_def [of i], simplified]
  have a: "argument (put_secret_value_call i) ''secret_id'' = opt_to_py PyStr (zpsvi_secret_id i)"
    "argument (put_secret_value_call i) ''client_request_token'' = opt_to_py PyStr (zpsvi_client_request_token i)"
    "argument (put_secret_value_call i) ''secret_binary'' = opt_to_py PyBytes (zpsvi_secret_binary i)"
    "argument (put_secret_value_call i) ''secret_string'' = opt_to_py PyStr (zpsvi_secret_string i)"
    "argument (put_secret_value_call i) ''version_stages'' = opt_to_py (seq_to_py PyStr) (zpsvi_version_stages i)"
    "argument (put_secret_value_call i) ''rotation_token'' = opt_to_py PyStr (zpsvi_rotation_token i)"
    by (simp_all only: p)
  show ?thesis
    unfolding put_secret_value_params_def
    by (simp add: param_reads [OF reads_str s a(1)]
        param_reads [OF reads_str s a(2)]
        param_reads [OF reads_blob s a(3)]
        param_reads [OF reads_str s a(4)]
        param_reads [OF reads_seq [OF reads_str] s a(5)]
        param_reads [OF reads_str s a(6)])
qed

lemma remove_regions_from_replication_delivered: "remove_regions_from_replication_params P S (remove_regions_from_replication_call i) = Inr i"
proof -
  have s: "str_keys (remove_regions_from_replication_call i)" by (simp add: remove_regions_from_replication_call_def)
  have a: "argument (remove_regions_from_replication_call i) ''secret_id'' = opt_to_py PyStr (zrrfri_secret_id i)"
    "argument (remove_regions_from_replication_call i) ''remove_replica_regions'' = opt_to_py (seq_to_py PyStr) (zrrfri_remove_replica_regions i)"
    unfolding remove_regions_from_replication_call_def by (simp_all add: argument_py_params)
  show ?thesis
    unfolding remove_regions_from_replication_params_def
    by (simp add: param_reads [OF reads_str s a(1)]
        param_reads [OF reads_seq [OF reads_str] s a(2)])
qed

lemma replicate_secret_to_regions_delivered: "replicate_secret_to_regions_params P S (replicate_secret_to_regions_call i) = Inr i"
proof -
  have s: "str_keys (replicate_secret_to_regions_call i)" by (simp add: replicate_secret_to_regions_call_def)
  note p = arguments [OF replicate_secret_to_regions_call_def [of i], simplified]
  have a: "argument (replicate_secret_to_regions_call i) ''secret_id'' = opt_to_py PyStr (zrstri_secret_id i)"
    "argument (replicate_secret_to_regions_call i) ''add_replica_regions'' = opt_to_py (seq_to_py replica_region_type_to_py) (zrstri_add_replica_regions i)"
    "argument (replicate_secret_to_regions_call i) ''force_overwrite_replica_secret'' = opt_to_py PyBool (zrstri_force_overwrite_replica_secret i)"
    by (simp_all only: p)
  show ?thesis
    unfolding replicate_secret_to_regions_params_def
    by (simp add: param_reads [OF reads_str s a(1)]
        param_reads [OF reads_seq [OF replica_region_type_reads] s a(2)]
        param_reads [OF reads_bool s a(3)])
qed

lemma restore_secret_delivered: "restore_secret_params P S (restore_secret_call i) = Inr i"
proof -
  have s: "str_keys (restore_secret_call i)" by (simp add: restore_secret_call_def)
  have a: "argument (restore_secret_call i) ''secret_id'' = opt_to_py PyStr (zrsi_secret_id i)"
    unfolding restore_secret_call_def by (simp_all add: argument_py_params)
  show ?thesis
    unfolding restore_secret_params_def
    by (simp add: param_reads [OF reads_str s a])
qed

lemma rotate_secret_delivered: "rotate_secret_params P S (rotate_secret_call i) = Inr i"
proof -
  have s: "str_keys (rotate_secret_call i)" by (simp add: rotate_secret_call_def)
  note p = arguments [OF rotate_secret_call_def [of i], simplified]
  have a: "argument (rotate_secret_call i) ''secret_id'' = opt_to_py PyStr (zrsi2_secret_id i)"
    "argument (rotate_secret_call i) ''client_request_token'' = opt_to_py PyStr (zrsi2_client_request_token i)"
    "argument (rotate_secret_call i) ''rotation_lambda_arn'' = opt_to_py PyStr (zrsi2_rotation_lambda_arn i)"
    "argument (rotate_secret_call i) ''rotation_rules'' = opt_to_py rotation_rules_type_to_py (zrsi2_rotation_rules i)"
    "argument (rotate_secret_call i) ''external_secret_rotation_metadata'' = opt_to_py (seq_to_py external_secret_rotation_metadata_item_to_py) (zrsi2_external_secret_rotation_metadata i)"
    "argument (rotate_secret_call i) ''external_secret_rotation_role_arn'' = opt_to_py PyStr (zrsi2_external_secret_rotation_role_arn i)"
    "argument (rotate_secret_call i) ''rotate_immediately'' = opt_to_py PyBool (zrsi2_rotate_immediately i)"
    by (simp_all only: p)
  show ?thesis
    unfolding rotate_secret_params_def rotate_secret_params_1_def rotate_secret_params_2_def
    by (simp add: param_reads [OF reads_str s a(1)]
        param_reads [OF reads_str s a(2)]
        param_reads [OF reads_str s a(3)]
        param_reads [OF rotation_rules_type_reads s a(4)]
        param_reads [OF reads_seq [OF external_secret_rotation_metadata_item_reads] s a(5)]
        param_reads [OF reads_str s a(6)]
        param_reads [OF reads_bool s a(7)])
qed

lemma stop_replication_to_replica_delivered: "stop_replication_to_replica_params P S (stop_replication_to_replica_call i) = Inr i"
proof -
  have s: "str_keys (stop_replication_to_replica_call i)" by (simp add: stop_replication_to_replica_call_def)
  have a: "argument (stop_replication_to_replica_call i) ''secret_id'' = opt_to_py PyStr (zsrtri_secret_id i)"
    unfolding stop_replication_to_replica_call_def by (simp_all add: argument_py_params)
  show ?thesis
    unfolding stop_replication_to_replica_params_def
    by (simp add: param_reads [OF reads_str s a])
qed

lemma tag_resource_delivered: "tag_resource_params P S (tag_resource_call i) = Inr i"
proof -
  have s: "str_keys (tag_resource_call i)" by (simp add: tag_resource_call_def)
  have a: "argument (tag_resource_call i) ''secret_id'' = opt_to_py PyStr (ztri_secret_id i)"
    "argument (tag_resource_call i) ''tags'' = opt_to_py (seq_to_py sec_tag_to_py) (ztri_tags i)"
    unfolding tag_resource_call_def by (simp_all add: argument_py_params)
  show ?thesis
    unfolding tag_resource_params_def
    by (simp add: param_reads [OF reads_str s a(1)]
        param_reads [OF reads_seq [OF sec_tag_reads] s a(2)])
qed

lemma untag_resource_delivered: "untag_resource_params P S (untag_resource_call i) = Inr i"
proof -
  have s: "str_keys (untag_resource_call i)" by (simp add: untag_resource_call_def)
  have a: "argument (untag_resource_call i) ''secret_id'' = opt_to_py PyStr (zuri_secret_id i)"
    "argument (untag_resource_call i) ''tag_keys'' = opt_to_py (seq_to_py PyStr) (zuri_tag_keys i)"
    unfolding untag_resource_call_def by (simp_all add: argument_py_params)
  show ?thesis
    unfolding untag_resource_params_def
    by (simp add: param_reads [OF reads_str s a(1)]
        param_reads [OF reads_seq [OF reads_str] s a(2)])
qed

lemma update_secret_delivered: "update_secret_params P S (update_secret_call i) = Inr i"
proof -
  have s: "str_keys (update_secret_call i)" by (simp add: update_secret_call_def)
  note p = arguments [OF update_secret_call_def [of i], simplified]
  have a: "argument (update_secret_call i) ''secret_id'' = opt_to_py PyStr (zusi_secret_id i)"
    "argument (update_secret_call i) ''client_request_token'' = opt_to_py PyStr (zusi_client_request_token i)"
    "argument (update_secret_call i) ''description'' = opt_to_py PyStr (zusi_description i)"
    "argument (update_secret_call i) ''kms_key_id'' = opt_to_py PyStr (zusi_kms_key_id i)"
    "argument (update_secret_call i) ''secret_binary'' = opt_to_py PyBytes (zusi_secret_binary i)"
    "argument (update_secret_call i) ''secret_string'' = opt_to_py PyStr (zusi_secret_string i)"
    "argument (update_secret_call i) ''type'' = opt_to_py PyStr (zusi_type i)"
    by (simp_all only: p)
  show ?thesis
    unfolding update_secret_params_def
    by (simp add: param_reads [OF reads_str s a(1)]
        param_reads [OF reads_str s a(2)]
        param_reads [OF reads_str s a(3)]
        param_reads [OF reads_str s a(4)]
        param_reads [OF reads_blob s a(5)]
        param_reads [OF reads_str s a(6)]
        param_reads [OF reads_str s a(7)])
qed

lemma update_secret_version_stage_delivered: "update_secret_version_stage_params P S (update_secret_version_stage_call i) = Inr i"
proof -
  have s: "str_keys (update_secret_version_stage_call i)" by (simp add: update_secret_version_stage_call_def)
  note p = arguments [OF update_secret_version_stage_call_def [of i], simplified]
  have a: "argument (update_secret_version_stage_call i) ''secret_id'' = opt_to_py PyStr (zusvsi_secret_id i)"
    "argument (update_secret_version_stage_call i) ''version_stage'' = opt_to_py PyStr (zusvsi_version_stage i)"
    "argument (update_secret_version_stage_call i) ''remove_from_version_id'' = opt_to_py PyStr (zusvsi_remove_from_version_id i)"
    "argument (update_secret_version_stage_call i) ''move_to_version_id'' = opt_to_py PyStr (zusvsi_move_to_version_id i)"
    by (simp_all only: p)
  show ?thesis
    unfolding update_secret_version_stage_params_def
    by (simp add: param_reads [OF reads_str s a(1)]
        param_reads [OF reads_str s a(2)]
        param_reads [OF reads_str s a(3)]
        param_reads [OF reads_str s a(4)])
qed

lemma validate_resource_policy_delivered: "validate_resource_policy_params P S (validate_resource_policy_call i) = Inr i"
proof -
  have s: "str_keys (validate_resource_policy_call i)" by (simp add: validate_resource_policy_call_def)
  have a: "argument (validate_resource_policy_call i) ''secret_id'' = opt_to_py PyStr (zvrpi_secret_id i)"
    "argument (validate_resource_policy_call i) ''resource_policy'' = opt_to_py PyStr (zvrpi_resource_policy i)"
    unfolding validate_resource_policy_call_def by (simp_all add: argument_py_params)
  show ?thesis
    unfolding validate_resource_policy_params_def
    by (simp add: param_reads [OF reads_str s a(1)]
        param_reads [OF reads_str s a(2)])
qed

end

end
