(* ===== verification/CognitoTypes.thy ===== *)
theory CognitoTypes
  imports Secrets
begin

text \<open>
  The structures of the Cognito Identity extension, from \<open>crates/rboto-cognito-identity/src/generated.rs\<close>: the converters
  between Python dictionaries and the SDK's structures, which are records with the members the code
  reads and sets. An enum of the SDK is its text, and \<open>order\<close> is the order in which the iterator of
  a \<open>HashMap\<close> yields its entries. The builders belong to the SDK and are the record \<open>cognito_types\<close>.
\<close>

section \<open>Structures\<close>

record cognito_identity_provider =
  cgcip_provider_name :: "string option"
  cgcip_client_id :: "string option"
  cgcip_server_side_token_check :: "bool option"

record cognito_credentials =
  cgc_access_key_id :: "string option"
  cgc_secret_key :: "string option"
  cgc_session_token :: "string option"
  cgc_expiration :: "datetime option"

record identity_description =
  cgid_identity_id :: "string option"
  cgid_logins :: "string list option"
  cgid_creation_date :: "datetime option"
  cgid_last_modified_date :: "datetime option"

record identity_pool_short_description =
  cgipsd_identity_pool_id :: "string option"
  cgipsd_identity_pool_name :: "string option"

record mapping_rule =
  cgmr_claim :: string
  cgmr_match_type :: string
  cgmr_value :: string
  cgmr_role_arn :: string

record rules_configuration_type =
  cgrct_rules :: "mapping_rule list"

record role_mapping =
  cgrm_type :: string
  cgrm_ambiguous_role_resolution :: "string option"
  cgrm_rules_configuration :: "rules_configuration_type option"

record unprocessed_identity_id =
  cguii_identity_id :: "string option"
  cguii_error_code :: "string option"

record cognito_types = smithy_dates +
  build_cognito_identity_provider :: "string option \<Rightarrow> string option \<Rightarrow> bool option \<Rightarrow> cognito_identity_provider"
  build_cognito_credentials :: "string option \<Rightarrow> string option \<Rightarrow> string option \<Rightarrow> datetime option \<Rightarrow> cognito_credentials"
  build_identity_description :: "string option \<Rightarrow> string list option \<Rightarrow> datetime option \<Rightarrow> datetime option \<Rightarrow> identity_description"
  build_identity_pool_short_description :: "string option \<Rightarrow> string option \<Rightarrow> identity_pool_short_description"
  build_mapping_rule :: "string option \<Rightarrow> string option \<Rightarrow> string option \<Rightarrow> string option \<Rightarrow> unit + mapping_rule"
  build_rules_configuration_type :: "mapping_rule list option \<Rightarrow> unit + rules_configuration_type"
  build_role_mapping :: "string option \<Rightarrow> string option \<Rightarrow> rules_configuration_type option \<Rightarrow> unit + role_mapping"
  build_unprocessed_identity_id :: "string option \<Rightarrow> string option \<Rightarrow> unprocessed_identity_id"

section \<open>Converters\<close>

definition cognito_identity_provider_from_py :: "pyo3 \<Rightarrow> cognito_types \<Rightarrow> pyval \<Rightarrow> cognito_identity_provider pyresult" where
  "cognito_identity_provider_from_py P S value =
     and_then (cast_dict P value) (\<lambda>values.
     and_then (member P values ''provider_name'' ''str'' (string_from_py P)) (\<lambda>provider_name_value.
     and_then (member P values ''client_id'' ''str'' (string_from_py P)) (\<lambda>client_id_value.
     and_then (member P values ''server_side_token_check'' ''bool'' (bool_from_py P)) (\<lambda>server_side_token_check_value.
     Inr (build_cognito_identity_provider S provider_name_value client_id_value server_side_token_check_value)))))"

definition cognito_identity_provider_to_py :: "cognito_identity_provider \<Rightarrow> pyval" where
  "cognito_identity_provider_to_py v = PyDict (py_dict
     [(''provider_name'', opt_to_py PyStr (cgcip_provider_name v)),
      (''client_id'', opt_to_py PyStr (cgcip_client_id v)),
      (''server_side_token_check'', opt_to_py PyBool (cgcip_server_side_token_check v))])"

definition cognito_credentials_from_py :: "pyo3 \<Rightarrow> cognito_types \<Rightarrow> pyval \<Rightarrow> cognito_credentials pyresult" where
  "cognito_credentials_from_py P S value =
     and_then (cast_dict P value) (\<lambda>values.
     and_then (member P values ''access_key_id'' ''str'' (string_from_py P)) (\<lambda>access_key_id_value.
     and_then (member P values ''secret_key'' ''str'' (string_from_py P)) (\<lambda>secret_key_value.
     and_then (member P values ''session_token'' ''str'' (string_from_py P)) (\<lambda>session_token_value.
     and_then (member P values ''expiration'' ''ISO 8601 timestamp string'' (datetime_from_py P S)) (\<lambda>expiration_value.
     Inr (build_cognito_credentials S access_key_id_value secret_key_value session_token_value expiration_value))))))"

definition cognito_credentials_to_py :: "cognito_types \<Rightarrow> cognito_credentials \<Rightarrow> pyval" where
  "cognito_credentials_to_py S v = PyDict (py_dict
     [(''access_key_id'', opt_to_py PyStr (cgc_access_key_id v)),
      (''secret_key'', opt_to_py PyStr (cgc_secret_key v)),
      (''session_token'', opt_to_py PyStr (cgc_session_token v)),
      (''expiration'', opt_to_py (datetime_to_py S) (cgc_expiration v))])"

definition identity_description_from_py :: "pyo3 \<Rightarrow> cognito_types \<Rightarrow> pyval \<Rightarrow> identity_description pyresult" where
  "identity_description_from_py P S value =
     and_then (cast_dict P value) (\<lambda>values.
     and_then (member P values ''identity_id'' ''str'' (string_from_py P)) (\<lambda>identity_id_value.
     and_then (member P values ''logins'' ''sequence'' (seq_from_py P ''str'' (string_from_py P))) (\<lambda>logins_value.
     and_then (member P values ''creation_date'' ''ISO 8601 timestamp string'' (datetime_from_py P S)) (\<lambda>creation_date_value.
     and_then (member P values ''last_modified_date'' ''ISO 8601 timestamp string'' (datetime_from_py P S)) (\<lambda>last_modified_date_value.
     Inr (build_identity_description S identity_id_value logins_value creation_date_value last_modified_date_value))))))"

definition identity_description_to_py :: "cognito_types \<Rightarrow> identity_description \<Rightarrow> pyval" where
  "identity_description_to_py S v = PyDict (py_dict
     [(''identity_id'', opt_to_py PyStr (cgid_identity_id v)),
      (''logins'', opt_to_py (seq_to_py PyStr) (cgid_logins v)),
      (''creation_date'', opt_to_py (datetime_to_py S) (cgid_creation_date v)),
      (''last_modified_date'', opt_to_py (datetime_to_py S) (cgid_last_modified_date v))])"

definition identity_pool_short_description_from_py :: "pyo3 \<Rightarrow> cognito_types \<Rightarrow> pyval \<Rightarrow> identity_pool_short_description pyresult" where
  "identity_pool_short_description_from_py P S value =
     and_then (cast_dict P value) (\<lambda>values.
     and_then (member P values ''identity_pool_id'' ''str'' (string_from_py P)) (\<lambda>identity_pool_id_value.
     and_then (member P values ''identity_pool_name'' ''str'' (string_from_py P)) (\<lambda>identity_pool_name_value.
     Inr (build_identity_pool_short_description S identity_pool_id_value identity_pool_name_value))))"

definition identity_pool_short_description_to_py :: "identity_pool_short_description \<Rightarrow> pyval" where
  "identity_pool_short_description_to_py v = PyDict (py_dict
     [(''identity_pool_id'', opt_to_py PyStr (cgipsd_identity_pool_id v)),
      (''identity_pool_name'', opt_to_py PyStr (cgipsd_identity_pool_name v))])"

definition mapping_rule_from_py :: "pyo3 \<Rightarrow> cognito_types \<Rightarrow> pyval \<Rightarrow> mapping_rule pyresult" where
  "mapping_rule_from_py P S value =
     and_then (cast_dict P value) (\<lambda>values.
     and_then (member P values ''claim'' ''str'' (string_from_py P)) (\<lambda>claim_value.
     and_then (member P values ''match_type'' ''str (MappingRuleMatchType)'' (enum_from_py P)) (\<lambda>match_type_value.
     and_then (member P values ''value'' ''str'' (string_from_py P)) (\<lambda>value_value.
     and_then (member P values ''role_arn'' ''str'' (string_from_py P)) (\<lambda>role_arn_value.
     map_err (\<lambda>_. input_builder_error P values
         [(''claim'', ''claim''), (''match_type'', ''match_type''), (''value'', ''value''), (''role_arn'', ''role_arn'')])
       (build_mapping_rule S claim_value match_type_value value_value role_arn_value))))))"

definition mapping_rule_to_py :: "mapping_rule \<Rightarrow> pyval" where
  "mapping_rule_to_py v = PyDict (py_dict
     [(''claim'', PyStr (cgmr_claim v)),
      (''match_type'', PyStr (cgmr_match_type v)),
      (''value'', PyStr (cgmr_value v)),
      (''role_arn'', PyStr (cgmr_role_arn v))])"

definition rules_configuration_type_from_py :: "pyo3 \<Rightarrow> cognito_types \<Rightarrow> pyval \<Rightarrow> rules_configuration_type pyresult" where
  "rules_configuration_type_from_py P S value =
     and_then (cast_dict P value) (\<lambda>values.
     and_then (member P values ''rules'' ''sequence'' (seq_from_py P ''dict (MappingRule)'' (mapping_rule_from_py P S))) (\<lambda>rules_value.
     map_err (\<lambda>_. input_builder_error P values
         [(''rules'', ''rules'')])
       (build_rules_configuration_type S rules_value)))"

definition rules_configuration_type_to_py :: "rules_configuration_type \<Rightarrow> pyval" where
  "rules_configuration_type_to_py v = PyDict (py_dict
     [(''rules'', seq_to_py mapping_rule_to_py (cgrct_rules v))])"

definition role_mapping_from_py :: "pyo3 \<Rightarrow> cognito_types \<Rightarrow> pyval \<Rightarrow> role_mapping pyresult" where
  "role_mapping_from_py P S value =
     and_then (cast_dict P value) (\<lambda>values.
     and_then (member P values ''type'' ''str (RoleMappingType)'' (enum_from_py P)) (\<lambda>type_value.
     and_then (member P values ''ambiguous_role_resolution'' ''str (AmbiguousRoleResolutionType)'' (enum_from_py P)) (\<lambda>ambiguous_role_resolution_value.
     and_then (member P values ''rules_configuration'' ''dict (RulesConfigurationType)'' (rules_configuration_type_from_py P S)) (\<lambda>rules_configuration_value.
     map_err (\<lambda>_. input_builder_error P values
         [(''type'', ''type'')])
       (build_role_mapping S type_value ambiguous_role_resolution_value rules_configuration_value)))))"

definition role_mapping_to_py :: "role_mapping \<Rightarrow> pyval" where
  "role_mapping_to_py v = PyDict (py_dict
     [(''type'', PyStr (cgrm_type v)),
      (''ambiguous_role_resolution'', opt_to_py PyStr (cgrm_ambiguous_role_resolution v)),
      (''rules_configuration'', opt_to_py rules_configuration_type_to_py (cgrm_rules_configuration v))])"

definition unprocessed_identity_id_from_py :: "pyo3 \<Rightarrow> cognito_types \<Rightarrow> pyval \<Rightarrow> unprocessed_identity_id pyresult" where
  "unprocessed_identity_id_from_py P S value =
     and_then (cast_dict P value) (\<lambda>values.
     and_then (member P values ''identity_id'' ''str'' (string_from_py P)) (\<lambda>identity_id_value.
     and_then (member P values ''error_code'' ''str (ErrorCode)'' (enum_from_py P)) (\<lambda>error_code_value.
     Inr (build_unprocessed_identity_id S identity_id_value error_code_value))))"

definition unprocessed_identity_id_to_py :: "unprocessed_identity_id \<Rightarrow> pyval" where
  "unprocessed_identity_id_to_py v = PyDict (py_dict
     [(''identity_id'', opt_to_py PyStr (cguii_identity_id v)),
      (''error_code'', opt_to_py PyStr (cguii_error_code v))])"

section \<open>Round trips\<close>

text \<open>What the builders document: a builder given every member the structure must have gives the
  structure with the members it was given, and one that lacks a required member fails.\<close>

locale cognito_types_laws =
  fixes S :: cognito_types
  assumes cognito_identity_provider_built: "build_cognito_identity_provider S cgcip0 cgcip1 cgcip2 =
       \<lparr>cgcip_provider_name = cgcip0, cgcip_client_id = cgcip1, cgcip_server_side_token_check = cgcip2\<rparr>"
    and cognito_credentials_built: "build_cognito_credentials S cgc0 cgc1 cgc2 cgc3 =
       \<lparr>cgc_access_key_id = cgc0, cgc_secret_key = cgc1, cgc_session_token = cgc2, cgc_expiration = cgc3\<rparr>"
    and identity_description_built: "build_identity_description S cgid0 cgid1 cgid2 cgid3 =
       \<lparr>cgid_identity_id = cgid0, cgid_logins = cgid1, cgid_creation_date = cgid2, cgid_last_modified_date = cgid3\<rparr>"
    and identity_pool_short_description_built: "build_identity_pool_short_description S cgipsd0 cgipsd1 =
       \<lparr>cgipsd_identity_pool_id = cgipsd0, cgipsd_identity_pool_name = cgipsd1\<rparr>"
    and mapping_rule_built: "build_mapping_rule S (Some cgmr0) (Some cgmr1) (Some cgmr2) (Some cgmr3) =
       Inr \<lparr>cgmr_claim = cgmr0, cgmr_match_type = cgmr1, cgmr_value = cgmr2, cgmr_role_arn = cgmr3\<rparr>"
    and rules_configuration_type_built: "build_rules_configuration_type S (Some cgrct0) =
       Inr \<lparr>cgrct_rules = cgrct0\<rparr>"
    and role_mapping_built: "build_role_mapping S (Some cgrm0) cgrm1 cgrm2 =
       Inr \<lparr>cgrm_type = cgrm0, cgrm_ambiguous_role_resolution = cgrm1, cgrm_rules_configuration = cgrm2\<rparr>"
    and unprocessed_identity_id_built: "build_unprocessed_identity_id S cguii0 cguii1 =
       \<lparr>cguii_identity_id = cguii0, cguii_error_code = cguii1\<rparr>"
    and mapping_rule_incomplete: "ocgmr0 = None \<or> ocgmr1 = None \<or> ocgmr2 = None \<or> ocgmr3 = None \<Longrightarrow>
       build_mapping_rule S ocgmr0 ocgmr1 ocgmr2 ocgmr3 = Inl ()"
    and rules_configuration_type_incomplete: "ocgrct0 = None \<Longrightarrow>
       build_rules_configuration_type S ocgrct0 = Inl ()"
    and role_mapping_incomplete: "ocgrm0 = None \<Longrightarrow>
       build_role_mapping S ocgrm0 ocgrm1 ocgrm2 = Inl ()"

text \<open>A concrete SDK.\<close>

definition cognito_std :: cognito_types where
  "cognito_std =
     \<lparr>parse_datetime = (\<lambda>s. Inr (int (digits_value s), 0)),
      show_datetime = (\<lambda>d. show_nat (nat (fst d))),
      build_cognito_identity_provider = (\<lambda>a0 a1 a2. \<lparr>cgcip_provider_name = a0, cgcip_client_id = a1, cgcip_server_side_token_check = a2\<rparr>),
      build_cognito_credentials = (\<lambda>a0 a1 a2 a3. \<lparr>cgc_access_key_id = a0, cgc_secret_key = a1, cgc_session_token = a2, cgc_expiration = a3\<rparr>),
      build_identity_description = (\<lambda>a0 a1 a2 a3. \<lparr>cgid_identity_id = a0, cgid_logins = a1, cgid_creation_date = a2, cgid_last_modified_date = a3\<rparr>),
      build_identity_pool_short_description = (\<lambda>a0 a1. \<lparr>cgipsd_identity_pool_id = a0, cgipsd_identity_pool_name = a1\<rparr>),
      build_mapping_rule = (\<lambda>a0 a1 a2 a3. if a0 = None \<or> a1 = None \<or> a2 = None \<or> a3 = None then Inl ()
        else Inr \<lparr>cgmr_claim = the a0, cgmr_match_type = the a1, cgmr_value = the a2, cgmr_role_arn = the a3\<rparr>),
      build_rules_configuration_type = (\<lambda>a0. if a0 = None then Inl ()
        else Inr \<lparr>cgrct_rules = the a0\<rparr>),
      build_role_mapping = (\<lambda>a0 a1 a2. if a0 = None then Inl ()
        else Inr \<lparr>cgrm_type = the a0, cgrm_ambiguous_role_resolution = a1, cgrm_rules_configuration = a2\<rparr>),
      build_unprocessed_identity_id = (\<lambda>a0 a1. \<lparr>cguii_identity_id = a0, cguii_error_code = a1\<rparr>)\<rparr>"

interpretation std_cognito: cognito_types_laws cognito_std
  by unfold_locales (auto simp: cognito_std_def unwrap_or_def)

locale cognito_conversions = pyo3_laws P + cognito_types_laws S for P S +
  fixes order :: "(string, pyval) fmap \<Rightarrow> (string \<times> pyval) list"
  assumes order: "iterates order"
begin

lemma cognito_identity_provider_reads: "reads (cognito_identity_provider_from_py P S) (cognito_identity_provider_to_py)"
proof (rule readsI)
  show "cognito_identity_provider_to_py v \<noteq> PyNone" for v
    by (simp add: cognito_identity_provider_to_py_def)
  show "cognito_identity_provider_from_py P S (cognito_identity_provider_to_py v) = Inr v" for v
    by (cases v) (simp add: cognito_identity_provider_from_py_def cognito_identity_provider_to_py_def dict_ok py_dict_distinct cognito_identity_provider_built
        member_reads [OF reads_str]
        member_reads [OF reads_bool])
qed

lemma identity_pool_short_description_reads: "reads (identity_pool_short_description_from_py P S) (identity_pool_short_description_to_py)"
proof (rule readsI)
  show "identity_pool_short_description_to_py v \<noteq> PyNone" for v
    by (simp add: identity_pool_short_description_to_py_def)
  show "identity_pool_short_description_from_py P S (identity_pool_short_description_to_py v) = Inr v" for v
    by (cases v) (simp add: identity_pool_short_description_from_py_def identity_pool_short_description_to_py_def dict_ok py_dict_distinct identity_pool_short_description_built
        member_reads [OF reads_str])
qed

lemma mapping_rule_reads: "reads (mapping_rule_from_py P S) (mapping_rule_to_py)"
proof (rule readsI)
  show "mapping_rule_to_py v \<noteq> PyNone" for v
    by (simp add: mapping_rule_to_py_def)
  show "mapping_rule_from_py P S (mapping_rule_to_py v) = Inr v" for v
    by (cases v) (simp add: mapping_rule_from_py_def mapping_rule_to_py_def dict_ok py_dict_distinct mapping_rule_built
        member_reads_given [OF reads_str]
        member_reads_given [OF reads_enum])
qed

lemma rules_configuration_type_reads: "reads (rules_configuration_type_from_py P S) (rules_configuration_type_to_py)"
proof (rule readsI)
  show "rules_configuration_type_to_py v \<noteq> PyNone" for v
    by (simp add: rules_configuration_type_to_py_def)
  show "rules_configuration_type_from_py P S (rules_configuration_type_to_py v) = Inr v" for v
    by (cases v) (simp add: rules_configuration_type_from_py_def rules_configuration_type_to_py_def dict_ok py_dict_distinct rules_configuration_type_built
        member_reads_given [OF reads_seq [OF mapping_rule_reads]])
qed

lemma role_mapping_reads: "reads (role_mapping_from_py P S) (role_mapping_to_py)"
proof (rule readsI)
  show "role_mapping_to_py v \<noteq> PyNone" for v
    by (simp add: role_mapping_to_py_def)
  show "role_mapping_from_py P S (role_mapping_to_py v) = Inr v" for v
    by (cases v) (simp add: role_mapping_from_py_def role_mapping_to_py_def dict_ok py_dict_distinct role_mapping_built
        member_reads_given [OF reads_enum]
        member_reads [OF reads_enum]
        member_reads [OF rules_configuration_type_reads])
qed

lemma unprocessed_identity_id_reads: "reads (unprocessed_identity_id_from_py P S) (unprocessed_identity_id_to_py)"
proof (rule readsI)
  show "unprocessed_identity_id_to_py v \<noteq> PyNone" for v
    by (simp add: unprocessed_identity_id_to_py_def)
  show "unprocessed_identity_id_from_py P S (unprocessed_identity_id_to_py v) = Inr v" for v
    by (cases v) (simp add: unprocessed_identity_id_from_py_def unprocessed_identity_id_to_py_def dict_ok py_dict_distinct unprocessed_identity_id_built
        member_reads [OF reads_str]
        member_reads [OF reads_enum])
qed

end

interpretation std_cognito_conv: cognito_conversions pyo3_std cognito_std by_key
  by (intro cognito_conversions.intro cognito_conversions_axioms.intro std.pyo3_laws_axioms std_cognito.cognito_types_laws_axioms iterates_by_key)

end
