(* ===== verification/CognitoOutputs.thy ===== *)
theory CognitoOutputs
  imports CognitoTypes
begin

text \<open>
  The response objects of the Cognito Identity extension, from \<open>crates/rboto-cognito-identity/src/generated.rs\<close>: per class, the
  fields it holds, its getters in order, and \<open>to_dict\<close>. A getter of structures gives objects that
  share them (\<open>Arc::clone\<close>), one per structure of a list or mapping; every other getter gives a
  plain value, and an absent one is \<open>None\<close>. Integers whose width the code does not show are \<open>int\<close>.
\<close>

section \<open>Attributes\<close>

datatype cognito_object =
    CognitoCognitoIdentityProvider cognito_identity_provider
  | CognitoCredentials cognito_credentials
  | CognitoIdentityDescription identity_description
  | CognitoIdentityPoolShortDescription identity_pool_short_description
  | CognitoMappingRule mapping_rule
  | CognitoRoleMapping role_mapping
  | CognitoRulesConfigurationType rules_configuration_type
  | CognitoUnprocessedIdentityId unprocessed_identity_id

datatype cognito_attr =
    CognitoPlain pyval
  | CognitoObject cognito_object
  | CognitoObjects "cognito_object list"
  | CognitoObjectMap "(string, cognito_object) fmap"

definition cognito_opt_attr :: "('a \<Rightarrow> cognito_attr) \<Rightarrow> 'a option \<Rightarrow> cognito_attr" where
  "cognito_opt_attr f v = (case v of None \<Rightarrow> CognitoPlain PyNone | Some x \<Rightarrow> f x)"

section \<open>\<open>CognitoIdentityProvider\<close>\<close>

definition cognito_identity_provider_attributes :: "((string, pyval) fmap \<Rightarrow> (string \<times> pyval) list) \<Rightarrow> cognito_types \<Rightarrow> cognito_identity_provider \<Rightarrow> (string \<times> cognito_attr) list" where
  "cognito_identity_provider_attributes order S v =
     [(''provider_name'', CognitoPlain (opt_to_py PyStr (cgcip_provider_name v))),
      (''client_id'', CognitoPlain (opt_to_py PyStr (cgcip_client_id v))),
      (''server_side_token_check'', CognitoPlain (opt_to_py PyBool (cgcip_server_side_token_check v)))]"

definition cognito_identity_provider_to_dict :: "((string, pyval) fmap \<Rightarrow> (string \<times> pyval) list) \<Rightarrow> cognito_types \<Rightarrow> cognito_identity_provider \<Rightarrow> pyval" where
  "cognito_identity_provider_to_dict order S v = cognito_identity_provider_to_py v"

section \<open>\<open>Credentials\<close>\<close>

definition cognito_credentials_attributes :: "((string, pyval) fmap \<Rightarrow> (string \<times> pyval) list) \<Rightarrow> cognito_types \<Rightarrow> cognito_credentials \<Rightarrow> (string \<times> cognito_attr) list" where
  "cognito_credentials_attributes order S v =
     [(''access_key_id'', CognitoPlain (opt_to_py PyStr (cgc_access_key_id v))),
      (''secret_key'', CognitoPlain (opt_to_py PyStr (cgc_secret_key v))),
      (''session_token'', CognitoPlain (opt_to_py PyStr (cgc_session_token v))),
      (''expiration'', CognitoPlain (opt_to_py (datetime_to_py S) (cgc_expiration v)))]"

definition cognito_credentials_to_dict :: "((string, pyval) fmap \<Rightarrow> (string \<times> pyval) list) \<Rightarrow> cognito_types \<Rightarrow> cognito_credentials \<Rightarrow> pyval" where
  "cognito_credentials_to_dict order S v = cognito_credentials_to_py S v"

section \<open>\<open>IdentityDescription\<close>\<close>

definition identity_description_attributes :: "((string, pyval) fmap \<Rightarrow> (string \<times> pyval) list) \<Rightarrow> cognito_types \<Rightarrow> identity_description \<Rightarrow> (string \<times> cognito_attr) list" where
  "identity_description_attributes order S v =
     [(''identity_id'', CognitoPlain (opt_to_py PyStr (cgid_identity_id v))),
      (''logins'', CognitoPlain (opt_to_py (seq_to_py PyStr) (cgid_logins v))),
      (''creation_date'', CognitoPlain (opt_to_py (datetime_to_py S) (cgid_creation_date v))),
      (''last_modified_date'', CognitoPlain (opt_to_py (datetime_to_py S) (cgid_last_modified_date v)))]"

definition identity_description_to_dict :: "((string, pyval) fmap \<Rightarrow> (string \<times> pyval) list) \<Rightarrow> cognito_types \<Rightarrow> identity_description \<Rightarrow> pyval" where
  "identity_description_to_dict order S v = identity_description_to_py S v"

section \<open>\<open>IdentityPoolShortDescription\<close>\<close>

definition identity_pool_short_description_attributes :: "((string, pyval) fmap \<Rightarrow> (string \<times> pyval) list) \<Rightarrow> cognito_types \<Rightarrow> identity_pool_short_description \<Rightarrow> (string \<times> cognito_attr) list" where
  "identity_pool_short_description_attributes order S v =
     [(''identity_pool_id'', CognitoPlain (opt_to_py PyStr (cgipsd_identity_pool_id v))),
      (''identity_pool_name'', CognitoPlain (opt_to_py PyStr (cgipsd_identity_pool_name v)))]"

definition identity_pool_short_description_to_dict :: "((string, pyval) fmap \<Rightarrow> (string \<times> pyval) list) \<Rightarrow> cognito_types \<Rightarrow> identity_pool_short_description \<Rightarrow> pyval" where
  "identity_pool_short_description_to_dict order S v = identity_pool_short_description_to_py v"

section \<open>\<open>MappingRule\<close>\<close>

definition mapping_rule_attributes :: "((string, pyval) fmap \<Rightarrow> (string \<times> pyval) list) \<Rightarrow> cognito_types \<Rightarrow> mapping_rule \<Rightarrow> (string \<times> cognito_attr) list" where
  "mapping_rule_attributes order S v =
     [(''claim'', CognitoPlain (PyStr (cgmr_claim v))),
      (''match_type'', CognitoPlain (PyStr (cgmr_match_type v))),
      (''value'', CognitoPlain (PyStr (cgmr_value v))),
      (''role_arn'', CognitoPlain (PyStr (cgmr_role_arn v)))]"

definition mapping_rule_to_dict :: "((string, pyval) fmap \<Rightarrow> (string \<times> pyval) list) \<Rightarrow> cognito_types \<Rightarrow> mapping_rule \<Rightarrow> pyval" where
  "mapping_rule_to_dict order S v = mapping_rule_to_py v"

section \<open>\<open>RoleMapping\<close>\<close>

definition role_mapping_attributes :: "((string, pyval) fmap \<Rightarrow> (string \<times> pyval) list) \<Rightarrow> cognito_types \<Rightarrow> role_mapping \<Rightarrow> (string \<times> cognito_attr) list" where
  "role_mapping_attributes order S v =
     [(''type'', CognitoPlain (PyStr (cgrm_type v))),
      (''ambiguous_role_resolution'', CognitoPlain (opt_to_py PyStr (cgrm_ambiguous_role_resolution v))),
      (''rules_configuration'', cognito_opt_attr (\<lambda>x. CognitoObject (CognitoRulesConfigurationType x)) (cgrm_rules_configuration v))]"

definition role_mapping_to_dict :: "((string, pyval) fmap \<Rightarrow> (string \<times> pyval) list) \<Rightarrow> cognito_types \<Rightarrow> role_mapping \<Rightarrow> pyval" where
  "role_mapping_to_dict order S v = role_mapping_to_py v"

section \<open>\<open>RulesConfigurationType\<close>\<close>

definition rules_configuration_type_attributes :: "((string, pyval) fmap \<Rightarrow> (string \<times> pyval) list) \<Rightarrow> cognito_types \<Rightarrow> rules_configuration_type \<Rightarrow> (string \<times> cognito_attr) list" where
  "rules_configuration_type_attributes order S v =
     [(''rules'', CognitoObjects (map CognitoMappingRule (cgrct_rules v)))]"

definition rules_configuration_type_to_dict :: "((string, pyval) fmap \<Rightarrow> (string \<times> pyval) list) \<Rightarrow> cognito_types \<Rightarrow> rules_configuration_type \<Rightarrow> pyval" where
  "rules_configuration_type_to_dict order S v = rules_configuration_type_to_py v"

section \<open>\<open>UnprocessedIdentityId\<close>\<close>

definition unprocessed_identity_id_attributes :: "((string, pyval) fmap \<Rightarrow> (string \<times> pyval) list) \<Rightarrow> cognito_types \<Rightarrow> unprocessed_identity_id \<Rightarrow> (string \<times> cognito_attr) list" where
  "unprocessed_identity_id_attributes order S v =
     [(''identity_id'', CognitoPlain (opt_to_py PyStr (cguii_identity_id v))),
      (''error_code'', CognitoPlain (opt_to_py PyStr (cguii_error_code v)))]"

definition unprocessed_identity_id_to_dict :: "((string, pyval) fmap \<Rightarrow> (string \<times> pyval) list) \<Rightarrow> cognito_types \<Rightarrow> unprocessed_identity_id \<Rightarrow> pyval" where
  "unprocessed_identity_id_to_dict order S v = unprocessed_identity_id_to_py v"

section \<open>\<open>CreateIdentityPoolOutput\<close>\<close>

record create_identity_pool_output =
  cgcipo_identity_pool_id :: string
  cgcipo_identity_pool_name :: string
  cgcipo_allow_unauthenticated_identities :: bool
  cgcipo_allow_classic_flow :: "bool option"
  cgcipo_supported_login_providers :: "(string, string) fmap option"
  cgcipo_developer_provider_name :: "string option"
  cgcipo_open_id_connect_provider_arns :: "string list option"
  cgcipo_cognito_identity_providers :: "cognito_identity_provider list option"
  cgcipo_saml_provider_arns :: "string list option"
  cgcipo_identity_pool_tags :: "(string, string) fmap option"

definition create_identity_pool_output_attributes :: "((string, pyval) fmap \<Rightarrow> (string \<times> pyval) list) \<Rightarrow> cognito_types \<Rightarrow> create_identity_pool_output \<Rightarrow> (string \<times> cognito_attr) list" where
  "create_identity_pool_output_attributes order S v =
     [(''identity_pool_id'', CognitoPlain (PyStr (cgcipo_identity_pool_id v))),
      (''identity_pool_name'', CognitoPlain (PyStr (cgcipo_identity_pool_name v))),
      (''allow_unauthenticated_identities'', CognitoPlain (PyBool (cgcipo_allow_unauthenticated_identities v))),
      (''allow_classic_flow'', CognitoPlain (opt_to_py PyBool (cgcipo_allow_classic_flow v))),
      (''supported_login_providers'', CognitoPlain (opt_to_py (mapping_to_py order PyStr) (cgcipo_supported_login_providers v))),
      (''developer_provider_name'', CognitoPlain (opt_to_py PyStr (cgcipo_developer_provider_name v))),
      (''open_id_connect_provider_arns'', CognitoPlain (opt_to_py (seq_to_py PyStr) (cgcipo_open_id_connect_provider_arns v))),
      (''cognito_identity_providers'', cognito_opt_attr (\<lambda>xs. CognitoObjects (map CognitoCognitoIdentityProvider xs)) (cgcipo_cognito_identity_providers v)),
      (''saml_provider_arns'', CognitoPlain (opt_to_py (seq_to_py PyStr) (cgcipo_saml_provider_arns v))),
      (''identity_pool_tags'', CognitoPlain (opt_to_py (mapping_to_py order PyStr) (cgcipo_identity_pool_tags v)))]"

definition create_identity_pool_output_to_dict :: "((string, pyval) fmap \<Rightarrow> (string \<times> pyval) list) \<Rightarrow> cognito_types \<Rightarrow> create_identity_pool_output \<Rightarrow> pyval" where
  "create_identity_pool_output_to_dict order S v = PyDict (py_dict
     [(''identity_pool_id'', PyStr (cgcipo_identity_pool_id v)),
      (''identity_pool_name'', PyStr (cgcipo_identity_pool_name v)),
      (''allow_unauthenticated_identities'', PyBool (cgcipo_allow_unauthenticated_identities v)),
      (''allow_classic_flow'', opt_to_py PyBool (cgcipo_allow_classic_flow v)),
      (''supported_login_providers'', opt_to_py (mapping_to_py order PyStr) (cgcipo_supported_login_providers v)),
      (''developer_provider_name'', opt_to_py PyStr (cgcipo_developer_provider_name v)),
      (''open_id_connect_provider_arns'', opt_to_py (seq_to_py PyStr) (cgcipo_open_id_connect_provider_arns v)),
      (''cognito_identity_providers'', opt_to_py (seq_to_py cognito_identity_provider_to_py) (cgcipo_cognito_identity_providers v)),
      (''saml_provider_arns'', opt_to_py (seq_to_py PyStr) (cgcipo_saml_provider_arns v)),
      (''identity_pool_tags'', opt_to_py (mapping_to_py order PyStr) (cgcipo_identity_pool_tags v))])"

section \<open>\<open>DeleteIdentitiesOutput\<close>\<close>

record delete_identities_output =
  cgdio_unprocessed_identity_ids :: "unprocessed_identity_id list option"

definition delete_identities_output_attributes :: "((string, pyval) fmap \<Rightarrow> (string \<times> pyval) list) \<Rightarrow> cognito_types \<Rightarrow> delete_identities_output \<Rightarrow> (string \<times> cognito_attr) list" where
  "delete_identities_output_attributes order S v =
     [(''unprocessed_identity_ids'', cognito_opt_attr (\<lambda>xs. CognitoObjects (map CognitoUnprocessedIdentityId xs)) (cgdio_unprocessed_identity_ids v))]"

definition delete_identities_output_to_dict :: "((string, pyval) fmap \<Rightarrow> (string \<times> pyval) list) \<Rightarrow> cognito_types \<Rightarrow> delete_identities_output \<Rightarrow> pyval" where
  "delete_identities_output_to_dict order S v = PyDict (py_dict
     [(''unprocessed_identity_ids'', opt_to_py (seq_to_py unprocessed_identity_id_to_py) (cgdio_unprocessed_identity_ids v))])"

section \<open>\<open>DescribeIdentityOutput\<close>\<close>

record describe_identity_output =
  cgdio2_identity_id :: "string option"
  cgdio2_logins :: "string list option"
  cgdio2_creation_date :: "datetime option"
  cgdio2_last_modified_date :: "datetime option"

definition describe_identity_output_attributes :: "((string, pyval) fmap \<Rightarrow> (string \<times> pyval) list) \<Rightarrow> cognito_types \<Rightarrow> describe_identity_output \<Rightarrow> (string \<times> cognito_attr) list" where
  "describe_identity_output_attributes order S v =
     [(''identity_id'', CognitoPlain (opt_to_py PyStr (cgdio2_identity_id v))),
      (''logins'', CognitoPlain (opt_to_py (seq_to_py PyStr) (cgdio2_logins v))),
      (''creation_date'', CognitoPlain (opt_to_py (datetime_to_py S) (cgdio2_creation_date v))),
      (''last_modified_date'', CognitoPlain (opt_to_py (datetime_to_py S) (cgdio2_last_modified_date v)))]"

definition describe_identity_output_to_dict :: "((string, pyval) fmap \<Rightarrow> (string \<times> pyval) list) \<Rightarrow> cognito_types \<Rightarrow> describe_identity_output \<Rightarrow> pyval" where
  "describe_identity_output_to_dict order S v = PyDict (py_dict
     [(''identity_id'', opt_to_py PyStr (cgdio2_identity_id v)),
      (''logins'', opt_to_py (seq_to_py PyStr) (cgdio2_logins v)),
      (''creation_date'', opt_to_py (datetime_to_py S) (cgdio2_creation_date v)),
      (''last_modified_date'', opt_to_py (datetime_to_py S) (cgdio2_last_modified_date v))])"

section \<open>\<open>DescribeIdentityPoolOutput\<close>\<close>

record describe_identity_pool_output =
  cgdipo_identity_pool_id :: string
  cgdipo_identity_pool_name :: string
  cgdipo_allow_unauthenticated_identities :: bool
  cgdipo_allow_classic_flow :: "bool option"
  cgdipo_supported_login_providers :: "(string, string) fmap option"
  cgdipo_developer_provider_name :: "string option"
  cgdipo_open_id_connect_provider_arns :: "string list option"
  cgdipo_cognito_identity_providers :: "cognito_identity_provider list option"
  cgdipo_saml_provider_arns :: "string list option"
  cgdipo_identity_pool_tags :: "(string, string) fmap option"

definition describe_identity_pool_output_attributes :: "((string, pyval) fmap \<Rightarrow> (string \<times> pyval) list) \<Rightarrow> cognito_types \<Rightarrow> describe_identity_pool_output \<Rightarrow> (string \<times> cognito_attr) list" where
  "describe_identity_pool_output_attributes order S v =
     [(''identity_pool_id'', CognitoPlain (PyStr (cgdipo_identity_pool_id v))),
      (''identity_pool_name'', CognitoPlain (PyStr (cgdipo_identity_pool_name v))),
      (''allow_unauthenticated_identities'', CognitoPlain (PyBool (cgdipo_allow_unauthenticated_identities v))),
      (''allow_classic_flow'', CognitoPlain (opt_to_py PyBool (cgdipo_allow_classic_flow v))),
      (''supported_login_providers'', CognitoPlain (opt_to_py (mapping_to_py order PyStr) (cgdipo_supported_login_providers v))),
      (''developer_provider_name'', CognitoPlain (opt_to_py PyStr (cgdipo_developer_provider_name v))),
      (''open_id_connect_provider_arns'', CognitoPlain (opt_to_py (seq_to_py PyStr) (cgdipo_open_id_connect_provider_arns v))),
      (''cognito_identity_providers'', cognito_opt_attr (\<lambda>xs. CognitoObjects (map CognitoCognitoIdentityProvider xs)) (cgdipo_cognito_identity_providers v)),
      (''saml_provider_arns'', CognitoPlain (opt_to_py (seq_to_py PyStr) (cgdipo_saml_provider_arns v))),
      (''identity_pool_tags'', CognitoPlain (opt_to_py (mapping_to_py order PyStr) (cgdipo_identity_pool_tags v)))]"

definition describe_identity_pool_output_to_dict :: "((string, pyval) fmap \<Rightarrow> (string \<times> pyval) list) \<Rightarrow> cognito_types \<Rightarrow> describe_identity_pool_output \<Rightarrow> pyval" where
  "describe_identity_pool_output_to_dict order S v = PyDict (py_dict
     [(''identity_pool_id'', PyStr (cgdipo_identity_pool_id v)),
      (''identity_pool_name'', PyStr (cgdipo_identity_pool_name v)),
      (''allow_unauthenticated_identities'', PyBool (cgdipo_allow_unauthenticated_identities v)),
      (''allow_classic_flow'', opt_to_py PyBool (cgdipo_allow_classic_flow v)),
      (''supported_login_providers'', opt_to_py (mapping_to_py order PyStr) (cgdipo_supported_login_providers v)),
      (''developer_provider_name'', opt_to_py PyStr (cgdipo_developer_provider_name v)),
      (''open_id_connect_provider_arns'', opt_to_py (seq_to_py PyStr) (cgdipo_open_id_connect_provider_arns v)),
      (''cognito_identity_providers'', opt_to_py (seq_to_py cognito_identity_provider_to_py) (cgdipo_cognito_identity_providers v)),
      (''saml_provider_arns'', opt_to_py (seq_to_py PyStr) (cgdipo_saml_provider_arns v)),
      (''identity_pool_tags'', opt_to_py (mapping_to_py order PyStr) (cgdipo_identity_pool_tags v))])"

section \<open>\<open>GetCredentialsForIdentityOutput\<close>\<close>

record get_credentials_for_identity_output =
  cggcfio_identity_id :: "string option"
  cggcfio_credentials :: "cognito_credentials option"

definition get_credentials_for_identity_output_attributes :: "((string, pyval) fmap \<Rightarrow> (string \<times> pyval) list) \<Rightarrow> cognito_types \<Rightarrow> get_credentials_for_identity_output \<Rightarrow> (string \<times> cognito_attr) list" where
  "get_credentials_for_identity_output_attributes order S v =
     [(''identity_id'', CognitoPlain (opt_to_py PyStr (cggcfio_identity_id v))),
      (''credentials'', cognito_opt_attr (\<lambda>x. CognitoObject (CognitoCredentials x)) (cggcfio_credentials v))]"

definition get_credentials_for_identity_output_to_dict :: "((string, pyval) fmap \<Rightarrow> (string \<times> pyval) list) \<Rightarrow> cognito_types \<Rightarrow> get_credentials_for_identity_output \<Rightarrow> pyval" where
  "get_credentials_for_identity_output_to_dict order S v = PyDict (py_dict
     [(''identity_id'', opt_to_py PyStr (cggcfio_identity_id v)),
      (''credentials'', opt_to_py (cognito_credentials_to_py S) (cggcfio_credentials v))])"

section \<open>\<open>GetIdOutput\<close>\<close>

record get_id_output =
  cggio_identity_id :: "string option"

definition get_id_output_attributes :: "((string, pyval) fmap \<Rightarrow> (string \<times> pyval) list) \<Rightarrow> cognito_types \<Rightarrow> get_id_output \<Rightarrow> (string \<times> cognito_attr) list" where
  "get_id_output_attributes order S v =
     [(''identity_id'', CognitoPlain (opt_to_py PyStr (cggio_identity_id v)))]"

definition get_id_output_to_dict :: "((string, pyval) fmap \<Rightarrow> (string \<times> pyval) list) \<Rightarrow> cognito_types \<Rightarrow> get_id_output \<Rightarrow> pyval" where
  "get_id_output_to_dict order S v = PyDict (py_dict
     [(''identity_id'', opt_to_py PyStr (cggio_identity_id v))])"

section \<open>\<open>GetIdentityPoolRolesOutput\<close>\<close>

record get_identity_pool_roles_output =
  cggipro_identity_pool_id :: "string option"
  cggipro_roles :: "(string, string) fmap option"
  cggipro_role_mappings :: "(string, role_mapping) fmap option"

definition get_identity_pool_roles_output_attributes :: "((string, pyval) fmap \<Rightarrow> (string \<times> pyval) list) \<Rightarrow> cognito_types \<Rightarrow> get_identity_pool_roles_output \<Rightarrow> (string \<times> cognito_attr) list" where
  "get_identity_pool_roles_output_attributes order S v =
     [(''identity_pool_id'', CognitoPlain (opt_to_py PyStr (cggipro_identity_pool_id v))),
      (''roles'', CognitoPlain (opt_to_py (mapping_to_py order PyStr) (cggipro_roles v))),
      (''role_mappings'', cognito_opt_attr (\<lambda>m. CognitoObjectMap (fmmap CognitoRoleMapping m)) (cggipro_role_mappings v))]"

definition get_identity_pool_roles_output_to_dict :: "((string, pyval) fmap \<Rightarrow> (string \<times> pyval) list) \<Rightarrow> cognito_types \<Rightarrow> get_identity_pool_roles_output \<Rightarrow> pyval" where
  "get_identity_pool_roles_output_to_dict order S v = PyDict (py_dict
     [(''identity_pool_id'', opt_to_py PyStr (cggipro_identity_pool_id v)),
      (''roles'', opt_to_py (mapping_to_py order PyStr) (cggipro_roles v)),
      (''role_mappings'', opt_to_py (mapping_to_py order role_mapping_to_py) (cggipro_role_mappings v))])"

section \<open>\<open>GetOpenIdTokenOutput\<close>\<close>

record get_open_id_token_output =
  cggoito_identity_id :: "string option"
  cggoito_token :: "string option"

definition get_open_id_token_output_attributes :: "((string, pyval) fmap \<Rightarrow> (string \<times> pyval) list) \<Rightarrow> cognito_types \<Rightarrow> get_open_id_token_output \<Rightarrow> (string \<times> cognito_attr) list" where
  "get_open_id_token_output_attributes order S v =
     [(''identity_id'', CognitoPlain (opt_to_py PyStr (cggoito_identity_id v))),
      (''token'', CognitoPlain (opt_to_py PyStr (cggoito_token v)))]"

definition get_open_id_token_output_to_dict :: "((string, pyval) fmap \<Rightarrow> (string \<times> pyval) list) \<Rightarrow> cognito_types \<Rightarrow> get_open_id_token_output \<Rightarrow> pyval" where
  "get_open_id_token_output_to_dict order S v = PyDict (py_dict
     [(''identity_id'', opt_to_py PyStr (cggoito_identity_id v)),
      (''token'', opt_to_py PyStr (cggoito_token v))])"

section \<open>\<open>GetOpenIdTokenForDeveloperIdentityOutput\<close>\<close>

record get_open_id_token_for_developer_identity_output =
  cggoitfdio_identity_id :: "string option"
  cggoitfdio_token :: "string option"

definition get_open_id_token_for_developer_identity_output_attributes :: "((string, pyval) fmap \<Rightarrow> (string \<times> pyval) list) \<Rightarrow> cognito_types \<Rightarrow> get_open_id_token_for_developer_identity_output \<Rightarrow> (string \<times> cognito_attr) list" where
  "get_open_id_token_for_developer_identity_output_attributes order S v =
     [(''identity_id'', CognitoPlain (opt_to_py PyStr (cggoitfdio_identity_id v))),
      (''token'', CognitoPlain (opt_to_py PyStr (cggoitfdio_token v)))]"

definition get_open_id_token_for_developer_identity_output_to_dict :: "((string, pyval) fmap \<Rightarrow> (string \<times> pyval) list) \<Rightarrow> cognito_types \<Rightarrow> get_open_id_token_for_developer_identity_output \<Rightarrow> pyval" where
  "get_open_id_token_for_developer_identity_output_to_dict order S v = PyDict (py_dict
     [(''identity_id'', opt_to_py PyStr (cggoitfdio_identity_id v)),
      (''token'', opt_to_py PyStr (cggoitfdio_token v))])"

section \<open>\<open>GetPrincipalTagAttributeMapOutput\<close>\<close>

record get_principal_tag_attribute_map_output =
  cggptamo_identity_pool_id :: "string option"
  cggptamo_identity_provider_name :: "string option"
  cggptamo_use_defaults :: "bool option"
  cggptamo_principal_tags :: "(string, string) fmap option"

definition get_principal_tag_attribute_map_output_attributes :: "((string, pyval) fmap \<Rightarrow> (string \<times> pyval) list) \<Rightarrow> cognito_types \<Rightarrow> get_principal_tag_attribute_map_output \<Rightarrow> (string \<times> cognito_attr) list" where
  "get_principal_tag_attribute_map_output_attributes order S v =
     [(''identity_pool_id'', CognitoPlain (opt_to_py PyStr (cggptamo_identity_pool_id v))),
      (''identity_provider_name'', CognitoPlain (opt_to_py PyStr (cggptamo_identity_provider_name v))),
      (''use_defaults'', CognitoPlain (opt_to_py PyBool (cggptamo_use_defaults v))),
      (''principal_tags'', CognitoPlain (opt_to_py (mapping_to_py order PyStr) (cggptamo_principal_tags v)))]"

definition get_principal_tag_attribute_map_output_to_dict :: "((string, pyval) fmap \<Rightarrow> (string \<times> pyval) list) \<Rightarrow> cognito_types \<Rightarrow> get_principal_tag_attribute_map_output \<Rightarrow> pyval" where
  "get_principal_tag_attribute_map_output_to_dict order S v = PyDict (py_dict
     [(''identity_pool_id'', opt_to_py PyStr (cggptamo_identity_pool_id v)),
      (''identity_provider_name'', opt_to_py PyStr (cggptamo_identity_provider_name v)),
      (''use_defaults'', opt_to_py PyBool (cggptamo_use_defaults v)),
      (''principal_tags'', opt_to_py (mapping_to_py order PyStr) (cggptamo_principal_tags v))])"

section \<open>\<open>ListIdentitiesOutput\<close>\<close>

record list_identities_output =
  cglio_identity_pool_id :: "string option"
  cglio_identities :: "identity_description list option"
  cglio_next_token :: "string option"

definition list_identities_output_attributes :: "((string, pyval) fmap \<Rightarrow> (string \<times> pyval) list) \<Rightarrow> cognito_types \<Rightarrow> list_identities_output \<Rightarrow> (string \<times> cognito_attr) list" where
  "list_identities_output_attributes order S v =
     [(''identity_pool_id'', CognitoPlain (opt_to_py PyStr (cglio_identity_pool_id v))),
      (''identities'', cognito_opt_attr (\<lambda>xs. CognitoObjects (map CognitoIdentityDescription xs)) (cglio_identities v)),
      (''next_token'', CognitoPlain (opt_to_py PyStr (cglio_next_token v)))]"

definition list_identities_output_to_dict :: "((string, pyval) fmap \<Rightarrow> (string \<times> pyval) list) \<Rightarrow> cognito_types \<Rightarrow> list_identities_output \<Rightarrow> pyval" where
  "list_identities_output_to_dict order S v = PyDict (py_dict
     [(''identity_pool_id'', opt_to_py PyStr (cglio_identity_pool_id v)),
      (''identities'', opt_to_py (seq_to_py (identity_description_to_py S)) (cglio_identities v)),
      (''next_token'', opt_to_py PyStr (cglio_next_token v))])"

section \<open>\<open>ListIdentityPoolsOutput\<close>\<close>

record list_identity_pools_output =
  cglipo_identity_pools :: "identity_pool_short_description list option"
  cglipo_next_token :: "string option"

definition list_identity_pools_output_attributes :: "((string, pyval) fmap \<Rightarrow> (string \<times> pyval) list) \<Rightarrow> cognito_types \<Rightarrow> list_identity_pools_output \<Rightarrow> (string \<times> cognito_attr) list" where
  "list_identity_pools_output_attributes order S v =
     [(''identity_pools'', cognito_opt_attr (\<lambda>xs. CognitoObjects (map CognitoIdentityPoolShortDescription xs)) (cglipo_identity_pools v)),
      (''next_token'', CognitoPlain (opt_to_py PyStr (cglipo_next_token v)))]"

definition list_identity_pools_output_to_dict :: "((string, pyval) fmap \<Rightarrow> (string \<times> pyval) list) \<Rightarrow> cognito_types \<Rightarrow> list_identity_pools_output \<Rightarrow> pyval" where
  "list_identity_pools_output_to_dict order S v = PyDict (py_dict
     [(''identity_pools'', opt_to_py (seq_to_py identity_pool_short_description_to_py) (cglipo_identity_pools v)),
      (''next_token'', opt_to_py PyStr (cglipo_next_token v))])"

section \<open>\<open>ListTagsForResourceOutput\<close>\<close>

record cognito_list_tags_for_resource_output =
  cgcltfro_tags :: "(string, string) fmap option"

definition cognito_list_tags_for_resource_output_attributes :: "((string, pyval) fmap \<Rightarrow> (string \<times> pyval) list) \<Rightarrow> cognito_types \<Rightarrow> cognito_list_tags_for_resource_output \<Rightarrow> (string \<times> cognito_attr) list" where
  "cognito_list_tags_for_resource_output_attributes order S v =
     [(''tags'', CognitoPlain (opt_to_py (mapping_to_py order PyStr) (cgcltfro_tags v)))]"

definition cognito_list_tags_for_resource_output_to_dict :: "((string, pyval) fmap \<Rightarrow> (string \<times> pyval) list) \<Rightarrow> cognito_types \<Rightarrow> cognito_list_tags_for_resource_output \<Rightarrow> pyval" where
  "cognito_list_tags_for_resource_output_to_dict order S v = PyDict (py_dict
     [(''tags'', opt_to_py (mapping_to_py order PyStr) (cgcltfro_tags v))])"

section \<open>\<open>LookupDeveloperIdentityOutput\<close>\<close>

record lookup_developer_identity_output =
  cgldio_identity_id :: "string option"
  cgldio_developer_user_identifier_list :: "string list option"
  cgldio_next_token :: "string option"

definition lookup_developer_identity_output_attributes :: "((string, pyval) fmap \<Rightarrow> (string \<times> pyval) list) \<Rightarrow> cognito_types \<Rightarrow> lookup_developer_identity_output \<Rightarrow> (string \<times> cognito_attr) list" where
  "lookup_developer_identity_output_attributes order S v =
     [(''identity_id'', CognitoPlain (opt_to_py PyStr (cgldio_identity_id v))),
      (''developer_user_identifier_list'', CognitoPlain (opt_to_py (seq_to_py PyStr) (cgldio_developer_user_identifier_list v))),
      (''next_token'', CognitoPlain (opt_to_py PyStr (cgldio_next_token v)))]"

definition lookup_developer_identity_output_to_dict :: "((string, pyval) fmap \<Rightarrow> (string \<times> pyval) list) \<Rightarrow> cognito_types \<Rightarrow> lookup_developer_identity_output \<Rightarrow> pyval" where
  "lookup_developer_identity_output_to_dict order S v = PyDict (py_dict
     [(''identity_id'', opt_to_py PyStr (cgldio_identity_id v)),
      (''developer_user_identifier_list'', opt_to_py (seq_to_py PyStr) (cgldio_developer_user_identifier_list v)),
      (''next_token'', opt_to_py PyStr (cgldio_next_token v))])"

section \<open>\<open>MergeDeveloperIdentitiesOutput\<close>\<close>

record merge_developer_identities_output =
  cgmdio_identity_id :: "string option"

definition merge_developer_identities_output_attributes :: "((string, pyval) fmap \<Rightarrow> (string \<times> pyval) list) \<Rightarrow> cognito_types \<Rightarrow> merge_developer_identities_output \<Rightarrow> (string \<times> cognito_attr) list" where
  "merge_developer_identities_output_attributes order S v =
     [(''identity_id'', CognitoPlain (opt_to_py PyStr (cgmdio_identity_id v)))]"

definition merge_developer_identities_output_to_dict :: "((string, pyval) fmap \<Rightarrow> (string \<times> pyval) list) \<Rightarrow> cognito_types \<Rightarrow> merge_developer_identities_output \<Rightarrow> pyval" where
  "merge_developer_identities_output_to_dict order S v = PyDict (py_dict
     [(''identity_id'', opt_to_py PyStr (cgmdio_identity_id v))])"

section \<open>\<open>SetPrincipalTagAttributeMapOutput\<close>\<close>

record set_principal_tag_attribute_map_output =
  cgsptamo_identity_pool_id :: "string option"
  cgsptamo_identity_provider_name :: "string option"
  cgsptamo_use_defaults :: "bool option"
  cgsptamo_principal_tags :: "(string, string) fmap option"

definition set_principal_tag_attribute_map_output_attributes :: "((string, pyval) fmap \<Rightarrow> (string \<times> pyval) list) \<Rightarrow> cognito_types \<Rightarrow> set_principal_tag_attribute_map_output \<Rightarrow> (string \<times> cognito_attr) list" where
  "set_principal_tag_attribute_map_output_attributes order S v =
     [(''identity_pool_id'', CognitoPlain (opt_to_py PyStr (cgsptamo_identity_pool_id v))),
      (''identity_provider_name'', CognitoPlain (opt_to_py PyStr (cgsptamo_identity_provider_name v))),
      (''use_defaults'', CognitoPlain (opt_to_py PyBool (cgsptamo_use_defaults v))),
      (''principal_tags'', CognitoPlain (opt_to_py (mapping_to_py order PyStr) (cgsptamo_principal_tags v)))]"

definition set_principal_tag_attribute_map_output_to_dict :: "((string, pyval) fmap \<Rightarrow> (string \<times> pyval) list) \<Rightarrow> cognito_types \<Rightarrow> set_principal_tag_attribute_map_output \<Rightarrow> pyval" where
  "set_principal_tag_attribute_map_output_to_dict order S v = PyDict (py_dict
     [(''identity_pool_id'', opt_to_py PyStr (cgsptamo_identity_pool_id v)),
      (''identity_provider_name'', opt_to_py PyStr (cgsptamo_identity_provider_name v)),
      (''use_defaults'', opt_to_py PyBool (cgsptamo_use_defaults v)),
      (''principal_tags'', opt_to_py (mapping_to_py order PyStr) (cgsptamo_principal_tags v))])"

section \<open>\<open>TagResourceOutput\<close>\<close>

datatype cognito_tag_resource_output = CognitoTagResourceOutput

definition cognito_tag_resource_output_attributes :: "((string, pyval) fmap \<Rightarrow> (string \<times> pyval) list) \<Rightarrow> cognito_types \<Rightarrow> cognito_tag_resource_output \<Rightarrow> (string \<times> cognito_attr) list" where
  "cognito_tag_resource_output_attributes order S v = []"

definition cognito_tag_resource_output_to_dict :: "((string, pyval) fmap \<Rightarrow> (string \<times> pyval) list) \<Rightarrow> cognito_types \<Rightarrow> cognito_tag_resource_output \<Rightarrow> pyval" where
  "cognito_tag_resource_output_to_dict order S v = PyDict (py_dict [])"

section \<open>\<open>UntagResourceOutput\<close>\<close>

datatype cognito_untag_resource_output = CognitoUntagResourceOutput

definition cognito_untag_resource_output_attributes :: "((string, pyval) fmap \<Rightarrow> (string \<times> pyval) list) \<Rightarrow> cognito_types \<Rightarrow> cognito_untag_resource_output \<Rightarrow> (string \<times> cognito_attr) list" where
  "cognito_untag_resource_output_attributes order S v = []"

definition cognito_untag_resource_output_to_dict :: "((string, pyval) fmap \<Rightarrow> (string \<times> pyval) list) \<Rightarrow> cognito_types \<Rightarrow> cognito_untag_resource_output \<Rightarrow> pyval" where
  "cognito_untag_resource_output_to_dict order S v = PyDict (py_dict [])"

section \<open>\<open>UpdateIdentityPoolOutput\<close>\<close>

record update_identity_pool_output =
  cguipo_identity_pool_id :: string
  cguipo_identity_pool_name :: string
  cguipo_allow_unauthenticated_identities :: bool
  cguipo_allow_classic_flow :: "bool option"
  cguipo_supported_login_providers :: "(string, string) fmap option"
  cguipo_developer_provider_name :: "string option"
  cguipo_open_id_connect_provider_arns :: "string list option"
  cguipo_cognito_identity_providers :: "cognito_identity_provider list option"
  cguipo_saml_provider_arns :: "string list option"
  cguipo_identity_pool_tags :: "(string, string) fmap option"

definition update_identity_pool_output_attributes :: "((string, pyval) fmap \<Rightarrow> (string \<times> pyval) list) \<Rightarrow> cognito_types \<Rightarrow> update_identity_pool_output \<Rightarrow> (string \<times> cognito_attr) list" where
  "update_identity_pool_output_attributes order S v =
     [(''identity_pool_id'', CognitoPlain (PyStr (cguipo_identity_pool_id v))),
      (''identity_pool_name'', CognitoPlain (PyStr (cguipo_identity_pool_name v))),
      (''allow_unauthenticated_identities'', CognitoPlain (PyBool (cguipo_allow_unauthenticated_identities v))),
      (''allow_classic_flow'', CognitoPlain (opt_to_py PyBool (cguipo_allow_classic_flow v))),
      (''supported_login_providers'', CognitoPlain (opt_to_py (mapping_to_py order PyStr) (cguipo_supported_login_providers v))),
      (''developer_provider_name'', CognitoPlain (opt_to_py PyStr (cguipo_developer_provider_name v))),
      (''open_id_connect_provider_arns'', CognitoPlain (opt_to_py (seq_to_py PyStr) (cguipo_open_id_connect_provider_arns v))),
      (''cognito_identity_providers'', cognito_opt_attr (\<lambda>xs. CognitoObjects (map CognitoCognitoIdentityProvider xs)) (cguipo_cognito_identity_providers v)),
      (''saml_provider_arns'', CognitoPlain (opt_to_py (seq_to_py PyStr) (cguipo_saml_provider_arns v))),
      (''identity_pool_tags'', CognitoPlain (opt_to_py (mapping_to_py order PyStr) (cguipo_identity_pool_tags v)))]"

definition update_identity_pool_output_to_dict :: "((string, pyval) fmap \<Rightarrow> (string \<times> pyval) list) \<Rightarrow> cognito_types \<Rightarrow> update_identity_pool_output \<Rightarrow> pyval" where
  "update_identity_pool_output_to_dict order S v = PyDict (py_dict
     [(''identity_pool_id'', PyStr (cguipo_identity_pool_id v)),
      (''identity_pool_name'', PyStr (cguipo_identity_pool_name v)),
      (''allow_unauthenticated_identities'', PyBool (cguipo_allow_unauthenticated_identities v)),
      (''allow_classic_flow'', opt_to_py PyBool (cguipo_allow_classic_flow v)),
      (''supported_login_providers'', opt_to_py (mapping_to_py order PyStr) (cguipo_supported_login_providers v)),
      (''developer_provider_name'', opt_to_py PyStr (cguipo_developer_provider_name v)),
      (''open_id_connect_provider_arns'', opt_to_py (seq_to_py PyStr) (cguipo_open_id_connect_provider_arns v)),
      (''cognito_identity_providers'', opt_to_py (seq_to_py cognito_identity_provider_to_py) (cguipo_cognito_identity_providers v)),
      (''saml_provider_arns'', opt_to_py (seq_to_py PyStr) (cguipo_saml_provider_arns v)),
      (''identity_pool_tags'', opt_to_py (mapping_to_py order PyStr) (cguipo_identity_pool_tags v))])"

section \<open>Dictionaries and attributes agree\<close>

text \<open>The plain value of an object is what its own \<open>to_dict\<close> gives.\<close>

fun cognito_render_object :: "((string, pyval) fmap \<Rightarrow> (string \<times> pyval) list) \<Rightarrow> cognito_types \<Rightarrow> cognito_object \<Rightarrow> pyval" where
  "cognito_render_object order S (CognitoCognitoIdentityProvider v) = cognito_identity_provider_to_dict order S v"
| "cognito_render_object order S (CognitoCredentials v) = cognito_credentials_to_dict order S v"
| "cognito_render_object order S (CognitoIdentityDescription v) = identity_description_to_dict order S v"
| "cognito_render_object order S (CognitoIdentityPoolShortDescription v) = identity_pool_short_description_to_dict order S v"
| "cognito_render_object order S (CognitoMappingRule v) = mapping_rule_to_dict order S v"
| "cognito_render_object order S (CognitoRoleMapping v) = role_mapping_to_dict order S v"
| "cognito_render_object order S (CognitoRulesConfigurationType v) = rules_configuration_type_to_dict order S v"
| "cognito_render_object order S (CognitoUnprocessedIdentityId v) = unprocessed_identity_id_to_dict order S v"

fun cognito_render :: "((string, pyval) fmap \<Rightarrow> (string \<times> pyval) list) \<Rightarrow> cognito_types \<Rightarrow> cognito_attr \<Rightarrow> pyval" where
  "cognito_render order S (CognitoPlain v) = v"
| "cognito_render order S (CognitoObject x) = cognito_render_object order S x"
| "cognito_render order S (CognitoObjects xs) = seq_to_py (cognito_render_object order S) xs"
| "cognito_render order S (CognitoObjectMap m) = mapping_to_py order (cognito_render_object order S) m"

lemma cognito_render_parts [simp]:
  "cognito_render order S (cognito_opt_attr f v) = opt_to_py (\<lambda>x. cognito_render order S (f x)) v"
  "seq_to_py g (map h xs) = seq_to_py (\<lambda>x. g (h x)) xs"
  "mapping_to_py order g (fmmap k m) = mapping_to_py order (\<lambda>x. g (k x)) m"
  by (simp_all add: cognito_opt_attr_def seq_to_py_def mapping_to_py_def fmap.map_comp comp_def split: option.splits)

definition cognito_attribute_dict :: "((string, pyval) fmap \<Rightarrow> (string \<times> pyval) list) \<Rightarrow> cognito_types \<Rightarrow> (string \<times> cognito_attr) list \<Rightarrow> pyval" where
  "cognito_attribute_dict order S attrs = PyDict (map (\<lambda>(name, a). (PyStr name, cognito_render order S a)) attrs)"

text \<open>
  For each of the 27 response classes, \<open>to_dict\<close> has exactly one entry per attribute, in the order of
  the getters, with the attribute's value: the value itself, or the dictionaries of the objects.
\<close>

lemma cognito_identity_provider_agrees:
  "cognito_identity_provider_to_dict order S v = cognito_attribute_dict order S (cognito_identity_provider_attributes order S v)"
  by (simp add: cognito_attribute_dict_def py_dict_distinct cognito_identity_provider_to_dict_def cognito_identity_provider_attributes_def
      cognito_identity_provider_to_py_def)

lemma cognito_credentials_agrees:
  "cognito_credentials_to_dict order S v = cognito_attribute_dict order S (cognito_credentials_attributes order S v)"
  by (simp add: cognito_attribute_dict_def py_dict_distinct cognito_credentials_to_dict_def cognito_credentials_attributes_def
      cognito_credentials_to_py_def)

lemma identity_description_agrees:
  "identity_description_to_dict order S v = cognito_attribute_dict order S (identity_description_attributes order S v)"
  by (simp add: cognito_attribute_dict_def py_dict_distinct identity_description_to_dict_def identity_description_attributes_def
      identity_description_to_py_def)

lemma identity_pool_short_description_agrees:
  "identity_pool_short_description_to_dict order S v = cognito_attribute_dict order S (identity_pool_short_description_attributes order S v)"
  by (simp add: cognito_attribute_dict_def py_dict_distinct identity_pool_short_description_to_dict_def identity_pool_short_description_attributes_def
      identity_pool_short_description_to_py_def)

lemma mapping_rule_agrees:
  "mapping_rule_to_dict order S v = cognito_attribute_dict order S (mapping_rule_attributes order S v)"
  by (simp add: cognito_attribute_dict_def py_dict_distinct mapping_rule_to_dict_def mapping_rule_attributes_def
      mapping_rule_to_py_def)

lemma role_mapping_agrees:
  "role_mapping_to_dict order S v = cognito_attribute_dict order S (role_mapping_attributes order S v)"
  by (simp add: cognito_attribute_dict_def py_dict_distinct role_mapping_to_dict_def role_mapping_attributes_def
      role_mapping_to_py_def rules_configuration_type_to_dict_def)

lemma rules_configuration_type_agrees:
  "rules_configuration_type_to_dict order S v = cognito_attribute_dict order S (rules_configuration_type_attributes order S v)"
  by (simp add: cognito_attribute_dict_def py_dict_distinct rules_configuration_type_to_dict_def rules_configuration_type_attributes_def
      rules_configuration_type_to_py_def mapping_rule_to_dict_def)

lemma unprocessed_identity_id_agrees:
  "unprocessed_identity_id_to_dict order S v = cognito_attribute_dict order S (unprocessed_identity_id_attributes order S v)"
  by (simp add: cognito_attribute_dict_def py_dict_distinct unprocessed_identity_id_to_dict_def unprocessed_identity_id_attributes_def
      unprocessed_identity_id_to_py_def)

lemma cognito_outputs_agree:
  "create_identity_pool_output_to_dict order S v8 = cognito_attribute_dict order S (create_identity_pool_output_attributes order S v8)"
  "delete_identities_output_to_dict order S v9 = cognito_attribute_dict order S (delete_identities_output_attributes order S v9)"
  "describe_identity_output_to_dict order S v10 = cognito_attribute_dict order S (describe_identity_output_attributes order S v10)"
  "describe_identity_pool_output_to_dict order S v11 = cognito_attribute_dict order S (describe_identity_pool_output_attributes order S v11)"
  "get_credentials_for_identity_output_to_dict order S v12 = cognito_attribute_dict order S (get_credentials_for_identity_output_attributes order S v12)"
  "get_id_output_to_dict order S v13 = cognito_attribute_dict order S (get_id_output_attributes order S v13)"
  "get_identity_pool_roles_output_to_dict order S v14 = cognito_attribute_dict order S (get_identity_pool_roles_output_attributes order S v14)"
  "get_open_id_token_output_to_dict order S v15 = cognito_attribute_dict order S (get_open_id_token_output_attributes order S v15)"
  "get_open_id_token_for_developer_identity_output_to_dict order S v16 = cognito_attribute_dict order S (get_open_id_token_for_developer_identity_output_attributes order S v16)"
  "get_principal_tag_attribute_map_output_to_dict order S v17 = cognito_attribute_dict order S (get_principal_tag_attribute_map_output_attributes order S v17)"
  "list_identities_output_to_dict order S v18 = cognito_attribute_dict order S (list_identities_output_attributes order S v18)"
  "list_identity_pools_output_to_dict order S v19 = cognito_attribute_dict order S (list_identity_pools_output_attributes order S v19)"
  "cognito_list_tags_for_resource_output_to_dict order S v20 = cognito_attribute_dict order S (cognito_list_tags_for_resource_output_attributes order S v20)"
  "lookup_developer_identity_output_to_dict order S v21 = cognito_attribute_dict order S (lookup_developer_identity_output_attributes order S v21)"
  "merge_developer_identities_output_to_dict order S v22 = cognito_attribute_dict order S (merge_developer_identities_output_attributes order S v22)"
  "set_principal_tag_attribute_map_output_to_dict order S v23 = cognito_attribute_dict order S (set_principal_tag_attribute_map_output_attributes order S v23)"
  "cognito_tag_resource_output_to_dict order S v24 = cognito_attribute_dict order S (cognito_tag_resource_output_attributes order S v24)"
  "cognito_untag_resource_output_to_dict order S v25 = cognito_attribute_dict order S (cognito_untag_resource_output_attributes order S v25)"
  "update_identity_pool_output_to_dict order S v26 = cognito_attribute_dict order S (update_identity_pool_output_attributes order S v26)"
  by (simp_all add: cognito_attribute_dict_def py_dict_distinct
      create_identity_pool_output_to_dict_def create_identity_pool_output_attributes_def
      delete_identities_output_to_dict_def delete_identities_output_attributes_def
      describe_identity_output_to_dict_def describe_identity_output_attributes_def
      describe_identity_pool_output_to_dict_def describe_identity_pool_output_attributes_def
      get_credentials_for_identity_output_to_dict_def get_credentials_for_identity_output_attributes_def
      get_id_output_to_dict_def get_id_output_attributes_def
      get_identity_pool_roles_output_to_dict_def get_identity_pool_roles_output_attributes_def
      get_open_id_token_output_to_dict_def get_open_id_token_output_attributes_def
      get_open_id_token_for_developer_identity_output_to_dict_def get_open_id_token_for_developer_identity_output_attributes_def
      get_principal_tag_attribute_map_output_to_dict_def get_principal_tag_attribute_map_output_attributes_def
      list_identities_output_to_dict_def list_identities_output_attributes_def
      list_identity_pools_output_to_dict_def list_identity_pools_output_attributes_def
      cognito_list_tags_for_resource_output_to_dict_def cognito_list_tags_for_resource_output_attributes_def
      lookup_developer_identity_output_to_dict_def lookup_developer_identity_output_attributes_def
      merge_developer_identities_output_to_dict_def merge_developer_identities_output_attributes_def
      set_principal_tag_attribute_map_output_to_dict_def set_principal_tag_attribute_map_output_attributes_def
      cognito_tag_resource_output_to_dict_def cognito_tag_resource_output_attributes_def
      cognito_untag_resource_output_to_dict_def cognito_untag_resource_output_attributes_def
      update_identity_pool_output_to_dict_def update_identity_pool_output_attributes_def
      cognito_identity_provider_to_dict_def
      cognito_credentials_to_dict_def
      identity_description_to_dict_def
      identity_pool_short_description_to_dict_def
      mapping_rule_to_dict_def
      role_mapping_to_dict_def
      rules_configuration_type_to_dict_def
      unprocessed_identity_id_to_dict_def)

end
