(* ===== verification/Cognito.thy ===== *)
theory Cognito
  imports CognitoOutputs
begin

text \<open>
  The operations of the Cognito Identity client: the methods of \<open>CognitoIdentityClient\<close> in
  \<open>crates/rboto-cognito-identity/src/generated.rs\<close>, each reading its parameters from a dictionary and sending them
  through the shared \<open>execute\<close>, and the methods of the Python client
  (\<open>packages/rboto-cognito-identity/python/rboto_cognito_identity/client.py\<close>) that build those dictionaries.
\<close>

section \<open>Operations\<close>

subsection \<open>\<open>CreateIdentityPool\<close>\<close>

record create_identity_pool_input =
  cgcipi_identity_pool_name :: "string option"
  cgcipi_allow_unauthenticated_identities :: "bool option"
  cgcipi_allow_classic_flow :: "bool option"
  cgcipi_supported_login_providers :: "(string, string) fmap option"
  cgcipi_developer_provider_name :: "string option"
  cgcipi_open_id_connect_provider_arns :: "string list option"
  cgcipi_cognito_identity_providers :: "cognito_identity_provider list option"
  cgcipi_saml_provider_arns :: "string list option"
  cgcipi_identity_pool_tags :: "(string, string) fmap option"

definition create_identity_pool_params_1 :: "pyo3 \<Rightarrow> cognito_types \<Rightarrow> pydict \<Rightarrow>
    (string option \<times> bool option \<times> bool option \<times> (string, string) fmap option) pyresult" where
  "create_identity_pool_params_1 P S params =
     and_then (op_param P ''cognito-identity'' ''CreateIdentityPool'' params ''identity_pool_name'' ''str'' (string_from_py P)) (\<lambda>identity_pool_name.
     and_then (op_param P ''cognito-identity'' ''CreateIdentityPool'' params ''allow_unauthenticated_identities'' ''bool'' (bool_from_py P)) (\<lambda>allow_unauthenticated_identities.
     and_then (op_param P ''cognito-identity'' ''CreateIdentityPool'' params ''allow_classic_flow'' ''bool'' (bool_from_py P)) (\<lambda>allow_classic_flow.
     and_then (op_param P ''cognito-identity'' ''CreateIdentityPool'' params ''supported_login_providers'' ''dict'' (map_from_py P ''str'' ''str'' (string_from_py P))) (\<lambda>supported_login_providers.
     Inr (identity_pool_name, allow_unauthenticated_identities, allow_classic_flow, supported_login_providers)))))"

definition create_identity_pool_params_2 :: "pyo3 \<Rightarrow> cognito_types \<Rightarrow> pydict \<Rightarrow>
    (string option \<times> string list option \<times> cognito_identity_provider list option) pyresult" where
  "create_identity_pool_params_2 P S params =
     and_then (op_param P ''cognito-identity'' ''CreateIdentityPool'' params ''developer_provider_name'' ''str'' (string_from_py P)) (\<lambda>developer_provider_name.
     and_then (op_param P ''cognito-identity'' ''CreateIdentityPool'' params ''open_id_connect_provider_arns'' ''sequence'' (seq_from_py P ''str'' (string_from_py P))) (\<lambda>open_id_connect_provider_arns.
     and_then (op_param P ''cognito-identity'' ''CreateIdentityPool'' params ''cognito_identity_providers'' ''sequence'' (seq_from_py P ''dict (CognitoIdentityProvider)'' (cognito_identity_provider_from_py P S))) (\<lambda>cognito_identity_providers.
     Inr (developer_provider_name, open_id_connect_provider_arns, cognito_identity_providers))))"

definition create_identity_pool_params_3 :: "pyo3 \<Rightarrow> cognito_types \<Rightarrow> pydict \<Rightarrow>
    (string list option \<times> (string, string) fmap option) pyresult" where
  "create_identity_pool_params_3 P S params =
     and_then (op_param P ''cognito-identity'' ''CreateIdentityPool'' params ''saml_provider_arns'' ''sequence'' (seq_from_py P ''str'' (string_from_py P))) (\<lambda>saml_provider_arns.
     and_then (op_param P ''cognito-identity'' ''CreateIdentityPool'' params ''identity_pool_tags'' ''dict'' (map_from_py P ''str'' ''str'' (string_from_py P))) (\<lambda>identity_pool_tags.
     Inr (saml_provider_arns, identity_pool_tags)))"

definition create_identity_pool_params :: "pyo3 \<Rightarrow> cognito_types \<Rightarrow> pydict \<Rightarrow>
    create_identity_pool_input pyresult" where
  "create_identity_pool_params P S params =
     and_then (create_identity_pool_params_1 P S params) (\<lambda>(identity_pool_name, allow_unauthenticated_identities, allow_classic_flow, supported_login_providers).
     and_then (create_identity_pool_params_2 P S params) (\<lambda>(developer_provider_name, open_id_connect_provider_arns, cognito_identity_providers).
     and_then (create_identity_pool_params_3 P S params) (\<lambda>(saml_provider_arns, identity_pool_tags).
     Inr \<lparr>cgcipi_identity_pool_name = identity_pool_name,
       cgcipi_allow_unauthenticated_identities = allow_unauthenticated_identities,
       cgcipi_allow_classic_flow = allow_classic_flow,
       cgcipi_supported_login_providers = supported_login_providers,
       cgcipi_developer_provider_name = developer_provider_name,
       cgcipi_open_id_connect_provider_arns = open_id_connect_provider_arns,
       cgcipi_cognito_identity_providers = cognito_identity_providers,
       cgcipi_saml_provider_arns = saml_provider_arns,
       cgcipi_identity_pool_tags = identity_pool_tags\<rparr>)))"

definition create_identity_pool :: "('cfg, 'client) service_env \<Rightarrow> pyo3 \<Rightarrow> cognito_types \<Rightarrow> unit pyresult \<Rightarrow> bool \<Rightarrow>
    ('client \<Rightarrow> create_identity_pool_input \<Rightarrow> trip list \<times> (('e, http_response) sdk_error + create_identity_pool_output)) \<Rightarrow>
    'client client_handle \<Rightarrow> pydict \<Rightarrow> pydict option \<Rightarrow>
    (create_identity_pool_output pyresult \<times> 'client client_handle \<times> pydict option) option" where
  "create_identity_pool E P S bridge interrupted send c params observation =
     execute E bridge interrupted send no_details
       ''CreateIdentityPool'' (create_identity_pool_params P S params) c observation"

definition create_identity_pool_call :: "((string, pyval) fmap \<Rightarrow> (string \<times> pyval) list) \<Rightarrow> create_identity_pool_input \<Rightarrow> pydict" where
  "create_identity_pool_call order i = py_params
     [(''identity_pool_name'', opt_to_py PyStr (cgcipi_identity_pool_name i)),
      (''allow_unauthenticated_identities'', opt_to_py PyBool (cgcipi_allow_unauthenticated_identities i))]
     [(''allow_classic_flow'', opt_to_py PyBool (cgcipi_allow_classic_flow i)),
      (''supported_login_providers'', opt_to_py (mapping_to_py order PyStr) (cgcipi_supported_login_providers i)),
      (''developer_provider_name'', opt_to_py PyStr (cgcipi_developer_provider_name i)),
      (''open_id_connect_provider_arns'', opt_to_py (seq_to_py PyStr) (cgcipi_open_id_connect_provider_arns i)),
      (''cognito_identity_providers'', opt_to_py (seq_to_py cognito_identity_provider_to_py) (cgcipi_cognito_identity_providers i)),
      (''saml_provider_arns'', opt_to_py (seq_to_py PyStr) (cgcipi_saml_provider_arns i)),
      (''identity_pool_tags'', opt_to_py (mapping_to_py order PyStr) (cgcipi_identity_pool_tags i))]"

subsection \<open>\<open>DeleteIdentities\<close>\<close>

record delete_identities_input =
  cgdii_identity_ids_to_delete :: "string list option"

definition delete_identities_params :: "pyo3 \<Rightarrow> cognito_types \<Rightarrow> pydict \<Rightarrow>
    delete_identities_input pyresult" where
  "delete_identities_params P S params =
     and_then (op_param P ''cognito-identity'' ''DeleteIdentities'' params ''identity_ids_to_delete'' ''sequence'' (seq_from_py P ''str'' (string_from_py P))) (\<lambda>identity_ids_to_delete.
     Inr \<lparr>cgdii_identity_ids_to_delete = identity_ids_to_delete\<rparr>)"

definition delete_identities :: "('cfg, 'client) service_env \<Rightarrow> pyo3 \<Rightarrow> cognito_types \<Rightarrow> unit pyresult \<Rightarrow> bool \<Rightarrow>
    ('client \<Rightarrow> delete_identities_input \<Rightarrow> trip list \<times> (('e, http_response) sdk_error + delete_identities_output)) \<Rightarrow>
    'client client_handle \<Rightarrow> pydict \<Rightarrow> pydict option \<Rightarrow>
    (delete_identities_output pyresult \<times> 'client client_handle \<times> pydict option) option" where
  "delete_identities E P S bridge interrupted send c params observation =
     execute E bridge interrupted send no_details
       ''DeleteIdentities'' (delete_identities_params P S params) c observation"

definition delete_identities_call :: "delete_identities_input \<Rightarrow> pydict" where
  "delete_identities_call i = py_params
     [(''identity_ids_to_delete'', opt_to_py (seq_to_py PyStr) (cgdii_identity_ids_to_delete i))]
     []"

subsection \<open>\<open>DeleteIdentityPool\<close>\<close>

record delete_identity_pool_input =
  cgdipi_identity_pool_id :: "string option"

definition delete_identity_pool_params :: "pyo3 \<Rightarrow> cognito_types \<Rightarrow> pydict \<Rightarrow>
    delete_identity_pool_input pyresult" where
  "delete_identity_pool_params P S params =
     and_then (op_param P ''cognito-identity'' ''DeleteIdentityPool'' params ''identity_pool_id'' ''str'' (string_from_py P)) (\<lambda>identity_pool_id.
     Inr \<lparr>cgdipi_identity_pool_id = identity_pool_id\<rparr>)"

definition delete_identity_pool :: "('cfg, 'client) service_env \<Rightarrow> pyo3 \<Rightarrow> cognito_types \<Rightarrow> unit pyresult \<Rightarrow> bool \<Rightarrow>
    ('client \<Rightarrow> delete_identity_pool_input \<Rightarrow> trip list \<times> (('e, http_response) sdk_error + unit)) \<Rightarrow>
    'client client_handle \<Rightarrow> pydict \<Rightarrow> pydict option \<Rightarrow>
    (unit pyresult \<times> 'client client_handle \<times> pydict option) option" where
  "delete_identity_pool E P S bridge interrupted send c params observation =
     execute E bridge interrupted send no_details
       ''DeleteIdentityPool'' (delete_identity_pool_params P S params) c observation"

definition delete_identity_pool_call :: "delete_identity_pool_input \<Rightarrow> pydict" where
  "delete_identity_pool_call i = py_params
     [(''identity_pool_id'', opt_to_py PyStr (cgdipi_identity_pool_id i))]
     []"

subsection \<open>\<open>DescribeIdentity\<close>\<close>

record describe_identity_input =
  cgdii2_identity_id :: "string option"

definition describe_identity_params :: "pyo3 \<Rightarrow> cognito_types \<Rightarrow> pydict \<Rightarrow>
    describe_identity_input pyresult" where
  "describe_identity_params P S params =
     and_then (op_param P ''cognito-identity'' ''DescribeIdentity'' params ''identity_id'' ''str'' (string_from_py P)) (\<lambda>identity_id.
     Inr \<lparr>cgdii2_identity_id = identity_id\<rparr>)"

definition describe_identity :: "('cfg, 'client) service_env \<Rightarrow> pyo3 \<Rightarrow> cognito_types \<Rightarrow> unit pyresult \<Rightarrow> bool \<Rightarrow>
    ('client \<Rightarrow> describe_identity_input \<Rightarrow> trip list \<times> (('e, http_response) sdk_error + describe_identity_output)) \<Rightarrow>
    'client client_handle \<Rightarrow> pydict \<Rightarrow> pydict option \<Rightarrow>
    (describe_identity_output pyresult \<times> 'client client_handle \<times> pydict option) option" where
  "describe_identity E P S bridge interrupted send c params observation =
     execute E bridge interrupted send no_details
       ''DescribeIdentity'' (describe_identity_params P S params) c observation"

definition describe_identity_call :: "describe_identity_input \<Rightarrow> pydict" where
  "describe_identity_call i = py_params
     [(''identity_id'', opt_to_py PyStr (cgdii2_identity_id i))]
     []"

subsection \<open>\<open>DescribeIdentityPool\<close>\<close>

record describe_identity_pool_input =
  cgdipi2_identity_pool_id :: "string option"

definition describe_identity_pool_params :: "pyo3 \<Rightarrow> cognito_types \<Rightarrow> pydict \<Rightarrow>
    describe_identity_pool_input pyresult" where
  "describe_identity_pool_params P S params =
     and_then (op_param P ''cognito-identity'' ''DescribeIdentityPool'' params ''identity_pool_id'' ''str'' (string_from_py P)) (\<lambda>identity_pool_id.
     Inr \<lparr>cgdipi2_identity_pool_id = identity_pool_id\<rparr>)"

definition describe_identity_pool :: "('cfg, 'client) service_env \<Rightarrow> pyo3 \<Rightarrow> cognito_types \<Rightarrow> unit pyresult \<Rightarrow> bool \<Rightarrow>
    ('client \<Rightarrow> describe_identity_pool_input \<Rightarrow> trip list \<times> (('e, http_response) sdk_error + describe_identity_pool_output)) \<Rightarrow>
    'client client_handle \<Rightarrow> pydict \<Rightarrow> pydict option \<Rightarrow>
    (describe_identity_pool_output pyresult \<times> 'client client_handle \<times> pydict option) option" where
  "describe_identity_pool E P S bridge interrupted send c params observation =
     execute E bridge interrupted send no_details
       ''DescribeIdentityPool'' (describe_identity_pool_params P S params) c observation"

definition describe_identity_pool_call :: "describe_identity_pool_input \<Rightarrow> pydict" where
  "describe_identity_pool_call i = py_params
     [(''identity_pool_id'', opt_to_py PyStr (cgdipi2_identity_pool_id i))]
     []"

subsection \<open>\<open>GetCredentialsForIdentity\<close>\<close>

record get_credentials_for_identity_input =
  cggcfii_identity_id :: "string option"
  cggcfii_logins :: "(string, string) fmap option"
  cggcfii_custom_role_arn :: "string option"

definition get_credentials_for_identity_params :: "pyo3 \<Rightarrow> cognito_types \<Rightarrow> pydict \<Rightarrow>
    get_credentials_for_identity_input pyresult" where
  "get_credentials_for_identity_params P S params =
     and_then (op_param P ''cognito-identity'' ''GetCredentialsForIdentity'' params ''identity_id'' ''str'' (string_from_py P)) (\<lambda>identity_id.
     and_then (op_param P ''cognito-identity'' ''GetCredentialsForIdentity'' params ''logins'' ''dict'' (map_from_py P ''str'' ''str'' (string_from_py P))) (\<lambda>logins.
     and_then (op_param P ''cognito-identity'' ''GetCredentialsForIdentity'' params ''custom_role_arn'' ''str'' (string_from_py P)) (\<lambda>custom_role_arn.
     Inr \<lparr>cggcfii_identity_id = identity_id,
       cggcfii_logins = logins,
       cggcfii_custom_role_arn = custom_role_arn\<rparr>)))"

definition get_credentials_for_identity :: "('cfg, 'client) service_env \<Rightarrow> pyo3 \<Rightarrow> cognito_types \<Rightarrow> unit pyresult \<Rightarrow> bool \<Rightarrow>
    ('client \<Rightarrow> get_credentials_for_identity_input \<Rightarrow> trip list \<times> (('e, http_response) sdk_error + get_credentials_for_identity_output)) \<Rightarrow>
    'client client_handle \<Rightarrow> pydict \<Rightarrow> pydict option \<Rightarrow>
    (get_credentials_for_identity_output pyresult \<times> 'client client_handle \<times> pydict option) option" where
  "get_credentials_for_identity E P S bridge interrupted send c params observation =
     execute E bridge interrupted send no_details
       ''GetCredentialsForIdentity'' (get_credentials_for_identity_params P S params) c observation"

definition get_credentials_for_identity_call :: "((string, pyval) fmap \<Rightarrow> (string \<times> pyval) list) \<Rightarrow> get_credentials_for_identity_input \<Rightarrow> pydict" where
  "get_credentials_for_identity_call order i = py_params
     [(''identity_id'', opt_to_py PyStr (cggcfii_identity_id i))]
     [(''logins'', opt_to_py (mapping_to_py order PyStr) (cggcfii_logins i)),
      (''custom_role_arn'', opt_to_py PyStr (cggcfii_custom_role_arn i))]"

subsection \<open>\<open>GetId\<close>\<close>

record get_id_input =
  cggii_account_id :: "string option"
  cggii_identity_pool_id :: "string option"
  cggii_logins :: "(string, string) fmap option"

definition get_id_params :: "pyo3 \<Rightarrow> cognito_types \<Rightarrow> pydict \<Rightarrow>
    get_id_input pyresult" where
  "get_id_params P S params =
     and_then (op_param P ''cognito-identity'' ''GetId'' params ''account_id'' ''str'' (string_from_py P)) (\<lambda>account_id.
     and_then (op_param P ''cognito-identity'' ''GetId'' params ''identity_pool_id'' ''str'' (string_from_py P)) (\<lambda>identity_pool_id.
     and_then (op_param P ''cognito-identity'' ''GetId'' params ''logins'' ''dict'' (map_from_py P ''str'' ''str'' (string_from_py P))) (\<lambda>logins.
     Inr \<lparr>cggii_account_id = account_id,
       cggii_identity_pool_id = identity_pool_id,
       cggii_logins = logins\<rparr>)))"

definition get_id :: "('cfg, 'client) service_env \<Rightarrow> pyo3 \<Rightarrow> cognito_types \<Rightarrow> unit pyresult \<Rightarrow> bool \<Rightarrow>
    ('client \<Rightarrow> get_id_input \<Rightarrow> trip list \<times> (('e, http_response) sdk_error + get_id_output)) \<Rightarrow>
    'client client_handle \<Rightarrow> pydict \<Rightarrow> pydict option \<Rightarrow>
    (get_id_output pyresult \<times> 'client client_handle \<times> pydict option) option" where
  "get_id E P S bridge interrupted send c params observation =
     execute E bridge interrupted send no_details
       ''GetId'' (get_id_params P S params) c observation"

definition get_id_call :: "((string, pyval) fmap \<Rightarrow> (string \<times> pyval) list) \<Rightarrow> get_id_input \<Rightarrow> pydict" where
  "get_id_call order i = py_params
     [(''identity_pool_id'', opt_to_py PyStr (cggii_identity_pool_id i))]
     [(''account_id'', opt_to_py PyStr (cggii_account_id i)),
      (''logins'', opt_to_py (mapping_to_py order PyStr) (cggii_logins i))]"

subsection \<open>\<open>GetIdentityPoolRoles\<close>\<close>

record get_identity_pool_roles_input =
  cggipri_identity_pool_id :: "string option"

definition get_identity_pool_roles_params :: "pyo3 \<Rightarrow> cognito_types \<Rightarrow> pydict \<Rightarrow>
    get_identity_pool_roles_input pyresult" where
  "get_identity_pool_roles_params P S params =
     and_then (op_param P ''cognito-identity'' ''GetIdentityPoolRoles'' params ''identity_pool_id'' ''str'' (string_from_py P)) (\<lambda>identity_pool_id.
     Inr \<lparr>cggipri_identity_pool_id = identity_pool_id\<rparr>)"

definition get_identity_pool_roles :: "('cfg, 'client) service_env \<Rightarrow> pyo3 \<Rightarrow> cognito_types \<Rightarrow> unit pyresult \<Rightarrow> bool \<Rightarrow>
    ('client \<Rightarrow> get_identity_pool_roles_input \<Rightarrow> trip list \<times> (('e, http_response) sdk_error + get_identity_pool_roles_output)) \<Rightarrow>
    'client client_handle \<Rightarrow> pydict \<Rightarrow> pydict option \<Rightarrow>
    (get_identity_pool_roles_output pyresult \<times> 'client client_handle \<times> pydict option) option" where
  "get_identity_pool_roles E P S bridge interrupted send c params observation =
     execute E bridge interrupted send no_details
       ''GetIdentityPoolRoles'' (get_identity_pool_roles_params P S params) c observation"

definition get_identity_pool_roles_call :: "get_identity_pool_roles_input \<Rightarrow> pydict" where
  "get_identity_pool_roles_call i = py_params
     [(''identity_pool_id'', opt_to_py PyStr (cggipri_identity_pool_id i))]
     []"

subsection \<open>\<open>GetOpenIdToken\<close>\<close>

record get_open_id_token_input =
  cggoiti_identity_id :: "string option"
  cggoiti_logins :: "(string, string) fmap option"

definition get_open_id_token_params :: "pyo3 \<Rightarrow> cognito_types \<Rightarrow> pydict \<Rightarrow>
    get_open_id_token_input pyresult" where
  "get_open_id_token_params P S params =
     and_then (op_param P ''cognito-identity'' ''GetOpenIdToken'' params ''identity_id'' ''str'' (string_from_py P)) (\<lambda>identity_id.
     and_then (op_param P ''cognito-identity'' ''GetOpenIdToken'' params ''logins'' ''dict'' (map_from_py P ''str'' ''str'' (string_from_py P))) (\<lambda>logins.
     Inr \<lparr>cggoiti_identity_id = identity_id,
       cggoiti_logins = logins\<rparr>))"

definition get_open_id_token :: "('cfg, 'client) service_env \<Rightarrow> pyo3 \<Rightarrow> cognito_types \<Rightarrow> unit pyresult \<Rightarrow> bool \<Rightarrow>
    ('client \<Rightarrow> get_open_id_token_input \<Rightarrow> trip list \<times> (('e, http_response) sdk_error + get_open_id_token_output)) \<Rightarrow>
    'client client_handle \<Rightarrow> pydict \<Rightarrow> pydict option \<Rightarrow>
    (get_open_id_token_output pyresult \<times> 'client client_handle \<times> pydict option) option" where
  "get_open_id_token E P S bridge interrupted send c params observation =
     execute E bridge interrupted send no_details
       ''GetOpenIdToken'' (get_open_id_token_params P S params) c observation"

definition get_open_id_token_call :: "((string, pyval) fmap \<Rightarrow> (string \<times> pyval) list) \<Rightarrow> get_open_id_token_input \<Rightarrow> pydict" where
  "get_open_id_token_call order i = py_params
     [(''identity_id'', opt_to_py PyStr (cggoiti_identity_id i))]
     [(''logins'', opt_to_py (mapping_to_py order PyStr) (cggoiti_logins i))]"

subsection \<open>\<open>GetOpenIdTokenForDeveloperIdentity\<close>\<close>

record get_open_id_token_for_developer_identity_input =
  cggoitfdii_identity_pool_id :: "string option"
  cggoitfdii_identity_id :: "string option"
  cggoitfdii_logins :: "(string, string) fmap option"
  cggoitfdii_principal_tags :: "(string, string) fmap option"
  cggoitfdii_token_duration :: "64 word option"

definition get_open_id_token_for_developer_identity_params :: "pyo3 \<Rightarrow> cognito_types \<Rightarrow> pydict \<Rightarrow>
    get_open_id_token_for_developer_identity_input pyresult" where
  "get_open_id_token_for_developer_identity_params P S params =
     and_then (op_param P ''cognito-identity'' ''GetOpenIdTokenForDeveloperIdentity'' params ''identity_pool_id'' ''str'' (string_from_py P)) (\<lambda>identity_pool_id.
     and_then (op_param P ''cognito-identity'' ''GetOpenIdTokenForDeveloperIdentity'' params ''identity_id'' ''str'' (string_from_py P)) (\<lambda>identity_id.
     and_then (op_param P ''cognito-identity'' ''GetOpenIdTokenForDeveloperIdentity'' params ''logins'' ''dict'' (map_from_py P ''str'' ''str'' (string_from_py P))) (\<lambda>logins.
     and_then (op_param P ''cognito-identity'' ''GetOpenIdTokenForDeveloperIdentity'' params ''principal_tags'' ''dict'' (map_from_py P ''str'' ''str'' (string_from_py P))) (\<lambda>principal_tags.
     and_then (op_param P ''cognito-identity'' ''GetOpenIdTokenForDeveloperIdentity'' params ''token_duration'' ''int'' (i64_from_py P)) (\<lambda>token_duration.
     Inr \<lparr>cggoitfdii_identity_pool_id = identity_pool_id,
       cggoitfdii_identity_id = identity_id,
       cggoitfdii_logins = logins,
       cggoitfdii_principal_tags = principal_tags,
       cggoitfdii_token_duration = token_duration\<rparr>)))))"

definition get_open_id_token_for_developer_identity :: "('cfg, 'client) service_env \<Rightarrow> pyo3 \<Rightarrow> cognito_types \<Rightarrow> unit pyresult \<Rightarrow> bool \<Rightarrow>
    ('client \<Rightarrow> get_open_id_token_for_developer_identity_input \<Rightarrow> trip list \<times> (('e, http_response) sdk_error + get_open_id_token_for_developer_identity_output)) \<Rightarrow>
    'client client_handle \<Rightarrow> pydict \<Rightarrow> pydict option \<Rightarrow>
    (get_open_id_token_for_developer_identity_output pyresult \<times> 'client client_handle \<times> pydict option) option" where
  "get_open_id_token_for_developer_identity E P S bridge interrupted send c params observation =
     execute E bridge interrupted send no_details
       ''GetOpenIdTokenForDeveloperIdentity'' (get_open_id_token_for_developer_identity_params P S params) c observation"

definition get_open_id_token_for_developer_identity_call :: "((string, pyval) fmap \<Rightarrow> (string \<times> pyval) list) \<Rightarrow> get_open_id_token_for_developer_identity_input \<Rightarrow> pydict" where
  "get_open_id_token_for_developer_identity_call order i = py_params
     [(''identity_pool_id'', opt_to_py PyStr (cggoitfdii_identity_pool_id i)),
      (''logins'', opt_to_py (mapping_to_py order PyStr) (cggoitfdii_logins i))]
     [(''identity_id'', opt_to_py PyStr (cggoitfdii_identity_id i)),
      (''principal_tags'', opt_to_py (mapping_to_py order PyStr) (cggoitfdii_principal_tags i)),
      (''token_duration'', opt_to_py i64_to_py (cggoitfdii_token_duration i))]"

subsection \<open>\<open>GetPrincipalTagAttributeMap\<close>\<close>

record get_principal_tag_attribute_map_input =
  cggptami_identity_pool_id :: "string option"
  cggptami_identity_provider_name :: "string option"

definition get_principal_tag_attribute_map_params :: "pyo3 \<Rightarrow> cognito_types \<Rightarrow> pydict \<Rightarrow>
    get_principal_tag_attribute_map_input pyresult" where
  "get_principal_tag_attribute_map_params P S params =
     and_then (op_param P ''cognito-identity'' ''GetPrincipalTagAttributeMap'' params ''identity_pool_id'' ''str'' (string_from_py P)) (\<lambda>identity_pool_id.
     and_then (op_param P ''cognito-identity'' ''GetPrincipalTagAttributeMap'' params ''identity_provider_name'' ''str'' (string_from_py P)) (\<lambda>identity_provider_name.
     Inr \<lparr>cggptami_identity_pool_id = identity_pool_id,
       cggptami_identity_provider_name = identity_provider_name\<rparr>))"

definition get_principal_tag_attribute_map :: "('cfg, 'client) service_env \<Rightarrow> pyo3 \<Rightarrow> cognito_types \<Rightarrow> unit pyresult \<Rightarrow> bool \<Rightarrow>
    ('client \<Rightarrow> get_principal_tag_attribute_map_input \<Rightarrow> trip list \<times> (('e, http_response) sdk_error + get_principal_tag_attribute_map_output)) \<Rightarrow>
    'client client_handle \<Rightarrow> pydict \<Rightarrow> pydict option \<Rightarrow>
    (get_principal_tag_attribute_map_output pyresult \<times> 'client client_handle \<times> pydict option) option" where
  "get_principal_tag_attribute_map E P S bridge interrupted send c params observation =
     execute E bridge interrupted send no_details
       ''GetPrincipalTagAttributeMap'' (get_principal_tag_attribute_map_params P S params) c observation"

definition get_principal_tag_attribute_map_call :: "get_principal_tag_attribute_map_input \<Rightarrow> pydict" where
  "get_principal_tag_attribute_map_call i = py_params
     [(''identity_pool_id'', opt_to_py PyStr (cggptami_identity_pool_id i)),
      (''identity_provider_name'', opt_to_py PyStr (cggptami_identity_provider_name i))]
     []"

subsection \<open>\<open>ListIdentities\<close>\<close>

record list_identities_input =
  cglii_identity_pool_id :: "string option"
  cglii_max_results :: "32 word option"
  cglii_next_token :: "string option"
  cglii_hide_disabled :: "bool option"

definition list_identities_params :: "pyo3 \<Rightarrow> cognito_types \<Rightarrow> pydict \<Rightarrow>
    list_identities_input pyresult" where
  "list_identities_params P S params =
     and_then (op_param P ''cognito-identity'' ''ListIdentities'' params ''identity_pool_id'' ''str'' (string_from_py P)) (\<lambda>identity_pool_id.
     and_then (op_param P ''cognito-identity'' ''ListIdentities'' params ''max_results'' ''int'' (i32_from_py P)) (\<lambda>max_results.
     and_then (op_param P ''cognito-identity'' ''ListIdentities'' params ''next_token'' ''str'' (string_from_py P)) (\<lambda>next_token.
     and_then (op_param P ''cognito-identity'' ''ListIdentities'' params ''hide_disabled'' ''bool'' (bool_from_py P)) (\<lambda>hide_disabled.
     Inr \<lparr>cglii_identity_pool_id = identity_pool_id,
       cglii_max_results = max_results,
       cglii_next_token = next_token,
       cglii_hide_disabled = hide_disabled\<rparr>))))"

definition list_identities :: "('cfg, 'client) service_env \<Rightarrow> pyo3 \<Rightarrow> cognito_types \<Rightarrow> unit pyresult \<Rightarrow> bool \<Rightarrow>
    ('client \<Rightarrow> list_identities_input \<Rightarrow> trip list \<times> (('e, http_response) sdk_error + list_identities_output)) \<Rightarrow>
    'client client_handle \<Rightarrow> pydict \<Rightarrow> pydict option \<Rightarrow>
    (list_identities_output pyresult \<times> 'client client_handle \<times> pydict option) option" where
  "list_identities E P S bridge interrupted send c params observation =
     execute E bridge interrupted send no_details
       ''ListIdentities'' (list_identities_params P S params) c observation"

definition list_identities_call :: "list_identities_input \<Rightarrow> pydict" where
  "list_identities_call i = py_params
     [(''identity_pool_id'', opt_to_py PyStr (cglii_identity_pool_id i)),
      (''max_results'', opt_to_py i32_to_py (cglii_max_results i))]
     [(''next_token'', opt_to_py PyStr (cglii_next_token i)),
      (''hide_disabled'', opt_to_py PyBool (cglii_hide_disabled i))]"

subsection \<open>\<open>ListIdentityPools\<close>\<close>

record list_identity_pools_input =
  cglipi_max_results :: "32 word option"
  cglipi_next_token :: "string option"

definition list_identity_pools_params :: "pyo3 \<Rightarrow> cognito_types \<Rightarrow> pydict \<Rightarrow>
    list_identity_pools_input pyresult" where
  "list_identity_pools_params P S params =
     and_then (op_param P ''cognito-identity'' ''ListIdentityPools'' params ''max_results'' ''int'' (i32_from_py P)) (\<lambda>max_results.
     and_then (op_param P ''cognito-identity'' ''ListIdentityPools'' params ''next_token'' ''str'' (string_from_py P)) (\<lambda>next_token.
     Inr \<lparr>cglipi_max_results = max_results,
       cglipi_next_token = next_token\<rparr>))"

definition list_identity_pools :: "('cfg, 'client) service_env \<Rightarrow> pyo3 \<Rightarrow> cognito_types \<Rightarrow> unit pyresult \<Rightarrow> bool \<Rightarrow>
    ('client \<Rightarrow> list_identity_pools_input \<Rightarrow> trip list \<times> (('e, http_response) sdk_error + list_identity_pools_output)) \<Rightarrow>
    'client client_handle \<Rightarrow> pydict \<Rightarrow> pydict option \<Rightarrow>
    (list_identity_pools_output pyresult \<times> 'client client_handle \<times> pydict option) option" where
  "list_identity_pools E P S bridge interrupted send c params observation =
     execute E bridge interrupted send no_details
       ''ListIdentityPools'' (list_identity_pools_params P S params) c observation"

definition list_identity_pools_call :: "list_identity_pools_input \<Rightarrow> pydict" where
  "list_identity_pools_call i = py_params
     [(''max_results'', opt_to_py i32_to_py (cglipi_max_results i))]
     [(''next_token'', opt_to_py PyStr (cglipi_next_token i))]"

subsection \<open>\<open>ListTagsForResource\<close>\<close>

record cognito_list_tags_for_resource_input =
  cgcltfri_resource_arn :: "string option"

definition cognito_list_tags_for_resource_params :: "pyo3 \<Rightarrow> cognito_types \<Rightarrow> pydict \<Rightarrow>
    cognito_list_tags_for_resource_input pyresult" where
  "cognito_list_tags_for_resource_params P S params =
     and_then (op_param P ''cognito-identity'' ''ListTagsForResource'' params ''resource_arn'' ''str'' (string_from_py P)) (\<lambda>resource_arn.
     Inr \<lparr>cgcltfri_resource_arn = resource_arn\<rparr>)"

definition cognito_list_tags_for_resource :: "('cfg, 'client) service_env \<Rightarrow> pyo3 \<Rightarrow> cognito_types \<Rightarrow> unit pyresult \<Rightarrow> bool \<Rightarrow>
    ('client \<Rightarrow> cognito_list_tags_for_resource_input \<Rightarrow> trip list \<times> (('e, http_response) sdk_error + cognito_list_tags_for_resource_output)) \<Rightarrow>
    'client client_handle \<Rightarrow> pydict \<Rightarrow> pydict option \<Rightarrow>
    (cognito_list_tags_for_resource_output pyresult \<times> 'client client_handle \<times> pydict option) option" where
  "cognito_list_tags_for_resource E P S bridge interrupted send c params observation =
     execute E bridge interrupted send no_details
       ''ListTagsForResource'' (cognito_list_tags_for_resource_params P S params) c observation"

definition cognito_list_tags_for_resource_call :: "cognito_list_tags_for_resource_input \<Rightarrow> pydict" where
  "cognito_list_tags_for_resource_call i = py_params
     [(''resource_arn'', opt_to_py PyStr (cgcltfri_resource_arn i))]
     []"

subsection \<open>\<open>LookupDeveloperIdentity\<close>\<close>

record lookup_developer_identity_input =
  cgldii_identity_pool_id :: "string option"
  cgldii_identity_id :: "string option"
  cgldii_developer_user_identifier :: "string option"
  cgldii_max_results :: "32 word option"
  cgldii_next_token :: "string option"

definition lookup_developer_identity_params :: "pyo3 \<Rightarrow> cognito_types \<Rightarrow> pydict \<Rightarrow>
    lookup_developer_identity_input pyresult" where
  "lookup_developer_identity_params P S params =
     and_then (op_param P ''cognito-identity'' ''LookupDeveloperIdentity'' params ''identity_pool_id'' ''str'' (string_from_py P)) (\<lambda>identity_pool_id.
     and_then (op_param P ''cognito-identity'' ''LookupDeveloperIdentity'' params ''identity_id'' ''str'' (string_from_py P)) (\<lambda>identity_id.
     and_then (op_param P ''cognito-identity'' ''LookupDeveloperIdentity'' params ''developer_user_identifier'' ''str'' (string_from_py P)) (\<lambda>developer_user_identifier.
     and_then (op_param P ''cognito-identity'' ''LookupDeveloperIdentity'' params ''max_results'' ''int'' (i32_from_py P)) (\<lambda>max_results.
     and_then (op_param P ''cognito-identity'' ''LookupDeveloperIdentity'' params ''next_token'' ''str'' (string_from_py P)) (\<lambda>next_token.
     Inr \<lparr>cgldii_identity_pool_id = identity_pool_id,
       cgldii_identity_id = identity_id,
       cgldii_developer_user_identifier = developer_user_identifier,
       cgldii_max_results = max_results,
       cgldii_next_token = next_token\<rparr>)))))"

definition lookup_developer_identity :: "('cfg, 'client) service_env \<Rightarrow> pyo3 \<Rightarrow> cognito_types \<Rightarrow> unit pyresult \<Rightarrow> bool \<Rightarrow>
    ('client \<Rightarrow> lookup_developer_identity_input \<Rightarrow> trip list \<times> (('e, http_response) sdk_error + lookup_developer_identity_output)) \<Rightarrow>
    'client client_handle \<Rightarrow> pydict \<Rightarrow> pydict option \<Rightarrow>
    (lookup_developer_identity_output pyresult \<times> 'client client_handle \<times> pydict option) option" where
  "lookup_developer_identity E P S bridge interrupted send c params observation =
     execute E bridge interrupted send no_details
       ''LookupDeveloperIdentity'' (lookup_developer_identity_params P S params) c observation"

definition lookup_developer_identity_call :: "lookup_developer_identity_input \<Rightarrow> pydict" where
  "lookup_developer_identity_call i = py_params
     [(''identity_pool_id'', opt_to_py PyStr (cgldii_identity_pool_id i))]
     [(''identity_id'', opt_to_py PyStr (cgldii_identity_id i)),
      (''developer_user_identifier'', opt_to_py PyStr (cgldii_developer_user_identifier i)),
      (''max_results'', opt_to_py i32_to_py (cgldii_max_results i)),
      (''next_token'', opt_to_py PyStr (cgldii_next_token i))]"

subsection \<open>\<open>MergeDeveloperIdentities\<close>\<close>

record merge_developer_identities_input =
  cgmdii_source_user_identifier :: "string option"
  cgmdii_destination_user_identifier :: "string option"
  cgmdii_developer_provider_name :: "string option"
  cgmdii_identity_pool_id :: "string option"

definition merge_developer_identities_params :: "pyo3 \<Rightarrow> cognito_types \<Rightarrow> pydict \<Rightarrow>
    merge_developer_identities_input pyresult" where
  "merge_developer_identities_params P S params =
     and_then (op_param P ''cognito-identity'' ''MergeDeveloperIdentities'' params ''source_user_identifier'' ''str'' (string_from_py P)) (\<lambda>source_user_identifier.
     and_then (op_param P ''cognito-identity'' ''MergeDeveloperIdentities'' params ''destination_user_identifier'' ''str'' (string_from_py P)) (\<lambda>destination_user_identifier.
     and_then (op_param P ''cognito-identity'' ''MergeDeveloperIdentities'' params ''developer_provider_name'' ''str'' (string_from_py P)) (\<lambda>developer_provider_name.
     and_then (op_param P ''cognito-identity'' ''MergeDeveloperIdentities'' params ''identity_pool_id'' ''str'' (string_from_py P)) (\<lambda>identity_pool_id.
     Inr \<lparr>cgmdii_source_user_identifier = source_user_identifier,
       cgmdii_destination_user_identifier = destination_user_identifier,
       cgmdii_developer_provider_name = developer_provider_name,
       cgmdii_identity_pool_id = identity_pool_id\<rparr>))))"

definition merge_developer_identities :: "('cfg, 'client) service_env \<Rightarrow> pyo3 \<Rightarrow> cognito_types \<Rightarrow> unit pyresult \<Rightarrow> bool \<Rightarrow>
    ('client \<Rightarrow> merge_developer_identities_input \<Rightarrow> trip list \<times> (('e, http_response) sdk_error + merge_developer_identities_output)) \<Rightarrow>
    'client client_handle \<Rightarrow> pydict \<Rightarrow> pydict option \<Rightarrow>
    (merge_developer_identities_output pyresult \<times> 'client client_handle \<times> pydict option) option" where
  "merge_developer_identities E P S bridge interrupted send c params observation =
     execute E bridge interrupted send no_details
       ''MergeDeveloperIdentities'' (merge_developer_identities_params P S params) c observation"

definition merge_developer_identities_call :: "merge_developer_identities_input \<Rightarrow> pydict" where
  "merge_developer_identities_call i = py_params
     [(''source_user_identifier'', opt_to_py PyStr (cgmdii_source_user_identifier i)),
      (''destination_user_identifier'', opt_to_py PyStr (cgmdii_destination_user_identifier i)),
      (''developer_provider_name'', opt_to_py PyStr (cgmdii_developer_provider_name i)),
      (''identity_pool_id'', opt_to_py PyStr (cgmdii_identity_pool_id i))]
     []"

subsection \<open>\<open>SetIdentityPoolRoles\<close>\<close>

record set_identity_pool_roles_input =
  cgsipri_identity_pool_id :: "string option"
  cgsipri_roles :: "(string, string) fmap option"
  cgsipri_role_mappings :: "(string, role_mapping) fmap option"

definition set_identity_pool_roles_params :: "pyo3 \<Rightarrow> cognito_types \<Rightarrow> pydict \<Rightarrow>
    set_identity_pool_roles_input pyresult" where
  "set_identity_pool_roles_params P S params =
     and_then (op_param P ''cognito-identity'' ''SetIdentityPoolRoles'' params ''identity_pool_id'' ''str'' (string_from_py P)) (\<lambda>identity_pool_id.
     and_then (op_param P ''cognito-identity'' ''SetIdentityPoolRoles'' params ''roles'' ''dict'' (map_from_py P ''str'' ''str'' (string_from_py P))) (\<lambda>roles.
     and_then (op_param P ''cognito-identity'' ''SetIdentityPoolRoles'' params ''role_mappings'' ''dict'' (map_from_py P ''str'' ''dict (RoleMapping)'' (role_mapping_from_py P S))) (\<lambda>role_mappings.
     Inr \<lparr>cgsipri_identity_pool_id = identity_pool_id,
       cgsipri_roles = roles,
       cgsipri_role_mappings = role_mappings\<rparr>)))"

definition set_identity_pool_roles :: "('cfg, 'client) service_env \<Rightarrow> pyo3 \<Rightarrow> cognito_types \<Rightarrow> unit pyresult \<Rightarrow> bool \<Rightarrow>
    ('client \<Rightarrow> set_identity_pool_roles_input \<Rightarrow> trip list \<times> (('e, http_response) sdk_error + unit)) \<Rightarrow>
    'client client_handle \<Rightarrow> pydict \<Rightarrow> pydict option \<Rightarrow>
    (unit pyresult \<times> 'client client_handle \<times> pydict option) option" where
  "set_identity_pool_roles E P S bridge interrupted send c params observation =
     execute E bridge interrupted send no_details
       ''SetIdentityPoolRoles'' (set_identity_pool_roles_params P S params) c observation"

definition set_identity_pool_roles_call :: "((string, pyval) fmap \<Rightarrow> (string \<times> pyval) list) \<Rightarrow> set_identity_pool_roles_input \<Rightarrow> pydict" where
  "set_identity_pool_roles_call order i = py_params
     [(''identity_pool_id'', opt_to_py PyStr (cgsipri_identity_pool_id i)),
      (''roles'', opt_to_py (mapping_to_py order PyStr) (cgsipri_roles i))]
     [(''role_mappings'', opt_to_py (mapping_to_py order role_mapping_to_py) (cgsipri_role_mappings i))]"

subsection \<open>\<open>SetPrincipalTagAttributeMap\<close>\<close>

record set_principal_tag_attribute_map_input =
  cgsptami_identity_pool_id :: "string option"
  cgsptami_identity_provider_name :: "string option"
  cgsptami_use_defaults :: "bool option"
  cgsptami_principal_tags :: "(string, string) fmap option"

definition set_principal_tag_attribute_map_params :: "pyo3 \<Rightarrow> cognito_types \<Rightarrow> pydict \<Rightarrow>
    set_principal_tag_attribute_map_input pyresult" where
  "set_principal_tag_attribute_map_params P S params =
     and_then (op_param P ''cognito-identity'' ''SetPrincipalTagAttributeMap'' params ''identity_pool_id'' ''str'' (string_from_py P)) (\<lambda>identity_pool_id.
     and_then (op_param P ''cognito-identity'' ''SetPrincipalTagAttributeMap'' params ''identity_provider_name'' ''str'' (string_from_py P)) (\<lambda>identity_provider_name.
     and_then (op_param P ''cognito-identity'' ''SetPrincipalTagAttributeMap'' params ''use_defaults'' ''bool'' (bool_from_py P)) (\<lambda>use_defaults.
     and_then (op_param P ''cognito-identity'' ''SetPrincipalTagAttributeMap'' params ''principal_tags'' ''dict'' (map_from_py P ''str'' ''str'' (string_from_py P))) (\<lambda>principal_tags.
     Inr \<lparr>cgsptami_identity_pool_id = identity_pool_id,
       cgsptami_identity_provider_name = identity_provider_name,
       cgsptami_use_defaults = use_defaults,
       cgsptami_principal_tags = principal_tags\<rparr>))))"

definition set_principal_tag_attribute_map :: "('cfg, 'client) service_env \<Rightarrow> pyo3 \<Rightarrow> cognito_types \<Rightarrow> unit pyresult \<Rightarrow> bool \<Rightarrow>
    ('client \<Rightarrow> set_principal_tag_attribute_map_input \<Rightarrow> trip list \<times> (('e, http_response) sdk_error + set_principal_tag_attribute_map_output)) \<Rightarrow>
    'client client_handle \<Rightarrow> pydict \<Rightarrow> pydict option \<Rightarrow>
    (set_principal_tag_attribute_map_output pyresult \<times> 'client client_handle \<times> pydict option) option" where
  "set_principal_tag_attribute_map E P S bridge interrupted send c params observation =
     execute E bridge interrupted send no_details
       ''SetPrincipalTagAttributeMap'' (set_principal_tag_attribute_map_params P S params) c observation"

definition set_principal_tag_attribute_map_call :: "((string, pyval) fmap \<Rightarrow> (string \<times> pyval) list) \<Rightarrow> set_principal_tag_attribute_map_input \<Rightarrow> pydict" where
  "set_principal_tag_attribute_map_call order i = py_params
     [(''identity_pool_id'', opt_to_py PyStr (cgsptami_identity_pool_id i)),
      (''identity_provider_name'', opt_to_py PyStr (cgsptami_identity_provider_name i))]
     [(''use_defaults'', opt_to_py PyBool (cgsptami_use_defaults i)),
      (''principal_tags'', opt_to_py (mapping_to_py order PyStr) (cgsptami_principal_tags i))]"

subsection \<open>\<open>TagResource\<close>\<close>

record cognito_tag_resource_input =
  cgctri_resource_arn :: "string option"
  cgctri_tags :: "(string, string) fmap option"

definition cognito_tag_resource_params :: "pyo3 \<Rightarrow> cognito_types \<Rightarrow> pydict \<Rightarrow>
    cognito_tag_resource_input pyresult" where
  "cognito_tag_resource_params P S params =
     and_then (op_param P ''cognito-identity'' ''TagResource'' params ''resource_arn'' ''str'' (string_from_py P)) (\<lambda>resource_arn.
     and_then (op_param P ''cognito-identity'' ''TagResource'' params ''tags'' ''dict'' (map_from_py P ''str'' ''str'' (string_from_py P))) (\<lambda>tags.
     Inr \<lparr>cgctri_resource_arn = resource_arn,
       cgctri_tags = tags\<rparr>))"

definition cognito_tag_resource :: "('cfg, 'client) service_env \<Rightarrow> pyo3 \<Rightarrow> cognito_types \<Rightarrow> unit pyresult \<Rightarrow> bool \<Rightarrow>
    ('client \<Rightarrow> cognito_tag_resource_input \<Rightarrow> trip list \<times> (('e, http_response) sdk_error + cognito_tag_resource_output)) \<Rightarrow>
    'client client_handle \<Rightarrow> pydict \<Rightarrow> pydict option \<Rightarrow>
    (cognito_tag_resource_output pyresult \<times> 'client client_handle \<times> pydict option) option" where
  "cognito_tag_resource E P S bridge interrupted send c params observation =
     execute E bridge interrupted send no_details
       ''TagResource'' (cognito_tag_resource_params P S params) c observation"

definition cognito_tag_resource_call :: "((string, pyval) fmap \<Rightarrow> (string \<times> pyval) list) \<Rightarrow> cognito_tag_resource_input \<Rightarrow> pydict" where
  "cognito_tag_resource_call order i = py_params
     [(''resource_arn'', opt_to_py PyStr (cgctri_resource_arn i)),
      (''tags'', opt_to_py (mapping_to_py order PyStr) (cgctri_tags i))]
     []"

subsection \<open>\<open>UnlinkDeveloperIdentity\<close>\<close>

record unlink_developer_identity_input =
  cgudii_identity_id :: "string option"
  cgudii_identity_pool_id :: "string option"
  cgudii_developer_provider_name :: "string option"
  cgudii_developer_user_identifier :: "string option"

definition unlink_developer_identity_params :: "pyo3 \<Rightarrow> cognito_types \<Rightarrow> pydict \<Rightarrow>
    unlink_developer_identity_input pyresult" where
  "unlink_developer_identity_params P S params =
     and_then (op_param P ''cognito-identity'' ''UnlinkDeveloperIdentity'' params ''identity_id'' ''str'' (string_from_py P)) (\<lambda>identity_id.
     and_then (op_param P ''cognito-identity'' ''UnlinkDeveloperIdentity'' params ''identity_pool_id'' ''str'' (string_from_py P)) (\<lambda>identity_pool_id.
     and_then (op_param P ''cognito-identity'' ''UnlinkDeveloperIdentity'' params ''developer_provider_name'' ''str'' (string_from_py P)) (\<lambda>developer_provider_name.
     and_then (op_param P ''cognito-identity'' ''UnlinkDeveloperIdentity'' params ''developer_user_identifier'' ''str'' (string_from_py P)) (\<lambda>developer_user_identifier.
     Inr \<lparr>cgudii_identity_id = identity_id,
       cgudii_identity_pool_id = identity_pool_id,
       cgudii_developer_provider_name = developer_provider_name,
       cgudii_developer_user_identifier = developer_user_identifier\<rparr>))))"

definition unlink_developer_identity :: "('cfg, 'client) service_env \<Rightarrow> pyo3 \<Rightarrow> cognito_types \<Rightarrow> unit pyresult \<Rightarrow> bool \<Rightarrow>
    ('client \<Rightarrow> unlink_developer_identity_input \<Rightarrow> trip list \<times> (('e, http_response) sdk_error + unit)) \<Rightarrow>
    'client client_handle \<Rightarrow> pydict \<Rightarrow> pydict option \<Rightarrow>
    (unit pyresult \<times> 'client client_handle \<times> pydict option) option" where
  "unlink_developer_identity E P S bridge interrupted send c params observation =
     execute E bridge interrupted send no_details
       ''UnlinkDeveloperIdentity'' (unlink_developer_identity_params P S params) c observation"

definition unlink_developer_identity_call :: "unlink_developer_identity_input \<Rightarrow> pydict" where
  "unlink_developer_identity_call i = py_params
     [(''identity_id'', opt_to_py PyStr (cgudii_identity_id i)),
      (''identity_pool_id'', opt_to_py PyStr (cgudii_identity_pool_id i)),
      (''developer_provider_name'', opt_to_py PyStr (cgudii_developer_provider_name i)),
      (''developer_user_identifier'', opt_to_py PyStr (cgudii_developer_user_identifier i))]
     []"

subsection \<open>\<open>UnlinkIdentity\<close>\<close>

record unlink_identity_input =
  cguii2_identity_id :: "string option"
  cguii2_logins :: "(string, string) fmap option"
  cguii2_logins_to_remove :: "string list option"

definition unlink_identity_params :: "pyo3 \<Rightarrow> cognito_types \<Rightarrow> pydict \<Rightarrow>
    unlink_identity_input pyresult" where
  "unlink_identity_params P S params =
     and_then (op_param P ''cognito-identity'' ''UnlinkIdentity'' params ''identity_id'' ''str'' (string_from_py P)) (\<lambda>identity_id.
     and_then (op_param P ''cognito-identity'' ''UnlinkIdentity'' params ''logins'' ''dict'' (map_from_py P ''str'' ''str'' (string_from_py P))) (\<lambda>logins.
     and_then (op_param P ''cognito-identity'' ''UnlinkIdentity'' params ''logins_to_remove'' ''sequence'' (seq_from_py P ''str'' (string_from_py P))) (\<lambda>logins_to_remove.
     Inr \<lparr>cguii2_identity_id = identity_id,
       cguii2_logins = logins,
       cguii2_logins_to_remove = logins_to_remove\<rparr>)))"

definition unlink_identity :: "('cfg, 'client) service_env \<Rightarrow> pyo3 \<Rightarrow> cognito_types \<Rightarrow> unit pyresult \<Rightarrow> bool \<Rightarrow>
    ('client \<Rightarrow> unlink_identity_input \<Rightarrow> trip list \<times> (('e, http_response) sdk_error + unit)) \<Rightarrow>
    'client client_handle \<Rightarrow> pydict \<Rightarrow> pydict option \<Rightarrow>
    (unit pyresult \<times> 'client client_handle \<times> pydict option) option" where
  "unlink_identity E P S bridge interrupted send c params observation =
     execute E bridge interrupted send no_details
       ''UnlinkIdentity'' (unlink_identity_params P S params) c observation"

definition unlink_identity_call :: "((string, pyval) fmap \<Rightarrow> (string \<times> pyval) list) \<Rightarrow> unlink_identity_input \<Rightarrow> pydict" where
  "unlink_identity_call order i = py_params
     [(''identity_id'', opt_to_py PyStr (cguii2_identity_id i)),
      (''logins'', opt_to_py (mapping_to_py order PyStr) (cguii2_logins i)),
      (''logins_to_remove'', opt_to_py (seq_to_py PyStr) (cguii2_logins_to_remove i))]
     []"

subsection \<open>\<open>UntagResource\<close>\<close>

record cognito_untag_resource_input =
  cgcuri_resource_arn :: "string option"
  cgcuri_tag_keys :: "string list option"

definition cognito_untag_resource_params :: "pyo3 \<Rightarrow> cognito_types \<Rightarrow> pydict \<Rightarrow>
    cognito_untag_resource_input pyresult" where
  "cognito_untag_resource_params P S params =
     and_then (op_param P ''cognito-identity'' ''UntagResource'' params ''resource_arn'' ''str'' (string_from_py P)) (\<lambda>resource_arn.
     and_then (op_param P ''cognito-identity'' ''UntagResource'' params ''tag_keys'' ''sequence'' (seq_from_py P ''str'' (string_from_py P))) (\<lambda>tag_keys.
     Inr \<lparr>cgcuri_resource_arn = resource_arn,
       cgcuri_tag_keys = tag_keys\<rparr>))"

definition cognito_untag_resource :: "('cfg, 'client) service_env \<Rightarrow> pyo3 \<Rightarrow> cognito_types \<Rightarrow> unit pyresult \<Rightarrow> bool \<Rightarrow>
    ('client \<Rightarrow> cognito_untag_resource_input \<Rightarrow> trip list \<times> (('e, http_response) sdk_error + cognito_untag_resource_output)) \<Rightarrow>
    'client client_handle \<Rightarrow> pydict \<Rightarrow> pydict option \<Rightarrow>
    (cognito_untag_resource_output pyresult \<times> 'client client_handle \<times> pydict option) option" where
  "cognito_untag_resource E P S bridge interrupted send c params observation =
     execute E bridge interrupted send no_details
       ''UntagResource'' (cognito_untag_resource_params P S params) c observation"

definition cognito_untag_resource_call :: "cognito_untag_resource_input \<Rightarrow> pydict" where
  "cognito_untag_resource_call i = py_params
     [(''resource_arn'', opt_to_py PyStr (cgcuri_resource_arn i)),
      (''tag_keys'', opt_to_py (seq_to_py PyStr) (cgcuri_tag_keys i))]
     []"

subsection \<open>\<open>UpdateIdentityPool\<close>\<close>

record update_identity_pool_input =
  cguipi_identity_pool_id :: "string option"
  cguipi_identity_pool_name :: "string option"
  cguipi_allow_unauthenticated_identities :: "bool option"
  cguipi_allow_classic_flow :: "bool option"
  cguipi_supported_login_providers :: "(string, string) fmap option"
  cguipi_developer_provider_name :: "string option"
  cguipi_open_id_connect_provider_arns :: "string list option"
  cguipi_cognito_identity_providers :: "cognito_identity_provider list option"
  cguipi_saml_provider_arns :: "string list option"
  cguipi_identity_pool_tags :: "(string, string) fmap option"

definition update_identity_pool_params_1 :: "pyo3 \<Rightarrow> cognito_types \<Rightarrow> pydict \<Rightarrow>
    (string option \<times> string option \<times> bool option \<times> bool option) pyresult" where
  "update_identity_pool_params_1 P S params =
     and_then (op_param P ''cognito-identity'' ''UpdateIdentityPool'' params ''identity_pool_id'' ''str'' (string_from_py P)) (\<lambda>identity_pool_id.
     and_then (op_param P ''cognito-identity'' ''UpdateIdentityPool'' params ''identity_pool_name'' ''str'' (string_from_py P)) (\<lambda>identity_pool_name.
     and_then (op_param P ''cognito-identity'' ''UpdateIdentityPool'' params ''allow_unauthenticated_identities'' ''bool'' (bool_from_py P)) (\<lambda>allow_unauthenticated_identities.
     and_then (op_param P ''cognito-identity'' ''UpdateIdentityPool'' params ''allow_classic_flow'' ''bool'' (bool_from_py P)) (\<lambda>allow_classic_flow.
     Inr (identity_pool_id, identity_pool_name, allow_unauthenticated_identities, allow_classic_flow)))))"

definition update_identity_pool_params_2 :: "pyo3 \<Rightarrow> cognito_types \<Rightarrow> pydict \<Rightarrow>
    ((string, string) fmap option \<times> string option \<times> string list option) pyresult" where
  "update_identity_pool_params_2 P S params =
     and_then (op_param P ''cognito-identity'' ''UpdateIdentityPool'' params ''supported_login_providers'' ''dict'' (map_from_py P ''str'' ''str'' (string_from_py P))) (\<lambda>supported_login_providers.
     and_then (op_param P ''cognito-identity'' ''UpdateIdentityPool'' params ''developer_provider_name'' ''str'' (string_from_py P)) (\<lambda>developer_provider_name.
     and_then (op_param P ''cognito-identity'' ''UpdateIdentityPool'' params ''open_id_connect_provider_arns'' ''sequence'' (seq_from_py P ''str'' (string_from_py P))) (\<lambda>open_id_connect_provider_arns.
     Inr (supported_login_providers, developer_provider_name, open_id_connect_provider_arns))))"

definition update_identity_pool_params_3 :: "pyo3 \<Rightarrow> cognito_types \<Rightarrow> pydict \<Rightarrow>
    (cognito_identity_provider list option \<times> string list option) pyresult" where
  "update_identity_pool_params_3 P S params =
     and_then (op_param P ''cognito-identity'' ''UpdateIdentityPool'' params ''cognito_identity_providers'' ''sequence'' (seq_from_py P ''dict (CognitoIdentityProvider)'' (cognito_identity_provider_from_py P S))) (\<lambda>cognito_identity_providers.
     and_then (op_param P ''cognito-identity'' ''UpdateIdentityPool'' params ''saml_provider_arns'' ''sequence'' (seq_from_py P ''str'' (string_from_py P))) (\<lambda>saml_provider_arns.
     Inr (cognito_identity_providers, saml_provider_arns)))"

definition update_identity_pool_params_4 :: "pyo3 \<Rightarrow> cognito_types \<Rightarrow> pydict \<Rightarrow>
    ((string, string) fmap option) pyresult" where
  "update_identity_pool_params_4 P S params =
     and_then (op_param P ''cognito-identity'' ''UpdateIdentityPool'' params ''identity_pool_tags'' ''dict'' (map_from_py P ''str'' ''str'' (string_from_py P))) (\<lambda>identity_pool_tags.
     Inr (identity_pool_tags))"

definition update_identity_pool_params :: "pyo3 \<Rightarrow> cognito_types \<Rightarrow> pydict \<Rightarrow>
    update_identity_pool_input pyresult" where
  "update_identity_pool_params P S params =
     and_then (update_identity_pool_params_1 P S params) (\<lambda>(identity_pool_id, identity_pool_name, allow_unauthenticated_identities, allow_classic_flow).
     and_then (update_identity_pool_params_2 P S params) (\<lambda>(supported_login_providers, developer_provider_name, open_id_connect_provider_arns).
     and_then (update_identity_pool_params_3 P S params) (\<lambda>(cognito_identity_providers, saml_provider_arns).
     and_then (update_identity_pool_params_4 P S params) (\<lambda>identity_pool_tags.
     Inr \<lparr>cguipi_identity_pool_id = identity_pool_id,
       cguipi_identity_pool_name = identity_pool_name,
       cguipi_allow_unauthenticated_identities = allow_unauthenticated_identities,
       cguipi_allow_classic_flow = allow_classic_flow,
       cguipi_supported_login_providers = supported_login_providers,
       cguipi_developer_provider_name = developer_provider_name,
       cguipi_open_id_connect_provider_arns = open_id_connect_provider_arns,
       cguipi_cognito_identity_providers = cognito_identity_providers,
       cguipi_saml_provider_arns = saml_provider_arns,
       cguipi_identity_pool_tags = identity_pool_tags\<rparr>))))"

definition update_identity_pool :: "('cfg, 'client) service_env \<Rightarrow> pyo3 \<Rightarrow> cognito_types \<Rightarrow> unit pyresult \<Rightarrow> bool \<Rightarrow>
    ('client \<Rightarrow> update_identity_pool_input \<Rightarrow> trip list \<times> (('e, http_response) sdk_error + update_identity_pool_output)) \<Rightarrow>
    'client client_handle \<Rightarrow> pydict \<Rightarrow> pydict option \<Rightarrow>
    (update_identity_pool_output pyresult \<times> 'client client_handle \<times> pydict option) option" where
  "update_identity_pool E P S bridge interrupted send c params observation =
     execute E bridge interrupted send no_details
       ''UpdateIdentityPool'' (update_identity_pool_params P S params) c observation"

definition update_identity_pool_call :: "((string, pyval) fmap \<Rightarrow> (string \<times> pyval) list) \<Rightarrow> update_identity_pool_input \<Rightarrow> pydict" where
  "update_identity_pool_call order i = py_params
     [(''identity_pool_id'', opt_to_py PyStr (cguipi_identity_pool_id i)),
      (''identity_pool_name'', opt_to_py PyStr (cguipi_identity_pool_name i)),
      (''allow_unauthenticated_identities'', opt_to_py PyBool (cguipi_allow_unauthenticated_identities i))]
     [(''allow_classic_flow'', opt_to_py PyBool (cguipi_allow_classic_flow i)),
      (''supported_login_providers'', opt_to_py (mapping_to_py order PyStr) (cguipi_supported_login_providers i)),
      (''developer_provider_name'', opt_to_py PyStr (cguipi_developer_provider_name i)),
      (''open_id_connect_provider_arns'', opt_to_py (seq_to_py PyStr) (cguipi_open_id_connect_provider_arns i)),
      (''cognito_identity_providers'', opt_to_py (seq_to_py cognito_identity_provider_to_py) (cguipi_cognito_identity_providers i)),
      (''saml_provider_arns'', opt_to_py (seq_to_py PyStr) (cguipi_saml_provider_arns i)),
      (''identity_pool_tags'', opt_to_py (mapping_to_py order PyStr) (cguipi_identity_pool_tags i))]"

section \<open>Parameters arrive\<close>

context cognito_conversions
begin

lemma create_identity_pool_delivered: "create_identity_pool_params P S (create_identity_pool_call order i) = Inr i"
proof -
  have s: "str_keys (create_identity_pool_call order i)" by (simp add: create_identity_pool_call_def)
  note p = arguments [OF create_identity_pool_call_def [of order i], simplified]
  have a: "argument (create_identity_pool_call order i) ''identity_pool_name'' = opt_to_py PyStr (cgcipi_identity_pool_name i)"
    "argument (create_identity_pool_call order i) ''allow_unauthenticated_identities'' = opt_to_py PyBool (cgcipi_allow_unauthenticated_identities i)"
    "argument (create_identity_pool_call order i) ''allow_classic_flow'' = opt_to_py PyBool (cgcipi_allow_classic_flow i)"
    "argument (create_identity_pool_call order i) ''supported_login_providers'' = opt_to_py (mapping_to_py order PyStr) (cgcipi_supported_login_providers i)"
    "argument (create_identity_pool_call order i) ''developer_provider_name'' = opt_to_py PyStr (cgcipi_developer_provider_name i)"
    "argument (create_identity_pool_call order i) ''open_id_connect_provider_arns'' = opt_to_py (seq_to_py PyStr) (cgcipi_open_id_connect_provider_arns i)"
    "argument (create_identity_pool_call order i) ''cognito_identity_providers'' = opt_to_py (seq_to_py cognito_identity_provider_to_py) (cgcipi_cognito_identity_providers i)"
    "argument (create_identity_pool_call order i) ''saml_provider_arns'' = opt_to_py (seq_to_py PyStr) (cgcipi_saml_provider_arns i)"
    "argument (create_identity_pool_call order i) ''identity_pool_tags'' = opt_to_py (mapping_to_py order PyStr) (cgcipi_identity_pool_tags i)"
    by (simp_all only: p)
  show ?thesis
    unfolding create_identity_pool_params_def create_identity_pool_params_1_def create_identity_pool_params_2_def create_identity_pool_params_3_def
    by (simp add: param_reads [OF reads_str s a(1)]
        param_reads [OF reads_bool s a(2)]
        param_reads [OF reads_bool s a(3)]
        param_reads [OF reads_map [OF order reads_str] s a(4)]
        param_reads [OF reads_str s a(5)]
        param_reads [OF reads_seq [OF reads_str] s a(6)]
        param_reads [OF reads_seq [OF cognito_identity_provider_reads] s a(7)]
        param_reads [OF reads_seq [OF reads_str] s a(8)]
        param_reads [OF reads_map [OF order reads_str] s a(9)])
qed

lemma delete_identities_delivered: "delete_identities_params P S (delete_identities_call i) = Inr i"
proof -
  have s: "str_keys (delete_identities_call i)" by (simp add: delete_identities_call_def)
  have a: "argument (delete_identities_call i) ''identity_ids_to_delete'' = opt_to_py (seq_to_py PyStr) (cgdii_identity_ids_to_delete i)"
    unfolding delete_identities_call_def by (simp_all add: argument_py_params)
  show ?thesis
    unfolding delete_identities_params_def
    by (simp add: param_reads [OF reads_seq [OF reads_str] s a])
qed

lemma delete_identity_pool_delivered: "delete_identity_pool_params P S (delete_identity_pool_call i) = Inr i"
proof -
  have s: "str_keys (delete_identity_pool_call i)" by (simp add: delete_identity_pool_call_def)
  have a: "argument (delete_identity_pool_call i) ''identity_pool_id'' = opt_to_py PyStr (cgdipi_identity_pool_id i)"
    unfolding delete_identity_pool_call_def by (simp_all add: argument_py_params)
  show ?thesis
    unfolding delete_identity_pool_params_def
    by (simp add: param_reads [OF reads_str s a])
qed

lemma describe_identity_delivered: "describe_identity_params P S (describe_identity_call i) = Inr i"
proof -
  have s: "str_keys (describe_identity_call i)" by (simp add: describe_identity_call_def)
  have a: "argument (describe_identity_call i) ''identity_id'' = opt_to_py PyStr (cgdii2_identity_id i)"
    unfolding describe_identity_call_def by (simp_all add: argument_py_params)
  show ?thesis
    unfolding describe_identity_params_def
    by (simp add: param_reads [OF reads_str s a])
qed

lemma describe_identity_pool_delivered: "describe_identity_pool_params P S (describe_identity_pool_call i) = Inr i"
proof -
  have s: "str_keys (describe_identity_pool_call i)" by (simp add: describe_identity_pool_call_def)
  have a: "argument (describe_identity_pool_call i) ''identity_pool_id'' = opt_to_py PyStr (cgdipi2_identity_pool_id i)"
    unfolding describe_identity_pool_call_def by (simp_all add: argument_py_params)
  show ?thesis
    unfolding describe_identity_pool_params_def
    by (simp add: param_reads [OF reads_str s a])
qed

lemma get_credentials_for_identity_delivered: "get_credentials_for_identity_params P S (get_credentials_for_identity_call order i) = Inr i"
proof -
  have s: "str_keys (get_credentials_for_identity_call order i)" by (simp add: get_credentials_for_identity_call_def)
  note p = arguments [OF get_credentials_for_identity_call_def [of order i], simplified]
  have a: "argument (get_credentials_for_identity_call order i) ''identity_id'' = opt_to_py PyStr (cggcfii_identity_id i)"
    "argument (get_credentials_for_identity_call order i) ''logins'' = opt_to_py (mapping_to_py order PyStr) (cggcfii_logins i)"
    "argument (get_credentials_for_identity_call order i) ''custom_role_arn'' = opt_to_py PyStr (cggcfii_custom_role_arn i)"
    by (simp_all only: p)
  show ?thesis
    unfolding get_credentials_for_identity_params_def
    by (simp add: param_reads [OF reads_str s a(1)]
        param_reads [OF reads_map [OF order reads_str] s a(2)]
        param_reads [OF reads_str s a(3)])
qed

lemma get_id_delivered: "get_id_params P S (get_id_call order i) = Inr i"
proof -
  have s: "str_keys (get_id_call order i)" by (simp add: get_id_call_def)
  note p = arguments [OF get_id_call_def [of order i], simplified]
  have a: "argument (get_id_call order i) ''account_id'' = opt_to_py PyStr (cggii_account_id i)"
    "argument (get_id_call order i) ''identity_pool_id'' = opt_to_py PyStr (cggii_identity_pool_id i)"
    "argument (get_id_call order i) ''logins'' = opt_to_py (mapping_to_py order PyStr) (cggii_logins i)"
    by (simp_all only: p)
  show ?thesis
    unfolding get_id_params_def
    by (simp add: param_reads [OF reads_str s a(1)]
        param_reads [OF reads_str s a(2)]
        param_reads [OF reads_map [OF order reads_str] s a(3)])
qed

lemma get_identity_pool_roles_delivered: "get_identity_pool_roles_params P S (get_identity_pool_roles_call i) = Inr i"
proof -
  have s: "str_keys (get_identity_pool_roles_call i)" by (simp add: get_identity_pool_roles_call_def)
  have a: "argument (get_identity_pool_roles_call i) ''identity_pool_id'' = opt_to_py PyStr (cggipri_identity_pool_id i)"
    unfolding get_identity_pool_roles_call_def by (simp_all add: argument_py_params)
  show ?thesis
    unfolding get_identity_pool_roles_params_def
    by (simp add: param_reads [OF reads_str s a])
qed

lemma get_open_id_token_delivered: "get_open_id_token_params P S (get_open_id_token_call order i) = Inr i"
proof -
  have s: "str_keys (get_open_id_token_call order i)" by (simp add: get_open_id_token_call_def)
  have a: "argument (get_open_id_token_call order i) ''identity_id'' = opt_to_py PyStr (cggoiti_identity_id i)"
    "argument (get_open_id_token_call order i) ''logins'' = opt_to_py (mapping_to_py order PyStr) (cggoiti_logins i)"
    unfolding get_open_id_token_call_def by (simp_all add: argument_py_params)
  show ?thesis
    unfolding get_open_id_token_params_def
    by (simp add: param_reads [OF reads_str s a(1)]
        param_reads [OF reads_map [OF order reads_str] s a(2)])
qed

lemma get_open_id_token_for_developer_identity_delivered: "get_open_id_token_for_developer_identity_params P S (get_open_id_token_for_developer_identity_call order i) = Inr i"
proof -
  have s: "str_keys (get_open_id_token_for_developer_identity_call order i)" by (simp add: get_open_id_token_for_developer_identity_call_def)
  note p = arguments [OF get_open_id_token_for_developer_identity_call_def [of order i], simplified]
  have a: "argument (get_open_id_token_for_developer_identity_call order i) ''identity_pool_id'' = opt_to_py PyStr (cggoitfdii_identity_pool_id i)"
    "argument (get_open_id_token_for_developer_identity_call order i) ''identity_id'' = opt_to_py PyStr (cggoitfdii_identity_id i)"
    "argument (get_open_id_token_for_developer_identity_call order i) ''logins'' = opt_to_py (mapping_to_py order PyStr) (cggoitfdii_logins i)"
    "argument (get_open_id_token_for_developer_identity_call order i) ''principal_tags'' = opt_to_py (mapping_to_py order PyStr) (cggoitfdii_principal_tags i)"
    "argument (get_open_id_token_for_developer_identity_call order i) ''token_duration'' = opt_to_py i64_to_py (cggoitfdii_token_duration i)"
    by (simp_all only: p)
  show ?thesis
    unfolding get_open_id_token_for_developer_identity_params_def
    by (simp add: param_reads [OF reads_str s a(1)]
        param_reads [OF reads_str s a(2)]
        param_reads [OF reads_map [OF order reads_str] s a(3)]
        param_reads [OF reads_map [OF order reads_str] s a(4)]
        param_reads [OF reads_i64 s a(5)])
qed

lemma get_principal_tag_attribute_map_delivered: "get_principal_tag_attribute_map_params P S (get_principal_tag_attribute_map_call i) = Inr i"
proof -
  have s: "str_keys (get_principal_tag_attribute_map_call i)" by (simp add: get_principal_tag_attribute_map_call_def)
  have a: "argument (get_principal_tag_attribute_map_call i) ''identity_pool_id'' = opt_to_py PyStr (cggptami_identity_pool_id i)"
    "argument (get_principal_tag_attribute_map_call i) ''identity_provider_name'' = opt_to_py PyStr (cggptami_identity_provider_name i)"
    unfolding get_principal_tag_attribute_map_call_def by (simp_all add: argument_py_params)
  show ?thesis
    unfolding get_principal_tag_attribute_map_params_def
    by (simp add: param_reads [OF reads_str s a(1)]
        param_reads [OF reads_str s a(2)])
qed

lemma list_identities_delivered: "list_identities_params P S (list_identities_call i) = Inr i"
proof -
  have s: "str_keys (list_identities_call i)" by (simp add: list_identities_call_def)
  note p = arguments [OF list_identities_call_def [of i], simplified]
  have a: "argument (list_identities_call i) ''identity_pool_id'' = opt_to_py PyStr (cglii_identity_pool_id i)"
    "argument (list_identities_call i) ''max_results'' = opt_to_py i32_to_py (cglii_max_results i)"
    "argument (list_identities_call i) ''next_token'' = opt_to_py PyStr (cglii_next_token i)"
    "argument (list_identities_call i) ''hide_disabled'' = opt_to_py PyBool (cglii_hide_disabled i)"
    by (simp_all only: p)
  show ?thesis
    unfolding list_identities_params_def
    by (simp add: param_reads [OF reads_str s a(1)]
        param_reads [OF reads_i32 s a(2)]
        param_reads [OF reads_str s a(3)]
        param_reads [OF reads_bool s a(4)])
qed

lemma list_identity_pools_delivered: "list_identity_pools_params P S (list_identity_pools_call i) = Inr i"
proof -
  have s: "str_keys (list_identity_pools_call i)" by (simp add: list_identity_pools_call_def)
  have a: "argument (list_identity_pools_call i) ''max_results'' = opt_to_py i32_to_py (cglipi_max_results i)"
    "argument (list_identity_pools_call i) ''next_token'' = opt_to_py PyStr (cglipi_next_token i)"
    unfolding list_identity_pools_call_def by (simp_all add: argument_py_params)
  show ?thesis
    unfolding list_identity_pools_params_def
    by (simp add: param_reads [OF reads_i32 s a(1)]
        param_reads [OF reads_str s a(2)])
qed

lemma cognito_list_tags_for_resource_delivered: "cognito_list_tags_for_resource_params P S (cognito_list_tags_for_resource_call i) = Inr i"
proof -
  have s: "str_keys (cognito_list_tags_for_resource_call i)" by (simp add: cognito_list_tags_for_resource_call_def)
  have a: "argument (cognito_list_tags_for_resource_call i) ''resource_arn'' = opt_to_py PyStr (cgcltfri_resource_arn i)"
    unfolding cognito_list_tags_for_resource_call_def by (simp_all add: argument_py_params)
  show ?thesis
    unfolding cognito_list_tags_for_resource_params_def
    by (simp add: param_reads [OF reads_str s a])
qed

lemma lookup_developer_identity_delivered: "lookup_developer_identity_params P S (lookup_developer_identity_call i) = Inr i"
proof -
  have s: "str_keys (lookup_developer_identity_call i)" by (simp add: lookup_developer_identity_call_def)
  note p = arguments [OF lookup_developer_identity_call_def [of i], simplified]
  have a: "argument (lookup_developer_identity_call i) ''identity_pool_id'' = opt_to_py PyStr (cgldii_identity_pool_id i)"
    "argument (lookup_developer_identity_call i) ''identity_id'' = opt_to_py PyStr (cgldii_identity_id i)"
    "argument (lookup_developer_identity_call i) ''developer_user_identifier'' = opt_to_py PyStr (cgldii_developer_user_identifier i)"
    "argument (lookup_developer_identity_call i) ''max_results'' = opt_to_py i32_to_py (cgldii_max_results i)"
    "argument (lookup_developer_identity_call i) ''next_token'' = opt_to_py PyStr (cgldii_next_token i)"
    by (simp_all only: p)
  show ?thesis
    unfolding lookup_developer_identity_params_def
    by (simp add: param_reads [OF reads_str s a(1)]
        param_reads [OF reads_str s a(2)]
        param_reads [OF reads_str s a(3)]
        param_reads [OF reads_i32 s a(4)]
        param_reads [OF reads_str s a(5)])
qed

lemma merge_developer_identities_delivered: "merge_developer_identities_params P S (merge_developer_identities_call i) = Inr i"
proof -
  have s: "str_keys (merge_developer_identities_call i)" by (simp add: merge_developer_identities_call_def)
  note p = arguments [OF merge_developer_identities_call_def [of i], simplified]
  have a: "argument (merge_developer_identities_call i) ''source_user_identifier'' = opt_to_py PyStr (cgmdii_source_user_identifier i)"
    "argument (merge_developer_identities_call i) ''destination_user_identifier'' = opt_to_py PyStr (cgmdii_destination_user_identifier i)"
    "argument (merge_developer_identities_call i) ''developer_provider_name'' = opt_to_py PyStr (cgmdii_developer_provider_name i)"
    "argument (merge_developer_identities_call i) ''identity_pool_id'' = opt_to_py PyStr (cgmdii_identity_pool_id i)"
    by (simp_all only: p)
  show ?thesis
    unfolding merge_developer_identities_params_def
    by (simp add: param_reads [OF reads_str s a(1)]
        param_reads [OF reads_str s a(2)]
        param_reads [OF reads_str s a(3)]
        param_reads [OF reads_str s a(4)])
qed

lemma set_identity_pool_roles_delivered: "set_identity_pool_roles_params P S (set_identity_pool_roles_call order i) = Inr i"
proof -
  have s: "str_keys (set_identity_pool_roles_call order i)" by (simp add: set_identity_pool_roles_call_def)
  note p = arguments [OF set_identity_pool_roles_call_def [of order i], simplified]
  have a: "argument (set_identity_pool_roles_call order i) ''identity_pool_id'' = opt_to_py PyStr (cgsipri_identity_pool_id i)"
    "argument (set_identity_pool_roles_call order i) ''roles'' = opt_to_py (mapping_to_py order PyStr) (cgsipri_roles i)"
    "argument (set_identity_pool_roles_call order i) ''role_mappings'' = opt_to_py (mapping_to_py order role_mapping_to_py) (cgsipri_role_mappings i)"
    by (simp_all only: p)
  show ?thesis
    unfolding set_identity_pool_roles_params_def
    by (simp add: param_reads [OF reads_str s a(1)]
        param_reads [OF reads_map [OF order reads_str] s a(2)]
        param_reads [OF reads_map [OF order role_mapping_reads] s a(3)])
qed

lemma set_principal_tag_attribute_map_delivered: "set_principal_tag_attribute_map_params P S (set_principal_tag_attribute_map_call order i) = Inr i"
proof -
  have s: "str_keys (set_principal_tag_attribute_map_call order i)" by (simp add: set_principal_tag_attribute_map_call_def)
  note p = arguments [OF set_principal_tag_attribute_map_call_def [of order i], simplified]
  have a: "argument (set_principal_tag_attribute_map_call order i) ''identity_pool_id'' = opt_to_py PyStr (cgsptami_identity_pool_id i)"
    "argument (set_principal_tag_attribute_map_call order i) ''identity_provider_name'' = opt_to_py PyStr (cgsptami_identity_provider_name i)"
    "argument (set_principal_tag_attribute_map_call order i) ''use_defaults'' = opt_to_py PyBool (cgsptami_use_defaults i)"
    "argument (set_principal_tag_attribute_map_call order i) ''principal_tags'' = opt_to_py (mapping_to_py order PyStr) (cgsptami_principal_tags i)"
    by (simp_all only: p)
  show ?thesis
    unfolding set_principal_tag_attribute_map_params_def
    by (simp add: param_reads [OF reads_str s a(1)]
        param_reads [OF reads_str s a(2)]
        param_reads [OF reads_bool s a(3)]
        param_reads [OF reads_map [OF order reads_str] s a(4)])
qed

lemma cognito_tag_resource_delivered: "cognito_tag_resource_params P S (cognito_tag_resource_call order i) = Inr i"
proof -
  have s: "str_keys (cognito_tag_resource_call order i)" by (simp add: cognito_tag_resource_call_def)
  have a: "argument (cognito_tag_resource_call order i) ''resource_arn'' = opt_to_py PyStr (cgctri_resource_arn i)"
    "argument (cognito_tag_resource_call order i) ''tags'' = opt_to_py (mapping_to_py order PyStr) (cgctri_tags i)"
    unfolding cognito_tag_resource_call_def by (simp_all add: argument_py_params)
  show ?thesis
    unfolding cognito_tag_resource_params_def
    by (simp add: param_reads [OF reads_str s a(1)]
        param_reads [OF reads_map [OF order reads_str] s a(2)])
qed

lemma unlink_developer_identity_delivered: "unlink_developer_identity_params P S (unlink_developer_identity_call i) = Inr i"
proof -
  have s: "str_keys (unlink_developer_identity_call i)" by (simp add: unlink_developer_identity_call_def)
  note p = arguments [OF unlink_developer_identity_call_def [of i], simplified]
  have a: "argument (unlink_developer_identity_call i) ''identity_id'' = opt_to_py PyStr (cgudii_identity_id i)"
    "argument (unlink_developer_identity_call i) ''identity_pool_id'' = opt_to_py PyStr (cgudii_identity_pool_id i)"
    "argument (unlink_developer_identity_call i) ''developer_provider_name'' = opt_to_py PyStr (cgudii_developer_provider_name i)"
    "argument (unlink_developer_identity_call i) ''developer_user_identifier'' = opt_to_py PyStr (cgudii_developer_user_identifier i)"
    by (simp_all only: p)
  show ?thesis
    unfolding unlink_developer_identity_params_def
    by (simp add: param_reads [OF reads_str s a(1)]
        param_reads [OF reads_str s a(2)]
        param_reads [OF reads_str s a(3)]
        param_reads [OF reads_str s a(4)])
qed

lemma unlink_identity_delivered: "unlink_identity_params P S (unlink_identity_call order i) = Inr i"
proof -
  have s: "str_keys (unlink_identity_call order i)" by (simp add: unlink_identity_call_def)
  note p = arguments [OF unlink_identity_call_def [of order i], simplified]
  have a: "argument (unlink_identity_call order i) ''identity_id'' = opt_to_py PyStr (cguii2_identity_id i)"
    "argument (unlink_identity_call order i) ''logins'' = opt_to_py (mapping_to_py order PyStr) (cguii2_logins i)"
    "argument (unlink_identity_call order i) ''logins_to_remove'' = opt_to_py (seq_to_py PyStr) (cguii2_logins_to_remove i)"
    by (simp_all only: p)
  show ?thesis
    unfolding unlink_identity_params_def
    by (simp add: param_reads [OF reads_str s a(1)]
        param_reads [OF reads_map [OF order reads_str] s a(2)]
        param_reads [OF reads_seq [OF reads_str] s a(3)])
qed

lemma cognito_untag_resource_delivered: "cognito_untag_resource_params P S (cognito_untag_resource_call i) = Inr i"
proof -
  have s: "str_keys (cognito_untag_resource_call i)" by (simp add: cognito_untag_resource_call_def)
  have a: "argument (cognito_untag_resource_call i) ''resource_arn'' = opt_to_py PyStr (cgcuri_resource_arn i)"
    "argument (cognito_untag_resource_call i) ''tag_keys'' = opt_to_py (seq_to_py PyStr) (cgcuri_tag_keys i)"
    unfolding cognito_untag_resource_call_def by (simp_all add: argument_py_params)
  show ?thesis
    unfolding cognito_untag_resource_params_def
    by (simp add: param_reads [OF reads_str s a(1)]
        param_reads [OF reads_seq [OF reads_str] s a(2)])
qed

lemma update_identity_pool_delivered: "update_identity_pool_params P S (update_identity_pool_call order i) = Inr i"
proof -
  have s: "str_keys (update_identity_pool_call order i)" by (simp add: update_identity_pool_call_def)
  note p = arguments [OF update_identity_pool_call_def [of order i], simplified]
  have a: "argument (update_identity_pool_call order i) ''identity_pool_id'' = opt_to_py PyStr (cguipi_identity_pool_id i)"
    "argument (update_identity_pool_call order i) ''identity_pool_name'' = opt_to_py PyStr (cguipi_identity_pool_name i)"
    "argument (update_identity_pool_call order i) ''allow_unauthenticated_identities'' = opt_to_py PyBool (cguipi_allow_unauthenticated_identities i)"
    "argument (update_identity_pool_call order i) ''allow_classic_flow'' = opt_to_py PyBool (cguipi_allow_classic_flow i)"
    "argument (update_identity_pool_call order i) ''supported_login_providers'' = opt_to_py (mapping_to_py order PyStr) (cguipi_supported_login_providers i)"
    "argument (update_identity_pool_call order i) ''developer_provider_name'' = opt_to_py PyStr (cguipi_developer_provider_name i)"
    "argument (update_identity_pool_call order i) ''open_id_connect_provider_arns'' = opt_to_py (seq_to_py PyStr) (cguipi_open_id_connect_provider_arns i)"
    "argument (update_identity_pool_call order i) ''cognito_identity_providers'' = opt_to_py (seq_to_py cognito_identity_provider_to_py) (cguipi_cognito_identity_providers i)"
    "argument (update_identity_pool_call order i) ''saml_provider_arns'' = opt_to_py (seq_to_py PyStr) (cguipi_saml_provider_arns i)"
    "argument (update_identity_pool_call order i) ''identity_pool_tags'' = opt_to_py (mapping_to_py order PyStr) (cguipi_identity_pool_tags i)"
    by (simp_all only: p)
  show ?thesis
    unfolding update_identity_pool_params_def update_identity_pool_params_1_def update_identity_pool_params_2_def update_identity_pool_params_3_def update_identity_pool_params_4_def
    by (simp add: param_reads [OF reads_str s a(1)]
        param_reads [OF reads_str s a(2)]
        param_reads [OF reads_bool s a(3)]
        param_reads [OF reads_bool s a(4)]
        param_reads [OF reads_map [OF order reads_str] s a(5)]
        param_reads [OF reads_str s a(6)]
        param_reads [OF reads_seq [OF reads_str] s a(7)]
        param_reads [OF reads_seq [OF cognito_identity_provider_reads] s a(8)]
        param_reads [OF reads_seq [OF reads_str] s a(9)]
        param_reads [OF reads_map [OF order reads_str] s a(10)])
qed

end

end
