(* ===== verification/SchedulerTypes.thy ===== *)
theory SchedulerTypes
  imports Cognito
begin

text \<open>
  The structures of the EventBridge Scheduler extension, from \<open>crates/rboto-scheduler/src/generated.rs\<close>: the converters
  between Python dictionaries and the SDK's structures, which are records with the members the code
  reads and sets. An enum of the SDK is its text, and \<open>order\<close> is the order in which the iterator of
  a \<open>HashMap\<close> yields its entries. The builders belong to the SDK and are the record \<open>scheduler_types\<close>.
\<close>

section \<open>Structures\<close>

record aws_vpc_configuration =
  havc_subnets :: "string list"
  havc_security_groups :: "string list option"
  havc_assign_public_ip :: "string option"

record capacity_provider_strategy_item =
  hcpsi_capacity_provider :: string
  hcpsi_weight :: "32 word"
  hcpsi_base :: "32 word"

record dead_letter_config =
  hdlc_arn :: "string option"

record network_configuration =
  hnc_awsvpc_configuration :: "aws_vpc_configuration option"

record placement_constraint =
  hpc_type :: "string option"
  hpc_expression :: "string option"

record placement_strategy =
  hps_type :: "string option"
  hps_field :: "string option"

record ecs_parameters =
  hep_task_definition_arn :: string
  hep_task_count :: "32 word option"
  hep_launch_type :: "string option"
  hep_network_configuration :: "network_configuration option"
  hep_platform_version :: "string option"
  hep_group :: "string option"
  hep_capacity_provider_strategy :: "capacity_provider_strategy_item list option"
  hep_enable_ecs_managed_tags :: "bool option"
  hep_enable_execute_command :: "bool option"
  hep_placement_constraints :: "placement_constraint list option"
  hep_placement_strategy :: "placement_strategy list option"
  hep_propagate_tags :: "string option"
  hep_reference_id :: "string option"
  hep_tags :: "(string, string) fmap list option"

record event_bridge_parameters =
  hebp_detail_type :: string
  hebp_source :: string

record flexible_time_window =
  hftw_mode :: string
  hftw_maximum_window_in_minutes :: "32 word option"

record kinesis_parameters =
  hkp_partition_key :: string

record retry_policy =
  hrp_maximum_event_age_in_seconds :: "32 word option"
  hrp_maximum_retry_attempts :: "32 word option"

record sage_maker_pipeline_parameter =
  hsmpp_name :: string
  hsmpp_value :: string

record sage_maker_pipeline_parameters =
  hsmpp2_pipeline_parameter_list :: "sage_maker_pipeline_parameter list option"

record schedule_group_summary =
  hsgs_arn :: "string option"
  hsgs_name :: "string option"
  hsgs_state :: "string option"
  hsgs_creation_date :: "datetime option"
  hsgs_last_modification_date :: "datetime option"

record target_summary =
  hts_arn :: string

record schedule_summary =
  hss_arn :: "string option"
  hss_name :: "string option"
  hss_group_name :: "string option"
  hss_state :: "string option"
  hss_creation_date :: "datetime option"
  hss_last_modification_date :: "datetime option"
  hss_target :: "target_summary option"

record sqs_parameters =
  hsp_message_group_id :: "string option"

record scheduler_tag =
  ht_key :: string
  ht_value :: string

record target =
  ht2_arn :: string
  ht2_role_arn :: string
  ht2_dead_letter_config :: "dead_letter_config option"
  ht2_retry_policy :: "retry_policy option"
  ht2_input :: "string option"
  ht2_ecs_parameters :: "ecs_parameters option"
  ht2_event_bridge_parameters :: "event_bridge_parameters option"
  ht2_kinesis_parameters :: "kinesis_parameters option"
  ht2_sage_maker_pipeline_parameters :: "sage_maker_pipeline_parameters option"
  ht2_sqs_parameters :: "sqs_parameters option"

record scheduler_types = smithy_dates +
  build_aws_vpc_configuration :: "string list option \<Rightarrow> string list option \<Rightarrow> string option \<Rightarrow> unit + aws_vpc_configuration"
  build_capacity_provider_strategy_item :: "string option \<Rightarrow> 32 word option \<Rightarrow> 32 word option \<Rightarrow> unit + capacity_provider_strategy_item"
  build_dead_letter_config :: "string option \<Rightarrow> dead_letter_config"
  build_network_configuration :: "aws_vpc_configuration option \<Rightarrow> network_configuration"
  build_placement_constraint :: "string option \<Rightarrow> string option \<Rightarrow> placement_constraint"
  build_placement_strategy :: "string option \<Rightarrow> string option \<Rightarrow> placement_strategy"
  build_ecs_parameters :: "string option \<Rightarrow> 32 word option \<Rightarrow> string option \<Rightarrow> network_configuration option \<Rightarrow> string option \<Rightarrow> string option \<Rightarrow> capacity_provider_strategy_item list option \<Rightarrow> bool option \<Rightarrow> bool option \<Rightarrow> placement_constraint list option \<Rightarrow> placement_strategy list option \<Rightarrow> string option \<Rightarrow> string option \<Rightarrow> (string, string) fmap list option \<Rightarrow> unit + ecs_parameters"
  build_event_bridge_parameters :: "string option \<Rightarrow> string option \<Rightarrow> unit + event_bridge_parameters"
  build_flexible_time_window :: "string option \<Rightarrow> 32 word option \<Rightarrow> unit + flexible_time_window"
  build_kinesis_parameters :: "string option \<Rightarrow> unit + kinesis_parameters"
  build_retry_policy :: "32 word option \<Rightarrow> 32 word option \<Rightarrow> retry_policy"
  build_sage_maker_pipeline_parameter :: "string option \<Rightarrow> string option \<Rightarrow> unit + sage_maker_pipeline_parameter"
  build_sage_maker_pipeline_parameters :: "sage_maker_pipeline_parameter list option \<Rightarrow> sage_maker_pipeline_parameters"
  build_schedule_group_summary :: "string option \<Rightarrow> string option \<Rightarrow> string option \<Rightarrow> datetime option \<Rightarrow> datetime option \<Rightarrow> schedule_group_summary"
  build_target_summary :: "string option \<Rightarrow> unit + target_summary"
  build_schedule_summary :: "string option \<Rightarrow> string option \<Rightarrow> string option \<Rightarrow> string option \<Rightarrow> datetime option \<Rightarrow> datetime option \<Rightarrow> target_summary option \<Rightarrow> schedule_summary"
  build_sqs_parameters :: "string option \<Rightarrow> sqs_parameters"
  build_scheduler_tag :: "string option \<Rightarrow> string option \<Rightarrow> unit + scheduler_tag"
  build_target :: "string option \<Rightarrow> string option \<Rightarrow> dead_letter_config option \<Rightarrow> retry_policy option \<Rightarrow> string option \<Rightarrow> ecs_parameters option \<Rightarrow> event_bridge_parameters option \<Rightarrow> kinesis_parameters option \<Rightarrow> sage_maker_pipeline_parameters option \<Rightarrow> sqs_parameters option \<Rightarrow> unit + target"

section \<open>Converters\<close>

definition aws_vpc_configuration_from_py :: "pyo3 \<Rightarrow> scheduler_types \<Rightarrow> pyval \<Rightarrow> aws_vpc_configuration pyresult" where
  "aws_vpc_configuration_from_py P S value =
     and_then (cast_dict P value) (\<lambda>values.
     and_then (member P values ''subnets'' ''sequence'' (seq_from_py P ''str'' (string_from_py P))) (\<lambda>subnets_value.
     and_then (member P values ''security_groups'' ''sequence'' (seq_from_py P ''str'' (string_from_py P))) (\<lambda>security_groups_value.
     and_then (member P values ''assign_public_ip'' ''str (AssignPublicIp)'' (enum_from_py P)) (\<lambda>assign_public_ip_value.
     map_err (\<lambda>_. input_builder_error P values
         [(''subnets'', ''subnets'')])
       (build_aws_vpc_configuration S subnets_value security_groups_value assign_public_ip_value)))))"

definition aws_vpc_configuration_to_py :: "aws_vpc_configuration \<Rightarrow> pyval" where
  "aws_vpc_configuration_to_py v = PyDict (py_dict
     [(''subnets'', seq_to_py PyStr (havc_subnets v)),
      (''security_groups'', opt_to_py (seq_to_py PyStr) (havc_security_groups v)),
      (''assign_public_ip'', opt_to_py PyStr (havc_assign_public_ip v))])"

definition capacity_provider_strategy_item_from_py :: "pyo3 \<Rightarrow> scheduler_types \<Rightarrow> pyval \<Rightarrow> capacity_provider_strategy_item pyresult" where
  "capacity_provider_strategy_item_from_py P S value =
     and_then (cast_dict P value) (\<lambda>values.
     and_then (member P values ''capacity_provider'' ''str'' (string_from_py P)) (\<lambda>capacity_provider_value.
     and_then (member P values ''weight'' ''int'' (i32_from_py P)) (\<lambda>weight_value.
     and_then (member P values ''base'' ''int'' (i32_from_py P)) (\<lambda>base_value.
     map_err (\<lambda>_. input_builder_error P values
         [(''capacity_provider'', ''capacity_provider'')])
       (build_capacity_provider_strategy_item S capacity_provider_value weight_value base_value)))))"

definition capacity_provider_strategy_item_to_py :: "capacity_provider_strategy_item \<Rightarrow> pyval" where
  "capacity_provider_strategy_item_to_py v = PyDict (py_dict
     [(''capacity_provider'', PyStr (hcpsi_capacity_provider v)),
      (''weight'', i32_to_py (hcpsi_weight v)),
      (''base'', i32_to_py (hcpsi_base v))])"

definition dead_letter_config_from_py :: "pyo3 \<Rightarrow> scheduler_types \<Rightarrow> pyval \<Rightarrow> dead_letter_config pyresult" where
  "dead_letter_config_from_py P S value =
     and_then (cast_dict P value) (\<lambda>values.
     and_then (member P values ''arn'' ''str'' (string_from_py P)) (\<lambda>arn_value.
     Inr (build_dead_letter_config S arn_value)))"

definition dead_letter_config_to_py :: "dead_letter_config \<Rightarrow> pyval" where
  "dead_letter_config_to_py v = PyDict (py_dict
     [(''arn'', opt_to_py PyStr (hdlc_arn v))])"

definition network_configuration_from_py :: "pyo3 \<Rightarrow> scheduler_types \<Rightarrow> pyval \<Rightarrow> network_configuration pyresult" where
  "network_configuration_from_py P S value =
     and_then (cast_dict P value) (\<lambda>values.
     and_then (member P values ''awsvpc_configuration'' ''dict (AwsVpcConfiguration)'' (aws_vpc_configuration_from_py P S)) (\<lambda>awsvpc_configuration_value.
     Inr (build_network_configuration S awsvpc_configuration_value)))"

definition network_configuration_to_py :: "network_configuration \<Rightarrow> pyval" where
  "network_configuration_to_py v = PyDict (py_dict
     [(''awsvpc_configuration'', opt_to_py aws_vpc_configuration_to_py (hnc_awsvpc_configuration v))])"

definition placement_constraint_from_py :: "pyo3 \<Rightarrow> scheduler_types \<Rightarrow> pyval \<Rightarrow> placement_constraint pyresult" where
  "placement_constraint_from_py P S value =
     and_then (cast_dict P value) (\<lambda>values.
     and_then (member P values ''type'' ''str (PlacementConstraintType)'' (enum_from_py P)) (\<lambda>type_value.
     and_then (member P values ''expression'' ''str'' (string_from_py P)) (\<lambda>expression_value.
     Inr (build_placement_constraint S type_value expression_value))))"

definition placement_constraint_to_py :: "placement_constraint \<Rightarrow> pyval" where
  "placement_constraint_to_py v = PyDict (py_dict
     [(''type'', opt_to_py PyStr (hpc_type v)),
      (''expression'', opt_to_py PyStr (hpc_expression v))])"

definition placement_strategy_from_py :: "pyo3 \<Rightarrow> scheduler_types \<Rightarrow> pyval \<Rightarrow> placement_strategy pyresult" where
  "placement_strategy_from_py P S value =
     and_then (cast_dict P value) (\<lambda>values.
     and_then (member P values ''type'' ''str (PlacementStrategyType)'' (enum_from_py P)) (\<lambda>type_value.
     and_then (member P values ''field'' ''str'' (string_from_py P)) (\<lambda>field_value.
     Inr (build_placement_strategy S type_value field_value))))"

definition placement_strategy_to_py :: "placement_strategy \<Rightarrow> pyval" where
  "placement_strategy_to_py v = PyDict (py_dict
     [(''type'', opt_to_py PyStr (hps_type v)),
      (''field'', opt_to_py PyStr (hps_field v))])"

definition ecs_parameters_from_py :: "pyo3 \<Rightarrow> scheduler_types \<Rightarrow> pyval \<Rightarrow> ecs_parameters pyresult" where
  "ecs_parameters_from_py P S value =
     and_then (cast_dict P value) (\<lambda>values.
     and_then (member P values ''task_definition_arn'' ''str'' (string_from_py P)) (\<lambda>task_definition_arn_value.
     and_then (member P values ''task_count'' ''int'' (i32_from_py P)) (\<lambda>task_count_value.
     and_then (member P values ''launch_type'' ''str (LaunchType)'' (enum_from_py P)) (\<lambda>launch_type_value.
     and_then (member P values ''network_configuration'' ''dict (NetworkConfiguration)'' (network_configuration_from_py P S)) (\<lambda>network_configuration_value.
     and_then (member P values ''platform_version'' ''str'' (string_from_py P)) (\<lambda>platform_version_value.
     and_then (member P values ''group'' ''str'' (string_from_py P)) (\<lambda>group_value.
     and_then (member P values ''capacity_provider_strategy'' ''sequence'' (seq_from_py P ''dict (CapacityProviderStrategyItem)'' (capacity_provider_strategy_item_from_py P S))) (\<lambda>capacity_provider_strategy_value.
     and_then (member P values ''enable_ecs_managed_tags'' ''bool'' (bool_from_py P)) (\<lambda>enable_ecs_managed_tags_value.
     and_then (member P values ''enable_execute_command'' ''bool'' (bool_from_py P)) (\<lambda>enable_execute_command_value.
     and_then (member P values ''placement_constraints'' ''sequence'' (seq_from_py P ''dict (PlacementConstraint)'' (placement_constraint_from_py P S))) (\<lambda>placement_constraints_value.
     and_then (member P values ''placement_strategy'' ''sequence'' (seq_from_py P ''dict (PlacementStrategy)'' (placement_strategy_from_py P S))) (\<lambda>placement_strategy_value.
     and_then (member P values ''propagate_tags'' ''str (PropagateTags)'' (enum_from_py P)) (\<lambda>propagate_tags_value.
     and_then (member P values ''reference_id'' ''str'' (string_from_py P)) (\<lambda>reference_id_value.
     and_then (member P values ''tags'' ''sequence'' (seq_from_py P ''dict'' (map_from_py P ''str'' ''str'' (string_from_py P)))) (\<lambda>tags_value.
     map_err (\<lambda>_. input_builder_error P values
         [(''task_definition_arn'', ''task_definition_arn'')])
       (build_ecs_parameters S task_definition_arn_value task_count_value launch_type_value network_configuration_value platform_version_value group_value capacity_provider_strategy_value enable_ecs_managed_tags_value enable_execute_command_value placement_constraints_value placement_strategy_value propagate_tags_value reference_id_value tags_value))))))))))))))))"

definition ecs_parameters_to_py :: "((string, pyval) fmap \<Rightarrow> (string \<times> pyval) list) \<Rightarrow> ecs_parameters \<Rightarrow> pyval" where
  "ecs_parameters_to_py order v = PyDict (py_dict
     [(''task_definition_arn'', PyStr (hep_task_definition_arn v)),
      (''task_count'', opt_to_py i32_to_py (hep_task_count v)),
      (''launch_type'', opt_to_py PyStr (hep_launch_type v)),
      (''network_configuration'', opt_to_py network_configuration_to_py (hep_network_configuration v)),
      (''platform_version'', opt_to_py PyStr (hep_platform_version v)),
      (''group'', opt_to_py PyStr (hep_group v)),
      (''capacity_provider_strategy'', opt_to_py (seq_to_py capacity_provider_strategy_item_to_py) (hep_capacity_provider_strategy v)),
      (''enable_ecs_managed_tags'', opt_to_py PyBool (hep_enable_ecs_managed_tags v)),
      (''enable_execute_command'', opt_to_py PyBool (hep_enable_execute_command v)),
      (''placement_constraints'', opt_to_py (seq_to_py placement_constraint_to_py) (hep_placement_constraints v)),
      (''placement_strategy'', opt_to_py (seq_to_py placement_strategy_to_py) (hep_placement_strategy v)),
      (''propagate_tags'', opt_to_py PyStr (hep_propagate_tags v)),
      (''reference_id'', opt_to_py PyStr (hep_reference_id v)),
      (''tags'', opt_to_py (seq_to_py (mapping_to_py order PyStr)) (hep_tags v))])"

definition event_bridge_parameters_from_py :: "pyo3 \<Rightarrow> scheduler_types \<Rightarrow> pyval \<Rightarrow> event_bridge_parameters pyresult" where
  "event_bridge_parameters_from_py P S value =
     and_then (cast_dict P value) (\<lambda>values.
     and_then (member P values ''detail_type'' ''str'' (string_from_py P)) (\<lambda>detail_type_value.
     and_then (member P values ''source'' ''str'' (string_from_py P)) (\<lambda>source_value.
     map_err (\<lambda>_. input_builder_error P values
         [(''detail_type'', ''detail_type''), (''source'', ''source'')])
       (build_event_bridge_parameters S detail_type_value source_value))))"

definition event_bridge_parameters_to_py :: "event_bridge_parameters \<Rightarrow> pyval" where
  "event_bridge_parameters_to_py v = PyDict (py_dict
     [(''detail_type'', PyStr (hebp_detail_type v)),
      (''source'', PyStr (hebp_source v))])"

definition flexible_time_window_from_py :: "pyo3 \<Rightarrow> scheduler_types \<Rightarrow> pyval \<Rightarrow> flexible_time_window pyresult" where
  "flexible_time_window_from_py P S value =
     and_then (cast_dict P value) (\<lambda>values.
     and_then (member P values ''mode'' ''str (FlexibleTimeWindowMode)'' (enum_from_py P)) (\<lambda>mode_value.
     and_then (member P values ''maximum_window_in_minutes'' ''int'' (i32_from_py P)) (\<lambda>maximum_window_in_minutes_value.
     map_err (\<lambda>_. input_builder_error P values
         [(''mode'', ''mode'')])
       (build_flexible_time_window S mode_value maximum_window_in_minutes_value))))"

definition flexible_time_window_to_py :: "flexible_time_window \<Rightarrow> pyval" where
  "flexible_time_window_to_py v = PyDict (py_dict
     [(''mode'', PyStr (hftw_mode v)),
      (''maximum_window_in_minutes'', opt_to_py i32_to_py (hftw_maximum_window_in_minutes v))])"

definition kinesis_parameters_from_py :: "pyo3 \<Rightarrow> scheduler_types \<Rightarrow> pyval \<Rightarrow> kinesis_parameters pyresult" where
  "kinesis_parameters_from_py P S value =
     and_then (cast_dict P value) (\<lambda>values.
     and_then (member P values ''partition_key'' ''str'' (string_from_py P)) (\<lambda>partition_key_value.
     map_err (\<lambda>_. input_builder_error P values
         [(''partition_key'', ''partition_key'')])
       (build_kinesis_parameters S partition_key_value)))"

definition kinesis_parameters_to_py :: "kinesis_parameters \<Rightarrow> pyval" where
  "kinesis_parameters_to_py v = PyDict (py_dict
     [(''partition_key'', PyStr (hkp_partition_key v))])"

definition retry_policy_from_py :: "pyo3 \<Rightarrow> scheduler_types \<Rightarrow> pyval \<Rightarrow> retry_policy pyresult" where
  "retry_policy_from_py P S value =
     and_then (cast_dict P value) (\<lambda>values.
     and_then (member P values ''maximum_event_age_in_seconds'' ''int'' (i32_from_py P)) (\<lambda>maximum_event_age_in_seconds_value.
     and_then (member P values ''maximum_retry_attempts'' ''int'' (i32_from_py P)) (\<lambda>maximum_retry_attempts_value.
     Inr (build_retry_policy S maximum_event_age_in_seconds_value maximum_retry_attempts_value))))"

definition retry_policy_to_py :: "retry_policy \<Rightarrow> pyval" where
  "retry_policy_to_py v = PyDict (py_dict
     [(''maximum_event_age_in_seconds'', opt_to_py i32_to_py (hrp_maximum_event_age_in_seconds v)),
      (''maximum_retry_attempts'', opt_to_py i32_to_py (hrp_maximum_retry_attempts v))])"

definition sage_maker_pipeline_parameter_from_py :: "pyo3 \<Rightarrow> scheduler_types \<Rightarrow> pyval \<Rightarrow> sage_maker_pipeline_parameter pyresult" where
  "sage_maker_pipeline_parameter_from_py P S value =
     and_then (cast_dict P value) (\<lambda>values.
     and_then (member P values ''name'' ''str'' (string_from_py P)) (\<lambda>name_value.
     and_then (member P values ''value'' ''str'' (string_from_py P)) (\<lambda>value_value.
     map_err (\<lambda>_. input_builder_error P values
         [(''name'', ''name''), (''value'', ''value'')])
       (build_sage_maker_pipeline_parameter S name_value value_value))))"

definition sage_maker_pipeline_parameter_to_py :: "sage_maker_pipeline_parameter \<Rightarrow> pyval" where
  "sage_maker_pipeline_parameter_to_py v = PyDict (py_dict
     [(''name'', PyStr (hsmpp_name v)),
      (''value'', PyStr (hsmpp_value v))])"

definition sage_maker_pipeline_parameters_from_py :: "pyo3 \<Rightarrow> scheduler_types \<Rightarrow> pyval \<Rightarrow> sage_maker_pipeline_parameters pyresult" where
  "sage_maker_pipeline_parameters_from_py P S value =
     and_then (cast_dict P value) (\<lambda>values.
     and_then (member P values ''pipeline_parameter_list'' ''sequence'' (seq_from_py P ''dict (SageMakerPipelineParameter)'' (sage_maker_pipeline_parameter_from_py P S))) (\<lambda>pipeline_parameter_list_value.
     Inr (build_sage_maker_pipeline_parameters S pipeline_parameter_list_value)))"

definition sage_maker_pipeline_parameters_to_py :: "sage_maker_pipeline_parameters \<Rightarrow> pyval" where
  "sage_maker_pipeline_parameters_to_py v = PyDict (py_dict
     [(''pipeline_parameter_list'', opt_to_py (seq_to_py sage_maker_pipeline_parameter_to_py) (hsmpp2_pipeline_parameter_list v))])"

definition schedule_group_summary_from_py :: "pyo3 \<Rightarrow> scheduler_types \<Rightarrow> pyval \<Rightarrow> schedule_group_summary pyresult" where
  "schedule_group_summary_from_py P S value =
     and_then (cast_dict P value) (\<lambda>values.
     and_then (member P values ''arn'' ''str'' (string_from_py P)) (\<lambda>arn_value.
     and_then (member P values ''name'' ''str'' (string_from_py P)) (\<lambda>name_value.
     and_then (member P values ''state'' ''str (ScheduleGroupState)'' (enum_from_py P)) (\<lambda>state_value.
     and_then (member P values ''creation_date'' ''ISO 8601 timestamp string'' (datetime_from_py P S)) (\<lambda>creation_date_value.
     and_then (member P values ''last_modification_date'' ''ISO 8601 timestamp string'' (datetime_from_py P S)) (\<lambda>last_modification_date_value.
     Inr (build_schedule_group_summary S arn_value name_value state_value creation_date_value last_modification_date_value)))))))"

definition schedule_group_summary_to_py :: "scheduler_types \<Rightarrow> schedule_group_summary \<Rightarrow> pyval" where
  "schedule_group_summary_to_py S v = PyDict (py_dict
     [(''arn'', opt_to_py PyStr (hsgs_arn v)),
      (''name'', opt_to_py PyStr (hsgs_name v)),
      (''state'', opt_to_py PyStr (hsgs_state v)),
      (''creation_date'', opt_to_py (datetime_to_py S) (hsgs_creation_date v)),
      (''last_modification_date'', opt_to_py (datetime_to_py S) (hsgs_last_modification_date v))])"

definition target_summary_from_py :: "pyo3 \<Rightarrow> scheduler_types \<Rightarrow> pyval \<Rightarrow> target_summary pyresult" where
  "target_summary_from_py P S value =
     and_then (cast_dict P value) (\<lambda>values.
     and_then (member P values ''arn'' ''str'' (string_from_py P)) (\<lambda>arn_value.
     map_err (\<lambda>_. input_builder_error P values
         [(''arn'', ''arn'')])
       (build_target_summary S arn_value)))"

definition target_summary_to_py :: "target_summary \<Rightarrow> pyval" where
  "target_summary_to_py v = PyDict (py_dict
     [(''arn'', PyStr (hts_arn v))])"

definition schedule_summary_from_py :: "pyo3 \<Rightarrow> scheduler_types \<Rightarrow> pyval \<Rightarrow> schedule_summary pyresult" where
  "schedule_summary_from_py P S value =
     and_then (cast_dict P value) (\<lambda>values.
     and_then (member P values ''arn'' ''str'' (string_from_py P)) (\<lambda>arn_value.
     and_then (member P values ''name'' ''str'' (string_from_py P)) (\<lambda>name_value.
     and_then (member P values ''group_name'' ''str'' (string_from_py P)) (\<lambda>group_name_value.
     and_then (member P values ''state'' ''str (ScheduleState)'' (enum_from_py P)) (\<lambda>state_value.
     and_then (member P values ''creation_date'' ''ISO 8601 timestamp string'' (datetime_from_py P S)) (\<lambda>creation_date_value.
     and_then (member P values ''last_modification_date'' ''ISO 8601 timestamp string'' (datetime_from_py P S)) (\<lambda>last_modification_date_value.
     and_then (member P values ''target'' ''dict (TargetSummary)'' (target_summary_from_py P S)) (\<lambda>target_value.
     Inr (build_schedule_summary S arn_value name_value group_name_value state_value creation_date_value last_modification_date_value target_value)))))))))"

definition schedule_summary_to_py :: "scheduler_types \<Rightarrow> schedule_summary \<Rightarrow> pyval" where
  "schedule_summary_to_py S v = PyDict (py_dict
     [(''arn'', opt_to_py PyStr (hss_arn v)),
      (''name'', opt_to_py PyStr (hss_name v)),
      (''group_name'', opt_to_py PyStr (hss_group_name v)),
      (''state'', opt_to_py PyStr (hss_state v)),
      (''creation_date'', opt_to_py (datetime_to_py S) (hss_creation_date v)),
      (''last_modification_date'', opt_to_py (datetime_to_py S) (hss_last_modification_date v)),
      (''target'', opt_to_py target_summary_to_py (hss_target v))])"

definition sqs_parameters_from_py :: "pyo3 \<Rightarrow> scheduler_types \<Rightarrow> pyval \<Rightarrow> sqs_parameters pyresult" where
  "sqs_parameters_from_py P S value =
     and_then (cast_dict P value) (\<lambda>values.
     and_then (member P values ''message_group_id'' ''str'' (string_from_py P)) (\<lambda>message_group_id_value.
     Inr (build_sqs_parameters S message_group_id_value)))"

definition sqs_parameters_to_py :: "sqs_parameters \<Rightarrow> pyval" where
  "sqs_parameters_to_py v = PyDict (py_dict
     [(''message_group_id'', opt_to_py PyStr (hsp_message_group_id v))])"

definition scheduler_tag_from_py :: "pyo3 \<Rightarrow> scheduler_types \<Rightarrow> pyval \<Rightarrow> scheduler_tag pyresult" where
  "scheduler_tag_from_py P S value =
     and_then (cast_dict P value) (\<lambda>values.
     and_then (member P values ''key'' ''str'' (string_from_py P)) (\<lambda>key_value.
     and_then (member P values ''value'' ''str'' (string_from_py P)) (\<lambda>value_value.
     map_err (\<lambda>_. input_builder_error P values
         [(''key'', ''key''), (''value'', ''value'')])
       (build_scheduler_tag S key_value value_value))))"

definition scheduler_tag_to_py :: "scheduler_tag \<Rightarrow> pyval" where
  "scheduler_tag_to_py v = PyDict (py_dict
     [(''key'', PyStr (ht_key v)),
      (''value'', PyStr (ht_value v))])"

definition target_from_py :: "pyo3 \<Rightarrow> scheduler_types \<Rightarrow> pyval \<Rightarrow> target pyresult" where
  "target_from_py P S value =
     and_then (cast_dict P value) (\<lambda>values.
     and_then (member P values ''arn'' ''str'' (string_from_py P)) (\<lambda>arn_value.
     and_then (member P values ''role_arn'' ''str'' (string_from_py P)) (\<lambda>role_arn_value.
     and_then (member P values ''dead_letter_config'' ''dict (DeadLetterConfig)'' (dead_letter_config_from_py P S)) (\<lambda>dead_letter_config_value.
     and_then (member P values ''retry_policy'' ''dict (RetryPolicy)'' (retry_policy_from_py P S)) (\<lambda>retry_policy_value.
     and_then (member P values ''input'' ''str'' (string_from_py P)) (\<lambda>input_value.
     and_then (member P values ''ecs_parameters'' ''dict (EcsParameters)'' (ecs_parameters_from_py P S)) (\<lambda>ecs_parameters_value.
     and_then (member P values ''event_bridge_parameters'' ''dict (EventBridgeParameters)'' (event_bridge_parameters_from_py P S)) (\<lambda>event_bridge_parameters_value.
     and_then (member P values ''kinesis_parameters'' ''dict (KinesisParameters)'' (kinesis_parameters_from_py P S)) (\<lambda>kinesis_parameters_value.
     and_then (member P values ''sage_maker_pipeline_parameters'' ''dict (SageMakerPipelineParameters)'' (sage_maker_pipeline_parameters_from_py P S)) (\<lambda>sage_maker_pipeline_parameters_value.
     and_then (member P values ''sqs_parameters'' ''dict (SqsParameters)'' (sqs_parameters_from_py P S)) (\<lambda>sqs_parameters_value.
     map_err (\<lambda>_. input_builder_error P values
         [(''arn'', ''arn''), (''role_arn'', ''role_arn'')])
       (build_target S arn_value role_arn_value dead_letter_config_value retry_policy_value input_value ecs_parameters_value event_bridge_parameters_value kinesis_parameters_value sage_maker_pipeline_parameters_value sqs_parameters_value))))))))))))"

definition target_to_py :: "((string, pyval) fmap \<Rightarrow> (string \<times> pyval) list) \<Rightarrow> target \<Rightarrow> pyval" where
  "target_to_py order v = PyDict (py_dict
     [(''arn'', PyStr (ht2_arn v)),
      (''role_arn'', PyStr (ht2_role_arn v)),
      (''dead_letter_config'', opt_to_py dead_letter_config_to_py (ht2_dead_letter_config v)),
      (''retry_policy'', opt_to_py retry_policy_to_py (ht2_retry_policy v)),
      (''input'', opt_to_py PyStr (ht2_input v)),
      (''ecs_parameters'', opt_to_py (ecs_parameters_to_py order) (ht2_ecs_parameters v)),
      (''event_bridge_parameters'', opt_to_py event_bridge_parameters_to_py (ht2_event_bridge_parameters v)),
      (''kinesis_parameters'', opt_to_py kinesis_parameters_to_py (ht2_kinesis_parameters v)),
      (''sage_maker_pipeline_parameters'', opt_to_py sage_maker_pipeline_parameters_to_py (ht2_sage_maker_pipeline_parameters v)),
      (''sqs_parameters'', opt_to_py sqs_parameters_to_py (ht2_sqs_parameters v))])"

section \<open>Round trips\<close>

text \<open>What the builders document: a builder given every member the structure must have gives the
  structure with the members it was given, and one that lacks a required member fails.\<close>

locale scheduler_types_laws =
  fixes S :: scheduler_types
  assumes aws_vpc_configuration_built: "build_aws_vpc_configuration S (Some havc0) havc1 havc2 =
       Inr \<lparr>havc_subnets = havc0, havc_security_groups = havc1, havc_assign_public_ip = havc2\<rparr>"
    and capacity_provider_strategy_item_built: "build_capacity_provider_strategy_item S (Some hcpsi0) (Some hcpsi1) (Some hcpsi2) =
       Inr \<lparr>hcpsi_capacity_provider = hcpsi0, hcpsi_weight = hcpsi1, hcpsi_base = hcpsi2\<rparr>"
    and dead_letter_config_built: "build_dead_letter_config S hdlc0 =
       \<lparr>hdlc_arn = hdlc0\<rparr>"
    and network_configuration_built: "build_network_configuration S hnc0 =
       \<lparr>hnc_awsvpc_configuration = hnc0\<rparr>"
    and placement_constraint_built: "build_placement_constraint S hpc0 hpc1 =
       \<lparr>hpc_type = hpc0, hpc_expression = hpc1\<rparr>"
    and placement_strategy_built: "build_placement_strategy S hps0 hps1 =
       \<lparr>hps_type = hps0, hps_field = hps1\<rparr>"
    and ecs_parameters_built: "build_ecs_parameters S (Some hep0) hep1 hep2 hep3 hep4 hep5 hep6 hep7 hep8 hep9 hep10 hep11 hep12 hep13 =
       Inr \<lparr>hep_task_definition_arn = hep0, hep_task_count = hep1, hep_launch_type = hep2, hep_network_configuration = hep3, hep_platform_version = hep4, hep_group = hep5, hep_capacity_provider_strategy = hep6, hep_enable_ecs_managed_tags = hep7, hep_enable_execute_command = hep8, hep_placement_constraints = hep9, hep_placement_strategy = hep10, hep_propagate_tags = hep11, hep_reference_id = hep12, hep_tags = hep13\<rparr>"
    and event_bridge_parameters_built: "build_event_bridge_parameters S (Some hebp0) (Some hebp1) =
       Inr \<lparr>hebp_detail_type = hebp0, hebp_source = hebp1\<rparr>"
    and flexible_time_window_built: "build_flexible_time_window S (Some hftw0) hftw1 =
       Inr \<lparr>hftw_mode = hftw0, hftw_maximum_window_in_minutes = hftw1\<rparr>"
    and kinesis_parameters_built: "build_kinesis_parameters S (Some hkp0) =
       Inr \<lparr>hkp_partition_key = hkp0\<rparr>"
    and retry_policy_built: "build_retry_policy S hrp0 hrp1 =
       \<lparr>hrp_maximum_event_age_in_seconds = hrp0, hrp_maximum_retry_attempts = hrp1\<rparr>"
    and sage_maker_pipeline_parameter_built: "build_sage_maker_pipeline_parameter S (Some hsmpp0) (Some hsmpp1) =
       Inr \<lparr>hsmpp_name = hsmpp0, hsmpp_value = hsmpp1\<rparr>"
    and sage_maker_pipeline_parameters_built: "build_sage_maker_pipeline_parameters S hsmpp20 =
       \<lparr>hsmpp2_pipeline_parameter_list = hsmpp20\<rparr>"
    and schedule_group_summary_built: "build_schedule_group_summary S hsgs0 hsgs1 hsgs2 hsgs3 hsgs4 =
       \<lparr>hsgs_arn = hsgs0, hsgs_name = hsgs1, hsgs_state = hsgs2, hsgs_creation_date = hsgs3, hsgs_last_modification_date = hsgs4\<rparr>"
    and target_summary_built: "build_target_summary S (Some hts0) =
       Inr \<lparr>hts_arn = hts0\<rparr>"
    and schedule_summary_built: "build_schedule_summary S hss0 hss1 hss2 hss3 hss4 hss5 hss6 =
       \<lparr>hss_arn = hss0, hss_name = hss1, hss_group_name = hss2, hss_state = hss3, hss_creation_date = hss4, hss_last_modification_date = hss5, hss_target = hss6\<rparr>"
    and sqs_parameters_built: "build_sqs_parameters S hsp0 =
       \<lparr>hsp_message_group_id = hsp0\<rparr>"
    and scheduler_tag_built: "build_scheduler_tag S (Some ht0) (Some ht1) =
       Inr \<lparr>ht_key = ht0, ht_value = ht1\<rparr>"
    and target_built: "build_target S (Some ht20) (Some ht21) ht22 ht23 ht24 ht25 ht26 ht27 ht28 ht29 =
       Inr \<lparr>ht2_arn = ht20, ht2_role_arn = ht21, ht2_dead_letter_config = ht22, ht2_retry_policy = ht23, ht2_input = ht24, ht2_ecs_parameters = ht25, ht2_event_bridge_parameters = ht26, ht2_kinesis_parameters = ht27, ht2_sage_maker_pipeline_parameters = ht28, ht2_sqs_parameters = ht29\<rparr>"
    and aws_vpc_configuration_incomplete: "ohavc0 = None \<Longrightarrow>
       build_aws_vpc_configuration S ohavc0 ohavc1 ohavc2 = Inl ()"
    and capacity_provider_strategy_item_incomplete: "ohcpsi0 = None \<Longrightarrow>
       build_capacity_provider_strategy_item S ohcpsi0 ohcpsi1 ohcpsi2 = Inl ()"
    and ecs_parameters_incomplete: "ohep0 = None \<Longrightarrow>
       build_ecs_parameters S ohep0 ohep1 ohep2 ohep3 ohep4 ohep5 ohep6 ohep7 ohep8 ohep9 ohep10 ohep11 ohep12 ohep13 = Inl ()"
    and event_bridge_parameters_incomplete: "ohebp0 = None \<or> ohebp1 = None \<Longrightarrow>
       build_event_bridge_parameters S ohebp0 ohebp1 = Inl ()"
    and flexible_time_window_incomplete: "ohftw0 = None \<Longrightarrow>
       build_flexible_time_window S ohftw0 ohftw1 = Inl ()"
    and kinesis_parameters_incomplete: "ohkp0 = None \<Longrightarrow>
       build_kinesis_parameters S ohkp0 = Inl ()"
    and sage_maker_pipeline_parameter_incomplete: "ohsmpp0 = None \<or> ohsmpp1 = None \<Longrightarrow>
       build_sage_maker_pipeline_parameter S ohsmpp0 ohsmpp1 = Inl ()"
    and target_summary_incomplete: "ohts0 = None \<Longrightarrow>
       build_target_summary S ohts0 = Inl ()"
    and scheduler_tag_incomplete: "oht0 = None \<or> oht1 = None \<Longrightarrow>
       build_scheduler_tag S oht0 oht1 = Inl ()"
    and target_incomplete: "oht20 = None \<or> oht21 = None \<Longrightarrow>
       build_target S oht20 oht21 oht22 oht23 oht24 oht25 oht26 oht27 oht28 oht29 = Inl ()"

text \<open>A concrete SDK.\<close>

definition scheduler_std :: scheduler_types where
  "scheduler_std =
     \<lparr>parse_datetime = (\<lambda>s. Inr (int (digits_value s), 0)),
      show_datetime = (\<lambda>d. show_nat (nat (fst d))),
      build_aws_vpc_configuration = (\<lambda>a0 a1 a2. if a0 = None then Inl ()
        else Inr \<lparr>havc_subnets = the a0, havc_security_groups = a1, havc_assign_public_ip = a2\<rparr>),
      build_capacity_provider_strategy_item = (\<lambda>a0 a1 a2. if a0 = None then Inl ()
        else Inr \<lparr>hcpsi_capacity_provider = the a0, hcpsi_weight = unwrap_or 0 a1, hcpsi_base = unwrap_or 0 a2\<rparr>),
      build_dead_letter_config = (\<lambda>a0. \<lparr>hdlc_arn = a0\<rparr>),
      build_network_configuration = (\<lambda>a0. \<lparr>hnc_awsvpc_configuration = a0\<rparr>),
      build_placement_constraint = (\<lambda>a0 a1. \<lparr>hpc_type = a0, hpc_expression = a1\<rparr>),
      build_placement_strategy = (\<lambda>a0 a1. \<lparr>hps_type = a0, hps_field = a1\<rparr>),
      build_ecs_parameters = (\<lambda>a0 a1 a2 a3 a4 a5 a6 a7 a8 a9 a10 a11 a12 a13. if a0 = None then Inl ()
        else Inr \<lparr>hep_task_definition_arn = the a0, hep_task_count = a1, hep_launch_type = a2, hep_network_configuration = a3, hep_platform_version = a4, hep_group = a5, hep_capacity_provider_strategy = a6, hep_enable_ecs_managed_tags = a7, hep_enable_execute_command = a8, hep_placement_constraints = a9, hep_placement_strategy = a10, hep_propagate_tags = a11, hep_reference_id = a12, hep_tags = a13\<rparr>),
      build_event_bridge_parameters = (\<lambda>a0 a1. if a0 = None \<or> a1 = None then Inl ()
        else Inr \<lparr>hebp_detail_type = the a0, hebp_source = the a1\<rparr>),
      build_flexible_time_window = (\<lambda>a0 a1. if a0 = None then Inl ()
        else Inr \<lparr>hftw_mode = the a0, hftw_maximum_window_in_minutes = a1\<rparr>),
      build_kinesis_parameters = (\<lambda>a0. if a0 = None then Inl ()
        else Inr \<lparr>hkp_partition_key = the a0\<rparr>),
      build_retry_policy = (\<lambda>a0 a1. \<lparr>hrp_maximum_event_age_in_seconds = a0, hrp_maximum_retry_attempts = a1\<rparr>),
      build_sage_maker_pipeline_parameter = (\<lambda>a0 a1. if a0 = None \<or> a1 = None then Inl ()
        else Inr \<lparr>hsmpp_name = the a0, hsmpp_value = the a1\<rparr>),
      build_sage_maker_pipeline_parameters = (\<lambda>a0. \<lparr>hsmpp2_pipeline_parameter_list = a0\<rparr>),
      build_schedule_group_summary = (\<lambda>a0 a1 a2 a3 a4. \<lparr>hsgs_arn = a0, hsgs_name = a1, hsgs_state = a2, hsgs_creation_date = a3, hsgs_last_modification_date = a4\<rparr>),
      build_target_summary = (\<lambda>a0. if a0 = None then Inl ()
        else Inr \<lparr>hts_arn = the a0\<rparr>),
      build_schedule_summary = (\<lambda>a0 a1 a2 a3 a4 a5 a6. \<lparr>hss_arn = a0, hss_name = a1, hss_group_name = a2, hss_state = a3, hss_creation_date = a4, hss_last_modification_date = a5, hss_target = a6\<rparr>),
      build_sqs_parameters = (\<lambda>a0. \<lparr>hsp_message_group_id = a0\<rparr>),
      build_scheduler_tag = (\<lambda>a0 a1. if a0 = None \<or> a1 = None then Inl ()
        else Inr \<lparr>ht_key = the a0, ht_value = the a1\<rparr>),
      build_target = (\<lambda>a0 a1 a2 a3 a4 a5 a6 a7 a8 a9. if a0 = None \<or> a1 = None then Inl ()
        else Inr \<lparr>ht2_arn = the a0, ht2_role_arn = the a1, ht2_dead_letter_config = a2, ht2_retry_policy = a3, ht2_input = a4, ht2_ecs_parameters = a5, ht2_event_bridge_parameters = a6, ht2_kinesis_parameters = a7, ht2_sage_maker_pipeline_parameters = a8, ht2_sqs_parameters = a9\<rparr>)\<rparr>"

interpretation std_scheduler: scheduler_types_laws scheduler_std
  by unfold_locales (auto simp: scheduler_std_def unwrap_or_def)

locale scheduler_conversions = pyo3_laws P + scheduler_types_laws S for P S +
  fixes order :: "(string, pyval) fmap \<Rightarrow> (string \<times> pyval) list"
  assumes order: "iterates order"
begin

lemma aws_vpc_configuration_reads: "reads (aws_vpc_configuration_from_py P S) (aws_vpc_configuration_to_py)"
proof (rule readsI)
  show "aws_vpc_configuration_to_py v \<noteq> PyNone" for v
    by (simp add: aws_vpc_configuration_to_py_def)
  show "aws_vpc_configuration_from_py P S (aws_vpc_configuration_to_py v) = Inr v" for v
    by (cases v) (simp add: aws_vpc_configuration_from_py_def aws_vpc_configuration_to_py_def dict_ok py_dict_distinct aws_vpc_configuration_built
        member_reads_given [OF reads_seq [OF reads_str]]
        member_reads [OF reads_seq [OF reads_str]]
        member_reads [OF reads_enum])
qed

lemma capacity_provider_strategy_item_reads: "reads (capacity_provider_strategy_item_from_py P S) (capacity_provider_strategy_item_to_py)"
proof (rule readsI)
  show "capacity_provider_strategy_item_to_py v \<noteq> PyNone" for v
    by (simp add: capacity_provider_strategy_item_to_py_def)
  show "capacity_provider_strategy_item_from_py P S (capacity_provider_strategy_item_to_py v) = Inr v" for v
    by (cases v) (simp add: capacity_provider_strategy_item_from_py_def capacity_provider_strategy_item_to_py_def dict_ok py_dict_distinct capacity_provider_strategy_item_built
        member_reads_given [OF reads_str]
        member_reads_given [OF reads_i32])
qed

lemma dead_letter_config_reads: "reads (dead_letter_config_from_py P S) (dead_letter_config_to_py)"
proof (rule readsI)
  show "dead_letter_config_to_py v \<noteq> PyNone" for v
    by (simp add: dead_letter_config_to_py_def)
  show "dead_letter_config_from_py P S (dead_letter_config_to_py v) = Inr v" for v
    by (cases v) (simp add: dead_letter_config_from_py_def dead_letter_config_to_py_def dict_ok py_dict_distinct dead_letter_config_built
        member_reads [OF reads_str])
qed

lemma network_configuration_reads: "reads (network_configuration_from_py P S) (network_configuration_to_py)"
proof (rule readsI)
  show "network_configuration_to_py v \<noteq> PyNone" for v
    by (simp add: network_configuration_to_py_def)
  show "network_configuration_from_py P S (network_configuration_to_py v) = Inr v" for v
    by (cases v) (simp add: network_configuration_from_py_def network_configuration_to_py_def dict_ok py_dict_distinct network_configuration_built
        member_reads [OF aws_vpc_configuration_reads])
qed

lemma placement_constraint_reads: "reads (placement_constraint_from_py P S) (placement_constraint_to_py)"
proof (rule readsI)
  show "placement_constraint_to_py v \<noteq> PyNone" for v
    by (simp add: placement_constraint_to_py_def)
  show "placement_constraint_from_py P S (placement_constraint_to_py v) = Inr v" for v
    by (cases v) (simp add: placement_constraint_from_py_def placement_constraint_to_py_def dict_ok py_dict_distinct placement_constraint_built
        member_reads [OF reads_enum]
        member_reads [OF reads_str])
qed

lemma placement_strategy_reads: "reads (placement_strategy_from_py P S) (placement_strategy_to_py)"
proof (rule readsI)
  show "placement_strategy_to_py v \<noteq> PyNone" for v
    by (simp add: placement_strategy_to_py_def)
  show "placement_strategy_from_py P S (placement_strategy_to_py v) = Inr v" for v
    by (cases v) (simp add: placement_strategy_from_py_def placement_strategy_to_py_def dict_ok py_dict_distinct placement_strategy_built
        member_reads [OF reads_enum]
        member_reads [OF reads_str])
qed

lemma ecs_parameters_reads: "reads (ecs_parameters_from_py P S) (ecs_parameters_to_py order)"
proof (rule readsI)
  show "ecs_parameters_to_py order v \<noteq> PyNone" for v
    by (simp add: ecs_parameters_to_py_def)
  show "ecs_parameters_from_py P S (ecs_parameters_to_py order v) = Inr v" for v
    by (cases v) (simp add: ecs_parameters_from_py_def ecs_parameters_to_py_def dict_ok py_dict_distinct ecs_parameters_built
        member_reads_given [OF reads_str]
        member_reads [OF reads_i32]
        member_reads [OF reads_enum]
        member_reads [OF network_configuration_reads]
        member_reads [OF reads_str]
        member_reads [OF reads_seq [OF capacity_provider_strategy_item_reads]]
        member_reads [OF reads_bool]
        member_reads [OF reads_seq [OF placement_constraint_reads]]
        member_reads [OF reads_seq [OF placement_strategy_reads]]
        member_reads [OF reads_seq [OF reads_map [OF order reads_str]]])
qed

lemma event_bridge_parameters_reads: "reads (event_bridge_parameters_from_py P S) (event_bridge_parameters_to_py)"
proof (rule readsI)
  show "event_bridge_parameters_to_py v \<noteq> PyNone" for v
    by (simp add: event_bridge_parameters_to_py_def)
  show "event_bridge_parameters_from_py P S (event_bridge_parameters_to_py v) = Inr v" for v
    by (cases v) (simp add: event_bridge_parameters_from_py_def event_bridge_parameters_to_py_def dict_ok py_dict_distinct event_bridge_parameters_built
        member_reads_given [OF reads_str])
qed

lemma flexible_time_window_reads: "reads (flexible_time_window_from_py P S) (flexible_time_window_to_py)"
proof (rule readsI)
  show "flexible_time_window_to_py v \<noteq> PyNone" for v
    by (simp add: flexible_time_window_to_py_def)
  show "flexible_time_window_from_py P S (flexible_time_window_to_py v) = Inr v" for v
    by (cases v) (simp add: flexible_time_window_from_py_def flexible_time_window_to_py_def dict_ok py_dict_distinct flexible_time_window_built
        member_reads_given [OF reads_enum]
        member_reads [OF reads_i32])
qed

lemma kinesis_parameters_reads: "reads (kinesis_parameters_from_py P S) (kinesis_parameters_to_py)"
proof (rule readsI)
  show "kinesis_parameters_to_py v \<noteq> PyNone" for v
    by (simp add: kinesis_parameters_to_py_def)
  show "kinesis_parameters_from_py P S (kinesis_parameters_to_py v) = Inr v" for v
    by (cases v) (simp add: kinesis_parameters_from_py_def kinesis_parameters_to_py_def dict_ok py_dict_distinct kinesis_parameters_built
        member_reads_given [OF reads_str])
qed

lemma retry_policy_reads: "reads (retry_policy_from_py P S) (retry_policy_to_py)"
proof (rule readsI)
  show "retry_policy_to_py v \<noteq> PyNone" for v
    by (simp add: retry_policy_to_py_def)
  show "retry_policy_from_py P S (retry_policy_to_py v) = Inr v" for v
    by (cases v) (simp add: retry_policy_from_py_def retry_policy_to_py_def dict_ok py_dict_distinct retry_policy_built
        member_reads [OF reads_i32])
qed

lemma sage_maker_pipeline_parameter_reads: "reads (sage_maker_pipeline_parameter_from_py P S) (sage_maker_pipeline_parameter_to_py)"
proof (rule readsI)
  show "sage_maker_pipeline_parameter_to_py v \<noteq> PyNone" for v
    by (simp add: sage_maker_pipeline_parameter_to_py_def)
  show "sage_maker_pipeline_parameter_from_py P S (sage_maker_pipeline_parameter_to_py v) = Inr v" for v
    by (cases v) (simp add: sage_maker_pipeline_parameter_from_py_def sage_maker_pipeline_parameter_to_py_def dict_ok py_dict_distinct sage_maker_pipeline_parameter_built
        member_reads_given [OF reads_str])
qed

lemma sage_maker_pipeline_parameters_reads: "reads (sage_maker_pipeline_parameters_from_py P S) (sage_maker_pipeline_parameters_to_py)"
proof (rule readsI)
  show "sage_maker_pipeline_parameters_to_py v \<noteq> PyNone" for v
    by (simp add: sage_maker_pipeline_parameters_to_py_def)
  show "sage_maker_pipeline_parameters_from_py P S (sage_maker_pipeline_parameters_to_py v) = Inr v" for v
    by (cases v) (simp add: sage_maker_pipeline_parameters_from_py_def sage_maker_pipeline_parameters_to_py_def dict_ok py_dict_distinct sage_maker_pipeline_parameters_built
        member_reads [OF reads_seq [OF sage_maker_pipeline_parameter_reads]])
qed

lemma target_summary_reads: "reads (target_summary_from_py P S) (target_summary_to_py)"
proof (rule readsI)
  show "target_summary_to_py v \<noteq> PyNone" for v
    by (simp add: target_summary_to_py_def)
  show "target_summary_from_py P S (target_summary_to_py v) = Inr v" for v
    by (cases v) (simp add: target_summary_from_py_def target_summary_to_py_def dict_ok py_dict_distinct target_summary_built
        member_reads_given [OF reads_str])
qed

lemma sqs_parameters_reads: "reads (sqs_parameters_from_py P S) (sqs_parameters_to_py)"
proof (rule readsI)
  show "sqs_parameters_to_py v \<noteq> PyNone" for v
    by (simp add: sqs_parameters_to_py_def)
  show "sqs_parameters_from_py P S (sqs_parameters_to_py v) = Inr v" for v
    by (cases v) (simp add: sqs_parameters_from_py_def sqs_parameters_to_py_def dict_ok py_dict_distinct sqs_parameters_built
        member_reads [OF reads_str])
qed

lemma scheduler_tag_reads: "reads (scheduler_tag_from_py P S) (scheduler_tag_to_py)"
proof (rule readsI)
  show "scheduler_tag_to_py v \<noteq> PyNone" for v
    by (simp add: scheduler_tag_to_py_def)
  show "scheduler_tag_from_py P S (scheduler_tag_to_py v) = Inr v" for v
    by (cases v) (simp add: scheduler_tag_from_py_def scheduler_tag_to_py_def dict_ok py_dict_distinct scheduler_tag_built
        member_reads_given [OF reads_str])
qed

lemma target_reads: "reads (target_from_py P S) (target_to_py order)"
proof (rule readsI)
  show "target_to_py order v \<noteq> PyNone" for v
    by (simp add: target_to_py_def)
  show "target_from_py P S (target_to_py order v) = Inr v" for v
    by (cases v) (simp add: target_from_py_def target_to_py_def dict_ok py_dict_distinct target_built
        member_reads_given [OF reads_str]
        member_reads [OF dead_letter_config_reads]
        member_reads [OF retry_policy_reads]
        member_reads [OF reads_str]
        member_reads [OF ecs_parameters_reads]
        member_reads [OF event_bridge_parameters_reads]
        member_reads [OF kinesis_parameters_reads]
        member_reads [OF sage_maker_pipeline_parameters_reads]
        member_reads [OF sqs_parameters_reads])
qed

end

interpretation std_scheduler_conv: scheduler_conversions pyo3_std scheduler_std by_key
  by (intro scheduler_conversions.intro scheduler_conversions_axioms.intro std.pyo3_laws_axioms std_scheduler.scheduler_types_laws_axioms iterates_by_key)

end
