(* ===== verification/SchedulerOutputs.thy ===== *)
theory SchedulerOutputs
  imports SchedulerTypes
begin

text \<open>
  The response objects of the EventBridge Scheduler extension, from \<open>crates/rboto-scheduler/src/generated.rs\<close>: per class, the
  fields it holds, its getters in order, and \<open>to_dict\<close>. A getter of structures gives objects that
  share them (\<open>Arc::clone\<close>), one per structure of a list or mapping; every other getter gives a
  plain value, and an absent one is \<open>None\<close>. Integers whose width the code does not show are \<open>int\<close>.
\<close>

section \<open>Attributes\<close>

datatype scheduler_object =
    SchedulerAwsVpcConfiguration aws_vpc_configuration
  | SchedulerCapacityProviderStrategyItem capacity_provider_strategy_item
  | SchedulerDeadLetterConfig dead_letter_config
  | SchedulerEcsParameters ecs_parameters
  | SchedulerEventBridgeParameters event_bridge_parameters
  | SchedulerFlexibleTimeWindow flexible_time_window
  | SchedulerKinesisParameters kinesis_parameters
  | SchedulerNetworkConfiguration network_configuration
  | SchedulerPlacementConstraint placement_constraint
  | SchedulerPlacementStrategy placement_strategy
  | SchedulerRetryPolicy retry_policy
  | SchedulerSageMakerPipelineParameter sage_maker_pipeline_parameter
  | SchedulerSageMakerPipelineParameters sage_maker_pipeline_parameters
  | SchedulerScheduleGroupSummary schedule_group_summary
  | SchedulerScheduleSummary schedule_summary
  | SchedulerSqsParameters sqs_parameters
  | SchedulerTag scheduler_tag
  | SchedulerTarget target
  | SchedulerTargetSummary target_summary

datatype scheduler_attr =
    SchedulerPlain pyval
  | SchedulerObject scheduler_object
  | SchedulerObjects "scheduler_object list"
  | SchedulerObjectMap "(string, scheduler_object) fmap"

definition scheduler_opt_attr :: "('a \<Rightarrow> scheduler_attr) \<Rightarrow> 'a option \<Rightarrow> scheduler_attr" where
  "scheduler_opt_attr f v = (case v of None \<Rightarrow> SchedulerPlain PyNone | Some x \<Rightarrow> f x)"

section \<open>\<open>AwsVpcConfiguration\<close>\<close>

definition aws_vpc_configuration_attributes :: "((string, pyval) fmap \<Rightarrow> (string \<times> pyval) list) \<Rightarrow> scheduler_types \<Rightarrow> aws_vpc_configuration \<Rightarrow> (string \<times> scheduler_attr) list" where
  "aws_vpc_configuration_attributes order S v =
     [(''subnets'', SchedulerPlain (seq_to_py PyStr (havc_subnets v))),
      (''security_groups'', SchedulerPlain (opt_to_py (seq_to_py PyStr) (havc_security_groups v))),
      (''assign_public_ip'', SchedulerPlain (opt_to_py PyStr (havc_assign_public_ip v)))]"

definition aws_vpc_configuration_to_dict :: "((string, pyval) fmap \<Rightarrow> (string \<times> pyval) list) \<Rightarrow> scheduler_types \<Rightarrow> aws_vpc_configuration \<Rightarrow> pyval" where
  "aws_vpc_configuration_to_dict order S v = aws_vpc_configuration_to_py v"

section \<open>\<open>CapacityProviderStrategyItem\<close>\<close>

definition capacity_provider_strategy_item_attributes :: "((string, pyval) fmap \<Rightarrow> (string \<times> pyval) list) \<Rightarrow> scheduler_types \<Rightarrow> capacity_provider_strategy_item \<Rightarrow> (string \<times> scheduler_attr) list" where
  "capacity_provider_strategy_item_attributes order S v =
     [(''capacity_provider'', SchedulerPlain (PyStr (hcpsi_capacity_provider v))),
      (''weight'', SchedulerPlain (i32_to_py (hcpsi_weight v))),
      (''base'', SchedulerPlain (i32_to_py (hcpsi_base v)))]"

definition capacity_provider_strategy_item_to_dict :: "((string, pyval) fmap \<Rightarrow> (string \<times> pyval) list) \<Rightarrow> scheduler_types \<Rightarrow> capacity_provider_strategy_item \<Rightarrow> pyval" where
  "capacity_provider_strategy_item_to_dict order S v = capacity_provider_strategy_item_to_py v"

section \<open>\<open>DeadLetterConfig\<close>\<close>

definition dead_letter_config_attributes :: "((string, pyval) fmap \<Rightarrow> (string \<times> pyval) list) \<Rightarrow> scheduler_types \<Rightarrow> dead_letter_config \<Rightarrow> (string \<times> scheduler_attr) list" where
  "dead_letter_config_attributes order S v =
     [(''arn'', SchedulerPlain (opt_to_py PyStr (hdlc_arn v)))]"

definition dead_letter_config_to_dict :: "((string, pyval) fmap \<Rightarrow> (string \<times> pyval) list) \<Rightarrow> scheduler_types \<Rightarrow> dead_letter_config \<Rightarrow> pyval" where
  "dead_letter_config_to_dict order S v = dead_letter_config_to_py v"

section \<open>\<open>EcsParameters\<close>\<close>

definition ecs_parameters_attributes :: "((string, pyval) fmap \<Rightarrow> (string \<times> pyval) list) \<Rightarrow> scheduler_types \<Rightarrow> ecs_parameters \<Rightarrow> (string \<times> scheduler_attr) list" where
  "ecs_parameters_attributes order S v =
     [(''task_definition_arn'', SchedulerPlain (PyStr (hep_task_definition_arn v))),
      (''task_count'', SchedulerPlain (opt_to_py i32_to_py (hep_task_count v))),
      (''launch_type'', SchedulerPlain (opt_to_py PyStr (hep_launch_type v))),
      (''network_configuration'', scheduler_opt_attr (\<lambda>x. SchedulerObject (SchedulerNetworkConfiguration x)) (hep_network_configuration v)),
      (''platform_version'', SchedulerPlain (opt_to_py PyStr (hep_platform_version v))),
      (''group'', SchedulerPlain (opt_to_py PyStr (hep_group v))),
      (''capacity_provider_strategy'', scheduler_opt_attr (\<lambda>xs. SchedulerObjects (map SchedulerCapacityProviderStrategyItem xs)) (hep_capacity_provider_strategy v)),
      (''enable_ecs_managed_tags'', SchedulerPlain (opt_to_py PyBool (hep_enable_ecs_managed_tags v))),
      (''enable_execute_command'', SchedulerPlain (opt_to_py PyBool (hep_enable_execute_command v))),
      (''placement_constraints'', scheduler_opt_attr (\<lambda>xs. SchedulerObjects (map SchedulerPlacementConstraint xs)) (hep_placement_constraints v)),
      (''placement_strategy'', scheduler_opt_attr (\<lambda>xs. SchedulerObjects (map SchedulerPlacementStrategy xs)) (hep_placement_strategy v)),
      (''propagate_tags'', SchedulerPlain (opt_to_py PyStr (hep_propagate_tags v))),
      (''reference_id'', SchedulerPlain (opt_to_py PyStr (hep_reference_id v))),
      (''tags'', SchedulerPlain (opt_to_py (seq_to_py (mapping_to_py order PyStr)) (hep_tags v)))]"

definition ecs_parameters_to_dict :: "((string, pyval) fmap \<Rightarrow> (string \<times> pyval) list) \<Rightarrow> scheduler_types \<Rightarrow> ecs_parameters \<Rightarrow> pyval" where
  "ecs_parameters_to_dict order S v = ecs_parameters_to_py order v"

section \<open>\<open>EventBridgeParameters\<close>\<close>

definition event_bridge_parameters_attributes :: "((string, pyval) fmap \<Rightarrow> (string \<times> pyval) list) \<Rightarrow> scheduler_types \<Rightarrow> event_bridge_parameters \<Rightarrow> (string \<times> scheduler_attr) list" where
  "event_bridge_parameters_attributes order S v =
     [(''detail_type'', SchedulerPlain (PyStr (hebp_detail_type v))),
      (''source'', SchedulerPlain (PyStr (hebp_source v)))]"

definition event_bridge_parameters_to_dict :: "((string, pyval) fmap \<Rightarrow> (string \<times> pyval) list) \<Rightarrow> scheduler_types \<Rightarrow> event_bridge_parameters \<Rightarrow> pyval" where
  "event_bridge_parameters_to_dict order S v = event_bridge_parameters_to_py v"

section \<open>\<open>FlexibleTimeWindow\<close>\<close>

definition flexible_time_window_attributes :: "((string, pyval) fmap \<Rightarrow> (string \<times> pyval) list) \<Rightarrow> scheduler_types \<Rightarrow> flexible_time_window \<Rightarrow> (string \<times> scheduler_attr) list" where
  "flexible_time_window_attributes order S v =
     [(''mode'', SchedulerPlain (PyStr (hftw_mode v))),
      (''maximum_window_in_minutes'', SchedulerPlain (opt_to_py i32_to_py (hftw_maximum_window_in_minutes v)))]"

definition flexible_time_window_to_dict :: "((string, pyval) fmap \<Rightarrow> (string \<times> pyval) list) \<Rightarrow> scheduler_types \<Rightarrow> flexible_time_window \<Rightarrow> pyval" where
  "flexible_time_window_to_dict order S v = flexible_time_window_to_py v"

section \<open>\<open>KinesisParameters\<close>\<close>

definition kinesis_parameters_attributes :: "((string, pyval) fmap \<Rightarrow> (string \<times> pyval) list) \<Rightarrow> scheduler_types \<Rightarrow> kinesis_parameters \<Rightarrow> (string \<times> scheduler_attr) list" where
  "kinesis_parameters_attributes order S v =
     [(''partition_key'', SchedulerPlain (PyStr (hkp_partition_key v)))]"

definition kinesis_parameters_to_dict :: "((string, pyval) fmap \<Rightarrow> (string \<times> pyval) list) \<Rightarrow> scheduler_types \<Rightarrow> kinesis_parameters \<Rightarrow> pyval" where
  "kinesis_parameters_to_dict order S v = kinesis_parameters_to_py v"

section \<open>\<open>NetworkConfiguration\<close>\<close>

definition network_configuration_attributes :: "((string, pyval) fmap \<Rightarrow> (string \<times> pyval) list) \<Rightarrow> scheduler_types \<Rightarrow> network_configuration \<Rightarrow> (string \<times> scheduler_attr) list" where
  "network_configuration_attributes order S v =
     [(''awsvpc_configuration'', scheduler_opt_attr (\<lambda>x. SchedulerObject (SchedulerAwsVpcConfiguration x)) (hnc_awsvpc_configuration v))]"

definition network_configuration_to_dict :: "((string, pyval) fmap \<Rightarrow> (string \<times> pyval) list) \<Rightarrow> scheduler_types \<Rightarrow> network_configuration \<Rightarrow> pyval" where
  "network_configuration_to_dict order S v = network_configuration_to_py v"

section \<open>\<open>PlacementConstraint\<close>\<close>

definition placement_constraint_attributes :: "((string, pyval) fmap \<Rightarrow> (string \<times> pyval) list) \<Rightarrow> scheduler_types \<Rightarrow> placement_constraint \<Rightarrow> (string \<times> scheduler_attr) list" where
  "placement_constraint_attributes order S v =
     [(''type'', SchedulerPlain (opt_to_py PyStr (hpc_type v))),
      (''expression'', SchedulerPlain (opt_to_py PyStr (hpc_expression v)))]"

definition placement_constraint_to_dict :: "((string, pyval) fmap \<Rightarrow> (string \<times> pyval) list) \<Rightarrow> scheduler_types \<Rightarrow> placement_constraint \<Rightarrow> pyval" where
  "placement_constraint_to_dict order S v = placement_constraint_to_py v"

section \<open>\<open>PlacementStrategy\<close>\<close>

definition placement_strategy_attributes :: "((string, pyval) fmap \<Rightarrow> (string \<times> pyval) list) \<Rightarrow> scheduler_types \<Rightarrow> placement_strategy \<Rightarrow> (string \<times> scheduler_attr) list" where
  "placement_strategy_attributes order S v =
     [(''type'', SchedulerPlain (opt_to_py PyStr (hps_type v))),
      (''field'', SchedulerPlain (opt_to_py PyStr (hps_field v)))]"

definition placement_strategy_to_dict :: "((string, pyval) fmap \<Rightarrow> (string \<times> pyval) list) \<Rightarrow> scheduler_types \<Rightarrow> placement_strategy \<Rightarrow> pyval" where
  "placement_strategy_to_dict order S v = placement_strategy_to_py v"

section \<open>\<open>RetryPolicy\<close>\<close>

definition retry_policy_attributes :: "((string, pyval) fmap \<Rightarrow> (string \<times> pyval) list) \<Rightarrow> scheduler_types \<Rightarrow> retry_policy \<Rightarrow> (string \<times> scheduler_attr) list" where
  "retry_policy_attributes order S v =
     [(''maximum_event_age_in_seconds'', SchedulerPlain (opt_to_py i32_to_py (hrp_maximum_event_age_in_seconds v))),
      (''maximum_retry_attempts'', SchedulerPlain (opt_to_py i32_to_py (hrp_maximum_retry_attempts v)))]"

definition retry_policy_to_dict :: "((string, pyval) fmap \<Rightarrow> (string \<times> pyval) list) \<Rightarrow> scheduler_types \<Rightarrow> retry_policy \<Rightarrow> pyval" where
  "retry_policy_to_dict order S v = retry_policy_to_py v"

section \<open>\<open>SageMakerPipelineParameter\<close>\<close>

definition sage_maker_pipeline_parameter_attributes :: "((string, pyval) fmap \<Rightarrow> (string \<times> pyval) list) \<Rightarrow> scheduler_types \<Rightarrow> sage_maker_pipeline_parameter \<Rightarrow> (string \<times> scheduler_attr) list" where
  "sage_maker_pipeline_parameter_attributes order S v =
     [(''name'', SchedulerPlain (PyStr (hsmpp_name v))),
      (''value'', SchedulerPlain (PyStr (hsmpp_value v)))]"

definition sage_maker_pipeline_parameter_to_dict :: "((string, pyval) fmap \<Rightarrow> (string \<times> pyval) list) \<Rightarrow> scheduler_types \<Rightarrow> sage_maker_pipeline_parameter \<Rightarrow> pyval" where
  "sage_maker_pipeline_parameter_to_dict order S v = sage_maker_pipeline_parameter_to_py v"

section \<open>\<open>SageMakerPipelineParameters\<close>\<close>

definition sage_maker_pipeline_parameters_attributes :: "((string, pyval) fmap \<Rightarrow> (string \<times> pyval) list) \<Rightarrow> scheduler_types \<Rightarrow> sage_maker_pipeline_parameters \<Rightarrow> (string \<times> scheduler_attr) list" where
  "sage_maker_pipeline_parameters_attributes order S v =
     [(''pipeline_parameter_list'', scheduler_opt_attr (\<lambda>xs. SchedulerObjects (map SchedulerSageMakerPipelineParameter xs)) (hsmpp2_pipeline_parameter_list v))]"

definition sage_maker_pipeline_parameters_to_dict :: "((string, pyval) fmap \<Rightarrow> (string \<times> pyval) list) \<Rightarrow> scheduler_types \<Rightarrow> sage_maker_pipeline_parameters \<Rightarrow> pyval" where
  "sage_maker_pipeline_parameters_to_dict order S v = sage_maker_pipeline_parameters_to_py v"

section \<open>\<open>ScheduleGroupSummary\<close>\<close>

definition schedule_group_summary_attributes :: "((string, pyval) fmap \<Rightarrow> (string \<times> pyval) list) \<Rightarrow> scheduler_types \<Rightarrow> schedule_group_summary \<Rightarrow> (string \<times> scheduler_attr) list" where
  "schedule_group_summary_attributes order S v =
     [(''arn'', SchedulerPlain (opt_to_py PyStr (hsgs_arn v))),
      (''name'', SchedulerPlain (opt_to_py PyStr (hsgs_name v))),
      (''state'', SchedulerPlain (opt_to_py PyStr (hsgs_state v))),
      (''creation_date'', SchedulerPlain (opt_to_py (datetime_to_py S) (hsgs_creation_date v))),
      (''last_modification_date'', SchedulerPlain (opt_to_py (datetime_to_py S) (hsgs_last_modification_date v)))]"

definition schedule_group_summary_to_dict :: "((string, pyval) fmap \<Rightarrow> (string \<times> pyval) list) \<Rightarrow> scheduler_types \<Rightarrow> schedule_group_summary \<Rightarrow> pyval" where
  "schedule_group_summary_to_dict order S v = schedule_group_summary_to_py S v"

section \<open>\<open>ScheduleSummary\<close>\<close>

definition schedule_summary_attributes :: "((string, pyval) fmap \<Rightarrow> (string \<times> pyval) list) \<Rightarrow> scheduler_types \<Rightarrow> schedule_summary \<Rightarrow> (string \<times> scheduler_attr) list" where
  "schedule_summary_attributes order S v =
     [(''arn'', SchedulerPlain (opt_to_py PyStr (hss_arn v))),
      (''name'', SchedulerPlain (opt_to_py PyStr (hss_name v))),
      (''group_name'', SchedulerPlain (opt_to_py PyStr (hss_group_name v))),
      (''state'', SchedulerPlain (opt_to_py PyStr (hss_state v))),
      (''creation_date'', SchedulerPlain (opt_to_py (datetime_to_py S) (hss_creation_date v))),
      (''last_modification_date'', SchedulerPlain (opt_to_py (datetime_to_py S) (hss_last_modification_date v))),
      (''target'', scheduler_opt_attr (\<lambda>x. SchedulerObject (SchedulerTargetSummary x)) (hss_target v))]"

definition schedule_summary_to_dict :: "((string, pyval) fmap \<Rightarrow> (string \<times> pyval) list) \<Rightarrow> scheduler_types \<Rightarrow> schedule_summary \<Rightarrow> pyval" where
  "schedule_summary_to_dict order S v = schedule_summary_to_py S v"

section \<open>\<open>SqsParameters\<close>\<close>

definition sqs_parameters_attributes :: "((string, pyval) fmap \<Rightarrow> (string \<times> pyval) list) \<Rightarrow> scheduler_types \<Rightarrow> sqs_parameters \<Rightarrow> (string \<times> scheduler_attr) list" where
  "sqs_parameters_attributes order S v =
     [(''message_group_id'', SchedulerPlain (opt_to_py PyStr (hsp_message_group_id v)))]"

definition sqs_parameters_to_dict :: "((string, pyval) fmap \<Rightarrow> (string \<times> pyval) list) \<Rightarrow> scheduler_types \<Rightarrow> sqs_parameters \<Rightarrow> pyval" where
  "sqs_parameters_to_dict order S v = sqs_parameters_to_py v"

section \<open>\<open>Tag\<close>\<close>

definition scheduler_tag_attributes :: "((string, pyval) fmap \<Rightarrow> (string \<times> pyval) list) \<Rightarrow> scheduler_types \<Rightarrow> scheduler_tag \<Rightarrow> (string \<times> scheduler_attr) list" where
  "scheduler_tag_attributes order S v =
     [(''key'', SchedulerPlain (PyStr (ht_key v))),
      (''value'', SchedulerPlain (PyStr (ht_value v)))]"

definition scheduler_tag_to_dict :: "((string, pyval) fmap \<Rightarrow> (string \<times> pyval) list) \<Rightarrow> scheduler_types \<Rightarrow> scheduler_tag \<Rightarrow> pyval" where
  "scheduler_tag_to_dict order S v = scheduler_tag_to_py v"

section \<open>\<open>Target\<close>\<close>

definition target_attributes :: "((string, pyval) fmap \<Rightarrow> (string \<times> pyval) list) \<Rightarrow> scheduler_types \<Rightarrow> target \<Rightarrow> (string \<times> scheduler_attr) list" where
  "target_attributes order S v =
     [(''arn'', SchedulerPlain (PyStr (ht2_arn v))),
      (''role_arn'', SchedulerPlain (PyStr (ht2_role_arn v))),
      (''dead_letter_config'', scheduler_opt_attr (\<lambda>x. SchedulerObject (SchedulerDeadLetterConfig x)) (ht2_dead_letter_config v)),
      (''retry_policy'', scheduler_opt_attr (\<lambda>x. SchedulerObject (SchedulerRetryPolicy x)) (ht2_retry_policy v)),
      (''input'', SchedulerPlain (opt_to_py PyStr (ht2_input v))),
      (''ecs_parameters'', scheduler_opt_attr (\<lambda>x. SchedulerObject (SchedulerEcsParameters x)) (ht2_ecs_parameters v)),
      (''event_bridge_parameters'', scheduler_opt_attr (\<lambda>x. SchedulerObject (SchedulerEventBridgeParameters x)) (ht2_event_bridge_parameters v)),
      (''kinesis_parameters'', scheduler_opt_attr (\<lambda>x. SchedulerObject (SchedulerKinesisParameters x)) (ht2_kinesis_parameters v)),
      (''sage_maker_pipeline_parameters'', scheduler_opt_attr (\<lambda>x. SchedulerObject (SchedulerSageMakerPipelineParameters x)) (ht2_sage_maker_pipeline_parameters v)),
      (''sqs_parameters'', scheduler_opt_attr (\<lambda>x. SchedulerObject (SchedulerSqsParameters x)) (ht2_sqs_parameters v))]"

definition target_to_dict :: "((string, pyval) fmap \<Rightarrow> (string \<times> pyval) list) \<Rightarrow> scheduler_types \<Rightarrow> target \<Rightarrow> pyval" where
  "target_to_dict order S v = target_to_py order v"

section \<open>\<open>TargetSummary\<close>\<close>

definition target_summary_attributes :: "((string, pyval) fmap \<Rightarrow> (string \<times> pyval) list) \<Rightarrow> scheduler_types \<Rightarrow> target_summary \<Rightarrow> (string \<times> scheduler_attr) list" where
  "target_summary_attributes order S v =
     [(''arn'', SchedulerPlain (PyStr (hts_arn v)))]"

definition target_summary_to_dict :: "((string, pyval) fmap \<Rightarrow> (string \<times> pyval) list) \<Rightarrow> scheduler_types \<Rightarrow> target_summary \<Rightarrow> pyval" where
  "target_summary_to_dict order S v = target_summary_to_py v"

section \<open>\<open>CreateScheduleOutput\<close>\<close>

record create_schedule_output =
  hcso_schedule_arn :: string

definition create_schedule_output_attributes :: "((string, pyval) fmap \<Rightarrow> (string \<times> pyval) list) \<Rightarrow> scheduler_types \<Rightarrow> create_schedule_output \<Rightarrow> (string \<times> scheduler_attr) list" where
  "create_schedule_output_attributes order S v =
     [(''schedule_arn'', SchedulerPlain (PyStr (hcso_schedule_arn v)))]"

definition create_schedule_output_to_dict :: "((string, pyval) fmap \<Rightarrow> (string \<times> pyval) list) \<Rightarrow> scheduler_types \<Rightarrow> create_schedule_output \<Rightarrow> pyval" where
  "create_schedule_output_to_dict order S v = PyDict (py_dict
     [(''schedule_arn'', PyStr (hcso_schedule_arn v))])"

section \<open>\<open>CreateScheduleGroupOutput\<close>\<close>

record create_schedule_group_output =
  hcsgo_schedule_group_arn :: string

definition create_schedule_group_output_attributes :: "((string, pyval) fmap \<Rightarrow> (string \<times> pyval) list) \<Rightarrow> scheduler_types \<Rightarrow> create_schedule_group_output \<Rightarrow> (string \<times> scheduler_attr) list" where
  "create_schedule_group_output_attributes order S v =
     [(''schedule_group_arn'', SchedulerPlain (PyStr (hcsgo_schedule_group_arn v)))]"

definition create_schedule_group_output_to_dict :: "((string, pyval) fmap \<Rightarrow> (string \<times> pyval) list) \<Rightarrow> scheduler_types \<Rightarrow> create_schedule_group_output \<Rightarrow> pyval" where
  "create_schedule_group_output_to_dict order S v = PyDict (py_dict
     [(''schedule_group_arn'', PyStr (hcsgo_schedule_group_arn v))])"

section \<open>\<open>DeleteScheduleOutput\<close>\<close>

datatype delete_schedule_output = DeleteScheduleOutput

definition delete_schedule_output_attributes :: "((string, pyval) fmap \<Rightarrow> (string \<times> pyval) list) \<Rightarrow> scheduler_types \<Rightarrow> delete_schedule_output \<Rightarrow> (string \<times> scheduler_attr) list" where
  "delete_schedule_output_attributes order S v = []"

definition delete_schedule_output_to_dict :: "((string, pyval) fmap \<Rightarrow> (string \<times> pyval) list) \<Rightarrow> scheduler_types \<Rightarrow> delete_schedule_output \<Rightarrow> pyval" where
  "delete_schedule_output_to_dict order S v = PyDict (py_dict [])"

section \<open>\<open>DeleteScheduleGroupOutput\<close>\<close>

datatype delete_schedule_group_output = DeleteScheduleGroupOutput

definition delete_schedule_group_output_attributes :: "((string, pyval) fmap \<Rightarrow> (string \<times> pyval) list) \<Rightarrow> scheduler_types \<Rightarrow> delete_schedule_group_output \<Rightarrow> (string \<times> scheduler_attr) list" where
  "delete_schedule_group_output_attributes order S v = []"

definition delete_schedule_group_output_to_dict :: "((string, pyval) fmap \<Rightarrow> (string \<times> pyval) list) \<Rightarrow> scheduler_types \<Rightarrow> delete_schedule_group_output \<Rightarrow> pyval" where
  "delete_schedule_group_output_to_dict order S v = PyDict (py_dict [])"

section \<open>\<open>GetScheduleOutput\<close>\<close>

record get_schedule_output =
  hgso_arn :: "string option"
  hgso_group_name :: "string option"
  hgso_name :: "string option"
  hgso_schedule_expression :: "string option"
  hgso_start_date :: "datetime option"
  hgso_end_date :: "datetime option"
  hgso_description :: "string option"
  hgso_schedule_expression_timezone :: "string option"
  hgso_state :: "string option"
  hgso_creation_date :: "datetime option"
  hgso_last_modification_date :: "datetime option"
  hgso_kms_key_arn :: "string option"
  hgso_target :: "target option"
  hgso_flexible_time_window :: "flexible_time_window option"
  hgso_action_after_completion :: "string option"

definition get_schedule_output_attributes :: "((string, pyval) fmap \<Rightarrow> (string \<times> pyval) list) \<Rightarrow> scheduler_types \<Rightarrow> get_schedule_output \<Rightarrow> (string \<times> scheduler_attr) list" where
  "get_schedule_output_attributes order S v =
     [(''arn'', SchedulerPlain (opt_to_py PyStr (hgso_arn v))),
      (''group_name'', SchedulerPlain (opt_to_py PyStr (hgso_group_name v))),
      (''name'', SchedulerPlain (opt_to_py PyStr (hgso_name v))),
      (''schedule_expression'', SchedulerPlain (opt_to_py PyStr (hgso_schedule_expression v))),
      (''start_date'', SchedulerPlain (opt_to_py (datetime_to_py S) (hgso_start_date v))),
      (''end_date'', SchedulerPlain (opt_to_py (datetime_to_py S) (hgso_end_date v))),
      (''description'', SchedulerPlain (opt_to_py PyStr (hgso_description v))),
      (''schedule_expression_timezone'', SchedulerPlain (opt_to_py PyStr (hgso_schedule_expression_timezone v))),
      (''state'', SchedulerPlain (opt_to_py PyStr (hgso_state v))),
      (''creation_date'', SchedulerPlain (opt_to_py (datetime_to_py S) (hgso_creation_date v))),
      (''last_modification_date'', SchedulerPlain (opt_to_py (datetime_to_py S) (hgso_last_modification_date v))),
      (''kms_key_arn'', SchedulerPlain (opt_to_py PyStr (hgso_kms_key_arn v))),
      (''target'', scheduler_opt_attr (\<lambda>x. SchedulerObject (SchedulerTarget x)) (hgso_target v)),
      (''flexible_time_window'', scheduler_opt_attr (\<lambda>x. SchedulerObject (SchedulerFlexibleTimeWindow x)) (hgso_flexible_time_window v)),
      (''action_after_completion'', SchedulerPlain (opt_to_py PyStr (hgso_action_after_completion v)))]"

definition get_schedule_output_to_dict :: "((string, pyval) fmap \<Rightarrow> (string \<times> pyval) list) \<Rightarrow> scheduler_types \<Rightarrow> get_schedule_output \<Rightarrow> pyval" where
  "get_schedule_output_to_dict order S v = PyDict (py_dict
     [(''arn'', opt_to_py PyStr (hgso_arn v)),
      (''group_name'', opt_to_py PyStr (hgso_group_name v)),
      (''name'', opt_to_py PyStr (hgso_name v)),
      (''schedule_expression'', opt_to_py PyStr (hgso_schedule_expression v)),
      (''start_date'', opt_to_py (datetime_to_py S) (hgso_start_date v)),
      (''end_date'', opt_to_py (datetime_to_py S) (hgso_end_date v)),
      (''description'', opt_to_py PyStr (hgso_description v)),
      (''schedule_expression_timezone'', opt_to_py PyStr (hgso_schedule_expression_timezone v)),
      (''state'', opt_to_py PyStr (hgso_state v)),
      (''creation_date'', opt_to_py (datetime_to_py S) (hgso_creation_date v)),
      (''last_modification_date'', opt_to_py (datetime_to_py S) (hgso_last_modification_date v)),
      (''kms_key_arn'', opt_to_py PyStr (hgso_kms_key_arn v)),
      (''target'', opt_to_py (target_to_py order) (hgso_target v)),
      (''flexible_time_window'', opt_to_py flexible_time_window_to_py (hgso_flexible_time_window v)),
      (''action_after_completion'', opt_to_py PyStr (hgso_action_after_completion v))])"

section \<open>\<open>GetScheduleGroupOutput\<close>\<close>

record get_schedule_group_output =
  hgsgo_arn :: "string option"
  hgsgo_name :: "string option"
  hgsgo_state :: "string option"
  hgsgo_creation_date :: "datetime option"
  hgsgo_last_modification_date :: "datetime option"

definition get_schedule_group_output_attributes :: "((string, pyval) fmap \<Rightarrow> (string \<times> pyval) list) \<Rightarrow> scheduler_types \<Rightarrow> get_schedule_group_output \<Rightarrow> (string \<times> scheduler_attr) list" where
  "get_schedule_group_output_attributes order S v =
     [(''arn'', SchedulerPlain (opt_to_py PyStr (hgsgo_arn v))),
      (''name'', SchedulerPlain (opt_to_py PyStr (hgsgo_name v))),
      (''state'', SchedulerPlain (opt_to_py PyStr (hgsgo_state v))),
      (''creation_date'', SchedulerPlain (opt_to_py (datetime_to_py S) (hgsgo_creation_date v))),
      (''last_modification_date'', SchedulerPlain (opt_to_py (datetime_to_py S) (hgsgo_last_modification_date v)))]"

definition get_schedule_group_output_to_dict :: "((string, pyval) fmap \<Rightarrow> (string \<times> pyval) list) \<Rightarrow> scheduler_types \<Rightarrow> get_schedule_group_output \<Rightarrow> pyval" where
  "get_schedule_group_output_to_dict order S v = PyDict (py_dict
     [(''arn'', opt_to_py PyStr (hgsgo_arn v)),
      (''name'', opt_to_py PyStr (hgsgo_name v)),
      (''state'', opt_to_py PyStr (hgsgo_state v)),
      (''creation_date'', opt_to_py (datetime_to_py S) (hgsgo_creation_date v)),
      (''last_modification_date'', opt_to_py (datetime_to_py S) (hgsgo_last_modification_date v))])"

section \<open>\<open>ListScheduleGroupsOutput\<close>\<close>

record list_schedule_groups_output =
  hlsgo_next_token :: "string option"
  hlsgo_schedule_groups :: "schedule_group_summary list"

definition list_schedule_groups_output_attributes :: "((string, pyval) fmap \<Rightarrow> (string \<times> pyval) list) \<Rightarrow> scheduler_types \<Rightarrow> list_schedule_groups_output \<Rightarrow> (string \<times> scheduler_attr) list" where
  "list_schedule_groups_output_attributes order S v =
     [(''next_token'', SchedulerPlain (opt_to_py PyStr (hlsgo_next_token v))),
      (''schedule_groups'', SchedulerObjects (map SchedulerScheduleGroupSummary (hlsgo_schedule_groups v)))]"

definition list_schedule_groups_output_to_dict :: "((string, pyval) fmap \<Rightarrow> (string \<times> pyval) list) \<Rightarrow> scheduler_types \<Rightarrow> list_schedule_groups_output \<Rightarrow> pyval" where
  "list_schedule_groups_output_to_dict order S v = PyDict (py_dict
     [(''next_token'', opt_to_py PyStr (hlsgo_next_token v)),
      (''schedule_groups'', seq_to_py (schedule_group_summary_to_py S) (hlsgo_schedule_groups v))])"

section \<open>\<open>ListSchedulesOutput\<close>\<close>

record list_schedules_output =
  hlso_next_token :: "string option"
  hlso_schedules :: "schedule_summary list"

definition list_schedules_output_attributes :: "((string, pyval) fmap \<Rightarrow> (string \<times> pyval) list) \<Rightarrow> scheduler_types \<Rightarrow> list_schedules_output \<Rightarrow> (string \<times> scheduler_attr) list" where
  "list_schedules_output_attributes order S v =
     [(''next_token'', SchedulerPlain (opt_to_py PyStr (hlso_next_token v))),
      (''schedules'', SchedulerObjects (map SchedulerScheduleSummary (hlso_schedules v)))]"

definition list_schedules_output_to_dict :: "((string, pyval) fmap \<Rightarrow> (string \<times> pyval) list) \<Rightarrow> scheduler_types \<Rightarrow> list_schedules_output \<Rightarrow> pyval" where
  "list_schedules_output_to_dict order S v = PyDict (py_dict
     [(''next_token'', opt_to_py PyStr (hlso_next_token v)),
      (''schedules'', seq_to_py (schedule_summary_to_py S) (hlso_schedules v))])"

section \<open>\<open>ListTagsForResourceOutput\<close>\<close>

record scheduler_list_tags_for_resource_output =
  hsltfro_tags :: "scheduler_tag list option"

definition scheduler_list_tags_for_resource_output_attributes :: "((string, pyval) fmap \<Rightarrow> (string \<times> pyval) list) \<Rightarrow> scheduler_types \<Rightarrow> scheduler_list_tags_for_resource_output \<Rightarrow> (string \<times> scheduler_attr) list" where
  "scheduler_list_tags_for_resource_output_attributes order S v =
     [(''tags'', scheduler_opt_attr (\<lambda>xs. SchedulerObjects (map SchedulerTag xs)) (hsltfro_tags v))]"

definition scheduler_list_tags_for_resource_output_to_dict :: "((string, pyval) fmap \<Rightarrow> (string \<times> pyval) list) \<Rightarrow> scheduler_types \<Rightarrow> scheduler_list_tags_for_resource_output \<Rightarrow> pyval" where
  "scheduler_list_tags_for_resource_output_to_dict order S v = PyDict (py_dict
     [(''tags'', opt_to_py (seq_to_py scheduler_tag_to_py) (hsltfro_tags v))])"

section \<open>\<open>TagResourceOutput\<close>\<close>

datatype scheduler_tag_resource_output = SchedulerTagResourceOutput

definition scheduler_tag_resource_output_attributes :: "((string, pyval) fmap \<Rightarrow> (string \<times> pyval) list) \<Rightarrow> scheduler_types \<Rightarrow> scheduler_tag_resource_output \<Rightarrow> (string \<times> scheduler_attr) list" where
  "scheduler_tag_resource_output_attributes order S v = []"

definition scheduler_tag_resource_output_to_dict :: "((string, pyval) fmap \<Rightarrow> (string \<times> pyval) list) \<Rightarrow> scheduler_types \<Rightarrow> scheduler_tag_resource_output \<Rightarrow> pyval" where
  "scheduler_tag_resource_output_to_dict order S v = PyDict (py_dict [])"

section \<open>\<open>UntagResourceOutput\<close>\<close>

datatype scheduler_untag_resource_output = SchedulerUntagResourceOutput

definition scheduler_untag_resource_output_attributes :: "((string, pyval) fmap \<Rightarrow> (string \<times> pyval) list) \<Rightarrow> scheduler_types \<Rightarrow> scheduler_untag_resource_output \<Rightarrow> (string \<times> scheduler_attr) list" where
  "scheduler_untag_resource_output_attributes order S v = []"

definition scheduler_untag_resource_output_to_dict :: "((string, pyval) fmap \<Rightarrow> (string \<times> pyval) list) \<Rightarrow> scheduler_types \<Rightarrow> scheduler_untag_resource_output \<Rightarrow> pyval" where
  "scheduler_untag_resource_output_to_dict order S v = PyDict (py_dict [])"

section \<open>\<open>UpdateScheduleOutput\<close>\<close>

record update_schedule_output =
  huso_schedule_arn :: string

definition update_schedule_output_attributes :: "((string, pyval) fmap \<Rightarrow> (string \<times> pyval) list) \<Rightarrow> scheduler_types \<Rightarrow> update_schedule_output \<Rightarrow> (string \<times> scheduler_attr) list" where
  "update_schedule_output_attributes order S v =
     [(''schedule_arn'', SchedulerPlain (PyStr (huso_schedule_arn v)))]"

definition update_schedule_output_to_dict :: "((string, pyval) fmap \<Rightarrow> (string \<times> pyval) list) \<Rightarrow> scheduler_types \<Rightarrow> update_schedule_output \<Rightarrow> pyval" where
  "update_schedule_output_to_dict order S v = PyDict (py_dict
     [(''schedule_arn'', PyStr (huso_schedule_arn v))])"

section \<open>Dictionaries and attributes agree\<close>

text \<open>The plain value of an object is what its own \<open>to_dict\<close> gives.\<close>

fun scheduler_render_object :: "((string, pyval) fmap \<Rightarrow> (string \<times> pyval) list) \<Rightarrow> scheduler_types \<Rightarrow> scheduler_object \<Rightarrow> pyval" where
  "scheduler_render_object order S (SchedulerAwsVpcConfiguration v) = aws_vpc_configuration_to_dict order S v"
| "scheduler_render_object order S (SchedulerCapacityProviderStrategyItem v) = capacity_provider_strategy_item_to_dict order S v"
| "scheduler_render_object order S (SchedulerDeadLetterConfig v) = dead_letter_config_to_dict order S v"
| "scheduler_render_object order S (SchedulerEcsParameters v) = ecs_parameters_to_dict order S v"
| "scheduler_render_object order S (SchedulerEventBridgeParameters v) = event_bridge_parameters_to_dict order S v"
| "scheduler_render_object order S (SchedulerFlexibleTimeWindow v) = flexible_time_window_to_dict order S v"
| "scheduler_render_object order S (SchedulerKinesisParameters v) = kinesis_parameters_to_dict order S v"
| "scheduler_render_object order S (SchedulerNetworkConfiguration v) = network_configuration_to_dict order S v"
| "scheduler_render_object order S (SchedulerPlacementConstraint v) = placement_constraint_to_dict order S v"
| "scheduler_render_object order S (SchedulerPlacementStrategy v) = placement_strategy_to_dict order S v"
| "scheduler_render_object order S (SchedulerRetryPolicy v) = retry_policy_to_dict order S v"
| "scheduler_render_object order S (SchedulerSageMakerPipelineParameter v) = sage_maker_pipeline_parameter_to_dict order S v"
| "scheduler_render_object order S (SchedulerSageMakerPipelineParameters v) = sage_maker_pipeline_parameters_to_dict order S v"
| "scheduler_render_object order S (SchedulerScheduleGroupSummary v) = schedule_group_summary_to_dict order S v"
| "scheduler_render_object order S (SchedulerScheduleSummary v) = schedule_summary_to_dict order S v"
| "scheduler_render_object order S (SchedulerSqsParameters v) = sqs_parameters_to_dict order S v"
| "scheduler_render_object order S (SchedulerTag v) = scheduler_tag_to_dict order S v"
| "scheduler_render_object order S (SchedulerTarget v) = target_to_dict order S v"
| "scheduler_render_object order S (SchedulerTargetSummary v) = target_summary_to_dict order S v"

fun scheduler_render :: "((string, pyval) fmap \<Rightarrow> (string \<times> pyval) list) \<Rightarrow> scheduler_types \<Rightarrow> scheduler_attr \<Rightarrow> pyval" where
  "scheduler_render order S (SchedulerPlain v) = v"
| "scheduler_render order S (SchedulerObject x) = scheduler_render_object order S x"
| "scheduler_render order S (SchedulerObjects xs) = seq_to_py (scheduler_render_object order S) xs"
| "scheduler_render order S (SchedulerObjectMap m) = mapping_to_py order (scheduler_render_object order S) m"

lemma scheduler_render_parts [simp]:
  "scheduler_render order S (scheduler_opt_attr f v) = opt_to_py (\<lambda>x. scheduler_render order S (f x)) v"
  "seq_to_py g (map h xs) = seq_to_py (\<lambda>x. g (h x)) xs"
  "mapping_to_py order g (fmmap k m) = mapping_to_py order (\<lambda>x. g (k x)) m"
  by (simp_all add: scheduler_opt_attr_def seq_to_py_def mapping_to_py_def fmap.map_comp comp_def split: option.splits)

definition scheduler_attribute_dict :: "((string, pyval) fmap \<Rightarrow> (string \<times> pyval) list) \<Rightarrow> scheduler_types \<Rightarrow> (string \<times> scheduler_attr) list \<Rightarrow> pyval" where
  "scheduler_attribute_dict order S attrs = PyDict (map (\<lambda>(name, a). (PyStr name, scheduler_render order S a)) attrs)"

text \<open>
  For each of the 31 response classes, \<open>to_dict\<close> has exactly one entry per attribute, in the order of
  the getters, with the attribute's value: the value itself, or the dictionaries of the objects.
\<close>

lemma aws_vpc_configuration_agrees:
  "aws_vpc_configuration_to_dict order S v = scheduler_attribute_dict order S (aws_vpc_configuration_attributes order S v)"
  by (simp add: scheduler_attribute_dict_def py_dict_distinct aws_vpc_configuration_to_dict_def aws_vpc_configuration_attributes_def
      aws_vpc_configuration_to_py_def)

lemma capacity_provider_strategy_item_agrees:
  "capacity_provider_strategy_item_to_dict order S v = scheduler_attribute_dict order S (capacity_provider_strategy_item_attributes order S v)"
  by (simp add: scheduler_attribute_dict_def py_dict_distinct capacity_provider_strategy_item_to_dict_def capacity_provider_strategy_item_attributes_def
      capacity_provider_strategy_item_to_py_def)

lemma dead_letter_config_agrees:
  "dead_letter_config_to_dict order S v = scheduler_attribute_dict order S (dead_letter_config_attributes order S v)"
  by (simp add: scheduler_attribute_dict_def py_dict_distinct dead_letter_config_to_dict_def dead_letter_config_attributes_def
      dead_letter_config_to_py_def)

lemma ecs_parameters_agrees:
  "ecs_parameters_to_dict order S v = scheduler_attribute_dict order S (ecs_parameters_attributes order S v)"
  by (simp add: scheduler_attribute_dict_def py_dict_distinct ecs_parameters_to_dict_def ecs_parameters_attributes_def
      ecs_parameters_to_py_def capacity_provider_strategy_item_to_dict_def network_configuration_to_dict_def placement_constraint_to_dict_def placement_strategy_to_dict_def)

lemma event_bridge_parameters_agrees:
  "event_bridge_parameters_to_dict order S v = scheduler_attribute_dict order S (event_bridge_parameters_attributes order S v)"
  by (simp add: scheduler_attribute_dict_def py_dict_distinct event_bridge_parameters_to_dict_def event_bridge_parameters_attributes_def
      event_bridge_parameters_to_py_def)

lemma flexible_time_window_agrees:
  "flexible_time_window_to_dict order S v = scheduler_attribute_dict order S (flexible_time_window_attributes order S v)"
  by (simp add: scheduler_attribute_dict_def py_dict_distinct flexible_time_window_to_dict_def flexible_time_window_attributes_def
      flexible_time_window_to_py_def)

lemma kinesis_parameters_agrees:
  "kinesis_parameters_to_dict order S v = scheduler_attribute_dict order S (kinesis_parameters_attributes order S v)"
  by (simp add: scheduler_attribute_dict_def py_dict_distinct kinesis_parameters_to_dict_def kinesis_parameters_attributes_def
      kinesis_parameters_to_py_def)

lemma network_configuration_agrees:
  "network_configuration_to_dict order S v = scheduler_attribute_dict order S (network_configuration_attributes order S v)"
  by (simp add: scheduler_attribute_dict_def py_dict_distinct network_configuration_to_dict_def network_configuration_attributes_def
      network_configuration_to_py_def aws_vpc_configuration_to_dict_def)

lemma placement_constraint_agrees:
  "placement_constraint_to_dict order S v = scheduler_attribute_dict order S (placement_constraint_attributes order S v)"
  by (simp add: scheduler_attribute_dict_def py_dict_distinct placement_constraint_to_dict_def placement_constraint_attributes_def
      placement_constraint_to_py_def)

lemma placement_strategy_agrees:
  "placement_strategy_to_dict order S v = scheduler_attribute_dict order S (placement_strategy_attributes order S v)"
  by (simp add: scheduler_attribute_dict_def py_dict_distinct placement_strategy_to_dict_def placement_strategy_attributes_def
      placement_strategy_to_py_def)

lemma retry_policy_agrees:
  "retry_policy_to_dict order S v = scheduler_attribute_dict order S (retry_policy_attributes order S v)"
  by (simp add: scheduler_attribute_dict_def py_dict_distinct retry_policy_to_dict_def retry_policy_attributes_def
      retry_policy_to_py_def)

lemma sage_maker_pipeline_parameter_agrees:
  "sage_maker_pipeline_parameter_to_dict order S v = scheduler_attribute_dict order S (sage_maker_pipeline_parameter_attributes order S v)"
  by (simp add: scheduler_attribute_dict_def py_dict_distinct sage_maker_pipeline_parameter_to_dict_def sage_maker_pipeline_parameter_attributes_def
      sage_maker_pipeline_parameter_to_py_def)

lemma sage_maker_pipeline_parameters_agrees:
  "sage_maker_pipeline_parameters_to_dict order S v = scheduler_attribute_dict order S (sage_maker_pipeline_parameters_attributes order S v)"
  by (simp add: scheduler_attribute_dict_def py_dict_distinct sage_maker_pipeline_parameters_to_dict_def sage_maker_pipeline_parameters_attributes_def
      sage_maker_pipeline_parameters_to_py_def sage_maker_pipeline_parameter_to_dict_def)

lemma schedule_group_summary_agrees:
  "schedule_group_summary_to_dict order S v = scheduler_attribute_dict order S (schedule_group_summary_attributes order S v)"
  by (simp add: scheduler_attribute_dict_def py_dict_distinct schedule_group_summary_to_dict_def schedule_group_summary_attributes_def
      schedule_group_summary_to_py_def)

lemma schedule_summary_agrees:
  "schedule_summary_to_dict order S v = scheduler_attribute_dict order S (schedule_summary_attributes order S v)"
  by (simp add: scheduler_attribute_dict_def py_dict_distinct schedule_summary_to_dict_def schedule_summary_attributes_def
      schedule_summary_to_py_def target_summary_to_dict_def)

lemma sqs_parameters_agrees:
  "sqs_parameters_to_dict order S v = scheduler_attribute_dict order S (sqs_parameters_attributes order S v)"
  by (simp add: scheduler_attribute_dict_def py_dict_distinct sqs_parameters_to_dict_def sqs_parameters_attributes_def
      sqs_parameters_to_py_def)

lemma scheduler_tag_agrees:
  "scheduler_tag_to_dict order S v = scheduler_attribute_dict order S (scheduler_tag_attributes order S v)"
  by (simp add: scheduler_attribute_dict_def py_dict_distinct scheduler_tag_to_dict_def scheduler_tag_attributes_def
      scheduler_tag_to_py_def)

lemma target_agrees:
  "target_to_dict order S v = scheduler_attribute_dict order S (target_attributes order S v)"
  by (simp add: scheduler_attribute_dict_def py_dict_distinct target_to_dict_def target_attributes_def
      target_to_py_def dead_letter_config_to_dict_def ecs_parameters_to_dict_def event_bridge_parameters_to_dict_def kinesis_parameters_to_dict_def retry_policy_to_dict_def sage_maker_pipeline_parameters_to_dict_def sqs_parameters_to_dict_def)

lemma target_summary_agrees:
  "target_summary_to_dict order S v = scheduler_attribute_dict order S (target_summary_attributes order S v)"
  by (simp add: scheduler_attribute_dict_def py_dict_distinct target_summary_to_dict_def target_summary_attributes_def
      target_summary_to_py_def)

lemma scheduler_outputs_agree:
  "create_schedule_output_to_dict order S v19 = scheduler_attribute_dict order S (create_schedule_output_attributes order S v19)"
  "create_schedule_group_output_to_dict order S v20 = scheduler_attribute_dict order S (create_schedule_group_output_attributes order S v20)"
  "delete_schedule_output_to_dict order S v21 = scheduler_attribute_dict order S (delete_schedule_output_attributes order S v21)"
  "delete_schedule_group_output_to_dict order S v22 = scheduler_attribute_dict order S (delete_schedule_group_output_attributes order S v22)"
  "get_schedule_output_to_dict order S v23 = scheduler_attribute_dict order S (get_schedule_output_attributes order S v23)"
  "get_schedule_group_output_to_dict order S v24 = scheduler_attribute_dict order S (get_schedule_group_output_attributes order S v24)"
  "list_schedule_groups_output_to_dict order S v25 = scheduler_attribute_dict order S (list_schedule_groups_output_attributes order S v25)"
  "list_schedules_output_to_dict order S v26 = scheduler_attribute_dict order S (list_schedules_output_attributes order S v26)"
  "scheduler_list_tags_for_resource_output_to_dict order S v27 = scheduler_attribute_dict order S (scheduler_list_tags_for_resource_output_attributes order S v27)"
  "scheduler_tag_resource_output_to_dict order S v28 = scheduler_attribute_dict order S (scheduler_tag_resource_output_attributes order S v28)"
  "scheduler_untag_resource_output_to_dict order S v29 = scheduler_attribute_dict order S (scheduler_untag_resource_output_attributes order S v29)"
  "update_schedule_output_to_dict order S v30 = scheduler_attribute_dict order S (update_schedule_output_attributes order S v30)"
  by (simp_all add: scheduler_attribute_dict_def py_dict_distinct
      create_schedule_output_to_dict_def create_schedule_output_attributes_def
      create_schedule_group_output_to_dict_def create_schedule_group_output_attributes_def
      delete_schedule_output_to_dict_def delete_schedule_output_attributes_def
      delete_schedule_group_output_to_dict_def delete_schedule_group_output_attributes_def
      get_schedule_output_to_dict_def get_schedule_output_attributes_def
      get_schedule_group_output_to_dict_def get_schedule_group_output_attributes_def
      list_schedule_groups_output_to_dict_def list_schedule_groups_output_attributes_def
      list_schedules_output_to_dict_def list_schedules_output_attributes_def
      scheduler_list_tags_for_resource_output_to_dict_def scheduler_list_tags_for_resource_output_attributes_def
      scheduler_tag_resource_output_to_dict_def scheduler_tag_resource_output_attributes_def
      scheduler_untag_resource_output_to_dict_def scheduler_untag_resource_output_attributes_def
      update_schedule_output_to_dict_def update_schedule_output_attributes_def
      aws_vpc_configuration_to_dict_def
      capacity_provider_strategy_item_to_dict_def
      dead_letter_config_to_dict_def
      ecs_parameters_to_dict_def
      event_bridge_parameters_to_dict_def
      flexible_time_window_to_dict_def
      kinesis_parameters_to_dict_def
      network_configuration_to_dict_def
      placement_constraint_to_dict_def
      placement_strategy_to_dict_def
      retry_policy_to_dict_def
      sage_maker_pipeline_parameter_to_dict_def
      sage_maker_pipeline_parameters_to_dict_def
      schedule_group_summary_to_dict_def
      schedule_summary_to_dict_def
      sqs_parameters_to_dict_def
      scheduler_tag_to_dict_def
      target_to_dict_def
      target_summary_to_dict_def)

end
