(* ===== verification/Scheduler.thy ===== *)
theory Scheduler
  imports SchedulerOutputs
begin

text \<open>
  The operations of the EventBridge Scheduler client: the methods of \<open>EventBridgeSchedulerClient\<close> in
  \<open>crates/rboto-scheduler/src/generated.rs\<close>, each reading its parameters from a dictionary and sending them
  through the shared \<open>execute\<close>, and the methods of the Python client
  (\<open>packages/rboto-scheduler/python/rboto_scheduler/client.py\<close>) that build those dictionaries.
\<close>

section \<open>Operations\<close>

subsection \<open>\<open>CreateSchedule\<close>\<close>

record create_schedule_input =
  hcsi_name :: "string option"
  hcsi_group_name :: "string option"
  hcsi_schedule_expression :: "string option"
  hcsi_start_date :: "datetime option"
  hcsi_end_date :: "datetime option"
  hcsi_description :: "string option"
  hcsi_schedule_expression_timezone :: "string option"
  hcsi_state :: "string option"
  hcsi_kms_key_arn :: "string option"
  hcsi_target :: "target option"
  hcsi_flexible_time_window :: "flexible_time_window option"
  hcsi_client_token :: "string option"
  hcsi_action_after_completion :: "string option"

definition create_schedule_params_1 :: "pyo3 \<Rightarrow> scheduler_types \<Rightarrow> pydict \<Rightarrow>
    (string option \<times> string option \<times> string option \<times> datetime option \<times> datetime option \<times> string option \<times> string option) pyresult" where
  "create_schedule_params_1 P S params =
     and_then (op_param P ''scheduler'' ''CreateSchedule'' params ''name'' ''str'' (string_from_py P)) (\<lambda>name.
     and_then (op_param P ''scheduler'' ''CreateSchedule'' params ''group_name'' ''str'' (string_from_py P)) (\<lambda>group_name.
     and_then (op_param P ''scheduler'' ''CreateSchedule'' params ''schedule_expression'' ''str'' (string_from_py P)) (\<lambda>schedule_expression.
     and_then (op_param P ''scheduler'' ''CreateSchedule'' params ''start_date'' ''ISO 8601 timestamp string'' (datetime_from_py P S)) (\<lambda>start_date.
     and_then (op_param P ''scheduler'' ''CreateSchedule'' params ''end_date'' ''ISO 8601 timestamp string'' (datetime_from_py P S)) (\<lambda>end_date.
     and_then (op_param P ''scheduler'' ''CreateSchedule'' params ''description'' ''str'' (string_from_py P)) (\<lambda>description.
     and_then (op_param P ''scheduler'' ''CreateSchedule'' params ''schedule_expression_timezone'' ''str'' (string_from_py P)) (\<lambda>schedule_expression_timezone.
     Inr (name, group_name, schedule_expression, start_date, end_date, description, schedule_expression_timezone))))))))"

definition create_schedule_params_2 :: "pyo3 \<Rightarrow> scheduler_types \<Rightarrow> pydict \<Rightarrow>
    (string option \<times> string option \<times> target option \<times> flexible_time_window option \<times> string option \<times> string option) pyresult" where
  "create_schedule_params_2 P S params =
     and_then (op_param P ''scheduler'' ''CreateSchedule'' params ''state'' ''str (ScheduleState)'' (enum_from_py P)) (\<lambda>state.
     and_then (op_param P ''scheduler'' ''CreateSchedule'' params ''kms_key_arn'' ''str'' (string_from_py P)) (\<lambda>kms_key_arn.
     and_then (op_param P ''scheduler'' ''CreateSchedule'' params ''target'' ''dict (Target)'' (target_from_py P S)) (\<lambda>target.
     and_then (op_param P ''scheduler'' ''CreateSchedule'' params ''flexible_time_window'' ''dict (FlexibleTimeWindow)'' (flexible_time_window_from_py P S)) (\<lambda>flexible_time_window.
     and_then (op_param P ''scheduler'' ''CreateSchedule'' params ''client_token'' ''str'' (string_from_py P)) (\<lambda>client_token.
     and_then (op_param P ''scheduler'' ''CreateSchedule'' params ''action_after_completion'' ''str (ActionAfterCompletion)'' (enum_from_py P)) (\<lambda>action_after_completion.
     Inr (state, kms_key_arn, target, flexible_time_window, client_token, action_after_completion)))))))"

definition create_schedule_params :: "pyo3 \<Rightarrow> scheduler_types \<Rightarrow> pydict \<Rightarrow>
    create_schedule_input pyresult" where
  "create_schedule_params P S params =
     and_then (create_schedule_params_1 P S params) (\<lambda>(name, group_name, schedule_expression, start_date, end_date, description, schedule_expression_timezone).
     and_then (create_schedule_params_2 P S params) (\<lambda>(state, kms_key_arn, target, flexible_time_window, client_token, action_after_completion).
     Inr \<lparr>hcsi_name = name,
       hcsi_group_name = group_name,
       hcsi_schedule_expression = schedule_expression,
       hcsi_start_date = start_date,
       hcsi_end_date = end_date,
       hcsi_description = description,
       hcsi_schedule_expression_timezone = schedule_expression_timezone,
       hcsi_state = state,
       hcsi_kms_key_arn = kms_key_arn,
       hcsi_target = target,
       hcsi_flexible_time_window = flexible_time_window,
       hcsi_client_token = client_token,
       hcsi_action_after_completion = action_after_completion\<rparr>))"

definition create_schedule :: "('cfg, 'client) service_env \<Rightarrow> pyo3 \<Rightarrow> scheduler_types \<Rightarrow> unit pyresult \<Rightarrow> bool \<Rightarrow>
    ('client \<Rightarrow> create_schedule_input \<Rightarrow> trip list \<times> (('e, http_response) sdk_error + create_schedule_output)) \<Rightarrow>
    'client client_handle \<Rightarrow> pydict \<Rightarrow> pydict option \<Rightarrow>
    (create_schedule_output pyresult \<times> 'client client_handle \<times> pydict option) option" where
  "create_schedule E P S bridge interrupted send c params observation =
     execute E bridge interrupted send no_details
       ''CreateSchedule'' (create_schedule_params P S params) c observation"

definition create_schedule_call :: "((string, pyval) fmap \<Rightarrow> (string \<times> pyval) list) \<Rightarrow> scheduler_types \<Rightarrow> create_schedule_input \<Rightarrow> pydict" where
  "create_schedule_call order S i = py_params
     [(''name'', opt_to_py PyStr (hcsi_name i)),
      (''schedule_expression'', opt_to_py PyStr (hcsi_schedule_expression i)),
      (''target'', opt_to_py (target_to_py order) (hcsi_target i)),
      (''flexible_time_window'', opt_to_py flexible_time_window_to_py (hcsi_flexible_time_window i))]
     [(''group_name'', opt_to_py PyStr (hcsi_group_name i)),
      (''start_date'', opt_to_py (datetime_to_py S) (hcsi_start_date i)),
      (''end_date'', opt_to_py (datetime_to_py S) (hcsi_end_date i)),
      (''description'', opt_to_py PyStr (hcsi_description i)),
      (''schedule_expression_timezone'', opt_to_py PyStr (hcsi_schedule_expression_timezone i)),
      (''state'', opt_to_py PyStr (hcsi_state i)),
      (''kms_key_arn'', opt_to_py PyStr (hcsi_kms_key_arn i)),
      (''client_token'', opt_to_py PyStr (hcsi_client_token i)),
      (''action_after_completion'', opt_to_py PyStr (hcsi_action_after_completion i))]"

subsection \<open>\<open>CreateScheduleGroup\<close>\<close>

record create_schedule_group_input =
  hcsgi_name :: "string option"
  hcsgi_tags :: "scheduler_tag list option"
  hcsgi_client_token :: "string option"

definition create_schedule_group_params :: "pyo3 \<Rightarrow> scheduler_types \<Rightarrow> pydict \<Rightarrow>
    create_schedule_group_input pyresult" where
  "create_schedule_group_params P S params =
     and_then (op_param P ''scheduler'' ''CreateScheduleGroup'' params ''name'' ''str'' (string_from_py P)) (\<lambda>name.
     and_then (op_param P ''scheduler'' ''CreateScheduleGroup'' params ''tags'' ''sequence'' (seq_from_py P ''dict (Tag)'' (scheduler_tag_from_py P S))) (\<lambda>tags.
     and_then (op_param P ''scheduler'' ''CreateScheduleGroup'' params ''client_token'' ''str'' (string_from_py P)) (\<lambda>client_token.
     Inr \<lparr>hcsgi_name = name,
       hcsgi_tags = tags,
       hcsgi_client_token = client_token\<rparr>)))"

definition create_schedule_group :: "('cfg, 'client) service_env \<Rightarrow> pyo3 \<Rightarrow> scheduler_types \<Rightarrow> unit pyresult \<Rightarrow> bool \<Rightarrow>
    ('client \<Rightarrow> create_schedule_group_input \<Rightarrow> trip list \<times> (('e, http_response) sdk_error + create_schedule_group_output)) \<Rightarrow>
    'client client_handle \<Rightarrow> pydict \<Rightarrow> pydict option \<Rightarrow>
    (create_schedule_group_output pyresult \<times> 'client client_handle \<times> pydict option) option" where
  "create_schedule_group E P S bridge interrupted send c params observation =
     execute E bridge interrupted send no_details
       ''CreateScheduleGroup'' (create_schedule_group_params P S params) c observation"

definition create_schedule_group_call :: "create_schedule_group_input \<Rightarrow> pydict" where
  "create_schedule_group_call i = py_params
     [(''name'', opt_to_py PyStr (hcsgi_name i))]
     [(''tags'', opt_to_py (seq_to_py scheduler_tag_to_py) (hcsgi_tags i)),
      (''client_token'', opt_to_py PyStr (hcsgi_client_token i))]"

subsection \<open>\<open>DeleteSchedule\<close>\<close>

record delete_schedule_input =
  hdsi_name :: "string option"
  hdsi_group_name :: "string option"
  hdsi_client_token :: "string option"

definition delete_schedule_params :: "pyo3 \<Rightarrow> scheduler_types \<Rightarrow> pydict \<Rightarrow>
    delete_schedule_input pyresult" where
  "delete_schedule_params P S params =
     and_then (op_param P ''scheduler'' ''DeleteSchedule'' params ''name'' ''str'' (string_from_py P)) (\<lambda>name.
     and_then (op_param P ''scheduler'' ''DeleteSchedule'' params ''group_name'' ''str'' (string_from_py P)) (\<lambda>group_name.
     and_then (op_param P ''scheduler'' ''DeleteSchedule'' params ''client_token'' ''str'' (string_from_py P)) (\<lambda>client_token.
     Inr \<lparr>hdsi_name = name,
       hdsi_group_name = group_name,
       hdsi_client_token = client_token\<rparr>)))"

definition delete_schedule :: "('cfg, 'client) service_env \<Rightarrow> pyo3 \<Rightarrow> scheduler_types \<Rightarrow> unit pyresult \<Rightarrow> bool \<Rightarrow>
    ('client \<Rightarrow> delete_schedule_input \<Rightarrow> trip list \<times> (('e, http_response) sdk_error + delete_schedule_output)) \<Rightarrow>
    'client client_handle \<Rightarrow> pydict \<Rightarrow> pydict option \<Rightarrow>
    (delete_schedule_output pyresult \<times> 'client client_handle \<times> pydict option) option" where
  "delete_schedule E P S bridge interrupted send c params observation =
     execute E bridge interrupted send no_details
       ''DeleteSchedule'' (delete_schedule_params P S params) c observation"

definition delete_schedule_call :: "delete_schedule_input \<Rightarrow> pydict" where
  "delete_schedule_call i = py_params
     [(''name'', opt_to_py PyStr (hdsi_name i))]
     [(''group_name'', opt_to_py PyStr (hdsi_group_name i)),
      (''client_token'', opt_to_py PyStr (hdsi_client_token i))]"

subsection \<open>\<open>DeleteScheduleGroup\<close>\<close>

record delete_schedule_group_input =
  hdsgi_name :: "string option"
  hdsgi_client_token :: "string option"

definition delete_schedule_group_params :: "pyo3 \<Rightarrow> scheduler_types \<Rightarrow> pydict \<Rightarrow>
    delete_schedule_group_input pyresult" where
  "delete_schedule_group_params P S params =
     and_then (op_param P ''scheduler'' ''DeleteScheduleGroup'' params ''name'' ''str'' (string_from_py P)) (\<lambda>name.
     and_then (op_param P ''scheduler'' ''DeleteScheduleGroup'' params ''client_token'' ''str'' (string_from_py P)) (\<lambda>client_token.
     Inr \<lparr>hdsgi_name = name,
       hdsgi_client_token = client_token\<rparr>))"

definition delete_schedule_group :: "('cfg, 'client) service_env \<Rightarrow> pyo3 \<Rightarrow> scheduler_types \<Rightarrow> unit pyresult \<Rightarrow> bool \<Rightarrow>
    ('client \<Rightarrow> delete_schedule_group_input \<Rightarrow> trip list \<times> (('e, http_response) sdk_error + delete_schedule_group_output)) \<Rightarrow>
    'client client_handle \<Rightarrow> pydict \<Rightarrow> pydict option \<Rightarrow>
    (delete_schedule_group_output pyresult \<times> 'client client_handle \<times> pydict option) option" where
  "delete_schedule_group E P S bridge interrupted send c params observation =
     execute E bridge interrupted send no_details
       ''DeleteScheduleGroup'' (delete_schedule_group_params P S params) c observation"

definition delete_schedule_group_call :: "delete_schedule_group_input \<Rightarrow> pydict" where
  "delete_schedule_group_call i = py_params
     [(''name'', opt_to_py PyStr (hdsgi_name i))]
     [(''client_token'', opt_to_py PyStr (hdsgi_client_token i))]"

subsection \<open>\<open>GetSchedule\<close>\<close>

record get_schedule_input =
  hgsi_name :: "string option"
  hgsi_group_name :: "string option"

definition get_schedule_params :: "pyo3 \<Rightarrow> scheduler_types \<Rightarrow> pydict \<Rightarrow>
    get_schedule_input pyresult" where
  "get_schedule_params P S params =
     and_then (op_param P ''scheduler'' ''GetSchedule'' params ''name'' ''str'' (string_from_py P)) (\<lambda>name.
     and_then (op_param P ''scheduler'' ''GetSchedule'' params ''group_name'' ''str'' (string_from_py P)) (\<lambda>group_name.
     Inr \<lparr>hgsi_name = name,
       hgsi_group_name = group_name\<rparr>))"

definition get_schedule :: "('cfg, 'client) service_env \<Rightarrow> pyo3 \<Rightarrow> scheduler_types \<Rightarrow> unit pyresult \<Rightarrow> bool \<Rightarrow>
    ('client \<Rightarrow> get_schedule_input \<Rightarrow> trip list \<times> (('e, http_response) sdk_error + get_schedule_output)) \<Rightarrow>
    'client client_handle \<Rightarrow> pydict \<Rightarrow> pydict option \<Rightarrow>
    (get_schedule_output pyresult \<times> 'client client_handle \<times> pydict option) option" where
  "get_schedule E P S bridge interrupted send c params observation =
     execute E bridge interrupted send no_details
       ''GetSchedule'' (get_schedule_params P S params) c observation"

definition get_schedule_call :: "get_schedule_input \<Rightarrow> pydict" where
  "get_schedule_call i = py_params
     [(''name'', opt_to_py PyStr (hgsi_name i))]
     [(''group_name'', opt_to_py PyStr (hgsi_group_name i))]"

subsection \<open>\<open>GetScheduleGroup\<close>\<close>

record get_schedule_group_input =
  hgsgi_name :: "string option"

definition get_schedule_group_params :: "pyo3 \<Rightarrow> scheduler_types \<Rightarrow> pydict \<Rightarrow>
    get_schedule_group_input pyresult" where
  "get_schedule_group_params P S params =
     and_then (op_param P ''scheduler'' ''GetScheduleGroup'' params ''name'' ''str'' (string_from_py P)) (\<lambda>name.
     Inr \<lparr>hgsgi_name = name\<rparr>)"

definition get_schedule_group :: "('cfg, 'client) service_env \<Rightarrow> pyo3 \<Rightarrow> scheduler_types \<Rightarrow> unit pyresult \<Rightarrow> bool \<Rightarrow>
    ('client \<Rightarrow> get_schedule_group_input \<Rightarrow> trip list \<times> (('e, http_response) sdk_error + get_schedule_group_output)) \<Rightarrow>
    'client client_handle \<Rightarrow> pydict \<Rightarrow> pydict option \<Rightarrow>
    (get_schedule_group_output pyresult \<times> 'client client_handle \<times> pydict option) option" where
  "get_schedule_group E P S bridge interrupted send c params observation =
     execute E bridge interrupted send no_details
       ''GetScheduleGroup'' (get_schedule_group_params P S params) c observation"

definition get_schedule_group_call :: "get_schedule_group_input \<Rightarrow> pydict" where
  "get_schedule_group_call i = py_params
     [(''name'', opt_to_py PyStr (hgsgi_name i))]
     []"

subsection \<open>\<open>ListScheduleGroups\<close>\<close>

record list_schedule_groups_input =
  hlsgi_name_prefix :: "string option"
  hlsgi_next_token :: "string option"
  hlsgi_max_results :: "32 word option"

definition list_schedule_groups_params :: "pyo3 \<Rightarrow> scheduler_types \<Rightarrow> pydict \<Rightarrow>
    list_schedule_groups_input pyresult" where
  "list_schedule_groups_params P S params =
     and_then (op_param P ''scheduler'' ''ListScheduleGroups'' params ''name_prefix'' ''str'' (string_from_py P)) (\<lambda>name_prefix.
     and_then (op_param P ''scheduler'' ''ListScheduleGroups'' params ''next_token'' ''str'' (string_from_py P)) (\<lambda>next_token.
     and_then (op_param P ''scheduler'' ''ListScheduleGroups'' params ''max_results'' ''int'' (i32_from_py P)) (\<lambda>max_results.
     Inr \<lparr>hlsgi_name_prefix = name_prefix,
       hlsgi_next_token = next_token,
       hlsgi_max_results = max_results\<rparr>)))"

definition list_schedule_groups :: "('cfg, 'client) service_env \<Rightarrow> pyo3 \<Rightarrow> scheduler_types \<Rightarrow> unit pyresult \<Rightarrow> bool \<Rightarrow>
    ('client \<Rightarrow> list_schedule_groups_input \<Rightarrow> trip list \<times> (('e, http_response) sdk_error + list_schedule_groups_output)) \<Rightarrow>
    'client client_handle \<Rightarrow> pydict \<Rightarrow> pydict option \<Rightarrow>
    (list_schedule_groups_output pyresult \<times> 'client client_handle \<times> pydict option) option" where
  "list_schedule_groups E P S bridge interrupted send c params observation =
     execute E bridge interrupted send no_details
       ''ListScheduleGroups'' (list_schedule_groups_params P S params) c observation"

definition list_schedule_groups_call :: "list_schedule_groups_input \<Rightarrow> pydict" where
  "list_schedule_groups_call i = py_params
     []
     [(''name_prefix'', opt_to_py PyStr (hlsgi_name_prefix i)),
      (''next_token'', opt_to_py PyStr (hlsgi_next_token i)),
      (''max_results'', opt_to_py i32_to_py (hlsgi_max_results i))]"

subsection \<open>\<open>ListSchedules\<close>\<close>

record list_schedules_input =
  hlsi_group_name :: "string option"
  hlsi_name_prefix :: "string option"
  hlsi_state :: "string option"
  hlsi_next_token :: "string option"
  hlsi_max_results :: "32 word option"

definition list_schedules_params :: "pyo3 \<Rightarrow> scheduler_types \<Rightarrow> pydict \<Rightarrow>
    list_schedules_input pyresult" where
  "list_schedules_params P S params =
     and_then (op_param P ''scheduler'' ''ListSchedules'' params ''group_name'' ''str'' (string_from_py P)) (\<lambda>group_name.
     and_then (op_param P ''scheduler'' ''ListSchedules'' params ''name_prefix'' ''str'' (string_from_py P)) (\<lambda>name_prefix.
     and_then (op_param P ''scheduler'' ''ListSchedules'' params ''state'' ''str (ScheduleState)'' (enum_from_py P)) (\<lambda>state.
     and_then (op_param P ''scheduler'' ''ListSchedules'' params ''next_token'' ''str'' (string_from_py P)) (\<lambda>next_token.
     and_then (op_param P ''scheduler'' ''ListSchedules'' params ''max_results'' ''int'' (i32_from_py P)) (\<lambda>max_results.
     Inr \<lparr>hlsi_group_name = group_name,
       hlsi_name_prefix = name_prefix,
       hlsi_state = state,
       hlsi_next_token = next_token,
       hlsi_max_results = max_results\<rparr>)))))"

definition list_schedules :: "('cfg, 'client) service_env \<Rightarrow> pyo3 \<Rightarrow> scheduler_types \<Rightarrow> unit pyresult \<Rightarrow> bool \<Rightarrow>
    ('client \<Rightarrow> list_schedules_input \<Rightarrow> trip list \<times> (('e, http_response) sdk_error + list_schedules_output)) \<Rightarrow>
    'client client_handle \<Rightarrow> pydict \<Rightarrow> pydict option \<Rightarrow>
    (list_schedules_output pyresult \<times> 'client client_handle \<times> pydict option) option" where
  "list_schedules E P S bridge interrupted send c params observation =
     execute E bridge interrupted send no_details
       ''ListSchedules'' (list_schedules_params P S params) c observation"

definition list_schedules_call :: "list_schedules_input \<Rightarrow> pydict" where
  "list_schedules_call i = py_params
     []
     [(''group_name'', opt_to_py PyStr (hlsi_group_name i)),
      (''name_prefix'', opt_to_py PyStr (hlsi_name_prefix i)),
      (''state'', opt_to_py PyStr (hlsi_state i)),
      (''next_token'', opt_to_py PyStr (hlsi_next_token i)),
      (''max_results'', opt_to_py i32_to_py (hlsi_max_results i))]"

subsection \<open>\<open>ListTagsForResource\<close>\<close>

record scheduler_list_tags_for_resource_input =
  hsltfri_resource_arn :: "string option"

definition scheduler_list_tags_for_resource_params :: "pyo3 \<Rightarrow> scheduler_types \<Rightarrow> pydict \<Rightarrow>
    scheduler_list_tags_for_resource_input pyresult" where
  "scheduler_list_tags_for_resource_params P S params =
     and_then (op_param P ''scheduler'' ''ListTagsForResource'' params ''resource_arn'' ''str'' (string_from_py P)) (\<lambda>resource_arn.
     Inr \<lparr>hsltfri_resource_arn = resource_arn\<rparr>)"

definition scheduler_list_tags_for_resource :: "('cfg, 'client) service_env \<Rightarrow> pyo3 \<Rightarrow> scheduler_types \<Rightarrow> unit pyresult \<Rightarrow> bool \<Rightarrow>
    ('client \<Rightarrow> scheduler_list_tags_for_resource_input \<Rightarrow> trip list \<times> (('e, http_response) sdk_error + scheduler_list_tags_for_resource_output)) \<Rightarrow>
    'client client_handle \<Rightarrow> pydict \<Rightarrow> pydict option \<Rightarrow>
    (scheduler_list_tags_for_resource_output pyresult \<times> 'client client_handle \<times> pydict option) option" where
  "scheduler_list_tags_for_resource E P S bridge interrupted send c params observation =
     execute E bridge interrupted send no_details
       ''ListTagsForResource'' (scheduler_list_tags_for_resource_params P S params) c observation"

definition scheduler_list_tags_for_resource_call :: "scheduler_list_tags_for_resource_input \<Rightarrow> pydict" where
  "scheduler_list_tags_for_resource_call i = py_params
     [(''resource_arn'', opt_to_py PyStr (hsltfri_resource_arn i))]
     []"

subsection \<open>\<open>TagResource\<close>\<close>

record scheduler_tag_resource_input =
  hstri_resource_arn :: "string option"
  hstri_tags :: "scheduler_tag list option"

definition scheduler_tag_resource_params :: "pyo3 \<Rightarrow> scheduler_types \<Rightarrow> pydict \<Rightarrow>
    scheduler_tag_resource_input pyresult" where
  "scheduler_tag_resource_params P S params =
     and_then (op_param P ''scheduler'' ''TagResource'' params ''resource_arn'' ''str'' (string_from_py P)) (\<lambda>resource_arn.
     and_then (op_param P ''scheduler'' ''TagResource'' params ''tags'' ''sequence'' (seq_from_py P ''dict (Tag)'' (scheduler_tag_from_py P S))) (\<lambda>tags.
     Inr \<lparr>hstri_resource_arn = resource_arn,
       hstri_tags = tags\<rparr>))"

definition scheduler_tag_resource :: "('cfg, 'client) service_env \<Rightarrow> pyo3 \<Rightarrow> scheduler_types \<Rightarrow> unit pyresult \<Rightarrow> bool \<Rightarrow>
    ('client \<Rightarrow> scheduler_tag_resource_input \<Rightarrow> trip list \<times> (('e, http_response) sdk_error + scheduler_tag_resource_output)) \<Rightarrow>
    'client client_handle \<Rightarrow> pydict \<Rightarrow> pydict option \<Rightarrow>
    (scheduler_tag_resource_output pyresult \<times> 'client client_handle \<times> pydict option) option" where
  "scheduler_tag_resource E P S bridge interrupted send c params observation =
     execute E bridge interrupted send no_details
       ''TagResource'' (scheduler_tag_resource_params P S params) c observation"

definition scheduler_tag_resource_call :: "scheduler_tag_resource_input \<Rightarrow> pydict" where
  "scheduler_tag_resource_call i = py_params
     [(''resource_arn'', opt_to_py PyStr (hstri_resource_arn i)),
      (''tags'', opt_to_py (seq_to_py scheduler_tag_to_py) (hstri_tags i))]
     []"

subsection \<open>\<open>UntagResource\<close>\<close>

record scheduler_untag_resource_input =
  hsuri_resource_arn :: "string option"
  hsuri_tag_keys :: "string list option"

definition scheduler_untag_resource_params :: "pyo3 \<Rightarrow> scheduler_types \<Rightarrow> pydict \<Rightarrow>
    scheduler_untag_resource_input pyresult" where
  "scheduler_untag_resource_params P S params =
     and_then (op_param P ''scheduler'' ''UntagResource'' params ''resource_arn'' ''str'' (string_from_py P)) (\<lambda>resource_arn.
     and_then (op_param P ''scheduler'' ''UntagResource'' params ''tag_keys'' ''sequence'' (seq_from_py P ''str'' (string_from_py P))) (\<lambda>tag_keys.
     Inr \<lparr>hsuri_resource_arn = resource_arn,
       hsuri_tag_keys = tag_keys\<rparr>))"

definition scheduler_untag_resource :: "('cfg, 'client) service_env \<Rightarrow> pyo3 \<Rightarrow> scheduler_types \<Rightarrow> unit pyresult \<Rightarrow> bool \<Rightarrow>
    ('client \<Rightarrow> scheduler_untag_resource_input \<Rightarrow> trip list \<times> (('e, http_response) sdk_error + scheduler_untag_resource_output)) \<Rightarrow>
    'client client_handle \<Rightarrow> pydict \<Rightarrow> pydict option \<Rightarrow>
    (scheduler_untag_resource_output pyresult \<times> 'client client_handle \<times> pydict option) option" where
  "scheduler_untag_resource E P S bridge interrupted send c params observation =
     execute E bridge interrupted send no_details
       ''UntagResource'' (scheduler_untag_resource_params P S params) c observation"

definition scheduler_untag_resource_call :: "scheduler_untag_resource_input \<Rightarrow> pydict" where
  "scheduler_untag_resource_call i = py_params
     [(''resource_arn'', opt_to_py PyStr (hsuri_resource_arn i)),
      (''tag_keys'', opt_to_py (seq_to_py PyStr) (hsuri_tag_keys i))]
     []"

subsection \<open>\<open>UpdateSchedule\<close>\<close>

record update_schedule_input =
  husi_name :: "string option"
  husi_group_name :: "string option"
  husi_schedule_expression :: "string option"
  husi_start_date :: "datetime option"
  husi_end_date :: "datetime option"
  husi_description :: "string option"
  husi_schedule_expression_timezone :: "string option"
  husi_state :: "string option"
  husi_kms_key_arn :: "string option"
  husi_target :: "target option"
  husi_flexible_time_window :: "flexible_time_window option"
  husi_client_token :: "string option"
  husi_action_after_completion :: "string option"

definition update_schedule_params_1 :: "pyo3 \<Rightarrow> scheduler_types \<Rightarrow> pydict \<Rightarrow>
    (string option \<times> string option \<times> string option \<times> datetime option \<times> datetime option \<times> string option \<times> string option) pyresult" where
  "update_schedule_params_1 P S params =
     and_then (op_param P ''scheduler'' ''UpdateSchedule'' params ''name'' ''str'' (string_from_py P)) (\<lambda>name.
     and_then (op_param P ''scheduler'' ''UpdateSchedule'' params ''group_name'' ''str'' (string_from_py P)) (\<lambda>group_name.
     and_then (op_param P ''scheduler'' ''UpdateSchedule'' params ''schedule_expression'' ''str'' (string_from_py P)) (\<lambda>schedule_expression.
     and_then (op_param P ''scheduler'' ''UpdateSchedule'' params ''start_date'' ''ISO 8601 timestamp string'' (datetime_from_py P S)) (\<lambda>start_date.
     and_then (op_param P ''scheduler'' ''UpdateSchedule'' params ''end_date'' ''ISO 8601 timestamp string'' (datetime_from_py P S)) (\<lambda>end_date.
     and_then (op_param P ''scheduler'' ''UpdateSchedule'' params ''description'' ''str'' (string_from_py P)) (\<lambda>description.
     and_then (op_param P ''scheduler'' ''UpdateSchedule'' params ''schedule_expression_timezone'' ''str'' (string_from_py P)) (\<lambda>schedule_expression_timezone.
     Inr (name, group_name, schedule_expression, start_date, end_date, description, schedule_expression_timezone))))))))"

definition update_schedule_params_2 :: "pyo3 \<Rightarrow> scheduler_types \<Rightarrow> pydict \<Rightarrow>
    (string option \<times> string option \<times> target option \<times> flexible_time_window option \<times> string option \<times> string option) pyresult" where
  "update_schedule_params_2 P S params =
     and_then (op_param P ''scheduler'' ''UpdateSchedule'' params ''state'' ''str (ScheduleState)'' (enum_from_py P)) (\<lambda>state.
     and_then (op_param P ''scheduler'' ''UpdateSchedule'' params ''kms_key_arn'' ''str'' (string_from_py P)) (\<lambda>kms_key_arn.
     and_then (op_param P ''scheduler'' ''UpdateSchedule'' params ''target'' ''dict (Target)'' (target_from_py P S)) (\<lambda>target.
     and_then (op_param P ''scheduler'' ''UpdateSchedule'' params ''flexible_time_window'' ''dict (FlexibleTimeWindow)'' (flexible_time_window_from_py P S)) (\<lambda>flexible_time_window.
     and_then (op_param P ''scheduler'' ''UpdateSchedule'' params ''client_token'' ''str'' (string_from_py P)) (\<lambda>client_token.
     and_then (op_param P ''scheduler'' ''UpdateSchedule'' params ''action_after_completion'' ''str (ActionAfterCompletion)'' (enum_from_py P)) (\<lambda>action_after_completion.
     Inr (state, kms_key_arn, target, flexible_time_window, client_token, action_after_completion)))))))"

definition update_schedule_params :: "pyo3 \<Rightarrow> scheduler_types \<Rightarrow> pydict \<Rightarrow>
    update_schedule_input pyresult" where
  "update_schedule_params P S params =
     and_then (update_schedule_params_1 P S params) (\<lambda>(name, group_name, schedule_expression, start_date, end_date, description, schedule_expression_timezone).
     and_then (update_schedule_params_2 P S params) (\<lambda>(state, kms_key_arn, target, flexible_time_window, client_token, action_after_completion).
     Inr \<lparr>husi_name = name,
       husi_group_name = group_name,
       husi_schedule_expression = schedule_expression,
       husi_start_date = start_date,
       husi_end_date = end_date,
       husi_description = description,
       husi_schedule_expression_timezone = schedule_expression_timezone,
       husi_state = state,
       husi_kms_key_arn = kms_key_arn,
       husi_target = target,
       husi_flexible_time_window = flexible_time_window,
       husi_client_token = client_token,
       husi_action_after_completion = action_after_completion\<rparr>))"

definition update_schedule :: "('cfg, 'client) service_env \<Rightarrow> pyo3 \<Rightarrow> scheduler_types \<Rightarrow> unit pyresult \<Rightarrow> bool \<Rightarrow>
    ('client \<Rightarrow> update_schedule_input \<Rightarrow> trip list \<times> (('e, http_response) sdk_error + update_schedule_output)) \<Rightarrow>
    'client client_handle \<Rightarrow> pydict \<Rightarrow> pydict option \<Rightarrow>
    (update_schedule_output pyresult \<times> 'client client_handle \<times> pydict option) option" where
  "update_schedule E P S bridge interrupted send c params observation =
     execute E bridge interrupted send no_details
       ''UpdateSchedule'' (update_schedule_params P S params) c observation"

definition update_schedule_call :: "((string, pyval) fmap \<Rightarrow> (string \<times> pyval) list) \<Rightarrow> scheduler_types \<Rightarrow> update_schedule_input \<Rightarrow> pydict" where
  "update_schedule_call order S i = py_params
     [(''name'', opt_to_py PyStr (husi_name i)),
      (''schedule_expression'', opt_to_py PyStr (husi_schedule_expression i)),
      (''target'', opt_to_py (target_to_py order) (husi_target i)),
      (''flexible_time_window'', opt_to_py flexible_time_window_to_py (husi_flexible_time_window i))]
     [(''group_name'', opt_to_py PyStr (husi_group_name i)),
      (''start_date'', opt_to_py (datetime_to_py S) (husi_start_date i)),
      (''end_date'', opt_to_py (datetime_to_py S) (husi_end_date i)),
      (''description'', opt_to_py PyStr (husi_description i)),
      (''schedule_expression_timezone'', opt_to_py PyStr (husi_schedule_expression_timezone i)),
      (''state'', opt_to_py PyStr (husi_state i)),
      (''kms_key_arn'', opt_to_py PyStr (husi_kms_key_arn i)),
      (''client_token'', opt_to_py PyStr (husi_client_token i)),
      (''action_after_completion'', opt_to_py PyStr (husi_action_after_completion i))]"

section \<open>Parameters arrive\<close>

context scheduler_conversions
begin

lemma create_schedule_delivered:
  assumes dates: "dates_ok S [hcsi_start_date i, hcsi_end_date i]"
  shows "create_schedule_params P S (create_schedule_call order S i) = Inr i"
proof -
  have s: "str_keys (create_schedule_call order S i)" by (simp add: create_schedule_call_def)
  note p = arguments [OF create_schedule_call_def [of order S i], simplified]
  have a: "argument (create_schedule_call order S i) ''name'' = opt_to_py PyStr (hcsi_name i)"
    "argument (create_schedule_call order S i) ''group_name'' = opt_to_py PyStr (hcsi_group_name i)"
    "argument (create_schedule_call order S i) ''schedule_expression'' = opt_to_py PyStr (hcsi_schedule_expression i)"
    "argument (create_schedule_call order S i) ''start_date'' = opt_to_py (datetime_to_py S) (hcsi_start_date i)"
    "argument (create_schedule_call order S i) ''end_date'' = opt_to_py (datetime_to_py S) (hcsi_end_date i)"
    "argument (create_schedule_call order S i) ''description'' = opt_to_py PyStr (hcsi_description i)"
    "argument (create_schedule_call order S i) ''schedule_expression_timezone'' = opt_to_py PyStr (hcsi_schedule_expression_timezone i)"
    "argument (create_schedule_call order S i) ''state'' = opt_to_py PyStr (hcsi_state i)"
    "argument (create_schedule_call order S i) ''kms_key_arn'' = opt_to_py PyStr (hcsi_kms_key_arn i)"
    "argument (create_schedule_call order S i) ''target'' = opt_to_py (target_to_py order) (hcsi_target i)"
    "argument (create_schedule_call order S i) ''flexible_time_window'' = opt_to_py flexible_time_window_to_py (hcsi_flexible_time_window i)"
    "argument (create_schedule_call order S i) ''client_token'' = opt_to_py PyStr (hcsi_client_token i)"
    "argument (create_schedule_call order S i) ''action_after_completion'' = opt_to_py PyStr (hcsi_action_after_completion i)"
    by (simp_all only: p)
  show ?thesis
    unfolding create_schedule_params_def create_schedule_params_1_def create_schedule_params_2_def
    by (simp add: param_reads [OF reads_str s a(1)]
        param_reads [OF reads_str s a(2)]
        param_reads [OF reads_str s a(3)]
        date_param [OF dates _ s a(4)]
        date_param [OF dates _ s a(5)]
        param_reads [OF reads_str s a(6)]
        param_reads [OF reads_str s a(7)]
        param_reads [OF reads_enum s a(8)]
        param_reads [OF reads_str s a(9)]
        param_reads [OF target_reads s a(10)]
        param_reads [OF flexible_time_window_reads s a(11)]
        param_reads [OF reads_str s a(12)]
        param_reads [OF reads_enum s a(13)])
qed

lemma create_schedule_group_delivered: "create_schedule_group_params P S (create_schedule_group_call i) = Inr i"
proof -
  have s: "str_keys (create_schedule_group_call i)" by (simp add: create_schedule_group_call_def)
  note p = arguments [OF create_schedule_group_call_def [of i], simplified]
  have a: "argument (create_schedule_group_call i) ''name'' = opt_to_py PyStr (hcsgi_name i)"
    "argument (create_schedule_group_call i) ''tags'' = opt_to_py (seq_to_py scheduler_tag_to_py) (hcsgi_tags i)"
    "argument (create_schedule_group_call i) ''client_token'' = opt_to_py PyStr (hcsgi_client_token i)"
    by (simp_all only: p)
  show ?thesis
    unfolding create_schedule_group_params_def
    by (simp add: param_reads [OF reads_str s a(1)]
        param_reads [OF reads_seq [OF scheduler_tag_reads] s a(2)]
        param_reads [OF reads_str s a(3)])
qed

lemma delete_schedule_delivered: "delete_schedule_params P S (delete_schedule_call i) = Inr i"
proof -
  have s: "str_keys (delete_schedule_call i)" by (simp add: delete_schedule_call_def)
  note p = arguments [OF delete_schedule_call_def [of i], simplified]
  have a: "argument (delete_schedule_call i) ''name'' = opt_to_py PyStr (hdsi_name i)"
    "argument (delete_schedule_call i) ''group_name'' = opt_to_py PyStr (hdsi_group_name i)"
    "argument (delete_schedule_call i) ''client_token'' = opt_to_py PyStr (hdsi_client_token i)"
    by (simp_all only: p)
  show ?thesis
    unfolding delete_schedule_params_def
    by (simp add: param_reads [OF reads_str s a(1)]
        param_reads [OF reads_str s a(2)]
        param_reads [OF reads_str s a(3)])
qed

lemma delete_schedule_group_delivered: "delete_schedule_group_params P S (delete_schedule_group_call i) = Inr i"
proof -
  have s: "str_keys (delete_schedule_group_call i)" by (simp add: delete_schedule_group_call_def)
  have a: "argument (delete_schedule_group_call i) ''name'' = opt_to_py PyStr (hdsgi_name i)"
    "argument (delete_schedule_group_call i) ''client_token'' = opt_to_py PyStr (hdsgi_client_token i)"
    unfolding delete_schedule_group_call_def by (simp_all add: argument_py_params)
  show ?thesis
    unfolding delete_schedule_group_params_def
    by (simp add: param_reads [OF reads_str s a(1)]
        param_reads [OF reads_str s a(2)])
qed

lemma get_schedule_delivered: "get_schedule_params P S (get_schedule_call i) = Inr i"
proof -
  have s: "str_keys (get_schedule_call i)" by (simp add: get_schedule_call_def)
  have a: "argument (get_schedule_call i) ''name'' = opt_to_py PyStr (hgsi_name i)"
    "argument (get_schedule_call i) ''group_name'' = opt_to_py PyStr (hgsi_group_name i)"
    unfolding get_schedule_call_def by (simp_all add: argument_py_params)
  show ?thesis
    unfolding get_schedule_params_def
    by (simp add: param_reads [OF reads_str s a(1)]
        param_reads [OF reads_str s a(2)])
qed

lemma get_schedule_group_delivered: "get_schedule_group_params P S (get_schedule_group_call i) = Inr i"
proof -
  have s: "str_keys (get_schedule_group_call i)" by (simp add: get_schedule_group_call_def)
  have a: "argument (get_schedule_group_call i) ''name'' = opt_to_py PyStr (hgsgi_name i)"
    unfolding get_schedule_group_call_def by (simp_all add: argument_py_params)
  show ?thesis
    unfolding get_schedule_group_params_def
    by (simp add: param_reads [OF reads_str s a])
qed

lemma list_schedule_groups_delivered: "list_schedule_groups_params P S (list_schedule_groups_call i) = Inr i"
proof -
  have s: "str_keys (list_schedule_groups_call i)" by (simp add: list_schedule_groups_call_def)
  note p = arguments [OF list_schedule_groups_call_def [of i], simplified]
  have a: "argument (list_schedule_groups_call i) ''name_prefix'' = opt_to_py PyStr (hlsgi_name_prefix i)"
    "argument (list_schedule_groups_call i) ''next_token'' = opt_to_py PyStr (hlsgi_next_token i)"
    "argument (list_schedule_groups_call i) ''max_results'' = opt_to_py i32_to_py (hlsgi_max_results i)"
    by (simp_all only: p)
  show ?thesis
    unfolding list_schedule_groups_params_def
    by (simp add: param_reads [OF reads_str s a(1)]
        param_reads [OF reads_str s a(2)]
        param_reads [OF reads_i32 s a(3)])
qed

lemma list_schedules_delivered: "list_schedules_params P S (list_schedules_call i) = Inr i"
proof -
  have s: "str_keys (list_schedules_call i)" by (simp add: list_schedules_call_def)
  note p = arguments [OF list_schedules_call_def [of i], simplified]
  have a: "argument (list_schedules_call i) ''group_name'' = opt_to_py PyStr (hlsi_group_name i)"
    "argument (list_schedules_call i) ''name_prefix'' = opt_to_py PyStr (hlsi_name_prefix i)"
    "argument (list_schedules_call i) ''state'' = opt_to_py PyStr (hlsi_state i)"
    "argument (list_schedules_call i) ''next_token'' = opt_to_py PyStr (hlsi_next_token i)"
    "argument (list_schedules_call i) ''max_results'' = opt_to_py i32_to_py (hlsi_max_results i)"
    by (simp_all only: p)
  show ?thesis
    unfolding list_schedules_params_def
    by (simp add: param_reads [OF reads_str s a(1)]
        param_reads [OF reads_str s a(2)]
        param_reads [OF reads_enum s a(3)]
        param_reads [OF reads_str s a(4)]
        param_reads [OF reads_i32 s a(5)])
qed

lemma scheduler_list_tags_for_resource_delivered: "scheduler_list_tags_for_resource_params P S (scheduler_list_tags_for_resource_call i) = Inr i"
proof -
  have s: "str_keys (scheduler_list_tags_for_resource_call i)" by (simp add: scheduler_list_tags_for_resource_call_def)
  have a: "argument (scheduler_list_tags_for_resource_call i) ''resource_arn'' = opt_to_py PyStr (hsltfri_resource_arn i)"
    unfolding scheduler_list_tags_for_resource_call_def by (simp_all add: argument_py_params)
  show ?thesis
    unfolding scheduler_list_tags_for_resource_params_def
    by (simp add: param_reads [OF reads_str s a])
qed

lemma scheduler_tag_resource_delivered: "scheduler_tag_resource_params P S (scheduler_tag_resource_call i) = Inr i"
proof -
  have s: "str_keys (scheduler_tag_resource_call i)" by (simp add: scheduler_tag_resource_call_def)
  have a: "argument (scheduler_tag_resource_call i) ''resource_arn'' = opt_to_py PyStr (hstri_resource_arn i)"
    "argument (scheduler_tag_resource_call i) ''tags'' = opt_to_py (seq_to_py scheduler_tag_to_py) (hstri_tags i)"
    unfolding scheduler_tag_resource_call_def by (simp_all add: argument_py_params)
  show ?thesis
    unfolding scheduler_tag_resource_params_def
    by (simp add: param_reads [OF reads_str s a(1)]
        param_reads [OF reads_seq [OF scheduler_tag_reads] s a(2)])
qed

lemma scheduler_untag_resource_delivered: "scheduler_untag_resource_params P S (scheduler_untag_resource_call i) = Inr i"
proof -
  have s: "str_keys (scheduler_untag_resource_call i)" by (simp add: scheduler_untag_resource_call_def)
  have a: "argument (scheduler_untag_resource_call i) ''resource_arn'' = opt_to_py PyStr (hsuri_resource_arn i)"
    "argument (scheduler_untag_resource_call i) ''tag_keys'' = opt_to_py (seq_to_py PyStr) (hsuri_tag_keys i)"
    unfolding scheduler_untag_resource_call_def by (simp_all add: argument_py_params)
  show ?thesis
    unfolding scheduler_untag_resource_params_def
    by (simp add: param_reads [OF reads_str s a(1)]
        param_reads [OF reads_seq [OF reads_str] s a(2)])
qed

lemma update_schedule_delivered:
  assumes dates: "dates_ok S [husi_start_date i, husi_end_date i]"
  shows "update_schedule_params P S (update_schedule_call order S i) = Inr i"
proof -
  have s: "str_keys (update_schedule_call order S i)" by (simp add: update_schedule_call_def)
  note p = arguments [OF update_schedule_call_def [of order S i], simplified]
  have a: "argument (update_schedule_call order S i) ''name'' = opt_to_py PyStr (husi_name i)"
    "argument (update_schedule_call order S i) ''group_name'' = opt_to_py PyStr (husi_group_name i)"
    "argument (update_schedule_call order S i) ''schedule_expression'' = opt_to_py PyStr (husi_schedule_expression i)"
    "argument (update_schedule_call order S i) ''start_date'' = opt_to_py (datetime_to_py S) (husi_start_date i)"
    "argument (update_schedule_call order S i) ''end_date'' = opt_to_py (datetime_to_py S) (husi_end_date i)"
    "argument (update_schedule_call order S i) ''description'' = opt_to_py PyStr (husi_description i)"
    "argument (update_schedule_call order S i) ''schedule_expression_timezone'' = opt_to_py PyStr (husi_schedule_expression_timezone i)"
    "argument (update_schedule_call order S i) ''state'' = opt_to_py PyStr (husi_state i)"
    "argument (update_schedule_call order S i) ''kms_key_arn'' = opt_to_py PyStr (husi_kms_key_arn i)"
    "argument (update_schedule_call order S i) ''target'' = opt_to_py (target_to_py order) (husi_target i)"
    "argument (update_schedule_call order S i) ''flexible_time_window'' = opt_to_py flexible_time_window_to_py (husi_flexible_time_window i)"
    "argument (update_schedule_call order S i) ''client_token'' = opt_to_py PyStr (husi_client_token i)"
    "argument (update_schedule_call order S i) ''action_after_completion'' = opt_to_py PyStr (husi_action_after_completion i)"
    by (simp_all only: p)
  show ?thesis
    unfolding update_schedule_params_def update_schedule_params_1_def update_schedule_params_2_def
    by (simp add: param_reads [OF reads_str s a(1)]
        param_reads [OF reads_str s a(2)]
        param_reads [OF reads_str s a(3)]
        date_param [OF dates _ s a(4)]
        date_param [OF dates _ s a(5)]
        param_reads [OF reads_str s a(6)]
        param_reads [OF reads_str s a(7)]
        param_reads [OF reads_enum s a(8)]
        param_reads [OF reads_str s a(9)]
        param_reads [OF target_reads s a(10)]
        param_reads [OF flexible_time_window_reads s a(11)]
        param_reads [OF reads_str s a(12)]
        param_reads [OF reads_enum s a(13)])
qed

end

end
