(* ===== verification/SigninTypes.thy ===== *)
theory SigninTypes
  imports Scheduler
begin

text \<open>
  The structures of the Sign-In extension, from \<open>crates/rboto-signin/src/generated.rs\<close>: the converters
  between Python dictionaries and the SDK's structures, which are records with the members the code
  reads and sets. An enum of the SDK is its text, and \<open>order\<close> is the order in which the iterator of
  a \<open>HashMap\<close> yields its entries. The builders belong to the SDK and are the record \<open>signin_types\<close>.
\<close>

section \<open>Structures\<close>

record access_token =
  siat_access_key_id :: string
  siat_secret_access_key :: string
  siat_session_token :: string

record create_o_auth2_token_request_body =
  sicoatrb_client_id :: string
  sicoatrb_grant_type :: string
  sicoatrb_code :: "string option"
  sicoatrb_redirect_uri :: "string option"
  sicoatrb_code_verifier :: "string option"
  sicoatrb_refresh_token :: "string option"

record create_o_auth2_token_response_body =
  sicoatrb2_access_token :: "access_token option"
  sicoatrb2_token_type :: string
  sicoatrb2_expires_in :: "32 word"
  sicoatrb2_refresh_token :: string
  sicoatrb2_id_token :: "string option"

record permission_statement_summary =
  sipss_sid :: string
  sipss_condition :: "(string, (string, string list) fmap) fmap option"

record policy_statement =
  sips_effect :: "string option"
  sips_principal :: "(string, string) fmap option"
  sips_action :: "string list option"
  sips_resource :: "string option"
  sips_condition :: "(string, (string, string list) fmap) fmap option"

record signin_resource_based_policy =
  sisrbp_version :: "string option"
  sisrbp_statement :: "policy_statement list option"

record signin_types = smithy_dates +
  build_access_token :: "string option \<Rightarrow> string option \<Rightarrow> string option \<Rightarrow> unit + access_token"
  build_create_o_auth2_token_request_body :: "string option \<Rightarrow> string option \<Rightarrow> string option \<Rightarrow> string option \<Rightarrow> string option \<Rightarrow> string option \<Rightarrow> unit + create_o_auth2_token_request_body"
  build_create_o_auth2_token_response_body :: "access_token option \<Rightarrow> string option \<Rightarrow> 32 word option \<Rightarrow> string option \<Rightarrow> string option \<Rightarrow> unit + create_o_auth2_token_response_body"
  build_permission_statement_summary :: "string option \<Rightarrow> (string, (string, string list) fmap) fmap option \<Rightarrow> unit + permission_statement_summary"
  build_policy_statement :: "string option \<Rightarrow> (string, string) fmap option \<Rightarrow> string list option \<Rightarrow> string option \<Rightarrow> (string, (string, string list) fmap) fmap option \<Rightarrow> policy_statement"
  build_signin_resource_based_policy :: "string option \<Rightarrow> policy_statement list option \<Rightarrow> signin_resource_based_policy"

section \<open>Converters\<close>

definition access_token_from_py :: "pyo3 \<Rightarrow> signin_types \<Rightarrow> pyval \<Rightarrow> access_token pyresult" where
  "access_token_from_py P S value =
     and_then (cast_dict P value) (\<lambda>values.
     and_then (member P values ''access_key_id'' ''str'' (string_from_py P)) (\<lambda>access_key_id_value.
     and_then (member P values ''secret_access_key'' ''str'' (string_from_py P)) (\<lambda>secret_access_key_value.
     and_then (member P values ''session_token'' ''str'' (string_from_py P)) (\<lambda>session_token_value.
     map_err (\<lambda>_. input_builder_error P values
         [(''access_key_id'', ''access_key_id''), (''secret_access_key'', ''secret_access_key''), (''session_token'', ''session_token'')])
       (build_access_token S access_key_id_value secret_access_key_value session_token_value)))))"

definition access_token_to_py :: "access_token \<Rightarrow> pyval" where
  "access_token_to_py v = PyDict (py_dict
     [(''access_key_id'', PyStr (siat_access_key_id v)),
      (''secret_access_key'', PyStr (siat_secret_access_key v)),
      (''session_token'', PyStr (siat_session_token v))])"

definition create_o_auth2_token_request_body_from_py :: "pyo3 \<Rightarrow> signin_types \<Rightarrow> pyval \<Rightarrow> create_o_auth2_token_request_body pyresult" where
  "create_o_auth2_token_request_body_from_py P S value =
     and_then (cast_dict P value) (\<lambda>values.
     and_then (member P values ''client_id'' ''str'' (string_from_py P)) (\<lambda>client_id_value.
     and_then (member P values ''grant_type'' ''str'' (string_from_py P)) (\<lambda>grant_type_value.
     and_then (member P values ''code'' ''str'' (string_from_py P)) (\<lambda>code_value.
     and_then (member P values ''redirect_uri'' ''str'' (string_from_py P)) (\<lambda>redirect_uri_value.
     and_then (member P values ''code_verifier'' ''str'' (string_from_py P)) (\<lambda>code_verifier_value.
     and_then (member P values ''refresh_token'' ''str'' (string_from_py P)) (\<lambda>refresh_token_value.
     map_err (\<lambda>_. input_builder_error P values
         [(''client_id'', ''client_id''), (''grant_type'', ''grant_type'')])
       (build_create_o_auth2_token_request_body S client_id_value grant_type_value code_value redirect_uri_value code_verifier_value refresh_token_value))))))))"

definition create_o_auth2_token_request_body_to_py :: "create_o_auth2_token_request_body \<Rightarrow> pyval" where
  "create_o_auth2_token_request_body_to_py v = PyDict (py_dict
     [(''client_id'', PyStr (sicoatrb_client_id v)),
      (''grant_type'', PyStr (sicoatrb_grant_type v)),
      (''code'', opt_to_py PyStr (sicoatrb_code v)),
      (''redirect_uri'', opt_to_py PyStr (sicoatrb_redirect_uri v)),
      (''code_verifier'', opt_to_py PyStr (sicoatrb_code_verifier v)),
      (''refresh_token'', opt_to_py PyStr (sicoatrb_refresh_token v))])"

definition create_o_auth2_token_response_body_from_py :: "pyo3 \<Rightarrow> signin_types \<Rightarrow> pyval \<Rightarrow> create_o_auth2_token_response_body pyresult" where
  "create_o_auth2_token_response_body_from_py P S value =
     and_then (cast_dict P value) (\<lambda>values.
     and_then (member P values ''access_token'' ''dict (AccessToken)'' (access_token_from_py P S)) (\<lambda>access_token_value.
     and_then (member P values ''token_type'' ''str'' (string_from_py P)) (\<lambda>token_type_value.
     and_then (member P values ''expires_in'' ''int'' (i32_from_py P)) (\<lambda>expires_in_value.
     and_then (member P values ''refresh_token'' ''str'' (string_from_py P)) (\<lambda>refresh_token_value.
     and_then (member P values ''id_token'' ''str'' (string_from_py P)) (\<lambda>id_token_value.
     map_err (\<lambda>_. input_builder_error P values
         [(''token_type'', ''token_type''), (''expires_in'', ''expires_in''), (''refresh_token'', ''refresh_token'')])
       (build_create_o_auth2_token_response_body S access_token_value token_type_value expires_in_value refresh_token_value id_token_value)))))))"

definition create_o_auth2_token_response_body_to_py :: "create_o_auth2_token_response_body \<Rightarrow> pyval" where
  "create_o_auth2_token_response_body_to_py v = PyDict (py_dict
     [(''access_token'', opt_to_py access_token_to_py (sicoatrb2_access_token v)),
      (''token_type'', PyStr (sicoatrb2_token_type v)),
      (''expires_in'', i32_to_py (sicoatrb2_expires_in v)),
      (''refresh_token'', PyStr (sicoatrb2_refresh_token v)),
      (''id_token'', opt_to_py PyStr (sicoatrb2_id_token v))])"

definition permission_statement_summary_from_py :: "pyo3 \<Rightarrow> signin_types \<Rightarrow> pyval \<Rightarrow> permission_statement_summary pyresult" where
  "permission_statement_summary_from_py P S value =
     and_then (cast_dict P value) (\<lambda>values.
     and_then (member P values ''sid'' ''str'' (string_from_py P)) (\<lambda>sid_value.
     and_then (member P values ''condition'' ''dict'' (map_from_py P ''str'' ''dict'' (map_from_py P ''str'' ''sequence'' (seq_from_py P ''str'' (string_from_py P))))) (\<lambda>condition_value.
     map_err (\<lambda>_. input_builder_error P values
         [(''sid'', ''sid'')])
       (build_permission_statement_summary S sid_value condition_value))))"

definition permission_statement_summary_to_py :: "((string, pyval) fmap \<Rightarrow> (string \<times> pyval) list) \<Rightarrow> permission_statement_summary \<Rightarrow> pyval" where
  "permission_statement_summary_to_py order v = PyDict (py_dict
     [(''sid'', PyStr (sipss_sid v)),
      (''condition'', opt_to_py (mapping_to_py order (mapping_to_py order (seq_to_py PyStr))) (sipss_condition v))])"

definition policy_statement_from_py :: "pyo3 \<Rightarrow> signin_types \<Rightarrow> pyval \<Rightarrow> policy_statement pyresult" where
  "policy_statement_from_py P S value =
     and_then (cast_dict P value) (\<lambda>values.
     and_then (member P values ''effect'' ''str'' (string_from_py P)) (\<lambda>effect_value.
     and_then (member P values ''principal'' ''dict'' (map_from_py P ''str'' ''str'' (string_from_py P))) (\<lambda>principal_value.
     and_then (member P values ''action'' ''sequence'' (seq_from_py P ''str'' (string_from_py P))) (\<lambda>action_value.
     and_then (member P values ''resource'' ''str'' (string_from_py P)) (\<lambda>resource_value.
     and_then (member P values ''condition'' ''dict'' (map_from_py P ''str'' ''dict'' (map_from_py P ''str'' ''sequence'' (seq_from_py P ''str'' (string_from_py P))))) (\<lambda>condition_value.
     Inr (build_policy_statement S effect_value principal_value action_value resource_value condition_value)))))))"

definition policy_statement_to_py :: "((string, pyval) fmap \<Rightarrow> (string \<times> pyval) list) \<Rightarrow> policy_statement \<Rightarrow> pyval" where
  "policy_statement_to_py order v = PyDict (py_dict
     [(''effect'', opt_to_py PyStr (sips_effect v)),
      (''principal'', opt_to_py (mapping_to_py order PyStr) (sips_principal v)),
      (''action'', opt_to_py (seq_to_py PyStr) (sips_action v)),
      (''resource'', opt_to_py PyStr (sips_resource v)),
      (''condition'', opt_to_py (mapping_to_py order (mapping_to_py order (seq_to_py PyStr))) (sips_condition v))])"

definition signin_resource_based_policy_from_py :: "pyo3 \<Rightarrow> signin_types \<Rightarrow> pyval \<Rightarrow> signin_resource_based_policy pyresult" where
  "signin_resource_based_policy_from_py P S value =
     and_then (cast_dict P value) (\<lambda>values.
     and_then (member P values ''version'' ''str'' (string_from_py P)) (\<lambda>version_value.
     and_then (member P values ''statement'' ''sequence'' (seq_from_py P ''dict (PolicyStatement)'' (policy_statement_from_py P S))) (\<lambda>statement_value.
     Inr (build_signin_resource_based_policy S version_value statement_value))))"

definition signin_resource_based_policy_to_py :: "((string, pyval) fmap \<Rightarrow> (string \<times> pyval) list) \<Rightarrow> signin_resource_based_policy \<Rightarrow> pyval" where
  "signin_resource_based_policy_to_py order v = PyDict (py_dict
     [(''version'', opt_to_py PyStr (sisrbp_version v)),
      (''statement'', opt_to_py (seq_to_py (policy_statement_to_py order)) (sisrbp_statement v))])"

section \<open>Round trips\<close>

text \<open>What the builders document: a builder given every member the structure must have gives the
  structure with the members it was given, and one that lacks a required member fails.\<close>

locale signin_types_laws =
  fixes S :: signin_types
  assumes access_token_built: "build_access_token S (Some siat0) (Some siat1) (Some siat2) =
       Inr \<lparr>siat_access_key_id = siat0, siat_secret_access_key = siat1, siat_session_token = siat2\<rparr>"
    and create_o_auth2_token_request_body_built: "build_create_o_auth2_token_request_body S (Some sicoatrb0) (Some sicoatrb1) sicoatrb2 sicoatrb3 sicoatrb4 sicoatrb5 =
       Inr \<lparr>sicoatrb_client_id = sicoatrb0, sicoatrb_grant_type = sicoatrb1, sicoatrb_code = sicoatrb2, sicoatrb_redirect_uri = sicoatrb3, sicoatrb_code_verifier = sicoatrb4, sicoatrb_refresh_token = sicoatrb5\<rparr>"
    and create_o_auth2_token_response_body_built: "build_create_o_auth2_token_response_body S sicoatrb20 (Some sicoatrb21) (Some sicoatrb22) (Some sicoatrb23) sicoatrb24 =
       Inr \<lparr>sicoatrb2_access_token = sicoatrb20, sicoatrb2_token_type = sicoatrb21, sicoatrb2_expires_in = sicoatrb22, sicoatrb2_refresh_token = sicoatrb23, sicoatrb2_id_token = sicoatrb24\<rparr>"
    and permission_statement_summary_built: "build_permission_statement_summary S (Some sipss0) sipss1 =
       Inr \<lparr>sipss_sid = sipss0, sipss_condition = sipss1\<rparr>"
    and policy_statement_built: "build_policy_statement S sips0 sips1 sips2 sips3 sips4 =
       \<lparr>sips_effect = sips0, sips_principal = sips1, sips_action = sips2, sips_resource = sips3, sips_condition = sips4\<rparr>"
    and signin_resource_based_policy_built: "build_signin_resource_based_policy S sisrbp0 sisrbp1 =
       \<lparr>sisrbp_version = sisrbp0, sisrbp_statement = sisrbp1\<rparr>"
    and access_token_incomplete: "osiat0 = None \<or> osiat1 = None \<or> osiat2 = None \<Longrightarrow>
       build_access_token S osiat0 osiat1 osiat2 = Inl ()"
    and create_o_auth2_token_request_body_incomplete: "osicoatrb0 = None \<or> osicoatrb1 = None \<Longrightarrow>
       build_create_o_auth2_token_request_body S osicoatrb0 osicoatrb1 osicoatrb2 osicoatrb3 osicoatrb4 osicoatrb5 = Inl ()"
    and create_o_auth2_token_response_body_incomplete: "osicoatrb21 = None \<or> osicoatrb22 = None \<or> osicoatrb23 = None \<Longrightarrow>
       build_create_o_auth2_token_response_body S osicoatrb20 osicoatrb21 osicoatrb22 osicoatrb23 osicoatrb24 = Inl ()"
    and permission_statement_summary_incomplete: "osipss0 = None \<Longrightarrow>
       build_permission_statement_summary S osipss0 osipss1 = Inl ()"

text \<open>A concrete SDK.\<close>

definition signin_std :: signin_types where
  "signin_std =
     \<lparr>parse_datetime = (\<lambda>s. Inr (int (digits_value s), 0)),
      show_datetime = (\<lambda>d. show_nat (nat (fst d))),
      build_access_token = (\<lambda>a0 a1 a2. if a0 = None \<or> a1 = None \<or> a2 = None then Inl ()
        else Inr \<lparr>siat_access_key_id = the a0, siat_secret_access_key = the a1, siat_session_token = the a2\<rparr>),
      build_create_o_auth2_token_request_body = (\<lambda>a0 a1 a2 a3 a4 a5. if a0 = None \<or> a1 = None then Inl ()
        else Inr \<lparr>sicoatrb_client_id = the a0, sicoatrb_grant_type = the a1, sicoatrb_code = a2, sicoatrb_redirect_uri = a3, sicoatrb_code_verifier = a4, sicoatrb_refresh_token = a5\<rparr>),
      build_create_o_auth2_token_response_body = (\<lambda>a0 a1 a2 a3 a4. if a1 = None \<or> a2 = None \<or> a3 = None then Inl ()
        else Inr \<lparr>sicoatrb2_access_token = a0, sicoatrb2_token_type = the a1, sicoatrb2_expires_in = the a2, sicoatrb2_refresh_token = the a3, sicoatrb2_id_token = a4\<rparr>),
      build_permission_statement_summary = (\<lambda>a0 a1. if a0 = None then Inl ()
        else Inr \<lparr>sipss_sid = the a0, sipss_condition = a1\<rparr>),
      build_policy_statement = (\<lambda>a0 a1 a2 a3 a4. \<lparr>sips_effect = a0, sips_principal = a1, sips_action = a2, sips_resource = a3, sips_condition = a4\<rparr>),
      build_signin_resource_based_policy = (\<lambda>a0 a1. \<lparr>sisrbp_version = a0, sisrbp_statement = a1\<rparr>)\<rparr>"

interpretation std_signin: signin_types_laws signin_std
  by unfold_locales (auto simp: signin_std_def unwrap_or_def)

locale signin_conversions = pyo3_laws P + signin_types_laws S for P S +
  fixes order :: "(string, pyval) fmap \<Rightarrow> (string \<times> pyval) list"
  assumes order: "iterates order"
begin

lemma access_token_reads: "reads (access_token_from_py P S) (access_token_to_py)"
proof (rule readsI)
  show "access_token_to_py v \<noteq> PyNone" for v
    by (simp add: access_token_to_py_def)
  show "access_token_from_py P S (access_token_to_py v) = Inr v" for v
    by (cases v) (simp add: access_token_from_py_def access_token_to_py_def dict_ok py_dict_distinct access_token_built
        member_reads_given [OF reads_str])
qed

lemma create_o_auth2_token_request_body_reads: "reads (create_o_auth2_token_request_body_from_py P S) (create_o_auth2_token_request_body_to_py)"
proof (rule readsI)
  show "create_o_auth2_token_request_body_to_py v \<noteq> PyNone" for v
    by (simp add: create_o_auth2_token_request_body_to_py_def)
  show "create_o_auth2_token_request_body_from_py P S (create_o_auth2_token_request_body_to_py v) = Inr v" for v
    by (cases v) (simp add: create_o_auth2_token_request_body_from_py_def create_o_auth2_token_request_body_to_py_def dict_ok py_dict_distinct create_o_auth2_token_request_body_built
        member_reads_given [OF reads_str]
        member_reads [OF reads_str])
qed

lemma create_o_auth2_token_response_body_reads: "reads (create_o_auth2_token_response_body_from_py P S) (create_o_auth2_token_response_body_to_py)"
proof (rule readsI)
  show "create_o_auth2_token_response_body_to_py v \<noteq> PyNone" for v
    by (simp add: create_o_auth2_token_response_body_to_py_def)
  show "create_o_auth2_token_response_body_from_py P S (create_o_auth2_token_response_body_to_py v) = Inr v" for v
    by (cases v) (simp add: create_o_auth2_token_response_body_from_py_def create_o_auth2_token_response_body_to_py_def dict_ok py_dict_distinct create_o_auth2_token_response_body_built
        member_reads [OF access_token_reads]
        member_reads_given [OF reads_str]
        member_reads_given [OF reads_i32]
        member_reads [OF reads_str])
qed

lemma permission_statement_summary_reads: "reads (permission_statement_summary_from_py P S) (permission_statement_summary_to_py order)"
proof (rule readsI)
  show "permission_statement_summary_to_py order v \<noteq> PyNone" for v
    by (simp add: permission_statement_summary_to_py_def)
  show "permission_statement_summary_from_py P S (permission_statement_summary_to_py order v) = Inr v" for v
    by (cases v) (simp add: permission_statement_summary_from_py_def permission_statement_summary_to_py_def dict_ok py_dict_distinct permission_statement_summary_built
        member_reads_given [OF reads_str]
        member_reads [OF reads_map [OF order reads_map [OF order reads_seq [OF reads_str]]]])
qed

lemma policy_statement_reads: "reads (policy_statement_from_py P S) (policy_statement_to_py order)"
proof (rule readsI)
  show "policy_statement_to_py order v \<noteq> PyNone" for v
    by (simp add: policy_statement_to_py_def)
  show "policy_statement_from_py P S (policy_statement_to_py order v) = Inr v" for v
    by (cases v) (simp add: policy_statement_from_py_def policy_statement_to_py_def dict_ok py_dict_distinct policy_statement_built
        member_reads [OF reads_str]
        member_reads [OF reads_map [OF order reads_str]]
        member_reads [OF reads_seq [OF reads_str]]
        member_reads [OF reads_map [OF order reads_map [OF order reads_seq [OF reads_str]]]])
qed

lemma signin_resource_based_policy_reads: "reads (signin_resource_based_policy_from_py P S) (signin_resource_based_policy_to_py order)"
proof (rule readsI)
  show "signin_resource_based_policy_to_py order v \<noteq> PyNone" for v
    by (simp add: signin_resource_based_policy_to_py_def)
  show "signin_resource_based_policy_from_py P S (signin_resource_based_policy_to_py order v) = Inr v" for v
    by (cases v) (simp add: signin_resource_based_policy_from_py_def signin_resource_based_policy_to_py_def dict_ok py_dict_distinct signin_resource_based_policy_built
        member_reads [OF reads_str]
        member_reads [OF reads_seq [OF policy_statement_reads]])
qed

end

interpretation std_signin_conv: signin_conversions pyo3_std signin_std by_key
  by (intro signin_conversions.intro signin_conversions_axioms.intro std.pyo3_laws_axioms std_signin.signin_types_laws_axioms iterates_by_key)

end
