(* ===== verification/SigninOutputs.thy ===== *)
theory SigninOutputs
  imports SigninTypes
begin

text \<open>
  The response objects of the Sign-In extension, from \<open>crates/rboto-signin/src/generated.rs\<close>: per class, the
  fields it holds, its getters in order, and \<open>to_dict\<close>. A getter of structures gives objects that
  share them (\<open>Arc::clone\<close>), one per structure of a list or mapping; every other getter gives a
  plain value, and an absent one is \<open>None\<close>. Integers whose width the code does not show are \<open>int\<close>.
\<close>

section \<open>Attributes\<close>

datatype signin_object =
    SigninAccessToken access_token
  | SigninCreateOAuth2TokenResponseBody create_o_auth2_token_response_body
  | SigninPermissionStatementSummary permission_statement_summary
  | SigninPolicyStatement policy_statement
  | SigninSigninResourceBasedPolicy signin_resource_based_policy

datatype signin_attr =
    SigninPlain pyval
  | SigninObject signin_object
  | SigninObjects "signin_object list"
  | SigninObjectMap "(string, signin_object) fmap"

definition signin_opt_attr :: "('a \<Rightarrow> signin_attr) \<Rightarrow> 'a option \<Rightarrow> signin_attr" where
  "signin_opt_attr f v = (case v of None \<Rightarrow> SigninPlain PyNone | Some x \<Rightarrow> f x)"

section \<open>\<open>AccessToken\<close>\<close>

definition access_token_attributes :: "((string, pyval) fmap \<Rightarrow> (string \<times> pyval) list) \<Rightarrow> signin_types \<Rightarrow> access_token \<Rightarrow> (string \<times> signin_attr) list" where
  "access_token_attributes order S v =
     [(''access_key_id'', SigninPlain (PyStr (siat_access_key_id v))),
      (''secret_access_key'', SigninPlain (PyStr (siat_secret_access_key v))),
      (''session_token'', SigninPlain (PyStr (siat_session_token v)))]"

definition access_token_to_dict :: "((string, pyval) fmap \<Rightarrow> (string \<times> pyval) list) \<Rightarrow> signin_types \<Rightarrow> access_token \<Rightarrow> pyval" where
  "access_token_to_dict order S v = access_token_to_py v"

section \<open>\<open>CreateOAuth2TokenResponseBody\<close>\<close>

definition create_o_auth2_token_response_body_attributes :: "((string, pyval) fmap \<Rightarrow> (string \<times> pyval) list) \<Rightarrow> signin_types \<Rightarrow> create_o_auth2_token_response_body \<Rightarrow> (string \<times> signin_attr) list" where
  "create_o_auth2_token_response_body_attributes order S v =
     [(''access_token'', signin_opt_attr (\<lambda>x. SigninObject (SigninAccessToken x)) (sicoatrb2_access_token v)),
      (''token_type'', SigninPlain (PyStr (sicoatrb2_token_type v))),
      (''expires_in'', SigninPlain (i32_to_py (sicoatrb2_expires_in v))),
      (''refresh_token'', SigninPlain (PyStr (sicoatrb2_refresh_token v))),
      (''id_token'', SigninPlain (opt_to_py PyStr (sicoatrb2_id_token v)))]"

definition create_o_auth2_token_response_body_to_dict :: "((string, pyval) fmap \<Rightarrow> (string \<times> pyval) list) \<Rightarrow> signin_types \<Rightarrow> create_o_auth2_token_response_body \<Rightarrow> pyval" where
  "create_o_auth2_token_response_body_to_dict order S v = create_o_auth2_token_response_body_to_py v"

section \<open>\<open>PermissionStatementSummary\<close>\<close>

definition permission_statement_summary_attributes :: "((string, pyval) fmap \<Rightarrow> (string \<times> pyval) list) \<Rightarrow> signin_types \<Rightarrow> permission_statement_summary \<Rightarrow> (string \<times> signin_attr) list" where
  "permission_statement_summary_attributes order S v =
     [(''sid'', SigninPlain (PyStr (sipss_sid v))),
      (''condition'', SigninPlain (opt_to_py (mapping_to_py order (mapping_to_py order (seq_to_py PyStr))) (sipss_condition v)))]"

definition permission_statement_summary_to_dict :: "((string, pyval) fmap \<Rightarrow> (string \<times> pyval) list) \<Rightarrow> signin_types \<Rightarrow> permission_statement_summary \<Rightarrow> pyval" where
  "permission_statement_summary_to_dict order S v = permission_statement_summary_to_py order v"

section \<open>\<open>PolicyStatement\<close>\<close>

definition policy_statement_attributes :: "((string, pyval) fmap \<Rightarrow> (string \<times> pyval) list) \<Rightarrow> signin_types \<Rightarrow> policy_statement \<Rightarrow> (string \<times> signin_attr) list" where
  "policy_statement_attributes order S v =
     [(''effect'', SigninPlain (opt_to_py PyStr (sips_effect v))),
      (''principal'', SigninPlain (opt_to_py (mapping_to_py order PyStr) (sips_principal v))),
      (''action'', SigninPlain (opt_to_py (seq_to_py PyStr) (sips_action v))),
      (''resource'', SigninPlain (opt_to_py PyStr (sips_resource v))),
      (''condition'', SigninPlain (opt_to_py (mapping_to_py order (mapping_to_py order (seq_to_py PyStr))) (sips_condition v)))]"

definition policy_statement_to_dict :: "((string, pyval) fmap \<Rightarrow> (string \<times> pyval) list) \<Rightarrow> signin_types \<Rightarrow> policy_statement \<Rightarrow> pyval" where
  "policy_statement_to_dict order S v = policy_statement_to_py order v"

section \<open>\<open>SigninResourceBasedPolicy\<close>\<close>

definition signin_resource_based_policy_attributes :: "((string, pyval) fmap \<Rightarrow> (string \<times> pyval) list) \<Rightarrow> signin_types \<Rightarrow> signin_resource_based_policy \<Rightarrow> (string \<times> signin_attr) list" where
  "signin_resource_based_policy_attributes order S v =
     [(''version'', SigninPlain (opt_to_py PyStr (sisrbp_version v))),
      (''statement'', signin_opt_attr (\<lambda>xs. SigninObjects (map SigninPolicyStatement xs)) (sisrbp_statement v))]"

definition signin_resource_based_policy_to_dict :: "((string, pyval) fmap \<Rightarrow> (string \<times> pyval) list) \<Rightarrow> signin_types \<Rightarrow> signin_resource_based_policy \<Rightarrow> pyval" where
  "signin_resource_based_policy_to_dict order S v = signin_resource_based_policy_to_py order v"

section \<open>\<open>CreateOAuth2TokenOutput\<close>\<close>

record create_oauth2_token_output =
  sicoto_token_output :: "create_o_auth2_token_response_body option"

definition create_oauth2_token_output_attributes :: "((string, pyval) fmap \<Rightarrow> (string \<times> pyval) list) \<Rightarrow> signin_types \<Rightarrow> create_oauth2_token_output \<Rightarrow> (string \<times> signin_attr) list" where
  "create_oauth2_token_output_attributes order S v =
     [(''token_output'', signin_opt_attr (\<lambda>x. SigninObject (SigninCreateOAuth2TokenResponseBody x)) (sicoto_token_output v))]"

definition create_oauth2_token_output_to_dict :: "((string, pyval) fmap \<Rightarrow> (string \<times> pyval) list) \<Rightarrow> signin_types \<Rightarrow> create_oauth2_token_output \<Rightarrow> pyval" where
  "create_oauth2_token_output_to_dict order S v = PyDict (py_dict
     [(''token_output'', opt_to_py create_o_auth2_token_response_body_to_py (sicoto_token_output v))])"

section \<open>\<open>CreateOAuth2TokenWithIAMOutput\<close>\<close>

record create_oauth2_token_with_iamoutput =
  sicotwi_access_token :: string
  sicotwi_token_type :: string
  sicotwi_expires_in :: int

definition create_oauth2_token_with_iamoutput_attributes :: "((string, pyval) fmap \<Rightarrow> (string \<times> pyval) list) \<Rightarrow> signin_types \<Rightarrow> create_oauth2_token_with_iamoutput \<Rightarrow> (string \<times> signin_attr) list" where
  "create_oauth2_token_with_iamoutput_attributes order S v =
     [(''access_token'', SigninPlain (PyStr (sicotwi_access_token v))),
      (''token_type'', SigninPlain (PyStr (sicotwi_token_type v))),
      (''expires_in'', SigninPlain (PyInt (sicotwi_expires_in v)))]"

definition create_oauth2_token_with_iamoutput_to_dict :: "((string, pyval) fmap \<Rightarrow> (string \<times> pyval) list) \<Rightarrow> signin_types \<Rightarrow> create_oauth2_token_with_iamoutput \<Rightarrow> pyval" where
  "create_oauth2_token_with_iamoutput_to_dict order S v = PyDict (py_dict
     [(''access_token'', PyStr (sicotwi_access_token v)),
      (''token_type'', PyStr (sicotwi_token_type v)),
      (''expires_in'', PyInt (sicotwi_expires_in v))])"

section \<open>\<open>DeleteConsoleAuthorizationConfigurationOutput\<close>\<close>

record delete_console_authorization_configuration_output =
  sidcaco_target_id :: string
  sidcaco_scope :: string
  sidcaco_console_authorization_enabled :: bool

definition delete_console_authorization_configuration_output_attributes :: "((string, pyval) fmap \<Rightarrow> (string \<times> pyval) list) \<Rightarrow> signin_types \<Rightarrow> delete_console_authorization_configuration_output \<Rightarrow> (string \<times> signin_attr) list" where
  "delete_console_authorization_configuration_output_attributes order S v =
     [(''target_id'', SigninPlain (PyStr (sidcaco_target_id v))),
      (''scope'', SigninPlain (PyStr (sidcaco_scope v))),
      (''console_authorization_enabled'', SigninPlain (PyBool (sidcaco_console_authorization_enabled v)))]"

definition delete_console_authorization_configuration_output_to_dict :: "((string, pyval) fmap \<Rightarrow> (string \<times> pyval) list) \<Rightarrow> signin_types \<Rightarrow> delete_console_authorization_configuration_output \<Rightarrow> pyval" where
  "delete_console_authorization_configuration_output_to_dict order S v = PyDict (py_dict
     [(''target_id'', PyStr (sidcaco_target_id v)),
      (''scope'', PyStr (sidcaco_scope v)),
      (''console_authorization_enabled'', PyBool (sidcaco_console_authorization_enabled v))])"

section \<open>\<open>DeleteResourcePermissionStatementOutput\<close>\<close>

datatype delete_resource_permission_statement_output = DeleteResourcePermissionStatementOutput

definition delete_resource_permission_statement_output_attributes :: "((string, pyval) fmap \<Rightarrow> (string \<times> pyval) list) \<Rightarrow> signin_types \<Rightarrow> delete_resource_permission_statement_output \<Rightarrow> (string \<times> signin_attr) list" where
  "delete_resource_permission_statement_output_attributes order S v = []"

definition delete_resource_permission_statement_output_to_dict :: "((string, pyval) fmap \<Rightarrow> (string \<times> pyval) list) \<Rightarrow> signin_types \<Rightarrow> delete_resource_permission_statement_output \<Rightarrow> pyval" where
  "delete_resource_permission_statement_output_to_dict order S v = PyDict (py_dict [])"

section \<open>\<open>GetConsoleAuthorizationConfigurationOutput\<close>\<close>

record get_console_authorization_configuration_output =
  sigcaco_target_id :: string
  sigcaco_scope :: string
  sigcaco_console_authorization_enabled :: bool

definition get_console_authorization_configuration_output_attributes :: "((string, pyval) fmap \<Rightarrow> (string \<times> pyval) list) \<Rightarrow> signin_types \<Rightarrow> get_console_authorization_configuration_output \<Rightarrow> (string \<times> signin_attr) list" where
  "get_console_authorization_configuration_output_attributes order S v =
     [(''target_id'', SigninPlain (PyStr (sigcaco_target_id v))),
      (''scope'', SigninPlain (PyStr (sigcaco_scope v))),
      (''console_authorization_enabled'', SigninPlain (PyBool (sigcaco_console_authorization_enabled v)))]"

definition get_console_authorization_configuration_output_to_dict :: "((string, pyval) fmap \<Rightarrow> (string \<times> pyval) list) \<Rightarrow> signin_types \<Rightarrow> get_console_authorization_configuration_output \<Rightarrow> pyval" where
  "get_console_authorization_configuration_output_to_dict order S v = PyDict (py_dict
     [(''target_id'', PyStr (sigcaco_target_id v)),
      (''scope'', PyStr (sigcaco_scope v)),
      (''console_authorization_enabled'', PyBool (sigcaco_console_authorization_enabled v))])"

section \<open>\<open>GetResourcePolicyOutput\<close>\<close>

record signin_get_resource_policy_output =
  sisgrpo_signin_resource_based_policy :: "signin_resource_based_policy option"

definition signin_get_resource_policy_output_attributes :: "((string, pyval) fmap \<Rightarrow> (string \<times> pyval) list) \<Rightarrow> signin_types \<Rightarrow> signin_get_resource_policy_output \<Rightarrow> (string \<times> signin_attr) list" where
  "signin_get_resource_policy_output_attributes order S v =
     [(''signin_resource_based_policy'', signin_opt_attr (\<lambda>x. SigninObject (SigninSigninResourceBasedPolicy x)) (sisgrpo_signin_resource_based_policy v))]"

definition signin_get_resource_policy_output_to_dict :: "((string, pyval) fmap \<Rightarrow> (string \<times> pyval) list) \<Rightarrow> signin_types \<Rightarrow> signin_get_resource_policy_output \<Rightarrow> pyval" where
  "signin_get_resource_policy_output_to_dict order S v = PyDict (py_dict
     [(''signin_resource_based_policy'', opt_to_py (signin_resource_based_policy_to_py order) (sisgrpo_signin_resource_based_policy v))])"

section \<open>\<open>IntrospectOAuth2TokenWithIAMOutput\<close>\<close>

record introspect_oauth2_token_with_iamoutput =
  siiotwi_active :: bool
  siiotwi_client_id :: "string option"
  siiotwi_user_id :: "string option"
  siiotwi_token_type :: "string option"
  siiotwi_exp :: "int option"
  siiotwi_iat :: "int option"
  siiotwi_nbf :: "int option"
  siiotwi_sub :: "string option"
  siiotwi_aud :: "string option"
  siiotwi_iss :: "string option"
  siiotwi_jti :: "string option"
  siiotwi_account_id :: "string option"
  siiotwi_signin_session :: "string option"
  siiotwi_resource :: "string option"

definition introspect_oauth2_token_with_iamoutput_attributes :: "((string, pyval) fmap \<Rightarrow> (string \<times> pyval) list) \<Rightarrow> signin_types \<Rightarrow> introspect_oauth2_token_with_iamoutput \<Rightarrow> (string \<times> signin_attr) list" where
  "introspect_oauth2_token_with_iamoutput_attributes order S v =
     [(''active'', SigninPlain (PyBool (siiotwi_active v))),
      (''client_id'', SigninPlain (opt_to_py PyStr (siiotwi_client_id v))),
      (''user_id'', SigninPlain (opt_to_py PyStr (siiotwi_user_id v))),
      (''token_type'', SigninPlain (opt_to_py PyStr (siiotwi_token_type v))),
      (''exp'', SigninPlain (opt_to_py PyInt (siiotwi_exp v))),
      (''iat'', SigninPlain (opt_to_py PyInt (siiotwi_iat v))),
      (''nbf'', SigninPlain (opt_to_py PyInt (siiotwi_nbf v))),
      (''sub'', SigninPlain (opt_to_py PyStr (siiotwi_sub v))),
      (''aud'', SigninPlain (opt_to_py PyStr (siiotwi_aud v))),
      (''iss'', SigninPlain (opt_to_py PyStr (siiotwi_iss v))),
      (''jti'', SigninPlain (opt_to_py PyStr (siiotwi_jti v))),
      (''account_id'', SigninPlain (opt_to_py PyStr (siiotwi_account_id v))),
      (''signin_session'', SigninPlain (opt_to_py PyStr (siiotwi_signin_session v))),
      (''resource'', SigninPlain (opt_to_py PyStr (siiotwi_resource v)))]"

definition introspect_oauth2_token_with_iamoutput_to_dict :: "((string, pyval) fmap \<Rightarrow> (string \<times> pyval) list) \<Rightarrow> signin_types \<Rightarrow> introspect_oauth2_token_with_iamoutput \<Rightarrow> pyval" where
  "introspect_oauth2_token_with_iamoutput_to_dict order S v = PyDict (py_dict
     [(''active'', PyBool (siiotwi_active v)),
      (''client_id'', opt_to_py PyStr (siiotwi_client_id v)),
      (''user_id'', opt_to_py PyStr (siiotwi_user_id v)),
      (''token_type'', opt_to_py PyStr (siiotwi_token_type v)),
      (''exp'', opt_to_py PyInt (siiotwi_exp v)),
      (''iat'', opt_to_py PyInt (siiotwi_iat v)),
      (''nbf'', opt_to_py PyInt (siiotwi_nbf v)),
      (''sub'', opt_to_py PyStr (siiotwi_sub v)),
      (''aud'', opt_to_py PyStr (siiotwi_aud v)),
      (''iss'', opt_to_py PyStr (siiotwi_iss v)),
      (''jti'', opt_to_py PyStr (siiotwi_jti v)),
      (''account_id'', opt_to_py PyStr (siiotwi_account_id v)),
      (''signin_session'', opt_to_py PyStr (siiotwi_signin_session v)),
      (''resource'', opt_to_py PyStr (siiotwi_resource v))])"

section \<open>\<open>ListResourcePermissionStatementsOutput\<close>\<close>

record list_resource_permission_statements_output =
  silrpso_permission_statements :: "permission_statement_summary list"
  silrpso_next_token :: "string option"

definition list_resource_permission_statements_output_attributes :: "((string, pyval) fmap \<Rightarrow> (string \<times> pyval) list) \<Rightarrow> signin_types \<Rightarrow> list_resource_permission_statements_output \<Rightarrow> (string \<times> signin_attr) list" where
  "list_resource_permission_statements_output_attributes order S v =
     [(''permission_statements'', SigninObjects (map SigninPermissionStatementSummary (silrpso_permission_statements v))),
      (''next_token'', SigninPlain (opt_to_py PyStr (silrpso_next_token v)))]"

definition list_resource_permission_statements_output_to_dict :: "((string, pyval) fmap \<Rightarrow> (string \<times> pyval) list) \<Rightarrow> signin_types \<Rightarrow> list_resource_permission_statements_output \<Rightarrow> pyval" where
  "list_resource_permission_statements_output_to_dict order S v = PyDict (py_dict
     [(''permission_statements'', seq_to_py (permission_statement_summary_to_py order) (silrpso_permission_statements v)),
      (''next_token'', opt_to_py PyStr (silrpso_next_token v))])"

section \<open>\<open>PutConsoleAuthorizationConfigurationOutput\<close>\<close>

record put_console_authorization_configuration_output =
  sipcaco_target_id :: string
  sipcaco_scope :: string
  sipcaco_console_authorization_enabled :: bool

definition put_console_authorization_configuration_output_attributes :: "((string, pyval) fmap \<Rightarrow> (string \<times> pyval) list) \<Rightarrow> signin_types \<Rightarrow> put_console_authorization_configuration_output \<Rightarrow> (string \<times> signin_attr) list" where
  "put_console_authorization_configuration_output_attributes order S v =
     [(''target_id'', SigninPlain (PyStr (sipcaco_target_id v))),
      (''scope'', SigninPlain (PyStr (sipcaco_scope v))),
      (''console_authorization_enabled'', SigninPlain (PyBool (sipcaco_console_authorization_enabled v)))]"

definition put_console_authorization_configuration_output_to_dict :: "((string, pyval) fmap \<Rightarrow> (string \<times> pyval) list) \<Rightarrow> signin_types \<Rightarrow> put_console_authorization_configuration_output \<Rightarrow> pyval" where
  "put_console_authorization_configuration_output_to_dict order S v = PyDict (py_dict
     [(''target_id'', PyStr (sipcaco_target_id v)),
      (''scope'', PyStr (sipcaco_scope v)),
      (''console_authorization_enabled'', PyBool (sipcaco_console_authorization_enabled v))])"

section \<open>\<open>PutResourcePermissionStatementOutput\<close>\<close>

record put_resource_permission_statement_output =
  siprpso_statement_id :: string

definition put_resource_permission_statement_output_attributes :: "((string, pyval) fmap \<Rightarrow> (string \<times> pyval) list) \<Rightarrow> signin_types \<Rightarrow> put_resource_permission_statement_output \<Rightarrow> (string \<times> signin_attr) list" where
  "put_resource_permission_statement_output_attributes order S v =
     [(''statement_id'', SigninPlain (PyStr (siprpso_statement_id v)))]"

definition put_resource_permission_statement_output_to_dict :: "((string, pyval) fmap \<Rightarrow> (string \<times> pyval) list) \<Rightarrow> signin_types \<Rightarrow> put_resource_permission_statement_output \<Rightarrow> pyval" where
  "put_resource_permission_statement_output_to_dict order S v = PyDict (py_dict
     [(''statement_id'', PyStr (siprpso_statement_id v))])"

section \<open>\<open>RevokeOAuth2TokenWithIAMOutput\<close>\<close>

datatype revoke_oauth2_token_with_iamoutput = RevokeOauth2TokenWithIamoutput

definition revoke_oauth2_token_with_iamoutput_attributes :: "((string, pyval) fmap \<Rightarrow> (string \<times> pyval) list) \<Rightarrow> signin_types \<Rightarrow> revoke_oauth2_token_with_iamoutput \<Rightarrow> (string \<times> signin_attr) list" where
  "revoke_oauth2_token_with_iamoutput_attributes order S v = []"

definition revoke_oauth2_token_with_iamoutput_to_dict :: "((string, pyval) fmap \<Rightarrow> (string \<times> pyval) list) \<Rightarrow> signin_types \<Rightarrow> revoke_oauth2_token_with_iamoutput \<Rightarrow> pyval" where
  "revoke_oauth2_token_with_iamoutput_to_dict order S v = PyDict (py_dict [])"

section \<open>Dictionaries and attributes agree\<close>

text \<open>The plain value of an object is what its own \<open>to_dict\<close> gives.\<close>

fun signin_render_object :: "((string, pyval) fmap \<Rightarrow> (string \<times> pyval) list) \<Rightarrow> signin_types \<Rightarrow> signin_object \<Rightarrow> pyval" where
  "signin_render_object order S (SigninAccessToken v) = access_token_to_dict order S v"
| "signin_render_object order S (SigninCreateOAuth2TokenResponseBody v) = create_o_auth2_token_response_body_to_dict order S v"
| "signin_render_object order S (SigninPermissionStatementSummary v) = permission_statement_summary_to_dict order S v"
| "signin_render_object order S (SigninPolicyStatement v) = policy_statement_to_dict order S v"
| "signin_render_object order S (SigninSigninResourceBasedPolicy v) = signin_resource_based_policy_to_dict order S v"

fun signin_render :: "((string, pyval) fmap \<Rightarrow> (string \<times> pyval) list) \<Rightarrow> signin_types \<Rightarrow> signin_attr \<Rightarrow> pyval" where
  "signin_render order S (SigninPlain v) = v"
| "signin_render order S (SigninObject x) = signin_render_object order S x"
| "signin_render order S (SigninObjects xs) = seq_to_py (signin_render_object order S) xs"
| "signin_render order S (SigninObjectMap m) = mapping_to_py order (signin_render_object order S) m"

lemma signin_render_parts [simp]:
  "signin_render order S (signin_opt_attr f v) = opt_to_py (\<lambda>x. signin_render order S (f x)) v"
  "seq_to_py g (map h xs) = seq_to_py (\<lambda>x. g (h x)) xs"
  "mapping_to_py order g (fmmap k m) = mapping_to_py order (\<lambda>x. g (k x)) m"
  by (simp_all add: signin_opt_attr_def seq_to_py_def mapping_to_py_def fmap.map_comp comp_def split: option.splits)

definition signin_attribute_dict :: "((string, pyval) fmap \<Rightarrow> (string \<times> pyval) list) \<Rightarrow> signin_types \<Rightarrow> (string \<times> signin_attr) list \<Rightarrow> pyval" where
  "signin_attribute_dict order S attrs = PyDict (map (\<lambda>(name, a). (PyStr name, signin_render order S a)) attrs)"

text \<open>
  For each of the 16 response classes, \<open>to_dict\<close> has exactly one entry per attribute, in the order of
  the getters, with the attribute's value: the value itself, or the dictionaries of the objects.
\<close>

lemma access_token_agrees:
  "access_token_to_dict order S v = signin_attribute_dict order S (access_token_attributes order S v)"
  by (simp add: signin_attribute_dict_def py_dict_distinct access_token_to_dict_def access_token_attributes_def
      access_token_to_py_def)

lemma create_o_auth2_token_response_body_agrees:
  "create_o_auth2_token_response_body_to_dict order S v = signin_attribute_dict order S (create_o_auth2_token_response_body_attributes order S v)"
  by (simp add: signin_attribute_dict_def py_dict_distinct create_o_auth2_token_response_body_to_dict_def create_o_auth2_token_response_body_attributes_def
      create_o_auth2_token_response_body_to_py_def access_token_to_dict_def)

lemma permission_statement_summary_agrees:
  "permission_statement_summary_to_dict order S v = signin_attribute_dict order S (permission_statement_summary_attributes order S v)"
  by (simp add: signin_attribute_dict_def py_dict_distinct permission_statement_summary_to_dict_def permission_statement_summary_attributes_def
      permission_statement_summary_to_py_def)

lemma policy_statement_agrees:
  "policy_statement_to_dict order S v = signin_attribute_dict order S (policy_statement_attributes order S v)"
  by (simp add: signin_attribute_dict_def py_dict_distinct policy_statement_to_dict_def policy_statement_attributes_def
      policy_statement_to_py_def)

lemma signin_resource_based_policy_agrees:
  "signin_resource_based_policy_to_dict order S v = signin_attribute_dict order S (signin_resource_based_policy_attributes order S v)"
  by (simp add: signin_attribute_dict_def py_dict_distinct signin_resource_based_policy_to_dict_def signin_resource_based_policy_attributes_def
      signin_resource_based_policy_to_py_def policy_statement_to_dict_def)

lemma signin_outputs_agree:
  "create_oauth2_token_output_to_dict order S v5 = signin_attribute_dict order S (create_oauth2_token_output_attributes order S v5)"
  "create_oauth2_token_with_iamoutput_to_dict order S v6 = signin_attribute_dict order S (create_oauth2_token_with_iamoutput_attributes order S v6)"
  "delete_console_authorization_configuration_output_to_dict order S v7 = signin_attribute_dict order S (delete_console_authorization_configuration_output_attributes order S v7)"
  "delete_resource_permission_statement_output_to_dict order S v8 = signin_attribute_dict order S (delete_resource_permission_statement_output_attributes order S v8)"
  "get_console_authorization_configuration_output_to_dict order S v9 = signin_attribute_dict order S (get_console_authorization_configuration_output_attributes order S v9)"
  "signin_get_resource_policy_output_to_dict order S v10 = signin_attribute_dict order S (signin_get_resource_policy_output_attributes order S v10)"
  "introspect_oauth2_token_with_iamoutput_to_dict order S v11 = signin_attribute_dict order S (introspect_oauth2_token_with_iamoutput_attributes order S v11)"
  "list_resource_permission_statements_output_to_dict order S v12 = signin_attribute_dict order S (list_resource_permission_statements_output_attributes order S v12)"
  "put_console_authorization_configuration_output_to_dict order S v13 = signin_attribute_dict order S (put_console_authorization_configuration_output_attributes order S v13)"
  "put_resource_permission_statement_output_to_dict order S v14 = signin_attribute_dict order S (put_resource_permission_statement_output_attributes order S v14)"
  "revoke_oauth2_token_with_iamoutput_to_dict order S v15 = signin_attribute_dict order S (revoke_oauth2_token_with_iamoutput_attributes order S v15)"
  by (simp_all add: signin_attribute_dict_def py_dict_distinct
      create_oauth2_token_output_to_dict_def create_oauth2_token_output_attributes_def
      create_oauth2_token_with_iamoutput_to_dict_def create_oauth2_token_with_iamoutput_attributes_def
      delete_console_authorization_configuration_output_to_dict_def delete_console_authorization_configuration_output_attributes_def
      delete_resource_permission_statement_output_to_dict_def delete_resource_permission_statement_output_attributes_def
      get_console_authorization_configuration_output_to_dict_def get_console_authorization_configuration_output_attributes_def
      signin_get_resource_policy_output_to_dict_def signin_get_resource_policy_output_attributes_def
      introspect_oauth2_token_with_iamoutput_to_dict_def introspect_oauth2_token_with_iamoutput_attributes_def
      list_resource_permission_statements_output_to_dict_def list_resource_permission_statements_output_attributes_def
      put_console_authorization_configuration_output_to_dict_def put_console_authorization_configuration_output_attributes_def
      put_resource_permission_statement_output_to_dict_def put_resource_permission_statement_output_attributes_def
      revoke_oauth2_token_with_iamoutput_to_dict_def revoke_oauth2_token_with_iamoutput_attributes_def
      access_token_to_dict_def
      create_o_auth2_token_response_body_to_dict_def
      permission_statement_summary_to_dict_def
      policy_statement_to_dict_def
      signin_resource_based_policy_to_dict_def)

end
