(* ===== verification/Signin.thy ===== *)
theory Signin
  imports SigninOutputs
begin

text \<open>
  The operations of the Sign-In client: the methods of \<open>SignInClient\<close> in
  \<open>crates/rboto-signin/src/generated.rs\<close>, each reading its parameters from a dictionary and sending them
  through the shared \<open>execute\<close>, and the methods of the Python client
  (\<open>packages/rboto-signin/python/rboto_signin/client.py\<close>) that build those dictionaries.
\<close>

section \<open>Errors with details\<close>

text \<open>
  Every modelled error of this service carries the OAuth2 error code of its answer. An operation has
  the variants its model names; the others are \<open>SigninOther\<close>.
\<close>

datatype signin_error =
    SigninAccessDenied string
  | SigninConflict string
  | SigninInternalServer string
  | SigninResourceNotFound string
  | SigninServiceQuotaExceeded string
  | SigninTooManyRequests string
  | SigninValidation string
  | SigninOther

definition oauth_error_details :: "string \<Rightarrow> pydict" where
  "oauth_error_details error = details_of [(''error'', Some (PyStr error))]"

definition signin_error_details :: "signin_error \<Rightarrow> pydict pyresult" where
  "signin_error_details e = Inr (case e of
     SigninAccessDenied error \<Rightarrow> oauth_error_details error
   | SigninConflict error \<Rightarrow> oauth_error_details error
   | SigninInternalServer error \<Rightarrow> oauth_error_details error
   | SigninResourceNotFound error \<Rightarrow> oauth_error_details error
   | SigninServiceQuotaExceeded error \<Rightarrow> oauth_error_details error
   | SigninTooManyRequests error \<Rightarrow> oauth_error_details error
   | SigninValidation error \<Rightarrow> oauth_error_details error
   | SigninOther \<Rightarrow> [])"

section \<open>Operations\<close>

subsection \<open>\<open>CreateOAuth2Token\<close>\<close>

record create_o_auth2_token_input =
  sicoati_token_input :: "create_o_auth2_token_request_body option"

definition create_o_auth2_token_params :: "pyo3 \<Rightarrow> signin_types \<Rightarrow> pydict \<Rightarrow>
    create_o_auth2_token_input pyresult" where
  "create_o_auth2_token_params P S params =
     and_then (op_param P ''signin'' ''CreateOAuth2Token'' params ''token_input'' ''dict (CreateOAuth2TokenRequestBody)'' (create_o_auth2_token_request_body_from_py P S)) (\<lambda>token_input.
     Inr \<lparr>sicoati_token_input = token_input\<rparr>)"

definition create_o_auth2_token :: "('cfg, 'client) service_env \<Rightarrow> pyo3 \<Rightarrow> signin_types \<Rightarrow> unit pyresult \<Rightarrow> bool \<Rightarrow>
    ('client \<Rightarrow> create_o_auth2_token_input \<Rightarrow> trip list \<times> ((signin_error, http_response) sdk_error + create_oauth2_token_output)) \<Rightarrow>
    'client client_handle \<Rightarrow> pydict \<Rightarrow> pydict option \<Rightarrow>
    (create_oauth2_token_output pyresult \<times> 'client client_handle \<times> pydict option) option" where
  "create_o_auth2_token E P S bridge interrupted send c params observation =
     execute E bridge interrupted send signin_error_details
       ''CreateOAuth2Token'' (create_o_auth2_token_params P S params) c observation"

definition create_o_auth2_token_call :: "create_o_auth2_token_input \<Rightarrow> pydict" where
  "create_o_auth2_token_call i = py_params
     [(''token_input'', opt_to_py create_o_auth2_token_request_body_to_py (sicoati_token_input i))]
     []"

subsection \<open>\<open>CreateOAuth2TokenWithIAM\<close>\<close>

record create_o_auth2_token_with_iam_input =
  sicoatwii_grant_type :: "string option"
  sicoatwii_resource :: "string option"

definition create_o_auth2_token_with_iam_params :: "pyo3 \<Rightarrow> signin_types \<Rightarrow> pydict \<Rightarrow>
    create_o_auth2_token_with_iam_input pyresult" where
  "create_o_auth2_token_with_iam_params P S params =
     and_then (op_param P ''signin'' ''CreateOAuth2TokenWithIAM'' params ''grant_type'' ''str'' (string_from_py P)) (\<lambda>grant_type.
     and_then (op_param P ''signin'' ''CreateOAuth2TokenWithIAM'' params ''resource'' ''str'' (string_from_py P)) (\<lambda>resource.
     Inr \<lparr>sicoatwii_grant_type = grant_type,
       sicoatwii_resource = resource\<rparr>))"

definition create_o_auth2_token_with_iam :: "('cfg, 'client) service_env \<Rightarrow> pyo3 \<Rightarrow> signin_types \<Rightarrow> unit pyresult \<Rightarrow> bool \<Rightarrow>
    ('client \<Rightarrow> create_o_auth2_token_with_iam_input \<Rightarrow> trip list \<times> ((signin_error, http_response) sdk_error + create_oauth2_token_with_iamoutput)) \<Rightarrow>
    'client client_handle \<Rightarrow> pydict \<Rightarrow> pydict option \<Rightarrow>
    (create_oauth2_token_with_iamoutput pyresult \<times> 'client client_handle \<times> pydict option) option" where
  "create_o_auth2_token_with_iam E P S bridge interrupted send c params observation =
     execute E bridge interrupted send signin_error_details
       ''CreateOAuth2TokenWithIAM'' (create_o_auth2_token_with_iam_params P S params) c observation"

definition create_o_auth2_token_with_iam_call :: "create_o_auth2_token_with_iam_input \<Rightarrow> pydict" where
  "create_o_auth2_token_with_iam_call i = py_params
     [(''grant_type'', opt_to_py PyStr (sicoatwii_grant_type i)),
      (''resource'', opt_to_py PyStr (sicoatwii_resource i))]
     []"

subsection \<open>\<open>DeleteConsoleAuthorizationConfiguration\<close>\<close>

record delete_console_authorization_configuration_input =
  sidcaci_target_id :: "string option"

definition delete_console_authorization_configuration_params :: "pyo3 \<Rightarrow> signin_types \<Rightarrow> pydict \<Rightarrow>
    delete_console_authorization_configuration_input pyresult" where
  "delete_console_authorization_configuration_params P S params =
     and_then (op_param P ''signin'' ''DeleteConsoleAuthorizationConfiguration'' params ''target_id'' ''str'' (string_from_py P)) (\<lambda>target_id.
     Inr \<lparr>sidcaci_target_id = target_id\<rparr>)"

definition delete_console_authorization_configuration :: "('cfg, 'client) service_env \<Rightarrow> pyo3 \<Rightarrow> signin_types \<Rightarrow> unit pyresult \<Rightarrow> bool \<Rightarrow>
    ('client \<Rightarrow> delete_console_authorization_configuration_input \<Rightarrow> trip list \<times> ((signin_error, http_response) sdk_error + delete_console_authorization_configuration_output)) \<Rightarrow>
    'client client_handle \<Rightarrow> pydict \<Rightarrow> pydict option \<Rightarrow>
    (delete_console_authorization_configuration_output pyresult \<times> 'client client_handle \<times> pydict option) option" where
  "delete_console_authorization_configuration E P S bridge interrupted send c params observation =
     execute E bridge interrupted send signin_error_details
       ''DeleteConsoleAuthorizationConfiguration'' (delete_console_authorization_configuration_params P S params) c observation"

definition delete_console_authorization_configuration_call :: "delete_console_authorization_configuration_input \<Rightarrow> pydict" where
  "delete_console_authorization_configuration_call i = py_params
     []
     [(''target_id'', opt_to_py PyStr (sidcaci_target_id i))]"

subsection \<open>\<open>DeleteResourcePermissionStatement\<close>\<close>

record delete_resource_permission_statement_input =
  sidrpsi_statement_id :: "string option"
  sidrpsi_client_token :: "string option"

definition delete_resource_permission_statement_params :: "pyo3 \<Rightarrow> signin_types \<Rightarrow> pydict \<Rightarrow>
    delete_resource_permission_statement_input pyresult" where
  "delete_resource_permission_statement_params P S params =
     and_then (op_param P ''signin'' ''DeleteResourcePermissionStatement'' params ''statement_id'' ''str'' (string_from_py P)) (\<lambda>statement_id.
     and_then (op_param P ''signin'' ''DeleteResourcePermissionStatement'' params ''client_token'' ''str'' (string_from_py P)) (\<lambda>client_token.
     Inr \<lparr>sidrpsi_statement_id = statement_id,
       sidrpsi_client_token = client_token\<rparr>))"

definition delete_resource_permission_statement :: "('cfg, 'client) service_env \<Rightarrow> pyo3 \<Rightarrow> signin_types \<Rightarrow> unit pyresult \<Rightarrow> bool \<Rightarrow>
    ('client \<Rightarrow> delete_resource_permission_statement_input \<Rightarrow> trip list \<times> ((signin_error, http_response) sdk_error + delete_resource_permission_statement_output)) \<Rightarrow>
    'client client_handle \<Rightarrow> pydict \<Rightarrow> pydict option \<Rightarrow>
    (delete_resource_permission_statement_output pyresult \<times> 'client client_handle \<times> pydict option) option" where
  "delete_resource_permission_statement E P S bridge interrupted send c params observation =
     execute E bridge interrupted send signin_error_details
       ''DeleteResourcePermissionStatement'' (delete_resource_permission_statement_params P S params) c observation"

definition delete_resource_permission_statement_call :: "delete_resource_permission_statement_input \<Rightarrow> pydict" where
  "delete_resource_permission_statement_call i = py_params
     [(''statement_id'', opt_to_py PyStr (sidrpsi_statement_id i))]
     [(''client_token'', opt_to_py PyStr (sidrpsi_client_token i))]"

subsection \<open>\<open>GetConsoleAuthorizationConfiguration\<close>\<close>

record get_console_authorization_configuration_input =
  sigcaci_target_id :: "string option"

definition get_console_authorization_configuration_params :: "pyo3 \<Rightarrow> signin_types \<Rightarrow> pydict \<Rightarrow>
    get_console_authorization_configuration_input pyresult" where
  "get_console_authorization_configuration_params P S params =
     and_then (op_param P ''signin'' ''GetConsoleAuthorizationConfiguration'' params ''target_id'' ''str'' (string_from_py P)) (\<lambda>target_id.
     Inr \<lparr>sigcaci_target_id = target_id\<rparr>)"

definition get_console_authorization_configuration :: "('cfg, 'client) service_env \<Rightarrow> pyo3 \<Rightarrow> signin_types \<Rightarrow> unit pyresult \<Rightarrow> bool \<Rightarrow>
    ('client \<Rightarrow> get_console_authorization_configuration_input \<Rightarrow> trip list \<times> ((signin_error, http_response) sdk_error + get_console_authorization_configuration_output)) \<Rightarrow>
    'client client_handle \<Rightarrow> pydict \<Rightarrow> pydict option \<Rightarrow>
    (get_console_authorization_configuration_output pyresult \<times> 'client client_handle \<times> pydict option) option" where
  "get_console_authorization_configuration E P S bridge interrupted send c params observation =
     execute E bridge interrupted send signin_error_details
       ''GetConsoleAuthorizationConfiguration'' (get_console_authorization_configuration_params P S params) c observation"

definition get_console_authorization_configuration_call :: "get_console_authorization_configuration_input \<Rightarrow> pydict" where
  "get_console_authorization_configuration_call i = py_params
     []
     [(''target_id'', opt_to_py PyStr (sigcaci_target_id i))]"

subsection \<open>\<open>GetResourcePolicy\<close>\<close>

definition signin_get_resource_policy :: "('cfg, 'client) service_env \<Rightarrow> unit pyresult \<Rightarrow> bool \<Rightarrow>
    ('client \<Rightarrow> unit \<Rightarrow> trip list \<times> ((signin_error, http_response) sdk_error + signin_get_resource_policy_output)) \<Rightarrow>
    'client client_handle \<Rightarrow> pydict \<Rightarrow> pydict option \<Rightarrow>
    (signin_get_resource_policy_output pyresult \<times> 'client client_handle \<times> pydict option) option" where
  "signin_get_resource_policy E bridge interrupted send c params observation =
     execute E bridge interrupted send signin_error_details
       ''GetResourcePolicy'' (Inr ()) c observation"

subsection \<open>\<open>IntrospectOAuth2TokenWithIAM\<close>\<close>

record introspect_o_auth2_token_with_iam_input =
  siioatwii_token :: "string option"
  siioatwii_token_type_hint :: "string option"

definition introspect_o_auth2_token_with_iam_params :: "pyo3 \<Rightarrow> signin_types \<Rightarrow> pydict \<Rightarrow>
    introspect_o_auth2_token_with_iam_input pyresult" where
  "introspect_o_auth2_token_with_iam_params P S params =
     and_then (op_param P ''signin'' ''IntrospectOAuth2TokenWithIAM'' params ''token'' ''str'' (string_from_py P)) (\<lambda>token.
     and_then (op_param P ''signin'' ''IntrospectOAuth2TokenWithIAM'' params ''token_type_hint'' ''str'' (string_from_py P)) (\<lambda>token_type_hint.
     Inr \<lparr>siioatwii_token = token,
       siioatwii_token_type_hint = token_type_hint\<rparr>))"

definition introspect_o_auth2_token_with_iam :: "('cfg, 'client) service_env \<Rightarrow> pyo3 \<Rightarrow> signin_types \<Rightarrow> unit pyresult \<Rightarrow> bool \<Rightarrow>
    ('client \<Rightarrow> introspect_o_auth2_token_with_iam_input \<Rightarrow> trip list \<times> ((signin_error, http_response) sdk_error + introspect_oauth2_token_with_iamoutput)) \<Rightarrow>
    'client client_handle \<Rightarrow> pydict \<Rightarrow> pydict option \<Rightarrow>
    (introspect_oauth2_token_with_iamoutput pyresult \<times> 'client client_handle \<times> pydict option) option" where
  "introspect_o_auth2_token_with_iam E P S bridge interrupted send c params observation =
     execute E bridge interrupted send signin_error_details
       ''IntrospectOAuth2TokenWithIAM'' (introspect_o_auth2_token_with_iam_params P S params) c observation"

definition introspect_o_auth2_token_with_iam_call :: "introspect_o_auth2_token_with_iam_input \<Rightarrow> pydict" where
  "introspect_o_auth2_token_with_iam_call i = py_params
     [(''token'', opt_to_py PyStr (siioatwii_token i))]
     [(''token_type_hint'', opt_to_py PyStr (siioatwii_token_type_hint i))]"

subsection \<open>\<open>ListResourcePermissionStatements\<close>\<close>

record list_resource_permission_statements_input =
  silrpsi_max_results :: "32 word option"
  silrpsi_next_token :: "string option"

definition list_resource_permission_statements_params :: "pyo3 \<Rightarrow> signin_types \<Rightarrow> pydict \<Rightarrow>
    list_resource_permission_statements_input pyresult" where
  "list_resource_permission_statements_params P S params =
     and_then (op_param P ''signin'' ''ListResourcePermissionStatements'' params ''max_results'' ''int'' (i32_from_py P)) (\<lambda>max_results.
     and_then (op_param P ''signin'' ''ListResourcePermissionStatements'' params ''next_token'' ''str'' (string_from_py P)) (\<lambda>next_token.
     Inr \<lparr>silrpsi_max_results = max_results,
       silrpsi_next_token = next_token\<rparr>))"

definition list_resource_permission_statements :: "('cfg, 'client) service_env \<Rightarrow> pyo3 \<Rightarrow> signin_types \<Rightarrow> unit pyresult \<Rightarrow> bool \<Rightarrow>
    ('client \<Rightarrow> list_resource_permission_statements_input \<Rightarrow> trip list \<times> ((signin_error, http_response) sdk_error + list_resource_permission_statements_output)) \<Rightarrow>
    'client client_handle \<Rightarrow> pydict \<Rightarrow> pydict option \<Rightarrow>
    (list_resource_permission_statements_output pyresult \<times> 'client client_handle \<times> pydict option) option" where
  "list_resource_permission_statements E P S bridge interrupted send c params observation =
     execute E bridge interrupted send signin_error_details
       ''ListResourcePermissionStatements'' (list_resource_permission_statements_params P S params) c observation"

definition list_resource_permission_statements_call :: "list_resource_permission_statements_input \<Rightarrow> pydict" where
  "list_resource_permission_statements_call i = py_params
     []
     [(''max_results'', opt_to_py i32_to_py (silrpsi_max_results i)),
      (''next_token'', opt_to_py PyStr (silrpsi_next_token i))]"

subsection \<open>\<open>PutConsoleAuthorizationConfiguration\<close>\<close>

record put_console_authorization_configuration_input =
  sipcaci_target_id :: "string option"

definition put_console_authorization_configuration_params :: "pyo3 \<Rightarrow> signin_types \<Rightarrow> pydict \<Rightarrow>
    put_console_authorization_configuration_input pyresult" where
  "put_console_authorization_configuration_params P S params =
     and_then (op_param P ''signin'' ''PutConsoleAuthorizationConfiguration'' params ''target_id'' ''str'' (string_from_py P)) (\<lambda>target_id.
     Inr \<lparr>sipcaci_target_id = target_id\<rparr>)"

definition put_console_authorization_configuration :: "('cfg, 'client) service_env \<Rightarrow> pyo3 \<Rightarrow> signin_types \<Rightarrow> unit pyresult \<Rightarrow> bool \<Rightarrow>
    ('client \<Rightarrow> put_console_authorization_configuration_input \<Rightarrow> trip list \<times> ((signin_error, http_response) sdk_error + put_console_authorization_configuration_output)) \<Rightarrow>
    'client client_handle \<Rightarrow> pydict \<Rightarrow> pydict option \<Rightarrow>
    (put_console_authorization_configuration_output pyresult \<times> 'client client_handle \<times> pydict option) option" where
  "put_console_authorization_configuration E P S bridge interrupted send c params observation =
     execute E bridge interrupted send signin_error_details
       ''PutConsoleAuthorizationConfiguration'' (put_console_authorization_configuration_params P S params) c observation"

definition put_console_authorization_configuration_call :: "put_console_authorization_configuration_input \<Rightarrow> pydict" where
  "put_console_authorization_configuration_call i = py_params
     []
     [(''target_id'', opt_to_py PyStr (sipcaci_target_id i))]"

subsection \<open>\<open>PutResourcePermissionStatement\<close>\<close>

record put_resource_permission_statement_input =
  siprpsi_source_vpc :: "string option"
  siprpsi_signin_source_vpce :: "string option"
  siprpsi_console_source_vpce :: "string option"
  siprpsi_vpc_source_ip :: "string option"
  siprpsi_source_ip :: "string option"
  siprpsi_requested_region :: "string option"
  siprpsi_excluded_principal :: "string option"
  siprpsi_client_token :: "string option"

definition put_resource_permission_statement_params_1 :: "pyo3 \<Rightarrow> signin_types \<Rightarrow> pydict \<Rightarrow>
    (string option \<times> string option \<times> string option \<times> string option) pyresult" where
  "put_resource_permission_statement_params_1 P S params =
     and_then (op_param P ''signin'' ''PutResourcePermissionStatement'' params ''source_vpc'' ''str'' (string_from_py P)) (\<lambda>source_vpc.
     and_then (op_param P ''signin'' ''PutResourcePermissionStatement'' params ''signin_source_vpce'' ''str'' (string_from_py P)) (\<lambda>signin_source_vpce.
     and_then (op_param P ''signin'' ''PutResourcePermissionStatement'' params ''console_source_vpce'' ''str'' (string_from_py P)) (\<lambda>console_source_vpce.
     and_then (op_param P ''signin'' ''PutResourcePermissionStatement'' params ''vpc_source_ip'' ''str'' (string_from_py P)) (\<lambda>vpc_source_ip.
     Inr (source_vpc, signin_source_vpce, console_source_vpce, vpc_source_ip)))))"

definition put_resource_permission_statement_params_2 :: "pyo3 \<Rightarrow> signin_types \<Rightarrow> pydict \<Rightarrow>
    (string option \<times> string option \<times> string option \<times> string option) pyresult" where
  "put_resource_permission_statement_params_2 P S params =
     and_then (op_param P ''signin'' ''PutResourcePermissionStatement'' params ''source_ip'' ''str'' (string_from_py P)) (\<lambda>source_ip.
     and_then (op_param P ''signin'' ''PutResourcePermissionStatement'' params ''requested_region'' ''str'' (string_from_py P)) (\<lambda>requested_region.
     and_then (op_param P ''signin'' ''PutResourcePermissionStatement'' params ''excluded_principal'' ''str'' (string_from_py P)) (\<lambda>excluded_principal.
     and_then (op_param P ''signin'' ''PutResourcePermissionStatement'' params ''client_token'' ''str'' (string_from_py P)) (\<lambda>client_token.
     Inr (source_ip, requested_region, excluded_principal, client_token)))))"

definition put_resource_permission_statement_params :: "pyo3 \<Rightarrow> signin_types \<Rightarrow> pydict \<Rightarrow>
    put_resource_permission_statement_input pyresult" where
  "put_resource_permission_statement_params P S params =
     and_then (put_resource_permission_statement_params_1 P S params) (\<lambda>(source_vpc, signin_source_vpce, console_source_vpce, vpc_source_ip).
     and_then (put_resource_permission_statement_params_2 P S params) (\<lambda>(source_ip, requested_region, excluded_principal, client_token).
     Inr \<lparr>siprpsi_source_vpc = source_vpc,
       siprpsi_signin_source_vpce = signin_source_vpce,
       siprpsi_console_source_vpce = console_source_vpce,
       siprpsi_vpc_source_ip = vpc_source_ip,
       siprpsi_source_ip = source_ip,
       siprpsi_requested_region = requested_region,
       siprpsi_excluded_principal = excluded_principal,
       siprpsi_client_token = client_token\<rparr>))"

definition put_resource_permission_statement :: "('cfg, 'client) service_env \<Rightarrow> pyo3 \<Rightarrow> signin_types \<Rightarrow> unit pyresult \<Rightarrow> bool \<Rightarrow>
    ('client \<Rightarrow> put_resource_permission_statement_input \<Rightarrow> trip list \<times> ((signin_error, http_response) sdk_error + put_resource_permission_statement_output)) \<Rightarrow>
    'client client_handle \<Rightarrow> pydict \<Rightarrow> pydict option \<Rightarrow>
    (put_resource_permission_statement_output pyresult \<times> 'client client_handle \<times> pydict option) option" where
  "put_resource_permission_statement E P S bridge interrupted send c params observation =
     execute E bridge interrupted send signin_error_details
       ''PutResourcePermissionStatement'' (put_resource_permission_statement_params P S params) c observation"

definition put_resource_permission_statement_call :: "put_resource_permission_statement_input \<Rightarrow> pydict" where
  "put_resource_permission_statement_call i = py_params
     []
     [(''source_vpc'', opt_to_py PyStr (siprpsi_source_vpc i)),
      (''signin_source_vpce'', opt_to_py PyStr (siprpsi_signin_source_vpce i)),
      (''console_source_vpce'', opt_to_py PyStr (siprpsi_console_source_vpce i)),
      (''vpc_source_ip'', opt_to_py PyStr (siprpsi_vpc_source_ip i)),
      (''source_ip'', opt_to_py PyStr (siprpsi_source_ip i)),
      (''requested_region'', opt_to_py PyStr (siprpsi_requested_region i)),
      (''excluded_principal'', opt_to_py PyStr (siprpsi_excluded_principal i)),
      (''client_token'', opt_to_py PyStr (siprpsi_client_token i))]"

subsection \<open>\<open>RevokeOAuth2TokenWithIAM\<close>\<close>

record revoke_o_auth2_token_with_iam_input =
  siroatwii_token :: "string option"

definition revoke_o_auth2_token_with_iam_params :: "pyo3 \<Rightarrow> signin_types \<Rightarrow> pydict \<Rightarrow>
    revoke_o_auth2_token_with_iam_input pyresult" where
  "revoke_o_auth2_token_with_iam_params P S params =
     and_then (op_param P ''signin'' ''RevokeOAuth2TokenWithIAM'' params ''token'' ''str'' (string_from_py P)) (\<lambda>token.
     Inr \<lparr>siroatwii_token = token\<rparr>)"

definition revoke_o_auth2_token_with_iam :: "('cfg, 'client) service_env \<Rightarrow> pyo3 \<Rightarrow> signin_types \<Rightarrow> unit pyresult \<Rightarrow> bool \<Rightarrow>
    ('client \<Rightarrow> revoke_o_auth2_token_with_iam_input \<Rightarrow> trip list \<times> ((signin_error, http_response) sdk_error + revoke_oauth2_token_with_iamoutput)) \<Rightarrow>
    'client client_handle \<Rightarrow> pydict \<Rightarrow> pydict option \<Rightarrow>
    (revoke_oauth2_token_with_iamoutput pyresult \<times> 'client client_handle \<times> pydict option) option" where
  "revoke_o_auth2_token_with_iam E P S bridge interrupted send c params observation =
     execute E bridge interrupted send signin_error_details
       ''RevokeOAuth2TokenWithIAM'' (revoke_o_auth2_token_with_iam_params P S params) c observation"

definition revoke_o_auth2_token_with_iam_call :: "revoke_o_auth2_token_with_iam_input \<Rightarrow> pydict" where
  "revoke_o_auth2_token_with_iam_call i = py_params
     [(''token'', opt_to_py PyStr (siroatwii_token i))]
     []"

section \<open>Parameters arrive\<close>

context signin_conversions
begin

lemma create_o_auth2_token_delivered: "create_o_auth2_token_params P S (create_o_auth2_token_call i) = Inr i"
proof -
  have s: "str_keys (create_o_auth2_token_call i)" by (simp add: create_o_auth2_token_call_def)
  have a: "argument (create_o_auth2_token_call i) ''token_input'' = opt_to_py create_o_auth2_token_request_body_to_py (sicoati_token_input i)"
    unfolding create_o_auth2_token_call_def by (simp_all add: argument_py_params)
  show ?thesis
    unfolding create_o_auth2_token_params_def
    by (simp add: param_reads [OF create_o_auth2_token_request_body_reads s a])
qed

lemma create_o_auth2_token_with_iam_delivered: "create_o_auth2_token_with_iam_params P S (create_o_auth2_token_with_iam_call i) = Inr i"
proof -
  have s: "str_keys (create_o_auth2_token_with_iam_call i)" by (simp add: create_o_auth2_token_with_iam_call_def)
  have a: "argument (create_o_auth2_token_with_iam_call i) ''grant_type'' = opt_to_py PyStr (sicoatwii_grant_type i)"
    "argument (create_o_auth2_token_with_iam_call i) ''resource'' = opt_to_py PyStr (sicoatwii_resource i)"
    unfolding create_o_auth2_token_with_iam_call_def by (simp_all add: argument_py_params)
  show ?thesis
    unfolding create_o_auth2_token_with_iam_params_def
    by (simp add: param_reads [OF reads_str s a(1)]
        param_reads [OF reads_str s a(2)])
qed

lemma delete_console_authorization_configuration_delivered: "delete_console_authorization_configuration_params P S (delete_console_authorization_configuration_call i) = Inr i"
proof -
  have s: "str_keys (delete_console_authorization_configuration_call i)" by (simp add: delete_console_authorization_configuration_call_def)
  have a: "argument (delete_console_authorization_configuration_call i) ''target_id'' = opt_to_py PyStr (sidcaci_target_id i)"
    unfolding delete_console_authorization_configuration_call_def by (simp_all add: argument_py_params)
  show ?thesis
    unfolding delete_console_authorization_configuration_params_def
    by (simp add: param_reads [OF reads_str s a])
qed

lemma delete_resource_permission_statement_delivered: "delete_resource_permission_statement_params P S (delete_resource_permission_statement_call i) = Inr i"
proof -
  have s: "str_keys (delete_resource_permission_statement_call i)" by (simp add: delete_resource_permission_statement_call_def)
  have a: "argument (delete_resource_permission_statement_call i) ''statement_id'' = opt_to_py PyStr (sidrpsi_statement_id i)"
    "argument (delete_resource_permission_statement_call i) ''client_token'' = opt_to_py PyStr (sidrpsi_client_token i)"
    unfolding delete_resource_permission_statement_call_def by (simp_all add: argument_py_params)
  show ?thesis
    unfolding delete_resource_permission_statement_params_def
    by (simp add: param_reads [OF reads_str s a(1)]
        param_reads [OF reads_str s a(2)])
qed

lemma get_console_authorization_configuration_delivered: "get_console_authorization_configuration_params P S (get_console_authorization_configuration_call i) = Inr i"
proof -
  have s: "str_keys (get_console_authorization_configuration_call i)" by (simp add: get_console_authorization_configuration_call_def)
  have a: "argument (get_console_authorization_configuration_call i) ''target_id'' = opt_to_py PyStr (sigcaci_target_id i)"
    unfolding get_console_authorization_configuration_call_def by (simp_all add: argument_py_params)
  show ?thesis
    unfolding get_console_authorization_configuration_params_def
    by (simp add: param_reads [OF reads_str s a])
qed

lemma introspect_o_auth2_token_with_iam_delivered: "introspect_o_auth2_token_with_iam_params P S (introspect_o_auth2_token_with_iam_call i) = Inr i"
proof -
  have s: "str_keys (introspect_o_auth2_token_with_iam_call i)" by (simp add: introspect_o_auth2_token_with_iam_call_def)
  have a: "argument (introspect_o_auth2_token_with_iam_call i) ''token'' = opt_to_py PyStr (siioatwii_token i)"
    "argument (introspect_o_auth2_token_with_iam_call i) ''token_type_hint'' = opt_to_py PyStr (siioatwii_token_type_hint i)"
    unfolding introspect_o_auth2_token_with_iam_call_def by (simp_all add: argument_py_params)
  show ?thesis
    unfolding introspect_o_auth2_token_with_iam_params_def
    by (simp add: param_reads [OF reads_str s a(1)]
        param_reads [OF reads_str s a(2)])
qed

lemma list_resource_permission_statements_delivered: "list_resource_permission_statements_params P S (list_resource_permission_statements_call i) = Inr i"
proof -
  have s: "str_keys (list_resource_permission_statements_call i)" by (simp add: list_resource_permission_statements_call_def)
  have a: "argument (list_resource_permission_statements_call i) ''max_results'' = opt_to_py i32_to_py (silrpsi_max_results i)"
    "argument (list_resource_permission_statements_call i) ''next_token'' = opt_to_py PyStr (silrpsi_next_token i)"
    unfolding list_resource_permission_statements_call_def by (simp_all add: argument_py_params)
  show ?thesis
    unfolding list_resource_permission_statements_params_def
    by (simp add: param_reads [OF reads_i32 s a(1)]
        param_reads [OF reads_str s a(2)])
qed

lemma put_console_authorization_configuration_delivered: "put_console_authorization_configuration_params P S (put_console_authorization_configuration_call i) = Inr i"
proof -
  have s: "str_keys (put_console_authorization_configuration_call i)" by (simp add: put_console_authorization_configuration_call_def)
  have a: "argument (put_console_authorization_configuration_call i) ''target_id'' = opt_to_py PyStr (sipcaci_target_id i)"
    unfolding put_console_authorization_configuration_call_def by (simp_all add: argument_py_params)
  show ?thesis
    unfolding put_console_authorization_configuration_params_def
    by (simp add: param_reads [OF reads_str s a])
qed

lemma put_resource_permission_statement_delivered: "put_resource_permission_statement_params P S (put_resource_permission_statement_call i) = Inr i"
proof -
  have s: "str_keys (put_resource_permission_statement_call i)" by (simp add: put_resource_permission_statement_call_def)
  note p = arguments [OF put_resource_permission_statement_call_def [of i], simplified]
  have a: "argument (put_resource_permission_statement_call i) ''source_vpc'' = opt_to_py PyStr (siprpsi_source_vpc i)"
    "argument (put_resource_permission_statement_call i) ''signin_source_vpce'' = opt_to_py PyStr (siprpsi_signin_source_vpce i)"
    "argument (put_resource_permission_statement_call i) ''console_source_vpce'' = opt_to_py PyStr (siprpsi_console_source_vpce i)"
    "argument (put_resource_permission_statement_call i) ''vpc_source_ip'' = opt_to_py PyStr (siprpsi_vpc_source_ip i)"
    "argument (put_resource_permission_statement_call i) ''source_ip'' = opt_to_py PyStr (siprpsi_source_ip i)"
    "argument (put_resource_permission_statement_call i) ''requested_region'' = opt_to_py PyStr (siprpsi_requested_region i)"
    "argument (put_resource_permission_statement_call i) ''excluded_principal'' = opt_to_py PyStr (siprpsi_excluded_principal i)"
    "argument (put_resource_permission_statement_call i) ''client_token'' = opt_to_py PyStr (siprpsi_client_token i)"
    by (simp_all only: p)
  show ?thesis
    unfolding put_resource_permission_statement_params_def put_resource_permission_statement_params_1_def put_resource_permission_statement_params_2_def
    by (simp add: param_reads [OF reads_str s a(1)]
        param_reads [OF reads_str s a(2)]
        param_reads [OF reads_str s a(3)]
        param_reads [OF reads_str s a(4)]
        param_reads [OF reads_str s a(5)]
        param_reads [OF reads_str s a(6)]
        param_reads [OF reads_str s a(7)]
        param_reads [OF reads_str s a(8)])
qed

lemma revoke_o_auth2_token_with_iam_delivered: "revoke_o_auth2_token_with_iam_params P S (revoke_o_auth2_token_with_iam_call i) = Inr i"
proof -
  have s: "str_keys (revoke_o_auth2_token_with_iam_call i)" by (simp add: revoke_o_auth2_token_with_iam_call_def)
  have a: "argument (revoke_o_auth2_token_with_iam_call i) ''token'' = opt_to_py PyStr (siroatwii_token i)"
    unfolding revoke_o_auth2_token_with_iam_call_def by (simp_all add: argument_py_params)
  show ?thesis
    unfolding revoke_o_auth2_token_with_iam_params_def
    by (simp add: param_reads [OF reads_str s a])
qed

end

end
