(* ===== verification/KmsTypes.thy ===== *)
theory KmsTypes
  imports Signin
begin

text \<open>
  The structures of the KMS extension, from \<open>crates/rboto-kms/src/generated.rs\<close>: the converters
  between Python dictionaries and the SDK's structures, which are records with the members the code
  reads and sets. An enum of the SDK is its text, and \<open>order\<close> is the order in which the iterator of
  a \<open>HashMap\<close> yields its entries. The builders belong to the SDK and are the record \<open>kms_types\<close>.
\<close>

section \<open>Structures\<close>

record alias_list_entry =
  male_alias_name :: "string option"
  male_alias_arn :: "string option"
  male_target_key_id :: "string option"
  male_creation_date :: "datetime option"
  male_last_updated_date :: "datetime option"

record xks_proxy_configuration_type =
  mxpct_connectivity :: "string option"
  mxpct_access_key_id :: "string option"
  mxpct_uri_endpoint :: "string option"
  mxpct_uri_path :: "string option"
  mxpct_vpc_endpoint_service_name :: "string option"
  mxpct_vpc_endpoint_service_owner :: "string option"

record custom_key_stores_list_entry =
  mcksle_custom_key_store_id :: "string option"
  mcksle_custom_key_store_name :: "string option"
  mcksle_cloud_hsm_cluster_id :: "string option"
  mcksle_trust_anchor_certificate :: "string option"
  mcksle_connection_state :: "string option"
  mcksle_connection_error_code :: "string option"
  mcksle_creation_date :: "datetime option"
  mcksle_custom_key_store_type :: "string option"
  mcksle_xks_proxy_configuration :: "xks_proxy_configuration_type option"

record grant_constraints =
  mgc_encryption_context_subset :: "(string, string) fmap option"
  mgc_encryption_context_equals :: "(string, string) fmap option"
  mgc_source_arn :: "string option"

record grant_list_entry =
  mgle_key_id :: "string option"
  mgle_grant_id :: "string option"
  mgle_name :: "string option"
  mgle_creation_date :: "datetime option"
  mgle_grantee_principal :: "string option"
  mgle_retiring_principal :: "string option"
  mgle_issuing_account :: "string option"
  mgle_operations :: "string list option"
  mgle_constraints :: "grant_constraints option"
  mgle_grantee_service_principal :: "string option"
  mgle_retiring_service_principal :: "string option"

record key_last_usage_data =
  mklud_operation :: "string option"
  mklud_timestamp :: "datetime option"
  mklud_cloud_trail_event_id :: "string option"
  mklud_kms_request_id :: "string option"

record key_list_entry =
  mkle_key_id :: "string option"
  mkle_key_arn :: "string option"

record multi_region_key =
  mmrk_arn :: "string option"
  mmrk_region :: "string option"

record multi_region_configuration =
  mmrc_multi_region_key_type :: "string option"
  mmrc_primary_key :: "multi_region_key option"
  mmrc_replica_keys :: "multi_region_key list option"

record xks_key_configuration_type =
  mxkct_id :: "string option"

record key_metadata =
  mkm_aws_account_id :: "string option"
  mkm_key_id :: string
  mkm_arn :: "string option"
  mkm_creation_date :: "datetime option"
  mkm_enabled :: bool
  mkm_description :: "string option"
  mkm_key_usage :: "string option"
  mkm_key_state :: "string option"
  mkm_deletion_date :: "datetime option"
  mkm_valid_to :: "datetime option"
  mkm_origin :: "string option"
  mkm_custom_key_store_id :: "string option"
  mkm_cloud_hsm_cluster_id :: "string option"
  mkm_expiration_model :: "string option"
  mkm_key_manager :: "string option"
  mkm_customer_master_key_spec :: "string option"
  mkm_key_spec :: "string option"
  mkm_encryption_algorithms :: "string list option"
  mkm_signing_algorithms :: "string list option"
  mkm_key_agreement_algorithms :: "string list option"
  mkm_multi_region :: "bool option"
  mkm_multi_region_configuration :: "multi_region_configuration option"
  mkm_pending_deletion_window_in_days :: "32 word option"
  mkm_mac_algorithms :: "string list option"
  mkm_xks_key_configuration :: "xks_key_configuration_type option"
  mkm_current_key_material_id :: "string option"

record recipient_info =
  mri_key_encryption_algorithm :: "string option"
  mri_attestation_document :: "byte list option"

record rotations_list_entry =
  mrle_key_id :: "string option"
  mrle_key_material_id :: "string option"
  mrle_key_material_description :: "string option"
  mrle_import_state :: "string option"
  mrle_key_material_state :: "string option"
  mrle_expiration_model :: "string option"
  mrle_valid_to :: "datetime option"
  mrle_rotation_date :: "datetime option"
  mrle_rotation_type :: "string option"

record kms_tag =
  mt_tag_key :: string
  mt_tag_value :: string

record xks_proxy_authentication_credential_type =
  mxpact_access_key_id :: string
  mxpact_raw_secret_access_key :: string

record kms_types = smithy_dates +
  build_alias_list_entry :: "string option \<Rightarrow> string option \<Rightarrow> string option \<Rightarrow> datetime option \<Rightarrow> datetime option \<Rightarrow> alias_list_entry"
  build_xks_proxy_configuration_type :: "string option \<Rightarrow> string option \<Rightarrow> string option \<Rightarrow> string option \<Rightarrow> string option \<Rightarrow> string option \<Rightarrow> xks_proxy_configuration_type"
  build_custom_key_stores_list_entry :: "string option \<Rightarrow> string option \<Rightarrow> string option \<Rightarrow> string option \<Rightarrow> string option \<Rightarrow> string option \<Rightarrow> datetime option \<Rightarrow> string option \<Rightarrow> xks_proxy_configuration_type option \<Rightarrow> custom_key_stores_list_entry"
  build_grant_constraints :: "(string, string) fmap option \<Rightarrow> (string, string) fmap option \<Rightarrow> string option \<Rightarrow> grant_constraints"
  build_grant_list_entry :: "string option \<Rightarrow> string option \<Rightarrow> string option \<Rightarrow> datetime option \<Rightarrow> string option \<Rightarrow> string option \<Rightarrow> string option \<Rightarrow> string list option \<Rightarrow> grant_constraints option \<Rightarrow> string option \<Rightarrow> string option \<Rightarrow> grant_list_entry"
  build_key_last_usage_data :: "string option \<Rightarrow> datetime option \<Rightarrow> string option \<Rightarrow> string option \<Rightarrow> key_last_usage_data"
  build_key_list_entry :: "string option \<Rightarrow> string option \<Rightarrow> key_list_entry"
  build_multi_region_key :: "string option \<Rightarrow> string option \<Rightarrow> multi_region_key"
  build_multi_region_configuration :: "string option \<Rightarrow> multi_region_key option \<Rightarrow> multi_region_key list option \<Rightarrow> multi_region_configuration"
  build_xks_key_configuration_type :: "string option \<Rightarrow> xks_key_configuration_type"
  build_key_metadata :: "string option \<Rightarrow> string option \<Rightarrow> string option \<Rightarrow> datetime option \<Rightarrow> bool option \<Rightarrow> string option \<Rightarrow> string option \<Rightarrow> string option \<Rightarrow> datetime option \<Rightarrow> datetime option \<Rightarrow> string option \<Rightarrow> string option \<Rightarrow> string option \<Rightarrow> string option \<Rightarrow> string option \<Rightarrow> string option \<Rightarrow> string option \<Rightarrow> string list option \<Rightarrow> string list option \<Rightarrow> string list option \<Rightarrow> bool option \<Rightarrow> multi_region_configuration option \<Rightarrow> 32 word option \<Rightarrow> string list option \<Rightarrow> xks_key_configuration_type option \<Rightarrow> string option \<Rightarrow> unit + key_metadata"
  build_recipient_info :: "string option \<Rightarrow> byte list option \<Rightarrow> recipient_info"
  build_rotations_list_entry :: "string option \<Rightarrow> string option \<Rightarrow> string option \<Rightarrow> string option \<Rightarrow> string option \<Rightarrow> string option \<Rightarrow> datetime option \<Rightarrow> datetime option \<Rightarrow> string option \<Rightarrow> rotations_list_entry"
  build_kms_tag :: "string option \<Rightarrow> string option \<Rightarrow> unit + kms_tag"
  build_xks_proxy_authentication_credential_type :: "string option \<Rightarrow> string option \<Rightarrow> unit + xks_proxy_authentication_credential_type"

section \<open>Converters\<close>

definition alias_list_entry_from_py :: "pyo3 \<Rightarrow> kms_types \<Rightarrow> pyval \<Rightarrow> alias_list_entry pyresult" where
  "alias_list_entry_from_py P S value =
     and_then (cast_dict P value) (\<lambda>values.
     and_then (member P values ''alias_name'' ''str'' (string_from_py P)) (\<lambda>alias_name_value.
     and_then (member P values ''alias_arn'' ''str'' (string_from_py P)) (\<lambda>alias_arn_value.
     and_then (member P values ''target_key_id'' ''str'' (string_from_py P)) (\<lambda>target_key_id_value.
     and_then (member P values ''creation_date'' ''ISO 8601 timestamp string'' (datetime_from_py P S)) (\<lambda>creation_date_value.
     and_then (member P values ''last_updated_date'' ''ISO 8601 timestamp string'' (datetime_from_py P S)) (\<lambda>last_updated_date_value.
     Inr (build_alias_list_entry S alias_name_value alias_arn_value target_key_id_value creation_date_value last_updated_date_value)))))))"

definition alias_list_entry_to_py :: "kms_types \<Rightarrow> alias_list_entry \<Rightarrow> pyval" where
  "alias_list_entry_to_py S v = PyDict (py_dict
     [(''alias_name'', opt_to_py PyStr (male_alias_name v)),
      (''alias_arn'', opt_to_py PyStr (male_alias_arn v)),
      (''target_key_id'', opt_to_py PyStr (male_target_key_id v)),
      (''creation_date'', opt_to_py (datetime_to_py S) (male_creation_date v)),
      (''last_updated_date'', opt_to_py (datetime_to_py S) (male_last_updated_date v))])"

definition xks_proxy_configuration_type_from_py :: "pyo3 \<Rightarrow> kms_types \<Rightarrow> pyval \<Rightarrow> xks_proxy_configuration_type pyresult" where
  "xks_proxy_configuration_type_from_py P S value =
     and_then (cast_dict P value) (\<lambda>values.
     and_then (member P values ''connectivity'' ''str (XksProxyConnectivityType)'' (enum_from_py P)) (\<lambda>connectivity_value.
     and_then (member P values ''access_key_id'' ''str'' (string_from_py P)) (\<lambda>access_key_id_value.
     and_then (member P values ''uri_endpoint'' ''str'' (string_from_py P)) (\<lambda>uri_endpoint_value.
     and_then (member P values ''uri_path'' ''str'' (string_from_py P)) (\<lambda>uri_path_value.
     and_then (member P values ''vpc_endpoint_service_name'' ''str'' (string_from_py P)) (\<lambda>vpc_endpoint_service_name_value.
     and_then (member P values ''vpc_endpoint_service_owner'' ''str'' (string_from_py P)) (\<lambda>vpc_endpoint_service_owner_value.
     Inr (build_xks_proxy_configuration_type S connectivity_value access_key_id_value uri_endpoint_value uri_path_value vpc_endpoint_service_name_value vpc_endpoint_service_owner_value))))))))"

definition xks_proxy_configuration_type_to_py :: "xks_proxy_configuration_type \<Rightarrow> pyval" where
  "xks_proxy_configuration_type_to_py v = PyDict (py_dict
     [(''connectivity'', opt_to_py PyStr (mxpct_connectivity v)),
      (''access_key_id'', opt_to_py PyStr (mxpct_access_key_id v)),
      (''uri_endpoint'', opt_to_py PyStr (mxpct_uri_endpoint v)),
      (''uri_path'', opt_to_py PyStr (mxpct_uri_path v)),
      (''vpc_endpoint_service_name'', opt_to_py PyStr (mxpct_vpc_endpoint_service_name v)),
      (''vpc_endpoint_service_owner'', opt_to_py PyStr (mxpct_vpc_endpoint_service_owner v))])"

definition custom_key_stores_list_entry_from_py :: "pyo3 \<Rightarrow> kms_types \<Rightarrow> pyval \<Rightarrow> custom_key_stores_list_entry pyresult" where
  "custom_key_stores_list_entry_from_py P S value =
     and_then (cast_dict P value) (\<lambda>values.
     and_then (member P values ''custom_key_store_id'' ''str'' (string_from_py P)) (\<lambda>custom_key_store_id_value.
     and_then (member P values ''custom_key_store_name'' ''str'' (string_from_py P)) (\<lambda>custom_key_store_name_value.
     and_then (member P values ''cloud_hsm_cluster_id'' ''str'' (string_from_py P)) (\<lambda>cloud_hsm_cluster_id_value.
     and_then (member P values ''trust_anchor_certificate'' ''str'' (string_from_py P)) (\<lambda>trust_anchor_certificate_value.
     and_then (member P values ''connection_state'' ''str (ConnectionStateType)'' (enum_from_py P)) (\<lambda>connection_state_value.
     and_then (member P values ''connection_error_code'' ''str (ConnectionErrorCodeType)'' (enum_from_py P)) (\<lambda>connection_error_code_value.
     and_then (member P values ''creation_date'' ''ISO 8601 timestamp string'' (datetime_from_py P S)) (\<lambda>creation_date_value.
     and_then (member P values ''custom_key_store_type'' ''str (CustomKeyStoreType)'' (enum_from_py P)) (\<lambda>custom_key_store_type_value.
     and_then (member P values ''xks_proxy_configuration'' ''dict (XksProxyConfigurationType)'' (xks_proxy_configuration_type_from_py P S)) (\<lambda>xks_proxy_configuration_value.
     Inr (build_custom_key_stores_list_entry S custom_key_store_id_value custom_key_store_name_value cloud_hsm_cluster_id_value trust_anchor_certificate_value connection_state_value connection_error_code_value creation_date_value custom_key_store_type_value xks_proxy_configuration_value)))))))))))"

definition custom_key_stores_list_entry_to_py :: "kms_types \<Rightarrow> custom_key_stores_list_entry \<Rightarrow> pyval" where
  "custom_key_stores_list_entry_to_py S v = PyDict (py_dict
     [(''custom_key_store_id'', opt_to_py PyStr (mcksle_custom_key_store_id v)),
      (''custom_key_store_name'', opt_to_py PyStr (mcksle_custom_key_store_name v)),
      (''cloud_hsm_cluster_id'', opt_to_py PyStr (mcksle_cloud_hsm_cluster_id v)),
      (''trust_anchor_certificate'', opt_to_py PyStr (mcksle_trust_anchor_certificate v)),
      (''connection_state'', opt_to_py PyStr (mcksle_connection_state v)),
      (''connection_error_code'', opt_to_py PyStr (mcksle_connection_error_code v)),
      (''creation_date'', opt_to_py (datetime_to_py S) (mcksle_creation_date v)),
      (''custom_key_store_type'', opt_to_py PyStr (mcksle_custom_key_store_type v)),
      (''xks_proxy_configuration'', opt_to_py xks_proxy_configuration_type_to_py (mcksle_xks_proxy_configuration v))])"

definition grant_constraints_from_py :: "pyo3 \<Rightarrow> kms_types \<Rightarrow> pyval \<Rightarrow> grant_constraints pyresult" where
  "grant_constraints_from_py P S value =
     and_then (cast_dict P value) (\<lambda>values.
     and_then (member P values ''encryption_context_subset'' ''dict'' (map_from_py P ''str'' ''str'' (string_from_py P))) (\<lambda>encryption_context_subset_value.
     and_then (member P values ''encryption_context_equals'' ''dict'' (map_from_py P ''str'' ''str'' (string_from_py P))) (\<lambda>encryption_context_equals_value.
     and_then (member P values ''source_arn'' ''str'' (string_from_py P)) (\<lambda>source_arn_value.
     Inr (build_grant_constraints S encryption_context_subset_value encryption_context_equals_value source_arn_value)))))"

definition grant_constraints_to_py :: "((string, pyval) fmap \<Rightarrow> (string \<times> pyval) list) \<Rightarrow> grant_constraints \<Rightarrow> pyval" where
  "grant_constraints_to_py order v = PyDict (py_dict
     [(''encryption_context_subset'', opt_to_py (mapping_to_py order PyStr) (mgc_encryption_context_subset v)),
      (''encryption_context_equals'', opt_to_py (mapping_to_py order PyStr) (mgc_encryption_context_equals v)),
      (''source_arn'', opt_to_py PyStr (mgc_source_arn v))])"

definition grant_list_entry_from_py :: "pyo3 \<Rightarrow> kms_types \<Rightarrow> pyval \<Rightarrow> grant_list_entry pyresult" where
  "grant_list_entry_from_py P S value =
     and_then (cast_dict P value) (\<lambda>values.
     and_then (member P values ''key_id'' ''str'' (string_from_py P)) (\<lambda>key_id_value.
     and_then (member P values ''grant_id'' ''str'' (string_from_py P)) (\<lambda>grant_id_value.
     and_then (member P values ''name'' ''str'' (string_from_py P)) (\<lambda>name_value.
     and_then (member P values ''creation_date'' ''ISO 8601 timestamp string'' (datetime_from_py P S)) (\<lambda>creation_date_value.
     and_then (member P values ''grantee_principal'' ''str'' (string_from_py P)) (\<lambda>grantee_principal_value.
     and_then (member P values ''retiring_principal'' ''str'' (string_from_py P)) (\<lambda>retiring_principal_value.
     and_then (member P values ''issuing_account'' ''str'' (string_from_py P)) (\<lambda>issuing_account_value.
     and_then (member P values ''operations'' ''sequence'' (seq_from_py P ''str (GrantOperation)'' (enum_from_py P))) (\<lambda>operations_value.
     and_then (member P values ''constraints'' ''dict (GrantConstraints)'' (grant_constraints_from_py P S)) (\<lambda>constraints_value.
     and_then (member P values ''grantee_service_principal'' ''str'' (string_from_py P)) (\<lambda>grantee_service_principal_value.
     and_then (member P values ''retiring_service_principal'' ''str'' (string_from_py P)) (\<lambda>retiring_service_principal_value.
     Inr (build_grant_list_entry S key_id_value grant_id_value name_value creation_date_value grantee_principal_value retiring_principal_value issuing_account_value operations_value constraints_value grantee_service_principal_value retiring_service_principal_value)))))))))))))"

definition grant_list_entry_to_py :: "((string, pyval) fmap \<Rightarrow> (string \<times> pyval) list) \<Rightarrow> kms_types \<Rightarrow> grant_list_entry \<Rightarrow> pyval" where
  "grant_list_entry_to_py order S v = PyDict (py_dict
     [(''key_id'', opt_to_py PyStr (mgle_key_id v)),
      (''grant_id'', opt_to_py PyStr (mgle_grant_id v)),
      (''name'', opt_to_py PyStr (mgle_name v)),
      (''creation_date'', opt_to_py (datetime_to_py S) (mgle_creation_date v)),
      (''grantee_principal'', opt_to_py PyStr (mgle_grantee_principal v)),
      (''retiring_principal'', opt_to_py PyStr (mgle_retiring_principal v)),
      (''issuing_account'', opt_to_py PyStr (mgle_issuing_account v)),
      (''operations'', opt_to_py (seq_to_py PyStr) (mgle_operations v)),
      (''constraints'', opt_to_py (grant_constraints_to_py order) (mgle_constraints v)),
      (''grantee_service_principal'', opt_to_py PyStr (mgle_grantee_service_principal v)),
      (''retiring_service_principal'', opt_to_py PyStr (mgle_retiring_service_principal v))])"

definition key_last_usage_data_from_py :: "pyo3 \<Rightarrow> kms_types \<Rightarrow> pyval \<Rightarrow> key_last_usage_data pyresult" where
  "key_last_usage_data_from_py P S value =
     and_then (cast_dict P value) (\<lambda>values.
     and_then (member P values ''operation'' ''str (KeyLastUsageTrackingOperation)'' (enum_from_py P)) (\<lambda>operation_value.
     and_then (member P values ''timestamp'' ''ISO 8601 timestamp string'' (datetime_from_py P S)) (\<lambda>timestamp_value.
     and_then (member P values ''cloud_trail_event_id'' ''str'' (string_from_py P)) (\<lambda>cloud_trail_event_id_value.
     and_then (member P values ''kms_request_id'' ''str'' (string_from_py P)) (\<lambda>kms_request_id_value.
     Inr (build_key_last_usage_data S operation_value timestamp_value cloud_trail_event_id_value kms_request_id_value))))))"

definition key_last_usage_data_to_py :: "kms_types \<Rightarrow> key_last_usage_data \<Rightarrow> pyval" where
  "key_last_usage_data_to_py S v = PyDict (py_dict
     [(''operation'', opt_to_py PyStr (mklud_operation v)),
      (''timestamp'', opt_to_py (datetime_to_py S) (mklud_timestamp v)),
      (''cloud_trail_event_id'', opt_to_py PyStr (mklud_cloud_trail_event_id v)),
      (''kms_request_id'', opt_to_py PyStr (mklud_kms_request_id v))])"

definition key_list_entry_from_py :: "pyo3 \<Rightarrow> kms_types \<Rightarrow> pyval \<Rightarrow> key_list_entry pyresult" where
  "key_list_entry_from_py P S value =
     and_then (cast_dict P value) (\<lambda>values.
     and_then (member P values ''key_id'' ''str'' (string_from_py P)) (\<lambda>key_id_value.
     and_then (member P values ''key_arn'' ''str'' (string_from_py P)) (\<lambda>key_arn_value.
     Inr (build_key_list_entry S key_id_value key_arn_value))))"

definition key_list_entry_to_py :: "key_list_entry \<Rightarrow> pyval" where
  "key_list_entry_to_py v = PyDict (py_dict
     [(''key_id'', opt_to_py PyStr (mkle_key_id v)),
      (''key_arn'', opt_to_py PyStr (mkle_key_arn v))])"

definition multi_region_key_from_py :: "pyo3 \<Rightarrow> kms_types \<Rightarrow> pyval \<Rightarrow> multi_region_key pyresult" where
  "multi_region_key_from_py P S value =
     and_then (cast_dict P value) (\<lambda>values.
     and_then (member P values ''arn'' ''str'' (string_from_py P)) (\<lambda>arn_value.
     and_then (member P values ''region'' ''str'' (string_from_py P)) (\<lambda>region_value.
     Inr (build_multi_region_key S arn_value region_value))))"

definition multi_region_key_to_py :: "multi_region_key \<Rightarrow> pyval" where
  "multi_region_key_to_py v = PyDict (py_dict
     [(''arn'', opt_to_py PyStr (mmrk_arn v)),
      (''region'', opt_to_py PyStr (mmrk_region v))])"

definition multi_region_configuration_from_py :: "pyo3 \<Rightarrow> kms_types \<Rightarrow> pyval \<Rightarrow> multi_region_configuration pyresult" where
  "multi_region_configuration_from_py P S value =
     and_then (cast_dict P value) (\<lambda>values.
     and_then (member P values ''multi_region_key_type'' ''str (MultiRegionKeyType)'' (enum_from_py P)) (\<lambda>multi_region_key_type_value.
     and_then (member P values ''primary_key'' ''dict (MultiRegionKey)'' (multi_region_key_from_py P S)) (\<lambda>primary_key_value.
     and_then (member P values ''replica_keys'' ''sequence'' (seq_from_py P ''dict (MultiRegionKey)'' (multi_region_key_from_py P S))) (\<lambda>replica_keys_value.
     Inr (build_multi_region_configuration S multi_region_key_type_value primary_key_value replica_keys_value)))))"

definition multi_region_configuration_to_py :: "multi_region_configuration \<Rightarrow> pyval" where
  "multi_region_configuration_to_py v = PyDict (py_dict
     [(''multi_region_key_type'', opt_to_py PyStr (mmrc_multi_region_key_type v)),
      (''primary_key'', opt_to_py multi_region_key_to_py (mmrc_primary_key v)),
      (''replica_keys'', opt_to_py (seq_to_py multi_region_key_to_py) (mmrc_replica_keys v))])"

definition xks_key_configuration_type_from_py :: "pyo3 \<Rightarrow> kms_types \<Rightarrow> pyval \<Rightarrow> xks_key_configuration_type pyresult" where
  "xks_key_configuration_type_from_py P S value =
     and_then (cast_dict P value) (\<lambda>values.
     and_then (member P values ''id'' ''str'' (string_from_py P)) (\<lambda>id_value.
     Inr (build_xks_key_configuration_type S id_value)))"

definition xks_key_configuration_type_to_py :: "xks_key_configuration_type \<Rightarrow> pyval" where
  "xks_key_configuration_type_to_py v = PyDict (py_dict
     [(''id'', opt_to_py PyStr (mxkct_id v))])"

definition key_metadata_from_py :: "pyo3 \<Rightarrow> kms_types \<Rightarrow> pyval \<Rightarrow> key_metadata pyresult" where
  "key_metadata_from_py P S value =
     and_then (cast_dict P value) (\<lambda>values.
     and_then (member P values ''aws_account_id'' ''str'' (string_from_py P)) (\<lambda>aws_account_id_value.
     and_then (member P values ''key_id'' ''str'' (string_from_py P)) (\<lambda>key_id_value.
     and_then (member P values ''arn'' ''str'' (string_from_py P)) (\<lambda>arn_value.
     and_then (member P values ''creation_date'' ''ISO 8601 timestamp string'' (datetime_from_py P S)) (\<lambda>creation_date_value.
     and_then (member P values ''enabled'' ''bool'' (bool_from_py P)) (\<lambda>enabled_value.
     and_then (member P values ''description'' ''str'' (string_from_py P)) (\<lambda>description_value.
     and_then (member P values ''key_usage'' ''str (KeyUsageType)'' (enum_from_py P)) (\<lambda>key_usage_value.
     and_then (member P values ''key_state'' ''str (KeyState)'' (enum_from_py P)) (\<lambda>key_state_value.
     and_then (member P values ''deletion_date'' ''ISO 8601 timestamp string'' (datetime_from_py P S)) (\<lambda>deletion_date_value.
     and_then (member P values ''valid_to'' ''ISO 8601 timestamp string'' (datetime_from_py P S)) (\<lambda>valid_to_value.
     and_then (member P values ''origin'' ''str (OriginType)'' (enum_from_py P)) (\<lambda>origin_value.
     and_then (member P values ''custom_key_store_id'' ''str'' (string_from_py P)) (\<lambda>custom_key_store_id_value.
     and_then (member P values ''cloud_hsm_cluster_id'' ''str'' (string_from_py P)) (\<lambda>cloud_hsm_cluster_id_value.
     and_then (member P values ''expiration_model'' ''str (ExpirationModelType)'' (enum_from_py P)) (\<lambda>expiration_model_value.
     and_then (member P values ''key_manager'' ''str (KeyManagerType)'' (enum_from_py P)) (\<lambda>key_manager_value.
     and_then (member P values ''customer_master_key_spec'' ''str (CustomerMasterKeySpec)'' (enum_from_py P)) (\<lambda>customer_master_key_spec_value.
     and_then (member P values ''key_spec'' ''str (KeySpec)'' (enum_from_py P)) (\<lambda>key_spec_value.
     and_then (member P values ''encryption_algorithms'' ''sequence'' (seq_from_py P ''str (EncryptionAlgorithmSpec)'' (enum_from_py P))) (\<lambda>encryption_algorithms_value.
     and_then (member P values ''signing_algorithms'' ''sequence'' (seq_from_py P ''str (SigningAlgorithmSpec)'' (enum_from_py P))) (\<lambda>signing_algorithms_value.
     and_then (member P values ''key_agreement_algorithms'' ''sequence'' (seq_from_py P ''str (KeyAgreementAlgorithmSpec)'' (enum_from_py P))) (\<lambda>key_agreement_algorithms_value.
     and_then (member P values ''multi_region'' ''bool'' (bool_from_py P)) (\<lambda>multi_region_value.
     and_then (member P values ''multi_region_configuration'' ''dict (MultiRegionConfiguration)'' (multi_region_configuration_from_py P S)) (\<lambda>multi_region_configuration_value.
     and_then (member P values ''pending_deletion_window_in_days'' ''int'' (i32_from_py P)) (\<lambda>pending_deletion_window_in_days_value.
     and_then (member P values ''mac_algorithms'' ''sequence'' (seq_from_py P ''str (MacAlgorithmSpec)'' (enum_from_py P))) (\<lambda>mac_algorithms_value.
     and_then (member P values ''xks_key_configuration'' ''dict (XksKeyConfigurationType)'' (xks_key_configuration_type_from_py P S)) (\<lambda>xks_key_configuration_value.
     and_then (member P values ''current_key_material_id'' ''str'' (string_from_py P)) (\<lambda>current_key_material_id_value.
     map_err (\<lambda>_. input_builder_error P values
         [(''key_id'', ''key_id'')])
       (build_key_metadata S aws_account_id_value key_id_value arn_value creation_date_value enabled_value description_value key_usage_value key_state_value deletion_date_value valid_to_value origin_value custom_key_store_id_value cloud_hsm_cluster_id_value expiration_model_value key_manager_value customer_master_key_spec_value key_spec_value encryption_algorithms_value signing_algorithms_value key_agreement_algorithms_value multi_region_value multi_region_configuration_value pending_deletion_window_in_days_value mac_algorithms_value xks_key_configuration_value current_key_material_id_value))))))))))))))))))))))))))))"

definition key_metadata_to_py :: "kms_types \<Rightarrow> key_metadata \<Rightarrow> pyval" where
  "key_metadata_to_py S v = PyDict (py_dict
     [(''aws_account_id'', opt_to_py PyStr (mkm_aws_account_id v)),
      (''key_id'', PyStr (mkm_key_id v)),
      (''arn'', opt_to_py PyStr (mkm_arn v)),
      (''creation_date'', opt_to_py (datetime_to_py S) (mkm_creation_date v)),
      (''enabled'', PyBool (mkm_enabled v)),
      (''description'', opt_to_py PyStr (mkm_description v)),
      (''key_usage'', opt_to_py PyStr (mkm_key_usage v)),
      (''key_state'', opt_to_py PyStr (mkm_key_state v)),
      (''deletion_date'', opt_to_py (datetime_to_py S) (mkm_deletion_date v)),
      (''valid_to'', opt_to_py (datetime_to_py S) (mkm_valid_to v)),
      (''origin'', opt_to_py PyStr (mkm_origin v)),
      (''custom_key_store_id'', opt_to_py PyStr (mkm_custom_key_store_id v)),
      (''cloud_hsm_cluster_id'', opt_to_py PyStr (mkm_cloud_hsm_cluster_id v)),
      (''expiration_model'', opt_to_py PyStr (mkm_expiration_model v)),
      (''key_manager'', opt_to_py PyStr (mkm_key_manager v)),
      (''customer_master_key_spec'', opt_to_py PyStr (mkm_customer_master_key_spec v)),
      (''key_spec'', opt_to_py PyStr (mkm_key_spec v)),
      (''encryption_algorithms'', opt_to_py (seq_to_py PyStr) (mkm_encryption_algorithms v)),
      (''signing_algorithms'', opt_to_py (seq_to_py PyStr) (mkm_signing_algorithms v)),
      (''key_agreement_algorithms'', opt_to_py (seq_to_py PyStr) (mkm_key_agreement_algorithms v)),
      (''multi_region'', opt_to_py PyBool (mkm_multi_region v)),
      (''multi_region_configuration'', opt_to_py multi_region_configuration_to_py (mkm_multi_region_configuration v)),
      (''pending_deletion_window_in_days'', opt_to_py i32_to_py (mkm_pending_deletion_window_in_days v)),
      (''mac_algorithms'', opt_to_py (seq_to_py PyStr) (mkm_mac_algorithms v)),
      (''xks_key_configuration'', opt_to_py xks_key_configuration_type_to_py (mkm_xks_key_configuration v)),
      (''current_key_material_id'', opt_to_py PyStr (mkm_current_key_material_id v))])"

definition recipient_info_from_py :: "pyo3 \<Rightarrow> kms_types \<Rightarrow> pyval \<Rightarrow> recipient_info pyresult" where
  "recipient_info_from_py P S value =
     and_then (cast_dict P value) (\<lambda>values.
     and_then (member P values ''key_encryption_algorithm'' ''str (KeyEncryptionMechanism)'' (enum_from_py P)) (\<lambda>key_encryption_algorithm_value.
     and_then (member P values ''attestation_document'' ''bytes'' (blob_from_py P)) (\<lambda>attestation_document_value.
     Inr (build_recipient_info S key_encryption_algorithm_value attestation_document_value))))"

definition recipient_info_to_py :: "recipient_info \<Rightarrow> pyval" where
  "recipient_info_to_py v = PyDict (py_dict
     [(''key_encryption_algorithm'', opt_to_py PyStr (mri_key_encryption_algorithm v)),
      (''attestation_document'', opt_to_py PyBytes (mri_attestation_document v))])"

definition rotations_list_entry_from_py :: "pyo3 \<Rightarrow> kms_types \<Rightarrow> pyval \<Rightarrow> rotations_list_entry pyresult" where
  "rotations_list_entry_from_py P S value =
     and_then (cast_dict P value) (\<lambda>values.
     and_then (member P values ''key_id'' ''str'' (string_from_py P)) (\<lambda>key_id_value.
     and_then (member P values ''key_material_id'' ''str'' (string_from_py P)) (\<lambda>key_material_id_value.
     and_then (member P values ''key_material_description'' ''str'' (string_from_py P)) (\<lambda>key_material_description_value.
     and_then (member P values ''import_state'' ''str (ImportState)'' (enum_from_py P)) (\<lambda>import_state_value.
     and_then (member P values ''key_material_state'' ''str (KeyMaterialState)'' (enum_from_py P)) (\<lambda>key_material_state_value.
     and_then (member P values ''expiration_model'' ''str (ExpirationModelType)'' (enum_from_py P)) (\<lambda>expiration_model_value.
     and_then (member P values ''valid_to'' ''ISO 8601 timestamp string'' (datetime_from_py P S)) (\<lambda>valid_to_value.
     and_then (member P values ''rotation_date'' ''ISO 8601 timestamp string'' (datetime_from_py P S)) (\<lambda>rotation_date_value.
     and_then (member P values ''rotation_type'' ''str (RotationType)'' (enum_from_py P)) (\<lambda>rotation_type_value.
     Inr (build_rotations_list_entry S key_id_value key_material_id_value key_material_description_value import_state_value key_material_state_value expiration_model_value valid_to_value rotation_date_value rotation_type_value)))))))))))"

definition rotations_list_entry_to_py :: "kms_types \<Rightarrow> rotations_list_entry \<Rightarrow> pyval" where
  "rotations_list_entry_to_py S v = PyDict (py_dict
     [(''key_id'', opt_to_py PyStr (mrle_key_id v)),
      (''key_material_id'', opt_to_py PyStr (mrle_key_material_id v)),
      (''key_material_description'', opt_to_py PyStr (mrle_key_material_description v)),
      (''import_state'', opt_to_py PyStr (mrle_import_state v)),
      (''key_material_state'', opt_to_py PyStr (mrle_key_material_state v)),
      (''expiration_model'', opt_to_py PyStr (mrle_expiration_model v)),
      (''valid_to'', opt_to_py (datetime_to_py S) (mrle_valid_to v)),
      (''rotation_date'', opt_to_py (datetime_to_py S) (mrle_rotation_date v)),
      (''rotation_type'', opt_to_py PyStr (mrle_rotation_type v))])"

definition kms_tag_from_py :: "pyo3 \<Rightarrow> kms_types \<Rightarrow> pyval \<Rightarrow> kms_tag pyresult" where
  "kms_tag_from_py P S value =
     and_then (cast_dict P value) (\<lambda>values.
     and_then (member P values ''tag_key'' ''str'' (string_from_py P)) (\<lambda>tag_key_value.
     and_then (member P values ''tag_value'' ''str'' (string_from_py P)) (\<lambda>tag_value_value.
     map_err (\<lambda>_. input_builder_error P values
         [(''tag_key'', ''tag_key''), (''tag_value'', ''tag_value'')])
       (build_kms_tag S tag_key_value tag_value_value))))"

definition kms_tag_to_py :: "kms_tag \<Rightarrow> pyval" where
  "kms_tag_to_py v = PyDict (py_dict
     [(''tag_key'', PyStr (mt_tag_key v)),
      (''tag_value'', PyStr (mt_tag_value v))])"

definition xks_proxy_authentication_credential_type_from_py :: "pyo3 \<Rightarrow> kms_types \<Rightarrow> pyval \<Rightarrow> xks_proxy_authentication_credential_type pyresult" where
  "xks_proxy_authentication_credential_type_from_py P S value =
     and_then (cast_dict P value) (\<lambda>values.
     and_then (member P values ''access_key_id'' ''str'' (string_from_py P)) (\<lambda>access_key_id_value.
     and_then (member P values ''raw_secret_access_key'' ''str'' (string_from_py P)) (\<lambda>raw_secret_access_key_value.
     map_err (\<lambda>_. input_builder_error P values
         [(''access_key_id'', ''access_key_id''), (''raw_secret_access_key'', ''raw_secret_access_key'')])
       (build_xks_proxy_authentication_credential_type S access_key_id_value raw_secret_access_key_value))))"

definition xks_proxy_authentication_credential_type_to_py :: "xks_proxy_authentication_credential_type \<Rightarrow> pyval" where
  "xks_proxy_authentication_credential_type_to_py v = PyDict (py_dict
     [(''access_key_id'', PyStr (mxpact_access_key_id v)),
      (''raw_secret_access_key'', PyStr (mxpact_raw_secret_access_key v))])"

section \<open>Round trips\<close>

text \<open>What the builders document: a builder given every member the structure must have gives the
  structure with the members it was given, and one that lacks a required member fails.\<close>

locale kms_types_laws =
  fixes S :: kms_types
  assumes alias_list_entry_built: "build_alias_list_entry S male0 male1 male2 male3 male4 =
       \<lparr>male_alias_name = male0, male_alias_arn = male1, male_target_key_id = male2, male_creation_date = male3, male_last_updated_date = male4\<rparr>"
    and xks_proxy_configuration_type_built: "build_xks_proxy_configuration_type S mxpct0 mxpct1 mxpct2 mxpct3 mxpct4 mxpct5 =
       \<lparr>mxpct_connectivity = mxpct0, mxpct_access_key_id = mxpct1, mxpct_uri_endpoint = mxpct2, mxpct_uri_path = mxpct3, mxpct_vpc_endpoint_service_name = mxpct4, mxpct_vpc_endpoint_service_owner = mxpct5\<rparr>"
    and custom_key_stores_list_entry_built: "build_custom_key_stores_list_entry S mcksle0 mcksle1 mcksle2 mcksle3 mcksle4 mcksle5 mcksle6 mcksle7 mcksle8 =
       \<lparr>mcksle_custom_key_store_id = mcksle0, mcksle_custom_key_store_name = mcksle1, mcksle_cloud_hsm_cluster_id = mcksle2, mcksle_trust_anchor_certificate = mcksle3, mcksle_connection_state = mcksle4, mcksle_connection_error_code = mcksle5, mcksle_creation_date = mcksle6, mcksle_custom_key_store_type = mcksle7, mcksle_xks_proxy_configuration = mcksle8\<rparr>"
    and grant_constraints_built: "build_grant_constraints S mgc0 mgc1 mgc2 =
       \<lparr>mgc_encryption_context_subset = mgc0, mgc_encryption_context_equals = mgc1, mgc_source_arn = mgc2\<rparr>"
    and grant_list_entry_built: "build_grant_list_entry S mgle0 mgle1 mgle2 mgle3 mgle4 mgle5 mgle6 mgle7 mgle8 mgle9 mgle10 =
       \<lparr>mgle_key_id = mgle0, mgle_grant_id = mgle1, mgle_name = mgle2, mgle_creation_date = mgle3, mgle_grantee_principal = mgle4, mgle_retiring_principal = mgle5, mgle_issuing_account = mgle6, mgle_operations = mgle7, mgle_constraints = mgle8, mgle_grantee_service_principal = mgle9, mgle_retiring_service_principal = mgle10\<rparr>"
    and key_last_usage_data_built: "build_key_last_usage_data S mklud0 mklud1 mklud2 mklud3 =
       \<lparr>mklud_operation = mklud0, mklud_timestamp = mklud1, mklud_cloud_trail_event_id = mklud2, mklud_kms_request_id = mklud3\<rparr>"
    and key_list_entry_built: "build_key_list_entry S mkle0 mkle1 =
       \<lparr>mkle_key_id = mkle0, mkle_key_arn = mkle1\<rparr>"
    and multi_region_key_built: "build_multi_region_key S mmrk0 mmrk1 =
       \<lparr>mmrk_arn = mmrk0, mmrk_region = mmrk1\<rparr>"
    and multi_region_configuration_built: "build_multi_region_configuration S mmrc0 mmrc1 mmrc2 =
       \<lparr>mmrc_multi_region_key_type = mmrc0, mmrc_primary_key = mmrc1, mmrc_replica_keys = mmrc2\<rparr>"
    and xks_key_configuration_type_built: "build_xks_key_configuration_type S mxkct0 =
       \<lparr>mxkct_id = mxkct0\<rparr>"
    and key_metadata_built: "build_key_metadata S mkm0 (Some mkm1) mkm2 mkm3 (Some mkm4) mkm5 mkm6 mkm7 mkm8 mkm9 mkm10 mkm11 mkm12 mkm13 mkm14 mkm15 mkm16 mkm17 mkm18 mkm19 mkm20 mkm21 mkm22 mkm23 mkm24 mkm25 =
       Inr \<lparr>mkm_aws_account_id = mkm0, mkm_key_id = mkm1, mkm_arn = mkm2, mkm_creation_date = mkm3, mkm_enabled = mkm4, mkm_description = mkm5, mkm_key_usage = mkm6, mkm_key_state = mkm7, mkm_deletion_date = mkm8, mkm_valid_to = mkm9, mkm_origin = mkm10, mkm_custom_key_store_id = mkm11, mkm_cloud_hsm_cluster_id = mkm12, mkm_expiration_model = mkm13, mkm_key_manager = mkm14, mkm_customer_master_key_spec = mkm15, mkm_key_spec = mkm16, mkm_encryption_algorithms = mkm17, mkm_signing_algorithms = mkm18, mkm_key_agreement_algorithms = mkm19, mkm_multi_region = mkm20, mkm_multi_region_configuration = mkm21, mkm_pending_deletion_window_in_days = mkm22, mkm_mac_algorithms = mkm23, mkm_xks_key_configuration = mkm24, mkm_current_key_material_id = mkm25\<rparr>"
    and recipient_info_built: "build_recipient_info S mri0 mri1 =
       \<lparr>mri_key_encryption_algorithm = mri0, mri_attestation_document = mri1\<rparr>"
    and rotations_list_entry_built: "build_rotations_list_entry S mrle0 mrle1 mrle2 mrle3 mrle4 mrle5 mrle6 mrle7 mrle8 =
       \<lparr>mrle_key_id = mrle0, mrle_key_material_id = mrle1, mrle_key_material_description = mrle2, mrle_import_state = mrle3, mrle_key_material_state = mrle4, mrle_expiration_model = mrle5, mrle_valid_to = mrle6, mrle_rotation_date = mrle7, mrle_rotation_type = mrle8\<rparr>"
    and kms_tag_built: "build_kms_tag S (Some mt0) (Some mt1) =
       Inr \<lparr>mt_tag_key = mt0, mt_tag_value = mt1\<rparr>"
    and xks_proxy_authentication_credential_type_built: "build_xks_proxy_authentication_credential_type S (Some mxpact0) (Some mxpact1) =
       Inr \<lparr>mxpact_access_key_id = mxpact0, mxpact_raw_secret_access_key = mxpact1\<rparr>"
    and key_metadata_incomplete: "omkm1 = None \<Longrightarrow>
       build_key_metadata S omkm0 omkm1 omkm2 omkm3 omkm4 omkm5 omkm6 omkm7 omkm8 omkm9 omkm10 omkm11 omkm12 omkm13 omkm14 omkm15 omkm16 omkm17 omkm18 omkm19 omkm20 omkm21 omkm22 omkm23 omkm24 omkm25 = Inl ()"
    and kms_tag_incomplete: "omt0 = None \<or> omt1 = None \<Longrightarrow>
       build_kms_tag S omt0 omt1 = Inl ()"
    and xks_proxy_authentication_credential_type_incomplete: "omxpact0 = None \<or> omxpact1 = None \<Longrightarrow>
       build_xks_proxy_authentication_credential_type S omxpact0 omxpact1 = Inl ()"

text \<open>A concrete SDK.\<close>

definition kms_std :: kms_types where
  "kms_std =
     \<lparr>parse_datetime = (\<lambda>s. Inr (int (digits_value s), 0)),
      show_datetime = (\<lambda>d. show_nat (nat (fst d))),
      build_alias_list_entry = (\<lambda>a0 a1 a2 a3 a4. \<lparr>male_alias_name = a0, male_alias_arn = a1, male_target_key_id = a2, male_creation_date = a3, male_last_updated_date = a4\<rparr>),
      build_xks_proxy_configuration_type = (\<lambda>a0 a1 a2 a3 a4 a5. \<lparr>mxpct_connectivity = a0, mxpct_access_key_id = a1, mxpct_uri_endpoint = a2, mxpct_uri_path = a3, mxpct_vpc_endpoint_service_name = a4, mxpct_vpc_endpoint_service_owner = a5\<rparr>),
      build_custom_key_stores_list_entry = (\<lambda>a0 a1 a2 a3 a4 a5 a6 a7 a8. \<lparr>mcksle_custom_key_store_id = a0, mcksle_custom_key_store_name = a1, mcksle_cloud_hsm_cluster_id = a2, mcksle_trust_anchor_certificate = a3, mcksle_connection_state = a4, mcksle_connection_error_code = a5, mcksle_creation_date = a6, mcksle_custom_key_store_type = a7, mcksle_xks_proxy_configuration = a8\<rparr>),
      build_grant_constraints = (\<lambda>a0 a1 a2. \<lparr>mgc_encryption_context_subset = a0, mgc_encryption_context_equals = a1, mgc_source_arn = a2\<rparr>),
      build_grant_list_entry = (\<lambda>a0 a1 a2 a3 a4 a5 a6 a7 a8 a9 a10. \<lparr>mgle_key_id = a0, mgle_grant_id = a1, mgle_name = a2, mgle_creation_date = a3, mgle_grantee_principal = a4, mgle_retiring_principal = a5, mgle_issuing_account = a6, mgle_operations = a7, mgle_constraints = a8, mgle_grantee_service_principal = a9, mgle_retiring_service_principal = a10\<rparr>),
      build_key_last_usage_data = (\<lambda>a0 a1 a2 a3. \<lparr>mklud_operation = a0, mklud_timestamp = a1, mklud_cloud_trail_event_id = a2, mklud_kms_request_id = a3\<rparr>),
      build_key_list_entry = (\<lambda>a0 a1. \<lparr>mkle_key_id = a0, mkle_key_arn = a1\<rparr>),
      build_multi_region_key = (\<lambda>a0 a1. \<lparr>mmrk_arn = a0, mmrk_region = a1\<rparr>),
      build_multi_region_configuration = (\<lambda>a0 a1 a2. \<lparr>mmrc_multi_region_key_type = a0, mmrc_primary_key = a1, mmrc_replica_keys = a2\<rparr>),
      build_xks_key_configuration_type = (\<lambda>a0. \<lparr>mxkct_id = a0\<rparr>),
      build_key_metadata = (\<lambda>a0 a1 a2 a3 a4 a5 a6 a7 a8 a9 a10 a11 a12 a13 a14 a15 a16 a17 a18 a19 a20 a21 a22 a23 a24 a25. if a1 = None then Inl ()
        else Inr \<lparr>mkm_aws_account_id = a0, mkm_key_id = the a1, mkm_arn = a2, mkm_creation_date = a3, mkm_enabled = unwrap_or False a4, mkm_description = a5, mkm_key_usage = a6, mkm_key_state = a7, mkm_deletion_date = a8, mkm_valid_to = a9, mkm_origin = a10, mkm_custom_key_store_id = a11, mkm_cloud_hsm_cluster_id = a12, mkm_expiration_model = a13, mkm_key_manager = a14, mkm_customer_master_key_spec = a15, mkm_key_spec = a16, mkm_encryption_algorithms = a17, mkm_signing_algorithms = a18, mkm_key_agreement_algorithms = a19, mkm_multi_region = a20, mkm_multi_region_configuration = a21, mkm_pending_deletion_window_in_days = a22, mkm_mac_algorithms = a23, mkm_xks_key_configuration = a24, mkm_current_key_material_id = a25\<rparr>),
      build_recipient_info = (\<lambda>a0 a1. \<lparr>mri_key_encryption_algorithm = a0, mri_attestation_document = a1\<rparr>),
      build_rotations_list_entry = (\<lambda>a0 a1 a2 a3 a4 a5 a6 a7 a8. \<lparr>mrle_key_id = a0, mrle_key_material_id = a1, mrle_key_material_description = a2, mrle_import_state = a3, mrle_key_material_state = a4, mrle_expiration_model = a5, mrle_valid_to = a6, mrle_rotation_date = a7, mrle_rotation_type = a8\<rparr>),
      build_kms_tag = (\<lambda>a0 a1. if a0 = None \<or> a1 = None then Inl ()
        else Inr \<lparr>mt_tag_key = the a0, mt_tag_value = the a1\<rparr>),
      build_xks_proxy_authentication_credential_type = (\<lambda>a0 a1. if a0 = None \<or> a1 = None then Inl ()
        else Inr \<lparr>mxpact_access_key_id = the a0, mxpact_raw_secret_access_key = the a1\<rparr>)\<rparr>"

interpretation std_kms: kms_types_laws kms_std
  by unfold_locales (auto simp: kms_std_def unwrap_or_def)

locale kms_conversions = pyo3_laws P + kms_types_laws S for P S +
  fixes order :: "(string, pyval) fmap \<Rightarrow> (string \<times> pyval) list"
  assumes order: "iterates order"
begin

lemma xks_proxy_configuration_type_reads: "reads (xks_proxy_configuration_type_from_py P S) (xks_proxy_configuration_type_to_py)"
proof (rule readsI)
  show "xks_proxy_configuration_type_to_py v \<noteq> PyNone" for v
    by (simp add: xks_proxy_configuration_type_to_py_def)
  show "xks_proxy_configuration_type_from_py P S (xks_proxy_configuration_type_to_py v) = Inr v" for v
    by (cases v) (simp add: xks_proxy_configuration_type_from_py_def xks_proxy_configuration_type_to_py_def dict_ok py_dict_distinct xks_proxy_configuration_type_built
        member_reads [OF reads_enum]
        member_reads [OF reads_str])
qed

lemma grant_constraints_reads: "reads (grant_constraints_from_py P S) (grant_constraints_to_py order)"
proof (rule readsI)
  show "grant_constraints_to_py order v \<noteq> PyNone" for v
    by (simp add: grant_constraints_to_py_def)
  show "grant_constraints_from_py P S (grant_constraints_to_py order v) = Inr v" for v
    by (cases v) (simp add: grant_constraints_from_py_def grant_constraints_to_py_def dict_ok py_dict_distinct grant_constraints_built
        member_reads [OF reads_map [OF order reads_str]]
        member_reads [OF reads_str])
qed

lemma key_list_entry_reads: "reads (key_list_entry_from_py P S) (key_list_entry_to_py)"
proof (rule readsI)
  show "key_list_entry_to_py v \<noteq> PyNone" for v
    by (simp add: key_list_entry_to_py_def)
  show "key_list_entry_from_py P S (key_list_entry_to_py v) = Inr v" for v
    by (cases v) (simp add: key_list_entry_from_py_def key_list_entry_to_py_def dict_ok py_dict_distinct key_list_entry_built
        member_reads [OF reads_str])
qed

lemma multi_region_key_reads: "reads (multi_region_key_from_py P S) (multi_region_key_to_py)"
proof (rule readsI)
  show "multi_region_key_to_py v \<noteq> PyNone" for v
    by (simp add: multi_region_key_to_py_def)
  show "multi_region_key_from_py P S (multi_region_key_to_py v) = Inr v" for v
    by (cases v) (simp add: multi_region_key_from_py_def multi_region_key_to_py_def dict_ok py_dict_distinct multi_region_key_built
        member_reads [OF reads_str])
qed

lemma multi_region_configuration_reads: "reads (multi_region_configuration_from_py P S) (multi_region_configuration_to_py)"
proof (rule readsI)
  show "multi_region_configuration_to_py v \<noteq> PyNone" for v
    by (simp add: multi_region_configuration_to_py_def)
  show "multi_region_configuration_from_py P S (multi_region_configuration_to_py v) = Inr v" for v
    by (cases v) (simp add: multi_region_configuration_from_py_def multi_region_configuration_to_py_def dict_ok py_dict_distinct multi_region_configuration_built
        member_reads [OF reads_enum]
        member_reads [OF multi_region_key_reads]
        member_reads [OF reads_seq [OF multi_region_key_reads]])
qed

lemma xks_key_configuration_type_reads: "reads (xks_key_configuration_type_from_py P S) (xks_key_configuration_type_to_py)"
proof (rule readsI)
  show "xks_key_configuration_type_to_py v \<noteq> PyNone" for v
    by (simp add: xks_key_configuration_type_to_py_def)
  show "xks_key_configuration_type_from_py P S (xks_key_configuration_type_to_py v) = Inr v" for v
    by (cases v) (simp add: xks_key_configuration_type_from_py_def xks_key_configuration_type_to_py_def dict_ok py_dict_distinct xks_key_configuration_type_built
        member_reads [OF reads_str])
qed

lemma recipient_info_reads: "reads (recipient_info_from_py P S) (recipient_info_to_py)"
proof (rule readsI)
  show "recipient_info_to_py v \<noteq> PyNone" for v
    by (simp add: recipient_info_to_py_def)
  show "recipient_info_from_py P S (recipient_info_to_py v) = Inr v" for v
    by (cases v) (simp add: recipient_info_from_py_def recipient_info_to_py_def dict_ok py_dict_distinct recipient_info_built
        member_reads [OF reads_enum]
        member_reads [OF reads_blob])
qed

lemma kms_tag_reads: "reads (kms_tag_from_py P S) (kms_tag_to_py)"
proof (rule readsI)
  show "kms_tag_to_py v \<noteq> PyNone" for v
    by (simp add: kms_tag_to_py_def)
  show "kms_tag_from_py P S (kms_tag_to_py v) = Inr v" for v
    by (cases v) (simp add: kms_tag_from_py_def kms_tag_to_py_def dict_ok py_dict_distinct kms_tag_built
        member_reads_given [OF reads_str])
qed

lemma xks_proxy_authentication_credential_type_reads: "reads (xks_proxy_authentication_credential_type_from_py P S) (xks_proxy_authentication_credential_type_to_py)"
proof (rule readsI)
  show "xks_proxy_authentication_credential_type_to_py v \<noteq> PyNone" for v
    by (simp add: xks_proxy_authentication_credential_type_to_py_def)
  show "xks_proxy_authentication_credential_type_from_py P S (xks_proxy_authentication_credential_type_to_py v) = Inr v" for v
    by (cases v) (simp add: xks_proxy_authentication_credential_type_from_py_def xks_proxy_authentication_credential_type_to_py_def dict_ok py_dict_distinct xks_proxy_authentication_credential_type_built
        member_reads_given [OF reads_str])
qed

end

interpretation std_kms_conv: kms_conversions pyo3_std kms_std by_key
  by (intro kms_conversions.intro kms_conversions_axioms.intro std.pyo3_laws_axioms std_kms.kms_types_laws_axioms iterates_by_key)

end
