(* ===== verification/KmsOutputs.thy ===== *)
theory KmsOutputs
  imports KmsTypes
begin

text \<open>
  The response objects of the KMS extension, from \<open>crates/rboto-kms/src/generated.rs\<close>: per class, the
  fields it holds, its getters in order, and \<open>to_dict\<close>. A getter of structures gives objects that
  share them (\<open>Arc::clone\<close>), one per structure of a list or mapping; every other getter gives a
  plain value, and an absent one is \<open>None\<close>. Integers whose width the code does not show are \<open>int\<close>.
\<close>

section \<open>Attributes\<close>

datatype kms_object =
    KmsAliasListEntry alias_list_entry
  | KmsCustomKeyStoresListEntry custom_key_stores_list_entry
  | KmsGrantConstraints grant_constraints
  | KmsGrantListEntry grant_list_entry
  | KmsKeyLastUsageData key_last_usage_data
  | KmsKeyListEntry key_list_entry
  | KmsKeyMetadata key_metadata
  | KmsMultiRegionConfiguration multi_region_configuration
  | KmsMultiRegionKey multi_region_key
  | KmsRotationsListEntry rotations_list_entry
  | KmsTag kms_tag
  | KmsXksKeyConfigurationType xks_key_configuration_type
  | KmsXksProxyConfigurationType xks_proxy_configuration_type

datatype kms_attr =
    KmsPlain pyval
  | KmsObject kms_object
  | KmsObjects "kms_object list"
  | KmsObjectMap "(string, kms_object) fmap"

definition kms_opt_attr :: "('a \<Rightarrow> kms_attr) \<Rightarrow> 'a option \<Rightarrow> kms_attr" where
  "kms_opt_attr f v = (case v of None \<Rightarrow> KmsPlain PyNone | Some x \<Rightarrow> f x)"

section \<open>\<open>AliasListEntry\<close>\<close>

definition alias_list_entry_attributes :: "((string, pyval) fmap \<Rightarrow> (string \<times> pyval) list) \<Rightarrow> kms_types \<Rightarrow> alias_list_entry \<Rightarrow> (string \<times> kms_attr) list" where
  "alias_list_entry_attributes order S v =
     [(''alias_name'', KmsPlain (opt_to_py PyStr (male_alias_name v))),
      (''alias_arn'', KmsPlain (opt_to_py PyStr (male_alias_arn v))),
      (''target_key_id'', KmsPlain (opt_to_py PyStr (male_target_key_id v))),
      (''creation_date'', KmsPlain (opt_to_py (datetime_to_py S) (male_creation_date v))),
      (''last_updated_date'', KmsPlain (opt_to_py (datetime_to_py S) (male_last_updated_date v)))]"

definition alias_list_entry_to_dict :: "((string, pyval) fmap \<Rightarrow> (string \<times> pyval) list) \<Rightarrow> kms_types \<Rightarrow> alias_list_entry \<Rightarrow> pyval" where
  "alias_list_entry_to_dict order S v = alias_list_entry_to_py S v"

section \<open>\<open>CustomKeyStoresListEntry\<close>\<close>

definition custom_key_stores_list_entry_attributes :: "((string, pyval) fmap \<Rightarrow> (string \<times> pyval) list) \<Rightarrow> kms_types \<Rightarrow> custom_key_stores_list_entry \<Rightarrow> (string \<times> kms_attr) list" where
  "custom_key_stores_list_entry_attributes order S v =
     [(''custom_key_store_id'', KmsPlain (opt_to_py PyStr (mcksle_custom_key_store_id v))),
      (''custom_key_store_name'', KmsPlain (opt_to_py PyStr (mcksle_custom_key_store_name v))),
      (''cloud_hsm_cluster_id'', KmsPlain (opt_to_py PyStr (mcksle_cloud_hsm_cluster_id v))),
      (''trust_anchor_certificate'', KmsPlain (opt_to_py PyStr (mcksle_trust_anchor_certificate v))),
      (''connection_state'', KmsPlain (opt_to_py PyStr (mcksle_connection_state v))),
      (''connection_error_code'', KmsPlain (opt_to_py PyStr (mcksle_connection_error_code v))),
      (''creation_date'', KmsPlain (opt_to_py (datetime_to_py S) (mcksle_creation_date v))),
      (''custom_key_store_type'', KmsPlain (opt_to_py PyStr (mcksle_custom_key_store_type v))),
      (''xks_proxy_configuration'', kms_opt_attr (\<lambda>x. KmsObject (KmsXksProxyConfigurationType x)) (mcksle_xks_proxy_configuration v))]"

definition custom_key_stores_list_entry_to_dict :: "((string, pyval) fmap \<Rightarrow> (string \<times> pyval) list) \<Rightarrow> kms_types \<Rightarrow> custom_key_stores_list_entry \<Rightarrow> pyval" where
  "custom_key_stores_list_entry_to_dict order S v = custom_key_stores_list_entry_to_py S v"

section \<open>\<open>GrantConstraints\<close>\<close>

definition grant_constraints_attributes :: "((string, pyval) fmap \<Rightarrow> (string \<times> pyval) list) \<Rightarrow> kms_types \<Rightarrow> grant_constraints \<Rightarrow> (string \<times> kms_attr) list" where
  "grant_constraints_attributes order S v =
     [(''encryption_context_subset'', KmsPlain (opt_to_py (mapping_to_py order PyStr) (mgc_encryption_context_subset v))),
      (''encryption_context_equals'', KmsPlain (opt_to_py (mapping_to_py order PyStr) (mgc_encryption_context_equals v))),
      (''source_arn'', KmsPlain (opt_to_py PyStr (mgc_source_arn v)))]"

definition grant_constraints_to_dict :: "((string, pyval) fmap \<Rightarrow> (string \<times> pyval) list) \<Rightarrow> kms_types \<Rightarrow> grant_constraints \<Rightarrow> pyval" where
  "grant_constraints_to_dict order S v = grant_constraints_to_py order v"

section \<open>\<open>GrantListEntry\<close>\<close>

definition grant_list_entry_attributes :: "((string, pyval) fmap \<Rightarrow> (string \<times> pyval) list) \<Rightarrow> kms_types \<Rightarrow> grant_list_entry \<Rightarrow> (string \<times> kms_attr) list" where
  "grant_list_entry_attributes order S v =
     [(''key_id'', KmsPlain (opt_to_py PyStr (mgle_key_id v))),
      (''grant_id'', KmsPlain (opt_to_py PyStr (mgle_grant_id v))),
      (''name'', KmsPlain (opt_to_py PyStr (mgle_name v))),
      (''creation_date'', KmsPlain (opt_to_py (datetime_to_py S) (mgle_creation_date v))),
      (''grantee_principal'', KmsPlain (opt_to_py PyStr (mgle_grantee_principal v))),
      (''retiring_principal'', KmsPlain (opt_to_py PyStr (mgle_retiring_principal v))),
      (''issuing_account'', KmsPlain (opt_to_py PyStr (mgle_issuing_account v))),
      (''operations'', KmsPlain (opt_to_py (seq_to_py PyStr) (mgle_operations v))),
      (''constraints'', kms_opt_attr (\<lambda>x. KmsObject (KmsGrantConstraints x)) (mgle_constraints v)),
      (''grantee_service_principal'', KmsPlain (opt_to_py PyStr (mgle_grantee_service_principal v))),
      (''retiring_service_principal'', KmsPlain (opt_to_py PyStr (mgle_retiring_service_principal v)))]"

definition grant_list_entry_to_dict :: "((string, pyval) fmap \<Rightarrow> (string \<times> pyval) list) \<Rightarrow> kms_types \<Rightarrow> grant_list_entry \<Rightarrow> pyval" where
  "grant_list_entry_to_dict order S v = grant_list_entry_to_py order S v"

section \<open>\<open>KeyLastUsageData\<close>\<close>

definition key_last_usage_data_attributes :: "((string, pyval) fmap \<Rightarrow> (string \<times> pyval) list) \<Rightarrow> kms_types \<Rightarrow> key_last_usage_data \<Rightarrow> (string \<times> kms_attr) list" where
  "key_last_usage_data_attributes order S v =
     [(''operation'', KmsPlain (opt_to_py PyStr (mklud_operation v))),
      (''timestamp'', KmsPlain (opt_to_py (datetime_to_py S) (mklud_timestamp v))),
      (''cloud_trail_event_id'', KmsPlain (opt_to_py PyStr (mklud_cloud_trail_event_id v))),
      (''kms_request_id'', KmsPlain (opt_to_py PyStr (mklud_kms_request_id v)))]"

definition key_last_usage_data_to_dict :: "((string, pyval) fmap \<Rightarrow> (string \<times> pyval) list) \<Rightarrow> kms_types \<Rightarrow> key_last_usage_data \<Rightarrow> pyval" where
  "key_last_usage_data_to_dict order S v = key_last_usage_data_to_py S v"

section \<open>\<open>KeyListEntry\<close>\<close>

definition key_list_entry_attributes :: "((string, pyval) fmap \<Rightarrow> (string \<times> pyval) list) \<Rightarrow> kms_types \<Rightarrow> key_list_entry \<Rightarrow> (string \<times> kms_attr) list" where
  "key_list_entry_attributes order S v =
     [(''key_id'', KmsPlain (opt_to_py PyStr (mkle_key_id v))),
      (''key_arn'', KmsPlain (opt_to_py PyStr (mkle_key_arn v)))]"

definition key_list_entry_to_dict :: "((string, pyval) fmap \<Rightarrow> (string \<times> pyval) list) \<Rightarrow> kms_types \<Rightarrow> key_list_entry \<Rightarrow> pyval" where
  "key_list_entry_to_dict order S v = key_list_entry_to_py v"

section \<open>\<open>KeyMetadata\<close>\<close>

definition key_metadata_attributes :: "((string, pyval) fmap \<Rightarrow> (string \<times> pyval) list) \<Rightarrow> kms_types \<Rightarrow> key_metadata \<Rightarrow> (string \<times> kms_attr) list" where
  "key_metadata_attributes order S v =
     [(''aws_account_id'', KmsPlain (opt_to_py PyStr (mkm_aws_account_id v))),
      (''key_id'', KmsPlain (PyStr (mkm_key_id v))),
      (''arn'', KmsPlain (opt_to_py PyStr (mkm_arn v))),
      (''creation_date'', KmsPlain (opt_to_py (datetime_to_py S) (mkm_creation_date v))),
      (''enabled'', KmsPlain (PyBool (mkm_enabled v))),
      (''description'', KmsPlain (opt_to_py PyStr (mkm_description v))),
      (''key_usage'', KmsPlain (opt_to_py PyStr (mkm_key_usage v))),
      (''key_state'', KmsPlain (opt_to_py PyStr (mkm_key_state v))),
      (''deletion_date'', KmsPlain (opt_to_py (datetime_to_py S) (mkm_deletion_date v))),
      (''valid_to'', KmsPlain (opt_to_py (datetime_to_py S) (mkm_valid_to v))),
      (''origin'', KmsPlain (opt_to_py PyStr (mkm_origin v))),
      (''custom_key_store_id'', KmsPlain (opt_to_py PyStr (mkm_custom_key_store_id v))),
      (''cloud_hsm_cluster_id'', KmsPlain (opt_to_py PyStr (mkm_cloud_hsm_cluster_id v))),
      (''expiration_model'', KmsPlain (opt_to_py PyStr (mkm_expiration_model v))),
      (''key_manager'', KmsPlain (opt_to_py PyStr (mkm_key_manager v))),
      (''customer_master_key_spec'', KmsPlain (opt_to_py PyStr (mkm_customer_master_key_spec v))),
      (''key_spec'', KmsPlain (opt_to_py PyStr (mkm_key_spec v))),
      (''encryption_algorithms'', KmsPlain (opt_to_py (seq_to_py PyStr) (mkm_encryption_algorithms v))),
      (''signing_algorithms'', KmsPlain (opt_to_py (seq_to_py PyStr) (mkm_signing_algorithms v))),
      (''key_agreement_algorithms'', KmsPlain (opt_to_py (seq_to_py PyStr) (mkm_key_agreement_algorithms v))),
      (''multi_region'', KmsPlain (opt_to_py PyBool (mkm_multi_region v))),
      (''multi_region_configuration'', kms_opt_attr (\<lambda>x. KmsObject (KmsMultiRegionConfiguration x)) (mkm_multi_region_configuration v)),
      (''pending_deletion_window_in_days'', KmsPlain (opt_to_py i32_to_py (mkm_pending_deletion_window_in_days v))),
      (''mac_algorithms'', KmsPlain (opt_to_py (seq_to_py PyStr) (mkm_mac_algorithms v))),
      (''xks_key_configuration'', kms_opt_attr (\<lambda>x. KmsObject (KmsXksKeyConfigurationType x)) (mkm_xks_key_configuration v)),
      (''current_key_material_id'', KmsPlain (opt_to_py PyStr (mkm_current_key_material_id v)))]"

definition key_metadata_to_dict :: "((string, pyval) fmap \<Rightarrow> (string \<times> pyval) list) \<Rightarrow> kms_types \<Rightarrow> key_metadata \<Rightarrow> pyval" where
  "key_metadata_to_dict order S v = key_metadata_to_py S v"

section \<open>\<open>MultiRegionConfiguration\<close>\<close>

definition multi_region_configuration_attributes :: "((string, pyval) fmap \<Rightarrow> (string \<times> pyval) list) \<Rightarrow> kms_types \<Rightarrow> multi_region_configuration \<Rightarrow> (string \<times> kms_attr) list" where
  "multi_region_configuration_attributes order S v =
     [(''multi_region_key_type'', KmsPlain (opt_to_py PyStr (mmrc_multi_region_key_type v))),
      (''primary_key'', kms_opt_attr (\<lambda>x. KmsObject (KmsMultiRegionKey x)) (mmrc_primary_key v)),
      (''replica_keys'', kms_opt_attr (\<lambda>xs. KmsObjects (map KmsMultiRegionKey xs)) (mmrc_replica_keys v))]"

definition multi_region_configuration_to_dict :: "((string, pyval) fmap \<Rightarrow> (string \<times> pyval) list) \<Rightarrow> kms_types \<Rightarrow> multi_region_configuration \<Rightarrow> pyval" where
  "multi_region_configuration_to_dict order S v = multi_region_configuration_to_py v"

section \<open>\<open>MultiRegionKey\<close>\<close>

definition multi_region_key_attributes :: "((string, pyval) fmap \<Rightarrow> (string \<times> pyval) list) \<Rightarrow> kms_types \<Rightarrow> multi_region_key \<Rightarrow> (string \<times> kms_attr) list" where
  "multi_region_key_attributes order S v =
     [(''arn'', KmsPlain (opt_to_py PyStr (mmrk_arn v))),
      (''region'', KmsPlain (opt_to_py PyStr (mmrk_region v)))]"

definition multi_region_key_to_dict :: "((string, pyval) fmap \<Rightarrow> (string \<times> pyval) list) \<Rightarrow> kms_types \<Rightarrow> multi_region_key \<Rightarrow> pyval" where
  "multi_region_key_to_dict order S v = multi_region_key_to_py v"

section \<open>\<open>RotationsListEntry\<close>\<close>

definition rotations_list_entry_attributes :: "((string, pyval) fmap \<Rightarrow> (string \<times> pyval) list) \<Rightarrow> kms_types \<Rightarrow> rotations_list_entry \<Rightarrow> (string \<times> kms_attr) list" where
  "rotations_list_entry_attributes order S v =
     [(''key_id'', KmsPlain (opt_to_py PyStr (mrle_key_id v))),
      (''key_material_id'', KmsPlain (opt_to_py PyStr (mrle_key_material_id v))),
      (''key_material_description'', KmsPlain (opt_to_py PyStr (mrle_key_material_description v))),
      (''import_state'', KmsPlain (opt_to_py PyStr (mrle_import_state v))),
      (''key_material_state'', KmsPlain (opt_to_py PyStr (mrle_key_material_state v))),
      (''expiration_model'', KmsPlain (opt_to_py PyStr (mrle_expiration_model v))),
      (''valid_to'', KmsPlain (opt_to_py (datetime_to_py S) (mrle_valid_to v))),
      (''rotation_date'', KmsPlain (opt_to_py (datetime_to_py S) (mrle_rotation_date v))),
      (''rotation_type'', KmsPlain (opt_to_py PyStr (mrle_rotation_type v)))]"

definition rotations_list_entry_to_dict :: "((string, pyval) fmap \<Rightarrow> (string \<times> pyval) list) \<Rightarrow> kms_types \<Rightarrow> rotations_list_entry \<Rightarrow> pyval" where
  "rotations_list_entry_to_dict order S v = rotations_list_entry_to_py S v"

section \<open>\<open>Tag\<close>\<close>

definition kms_tag_attributes :: "((string, pyval) fmap \<Rightarrow> (string \<times> pyval) list) \<Rightarrow> kms_types \<Rightarrow> kms_tag \<Rightarrow> (string \<times> kms_attr) list" where
  "kms_tag_attributes order S v =
     [(''tag_key'', KmsPlain (PyStr (mt_tag_key v))),
      (''tag_value'', KmsPlain (PyStr (mt_tag_value v)))]"

definition kms_tag_to_dict :: "((string, pyval) fmap \<Rightarrow> (string \<times> pyval) list) \<Rightarrow> kms_types \<Rightarrow> kms_tag \<Rightarrow> pyval" where
  "kms_tag_to_dict order S v = kms_tag_to_py v"

section \<open>\<open>XksKeyConfigurationType\<close>\<close>

definition xks_key_configuration_type_attributes :: "((string, pyval) fmap \<Rightarrow> (string \<times> pyval) list) \<Rightarrow> kms_types \<Rightarrow> xks_key_configuration_type \<Rightarrow> (string \<times> kms_attr) list" where
  "xks_key_configuration_type_attributes order S v =
     [(''id'', KmsPlain (opt_to_py PyStr (mxkct_id v)))]"

definition xks_key_configuration_type_to_dict :: "((string, pyval) fmap \<Rightarrow> (string \<times> pyval) list) \<Rightarrow> kms_types \<Rightarrow> xks_key_configuration_type \<Rightarrow> pyval" where
  "xks_key_configuration_type_to_dict order S v = xks_key_configuration_type_to_py v"

section \<open>\<open>XksProxyConfigurationType\<close>\<close>

definition xks_proxy_configuration_type_attributes :: "((string, pyval) fmap \<Rightarrow> (string \<times> pyval) list) \<Rightarrow> kms_types \<Rightarrow> xks_proxy_configuration_type \<Rightarrow> (string \<times> kms_attr) list" where
  "xks_proxy_configuration_type_attributes order S v =
     [(''connectivity'', KmsPlain (opt_to_py PyStr (mxpct_connectivity v))),
      (''access_key_id'', KmsPlain (opt_to_py PyStr (mxpct_access_key_id v))),
      (''uri_endpoint'', KmsPlain (opt_to_py PyStr (mxpct_uri_endpoint v))),
      (''uri_path'', KmsPlain (opt_to_py PyStr (mxpct_uri_path v))),
      (''vpc_endpoint_service_name'', KmsPlain (opt_to_py PyStr (mxpct_vpc_endpoint_service_name v))),
      (''vpc_endpoint_service_owner'', KmsPlain (opt_to_py PyStr (mxpct_vpc_endpoint_service_owner v)))]"

definition xks_proxy_configuration_type_to_dict :: "((string, pyval) fmap \<Rightarrow> (string \<times> pyval) list) \<Rightarrow> kms_types \<Rightarrow> xks_proxy_configuration_type \<Rightarrow> pyval" where
  "xks_proxy_configuration_type_to_dict order S v = xks_proxy_configuration_type_to_py v"

section \<open>\<open>CancelKeyDeletionOutput\<close>\<close>

record cancel_key_deletion_output =
  mckdo_key_id :: "string option"

definition cancel_key_deletion_output_attributes :: "((string, pyval) fmap \<Rightarrow> (string \<times> pyval) list) \<Rightarrow> kms_types \<Rightarrow> cancel_key_deletion_output \<Rightarrow> (string \<times> kms_attr) list" where
  "cancel_key_deletion_output_attributes order S v =
     [(''key_id'', KmsPlain (opt_to_py PyStr (mckdo_key_id v)))]"

definition cancel_key_deletion_output_to_dict :: "((string, pyval) fmap \<Rightarrow> (string \<times> pyval) list) \<Rightarrow> kms_types \<Rightarrow> cancel_key_deletion_output \<Rightarrow> pyval" where
  "cancel_key_deletion_output_to_dict order S v = PyDict (py_dict
     [(''key_id'', opt_to_py PyStr (mckdo_key_id v))])"

section \<open>\<open>ConnectCustomKeyStoreOutput\<close>\<close>

datatype connect_custom_key_store_output = ConnectCustomKeyStoreOutput

definition connect_custom_key_store_output_attributes :: "((string, pyval) fmap \<Rightarrow> (string \<times> pyval) list) \<Rightarrow> kms_types \<Rightarrow> connect_custom_key_store_output \<Rightarrow> (string \<times> kms_attr) list" where
  "connect_custom_key_store_output_attributes order S v = []"

definition connect_custom_key_store_output_to_dict :: "((string, pyval) fmap \<Rightarrow> (string \<times> pyval) list) \<Rightarrow> kms_types \<Rightarrow> connect_custom_key_store_output \<Rightarrow> pyval" where
  "connect_custom_key_store_output_to_dict order S v = PyDict (py_dict [])"

section \<open>\<open>CreateCustomKeyStoreOutput\<close>\<close>

record create_custom_key_store_output =
  mcckso2_custom_key_store_id :: "string option"

definition create_custom_key_store_output_attributes :: "((string, pyval) fmap \<Rightarrow> (string \<times> pyval) list) \<Rightarrow> kms_types \<Rightarrow> create_custom_key_store_output \<Rightarrow> (string \<times> kms_attr) list" where
  "create_custom_key_store_output_attributes order S v =
     [(''custom_key_store_id'', KmsPlain (opt_to_py PyStr (mcckso2_custom_key_store_id v)))]"

definition create_custom_key_store_output_to_dict :: "((string, pyval) fmap \<Rightarrow> (string \<times> pyval) list) \<Rightarrow> kms_types \<Rightarrow> create_custom_key_store_output \<Rightarrow> pyval" where
  "create_custom_key_store_output_to_dict order S v = PyDict (py_dict
     [(''custom_key_store_id'', opt_to_py PyStr (mcckso2_custom_key_store_id v))])"

section \<open>\<open>CreateGrantOutput\<close>\<close>

record create_grant_output =
  mcgo_grant_token :: "string option"
  mcgo_grant_id :: "string option"

definition create_grant_output_attributes :: "((string, pyval) fmap \<Rightarrow> (string \<times> pyval) list) \<Rightarrow> kms_types \<Rightarrow> create_grant_output \<Rightarrow> (string \<times> kms_attr) list" where
  "create_grant_output_attributes order S v =
     [(''grant_token'', KmsPlain (opt_to_py PyStr (mcgo_grant_token v))),
      (''grant_id'', KmsPlain (opt_to_py PyStr (mcgo_grant_id v)))]"

definition create_grant_output_to_dict :: "((string, pyval) fmap \<Rightarrow> (string \<times> pyval) list) \<Rightarrow> kms_types \<Rightarrow> create_grant_output \<Rightarrow> pyval" where
  "create_grant_output_to_dict order S v = PyDict (py_dict
     [(''grant_token'', opt_to_py PyStr (mcgo_grant_token v)),
      (''grant_id'', opt_to_py PyStr (mcgo_grant_id v))])"

section \<open>\<open>CreateKeyOutput\<close>\<close>

record create_key_output =
  mcko_key_metadata :: "key_metadata option"

definition create_key_output_attributes :: "((string, pyval) fmap \<Rightarrow> (string \<times> pyval) list) \<Rightarrow> kms_types \<Rightarrow> create_key_output \<Rightarrow> (string \<times> kms_attr) list" where
  "create_key_output_attributes order S v =
     [(''key_metadata'', kms_opt_attr (\<lambda>x. KmsObject (KmsKeyMetadata x)) (mcko_key_metadata v))]"

definition create_key_output_to_dict :: "((string, pyval) fmap \<Rightarrow> (string \<times> pyval) list) \<Rightarrow> kms_types \<Rightarrow> create_key_output \<Rightarrow> pyval" where
  "create_key_output_to_dict order S v = PyDict (py_dict
     [(''key_metadata'', opt_to_py (key_metadata_to_py S) (mcko_key_metadata v))])"

section \<open>\<open>DecryptOutput\<close>\<close>

record decrypt_output =
  mdo_key_id :: "string option"
  mdo_plaintext :: "byte list option"
  mdo_encryption_algorithm :: "string option"
  mdo_ciphertext_for_recipient :: "byte list option"
  mdo_key_material_id :: "string option"

definition decrypt_output_attributes :: "((string, pyval) fmap \<Rightarrow> (string \<times> pyval) list) \<Rightarrow> kms_types \<Rightarrow> decrypt_output \<Rightarrow> (string \<times> kms_attr) list" where
  "decrypt_output_attributes order S v =
     [(''key_id'', KmsPlain (opt_to_py PyStr (mdo_key_id v))),
      (''plaintext'', KmsPlain (opt_to_py PyBytes (mdo_plaintext v))),
      (''encryption_algorithm'', KmsPlain (opt_to_py PyStr (mdo_encryption_algorithm v))),
      (''ciphertext_for_recipient'', KmsPlain (opt_to_py PyBytes (mdo_ciphertext_for_recipient v))),
      (''key_material_id'', KmsPlain (opt_to_py PyStr (mdo_key_material_id v)))]"

definition decrypt_output_to_dict :: "((string, pyval) fmap \<Rightarrow> (string \<times> pyval) list) \<Rightarrow> kms_types \<Rightarrow> decrypt_output \<Rightarrow> pyval" where
  "decrypt_output_to_dict order S v = PyDict (py_dict
     [(''key_id'', opt_to_py PyStr (mdo_key_id v)),
      (''plaintext'', opt_to_py PyBytes (mdo_plaintext v)),
      (''encryption_algorithm'', opt_to_py PyStr (mdo_encryption_algorithm v)),
      (''ciphertext_for_recipient'', opt_to_py PyBytes (mdo_ciphertext_for_recipient v)),
      (''key_material_id'', opt_to_py PyStr (mdo_key_material_id v))])"

section \<open>\<open>DeleteCustomKeyStoreOutput\<close>\<close>

datatype delete_custom_key_store_output = DeleteCustomKeyStoreOutput

definition delete_custom_key_store_output_attributes :: "((string, pyval) fmap \<Rightarrow> (string \<times> pyval) list) \<Rightarrow> kms_types \<Rightarrow> delete_custom_key_store_output \<Rightarrow> (string \<times> kms_attr) list" where
  "delete_custom_key_store_output_attributes order S v = []"

definition delete_custom_key_store_output_to_dict :: "((string, pyval) fmap \<Rightarrow> (string \<times> pyval) list) \<Rightarrow> kms_types \<Rightarrow> delete_custom_key_store_output \<Rightarrow> pyval" where
  "delete_custom_key_store_output_to_dict order S v = PyDict (py_dict [])"

section \<open>\<open>DeleteImportedKeyMaterialOutput\<close>\<close>

record delete_imported_key_material_output =
  mdikmo_key_id :: "string option"
  mdikmo_key_material_id :: "string option"

definition delete_imported_key_material_output_attributes :: "((string, pyval) fmap \<Rightarrow> (string \<times> pyval) list) \<Rightarrow> kms_types \<Rightarrow> delete_imported_key_material_output \<Rightarrow> (string \<times> kms_attr) list" where
  "delete_imported_key_material_output_attributes order S v =
     [(''key_id'', KmsPlain (opt_to_py PyStr (mdikmo_key_id v))),
      (''key_material_id'', KmsPlain (opt_to_py PyStr (mdikmo_key_material_id v)))]"

definition delete_imported_key_material_output_to_dict :: "((string, pyval) fmap \<Rightarrow> (string \<times> pyval) list) \<Rightarrow> kms_types \<Rightarrow> delete_imported_key_material_output \<Rightarrow> pyval" where
  "delete_imported_key_material_output_to_dict order S v = PyDict (py_dict
     [(''key_id'', opt_to_py PyStr (mdikmo_key_id v)),
      (''key_material_id'', opt_to_py PyStr (mdikmo_key_material_id v))])"

section \<open>\<open>DeriveSharedSecretOutput\<close>\<close>

record derive_shared_secret_output =
  mdsso_key_id :: "string option"
  mdsso_shared_secret :: "byte list option"
  mdsso_ciphertext_for_recipient :: "byte list option"
  mdsso_key_agreement_algorithm :: "string option"
  mdsso_key_origin :: "string option"

definition derive_shared_secret_output_attributes :: "((string, pyval) fmap \<Rightarrow> (string \<times> pyval) list) \<Rightarrow> kms_types \<Rightarrow> derive_shared_secret_output \<Rightarrow> (string \<times> kms_attr) list" where
  "derive_shared_secret_output_attributes order S v =
     [(''key_id'', KmsPlain (opt_to_py PyStr (mdsso_key_id v))),
      (''shared_secret'', KmsPlain (opt_to_py PyBytes (mdsso_shared_secret v))),
      (''ciphertext_for_recipient'', KmsPlain (opt_to_py PyBytes (mdsso_ciphertext_for_recipient v))),
      (''key_agreement_algorithm'', KmsPlain (opt_to_py PyStr (mdsso_key_agreement_algorithm v))),
      (''key_origin'', KmsPlain (opt_to_py PyStr (mdsso_key_origin v)))]"

definition derive_shared_secret_output_to_dict :: "((string, pyval) fmap \<Rightarrow> (string \<times> pyval) list) \<Rightarrow> kms_types \<Rightarrow> derive_shared_secret_output \<Rightarrow> pyval" where
  "derive_shared_secret_output_to_dict order S v = PyDict (py_dict
     [(''key_id'', opt_to_py PyStr (mdsso_key_id v)),
      (''shared_secret'', opt_to_py PyBytes (mdsso_shared_secret v)),
      (''ciphertext_for_recipient'', opt_to_py PyBytes (mdsso_ciphertext_for_recipient v)),
      (''key_agreement_algorithm'', opt_to_py PyStr (mdsso_key_agreement_algorithm v)),
      (''key_origin'', opt_to_py PyStr (mdsso_key_origin v))])"

section \<open>\<open>DescribeCustomKeyStoresOutput\<close>\<close>

record describe_custom_key_stores_output =
  mdckso2_custom_key_stores :: "custom_key_stores_list_entry list option"
  mdckso2_next_marker :: "string option"
  mdckso2_truncated :: bool

definition describe_custom_key_stores_output_attributes :: "((string, pyval) fmap \<Rightarrow> (string \<times> pyval) list) \<Rightarrow> kms_types \<Rightarrow> describe_custom_key_stores_output \<Rightarrow> (string \<times> kms_attr) list" where
  "describe_custom_key_stores_output_attributes order S v =
     [(''custom_key_stores'', kms_opt_attr (\<lambda>xs. KmsObjects (map KmsCustomKeyStoresListEntry xs)) (mdckso2_custom_key_stores v)),
      (''next_marker'', KmsPlain (opt_to_py PyStr (mdckso2_next_marker v))),
      (''truncated'', KmsPlain (PyBool (mdckso2_truncated v)))]"

definition describe_custom_key_stores_output_to_dict :: "((string, pyval) fmap \<Rightarrow> (string \<times> pyval) list) \<Rightarrow> kms_types \<Rightarrow> describe_custom_key_stores_output \<Rightarrow> pyval" where
  "describe_custom_key_stores_output_to_dict order S v = PyDict (py_dict
     [(''custom_key_stores'', opt_to_py (seq_to_py (custom_key_stores_list_entry_to_py S)) (mdckso2_custom_key_stores v)),
      (''next_marker'', opt_to_py PyStr (mdckso2_next_marker v)),
      (''truncated'', PyBool (mdckso2_truncated v))])"

section \<open>\<open>DescribeKeyOutput\<close>\<close>

record describe_key_output =
  mdko_key_metadata :: "key_metadata option"

definition describe_key_output_attributes :: "((string, pyval) fmap \<Rightarrow> (string \<times> pyval) list) \<Rightarrow> kms_types \<Rightarrow> describe_key_output \<Rightarrow> (string \<times> kms_attr) list" where
  "describe_key_output_attributes order S v =
     [(''key_metadata'', kms_opt_attr (\<lambda>x. KmsObject (KmsKeyMetadata x)) (mdko_key_metadata v))]"

definition describe_key_output_to_dict :: "((string, pyval) fmap \<Rightarrow> (string \<times> pyval) list) \<Rightarrow> kms_types \<Rightarrow> describe_key_output \<Rightarrow> pyval" where
  "describe_key_output_to_dict order S v = PyDict (py_dict
     [(''key_metadata'', opt_to_py (key_metadata_to_py S) (mdko_key_metadata v))])"

section \<open>\<open>DisconnectCustomKeyStoreOutput\<close>\<close>

datatype disconnect_custom_key_store_output = DisconnectCustomKeyStoreOutput

definition disconnect_custom_key_store_output_attributes :: "((string, pyval) fmap \<Rightarrow> (string \<times> pyval) list) \<Rightarrow> kms_types \<Rightarrow> disconnect_custom_key_store_output \<Rightarrow> (string \<times> kms_attr) list" where
  "disconnect_custom_key_store_output_attributes order S v = []"

definition disconnect_custom_key_store_output_to_dict :: "((string, pyval) fmap \<Rightarrow> (string \<times> pyval) list) \<Rightarrow> kms_types \<Rightarrow> disconnect_custom_key_store_output \<Rightarrow> pyval" where
  "disconnect_custom_key_store_output_to_dict order S v = PyDict (py_dict [])"

section \<open>\<open>EncryptOutput\<close>\<close>

record encrypt_output =
  meo_ciphertext_blob :: "byte list option"
  meo_key_id :: "string option"
  meo_encryption_algorithm :: "string option"

definition encrypt_output_attributes :: "((string, pyval) fmap \<Rightarrow> (string \<times> pyval) list) \<Rightarrow> kms_types \<Rightarrow> encrypt_output \<Rightarrow> (string \<times> kms_attr) list" where
  "encrypt_output_attributes order S v =
     [(''ciphertext_blob'', KmsPlain (opt_to_py PyBytes (meo_ciphertext_blob v))),
      (''key_id'', KmsPlain (opt_to_py PyStr (meo_key_id v))),
      (''encryption_algorithm'', KmsPlain (opt_to_py PyStr (meo_encryption_algorithm v)))]"

definition encrypt_output_to_dict :: "((string, pyval) fmap \<Rightarrow> (string \<times> pyval) list) \<Rightarrow> kms_types \<Rightarrow> encrypt_output \<Rightarrow> pyval" where
  "encrypt_output_to_dict order S v = PyDict (py_dict
     [(''ciphertext_blob'', opt_to_py PyBytes (meo_ciphertext_blob v)),
      (''key_id'', opt_to_py PyStr (meo_key_id v)),
      (''encryption_algorithm'', opt_to_py PyStr (meo_encryption_algorithm v))])"

section \<open>\<open>GenerateDataKeyOutput\<close>\<close>

record generate_data_key_output =
  mgdko_ciphertext_blob :: "byte list option"
  mgdko_plaintext :: "byte list option"
  mgdko_key_id :: "string option"
  mgdko_ciphertext_for_recipient :: "byte list option"
  mgdko_key_material_id :: "string option"

definition generate_data_key_output_attributes :: "((string, pyval) fmap \<Rightarrow> (string \<times> pyval) list) \<Rightarrow> kms_types \<Rightarrow> generate_data_key_output \<Rightarrow> (string \<times> kms_attr) list" where
  "generate_data_key_output_attributes order S v =
     [(''ciphertext_blob'', KmsPlain (opt_to_py PyBytes (mgdko_ciphertext_blob v))),
      (''plaintext'', KmsPlain (opt_to_py PyBytes (mgdko_plaintext v))),
      (''key_id'', KmsPlain (opt_to_py PyStr (mgdko_key_id v))),
      (''ciphertext_for_recipient'', KmsPlain (opt_to_py PyBytes (mgdko_ciphertext_for_recipient v))),
      (''key_material_id'', KmsPlain (opt_to_py PyStr (mgdko_key_material_id v)))]"

definition generate_data_key_output_to_dict :: "((string, pyval) fmap \<Rightarrow> (string \<times> pyval) list) \<Rightarrow> kms_types \<Rightarrow> generate_data_key_output \<Rightarrow> pyval" where
  "generate_data_key_output_to_dict order S v = PyDict (py_dict
     [(''ciphertext_blob'', opt_to_py PyBytes (mgdko_ciphertext_blob v)),
      (''plaintext'', opt_to_py PyBytes (mgdko_plaintext v)),
      (''key_id'', opt_to_py PyStr (mgdko_key_id v)),
      (''ciphertext_for_recipient'', opt_to_py PyBytes (mgdko_ciphertext_for_recipient v)),
      (''key_material_id'', opt_to_py PyStr (mgdko_key_material_id v))])"

section \<open>\<open>GenerateDataKeyPairOutput\<close>\<close>

record generate_data_key_pair_output =
  mgdkpo_private_key_ciphertext_blob :: "byte list option"
  mgdkpo_private_key_plaintext :: "byte list option"
  mgdkpo_public_key :: "byte list option"
  mgdkpo_key_id :: "string option"
  mgdkpo_key_pair_spec :: "string option"
  mgdkpo_ciphertext_for_recipient :: "byte list option"
  mgdkpo_key_material_id :: "string option"

definition generate_data_key_pair_output_attributes :: "((string, pyval) fmap \<Rightarrow> (string \<times> pyval) list) \<Rightarrow> kms_types \<Rightarrow> generate_data_key_pair_output \<Rightarrow> (string \<times> kms_attr) list" where
  "generate_data_key_pair_output_attributes order S v =
     [(''private_key_ciphertext_blob'', KmsPlain (opt_to_py PyBytes (mgdkpo_private_key_ciphertext_blob v))),
      (''private_key_plaintext'', KmsPlain (opt_to_py PyBytes (mgdkpo_private_key_plaintext v))),
      (''public_key'', KmsPlain (opt_to_py PyBytes (mgdkpo_public_key v))),
      (''key_id'', KmsPlain (opt_to_py PyStr (mgdkpo_key_id v))),
      (''key_pair_spec'', KmsPlain (opt_to_py PyStr (mgdkpo_key_pair_spec v))),
      (''ciphertext_for_recipient'', KmsPlain (opt_to_py PyBytes (mgdkpo_ciphertext_for_recipient v))),
      (''key_material_id'', KmsPlain (opt_to_py PyStr (mgdkpo_key_material_id v)))]"

definition generate_data_key_pair_output_to_dict :: "((string, pyval) fmap \<Rightarrow> (string \<times> pyval) list) \<Rightarrow> kms_types \<Rightarrow> generate_data_key_pair_output \<Rightarrow> pyval" where
  "generate_data_key_pair_output_to_dict order S v = PyDict (py_dict
     [(''private_key_ciphertext_blob'', opt_to_py PyBytes (mgdkpo_private_key_ciphertext_blob v)),
      (''private_key_plaintext'', opt_to_py PyBytes (mgdkpo_private_key_plaintext v)),
      (''public_key'', opt_to_py PyBytes (mgdkpo_public_key v)),
      (''key_id'', opt_to_py PyStr (mgdkpo_key_id v)),
      (''key_pair_spec'', opt_to_py PyStr (mgdkpo_key_pair_spec v)),
      (''ciphertext_for_recipient'', opt_to_py PyBytes (mgdkpo_ciphertext_for_recipient v)),
      (''key_material_id'', opt_to_py PyStr (mgdkpo_key_material_id v))])"

section \<open>\<open>GenerateDataKeyPairWithoutPlaintextOutput\<close>\<close>

record generate_data_key_pair_without_plaintext_output =
  mgdkpwpo_private_key_ciphertext_blob :: "byte list option"
  mgdkpwpo_public_key :: "byte list option"
  mgdkpwpo_key_id :: "string option"
  mgdkpwpo_key_pair_spec :: "string option"
  mgdkpwpo_key_material_id :: "string option"

definition generate_data_key_pair_without_plaintext_output_attributes :: "((string, pyval) fmap \<Rightarrow> (string \<times> pyval) list) \<Rightarrow> kms_types \<Rightarrow> generate_data_key_pair_without_plaintext_output \<Rightarrow> (string \<times> kms_attr) list" where
  "generate_data_key_pair_without_plaintext_output_attributes order S v =
     [(''private_key_ciphertext_blob'', KmsPlain (opt_to_py PyBytes (mgdkpwpo_private_key_ciphertext_blob v))),
      (''public_key'', KmsPlain (opt_to_py PyBytes (mgdkpwpo_public_key v))),
      (''key_id'', KmsPlain (opt_to_py PyStr (mgdkpwpo_key_id v))),
      (''key_pair_spec'', KmsPlain (opt_to_py PyStr (mgdkpwpo_key_pair_spec v))),
      (''key_material_id'', KmsPlain (opt_to_py PyStr (mgdkpwpo_key_material_id v)))]"

definition generate_data_key_pair_without_plaintext_output_to_dict :: "((string, pyval) fmap \<Rightarrow> (string \<times> pyval) list) \<Rightarrow> kms_types \<Rightarrow> generate_data_key_pair_without_plaintext_output \<Rightarrow> pyval" where
  "generate_data_key_pair_without_plaintext_output_to_dict order S v = PyDict (py_dict
     [(''private_key_ciphertext_blob'', opt_to_py PyBytes (mgdkpwpo_private_key_ciphertext_blob v)),
      (''public_key'', opt_to_py PyBytes (mgdkpwpo_public_key v)),
      (''key_id'', opt_to_py PyStr (mgdkpwpo_key_id v)),
      (''key_pair_spec'', opt_to_py PyStr (mgdkpwpo_key_pair_spec v)),
      (''key_material_id'', opt_to_py PyStr (mgdkpwpo_key_material_id v))])"

section \<open>\<open>GenerateDataKeyWithoutPlaintextOutput\<close>\<close>

record generate_data_key_without_plaintext_output =
  mgdkwpo_ciphertext_blob :: "byte list option"
  mgdkwpo_key_id :: "string option"
  mgdkwpo_key_material_id :: "string option"

definition generate_data_key_without_plaintext_output_attributes :: "((string, pyval) fmap \<Rightarrow> (string \<times> pyval) list) \<Rightarrow> kms_types \<Rightarrow> generate_data_key_without_plaintext_output \<Rightarrow> (string \<times> kms_attr) list" where
  "generate_data_key_without_plaintext_output_attributes order S v =
     [(''ciphertext_blob'', KmsPlain (opt_to_py PyBytes (mgdkwpo_ciphertext_blob v))),
      (''key_id'', KmsPlain (opt_to_py PyStr (mgdkwpo_key_id v))),
      (''key_material_id'', KmsPlain (opt_to_py PyStr (mgdkwpo_key_material_id v)))]"

definition generate_data_key_without_plaintext_output_to_dict :: "((string, pyval) fmap \<Rightarrow> (string \<times> pyval) list) \<Rightarrow> kms_types \<Rightarrow> generate_data_key_without_plaintext_output \<Rightarrow> pyval" where
  "generate_data_key_without_plaintext_output_to_dict order S v = PyDict (py_dict
     [(''ciphertext_blob'', opt_to_py PyBytes (mgdkwpo_ciphertext_blob v)),
      (''key_id'', opt_to_py PyStr (mgdkwpo_key_id v)),
      (''key_material_id'', opt_to_py PyStr (mgdkwpo_key_material_id v))])"

section \<open>\<open>GenerateMacOutput\<close>\<close>

record generate_mac_output =
  mgmo_mac :: "byte list option"
  mgmo_mac_algorithm :: "string option"
  mgmo_key_id :: "string option"

definition generate_mac_output_attributes :: "((string, pyval) fmap \<Rightarrow> (string \<times> pyval) list) \<Rightarrow> kms_types \<Rightarrow> generate_mac_output \<Rightarrow> (string \<times> kms_attr) list" where
  "generate_mac_output_attributes order S v =
     [(''mac'', KmsPlain (opt_to_py PyBytes (mgmo_mac v))),
      (''mac_algorithm'', KmsPlain (opt_to_py PyStr (mgmo_mac_algorithm v))),
      (''key_id'', KmsPlain (opt_to_py PyStr (mgmo_key_id v)))]"

definition generate_mac_output_to_dict :: "((string, pyval) fmap \<Rightarrow> (string \<times> pyval) list) \<Rightarrow> kms_types \<Rightarrow> generate_mac_output \<Rightarrow> pyval" where
  "generate_mac_output_to_dict order S v = PyDict (py_dict
     [(''mac'', opt_to_py PyBytes (mgmo_mac v)),
      (''mac_algorithm'', opt_to_py PyStr (mgmo_mac_algorithm v)),
      (''key_id'', opt_to_py PyStr (mgmo_key_id v))])"

section \<open>\<open>GenerateRandomOutput\<close>\<close>

record generate_random_output =
  mgro_plaintext :: "byte list option"
  mgro_ciphertext_for_recipient :: "byte list option"

definition generate_random_output_attributes :: "((string, pyval) fmap \<Rightarrow> (string \<times> pyval) list) \<Rightarrow> kms_types \<Rightarrow> generate_random_output \<Rightarrow> (string \<times> kms_attr) list" where
  "generate_random_output_attributes order S v =
     [(''plaintext'', KmsPlain (opt_to_py PyBytes (mgro_plaintext v))),
      (''ciphertext_for_recipient'', KmsPlain (opt_to_py PyBytes (mgro_ciphertext_for_recipient v)))]"

definition generate_random_output_to_dict :: "((string, pyval) fmap \<Rightarrow> (string \<times> pyval) list) \<Rightarrow> kms_types \<Rightarrow> generate_random_output \<Rightarrow> pyval" where
  "generate_random_output_to_dict order S v = PyDict (py_dict
     [(''plaintext'', opt_to_py PyBytes (mgro_plaintext v)),
      (''ciphertext_for_recipient'', opt_to_py PyBytes (mgro_ciphertext_for_recipient v))])"

section \<open>\<open>GetKeyLastUsageOutput\<close>\<close>

record get_key_last_usage_output =
  mgkluo_key_id :: "string option"
  mgkluo_key_last_usage :: "key_last_usage_data option"
  mgkluo_tracking_start_date :: "datetime option"
  mgkluo_key_creation_date :: "datetime option"

definition get_key_last_usage_output_attributes :: "((string, pyval) fmap \<Rightarrow> (string \<times> pyval) list) \<Rightarrow> kms_types \<Rightarrow> get_key_last_usage_output \<Rightarrow> (string \<times> kms_attr) list" where
  "get_key_last_usage_output_attributes order S v =
     [(''key_id'', KmsPlain (opt_to_py PyStr (mgkluo_key_id v))),
      (''key_last_usage'', kms_opt_attr (\<lambda>x. KmsObject (KmsKeyLastUsageData x)) (mgkluo_key_last_usage v)),
      (''tracking_start_date'', KmsPlain (opt_to_py (datetime_to_py S) (mgkluo_tracking_start_date v))),
      (''key_creation_date'', KmsPlain (opt_to_py (datetime_to_py S) (mgkluo_key_creation_date v)))]"

definition get_key_last_usage_output_to_dict :: "((string, pyval) fmap \<Rightarrow> (string \<times> pyval) list) \<Rightarrow> kms_types \<Rightarrow> get_key_last_usage_output \<Rightarrow> pyval" where
  "get_key_last_usage_output_to_dict order S v = PyDict (py_dict
     [(''key_id'', opt_to_py PyStr (mgkluo_key_id v)),
      (''key_last_usage'', opt_to_py (key_last_usage_data_to_py S) (mgkluo_key_last_usage v)),
      (''tracking_start_date'', opt_to_py (datetime_to_py S) (mgkluo_tracking_start_date v)),
      (''key_creation_date'', opt_to_py (datetime_to_py S) (mgkluo_key_creation_date v))])"

section \<open>\<open>GetKeyPolicyOutput\<close>\<close>

record get_key_policy_output =
  mgkpo_policy :: "string option"
  mgkpo_policy_name :: "string option"

definition get_key_policy_output_attributes :: "((string, pyval) fmap \<Rightarrow> (string \<times> pyval) list) \<Rightarrow> kms_types \<Rightarrow> get_key_policy_output \<Rightarrow> (string \<times> kms_attr) list" where
  "get_key_policy_output_attributes order S v =
     [(''policy'', KmsPlain (opt_to_py PyStr (mgkpo_policy v))),
      (''policy_name'', KmsPlain (opt_to_py PyStr (mgkpo_policy_name v)))]"

definition get_key_policy_output_to_dict :: "((string, pyval) fmap \<Rightarrow> (string \<times> pyval) list) \<Rightarrow> kms_types \<Rightarrow> get_key_policy_output \<Rightarrow> pyval" where
  "get_key_policy_output_to_dict order S v = PyDict (py_dict
     [(''policy'', opt_to_py PyStr (mgkpo_policy v)),
      (''policy_name'', opt_to_py PyStr (mgkpo_policy_name v))])"

section \<open>\<open>GetKeyRotationStatusOutput\<close>\<close>

record get_key_rotation_status_output =
  mgkrso_key_rotation_enabled :: bool
  mgkrso_key_id :: "string option"
  mgkrso_rotation_period_in_days :: "int option"
  mgkrso_next_rotation_date :: "datetime option"
  mgkrso_on_demand_rotation_start_date :: "datetime option"

definition get_key_rotation_status_output_attributes :: "((string, pyval) fmap \<Rightarrow> (string \<times> pyval) list) \<Rightarrow> kms_types \<Rightarrow> get_key_rotation_status_output \<Rightarrow> (string \<times> kms_attr) list" where
  "get_key_rotation_status_output_attributes order S v =
     [(''key_rotation_enabled'', KmsPlain (PyBool (mgkrso_key_rotation_enabled v))),
      (''key_id'', KmsPlain (opt_to_py PyStr (mgkrso_key_id v))),
      (''rotation_period_in_days'', KmsPlain (opt_to_py PyInt (mgkrso_rotation_period_in_days v))),
      (''next_rotation_date'', KmsPlain (opt_to_py (datetime_to_py S) (mgkrso_next_rotation_date v))),
      (''on_demand_rotation_start_date'', KmsPlain (opt_to_py (datetime_to_py S) (mgkrso_on_demand_rotation_start_date v)))]"

definition get_key_rotation_status_output_to_dict :: "((string, pyval) fmap \<Rightarrow> (string \<times> pyval) list) \<Rightarrow> kms_types \<Rightarrow> get_key_rotation_status_output \<Rightarrow> pyval" where
  "get_key_rotation_status_output_to_dict order S v = PyDict (py_dict
     [(''key_rotation_enabled'', PyBool (mgkrso_key_rotation_enabled v)),
      (''key_id'', opt_to_py PyStr (mgkrso_key_id v)),
      (''rotation_period_in_days'', opt_to_py PyInt (mgkrso_rotation_period_in_days v)),
      (''next_rotation_date'', opt_to_py (datetime_to_py S) (mgkrso_next_rotation_date v)),
      (''on_demand_rotation_start_date'', opt_to_py (datetime_to_py S) (mgkrso_on_demand_rotation_start_date v))])"

section \<open>\<open>GetParametersForImportOutput\<close>\<close>

record get_parameters_for_import_output =
  mgpfio_key_id :: "string option"
  mgpfio_import_token :: "byte list option"
  mgpfio_public_key :: "byte list option"
  mgpfio_parameters_valid_to :: "datetime option"

definition get_parameters_for_import_output_attributes :: "((string, pyval) fmap \<Rightarrow> (string \<times> pyval) list) \<Rightarrow> kms_types \<Rightarrow> get_parameters_for_import_output \<Rightarrow> (string \<times> kms_attr) list" where
  "get_parameters_for_import_output_attributes order S v =
     [(''key_id'', KmsPlain (opt_to_py PyStr (mgpfio_key_id v))),
      (''import_token'', KmsPlain (opt_to_py PyBytes (mgpfio_import_token v))),
      (''public_key'', KmsPlain (opt_to_py PyBytes (mgpfio_public_key v))),
      (''parameters_valid_to'', KmsPlain (opt_to_py (datetime_to_py S) (mgpfio_parameters_valid_to v)))]"

definition get_parameters_for_import_output_to_dict :: "((string, pyval) fmap \<Rightarrow> (string \<times> pyval) list) \<Rightarrow> kms_types \<Rightarrow> get_parameters_for_import_output \<Rightarrow> pyval" where
  "get_parameters_for_import_output_to_dict order S v = PyDict (py_dict
     [(''key_id'', opt_to_py PyStr (mgpfio_key_id v)),
      (''import_token'', opt_to_py PyBytes (mgpfio_import_token v)),
      (''public_key'', opt_to_py PyBytes (mgpfio_public_key v)),
      (''parameters_valid_to'', opt_to_py (datetime_to_py S) (mgpfio_parameters_valid_to v))])"

section \<open>\<open>GetPublicKeyOutput\<close>\<close>

record get_public_key_output =
  mgpko_key_id :: "string option"
  mgpko_public_key :: "byte list option"
  mgpko_customer_master_key_spec :: "string option"
  mgpko_key_spec :: "string option"
  mgpko_key_usage :: "string option"
  mgpko_encryption_algorithms :: "string list option"
  mgpko_signing_algorithms :: "string list option"
  mgpko_key_agreement_algorithms :: "string list option"

definition get_public_key_output_attributes :: "((string, pyval) fmap \<Rightarrow> (string \<times> pyval) list) \<Rightarrow> kms_types \<Rightarrow> get_public_key_output \<Rightarrow> (string \<times> kms_attr) list" where
  "get_public_key_output_attributes order S v =
     [(''key_id'', KmsPlain (opt_to_py PyStr (mgpko_key_id v))),
      (''public_key'', KmsPlain (opt_to_py PyBytes (mgpko_public_key v))),
      (''customer_master_key_spec'', KmsPlain (opt_to_py PyStr (mgpko_customer_master_key_spec v))),
      (''key_spec'', KmsPlain (opt_to_py PyStr (mgpko_key_spec v))),
      (''key_usage'', KmsPlain (opt_to_py PyStr (mgpko_key_usage v))),
      (''encryption_algorithms'', KmsPlain (opt_to_py (seq_to_py PyStr) (mgpko_encryption_algorithms v))),
      (''signing_algorithms'', KmsPlain (opt_to_py (seq_to_py PyStr) (mgpko_signing_algorithms v))),
      (''key_agreement_algorithms'', KmsPlain (opt_to_py (seq_to_py PyStr) (mgpko_key_agreement_algorithms v)))]"

definition get_public_key_output_to_dict :: "((string, pyval) fmap \<Rightarrow> (string \<times> pyval) list) \<Rightarrow> kms_types \<Rightarrow> get_public_key_output \<Rightarrow> pyval" where
  "get_public_key_output_to_dict order S v = PyDict (py_dict
     [(''key_id'', opt_to_py PyStr (mgpko_key_id v)),
      (''public_key'', opt_to_py PyBytes (mgpko_public_key v)),
      (''customer_master_key_spec'', opt_to_py PyStr (mgpko_customer_master_key_spec v)),
      (''key_spec'', opt_to_py PyStr (mgpko_key_spec v)),
      (''key_usage'', opt_to_py PyStr (mgpko_key_usage v)),
      (''encryption_algorithms'', opt_to_py (seq_to_py PyStr) (mgpko_encryption_algorithms v)),
      (''signing_algorithms'', opt_to_py (seq_to_py PyStr) (mgpko_signing_algorithms v)),
      (''key_agreement_algorithms'', opt_to_py (seq_to_py PyStr) (mgpko_key_agreement_algorithms v))])"

section \<open>\<open>ImportKeyMaterialOutput\<close>\<close>

record import_key_material_output =
  mikmo_key_id :: "string option"
  mikmo_key_material_id :: "string option"

definition import_key_material_output_attributes :: "((string, pyval) fmap \<Rightarrow> (string \<times> pyval) list) \<Rightarrow> kms_types \<Rightarrow> import_key_material_output \<Rightarrow> (string \<times> kms_attr) list" where
  "import_key_material_output_attributes order S v =
     [(''key_id'', KmsPlain (opt_to_py PyStr (mikmo_key_id v))),
      (''key_material_id'', KmsPlain (opt_to_py PyStr (mikmo_key_material_id v)))]"

definition import_key_material_output_to_dict :: "((string, pyval) fmap \<Rightarrow> (string \<times> pyval) list) \<Rightarrow> kms_types \<Rightarrow> import_key_material_output \<Rightarrow> pyval" where
  "import_key_material_output_to_dict order S v = PyDict (py_dict
     [(''key_id'', opt_to_py PyStr (mikmo_key_id v)),
      (''key_material_id'', opt_to_py PyStr (mikmo_key_material_id v))])"

section \<open>\<open>ListAliasesOutput\<close>\<close>

record list_aliases_output =
  mlao_aliases :: "alias_list_entry list option"
  mlao_next_marker :: "string option"
  mlao_truncated :: bool

definition list_aliases_output_attributes :: "((string, pyval) fmap \<Rightarrow> (string \<times> pyval) list) \<Rightarrow> kms_types \<Rightarrow> list_aliases_output \<Rightarrow> (string \<times> kms_attr) list" where
  "list_aliases_output_attributes order S v =
     [(''aliases'', kms_opt_attr (\<lambda>xs. KmsObjects (map KmsAliasListEntry xs)) (mlao_aliases v)),
      (''next_marker'', KmsPlain (opt_to_py PyStr (mlao_next_marker v))),
      (''truncated'', KmsPlain (PyBool (mlao_truncated v)))]"

definition list_aliases_output_to_dict :: "((string, pyval) fmap \<Rightarrow> (string \<times> pyval) list) \<Rightarrow> kms_types \<Rightarrow> list_aliases_output \<Rightarrow> pyval" where
  "list_aliases_output_to_dict order S v = PyDict (py_dict
     [(''aliases'', opt_to_py (seq_to_py (alias_list_entry_to_py S)) (mlao_aliases v)),
      (''next_marker'', opt_to_py PyStr (mlao_next_marker v)),
      (''truncated'', PyBool (mlao_truncated v))])"

section \<open>\<open>ListGrantsOutput\<close>\<close>

record list_grants_output =
  mlgo_grants :: "grant_list_entry list option"
  mlgo_next_marker :: "string option"
  mlgo_truncated :: bool

definition list_grants_output_attributes :: "((string, pyval) fmap \<Rightarrow> (string \<times> pyval) list) \<Rightarrow> kms_types \<Rightarrow> list_grants_output \<Rightarrow> (string \<times> kms_attr) list" where
  "list_grants_output_attributes order S v =
     [(''grants'', kms_opt_attr (\<lambda>xs. KmsObjects (map KmsGrantListEntry xs)) (mlgo_grants v)),
      (''next_marker'', KmsPlain (opt_to_py PyStr (mlgo_next_marker v))),
      (''truncated'', KmsPlain (PyBool (mlgo_truncated v)))]"

definition list_grants_output_to_dict :: "((string, pyval) fmap \<Rightarrow> (string \<times> pyval) list) \<Rightarrow> kms_types \<Rightarrow> list_grants_output \<Rightarrow> pyval" where
  "list_grants_output_to_dict order S v = PyDict (py_dict
     [(''grants'', opt_to_py (seq_to_py (grant_list_entry_to_py order S)) (mlgo_grants v)),
      (''next_marker'', opt_to_py PyStr (mlgo_next_marker v)),
      (''truncated'', PyBool (mlgo_truncated v))])"

section \<open>\<open>ListKeyPoliciesOutput\<close>\<close>

record list_key_policies_output =
  mlkpo_policy_names :: "string list option"
  mlkpo_next_marker :: "string option"
  mlkpo_truncated :: bool

definition list_key_policies_output_attributes :: "((string, pyval) fmap \<Rightarrow> (string \<times> pyval) list) \<Rightarrow> kms_types \<Rightarrow> list_key_policies_output \<Rightarrow> (string \<times> kms_attr) list" where
  "list_key_policies_output_attributes order S v =
     [(''policy_names'', KmsPlain (opt_to_py (seq_to_py PyStr) (mlkpo_policy_names v))),
      (''next_marker'', KmsPlain (opt_to_py PyStr (mlkpo_next_marker v))),
      (''truncated'', KmsPlain (PyBool (mlkpo_truncated v)))]"

definition list_key_policies_output_to_dict :: "((string, pyval) fmap \<Rightarrow> (string \<times> pyval) list) \<Rightarrow> kms_types \<Rightarrow> list_key_policies_output \<Rightarrow> pyval" where
  "list_key_policies_output_to_dict order S v = PyDict (py_dict
     [(''policy_names'', opt_to_py (seq_to_py PyStr) (mlkpo_policy_names v)),
      (''next_marker'', opt_to_py PyStr (mlkpo_next_marker v)),
      (''truncated'', PyBool (mlkpo_truncated v))])"

section \<open>\<open>ListKeyRotationsOutput\<close>\<close>

record list_key_rotations_output =
  mlkro_rotations :: "rotations_list_entry list option"
  mlkro_next_marker :: "string option"
  mlkro_truncated :: bool

definition list_key_rotations_output_attributes :: "((string, pyval) fmap \<Rightarrow> (string \<times> pyval) list) \<Rightarrow> kms_types \<Rightarrow> list_key_rotations_output \<Rightarrow> (string \<times> kms_attr) list" where
  "list_key_rotations_output_attributes order S v =
     [(''rotations'', kms_opt_attr (\<lambda>xs. KmsObjects (map KmsRotationsListEntry xs)) (mlkro_rotations v)),
      (''next_marker'', KmsPlain (opt_to_py PyStr (mlkro_next_marker v))),
      (''truncated'', KmsPlain (PyBool (mlkro_truncated v)))]"

definition list_key_rotations_output_to_dict :: "((string, pyval) fmap \<Rightarrow> (string \<times> pyval) list) \<Rightarrow> kms_types \<Rightarrow> list_key_rotations_output \<Rightarrow> pyval" where
  "list_key_rotations_output_to_dict order S v = PyDict (py_dict
     [(''rotations'', opt_to_py (seq_to_py (rotations_list_entry_to_py S)) (mlkro_rotations v)),
      (''next_marker'', opt_to_py PyStr (mlkro_next_marker v)),
      (''truncated'', PyBool (mlkro_truncated v))])"

section \<open>\<open>ListKeysOutput\<close>\<close>

record list_keys_output =
  mlko_keys :: "key_list_entry list option"
  mlko_next_marker :: "string option"
  mlko_truncated :: bool

definition list_keys_output_attributes :: "((string, pyval) fmap \<Rightarrow> (string \<times> pyval) list) \<Rightarrow> kms_types \<Rightarrow> list_keys_output \<Rightarrow> (string \<times> kms_attr) list" where
  "list_keys_output_attributes order S v =
     [(''keys'', kms_opt_attr (\<lambda>xs. KmsObjects (map KmsKeyListEntry xs)) (mlko_keys v)),
      (''next_marker'', KmsPlain (opt_to_py PyStr (mlko_next_marker v))),
      (''truncated'', KmsPlain (PyBool (mlko_truncated v)))]"

definition list_keys_output_to_dict :: "((string, pyval) fmap \<Rightarrow> (string \<times> pyval) list) \<Rightarrow> kms_types \<Rightarrow> list_keys_output \<Rightarrow> pyval" where
  "list_keys_output_to_dict order S v = PyDict (py_dict
     [(''keys'', opt_to_py (seq_to_py key_list_entry_to_py) (mlko_keys v)),
      (''next_marker'', opt_to_py PyStr (mlko_next_marker v)),
      (''truncated'', PyBool (mlko_truncated v))])"

section \<open>\<open>ListResourceTagsOutput\<close>\<close>

record list_resource_tags_output =
  mlrto_tags :: "kms_tag list option"
  mlrto_next_marker :: "string option"
  mlrto_truncated :: bool

definition list_resource_tags_output_attributes :: "((string, pyval) fmap \<Rightarrow> (string \<times> pyval) list) \<Rightarrow> kms_types \<Rightarrow> list_resource_tags_output \<Rightarrow> (string \<times> kms_attr) list" where
  "list_resource_tags_output_attributes order S v =
     [(''tags'', kms_opt_attr (\<lambda>xs. KmsObjects (map KmsTag xs)) (mlrto_tags v)),
      (''next_marker'', KmsPlain (opt_to_py PyStr (mlrto_next_marker v))),
      (''truncated'', KmsPlain (PyBool (mlrto_truncated v)))]"

definition list_resource_tags_output_to_dict :: "((string, pyval) fmap \<Rightarrow> (string \<times> pyval) list) \<Rightarrow> kms_types \<Rightarrow> list_resource_tags_output \<Rightarrow> pyval" where
  "list_resource_tags_output_to_dict order S v = PyDict (py_dict
     [(''tags'', opt_to_py (seq_to_py kms_tag_to_py) (mlrto_tags v)),
      (''next_marker'', opt_to_py PyStr (mlrto_next_marker v)),
      (''truncated'', PyBool (mlrto_truncated v))])"

section \<open>\<open>ListRetirableGrantsOutput\<close>\<close>

record list_retirable_grants_output =
  mlrgo_grants :: "grant_list_entry list option"
  mlrgo_next_marker :: "string option"
  mlrgo_truncated :: bool

definition list_retirable_grants_output_attributes :: "((string, pyval) fmap \<Rightarrow> (string \<times> pyval) list) \<Rightarrow> kms_types \<Rightarrow> list_retirable_grants_output \<Rightarrow> (string \<times> kms_attr) list" where
  "list_retirable_grants_output_attributes order S v =
     [(''grants'', kms_opt_attr (\<lambda>xs. KmsObjects (map KmsGrantListEntry xs)) (mlrgo_grants v)),
      (''next_marker'', KmsPlain (opt_to_py PyStr (mlrgo_next_marker v))),
      (''truncated'', KmsPlain (PyBool (mlrgo_truncated v)))]"

definition list_retirable_grants_output_to_dict :: "((string, pyval) fmap \<Rightarrow> (string \<times> pyval) list) \<Rightarrow> kms_types \<Rightarrow> list_retirable_grants_output \<Rightarrow> pyval" where
  "list_retirable_grants_output_to_dict order S v = PyDict (py_dict
     [(''grants'', opt_to_py (seq_to_py (grant_list_entry_to_py order S)) (mlrgo_grants v)),
      (''next_marker'', opt_to_py PyStr (mlrgo_next_marker v)),
      (''truncated'', PyBool (mlrgo_truncated v))])"

section \<open>\<open>ReEncryptOutput\<close>\<close>

record re_encrypt_output =
  mreo_ciphertext_blob :: "byte list option"
  mreo_source_key_id :: "string option"
  mreo_key_id :: "string option"
  mreo_source_encryption_algorithm :: "string option"
  mreo_destination_encryption_algorithm :: "string option"
  mreo_source_key_material_id :: "string option"
  mreo_destination_key_material_id :: "string option"

definition re_encrypt_output_attributes :: "((string, pyval) fmap \<Rightarrow> (string \<times> pyval) list) \<Rightarrow> kms_types \<Rightarrow> re_encrypt_output \<Rightarrow> (string \<times> kms_attr) list" where
  "re_encrypt_output_attributes order S v =
     [(''ciphertext_blob'', KmsPlain (opt_to_py PyBytes (mreo_ciphertext_blob v))),
      (''source_key_id'', KmsPlain (opt_to_py PyStr (mreo_source_key_id v))),
      (''key_id'', KmsPlain (opt_to_py PyStr (mreo_key_id v))),
      (''source_encryption_algorithm'', KmsPlain (opt_to_py PyStr (mreo_source_encryption_algorithm v))),
      (''destination_encryption_algorithm'', KmsPlain (opt_to_py PyStr (mreo_destination_encryption_algorithm v))),
      (''source_key_material_id'', KmsPlain (opt_to_py PyStr (mreo_source_key_material_id v))),
      (''destination_key_material_id'', KmsPlain (opt_to_py PyStr (mreo_destination_key_material_id v)))]"

definition re_encrypt_output_to_dict :: "((string, pyval) fmap \<Rightarrow> (string \<times> pyval) list) \<Rightarrow> kms_types \<Rightarrow> re_encrypt_output \<Rightarrow> pyval" where
  "re_encrypt_output_to_dict order S v = PyDict (py_dict
     [(''ciphertext_blob'', opt_to_py PyBytes (mreo_ciphertext_blob v)),
      (''source_key_id'', opt_to_py PyStr (mreo_source_key_id v)),
      (''key_id'', opt_to_py PyStr (mreo_key_id v)),
      (''source_encryption_algorithm'', opt_to_py PyStr (mreo_source_encryption_algorithm v)),
      (''destination_encryption_algorithm'', opt_to_py PyStr (mreo_destination_encryption_algorithm v)),
      (''source_key_material_id'', opt_to_py PyStr (mreo_source_key_material_id v)),
      (''destination_key_material_id'', opt_to_py PyStr (mreo_destination_key_material_id v))])"

section \<open>\<open>ReplicateKeyOutput\<close>\<close>

record replicate_key_output =
  mrko_replica_key_metadata :: "key_metadata option"
  mrko_replica_policy :: "string option"
  mrko_replica_tags :: "kms_tag list option"

definition replicate_key_output_attributes :: "((string, pyval) fmap \<Rightarrow> (string \<times> pyval) list) \<Rightarrow> kms_types \<Rightarrow> replicate_key_output \<Rightarrow> (string \<times> kms_attr) list" where
  "replicate_key_output_attributes order S v =
     [(''replica_key_metadata'', kms_opt_attr (\<lambda>x. KmsObject (KmsKeyMetadata x)) (mrko_replica_key_metadata v)),
      (''replica_policy'', KmsPlain (opt_to_py PyStr (mrko_replica_policy v))),
      (''replica_tags'', kms_opt_attr (\<lambda>xs. KmsObjects (map KmsTag xs)) (mrko_replica_tags v))]"

definition replicate_key_output_to_dict :: "((string, pyval) fmap \<Rightarrow> (string \<times> pyval) list) \<Rightarrow> kms_types \<Rightarrow> replicate_key_output \<Rightarrow> pyval" where
  "replicate_key_output_to_dict order S v = PyDict (py_dict
     [(''replica_key_metadata'', opt_to_py (key_metadata_to_py S) (mrko_replica_key_metadata v)),
      (''replica_policy'', opt_to_py PyStr (mrko_replica_policy v)),
      (''replica_tags'', opt_to_py (seq_to_py kms_tag_to_py) (mrko_replica_tags v))])"

section \<open>\<open>RotateKeyOnDemandOutput\<close>\<close>

record rotate_key_on_demand_output =
  mrkodo_key_id :: "string option"

definition rotate_key_on_demand_output_attributes :: "((string, pyval) fmap \<Rightarrow> (string \<times> pyval) list) \<Rightarrow> kms_types \<Rightarrow> rotate_key_on_demand_output \<Rightarrow> (string \<times> kms_attr) list" where
  "rotate_key_on_demand_output_attributes order S v =
     [(''key_id'', KmsPlain (opt_to_py PyStr (mrkodo_key_id v)))]"

definition rotate_key_on_demand_output_to_dict :: "((string, pyval) fmap \<Rightarrow> (string \<times> pyval) list) \<Rightarrow> kms_types \<Rightarrow> rotate_key_on_demand_output \<Rightarrow> pyval" where
  "rotate_key_on_demand_output_to_dict order S v = PyDict (py_dict
     [(''key_id'', opt_to_py PyStr (mrkodo_key_id v))])"

section \<open>\<open>ScheduleKeyDeletionOutput\<close>\<close>

record schedule_key_deletion_output =
  mskdo_key_id :: "string option"
  mskdo_deletion_date :: "datetime option"
  mskdo_key_state :: "string option"
  mskdo_pending_window_in_days :: "int option"

definition schedule_key_deletion_output_attributes :: "((string, pyval) fmap \<Rightarrow> (string \<times> pyval) list) \<Rightarrow> kms_types \<Rightarrow> schedule_key_deletion_output \<Rightarrow> (string \<times> kms_attr) list" where
  "schedule_key_deletion_output_attributes order S v =
     [(''key_id'', KmsPlain (opt_to_py PyStr (mskdo_key_id v))),
      (''deletion_date'', KmsPlain (opt_to_py (datetime_to_py S) (mskdo_deletion_date v))),
      (''key_state'', KmsPlain (opt_to_py PyStr (mskdo_key_state v))),
      (''pending_window_in_days'', KmsPlain (opt_to_py PyInt (mskdo_pending_window_in_days v)))]"

definition schedule_key_deletion_output_to_dict :: "((string, pyval) fmap \<Rightarrow> (string \<times> pyval) list) \<Rightarrow> kms_types \<Rightarrow> schedule_key_deletion_output \<Rightarrow> pyval" where
  "schedule_key_deletion_output_to_dict order S v = PyDict (py_dict
     [(''key_id'', opt_to_py PyStr (mskdo_key_id v)),
      (''deletion_date'', opt_to_py (datetime_to_py S) (mskdo_deletion_date v)),
      (''key_state'', opt_to_py PyStr (mskdo_key_state v)),
      (''pending_window_in_days'', opt_to_py PyInt (mskdo_pending_window_in_days v))])"

section \<open>\<open>SignOutput\<close>\<close>

record sign_output =
  mso_key_id :: "string option"
  mso_signature :: "byte list option"
  mso_signing_algorithm :: "string option"

definition sign_output_attributes :: "((string, pyval) fmap \<Rightarrow> (string \<times> pyval) list) \<Rightarrow> kms_types \<Rightarrow> sign_output \<Rightarrow> (string \<times> kms_attr) list" where
  "sign_output_attributes order S v =
     [(''key_id'', KmsPlain (opt_to_py PyStr (mso_key_id v))),
      (''signature'', KmsPlain (opt_to_py PyBytes (mso_signature v))),
      (''signing_algorithm'', KmsPlain (opt_to_py PyStr (mso_signing_algorithm v)))]"

definition sign_output_to_dict :: "((string, pyval) fmap \<Rightarrow> (string \<times> pyval) list) \<Rightarrow> kms_types \<Rightarrow> sign_output \<Rightarrow> pyval" where
  "sign_output_to_dict order S v = PyDict (py_dict
     [(''key_id'', opt_to_py PyStr (mso_key_id v)),
      (''signature'', opt_to_py PyBytes (mso_signature v)),
      (''signing_algorithm'', opt_to_py PyStr (mso_signing_algorithm v))])"

section \<open>\<open>UpdateCustomKeyStoreOutput\<close>\<close>

datatype update_custom_key_store_output = UpdateCustomKeyStoreOutput

definition update_custom_key_store_output_attributes :: "((string, pyval) fmap \<Rightarrow> (string \<times> pyval) list) \<Rightarrow> kms_types \<Rightarrow> update_custom_key_store_output \<Rightarrow> (string \<times> kms_attr) list" where
  "update_custom_key_store_output_attributes order S v = []"

definition update_custom_key_store_output_to_dict :: "((string, pyval) fmap \<Rightarrow> (string \<times> pyval) list) \<Rightarrow> kms_types \<Rightarrow> update_custom_key_store_output \<Rightarrow> pyval" where
  "update_custom_key_store_output_to_dict order S v = PyDict (py_dict [])"

section \<open>\<open>VerifyOutput\<close>\<close>

record verify_output =
  mvo_key_id :: "string option"
  mvo_signature_valid :: bool
  mvo_signing_algorithm :: "string option"

definition verify_output_attributes :: "((string, pyval) fmap \<Rightarrow> (string \<times> pyval) list) \<Rightarrow> kms_types \<Rightarrow> verify_output \<Rightarrow> (string \<times> kms_attr) list" where
  "verify_output_attributes order S v =
     [(''key_id'', KmsPlain (opt_to_py PyStr (mvo_key_id v))),
      (''signature_valid'', KmsPlain (PyBool (mvo_signature_valid v))),
      (''signing_algorithm'', KmsPlain (opt_to_py PyStr (mvo_signing_algorithm v)))]"

definition verify_output_to_dict :: "((string, pyval) fmap \<Rightarrow> (string \<times> pyval) list) \<Rightarrow> kms_types \<Rightarrow> verify_output \<Rightarrow> pyval" where
  "verify_output_to_dict order S v = PyDict (py_dict
     [(''key_id'', opt_to_py PyStr (mvo_key_id v)),
      (''signature_valid'', PyBool (mvo_signature_valid v)),
      (''signing_algorithm'', opt_to_py PyStr (mvo_signing_algorithm v))])"

section \<open>\<open>VerifyMacOutput\<close>\<close>

record verify_mac_output =
  mvmo_key_id :: "string option"
  mvmo_mac_valid :: bool
  mvmo_mac_algorithm :: "string option"

definition verify_mac_output_attributes :: "((string, pyval) fmap \<Rightarrow> (string \<times> pyval) list) \<Rightarrow> kms_types \<Rightarrow> verify_mac_output \<Rightarrow> (string \<times> kms_attr) list" where
  "verify_mac_output_attributes order S v =
     [(''key_id'', KmsPlain (opt_to_py PyStr (mvmo_key_id v))),
      (''mac_valid'', KmsPlain (PyBool (mvmo_mac_valid v))),
      (''mac_algorithm'', KmsPlain (opt_to_py PyStr (mvmo_mac_algorithm v)))]"

definition verify_mac_output_to_dict :: "((string, pyval) fmap \<Rightarrow> (string \<times> pyval) list) \<Rightarrow> kms_types \<Rightarrow> verify_mac_output \<Rightarrow> pyval" where
  "verify_mac_output_to_dict order S v = PyDict (py_dict
     [(''key_id'', opt_to_py PyStr (mvmo_key_id v)),
      (''mac_valid'', PyBool (mvmo_mac_valid v)),
      (''mac_algorithm'', opt_to_py PyStr (mvmo_mac_algorithm v))])"

section \<open>Dictionaries and attributes agree\<close>

text \<open>The plain value of an object is what its own \<open>to_dict\<close> gives.\<close>

fun kms_render_object :: "((string, pyval) fmap \<Rightarrow> (string \<times> pyval) list) \<Rightarrow> kms_types \<Rightarrow> kms_object \<Rightarrow> pyval" where
  "kms_render_object order S (KmsAliasListEntry v) = alias_list_entry_to_dict order S v"
| "kms_render_object order S (KmsCustomKeyStoresListEntry v) = custom_key_stores_list_entry_to_dict order S v"
| "kms_render_object order S (KmsGrantConstraints v) = grant_constraints_to_dict order S v"
| "kms_render_object order S (KmsGrantListEntry v) = grant_list_entry_to_dict order S v"
| "kms_render_object order S (KmsKeyLastUsageData v) = key_last_usage_data_to_dict order S v"
| "kms_render_object order S (KmsKeyListEntry v) = key_list_entry_to_dict order S v"
| "kms_render_object order S (KmsKeyMetadata v) = key_metadata_to_dict order S v"
| "kms_render_object order S (KmsMultiRegionConfiguration v) = multi_region_configuration_to_dict order S v"
| "kms_render_object order S (KmsMultiRegionKey v) = multi_region_key_to_dict order S v"
| "kms_render_object order S (KmsRotationsListEntry v) = rotations_list_entry_to_dict order S v"
| "kms_render_object order S (KmsTag v) = kms_tag_to_dict order S v"
| "kms_render_object order S (KmsXksKeyConfigurationType v) = xks_key_configuration_type_to_dict order S v"
| "kms_render_object order S (KmsXksProxyConfigurationType v) = xks_proxy_configuration_type_to_dict order S v"

fun kms_render :: "((string, pyval) fmap \<Rightarrow> (string \<times> pyval) list) \<Rightarrow> kms_types \<Rightarrow> kms_attr \<Rightarrow> pyval" where
  "kms_render order S (KmsPlain v) = v"
| "kms_render order S (KmsObject x) = kms_render_object order S x"
| "kms_render order S (KmsObjects xs) = seq_to_py (kms_render_object order S) xs"
| "kms_render order S (KmsObjectMap m) = mapping_to_py order (kms_render_object order S) m"

lemma kms_render_parts [simp]:
  "kms_render order S (kms_opt_attr f v) = opt_to_py (\<lambda>x. kms_render order S (f x)) v"
  "seq_to_py g (map h xs) = seq_to_py (\<lambda>x. g (h x)) xs"
  "mapping_to_py order g (fmmap k m) = mapping_to_py order (\<lambda>x. g (k x)) m"
  by (simp_all add: kms_opt_attr_def seq_to_py_def mapping_to_py_def fmap.map_comp comp_def split: option.splits)

definition kms_attribute_dict :: "((string, pyval) fmap \<Rightarrow> (string \<times> pyval) list) \<Rightarrow> kms_types \<Rightarrow> (string \<times> kms_attr) list \<Rightarrow> pyval" where
  "kms_attribute_dict order S attrs = PyDict (map (\<lambda>(name, a). (PyStr name, kms_render order S a)) attrs)"

text \<open>
  For each of the 53 response classes, \<open>to_dict\<close> has exactly one entry per attribute, in the order of
  the getters, with the attribute's value: the value itself, or the dictionaries of the objects.
\<close>

lemma alias_list_entry_agrees:
  "alias_list_entry_to_dict order S v = kms_attribute_dict order S (alias_list_entry_attributes order S v)"
  by (simp add: kms_attribute_dict_def py_dict_distinct alias_list_entry_to_dict_def alias_list_entry_attributes_def
      alias_list_entry_to_py_def)

lemma custom_key_stores_list_entry_agrees:
  "custom_key_stores_list_entry_to_dict order S v = kms_attribute_dict order S (custom_key_stores_list_entry_attributes order S v)"
  by (simp add: kms_attribute_dict_def py_dict_distinct custom_key_stores_list_entry_to_dict_def custom_key_stores_list_entry_attributes_def
      custom_key_stores_list_entry_to_py_def xks_proxy_configuration_type_to_dict_def)

lemma grant_constraints_agrees:
  "grant_constraints_to_dict order S v = kms_attribute_dict order S (grant_constraints_attributes order S v)"
  by (simp add: kms_attribute_dict_def py_dict_distinct grant_constraints_to_dict_def grant_constraints_attributes_def
      grant_constraints_to_py_def)

lemma grant_list_entry_agrees:
  "grant_list_entry_to_dict order S v = kms_attribute_dict order S (grant_list_entry_attributes order S v)"
  by (simp add: kms_attribute_dict_def py_dict_distinct grant_list_entry_to_dict_def grant_list_entry_attributes_def
      grant_list_entry_to_py_def grant_constraints_to_dict_def)

lemma key_last_usage_data_agrees:
  "key_last_usage_data_to_dict order S v = kms_attribute_dict order S (key_last_usage_data_attributes order S v)"
  by (simp add: kms_attribute_dict_def py_dict_distinct key_last_usage_data_to_dict_def key_last_usage_data_attributes_def
      key_last_usage_data_to_py_def)

lemma key_list_entry_agrees:
  "key_list_entry_to_dict order S v = kms_attribute_dict order S (key_list_entry_attributes order S v)"
  by (simp add: kms_attribute_dict_def py_dict_distinct key_list_entry_to_dict_def key_list_entry_attributes_def
      key_list_entry_to_py_def)

lemma key_metadata_agrees:
  "key_metadata_to_dict order S v = kms_attribute_dict order S (key_metadata_attributes order S v)"
  by (simp add: kms_attribute_dict_def py_dict_distinct key_metadata_to_dict_def key_metadata_attributes_def
      key_metadata_to_py_def multi_region_configuration_to_dict_def xks_key_configuration_type_to_dict_def)

lemma multi_region_configuration_agrees:
  "multi_region_configuration_to_dict order S v = kms_attribute_dict order S (multi_region_configuration_attributes order S v)"
  by (simp add: kms_attribute_dict_def py_dict_distinct multi_region_configuration_to_dict_def multi_region_configuration_attributes_def
      multi_region_configuration_to_py_def multi_region_key_to_dict_def)

lemma multi_region_key_agrees:
  "multi_region_key_to_dict order S v = kms_attribute_dict order S (multi_region_key_attributes order S v)"
  by (simp add: kms_attribute_dict_def py_dict_distinct multi_region_key_to_dict_def multi_region_key_attributes_def
      multi_region_key_to_py_def)

lemma rotations_list_entry_agrees:
  "rotations_list_entry_to_dict order S v = kms_attribute_dict order S (rotations_list_entry_attributes order S v)"
  by (simp add: kms_attribute_dict_def py_dict_distinct rotations_list_entry_to_dict_def rotations_list_entry_attributes_def
      rotations_list_entry_to_py_def)

lemma kms_tag_agrees:
  "kms_tag_to_dict order S v = kms_attribute_dict order S (kms_tag_attributes order S v)"
  by (simp add: kms_attribute_dict_def py_dict_distinct kms_tag_to_dict_def kms_tag_attributes_def
      kms_tag_to_py_def)

lemma xks_key_configuration_type_agrees:
  "xks_key_configuration_type_to_dict order S v = kms_attribute_dict order S (xks_key_configuration_type_attributes order S v)"
  by (simp add: kms_attribute_dict_def py_dict_distinct xks_key_configuration_type_to_dict_def xks_key_configuration_type_attributes_def
      xks_key_configuration_type_to_py_def)

lemma xks_proxy_configuration_type_agrees:
  "xks_proxy_configuration_type_to_dict order S v = kms_attribute_dict order S (xks_proxy_configuration_type_attributes order S v)"
  by (simp add: kms_attribute_dict_def py_dict_distinct xks_proxy_configuration_type_to_dict_def xks_proxy_configuration_type_attributes_def
      xks_proxy_configuration_type_to_py_def)

lemma kms_outputs_agree:
  "cancel_key_deletion_output_to_dict order S v13 = kms_attribute_dict order S (cancel_key_deletion_output_attributes order S v13)"
  "connect_custom_key_store_output_to_dict order S v14 = kms_attribute_dict order S (connect_custom_key_store_output_attributes order S v14)"
  "create_custom_key_store_output_to_dict order S v15 = kms_attribute_dict order S (create_custom_key_store_output_attributes order S v15)"
  "create_grant_output_to_dict order S v16 = kms_attribute_dict order S (create_grant_output_attributes order S v16)"
  "create_key_output_to_dict order S v17 = kms_attribute_dict order S (create_key_output_attributes order S v17)"
  "decrypt_output_to_dict order S v18 = kms_attribute_dict order S (decrypt_output_attributes order S v18)"
  "delete_custom_key_store_output_to_dict order S v19 = kms_attribute_dict order S (delete_custom_key_store_output_attributes order S v19)"
  "delete_imported_key_material_output_to_dict order S v20 = kms_attribute_dict order S (delete_imported_key_material_output_attributes order S v20)"
  "derive_shared_secret_output_to_dict order S v21 = kms_attribute_dict order S (derive_shared_secret_output_attributes order S v21)"
  "describe_custom_key_stores_output_to_dict order S v22 = kms_attribute_dict order S (describe_custom_key_stores_output_attributes order S v22)"
  "describe_key_output_to_dict order S v23 = kms_attribute_dict order S (describe_key_output_attributes order S v23)"
  "disconnect_custom_key_store_output_to_dict order S v24 = kms_attribute_dict order S (disconnect_custom_key_store_output_attributes order S v24)"
  "encrypt_output_to_dict order S v25 = kms_attribute_dict order S (encrypt_output_attributes order S v25)"
  "generate_data_key_output_to_dict order S v26 = kms_attribute_dict order S (generate_data_key_output_attributes order S v26)"
  "generate_data_key_pair_output_to_dict order S v27 = kms_attribute_dict order S (generate_data_key_pair_output_attributes order S v27)"
  "generate_data_key_pair_without_plaintext_output_to_dict order S v28 = kms_attribute_dict order S (generate_data_key_pair_without_plaintext_output_attributes order S v28)"
  "generate_data_key_without_plaintext_output_to_dict order S v29 = kms_attribute_dict order S (generate_data_key_without_plaintext_output_attributes order S v29)"
  "generate_mac_output_to_dict order S v30 = kms_attribute_dict order S (generate_mac_output_attributes order S v30)"
  "generate_random_output_to_dict order S v31 = kms_attribute_dict order S (generate_random_output_attributes order S v31)"
  "get_key_last_usage_output_to_dict order S v32 = kms_attribute_dict order S (get_key_last_usage_output_attributes order S v32)"
  "get_key_policy_output_to_dict order S v33 = kms_attribute_dict order S (get_key_policy_output_attributes order S v33)"
  "get_key_rotation_status_output_to_dict order S v34 = kms_attribute_dict order S (get_key_rotation_status_output_attributes order S v34)"
  "get_parameters_for_import_output_to_dict order S v35 = kms_attribute_dict order S (get_parameters_for_import_output_attributes order S v35)"
  "get_public_key_output_to_dict order S v36 = kms_attribute_dict order S (get_public_key_output_attributes order S v36)"
  "import_key_material_output_to_dict order S v37 = kms_attribute_dict order S (import_key_material_output_attributes order S v37)"
  "list_aliases_output_to_dict order S v38 = kms_attribute_dict order S (list_aliases_output_attributes order S v38)"
  "list_grants_output_to_dict order S v39 = kms_attribute_dict order S (list_grants_output_attributes order S v39)"
  "list_key_policies_output_to_dict order S v40 = kms_attribute_dict order S (list_key_policies_output_attributes order S v40)"
  "list_key_rotations_output_to_dict order S v41 = kms_attribute_dict order S (list_key_rotations_output_attributes order S v41)"
  "list_keys_output_to_dict order S v42 = kms_attribute_dict order S (list_keys_output_attributes order S v42)"
  "list_resource_tags_output_to_dict order S v43 = kms_attribute_dict order S (list_resource_tags_output_attributes order S v43)"
  "list_retirable_grants_output_to_dict order S v44 = kms_attribute_dict order S (list_retirable_grants_output_attributes order S v44)"
  "re_encrypt_output_to_dict order S v45 = kms_attribute_dict order S (re_encrypt_output_attributes order S v45)"
  "replicate_key_output_to_dict order S v46 = kms_attribute_dict order S (replicate_key_output_attributes order S v46)"
  "rotate_key_on_demand_output_to_dict order S v47 = kms_attribute_dict order S (rotate_key_on_demand_output_attributes order S v47)"
  "schedule_key_deletion_output_to_dict order S v48 = kms_attribute_dict order S (schedule_key_deletion_output_attributes order S v48)"
  "sign_output_to_dict order S v49 = kms_attribute_dict order S (sign_output_attributes order S v49)"
  "update_custom_key_store_output_to_dict order S v50 = kms_attribute_dict order S (update_custom_key_store_output_attributes order S v50)"
  "verify_output_to_dict order S v51 = kms_attribute_dict order S (verify_output_attributes order S v51)"
  "verify_mac_output_to_dict order S v52 = kms_attribute_dict order S (verify_mac_output_attributes order S v52)"
  by (simp_all add: kms_attribute_dict_def py_dict_distinct
      cancel_key_deletion_output_to_dict_def cancel_key_deletion_output_attributes_def
      connect_custom_key_store_output_to_dict_def connect_custom_key_store_output_attributes_def
      create_custom_key_store_output_to_dict_def create_custom_key_store_output_attributes_def
      create_grant_output_to_dict_def create_grant_output_attributes_def
      create_key_output_to_dict_def create_key_output_attributes_def
      decrypt_output_to_dict_def decrypt_output_attributes_def
      delete_custom_key_store_output_to_dict_def delete_custom_key_store_output_attributes_def
      delete_imported_key_material_output_to_dict_def delete_imported_key_material_output_attributes_def
      derive_shared_secret_output_to_dict_def derive_shared_secret_output_attributes_def
      describe_custom_key_stores_output_to_dict_def describe_custom_key_stores_output_attributes_def
      describe_key_output_to_dict_def describe_key_output_attributes_def
      disconnect_custom_key_store_output_to_dict_def disconnect_custom_key_store_output_attributes_def
      encrypt_output_to_dict_def encrypt_output_attributes_def
      generate_data_key_output_to_dict_def generate_data_key_output_attributes_def
      generate_data_key_pair_output_to_dict_def generate_data_key_pair_output_attributes_def
      generate_data_key_pair_without_plaintext_output_to_dict_def generate_data_key_pair_without_plaintext_output_attributes_def
      generate_data_key_without_plaintext_output_to_dict_def generate_data_key_without_plaintext_output_attributes_def
      generate_mac_output_to_dict_def generate_mac_output_attributes_def
      generate_random_output_to_dict_def generate_random_output_attributes_def
      get_key_last_usage_output_to_dict_def get_key_last_usage_output_attributes_def
      get_key_policy_output_to_dict_def get_key_policy_output_attributes_def
      get_key_rotation_status_output_to_dict_def get_key_rotation_status_output_attributes_def
      get_parameters_for_import_output_to_dict_def get_parameters_for_import_output_attributes_def
      get_public_key_output_to_dict_def get_public_key_output_attributes_def
      import_key_material_output_to_dict_def import_key_material_output_attributes_def
      list_aliases_output_to_dict_def list_aliases_output_attributes_def
      list_grants_output_to_dict_def list_grants_output_attributes_def
      list_key_policies_output_to_dict_def list_key_policies_output_attributes_def
      list_key_rotations_output_to_dict_def list_key_rotations_output_attributes_def
      list_keys_output_to_dict_def list_keys_output_attributes_def
      list_resource_tags_output_to_dict_def list_resource_tags_output_attributes_def
      list_retirable_grants_output_to_dict_def list_retirable_grants_output_attributes_def
      re_encrypt_output_to_dict_def re_encrypt_output_attributes_def
      replicate_key_output_to_dict_def replicate_key_output_attributes_def
      rotate_key_on_demand_output_to_dict_def rotate_key_on_demand_output_attributes_def
      schedule_key_deletion_output_to_dict_def schedule_key_deletion_output_attributes_def
      sign_output_to_dict_def sign_output_attributes_def
      update_custom_key_store_output_to_dict_def update_custom_key_store_output_attributes_def
      verify_output_to_dict_def verify_output_attributes_def
      verify_mac_output_to_dict_def verify_mac_output_attributes_def
      alias_list_entry_to_dict_def
      custom_key_stores_list_entry_to_dict_def
      grant_constraints_to_dict_def
      grant_list_entry_to_dict_def
      key_last_usage_data_to_dict_def
      key_list_entry_to_dict_def
      key_metadata_to_dict_def
      multi_region_configuration_to_dict_def
      multi_region_key_to_dict_def
      rotations_list_entry_to_dict_def
      kms_tag_to_dict_def
      xks_key_configuration_type_to_dict_def
      xks_proxy_configuration_type_to_dict_def)

end
