(* ===== verification/Kms.thy ===== *)
theory Kms
  imports KmsOutputs
begin

text \<open>
  The operations of the KMS client: the methods of \<open>KMSClient\<close> in
  \<open>crates/rboto-kms/src/generated.rs\<close>, each reading its parameters from a dictionary and sending them
  through the shared \<open>execute\<close>, and the methods of the Python client
  (\<open>packages/rboto-kms/python/rboto_kms/client.py\<close>) that build those dictionaries.
\<close>

section \<open>Operations\<close>

subsection \<open>\<open>CancelKeyDeletion\<close>\<close>

record cancel_key_deletion_input =
  mckdi_key_id :: "string option"

definition cancel_key_deletion_params :: "pyo3 \<Rightarrow> kms_types \<Rightarrow> pydict \<Rightarrow>
    cancel_key_deletion_input pyresult" where
  "cancel_key_deletion_params P S params =
     and_then (op_param P ''kms'' ''CancelKeyDeletion'' params ''key_id'' ''str'' (string_from_py P)) (\<lambda>key_id.
     Inr \<lparr>mckdi_key_id = key_id\<rparr>)"

definition cancel_key_deletion :: "('cfg, 'client) service_env \<Rightarrow> pyo3 \<Rightarrow> kms_types \<Rightarrow> unit pyresult \<Rightarrow> bool \<Rightarrow>
    ('client \<Rightarrow> cancel_key_deletion_input \<Rightarrow> trip list \<times> (('e, http_response) sdk_error + cancel_key_deletion_output)) \<Rightarrow>
    'client client_handle \<Rightarrow> pydict \<Rightarrow> pydict option \<Rightarrow>
    (cancel_key_deletion_output pyresult \<times> 'client client_handle \<times> pydict option) option" where
  "cancel_key_deletion E P S bridge interrupted send c params observation =
     execute E bridge interrupted send no_details
       ''CancelKeyDeletion'' (cancel_key_deletion_params P S params) c observation"

definition cancel_key_deletion_call :: "cancel_key_deletion_input \<Rightarrow> pydict" where
  "cancel_key_deletion_call i = py_params
     [(''key_id'', opt_to_py PyStr (mckdi_key_id i))]
     []"

subsection \<open>\<open>ConnectCustomKeyStore\<close>\<close>

record connect_custom_key_store_input =
  mccksi_custom_key_store_id :: "string option"

definition connect_custom_key_store_params :: "pyo3 \<Rightarrow> kms_types \<Rightarrow> pydict \<Rightarrow>
    connect_custom_key_store_input pyresult" where
  "connect_custom_key_store_params P S params =
     and_then (op_param P ''kms'' ''ConnectCustomKeyStore'' params ''custom_key_store_id'' ''str'' (string_from_py P)) (\<lambda>custom_key_store_id.
     Inr \<lparr>mccksi_custom_key_store_id = custom_key_store_id\<rparr>)"

definition connect_custom_key_store :: "('cfg, 'client) service_env \<Rightarrow> pyo3 \<Rightarrow> kms_types \<Rightarrow> unit pyresult \<Rightarrow> bool \<Rightarrow>
    ('client \<Rightarrow> connect_custom_key_store_input \<Rightarrow> trip list \<times> (('e, http_response) sdk_error + connect_custom_key_store_output)) \<Rightarrow>
    'client client_handle \<Rightarrow> pydict \<Rightarrow> pydict option \<Rightarrow>
    (connect_custom_key_store_output pyresult \<times> 'client client_handle \<times> pydict option) option" where
  "connect_custom_key_store E P S bridge interrupted send c params observation =
     execute E bridge interrupted send no_details
       ''ConnectCustomKeyStore'' (connect_custom_key_store_params P S params) c observation"

definition connect_custom_key_store_call :: "connect_custom_key_store_input \<Rightarrow> pydict" where
  "connect_custom_key_store_call i = py_params
     [(''custom_key_store_id'', opt_to_py PyStr (mccksi_custom_key_store_id i))]
     []"

subsection \<open>\<open>CreateAlias\<close>\<close>

record create_alias_input =
  mcai_alias_name :: "string option"
  mcai_target_key_id :: "string option"

definition create_alias_params :: "pyo3 \<Rightarrow> kms_types \<Rightarrow> pydict \<Rightarrow>
    create_alias_input pyresult" where
  "create_alias_params P S params =
     and_then (op_param P ''kms'' ''CreateAlias'' params ''alias_name'' ''str'' (string_from_py P)) (\<lambda>alias_name.
     and_then (op_param P ''kms'' ''CreateAlias'' params ''target_key_id'' ''str'' (string_from_py P)) (\<lambda>target_key_id.
     Inr \<lparr>mcai_alias_name = alias_name,
       mcai_target_key_id = target_key_id\<rparr>))"

definition create_alias :: "('cfg, 'client) service_env \<Rightarrow> pyo3 \<Rightarrow> kms_types \<Rightarrow> unit pyresult \<Rightarrow> bool \<Rightarrow>
    ('client \<Rightarrow> create_alias_input \<Rightarrow> trip list \<times> (('e, http_response) sdk_error + unit)) \<Rightarrow>
    'client client_handle \<Rightarrow> pydict \<Rightarrow> pydict option \<Rightarrow>
    (unit pyresult \<times> 'client client_handle \<times> pydict option) option" where
  "create_alias E P S bridge interrupted send c params observation =
     execute E bridge interrupted send no_details
       ''CreateAlias'' (create_alias_params P S params) c observation"

definition create_alias_call :: "create_alias_input \<Rightarrow> pydict" where
  "create_alias_call i = py_params
     [(''alias_name'', opt_to_py PyStr (mcai_alias_name i)),
      (''target_key_id'', opt_to_py PyStr (mcai_target_key_id i))]
     []"

subsection \<open>\<open>CreateCustomKeyStore\<close>\<close>

record create_custom_key_store_input =
  mccksi2_custom_key_store_name :: "string option"
  mccksi2_cloud_hsm_cluster_id :: "string option"
  mccksi2_trust_anchor_certificate :: "string option"
  mccksi2_key_store_password :: "string option"
  mccksi2_custom_key_store_type :: "string option"
  mccksi2_xks_proxy_uri_endpoint :: "string option"
  mccksi2_xks_proxy_uri_path :: "string option"
  mccksi2_xks_proxy_vpc_endpoint_service_name :: "string option"
  mccksi2_xks_proxy_vpc_endpoint_service_owner :: "string option"
  mccksi2_xks_proxy_authentication_credential :: "xks_proxy_authentication_credential_type option"
  mccksi2_xks_proxy_connectivity :: "string option"

definition create_custom_key_store_params_1 :: "pyo3 \<Rightarrow> kms_types \<Rightarrow> pydict \<Rightarrow>
    (string option \<times> string option \<times> string option \<times> string option \<times> string option \<times> string option) pyresult" where
  "create_custom_key_store_params_1 P S params =
     and_then (op_param P ''kms'' ''CreateCustomKeyStore'' params ''custom_key_store_name'' ''str'' (string_from_py P)) (\<lambda>custom_key_store_name.
     and_then (op_param P ''kms'' ''CreateCustomKeyStore'' params ''cloud_hsm_cluster_id'' ''str'' (string_from_py P)) (\<lambda>cloud_hsm_cluster_id.
     and_then (op_param P ''kms'' ''CreateCustomKeyStore'' params ''trust_anchor_certificate'' ''str'' (string_from_py P)) (\<lambda>trust_anchor_certificate.
     and_then (op_param P ''kms'' ''CreateCustomKeyStore'' params ''key_store_password'' ''str'' (string_from_py P)) (\<lambda>key_store_password.
     and_then (op_param P ''kms'' ''CreateCustomKeyStore'' params ''custom_key_store_type'' ''str (CustomKeyStoreType)'' (enum_from_py P)) (\<lambda>custom_key_store_type.
     and_then (op_param P ''kms'' ''CreateCustomKeyStore'' params ''xks_proxy_uri_endpoint'' ''str'' (string_from_py P)) (\<lambda>xks_proxy_uri_endpoint.
     Inr (custom_key_store_name, cloud_hsm_cluster_id, trust_anchor_certificate, key_store_password, custom_key_store_type, xks_proxy_uri_endpoint)))))))"

definition create_custom_key_store_params_2 :: "pyo3 \<Rightarrow> kms_types \<Rightarrow> pydict \<Rightarrow>
    (string option \<times> string option \<times> string option \<times> xks_proxy_authentication_credential_type option \<times> string option) pyresult" where
  "create_custom_key_store_params_2 P S params =
     and_then (op_param P ''kms'' ''CreateCustomKeyStore'' params ''xks_proxy_uri_path'' ''str'' (string_from_py P)) (\<lambda>xks_proxy_uri_path.
     and_then (op_param P ''kms'' ''CreateCustomKeyStore'' params ''xks_proxy_vpc_endpoint_service_name'' ''str'' (string_from_py P)) (\<lambda>xks_proxy_vpc_endpoint_service_name.
     and_then (op_param P ''kms'' ''CreateCustomKeyStore'' params ''xks_proxy_vpc_endpoint_service_owner'' ''str'' (string_from_py P)) (\<lambda>xks_proxy_vpc_endpoint_service_owner.
     and_then (op_param P ''kms'' ''CreateCustomKeyStore'' params ''xks_proxy_authentication_credential'' ''dict (XksProxyAuthenticationCredentialType)'' (xks_proxy_authentication_credential_type_from_py P S)) (\<lambda>xks_proxy_authentication_credential.
     and_then (op_param P ''kms'' ''CreateCustomKeyStore'' params ''xks_proxy_connectivity'' ''str (XksProxyConnectivityType)'' (enum_from_py P)) (\<lambda>xks_proxy_connectivity.
     Inr (xks_proxy_uri_path, xks_proxy_vpc_endpoint_service_name, xks_proxy_vpc_endpoint_service_owner, xks_proxy_authentication_credential, xks_proxy_connectivity))))))"

definition create_custom_key_store_params :: "pyo3 \<Rightarrow> kms_types \<Rightarrow> pydict \<Rightarrow>
    create_custom_key_store_input pyresult" where
  "create_custom_key_store_params P S params =
     and_then (create_custom_key_store_params_1 P S params) (\<lambda>(custom_key_store_name, cloud_hsm_cluster_id, trust_anchor_certificate, key_store_password, custom_key_store_type, xks_proxy_uri_endpoint).
     and_then (create_custom_key_store_params_2 P S params) (\<lambda>(xks_proxy_uri_path, xks_proxy_vpc_endpoint_service_name, xks_proxy_vpc_endpoint_service_owner, xks_proxy_authentication_credential, xks_proxy_connectivity).
     Inr \<lparr>mccksi2_custom_key_store_name = custom_key_store_name,
       mccksi2_cloud_hsm_cluster_id = cloud_hsm_cluster_id,
       mccksi2_trust_anchor_certificate = trust_anchor_certificate,
       mccksi2_key_store_password = key_store_password,
       mccksi2_custom_key_store_type = custom_key_store_type,
       mccksi2_xks_proxy_uri_endpoint = xks_proxy_uri_endpoint,
       mccksi2_xks_proxy_uri_path = xks_proxy_uri_path,
       mccksi2_xks_proxy_vpc_endpoint_service_name = xks_proxy_vpc_endpoint_service_name,
       mccksi2_xks_proxy_vpc_endpoint_service_owner = xks_proxy_vpc_endpoint_service_owner,
       mccksi2_xks_proxy_authentication_credential = xks_proxy_authentication_credential,
       mccksi2_xks_proxy_connectivity = xks_proxy_connectivity\<rparr>))"

definition create_custom_key_store :: "('cfg, 'client) service_env \<Rightarrow> pyo3 \<Rightarrow> kms_types \<Rightarrow> unit pyresult \<Rightarrow> bool \<Rightarrow>
    ('client \<Rightarrow> create_custom_key_store_input \<Rightarrow> trip list \<times> (('e, http_response) sdk_error + create_custom_key_store_output)) \<Rightarrow>
    'client client_handle \<Rightarrow> pydict \<Rightarrow> pydict option \<Rightarrow>
    (create_custom_key_store_output pyresult \<times> 'client client_handle \<times> pydict option) option" where
  "create_custom_key_store E P S bridge interrupted send c params observation =
     execute E bridge interrupted send no_details
       ''CreateCustomKeyStore'' (create_custom_key_store_params P S params) c observation"

definition create_custom_key_store_call :: "create_custom_key_store_input \<Rightarrow> pydict" where
  "create_custom_key_store_call i = py_params
     [(''custom_key_store_name'', opt_to_py PyStr (mccksi2_custom_key_store_name i))]
     [(''cloud_hsm_cluster_id'', opt_to_py PyStr (mccksi2_cloud_hsm_cluster_id i)),
      (''trust_anchor_certificate'', opt_to_py PyStr (mccksi2_trust_anchor_certificate i)),
      (''key_store_password'', opt_to_py PyStr (mccksi2_key_store_password i)),
      (''custom_key_store_type'', opt_to_py PyStr (mccksi2_custom_key_store_type i)),
      (''xks_proxy_uri_endpoint'', opt_to_py PyStr (mccksi2_xks_proxy_uri_endpoint i)),
      (''xks_proxy_uri_path'', opt_to_py PyStr (mccksi2_xks_proxy_uri_path i)),
      (''xks_proxy_vpc_endpoint_service_name'', opt_to_py PyStr (mccksi2_xks_proxy_vpc_endpoint_service_name i)),
      (''xks_proxy_vpc_endpoint_service_owner'', opt_to_py PyStr (mccksi2_xks_proxy_vpc_endpoint_service_owner i)),
      (''xks_proxy_authentication_credential'', opt_to_py xks_proxy_authentication_credential_type_to_py (mccksi2_xks_proxy_authentication_credential i)),
      (''xks_proxy_connectivity'', opt_to_py PyStr (mccksi2_xks_proxy_connectivity i))]"

subsection \<open>\<open>CreateGrant\<close>\<close>

record create_grant_input =
  mcgi_key_id :: "string option"
  mcgi_grantee_principal :: "string option"
  mcgi_retiring_principal :: "string option"
  mcgi_operations :: "string list option"
  mcgi_constraints :: "grant_constraints option"
  mcgi_grant_tokens :: "string list option"
  mcgi_name :: "string option"
  mcgi_dry_run :: "bool option"
  mcgi_grantee_service_principal :: "string option"
  mcgi_retiring_service_principal :: "string option"

definition create_grant_params_1 :: "pyo3 \<Rightarrow> kms_types \<Rightarrow> pydict \<Rightarrow>
    (string option \<times> string option \<times> string option \<times> string list option \<times> grant_constraints option) pyresult" where
  "create_grant_params_1 P S params =
     and_then (op_param P ''kms'' ''CreateGrant'' params ''key_id'' ''str'' (string_from_py P)) (\<lambda>key_id.
     and_then (op_param P ''kms'' ''CreateGrant'' params ''grantee_principal'' ''str'' (string_from_py P)) (\<lambda>grantee_principal.
     and_then (op_param P ''kms'' ''CreateGrant'' params ''retiring_principal'' ''str'' (string_from_py P)) (\<lambda>retiring_principal.
     and_then (op_param P ''kms'' ''CreateGrant'' params ''operations'' ''sequence'' (seq_from_py P ''str (GrantOperation)'' (enum_from_py P))) (\<lambda>operations.
     and_then (op_param P ''kms'' ''CreateGrant'' params ''constraints'' ''dict (GrantConstraints)'' (grant_constraints_from_py P S)) (\<lambda>constraints.
     Inr (key_id, grantee_principal, retiring_principal, operations, constraints))))))"

definition create_grant_params_2 :: "pyo3 \<Rightarrow> kms_types \<Rightarrow> pydict \<Rightarrow>
    (string list option \<times> string option \<times> bool option \<times> string option \<times> string option) pyresult" where
  "create_grant_params_2 P S params =
     and_then (op_param P ''kms'' ''CreateGrant'' params ''grant_tokens'' ''sequence'' (seq_from_py P ''str'' (string_from_py P))) (\<lambda>grant_tokens.
     and_then (op_param P ''kms'' ''CreateGrant'' params ''name'' ''str'' (string_from_py P)) (\<lambda>name.
     and_then (op_param P ''kms'' ''CreateGrant'' params ''dry_run'' ''bool'' (bool_from_py P)) (\<lambda>dry_run.
     and_then (op_param P ''kms'' ''CreateGrant'' params ''grantee_service_principal'' ''str'' (string_from_py P)) (\<lambda>grantee_service_principal.
     and_then (op_param P ''kms'' ''CreateGrant'' params ''retiring_service_principal'' ''str'' (string_from_py P)) (\<lambda>retiring_service_principal.
     Inr (grant_tokens, name, dry_run, grantee_service_principal, retiring_service_principal))))))"

definition create_grant_params :: "pyo3 \<Rightarrow> kms_types \<Rightarrow> pydict \<Rightarrow>
    create_grant_input pyresult" where
  "create_grant_params P S params =
     and_then (create_grant_params_1 P S params) (\<lambda>(key_id, grantee_principal, retiring_principal, operations, constraints).
     and_then (create_grant_params_2 P S params) (\<lambda>(grant_tokens, name, dry_run, grantee_service_principal, retiring_service_principal).
     Inr \<lparr>mcgi_key_id = key_id,
       mcgi_grantee_principal = grantee_principal,
       mcgi_retiring_principal = retiring_principal,
       mcgi_operations = operations,
       mcgi_constraints = constraints,
       mcgi_grant_tokens = grant_tokens,
       mcgi_name = name,
       mcgi_dry_run = dry_run,
       mcgi_grantee_service_principal = grantee_service_principal,
       mcgi_retiring_service_principal = retiring_service_principal\<rparr>))"

definition create_grant :: "('cfg, 'client) service_env \<Rightarrow> pyo3 \<Rightarrow> kms_types \<Rightarrow> unit pyresult \<Rightarrow> bool \<Rightarrow>
    ('client \<Rightarrow> create_grant_input \<Rightarrow> trip list \<times> (('e, http_response) sdk_error + create_grant_output)) \<Rightarrow>
    'client client_handle \<Rightarrow> pydict \<Rightarrow> pydict option \<Rightarrow>
    (create_grant_output pyresult \<times> 'client client_handle \<times> pydict option) option" where
  "create_grant E P S bridge interrupted send c params observation =
     execute E bridge interrupted send no_details
       ''CreateGrant'' (create_grant_params P S params) c observation"

definition create_grant_call :: "((string, pyval) fmap \<Rightarrow> (string \<times> pyval) list) \<Rightarrow> create_grant_input \<Rightarrow> pydict" where
  "create_grant_call order i = py_params
     [(''key_id'', opt_to_py PyStr (mcgi_key_id i)),
      (''operations'', opt_to_py (seq_to_py PyStr) (mcgi_operations i))]
     [(''grantee_principal'', opt_to_py PyStr (mcgi_grantee_principal i)),
      (''retiring_principal'', opt_to_py PyStr (mcgi_retiring_principal i)),
      (''constraints'', opt_to_py (grant_constraints_to_py order) (mcgi_constraints i)),
      (''grant_tokens'', opt_to_py (seq_to_py PyStr) (mcgi_grant_tokens i)),
      (''name'', opt_to_py PyStr (mcgi_name i)),
      (''dry_run'', opt_to_py PyBool (mcgi_dry_run i)),
      (''grantee_service_principal'', opt_to_py PyStr (mcgi_grantee_service_principal i)),
      (''retiring_service_principal'', opt_to_py PyStr (mcgi_retiring_service_principal i))]"

subsection \<open>\<open>CreateKey\<close>\<close>

record create_key_input =
  mcki_policy :: "string option"
  mcki_description :: "string option"
  mcki_key_usage :: "string option"
  mcki_customer_master_key_spec :: "string option"
  mcki_key_spec :: "string option"
  mcki_origin :: "string option"
  mcki_custom_key_store_id :: "string option"
  mcki_bypass_policy_lockout_safety_check :: "bool option"
  mcki_tags :: "kms_tag list option"
  mcki_multi_region :: "bool option"
  mcki_xks_key_id :: "string option"

definition create_key_params_1 :: "pyo3 \<Rightarrow> kms_types \<Rightarrow> pydict \<Rightarrow>
    (string option \<times> string option \<times> string option \<times> string option \<times> string option \<times> string option) pyresult" where
  "create_key_params_1 P S params =
     and_then (op_param P ''kms'' ''CreateKey'' params ''policy'' ''str'' (string_from_py P)) (\<lambda>policy.
     and_then (op_param P ''kms'' ''CreateKey'' params ''description'' ''str'' (string_from_py P)) (\<lambda>description.
     and_then (op_param P ''kms'' ''CreateKey'' params ''key_usage'' ''str (KeyUsageType)'' (enum_from_py P)) (\<lambda>key_usage.
     and_then (op_param P ''kms'' ''CreateKey'' params ''customer_master_key_spec'' ''str (CustomerMasterKeySpec)'' (enum_from_py P)) (\<lambda>customer_master_key_spec.
     and_then (op_param P ''kms'' ''CreateKey'' params ''key_spec'' ''str (KeySpec)'' (enum_from_py P)) (\<lambda>key_spec.
     and_then (op_param P ''kms'' ''CreateKey'' params ''origin'' ''str (OriginType)'' (enum_from_py P)) (\<lambda>origin.
     Inr (policy, description, key_usage, customer_master_key_spec, key_spec, origin)))))))"

definition create_key_params_2 :: "pyo3 \<Rightarrow> kms_types \<Rightarrow> pydict \<Rightarrow>
    (string option \<times> bool option \<times> kms_tag list option \<times> bool option \<times> string option) pyresult" where
  "create_key_params_2 P S params =
     and_then (op_param P ''kms'' ''CreateKey'' params ''custom_key_store_id'' ''str'' (string_from_py P)) (\<lambda>custom_key_store_id.
     and_then (op_param P ''kms'' ''CreateKey'' params ''bypass_policy_lockout_safety_check'' ''bool'' (bool_from_py P)) (\<lambda>bypass_policy_lockout_safety_check.
     and_then (op_param P ''kms'' ''CreateKey'' params ''tags'' ''sequence'' (seq_from_py P ''dict (Tag)'' (kms_tag_from_py P S))) (\<lambda>tags.
     and_then (op_param P ''kms'' ''CreateKey'' params ''multi_region'' ''bool'' (bool_from_py P)) (\<lambda>multi_region.
     and_then (op_param P ''kms'' ''CreateKey'' params ''xks_key_id'' ''str'' (string_from_py P)) (\<lambda>xks_key_id.
     Inr (custom_key_store_id, bypass_policy_lockout_safety_check, tags, multi_region, xks_key_id))))))"

definition create_key_params :: "pyo3 \<Rightarrow> kms_types \<Rightarrow> pydict \<Rightarrow>
    create_key_input pyresult" where
  "create_key_params P S params =
     and_then (create_key_params_1 P S params) (\<lambda>(policy, description, key_usage, customer_master_key_spec, key_spec, origin).
     and_then (create_key_params_2 P S params) (\<lambda>(custom_key_store_id, bypass_policy_lockout_safety_check, tags, multi_region, xks_key_id).
     Inr \<lparr>mcki_policy = policy,
       mcki_description = description,
       mcki_key_usage = key_usage,
       mcki_customer_master_key_spec = customer_master_key_spec,
       mcki_key_spec = key_spec,
       mcki_origin = origin,
       mcki_custom_key_store_id = custom_key_store_id,
       mcki_bypass_policy_lockout_safety_check = bypass_policy_lockout_safety_check,
       mcki_tags = tags,
       mcki_multi_region = multi_region,
       mcki_xks_key_id = xks_key_id\<rparr>))"

definition create_key :: "('cfg, 'client) service_env \<Rightarrow> pyo3 \<Rightarrow> kms_types \<Rightarrow> unit pyresult \<Rightarrow> bool \<Rightarrow>
    ('client \<Rightarrow> create_key_input \<Rightarrow> trip list \<times> (('e, http_response) sdk_error + create_key_output)) \<Rightarrow>
    'client client_handle \<Rightarrow> pydict \<Rightarrow> pydict option \<Rightarrow>
    (create_key_output pyresult \<times> 'client client_handle \<times> pydict option) option" where
  "create_key E P S bridge interrupted send c params observation =
     execute E bridge interrupted send no_details
       ''CreateKey'' (create_key_params P S params) c observation"

definition create_key_call :: "create_key_input \<Rightarrow> pydict" where
  "create_key_call i = py_params
     []
     [(''policy'', opt_to_py PyStr (mcki_policy i)),
      (''description'', opt_to_py PyStr (mcki_description i)),
      (''key_usage'', opt_to_py PyStr (mcki_key_usage i)),
      (''customer_master_key_spec'', opt_to_py PyStr (mcki_customer_master_key_spec i)),
      (''key_spec'', opt_to_py PyStr (mcki_key_spec i)),
      (''origin'', opt_to_py PyStr (mcki_origin i)),
      (''custom_key_store_id'', opt_to_py PyStr (mcki_custom_key_store_id i)),
      (''bypass_policy_lockout_safety_check'', opt_to_py PyBool (mcki_bypass_policy_lockout_safety_check i)),
      (''tags'', opt_to_py (seq_to_py kms_tag_to_py) (mcki_tags i)),
      (''multi_region'', opt_to_py PyBool (mcki_multi_region i)),
      (''xks_key_id'', opt_to_py PyStr (mcki_xks_key_id i))]"

subsection \<open>\<open>Decrypt\<close>\<close>

record decrypt_input =
  mdi_ciphertext_blob :: "byte list option"
  mdi_encryption_context :: "(string, string) fmap option"
  mdi_grant_tokens :: "string list option"
  mdi_key_id :: "string option"
  mdi_encryption_algorithm :: "string option"
  mdi_recipient :: "recipient_info option"
  mdi_dry_run :: "bool option"
  mdi_dry_run_modifiers :: "string list option"

definition decrypt_params_1 :: "pyo3 \<Rightarrow> kms_types \<Rightarrow> pydict \<Rightarrow>
    (byte list option \<times> (string, string) fmap option \<times> string list option \<times> string option) pyresult" where
  "decrypt_params_1 P S params =
     and_then (op_param P ''kms'' ''Decrypt'' params ''ciphertext_blob'' ''bytes'' (blob_from_py P)) (\<lambda>ciphertext_blob.
     and_then (op_param P ''kms'' ''Decrypt'' params ''encryption_context'' ''dict'' (map_from_py P ''str'' ''str'' (string_from_py P))) (\<lambda>encryption_context.
     and_then (op_param P ''kms'' ''Decrypt'' params ''grant_tokens'' ''sequence'' (seq_from_py P ''str'' (string_from_py P))) (\<lambda>grant_tokens.
     and_then (op_param P ''kms'' ''Decrypt'' params ''key_id'' ''str'' (string_from_py P)) (\<lambda>key_id.
     Inr (ciphertext_blob, encryption_context, grant_tokens, key_id)))))"

definition decrypt_params_2 :: "pyo3 \<Rightarrow> kms_types \<Rightarrow> pydict \<Rightarrow>
    (string option \<times> recipient_info option \<times> bool option \<times> string list option) pyresult" where
  "decrypt_params_2 P S params =
     and_then (op_param P ''kms'' ''Decrypt'' params ''encryption_algorithm'' ''str (EncryptionAlgorithmSpec)'' (enum_from_py P)) (\<lambda>encryption_algorithm.
     and_then (op_param P ''kms'' ''Decrypt'' params ''recipient'' ''dict (RecipientInfo)'' (recipient_info_from_py P S)) (\<lambda>recipient.
     and_then (op_param P ''kms'' ''Decrypt'' params ''dry_run'' ''bool'' (bool_from_py P)) (\<lambda>dry_run.
     and_then (op_param P ''kms'' ''Decrypt'' params ''dry_run_modifiers'' ''sequence'' (seq_from_py P ''str (DryRunModifierType)'' (enum_from_py P))) (\<lambda>dry_run_modifiers.
     Inr (encryption_algorithm, recipient, dry_run, dry_run_modifiers)))))"

definition decrypt_params :: "pyo3 \<Rightarrow> kms_types \<Rightarrow> pydict \<Rightarrow>
    decrypt_input pyresult" where
  "decrypt_params P S params =
     and_then (decrypt_params_1 P S params) (\<lambda>(ciphertext_blob, encryption_context, grant_tokens, key_id).
     and_then (decrypt_params_2 P S params) (\<lambda>(encryption_algorithm, recipient, dry_run, dry_run_modifiers).
     Inr \<lparr>mdi_ciphertext_blob = ciphertext_blob,
       mdi_encryption_context = encryption_context,
       mdi_grant_tokens = grant_tokens,
       mdi_key_id = key_id,
       mdi_encryption_algorithm = encryption_algorithm,
       mdi_recipient = recipient,
       mdi_dry_run = dry_run,
       mdi_dry_run_modifiers = dry_run_modifiers\<rparr>))"

definition decrypt :: "('cfg, 'client) service_env \<Rightarrow> pyo3 \<Rightarrow> kms_types \<Rightarrow> unit pyresult \<Rightarrow> bool \<Rightarrow>
    ('client \<Rightarrow> decrypt_input \<Rightarrow> trip list \<times> (('e, http_response) sdk_error + decrypt_output)) \<Rightarrow>
    'client client_handle \<Rightarrow> pydict \<Rightarrow> pydict option \<Rightarrow>
    (decrypt_output pyresult \<times> 'client client_handle \<times> pydict option) option" where
  "decrypt E P S bridge interrupted send c params observation =
     execute E bridge interrupted send no_details
       ''Decrypt'' (decrypt_params P S params) c observation"

definition decrypt_call :: "((string, pyval) fmap \<Rightarrow> (string \<times> pyval) list) \<Rightarrow> decrypt_input \<Rightarrow> pydict" where
  "decrypt_call order i = py_params
     []
     [(''ciphertext_blob'', opt_to_py PyBytes (mdi_ciphertext_blob i)),
      (''encryption_context'', opt_to_py (mapping_to_py order PyStr) (mdi_encryption_context i)),
      (''grant_tokens'', opt_to_py (seq_to_py PyStr) (mdi_grant_tokens i)),
      (''key_id'', opt_to_py PyStr (mdi_key_id i)),
      (''encryption_algorithm'', opt_to_py PyStr (mdi_encryption_algorithm i)),
      (''recipient'', opt_to_py recipient_info_to_py (mdi_recipient i)),
      (''dry_run'', opt_to_py PyBool (mdi_dry_run i)),
      (''dry_run_modifiers'', opt_to_py (seq_to_py PyStr) (mdi_dry_run_modifiers i))]"

subsection \<open>\<open>DeleteAlias\<close>\<close>

record delete_alias_input =
  mdai_alias_name :: "string option"

definition delete_alias_params :: "pyo3 \<Rightarrow> kms_types \<Rightarrow> pydict \<Rightarrow>
    delete_alias_input pyresult" where
  "delete_alias_params P S params =
     and_then (op_param P ''kms'' ''DeleteAlias'' params ''alias_name'' ''str'' (string_from_py P)) (\<lambda>alias_name.
     Inr \<lparr>mdai_alias_name = alias_name\<rparr>)"

definition delete_alias :: "('cfg, 'client) service_env \<Rightarrow> pyo3 \<Rightarrow> kms_types \<Rightarrow> unit pyresult \<Rightarrow> bool \<Rightarrow>
    ('client \<Rightarrow> delete_alias_input \<Rightarrow> trip list \<times> (('e, http_response) sdk_error + unit)) \<Rightarrow>
    'client client_handle \<Rightarrow> pydict \<Rightarrow> pydict option \<Rightarrow>
    (unit pyresult \<times> 'client client_handle \<times> pydict option) option" where
  "delete_alias E P S bridge interrupted send c params observation =
     execute E bridge interrupted send no_details
       ''DeleteAlias'' (delete_alias_params P S params) c observation"

definition delete_alias_call :: "delete_alias_input \<Rightarrow> pydict" where
  "delete_alias_call i = py_params
     [(''alias_name'', opt_to_py PyStr (mdai_alias_name i))]
     []"

subsection \<open>\<open>DeleteCustomKeyStore\<close>\<close>

record delete_custom_key_store_input =
  mdcksi_custom_key_store_id :: "string option"

definition delete_custom_key_store_params :: "pyo3 \<Rightarrow> kms_types \<Rightarrow> pydict \<Rightarrow>
    delete_custom_key_store_input pyresult" where
  "delete_custom_key_store_params P S params =
     and_then (op_param P ''kms'' ''DeleteCustomKeyStore'' params ''custom_key_store_id'' ''str'' (string_from_py P)) (\<lambda>custom_key_store_id.
     Inr \<lparr>mdcksi_custom_key_store_id = custom_key_store_id\<rparr>)"

definition delete_custom_key_store :: "('cfg, 'client) service_env \<Rightarrow> pyo3 \<Rightarrow> kms_types \<Rightarrow> unit pyresult \<Rightarrow> bool \<Rightarrow>
    ('client \<Rightarrow> delete_custom_key_store_input \<Rightarrow> trip list \<times> (('e, http_response) sdk_error + delete_custom_key_store_output)) \<Rightarrow>
    'client client_handle \<Rightarrow> pydict \<Rightarrow> pydict option \<Rightarrow>
    (delete_custom_key_store_output pyresult \<times> 'client client_handle \<times> pydict option) option" where
  "delete_custom_key_store E P S bridge interrupted send c params observation =
     execute E bridge interrupted send no_details
       ''DeleteCustomKeyStore'' (delete_custom_key_store_params P S params) c observation"

definition delete_custom_key_store_call :: "delete_custom_key_store_input \<Rightarrow> pydict" where
  "delete_custom_key_store_call i = py_params
     [(''custom_key_store_id'', opt_to_py PyStr (mdcksi_custom_key_store_id i))]
     []"

subsection \<open>\<open>DeleteImportedKeyMaterial\<close>\<close>

record delete_imported_key_material_input =
  mdikmi_key_id :: "string option"
  mdikmi_key_material_id :: "string option"

definition delete_imported_key_material_params :: "pyo3 \<Rightarrow> kms_types \<Rightarrow> pydict \<Rightarrow>
    delete_imported_key_material_input pyresult" where
  "delete_imported_key_material_params P S params =
     and_then (op_param P ''kms'' ''DeleteImportedKeyMaterial'' params ''key_id'' ''str'' (string_from_py P)) (\<lambda>key_id.
     and_then (op_param P ''kms'' ''DeleteImportedKeyMaterial'' params ''key_material_id'' ''str'' (string_from_py P)) (\<lambda>key_material_id.
     Inr \<lparr>mdikmi_key_id = key_id,
       mdikmi_key_material_id = key_material_id\<rparr>))"

definition delete_imported_key_material :: "('cfg, 'client) service_env \<Rightarrow> pyo3 \<Rightarrow> kms_types \<Rightarrow> unit pyresult \<Rightarrow> bool \<Rightarrow>
    ('client \<Rightarrow> delete_imported_key_material_input \<Rightarrow> trip list \<times> (('e, http_response) sdk_error + delete_imported_key_material_output)) \<Rightarrow>
    'client client_handle \<Rightarrow> pydict \<Rightarrow> pydict option \<Rightarrow>
    (delete_imported_key_material_output pyresult \<times> 'client client_handle \<times> pydict option) option" where
  "delete_imported_key_material E P S bridge interrupted send c params observation =
     execute E bridge interrupted send no_details
       ''DeleteImportedKeyMaterial'' (delete_imported_key_material_params P S params) c observation"

definition delete_imported_key_material_call :: "delete_imported_key_material_input \<Rightarrow> pydict" where
  "delete_imported_key_material_call i = py_params
     [(''key_id'', opt_to_py PyStr (mdikmi_key_id i))]
     [(''key_material_id'', opt_to_py PyStr (mdikmi_key_material_id i))]"

subsection \<open>\<open>DeriveSharedSecret\<close>\<close>

record derive_shared_secret_input =
  mdssi_key_id :: "string option"
  mdssi_key_agreement_algorithm :: "string option"
  mdssi_public_key :: "byte list option"
  mdssi_grant_tokens :: "string list option"
  mdssi_dry_run :: "bool option"
  mdssi_recipient :: "recipient_info option"

definition derive_shared_secret_params :: "pyo3 \<Rightarrow> kms_types \<Rightarrow> pydict \<Rightarrow>
    derive_shared_secret_input pyresult" where
  "derive_shared_secret_params P S params =
     and_then (op_param P ''kms'' ''DeriveSharedSecret'' params ''key_id'' ''str'' (string_from_py P)) (\<lambda>key_id.
     and_then (op_param P ''kms'' ''DeriveSharedSecret'' params ''key_agreement_algorithm'' ''str (KeyAgreementAlgorithmSpec)'' (enum_from_py P)) (\<lambda>key_agreement_algorithm.
     and_then (op_param P ''kms'' ''DeriveSharedSecret'' params ''public_key'' ''bytes'' (blob_from_py P)) (\<lambda>public_key.
     and_then (op_param P ''kms'' ''DeriveSharedSecret'' params ''grant_tokens'' ''sequence'' (seq_from_py P ''str'' (string_from_py P))) (\<lambda>grant_tokens.
     and_then (op_param P ''kms'' ''DeriveSharedSecret'' params ''dry_run'' ''bool'' (bool_from_py P)) (\<lambda>dry_run.
     and_then (op_param P ''kms'' ''DeriveSharedSecret'' params ''recipient'' ''dict (RecipientInfo)'' (recipient_info_from_py P S)) (\<lambda>recipient.
     Inr \<lparr>mdssi_key_id = key_id,
       mdssi_key_agreement_algorithm = key_agreement_algorithm,
       mdssi_public_key = public_key,
       mdssi_grant_tokens = grant_tokens,
       mdssi_dry_run = dry_run,
       mdssi_recipient = recipient\<rparr>))))))"

definition derive_shared_secret :: "('cfg, 'client) service_env \<Rightarrow> pyo3 \<Rightarrow> kms_types \<Rightarrow> unit pyresult \<Rightarrow> bool \<Rightarrow>
    ('client \<Rightarrow> derive_shared_secret_input \<Rightarrow> trip list \<times> (('e, http_response) sdk_error + derive_shared_secret_output)) \<Rightarrow>
    'client client_handle \<Rightarrow> pydict \<Rightarrow> pydict option \<Rightarrow>
    (derive_shared_secret_output pyresult \<times> 'client client_handle \<times> pydict option) option" where
  "derive_shared_secret E P S bridge interrupted send c params observation =
     execute E bridge interrupted send no_details
       ''DeriveSharedSecret'' (derive_shared_secret_params P S params) c observation"

definition derive_shared_secret_call :: "derive_shared_secret_input \<Rightarrow> pydict" where
  "derive_shared_secret_call i = py_params
     [(''key_id'', opt_to_py PyStr (mdssi_key_id i)),
      (''key_agreement_algorithm'', opt_to_py PyStr (mdssi_key_agreement_algorithm i)),
      (''public_key'', opt_to_py PyBytes (mdssi_public_key i))]
     [(''grant_tokens'', opt_to_py (seq_to_py PyStr) (mdssi_grant_tokens i)),
      (''dry_run'', opt_to_py PyBool (mdssi_dry_run i)),
      (''recipient'', opt_to_py recipient_info_to_py (mdssi_recipient i))]"

subsection \<open>\<open>DescribeCustomKeyStores\<close>\<close>

record describe_custom_key_stores_input =
  mdcksi2_custom_key_store_id :: "string option"
  mdcksi2_custom_key_store_name :: "string option"
  mdcksi2_limit :: "32 word option"
  mdcksi2_marker :: "string option"

definition describe_custom_key_stores_params :: "pyo3 \<Rightarrow> kms_types \<Rightarrow> pydict \<Rightarrow>
    describe_custom_key_stores_input pyresult" where
  "describe_custom_key_stores_params P S params =
     and_then (op_param P ''kms'' ''DescribeCustomKeyStores'' params ''custom_key_store_id'' ''str'' (string_from_py P)) (\<lambda>custom_key_store_id.
     and_then (op_param P ''kms'' ''DescribeCustomKeyStores'' params ''custom_key_store_name'' ''str'' (string_from_py P)) (\<lambda>custom_key_store_name.
     and_then (op_param P ''kms'' ''DescribeCustomKeyStores'' params ''limit'' ''int'' (i32_from_py P)) (\<lambda>limit.
     and_then (op_param P ''kms'' ''DescribeCustomKeyStores'' params ''marker'' ''str'' (string_from_py P)) (\<lambda>marker.
     Inr \<lparr>mdcksi2_custom_key_store_id = custom_key_store_id,
       mdcksi2_custom_key_store_name = custom_key_store_name,
       mdcksi2_limit = limit,
       mdcksi2_marker = marker\<rparr>))))"

definition describe_custom_key_stores :: "('cfg, 'client) service_env \<Rightarrow> pyo3 \<Rightarrow> kms_types \<Rightarrow> unit pyresult \<Rightarrow> bool \<Rightarrow>
    ('client \<Rightarrow> describe_custom_key_stores_input \<Rightarrow> trip list \<times> (('e, http_response) sdk_error + describe_custom_key_stores_output)) \<Rightarrow>
    'client client_handle \<Rightarrow> pydict \<Rightarrow> pydict option \<Rightarrow>
    (describe_custom_key_stores_output pyresult \<times> 'client client_handle \<times> pydict option) option" where
  "describe_custom_key_stores E P S bridge interrupted send c params observation =
     execute E bridge interrupted send no_details
       ''DescribeCustomKeyStores'' (describe_custom_key_stores_params P S params) c observation"

definition describe_custom_key_stores_call :: "describe_custom_key_stores_input \<Rightarrow> pydict" where
  "describe_custom_key_stores_call i = py_params
     []
     [(''custom_key_store_id'', opt_to_py PyStr (mdcksi2_custom_key_store_id i)),
      (''custom_key_store_name'', opt_to_py PyStr (mdcksi2_custom_key_store_name i)),
      (''limit'', opt_to_py i32_to_py (mdcksi2_limit i)),
      (''marker'', opt_to_py PyStr (mdcksi2_marker i))]"

subsection \<open>\<open>DescribeKey\<close>\<close>

record describe_key_input =
  mdki_key_id :: "string option"
  mdki_grant_tokens :: "string list option"

definition describe_key_params :: "pyo3 \<Rightarrow> kms_types \<Rightarrow> pydict \<Rightarrow>
    describe_key_input pyresult" where
  "describe_key_params P S params =
     and_then (op_param P ''kms'' ''DescribeKey'' params ''key_id'' ''str'' (string_from_py P)) (\<lambda>key_id.
     and_then (op_param P ''kms'' ''DescribeKey'' params ''grant_tokens'' ''sequence'' (seq_from_py P ''str'' (string_from_py P))) (\<lambda>grant_tokens.
     Inr \<lparr>mdki_key_id = key_id,
       mdki_grant_tokens = grant_tokens\<rparr>))"

definition describe_key :: "('cfg, 'client) service_env \<Rightarrow> pyo3 \<Rightarrow> kms_types \<Rightarrow> unit pyresult \<Rightarrow> bool \<Rightarrow>
    ('client \<Rightarrow> describe_key_input \<Rightarrow> trip list \<times> (('e, http_response) sdk_error + describe_key_output)) \<Rightarrow>
    'client client_handle \<Rightarrow> pydict \<Rightarrow> pydict option \<Rightarrow>
    (describe_key_output pyresult \<times> 'client client_handle \<times> pydict option) option" where
  "describe_key E P S bridge interrupted send c params observation =
     execute E bridge interrupted send no_details
       ''DescribeKey'' (describe_key_params P S params) c observation"

definition describe_key_call :: "describe_key_input \<Rightarrow> pydict" where
  "describe_key_call i = py_params
     [(''key_id'', opt_to_py PyStr (mdki_key_id i))]
     [(''grant_tokens'', opt_to_py (seq_to_py PyStr) (mdki_grant_tokens i))]"

subsection \<open>\<open>DisableKey\<close>\<close>

record disable_key_input =
  mdki2_key_id :: "string option"

definition disable_key_params :: "pyo3 \<Rightarrow> kms_types \<Rightarrow> pydict \<Rightarrow>
    disable_key_input pyresult" where
  "disable_key_params P S params =
     and_then (op_param P ''kms'' ''DisableKey'' params ''key_id'' ''str'' (string_from_py P)) (\<lambda>key_id.
     Inr \<lparr>mdki2_key_id = key_id\<rparr>)"

definition disable_key :: "('cfg, 'client) service_env \<Rightarrow> pyo3 \<Rightarrow> kms_types \<Rightarrow> unit pyresult \<Rightarrow> bool \<Rightarrow>
    ('client \<Rightarrow> disable_key_input \<Rightarrow> trip list \<times> (('e, http_response) sdk_error + unit)) \<Rightarrow>
    'client client_handle \<Rightarrow> pydict \<Rightarrow> pydict option \<Rightarrow>
    (unit pyresult \<times> 'client client_handle \<times> pydict option) option" where
  "disable_key E P S bridge interrupted send c params observation =
     execute E bridge interrupted send no_details
       ''DisableKey'' (disable_key_params P S params) c observation"

definition disable_key_call :: "disable_key_input \<Rightarrow> pydict" where
  "disable_key_call i = py_params
     [(''key_id'', opt_to_py PyStr (mdki2_key_id i))]
     []"

subsection \<open>\<open>DisableKeyRotation\<close>\<close>

record disable_key_rotation_input =
  mdkri_key_id :: "string option"

definition disable_key_rotation_params :: "pyo3 \<Rightarrow> kms_types \<Rightarrow> pydict \<Rightarrow>
    disable_key_rotation_input pyresult" where
  "disable_key_rotation_params P S params =
     and_then (op_param P ''kms'' ''DisableKeyRotation'' params ''key_id'' ''str'' (string_from_py P)) (\<lambda>key_id.
     Inr \<lparr>mdkri_key_id = key_id\<rparr>)"

definition disable_key_rotation :: "('cfg, 'client) service_env \<Rightarrow> pyo3 \<Rightarrow> kms_types \<Rightarrow> unit pyresult \<Rightarrow> bool \<Rightarrow>
    ('client \<Rightarrow> disable_key_rotation_input \<Rightarrow> trip list \<times> (('e, http_response) sdk_error + unit)) \<Rightarrow>
    'client client_handle \<Rightarrow> pydict \<Rightarrow> pydict option \<Rightarrow>
    (unit pyresult \<times> 'client client_handle \<times> pydict option) option" where
  "disable_key_rotation E P S bridge interrupted send c params observation =
     execute E bridge interrupted send no_details
       ''DisableKeyRotation'' (disable_key_rotation_params P S params) c observation"

definition disable_key_rotation_call :: "disable_key_rotation_input \<Rightarrow> pydict" where
  "disable_key_rotation_call i = py_params
     [(''key_id'', opt_to_py PyStr (mdkri_key_id i))]
     []"

subsection \<open>\<open>DisconnectCustomKeyStore\<close>\<close>

record disconnect_custom_key_store_input =
  mdcksi3_custom_key_store_id :: "string option"

definition disconnect_custom_key_store_params :: "pyo3 \<Rightarrow> kms_types \<Rightarrow> pydict \<Rightarrow>
    disconnect_custom_key_store_input pyresult" where
  "disconnect_custom_key_store_params P S params =
     and_then (op_param P ''kms'' ''DisconnectCustomKeyStore'' params ''custom_key_store_id'' ''str'' (string_from_py P)) (\<lambda>custom_key_store_id.
     Inr \<lparr>mdcksi3_custom_key_store_id = custom_key_store_id\<rparr>)"

definition disconnect_custom_key_store :: "('cfg, 'client) service_env \<Rightarrow> pyo3 \<Rightarrow> kms_types \<Rightarrow> unit pyresult \<Rightarrow> bool \<Rightarrow>
    ('client \<Rightarrow> disconnect_custom_key_store_input \<Rightarrow> trip list \<times> (('e, http_response) sdk_error + disconnect_custom_key_store_output)) \<Rightarrow>
    'client client_handle \<Rightarrow> pydict \<Rightarrow> pydict option \<Rightarrow>
    (disconnect_custom_key_store_output pyresult \<times> 'client client_handle \<times> pydict option) option" where
  "disconnect_custom_key_store E P S bridge interrupted send c params observation =
     execute E bridge interrupted send no_details
       ''DisconnectCustomKeyStore'' (disconnect_custom_key_store_params P S params) c observation"

definition disconnect_custom_key_store_call :: "disconnect_custom_key_store_input \<Rightarrow> pydict" where
  "disconnect_custom_key_store_call i = py_params
     [(''custom_key_store_id'', opt_to_py PyStr (mdcksi3_custom_key_store_id i))]
     []"

subsection \<open>\<open>EnableKey\<close>\<close>

record enable_key_input =
  meki_key_id :: "string option"

definition enable_key_params :: "pyo3 \<Rightarrow> kms_types \<Rightarrow> pydict \<Rightarrow>
    enable_key_input pyresult" where
  "enable_key_params P S params =
     and_then (op_param P ''kms'' ''EnableKey'' params ''key_id'' ''str'' (string_from_py P)) (\<lambda>key_id.
     Inr \<lparr>meki_key_id = key_id\<rparr>)"

definition enable_key :: "('cfg, 'client) service_env \<Rightarrow> pyo3 \<Rightarrow> kms_types \<Rightarrow> unit pyresult \<Rightarrow> bool \<Rightarrow>
    ('client \<Rightarrow> enable_key_input \<Rightarrow> trip list \<times> (('e, http_response) sdk_error + unit)) \<Rightarrow>
    'client client_handle \<Rightarrow> pydict \<Rightarrow> pydict option \<Rightarrow>
    (unit pyresult \<times> 'client client_handle \<times> pydict option) option" where
  "enable_key E P S bridge interrupted send c params observation =
     execute E bridge interrupted send no_details
       ''EnableKey'' (enable_key_params P S params) c observation"

definition enable_key_call :: "enable_key_input \<Rightarrow> pydict" where
  "enable_key_call i = py_params
     [(''key_id'', opt_to_py PyStr (meki_key_id i))]
     []"

subsection \<open>\<open>EnableKeyRotation\<close>\<close>

record enable_key_rotation_input =
  mekri_key_id :: "string option"
  mekri_rotation_period_in_days :: "32 word option"

definition enable_key_rotation_params :: "pyo3 \<Rightarrow> kms_types \<Rightarrow> pydict \<Rightarrow>
    enable_key_rotation_input pyresult" where
  "enable_key_rotation_params P S params =
     and_then (op_param P ''kms'' ''EnableKeyRotation'' params ''key_id'' ''str'' (string_from_py P)) (\<lambda>key_id.
     and_then (op_param P ''kms'' ''EnableKeyRotation'' params ''rotation_period_in_days'' ''int'' (i32_from_py P)) (\<lambda>rotation_period_in_days.
     Inr \<lparr>mekri_key_id = key_id,
       mekri_rotation_period_in_days = rotation_period_in_days\<rparr>))"

definition enable_key_rotation :: "('cfg, 'client) service_env \<Rightarrow> pyo3 \<Rightarrow> kms_types \<Rightarrow> unit pyresult \<Rightarrow> bool \<Rightarrow>
    ('client \<Rightarrow> enable_key_rotation_input \<Rightarrow> trip list \<times> (('e, http_response) sdk_error + unit)) \<Rightarrow>
    'client client_handle \<Rightarrow> pydict \<Rightarrow> pydict option \<Rightarrow>
    (unit pyresult \<times> 'client client_handle \<times> pydict option) option" where
  "enable_key_rotation E P S bridge interrupted send c params observation =
     execute E bridge interrupted send no_details
       ''EnableKeyRotation'' (enable_key_rotation_params P S params) c observation"

definition enable_key_rotation_call :: "enable_key_rotation_input \<Rightarrow> pydict" where
  "enable_key_rotation_call i = py_params
     [(''key_id'', opt_to_py PyStr (mekri_key_id i))]
     [(''rotation_period_in_days'', opt_to_py i32_to_py (mekri_rotation_period_in_days i))]"

subsection \<open>\<open>Encrypt\<close>\<close>

record encrypt_input =
  mei_key_id :: "string option"
  mei_plaintext :: "byte list option"
  mei_encryption_context :: "(string, string) fmap option"
  mei_grant_tokens :: "string list option"
  mei_encryption_algorithm :: "string option"
  mei_dry_run :: "bool option"

definition encrypt_params_1 :: "pyo3 \<Rightarrow> kms_types \<Rightarrow> pydict \<Rightarrow>
    (string option \<times> byte list option \<times> (string, string) fmap option) pyresult" where
  "encrypt_params_1 P S params =
     and_then (op_param P ''kms'' ''Encrypt'' params ''key_id'' ''str'' (string_from_py P)) (\<lambda>key_id.
     and_then (op_param P ''kms'' ''Encrypt'' params ''plaintext'' ''bytes'' (blob_from_py P)) (\<lambda>plaintext.
     and_then (op_param P ''kms'' ''Encrypt'' params ''encryption_context'' ''dict'' (map_from_py P ''str'' ''str'' (string_from_py P))) (\<lambda>encryption_context.
     Inr (key_id, plaintext, encryption_context))))"

definition encrypt_params_2 :: "pyo3 \<Rightarrow> kms_types \<Rightarrow> pydict \<Rightarrow>
    (string list option \<times> string option \<times> bool option) pyresult" where
  "encrypt_params_2 P S params =
     and_then (op_param P ''kms'' ''Encrypt'' params ''grant_tokens'' ''sequence'' (seq_from_py P ''str'' (string_from_py P))) (\<lambda>grant_tokens.
     and_then (op_param P ''kms'' ''Encrypt'' params ''encryption_algorithm'' ''str (EncryptionAlgorithmSpec)'' (enum_from_py P)) (\<lambda>encryption_algorithm.
     and_then (op_param P ''kms'' ''Encrypt'' params ''dry_run'' ''bool'' (bool_from_py P)) (\<lambda>dry_run.
     Inr (grant_tokens, encryption_algorithm, dry_run))))"

definition encrypt_params :: "pyo3 \<Rightarrow> kms_types \<Rightarrow> pydict \<Rightarrow>
    encrypt_input pyresult" where
  "encrypt_params P S params =
     and_then (encrypt_params_1 P S params) (\<lambda>(key_id, plaintext, encryption_context).
     and_then (encrypt_params_2 P S params) (\<lambda>(grant_tokens, encryption_algorithm, dry_run).
     Inr \<lparr>mei_key_id = key_id,
       mei_plaintext = plaintext,
       mei_encryption_context = encryption_context,
       mei_grant_tokens = grant_tokens,
       mei_encryption_algorithm = encryption_algorithm,
       mei_dry_run = dry_run\<rparr>))"

definition encrypt :: "('cfg, 'client) service_env \<Rightarrow> pyo3 \<Rightarrow> kms_types \<Rightarrow> unit pyresult \<Rightarrow> bool \<Rightarrow>
    ('client \<Rightarrow> encrypt_input \<Rightarrow> trip list \<times> (('e, http_response) sdk_error + encrypt_output)) \<Rightarrow>
    'client client_handle \<Rightarrow> pydict \<Rightarrow> pydict option \<Rightarrow>
    (encrypt_output pyresult \<times> 'client client_handle \<times> pydict option) option" where
  "encrypt E P S bridge interrupted send c params observation =
     execute E bridge interrupted send no_details
       ''Encrypt'' (encrypt_params P S params) c observation"

definition encrypt_call :: "((string, pyval) fmap \<Rightarrow> (string \<times> pyval) list) \<Rightarrow> encrypt_input \<Rightarrow> pydict" where
  "encrypt_call order i = py_params
     [(''key_id'', opt_to_py PyStr (mei_key_id i)),
      (''plaintext'', opt_to_py PyBytes (mei_plaintext i))]
     [(''encryption_context'', opt_to_py (mapping_to_py order PyStr) (mei_encryption_context i)),
      (''grant_tokens'', opt_to_py (seq_to_py PyStr) (mei_grant_tokens i)),
      (''encryption_algorithm'', opt_to_py PyStr (mei_encryption_algorithm i)),
      (''dry_run'', opt_to_py PyBool (mei_dry_run i))]"

subsection \<open>\<open>GenerateDataKey\<close>\<close>

record generate_data_key_input =
  mgdki_key_id :: "string option"
  mgdki_encryption_context :: "(string, string) fmap option"
  mgdki_number_of_bytes :: "32 word option"
  mgdki_key_spec :: "string option"
  mgdki_grant_tokens :: "string list option"
  mgdki_recipient :: "recipient_info option"
  mgdki_dry_run :: "bool option"

definition generate_data_key_params_1 :: "pyo3 \<Rightarrow> kms_types \<Rightarrow> pydict \<Rightarrow>
    (string option \<times> (string, string) fmap option \<times> 32 word option \<times> string option) pyresult" where
  "generate_data_key_params_1 P S params =
     and_then (op_param P ''kms'' ''GenerateDataKey'' params ''key_id'' ''str'' (string_from_py P)) (\<lambda>key_id.
     and_then (op_param P ''kms'' ''GenerateDataKey'' params ''encryption_context'' ''dict'' (map_from_py P ''str'' ''str'' (string_from_py P))) (\<lambda>encryption_context.
     and_then (op_param P ''kms'' ''GenerateDataKey'' params ''number_of_bytes'' ''int'' (i32_from_py P)) (\<lambda>number_of_bytes.
     and_then (op_param P ''kms'' ''GenerateDataKey'' params ''key_spec'' ''str (DataKeySpec)'' (enum_from_py P)) (\<lambda>key_spec.
     Inr (key_id, encryption_context, number_of_bytes, key_spec)))))"

definition generate_data_key_params_2 :: "pyo3 \<Rightarrow> kms_types \<Rightarrow> pydict \<Rightarrow>
    (string list option \<times> recipient_info option \<times> bool option) pyresult" where
  "generate_data_key_params_2 P S params =
     and_then (op_param P ''kms'' ''GenerateDataKey'' params ''grant_tokens'' ''sequence'' (seq_from_py P ''str'' (string_from_py P))) (\<lambda>grant_tokens.
     and_then (op_param P ''kms'' ''GenerateDataKey'' params ''recipient'' ''dict (RecipientInfo)'' (recipient_info_from_py P S)) (\<lambda>recipient.
     and_then (op_param P ''kms'' ''GenerateDataKey'' params ''dry_run'' ''bool'' (bool_from_py P)) (\<lambda>dry_run.
     Inr (grant_tokens, recipient, dry_run))))"

definition generate_data_key_params :: "pyo3 \<Rightarrow> kms_types \<Rightarrow> pydict \<Rightarrow>
    generate_data_key_input pyresult" where
  "generate_data_key_params P S params =
     and_then (generate_data_key_params_1 P S params) (\<lambda>(key_id, encryption_context, number_of_bytes, key_spec).
     and_then (generate_data_key_params_2 P S params) (\<lambda>(grant_tokens, recipient, dry_run).
     Inr \<lparr>mgdki_key_id = key_id,
       mgdki_encryption_context = encryption_context,
       mgdki_number_of_bytes = number_of_bytes,
       mgdki_key_spec = key_spec,
       mgdki_grant_tokens = grant_tokens,
       mgdki_recipient = recipient,
       mgdki_dry_run = dry_run\<rparr>))"

definition generate_data_key :: "('cfg, 'client) service_env \<Rightarrow> pyo3 \<Rightarrow> kms_types \<Rightarrow> unit pyresult \<Rightarrow> bool \<Rightarrow>
    ('client \<Rightarrow> generate_data_key_input \<Rightarrow> trip list \<times> (('e, http_response) sdk_error + generate_data_key_output)) \<Rightarrow>
    'client client_handle \<Rightarrow> pydict \<Rightarrow> pydict option \<Rightarrow>
    (generate_data_key_output pyresult \<times> 'client client_handle \<times> pydict option) option" where
  "generate_data_key E P S bridge interrupted send c params observation =
     execute E bridge interrupted send no_details
       ''GenerateDataKey'' (generate_data_key_params P S params) c observation"

definition generate_data_key_call :: "((string, pyval) fmap \<Rightarrow> (string \<times> pyval) list) \<Rightarrow> generate_data_key_input \<Rightarrow> pydict" where
  "generate_data_key_call order i = py_params
     [(''key_id'', opt_to_py PyStr (mgdki_key_id i))]
     [(''encryption_context'', opt_to_py (mapping_to_py order PyStr) (mgdki_encryption_context i)),
      (''number_of_bytes'', opt_to_py i32_to_py (mgdki_number_of_bytes i)),
      (''key_spec'', opt_to_py PyStr (mgdki_key_spec i)),
      (''grant_tokens'', opt_to_py (seq_to_py PyStr) (mgdki_grant_tokens i)),
      (''recipient'', opt_to_py recipient_info_to_py (mgdki_recipient i)),
      (''dry_run'', opt_to_py PyBool (mgdki_dry_run i))]"

subsection \<open>\<open>GenerateDataKeyPair\<close>\<close>

record generate_data_key_pair_input =
  mgdkpi_encryption_context :: "(string, string) fmap option"
  mgdkpi_key_id :: "string option"
  mgdkpi_key_pair_spec :: "string option"
  mgdkpi_grant_tokens :: "string list option"
  mgdkpi_recipient :: "recipient_info option"
  mgdkpi_dry_run :: "bool option"

definition generate_data_key_pair_params_1 :: "pyo3 \<Rightarrow> kms_types \<Rightarrow> pydict \<Rightarrow>
    ((string, string) fmap option \<times> string option \<times> string option) pyresult" where
  "generate_data_key_pair_params_1 P S params =
     and_then (op_param P ''kms'' ''GenerateDataKeyPair'' params ''encryption_context'' ''dict'' (map_from_py P ''str'' ''str'' (string_from_py P))) (\<lambda>encryption_context.
     and_then (op_param P ''kms'' ''GenerateDataKeyPair'' params ''key_id'' ''str'' (string_from_py P)) (\<lambda>key_id.
     and_then (op_param P ''kms'' ''GenerateDataKeyPair'' params ''key_pair_spec'' ''str (DataKeyPairSpec)'' (enum_from_py P)) (\<lambda>key_pair_spec.
     Inr (encryption_context, key_id, key_pair_spec))))"

definition generate_data_key_pair_params_2 :: "pyo3 \<Rightarrow> kms_types \<Rightarrow> pydict \<Rightarrow>
    (string list option \<times> recipient_info option \<times> bool option) pyresult" where
  "generate_data_key_pair_params_2 P S params =
     and_then (op_param P ''kms'' ''GenerateDataKeyPair'' params ''grant_tokens'' ''sequence'' (seq_from_py P ''str'' (string_from_py P))) (\<lambda>grant_tokens.
     and_then (op_param P ''kms'' ''GenerateDataKeyPair'' params ''recipient'' ''dict (RecipientInfo)'' (recipient_info_from_py P S)) (\<lambda>recipient.
     and_then (op_param P ''kms'' ''GenerateDataKeyPair'' params ''dry_run'' ''bool'' (bool_from_py P)) (\<lambda>dry_run.
     Inr (grant_tokens, recipient, dry_run))))"

definition generate_data_key_pair_params :: "pyo3 \<Rightarrow> kms_types \<Rightarrow> pydict \<Rightarrow>
    generate_data_key_pair_input pyresult" where
  "generate_data_key_pair_params P S params =
     and_then (generate_data_key_pair_params_1 P S params) (\<lambda>(encryption_context, key_id, key_pair_spec).
     and_then (generate_data_key_pair_params_2 P S params) (\<lambda>(grant_tokens, recipient, dry_run).
     Inr \<lparr>mgdkpi_encryption_context = encryption_context,
       mgdkpi_key_id = key_id,
       mgdkpi_key_pair_spec = key_pair_spec,
       mgdkpi_grant_tokens = grant_tokens,
       mgdkpi_recipient = recipient,
       mgdkpi_dry_run = dry_run\<rparr>))"

definition generate_data_key_pair :: "('cfg, 'client) service_env \<Rightarrow> pyo3 \<Rightarrow> kms_types \<Rightarrow> unit pyresult \<Rightarrow> bool \<Rightarrow>
    ('client \<Rightarrow> generate_data_key_pair_input \<Rightarrow> trip list \<times> (('e, http_response) sdk_error + generate_data_key_pair_output)) \<Rightarrow>
    'client client_handle \<Rightarrow> pydict \<Rightarrow> pydict option \<Rightarrow>
    (generate_data_key_pair_output pyresult \<times> 'client client_handle \<times> pydict option) option" where
  "generate_data_key_pair E P S bridge interrupted send c params observation =
     execute E bridge interrupted send no_details
       ''GenerateDataKeyPair'' (generate_data_key_pair_params P S params) c observation"

definition generate_data_key_pair_call :: "((string, pyval) fmap \<Rightarrow> (string \<times> pyval) list) \<Rightarrow> generate_data_key_pair_input \<Rightarrow> pydict" where
  "generate_data_key_pair_call order i = py_params
     [(''key_id'', opt_to_py PyStr (mgdkpi_key_id i)),
      (''key_pair_spec'', opt_to_py PyStr (mgdkpi_key_pair_spec i))]
     [(''encryption_context'', opt_to_py (mapping_to_py order PyStr) (mgdkpi_encryption_context i)),
      (''grant_tokens'', opt_to_py (seq_to_py PyStr) (mgdkpi_grant_tokens i)),
      (''recipient'', opt_to_py recipient_info_to_py (mgdkpi_recipient i)),
      (''dry_run'', opt_to_py PyBool (mgdkpi_dry_run i))]"

subsection \<open>\<open>GenerateDataKeyPairWithoutPlaintext\<close>\<close>

record generate_data_key_pair_without_plaintext_input =
  mgdkpwpi_encryption_context :: "(string, string) fmap option"
  mgdkpwpi_key_id :: "string option"
  mgdkpwpi_key_pair_spec :: "string option"
  mgdkpwpi_grant_tokens :: "string list option"
  mgdkpwpi_dry_run :: "bool option"

definition generate_data_key_pair_without_plaintext_params :: "pyo3 \<Rightarrow> kms_types \<Rightarrow> pydict \<Rightarrow>
    generate_data_key_pair_without_plaintext_input pyresult" where
  "generate_data_key_pair_without_plaintext_params P S params =
     and_then (op_param P ''kms'' ''GenerateDataKeyPairWithoutPlaintext'' params ''encryption_context'' ''dict'' (map_from_py P ''str'' ''str'' (string_from_py P))) (\<lambda>encryption_context.
     and_then (op_param P ''kms'' ''GenerateDataKeyPairWithoutPlaintext'' params ''key_id'' ''str'' (string_from_py P)) (\<lambda>key_id.
     and_then (op_param P ''kms'' ''GenerateDataKeyPairWithoutPlaintext'' params ''key_pair_spec'' ''str (DataKeyPairSpec)'' (enum_from_py P)) (\<lambda>key_pair_spec.
     and_then (op_param P ''kms'' ''GenerateDataKeyPairWithoutPlaintext'' params ''grant_tokens'' ''sequence'' (seq_from_py P ''str'' (string_from_py P))) (\<lambda>grant_tokens.
     and_then (op_param P ''kms'' ''GenerateDataKeyPairWithoutPlaintext'' params ''dry_run'' ''bool'' (bool_from_py P)) (\<lambda>dry_run.
     Inr \<lparr>mgdkpwpi_encryption_context = encryption_context,
       mgdkpwpi_key_id = key_id,
       mgdkpwpi_key_pair_spec = key_pair_spec,
       mgdkpwpi_grant_tokens = grant_tokens,
       mgdkpwpi_dry_run = dry_run\<rparr>)))))"

definition generate_data_key_pair_without_plaintext :: "('cfg, 'client) service_env \<Rightarrow> pyo3 \<Rightarrow> kms_types \<Rightarrow> unit pyresult \<Rightarrow> bool \<Rightarrow>
    ('client \<Rightarrow> generate_data_key_pair_without_plaintext_input \<Rightarrow> trip list \<times> (('e, http_response) sdk_error + generate_data_key_pair_without_plaintext_output)) \<Rightarrow>
    'client client_handle \<Rightarrow> pydict \<Rightarrow> pydict option \<Rightarrow>
    (generate_data_key_pair_without_plaintext_output pyresult \<times> 'client client_handle \<times> pydict option) option" where
  "generate_data_key_pair_without_plaintext E P S bridge interrupted send c params observation =
     execute E bridge interrupted send no_details
       ''GenerateDataKeyPairWithoutPlaintext'' (generate_data_key_pair_without_plaintext_params P S params) c observation"

definition generate_data_key_pair_without_plaintext_call :: "((string, pyval) fmap \<Rightarrow> (string \<times> pyval) list) \<Rightarrow> generate_data_key_pair_without_plaintext_input \<Rightarrow> pydict" where
  "generate_data_key_pair_without_plaintext_call order i = py_params
     [(''key_id'', opt_to_py PyStr (mgdkpwpi_key_id i)),
      (''key_pair_spec'', opt_to_py PyStr (mgdkpwpi_key_pair_spec i))]
     [(''encryption_context'', opt_to_py (mapping_to_py order PyStr) (mgdkpwpi_encryption_context i)),
      (''grant_tokens'', opt_to_py (seq_to_py PyStr) (mgdkpwpi_grant_tokens i)),
      (''dry_run'', opt_to_py PyBool (mgdkpwpi_dry_run i))]"

subsection \<open>\<open>GenerateDataKeyWithoutPlaintext\<close>\<close>

record generate_data_key_without_plaintext_input =
  mgdkwpi_key_id :: "string option"
  mgdkwpi_encryption_context :: "(string, string) fmap option"
  mgdkwpi_key_spec :: "string option"
  mgdkwpi_number_of_bytes :: "32 word option"
  mgdkwpi_grant_tokens :: "string list option"
  mgdkwpi_dry_run :: "bool option"

definition generate_data_key_without_plaintext_params_1 :: "pyo3 \<Rightarrow> kms_types \<Rightarrow> pydict \<Rightarrow>
    (string option \<times> (string, string) fmap option \<times> string option) pyresult" where
  "generate_data_key_without_plaintext_params_1 P S params =
     and_then (op_param P ''kms'' ''GenerateDataKeyWithoutPlaintext'' params ''key_id'' ''str'' (string_from_py P)) (\<lambda>key_id.
     and_then (op_param P ''kms'' ''GenerateDataKeyWithoutPlaintext'' params ''encryption_context'' ''dict'' (map_from_py P ''str'' ''str'' (string_from_py P))) (\<lambda>encryption_context.
     and_then (op_param P ''kms'' ''GenerateDataKeyWithoutPlaintext'' params ''key_spec'' ''str (DataKeySpec)'' (enum_from_py P)) (\<lambda>key_spec.
     Inr (key_id, encryption_context, key_spec))))"

definition generate_data_key_without_plaintext_params_2 :: "pyo3 \<Rightarrow> kms_types \<Rightarrow> pydict \<Rightarrow>
    (32 word option \<times> string list option \<times> bool option) pyresult" where
  "generate_data_key_without_plaintext_params_2 P S params =
     and_then (op_param P ''kms'' ''GenerateDataKeyWithoutPlaintext'' params ''number_of_bytes'' ''int'' (i32_from_py P)) (\<lambda>number_of_bytes.
     and_then (op_param P ''kms'' ''GenerateDataKeyWithoutPlaintext'' params ''grant_tokens'' ''sequence'' (seq_from_py P ''str'' (string_from_py P))) (\<lambda>grant_tokens.
     and_then (op_param P ''kms'' ''GenerateDataKeyWithoutPlaintext'' params ''dry_run'' ''bool'' (bool_from_py P)) (\<lambda>dry_run.
     Inr (number_of_bytes, grant_tokens, dry_run))))"

definition generate_data_key_without_plaintext_params :: "pyo3 \<Rightarrow> kms_types \<Rightarrow> pydict \<Rightarrow>
    generate_data_key_without_plaintext_input pyresult" where
  "generate_data_key_without_plaintext_params P S params =
     and_then (generate_data_key_without_plaintext_params_1 P S params) (\<lambda>(key_id, encryption_context, key_spec).
     and_then (generate_data_key_without_plaintext_params_2 P S params) (\<lambda>(number_of_bytes, grant_tokens, dry_run).
     Inr \<lparr>mgdkwpi_key_id = key_id,
       mgdkwpi_encryption_context = encryption_context,
       mgdkwpi_key_spec = key_spec,
       mgdkwpi_number_of_bytes = number_of_bytes,
       mgdkwpi_grant_tokens = grant_tokens,
       mgdkwpi_dry_run = dry_run\<rparr>))"

definition generate_data_key_without_plaintext :: "('cfg, 'client) service_env \<Rightarrow> pyo3 \<Rightarrow> kms_types \<Rightarrow> unit pyresult \<Rightarrow> bool \<Rightarrow>
    ('client \<Rightarrow> generate_data_key_without_plaintext_input \<Rightarrow> trip list \<times> (('e, http_response) sdk_error + generate_data_key_without_plaintext_output)) \<Rightarrow>
    'client client_handle \<Rightarrow> pydict \<Rightarrow> pydict option \<Rightarrow>
    (generate_data_key_without_plaintext_output pyresult \<times> 'client client_handle \<times> pydict option) option" where
  "generate_data_key_without_plaintext E P S bridge interrupted send c params observation =
     execute E bridge interrupted send no_details
       ''GenerateDataKeyWithoutPlaintext'' (generate_data_key_without_plaintext_params P S params) c observation"

definition generate_data_key_without_plaintext_call :: "((string, pyval) fmap \<Rightarrow> (string \<times> pyval) list) \<Rightarrow> generate_data_key_without_plaintext_input \<Rightarrow> pydict" where
  "generate_data_key_without_plaintext_call order i = py_params
     [(''key_id'', opt_to_py PyStr (mgdkwpi_key_id i))]
     [(''encryption_context'', opt_to_py (mapping_to_py order PyStr) (mgdkwpi_encryption_context i)),
      (''key_spec'', opt_to_py PyStr (mgdkwpi_key_spec i)),
      (''number_of_bytes'', opt_to_py i32_to_py (mgdkwpi_number_of_bytes i)),
      (''grant_tokens'', opt_to_py (seq_to_py PyStr) (mgdkwpi_grant_tokens i)),
      (''dry_run'', opt_to_py PyBool (mgdkwpi_dry_run i))]"

subsection \<open>\<open>GenerateMac\<close>\<close>

record generate_mac_input =
  mgmi_message :: "byte list option"
  mgmi_key_id :: "string option"
  mgmi_mac_algorithm :: "string option"
  mgmi_grant_tokens :: "string list option"
  mgmi_dry_run :: "bool option"

definition generate_mac_params :: "pyo3 \<Rightarrow> kms_types \<Rightarrow> pydict \<Rightarrow>
    generate_mac_input pyresult" where
  "generate_mac_params P S params =
     and_then (op_param P ''kms'' ''GenerateMac'' params ''message'' ''bytes'' (blob_from_py P)) (\<lambda>message.
     and_then (op_param P ''kms'' ''GenerateMac'' params ''key_id'' ''str'' (string_from_py P)) (\<lambda>key_id.
     and_then (op_param P ''kms'' ''GenerateMac'' params ''mac_algorithm'' ''str (MacAlgorithmSpec)'' (enum_from_py P)) (\<lambda>mac_algorithm.
     and_then (op_param P ''kms'' ''GenerateMac'' params ''grant_tokens'' ''sequence'' (seq_from_py P ''str'' (string_from_py P))) (\<lambda>grant_tokens.
     and_then (op_param P ''kms'' ''GenerateMac'' params ''dry_run'' ''bool'' (bool_from_py P)) (\<lambda>dry_run.
     Inr \<lparr>mgmi_message = message,
       mgmi_key_id = key_id,
       mgmi_mac_algorithm = mac_algorithm,
       mgmi_grant_tokens = grant_tokens,
       mgmi_dry_run = dry_run\<rparr>)))))"

definition generate_mac :: "('cfg, 'client) service_env \<Rightarrow> pyo3 \<Rightarrow> kms_types \<Rightarrow> unit pyresult \<Rightarrow> bool \<Rightarrow>
    ('client \<Rightarrow> generate_mac_input \<Rightarrow> trip list \<times> (('e, http_response) sdk_error + generate_mac_output)) \<Rightarrow>
    'client client_handle \<Rightarrow> pydict \<Rightarrow> pydict option \<Rightarrow>
    (generate_mac_output pyresult \<times> 'client client_handle \<times> pydict option) option" where
  "generate_mac E P S bridge interrupted send c params observation =
     execute E bridge interrupted send no_details
       ''GenerateMac'' (generate_mac_params P S params) c observation"

definition generate_mac_call :: "generate_mac_input \<Rightarrow> pydict" where
  "generate_mac_call i = py_params
     [(''message'', opt_to_py PyBytes (mgmi_message i)),
      (''key_id'', opt_to_py PyStr (mgmi_key_id i)),
      (''mac_algorithm'', opt_to_py PyStr (mgmi_mac_algorithm i))]
     [(''grant_tokens'', opt_to_py (seq_to_py PyStr) (mgmi_grant_tokens i)),
      (''dry_run'', opt_to_py PyBool (mgmi_dry_run i))]"

subsection \<open>\<open>GenerateRandom\<close>\<close>

record generate_random_input =
  mgri_number_of_bytes :: "32 word option"
  mgri_custom_key_store_id :: "string option"
  mgri_recipient :: "recipient_info option"

definition generate_random_params :: "pyo3 \<Rightarrow> kms_types \<Rightarrow> pydict \<Rightarrow>
    generate_random_input pyresult" where
  "generate_random_params P S params =
     and_then (op_param P ''kms'' ''GenerateRandom'' params ''number_of_bytes'' ''int'' (i32_from_py P)) (\<lambda>number_of_bytes.
     and_then (op_param P ''kms'' ''GenerateRandom'' params ''custom_key_store_id'' ''str'' (string_from_py P)) (\<lambda>custom_key_store_id.
     and_then (op_param P ''kms'' ''GenerateRandom'' params ''recipient'' ''dict (RecipientInfo)'' (recipient_info_from_py P S)) (\<lambda>recipient.
     Inr \<lparr>mgri_number_of_bytes = number_of_bytes,
       mgri_custom_key_store_id = custom_key_store_id,
       mgri_recipient = recipient\<rparr>)))"

definition generate_random :: "('cfg, 'client) service_env \<Rightarrow> pyo3 \<Rightarrow> kms_types \<Rightarrow> unit pyresult \<Rightarrow> bool \<Rightarrow>
    ('client \<Rightarrow> generate_random_input \<Rightarrow> trip list \<times> (('e, http_response) sdk_error + generate_random_output)) \<Rightarrow>
    'client client_handle \<Rightarrow> pydict \<Rightarrow> pydict option \<Rightarrow>
    (generate_random_output pyresult \<times> 'client client_handle \<times> pydict option) option" where
  "generate_random E P S bridge interrupted send c params observation =
     execute E bridge interrupted send no_details
       ''GenerateRandom'' (generate_random_params P S params) c observation"

definition generate_random_call :: "generate_random_input \<Rightarrow> pydict" where
  "generate_random_call i = py_params
     []
     [(''number_of_bytes'', opt_to_py i32_to_py (mgri_number_of_bytes i)),
      (''custom_key_store_id'', opt_to_py PyStr (mgri_custom_key_store_id i)),
      (''recipient'', opt_to_py recipient_info_to_py (mgri_recipient i))]"

subsection \<open>\<open>GetKeyLastUsage\<close>\<close>

record get_key_last_usage_input =
  mgklui_key_id :: "string option"

definition get_key_last_usage_params :: "pyo3 \<Rightarrow> kms_types \<Rightarrow> pydict \<Rightarrow>
    get_key_last_usage_input pyresult" where
  "get_key_last_usage_params P S params =
     and_then (op_param P ''kms'' ''GetKeyLastUsage'' params ''key_id'' ''str'' (string_from_py P)) (\<lambda>key_id.
     Inr \<lparr>mgklui_key_id = key_id\<rparr>)"

definition get_key_last_usage :: "('cfg, 'client) service_env \<Rightarrow> pyo3 \<Rightarrow> kms_types \<Rightarrow> unit pyresult \<Rightarrow> bool \<Rightarrow>
    ('client \<Rightarrow> get_key_last_usage_input \<Rightarrow> trip list \<times> (('e, http_response) sdk_error + get_key_last_usage_output)) \<Rightarrow>
    'client client_handle \<Rightarrow> pydict \<Rightarrow> pydict option \<Rightarrow>
    (get_key_last_usage_output pyresult \<times> 'client client_handle \<times> pydict option) option" where
  "get_key_last_usage E P S bridge interrupted send c params observation =
     execute E bridge interrupted send no_details
       ''GetKeyLastUsage'' (get_key_last_usage_params P S params) c observation"

definition get_key_last_usage_call :: "get_key_last_usage_input \<Rightarrow> pydict" where
  "get_key_last_usage_call i = py_params
     [(''key_id'', opt_to_py PyStr (mgklui_key_id i))]
     []"

subsection \<open>\<open>GetKeyPolicy\<close>\<close>

record get_key_policy_input =
  mgkpi_key_id :: "string option"
  mgkpi_policy_name :: "string option"

definition get_key_policy_params :: "pyo3 \<Rightarrow> kms_types \<Rightarrow> pydict \<Rightarrow>
    get_key_policy_input pyresult" where
  "get_key_policy_params P S params =
     and_then (op_param P ''kms'' ''GetKeyPolicy'' params ''key_id'' ''str'' (string_from_py P)) (\<lambda>key_id.
     and_then (op_param P ''kms'' ''GetKeyPolicy'' params ''policy_name'' ''str'' (string_from_py P)) (\<lambda>policy_name.
     Inr \<lparr>mgkpi_key_id = key_id,
       mgkpi_policy_name = policy_name\<rparr>))"

definition get_key_policy :: "('cfg, 'client) service_env \<Rightarrow> pyo3 \<Rightarrow> kms_types \<Rightarrow> unit pyresult \<Rightarrow> bool \<Rightarrow>
    ('client \<Rightarrow> get_key_policy_input \<Rightarrow> trip list \<times> (('e, http_response) sdk_error + get_key_policy_output)) \<Rightarrow>
    'client client_handle \<Rightarrow> pydict \<Rightarrow> pydict option \<Rightarrow>
    (get_key_policy_output pyresult \<times> 'client client_handle \<times> pydict option) option" where
  "get_key_policy E P S bridge interrupted send c params observation =
     execute E bridge interrupted send no_details
       ''GetKeyPolicy'' (get_key_policy_params P S params) c observation"

definition get_key_policy_call :: "get_key_policy_input \<Rightarrow> pydict" where
  "get_key_policy_call i = py_params
     [(''key_id'', opt_to_py PyStr (mgkpi_key_id i))]
     [(''policy_name'', opt_to_py PyStr (mgkpi_policy_name i))]"

subsection \<open>\<open>GetKeyRotationStatus\<close>\<close>

record get_key_rotation_status_input =
  mgkrsi_key_id :: "string option"

definition get_key_rotation_status_params :: "pyo3 \<Rightarrow> kms_types \<Rightarrow> pydict \<Rightarrow>
    get_key_rotation_status_input pyresult" where
  "get_key_rotation_status_params P S params =
     and_then (op_param P ''kms'' ''GetKeyRotationStatus'' params ''key_id'' ''str'' (string_from_py P)) (\<lambda>key_id.
     Inr \<lparr>mgkrsi_key_id = key_id\<rparr>)"

definition get_key_rotation_status :: "('cfg, 'client) service_env \<Rightarrow> pyo3 \<Rightarrow> kms_types \<Rightarrow> unit pyresult \<Rightarrow> bool \<Rightarrow>
    ('client \<Rightarrow> get_key_rotation_status_input \<Rightarrow> trip list \<times> (('e, http_response) sdk_error + get_key_rotation_status_output)) \<Rightarrow>
    'client client_handle \<Rightarrow> pydict \<Rightarrow> pydict option \<Rightarrow>
    (get_key_rotation_status_output pyresult \<times> 'client client_handle \<times> pydict option) option" where
  "get_key_rotation_status E P S bridge interrupted send c params observation =
     execute E bridge interrupted send no_details
       ''GetKeyRotationStatus'' (get_key_rotation_status_params P S params) c observation"

definition get_key_rotation_status_call :: "get_key_rotation_status_input \<Rightarrow> pydict" where
  "get_key_rotation_status_call i = py_params
     [(''key_id'', opt_to_py PyStr (mgkrsi_key_id i))]
     []"

subsection \<open>\<open>GetParametersForImport\<close>\<close>

record get_parameters_for_import_input =
  mgpfii_key_id :: "string option"
  mgpfii_wrapping_algorithm :: "string option"
  mgpfii_wrapping_key_spec :: "string option"

definition get_parameters_for_import_params :: "pyo3 \<Rightarrow> kms_types \<Rightarrow> pydict \<Rightarrow>
    get_parameters_for_import_input pyresult" where
  "get_parameters_for_import_params P S params =
     and_then (op_param P ''kms'' ''GetParametersForImport'' params ''key_id'' ''str'' (string_from_py P)) (\<lambda>key_id.
     and_then (op_param P ''kms'' ''GetParametersForImport'' params ''wrapping_algorithm'' ''str (AlgorithmSpec)'' (enum_from_py P)) (\<lambda>wrapping_algorithm.
     and_then (op_param P ''kms'' ''GetParametersForImport'' params ''wrapping_key_spec'' ''str (WrappingKeySpec)'' (enum_from_py P)) (\<lambda>wrapping_key_spec.
     Inr \<lparr>mgpfii_key_id = key_id,
       mgpfii_wrapping_algorithm = wrapping_algorithm,
       mgpfii_wrapping_key_spec = wrapping_key_spec\<rparr>)))"

definition get_parameters_for_import :: "('cfg, 'client) service_env \<Rightarrow> pyo3 \<Rightarrow> kms_types \<Rightarrow> unit pyresult \<Rightarrow> bool \<Rightarrow>
    ('client \<Rightarrow> get_parameters_for_import_input \<Rightarrow> trip list \<times> (('e, http_response) sdk_error + get_parameters_for_import_output)) \<Rightarrow>
    'client client_handle \<Rightarrow> pydict \<Rightarrow> pydict option \<Rightarrow>
    (get_parameters_for_import_output pyresult \<times> 'client client_handle \<times> pydict option) option" where
  "get_parameters_for_import E P S bridge interrupted send c params observation =
     execute E bridge interrupted send no_details
       ''GetParametersForImport'' (get_parameters_for_import_params P S params) c observation"

definition get_parameters_for_import_call :: "get_parameters_for_import_input \<Rightarrow> pydict" where
  "get_parameters_for_import_call i = py_params
     [(''key_id'', opt_to_py PyStr (mgpfii_key_id i)),
      (''wrapping_algorithm'', opt_to_py PyStr (mgpfii_wrapping_algorithm i)),
      (''wrapping_key_spec'', opt_to_py PyStr (mgpfii_wrapping_key_spec i))]
     []"

subsection \<open>\<open>GetPublicKey\<close>\<close>

record get_public_key_input =
  mgpki_key_id :: "string option"
  mgpki_grant_tokens :: "string list option"

definition get_public_key_params :: "pyo3 \<Rightarrow> kms_types \<Rightarrow> pydict \<Rightarrow>
    get_public_key_input pyresult" where
  "get_public_key_params P S params =
     and_then (op_param P ''kms'' ''GetPublicKey'' params ''key_id'' ''str'' (string_from_py P)) (\<lambda>key_id.
     and_then (op_param P ''kms'' ''GetPublicKey'' params ''grant_tokens'' ''sequence'' (seq_from_py P ''str'' (string_from_py P))) (\<lambda>grant_tokens.
     Inr \<lparr>mgpki_key_id = key_id,
       mgpki_grant_tokens = grant_tokens\<rparr>))"

definition get_public_key :: "('cfg, 'client) service_env \<Rightarrow> pyo3 \<Rightarrow> kms_types \<Rightarrow> unit pyresult \<Rightarrow> bool \<Rightarrow>
    ('client \<Rightarrow> get_public_key_input \<Rightarrow> trip list \<times> (('e, http_response) sdk_error + get_public_key_output)) \<Rightarrow>
    'client client_handle \<Rightarrow> pydict \<Rightarrow> pydict option \<Rightarrow>
    (get_public_key_output pyresult \<times> 'client client_handle \<times> pydict option) option" where
  "get_public_key E P S bridge interrupted send c params observation =
     execute E bridge interrupted send no_details
       ''GetPublicKey'' (get_public_key_params P S params) c observation"

definition get_public_key_call :: "get_public_key_input \<Rightarrow> pydict" where
  "get_public_key_call i = py_params
     [(''key_id'', opt_to_py PyStr (mgpki_key_id i))]
     [(''grant_tokens'', opt_to_py (seq_to_py PyStr) (mgpki_grant_tokens i))]"

subsection \<open>\<open>ImportKeyMaterial\<close>\<close>

record import_key_material_input =
  mikmi_key_id :: "string option"
  mikmi_import_token :: "byte list option"
  mikmi_encrypted_key_material :: "byte list option"
  mikmi_valid_to :: "datetime option"
  mikmi_expiration_model :: "string option"
  mikmi_import_type :: "string option"
  mikmi_key_material_description :: "string option"
  mikmi_key_material_id :: "string option"

definition import_key_material_params_1 :: "pyo3 \<Rightarrow> kms_types \<Rightarrow> pydict \<Rightarrow>
    (string option \<times> byte list option \<times> byte list option \<times> datetime option) pyresult" where
  "import_key_material_params_1 P S params =
     and_then (op_param P ''kms'' ''ImportKeyMaterial'' params ''key_id'' ''str'' (string_from_py P)) (\<lambda>key_id.
     and_then (op_param P ''kms'' ''ImportKeyMaterial'' params ''import_token'' ''bytes'' (blob_from_py P)) (\<lambda>import_token.
     and_then (op_param P ''kms'' ''ImportKeyMaterial'' params ''encrypted_key_material'' ''bytes'' (blob_from_py P)) (\<lambda>encrypted_key_material.
     and_then (op_param P ''kms'' ''ImportKeyMaterial'' params ''valid_to'' ''ISO 8601 timestamp string'' (datetime_from_py P S)) (\<lambda>valid_to.
     Inr (key_id, import_token, encrypted_key_material, valid_to)))))"

definition import_key_material_params_2 :: "pyo3 \<Rightarrow> kms_types \<Rightarrow> pydict \<Rightarrow>
    (string option \<times> string option \<times> string option \<times> string option) pyresult" where
  "import_key_material_params_2 P S params =
     and_then (op_param P ''kms'' ''ImportKeyMaterial'' params ''expiration_model'' ''str (ExpirationModelType)'' (enum_from_py P)) (\<lambda>expiration_model.
     and_then (op_param P ''kms'' ''ImportKeyMaterial'' params ''import_type'' ''str (ImportType)'' (enum_from_py P)) (\<lambda>import_type.
     and_then (op_param P ''kms'' ''ImportKeyMaterial'' params ''key_material_description'' ''str'' (string_from_py P)) (\<lambda>key_material_description.
     and_then (op_param P ''kms'' ''ImportKeyMaterial'' params ''key_material_id'' ''str'' (string_from_py P)) (\<lambda>key_material_id.
     Inr (expiration_model, import_type, key_material_description, key_material_id)))))"

definition import_key_material_params :: "pyo3 \<Rightarrow> kms_types \<Rightarrow> pydict \<Rightarrow>
    import_key_material_input pyresult" where
  "import_key_material_params P S params =
     and_then (import_key_material_params_1 P S params) (\<lambda>(key_id, import_token, encrypted_key_material, valid_to).
     and_then (import_key_material_params_2 P S params) (\<lambda>(expiration_model, import_type, key_material_description, key_material_id).
     Inr \<lparr>mikmi_key_id = key_id,
       mikmi_import_token = import_token,
       mikmi_encrypted_key_material = encrypted_key_material,
       mikmi_valid_to = valid_to,
       mikmi_expiration_model = expiration_model,
       mikmi_import_type = import_type,
       mikmi_key_material_description = key_material_description,
       mikmi_key_material_id = key_material_id\<rparr>))"

definition import_key_material :: "('cfg, 'client) service_env \<Rightarrow> pyo3 \<Rightarrow> kms_types \<Rightarrow> unit pyresult \<Rightarrow> bool \<Rightarrow>
    ('client \<Rightarrow> import_key_material_input \<Rightarrow> trip list \<times> (('e, http_response) sdk_error + import_key_material_output)) \<Rightarrow>
    'client client_handle \<Rightarrow> pydict \<Rightarrow> pydict option \<Rightarrow>
    (import_key_material_output pyresult \<times> 'client client_handle \<times> pydict option) option" where
  "import_key_material E P S bridge interrupted send c params observation =
     execute E bridge interrupted send no_details
       ''ImportKeyMaterial'' (import_key_material_params P S params) c observation"

definition import_key_material_call :: "kms_types \<Rightarrow> import_key_material_input \<Rightarrow> pydict" where
  "import_key_material_call S i = py_params
     [(''key_id'', opt_to_py PyStr (mikmi_key_id i)),
      (''import_token'', opt_to_py PyBytes (mikmi_import_token i)),
      (''encrypted_key_material'', opt_to_py PyBytes (mikmi_encrypted_key_material i))]
     [(''valid_to'', opt_to_py (datetime_to_py S) (mikmi_valid_to i)),
      (''expiration_model'', opt_to_py PyStr (mikmi_expiration_model i)),
      (''import_type'', opt_to_py PyStr (mikmi_import_type i)),
      (''key_material_description'', opt_to_py PyStr (mikmi_key_material_description i)),
      (''key_material_id'', opt_to_py PyStr (mikmi_key_material_id i))]"

subsection \<open>\<open>ListAliases\<close>\<close>

record list_aliases_input =
  mlai_key_id :: "string option"
  mlai_limit :: "32 word option"
  mlai_marker :: "string option"

definition list_aliases_params :: "pyo3 \<Rightarrow> kms_types \<Rightarrow> pydict \<Rightarrow>
    list_aliases_input pyresult" where
  "list_aliases_params P S params =
     and_then (op_param P ''kms'' ''ListAliases'' params ''key_id'' ''str'' (string_from_py P)) (\<lambda>key_id.
     and_then (op_param P ''kms'' ''ListAliases'' params ''limit'' ''int'' (i32_from_py P)) (\<lambda>limit.
     and_then (op_param P ''kms'' ''ListAliases'' params ''marker'' ''str'' (string_from_py P)) (\<lambda>marker.
     Inr \<lparr>mlai_key_id = key_id,
       mlai_limit = limit,
       mlai_marker = marker\<rparr>)))"

definition list_aliases :: "('cfg, 'client) service_env \<Rightarrow> pyo3 \<Rightarrow> kms_types \<Rightarrow> unit pyresult \<Rightarrow> bool \<Rightarrow>
    ('client \<Rightarrow> list_aliases_input \<Rightarrow> trip list \<times> (('e, http_response) sdk_error + list_aliases_output)) \<Rightarrow>
    'client client_handle \<Rightarrow> pydict \<Rightarrow> pydict option \<Rightarrow>
    (list_aliases_output pyresult \<times> 'client client_handle \<times> pydict option) option" where
  "list_aliases E P S bridge interrupted send c params observation =
     execute E bridge interrupted send no_details
       ''ListAliases'' (list_aliases_params P S params) c observation"

definition list_aliases_call :: "list_aliases_input \<Rightarrow> pydict" where
  "list_aliases_call i = py_params
     []
     [(''key_id'', opt_to_py PyStr (mlai_key_id i)),
      (''limit'', opt_to_py i32_to_py (mlai_limit i)),
      (''marker'', opt_to_py PyStr (mlai_marker i))]"

subsection \<open>\<open>ListGrants\<close>\<close>

record list_grants_input =
  mlgi_limit :: "32 word option"
  mlgi_marker :: "string option"
  mlgi_key_id :: "string option"
  mlgi_grant_id :: "string option"
  mlgi_grantee_principal :: "string option"
  mlgi_grantee_service_principal :: "string option"

definition list_grants_params :: "pyo3 \<Rightarrow> kms_types \<Rightarrow> pydict \<Rightarrow>
    list_grants_input pyresult" where
  "list_grants_params P S params =
     and_then (op_param P ''kms'' ''ListGrants'' params ''limit'' ''int'' (i32_from_py P)) (\<lambda>limit.
     and_then (op_param P ''kms'' ''ListGrants'' params ''marker'' ''str'' (string_from_py P)) (\<lambda>marker.
     and_then (op_param P ''kms'' ''ListGrants'' params ''key_id'' ''str'' (string_from_py P)) (\<lambda>key_id.
     and_then (op_param P ''kms'' ''ListGrants'' params ''grant_id'' ''str'' (string_from_py P)) (\<lambda>grant_id.
     and_then (op_param P ''kms'' ''ListGrants'' params ''grantee_principal'' ''str'' (string_from_py P)) (\<lambda>grantee_principal.
     and_then (op_param P ''kms'' ''ListGrants'' params ''grantee_service_principal'' ''str'' (string_from_py P)) (\<lambda>grantee_service_principal.
     Inr \<lparr>mlgi_limit = limit,
       mlgi_marker = marker,
       mlgi_key_id = key_id,
       mlgi_grant_id = grant_id,
       mlgi_grantee_principal = grantee_principal,
       mlgi_grantee_service_principal = grantee_service_principal\<rparr>))))))"

definition list_grants :: "('cfg, 'client) service_env \<Rightarrow> pyo3 \<Rightarrow> kms_types \<Rightarrow> unit pyresult \<Rightarrow> bool \<Rightarrow>
    ('client \<Rightarrow> list_grants_input \<Rightarrow> trip list \<times> (('e, http_response) sdk_error + list_grants_output)) \<Rightarrow>
    'client client_handle \<Rightarrow> pydict \<Rightarrow> pydict option \<Rightarrow>
    (list_grants_output pyresult \<times> 'client client_handle \<times> pydict option) option" where
  "list_grants E P S bridge interrupted send c params observation =
     execute E bridge interrupted send no_details
       ''ListGrants'' (list_grants_params P S params) c observation"

definition list_grants_call :: "list_grants_input \<Rightarrow> pydict" where
  "list_grants_call i = py_params
     [(''key_id'', opt_to_py PyStr (mlgi_key_id i))]
     [(''limit'', opt_to_py i32_to_py (mlgi_limit i)),
      (''marker'', opt_to_py PyStr (mlgi_marker i)),
      (''grant_id'', opt_to_py PyStr (mlgi_grant_id i)),
      (''grantee_principal'', opt_to_py PyStr (mlgi_grantee_principal i)),
      (''grantee_service_principal'', opt_to_py PyStr (mlgi_grantee_service_principal i))]"

subsection \<open>\<open>ListKeyPolicies\<close>\<close>

record list_key_policies_input =
  mlkpi_key_id :: "string option"
  mlkpi_limit :: "32 word option"
  mlkpi_marker :: "string option"

definition list_key_policies_params :: "pyo3 \<Rightarrow> kms_types \<Rightarrow> pydict \<Rightarrow>
    list_key_policies_input pyresult" where
  "list_key_policies_params P S params =
     and_then (op_param P ''kms'' ''ListKeyPolicies'' params ''key_id'' ''str'' (string_from_py P)) (\<lambda>key_id.
     and_then (op_param P ''kms'' ''ListKeyPolicies'' params ''limit'' ''int'' (i32_from_py P)) (\<lambda>limit.
     and_then (op_param P ''kms'' ''ListKeyPolicies'' params ''marker'' ''str'' (string_from_py P)) (\<lambda>marker.
     Inr \<lparr>mlkpi_key_id = key_id,
       mlkpi_limit = limit,
       mlkpi_marker = marker\<rparr>)))"

definition list_key_policies :: "('cfg, 'client) service_env \<Rightarrow> pyo3 \<Rightarrow> kms_types \<Rightarrow> unit pyresult \<Rightarrow> bool \<Rightarrow>
    ('client \<Rightarrow> list_key_policies_input \<Rightarrow> trip list \<times> (('e, http_response) sdk_error + list_key_policies_output)) \<Rightarrow>
    'client client_handle \<Rightarrow> pydict \<Rightarrow> pydict option \<Rightarrow>
    (list_key_policies_output pyresult \<times> 'client client_handle \<times> pydict option) option" where
  "list_key_policies E P S bridge interrupted send c params observation =
     execute E bridge interrupted send no_details
       ''ListKeyPolicies'' (list_key_policies_params P S params) c observation"

definition list_key_policies_call :: "list_key_policies_input \<Rightarrow> pydict" where
  "list_key_policies_call i = py_params
     [(''key_id'', opt_to_py PyStr (mlkpi_key_id i))]
     [(''limit'', opt_to_py i32_to_py (mlkpi_limit i)),
      (''marker'', opt_to_py PyStr (mlkpi_marker i))]"

subsection \<open>\<open>ListKeyRotations\<close>\<close>

record list_key_rotations_input =
  mlkri_key_id :: "string option"
  mlkri_include_key_material :: "string option"
  mlkri_limit :: "32 word option"
  mlkri_marker :: "string option"

definition list_key_rotations_params :: "pyo3 \<Rightarrow> kms_types \<Rightarrow> pydict \<Rightarrow>
    list_key_rotations_input pyresult" where
  "list_key_rotations_params P S params =
     and_then (op_param P ''kms'' ''ListKeyRotations'' params ''key_id'' ''str'' (string_from_py P)) (\<lambda>key_id.
     and_then (op_param P ''kms'' ''ListKeyRotations'' params ''include_key_material'' ''str (IncludeKeyMaterial)'' (enum_from_py P)) (\<lambda>include_key_material.
     and_then (op_param P ''kms'' ''ListKeyRotations'' params ''limit'' ''int'' (i32_from_py P)) (\<lambda>limit.
     and_then (op_param P ''kms'' ''ListKeyRotations'' params ''marker'' ''str'' (string_from_py P)) (\<lambda>marker.
     Inr \<lparr>mlkri_key_id = key_id,
       mlkri_include_key_material = include_key_material,
       mlkri_limit = limit,
       mlkri_marker = marker\<rparr>))))"

definition list_key_rotations :: "('cfg, 'client) service_env \<Rightarrow> pyo3 \<Rightarrow> kms_types \<Rightarrow> unit pyresult \<Rightarrow> bool \<Rightarrow>
    ('client \<Rightarrow> list_key_rotations_input \<Rightarrow> trip list \<times> (('e, http_response) sdk_error + list_key_rotations_output)) \<Rightarrow>
    'client client_handle \<Rightarrow> pydict \<Rightarrow> pydict option \<Rightarrow>
    (list_key_rotations_output pyresult \<times> 'client client_handle \<times> pydict option) option" where
  "list_key_rotations E P S bridge interrupted send c params observation =
     execute E bridge interrupted send no_details
       ''ListKeyRotations'' (list_key_rotations_params P S params) c observation"

definition list_key_rotations_call :: "list_key_rotations_input \<Rightarrow> pydict" where
  "list_key_rotations_call i = py_params
     [(''key_id'', opt_to_py PyStr (mlkri_key_id i))]
     [(''include_key_material'', opt_to_py PyStr (mlkri_include_key_material i)),
      (''limit'', opt_to_py i32_to_py (mlkri_limit i)),
      (''marker'', opt_to_py PyStr (mlkri_marker i))]"

subsection \<open>\<open>ListKeys\<close>\<close>

record list_keys_input =
  mlki_limit :: "32 word option"
  mlki_marker :: "string option"

definition list_keys_params :: "pyo3 \<Rightarrow> kms_types \<Rightarrow> pydict \<Rightarrow>
    list_keys_input pyresult" where
  "list_keys_params P S params =
     and_then (op_param P ''kms'' ''ListKeys'' params ''limit'' ''int'' (i32_from_py P)) (\<lambda>limit.
     and_then (op_param P ''kms'' ''ListKeys'' params ''marker'' ''str'' (string_from_py P)) (\<lambda>marker.
     Inr \<lparr>mlki_limit = limit,
       mlki_marker = marker\<rparr>))"

definition list_keys :: "('cfg, 'client) service_env \<Rightarrow> pyo3 \<Rightarrow> kms_types \<Rightarrow> unit pyresult \<Rightarrow> bool \<Rightarrow>
    ('client \<Rightarrow> list_keys_input \<Rightarrow> trip list \<times> (('e, http_response) sdk_error + list_keys_output)) \<Rightarrow>
    'client client_handle \<Rightarrow> pydict \<Rightarrow> pydict option \<Rightarrow>
    (list_keys_output pyresult \<times> 'client client_handle \<times> pydict option) option" where
  "list_keys E P S bridge interrupted send c params observation =
     execute E bridge interrupted send no_details
       ''ListKeys'' (list_keys_params P S params) c observation"

definition list_keys_call :: "list_keys_input \<Rightarrow> pydict" where
  "list_keys_call i = py_params
     []
     [(''limit'', opt_to_py i32_to_py (mlki_limit i)),
      (''marker'', opt_to_py PyStr (mlki_marker i))]"

subsection \<open>\<open>ListResourceTags\<close>\<close>

record list_resource_tags_input =
  mlrti_key_id :: "string option"
  mlrti_limit :: "32 word option"
  mlrti_marker :: "string option"

definition list_resource_tags_params :: "pyo3 \<Rightarrow> kms_types \<Rightarrow> pydict \<Rightarrow>
    list_resource_tags_input pyresult" where
  "list_resource_tags_params P S params =
     and_then (op_param P ''kms'' ''ListResourceTags'' params ''key_id'' ''str'' (string_from_py P)) (\<lambda>key_id.
     and_then (op_param P ''kms'' ''ListResourceTags'' params ''limit'' ''int'' (i32_from_py P)) (\<lambda>limit.
     and_then (op_param P ''kms'' ''ListResourceTags'' params ''marker'' ''str'' (string_from_py P)) (\<lambda>marker.
     Inr \<lparr>mlrti_key_id = key_id,
       mlrti_limit = limit,
       mlrti_marker = marker\<rparr>)))"

definition list_resource_tags :: "('cfg, 'client) service_env \<Rightarrow> pyo3 \<Rightarrow> kms_types \<Rightarrow> unit pyresult \<Rightarrow> bool \<Rightarrow>
    ('client \<Rightarrow> list_resource_tags_input \<Rightarrow> trip list \<times> (('e, http_response) sdk_error + list_resource_tags_output)) \<Rightarrow>
    'client client_handle \<Rightarrow> pydict \<Rightarrow> pydict option \<Rightarrow>
    (list_resource_tags_output pyresult \<times> 'client client_handle \<times> pydict option) option" where
  "list_resource_tags E P S bridge interrupted send c params observation =
     execute E bridge interrupted send no_details
       ''ListResourceTags'' (list_resource_tags_params P S params) c observation"

definition list_resource_tags_call :: "list_resource_tags_input \<Rightarrow> pydict" where
  "list_resource_tags_call i = py_params
     [(''key_id'', opt_to_py PyStr (mlrti_key_id i))]
     [(''limit'', opt_to_py i32_to_py (mlrti_limit i)),
      (''marker'', opt_to_py PyStr (mlrti_marker i))]"

subsection \<open>\<open>ListRetirableGrants\<close>\<close>

record list_retirable_grants_input =
  mlrgi_limit :: "32 word option"
  mlrgi_marker :: "string option"
  mlrgi_retiring_principal :: "string option"
  mlrgi_retiring_service_principal :: "string option"

definition list_retirable_grants_params :: "pyo3 \<Rightarrow> kms_types \<Rightarrow> pydict \<Rightarrow>
    list_retirable_grants_input pyresult" where
  "list_retirable_grants_params P S params =
     and_then (op_param P ''kms'' ''ListRetirableGrants'' params ''limit'' ''int'' (i32_from_py P)) (\<lambda>limit.
     and_then (op_param P ''kms'' ''ListRetirableGrants'' params ''marker'' ''str'' (string_from_py P)) (\<lambda>marker.
     and_then (op_param P ''kms'' ''ListRetirableGrants'' params ''retiring_principal'' ''str'' (string_from_py P)) (\<lambda>retiring_principal.
     and_then (op_param P ''kms'' ''ListRetirableGrants'' params ''retiring_service_principal'' ''str'' (string_from_py P)) (\<lambda>retiring_service_principal.
     Inr \<lparr>mlrgi_limit = limit,
       mlrgi_marker = marker,
       mlrgi_retiring_principal = retiring_principal,
       mlrgi_retiring_service_principal = retiring_service_principal\<rparr>))))"

definition list_retirable_grants :: "('cfg, 'client) service_env \<Rightarrow> pyo3 \<Rightarrow> kms_types \<Rightarrow> unit pyresult \<Rightarrow> bool \<Rightarrow>
    ('client \<Rightarrow> list_retirable_grants_input \<Rightarrow> trip list \<times> (('e, http_response) sdk_error + list_retirable_grants_output)) \<Rightarrow>
    'client client_handle \<Rightarrow> pydict \<Rightarrow> pydict option \<Rightarrow>
    (list_retirable_grants_output pyresult \<times> 'client client_handle \<times> pydict option) option" where
  "list_retirable_grants E P S bridge interrupted send c params observation =
     execute E bridge interrupted send no_details
       ''ListRetirableGrants'' (list_retirable_grants_params P S params) c observation"

definition list_retirable_grants_call :: "list_retirable_grants_input \<Rightarrow> pydict" where
  "list_retirable_grants_call i = py_params
     []
     [(''limit'', opt_to_py i32_to_py (mlrgi_limit i)),
      (''marker'', opt_to_py PyStr (mlrgi_marker i)),
      (''retiring_principal'', opt_to_py PyStr (mlrgi_retiring_principal i)),
      (''retiring_service_principal'', opt_to_py PyStr (mlrgi_retiring_service_principal i))]"

subsection \<open>\<open>PutKeyPolicy\<close>\<close>

record put_key_policy_input =
  mpkpi_key_id :: "string option"
  mpkpi_policy_name :: "string option"
  mpkpi_policy :: "string option"
  mpkpi_bypass_policy_lockout_safety_check :: "bool option"

definition put_key_policy_params :: "pyo3 \<Rightarrow> kms_types \<Rightarrow> pydict \<Rightarrow>
    put_key_policy_input pyresult" where
  "put_key_policy_params P S params =
     and_then (op_param P ''kms'' ''PutKeyPolicy'' params ''key_id'' ''str'' (string_from_py P)) (\<lambda>key_id.
     and_then (op_param P ''kms'' ''PutKeyPolicy'' params ''policy_name'' ''str'' (string_from_py P)) (\<lambda>policy_name.
     and_then (op_param P ''kms'' ''PutKeyPolicy'' params ''policy'' ''str'' (string_from_py P)) (\<lambda>policy.
     and_then (op_param P ''kms'' ''PutKeyPolicy'' params ''bypass_policy_lockout_safety_check'' ''bool'' (bool_from_py P)) (\<lambda>bypass_policy_lockout_safety_check.
     Inr \<lparr>mpkpi_key_id = key_id,
       mpkpi_policy_name = policy_name,
       mpkpi_policy = policy,
       mpkpi_bypass_policy_lockout_safety_check = bypass_policy_lockout_safety_check\<rparr>))))"

definition put_key_policy :: "('cfg, 'client) service_env \<Rightarrow> pyo3 \<Rightarrow> kms_types \<Rightarrow> unit pyresult \<Rightarrow> bool \<Rightarrow>
    ('client \<Rightarrow> put_key_policy_input \<Rightarrow> trip list \<times> (('e, http_response) sdk_error + unit)) \<Rightarrow>
    'client client_handle \<Rightarrow> pydict \<Rightarrow> pydict option \<Rightarrow>
    (unit pyresult \<times> 'client client_handle \<times> pydict option) option" where
  "put_key_policy E P S bridge interrupted send c params observation =
     execute E bridge interrupted send no_details
       ''PutKeyPolicy'' (put_key_policy_params P S params) c observation"

definition put_key_policy_call :: "put_key_policy_input \<Rightarrow> pydict" where
  "put_key_policy_call i = py_params
     [(''key_id'', opt_to_py PyStr (mpkpi_key_id i)),
      (''policy'', opt_to_py PyStr (mpkpi_policy i))]
     [(''policy_name'', opt_to_py PyStr (mpkpi_policy_name i)),
      (''bypass_policy_lockout_safety_check'', opt_to_py PyBool (mpkpi_bypass_policy_lockout_safety_check i))]"

subsection \<open>\<open>ReEncrypt\<close>\<close>

record re_encrypt_input =
  mrei_ciphertext_blob :: "byte list option"
  mrei_source_encryption_context :: "(string, string) fmap option"
  mrei_source_key_id :: "string option"
  mrei_destination_key_id :: "string option"
  mrei_destination_encryption_context :: "(string, string) fmap option"
  mrei_source_encryption_algorithm :: "string option"
  mrei_destination_encryption_algorithm :: "string option"
  mrei_grant_tokens :: "string list option"
  mrei_dry_run :: "bool option"
  mrei_dry_run_modifiers :: "string list option"

definition re_encrypt_params_1 :: "pyo3 \<Rightarrow> kms_types \<Rightarrow> pydict \<Rightarrow>
    (byte list option \<times> (string, string) fmap option \<times> string option \<times> string option) pyresult" where
  "re_encrypt_params_1 P S params =
     and_then (op_param P ''kms'' ''ReEncrypt'' params ''ciphertext_blob'' ''bytes'' (blob_from_py P)) (\<lambda>ciphertext_blob.
     and_then (op_param P ''kms'' ''ReEncrypt'' params ''source_encryption_context'' ''dict'' (map_from_py P ''str'' ''str'' (string_from_py P))) (\<lambda>source_encryption_context.
     and_then (op_param P ''kms'' ''ReEncrypt'' params ''source_key_id'' ''str'' (string_from_py P)) (\<lambda>source_key_id.
     and_then (op_param P ''kms'' ''ReEncrypt'' params ''destination_key_id'' ''str'' (string_from_py P)) (\<lambda>destination_key_id.
     Inr (ciphertext_blob, source_encryption_context, source_key_id, destination_key_id)))))"

definition re_encrypt_params_2 :: "pyo3 \<Rightarrow> kms_types \<Rightarrow> pydict \<Rightarrow>
    ((string, string) fmap option \<times> string option \<times> string option) pyresult" where
  "re_encrypt_params_2 P S params =
     and_then (op_param P ''kms'' ''ReEncrypt'' params ''destination_encryption_context'' ''dict'' (map_from_py P ''str'' ''str'' (string_from_py P))) (\<lambda>destination_encryption_context.
     and_then (op_param P ''kms'' ''ReEncrypt'' params ''source_encryption_algorithm'' ''str (EncryptionAlgorithmSpec)'' (enum_from_py P)) (\<lambda>source_encryption_algorithm.
     and_then (op_param P ''kms'' ''ReEncrypt'' params ''destination_encryption_algorithm'' ''str (EncryptionAlgorithmSpec)'' (enum_from_py P)) (\<lambda>destination_encryption_algorithm.
     Inr (destination_encryption_context, source_encryption_algorithm, destination_encryption_algorithm))))"

definition re_encrypt_params_3 :: "pyo3 \<Rightarrow> kms_types \<Rightarrow> pydict \<Rightarrow>
    (string list option \<times> bool option \<times> string list option) pyresult" where
  "re_encrypt_params_3 P S params =
     and_then (op_param P ''kms'' ''ReEncrypt'' params ''grant_tokens'' ''sequence'' (seq_from_py P ''str'' (string_from_py P))) (\<lambda>grant_tokens.
     and_then (op_param P ''kms'' ''ReEncrypt'' params ''dry_run'' ''bool'' (bool_from_py P)) (\<lambda>dry_run.
     and_then (op_param P ''kms'' ''ReEncrypt'' params ''dry_run_modifiers'' ''sequence'' (seq_from_py P ''str (DryRunModifierType)'' (enum_from_py P))) (\<lambda>dry_run_modifiers.
     Inr (grant_tokens, dry_run, dry_run_modifiers))))"

definition re_encrypt_params :: "pyo3 \<Rightarrow> kms_types \<Rightarrow> pydict \<Rightarrow>
    re_encrypt_input pyresult" where
  "re_encrypt_params P S params =
     and_then (re_encrypt_params_1 P S params) (\<lambda>(ciphertext_blob, source_encryption_context, source_key_id, destination_key_id).
     and_then (re_encrypt_params_2 P S params) (\<lambda>(destination_encryption_context, source_encryption_algorithm, destination_encryption_algorithm).
     and_then (re_encrypt_params_3 P S params) (\<lambda>(grant_tokens, dry_run, dry_run_modifiers).
     Inr \<lparr>mrei_ciphertext_blob = ciphertext_blob,
       mrei_source_encryption_context = source_encryption_context,
       mrei_source_key_id = source_key_id,
       mrei_destination_key_id = destination_key_id,
       mrei_destination_encryption_context = destination_encryption_context,
       mrei_source_encryption_algorithm = source_encryption_algorithm,
       mrei_destination_encryption_algorithm = destination_encryption_algorithm,
       mrei_grant_tokens = grant_tokens,
       mrei_dry_run = dry_run,
       mrei_dry_run_modifiers = dry_run_modifiers\<rparr>)))"

definition re_encrypt :: "('cfg, 'client) service_env \<Rightarrow> pyo3 \<Rightarrow> kms_types \<Rightarrow> unit pyresult \<Rightarrow> bool \<Rightarrow>
    ('client \<Rightarrow> re_encrypt_input \<Rightarrow> trip list \<times> (('e, http_response) sdk_error + re_encrypt_output)) \<Rightarrow>
    'client client_handle \<Rightarrow> pydict \<Rightarrow> pydict option \<Rightarrow>
    (re_encrypt_output pyresult \<times> 'client client_handle \<times> pydict option) option" where
  "re_encrypt E P S bridge interrupted send c params observation =
     execute E bridge interrupted send no_details
       ''ReEncrypt'' (re_encrypt_params P S params) c observation"

definition re_encrypt_call :: "((string, pyval) fmap \<Rightarrow> (string \<times> pyval) list) \<Rightarrow> re_encrypt_input \<Rightarrow> pydict" where
  "re_encrypt_call order i = py_params
     [(''destination_key_id'', opt_to_py PyStr (mrei_destination_key_id i))]
     [(''ciphertext_blob'', opt_to_py PyBytes (mrei_ciphertext_blob i)),
      (''source_encryption_context'', opt_to_py (mapping_to_py order PyStr) (mrei_source_encryption_context i)),
      (''source_key_id'', opt_to_py PyStr (mrei_source_key_id i)),
      (''destination_encryption_context'', opt_to_py (mapping_to_py order PyStr) (mrei_destination_encryption_context i)),
      (''source_encryption_algorithm'', opt_to_py PyStr (mrei_source_encryption_algorithm i)),
      (''destination_encryption_algorithm'', opt_to_py PyStr (mrei_destination_encryption_algorithm i)),
      (''grant_tokens'', opt_to_py (seq_to_py PyStr) (mrei_grant_tokens i)),
      (''dry_run'', opt_to_py PyBool (mrei_dry_run i)),
      (''dry_run_modifiers'', opt_to_py (seq_to_py PyStr) (mrei_dry_run_modifiers i))]"

subsection \<open>\<open>ReplicateKey\<close>\<close>

record replicate_key_input =
  mrki_key_id :: "string option"
  mrki_replica_region :: "string option"
  mrki_policy :: "string option"
  mrki_bypass_policy_lockout_safety_check :: "bool option"
  mrki_description :: "string option"
  mrki_tags :: "kms_tag list option"

definition replicate_key_params :: "pyo3 \<Rightarrow> kms_types \<Rightarrow> pydict \<Rightarrow>
    replicate_key_input pyresult" where
  "replicate_key_params P S params =
     and_then (op_param P ''kms'' ''ReplicateKey'' params ''key_id'' ''str'' (string_from_py P)) (\<lambda>key_id.
     and_then (op_param P ''kms'' ''ReplicateKey'' params ''replica_region'' ''str'' (string_from_py P)) (\<lambda>replica_region.
     and_then (op_param P ''kms'' ''ReplicateKey'' params ''policy'' ''str'' (string_from_py P)) (\<lambda>policy.
     and_then (op_param P ''kms'' ''ReplicateKey'' params ''bypass_policy_lockout_safety_check'' ''bool'' (bool_from_py P)) (\<lambda>bypass_policy_lockout_safety_check.
     and_then (op_param P ''kms'' ''ReplicateKey'' params ''description'' ''str'' (string_from_py P)) (\<lambda>description.
     and_then (op_param P ''kms'' ''ReplicateKey'' params ''tags'' ''sequence'' (seq_from_py P ''dict (Tag)'' (kms_tag_from_py P S))) (\<lambda>tags.
     Inr \<lparr>mrki_key_id = key_id,
       mrki_replica_region = replica_region,
       mrki_policy = policy,
       mrki_bypass_policy_lockout_safety_check = bypass_policy_lockout_safety_check,
       mrki_description = description,
       mrki_tags = tags\<rparr>))))))"

definition replicate_key :: "('cfg, 'client) service_env \<Rightarrow> pyo3 \<Rightarrow> kms_types \<Rightarrow> unit pyresult \<Rightarrow> bool \<Rightarrow>
    ('client \<Rightarrow> replicate_key_input \<Rightarrow> trip list \<times> (('e, http_response) sdk_error + replicate_key_output)) \<Rightarrow>
    'client client_handle \<Rightarrow> pydict \<Rightarrow> pydict option \<Rightarrow>
    (replicate_key_output pyresult \<times> 'client client_handle \<times> pydict option) option" where
  "replicate_key E P S bridge interrupted send c params observation =
     execute E bridge interrupted send no_details
       ''ReplicateKey'' (replicate_key_params P S params) c observation"

definition replicate_key_call :: "replicate_key_input \<Rightarrow> pydict" where
  "replicate_key_call i = py_params
     [(''key_id'', opt_to_py PyStr (mrki_key_id i)),
      (''replica_region'', opt_to_py PyStr (mrki_replica_region i))]
     [(''policy'', opt_to_py PyStr (mrki_policy i)),
      (''bypass_policy_lockout_safety_check'', opt_to_py PyBool (mrki_bypass_policy_lockout_safety_check i)),
      (''description'', opt_to_py PyStr (mrki_description i)),
      (''tags'', opt_to_py (seq_to_py kms_tag_to_py) (mrki_tags i))]"

subsection \<open>\<open>RetireGrant\<close>\<close>

record retire_grant_input =
  mrgi_grant_token :: "string option"
  mrgi_key_id :: "string option"
  mrgi_grant_id :: "string option"
  mrgi_dry_run :: "bool option"

definition retire_grant_params :: "pyo3 \<Rightarrow> kms_types \<Rightarrow> pydict \<Rightarrow>
    retire_grant_input pyresult" where
  "retire_grant_params P S params =
     and_then (op_param P ''kms'' ''RetireGrant'' params ''grant_token'' ''str'' (string_from_py P)) (\<lambda>grant_token.
     and_then (op_param P ''kms'' ''RetireGrant'' params ''key_id'' ''str'' (string_from_py P)) (\<lambda>key_id.
     and_then (op_param P ''kms'' ''RetireGrant'' params ''grant_id'' ''str'' (string_from_py P)) (\<lambda>grant_id.
     and_then (op_param P ''kms'' ''RetireGrant'' params ''dry_run'' ''bool'' (bool_from_py P)) (\<lambda>dry_run.
     Inr \<lparr>mrgi_grant_token = grant_token,
       mrgi_key_id = key_id,
       mrgi_grant_id = grant_id,
       mrgi_dry_run = dry_run\<rparr>))))"

definition retire_grant :: "('cfg, 'client) service_env \<Rightarrow> pyo3 \<Rightarrow> kms_types \<Rightarrow> unit pyresult \<Rightarrow> bool \<Rightarrow>
    ('client \<Rightarrow> retire_grant_input \<Rightarrow> trip list \<times> (('e, http_response) sdk_error + unit)) \<Rightarrow>
    'client client_handle \<Rightarrow> pydict \<Rightarrow> pydict option \<Rightarrow>
    (unit pyresult \<times> 'client client_handle \<times> pydict option) option" where
  "retire_grant E P S bridge interrupted send c params observation =
     execute E bridge interrupted send no_details
       ''RetireGrant'' (retire_grant_params P S params) c observation"

definition retire_grant_call :: "retire_grant_input \<Rightarrow> pydict" where
  "retire_grant_call i = py_params
     []
     [(''grant_token'', opt_to_py PyStr (mrgi_grant_token i)),
      (''key_id'', opt_to_py PyStr (mrgi_key_id i)),
      (''grant_id'', opt_to_py PyStr (mrgi_grant_id i)),
      (''dry_run'', opt_to_py PyBool (mrgi_dry_run i))]"

subsection \<open>\<open>RevokeGrant\<close>\<close>

record revoke_grant_input =
  mrgi2_key_id :: "string option"
  mrgi2_grant_id :: "string option"
  mrgi2_dry_run :: "bool option"

definition revoke_grant_params :: "pyo3 \<Rightarrow> kms_types \<Rightarrow> pydict \<Rightarrow>
    revoke_grant_input pyresult" where
  "revoke_grant_params P S params =
     and_then (op_param P ''kms'' ''RevokeGrant'' params ''key_id'' ''str'' (string_from_py P)) (\<lambda>key_id.
     and_then (op_param P ''kms'' ''RevokeGrant'' params ''grant_id'' ''str'' (string_from_py P)) (\<lambda>grant_id.
     and_then (op_param P ''kms'' ''RevokeGrant'' params ''dry_run'' ''bool'' (bool_from_py P)) (\<lambda>dry_run.
     Inr \<lparr>mrgi2_key_id = key_id,
       mrgi2_grant_id = grant_id,
       mrgi2_dry_run = dry_run\<rparr>)))"

definition revoke_grant :: "('cfg, 'client) service_env \<Rightarrow> pyo3 \<Rightarrow> kms_types \<Rightarrow> unit pyresult \<Rightarrow> bool \<Rightarrow>
    ('client \<Rightarrow> revoke_grant_input \<Rightarrow> trip list \<times> (('e, http_response) sdk_error + unit)) \<Rightarrow>
    'client client_handle \<Rightarrow> pydict \<Rightarrow> pydict option \<Rightarrow>
    (unit pyresult \<times> 'client client_handle \<times> pydict option) option" where
  "revoke_grant E P S bridge interrupted send c params observation =
     execute E bridge interrupted send no_details
       ''RevokeGrant'' (revoke_grant_params P S params) c observation"

definition revoke_grant_call :: "revoke_grant_input \<Rightarrow> pydict" where
  "revoke_grant_call i = py_params
     [(''key_id'', opt_to_py PyStr (mrgi2_key_id i)),
      (''grant_id'', opt_to_py PyStr (mrgi2_grant_id i))]
     [(''dry_run'', opt_to_py PyBool (mrgi2_dry_run i))]"

subsection \<open>\<open>RotateKeyOnDemand\<close>\<close>

record rotate_key_on_demand_input =
  mrkodi_key_id :: "string option"

definition rotate_key_on_demand_params :: "pyo3 \<Rightarrow> kms_types \<Rightarrow> pydict \<Rightarrow>
    rotate_key_on_demand_input pyresult" where
  "rotate_key_on_demand_params P S params =
     and_then (op_param P ''kms'' ''RotateKeyOnDemand'' params ''key_id'' ''str'' (string_from_py P)) (\<lambda>key_id.
     Inr \<lparr>mrkodi_key_id = key_id\<rparr>)"

definition rotate_key_on_demand :: "('cfg, 'client) service_env \<Rightarrow> pyo3 \<Rightarrow> kms_types \<Rightarrow> unit pyresult \<Rightarrow> bool \<Rightarrow>
    ('client \<Rightarrow> rotate_key_on_demand_input \<Rightarrow> trip list \<times> (('e, http_response) sdk_error + rotate_key_on_demand_output)) \<Rightarrow>
    'client client_handle \<Rightarrow> pydict \<Rightarrow> pydict option \<Rightarrow>
    (rotate_key_on_demand_output pyresult \<times> 'client client_handle \<times> pydict option) option" where
  "rotate_key_on_demand E P S bridge interrupted send c params observation =
     execute E bridge interrupted send no_details
       ''RotateKeyOnDemand'' (rotate_key_on_demand_params P S params) c observation"

definition rotate_key_on_demand_call :: "rotate_key_on_demand_input \<Rightarrow> pydict" where
  "rotate_key_on_demand_call i = py_params
     [(''key_id'', opt_to_py PyStr (mrkodi_key_id i))]
     []"

subsection \<open>\<open>ScheduleKeyDeletion\<close>\<close>

record schedule_key_deletion_input =
  mskdi_key_id :: "string option"
  mskdi_pending_window_in_days :: "32 word option"

definition schedule_key_deletion_params :: "pyo3 \<Rightarrow> kms_types \<Rightarrow> pydict \<Rightarrow>
    schedule_key_deletion_input pyresult" where
  "schedule_key_deletion_params P S params =
     and_then (op_param P ''kms'' ''ScheduleKeyDeletion'' params ''key_id'' ''str'' (string_from_py P)) (\<lambda>key_id.
     and_then (op_param P ''kms'' ''ScheduleKeyDeletion'' params ''pending_window_in_days'' ''int'' (i32_from_py P)) (\<lambda>pending_window_in_days.
     Inr \<lparr>mskdi_key_id = key_id,
       mskdi_pending_window_in_days = pending_window_in_days\<rparr>))"

definition schedule_key_deletion :: "('cfg, 'client) service_env \<Rightarrow> pyo3 \<Rightarrow> kms_types \<Rightarrow> unit pyresult \<Rightarrow> bool \<Rightarrow>
    ('client \<Rightarrow> schedule_key_deletion_input \<Rightarrow> trip list \<times> (('e, http_response) sdk_error + schedule_key_deletion_output)) \<Rightarrow>
    'client client_handle \<Rightarrow> pydict \<Rightarrow> pydict option \<Rightarrow>
    (schedule_key_deletion_output pyresult \<times> 'client client_handle \<times> pydict option) option" where
  "schedule_key_deletion E P S bridge interrupted send c params observation =
     execute E bridge interrupted send no_details
       ''ScheduleKeyDeletion'' (schedule_key_deletion_params P S params) c observation"

definition schedule_key_deletion_call :: "schedule_key_deletion_input \<Rightarrow> pydict" where
  "schedule_key_deletion_call i = py_params
     [(''key_id'', opt_to_py PyStr (mskdi_key_id i))]
     [(''pending_window_in_days'', opt_to_py i32_to_py (mskdi_pending_window_in_days i))]"

subsection \<open>\<open>Sign\<close>\<close>

record sign_input =
  msi_key_id :: "string option"
  msi_message :: "byte list option"
  msi_message_type :: "string option"
  msi_grant_tokens :: "string list option"
  msi_signing_algorithm :: "string option"
  msi_dry_run :: "bool option"

definition sign_params :: "pyo3 \<Rightarrow> kms_types \<Rightarrow> pydict \<Rightarrow>
    sign_input pyresult" where
  "sign_params P S params =
     and_then (op_param P ''kms'' ''Sign'' params ''key_id'' ''str'' (string_from_py P)) (\<lambda>key_id.
     and_then (op_param P ''kms'' ''Sign'' params ''message'' ''bytes'' (blob_from_py P)) (\<lambda>message.
     and_then (op_param P ''kms'' ''Sign'' params ''message_type'' ''str (MessageType)'' (enum_from_py P)) (\<lambda>message_type.
     and_then (op_param P ''kms'' ''Sign'' params ''grant_tokens'' ''sequence'' (seq_from_py P ''str'' (string_from_py P))) (\<lambda>grant_tokens.
     and_then (op_param P ''kms'' ''Sign'' params ''signing_algorithm'' ''str (SigningAlgorithmSpec)'' (enum_from_py P)) (\<lambda>signing_algorithm.
     and_then (op_param P ''kms'' ''Sign'' params ''dry_run'' ''bool'' (bool_from_py P)) (\<lambda>dry_run.
     Inr \<lparr>msi_key_id = key_id,
       msi_message = message,
       msi_message_type = message_type,
       msi_grant_tokens = grant_tokens,
       msi_signing_algorithm = signing_algorithm,
       msi_dry_run = dry_run\<rparr>))))))"

definition sign :: "('cfg, 'client) service_env \<Rightarrow> pyo3 \<Rightarrow> kms_types \<Rightarrow> unit pyresult \<Rightarrow> bool \<Rightarrow>
    ('client \<Rightarrow> sign_input \<Rightarrow> trip list \<times> (('e, http_response) sdk_error + sign_output)) \<Rightarrow>
    'client client_handle \<Rightarrow> pydict \<Rightarrow> pydict option \<Rightarrow>
    (sign_output pyresult \<times> 'client client_handle \<times> pydict option) option" where
  "sign E P S bridge interrupted send c params observation =
     execute E bridge interrupted send no_details
       ''Sign'' (sign_params P S params) c observation"

definition sign_call :: "sign_input \<Rightarrow> pydict" where
  "sign_call i = py_params
     [(''key_id'', opt_to_py PyStr (msi_key_id i)),
      (''message'', opt_to_py PyBytes (msi_message i)),
      (''signing_algorithm'', opt_to_py PyStr (msi_signing_algorithm i))]
     [(''message_type'', opt_to_py PyStr (msi_message_type i)),
      (''grant_tokens'', opt_to_py (seq_to_py PyStr) (msi_grant_tokens i)),
      (''dry_run'', opt_to_py PyBool (msi_dry_run i))]"

subsection \<open>\<open>TagResource\<close>\<close>

record kms_tag_resource_input =
  mktri_key_id :: "string option"
  mktri_tags :: "kms_tag list option"

definition kms_tag_resource_params :: "pyo3 \<Rightarrow> kms_types \<Rightarrow> pydict \<Rightarrow>
    kms_tag_resource_input pyresult" where
  "kms_tag_resource_params P S params =
     and_then (op_param P ''kms'' ''TagResource'' params ''key_id'' ''str'' (string_from_py P)) (\<lambda>key_id.
     and_then (op_param P ''kms'' ''TagResource'' params ''tags'' ''sequence'' (seq_from_py P ''dict (Tag)'' (kms_tag_from_py P S))) (\<lambda>tags.
     Inr \<lparr>mktri_key_id = key_id,
       mktri_tags = tags\<rparr>))"

definition kms_tag_resource :: "('cfg, 'client) service_env \<Rightarrow> pyo3 \<Rightarrow> kms_types \<Rightarrow> unit pyresult \<Rightarrow> bool \<Rightarrow>
    ('client \<Rightarrow> kms_tag_resource_input \<Rightarrow> trip list \<times> (('e, http_response) sdk_error + unit)) \<Rightarrow>
    'client client_handle \<Rightarrow> pydict \<Rightarrow> pydict option \<Rightarrow>
    (unit pyresult \<times> 'client client_handle \<times> pydict option) option" where
  "kms_tag_resource E P S bridge interrupted send c params observation =
     execute E bridge interrupted send no_details
       ''TagResource'' (kms_tag_resource_params P S params) c observation"

definition kms_tag_resource_call :: "kms_tag_resource_input \<Rightarrow> pydict" where
  "kms_tag_resource_call i = py_params
     [(''key_id'', opt_to_py PyStr (mktri_key_id i)),
      (''tags'', opt_to_py (seq_to_py kms_tag_to_py) (mktri_tags i))]
     []"

subsection \<open>\<open>UntagResource\<close>\<close>

record kms_untag_resource_input =
  mkuri_key_id :: "string option"
  mkuri_tag_keys :: "string list option"

definition kms_untag_resource_params :: "pyo3 \<Rightarrow> kms_types \<Rightarrow> pydict \<Rightarrow>
    kms_untag_resource_input pyresult" where
  "kms_untag_resource_params P S params =
     and_then (op_param P ''kms'' ''UntagResource'' params ''key_id'' ''str'' (string_from_py P)) (\<lambda>key_id.
     and_then (op_param P ''kms'' ''UntagResource'' params ''tag_keys'' ''sequence'' (seq_from_py P ''str'' (string_from_py P))) (\<lambda>tag_keys.
     Inr \<lparr>mkuri_key_id = key_id,
       mkuri_tag_keys = tag_keys\<rparr>))"

definition kms_untag_resource :: "('cfg, 'client) service_env \<Rightarrow> pyo3 \<Rightarrow> kms_types \<Rightarrow> unit pyresult \<Rightarrow> bool \<Rightarrow>
    ('client \<Rightarrow> kms_untag_resource_input \<Rightarrow> trip list \<times> (('e, http_response) sdk_error + unit)) \<Rightarrow>
    'client client_handle \<Rightarrow> pydict \<Rightarrow> pydict option \<Rightarrow>
    (unit pyresult \<times> 'client client_handle \<times> pydict option) option" where
  "kms_untag_resource E P S bridge interrupted send c params observation =
     execute E bridge interrupted send no_details
       ''UntagResource'' (kms_untag_resource_params P S params) c observation"

definition kms_untag_resource_call :: "kms_untag_resource_input \<Rightarrow> pydict" where
  "kms_untag_resource_call i = py_params
     [(''key_id'', opt_to_py PyStr (mkuri_key_id i)),
      (''tag_keys'', opt_to_py (seq_to_py PyStr) (mkuri_tag_keys i))]
     []"

subsection \<open>\<open>UpdateAlias\<close>\<close>

record update_alias_input =
  muai_alias_name :: "string option"
  muai_target_key_id :: "string option"

definition update_alias_params :: "pyo3 \<Rightarrow> kms_types \<Rightarrow> pydict \<Rightarrow>
    update_alias_input pyresult" where
  "update_alias_params P S params =
     and_then (op_param P ''kms'' ''UpdateAlias'' params ''alias_name'' ''str'' (string_from_py P)) (\<lambda>alias_name.
     and_then (op_param P ''kms'' ''UpdateAlias'' params ''target_key_id'' ''str'' (string_from_py P)) (\<lambda>target_key_id.
     Inr \<lparr>muai_alias_name = alias_name,
       muai_target_key_id = target_key_id\<rparr>))"

definition update_alias :: "('cfg, 'client) service_env \<Rightarrow> pyo3 \<Rightarrow> kms_types \<Rightarrow> unit pyresult \<Rightarrow> bool \<Rightarrow>
    ('client \<Rightarrow> update_alias_input \<Rightarrow> trip list \<times> (('e, http_response) sdk_error + unit)) \<Rightarrow>
    'client client_handle \<Rightarrow> pydict \<Rightarrow> pydict option \<Rightarrow>
    (unit pyresult \<times> 'client client_handle \<times> pydict option) option" where
  "update_alias E P S bridge interrupted send c params observation =
     execute E bridge interrupted send no_details
       ''UpdateAlias'' (update_alias_params P S params) c observation"

definition update_alias_call :: "update_alias_input \<Rightarrow> pydict" where
  "update_alias_call i = py_params
     [(''alias_name'', opt_to_py PyStr (muai_alias_name i)),
      (''target_key_id'', opt_to_py PyStr (muai_target_key_id i))]
     []"

subsection \<open>\<open>UpdateCustomKeyStore\<close>\<close>

record update_custom_key_store_input =
  mucksi_custom_key_store_id :: "string option"
  mucksi_new_custom_key_store_name :: "string option"
  mucksi_key_store_password :: "string option"
  mucksi_cloud_hsm_cluster_id :: "string option"
  mucksi_xks_proxy_uri_endpoint :: "string option"
  mucksi_xks_proxy_uri_path :: "string option"
  mucksi_xks_proxy_vpc_endpoint_service_name :: "string option"
  mucksi_xks_proxy_vpc_endpoint_service_owner :: "string option"
  mucksi_xks_proxy_authentication_credential :: "xks_proxy_authentication_credential_type option"
  mucksi_xks_proxy_connectivity :: "string option"

definition update_custom_key_store_params_1 :: "pyo3 \<Rightarrow> kms_types \<Rightarrow> pydict \<Rightarrow>
    (string option \<times> string option \<times> string option \<times> string option \<times> string option) pyresult" where
  "update_custom_key_store_params_1 P S params =
     and_then (op_param P ''kms'' ''UpdateCustomKeyStore'' params ''custom_key_store_id'' ''str'' (string_from_py P)) (\<lambda>custom_key_store_id.
     and_then (op_param P ''kms'' ''UpdateCustomKeyStore'' params ''new_custom_key_store_name'' ''str'' (string_from_py P)) (\<lambda>new_custom_key_store_name.
     and_then (op_param P ''kms'' ''UpdateCustomKeyStore'' params ''key_store_password'' ''str'' (string_from_py P)) (\<lambda>key_store_password.
     and_then (op_param P ''kms'' ''UpdateCustomKeyStore'' params ''cloud_hsm_cluster_id'' ''str'' (string_from_py P)) (\<lambda>cloud_hsm_cluster_id.
     and_then (op_param P ''kms'' ''UpdateCustomKeyStore'' params ''xks_proxy_uri_endpoint'' ''str'' (string_from_py P)) (\<lambda>xks_proxy_uri_endpoint.
     Inr (custom_key_store_id, new_custom_key_store_name, key_store_password, cloud_hsm_cluster_id, xks_proxy_uri_endpoint))))))"

definition update_custom_key_store_params_2 :: "pyo3 \<Rightarrow> kms_types \<Rightarrow> pydict \<Rightarrow>
    (string option \<times> string option \<times> string option \<times> xks_proxy_authentication_credential_type option \<times> string option) pyresult" where
  "update_custom_key_store_params_2 P S params =
     and_then (op_param P ''kms'' ''UpdateCustomKeyStore'' params ''xks_proxy_uri_path'' ''str'' (string_from_py P)) (\<lambda>xks_proxy_uri_path.
     and_then (op_param P ''kms'' ''UpdateCustomKeyStore'' params ''xks_proxy_vpc_endpoint_service_name'' ''str'' (string_from_py P)) (\<lambda>xks_proxy_vpc_endpoint_service_name.
     and_then (op_param P ''kms'' ''UpdateCustomKeyStore'' params ''xks_proxy_vpc_endpoint_service_owner'' ''str'' (string_from_py P)) (\<lambda>xks_proxy_vpc_endpoint_service_owner.
     and_then (op_param P ''kms'' ''UpdateCustomKeyStore'' params ''xks_proxy_authentication_credential'' ''dict (XksProxyAuthenticationCredentialType)'' (xks_proxy_authentication_credential_type_from_py P S)) (\<lambda>xks_proxy_authentication_credential.
     and_then (op_param P ''kms'' ''UpdateCustomKeyStore'' params ''xks_proxy_connectivity'' ''str (XksProxyConnectivityType)'' (enum_from_py P)) (\<lambda>xks_proxy_connectivity.
     Inr (xks_proxy_uri_path, xks_proxy_vpc_endpoint_service_name, xks_proxy_vpc_endpoint_service_owner, xks_proxy_authentication_credential, xks_proxy_connectivity))))))"

definition update_custom_key_store_params :: "pyo3 \<Rightarrow> kms_types \<Rightarrow> pydict \<Rightarrow>
    update_custom_key_store_input pyresult" where
  "update_custom_key_store_params P S params =
     and_then (update_custom_key_store_params_1 P S params) (\<lambda>(custom_key_store_id, new_custom_key_store_name, key_store_password, cloud_hsm_cluster_id, xks_proxy_uri_endpoint).
     and_then (update_custom_key_store_params_2 P S params) (\<lambda>(xks_proxy_uri_path, xks_proxy_vpc_endpoint_service_name, xks_proxy_vpc_endpoint_service_owner, xks_proxy_authentication_credential, xks_proxy_connectivity).
     Inr \<lparr>mucksi_custom_key_store_id = custom_key_store_id,
       mucksi_new_custom_key_store_name = new_custom_key_store_name,
       mucksi_key_store_password = key_store_password,
       mucksi_cloud_hsm_cluster_id = cloud_hsm_cluster_id,
       mucksi_xks_proxy_uri_endpoint = xks_proxy_uri_endpoint,
       mucksi_xks_proxy_uri_path = xks_proxy_uri_path,
       mucksi_xks_proxy_vpc_endpoint_service_name = xks_proxy_vpc_endpoint_service_name,
       mucksi_xks_proxy_vpc_endpoint_service_owner = xks_proxy_vpc_endpoint_service_owner,
       mucksi_xks_proxy_authentication_credential = xks_proxy_authentication_credential,
       mucksi_xks_proxy_connectivity = xks_proxy_connectivity\<rparr>))"

definition update_custom_key_store :: "('cfg, 'client) service_env \<Rightarrow> pyo3 \<Rightarrow> kms_types \<Rightarrow> unit pyresult \<Rightarrow> bool \<Rightarrow>
    ('client \<Rightarrow> update_custom_key_store_input \<Rightarrow> trip list \<times> (('e, http_response) sdk_error + update_custom_key_store_output)) \<Rightarrow>
    'client client_handle \<Rightarrow> pydict \<Rightarrow> pydict option \<Rightarrow>
    (update_custom_key_store_output pyresult \<times> 'client client_handle \<times> pydict option) option" where
  "update_custom_key_store E P S bridge interrupted send c params observation =
     execute E bridge interrupted send no_details
       ''UpdateCustomKeyStore'' (update_custom_key_store_params P S params) c observation"

definition update_custom_key_store_call :: "update_custom_key_store_input \<Rightarrow> pydict" where
  "update_custom_key_store_call i = py_params
     [(''custom_key_store_id'', opt_to_py PyStr (mucksi_custom_key_store_id i))]
     [(''new_custom_key_store_name'', opt_to_py PyStr (mucksi_new_custom_key_store_name i)),
      (''key_store_password'', opt_to_py PyStr (mucksi_key_store_password i)),
      (''cloud_hsm_cluster_id'', opt_to_py PyStr (mucksi_cloud_hsm_cluster_id i)),
      (''xks_proxy_uri_endpoint'', opt_to_py PyStr (mucksi_xks_proxy_uri_endpoint i)),
      (''xks_proxy_uri_path'', opt_to_py PyStr (mucksi_xks_proxy_uri_path i)),
      (''xks_proxy_vpc_endpoint_service_name'', opt_to_py PyStr (mucksi_xks_proxy_vpc_endpoint_service_name i)),
      (''xks_proxy_vpc_endpoint_service_owner'', opt_to_py PyStr (mucksi_xks_proxy_vpc_endpoint_service_owner i)),
      (''xks_proxy_authentication_credential'', opt_to_py xks_proxy_authentication_credential_type_to_py (mucksi_xks_proxy_authentication_credential i)),
      (''xks_proxy_connectivity'', opt_to_py PyStr (mucksi_xks_proxy_connectivity i))]"

subsection \<open>\<open>UpdateKeyDescription\<close>\<close>

record update_key_description_input =
  mukdi_key_id :: "string option"
  mukdi_description :: "string option"

definition update_key_description_params :: "pyo3 \<Rightarrow> kms_types \<Rightarrow> pydict \<Rightarrow>
    update_key_description_input pyresult" where
  "update_key_description_params P S params =
     and_then (op_param P ''kms'' ''UpdateKeyDescription'' params ''key_id'' ''str'' (string_from_py P)) (\<lambda>key_id.
     and_then (op_param P ''kms'' ''UpdateKeyDescription'' params ''description'' ''str'' (string_from_py P)) (\<lambda>description.
     Inr \<lparr>mukdi_key_id = key_id,
       mukdi_description = description\<rparr>))"

definition update_key_description :: "('cfg, 'client) service_env \<Rightarrow> pyo3 \<Rightarrow> kms_types \<Rightarrow> unit pyresult \<Rightarrow> bool \<Rightarrow>
    ('client \<Rightarrow> update_key_description_input \<Rightarrow> trip list \<times> (('e, http_response) sdk_error + unit)) \<Rightarrow>
    'client client_handle \<Rightarrow> pydict \<Rightarrow> pydict option \<Rightarrow>
    (unit pyresult \<times> 'client client_handle \<times> pydict option) option" where
  "update_key_description E P S bridge interrupted send c params observation =
     execute E bridge interrupted send no_details
       ''UpdateKeyDescription'' (update_key_description_params P S params) c observation"

definition update_key_description_call :: "update_key_description_input \<Rightarrow> pydict" where
  "update_key_description_call i = py_params
     [(''key_id'', opt_to_py PyStr (mukdi_key_id i)),
      (''description'', opt_to_py PyStr (mukdi_description i))]
     []"

subsection \<open>\<open>UpdatePrimaryRegion\<close>\<close>

record update_primary_region_input =
  mupri_key_id :: "string option"
  mupri_primary_region :: "string option"

definition update_primary_region_params :: "pyo3 \<Rightarrow> kms_types \<Rightarrow> pydict \<Rightarrow>
    update_primary_region_input pyresult" where
  "update_primary_region_params P S params =
     and_then (op_param P ''kms'' ''UpdatePrimaryRegion'' params ''key_id'' ''str'' (string_from_py P)) (\<lambda>key_id.
     and_then (op_param P ''kms'' ''UpdatePrimaryRegion'' params ''primary_region'' ''str'' (string_from_py P)) (\<lambda>primary_region.
     Inr \<lparr>mupri_key_id = key_id,
       mupri_primary_region = primary_region\<rparr>))"

definition update_primary_region :: "('cfg, 'client) service_env \<Rightarrow> pyo3 \<Rightarrow> kms_types \<Rightarrow> unit pyresult \<Rightarrow> bool \<Rightarrow>
    ('client \<Rightarrow> update_primary_region_input \<Rightarrow> trip list \<times> (('e, http_response) sdk_error + unit)) \<Rightarrow>
    'client client_handle \<Rightarrow> pydict \<Rightarrow> pydict option \<Rightarrow>
    (unit pyresult \<times> 'client client_handle \<times> pydict option) option" where
  "update_primary_region E P S bridge interrupted send c params observation =
     execute E bridge interrupted send no_details
       ''UpdatePrimaryRegion'' (update_primary_region_params P S params) c observation"

definition update_primary_region_call :: "update_primary_region_input \<Rightarrow> pydict" where
  "update_primary_region_call i = py_params
     [(''key_id'', opt_to_py PyStr (mupri_key_id i)),
      (''primary_region'', opt_to_py PyStr (mupri_primary_region i))]
     []"

subsection \<open>\<open>Verify\<close>\<close>

record verify_input =
  mvi_key_id :: "string option"
  mvi_message :: "byte list option"
  mvi_message_type :: "string option"
  mvi_signature :: "byte list option"
  mvi_signing_algorithm :: "string option"
  mvi_grant_tokens :: "string list option"
  mvi_dry_run :: "bool option"

definition verify_params_1 :: "pyo3 \<Rightarrow> kms_types \<Rightarrow> pydict \<Rightarrow>
    (string option \<times> byte list option \<times> string option \<times> byte list option) pyresult" where
  "verify_params_1 P S params =
     and_then (op_param P ''kms'' ''Verify'' params ''key_id'' ''str'' (string_from_py P)) (\<lambda>key_id.
     and_then (op_param P ''kms'' ''Verify'' params ''message'' ''bytes'' (blob_from_py P)) (\<lambda>message.
     and_then (op_param P ''kms'' ''Verify'' params ''message_type'' ''str (MessageType)'' (enum_from_py P)) (\<lambda>message_type.
     and_then (op_param P ''kms'' ''Verify'' params ''signature'' ''bytes'' (blob_from_py P)) (\<lambda>signature.
     Inr (key_id, message, message_type, signature)))))"

definition verify_params_2 :: "pyo3 \<Rightarrow> kms_types \<Rightarrow> pydict \<Rightarrow>
    (string option \<times> string list option \<times> bool option) pyresult" where
  "verify_params_2 P S params =
     and_then (op_param P ''kms'' ''Verify'' params ''signing_algorithm'' ''str (SigningAlgorithmSpec)'' (enum_from_py P)) (\<lambda>signing_algorithm.
     and_then (op_param P ''kms'' ''Verify'' params ''grant_tokens'' ''sequence'' (seq_from_py P ''str'' (string_from_py P))) (\<lambda>grant_tokens.
     and_then (op_param P ''kms'' ''Verify'' params ''dry_run'' ''bool'' (bool_from_py P)) (\<lambda>dry_run.
     Inr (signing_algorithm, grant_tokens, dry_run))))"

definition verify_params :: "pyo3 \<Rightarrow> kms_types \<Rightarrow> pydict \<Rightarrow>
    verify_input pyresult" where
  "verify_params P S params =
     and_then (verify_params_1 P S params) (\<lambda>(key_id, message, message_type, signature).
     and_then (verify_params_2 P S params) (\<lambda>(signing_algorithm, grant_tokens, dry_run).
     Inr \<lparr>mvi_key_id = key_id,
       mvi_message = message,
       mvi_message_type = message_type,
       mvi_signature = signature,
       mvi_signing_algorithm = signing_algorithm,
       mvi_grant_tokens = grant_tokens,
       mvi_dry_run = dry_run\<rparr>))"

definition verify :: "('cfg, 'client) service_env \<Rightarrow> pyo3 \<Rightarrow> kms_types \<Rightarrow> unit pyresult \<Rightarrow> bool \<Rightarrow>
    ('client \<Rightarrow> verify_input \<Rightarrow> trip list \<times> (('e, http_response) sdk_error + verify_output)) \<Rightarrow>
    'client client_handle \<Rightarrow> pydict \<Rightarrow> pydict option \<Rightarrow>
    (verify_output pyresult \<times> 'client client_handle \<times> pydict option) option" where
  "verify E P S bridge interrupted send c params observation =
     execute E bridge interrupted send no_details
       ''Verify'' (verify_params P S params) c observation"

definition verify_call :: "verify_input \<Rightarrow> pydict" where
  "verify_call i = py_params
     [(''key_id'', opt_to_py PyStr (mvi_key_id i)),
      (''message'', opt_to_py PyBytes (mvi_message i)),
      (''signature'', opt_to_py PyBytes (mvi_signature i)),
      (''signing_algorithm'', opt_to_py PyStr (mvi_signing_algorithm i))]
     [(''message_type'', opt_to_py PyStr (mvi_message_type i)),
      (''grant_tokens'', opt_to_py (seq_to_py PyStr) (mvi_grant_tokens i)),
      (''dry_run'', opt_to_py PyBool (mvi_dry_run i))]"

subsection \<open>\<open>VerifyMac\<close>\<close>

record verify_mac_input =
  mvmi_message :: "byte list option"
  mvmi_key_id :: "string option"
  mvmi_mac_algorithm :: "string option"
  mvmi_mac :: "byte list option"
  mvmi_grant_tokens :: "string list option"
  mvmi_dry_run :: "bool option"

definition verify_mac_params :: "pyo3 \<Rightarrow> kms_types \<Rightarrow> pydict \<Rightarrow>
    verify_mac_input pyresult" where
  "verify_mac_params P S params =
     and_then (op_param P ''kms'' ''VerifyMac'' params ''message'' ''bytes'' (blob_from_py P)) (\<lambda>message.
     and_then (op_param P ''kms'' ''VerifyMac'' params ''key_id'' ''str'' (string_from_py P)) (\<lambda>key_id.
     and_then (op_param P ''kms'' ''VerifyMac'' params ''mac_algorithm'' ''str (MacAlgorithmSpec)'' (enum_from_py P)) (\<lambda>mac_algorithm.
     and_then (op_param P ''kms'' ''VerifyMac'' params ''mac'' ''bytes'' (blob_from_py P)) (\<lambda>mac.
     and_then (op_param P ''kms'' ''VerifyMac'' params ''grant_tokens'' ''sequence'' (seq_from_py P ''str'' (string_from_py P))) (\<lambda>grant_tokens.
     and_then (op_param P ''kms'' ''VerifyMac'' params ''dry_run'' ''bool'' (bool_from_py P)) (\<lambda>dry_run.
     Inr \<lparr>mvmi_message = message,
       mvmi_key_id = key_id,
       mvmi_mac_algorithm = mac_algorithm,
       mvmi_mac = mac,
       mvmi_grant_tokens = grant_tokens,
       mvmi_dry_run = dry_run\<rparr>))))))"

definition verify_mac :: "('cfg, 'client) service_env \<Rightarrow> pyo3 \<Rightarrow> kms_types \<Rightarrow> unit pyresult \<Rightarrow> bool \<Rightarrow>
    ('client \<Rightarrow> verify_mac_input \<Rightarrow> trip list \<times> (('e, http_response) sdk_error + verify_mac_output)) \<Rightarrow>
    'client client_handle \<Rightarrow> pydict \<Rightarrow> pydict option \<Rightarrow>
    (verify_mac_output pyresult \<times> 'client client_handle \<times> pydict option) option" where
  "verify_mac E P S bridge interrupted send c params observation =
     execute E bridge interrupted send no_details
       ''VerifyMac'' (verify_mac_params P S params) c observation"

definition verify_mac_call :: "verify_mac_input \<Rightarrow> pydict" where
  "verify_mac_call i = py_params
     [(''message'', opt_to_py PyBytes (mvmi_message i)),
      (''key_id'', opt_to_py PyStr (mvmi_key_id i)),
      (''mac_algorithm'', opt_to_py PyStr (mvmi_mac_algorithm i)),
      (''mac'', opt_to_py PyBytes (mvmi_mac i))]
     [(''grant_tokens'', opt_to_py (seq_to_py PyStr) (mvmi_grant_tokens i)),
      (''dry_run'', opt_to_py PyBool (mvmi_dry_run i))]"

section \<open>Parameters arrive\<close>

context kms_conversions
begin

lemma cancel_key_deletion_delivered: "cancel_key_deletion_params P S (cancel_key_deletion_call i) = Inr i"
proof -
  have s: "str_keys (cancel_key_deletion_call i)" by (simp add: cancel_key_deletion_call_def)
  have a: "argument (cancel_key_deletion_call i) ''key_id'' = opt_to_py PyStr (mckdi_key_id i)"
    unfolding cancel_key_deletion_call_def by (simp_all add: argument_py_params)
  show ?thesis
    unfolding cancel_key_deletion_params_def
    by (simp add: param_reads [OF reads_str s a])
qed

lemma connect_custom_key_store_delivered: "connect_custom_key_store_params P S (connect_custom_key_store_call i) = Inr i"
proof -
  have s: "str_keys (connect_custom_key_store_call i)" by (simp add: connect_custom_key_store_call_def)
  have a: "argument (connect_custom_key_store_call i) ''custom_key_store_id'' = opt_to_py PyStr (mccksi_custom_key_store_id i)"
    unfolding connect_custom_key_store_call_def by (simp_all add: argument_py_params)
  show ?thesis
    unfolding connect_custom_key_store_params_def
    by (simp add: param_reads [OF reads_str s a])
qed

lemma create_alias_delivered: "create_alias_params P S (create_alias_call i) = Inr i"
proof -
  have s: "str_keys (create_alias_call i)" by (simp add: create_alias_call_def)
  have a: "argument (create_alias_call i) ''alias_name'' = opt_to_py PyStr (mcai_alias_name i)"
    "argument (create_alias_call i) ''target_key_id'' = opt_to_py PyStr (mcai_target_key_id i)"
    unfolding create_alias_call_def by (simp_all add: argument_py_params)
  show ?thesis
    unfolding create_alias_params_def
    by (simp add: param_reads [OF reads_str s a(1)]
        param_reads [OF reads_str s a(2)])
qed

lemma create_custom_key_store_delivered: "create_custom_key_store_params P S (create_custom_key_store_call i) = Inr i"
proof -
  have s: "str_keys (create_custom_key_store_call i)" by (simp add: create_custom_key_store_call_def)
  note p = arguments [OF create_custom_key_store_call_def [of i], simplified]
  have a: "argument (create_custom_key_store_call i) ''custom_key_store_name'' = opt_to_py PyStr (mccksi2_custom_key_store_name i)"
    "argument (create_custom_key_store_call i) ''cloud_hsm_cluster_id'' = opt_to_py PyStr (mccksi2_cloud_hsm_cluster_id i)"
    "argument (create_custom_key_store_call i) ''trust_anchor_certificate'' = opt_to_py PyStr (mccksi2_trust_anchor_certificate i)"
    "argument (create_custom_key_store_call i) ''key_store_password'' = opt_to_py PyStr (mccksi2_key_store_password i)"
    "argument (create_custom_key_store_call i) ''custom_key_store_type'' = opt_to_py PyStr (mccksi2_custom_key_store_type i)"
    "argument (create_custom_key_store_call i) ''xks_proxy_uri_endpoint'' = opt_to_py PyStr (mccksi2_xks_proxy_uri_endpoint i)"
    "argument (create_custom_key_store_call i) ''xks_proxy_uri_path'' = opt_to_py PyStr (mccksi2_xks_proxy_uri_path i)"
    "argument (create_custom_key_store_call i) ''xks_proxy_vpc_endpoint_service_name'' = opt_to_py PyStr (mccksi2_xks_proxy_vpc_endpoint_service_name i)"
    "argument (create_custom_key_store_call i) ''xks_proxy_vpc_endpoint_service_owner'' = opt_to_py PyStr (mccksi2_xks_proxy_vpc_endpoint_service_owner i)"
    "argument (create_custom_key_store_call i) ''xks_proxy_authentication_credential'' = opt_to_py xks_proxy_authentication_credential_type_to_py (mccksi2_xks_proxy_authentication_credential i)"
    "argument (create_custom_key_store_call i) ''xks_proxy_connectivity'' = opt_to_py PyStr (mccksi2_xks_proxy_connectivity i)"
    by (simp_all only: p)
  show ?thesis
    unfolding create_custom_key_store_params_def create_custom_key_store_params_1_def create_custom_key_store_params_2_def
    by (simp add: param_reads [OF reads_str s a(1)]
        param_reads [OF reads_str s a(2)]
        param_reads [OF reads_str s a(3)]
        param_reads [OF reads_str s a(4)]
        param_reads [OF reads_enum s a(5)]
        param_reads [OF reads_str s a(6)]
        param_reads [OF reads_str s a(7)]
        param_reads [OF reads_str s a(8)]
        param_reads [OF reads_str s a(9)]
        param_reads [OF xks_proxy_authentication_credential_type_reads s a(10)]
        param_reads [OF reads_enum s a(11)])
qed

lemma create_grant_delivered: "create_grant_params P S (create_grant_call order i) = Inr i"
proof -
  have s: "str_keys (create_grant_call order i)" by (simp add: create_grant_call_def)
  note p = arguments [OF create_grant_call_def [of order i], simplified]
  have a: "argument (create_grant_call order i) ''key_id'' = opt_to_py PyStr (mcgi_key_id i)"
    "argument (create_grant_call order i) ''grantee_principal'' = opt_to_py PyStr (mcgi_grantee_principal i)"
    "argument (create_grant_call order i) ''retiring_principal'' = opt_to_py PyStr (mcgi_retiring_principal i)"
    "argument (create_grant_call order i) ''operations'' = opt_to_py (seq_to_py PyStr) (mcgi_operations i)"
    "argument (create_grant_call order i) ''constraints'' = opt_to_py (grant_constraints_to_py order) (mcgi_constraints i)"
    "argument (create_grant_call order i) ''grant_tokens'' = opt_to_py (seq_to_py PyStr) (mcgi_grant_tokens i)"
    "argument (create_grant_call order i) ''name'' = opt_to_py PyStr (mcgi_name i)"
    "argument (create_grant_call order i) ''dry_run'' = opt_to_py PyBool (mcgi_dry_run i)"
    "argument (create_grant_call order i) ''grantee_service_principal'' = opt_to_py PyStr (mcgi_grantee_service_principal i)"
    "argument (create_grant_call order i) ''retiring_service_principal'' = opt_to_py PyStr (mcgi_retiring_service_principal i)"
    by (simp_all only: p)
  show ?thesis
    unfolding create_grant_params_def create_grant_params_1_def create_grant_params_2_def
    by (simp add: param_reads [OF reads_str s a(1)]
        param_reads [OF reads_str s a(2)]
        param_reads [OF reads_str s a(3)]
        param_reads [OF reads_seq [OF reads_enum] s a(4)]
        param_reads [OF grant_constraints_reads s a(5)]
        param_reads [OF reads_seq [OF reads_str] s a(6)]
        param_reads [OF reads_str s a(7)]
        param_reads [OF reads_bool s a(8)]
        param_reads [OF reads_str s a(9)]
        param_reads [OF reads_str s a(10)])
qed

lemma create_key_delivered: "create_key_params P S (create_key_call i) = Inr i"
proof -
  have s: "str_keys (create_key_call i)" by (simp add: create_key_call_def)
  note p = arguments [OF create_key_call_def [of i], simplified]
  have a: "argument (create_key_call i) ''policy'' = opt_to_py PyStr (mcki_policy i)"
    "argument (create_key_call i) ''description'' = opt_to_py PyStr (mcki_description i)"
    "argument (create_key_call i) ''key_usage'' = opt_to_py PyStr (mcki_key_usage i)"
    "argument (create_key_call i) ''customer_master_key_spec'' = opt_to_py PyStr (mcki_customer_master_key_spec i)"
    "argument (create_key_call i) ''key_spec'' = opt_to_py PyStr (mcki_key_spec i)"
    "argument (create_key_call i) ''origin'' = opt_to_py PyStr (mcki_origin i)"
    "argument (create_key_call i) ''custom_key_store_id'' = opt_to_py PyStr (mcki_custom_key_store_id i)"
    "argument (create_key_call i) ''bypass_policy_lockout_safety_check'' = opt_to_py PyBool (mcki_bypass_policy_lockout_safety_check i)"
    "argument (create_key_call i) ''tags'' = opt_to_py (seq_to_py kms_tag_to_py) (mcki_tags i)"
    "argument (create_key_call i) ''multi_region'' = opt_to_py PyBool (mcki_multi_region i)"
    "argument (create_key_call i) ''xks_key_id'' = opt_to_py PyStr (mcki_xks_key_id i)"
    by (simp_all only: p)
  show ?thesis
    unfolding create_key_params_def create_key_params_1_def create_key_params_2_def
    by (simp add: param_reads [OF reads_str s a(1)]
        param_reads [OF reads_str s a(2)]
        param_reads [OF reads_enum s a(3)]
        param_reads [OF reads_enum s a(4)]
        param_reads [OF reads_enum s a(5)]
        param_reads [OF reads_enum s a(6)]
        param_reads [OF reads_str s a(7)]
        param_reads [OF reads_bool s a(8)]
        param_reads [OF reads_seq [OF kms_tag_reads] s a(9)]
        param_reads [OF reads_bool s a(10)]
        param_reads [OF reads_str s a(11)])
qed

lemma decrypt_delivered: "decrypt_params P S (decrypt_call order i) = Inr i"
proof -
  have s: "str_keys (decrypt_call order i)" by (simp add: decrypt_call_def)
  note p = arguments [OF decrypt_call_def [of order i], simplified]
  have a: "argument (decrypt_call order i) ''ciphertext_blob'' = opt_to_py PyBytes (mdi_ciphertext_blob i)"
    "argument (decrypt_call order i) ''encryption_context'' = opt_to_py (mapping_to_py order PyStr) (mdi_encryption_context i)"
    "argument (decrypt_call order i) ''grant_tokens'' = opt_to_py (seq_to_py PyStr) (mdi_grant_tokens i)"
    "argument (decrypt_call order i) ''key_id'' = opt_to_py PyStr (mdi_key_id i)"
    "argument (decrypt_call order i) ''encryption_algorithm'' = opt_to_py PyStr (mdi_encryption_algorithm i)"
    "argument (decrypt_call order i) ''recipient'' = opt_to_py recipient_info_to_py (mdi_recipient i)"
    "argument (decrypt_call order i) ''dry_run'' = opt_to_py PyBool (mdi_dry_run i)"
    "argument (decrypt_call order i) ''dry_run_modifiers'' = opt_to_py (seq_to_py PyStr) (mdi_dry_run_modifiers i)"
    by (simp_all only: p)
  show ?thesis
    unfolding decrypt_params_def decrypt_params_1_def decrypt_params_2_def
    by (simp add: param_reads [OF reads_blob s a(1)]
        param_reads [OF reads_map [OF order reads_str] s a(2)]
        param_reads [OF reads_seq [OF reads_str] s a(3)]
        param_reads [OF reads_str s a(4)]
        param_reads [OF reads_enum s a(5)]
        param_reads [OF recipient_info_reads s a(6)]
        param_reads [OF reads_bool s a(7)]
        param_reads [OF reads_seq [OF reads_enum] s a(8)])
qed

lemma delete_alias_delivered: "delete_alias_params P S (delete_alias_call i) = Inr i"
proof -
  have s: "str_keys (delete_alias_call i)" by (simp add: delete_alias_call_def)
  have a: "argument (delete_alias_call i) ''alias_name'' = opt_to_py PyStr (mdai_alias_name i)"
    unfolding delete_alias_call_def by (simp_all add: argument_py_params)
  show ?thesis
    unfolding delete_alias_params_def
    by (simp add: param_reads [OF reads_str s a])
qed

lemma delete_custom_key_store_delivered: "delete_custom_key_store_params P S (delete_custom_key_store_call i) = Inr i"
proof -
  have s: "str_keys (delete_custom_key_store_call i)" by (simp add: delete_custom_key_store_call_def)
  have a: "argument (delete_custom_key_store_call i) ''custom_key_store_id'' = opt_to_py PyStr (mdcksi_custom_key_store_id i)"
    unfolding delete_custom_key_store_call_def by (simp_all add: argument_py_params)
  show ?thesis
    unfolding delete_custom_key_store_params_def
    by (simp add: param_reads [OF reads_str s a])
qed

lemma delete_imported_key_material_delivered: "delete_imported_key_material_params P S (delete_imported_key_material_call i) = Inr i"
proof -
  have s: "str_keys (delete_imported_key_material_call i)" by (simp add: delete_imported_key_material_call_def)
  have a: "argument (delete_imported_key_material_call i) ''key_id'' = opt_to_py PyStr (mdikmi_key_id i)"
    "argument (delete_imported_key_material_call i) ''key_material_id'' = opt_to_py PyStr (mdikmi_key_material_id i)"
    unfolding delete_imported_key_material_call_def by (simp_all add: argument_py_params)
  show ?thesis
    unfolding delete_imported_key_material_params_def
    by (simp add: param_reads [OF reads_str s a(1)]
        param_reads [OF reads_str s a(2)])
qed

lemma derive_shared_secret_delivered: "derive_shared_secret_params P S (derive_shared_secret_call i) = Inr i"
proof -
  have s: "str_keys (derive_shared_secret_call i)" by (simp add: derive_shared_secret_call_def)
  note p = arguments [OF derive_shared_secret_call_def [of i], simplified]
  have a: "argument (derive_shared_secret_call i) ''key_id'' = opt_to_py PyStr (mdssi_key_id i)"
    "argument (derive_shared_secret_call i) ''key_agreement_algorithm'' = opt_to_py PyStr (mdssi_key_agreement_algorithm i)"
    "argument (derive_shared_secret_call i) ''public_key'' = opt_to_py PyBytes (mdssi_public_key i)"
    "argument (derive_shared_secret_call i) ''grant_tokens'' = opt_to_py (seq_to_py PyStr) (mdssi_grant_tokens i)"
    "argument (derive_shared_secret_call i) ''dry_run'' = opt_to_py PyBool (mdssi_dry_run i)"
    "argument (derive_shared_secret_call i) ''recipient'' = opt_to_py recipient_info_to_py (mdssi_recipient i)"
    by (simp_all only: p)
  show ?thesis
    unfolding derive_shared_secret_params_def
    by (simp add: param_reads [OF reads_str s a(1)]
        param_reads [OF reads_enum s a(2)]
        param_reads [OF reads_blob s a(3)]
        param_reads [OF reads_seq [OF reads_str] s a(4)]
        param_reads [OF reads_bool s a(5)]
        param_reads [OF recipient_info_reads s a(6)])
qed

lemma describe_custom_key_stores_delivered: "describe_custom_key_stores_params P S (describe_custom_key_stores_call i) = Inr i"
proof -
  have s: "str_keys (describe_custom_key_stores_call i)" by (simp add: describe_custom_key_stores_call_def)
  note p = arguments [OF describe_custom_key_stores_call_def [of i], simplified]
  have a: "argument (describe_custom_key_stores_call i) ''custom_key_store_id'' = opt_to_py PyStr (mdcksi2_custom_key_store_id i)"
    "argument (describe_custom_key_stores_call i) ''custom_key_store_name'' = opt_to_py PyStr (mdcksi2_custom_key_store_name i)"
    "argument (describe_custom_key_stores_call i) ''limit'' = opt_to_py i32_to_py (mdcksi2_limit i)"
    "argument (describe_custom_key_stores_call i) ''marker'' = opt_to_py PyStr (mdcksi2_marker i)"
    by (simp_all only: p)
  show ?thesis
    unfolding describe_custom_key_stores_params_def
    by (simp add: param_reads [OF reads_str s a(1)]
        param_reads [OF reads_str s a(2)]
        param_reads [OF reads_i32 s a(3)]
        param_reads [OF reads_str s a(4)])
qed

lemma describe_key_delivered: "describe_key_params P S (describe_key_call i) = Inr i"
proof -
  have s: "str_keys (describe_key_call i)" by (simp add: describe_key_call_def)
  have a: "argument (describe_key_call i) ''key_id'' = opt_to_py PyStr (mdki_key_id i)"
    "argument (describe_key_call i) ''grant_tokens'' = opt_to_py (seq_to_py PyStr) (mdki_grant_tokens i)"
    unfolding describe_key_call_def by (simp_all add: argument_py_params)
  show ?thesis
    unfolding describe_key_params_def
    by (simp add: param_reads [OF reads_str s a(1)]
        param_reads [OF reads_seq [OF reads_str] s a(2)])
qed

lemma disable_key_delivered: "disable_key_params P S (disable_key_call i) = Inr i"
proof -
  have s: "str_keys (disable_key_call i)" by (simp add: disable_key_call_def)
  have a: "argument (disable_key_call i) ''key_id'' = opt_to_py PyStr (mdki2_key_id i)"
    unfolding disable_key_call_def by (simp_all add: argument_py_params)
  show ?thesis
    unfolding disable_key_params_def
    by (simp add: param_reads [OF reads_str s a])
qed

lemma disable_key_rotation_delivered: "disable_key_rotation_params P S (disable_key_rotation_call i) = Inr i"
proof -
  have s: "str_keys (disable_key_rotation_call i)" by (simp add: disable_key_rotation_call_def)
  have a: "argument (disable_key_rotation_call i) ''key_id'' = opt_to_py PyStr (mdkri_key_id i)"
    unfolding disable_key_rotation_call_def by (simp_all add: argument_py_params)
  show ?thesis
    unfolding disable_key_rotation_params_def
    by (simp add: param_reads [OF reads_str s a])
qed

lemma disconnect_custom_key_store_delivered: "disconnect_custom_key_store_params P S (disconnect_custom_key_store_call i) = Inr i"
proof -
  have s: "str_keys (disconnect_custom_key_store_call i)" by (simp add: disconnect_custom_key_store_call_def)
  have a: "argument (disconnect_custom_key_store_call i) ''custom_key_store_id'' = opt_to_py PyStr (mdcksi3_custom_key_store_id i)"
    unfolding disconnect_custom_key_store_call_def by (simp_all add: argument_py_params)
  show ?thesis
    unfolding disconnect_custom_key_store_params_def
    by (simp add: param_reads [OF reads_str s a])
qed

lemma enable_key_delivered: "enable_key_params P S (enable_key_call i) = Inr i"
proof -
  have s: "str_keys (enable_key_call i)" by (simp add: enable_key_call_def)
  have a: "argument (enable_key_call i) ''key_id'' = opt_to_py PyStr (meki_key_id i)"
    unfolding enable_key_call_def by (simp_all add: argument_py_params)
  show ?thesis
    unfolding enable_key_params_def
    by (simp add: param_reads [OF reads_str s a])
qed

lemma enable_key_rotation_delivered: "enable_key_rotation_params P S (enable_key_rotation_call i) = Inr i"
proof -
  have s: "str_keys (enable_key_rotation_call i)" by (simp add: enable_key_rotation_call_def)
  have a: "argument (enable_key_rotation_call i) ''key_id'' = opt_to_py PyStr (mekri_key_id i)"
    "argument (enable_key_rotation_call i) ''rotation_period_in_days'' = opt_to_py i32_to_py (mekri_rotation_period_in_days i)"
    unfolding enable_key_rotation_call_def by (simp_all add: argument_py_params)
  show ?thesis
    unfolding enable_key_rotation_params_def
    by (simp add: param_reads [OF reads_str s a(1)]
        param_reads [OF reads_i32 s a(2)])
qed

lemma encrypt_delivered: "encrypt_params P S (encrypt_call order i) = Inr i"
proof -
  have s: "str_keys (encrypt_call order i)" by (simp add: encrypt_call_def)
  note p = arguments [OF encrypt_call_def [of order i], simplified]
  have a: "argument (encrypt_call order i) ''key_id'' = opt_to_py PyStr (mei_key_id i)"
    "argument (encrypt_call order i) ''plaintext'' = opt_to_py PyBytes (mei_plaintext i)"
    "argument (encrypt_call order i) ''encryption_context'' = opt_to_py (mapping_to_py order PyStr) (mei_encryption_context i)"
    "argument (encrypt_call order i) ''grant_tokens'' = opt_to_py (seq_to_py PyStr) (mei_grant_tokens i)"
    "argument (encrypt_call order i) ''encryption_algorithm'' = opt_to_py PyStr (mei_encryption_algorithm i)"
    "argument (encrypt_call order i) ''dry_run'' = opt_to_py PyBool (mei_dry_run i)"
    by (simp_all only: p)
  show ?thesis
    unfolding encrypt_params_def encrypt_params_1_def encrypt_params_2_def
    by (simp add: param_reads [OF reads_str s a(1)]
        param_reads [OF reads_blob s a(2)]
        param_reads [OF reads_map [OF order reads_str] s a(3)]
        param_reads [OF reads_seq [OF reads_str] s a(4)]
        param_reads [OF reads_enum s a(5)]
        param_reads [OF reads_bool s a(6)])
qed

lemma generate_data_key_delivered: "generate_data_key_params P S (generate_data_key_call order i) = Inr i"
proof -
  have s: "str_keys (generate_data_key_call order i)" by (simp add: generate_data_key_call_def)
  note p = arguments [OF generate_data_key_call_def [of order i], simplified]
  have a: "argument (generate_data_key_call order i) ''key_id'' = opt_to_py PyStr (mgdki_key_id i)"
    "argument (generate_data_key_call order i) ''encryption_context'' = opt_to_py (mapping_to_py order PyStr) (mgdki_encryption_context i)"
    "argument (generate_data_key_call order i) ''number_of_bytes'' = opt_to_py i32_to_py (mgdki_number_of_bytes i)"
    "argument (generate_data_key_call order i) ''key_spec'' = opt_to_py PyStr (mgdki_key_spec i)"
    "argument (generate_data_key_call order i) ''grant_tokens'' = opt_to_py (seq_to_py PyStr) (mgdki_grant_tokens i)"
    "argument (generate_data_key_call order i) ''recipient'' = opt_to_py recipient_info_to_py (mgdki_recipient i)"
    "argument (generate_data_key_call order i) ''dry_run'' = opt_to_py PyBool (mgdki_dry_run i)"
    by (simp_all only: p)
  show ?thesis
    unfolding generate_data_key_params_def generate_data_key_params_1_def generate_data_key_params_2_def
    by (simp add: param_reads [OF reads_str s a(1)]
        param_reads [OF reads_map [OF order reads_str] s a(2)]
        param_reads [OF reads_i32 s a(3)]
        param_reads [OF reads_enum s a(4)]
        param_reads [OF reads_seq [OF reads_str] s a(5)]
        param_reads [OF recipient_info_reads s a(6)]
        param_reads [OF reads_bool s a(7)])
qed

lemma generate_data_key_pair_delivered: "generate_data_key_pair_params P S (generate_data_key_pair_call order i) = Inr i"
proof -
  have s: "str_keys (generate_data_key_pair_call order i)" by (simp add: generate_data_key_pair_call_def)
  note p = arguments [OF generate_data_key_pair_call_def [of order i], simplified]
  have a: "argument (generate_data_key_pair_call order i) ''encryption_context'' = opt_to_py (mapping_to_py order PyStr) (mgdkpi_encryption_context i)"
    "argument (generate_data_key_pair_call order i) ''key_id'' = opt_to_py PyStr (mgdkpi_key_id i)"
    "argument (generate_data_key_pair_call order i) ''key_pair_spec'' = opt_to_py PyStr (mgdkpi_key_pair_spec i)"
    "argument (generate_data_key_pair_call order i) ''grant_tokens'' = opt_to_py (seq_to_py PyStr) (mgdkpi_grant_tokens i)"
    "argument (generate_data_key_pair_call order i) ''recipient'' = opt_to_py recipient_info_to_py (mgdkpi_recipient i)"
    "argument (generate_data_key_pair_call order i) ''dry_run'' = opt_to_py PyBool (mgdkpi_dry_run i)"
    by (simp_all only: p)
  show ?thesis
    unfolding generate_data_key_pair_params_def generate_data_key_pair_params_1_def generate_data_key_pair_params_2_def
    by (simp add: param_reads [OF reads_map [OF order reads_str] s a(1)]
        param_reads [OF reads_str s a(2)]
        param_reads [OF reads_enum s a(3)]
        param_reads [OF reads_seq [OF reads_str] s a(4)]
        param_reads [OF recipient_info_reads s a(5)]
        param_reads [OF reads_bool s a(6)])
qed

lemma generate_data_key_pair_without_plaintext_delivered: "generate_data_key_pair_without_plaintext_params P S (generate_data_key_pair_without_plaintext_call order i) = Inr i"
proof -
  have s: "str_keys (generate_data_key_pair_without_plaintext_call order i)" by (simp add: generate_data_key_pair_without_plaintext_call_def)
  note p = arguments [OF generate_data_key_pair_without_plaintext_call_def [of order i], simplified]
  have a: "argument (generate_data_key_pair_without_plaintext_call order i) ''encryption_context'' = opt_to_py (mapping_to_py order PyStr) (mgdkpwpi_encryption_context i)"
    "argument (generate_data_key_pair_without_plaintext_call order i) ''key_id'' = opt_to_py PyStr (mgdkpwpi_key_id i)"
    "argument (generate_data_key_pair_without_plaintext_call order i) ''key_pair_spec'' = opt_to_py PyStr (mgdkpwpi_key_pair_spec i)"
    "argument (generate_data_key_pair_without_plaintext_call order i) ''grant_tokens'' = opt_to_py (seq_to_py PyStr) (mgdkpwpi_grant_tokens i)"
    "argument (generate_data_key_pair_without_plaintext_call order i) ''dry_run'' = opt_to_py PyBool (mgdkpwpi_dry_run i)"
    by (simp_all only: p)
  show ?thesis
    unfolding generate_data_key_pair_without_plaintext_params_def
    by (simp add: param_reads [OF reads_map [OF order reads_str] s a(1)]
        param_reads [OF reads_str s a(2)]
        param_reads [OF reads_enum s a(3)]
        param_reads [OF reads_seq [OF reads_str] s a(4)]
        param_reads [OF reads_bool s a(5)])
qed

lemma generate_data_key_without_plaintext_delivered: "generate_data_key_without_plaintext_params P S (generate_data_key_without_plaintext_call order i) = Inr i"
proof -
  have s: "str_keys (generate_data_key_without_plaintext_call order i)" by (simp add: generate_data_key_without_plaintext_call_def)
  note p = arguments [OF generate_data_key_without_plaintext_call_def [of order i], simplified]
  have a: "argument (generate_data_key_without_plaintext_call order i) ''key_id'' = opt_to_py PyStr (mgdkwpi_key_id i)"
    "argument (generate_data_key_without_plaintext_call order i) ''encryption_context'' = opt_to_py (mapping_to_py order PyStr) (mgdkwpi_encryption_context i)"
    "argument (generate_data_key_without_plaintext_call order i) ''key_spec'' = opt_to_py PyStr (mgdkwpi_key_spec i)"
    "argument (generate_data_key_without_plaintext_call order i) ''number_of_bytes'' = opt_to_py i32_to_py (mgdkwpi_number_of_bytes i)"
    "argument (generate_data_key_without_plaintext_call order i) ''grant_tokens'' = opt_to_py (seq_to_py PyStr) (mgdkwpi_grant_tokens i)"
    "argument (generate_data_key_without_plaintext_call order i) ''dry_run'' = opt_to_py PyBool (mgdkwpi_dry_run i)"
    by (simp_all only: p)
  show ?thesis
    unfolding generate_data_key_without_plaintext_params_def generate_data_key_without_plaintext_params_1_def generate_data_key_without_plaintext_params_2_def
    by (simp add: param_reads [OF reads_str s a(1)]
        param_reads [OF reads_map [OF order reads_str] s a(2)]
        param_reads [OF reads_enum s a(3)]
        param_reads [OF reads_i32 s a(4)]
        param_reads [OF reads_seq [OF reads_str] s a(5)]
        param_reads [OF reads_bool s a(6)])
qed

lemma generate_mac_delivered: "generate_mac_params P S (generate_mac_call i) = Inr i"
proof -
  have s: "str_keys (generate_mac_call i)" by (simp add: generate_mac_call_def)
  note p = arguments [OF generate_mac_call_def [of i], simplified]
  have a: "argument (generate_mac_call i) ''message'' = opt_to_py PyBytes (mgmi_message i)"
    "argument (generate_mac_call i) ''key_id'' = opt_to_py PyStr (mgmi_key_id i)"
    "argument (generate_mac_call i) ''mac_algorithm'' = opt_to_py PyStr (mgmi_mac_algorithm i)"
    "argument (generate_mac_call i) ''grant_tokens'' = opt_to_py (seq_to_py PyStr) (mgmi_grant_tokens i)"
    "argument (generate_mac_call i) ''dry_run'' = opt_to_py PyBool (mgmi_dry_run i)"
    by (simp_all only: p)
  show ?thesis
    unfolding generate_mac_params_def
    by (simp add: param_reads [OF reads_blob s a(1)]
        param_reads [OF reads_str s a(2)]
        param_reads [OF reads_enum s a(3)]
        param_reads [OF reads_seq [OF reads_str] s a(4)]
        param_reads [OF reads_bool s a(5)])
qed

lemma generate_random_delivered: "generate_random_params P S (generate_random_call i) = Inr i"
proof -
  have s: "str_keys (generate_random_call i)" by (simp add: generate_random_call_def)
  note p = arguments [OF generate_random_call_def [of i], simplified]
  have a: "argument (generate_random_call i) ''number_of_bytes'' = opt_to_py i32_to_py (mgri_number_of_bytes i)"
    "argument (generate_random_call i) ''custom_key_store_id'' = opt_to_py PyStr (mgri_custom_key_store_id i)"
    "argument (generate_random_call i) ''recipient'' = opt_to_py recipient_info_to_py (mgri_recipient i)"
    by (simp_all only: p)
  show ?thesis
    unfolding generate_random_params_def
    by (simp add: param_reads [OF reads_i32 s a(1)]
        param_reads [OF reads_str s a(2)]
        param_reads [OF recipient_info_reads s a(3)])
qed

lemma get_key_last_usage_delivered: "get_key_last_usage_params P S (get_key_last_usage_call i) = Inr i"
proof -
  have s: "str_keys (get_key_last_usage_call i)" by (simp add: get_key_last_usage_call_def)
  have a: "argument (get_key_last_usage_call i) ''key_id'' = opt_to_py PyStr (mgklui_key_id i)"
    unfolding get_key_last_usage_call_def by (simp_all add: argument_py_params)
  show ?thesis
    unfolding get_key_last_usage_params_def
    by (simp add: param_reads [OF reads_str s a])
qed

lemma get_key_policy_delivered: "get_key_policy_params P S (get_key_policy_call i) = Inr i"
proof -
  have s: "str_keys (get_key_policy_call i)" by (simp add: get_key_policy_call_def)
  have a: "argument (get_key_policy_call i) ''key_id'' = opt_to_py PyStr (mgkpi_key_id i)"
    "argument (get_key_policy_call i) ''policy_name'' = opt_to_py PyStr (mgkpi_policy_name i)"
    unfolding get_key_policy_call_def by (simp_all add: argument_py_params)
  show ?thesis
    unfolding get_key_policy_params_def
    by (simp add: param_reads [OF reads_str s a(1)]
        param_reads [OF reads_str s a(2)])
qed

lemma get_key_rotation_status_delivered: "get_key_rotation_status_params P S (get_key_rotation_status_call i) = Inr i"
proof -
  have s: "str_keys (get_key_rotation_status_call i)" by (simp add: get_key_rotation_status_call_def)
  have a: "argument (get_key_rotation_status_call i) ''key_id'' = opt_to_py PyStr (mgkrsi_key_id i)"
    unfolding get_key_rotation_status_call_def by (simp_all add: argument_py_params)
  show ?thesis
    unfolding get_key_rotation_status_params_def
    by (simp add: param_reads [OF reads_str s a])
qed

lemma get_parameters_for_import_delivered: "get_parameters_for_import_params P S (get_parameters_for_import_call i) = Inr i"
proof -
  have s: "str_keys (get_parameters_for_import_call i)" by (simp add: get_parameters_for_import_call_def)
  note p = arguments [OF get_parameters_for_import_call_def [of i], simplified]
  have a: "argument (get_parameters_for_import_call i) ''key_id'' = opt_to_py PyStr (mgpfii_key_id i)"
    "argument (get_parameters_for_import_call i) ''wrapping_algorithm'' = opt_to_py PyStr (mgpfii_wrapping_algorithm i)"
    "argument (get_parameters_for_import_call i) ''wrapping_key_spec'' = opt_to_py PyStr (mgpfii_wrapping_key_spec i)"
    by (simp_all only: p)
  show ?thesis
    unfolding get_parameters_for_import_params_def
    by (simp add: param_reads [OF reads_str s a(1)]
        param_reads [OF reads_enum s a(2)]
        param_reads [OF reads_enum s a(3)])
qed

lemma get_public_key_delivered: "get_public_key_params P S (get_public_key_call i) = Inr i"
proof -
  have s: "str_keys (get_public_key_call i)" by (simp add: get_public_key_call_def)
  have a: "argument (get_public_key_call i) ''key_id'' = opt_to_py PyStr (mgpki_key_id i)"
    "argument (get_public_key_call i) ''grant_tokens'' = opt_to_py (seq_to_py PyStr) (mgpki_grant_tokens i)"
    unfolding get_public_key_call_def by (simp_all add: argument_py_params)
  show ?thesis
    unfolding get_public_key_params_def
    by (simp add: param_reads [OF reads_str s a(1)]
        param_reads [OF reads_seq [OF reads_str] s a(2)])
qed

lemma import_key_material_delivered:
  assumes dates: "dates_ok S [mikmi_valid_to i]"
  shows "import_key_material_params P S (import_key_material_call S i) = Inr i"
proof -
  have s: "str_keys (import_key_material_call S i)" by (simp add: import_key_material_call_def)
  note p = arguments [OF import_key_material_call_def [of S i], simplified]
  have a: "argument (import_key_material_call S i) ''key_id'' = opt_to_py PyStr (mikmi_key_id i)"
    "argument (import_key_material_call S i) ''import_token'' = opt_to_py PyBytes (mikmi_import_token i)"
    "argument (import_key_material_call S i) ''encrypted_key_material'' = opt_to_py PyBytes (mikmi_encrypted_key_material i)"
    "argument (import_key_material_call S i) ''valid_to'' = opt_to_py (datetime_to_py S) (mikmi_valid_to i)"
    "argument (import_key_material_call S i) ''expiration_model'' = opt_to_py PyStr (mikmi_expiration_model i)"
    "argument (import_key_material_call S i) ''import_type'' = opt_to_py PyStr (mikmi_import_type i)"
    "argument (import_key_material_call S i) ''key_material_description'' = opt_to_py PyStr (mikmi_key_material_description i)"
    "argument (import_key_material_call S i) ''key_material_id'' = opt_to_py PyStr (mikmi_key_material_id i)"
    by (simp_all only: p)
  show ?thesis
    unfolding import_key_material_params_def import_key_material_params_1_def import_key_material_params_2_def
    by (simp add: param_reads [OF reads_str s a(1)]
        param_reads [OF reads_blob s a(2)]
        param_reads [OF reads_blob s a(3)]
        date_param [OF dates _ s a(4)]
        param_reads [OF reads_enum s a(5)]
        param_reads [OF reads_enum s a(6)]
        param_reads [OF reads_str s a(7)]
        param_reads [OF reads_str s a(8)])
qed

lemma list_aliases_delivered: "list_aliases_params P S (list_aliases_call i) = Inr i"
proof -
  have s: "str_keys (list_aliases_call i)" by (simp add: list_aliases_call_def)
  note p = arguments [OF list_aliases_call_def [of i], simplified]
  have a: "argument (list_aliases_call i) ''key_id'' = opt_to_py PyStr (mlai_key_id i)"
    "argument (list_aliases_call i) ''limit'' = opt_to_py i32_to_py (mlai_limit i)"
    "argument (list_aliases_call i) ''marker'' = opt_to_py PyStr (mlai_marker i)"
    by (simp_all only: p)
  show ?thesis
    unfolding list_aliases_params_def
    by (simp add: param_reads [OF reads_str s a(1)]
        param_reads [OF reads_i32 s a(2)]
        param_reads [OF reads_str s a(3)])
qed

lemma list_grants_delivered: "list_grants_params P S (list_grants_call i) = Inr i"
proof -
  have s: "str_keys (list_grants_call i)" by (simp add: list_grants_call_def)
  note p = arguments [OF list_grants_call_def [of i], simplified]
  have a: "argument (list_grants_call i) ''limit'' = opt_to_py i32_to_py (mlgi_limit i)"
    "argument (list_grants_call i) ''marker'' = opt_to_py PyStr (mlgi_marker i)"
    "argument (list_grants_call i) ''key_id'' = opt_to_py PyStr (mlgi_key_id i)"
    "argument (list_grants_call i) ''grant_id'' = opt_to_py PyStr (mlgi_grant_id i)"
    "argument (list_grants_call i) ''grantee_principal'' = opt_to_py PyStr (mlgi_grantee_principal i)"
    "argument (list_grants_call i) ''grantee_service_principal'' = opt_to_py PyStr (mlgi_grantee_service_principal i)"
    by (simp_all only: p)
  show ?thesis
    unfolding list_grants_params_def
    by (simp add: param_reads [OF reads_i32 s a(1)]
        param_reads [OF reads_str s a(2)]
        param_reads [OF reads_str s a(3)]
        param_reads [OF reads_str s a(4)]
        param_reads [OF reads_str s a(5)]
        param_reads [OF reads_str s a(6)])
qed

lemma list_key_policies_delivered: "list_key_policies_params P S (list_key_policies_call i) = Inr i"
proof -
  have s: "str_keys (list_key_policies_call i)" by (simp add: list_key_policies_call_def)
  note p = arguments [OF list_key_policies_call_def [of i], simplified]
  have a: "argument (list_key_policies_call i) ''key_id'' = opt_to_py PyStr (mlkpi_key_id i)"
    "argument (list_key_policies_call i) ''limit'' = opt_to_py i32_to_py (mlkpi_limit i)"
    "argument (list_key_policies_call i) ''marker'' = opt_to_py PyStr (mlkpi_marker i)"
    by (simp_all only: p)
  show ?thesis
    unfolding list_key_policies_params_def
    by (simp add: param_reads [OF reads_str s a(1)]
        param_reads [OF reads_i32 s a(2)]
        param_reads [OF reads_str s a(3)])
qed

lemma list_key_rotations_delivered: "list_key_rotations_params P S (list_key_rotations_call i) = Inr i"
proof -
  have s: "str_keys (list_key_rotations_call i)" by (simp add: list_key_rotations_call_def)
  note p = arguments [OF list_key_rotations_call_def [of i], simplified]
  have a: "argument (list_key_rotations_call i) ''key_id'' = opt_to_py PyStr (mlkri_key_id i)"
    "argument (list_key_rotations_call i) ''include_key_material'' = opt_to_py PyStr (mlkri_include_key_material i)"
    "argument (list_key_rotations_call i) ''limit'' = opt_to_py i32_to_py (mlkri_limit i)"
    "argument (list_key_rotations_call i) ''marker'' = opt_to_py PyStr (mlkri_marker i)"
    by (simp_all only: p)
  show ?thesis
    unfolding list_key_rotations_params_def
    by (simp add: param_reads [OF reads_str s a(1)]
        param_reads [OF reads_enum s a(2)]
        param_reads [OF reads_i32 s a(3)]
        param_reads [OF reads_str s a(4)])
qed

lemma list_keys_delivered: "list_keys_params P S (list_keys_call i) = Inr i"
proof -
  have s: "str_keys (list_keys_call i)" by (simp add: list_keys_call_def)
  have a: "argument (list_keys_call i) ''limit'' = opt_to_py i32_to_py (mlki_limit i)"
    "argument (list_keys_call i) ''marker'' = opt_to_py PyStr (mlki_marker i)"
    unfolding list_keys_call_def by (simp_all add: argument_py_params)
  show ?thesis
    unfolding list_keys_params_def
    by (simp add: param_reads [OF reads_i32 s a(1)]
        param_reads [OF reads_str s a(2)])
qed

lemma list_resource_tags_delivered: "list_resource_tags_params P S (list_resource_tags_call i) = Inr i"
proof -
  have s: "str_keys (list_resource_tags_call i)" by (simp add: list_resource_tags_call_def)
  note p = arguments [OF list_resource_tags_call_def [of i], simplified]
  have a: "argument (list_resource_tags_call i) ''key_id'' = opt_to_py PyStr (mlrti_key_id i)"
    "argument (list_resource_tags_call i) ''limit'' = opt_to_py i32_to_py (mlrti_limit i)"
    "argument (list_resource_tags_call i) ''marker'' = opt_to_py PyStr (mlrti_marker i)"
    by (simp_all only: p)
  show ?thesis
    unfolding list_resource_tags_params_def
    by (simp add: param_reads [OF reads_str s a(1)]
        param_reads [OF reads_i32 s a(2)]
        param_reads [OF reads_str s a(3)])
qed

lemma list_retirable_grants_delivered: "list_retirable_grants_params P S (list_retirable_grants_call i) = Inr i"
proof -
  have s: "str_keys (list_retirable_grants_call i)" by (simp add: list_retirable_grants_call_def)
  note p = arguments [OF list_retirable_grants_call_def [of i], simplified]
  have a: "argument (list_retirable_grants_call i) ''limit'' = opt_to_py i32_to_py (mlrgi_limit i)"
    "argument (list_retirable_grants_call i) ''marker'' = opt_to_py PyStr (mlrgi_marker i)"
    "argument (list_retirable_grants_call i) ''retiring_principal'' = opt_to_py PyStr (mlrgi_retiring_principal i)"
    "argument (list_retirable_grants_call i) ''retiring_service_principal'' = opt_to_py PyStr (mlrgi_retiring_service_principal i)"
    by (simp_all only: p)
  show ?thesis
    unfolding list_retirable_grants_params_def
    by (simp add: param_reads [OF reads_i32 s a(1)]
        param_reads [OF reads_str s a(2)]
        param_reads [OF reads_str s a(3)]
        param_reads [OF reads_str s a(4)])
qed

lemma put_key_policy_delivered: "put_key_policy_params P S (put_key_policy_call i) = Inr i"
proof -
  have s: "str_keys (put_key_policy_call i)" by (simp add: put_key_policy_call_def)
  note p = arguments [OF put_key_policy_call_def [of i], simplified]
  have a: "argument (put_key_policy_call i) ''key_id'' = opt_to_py PyStr (mpkpi_key_id i)"
    "argument (put_key_policy_call i) ''policy_name'' = opt_to_py PyStr (mpkpi_policy_name i)"
    "argument (put_key_policy_call i) ''policy'' = opt_to_py PyStr (mpkpi_policy i)"
    "argument (put_key_policy_call i) ''bypass_policy_lockout_safety_check'' = opt_to_py PyBool (mpkpi_bypass_policy_lockout_safety_check i)"
    by (simp_all only: p)
  show ?thesis
    unfolding put_key_policy_params_def
    by (simp add: param_reads [OF reads_str s a(1)]
        param_reads [OF reads_str s a(2)]
        param_reads [OF reads_str s a(3)]
        param_reads [OF reads_bool s a(4)])
qed

lemma re_encrypt_delivered: "re_encrypt_params P S (re_encrypt_call order i) = Inr i"
proof -
  have s: "str_keys (re_encrypt_call order i)" by (simp add: re_encrypt_call_def)
  note p = arguments [OF re_encrypt_call_def [of order i], simplified]
  have a: "argument (re_encrypt_call order i) ''ciphertext_blob'' = opt_to_py PyBytes (mrei_ciphertext_blob i)"
    "argument (re_encrypt_call order i) ''source_encryption_context'' = opt_to_py (mapping_to_py order PyStr) (mrei_source_encryption_context i)"
    "argument (re_encrypt_call order i) ''source_key_id'' = opt_to_py PyStr (mrei_source_key_id i)"
    "argument (re_encrypt_call order i) ''destination_key_id'' = opt_to_py PyStr (mrei_destination_key_id i)"
    "argument (re_encrypt_call order i) ''destination_encryption_context'' = opt_to_py (mapping_to_py order PyStr) (mrei_destination_encryption_context i)"
    "argument (re_encrypt_call order i) ''source_encryption_algorithm'' = opt_to_py PyStr (mrei_source_encryption_algorithm i)"
    "argument (re_encrypt_call order i) ''destination_encryption_algorithm'' = opt_to_py PyStr (mrei_destination_encryption_algorithm i)"
    "argument (re_encrypt_call order i) ''grant_tokens'' = opt_to_py (seq_to_py PyStr) (mrei_grant_tokens i)"
    "argument (re_encrypt_call order i) ''dry_run'' = opt_to_py PyBool (mrei_dry_run i)"
    "argument (re_encrypt_call order i) ''dry_run_modifiers'' = opt_to_py (seq_to_py PyStr) (mrei_dry_run_modifiers i)"
    by (simp_all only: p)
  show ?thesis
    unfolding re_encrypt_params_def re_encrypt_params_1_def re_encrypt_params_2_def re_encrypt_params_3_def
    by (simp add: param_reads [OF reads_blob s a(1)]
        param_reads [OF reads_map [OF order reads_str] s a(2)]
        param_reads [OF reads_str s a(3)]
        param_reads [OF reads_str s a(4)]
        param_reads [OF reads_map [OF order reads_str] s a(5)]
        param_reads [OF reads_enum s a(6)]
        param_reads [OF reads_enum s a(7)]
        param_reads [OF reads_seq [OF reads_str] s a(8)]
        param_reads [OF reads_bool s a(9)]
        param_reads [OF reads_seq [OF reads_enum] s a(10)])
qed

lemma replicate_key_delivered: "replicate_key_params P S (replicate_key_call i) = Inr i"
proof -
  have s: "str_keys (replicate_key_call i)" by (simp add: replicate_key_call_def)
  note p = arguments [OF replicate_key_call_def [of i], simplified]
  have a: "argument (replicate_key_call i) ''key_id'' = opt_to_py PyStr (mrki_key_id i)"
    "argument (replicate_key_call i) ''replica_region'' = opt_to_py PyStr (mrki_replica_region i)"
    "argument (replicate_key_call i) ''policy'' = opt_to_py PyStr (mrki_policy i)"
    "argument (replicate_key_call i) ''bypass_policy_lockout_safety_check'' = opt_to_py PyBool (mrki_bypass_policy_lockout_safety_check i)"
    "argument (replicate_key_call i) ''description'' = opt_to_py PyStr (mrki_description i)"
    "argument (replicate_key_call i) ''tags'' = opt_to_py (seq_to_py kms_tag_to_py) (mrki_tags i)"
    by (simp_all only: p)
  show ?thesis
    unfolding replicate_key_params_def
    by (simp add: param_reads [OF reads_str s a(1)]
        param_reads [OF reads_str s a(2)]
        param_reads [OF reads_str s a(3)]
        param_reads [OF reads_bool s a(4)]
        param_reads [OF reads_str s a(5)]
        param_reads [OF reads_seq [OF kms_tag_reads] s a(6)])
qed

lemma retire_grant_delivered: "retire_grant_params P S (retire_grant_call i) = Inr i"
proof -
  have s: "str_keys (retire_grant_call i)" by (simp add: retire_grant_call_def)
  note p = arguments [OF retire_grant_call_def [of i], simplified]
  have a: "argument (retire_grant_call i) ''grant_token'' = opt_to_py PyStr (mrgi_grant_token i)"
    "argument (retire_grant_call i) ''key_id'' = opt_to_py PyStr (mrgi_key_id i)"
    "argument (retire_grant_call i) ''grant_id'' = opt_to_py PyStr (mrgi_grant_id i)"
    "argument (retire_grant_call i) ''dry_run'' = opt_to_py PyBool (mrgi_dry_run i)"
    by (simp_all only: p)
  show ?thesis
    unfolding retire_grant_params_def
    by (simp add: param_reads [OF reads_str s a(1)]
        param_reads [OF reads_str s a(2)]
        param_reads [OF reads_str s a(3)]
        param_reads [OF reads_bool s a(4)])
qed

lemma revoke_grant_delivered: "revoke_grant_params P S (revoke_grant_call i) = Inr i"
proof -
  have s: "str_keys (revoke_grant_call i)" by (simp add: revoke_grant_call_def)
  note p = arguments [OF revoke_grant_call_def [of i], simplified]
  have a: "argument (revoke_grant_call i) ''key_id'' = opt_to_py PyStr (mrgi2_key_id i)"
    "argument (revoke_grant_call i) ''grant_id'' = opt_to_py PyStr (mrgi2_grant_id i)"
    "argument (revoke_grant_call i) ''dry_run'' = opt_to_py PyBool (mrgi2_dry_run i)"
    by (simp_all only: p)
  show ?thesis
    unfolding revoke_grant_params_def
    by (simp add: param_reads [OF reads_str s a(1)]
        param_reads [OF reads_str s a(2)]
        param_reads [OF reads_bool s a(3)])
qed

lemma rotate_key_on_demand_delivered: "rotate_key_on_demand_params P S (rotate_key_on_demand_call i) = Inr i"
proof -
  have s: "str_keys (rotate_key_on_demand_call i)" by (simp add: rotate_key_on_demand_call_def)
  have a: "argument (rotate_key_on_demand_call i) ''key_id'' = opt_to_py PyStr (mrkodi_key_id i)"
    unfolding rotate_key_on_demand_call_def by (simp_all add: argument_py_params)
  show ?thesis
    unfolding rotate_key_on_demand_params_def
    by (simp add: param_reads [OF reads_str s a])
qed

lemma schedule_key_deletion_delivered: "schedule_key_deletion_params P S (schedule_key_deletion_call i) = Inr i"
proof -
  have s: "str_keys (schedule_key_deletion_call i)" by (simp add: schedule_key_deletion_call_def)
  have a: "argument (schedule_key_deletion_call i) ''key_id'' = opt_to_py PyStr (mskdi_key_id i)"
    "argument (schedule_key_deletion_call i) ''pending_window_in_days'' = opt_to_py i32_to_py (mskdi_pending_window_in_days i)"
    unfolding schedule_key_deletion_call_def by (simp_all add: argument_py_params)
  show ?thesis
    unfolding schedule_key_deletion_params_def
    by (simp add: param_reads [OF reads_str s a(1)]
        param_reads [OF reads_i32 s a(2)])
qed

lemma sign_delivered: "sign_params P S (sign_call i) = Inr i"
proof -
  have s: "str_keys (sign_call i)" by (simp add: sign_call_def)
  note p = arguments [OF sign_call_def [of i], simplified]
  have a: "argument (sign_call i) ''key_id'' = opt_to_py PyStr (msi_key_id i)"
    "argument (sign_call i) ''message'' = opt_to_py PyBytes (msi_message i)"
    "argument (sign_call i) ''message_type'' = opt_to_py PyStr (msi_message_type i)"
    "argument (sign_call i) ''grant_tokens'' = opt_to_py (seq_to_py PyStr) (msi_grant_tokens i)"
    "argument (sign_call i) ''signing_algorithm'' = opt_to_py PyStr (msi_signing_algorithm i)"
    "argument (sign_call i) ''dry_run'' = opt_to_py PyBool (msi_dry_run i)"
    by (simp_all only: p)
  show ?thesis
    unfolding sign_params_def
    by (simp add: param_reads [OF reads_str s a(1)]
        param_reads [OF reads_blob s a(2)]
        param_reads [OF reads_enum s a(3)]
        param_reads [OF reads_seq [OF reads_str] s a(4)]
        param_reads [OF reads_enum s a(5)]
        param_reads [OF reads_bool s a(6)])
qed

lemma kms_tag_resource_delivered: "kms_tag_resource_params P S (kms_tag_resource_call i) = Inr i"
proof -
  have s: "str_keys (kms_tag_resource_call i)" by (simp add: kms_tag_resource_call_def)
  have a: "argument (kms_tag_resource_call i) ''key_id'' = opt_to_py PyStr (mktri_key_id i)"
    "argument (kms_tag_resource_call i) ''tags'' = opt_to_py (seq_to_py kms_tag_to_py) (mktri_tags i)"
    unfolding kms_tag_resource_call_def by (simp_all add: argument_py_params)
  show ?thesis
    unfolding kms_tag_resource_params_def
    by (simp add: param_reads [OF reads_str s a(1)]
        param_reads [OF reads_seq [OF kms_tag_reads] s a(2)])
qed

lemma kms_untag_resource_delivered: "kms_untag_resource_params P S (kms_untag_resource_call i) = Inr i"
proof -
  have s: "str_keys (kms_untag_resource_call i)" by (simp add: kms_untag_resource_call_def)
  have a: "argument (kms_untag_resource_call i) ''key_id'' = opt_to_py PyStr (mkuri_key_id i)"
    "argument (kms_untag_resource_call i) ''tag_keys'' = opt_to_py (seq_to_py PyStr) (mkuri_tag_keys i)"
    unfolding kms_untag_resource_call_def by (simp_all add: argument_py_params)
  show ?thesis
    unfolding kms_untag_resource_params_def
    by (simp add: param_reads [OF reads_str s a(1)]
        param_reads [OF reads_seq [OF reads_str] s a(2)])
qed

lemma update_alias_delivered: "update_alias_params P S (update_alias_call i) = Inr i"
proof -
  have s: "str_keys (update_alias_call i)" by (simp add: update_alias_call_def)
  have a: "argument (update_alias_call i) ''alias_name'' = opt_to_py PyStr (muai_alias_name i)"
    "argument (update_alias_call i) ''target_key_id'' = opt_to_py PyStr (muai_target_key_id i)"
    unfolding update_alias_call_def by (simp_all add: argument_py_params)
  show ?thesis
    unfolding update_alias_params_def
    by (simp add: param_reads [OF reads_str s a(1)]
        param_reads [OF reads_str s a(2)])
qed

lemma update_custom_key_store_delivered: "update_custom_key_store_params P S (update_custom_key_store_call i) = Inr i"
proof -
  have s: "str_keys (update_custom_key_store_call i)" by (simp add: update_custom_key_store_call_def)
  note p = arguments [OF update_custom_key_store_call_def [of i], simplified]
  have a: "argument (update_custom_key_store_call i) ''custom_key_store_id'' = opt_to_py PyStr (mucksi_custom_key_store_id i)"
    "argument (update_custom_key_store_call i) ''new_custom_key_store_name'' = opt_to_py PyStr (mucksi_new_custom_key_store_name i)"
    "argument (update_custom_key_store_call i) ''key_store_password'' = opt_to_py PyStr (mucksi_key_store_password i)"
    "argument (update_custom_key_store_call i) ''cloud_hsm_cluster_id'' = opt_to_py PyStr (mucksi_cloud_hsm_cluster_id i)"
    "argument (update_custom_key_store_call i) ''xks_proxy_uri_endpoint'' = opt_to_py PyStr (mucksi_xks_proxy_uri_endpoint i)"
    "argument (update_custom_key_store_call i) ''xks_proxy_uri_path'' = opt_to_py PyStr (mucksi_xks_proxy_uri_path i)"
    "argument (update_custom_key_store_call i) ''xks_proxy_vpc_endpoint_service_name'' = opt_to_py PyStr (mucksi_xks_proxy_vpc_endpoint_service_name i)"
    "argument (update_custom_key_store_call i) ''xks_proxy_vpc_endpoint_service_owner'' = opt_to_py PyStr (mucksi_xks_proxy_vpc_endpoint_service_owner i)"
    "argument (update_custom_key_store_call i) ''xks_proxy_authentication_credential'' = opt_to_py xks_proxy_authentication_credential_type_to_py (mucksi_xks_proxy_authentication_credential i)"
    "argument (update_custom_key_store_call i) ''xks_proxy_connectivity'' = opt_to_py PyStr (mucksi_xks_proxy_connectivity i)"
    by (simp_all only: p)
  show ?thesis
    unfolding update_custom_key_store_params_def update_custom_key_store_params_1_def update_custom_key_store_params_2_def
    by (simp add: param_reads [OF reads_str s a(1)]
        param_reads [OF reads_str s a(2)]
        param_reads [OF reads_str s a(3)]
        param_reads [OF reads_str s a(4)]
        param_reads [OF reads_str s a(5)]
        param_reads [OF reads_str s a(6)]
        param_reads [OF reads_str s a(7)]
        param_reads [OF reads_str s a(8)]
        param_reads [OF xks_proxy_authentication_credential_type_reads s a(9)]
        param_reads [OF reads_enum s a(10)])
qed

lemma update_key_description_delivered: "update_key_description_params P S (update_key_description_call i) = Inr i"
proof -
  have s: "str_keys (update_key_description_call i)" by (simp add: update_key_description_call_def)
  have a: "argument (update_key_description_call i) ''key_id'' = opt_to_py PyStr (mukdi_key_id i)"
    "argument (update_key_description_call i) ''description'' = opt_to_py PyStr (mukdi_description i)"
    unfolding update_key_description_call_def by (simp_all add: argument_py_params)
  show ?thesis
    unfolding update_key_description_params_def
    by (simp add: param_reads [OF reads_str s a(1)]
        param_reads [OF reads_str s a(2)])
qed

lemma update_primary_region_delivered: "update_primary_region_params P S (update_primary_region_call i) = Inr i"
proof -
  have s: "str_keys (update_primary_region_call i)" by (simp add: update_primary_region_call_def)
  have a: "argument (update_primary_region_call i) ''key_id'' = opt_to_py PyStr (mupri_key_id i)"
    "argument (update_primary_region_call i) ''primary_region'' = opt_to_py PyStr (mupri_primary_region i)"
    unfolding update_primary_region_call_def by (simp_all add: argument_py_params)
  show ?thesis
    unfolding update_primary_region_params_def
    by (simp add: param_reads [OF reads_str s a(1)]
        param_reads [OF reads_str s a(2)])
qed

lemma verify_delivered: "verify_params P S (verify_call i) = Inr i"
proof -
  have s: "str_keys (verify_call i)" by (simp add: verify_call_def)
  note p = arguments [OF verify_call_def [of i], simplified]
  have a: "argument (verify_call i) ''key_id'' = opt_to_py PyStr (mvi_key_id i)"
    "argument (verify_call i) ''message'' = opt_to_py PyBytes (mvi_message i)"
    "argument (verify_call i) ''message_type'' = opt_to_py PyStr (mvi_message_type i)"
    "argument (verify_call i) ''signature'' = opt_to_py PyBytes (mvi_signature i)"
    "argument (verify_call i) ''signing_algorithm'' = opt_to_py PyStr (mvi_signing_algorithm i)"
    "argument (verify_call i) ''grant_tokens'' = opt_to_py (seq_to_py PyStr) (mvi_grant_tokens i)"
    "argument (verify_call i) ''dry_run'' = opt_to_py PyBool (mvi_dry_run i)"
    by (simp_all only: p)
  show ?thesis
    unfolding verify_params_def verify_params_1_def verify_params_2_def
    by (simp add: param_reads [OF reads_str s a(1)]
        param_reads [OF reads_blob s a(2)]
        param_reads [OF reads_enum s a(3)]
        param_reads [OF reads_blob s a(4)]
        param_reads [OF reads_enum s a(5)]
        param_reads [OF reads_seq [OF reads_str] s a(6)]
        param_reads [OF reads_bool s a(7)])
qed

lemma verify_mac_delivered: "verify_mac_params P S (verify_mac_call i) = Inr i"
proof -
  have s: "str_keys (verify_mac_call i)" by (simp add: verify_mac_call_def)
  note p = arguments [OF verify_mac_call_def [of i], simplified]
  have a: "argument (verify_mac_call i) ''message'' = opt_to_py PyBytes (mvmi_message i)"
    "argument (verify_mac_call i) ''key_id'' = opt_to_py PyStr (mvmi_key_id i)"
    "argument (verify_mac_call i) ''mac_algorithm'' = opt_to_py PyStr (mvmi_mac_algorithm i)"
    "argument (verify_mac_call i) ''mac'' = opt_to_py PyBytes (mvmi_mac i)"
    "argument (verify_mac_call i) ''grant_tokens'' = opt_to_py (seq_to_py PyStr) (mvmi_grant_tokens i)"
    "argument (verify_mac_call i) ''dry_run'' = opt_to_py PyBool (mvmi_dry_run i)"
    by (simp_all only: p)
  show ?thesis
    unfolding verify_mac_params_def
    by (simp add: param_reads [OF reads_blob s a(1)]
        param_reads [OF reads_str s a(2)]
        param_reads [OF reads_enum s a(3)]
        param_reads [OF reads_blob s a(4)]
        param_reads [OF reads_seq [OF reads_str] s a(5)]
        param_reads [OF reads_bool s a(6)])
qed

end

end
