(* ===== verification/KmsEnvelope.thy ===== *)
theory KmsEnvelope
  imports Kms
begin

text \<open>
  Encrypting and decrypting with a key of KMS: what an application relies on when it stores the
  ciphertext and the key id of an \<open>Encrypt\<close> response and gives them to \<open>Decrypt\<close> later.
\<close>

text \<open>
  C23: what \<open>Encrypt\<close> sealed, \<open>Decrypt\<close> opens. The service promises that decrypting a ciphertext it
  gave, under the same encryption context and key, answers with the plaintext. Then the Python
  round trip keeps that promise: the bytes and the key id an application takes from the \<open>to_dict\<close>
  of the response, and the mapping it gave as context, reach the SDK's second request unchanged,
  over the same client, and the response carries exactly the plaintext bytes.
\<close>

theorem decrypt_opens_encrypted:
  assumes "pyo3_laws P" and "kms_types_laws S" and "iterates order"
    and "\<not> ch_closed c" and "get_client E (ch_state c) = Some (Inr client, st)"
    and encrypted: "send client i = (attempts, Inr sealed)"
    and service: "\<And>j. mdi_ciphertext_blob j = meo_ciphertext_blob sealed \<Longrightarrow>
      mdi_encryption_context j = mei_encryption_context i \<Longrightarrow> mdi_key_id j = meo_key_id sealed \<Longrightarrow>
      mdi_recipient j = None \<Longrightarrow>
      \<exists>attempts opened. send' client j = (attempts, Inr opened) \<and> mdo_plaintext opened = mei_plaintext i"
  shows "\<exists>r c' r' c''. encrypt E P S (Inr ()) False send c (encrypt_call order i) None = Some (Inr r, c', None)
    \<and> decrypt E P S (Inr ()) False send' c' (py_params []
        [(''ciphertext_blob'', entry ''ciphertext_blob'' (encrypt_output_to_dict order S r)),
         (''encryption_context'', opt_to_py (mapping_to_py order PyStr) (mei_encryption_context i)),
         (''key_id'', entry ''key_id'' (encrypt_output_to_dict order S r))]) None = Some (Inr r', c'', None)
    \<and> mdo_plaintext r' = mei_plaintext i"
proof -
  note conv = kms_conversions.intro [OF assms(1,2) kms_conversions_axioms.intro, OF assms(3)]
  let ?d = "py_params []
        [(''ciphertext_blob'', entry ''ciphertext_blob'' (encrypt_output_to_dict order S sealed)),
         (''encryption_context'', opt_to_py (mapping_to_py order PyStr) (mei_encryption_context i)),
         (''key_id'', entry ''key_id'' (encrypt_output_to_dict order S sealed))]"
  let ?j = "\<lparr>mdi_ciphertext_blob = meo_ciphertext_blob sealed, mdi_encryption_context = mei_encryption_context i,
    mdi_grant_tokens = None, mdi_key_id = meo_key_id sealed, mdi_encryption_algorithm = None, mdi_recipient = None,
    mdi_dry_run = None, mdi_dry_run_modifiers = None\<rparr>"
  have "?d = decrypt_call order ?j"
    by (simp add: decrypt_call_def py_params_def opt_to_py_def encrypt_output_to_dict_def argument_def map_of_py_dict)
  then have params: "decrypt_params P S ?d = Inr ?j"
    by (simp add: kms_conversions.decrypt_delivered [OF conv])
  have first: "encrypt E P S (Inr ()) False send c (encrypt_call order i) None = Some (Inr sealed, c\<lparr>ch_state := st\<rparr>, None)"
    unfolding encrypt_def kms_conversions.encrypt_delivered [OF conv]
    by (subst execute_open [where send = send, OF assms(4,5) encrypted]) simp
  have again: "get_client E (ch_state (c\<lparr>ch_state := st\<rparr>)) = Some (Inr client, st)"
    using get_client_stays [OF assms(5)] by (simp add: get_client_def)
  have open': "\<not> ch_closed (c\<lparr>ch_state := st\<rparr>)" using assms(4) by simp
  obtain attempts' opened where d: "send' client ?j = (attempts', Inr opened)" "mdo_plaintext opened = mei_plaintext i"
    using service [of ?j] by auto
  have "decrypt E P S (Inr ()) False send' (c\<lparr>ch_state := st\<rparr>) ?d None =
      Some (Inr opened, (c\<lparr>ch_state := st\<rparr>)\<lparr>ch_state := st\<rparr>, None)"
    unfolding decrypt_def params
    by (subst execute_open [where send = send', OF open' again d(1)]) simp
  with first d(2) show ?thesis by blast
qed

definition example_secret :: encrypt_input where
  "example_secret =
     \<lparr>mei_key_id = Some ''k'', mei_plaintext = Some [1, 2, 255], mei_encryption_context = Some fmempty,
      mei_grant_tokens = None, mei_encryption_algorithm = None, mei_dry_run = None\<rparr>"

definition example_seal :: "nat \<Rightarrow> encrypt_input \<Rightarrow> trip list \<times> ((string, http_response) sdk_error + encrypt_output)" where
  "example_seal client i = ([], Inr
     \<lparr>meo_ciphertext_blob = map_option (map (\<lambda>b. b + 7)) (mei_plaintext i), meo_key_id = mei_key_id i,
      meo_encryption_algorithm = None\<rparr>)"

definition example_open :: "nat \<Rightarrow> decrypt_input \<Rightarrow> trip list \<times> ((string, http_response) sdk_error + decrypt_output)" where
  "example_open client j = ([], Inr
     \<lparr>mdo_key_id = mdi_key_id j, mdo_plaintext = map_option (map (\<lambda>b. b - 7)) (mdi_ciphertext_blob j),
      mdo_encryption_algorithm = None, mdo_ciphertext_for_recipient = None, mdo_key_material_id = None\<rparr>)"

theorem decrypt_opens_encrypted_witness:
  "\<exists>r c' r' c''. encrypt example_env pyo3_std kms_std (Inr ()) False example_seal example_client
        (encrypt_call by_key example_secret) None = Some (Inr r, c', None)
    \<and> decrypt example_env pyo3_std kms_std (Inr ()) False example_open c' (py_params []
        [(''ciphertext_blob'', entry ''ciphertext_blob'' (encrypt_output_to_dict by_key kms_std r)),
         (''encryption_context'', opt_to_py (mapping_to_py by_key PyStr) (Some fmempty)),
         (''key_id'', entry ''key_id'' (encrypt_output_to_dict by_key kms_std r))]) None = Some (Inr r', c'', None)
    \<and> mdo_plaintext r' = Some [1, 2, 255]"
proof -
  have g: "get_client example_env (ch_state example_client) =
      Some (Inr 5, (ch_state example_client)\<lparr>cs_client := Some 5\<rparr>)"
    by (simp add: get_client_def example_env_def example_client_def)
  have o: "\<not> ch_closed example_client" by (simp add: example_client_def)
  let ?sealed = "\<lparr>meo_ciphertext_blob = Some [8, 9, 6], meo_key_id = Some ''k'', meo_encryption_algorithm = None\<rparr>"
  have sealed: "example_seal 5 example_secret = ([], Inr ?sealed)"
    by (simp add: example_seal_def example_secret_def)
  have opened: "\<exists>attempts opened. example_open 5 j = (attempts, Inr opened) \<and> mdo_plaintext opened = mei_plaintext example_secret"
    if "mdi_ciphertext_blob j = meo_ciphertext_blob ?sealed" for j
    using that by (simp add: example_open_def example_secret_def)
  from decrypt_opens_encrypted [where send = example_seal and send' = example_open,
      OF std.pyo3_laws_axioms std_kms.kms_types_laws_axioms iterates_by_key o g sealed opened]
  show ?thesis by (simp add: example_secret_def)
qed

end
