(* ===== verification/Interceptors.thy ===== *)
theory Interceptors
  imports InputError Observation
begin

text \<open>
  Operation middleware: \<open>invoke\<close> of \<open>packages/rboto/src/rboto/interceptors.py\<close>, through which every
  method of a generated client goes when interceptors are configured. An interceptor is given the
  request and \<open>call_next\<close>, the rest of the chain; it may change, block, retry, recover or replace
  the operation. What the chain guarantees whatever they do is shown here.
\<close>

section \<open>Metadata\<close>

text \<open>\<open>OperationMetadata\<close>, which interceptors read after \<open>call_next\<close>; its attempts are the tuples of
  \<open>Attempt\<close>.\<close>

record operation_metadata =
  om_dispatched :: bool
  om_region :: pyval
  om_duration :: "f64 option"
  om_attempt_count :: pyval
  om_status_code :: pyval
  om_request_id :: pyval
  om_error_code :: "string option"
  om_error_type :: "string option"
  om_attempts :: "pyval list"
  om_attempts_truncated :: bool

definition initial_metadata :: "pyval \<Rightarrow> operation_metadata" where
  "initial_metadata region =
     \<lparr>om_dispatched = False, om_region = region, om_duration = None, om_attempt_count = PyInt 0,
      om_status_code = PyNone, om_request_id = PyNone, om_error_code = None, om_error_type = None,
      om_attempts = [], om_attempts_truncated = False\<rparr>"

definition retry_count :: "operation_metadata \<Rightarrow> pyval" where
  "retry_count m = (case om_attempt_count m of PyInt n \<Rightarrow> PyInt (max 0 (n - 1)) | v \<Rightarrow> v)"

definition get_or :: "pydict \<Rightarrow> string \<Rightarrow> pyval \<Rightarrow> pyval" where
  "get_or raw k fallback = (case map_of raw (PyStr k) of None \<Rightarrow> fallback | Some v \<Rightarrow> v)"

text \<open>\<open>_metadata\<close>: what the extension published in \<open>raw\<close>, and the error when there was one.\<close>

definition metadata_of :: "pyval \<Rightarrow> f64 \<Rightarrow> pydict \<Rightarrow> pyerr option \<Rightarrow> operation_metadata" where
  "metadata_of region duration raw error =
     (let client = Option.bind error err_attrs; request_id = get_or raw ''request_id'' PyNone
      in \<lparr>om_dispatched = True, om_region = get_or raw ''region'' region, om_duration = Some duration,
          om_attempt_count = get_or raw ''attempt_count'' PyNone,
          om_status_code = get_or raw ''status_code'' PyNone,
          om_request_id = (if py_truth request_id then request_id
            else (case client of None \<Rightarrow> PyNone | Some a \<Rightarrow> ce_request_id a)),
          om_error_code = map_option ce_error_code client,
          om_error_type = map_option err_class error,
          om_attempts = (case get_or raw ''attempts'' (PyList []) of PyList as \<Rightarrow> as | _ \<Rightarrow> []),
          om_attempts_truncated = py_truth (get_or raw ''attempts_truncated'' (PyBool False))\<rparr>)"

section \<open>Interceptors as programs\<close>

text \<open>
  The request an interceptor sees. Its context is an object, of which the code tests the identity:
  a number. The parameters are a dictionary with \<open>str\<close> keys.
\<close>

record operation_request =
  rq_context :: nat
  rq_parameters :: "(string \<times> pyval) list"

text \<open>
  What an interceptor does until it returns: it returns something, which should be an
  \<open>OperationResponse\<close> with an output; it raises; it awaits \<open>call_next\<close>, in its own task or not, and
  goes on with what that gave; it looks at the metadata of its request and at the world; or it
  changes the world. Outputs \<open>'o\<close> are references: equal means identical.
\<close>

datatype 'o returned = OperationResponse 'o | Other pyval

datatype ('o, 'w) program =
    Return "'o returned"
  | Raise pyerr
  | Next bool operation_request "pyerr + 'o \<Rightarrow> ('o, 'w) program"
  | Look "operation_metadata \<Rightarrow> 'w \<Rightarrow> ('o, 'w) program"
  | Effect "'w \<Rightarrow> 'w" "('o, 'w) program"

type_synonym ('o, 'w) interceptor = "operation_request \<Rightarrow> ('o, 'w) program"

text \<open>\<open>call_next\<close> refuses before it goes on.\<close>

definition next_refuses :: "bool \<Rightarrow> bool \<Rightarrow> bool \<Rightarrow> pyerr option" where
  "next_refuses active used same_task =
     (if \<not> active then Some (runtime_error ''next cannot be called after its interceptor returns'')
      else if used then Some (runtime_error ''next can only be called once per interceptor'')
      else if \<not> same_task then Some (runtime_error ''next must be awaited in the interceptor's task'')
      else None)"

section \<open>One invocation\<close>

text \<open>
  What an invocation is given: the native method (which answers from the parameters and the state of
  the world, with the observation it wrote and the seconds it took), the client's region, the operation, the class of its output, and the names of
  its parameters. \<open>is_keyword\<close> is \<open>keyword.iskeyword\<close>.
\<close>

record ('o, 'w) invocation =
  iv_call :: "(string \<times> pyval) list \<Rightarrow> 'w \<Rightarrow> (pyerr + 'o) \<times> pydict \<times> f64 \<times> 'w"
  iv_region :: pyval
  iv_context :: nat
  iv_service :: string
  iv_operation :: string
  iv_output_type :: "'o \<Rightarrow> bool"
  iv_output_name :: string
  iv_allowed :: "string list"
  iv_required :: "string list"
  iv_keyword :: "string \<Rightarrow> bool"

text \<open>The variables the nested functions share, and the requests the native method was called with.\<close>

record ('o, 'w) invoking =
  io_native :: "'o option"
  io_metadata :: operation_metadata
  io_sent :: "(string \<times> pyval) list list"
  io_world :: 'w

definition unknown_parameters :: "('o, 'w) invocation \<Rightarrow> (string \<times> pyval) list \<Rightarrow> string list" where
  "unknown_parameters V params = filter (\<lambda>k. k \<notin> set (iv_allowed V)) (map fst params)"

definition missing_parameters :: "('o, 'w) invocation \<Rightarrow> (string \<times> pyval) list \<Rightarrow> string list" where
  "missing_parameters V params =
     filter (\<lambda>k. case map_of params k of None \<Rightarrow> True | Some v \<Rightarrow> v = PyNone) (iv_required V)"

text \<open>The end of the chain. \<open>state.metadata\<close> is set whether the call returns or raises.\<close>

definition native_dispatch :: "('o, 'w) invocation \<Rightarrow> (string \<times> pyval) list \<Rightarrow> ('o, 'w) invoking \<Rightarrow>
    (pyerr + 'o) \<times> ('o, 'w) invoking" where
  "native_dispatch V params st =
     (case unknown_parameters V params of
        _ # _ \<Rightarrow> (Inl (attach_conversion_context (type_error ''unknown operation parameters'')
             (iv_service V) (iv_operation V) ''<request>'' ''modeled operation parameters''
             ''unknown_parameter'' False), st)
      | [] \<Rightarrow>
     (case missing_parameters V params of
        name # _ \<Rightarrow> (Inl (attach_conversion_context (type_error ''missing required operation parameters'')
             (iv_service V) (iv_operation V) (if iv_keyword V name then name @ ''_'' else name)
             ''required parameter'' ''missing'' False), st)
      | [] \<Rightarrow>
          (let (r, raw, duration, world) = iv_call V params (io_world st);
               error = (case r of Inl e \<Rightarrow> Some e | Inr _ \<Rightarrow> None);
               st = st\<lparr>io_metadata := metadata_of (iv_region V) duration raw error, io_sent := io_sent st @ [params], io_world := world\<rparr>
           in case r of
                Inl e \<Rightarrow> (Inl e, st)
              | Inr output \<Rightarrow> (Inr output, st\<lparr>io_native := Some output\<rparr>))))"

definition validate_response :: "('o, 'w) invocation \<Rightarrow> 'o option \<Rightarrow> 'o returned \<Rightarrow> 'o pyresult" where
  "validate_response V native response =
     (case response of
        Other v \<Rightarrow> Inl (type_error ''interceptors must return OperationResponse'')
      | OperationResponse output \<Rightarrow>
          (if native \<noteq> Some output \<and> \<not> iv_output_type V output then
             Inl (type_error (iv_service V @ ''.'' @ iv_operation V @ '' requires an output of type '' @ iv_output_name V))
           else Inr output))"

text \<open>An interceptor runs with the rest of the chain as \<open>call_next\<close>, which it may use once.\<close>

primrec run :: "('o, 'w) program \<Rightarrow>
    (operation_request \<Rightarrow> ('o, 'w) invoking \<Rightarrow> (pyerr + 'o) \<times> ('o, 'w) invoking) \<Rightarrow>
    bool \<Rightarrow> ('o, 'w) invoking \<Rightarrow> (pyerr + 'o returned) \<times> ('o, 'w) invoking" where
  "run (Return response) rest used st = (Inr response, st)"
| "run (Raise e) rest used st = (Inl e, st)"
| "run (Next same_task request continue) rest used st =
     (case next_refuses True used same_task of
        Some e \<Rightarrow> run (continue (Inl e)) rest used st
      | None \<Rightarrow> (let (r, st) = rest request st in run (continue r) rest True st))"
| "run (Look continue) rest used st = run (continue (io_metadata st) (io_world st)) rest used st"
| "run (Effect f continue) rest used st = run continue rest used (st\<lparr>io_world := f (io_world st)\<rparr>)"

fun dispatch :: "('o, 'w) invocation \<Rightarrow> ('o, 'w) interceptor list \<Rightarrow> operation_request \<Rightarrow> ('o, 'w) invoking \<Rightarrow>
    (pyerr + 'o) \<times> ('o, 'w) invoking" where
  "dispatch V [] current st =
     (if rq_context current \<noteq> iv_context V then
        (Inl (value_error ''next requires a request from the current operation''), st)
      else native_dispatch V (rq_parameters current) st)"
| "dispatch V (i # interceptors) current st =
     (if rq_context current \<noteq> iv_context V then
        (Inl (value_error ''next requires a request from the current operation''), st)
      else (case run (i current) (dispatch V interceptors) False st of
          (Inl e, st) \<Rightarrow> (Inl e, st)
        | (Inr response, st) \<Rightarrow> (validate_response V (io_native st) response, st)))"

definition invoke :: "('o, 'w) invocation \<Rightarrow> ('o, 'w) interceptor list \<Rightarrow> (string \<times> pyval) list \<Rightarrow> 'w \<Rightarrow>
    (pyerr + 'o) \<times> ('o, 'w) invoking" where
  "invoke V interceptors params world =
     dispatch V interceptors \<lparr>rq_context = iv_context V, rq_parameters = params\<rparr>
       \<lparr>io_native = None, io_metadata = initial_metadata (iv_region V), io_sent = [], io_world = world\<rparr>"

section \<open>What the chain guarantees\<close>

text \<open>Parameters the native method may be called with.\<close>

definition admissible :: "('o, 'w) invocation \<Rightarrow> (string \<times> pyval) list \<Rightarrow> bool" where
  "admissible V params \<longleftrightarrow> set (map fst params) \<subseteq> set (iv_allowed V)
     \<and> (\<forall>k \<in> set (iv_required V). \<exists>v. map_of params k = Some v \<and> v \<noteq> PyNone)"

text \<open>What one walk through the rest of the chain may do: dispatch once or not at all, and, when it
  answers with an output, have it from the native method or of the operation's type.\<close>

definition one_walk :: "('o, 'w) invocation \<Rightarrow> ('o, 'w) invoking \<Rightarrow> ('o, 'w) invoking \<Rightarrow> bool" where
  "one_walk V st st' \<longleftrightarrow>
     (io_sent st' = io_sent st \<and> io_native st' = io_native st \<or> (\<exists>params. admissible V params \<and> io_sent st' = io_sent st @ [params]))"

lemma admissible_iff: "admissible V params \<longleftrightarrow> unknown_parameters V params = [] \<and> missing_parameters V params = []"
  by (auto simp: admissible_def unknown_parameters_def missing_parameters_def filter_empty_conv split: option.splits)

lemma native_refuses: "\<not> admissible V params \<Longrightarrow> \<exists>e. native_dispatch V params st = (Inl e, st) \<and> err_class e = ''TypeError''"
  by (auto simp: admissible_iff native_dispatch_def attach_conversion_context_def Let_def builtin_errors split: list.splits)

lemma native_goes:
  assumes "admissible V params" and "iv_call V params (io_world st) = (r, raw, duration, world)"
  shows "native_dispatch V params st = (r, st\<lparr>
      io_metadata := metadata_of (iv_region V) duration raw (case r of Inl e \<Rightarrow> Some e | Inr _ \<Rightarrow> None),
      io_sent := io_sent st @ [params], io_world := world,
      io_native := (case r of Inl e \<Rightarrow> io_native st | Inr output \<Rightarrow> Some output)\<rparr>)"
  using assms by (simp add: native_dispatch_def admissible_iff Let_def split: sum.splits)

lemma native_walk:
  assumes "native_dispatch V params st = (r, st')"
  shows "one_walk V st st' \<and> (\<forall>output. r = Inr output \<longrightarrow> io_native st' = Some output)"
proof (cases "admissible V params")
  case True
  obtain r' raw duration world where "iv_call V params (io_world st) = (r', raw, duration, world)"
    by (cases "iv_call V params (io_world st)") auto
  from native_goes [OF True this] assms True show ?thesis by (auto simp: one_walk_def)
next
  case False
  from native_refuses [OF False, of st] assms show ?thesis by (auto simp: one_walk_def)
qed

lemma run_used: "run p rest True st = (r, st') \<Longrightarrow> io_sent st' = io_sent st \<and> io_native st' = io_native st"
proof (induction p arbitrary: r st)
  case (Next same_task request continue)
  from Next.IH [OF rangeI] Next.prems show ?case by (simp add: next_refuses_def)
next
  case (Look continue)
  from Look.IH [OF rangeI rangeI] Look.prems show ?case by simp
next
  case (Effect f continue)
  from Effect.IH [of "st\<lparr>io_world := f (io_world st)\<rparr>"] Effect.prems show ?case by simp
qed auto

lemma run_walk:
  assumes "\<And>request st r st'. rest request st = (r, st') \<Longrightarrow> one_walk V st st'"
  shows "run p rest False st = (r, st') \<Longrightarrow> one_walk V st st'"
proof (induction p arbitrary: r st)
  case (Next same_task request continue)
  show ?case
  proof (cases same_task)
    case True
    obtain r1 st1 where one: "rest request st = (r1, st1)" by (cases "rest request st")
    with Next.prems True have "run (continue r1) rest True st1 = (r, st')"
      by (simp add: next_refuses_def)
    from run_used [OF this] assms [OF one] show ?thesis by (auto simp: one_walk_def)
  next
    case False
    with Next.prems Next.IH [OF rangeI] show ?thesis by (auto simp: next_refuses_def)
  qed
next
  case (Look continue)
  from Look.IH [OF rangeI rangeI] Look.prems show ?case by simp
next
  case (Effect f continue)
  from Effect.IH [of "st\<lparr>io_world := f (io_world st)\<rparr>"] Effect.prems show ?case by (simp add: one_walk_def)
qed (auto simp: one_walk_def)

lemma dispatch_walk:
  "dispatch V interceptors current st = (r, st') \<Longrightarrow>
   one_walk V st st' \<and> (\<forall>output. r = Inr output \<longrightarrow> io_native st' = Some output \<or> iv_output_type V output)"
proof (induction interceptors arbitrary: current st r st')
  case Nil
  then show ?case
    using native_walk [of V "rq_parameters current" st r st']
    by (auto simp: one_walk_def split: if_splits)
next
  case (Cons i interceptors)
  show ?case
  proof (cases "rq_context current = iv_context V")
    case False
    with Cons.prems show ?thesis by (auto simp: one_walk_def)
  next
    case True
    obtain r1 st1 where one: "run (i current) (dispatch V interceptors) False st = (r1, st1)"
      by (cases "run (i current) (dispatch V interceptors) False st")
    have "one_walk V st st1" by (rule run_walk [OF _ one]) (use Cons.IH in blast)
    with Cons.prems True one show ?thesis
      by (auto simp: validate_response_def split: sum.splits returned.splits if_splits)
  qed
qed

text \<open>The interceptor that forwards the request and returns or raises what it gets.\<close>

definition forward :: "('o, 'w) interceptor" where
  "forward request = Next True request
     (\<lambda>r. case r of Inl e \<Rightarrow> Raise e | Inr output \<Rightarrow> Return (OperationResponse output))"

section \<open>Properties\<close>

text \<open>
  C16: an operation is dispatched at most once, and only with parameters it has. Whatever the
  interceptors do (retrying \<open>call_next\<close>, swallowing errors, rewriting parameters, answering
  themselves), the native method is called never or once, with no parameter the operation does not
  model and with a value for each one it requires.
\<close>

theorem dispatched_at_most_once:
  assumes "invoke V interceptors params world = (r, st)"
  shows "io_sent st = [] \<or> (\<exists>sent. io_sent st = [sent] \<and> set (map fst sent) \<subseteq> set (iv_allowed V)
    \<and> (\<forall>k \<in> set (iv_required V). \<exists>v. map_of sent k = Some v \<and> v \<noteq> PyNone))"
  using dispatch_walk [OF assms [unfolded invoke_def]] by (auto simp: one_walk_def admissible_def)

definition example_invocation :: "(nat, nat) invocation" where
  "example_invocation =
     \<lparr>iv_call = (\<lambda>params n. (Inr n, [], Finite 0, Suc n)), iv_region = PyNone, iv_context = 1, iv_service = ''polly'',
      iv_operation = ''DeleteLexicon'', iv_output_type = (\<lambda>output. output < 10), iv_output_name = ''Small'',
      iv_allowed = [''name''], iv_required = [''name''], iv_keyword = (\<lambda>name. False)\<rparr>"

text \<open>It calls \<open>call_next\<close> twice, and answers itself when the second call is refused.\<close>

definition insistent :: "(nat, 'w) interceptor" where
  "insistent request = Next True request (\<lambda>_. Next True request
     (\<lambda>r. case r of Inl e \<Rightarrow> Return (OperationResponse 3) | Inr output \<Rightarrow> Return (OperationResponse output)))"

theorem dispatched_at_most_once_witness:
  "\<exists>sent. io_sent (snd (invoke example_invocation [insistent, forward] [(''name'', PyStr ''a'')] 70)) = [sent]
    \<and> set (map fst sent) \<subseteq> {''name''}"
proof -
  let ?i = "invoke example_invocation [insistent, forward] [(''name'', PyStr ''a'')] 70"
  have "io_sent (snd ?i) \<noteq> []"
    by (simp add: invoke_def example_invocation_def insistent_def forward_def next_refuses_def
        native_dispatch_def unknown_parameters_def missing_parameters_def validate_response_def Let_def)
  with dispatched_at_most_once [of example_invocation "[insistent, forward]" "[(''name'', PyStr ''a'')]" 70 "fst ?i" "snd ?i"]
  show ?thesis by (auto simp: example_invocation_def)
qed

text \<open>
  C17: what the typed client returns has the operation's type. An invocation that returns gives the
  very output of the native method, or an object of the declared output type; anything else an
  interceptor returns is a \<open>TypeError\<close>.
\<close>

theorem output_is_typed:
  assumes "invoke V interceptors params world = (Inr output, st)"
  shows "io_native st = Some output \<or> iv_output_type V output"
  using dispatch_walk [OF assms [unfolded invoke_def]] by blast

theorem output_is_typed_witness:
  "\<exists>st. invoke example_invocation [insistent] [(''name'', PyStr ''a'')] 70 = (Inr 3, st)
    \<and> (io_native st = Some 3 \<or> iv_output_type example_invocation 3)"
proof -
  obtain st where i: "invoke example_invocation [insistent] [(''name'', PyStr ''a'')] 70 = (Inr 3, st)"
    by (simp add: invoke_def example_invocation_def insistent_def next_refuses_def
        native_dispatch_def unknown_parameters_def missing_parameters_def validate_response_def Let_def)
  from output_is_typed [OF i] i show ?thesis by blast
qed

lemma dispatch_forward: "dispatch V (forward # interceptors) = dispatch V interceptors"
proof (intro ext)
  fix current st
  obtain r st' where r: "dispatch V interceptors current st = (r, st')"
    by (cases "dispatch V interceptors current st")
  show "dispatch V (forward # interceptors) current st = dispatch V interceptors current st"
  proof (cases "rq_context current = iv_context V")
    case True
    with r dispatch_walk [OF r] show ?thesis
      by (auto simp: forward_def next_refuses_def validate_response_def split: sum.splits)
  next
    case False
    then show ?thesis by (cases interceptors) simp_all
  qed
qed

lemma dispatch_forward_anywhere: "dispatch V (xs @ forward # ys) = dispatch V (xs @ ys)"
proof (induction xs)
  case Nil
  then show ?case by (simp only: append_Nil dispatch_forward)
next
  case (Cons x xs)
  show ?case by (intro ext) (simp add: Cons.IH)
qed

text \<open>
  A transparent interceptor changes nothing. Wherever in the chain it stands, and whatever the
  others do, forwarding the request and giving back what came gives the same result, the same calls
  and the same metadata as leaving the interceptor out; so a chain of them is the bypass the
  generated methods take when there are none.
\<close>

lemma transparent_interceptor:
  "invoke V (xs @ forward # ys) params world = invoke V (xs @ ys) params world"
  by (simp add: invoke_def dispatch_forward_anywhere)

lemma response_id_nonempty: "response_id_of r \<noteq> Some []"
  by (auto simp: response_id_of_def from_response_def request_id_headers_def safe_id_def
      split: option.splits if_splits Option.bind_splits)


text \<open>A call that was retried once and then failed without a response; a wrapper gave the error an id.\<close>

definition example_client_error :: pyerr where
  "example_client_error = (new_err ''ConnectionError'' [''ClientError'', ''RbotoError''] ''lost'')\<lparr>err_attrs := Some
     \<lparr>ce_message = ''lost'', ce_error_code = ''ConnectionError'', ce_request_id = PyStr ''id7'',
      ce_operation_name = ''Ping'', ce_response_metadata = [], ce_details = []\<rparr>\<rparr>"


end
