(* ===== verification/Observers.thy ===== *)
theory Observers
  imports Interceptors
begin

text \<open>
  Interceptors that only observe: what it means that one adds nothing to an operation but effects of
  its own, in a world of its own, and that a chain with such interceptors around it gives what the
  chain gives alone.
\<close>

section \<open>Two worlds\<close>

text \<open>A program on one part of the world: \<open>get\<close> reads the part and \<open>over\<close> changes it.\<close>

primrec zoom :: "('w \<Rightarrow> 'a) \<Rightarrow> (('a \<Rightarrow> 'a) \<Rightarrow> 'w \<Rightarrow> 'w) \<Rightarrow> ('o, 'a) program \<Rightarrow> ('o, 'w) program" where
  "zoom get over (Return response) = Return response"
| "zoom get over (Raise e) = Raise e"
| "zoom get over (Next same_task request continue) = Next same_task request (\<lambda>r. zoom get over (continue r))"
| "zoom get over (Look continue) = Look (\<lambda>m w. zoom get over (continue m (get w)))"
| "zoom get over (Effect f continue) = Effect (over f) (zoom get over continue)"

text \<open>
  The application and the service live in the first part, the observers in the second: the native
  method and the application's interceptors neither see nor change what the observers do, but the
  time they take passes there too, which is \<open>tick\<close>.
\<close>

definition application :: "('b \<Rightarrow> 'b) \<Rightarrow> ('o, 'a) interceptor \<Rightarrow> ('o, 'a \<times> 'b) interceptor" where
  "application tick i request = zoom fst (\<lambda>f. map_prod f tick) (i request)"

definition observer :: "('o, 'b) interceptor \<Rightarrow> ('o, 'a \<times> 'b) interceptor" where
  "observer i request = zoom snd apsnd (i request)"

definition beside :: "('b \<Rightarrow> 'b) \<Rightarrow> ('o, 'a) invocation \<Rightarrow> ('o, 'a \<times> 'b) invocation" where
  "beside tick V =
     \<lparr>iv_call = (\<lambda>params w. case iv_call V params (fst w) of
          (r, raw, duration, a) \<Rightarrow> (r, raw, duration, a, tick (snd w))),
      iv_region = iv_region V, iv_context = iv_context V, iv_service = iv_service V, iv_operation = iv_operation V,
      iv_output_type = iv_output_type V, iv_output_name = iv_output_name V, iv_allowed = iv_allowed V,
      iv_required = iv_required V, iv_keyword = iv_keyword V\<rparr>"

lemma beside_simps [simp]:
  "iv_region (beside tick V) = iv_region V" "iv_context (beside tick V) = iv_context V" "iv_service (beside tick V) = iv_service V"
  "iv_operation (beside tick V) = iv_operation V" "iv_output_type (beside tick V) = iv_output_type V"
  "iv_output_name (beside tick V) = iv_output_name V" "iv_keyword (beside tick V) = iv_keyword V"
  "unknown_parameters (beside tick V) = unknown_parameters V" "missing_parameters (beside tick V) = missing_parameters V"
  by (auto simp: beside_def fun_eq_iff unknown_parameters_def missing_parameters_def)

section \<open>The same walk\<close>

text \<open>Two states of an invocation that differ in what only observers see.\<close>

definition same_state :: "('o, 'a) invoking \<Rightarrow> ('o, 'a \<times> 'b) invoking \<Rightarrow> bool" where
  "same_state st st' \<longleftrightarrow> io_native st' = io_native st \<and> io_metadata st' = io_metadata st
     \<and> io_sent st' = io_sent st \<and> fst (io_world st') = io_world st"

definition same_result :: "'r \<times> ('o, 'a) invoking \<Rightarrow> 'r \<times> ('o, 'a \<times> 'b) invoking \<Rightarrow> bool" where
  "same_result x y \<longleftrightarrow> fst y = fst x \<and> same_state (snd x) (snd y)"

definition same_walk :: "(operation_request \<Rightarrow> ('o, 'a) invoking \<Rightarrow> 'r \<times> ('o, 'a) invoking) \<Rightarrow>
    (operation_request \<Rightarrow> ('o, 'a \<times> 'b) invoking \<Rightarrow> 'r \<times> ('o, 'a \<times> 'b) invoking) \<Rightarrow> bool" where
  "same_walk f g \<longleftrightarrow> (\<forall>request st st'. same_state st st' \<longrightarrow> same_result (f request st) (g request st'))"

lemma same_walkD: "same_walk f g \<Longrightarrow> same_state st st' \<Longrightarrow> same_result (f request st) (g request st')"
  by (simp add: same_walk_def)

lemma same_native:
  assumes "same_state st st'"
  shows "same_result (native_dispatch V params st) (native_dispatch (beside tick V) params st')"
proof -
  obtain r raw duration a where call: "iv_call V params (io_world st) = (r, raw, duration, a)"
    by (cases "iv_call V params (io_world st)") auto
  with assms have "iv_call (beside tick V) params (io_world st') = (r, raw, duration, a, tick (snd (io_world st')))"
    by (simp add: same_state_def beside_def)
  with assms call show ?thesis
    by (auto simp: native_dispatch_def same_state_def same_result_def Let_def split: list.splits sum.splits)
qed

lemma same_run:
  assumes "same_walk f g"
  shows "same_state st st' \<Longrightarrow> same_result (run p f used st) (run (zoom fst (\<lambda>f. map_prod f tick) p) g used st')"
proof (induction p arbitrary: used st st')
  case (Next same_task request continue)
  show ?case
  proof (cases "next_refuses True used same_task")
    case None
    obtain r s where f: "f request st = (r, s)" by (cases "f request st")
    from same_walkD [OF assms Next.prems, of request] f obtain s' where "g request st' = (r, s')" "same_state s s'"
      by (cases "g request st'") (simp add: same_result_def)
    with f None Next.IH [OF rangeI, of s s' r True] show ?thesis by simp
  next
    case (Some e)
    with Next.IH [OF rangeI, of st st' "Inl e" used] Next.prems show ?thesis by simp
  qed
next
  case (Look continue)
  from Look.prems Look.IH [OF rangeI rangeI, of st st' "io_metadata st" "io_world st" used] show ?case
    by (simp add: same_state_def)
next
  case (Effect h continue)
  have "same_state (st\<lparr>io_world := h (io_world st)\<rparr>) (st'\<lparr>io_world := map_prod h tick (io_world st')\<rparr>)"
    using Effect.prems by (simp add: same_state_def)
  from Effect.IH [OF this, of used] show ?case by simp
qed (simp_all add: same_result_def)

lemma same_validated:
  "same_state st st' \<Longrightarrow> validate_response (beside tick V) (io_native st') response = validate_response V (io_native st) response"
  by (simp add: validate_response_def same_state_def split: returned.splits)

lemma application_walk:
  assumes "same_walk (dispatch V is) (dispatch (beside tick V) js)"
  shows "same_walk (dispatch V (i # is)) (dispatch (beside tick V) (application tick i # js))"
  unfolding same_walk_def
proof (intro allI impI)
  fix request and st :: "('a, 'b) invoking" and st' :: "('a, 'b \<times> 'c) invoking"
  assume st: "same_state st st'"
  obtain r s where f: "run (i request) (dispatch V is) False st = (r, s)"
    by (cases "run (i request) (dispatch V is) False st")
  from same_run [where tick = tick, OF assms st, of "i request" False] f obtain s' where
    g: "run (application tick i request) (dispatch (beside tick V) js) False st' = (r, s')" and s: "same_state s s'"
    by (cases "run (application tick i request) (dispatch (beside tick V) js) False st'")
      (simp add: same_result_def application_def)
  from f g st s show "same_result (dispatch V (i # is) request st) (dispatch (beside tick V) (application tick i # js) request st')"
    by (auto simp: same_result_def same_validated [OF s] split: sum.splits)
qed

lemma applications_walk:
  "same_walk (dispatch V is) (dispatch (beside tick V) (map (application tick) is))"
proof (induction "is")
  case Nil
  show ?case
    unfolding same_walk_def using same_native [where V = V and tick = tick] by (auto simp: same_result_def)
next
  case (Cons i "is")
  then show ?case by (simp add: application_walk del: dispatch.simps)
qed

text \<open>In the second part only time passes.\<close>

definition passed :: "('b \<Rightarrow> 'b) \<Rightarrow> 'b \<Rightarrow> 'b \<Rightarrow> bool" where
  "passed tick b b' \<longleftrightarrow> (\<exists>n. b' = (tick ^^ n) b)"

lemma passed_refl [simp]: "passed tick b b"
  by (auto simp: passed_def intro: exI [of _ 0])

lemma passed_tick [simp]: "passed tick b (tick b)"
  by (auto simp: passed_def intro: exI [of _ 1])

lemma passed_trans: "passed tick a b \<Longrightarrow> passed tick b c \<Longrightarrow> passed tick a c"
  unfolding passed_def by (metis comp_apply funpow_add)

lemma passed_keeps:
  assumes "passed tick b b'" and "\<And>b. p (tick b) = p b"
  shows "p b' = p b"
proof -
  from assms(1) obtain n where "b' = (tick ^^ n) b" by (auto simp: passed_def)
  moreover have "p ((tick ^^ n) b) = p b" by (induction n) (simp_all add: assms(2))
  ultimately show ?thesis by simp
qed

lemma run_passed:
  assumes "\<And>request st. passed tick (snd (io_world st)) (snd (io_world (snd (g request st))))"
  shows "passed tick (snd (io_world st)) (snd (io_world (snd (run (zoom fst (\<lambda>f. map_prod f tick) p) g used st))))"
proof (induction p arbitrary: used st)
  case (Next same_task request continue)
  show ?case
  proof (cases "next_refuses True used same_task")
    case None
    obtain r s where g: "g request st = (r, s)" by (cases "g request st")
    have "passed tick (snd (io_world st)) (snd (io_world s))" using assms [of st request] g by simp
    from passed_trans [OF this Next.IH [OF rangeI, of s r True]] None g show ?thesis by simp
  next
    case (Some e)
    with Next.IH [OF rangeI, of st "Inl e" used] show ?thesis by simp
  qed
next
  case (Look continue)
  from Look.IH [OF rangeI rangeI] show ?case by simp
next
  case (Effect f continue)
  from Effect.IH [of "st\<lparr>io_world := map_prod f tick (io_world st)\<rparr>" used]
  show ?case by (auto intro: passed_trans [OF passed_tick])
qed simp_all

lemma native_passed:
  "passed tick (snd (io_world st)) (snd (io_world (snd (native_dispatch (beside tick V) params st))))"
proof -
  obtain r raw duration a where "iv_call V params (fst (io_world st)) = (r, raw, duration, a)"
    by (cases "iv_call V params (fst (io_world st))") auto
  then have "iv_call (beside tick V) params (io_world st) = (r, raw, duration, a, tick (snd (io_world st)))"
    by (simp add: beside_def)
  then show ?thesis by (auto simp: native_dispatch_def Let_def split: list.splits sum.splits)
qed

lemma applications_passed:
  "passed tick (snd (io_world st))
    (snd (io_world (snd (dispatch (beside tick V) (map (application tick) is) request st))))"
proof (induction "is" arbitrary: request st)
  case Nil
  show ?case by (auto simp: native_passed)
next
  case (Cons i "is")
  from run_passed [where g = "dispatch (beside tick V) (map (application tick) is)"
      and p = "i request" and used = False and st = st, OF Cons.IH] show ?case
    by (auto simp: application_def [of tick i request] split: sum.splits prod.splits)
qed

section \<open>Observers\<close>

text \<open>
  An observer gives back what the rest of the chain gave: it calls it once, in its own task and with
  the request it was given, and its effects before and after are on its own part of the world.
\<close>

definition observes :: "('o, 'a \<times> 'b) interceptor \<Rightarrow> bool" where
  "observes i \<longleftrightarrow> (\<forall>request rest st. \<exists>before after.
     run (i request) rest False st =
       (let (r, st') = rest request (st\<lparr>io_world := apsnd before (io_world st)\<rparr>)
        in (map_ok OperationResponse r, st'\<lparr>io_world := apsnd (after r (io_metadata st')) (io_world st')\<rparr>)))"

lemma same_state_apsnd:
  "same_state st (st'\<lparr>io_world := apsnd f (io_world st')\<rparr>) \<longleftrightarrow> same_state st st'"
  by (simp add: same_state_def)

lemma observer_walk:
  assumes "observes j" and walk: "same_walk (dispatch V is) (dispatch (beside tick V) js)"
  shows "same_walk (dispatch V is) (dispatch (beside tick V) (j # js))"
  unfolding same_walk_def
proof (intro allI impI)
  fix request and st :: "('a, 'b) invoking" and st' :: "('a, 'b \<times> 'c) invoking"
  assume st: "same_state st st'"
  show "same_result (dispatch V is request st) (dispatch (beside tick V) (j # js) request st')"
  proof (cases "rq_context request = iv_context V")
    case False
    with st show ?thesis by (cases "is") (simp_all add: same_result_def)
  next
    case True
    from assms(1) obtain before after where run: "run (j request) (dispatch (beside tick V) js) False st' =
        (let (r, s') = dispatch (beside tick V) js request (st'\<lparr>io_world := apsnd before (io_world st')\<rparr>)
         in (map_ok OperationResponse r, s'\<lparr>io_world := apsnd (after r (io_metadata s')) (io_world s')\<rparr>))"
      unfolding observes_def by blast
    obtain r s where f: "dispatch V is request st = (r, s)" by (cases "dispatch V is request st")
    from same_walkD [OF walk, of st "st'\<lparr>io_world := apsnd before (io_world st')\<rparr>" request] st f obtain s' where
      g: "dispatch (beside tick V) js request (st'\<lparr>io_world := apsnd before (io_world st')\<rparr>) = (r, s')" and s: "same_state s s'"
      by (cases "dispatch (beside tick V) js request (st'\<lparr>io_world := apsnd before (io_world st')\<rparr>)")
        (simp add: same_result_def same_state_apsnd)
    from dispatch_walk [OF g] True run g f s show ?thesis
      by (cases r) (auto simp: same_result_def same_state_apsnd validate_response_def)
  qed
qed

lemma observed_walk:
  "\<forall>j \<in> set os. observes j \<Longrightarrow> same_walk (dispatch V is) (dispatch (beside tick V) (os @ map (application tick) is))"
  by (induction os) (simp_all add: applications_walk observer_walk del: dispatch.simps)

lemma observed_invoke:
  assumes "\<forall>j \<in> set os. observes j" and "invoke V is params a = (r, st)"
  shows "\<exists>st'. invoke (beside tick V) (os @ map (application tick) is) params (a, b) = (r, st') \<and> same_state st st'"
proof -
  have "same_result (invoke V is params a) (invoke (beside tick V) (os @ map (application tick) is) params (a, b))"
    unfolding invoke_def beside_simps
    by (rule same_walkD [OF observed_walk [OF assms(1)]]) (simp add: same_state_def)
  with assms(2) show ?thesis
    by (cases "invoke (beside tick V) (os @ map (application tick) is) params (a, b)") (simp add: same_result_def)
qed

end
