(* ===== verification/Logging.thy ===== *)
theory Logging
  imports Observers
begin

text \<open>
  Operation logs (\<open>packages/rboto/src/rboto/logging.py\<close>): the process-wide configuration of the
  package's loggers, and the interceptor that writes a record for every operation.
\<close>

section \<open>Configuration\<close>

definition levels :: "(string \<times> int) list" where
  "levels = [(''DEBUG'', 10), (''INFO'', 20), (''WARNING'', 30), (''ERROR'', 40), (''CRITICAL'', 50), (''OFF'', 51)]"

text \<open>
  The loggers of Python's \<open>logging\<close>: the root, \<open>rboto\<close> and its children \<open>rboto.<service>\<close>.
  \<open>JsonHandler\<close> is the package's one handler, \<open>_handler\<close> once it was made; its stream is apart, because
  it can be replaced. The last fields are the globals of the module.
\<close>

datatype handler = JsonHandler | OtherHandler nat

record logger =
  lg_level :: int
  lg_disabled :: bool
  lg_propagate :: bool
  lg_handlers :: "handler list"

record ('s, 't) logging =
  lo_disable :: int
  lo_root :: logger
  lo_parent :: logger
  lo_services :: "string \<Rightarrow> logger"
  lo_stream :: "'s option"
  lo_configured :: bool
  lo_trace_context :: "'t option"

definition effective_level :: "('s, 't) logging \<Rightarrow> string \<Rightarrow> int" where
  "effective_level L service =
     (if lg_level (lo_services L service) \<noteq> 0 then lg_level (lo_services L service)
      else if lg_level (lo_parent L) \<noteq> 0 then lg_level (lo_parent L)
      else lg_level (lo_root L))"

definition enabled_for :: "('s, 't) logging \<Rightarrow> string \<Rightarrow> int \<Rightarrow> bool" where
  "enabled_for L service level \<longleftrightarrow> \<not> lg_disabled (lo_services L service) \<and> lo_disable L < level
     \<and> effective_level L service \<le> level"

text \<open>How many lines \<open>_JsonHandler\<close> writes for one record of a service: a record climbs while loggers propagate.\<close>

definition lines_per_record :: "('s, 't) logging \<Rightarrow> string \<Rightarrow> nat" where
  "lines_per_record L service =
     count_list (lg_handlers (lo_services L service)) JsonHandler +
     (if lg_propagate (lo_services L service) then
        count_list (lg_handlers (lo_parent L)) JsonHandler +
        (if lg_propagate (lo_parent L) then count_list (lg_handlers (lo_root L)) JsonHandler else 0)
      else 0)"

text \<open>\<open>repr\<close> is Python's. \<open>get_logger\<close> knows the services by name.\<close>

definition get_logger :: "(string \<Rightarrow> string) \<Rightarrow> string list \<Rightarrow> string \<Rightarrow> unit pyresult" where
  "get_logger repr service_ids service =
     (if service \<in> set service_ids then Inr () else Inl (value_error (''unknown service: '' @ repr service)))"

definition check_override :: "(string \<Rightarrow> string) \<Rightarrow> string list \<Rightarrow> string \<times> string \<Rightarrow> unit pyresult" where
  "check_override repr service_ids override =
     (case override of (service, level) \<Rightarrow>
        if map_of levels level = None then
          Inl (value_error (''invalid log level for '' @ service @ '': '' @ repr level))
        else get_logger repr service_ids service)"

definition level_number :: "string \<Rightarrow> int" where
  "level_number level = (case map_of levels level of None \<Rightarrow> 0 | Some n \<Rightarrow> n)"

definition configure_logging :: "(string \<Rightarrow> string) \<Rightarrow> string list \<Rightarrow> 's \<Rightarrow> string \<Rightarrow> (string \<times> string) list \<Rightarrow>
    's option \<Rightarrow> 't option \<Rightarrow> ('s, 't) logging \<Rightarrow> unit pyresult \<times> ('s, 't) logging" where
  "configure_logging repr service_ids stdout level overrides stream trace_context L =
     (if map_of levels level = None then (Inl (value_error (''invalid log level: '' @ repr level)), L)
      else case traverse 0 (\<lambda>_. check_override repr service_ids) overrides of
          Inl e \<Rightarrow> (Inl e, L)
        | Inr _ \<Rightarrow> (Inr (), L\<lparr>
            lo_stream := Some (case stream of None \<Rightarrow> stdout | Some s \<Rightarrow> s),
            lo_parent := (lo_parent L)\<lparr>
              lg_handlers := (if JsonHandler \<in> set (lg_handlers (lo_parent L)) then lg_handlers (lo_parent L)
                else lg_handlers (lo_parent L) @ [JsonHandler]),
              lg_level := level_number level, lg_disabled := False, lg_propagate := False\<rparr>,
            lo_services := (\<lambda>service. if service \<in> set service_ids then
                (lo_services L service)\<lparr>
                  lg_level := (case map_of overrides service of Some l \<Rightarrow> level_number l | None \<Rightarrow> 0),
                  lg_disabled := False, lg_propagate := True\<rparr>
              else lo_services L service),
            lo_trace_context := trace_context, lo_configured := True\<rparr>))"

section \<open>The interceptor\<close>

record log_trace =
  lt_trace_id :: string
  lt_span_id :: string

record operation_context =
  oc_operation_id :: string
  oc_service :: string
  oc_operation :: string
  oc_correlation_id :: pyval
  oc_service_name :: "string option"

text \<open>\<open>OperationLogFields\<close>; the attempts (number, milliseconds, status and request id) only in a retry record.\<close>

record operation_log =
  ol_event :: string
  ol_service :: string
  ol_operation :: string
  ol_operation_id :: string
  ol_correlation_id :: pyval
  ol_region :: pyval
  ol_duration_ms :: f64
  ol_outcome :: string
  ol_dispatched :: bool
  ol_native_duration_ms :: "f64 option"
  ol_attempt_count :: pyval
  ol_retry_count :: pyval
  ol_status_code :: pyval
  ol_request_id :: pyval
  ol_error_code :: "string option"
  ol_error_type :: "string option"
  ol_native_error_code :: "string option"
  ol_native_error_type :: "string option"
  ol_trace :: "log_trace option"
  ol_attempts :: "(pyval \<times> f64 \<times> pyval \<times> pyval) list option"
  ol_attempts_truncated :: "bool option"

text \<open>
  What the interceptor uses of its process, whose state is \<open>'l\<close>: whether a logger is enabled for a
  level; \<open>perf_counter\<close>; the lookup of the trace, which is the application's or reads \<open>operation_trace\<close>;
  and \<open>Logger.log\<close>, whose handlers and filters may raise (\<open>True\<close>) after part of their work.
  \<open>la_since\<close> and \<open>la_ms\<close> are the difference of two times and the product with 1000.
\<close>

record 'l log_api =
  la_enabled :: "'l \<Rightarrow> string \<Rightarrow> int \<Rightarrow> bool"
  la_clock :: "'l \<Rightarrow> f64"
  la_since :: "f64 \<Rightarrow> f64 \<Rightarrow> f64"
  la_ms :: "f64 \<Rightarrow> f64"
  la_trace :: "'l \<Rightarrow> log_trace option pyresult \<times> 'l"
  la_log :: "int \<times> operation_log \<Rightarrow> 'l \<Rightarrow> bool \<times> 'l"

text \<open>A sequence of calls under one \<open>try\<close>: the first that raises is the last.\<close>

fun attempt_all :: "('op \<Rightarrow> 'l \<Rightarrow> bool \<times> 'l) \<Rightarrow> 'op list \<Rightarrow> 'l \<Rightarrow> 'l" where
  "attempt_all f [] l = l"
| "attempt_all f (x # xs) l = (case f x l of (raised, l) \<Rightarrow> if raised then l else attempt_all f xs l)"

definition outcome_of :: "pyerr option \<Rightarrow> string" where
  "outcome_of error = (case error of
     None \<Rightarrow> ''success''
   | Some e \<Rightarrow> if is_instance e ''CancelledError'' then ''cancelled'' else ''error'')"

definition outcome_level :: "pyerr option \<Rightarrow> int" where
  "outcome_level error =
     (if outcome_of error = ''success'' then 20 else if outcome_of error = ''cancelled'' then 30 else 40)"

definition log_fields :: "'l log_api \<Rightarrow> operation_context \<Rightarrow> f64 \<Rightarrow> pyerr option \<Rightarrow> operation_metadata \<Rightarrow>
    log_trace option \<Rightarrow> operation_log" where
  "log_fields A context elapsed error m trace =
     \<lparr>ol_event = ''operation.completed'', ol_service = oc_service context, ol_operation = oc_operation context,
      ol_operation_id = oc_operation_id context, ol_correlation_id = oc_correlation_id context,
      ol_region = om_region m, ol_duration_ms = la_ms A elapsed, ol_outcome = outcome_of error,
      ol_dispatched = om_dispatched m, ol_native_duration_ms = map_option (la_ms A) (om_duration m),
      ol_attempt_count = om_attempt_count m, ol_retry_count = retry_count m, ol_status_code = om_status_code m,
      ol_request_id = om_request_id m,
      ol_error_code = map_option ce_error_code (Option.bind error err_attrs),
      ol_error_type = map_option err_class error,
      ol_native_error_code = om_error_code m, ol_native_error_type = om_error_type m,
      ol_trace = trace, ol_attempts = None, ol_attempts_truncated = None\<rparr>"

text \<open>An \<open>Attempt\<close> of the metadata, as the tuple it is made of.\<close>

definition attempt_fields :: "'l log_api \<Rightarrow> pyval \<Rightarrow> pyval \<times> f64 \<times> pyval \<times> pyval" where
  "attempt_fields A attempt =
     (case attempt of
        PyTuple [number, PyFloat duration, status, request_id] \<Rightarrow> (number, la_ms A duration, status, request_id)
      | _ \<Rightarrow> (PyNone, NaN, PyNone, PyNone))"

definition retry_fields :: "'l log_api \<Rightarrow> operation_metadata \<Rightarrow> operation_log \<Rightarrow> operation_log" where
  "retry_fields A m entry =
     entry\<lparr>ol_event := ''operation.retry'', ol_attempts := Some (map (attempt_fields A) (om_attempts m)),
       ol_attempts_truncated := Some (om_attempts_truncated m)\<rparr>"

definition retried :: "operation_metadata \<Rightarrow> bool" where
  "retried m = (case retry_count m of PyInt n \<Rightarrow> 0 < n | _ \<Rightarrow> False)"

text \<open>\<open>_emit\<close>, under the \<open>try\<close> of its caller.\<close>

definition emit_log :: "'l log_api \<Rightarrow> operation_context \<Rightarrow> f64 \<Rightarrow> pyerr option \<Rightarrow> operation_metadata \<Rightarrow> 'l \<Rightarrow> 'l" where
  "emit_log A context started error m l =
     (let service = oc_service context; level = outcome_level error;
          completed = la_enabled A l service level;
          retries = la_enabled A l service 10 \<and> retried m
      in if \<not> completed \<and> \<not> retries then l
         else (case la_trace A l of (trace, l') \<Rightarrow>
           let entry = log_fields A context (la_since A (la_clock A l) started) error m
                 (case trace of Inr t \<Rightarrow> t | Inl _ \<Rightarrow> None)
           in attempt_all (la_log A)
                ((if completed then [(level, entry)] else []) @ (if retries then [(10, retry_fields A m entry)] else [])) l'))"

text \<open>\<open>return await call_next(request)\<close>: what came is given back.\<close>

definition give :: "pyerr + 'o \<Rightarrow> ('o, 'w) program" where
  "give r = (case r of Inl e \<Rightarrow> Raise e | Inr output \<Rightarrow> Return (OperationResponse output))"

definition error_of :: "pyerr + 'o \<Rightarrow> pyerr option" where
  "error_of r = (case r of Inl e \<Rightarrow> Some e | Inr _ \<Rightarrow> None)"

definition logging_interceptor :: "'l log_api \<Rightarrow> operation_context \<Rightarrow> ('o, 'l) interceptor" where
  "logging_interceptor A context request = Look (\<lambda>_ l.
     if \<not> la_enabled A l (oc_service context) 40 then Next True request give
     else Next True request (\<lambda>r. Look (\<lambda>m _.
       Effect (emit_log A context (la_clock A l) (error_of r) m) (give r))))"

text \<open>\<open>operation_interceptors\<close> of the module, for the chain of one invocation.\<close>

definition logging_interceptors :: "('s, 't) logging \<Rightarrow> string \<Rightarrow> 'i \<Rightarrow> 'i list \<Rightarrow> 'i list" where
  "logging_interceptors L service operation_logging interceptors =
     (if \<not> lo_configured L \<or> \<not> enabled_for L service 40 then interceptors
      else operation_logging # interceptors)"

section \<open>What the interceptor does\<close>

lemma give_run [simp]: "run (give r) rest used st = (map_ok OperationResponse r, st)"
  by (cases r) (simp_all add: give_def)

lemma zoom_give [simp]: "zoom get over (give r) = give r"
  by (cases r) (simp_all add: give_def)

lemma logging_run:
  "run (observer (logging_interceptor A context) request) rest False st =
     (let (r, st') = rest request st
      in (map_ok OperationResponse r, st'\<lparr>io_world := apsnd
           (if la_enabled A (snd (io_world st)) (oc_service context) 40
            then emit_log A context (la_clock A (snd (io_world st))) (error_of r) (io_metadata st') else id)
           (io_world st')\<rparr>))"
  by (simp add: observer_def logging_interceptor_def next_refuses_def split: prod.splits)

lemma apsnd_id [simp]: "apsnd id w = w"
  by (cases w) simp

lemma logging_observes: "observes (observer (logging_interceptor A context))"
  unfolding observes_def
proof (intro allI)
  fix request rest and st :: "('a, 'b \<times> 'c) invoking"
  let ?after = "\<lambda>r m. if la_enabled A (snd (io_world st)) (oc_service context) 40
    then emit_log A context (la_clock A (snd (io_world st))) (error_of r) m else id"
  show "\<exists>before after. run (observer (logging_interceptor A context) request) rest False st =
      (let (r, st') = rest request (st\<lparr>io_world := apsnd before (io_world st)\<rparr>)
       in (map_ok OperationResponse r, st'\<lparr>io_world := apsnd (after r (io_metadata st')) (io_world st')\<rparr>))"
    by (rule exI [of _ id], rule exI [of _ ?after]) (simp only: logging_run, simp)
qed

lemma attempt_all_written:
  assumes "\<And>x l. x \<in> set xs \<Longrightarrow> \<exists>l'. f x l = (False, l') \<and> written l' = written l @ [g x]"
  shows "written (attempt_all f xs l) = written l @ map g xs"
  using assms
proof (induction xs arbitrary: l)
  case (Cons x xs)
  from Cons.prems [of x l] obtain l' where "f x l = (False, l')" "written l' = written l @ [g x]" by auto
  with Cons.IH [of l'] Cons.prems show ?case by simp
qed simp

text \<open>What an application's handlers promise: they take every record and do not raise.\<close>

definition records_kept :: "'l log_api \<Rightarrow> ('l \<Rightarrow> (int \<times> operation_log) list) \<Rightarrow> bool" where
  "records_kept A written \<longleftrightarrow>
     (\<forall>x l. \<exists>l'. la_log A x l = (False, l') \<and> written l' = written l @ [x])
     \<and> (\<forall>l. written (snd (la_trace A l)) = written l)"

definition trace_read :: "'l log_api \<Rightarrow> 'l \<Rightarrow> log_trace option" where
  "trace_read A l = (case fst (la_trace A l) of Inr trace \<Rightarrow> trace | Inl _ \<Rightarrow> None)"

lemma emit_written:
  assumes "records_kept A written"
  shows "written (emit_log A context started error m l) = written l
    @ (let entry = log_fields A context (la_since A (la_clock A l) started) error m (trace_read A l)
       in (if la_enabled A l (oc_service context) (outcome_level error) then [(outcome_level error, entry)] else [])
        @ (if la_enabled A l (oc_service context) 10 \<and> retried m then [(10, retry_fields A m entry)] else []))"
proof -
  obtain trace l' where t: "la_trace A l = (trace, l')" by (cases "la_trace A l")
  with assms have w: "written l' = written l" by (auto simp: records_kept_def dest: spec [of _ l])
  have "\<exists>k'. la_log A x k = (False, k') \<and> written k' = written k @ [id x]" for x k
    using assms unfolding records_kept_def id_def by blast
  with w have "written (attempt_all (la_log A) xs l') = written l @ xs" for xs
    using attempt_all_written [of xs "la_log A" written id l'] by (simp only: list.map_id)
  then show ?thesis by (auto simp: emit_log_def Let_def t trace_read_def)
qed

text \<open>The level and the entries, by what the operation gave.\<close>

lemma outcome_level_of:
  "outcome_level (error_of r) =
     (case r of Inr _ \<Rightarrow> 20 | Inl e \<Rightarrow> if is_instance e ''CancelledError'' then 30 else 40)"
  by (simp add: outcome_level_def outcome_of_def error_of_def split: sum.split)

lemma log_fields_of:
  "log_fields A context elapsed (error_of r) m trace =
     \<lparr>ol_event = ''operation.completed'', ol_service = oc_service context, ol_operation = oc_operation context,
      ol_operation_id = oc_operation_id context, ol_correlation_id = oc_correlation_id context,
      ol_region = om_region m, ol_duration_ms = la_ms A elapsed,
      ol_outcome = (case r of Inr _ \<Rightarrow> ''success''
        | Inl e \<Rightarrow> if is_instance e ''CancelledError'' then ''cancelled'' else ''error''),
      ol_dispatched = om_dispatched m, ol_native_duration_ms = map_option (la_ms A) (om_duration m),
      ol_attempt_count = om_attempt_count m,
      ol_retry_count = (case om_attempt_count m of PyInt k \<Rightarrow> PyInt (max 0 (k - 1)) | v \<Rightarrow> v),
      ol_status_code = om_status_code m, ol_request_id = om_request_id m,
      ol_error_code = (case r of Inr _ \<Rightarrow> None | Inl e \<Rightarrow> map_option ce_error_code (err_attrs e)),
      ol_error_type = (case r of Inr _ \<Rightarrow> None | Inl e \<Rightarrow> Some (err_class e)),
      ol_native_error_code = om_error_code m, ol_native_error_type = om_error_type m,
      ol_trace = trace, ol_attempts = None, ol_attempts_truncated = None\<rparr>"
  by (simp add: log_fields_def outcome_of_def error_of_def retry_count_def split: sum.split)

lemma retried_iff: "retried m \<longleftrightarrow> (case om_attempt_count m of PyInt k \<Rightarrow> 1 < k | _ \<Rightarrow> False)"
  by (auto simp: retried_def retry_count_def split: pyval.splits)

lemma retry_fields_of:
  "retry_fields A m entry =
     entry\<lparr>ol_event := ''operation.retry'',
       ol_attempts := Some (map (\<lambda>attempt. case attempt of
           PyTuple [number, PyFloat duration, status, request_id] \<Rightarrow> (number, la_ms A duration, status, request_id)
         | _ \<Rightarrow> (PyNone, NaN, PyNone, PyNone)) (om_attempts m)),
       ol_attempts_truncated := Some (om_attempts_truncated m)\<rparr>"
  unfolding retry_fields_def attempt_fields_def ..

lemmas logged_entries = outcome_level_of log_fields_of retried_iff retry_fields_of

lemma distinct_count_list: "distinct hs \<Longrightarrow> count_list hs h = (if h \<in> set hs then 1 else 0)"
  by (induction hs) auto

section \<open>Properties\<close>

text \<open>
  Configuring the logs sets what every service logs. Whatever was configured before, a successful
  \<open>configure_logging\<close> enables a service for exactly the levels from its own override, or else the default
  level, upwards (as far as the process has not disabled logging); every record gives one line, also
  after repeated configuration, and the application's handlers and the root logger stay as they were.
  A call with an unknown level or service raises \<open>ValueError\<close> and changes nothing.
\<close>

lemma logging_is_configured:
  fixes L :: "('s, 't) logging"
  assumes "configure_logging repr service_ids stdout level overrides stream trace_context L = (r, L')"
    and "distinct (lg_handlers (lo_parent L))"
    and "service \<in> set service_ids" and "JsonHandler \<notin> set (lg_handlers (lo_services L service))"
  shows "case r of
      Inl e \<Rightarrow> L' = L \<and> err_class e = ''ValueError''
    | Inr _ \<Rightarrow> (\<forall>n. enabled_for L' service n \<longleftrightarrow> lo_disable L < n
          \<and> level_number (case map_of overrides service of None \<Rightarrow> level | Some own \<Rightarrow> own) \<le> n)
        \<and> lines_per_record L' service = 1
        \<and> filter (\<lambda>h. h \<noteq> JsonHandler) (lg_handlers (lo_parent L')) = filter (\<lambda>h. h \<noteq> JsonHandler) (lg_handlers (lo_parent L))
        \<and> lo_root L' = lo_root L \<and> lo_stream L' = Some (case stream of None \<Rightarrow> stdout | Some s \<Rightarrow> s)"
proof (cases r)
  case (Inl e)
  have "err_class e = ''ValueError''" if "check_override repr service_ids override = Inl e" for override e
    using that by (auto simp: check_override_def get_logger_def builtin_errors split: prod.splits if_splits)
  then have "err_class e = ''ValueError''" if "traverse 0 (\<lambda>_. check_override repr service_ids) overrides = Inl e" for e
    using that unfolding traverse_error_iff by blast
  with assms(1) Inl show ?thesis
    by (auto simp: configure_logging_def builtin_errors split: if_splits sum.splits)
next
  case (Inr u)
  with assms(1) obtain n us where level: "map_of levels level = Some n"
    and ok: "traverse 0 (\<lambda>_. check_override repr service_ids) overrides = Inr us"
    by (auto simp: configure_logging_def split: if_splits sum.splits)
  have own: "map_of levels l \<noteq> None" if "map_of overrides service = Some l" for l
  proof -
    from map_of_SomeD [OF that] obtain i where "i < length overrides" "overrides ! i = (service, l)"
      by (auto simp: in_set_conv_nth)
    with traverse_nth [OF ok, of i] show ?thesis by (auto simp: check_override_def split: if_splits)
  qed
  have positive: "level_number l \<noteq> 0" if "map_of levels l \<noteq> None" for l
    using that by (auto simp: level_number_def levels_def split: if_splits)
  have handlers: "lg_handlers (lo_parent L') = (if JsonHandler \<in> set (lg_handlers (lo_parent L))
      then lg_handlers (lo_parent L) else lg_handlers (lo_parent L) @ [JsonHandler])"
    and services: "lo_services L' service = (lo_services L service)\<lparr>
        lg_level := (case map_of overrides service of Some l \<Rightarrow> level_number l | None \<Rightarrow> 0),
        lg_disabled := False, lg_propagate := True\<rparr>"
    and rest: "lg_level (lo_parent L') = level_number level" "\<not> lg_propagate (lo_parent L')" "lo_disable L' = lo_disable L"
      "lo_root L' = lo_root L" "lo_stream L' = Some (case stream of None \<Rightarrow> stdout | Some s \<Rightarrow> s)"
    using assms(1,3) level ok by (auto simp: configure_logging_def)
  have "effective_level L' service = level_number (case map_of overrides service of None \<Rightarrow> level | Some own \<Rightarrow> own)"
    using own positive level by (auto simp: effective_level_def services rest split: option.splits)
  then have "\<forall>n. enabled_for L' service n \<longleftrightarrow> lo_disable L < n
      \<and> level_number (case map_of overrides service of None \<Rightarrow> level | Some own \<Rightarrow> own) \<le> n"
    by (simp add: enabled_for_def services rest)
  moreover have "lines_per_record L' service = 1"
    using assms(2,4) by (simp add: lines_per_record_def services rest handlers distinct_count_list)
  ultimately show ?thesis using Inr rest by (simp add: handlers)
qed

definition example_logging :: "(nat, nat) logging" where
  "example_logging =
     \<lparr>lo_disable = 0,
      lo_root = \<lparr>lg_level = 30, lg_disabled = False, lg_propagate = True, lg_handlers = [OtherHandler 0]\<rparr>,
      lo_parent = \<lparr>lg_level = 20, lg_disabled = False, lg_propagate = True, lg_handlers = [OtherHandler 1, JsonHandler]\<rparr>,
      lo_services = (\<lambda>_. \<lparr>lg_level = 10, lg_disabled = True, lg_propagate = True, lg_handlers = []\<rparr>),
      lo_stream = Some 7, lo_configured = True, lo_trace_context = None\<rparr>"

text \<open>
  C19: every operation is logged once, as what it was. With the logging interceptor outside the
  application's, an operation gives the same result, makes the same calls and has the same metadata as
  without it; and when it is over there is one more record if the service is enabled for the level of
  the outcome (\<open>INFO\<close>, \<open>WARNING\<close> when cancelled, else \<open>ERROR\<close>), and one about its retries, with every
  attempt, if it was retried and \<open>DEBUG\<close> is enabled. A record is made of the operation's identity, its
  metadata, and of an error only its class and, of a service's error, its code: no parameter, output or
  message gets into it. Assumed are that the service is enabled for \<open>ERROR\<close> (else nothing is logged),
  that the handlers take every record and do not raise, that looking up the trace writes no record, and
  that no record or level changes while the rest of the operation runs.
\<close>

theorem operation_is_logged:
  assumes "invoke V is params a = (r, st)"
    and "records_kept A written" and "la_enabled A b (oc_service context) 40"
    and tick: "\<And>b. written (tick b) = written b" "\<And>b. la_enabled A (tick b) = la_enabled A b"
  shows "\<exists>st' n. invoke (beside tick V) (observer (logging_interceptor A context) # map (application tick) is)
      params (a, b) = (r, st') \<and> same_state st st'
    \<and> written (snd (io_world st')) = written b
      @ (let m = io_metadata st; l = (tick ^^ n) b;
             level = (case r of Inr _ \<Rightarrow> 20 | Inl e \<Rightarrow> if is_instance e ''CancelledError'' then 30 else 40);
             entry =
               \<lparr>ol_event = ''operation.completed'', ol_service = oc_service context, ol_operation = oc_operation context,
                ol_operation_id = oc_operation_id context, ol_correlation_id = oc_correlation_id context,
                ol_region = om_region m, ol_duration_ms = la_ms A (la_since A (la_clock A l) (la_clock A b)),
                ol_outcome = (case r of Inr _ \<Rightarrow> ''success''
                  | Inl e \<Rightarrow> if is_instance e ''CancelledError'' then ''cancelled'' else ''error''),
                ol_dispatched = om_dispatched m, ol_native_duration_ms = map_option (la_ms A) (om_duration m),
                ol_attempt_count = om_attempt_count m,
                ol_retry_count = (case om_attempt_count m of PyInt k \<Rightarrow> PyInt (max 0 (k - 1)) | v \<Rightarrow> v),
                ol_status_code = om_status_code m, ol_request_id = om_request_id m,
                ol_error_code = (case r of Inr _ \<Rightarrow> None | Inl e \<Rightarrow> map_option ce_error_code (err_attrs e)),
                ol_error_type = (case r of Inr _ \<Rightarrow> None | Inl e \<Rightarrow> Some (err_class e)),
                ol_native_error_code = om_error_code m, ol_native_error_type = om_error_type m,
                ol_trace = (case fst (la_trace A l) of Inr trace \<Rightarrow> trace | Inl _ \<Rightarrow> None),
                ol_attempts = None, ol_attempts_truncated = None\<rparr>
         in (if la_enabled A b (oc_service context) level then [(level, entry)] else [])
          @ (if la_enabled A b (oc_service context) 10 \<and> (case om_attempt_count m of PyInt k \<Rightarrow> 1 < k | _ \<Rightarrow> False)
             then [(10, entry\<lparr>ol_event := ''operation.retry'',
               ol_attempts := Some (map (\<lambda>attempt. case attempt of
                   PyTuple [number, PyFloat duration, status, request_id] \<Rightarrow> (number, la_ms A duration, status, request_id)
                 | _ \<Rightarrow> (PyNone, NaN, PyNone, PyNone)) (om_attempts m)),
               ol_attempts_truncated := Some (om_attempts_truncated m)\<rparr>)] else []))"
proof -
  let ?request = "\<lparr>rq_context = iv_context V, rq_parameters = params\<rparr>"
  let ?start = "\<lparr>io_native = None, io_metadata = initial_metadata (iv_region V), io_sent = [], io_world = (a, b)\<rparr>"
  let ?rest = "dispatch (beside tick V) (map (application tick) is)"
  let ?i = "observer (logging_interceptor A context) :: ('a, 'b \<times> 'c) interceptor"
  from observed_invoke [where os = "[]" and tick = tick and b = b, OF _ assms(1)] obtain s
    where rest: "?rest ?request ?start = (r, s)" and s: "same_state st s" by (auto simp: invoke_def)
  from applications_passed [of tick ?start V "is" ?request] rest have time: "passed tick b (snd (io_world s))" by simp
  then obtain n where n: "snd (io_world s) = (tick ^^ n) b" by (auto simp: passed_def)
  from passed_keeps [OF time] tick have b: "written ((tick ^^ n) b) = written b"
    "la_enabled A ((tick ^^ n) b) = la_enabled A b" unfolding n by blast+
  have m: "io_metadata s = io_metadata st" using s by (simp add: same_state_def)
  let ?emit = "emit_log A context (la_clock A b) (error_of r) (io_metadata st)"
  let ?s = "s\<lparr>io_world := apsnd ?emit (io_world s)\<rparr>"
  have run: "run (?i ?request) ?rest False ?start = (map_ok OperationResponse r, ?s)"
    using assms(3) by (simp add: logging_run rest m)
  have "invoke (beside tick V) (?i # map (application tick) is) params (a, b) = (r, ?s)"
    using dispatch_walk [OF rest] by (cases r) (simp_all add: invoke_def run validate_response_def)
  moreover have "same_state st ?s" using s by (simp add: same_state_def)
  moreover have "written (snd (io_world ?s)) = written (?emit ((tick ^^ n) b))" by (simp add: n)
  ultimately show ?thesis
    unfolding emit_written [OF assms(2)] b logged_entries trace_read_def Let_def by blast
qed

text \<open>A process that logs everything from \<open>INFO\<close> on; its clock counts.\<close>

definition example_log_api :: "(nat \<times> (int \<times> operation_log) list) log_api" where
  "example_log_api =
     \<lparr>la_enabled = (\<lambda>l service level. 20 \<le> level), la_clock = (\<lambda>l. Finite (of_nat (fst l))),
      la_since = (\<lambda>x y. x), la_ms = (\<lambda>x. x), la_trace = (\<lambda>l. (Inr None, l)),
      la_log = (\<lambda>x l. (False, apsnd (\<lambda>w. w @ [x]) l))\<rparr>"

definition example_context :: operation_context where
  "example_context = \<lparr>oc_operation_id = ''1f'', oc_service = ''polly'', oc_operation = ''DeleteLexicon'',
     oc_correlation_id = PyNone, oc_service_name = None\<rparr>"

theorem operation_is_logged_witness:
  "\<exists>st entry. snd (io_world (snd (invoke (beside (apfst Suc) example_invocation)
      [observer (logging_interceptor example_log_api example_context)] [(''name'', PyStr ''a'')] (7, 5, [])))) = (st, [(20, entry)])
    \<and> ol_outcome entry = ''success'' \<and> ol_operation entry = ''DeleteLexicon''"
proof -
  let ?i = "invoke example_invocation [] [(''name'', PyStr ''a'')] 7"
  have r: "?i = (Inr 7, snd ?i)"
    by (simp add: invoke_def example_invocation_def native_dispatch_def unknown_parameters_def missing_parameters_def Let_def)
  have k: "records_kept example_log_api snd"
    by (simp add: records_kept_def example_log_api_def)
  have e: "la_enabled example_log_api (5, []) (oc_service example_context) 40" by (simp add: example_log_api_def)
  have t: "la_enabled example_log_api (apfst Suc l) = la_enabled example_log_api l" for l
    by (simp add: example_log_api_def)
  have l: "\<not> la_enabled example_log_api (5, []) (oc_service example_context) 10"
    "la_enabled example_log_api (5, []) (oc_service example_context) 20"
    by (simp_all add: example_log_api_def)
  from operation_is_logged [where tick = "apfst Suc", OF r k e _ t] obtain st' entry where
    run: "invoke (beside (apfst Suc) example_invocation) [observer (logging_interceptor example_log_api example_context)]
        [(''name'', PyStr ''a'')] (7, 5, []) = (Inr 7, st')"
    and logged: "snd (snd (io_world st')) = [(20, entry)]" "ol_outcome entry = ''success''"
      "ol_operation entry = oc_operation example_context"
    by (auto simp: Let_def l)
  show ?thesis
    unfolding run snd_conv
    by (rule exI [of _ "fst (snd (io_world st'))"], rule exI [of _ entry], rule conjI [OF prod_eqI])
      (simp_all add: logged, simp add: example_context_def)
qed

end
