(* ===== verification/Telemetry.thy ===== *)
theory Telemetry
  imports Logging
begin

text \<open>
  The optional OpenTelemetry observer (\<open>packages/rboto/src/rboto/integrations/opentelemetry.py\<close>) and
  how the interceptors of one invocation are chosen (\<open>_observability.py\<close>, \<open>resolve_interceptors\<close> of
  \<open>interceptors.py\<close>): telemetry outside the logs, the logs outside the application's interceptors.
\<close>

section \<open>The observer\<close>

record telemetry =
  tl_enabled :: bool
  tl_tracer :: bool
  tl_metrics :: bool
  tl_record_attempts :: bool

definition validate_flag :: "string \<times> pyval \<Rightarrow> bool pyresult" where
  "validate_flag flag = (case flag of
     (name, PyBool b) \<Rightarrow> Inr b
   | (name, v) \<Rightarrow> Inl (type_error (name @ '' must be a bool'')))"

text \<open>The last four arguments say which of tracer, tracer provider, meter and meter provider are given.\<close>

definition new_telemetry :: "pyval \<Rightarrow> pyval \<Rightarrow> pyval \<Rightarrow> pyval \<Rightarrow> bool \<Rightarrow> bool \<Rightarrow> bool \<Rightarrow> bool \<Rightarrow> telemetry pyresult" where
  "new_telemetry enabled tracing metrics record_attempts tracer tracer_provider meter meter_provider =
     and_then (validate_flag (''enabled'', enabled)) (\<lambda>enabled.
     and_then (validate_flag (''tracing'', tracing)) (\<lambda>tracing.
     and_then (validate_flag (''metrics'', metrics)) (\<lambda>metrics.
     and_then (validate_flag (''record_attempts'', record_attempts)) (\<lambda>record_attempts.
       if tracer \<and> tracer_provider then Inl (value_error ''pass tracer or tracer_provider, not both'')
       else if meter \<and> meter_provider then Inl (value_error ''pass meter or meter_provider, not both'')
       else Inr \<lparr>tl_enabled = enabled \<and> (tracing \<or> metrics), tl_tracer = enabled \<and> tracing,
         tl_metrics = enabled \<and> metrics, tl_record_attempts = record_attempts\<rparr>))))"

datatype span_op =
    SetAttribute string pyval
  | SetErrorStatus
  | AddEvent string "(string \<times> pyval) list"

datatype measurement =
    RecordDuration f64 "(string \<times> string) list"
  | CountOperation "(string \<times> string) list"
  | CountError "(string \<times> string) list"
  | CountRetries pyval "(string \<times> string) list"

text \<open>
  What the observer uses of its process, whose state is \<open>'l\<close>: the tracer, its spans \<open>'s\<close> and the
  instruments of the meter, any call of which may raise after part of its work (\<open>None\<close>, \<open>True\<close>); the
  context, with its tokens \<open>'k\<close>; and the context variable \<open>operation_trace\<close>.
\<close>

record ('l, 's, 'k) otel_api =
  ot_clock :: "'l \<Rightarrow> f64"
  ot_since :: "f64 \<Rightarrow> f64 \<Rightarrow> f64"
  ot_start_span :: "string \<Rightarrow> (string \<times> pyval) list \<Rightarrow> 'l \<Rightarrow> 's option \<times> 'l"
  ot_identity :: "'s \<Rightarrow> 'l \<Rightarrow> (bool \<times> nat \<times> nat) option \<times> 'l"
  ot_attach :: "'s \<Rightarrow> 'l \<Rightarrow> 'k option \<times> 'l"
  ot_detach :: "'k \<Rightarrow> 'l \<Rightarrow> 'l"
  ot_recording :: "'s \<Rightarrow> 'l \<Rightarrow> bool option \<times> 'l"
  ot_do :: "'s \<Rightarrow> span_op \<Rightarrow> 'l \<Rightarrow> bool \<times> 'l"
  ot_end :: "'s \<Rightarrow> 'l \<Rightarrow> bool \<times> 'l"
  ot_measure :: "measurement \<Rightarrow> 'l \<Rightarrow> bool \<times> 'l"
  ot_trace :: "'l \<Rightarrow> log_trace option"
  ot_set_trace :: "log_trace option \<Rightarrow> 'l \<Rightarrow> 'l"

definition service_title :: "operation_context \<Rightarrow> string" where
  "service_title context = (case oc_service_name context of
     Some name \<Rightarrow> if name = [] then oc_service context else name
   | None \<Rightarrow> oc_service context)"

definition given :: "(string \<times> pyval) list \<Rightarrow> (string \<times> pyval) list" where
  "given kvs = filter (\<lambda>(name, v). v \<noteq> PyNone) kvs"

definition start_attributes :: "operation_context \<Rightarrow> operation_metadata \<Rightarrow> (string \<times> pyval) list" where
  "start_attributes context m =
     [(''rpc.system'', PyStr ''aws-api''), (''rpc.service'', PyStr (service_title context)),
      (''rpc.method'', PyStr (oc_operation context))] @ given [(''cloud.region'', om_region m)]"

text \<open>The format \<open>032x\<close> and \<open>016x\<close> of identifiers.\<close>

fun hex_digits :: "nat \<Rightarrow> string" where
  "hex_digits n = (if n < 16 then [] else hex_digits (n div 16)) @ [''0123456789abcdef'' ! (n mod 16)]"

declare hex_digits.simps [simp del]

definition padded_hex :: "nat \<Rightarrow> nat \<Rightarrow> string" where
  "padded_hex width n = replicate (width - length (hex_digits n)) (CHR ''0'') @ hex_digits n"

text \<open>The variables of \<open>__call__\<close>: the span, the token of the context, and that of \<open>operation_trace\<close> with its old value.\<close>

type_synonym ('s, 'k) opened = "'s option \<times> 'k option \<times> log_trace option option"

definition telemetry_start :: "telemetry \<Rightarrow> ('l, 's, 'k) otel_api \<Rightarrow> operation_context \<Rightarrow> operation_metadata \<Rightarrow> 'l \<Rightarrow>
    ('s, 'k) opened \<times> 'l" where
  "telemetry_start T Q context m l =
     (if \<not> tl_tracer T then ((None, None, None), l)
      else case ot_start_span Q (service_title context @ ''.'' @ oc_operation context) (start_attributes context m) l of
          (None, l) \<Rightarrow> ((None, None, None), l)
        | (Some s, l) \<Rightarrow> (case ot_identity Q s l of
              (Some (True, trace_id, span_id), l) \<Rightarrow> (case ot_attach Q s l of
                  (None, l) \<Rightarrow> ((Some s, None, None), l)
                | (Some token, l) \<Rightarrow> ((Some s, Some token, Some (ot_trace Q l)),
                    ot_set_trace Q (Some \<lparr>lt_trace_id = padded_hex 32 trace_id, lt_span_id = padded_hex 16 span_id\<rparr>) l))
            | (_, l) \<Rightarrow> ((Some s, None, None), l)))"

definition attempt_event :: "pyval \<Rightarrow> span_op" where
  "attempt_event attempt = AddEvent ''rboto.attempt'' (case attempt of
     PyTuple [number, duration, status, request_id] \<Rightarrow>
       [(''rboto.attempt.number'', number), (''rboto.attempt.duration'', duration)]
       @ given [(''http.response.status_code'', status), (''aws.request_id'', request_id)]
   | _ \<Rightarrow> [])"

text \<open>\<open>_finish_span\<close>: of an error only its class, never the exception.\<close>

definition span_ops :: "telemetry \<Rightarrow> operation_metadata \<Rightarrow> pyerr option \<Rightarrow> span_op list" where
  "span_ops T m error =
     [SetAttribute ''rboto.operation.outcome'' (PyStr (outcome_of error)),
      SetAttribute ''rboto.native.dispatched'' (PyBool (om_dispatched m))]
     @ map (\<lambda>(name, v). SetAttribute name v) (given
         [(''cloud.region'', om_region m), (''aws.request_id'', om_request_id m),
          (''http.response.status_code'', om_status_code m), (''rboto.native.attempt_count'', om_attempt_count m),
          (''rboto.native.retry_count'', retry_count m), (''rboto.native.error.type'', opt_py PyStr (om_error_type m))])
     @ (case error of
          Some e \<Rightarrow> if outcome_of error = ''error'' then
              [SetAttribute ''error.type'' (PyStr (err_class e)), SetErrorStatus,
               AddEvent ''exception'' [(''exception.type'', PyStr (err_class e))]]
            else []
        | None \<Rightarrow> [])
     @ (if tl_record_attempts T then
          SetAttribute ''rboto.native.attempts_truncated'' (PyBool (om_attempts_truncated m)) # map attempt_event (om_attempts m)
        else [])"

text \<open>\<open>_record_metrics\<close>.\<close>

definition measurements :: "telemetry \<Rightarrow> operation_context \<Rightarrow> operation_metadata \<Rightarrow> pyerr option \<Rightarrow> f64 \<Rightarrow> measurement list" where
  "measurements T context m error elapsed =
     (let attributes = [(''rboto.service'', oc_service context), (''rboto.operation'', oc_operation context),
            (''rboto.outcome'', outcome_of error)]
      in if \<not> tl_metrics T then []
         else [RecordDuration elapsed attributes, CountOperation attributes]
           @ (if outcome_of error = ''error'' then [CountError attributes] else [])
           @ (if retry_count m \<noteq> PyNone then [CountRetries (retry_count m) attributes] else []))"

text \<open>The \<open>finally\<close> of \<open>__call__\<close>.\<close>

definition telemetry_finish :: "telemetry \<Rightarrow> ('l, 's, 'k) otel_api \<Rightarrow> operation_context \<Rightarrow> f64 \<Rightarrow> ('s, 'k) opened \<Rightarrow>
    pyerr option \<Rightarrow> operation_metadata \<Rightarrow> 'l \<Rightarrow> 'l" where
  "telemetry_finish T Q context started opened error m l =
     (case opened of (opened_span, token, old_trace) \<Rightarrow>
        let elapsed = ot_since Q (ot_clock Q l) started;
            l = (case opened_span of None \<Rightarrow> l
               | Some s \<Rightarrow> (case ot_recording Q s l of
                     (Some True, l) \<Rightarrow> attempt_all (ot_do Q s) (span_ops T m error) l
                   | (_, l) \<Rightarrow> l));
            l = attempt_all (ot_measure Q) (measurements T context m error elapsed) l;
            l = (case old_trace of None \<Rightarrow> l | Some old \<Rightarrow> ot_set_trace Q old l);
            l = (case token of None \<Rightarrow> l | Some k \<Rightarrow> ot_detach Q k l)
        in (case opened_span of None \<Rightarrow> l | Some s \<Rightarrow> snd (ot_end Q s l)))"

definition telemetry_interceptor :: "telemetry \<Rightarrow> ('l, 's, 'k) otel_api \<Rightarrow> operation_context \<Rightarrow> ('o, 'l) interceptor" where
  "telemetry_interceptor T Q context request =
     (if \<not> tl_enabled T then Next True request give
      else Look (\<lambda>m l. Effect (\<lambda>l. snd (telemetry_start T Q context m l))
        (Next True request (\<lambda>r. Look (\<lambda>m' _.
           Effect (telemetry_finish T Q context (ot_clock Q l) (fst (telemetry_start T Q context m l)) (error_of r) m')
             (give r))))))"

section \<open>The chain of one invocation\<close>

datatype ('o, 'w) middleware =
    Telemetry bool "('o, 'w) interceptor"
  | Middleware "('o, 'w) interceptor"
  | NotCallable

fun is_telemetry :: "('o, 'w) middleware \<Rightarrow> bool" where
  "is_telemetry (Telemetry enabled i) = True"
| "is_telemetry _ = False"

text \<open>A client's interceptors when it is made: its own, or those of its session.\<close>

definition resolve_interceptors :: "('o, 'w) middleware list option \<Rightarrow> ('o, 'w) middleware list \<Rightarrow>
    ('o, 'w) middleware list pyresult" where
  "resolve_interceptors interceptors inherited =
     (let resolved = (case interceptors of None \<Rightarrow> inherited | Some own \<Rightarrow> own);
          observers = filter is_telemetry resolved
      in if NotCallable \<in> set resolved then Inl (type_error ''interceptors must contain callable objects'')
         else if 1 < length observers then
           Inl (value_error ''configure at most one OpenTelemetry interceptor per client or Session'')
         else Inr (observers @ filter (\<lambda>i. \<not> is_telemetry i) resolved))"

definition operation_interceptors :: "('o, 'w) middleware option \<Rightarrow> ('s, 't) logging \<Rightarrow> string \<Rightarrow> ('o, 'w) middleware \<Rightarrow>
    ('o, 'w) middleware list \<Rightarrow> ('o, 'w) middleware list" where
  "operation_interceptors global L service operation_logging interceptors =
     (let (selected, interceptors) = (case interceptors of
            Telemetry enabled i # rest \<Rightarrow> (Some (Telemetry enabled i), rest)
          | _ \<Rightarrow> (global, interceptors));
          chain = logging_interceptors L service operation_logging interceptors
      in case selected of
           Some (Telemetry True i) \<Rightarrow> Telemetry True i # chain
         | _ \<Rightarrow> chain)"

fun interceptor_of :: "('o, 'w) middleware \<Rightarrow> ('o, 'w) interceptor" where
  "interceptor_of (Telemetry enabled i) = i"
| "interceptor_of (Middleware i) = i"
| "interceptor_of NotCallable = (\<lambda>request. Raise (type_error ''object is not callable''))"

section \<open>Lemmas\<close>

text \<open>The observers of a client come first, in front of its other interceptors in their order.\<close>

lemma resolved_order:
  assumes "resolve_interceptors own inherited = Inr is"
  shows "NotCallable \<notin> set is \<and> length (filter is_telemetry is) \<le> 1
    \<and> is = takeWhile is_telemetry is @ filter (\<lambda>i. \<not> is_telemetry i) (case own of None \<Rightarrow> inherited | Some xs \<Rightarrow> xs)"
proof -
  let ?given = "case own of None \<Rightarrow> inherited | Some xs \<Rightarrow> xs"
  have "takeWhile p (filter p xs @ filter (\<lambda>x. \<not> p x) xs) = filter p xs" for p and xs :: "('a, 'b) middleware list"
    by (subst takeWhile_append2) (auto simp: takeWhile_eq_Nil_iff dest: hd_in_set)
  with assms show ?thesis
    by (auto simp: resolve_interceptors_def Let_def split: if_splits)
qed

lemma own_observer_missing:
  assumes "\<And>e i rest. is \<noteq> Telemetry e i # rest"
  shows "operation_interceptors global L service lg is = (case global of
      Some (Telemetry True i) \<Rightarrow> Telemetry True i # logging_interceptors L service lg is
    | _ \<Rightarrow> logging_interceptors L service lg is)"
proof -
  have "(case is of Telemetry e i # rest \<Rightarrow> f e i rest | _ \<Rightarrow> (global, is)) = (global, is)" for f
    using assms by (auto split: list.splits middleware.splits)
  then show ?thesis by (simp only: operation_interceptors_def Let_def prod.case)
qed

lemma telemetry_run:
  "run (observer (telemetry_interceptor T Q context) request) rest False st =
     (if \<not> tl_enabled T then (let (r, st') = rest request st in (map_ok OperationResponse r, st'))
      else let l = snd (io_world st);
           (r, st') = rest request (st\<lparr>io_world := apsnd (\<lambda>l. snd (telemetry_start T Q context (io_metadata st) l)) (io_world st)\<rparr>)
         in (map_ok OperationResponse r, st'\<lparr>io_world := apsnd (telemetry_finish T Q context (ot_clock Q l)
              (fst (telemetry_start T Q context (io_metadata st) l)) (error_of r) (io_metadata st')) (io_world st')\<rparr>))"
  by (simp add: observer_def telemetry_interceptor_def next_refuses_def Let_def split: prod.splits)

lemma telemetry_observes: "observes (observer (telemetry_interceptor T Q context))"
  unfolding observes_def
proof (intro allI)
  fix request rest and st :: "('a, 'b \<times> 'c) invoking"
  let ?l = "snd (io_world st)" and ?m = "io_metadata st"
  show "\<exists>before after. run (observer (telemetry_interceptor T Q context) request) rest False st =
      (let (r, st') = rest request (st\<lparr>io_world := apsnd before (io_world st)\<rparr>)
       in (map_ok OperationResponse r, st'\<lparr>io_world := apsnd (after r (io_metadata st')) (io_world st')\<rparr>))"
  proof (cases "tl_enabled T")
    case True
    then show ?thesis
      unfolding telemetry_run Let_def
      by (intro exI [of _ "\<lambda>l. snd (telemetry_start T Q context ?m l)"]
          exI [of _ "\<lambda>r m. telemetry_finish T Q context (ot_clock Q ?l) (fst (telemetry_start T Q context ?m ?l)) (error_of r) m"]) simp
  next
    case False
    then show ?thesis
      unfolding telemetry_run by (intro exI [of _ id] exI [of _ "\<lambda>_ _. id"]) simp
  qed
qed

text \<open>
  What the observer relies on: calls to the tracer and the meter leave \<open>operation_trace\<close> and the context
  alone, attaching gives a token whose detachment restores the context, and a context variable
  holds what it was set to. \<open>spans\<close> are those started and those ended so far.
\<close>

locale otel_laws =
  fixes Q :: "('l, 's, 'k) otel_api" and ctx :: "'l \<Rightarrow> 'c" and spans :: "'l \<Rightarrow> 's list \<times> 's list"
  assumes start: "ot_start_span Q name attributes l = (x, l') \<Longrightarrow> ot_trace Q l' = ot_trace Q l \<and> ctx l' = ctx l
      \<and> spans l' = apfst (\<lambda>ss. ss @ (case x of None \<Rightarrow> [] | Some s \<Rightarrow> [s])) (spans l)"
    and identity: "ot_identity Q s l = (i, l') \<Longrightarrow> ot_trace Q l' = ot_trace Q l \<and> ctx l' = ctx l \<and> spans l' = spans l"
    and recording: "ot_recording Q s l = (b, l') \<Longrightarrow> ot_trace Q l' = ot_trace Q l \<and> ctx l' = ctx l \<and> spans l' = spans l"
    and do: "ot_do Q s z l = (raised, l') \<Longrightarrow> ot_trace Q l' = ot_trace Q l \<and> ctx l' = ctx l \<and> spans l' = spans l"
    and measure: "ot_measure Q y l = (raised, l') \<Longrightarrow> ot_trace Q l' = ot_trace Q l \<and> ctx l' = ctx l \<and> spans l' = spans l"
    and "end": "ot_end Q s l = (raised, l') \<Longrightarrow> ot_trace Q l' = ot_trace Q l \<and> ctx l' = ctx l
      \<and> spans l' = apsnd (\<lambda>ss. ss @ [s]) (spans l)"
    and attach: "ot_attach Q s l = (k, l') \<Longrightarrow> ot_trace Q l' = ot_trace Q l \<and> spans l' = spans l
      \<and> (case k of None \<Rightarrow> ctx l' = ctx l | Some token \<Rightarrow> \<forall>l''. ctx (ot_detach Q token l'') = ctx l)"
    and detach: "ot_trace Q (ot_detach Q token l) = ot_trace Q l" "spans (ot_detach Q token l) = spans l"
    and set_trace: "ot_trace Q (ot_set_trace Q t l) = t" "ctx (ot_set_trace Q t l) = ctx l" "spans (ot_set_trace Q t l) = spans l"
begin

definition calm :: "'l \<Rightarrow> 'l \<Rightarrow> bool" where
  "calm l l' \<longleftrightarrow> ot_trace Q l' = ot_trace Q l \<and> ctx l' = ctx l \<and> spans l' = spans l"

lemma attempt_all_calm:
  assumes "\<And>x l raised l'. f x l = (raised, l') \<Longrightarrow> calm l l'"
  shows "calm l (attempt_all f xs l)"
proof (induction xs arbitrary: l)
  case (Cons x xs)
  obtain raised l' where x: "f x l = (raised, l')" by (cases "f x l")
  from assms [OF x] Cons.IH [of l'] x show ?case by (simp add: calm_def)
qed (simp add: calm_def)

text \<open>What starting leaves for the end: with a span comes its end, with a token the way back.\<close>

definition started :: "'l \<Rightarrow> ('s, 'k) opened \<Rightarrow> 'l \<Rightarrow> bool" where
  "started l opened l' \<longleftrightarrow> (case opened of (s, token, old_trace) \<Rightarrow>
     spans l' = apfst (\<lambda>ss. ss @ (case s of None \<Rightarrow> [] | Some s \<Rightarrow> [s])) (spans l)
     \<and> ot_trace Q l = (case old_trace of None \<Rightarrow> ot_trace Q l' | Some old \<Rightarrow> old)
     \<and> (case token of None \<Rightarrow> ctx l' = ctx l | Some k \<Rightarrow> \<forall>l''. ctx (ot_detach Q k l'') = ctx l))"

lemma telemetry_started: "started l (fst (telemetry_start T Q context m l)) (snd (telemetry_start T Q context m l))"
proof (cases "tl_tracer T")
  case True
  obtain x l1 where s: "ot_start_span Q (service_title context @ ''.'' @ oc_operation context) (start_attributes context m) l = (x, l1)"
    by fastforce
  note start [OF this]
  moreover obtain i l2 where i: "ot_identity Q (the x) l1 = (i, l2)" by fastforce
  note identity [OF this]
  moreover obtain k l3 where k: "ot_attach Q (the x) l2 = (k, l3)" by fastforce
  note attach [OF this]
  ultimately show ?thesis
    using True s i k
    by (auto simp: telemetry_start_def started_def set_trace split: option.splits prod.splits bool.splits)
next
  case False
  then show ?thesis by (cases "spans l") (simp add: telemetry_start_def started_def)
qed

lemma telemetry_finished:
  assumes "started l opened l1" and "calm l1 l2"
  shows "\<exists>ss. length ss \<le> 1 \<and> (let l3 = telemetry_finish T Q context t opened error m l2 in
    ot_trace Q l3 = ot_trace Q l \<and> ctx l3 = ctx l \<and> spans l3 = (fst (spans l) @ ss, snd (spans l) @ ss))"
proof -
  obtain s token old where opened: "opened = (s, token, old)" by (cases opened)
  define recorded where "recorded = (case s of None \<Rightarrow> l2 | Some s \<Rightarrow> (case ot_recording Q s l2 of
      (Some True, l) \<Rightarrow> attempt_all (ot_do Q s) (span_ops T m error) l | (_, l) \<Rightarrow> l))"
  define measured where "measured = attempt_all (ot_measure Q)
      (measurements T context m error (ot_since Q (ot_clock Q l2) t)) recorded"
  have do: "calm l (attempt_all (ot_do Q s) xs l)" for s xs l
    by (rule attempt_all_calm) (simp add: calm_def do)
  have "calm l2 recorded"
  proof (cases s)
    case (Some sp)
    obtain b l' where b: "ot_recording Q sp l2 = (b, l')" by fastforce
    from recording [OF b] b do [of l' sp "span_ops T m error"] Some show ?thesis
      by (auto simp: recorded_def calm_def split: option.splits bool.splits)
  qed (simp add: recorded_def calm_def)
  moreover have "calm recorded measured"
    unfolding measured_def by (rule attempt_all_calm) (simp add: calm_def measure)
  ultimately have l1: "ot_trace Q measured = ot_trace Q l1" "ctx measured = ctx l1" "spans measured = spans l1"
    using assms(2) by (simp_all add: calm_def)
  define restored where "restored = (case old of None \<Rightarrow> measured | Some old \<Rightarrow> ot_set_trace Q old measured)"
  define detached where "detached = (case token of None \<Rightarrow> restored | Some k \<Rightarrow> ot_detach Q k restored)"
  have fin: "telemetry_finish T Q context t opened error m l2 = (case s of None \<Rightarrow> detached | Some s \<Rightarrow> snd (ot_end Q s detached))"
    unfolding telemetry_finish_def opened recorded_def measured_def restored_def detached_def Let_def prod.case ..
  from assms(1) opened l1 have "ot_trace Q detached = ot_trace Q l \<and> ctx detached = ctx l
      \<and> spans detached = apfst (\<lambda>ss. ss @ (case s of None \<Rightarrow> [] | Some s \<Rightarrow> [s])) (spans l)"
    by (cases old; cases token) (auto simp: started_def detached_def restored_def detach set_trace)
  then show ?thesis
    using "end" [of _ detached] unfolding fin Let_def
    by (intro exI [of _ "case s of None \<Rightarrow> [] | Some s \<Rightarrow> [s]"])
      (cases "spans l"; cases s; force simp: prod_eq_iff)
qed

end

text \<open>A provider whose status call and instruments fail.\<close>

record otel_process =
  op_trace :: "log_trace option"
  op_context :: "nat list"
  op_started :: "nat list"
  op_ended :: "nat list"

definition example_otel :: "(otel_process, nat, nat list) otel_api" where
  "example_otel =
     \<lparr>ot_clock = (\<lambda>l. Finite 0), ot_since = (\<lambda>x y. x),
      ot_start_span = (\<lambda>name attributes l. (Some (length (op_started l)), l\<lparr>op_started := op_started l @ [length (op_started l)]\<rparr>)),
      ot_identity = (\<lambda>s l. (Some (True, 255, s), l)),
      ot_attach = (\<lambda>s l. (Some (op_context l), l\<lparr>op_context := s # op_context l\<rparr>)),
      ot_detach = (\<lambda>k l. l\<lparr>op_context := k\<rparr>), ot_recording = (\<lambda>s l. (Some True, l)),
      ot_do = (\<lambda>s x l. (x = SetErrorStatus, l)), ot_end = (\<lambda>s l. (False, l\<lparr>op_ended := op_ended l @ [s]\<rparr>)),
      ot_measure = (\<lambda>x l. (True, l)), ot_trace = op_trace, ot_set_trace = (\<lambda>t l. l\<lparr>op_trace := t\<rparr>)\<rparr>"

interpretation example_otel: otel_laws example_otel op_context "\<lambda>l. (op_started l, op_ended l)"
  by unfold_locales (auto simp: example_otel_def)

section \<open>Properties\<close>


definition example_process :: otel_process where
  "example_process = \<lparr>op_trace = None, op_context = [9], op_started = [0], op_ended = []\<rparr>"

definition example_telemetry :: telemetry where
  "example_telemetry = \<lparr>tl_enabled = True, tl_tracer = True, tl_metrics = True, tl_record_attempts = True\<rparr>"


lemma telemetry_run_plain:
  assumes "tl_enabled T" and "rest request (st\<lparr>io_world := snd (telemetry_start T Q context (io_metadata st) (io_world st))\<rparr>) = (r, st')"
  shows "run (telemetry_interceptor T Q context request) rest False st = (map_ok OperationResponse r,
    st'\<lparr>io_world := telemetry_finish T Q context (ot_clock Q (io_world st))
      (fst (telemetry_start T Q context (io_metadata st) (io_world st))) (error_of r) (io_metadata st') (io_world st')\<rparr>)"
  using assms by (simp add: telemetry_interceptor_def next_refuses_def)


text \<open>An operation that is refused: it is a cancelled span to nobody, but an ended one.\<close>

definition quiet_invocation :: "(nat, otel_process) invocation" where
  "quiet_invocation =
     \<lparr>iv_call = (\<lambda>params l. (Inl (runtime_error ''down''), [], Finite 0, l)), iv_region = PyStr ''eu-west-1'', iv_context = 1,
      iv_service = ''polly'', iv_operation = ''DeleteLexicon'', iv_output_type = (\<lambda>output. True), iv_output_name = ''Small'',
      iv_allowed = [''name''], iv_required = [''name''], iv_keyword = (\<lambda>name. False)\<rparr>"


end
