(* ===== verification/Waiters.thy ===== *)
theory Waiters
  imports Pagination
begin

text \<open>
  The poller behind every generated waiter, \<open>packages/rboto/src/rboto/_waiters.py\<close> and
  \<open>waiters.py\<close>: expressions over responses, acceptors, and the loop that calls an operation until
  an acceptor decides, the attempts are used up or the deadline passes.
\<close>

section \<open>Expressions\<close>

text \<open>
  The JMESPath expressions of the service models, one constructor per kind. A value is \<open>None\<close> when
  it is \<open>_MISSING\<close>; \<open>attr\<close> is \<open>getattr\<close> on an object, \<open>None\<close> when it has no such attribute.
\<close>

datatype expression =
    Field string
  | Subexpression "expression list"
  | Index int
  | Identity
  | Literal pyval
  | Flatten expression
  | Projection expression expression
  | FilterProjection expression expression expression
  | Length expression
  | Conjunction expression expression
  | Disjunction expression expression
  | Comparison string expression expression

text \<open>\<open>_items\<close>, and \<open>len\<close> of what has one; a \<open>str\<close> counts characters.\<close>

fun list_items :: "pyval \<Rightarrow> pyval list option" where
  "list_items (PyList vs) = Some vs"
| "list_items (PyTuple vs) = Some vs"
| "list_items v = None"

fun py_len :: "pyval \<Rightarrow> nat option" where
  "py_len (PyStr s) = Some (char_count s)"
| "py_len (PyBytes b) = Some (length b)"
| "py_len (PyByteArray b) = Some (length b)"
| "py_len (PyList vs) = Some (length vs)"
| "py_len (PyTuple vs) = Some (length vs)"
| "py_len (PyDict d) = Some (length d)"
| "py_len v = None"

definition read_field :: "(pyval \<Rightarrow> string \<Rightarrow> pyval option) \<Rightarrow> string \<Rightarrow> pyval \<Rightarrow> pyval option" where
  "read_field attr name v =
     (case (case v of PyDict d \<Rightarrow> map_of d (PyStr name) | _ \<Rightarrow> attr v name) of
        Some PyNone \<Rightarrow> None
      | r \<Rightarrow> r)"

definition flatten_items :: "pyval list \<Rightarrow> pyval list" where
  "flatten_items vs = concat (map (\<lambda>v. case list_items v of Some ws \<Rightarrow> ws | None \<Rightarrow> [v]) vs)"

definition kleene_and :: "pyval option \<Rightarrow> pyval option \<Rightarrow> pyval option" where
  "kleene_and l r =
     (if l = Some (PyBool False) then Some (PyBool False)
      else if r = Some (PyBool False) then Some (PyBool False)
      else if l = None \<or> r = None then None
      else Some (PyBool (l = Some (PyBool True) \<and> r = Some (PyBool True))))"

definition kleene_or :: "pyval option \<Rightarrow> pyval option \<Rightarrow> pyval option" where
  "kleene_or l r =
     (if l = Some (PyBool True) then Some (PyBool True)
      else if r = Some (PyBool True) then Some (PyBool True)
      else if l = None \<or> r = None then None
      else Some (PyBool (l = Some (PyBool True) \<or> r = Some (PyBool True))))"

text \<open>Numbers, \<open>bool\<close> not among them, are compared by value; with NaN every comparison fails.\<close>

fun plain_number :: "pyval \<Rightarrow> f64 option" where
  "plain_number (PyInt n) = Some (Finite (of_int n))"
| "plain_number (PyFloat x) = Some x"
| "plain_number v = None"

fun f64_less :: "f64 \<Rightarrow> f64 \<Rightarrow> bool" where
  "f64_less (Finite p) (Finite q) = (p < q)"
| "f64_less (Finite p) (Inf neg) = (\<not> neg)"
| "f64_less (Inf neg) (Finite q) = neg"
| "f64_less (Inf neg) (Inf neg') = (neg \<and> \<not> neg')"
| "f64_less x y = False"

definition f64_equal :: "f64 \<Rightarrow> f64 \<Rightarrow> bool" where
  "f64_equal x y \<longleftrightarrow> x = y \<and> x \<noteq> NaN"

definition compare_numbers :: "string \<Rightarrow> f64 \<Rightarrow> f64 \<Rightarrow> bool" where
  "compare_numbers comparator x y =
     (if comparator = ''gt'' then f64_less y x
      else if comparator = ''gte'' then f64_less y x \<or> f64_equal x y
      else if comparator = ''lt'' then f64_less x y
      else f64_less x y \<or> f64_equal x y)"

definition compare :: "string \<Rightarrow> pyval option \<Rightarrow> pyval option \<Rightarrow> pyval option" where
  "compare comparator l r =
     (case (l, r) of
        (Some u, Some v) \<Rightarrow>
          (if comparator = ''eq'' then Some (PyBool (py_eq u v))
           else if comparator = ''ne'' then Some (PyBool (\<not> py_eq u v))
           else (case (plain_number u, plain_number v) of
               (Some x, Some y) \<Rightarrow> Some (PyBool (compare_numbers comparator x y))
             | _ \<Rightarrow> None))
      | _ \<Rightarrow> None)"

fun evaluate :: "(pyval \<Rightarrow> string \<Rightarrow> pyval option) \<Rightarrow> expression \<Rightarrow> pyval \<Rightarrow> pyval option"
and evaluate_path :: "(pyval \<Rightarrow> string \<Rightarrow> pyval option) \<Rightarrow> expression list \<Rightarrow> pyval \<Rightarrow> pyval option" where
  "evaluate attr (Field name) v = read_field attr name v"
| "evaluate attr (Subexpression children) v = evaluate_path attr children v"
| "evaluate attr (Index n) v = Option.bind (list_items v) (\<lambda>vs. item_at vs n)"
| "evaluate attr Identity v = Some v"
| "evaluate attr (Literal u) v = Some u"
| "evaluate attr (Flatten e) v =
     (case Option.bind (evaluate attr e v) list_items of
        None \<Rightarrow> None
      | Some vs \<Rightarrow> Some (PyList (flatten_items vs)))"
| "evaluate attr (Projection e each) v =
     (case Option.bind (evaluate attr e v) list_items of
        None \<Rightarrow> None
      | Some vs \<Rightarrow> Some (PyList (List.map_filter (evaluate attr each) vs)))"
| "evaluate attr (FilterProjection e each test) v =
     (case Option.bind (evaluate attr e v) list_items of
        None \<Rightarrow> None
      | Some vs \<Rightarrow> Some (PyList (List.map_filter (evaluate attr each)
          (filter (\<lambda>u. evaluate attr test u = Some (PyBool True)) vs))))"
| "evaluate attr (Length e) v = map_option (\<lambda>n. PyInt (int n)) (Option.bind (evaluate attr e v) py_len)"
| "evaluate attr (Conjunction l r) v = kleene_and (evaluate attr l v) (evaluate attr r v)"
| "evaluate attr (Disjunction l r) v = kleene_or (evaluate attr l v) (evaluate attr r v)"
| "evaluate attr (Comparison comparator l r) v = compare comparator (evaluate attr l v) (evaluate attr r v)"
| "evaluate_path attr [] v = Some v"
| "evaluate_path attr (e # children) v = Option.bind (evaluate attr e v) (evaluate_path attr children)"

section \<open>Acceptors\<close>

record acceptor =
  ac_state :: string
  ac_matcher :: string
  ac_expected :: pyval
  ac_expression :: expression
  ac_comparator :: string

definition is_str :: "pyval \<Rightarrow> pyval \<Rightarrow> bool" where
  "is_str expected v \<longleftrightarrow> (case v of PyStr s \<Rightarrow> expected = PyStr s | _ \<Rightarrow> False)"

definition error_code_of :: "pyerr \<Rightarrow> string option" where
  "error_code_of e = map_option ce_error_code (err_attrs e)"

definition matches :: "(pyval \<Rightarrow> string \<Rightarrow> pyval option) \<Rightarrow> acceptor \<Rightarrow> pyval \<Rightarrow> pyerr option \<Rightarrow> bool" where
  "matches attr a output error =
     (if ac_matcher a = ''errorType'' then
        (case error of None \<Rightarrow> False | Some e \<Rightarrow> map_option PyStr (error_code_of e) = Some (ac_expected a))
      else if ac_matcher a = ''success'' then PyBool (error = None) = ac_expected a
      else if error \<noteq> None then False
      else (case evaluate attr (ac_expression a) output of
          None \<Rightarrow> False
        | Some v \<Rightarrow>
            (if ac_comparator a = ''booleanEquals'' then v = PyBool (ac_expected a = PyStr ''true'')
             else if ac_comparator a = ''stringEquals'' then is_str (ac_expected a) v
             else (case list_items v of
                 None \<Rightarrow> False
               | Some vs \<Rightarrow>
                   vs \<noteq> [] \<and> (if ac_comparator a = ''anyStringEquals'' then list_ex (is_str (ac_expected a)) vs
                     else list_all (is_str (ac_expected a)) vs)))))"

text \<open>The index of the first acceptor that matches.\<close>

fun first_match :: "('a \<Rightarrow> bool) \<Rightarrow> 'a list \<Rightarrow> nat option" where
  "first_match P [] = None"
| "first_match P (x # xs) = (if P x then Some 0 else map_option Suc (first_match P xs))"

section \<open>Configuration\<close>

record waiter_config =
  wc_delay :: "rat option"
  wc_max_attempts :: int
  wc_timeout :: "rat option"

text \<open>\<open>WaiterConfig.__post_init__\<close>: the checks in their order. Seconds are the rational a \<open>float\<close> or
  an \<open>int\<close> denotes; \<open>None\<close> stays.\<close>

definition seconds_of :: "string \<Rightarrow> pyval \<Rightarrow> rat option pyresult" where
  "seconds_of name v =
     (let bound = (if name = ''timeout'' then ''positive'' else ''nonnegative'');
          error = value_error (name @ '' must be finite and '' @ bound)
      in if v = PyNone then Inr None
         else (case plain_number v of
             Some (Finite q) \<Rightarrow> (if q < 0 \<or> (name = ''timeout'' \<and> q = 0) then Inl error else Inr (Some q))
           | _ \<Rightarrow> Inl error))"

definition new_waiter_config :: "pyval \<Rightarrow> pyval \<Rightarrow> pyval \<Rightarrow> waiter_config pyresult" where
  "new_waiter_config delay max_attempts timeout =
     (case max_attempts of
        PyInt n \<Rightarrow>
          (if n < 1 then Inl (value_error ''max_attempts must be a positive integer'')
           else and_then (seconds_of ''delay'' delay) (\<lambda>delay.
             and_then (seconds_of ''timeout'' timeout) (\<lambda>timeout.
               Inr \<lparr>wc_delay = delay, wc_max_attempts = n, wc_timeout = timeout\<rparr>)))
      | _ \<Rightarrow> Inl (value_error ''max_attempts must be a positive integer''))"

definition default_waiter_config :: waiter_config where
  "default_waiter_config = \<lparr>wc_delay = None, wc_max_attempts = 40, wc_timeout = None\<rparr>"

lemma accepted_waiter_config:
  "new_waiter_config delay max_attempts timeout = Inr c \<Longrightarrow>
     1 \<le> wc_max_attempts c \<and> max_attempts = PyInt (wc_max_attempts c)
     \<and> (case wc_delay c of None \<Rightarrow> delay = PyNone | Some d \<Rightarrow> 0 \<le> d)
     \<and> (case wc_timeout c of None \<Rightarrow> timeout = PyNone | Some t \<Rightarrow> 0 < t)"
  by (auto simp: new_waiter_config_def seconds_of_def Let_def and_then_eq_Inr
      split: pyval.splits if_splits option.splits f64.splits)

section \<open>The loop\<close>

record waiter_spec =
  wt_name :: string
  wt_delay :: rat
  wt_acceptors :: "acceptor list"

record waiter_attempt =
  wa_number :: nat
  wa_elapsed :: rat
  wa_acceptor :: "nat option"
  wa_error_code :: "string option"
  wa_request_id :: pyval

record waiter_error =
  we_class :: string
  we_waiter :: string
  we_attempts :: nat
  we_last :: "waiter_attempt option"
  we_reason :: string
  we_cause :: "pyerr option"

text \<open>How a waiter ends: with the output (\<open>None\<close> when an error was what it waited for), with an
  exception of the call, or with a \<open>WaiterError\<close>.\<close>

datatype waited =
    Satisfied pyval
  | Raised pyerr
  | Stopped waiter_error

text \<open>
  What the loop awaits: the operation, which answers, raises, or is cancelled by the deadline's timer
  (\<open>asyncio.timeout_at\<close>); and \<open>asyncio.sleep\<close>, which is cancelled by the timer or not. \<open>clock\<close> is
  \<open>loop.time()\<close> and \<open>expired\<close> is \<open>timer.expired()\<close>, both at a state of the world.
\<close>

datatype outcome = Answered pyval | Failed pyerr | Interrupted

record 'w polling =
  pl_call :: "'w \<Rightarrow> outcome \<times> 'w"
  pl_sleep :: "rat \<Rightarrow> 'w \<Rightarrow> bool \<times> 'w"
  pl_clock :: "'w \<Rightarrow> rat"
  pl_expired :: "'w \<Rightarrow> bool"
  pl_attr :: "pyval \<Rightarrow> string \<Rightarrow> pyval option"

definition is_service_error :: "pyerr \<Rightarrow> bool" where
  "is_service_error e \<longleftrightarrow> ''ServiceError'' \<in> set (err_class e # err_bases e)"

definition stopped :: "waiter_spec \<Rightarrow> string \<Rightarrow> nat \<Rightarrow> waiter_attempt option \<Rightarrow> string \<Rightarrow> pyerr option \<Rightarrow> waited" where
  "stopped spec class attempts latest reason cause =
     Stopped \<lparr>we_class = class, we_waiter = wt_name spec, we_attempts = attempts, we_last = latest,
       we_reason = reason, we_cause = cause\<rparr>"

definition timed_out :: "waiter_spec \<Rightarrow> nat \<Rightarrow> waiter_attempt option \<Rightarrow> string \<Rightarrow> waited" where
  "timed_out spec attempts latest reason = stopped spec ''WaiterTimeoutError'' attempts latest reason None"

text \<open>An exception that leaves the timer's block: the builtin \<open>TimeoutError\<close> of an expired timer
  becomes the waiter's.\<close>

definition left_block :: "'w polling \<Rightarrow> waiter_spec \<Rightarrow> nat \<Rightarrow> waiter_attempt option \<Rightarrow> pyerr \<Rightarrow> 'w \<Rightarrow> waited" where
  "left_block W spec attempts latest e w =
     (if err_class e = ''TimeoutError'' \<and> err_bases e = [] \<and> pl_expired W w
      then timed_out spec attempts latest ''deadline'' else Raised e)"

definition overdue :: "'w polling \<Rightarrow> rat option \<Rightarrow> 'w \<Rightarrow> bool" where
  "overdue W deadline w = (case deadline of None \<Rightarrow> False | Some d \<Rightarrow> d \<le> pl_clock W w)"

text \<open>What an attempt decides.\<close>

datatype decision = Done waited | Again

definition decide :: "'w polling \<Rightarrow> waiter_spec \<Rightarrow> nat \<Rightarrow> waiter_attempt option \<Rightarrow> nat option \<Rightarrow> pyval \<Rightarrow> pyerr option \<Rightarrow> 'w \<Rightarrow> decision" where
  "decide W spec attempts latest index output error w =
     (case index of
        None \<Rightarrow> (case error of Some e \<Rightarrow> Done (left_block W spec attempts latest e w) | None \<Rightarrow> Again)
      | Some i \<Rightarrow>
          (let state = ac_state (wt_acceptors spec ! i)
           in if state = ''success'' then Done (Satisfied output)
              else if state = ''failure'' then
                Done (stopped spec ''WaiterFailedError'' attempts latest ''terminal_state'' error)
              else Again))"

text \<open>
  The body of the \<open>while\<close> loop, from the point where attempt \<open>attempts\<close> came back with an output or
  a \<open>ServiceError\<close>; and the loop. Beside the result it gives the states of the world in which the
  operation was called.
\<close>

definition completed_attempt :: "'w polling \<Rightarrow> waiter_spec \<Rightarrow> rat \<Rightarrow> nat \<Rightarrow> pyval \<Rightarrow> pyerr option \<Rightarrow> 'w \<Rightarrow>
    waiter_attempt \<times> decision" where
  "completed_attempt W spec started attempts output error w =
     (let index = first_match (\<lambda>a. matches (pl_attr W) a output error) (wt_acceptors spec);
          latest = \<lparr>wa_number = attempts, wa_elapsed = pl_clock W w - started, wa_acceptor = index,
            wa_error_code = Option.bind error error_code_of,
            wa_request_id = (case Option.bind error err_attrs of None \<Rightarrow> PyNone | Some a \<Rightarrow> ce_request_id a)\<rparr>
      in (latest, decide W spec attempts (Some latest) index output error w))"

function poll :: "'w polling \<Rightarrow> waiter_spec \<Rightarrow> nat \<Rightarrow> rat \<Rightarrow> rat option \<Rightarrow> rat \<Rightarrow> nat \<Rightarrow> waiter_attempt option \<Rightarrow> 'w \<Rightarrow>
    waited \<times> 'w list \<times> 'w" where
  "poll W spec max_attempts started deadline delay attempts latest w =
     (if \<not> attempts < max_attempts then (Raised (new_err ''AssertionError'' [] ''unreachable waiter state''), [], w)
      else if overdue W deadline w then (timed_out spec attempts latest ''deadline'', [], w)
      else
        (let attempts = Suc attempts;
             (outcome, w1) = pl_call W w;
             continue = (\<lambda>output error.
               if overdue W deadline w1 then (timed_out spec attempts latest ''deadline'', [w], w1)
               else (case completed_attempt W spec started attempts output error w1 of
                   (latest, Done r) \<Rightarrow> (r, [w], w1)
                 | (latest, Again) \<Rightarrow>
                     (if attempts = max_attempts then (timed_out spec attempts (Some latest) ''max_attempts'', [w], w1)
                      else (case pl_sleep W delay w1 of
                          (True, w2) \<Rightarrow> (timed_out spec attempts (Some latest) ''deadline'', [w], w2)
                        | (False, w2) \<Rightarrow>
                            (let (r, ws, w3) = poll W spec max_attempts started deadline delay attempts (Some latest) w2
                             in (r, w # ws, w3))))))
         in case outcome of
              Interrupted \<Rightarrow> (timed_out spec attempts latest ''deadline'', [w], w1)
            | Answered output \<Rightarrow> continue output None
            | Failed e \<Rightarrow> (if is_service_error e then continue PyNone (Some e)
                else (left_block W spec attempts latest e w1, [w], w1))))"
  by pat_completeness auto
termination by (relation "measure (\<lambda>(W, spec, max_attempts, started, deadline, delay, attempts, latest, w). max_attempts - attempts)") auto

declare poll.simps [simp del]

definition wait :: "'w polling \<Rightarrow> waiter_spec \<Rightarrow> waiter_config option \<Rightarrow> 'w \<Rightarrow> waited \<times> 'w list \<times> 'w" where
  "wait W spec config w =
     (let settings = (case config of None \<Rightarrow> default_waiter_config | Some c \<Rightarrow> c);
          started = pl_clock W w;
          deadline = map_option (\<lambda>t. started + t) (wc_timeout settings);
          delay = (case wc_delay settings of None \<Rightarrow> wt_delay spec | Some d \<Rightarrow> d)
      in poll W spec (nat (wc_max_attempts settings)) started deadline delay 0 None w)"

section \<open>Attempts\<close>

text \<open>One turn of the loop.\<close>

definition turn :: "'w polling \<Rightarrow> waiter_spec \<Rightarrow> rat \<Rightarrow> rat option \<Rightarrow> nat \<Rightarrow> waiter_attempt option \<Rightarrow> outcome \<Rightarrow> 'w \<Rightarrow>
    waiter_attempt option \<times> decision" where
  "turn W spec started deadline attempts latest outcome w =
     (let judged = (\<lambda>output error.
        if overdue W deadline w then (latest, Done (timed_out spec attempts latest ''deadline''))
        else map_prod Some id (completed_attempt W spec started attempts output error w))
      in case outcome of
           Interrupted \<Rightarrow> (latest, Done (timed_out spec attempts latest ''deadline''))
         | Answered output \<Rightarrow> judged output None
         | Failed e \<Rightarrow> (if is_service_error e then judged PyNone (Some e)
             else (latest, Done (left_block W spec attempts latest e w))))"

lemma turn_again: "turn W spec started deadline attempts latest outcome w = (latest', Again) \<Longrightarrow> \<not> overdue W deadline w"
  by (auto simp: turn_def Let_def split: outcome.splits if_splits)

lemma poll_turn:
  assumes "attempts < max_attempts" and "\<not> overdue W deadline w" and "pl_call W w = (outcome, w1)"
  shows "poll W spec max_attempts started deadline delay attempts latest w =
    (case turn W spec started deadline (Suc attempts) latest outcome w1 of
       (latest', Done r) \<Rightarrow> (r, [w], w1)
     | (latest', Again) \<Rightarrow>
         (if Suc attempts = max_attempts then (timed_out spec (Suc attempts) latest' ''max_attempts'', [w], w1)
          else (case pl_sleep W delay w1 of
              (True, w2) \<Rightarrow> (timed_out spec (Suc attempts) latest' ''deadline'', [w], w2)
            | (False, w2) \<Rightarrow> apsnd (apfst (Cons w))
                (poll W spec max_attempts started deadline delay (Suc attempts) latest' w2))))"
  using assms by (subst poll.simps)
    (auto simp: turn_def Let_def split: outcome.splits prod.splits decision.splits bool.splits)

text \<open>Induction over the attempts a waiter has left.\<close>

lemma attempts_induct [case_names attempt]:
  assumes "\<And>attempts latest w. (attempts < max_attempts \<Longrightarrow> \<forall>latest w. P (Suc attempts) latest w) \<Longrightarrow> P attempts latest w"
  shows "P (attempts :: nat) latest w"
proof (induction "max_attempts - attempts" arbitrary: attempts latest w rule: less_induct)
  case less
  show ?case by (rule assms) (simp add: less)
qed

lemma done_attempts:
  assumes "turn W spec started deadline attempts latest outcome w = (latest', Done (Stopped e))"
  shows "we_attempts e = attempts"
  using assms
  by (auto simp: turn_def Let_def timed_out_def stopped_def completed_attempt_def decide_def left_block_def
      split: outcome.splits if_splits option.splits prod.splits)

lemma poll_bounded:
  assumes "poll W spec max_attempts started deadline delay attempts latest w = (r, ws, w')" and "attempts \<le> max_attempts"
  shows "attempts + length ws \<le> max_attempts \<and> list_all (\<lambda>u. \<not> overdue W deadline u) ws
    \<and> (\<forall>e. r = Stopped e \<longrightarrow> we_attempts e = attempts + length ws)"
  using assms
proof (induction attempts latest w arbitrary: r ws w' rule: attempts_induct [of max_attempts])
  case (attempt attempts latest w)
  consider "attempts = max_attempts" | "attempts < max_attempts" "overdue W deadline w"
    | "attempts < max_attempts" "\<not> overdue W deadline w" using attempt.prems(2) by linarith
  then show ?case
  proof cases
    case 1
    with attempt.prems show ?thesis by (auto simp: poll.simps [of W spec max_attempts])
  next
    case 2
    with attempt.prems show ?thesis by (auto simp: poll.simps [of W spec max_attempts] timed_out_def stopped_def)
  next
    case 3
    obtain outcome w1 where c: "pl_call W w = (outcome, w1)" by (cases "pl_call W w")
    obtain latest' d where t: "turn W spec started deadline (Suc attempts) latest outcome w1 = (latest', d)"
      by (cases "turn W spec started deadline (Suc attempts) latest outcome w1")
    obtain stop w2 where sl: "pl_sleep W delay w1 = (stop, w2)" by (cases "pl_sleep W delay w1")
    obtain r2 ws2 w3 where p: "poll W spec max_attempts started deadline delay (Suc attempts) latest' w2 = (r2, ws2, w3)"
      by (cases "poll W spec max_attempts started deadline delay (Suc attempts) latest' w2")
    have rest: "Suc attempts + length ws2 \<le> max_attempts \<and> list_all (\<lambda>u. \<not> overdue W deadline u) ws2
        \<and> (\<forall>e. r2 = Stopped e \<longrightarrow> we_attempts e = Suc attempts + length ws2)"
      using attempt.IH [OF 3(1), rule_format, OF p] 3(1) by simp
    have "d = Done (Stopped e) \<Longrightarrow> we_attempts e = Suc attempts" for e
      using t done_attempts by simp
    with attempt.prems(1) 3 rest show ?thesis
      unfolding poll_turn [OF 3 c] t prod.case sl p
      by (auto simp: timed_out_def stopped_def split: decision.splits if_splits bool.splits)
  qed
qed

text \<open>
  The meaning of a waiter, without its loop: each outcome of the operation has a ruling by the
  acceptors, and a waiter ends as the first ruling that is not to try again says.
\<close>

datatype ruling = Accept pyval | Reject | Propagate pyerr | Retry

definition ruling_by :: "waiter_spec \<Rightarrow> nat option \<Rightarrow> pyval \<Rightarrow> ruling \<Rightarrow> ruling" where
  "ruling_by spec index output otherwise =
     (case index of
        None \<Rightarrow> otherwise
      | Some i \<Rightarrow>
          (let state = ac_state (wt_acceptors spec ! i)
           in if state = ''success'' then Accept output else if state = ''failure'' then Reject else Retry))"

definition ruling :: "(pyval \<Rightarrow> string \<Rightarrow> pyval option) \<Rightarrow> waiter_spec \<Rightarrow> outcome \<Rightarrow> ruling" where
  "ruling attr spec outcome =
     (case outcome of
        Answered output \<Rightarrow>
          ruling_by spec (first_match (\<lambda>a. matches attr a output None) (wt_acceptors spec)) output Retry
      | Failed e \<Rightarrow>
          (if is_service_error e then
             ruling_by spec (first_match (\<lambda>a. matches attr a PyNone (Some e)) (wt_acceptors spec)) PyNone (Propagate e)
           else Propagate e)
      | Interrupted \<Rightarrow> Retry)"

fun ended_by :: "ruling \<Rightarrow> waited \<Rightarrow> bool" where
  "ended_by (Accept output) r = (r = Satisfied output)"
| "ended_by (Propagate e) r = (r = Raised e)"
| "ended_by Reject r =
     (case r of Stopped e \<Rightarrow> we_class e = ''WaiterFailedError'' \<and> we_reason e = ''terminal_state'' | _ \<Rightarrow> False)"
| "ended_by Retry r =
     (case r of Stopped e \<Rightarrow> we_class e = ''WaiterTimeoutError'' \<and> we_reason e = ''max_attempts'' | _ \<Rightarrow> False)"

text \<open>The state of the world in which attempt \<open>k\<close> (from zero) is made, when all before it were.\<close>

fun asked :: "'w polling \<Rightarrow> rat \<Rightarrow> nat \<Rightarrow> 'w \<Rightarrow> 'w" where
  "asked W delay 0 w = w"
| "asked W delay (Suc k) w = asked W delay k (snd (pl_sleep W delay (snd (pl_call W w))))"

definition undisturbed :: "'w polling \<Rightarrow> bool" where
  "undisturbed W \<longleftrightarrow> (\<forall>w. fst (pl_call W w) \<noteq> Interrupted \<and> \<not> pl_expired W w) \<and> (\<forall>delay w. \<not> fst (pl_sleep W delay w))"

lemma first_match_upt:
  "first_match P [0..<Suc n] = (if P 0 then Some 0 else map_option Suc (first_match (\<lambda>k. P (Suc k)) [0..<n]))"
proof -
  have "first_match P (map f xs) = first_match (\<lambda>x. P (f x)) xs" for f :: "nat \<Rightarrow> nat" and xs
    by (induction xs) simp_all
  then show ?thesis by (simp add: upt_conv_Cons map_Suc_upt [symmetric] del: upt_Suc)
qed

lemma turn_ruling:
  assumes "undisturbed W" and "outcome \<noteq> Interrupted"
  shows "(ruling (pl_attr W) spec outcome = Retry \<longrightarrow>
      (\<exists>l. turn W spec started None attempts latest outcome w = (Some l, Again)))
    \<and> (ruling (pl_attr W) spec outcome \<noteq> Retry \<longrightarrow>
      (\<exists>l r. turn W spec started None attempts latest outcome w = (l, Done r) \<and> ended_by (ruling (pl_attr W) spec outcome) r))"
  using assms
  by (auto simp: turn_def ruling_def ruling_by_def completed_attempt_def decide_def left_block_def overdue_def
      undisturbed_def stopped_def Let_def split: outcome.splits option.splits)

lemma poll_ruling:
  assumes "undisturbed W"
  shows "attempts + n = max_attempts \<Longrightarrow> 0 < n \<Longrightarrow>
    poll W spec max_attempts started None delay attempts latest w = (r, ws, w') \<Longrightarrow>
    decisive = first_match (\<lambda>k. ruling (pl_attr W) spec (fst (pl_call W (asked W delay k w))) \<noteq> Retry) [0..<n] \<Longrightarrow>
    length ws = (case decisive of None \<Rightarrow> n | Some k \<Rightarrow> Suc k)
    \<and> ws = map (\<lambda>k. asked W delay k w) [0..<length ws]
    \<and> ended_by (case decisive of None \<Rightarrow> Retry | Some k \<Rightarrow> ruling (pl_attr W) spec (fst (pl_call W (asked W delay k w)))) r"
proof (induction n arbitrary: attempts latest w r ws w' decisive)
  case (Suc n)
  let ?R = "\<lambda>w. ruling (pl_attr W) spec (fst (pl_call W w))"
  from Suc.prems(1) have less: "attempts < max_attempts" by simp
  have in_time: "\<not> overdue W None w" by (simp add: overdue_def)
  obtain outcome w1 where c: "pl_call W w = (outcome, w1)" by (cases "pl_call W w")
  with assms have i: "outcome \<noteq> Interrupted" unfolding undisturbed_def by (metis fst_conv)
  obtain w2 where sl: "pl_sleep W delay w1 = (False, w2)"
    using assms unfolding undisturbed_def by (metis prod.collapse)
  note turned = turn_ruling [OF assms i, of spec started "Suc attempts" latest w1]
  show ?case
  proof (cases "?R w = Retry")
    case False
    with turned c obtain l r' where "turn W spec started None (Suc attempts) latest outcome w1 = (l, Done r')" "ended_by (?R w) r'"
      by auto
    with Suc.prems(3,4) False show ?thesis
      unfolding poll_turn [OF less in_time c] first_match_upt by auto
  next
    case True
    with turned c obtain l where t: "turn W spec started None (Suc attempts) latest outcome w1 = (Some l, Again)" by auto
    show ?thesis
    proof (cases "n = 0")
      case True
      with t Suc.prems \<open>?R w = Retry\<close> show ?thesis
        unfolding poll_turn [OF less in_time c] first_match_upt
        by (auto simp: timed_out_def stopped_def)
    next
      case False
      obtain r2 ws2 w3 where p: "poll W spec max_attempts started None delay (Suc attempts) (Some l) w2 = (r2, ws2, w3)"
        by (cases "poll W spec max_attempts started None delay (Suc attempts) (Some l) w2")
      with Suc.prems(1,3) t sl False have r: "r = r2" "ws = w # ws2"
        unfolding poll_turn [OF less in_time c] by auto
      have step: "asked W delay (Suc k) w = asked W delay k w2" for k by (simp add: c sl)
      have d: "decisive = map_option Suc (first_match (\<lambda>k. ?R (asked W delay k w2) \<noteq> Retry) [0..<n])"
        using Suc.prems(4) True unfolding first_match_upt by (simp add: step del: asked.simps(2))
      have shift: "map (\<lambda>k. asked W delay k w) [0..<Suc m] = w # map (\<lambda>k. asked W delay k w2) [0..<m]" for m
        by (simp add: upt_conv_Cons map_Suc_upt [symmetric] step del: upt_Suc asked.simps(2))
      from Suc.IH [OF _ _ p refl] Suc.prems(1) False
      show ?thesis
        by (auto simp: r d shift step simp del: asked.simps(2) upt_Suc split: option.splits)
    qed
  qed
qed simp

section \<open>A generated waiter\<close>

text \<open>\<open>packages/rboto-dynamodb/python/rboto_dynamodb/waiters.py\<close>, the specification with the largest
  expressions.\<close>

definition destination_status_is :: "string \<Rightarrow> expression" where
  "destination_status_is status = Comparison ''eq'' (Field ''destination_status'') (Literal (PyStr status))"

definition kinesis_streaming_destination_active :: waiter_spec where
  "kinesis_streaming_destination_active =
     \<lparr>wt_name = ''dynamodb.kinesis_streaming_destination_active'', wt_delay = 20,
      wt_acceptors =
        [\<lparr>ac_state = ''success'', ac_matcher = ''output'', ac_expected = PyStr ''ACTIVE'',
          ac_expression = Projection (Flatten (Field ''kinesis_data_stream_destinations'')) (Field ''destination_status''),
          ac_comparator = ''anyStringEquals''\<rparr>,
         \<lparr>ac_state = ''failure'', ac_matcher = ''output'', ac_expected = PyStr ''true'',
          ac_expression = Conjunction
            (Comparison ''gt'' (Length (Field ''kinesis_data_stream_destinations'')) (Literal (PyInt 0)))
            (Comparison ''eq''
              (Length (FilterProjection (Field ''kinesis_data_stream_destinations'') Identity
                (Disjunction (destination_status_is ''DISABLED'') (destination_status_is ''ENABLE_FAILED''))))
              (Length (Field ''kinesis_data_stream_destinations''))),
          ac_comparator = ''booleanEquals''\<rparr>]\<rparr>"

lemma py_eq_str [simp]: "py_eq u (PyStr s) \<longleftrightarrow> u = PyStr s"
  by (cases u) auto

lemma map_filter_total [simp]: "List.map_filter Some vs = vs"
  by (induction vs) (simp_all add: List.map_filter_simps)

lemma is_str_iff [simp]: "is_str (PyStr s) v \<longleftrightarrow> v = PyStr s"
  by (cases v) (auto simp: is_str_def)

lemma list_ex_nonempty [simp]: "vs \<noteq> [] \<and> list_ex P vs \<longleftrightarrow> list_ex P vs"
  by (cases vs) simp_all

lemma flatten_flat: "list_all (\<lambda>d. list_items d = None) ds \<Longrightarrow> flatten_items ds = ds"
  by (induction ds) (simp_all add: flatten_items_def)

lemma list_ex_map_filter: "list_ex P (List.map_filter f vs) \<longleftrightarrow> (\<exists>v \<in> set vs. \<exists>u. f v = Some u \<and> P u)"
  by (induction vs) (auto simp: List.map_filter_simps split: option.splits)

lemma length_filter_all: "length (filter P xs) = length xs \<longleftrightarrow> (\<forall>x \<in> set xs. P x)"
proof (induction xs)
  case (Cons x xs)
  have "length (filter P xs) \<noteq> Suc (length xs)" using length_filter_le [of P xs] by linarith
  with Cons show ?case by auto
qed simp

lemma status_tests:
  "evaluate attr (Disjunction (destination_status_is s) (destination_status_is t)) d = Some (PyBool True) \<longleftrightarrow>
     read_field attr ''destination_status'' d \<in> {Some (PyStr s), Some (PyStr t)}"
  by (auto simp: destination_status_is_def kleene_or_def compare_def split: option.splits)

section \<open>Properties\<close>

text \<open>
  C26: polling is bounded. A waiter calls its operation at most \<open>max_attempts\<close> times, never at or
  after its deadline, and a \<open>WaiterError\<close> tells exactly how many calls there were: whatever the
  operation answers, however long it takes, and wherever the timer strikes.
\<close>

theorem waiter_polls_bounded:
  assumes "wait W spec config w = (r, ws, w')"
    and "settings = (case config of None \<Rightarrow> default_waiter_config | Some c \<Rightarrow> c)"
  shows "int (length ws) \<le> max 0 (wc_max_attempts settings)
    \<and> list_all (\<lambda>u. case wc_timeout settings of None \<Rightarrow> True | Some t \<Rightarrow> pl_clock W u < pl_clock W w + t) ws
    \<and> (case r of Stopped e \<Rightarrow> we_attempts e = length ws | _ \<Rightarrow> True)"
proof -
  from assms obtain delay where "poll W spec (nat (wc_max_attempts settings)) (pl_clock W w)
      (map_option (\<lambda>t. pl_clock W w + t) (wc_timeout settings)) delay 0 None w = (r, ws, w')"
    by (auto simp: wait_def Let_def)
  from poll_bounded [OF this] show ?thesis
    by (auto simp: overdue_def list_all_iff not_le split: option.splits waited.splits)
qed

text \<open>
  C24: a waiter ends as its first decisive attempt says. Without a timeout, the operation is called
  until the first outcome the acceptors rule on, once per attempt and \<open>delay\<close> apart; the waiter
  then gives the output, fails, or raises the exception unchanged, and when no outcome among
  \<open>max_attempts\<close> decides it fails with \<open>max_attempts\<close> after exactly that many calls.
\<close>

theorem waiter_takes_first_ruling:
  assumes "undisturbed W"
    and "settings = (case config of None \<Rightarrow> default_waiter_config | Some c \<Rightarrow> c)"
    and "wc_timeout settings = None" and "1 \<le> wc_max_attempts settings"
    and "delay = (case wc_delay settings of None \<Rightarrow> wt_delay spec | Some d \<Rightarrow> d)"
    and "wait W spec config w = (r, ws, w')"
    and "decisive = first_match (\<lambda>k. ruling (pl_attr W) spec (fst (pl_call W (asked W delay k w))) \<noteq> Retry)
      [0..<nat (wc_max_attempts settings)]"
  shows "length ws = (case decisive of None \<Rightarrow> nat (wc_max_attempts settings) | Some k \<Rightarrow> Suc k)
    \<and> ws = map (\<lambda>k. asked W delay k w) [0..<length ws]
    \<and> ended_by (case decisive of None \<Rightarrow> Retry
        | Some k \<Rightarrow> ruling (pl_attr W) spec (fst (pl_call W (asked W delay k w)))) r"
proof -
  from assms(2,3,5,6) have "poll W spec (nat (wc_max_attempts settings)) (pl_clock W w) None delay 0 None w = (r, ws, w')"
    by (simp add: wait_def Let_def)
  with assms(4,7) show ?thesis by (intro poll_ruling [OF assms(1)]) simp_all
qed

text \<open>
  The waiter for a streaming destination of a DynamoDB table means what it says. It succeeds when
  some destination is \<open>ACTIVE\<close>, fails when there are destinations and every one is \<open>DISABLED\<close> or
  \<open>ENABLE_FAILED\<close>, and polls again otherwise, destinations without a status included.
\<close>

lemma kinesis_waiter_rulings:
  assumes "read_field attr ''kinesis_data_stream_destinations'' output = Some (PyList ds)"
    and "list_all (\<lambda>d. list_items d = None) ds"
  shows "ruling attr kinesis_streaming_destination_active (Answered output) =
    (if \<exists>d \<in> set ds. read_field attr ''destination_status'' d = Some (PyStr ''ACTIVE'') then Accept output
     else if ds \<noteq> [] \<and> (\<forall>d \<in> set ds. read_field attr ''destination_status'' d
         \<in> {Some (PyStr ''DISABLED''), Some (PyStr ''ENABLE_FAILED'')}) then Reject
     else Retry)"
proof -
  let ?failed = "\<lambda>d. read_field attr ''destination_status'' d \<in> {Some (PyStr ''DISABLED''), Some (PyStr ''ENABLE_FAILED'')}"
  have some: "List.map_filter (evaluate attr Identity) vs = vs" for vs
    by (induction vs) (simp_all add: List.map_filter_simps)
  have all: "length (filter ?failed ds) = length ds \<longleftrightarrow> (\<forall>d \<in> set ds. ?failed d)"
    by (rule length_filter_all)
  have active: "matches attr (wt_acceptors kinesis_streaming_destination_active ! 0) output None \<longleftrightarrow>
      (\<exists>d \<in> set ds. read_field attr ''destination_status'' d = Some (PyStr ''ACTIVE''))"
    using assms by (simp add: matches_def kinesis_streaming_destination_active_def flatten_flat)
      (simp add: list_ex_map_filter)
  have failed: "matches attr (wt_acceptors kinesis_streaming_destination_active ! 1) output None \<longleftrightarrow>
      ds \<noteq> [] \<and> (\<forall>d \<in> set ds. ?failed d)"
    using assms(1) all
    by (simp add: matches_def kinesis_streaming_destination_active_def some status_tests compare_def compare_numbers_def
        kleene_and_def del: evaluate.simps(4,11))
  obtain a b where two: "wt_acceptors kinesis_streaming_destination_active = [a, b]"
    and states: "ac_state a = ''success''" "ac_state b = ''failure''"
    by (simp add: kinesis_streaming_destination_active_def)
  from active failed have "matches attr a output None \<longleftrightarrow>
      (\<exists>d \<in> set ds. read_field attr ''destination_status'' d = Some (PyStr ''ACTIVE''))"
    "matches attr b output None \<longleftrightarrow> ds \<noteq> [] \<and> (\<forall>d \<in> set ds. ?failed d)" by (simp_all only: two nth_Cons_0 nth_Cons_Suc One_nat_def)
  then show ?thesis by (auto simp: ruling_def ruling_by_def two states)
qed

text \<open>A table whose destination becomes active on the third attempt; the world is the time and the
  number of calls, and every call takes a second.\<close>

definition destinations :: "string \<Rightarrow> pyval" where
  "destinations status = PyDict [(PyStr ''kinesis_data_stream_destinations'',
     PyList [PyDict [(PyStr ''destination_status'', PyStr status)]])]"

definition activating :: "(rat \<times> nat) polling" where
  "activating =
     \<lparr>pl_call = (\<lambda>w. (Answered (destinations (if snd w < 2 then ''ENABLING'' else ''ACTIVE'')), (fst w + 1, Suc (snd w)))),
      pl_sleep = (\<lambda>delay w. (False, (fst w + delay, snd w))), pl_clock = fst, pl_expired = (\<lambda>w. False),
      pl_attr = (\<lambda>v name. None)\<rparr>"

lemma activating_rules:
  "ruling (\<lambda>v name. None) kinesis_streaming_destination_active (Answered (destinations ''ENABLING'')) = Retry"
  "ruling (\<lambda>v name. None) kinesis_streaming_destination_active (Answered (destinations ''ACTIVE'')) =
     Accept (destinations ''ACTIVE'')"
  by code_simp+

theorem waiter_polls_bounded_witness:
  "list_all (\<lambda>u. fst u < 30)
    (fst (snd (wait activating kinesis_streaming_destination_active
      (Some \<lparr>wc_delay = None, wc_max_attempts = 5, wc_timeout = Some 30\<rparr>) (0, 0))))"
  using waiter_polls_bounded [OF _ refl, of activating kinesis_streaming_destination_active
      "Some \<lparr>wc_delay = None, wc_max_attempts = 5, wc_timeout = Some 30\<rparr>" "(0, 0)"]
  by (cases "wait activating kinesis_streaming_destination_active
      (Some \<lparr>wc_delay = None, wc_max_attempts = 5, wc_timeout = Some 30\<rparr>) (0, 0)") (simp add: activating_def)

theorem waiter_takes_first_ruling_witness:
  "fst (wait activating kinesis_streaming_destination_active None (0, 0)) = Satisfied (destinations ''ACTIVE'')
    \<and> fst (snd (wait activating kinesis_streaming_destination_active None (0, 0))) = [(0, 0), (21, 1), (42, 2)]"
proof -
  obtain r ws w' where run: "wait activating kinesis_streaming_destination_active None (0, 0) = (r, ws, w')"
    by (cases "wait activating kinesis_streaming_destination_active None (0, 0)")
  have calm: "undisturbed activating" by (simp add: undisturbed_def activating_def)
  have delay: "wt_delay kinesis_streaming_destination_active = 20" by (simp add: kinesis_streaming_destination_active_def)
  have asked: "asked activating 20 0 (0, 0) = (0, 0)" "asked activating 20 1 (0, 0) = (21, 1)"
    "asked activating 20 2 (0, 0) = (42, 2)" by (simp_all add: activating_def numeral_2_eq_2)
  have "ruling (pl_attr activating) kinesis_streaming_destination_active
      (fst (pl_call activating (asked activating 20 k (0, 0)))) = (if k < 2 then Retry else Accept (destinations ''ACTIVE''))"
    if "k < 3" for k
    using that asked activating_rules by (auto simp: activating_def less_Suc_eq numeral_3_eq_3 numeral_2_eq_2)
  note rules = this [of 0] this [of 1] this [of 2]
  have "[0..<nat (wc_max_attempts default_waiter_config)] = 0 # 1 # 2 # [3..<40]"
    by (simp add: default_waiter_config_def upt_conv_Cons numeral_2_eq_2 numeral_3_eq_3)
  with rules have first: "Some 2 = first_match (\<lambda>k. ruling (pl_attr activating) kinesis_streaming_destination_active
      (fst (pl_call activating (asked activating 20 k (0, 0)))) \<noteq> Retry) [0..<nat (wc_max_attempts default_waiter_config)]"
    by (simp add: numeral_2_eq_2)
  have "wc_timeout default_waiter_config = None" "1 \<le> wc_max_attempts default_waiter_config"
    "20 = (case wc_delay default_waiter_config of None \<Rightarrow> wt_delay kinesis_streaming_destination_active | Some d \<Rightarrow> d)"
    by (simp_all add: default_waiter_config_def delay)
  from waiter_takes_first_ruling [OF calm _ this run first] rules(3)
  have len: "length ws = 3" and ws: "ws = map (\<lambda>k. asked activating 20 k (0, 0)) [0..<length ws]"
    and r: "r = Satisfied (destinations ''ACTIVE'')" by auto
  have "ws = [(0, 0), (21, 1), (42, 2)]"
    using asked by (subst ws) (simp add: len upt_conv_Cons numeral_3_eq_3 numeral_2_eq_2)
  with run r show ?thesis by simp
qed

end
