(* ===== verification/Spec2Isabelle.thy ===== *)
theory Spec2Isabelle
  imports Document Config Observation Waiting Streams Runtime Dynamo Sagemaker 
    PollyStreams S3Listing DdbItems KmsEnvelope Telemetry Waiters
begin

text \<open>
  \<^bold>\<open>rboto\<close>: asynchronous, typed Python clients for AWS services on top of the AWS SDK for Rust.

  \<^bold>\<open>The program.\<close> Every service is a Rust extension module (\<open>crates/rboto-<service>\<close>) written by
  a generator, and all extensions share \<open>crates/rboto-core\<close>. A Python method of a client builds a
  dictionary of parameters; the extension converts it to the SDK's request, sends it under a lease
  of the client's lifecycle, observes the attempts, and returns a response object or raises a
  mapped exception. The core supplies the conversions' diagnostics, the error mapping, the
  configuration, the lifecycle of clients and streams, the request and response streams and the
  policy of the worker runtime.

  \<^bold>\<open>Theories.\<close>
  \<^item> \<open>Prelude\<close>: results as sums (\<open>and_then\<close>, \<open>map_err\<close>), \<open>traverse\<close> (stop at the first failure),
    text as UTF-8 bytes, decimal numbers, \<open>f64\<close>.
  \<^item> \<open>PyModel\<close>: Python values, dictionaries and exceptions, and the interface \<open>pyo3\<close> to PyO3 with
    its laws (\<open>pyo3_laws\<close>) and the instance \<open>pyo3_std\<close>.
  \<^item> \<open>InputError\<close> (\<open>input_error.rs\<close>, \<open>_conversion.py\<close>): paths of failed conversions. Cutting the
    collected path at every location is shown to give what cutting it once at the end gives.
  \<^item> \<open>Convert\<close>, \<open>Params\<close>: the idioms the generator emits for members, parameters, sequences,
    mappings and unions, each with its behaviour on absent, well-typed and failing input; and the
    dictionaries of parameters the Python methods build.
  \<^item> \<open>Document\<close> (\<open>document.rs\<close>): JSON documents; what is accepted, and what survives a round trip.
  \<^item> \<open>ErrorMap\<close> (\<open>error.rs\<close>, \<open>lib.rs\<close>, \<open>exceptions.py\<close>): failures of the SDK to exceptions; which
    class a failure deserves is a specification of its own (\<open>deserved_class\<close>).
  \<^item> \<open>Config\<close> (\<open>config.rs\<close>, \<open>transport.rs\<close>, \<open>config.py\<close>): validation against the predicate
    \<open>well_formed\<close>, loading, trust, and the agreement of the Python and Rust checks.
  \<^item> \<open>Observation\<close> (\<open>observation.rs\<close>): the hooks around attempts under any order of calls, and
    the ids of the exceptions made from what they observed.
  \<^item> \<open>Lifecycle\<close>, \<open>Waiting\<close> (\<open>lifecycle.rs\<close>): interleaved steps of iterators, readers, closers and
    waiters, one step per critical section; invariants by rule induction.
  \<^item> \<open>Streams\<close> (\<open>async_iter.rs\<close>, \<open>byte_stream.rs\<close>, \<open>event_stream.rs\<close>, \<open>stream.rs\<close>): poll functions
    over a producer; three of them share the contract \<open>terminating_stream\<close>. An event stream gives the
    converted items up to the first failure and then only its end.
  \<^item> \<open>Runtime\<close> (\<open>runtime.rs\<close>, \<open>runtime.py\<close>): the worker policy over any history of calls.
  \<^item> \<open>Service\<close> (\<open>crates/rboto-sts/src/lib.rs\<close>, the same in every extension but for names): the
    client, the response stream and \<open>execute\<close>, the shell of every operation.
  \<^item> \<open>StsTypes\<close>, \<open>StsOutputs\<close>, \<open>Sts\<close> (\<open>crates/rboto-sts/src/generated.rs\<close>, \<open>client.py\<close>): the
    structures, response classes and operations of STS, and the Python methods that call them.
  \<^item> \<open>SqsTypes\<close>, \<open>SqsOutputs\<close>, \<open>Sqs\<close> (\<open>crates/rboto-sqs/src/generated.rs\<close>, \<open>client.py\<close>): the same of SQS,
    whose messages carry mappings of typed attributes.
  \<^item> \<open>Receiver\<close>, \<open>Sagemaker\<close> (\<open>crates/rboto-sagemaker-runtime-http2/src/generated.rs\<close>,
    \<open>client.py\<close>): response objects that are streams of events, against the SDK's own sequence; the
    events, modelled errors and bidirectional operation of that extension.
  \<^item> \<open>PollyTypes\<close>, \<open>PollyOutputs\<close>, \<open>Polly\<close>, \<open>PollyStreams\<close> (\<open>crates/rboto-polly/src/generated.rs\<close>,
    \<open>client.py\<close>): the structures, response classes and operations of Polly; one answers with a stream
    of audio, one is a conversation in events, which is followed from the text the application
    gives to the audio it hears.
  \<^item> \<open>KmsTypes\<close>, \<open>KmsOutputs\<close>, \<open>Kms\<close>, and the same three of \<open>Secrets\<close>, \<open>Sns\<close>, \<open>Cognito\<close>,
    \<open>Scheduler\<close> and \<open>Signin\<close> (\<open>generated.rs\<close> and \<open>client.py\<close> of the crates \<open>kms\<close>, \<open>secrets-manager\<close>, \<open>sns\<close>,
    \<open>cognito-identity\<close>, \<open>scheduler\<close> and \<open>signin\<close>): all their structures, response classes and operations; for every
    operation the parameters are shown to arrive as given (\<open><operation>_delivered\<close>).
    \<open>KmsEnvelope\<close> follows a plaintext through \<open>Encrypt\<close> and back through \<open>Decrypt\<close>.
  \<^item> \<open>Bodies\<close>, \<open>S3Types\<close>, \<open>S3Outputs\<close>, \<open>S3\<close>, \<open>S3Transfer\<close> (\<open>crates/rboto-s3/src/generated.rs\<close>,
    \<open>client.py\<close>): the object operations of S3 (get, put, head, copy, delete, list, multipart upload),
    whose bodies are streams in both directions.
  \<^item> \<open>Interceptors\<close> (\<open>interceptors.py\<close>): the middleware every operation passes; an interceptor is a
    program that returns, raises or calls the rest of the chain, and what the chain guarantees
    holds for all of them.
  \<^item> \<open>Pagination\<close>, \<open>ClientPages\<close>, \<open>S3Listing\<close> (\<open>_pagination.py\<close>, \<open>rboto_s3/paginators.py\<close>): the
    generator behind paginators, resumption by resumption; what a server promises for all pages to
    arrive through a client (\<open>client_pages\<close>); and a listing of a bucket through the operation of \<open>S3\<close>.
  \<^item> \<open>Observers\<close>, \<open>Logging\<close>, \<open>Telemetry\<close> (\<open>logging.py\<close>, \<open>integrations/opentelemetry.py\<close>,
    \<open>_observability.py\<close>): interceptors that only observe, in a world of their own beside the application's;
    the configuration of the logs and the records they get; the OpenTelemetry observer over the interface
    \<open>otel_laws\<close> to its API; and the chain an invocation is given, which gives what the application's
    interceptors give.
  \<^item> \<open>Waiters\<close> (\<open>_waiters.py\<close>, \<open>waiters.py\<close>, \<open>rboto_dynamodb/waiters.py\<close>): expressions over
    responses, acceptors and the polling loop, which is refined to the first ruling of the acceptors.
  \<^item> \<open>Dynamo\<close> (\<open>crates/rboto-dynamodb/src/generated.rs\<close>): DynamoDB's recursive attribute values,
    through the union and mapping idioms of \<open>Convert\<close>. \<open>DdbTypes\<close>, \<open>DdbOutputs\<close>, \<open>Ddb\<close>: the
    operations on items, their structures and the details of their errors; what reaches the SDK is what
    was sent as long as the attribute values in it are \<open>attribute_ok\<close>. \<open>DdbItems\<close>
    (\<open>rboto_dynamodb/paginators.py\<close>): queries page by page, with keys as continuation tokens.

  \<^bold>\<open>Conventions.\<close> A \<open>str\<close> or \<open>String\<close> is the list of its UTF-8 bytes, and counting characters
  counts the bytes that do not continue one. A \<open>PyResult\<close> is a sum with the exception on the left;
  a panic is an outer \<open>None\<close>. A \<open>HashMap\<close> is a finite map; where its iteration order shows, the
  order is an argument that lists each entry once (\<open>iterates\<close>). Machine integers have their width
  (\<open>32 word\<close>, \<open>64 word\<close>) where the code relies on it. An exception object is a record of what the
  code reads of it; a value of a subclass of a builtin type is a value of that type. Chains of error
  sources and Python iterators are finite lists. Dropping, \<open>Arc\<close> and \<open>clone\<close> matter only in
  \<open>Lifecycle\<close>, where ownership is the subject.

  \<^bold>\<open>Parameters.\<close> PyO3 (\<open>pyo3\<close>), the Python modules (\<open>py_modules\<close>), the SDK's loader and HTTP
  stack (\<open>sdk_api\<close>, \<open>transport_api\<close>), tokio's \<open>Notify\<close> (\<open>notify_api\<close>), the asyncio side of a stream
  (\<open>producer\<close>), the SDK's response streams (\<open>stream_api\<close>, \<open>receiver_api\<close>) and its structure builders
  (\<open>sts_types\<close>, \<open>sqs_types\<close> and their like) are arguments of the definitions that use them. Those the code relies on for more than
  their type have a locale with these laws and an interpretation on a computing instance, which the witnesses use.

  \<^bold>\<open>Termination.\<close> Every definition is total, and one takes fuel: DynamoDB's attribute values are
  converted without a limit on nesting, so the recursion is on the number of calls the native stack
  holds; \<open>stack_for\<close> says how many a value needs, which is its depth. The one loop that may not return,
  \<open>wait_for\<close>, is a step relation, and \<open>waiter_returns\<close> is the claim that it returns; progress of
  the resource is \<open>resource_makes_progress\<close>. A paginator runs as often as it is resumed, which is the
  recursion of \<open>pages\<close>, and a waiter at most \<open>max_attempts\<close> times, which is the measure of \<open>poll\<close>. Paths are cut at 512 characters, causes followed for
  64 links and documents to 128 levels, as the code does.

  \<^bold>\<open>Not modelled.\<close> The other service extensions, the bucket operations of S3 and the
  operations of DynamoDB on tables, backups, imports, exports and global tables: they come from the same templates, and what
  differs is the tables of members. The generator itself, module registration, and the sessions
  and optional imports of the Python packages; the rendering of log records as JSON; of the waiters and paginators
  only the three named, the others differ in their tables. Exhaustion of memory, and of the
  native stack outside \<open>Dynamo\<close>. Rounding of \<open>as_secs_f64\<close> and of the
  deadlines of waiters, whose seconds are rational. The wording of PyO3's own messages.
\<close>

end
